(* ===== verification/Prelude.thy ===== *)
theory Prelude
  imports Complex_Main "HOL-Library.AList"
begin

text \<open>
  What every component shares: the exceptions of the program as a datatype, a state monad with
  exceptions in which the stateful operations are written, the weakest-precondition equations and
  the preservation rules the proofs compose, Python dictionaries as association lists, and the few
  string and number routines of the Python standard library that the code uses.
\<close>

named_theorems wp_simps \<open>weakest-precondition equations\<close>
named_theorems pres_intro \<open>rules by which an invariant is preserved\<close>
named_theorems pydict_simps \<open>reading and writing dictionaries\<close>

section \<open>Exceptions\<close>

text \<open>
  The exceptions the modelled code raises. The argument is the message (\<open>str(exc)\<close>);
  \<open>ProblemException\<close> carries its title and HTTP status as \<open>app/api/problem_details.py\<close> has them.
  \<open>ExternalError\<close> stands for whatever a call outside the program raises.
\<close>

datatype exn =
    ValueError string
  | KeyError string
  | IndexError string
  | TypeError string
  | AttributeError string
  | RuntimeError string
  | ProblemException string nat
  | CommercialPricebookConfigurationError string
  | CommercialPricingUnavailableError string
  | BillingPricingUnavailableError string
  | BillingWebhookProcessingError string
  | BillingPortalUnavailableError string
  | ExternalError string

fun exn_str :: "exn \<Rightarrow> string" where
  "exn_str (ValueError m) = m"
| "exn_str (KeyError m) = m"
| "exn_str (IndexError m) = m"
| "exn_str (TypeError m) = m"
| "exn_str (AttributeError m) = m"
| "exn_str (RuntimeError m) = m"
| "exn_str (ProblemException t n) = t"
| "exn_str (CommercialPricebookConfigurationError m) = m"
| "exn_str (CommercialPricingUnavailableError m) = m"
| "exn_str (BillingPricingUnavailableError m) = m"
| "exn_str (BillingWebhookProcessingError m) = m"
| "exn_str (BillingPortalUnavailableError m) = m"
| "exn_str (ExternalError m) = m"

text \<open>\<open>exc.__class__.__name__\<close>; an external exception has a class of its own.\<close>

fun exn_class :: "exn \<Rightarrow> string" where
  "exn_class (ValueError m) = ''ValueError''"
| "exn_class (KeyError m) = ''KeyError''"
| "exn_class (IndexError m) = ''IndexError''"
| "exn_class (TypeError m) = ''TypeError''"
| "exn_class (AttributeError m) = ''AttributeError''"
| "exn_class (RuntimeError m) = ''RuntimeError''"
| "exn_class (ProblemException t n) = ''ProblemException''"
| "exn_class (CommercialPricebookConfigurationError m) = ''CommercialPricebookConfigurationError''"
| "exn_class (CommercialPricingUnavailableError m) = ''CommercialPricingUnavailableError''"
| "exn_class (BillingPricingUnavailableError m) = ''BillingPricingUnavailableError''"
| "exn_class (BillingWebhookProcessingError m) = ''BillingWebhookProcessingError''"
| "exn_class (BillingPortalUnavailableError m) = ''BillingPortalUnavailableError''"
| "exn_class (ExternalError m) = m"

type_synonym 'a result = "exn + 'a"

fun bind_res :: "'a result \<Rightarrow> ('a \<Rightarrow> 'b result) \<Rightarrow> 'b result" where
  "bind_res (Inl e) f = Inl e"
| "bind_res (Inr a) f = f a"

fun map_res :: "('a \<Rightarrow> 'b result) \<Rightarrow> 'a list \<Rightarrow> 'b list result" where
  "map_res f [] = Inr []"
| "map_res f (x # xs) =
     bind_res (f x) (\<lambda>y. bind_res (map_res f xs) (\<lambda>ys. Inr (y # ys)))"

lemma bind_res_Inr_iff:
  "bind_res r f = Inr b \<longleftrightarrow> (\<exists>a. r = Inr a \<and> f a = Inr b)"
  by (cases r) auto

lemma bind_res_Inl_iff:
  "bind_res r f = Inl e \<longleftrightarrow> r = Inl e \<or> (\<exists>a. r = Inr a \<and> f a = Inl e)"
  by (cases r) auto

lemma if_Inl_Inr: "(if b then Inl e else r) = Inr x \<longleftrightarrow> \<not> b \<and> r = Inr x"
  by simp

lemma case_option_Inl_Inr:
  "(case x of None \<Rightarrow> Inl e | Some y \<Rightarrow> f y) = Inr r \<longleftrightarrow> (\<exists>y. x = Some y \<and> f y = Inr r)"
  by (cases x) auto

lemmas result_simps = bind_res_Inr_iff if_Inl_Inr case_option_Inl_Inr

lemma map_res_Inr_length: "map_res f xs = Inr ys \<Longrightarrow> length ys = length xs"
  by (induction xs arbitrary: ys) (auto simp: bind_res_Inr_iff)

lemma map_res_Inr_all: "map_res f xs = Inr ys \<Longrightarrow> list_all2 (\<lambda>x y. f x = Inr y) xs ys"
  by (induction xs arbitrary: ys) (auto simp: bind_res_Inr_iff)

section \<open>The state monad with exceptions\<close>

text \<open>
  A stateful operation of the code takes the state and returns its result, or the exception it
  raised, together with the state it leaves: what was written before an exception stays written.
\<close>

type_synonym ('s, 'a) prog = "'s \<Rightarrow> 'a result \<times> 's"

definition ret :: "'a \<Rightarrow> ('s, 'a) prog" where
  "ret a = (\<lambda>s. (Inr a, s))"

definition raise :: "exn \<Rightarrow> ('s, 'a) prog" where
  "raise e = (\<lambda>s. (Inl e, s))"

definition bindE :: "('s, 'a) prog \<Rightarrow> ('a \<Rightarrow> ('s, 'b) prog) \<Rightarrow> ('s, 'b) prog" where
  "bindE m f = (\<lambda>s. case m s of (Inl e, t) \<Rightarrow> (Inl e, t) | (Inr a, t) \<Rightarrow> f a t)"

definition thenE :: "('s, 'a) prog \<Rightarrow> ('s, 'b) prog \<Rightarrow> ('s, 'b) prog" where
  "thenE m n = bindE m (\<lambda>_. n)"

text \<open>\<open>try: m except Exception as e: h e\<close>\<close>

definition catchE :: "('s, 'a) prog \<Rightarrow> (exn \<Rightarrow> ('s, 'a) prog) \<Rightarrow> ('s, 'a) prog" where
  "catchE m h = (\<lambda>s. case m s of (Inl e, t) \<Rightarrow> h e t | (Inr a, t) \<Rightarrow> (Inr a, t))"

text \<open>\<open>try: m except Exception: h else: f\<close>: the \<open>else\<close> branch is outside the handler's reach.\<close>

definition tryE ::
  "('s, 'a) prog \<Rightarrow> (exn \<Rightarrow> ('s, 'b) prog) \<Rightarrow> ('a \<Rightarrow> ('s, 'b) prog) \<Rightarrow> ('s, 'b) prog" where
  "tryE m h f = (\<lambda>s. case m s of (Inl e, t) \<Rightarrow> h e t | (Inr a, t) \<Rightarrow> f a t)"

text \<open>\<open>try: m finally: f\<close>: an exception of \<open>f\<close> replaces the outcome of \<open>m\<close>.\<close>

definition finallyE :: "('s, 'a) prog \<Rightarrow> ('s, unit) prog \<Rightarrow> ('s, 'a) prog" where
  "finallyE m f = (\<lambda>s. case m s of (r, t) \<Rightarrow>
     (case f t of (Inl e, u) \<Rightarrow> (Inl e, u) | (Inr _, u) \<Rightarrow> (r, u)))"

definition getsE :: "('s \<Rightarrow> 'a) \<Rightarrow> ('s, 'a) prog" where
  "getsE f = (\<lambda>s. (Inr (f s), s))"

definition modifyE :: "('s \<Rightarrow> 's) \<Rightarrow> ('s, unit) prog" where
  "modifyE f = (\<lambda>s. (Inr (), f s))"

definition liftR :: "'a result \<Rightarrow> ('s, 'a) prog" where
  "liftR r = (\<lambda>s. (r, s))"

definition whenE :: "bool \<Rightarrow> ('s, unit) prog \<Rightarrow> ('s, unit) prog" where
  "whenE b m = (if b then m else ret ())"

text \<open>\<open>for x in xs: f x\<close>\<close>

fun forE :: "'x list \<Rightarrow> ('x \<Rightarrow> ('s, unit) prog) \<Rightarrow> ('s, unit) prog" where
  "forE [] f = ret ()"
| "forE (x # xs) f = thenE (f x) (forE xs f)"

text \<open>
  An operation of a component runs on the component's slice of a larger state: \<open>zoom get put m\<close>
  runs \<open>m\<close> on \<open>get s\<close> and writes what it leaves back with \<open>put\<close>.
\<close>

definition zoom :: "('s \<Rightarrow> 't) \<Rightarrow> ('t \<Rightarrow> 's \<Rightarrow> 's) \<Rightarrow> ('t, 'a) prog \<Rightarrow> ('s, 'a) prog" where
  "zoom g p m = (\<lambda>s. case m (g s) of (r, t) \<Rightarrow> (r, p t s))"

lemmas prog_defs = ret_def raise_def bindE_def thenE_def catchE_def tryE_def finallyE_def
  getsE_def modifyE_def liftR_def whenE_def zoom_def


section \<open>Weakest preconditions\<close>

text \<open>
  \<open>wp m Q E s\<close>: run from \<open>s\<close>, the operation \<open>m\<close> either returns with \<open>Q\<close> or raises with \<open>E\<close>.
  Its equations are unconditional rewrite rules, so a proof about a composed operation is a
  simplification down to its repository calls.
\<close>

definition wp ::
  "('s, 'a) prog \<Rightarrow> ('a \<Rightarrow> 's \<Rightarrow> bool) \<Rightarrow> (exn \<Rightarrow> 's \<Rightarrow> bool) \<Rightarrow> 's \<Rightarrow> bool" where
  "wp m Q E s = (case m s of (Inl e, t) \<Rightarrow> E e t | (Inr a, t) \<Rightarrow> Q a t)"

lemma wp_ret [wp_simps]: "wp (ret a) Q E = Q a"
  by (simp add: wp_def ret_def fun_eq_iff)

lemma wp_raise [wp_simps]: "wp (raise e) Q E = E e"
  by (simp add: wp_def raise_def fun_eq_iff)

lemma wp_bindE [wp_simps]: "wp (bindE m f) Q E s = wp m (\<lambda>a. wp (f a) Q E) E s"
  by (auto simp: wp_def bindE_def split: sum.splits prod.splits)

lemma wp_thenE [wp_simps]: "wp (thenE m n) Q E s = wp m (\<lambda>_. wp n Q E) E s"
  by (simp add: thenE_def wp_bindE)

lemma wp_catchE [wp_simps]: "wp (catchE m h) Q E s = wp m Q (\<lambda>e. wp (h e) Q E) s"
  by (auto simp: wp_def catchE_def split: sum.splits prod.splits)

lemma wp_tryE [wp_simps]: "wp (tryE m h f) Q E s = wp m (\<lambda>a. wp (f a) Q E) (\<lambda>e. wp (h e) Q E) s"
  by (auto simp: wp_def tryE_def split: sum.splits prod.splits)

lemma wp_finallyE [wp_simps]:
  "wp (finallyE m f) Q E s =
     wp m (\<lambda>a. wp f (\<lambda>_. Q a) E) (\<lambda>e. wp f (\<lambda>_. E e) E) s"
proof (cases "m s")
  case (Pair r t)
  then show ?thesis
    by (cases r) (auto simp: wp_def finallyE_def split: sum.splits prod.splits)
qed

lemma wp_getsE [wp_simps]: "wp (getsE f) Q E s = Q (f s) s"
  by (simp add: wp_def getsE_def)

lemma wp_modifyE [wp_simps]: "wp (modifyE f) Q E s = Q () (f s)"
  by (simp add: wp_def modifyE_def)

lemma wp_liftR [wp_simps]: "wp (liftR r) Q E s = (case r of Inl e \<Rightarrow> E e s | Inr a \<Rightarrow> Q a s)"
  by (simp add: wp_def liftR_def)

lemma wp_whenE [wp_simps]: "wp (whenE b m) Q E s = (if b then wp m Q E s else Q () s)"
  by (simp add: whenE_def wp_ret)

lemma wp_if [wp_simps]: "wp (if b then m else n) Q E s = (if b then wp m Q E s else wp n Q E s)"
  by simp

lemma wp_case_option [wp_simps]:
  "wp (case x of None \<Rightarrow> m | Some y \<Rightarrow> f y) Q E s =
     (case x of None \<Rightarrow> wp m Q E s | Some y \<Rightarrow> wp (f y) Q E s)"
  by (simp split: option.splits)

lemma wp_zoom [wp_simps]:
  "wp (zoom g p m) Q E s = wp m (\<lambda>a t. Q a (p t s)) (\<lambda>e t. E e (p t s)) (g s)"
  by (auto simp: wp_def zoom_def split: sum.splits prod.splits)

lemma wp_mono:
  assumes "wp m Q E s" and "\<And>a t. Q a t \<Longrightarrow> Q' a t" and "\<And>e t. E e t \<Longrightarrow> E' e t"
  shows "wp m Q' E' s"
  using assms by (auto simp: wp_def split: sum.splits prod.splits)

lemma wp_any: "(\<And>a t. Q a t) \<Longrightarrow> (\<And>e t. E e t) \<Longrightarrow> wp m Q E s"
  by (auto simp: wp_def split: prod.splits sum.splits)

lemma wp_conj: "wp m Q E s \<Longrightarrow> wp m Q' E' s \<Longrightarrow> wp m (\<lambda>a t. Q a t \<and> Q' a t) (\<lambda>e t. E e t \<and> E' e t) s"
  by (auto simp: wp_def split: sum.splits prod.splits)

lemma wp_top: "wp m (\<lambda>_ _. True) (\<lambda>_ _. True) s"
  by (auto simp: wp_def split: sum.splits prod.splits)

lemma wp_Inr: "m s = (Inr a, t) \<Longrightarrow> wp m Q E s = Q a t"
  by (simp add: wp_def)

lemma wp_Inl: "m s = (Inl e, t) \<Longrightarrow> wp m Q E s = E e t"
  by (simp add: wp_def)

text \<open>The whole outcome, for reading a result back out of a \<open>wp\<close> statement.\<close>

lemma wp_run: "wp m Q E s \<Longrightarrow> (case fst (m s) of Inl e \<Rightarrow> E e (snd (m s)) | Inr a \<Rightarrow> Q a (snd (m s)))"
  by (auto simp: wp_def split: sum.splits prod.splits)

section \<open>Preservation\<close>

text \<open>
  \<open>preserves I m\<close>: whether \<open>m\<close> returns or raises, \<open>I\<close> holds afterwards if it held before. The
  rules in \<open>pres_intro\<close> follow the structure of the operation.
\<close>

definition preserves :: "('s \<Rightarrow> bool) \<Rightarrow> ('s, 'a) prog \<Rightarrow> bool" where
  "preserves I m \<longleftrightarrow> (\<forall>s. I s \<longrightarrow> I (snd (m s)))"

lemma preserves_wp: "preserves I m \<longleftrightarrow> (\<forall>s. I s \<longrightarrow> wp m (\<lambda>_. I) (\<lambda>_. I) s)"
  by (auto simp: preserves_def wp_def split: sum.splits prod.splits) (metis sum.exhaust prod.collapse sndI)+

lemma preservesD: "preserves I m \<Longrightarrow> I s \<Longrightarrow> I (snd (m s))"
  by (simp add: preserves_def)

lemma preserves_ret [pres_intro]: "preserves I (ret a)"
  by (simp add: preserves_def ret_def)

lemma preserves_raise [pres_intro]: "preserves I (raise e)"
  by (simp add: preserves_def raise_def)

lemma preserves_getsE [pres_intro]: "preserves I (getsE f)"
  by (simp add: preserves_def getsE_def)

lemma preserves_liftR [pres_intro]: "preserves I (liftR r)"
  by (simp add: preserves_def liftR_def)

lemma preserves_modifyE: "(\<And>s. I s \<Longrightarrow> I (f s)) \<Longrightarrow> preserves I (modifyE f)"
  by (simp add: preserves_def modifyE_def)

lemma preserves_bindE [pres_intro]:
  "preserves I m \<Longrightarrow> (\<And>a. preserves I (f a)) \<Longrightarrow> preserves I (bindE m f)"
  by (auto simp: preserves_wp wp_bindE intro: wp_mono)

lemma preserves_thenE [pres_intro]: "preserves I m \<Longrightarrow> preserves I n \<Longrightarrow> preserves I (thenE m n)"
  by (simp add: thenE_def preserves_bindE)

lemma preserves_catchE [pres_intro]:
  "preserves I m \<Longrightarrow> (\<And>e. preserves I (h e)) \<Longrightarrow> preserves I (catchE m h)"
  by (auto simp: preserves_wp wp_catchE intro: wp_mono)

lemma preserves_tryE [pres_intro]:
  "preserves I m \<Longrightarrow> (\<And>e. preserves I (h e)) \<Longrightarrow> (\<And>a. preserves I (f a)) \<Longrightarrow> preserves I (tryE m h f)"
  by (auto simp: preserves_wp wp_tryE intro: wp_mono)

lemma preserves_finallyE [pres_intro]:
  "preserves I m \<Longrightarrow> preserves I f \<Longrightarrow> preserves I (finallyE m f)"
  by (auto simp: preserves_wp wp_finallyE intro: wp_mono)

lemma preserves_whenE [pres_intro]: "preserves I m \<Longrightarrow> preserves I (whenE b m)"
  by (simp add: whenE_def preserves_ret)

lemma preserves_forE [pres_intro]: "(\<And>x. preserves I (f x)) \<Longrightarrow> preserves I (forE xs f)"
  by (induction xs) (auto intro: preserves_ret preserves_thenE)

lemma preserves_if [pres_intro]:
  "preserves I m \<Longrightarrow> preserves I n \<Longrightarrow> preserves I (if b then m else n)"
  by simp

lemma preserves_case_option [pres_intro]:
  "preserves I m \<Longrightarrow> (\<And>y. preserves I (f y)) \<Longrightarrow> preserves I (case x of None \<Rightarrow> m | Some y \<Rightarrow> f y)"
  by (simp split: option.splits)

lemma preserves_zoom:
  "(\<And>s t. I s \<Longrightarrow> I (p t s)) \<Longrightarrow> preserves I (zoom g p m)"
  by (auto simp: preserves_def zoom_def split: prod.splits)

lemma preserves_zoom_slice:
  "preserves J m \<Longrightarrow> (\<And>s. I s \<Longrightarrow> J (g s)) \<Longrightarrow> (\<And>s t. I s \<Longrightarrow> J t \<Longrightarrow> I (p t s)) \<Longrightarrow>
   preserves I (zoom g p m)"
  by (fastforce simp: preserves_def zoom_def split: prod.splits)

lemma preserves_conj: "preserves I m \<Longrightarrow> preserves J m \<Longrightarrow> preserves (\<lambda>s. I s \<and> J s) m"
  by (simp add: preserves_def)

lemma wp_preserves: "preserves I m \<Longrightarrow> I s \<Longrightarrow> wp m (\<lambda>_. I) (\<lambda>_. I) s"
  by (simp add: preserves_wp)

lemma wp_with_preserves:
  "wp m Q E s \<Longrightarrow> preserves I m \<Longrightarrow> I s \<Longrightarrow> wp m (\<lambda>a t. Q a t \<and> I t) (\<lambda>e t. E e t \<and> I t) s"
  by (rule wp_conj [OF _ wp_preserves])

text \<open>An operation that only reads.\<close>

definition readonly :: "('s, 'a) prog \<Rightarrow> bool" where
  "readonly m \<longleftrightarrow> (\<forall>s. snd (m s) = s)"

named_theorems readonly_intro \<open>operations that only read\<close>

lemma readonly_ret [readonly_intro]: "readonly (ret a)"
  by (simp add: readonly_def ret_def)

lemma readonly_raise [readonly_intro]: "readonly (raise e)"
  by (simp add: readonly_def raise_def)

lemma readonly_getsE [readonly_intro]: "readonly (getsE f)"
  by (simp add: readonly_def getsE_def)

lemma readonly_liftR [readonly_intro]: "readonly (liftR r)"
  by (simp add: readonly_def liftR_def)

lemma readonly_bindE [readonly_intro]:
  "readonly m \<Longrightarrow> (\<And>a. readonly (f a)) \<Longrightarrow> readonly (bindE m f)"
  by (auto simp: readonly_def bindE_def split: prod.splits sum.splits) (metis snd_conv)+

lemma readonly_if [readonly_intro]: "readonly m \<Longrightarrow> readonly n \<Longrightarrow> readonly (if b then m else n)"
  by simp

lemma readonly_case_option [readonly_intro]:
  "readonly m \<Longrightarrow> (\<And>y. readonly (f y)) \<Longrightarrow> readonly (case x of None \<Rightarrow> m | Some y \<Rightarrow> f y)"
  by (simp split: option.splits)

lemma readonly_case_prod [readonly_intro]:
  "(\<And>a b. readonly (f a b)) \<Longrightarrow> readonly (case p of (a, b) \<Rightarrow> f a b)"
  by (simp split: prod.splits)

lemma readonly_run: "readonly m \<Longrightarrow> m s = (fst (m s), s)"
  by (metis readonly_def prod.collapse)

lemma readonly_wp:
  "readonly m \<Longrightarrow> wp m Q E s = (case fst (m s) of Inl e \<Rightarrow> E e s | Inr a \<Rightarrow> Q a s)"
  by (subst wp_def, subst readonly_run, assumption) (simp split: sum.splits)

lemma readonly_result: "readonly m \<Longrightarrow> fst (m s) = r \<Longrightarrow> m s = (r, s)"
  by (metis readonly_run)

lemma readonly_preserves: "readonly m \<Longrightarrow> preserves I m"
  by (simp add: readonly_def preserves_def)

lemma bindE_InrD: "bindE m f s = (Inr b, t) \<Longrightarrow> \<exists>a u. m s = (Inr a, u) \<and> f a u = (Inr b, t)"
  by (auto simp: bindE_def split: prod.splits sum.splits)

lemma bindE_run: "m s = (Inr a, t) \<Longrightarrow> bindE m f s = f a t"
  by (simp add: bindE_def)

lemma bindE_raised: "m s = (Inl e, t) \<Longrightarrow> bindE m f s = (Inl e, t)"
  by (simp add: bindE_def)

section \<open>Dictionaries\<close>

text \<open>
  A Python dictionary keeps its insertion order, and writing an existing key keeps its place: an
  association list with \<open>AList.update\<close> and \<open>AList.delete\<close>. Reading is \<open>map_of\<close>.
\<close>

type_synonym ('k, 'v) pydict = "('k \<times> 'v) list"

abbreviation dget :: "('k, 'v) pydict \<Rightarrow> 'k \<Rightarrow> 'v option" where
  "dget d k \<equiv> map_of d k"

abbreviation dset :: "'k \<Rightarrow> 'v \<Rightarrow> ('k, 'v) pydict \<Rightarrow> ('k, 'v) pydict" where
  "dset k v d \<equiv> AList.update k v d"

abbreviation dpop :: "'k \<Rightarrow> ('k, 'v) pydict \<Rightarrow> ('k, 'v) pydict" where
  "dpop k d \<equiv> AList.delete k d"

definition pydict_ok :: "('k, 'v) pydict \<Rightarrow> bool" where
  "pydict_ok d \<longleftrightarrow> distinct (map fst d)"

lemma dget_dset [simp, pydict_simps]: "dget (dset k v d) k' = (if k' = k then Some v else dget d k')"
  by (simp add: update_conv')

lemma dget_dpop [simp, pydict_simps]: "dget (dpop k d) k' = (if k' = k then None else dget d k')"
  by (simp add: delete_conv')

lemma pydict_ok_Nil [simp]: "pydict_ok []"
  by (simp add: pydict_ok_def)

lemma pydict_ok_dset [simp, intro]: "pydict_ok d \<Longrightarrow> pydict_ok (dset k v d)"
  by (simp add: pydict_ok_def distinct_update)

lemma pydict_ok_dpop [simp, intro]: "pydict_ok d \<Longrightarrow> pydict_ok (dpop k d)"
  by (simp add: pydict_ok_def distinct_delete)

lemma pydict_ok_dget: "pydict_ok d \<Longrightarrow> (k, v) \<in> set d \<Longrightarrow> dget d k = Some v"
  by (simp add: pydict_ok_def)

lemma dget_in_set: "dget d k = Some v \<Longrightarrow> (k, v) \<in> set d"
  by (rule map_of_SomeD)

text \<open>\<open>d.setdefault(k, v)\<close> without its result.\<close>

definition dsetdefault :: "'k \<Rightarrow> 'v \<Rightarrow> ('k, 'v) pydict \<Rightarrow> ('k, 'v) pydict" where
  "dsetdefault k v d = (case dget d k of None \<Rightarrow> dset k v d | Some _ \<Rightarrow> d)"

lemma set_dset:
  "pydict_ok d \<Longrightarrow> set (dset k v d) = insert (k, v) {x \<in> set d. fst x \<noteq> k}"
  by (induction d) (force simp: pydict_ok_def)+

lemma dset_members: "x \<in> set (dset k v d) \<Longrightarrow> x = (k, v) \<or> x \<in> set d"
  by (induction d) (auto split: if_splits)

lemma set_dpop: "set (dpop k d) = {x \<in> set d. fst x \<noteq> k}"
  by (auto simp: AList.delete_eq)

section \<open>Strings\<close>

text \<open>
  Strings are lists of ASCII characters. \<open>lower\<close> and \<open>strip\<close> are \<open>str.lower()\<close> and \<open>str.strip()\<close>
  on ASCII text.
\<close>

definition lower_char :: "char \<Rightarrow> char" where
  "lower_char c = (let n = of_char c :: nat in if 65 \<le> n \<and> n \<le> 90 then char_of (n + 32) else c)"

definition lower :: "string \<Rightarrow> string" where
  "lower s = map lower_char s"

definition is_space :: "char \<Rightarrow> bool" where
  "is_space c = (let n = of_char c :: nat in n = 32 \<or> (9 \<le> n \<and> n \<le> 13) \<or> (28 \<le> n \<and> n \<le> 31))"

definition strip :: "string \<Rightarrow> string" where
  "strip s = rev (dropWhile is_space (rev (dropWhile is_space s)))"

definition starts_with :: "string \<Rightarrow> string \<Rightarrow> bool" where
  "starts_with p s = (take (length p) s = p)"

lemma lower_char_idem [simp]: "lower_char (lower_char c) = lower_char c"
proof (cases "65 \<le> (of_char c :: nat) \<and> (of_char c :: nat) \<le> 90")
  case True
  then have "(of_char (char_of ((of_char c :: nat) + 32)) :: nat) = of_char c + 32"
    by (simp add: of_char_of)
  with True show ?thesis by (simp add: lower_char_def Let_def)
next
  case False
  then show ?thesis by (auto simp: lower_char_def Let_def)
qed

lemma lower_idem [simp]: "lower (lower s) = lower s"
  by (simp add: lower_def)

lemma length_lower [simp]: "length (lower s) = length s"
  by (simp add: lower_def)

lemma dropWhile_rev_idem:
  "dropWhile P (rev (dropWhile P (rev (dropWhile P s)))) = rev (dropWhile P (rev (dropWhile P s)))"
proof (cases "dropWhile P s")
  case Nil
  then show ?thesis by (simp only: rev.simps dropWhile.simps)
next
  case (Cons x xs)
  then have "\<not> P x" by (metis dropWhile_eq_Cons_conv)
  then have "dropWhile P (rev xs @ [x]) = dropWhile P (rev xs) @ [x]"
    by (induction "rev xs" arbitrary: xs) (auto simp: dropWhile_append)
  with Cons \<open>\<not> P x\<close> show ?thesis by simp
qed

lemma strip_idem [simp]: "strip (strip s) = strip s"
  unfolding strip_def by (simp add: dropWhile_rev_idem)

lemma strip_Nil [simp]: "strip [] = []"
  by (simp add: strip_def)

lemmas string_eval = strip_def is_space_def lower_def lower_char_def char_of_def bit_0 Let_def

text \<open>Decimal notation of a natural number, and the zero-padded form \<open>{n:04d}\<close>.\<close>

definition digit_char :: "nat \<Rightarrow> char" where
  "digit_char d = char_of (48 + d)"

fun dec :: "nat \<Rightarrow> string" where
  "dec n = (if n < 10 then [digit_char n] else dec (n div 10) @ [digit_char (n mod 10)])"

declare dec.simps [simp del]

definition dec_int :: "int \<Rightarrow> string" where
  "dec_int i = (if i < 0 then CHR ''-'' # dec (nat (- i)) else dec (nat i))"

definition pad4 :: "nat \<Rightarrow> string" where
  "pad4 n = replicate (4 - length (dec n)) (CHR ''0'') @ dec n"

fun undec_acc :: "nat \<Rightarrow> string \<Rightarrow> nat" where
  "undec_acc acc [] = acc"
| "undec_acc acc (c # cs) = undec_acc (10 * acc + (of_char c - 48)) cs"

lemma undec_acc_append: "undec_acc acc (xs @ ys) = undec_acc (undec_acc acc xs) ys"
  by (induction xs arbitrary: acc) auto

lemma digit_char_value: "d < 10 \<Longrightarrow> (of_char (digit_char d) :: nat) - 48 = d"
  by (simp add: digit_char_def of_char_of)

lemma undec_dec: "undec_acc 0 (dec n) = n"
proof (induction n rule: dec.induct)
  case (1 n)
  show ?case
  proof (cases "n < 10")
    case True
    then show ?thesis by (subst dec.simps) (simp add: digit_char_value)
  next
    case False
    with 1 have "undec_acc 0 (dec (n div 10)) = n div 10" by simp
    with False show ?thesis by (subst dec.simps) (simp add: undec_acc_append digit_char_value)
  qed
qed

lemma undec_zeros: "undec_acc 0 (replicate k (CHR ''0'') @ s) = undec_acc 0 s"
  by (induction k) simp_all

lemma dec_inject [simp]: "dec m = dec n \<longleftrightarrow> m = n"
  by (metis undec_dec)

lemma pad4_inject [simp]: "pad4 m = pad4 n \<longleftrightarrow> m = n"
  by (metis pad4_def undec_dec undec_zeros)

section \<open>Numbers\<close>

text \<open>
  Python floats are exact rationals here: what IEEE 754 rounds away is not modelled. \<open>py_round n x\<close>
  is \<open>round(x, n)\<close>: round half to even at \<open>n\<close> decimals. \<open>ceil_div a b\<close> is \<open>math.ceil(a / b)\<close>.
\<close>

definition round_half_even :: "rat \<Rightarrow> int" where
  "round_half_even x =
     (let f = \<lfloor>x\<rfloor>; d = x - of_int f
      in if d < 1 / 2 then f else if d > 1 / 2 then f + 1 else if even f then f else f + 1)"

definition py_round :: "nat \<Rightarrow> rat \<Rightarrow> rat" where
  "py_round n x = of_int (round_half_even (x * 10 ^ n)) / 10 ^ n"

definition ceil_div :: "int \<Rightarrow> int \<Rightarrow> int" where
  "ceil_div a b = - ((- a) div b)"

lemma ceil_div_ceiling: "ceil_div a b = \<lceil>(of_int a :: rat) / of_int b\<rceil>"
proof -
  have "- ((of_int a :: rat) / of_int b) = of_int (- a) / of_int b" by simp
  then show ?thesis
    by (simp only: ceil_div_def ceiling_def floor_divide_of_int_eq)
qed

lemma ceil_div_le_iff: "0 < b \<Longrightarrow> ceil_div a b \<le> c \<longleftrightarrow> a \<le> c * b"
  by (simp add: ceil_div_ceiling ceiling_le_iff divide_le_eq flip: of_int_mult)

lemma ceil_div_nonneg: "0 < b \<Longrightarrow> 0 \<le> a \<Longrightarrow> 0 \<le> ceil_div a b"
proof -
  assume "0 < b" and "0 \<le> a"
  then have "(- a) div b \<le> 0 div b" by (intro zdiv_mono1) auto
  then show ?thesis by (simp add: ceil_div_def)
qed

lemma round_half_even_of_int [simp]: "round_half_even (of_int k) = k"
  by (simp add: round_half_even_def)

lemma round_half_even_mono:
  assumes "x \<le> y"
  shows "round_half_even x \<le> round_half_even y"
proof (cases "\<lfloor>x\<rfloor> = \<lfloor>y\<rfloor>")
  case True
  with assms show ?thesis by (auto simp: round_half_even_def Let_def)
next
  case False
  with assms have "\<lfloor>x\<rfloor> + 1 \<le> \<lfloor>y\<rfloor>" using floor_mono [OF assms] by linarith
  then show ?thesis by (auto simp: round_half_even_def Let_def)
qed

lemma py_round_mono: "x \<le> y \<Longrightarrow> py_round n x \<le> py_round n y"
  by (simp add: py_round_def divide_right_mono round_half_even_mono mult_right_mono)

lemma py_round_exact: "x * 10 ^ n = of_int k \<Longrightarrow> py_round n x = x"
  by (simp add: py_round_def) (metis nonzero_mult_div_cancel_right power_not_zero zero_neq_numeral)

lemma py_round_0 [simp]: "py_round n 0 = 0"
  using py_round_exact [of 0 n 0] by simp

lemma py_round_int [simp]: "py_round n (of_int i) = of_int i"
  by (rule py_round_exact [of _ _ "i * 10 ^ n"]) simp

lemma py_round_nonneg: "0 \<le> x \<Longrightarrow> 0 \<le> py_round n x"
  using py_round_mono [of 0 x n] by simp

end
