(* ===== verification/Json.thy ===== *)
theory Json
  imports Prelude
begin

text \<open>
  The values \<open>json.loads\<close> produces and the Python operations the code applies to them: truth value,
  \<open>isinstance\<close>, \<open>dict.get\<close>, \<open>str\<close>. Reading a JSON text, printing one and SHA-256 are library calls;
  they are the fields of the record \<open>codec\<close>, a parameter of the definitions that use them
  (\<open>json_dumps_compact\<close> is the one with \<open>sort_keys=True, separators=(",", ":")\<close>).

  A finite float is the rational it stands for. Python's \<open>json\<close> also reads and writes \<open>NaN\<close>,
  \<open>Infinity\<close> and \<open>-Infinity\<close>, and \<open>float\<close> reads them from text: they are the values \<open>special\<close>, with
  Python's comparisons on them (every one with \<open>NaN\<close> is false). The checks that the program makes on
  numbers from outside (the pricebook and the prices and charges of an estimate made from it, era
  profiles, fidelity overrides, classifier confidences) work on a \<open>pyfloat\<close>. The other prices, costs
  and seconds that the program computes with are finite: there \<open>to_float\<close> stops with an
  \<open>ExternalError\<close> at a special value, where Python would go on computing with it.
\<close>

datatype special = NotANumber | PlusInfinity | MinusInfinity

datatype pyfloat = Fin rat | Special special

datatype json =
    JNull
  | JBool bool
  | JInt int
  | JFloat rat
  | JSpecial special
  | JStr string
  | JList "json list"
  | JObj "(string \<times> json) list"

record codec =
  json_loads :: "string \<Rightarrow> json option"
  json_dumps :: "json \<Rightarrow> string"
  json_dumps_compact :: "json \<Rightarrow> string"
  sha256_hex :: "string \<Rightarrow> string"
  repr_of :: "json \<Rightarrow> string"

fun truthy :: "json \<Rightarrow> bool" where
  "truthy JNull = False"
| "truthy (JBool b) = b"
| "truthy (JInt i) = (i \<noteq> 0)"
| "truthy (JFloat q) = (q \<noteq> 0)"
| "truthy (JSpecial x) = True"
| "truthy (JStr s) = (s \<noteq> [])"
| "truthy (JList xs) = (xs \<noteq> [])"
| "truthy (JObj d) = (d \<noteq> [])"

text \<open>\<open>d.get(k)\<close>: a missing key reads as \<open>None\<close>.\<close>

definition jget :: "(string \<times> json) list \<Rightarrow> string \<Rightarrow> json" where
  "jget d k = (case dget d k of None \<Rightarrow> JNull | Some v \<Rightarrow> v)"

text \<open>\<open>a or b\<close>\<close>

definition jor :: "json \<Rightarrow> json \<Rightarrow> json" where
  "jor a b = (if truthy a then a else b)"

text \<open>
  \<open>str(v)\<close>. Floats and containers print as \<open>repr\<close> has them, which is the codec's \<open>repr_of\<close>.
\<close>

fun py_str :: "codec \<Rightarrow> json \<Rightarrow> string" where
  "py_str c JNull = ''None''"
| "py_str c (JBool b) = (if b then ''True'' else ''False'')"
| "py_str c (JInt i) = dec_int i"
| "py_str c (JStr s) = s"
| "py_str c v = repr_of c v"

text \<open>\<open>str(v or "")\<close>\<close>

definition str_or_empty :: "codec \<Rightarrow> json \<Rightarrow> string" where
  "str_or_empty c v = (if truthy v then py_str c v else [])"

lemma jget_Nil [simp]: "jget [] k = JNull"
  by (simp add: jget_def)

lemma jget_Cons [simp]: "jget ((k, v) # d) k' = (if k' = k then v else jget d k')"
  by (simp add: jget_def)

lemma str_or_empty_str [simp]: "str_or_empty c (JStr s) = s"
  by (simp add: str_or_empty_def)

lemma str_or_empty_null [simp]: "str_or_empty c JNull = []"
  by (simp add: str_or_empty_def)

text \<open>A codec to evaluate with: it prints nothing and hashes to the text itself.\<close>

definition plain_codec :: codec where
  "plain_codec = \<lparr>json_loads = (\<lambda>_. None), json_dumps = (\<lambda>_. []), json_dumps_compact = (\<lambda>_. []),
     sha256_hex = (\<lambda>s. s), repr_of = (\<lambda>_. [])\<rparr>"

text \<open>\<open>(v or {})\<close> of a value that is then asked for keys.\<close>

fun obj_or_empty :: "json \<Rightarrow> (string \<times> json) list result" where
  "obj_or_empty (JObj d) = Inr d"
| "obj_or_empty v = (if truthy v then Inl (AttributeError ''get'') else Inr [])"

text \<open>\<open>float(v)\<close>, given how a string is read as a number.\<close>

fun to_float :: "(string \<Rightarrow> rat option) \<Rightarrow> json \<Rightarrow> rat result" where
  "to_float rd (JBool b) = Inr (if b then 1 else 0)"
| "to_float rd (JInt i) = Inr (of_int i)"
| "to_float rd (JFloat q) = Inr q"
| "to_float rd (JStr s) = (case rd s of None \<Rightarrow> Inl (ValueError s) | Some q \<Rightarrow> Inr q)"
| "to_float rd (JSpecial x) = Inl (ExternalError ''not a finite number'')"
| "to_float rd _ = Inl (TypeError ''float() argument'')"

section \<open>Floats that need not be finite\<close>

text \<open>\<open>a <= b\<close>, \<open>a < b\<close> and \<open>a == b\<close> on floats.\<close>

fun float_le :: "pyfloat \<Rightarrow> pyfloat \<Rightarrow> bool" where
  "float_le (Fin a) (Fin b) = (a \<le> b)"
| "float_le (Special NotANumber) b = False"
| "float_le a (Special NotANumber) = False"
| "float_le (Special MinusInfinity) b = True"
| "float_le a (Special PlusInfinity) = True"
| "float_le a b = False"

definition float_lt :: "pyfloat \<Rightarrow> pyfloat \<Rightarrow> bool" where
  "float_lt a b = (float_le a b \<and> \<not> float_le b a)"

definition float_eq :: "pyfloat \<Rightarrow> pyfloat \<Rightarrow> bool" where
  "float_eq a b = (float_le a b \<and> float_le b a)"

text \<open>\<open>min(a, b)\<close> and \<open>max(a, b)\<close>: the first argument unless the second one is smaller (larger).\<close>

definition float_min :: "pyfloat \<Rightarrow> pyfloat \<Rightarrow> pyfloat" where
  "float_min a b = (if float_lt b a then b else a)"

definition float_max :: "pyfloat \<Rightarrow> pyfloat \<Rightarrow> pyfloat" where
  "float_max a b = (if float_lt a b then b else a)"

lemma float_lt_Fin [simp]: "float_lt (Fin a) (Fin b) \<longleftrightarrow> a < b"
  by (auto simp: float_lt_def)

lemma float_eq_Fin [simp]: "float_eq (Fin a) (Fin b) \<longleftrightarrow> a = b"
  by (auto simp: float_eq_def)

lemma float_nan [simp]:
  "\<not> float_le a (Special NotANumber)" "\<not> float_lt a (Special NotANumber)" "\<not> float_lt (Special NotANumber) b"
  "\<not> float_eq a (Special NotANumber)" "\<not> float_eq (Special NotANumber) b"
  by (cases a; simp add: float_lt_def float_eq_def; (case_tac x2; simp)?)+

lemma float_infinite [simp]:
  "float_lt (Fin a) (Special PlusInfinity)" "\<not> float_lt (Special PlusInfinity) b"
  "float_lt (Special MinusInfinity) (Fin a)" "\<not> float_lt b (Special MinusInfinity)"
  "\<not> float_eq (Special x) (Fin a)" "\<not> float_eq (Fin a) (Special x)"
  by ((cases b; simp add: float_lt_def; (case_tac x2; simp)?) | (cases x; simp add: float_eq_def) | simp add: float_lt_def)+

lemma float_min_Fin [simp]: "float_min (Fin a) (Fin b) = Fin (min a b)"
  by (simp add: float_min_def min_def)

lemma float_max_Fin [simp]: "float_max (Fin a) (Fin b) = Fin (max a b)"
  by (simp add: float_max_def max_def)

fun json_of_float :: "pyfloat \<Rightarrow> json" where
  "json_of_float (Fin q) = JFloat q"
| "json_of_float (Special x) = JSpecial x"

text \<open>\<open>n * x\<close> of an \<open>int\<close> and a \<open>float\<close>, and \<open>round(x, digits)\<close>.\<close>

fun float_times :: "int \<Rightarrow> pyfloat \<Rightarrow> pyfloat" where
  "float_times n (Fin q) = Fin (of_int n * q)"
| "float_times n (Special NotANumber) = Special NotANumber"
| "float_times n (Special PlusInfinity) =
     Special (if n = 0 then NotANumber else if 0 < n then PlusInfinity else MinusInfinity)"
| "float_times n (Special MinusInfinity) =
     Special (if n = 0 then NotANumber else if 0 < n then MinusInfinity else PlusInfinity)"

fun float_round :: "nat \<Rightarrow> pyfloat \<Rightarrow> pyfloat" where
  "float_round digits (Fin q) = Fin (py_round digits q)"
| "float_round digits (Special x) = Special x"

text \<open>The texts, in any letter case and with blanks around them, that \<open>float\<close> reads as special values.\<close>

definition special_of_str :: "string \<Rightarrow> special option" where
  "special_of_str s =
     (let t = lower (strip s) in
      if t \<in> {''nan'', ''+nan'', ''-nan''} then Some NotANumber
      else if t \<in> {''inf'', ''+inf'', ''infinity'', ''+infinity''} then Some PlusInfinity
      else if t \<in> {''-inf'', ''-infinity''} then Some MinusInfinity else None)"

text \<open>\<open>float(v)\<close>, special values included; \<open>rd\<close> reads the texts of finite numbers.\<close>

fun to_pyfloat :: "(string \<Rightarrow> rat option) \<Rightarrow> json \<Rightarrow> pyfloat result" where
  "to_pyfloat rd (JBool b) = Inr (Fin (if b then 1 else 0))"
| "to_pyfloat rd (JInt i) = Inr (Fin (of_int i))"
| "to_pyfloat rd (JFloat q) = Inr (Fin q)"
| "to_pyfloat rd (JSpecial x) = Inr (Special x)"
| "to_pyfloat rd (JStr s) =
     (case special_of_str s of
        Some x \<Rightarrow> Inr (Special x)
      | None \<Rightarrow> (case rd s of None \<Rightarrow> Inl (ValueError s) | Some q \<Rightarrow> Inr (Fin q)))"
| "to_pyfloat rd _ = Inl (TypeError ''float() argument'')"

text \<open>\<open>d[k]\<close>\<close>

definition jitem :: "(string \<times> json) list \<Rightarrow> string \<Rightarrow> json result" where
  "jitem d k = (case dget d k of None \<Rightarrow> Inl (KeyError k) | Some v \<Rightarrow> Inr v)"

definition opt_json :: "('a \<Rightarrow> json) \<Rightarrow> 'a option \<Rightarrow> json" where
  "opt_json f x = (case x of None \<Rightarrow> JNull | Some a \<Rightarrow> f a)"

end
