(* ===== verification/Job_Pipeline.thy ===== *)
theory Job_Pipeline
  imports Json
begin

text \<open>
  \<open>app/services/job_pipeline.py\<close>: the deterministic plan that cuts a video into segments of ten seconds
  and gives each an idempotency key. Durations are whole seconds.
\<close>

definition SEGMENT_DURATION_SECONDS :: int where
  "SEGMENT_DURATION_SECONDS = 10"

definition MODEL_DIGEST :: string where
  "MODEL_DIGEST = ''packet-3b-pipeline-v1''"

definition ENCODER_DIGEST :: string where
  "ENCODER_DIGEST = ''packet-3b-encoder-v1''"

record pipeline_variant =
  pv_processing_mode :: string
  config_hash :: string
  model_digest :: string
  era_profile_digest :: string
  fidelity_profile_digest :: string
  encoder_digest :: string

definition build_pipeline_variant_fingerprint ::
  "codec \<Rightarrow> string \<Rightarrow> json \<Rightarrow> json \<Rightarrow> json \<Rightarrow> pipeline_variant" where
  "build_pipeline_variant_fingerprint c processing_mode config era_profile fidelity_profile =
     (let digest = (\<lambda>v. sha256_hex c (json_dumps_compact c v)) in
      \<lparr>pv_processing_mode = processing_mode, config_hash = digest config, model_digest = MODEL_DIGEST,
        era_profile_digest = digest era_profile, fidelity_profile_digest = digest fidelity_profile,
        encoder_digest = ENCODER_DIGEST\<rparr>)"

record segment_plan =
  sp_index :: int
  sp_start_seconds :: int
  sp_end_seconds :: int
  sp_duration_seconds :: int
  sp_idempotency_key :: string

record segment_request =
  sr_user_id :: string
  sr_checksum :: string
  sr_fidelity_tier :: string
  sr_reproducibility_mode :: string

definition idempotency_source ::
  "segment_request \<Rightarrow> pipeline_variant \<Rightarrow> int \<Rightarrow> int \<Rightarrow> int \<Rightarrow> int \<Rightarrow> json" where
  "idempotency_source r v i start_s end_s dur =
     JList [JStr (sr_user_id r), JStr (sr_checksum r), JInt i, JInt (start_s * 1000), JInt (end_s * 1000),
       JInt (dur * 1000), JStr (sr_fidelity_tier r), JStr (sr_reproducibility_mode r),
       JStr (pv_processing_mode v), JStr (config_hash v), JStr (model_digest v),
       JStr (era_profile_digest v), JStr (fidelity_profile_digest v), JStr (encoder_digest v)]"

definition segment_at ::
  "codec \<Rightarrow> segment_request \<Rightarrow> pipeline_variant \<Rightarrow> int \<Rightarrow> int \<Rightarrow> segment_plan" where
  "segment_at c r v duration i =
     (let start_s = i * SEGMENT_DURATION_SECONDS;
          end_s = min (start_s + SEGMENT_DURATION_SECONDS) duration;
          dur = max (end_s - start_s) 1 in
      \<lparr>sp_index = i, sp_start_seconds = start_s, sp_end_seconds = end_s, sp_duration_seconds = dur,
        sp_idempotency_key = sha256_hex c (json_dumps_compact c (idempotency_source r v i start_s end_s dur))\<rparr>)"

definition build_segments ::
  "codec \<Rightarrow> segment_request \<Rightarrow> string \<Rightarrow> json \<Rightarrow> json \<Rightarrow> json \<Rightarrow> int \<Rightarrow> segment_plan list result" where
  "build_segments c r processing_mode config era_profile fidelity_profile duration =
     (if duration < 1 then Inl (ValueError ''estimated_duration_seconds must be >= 1'')
      else
        (let count = max (ceil_div duration SEGMENT_DURATION_SECONDS) 1;
             fp = (if truthy fidelity_profile then fidelity_profile
                   else JObj [(''tier'', JStr (sr_fidelity_tier r))]);
             v = build_pipeline_variant_fingerprint c processing_mode config era_profile fp in
         Inr (map (segment_at c r v duration) [0 .. count - 1])))"

section \<open>The plan covers the video\<close>

lemma segment_at_simps [simp]:
  "sp_index (segment_at c r v d i) = i"
  "sp_start_seconds (segment_at c r v d i) = i * 10"
  "sp_end_seconds (segment_at c r v d i) = min (i * 10 + 10) d"
  "sp_duration_seconds (segment_at c r v d i) = max (min (i * 10 + 10) d - i * 10) 1"
  by (simp_all add: segment_at_def Let_def SEGMENT_DURATION_SECONDS_def)

lemma count_bounds:
  assumes "1 \<le> d"
  shows "1 \<le> ceil_div d 10" and "ceil_div d 10 * 10 < d + 10" and "d \<le> ceil_div d 10 * 10"
proof -
  show "d \<le> ceil_div d 10 * 10" using ceil_div_le_iff [of 10 d "ceil_div d 10"] by simp
  with assms show "1 \<le> ceil_div d 10" by presburger
  show "ceil_div d 10 * 10 < d + 10"
    using ceil_div_le_iff [of 10 d "ceil_div d 10 - 1"] by (simp add: algebra_simps)
qed

lemma build_segments_Inr:
  "build_segments c r pm cfg era fp d = Inr segs \<Longrightarrow>
   1 \<le> d \<and> (\<exists>v. segs = map (segment_at c r v d) [0 .. ceil_div d 10 - 1])"
  using count_bounds(1) [of d]
  by (auto simp: build_segments_def Let_def SEGMENT_DURATION_SECONDS_def split: if_splits)

lemma plan_nth:
  assumes "1 \<le> d" and "i < nat (ceil_div d 10)"
  shows "map (segment_at c r v d) [0 .. ceil_div d 10 - 1] ! i = segment_at c r v d (int i)"
  using assms by (simp add: nth_upto)

section \<open>Properties\<close>

text \<open>
  C21: The segments tile the video. There is one for every started ten seconds, they are numbered from
  0, the first starts at 0, each ends where the next starts, the last ends at the duration, each lasts
  between 1 and 10 seconds, exactly from its start to its end, and their durations add up to the
  duration.
\<close>

theorem segments_tile_the_video:
  assumes "build_segments c r pm cfg era fp d = Inr segs"
  shows "int (length segs) = ceil_div d 10 \<and> segs \<noteq> [] \<and>
    map sp_index segs = [0 .. int (length segs) - 1] \<and>
    sp_start_seconds (hd segs) = 0 \<and> sp_end_seconds (last segs) = d \<and>
    (\<forall>i. Suc i < length segs \<longrightarrow> sp_end_seconds (segs ! i) = sp_start_seconds (segs ! Suc i)) \<and>
    (\<forall>s \<in> set segs. 1 \<le> sp_duration_seconds s \<and> sp_duration_seconds s \<le> 10 \<and>
       sp_start_seconds s + sp_duration_seconds s = sp_end_seconds s) \<and>
    sum_list (map sp_duration_seconds segs) = d"
proof -
  from build_segments_Inr [OF assms] obtain v where d: "1 \<le> d"
    and s: "segs = map (segment_at c r v d) [0 .. ceil_div d 10 - 1]" by blast
  note cb = count_bounds [OF d]
  let ?n = "ceil_div d 10"
  have len: "int (length segs) = ?n" using cb by (simp add: s)
  have ne: "segs \<noteq> []" using len cb by auto
  have nth: "segs ! i = segment_at c r v d (int i)" if "i < length segs" for i
    using plan_nth [OF d, of i c r v] that len s by simp
  have idx: "map sp_index segs = [0 .. int (length segs) - 1]"
    by (simp add: len) (simp add: s comp_def)
  have inner: "int i * 10 + 10 \<le> d" if "int i < ?n - 1" for i
    using that cb(2) by linarith
  have ends: "sp_end_seconds (segs ! i) = sp_start_seconds (segs ! Suc i)" if "Suc i < length segs" for i
    using that inner [of i] len by (simp add: nth)
  have last: "sp_end_seconds (last segs) = d"
    using ne cb len by (simp add: last_conv_nth nth of_nat_diff)
  have hd: "sp_start_seconds (hd segs) = 0" using ne by (simp add: hd_conv_nth nth)
  have dur: "1 \<le> sp_duration_seconds s \<and> sp_duration_seconds s \<le> 10 \<and>
      sp_start_seconds s + sp_duration_seconds s = sp_end_seconds s" if "s \<in> set segs" for s
  proof -
    from that s obtain i where i: "s = segment_at c r v d i" "0 \<le> i" "i \<le> ?n - 1" by auto
    then have "i * 10 < d" using cb(2) by linarith
    then show ?thesis by (auto simp: i(1))
  qed
  have total: "sum_list (map sp_duration_seconds (map (segment_at c r v d) [0 .. int k - 1])) = min (int k * 10) d"
    if "int k \<le> ?n" for k
    using that
  proof (induction k)
    case 0
    then show ?case using d by simp
  next
    case (Suc k)
    have cut: "[0 .. int k] = [0 .. int k - 1] @ [int k]"
      using upto_rec2 [of 0 "int k"] by simp
    have "int k * 10 < d" using Suc.prems cb(2) by linarith
    with Suc show ?case by (simp add: cut del: upto.simps)
  qed
  have "sum_list (map sp_duration_seconds segs) = d"
    using total [of "nat ?n"] cb by (simp add: s)
  with len ne idx hd last ends dur show ?thesis by blast
qed

definition sample_request :: segment_request where
  "sample_request = \<lparr>sr_user_id = ''u'', sr_checksum = ''abc'', sr_fidelity_tier = ''Restore'',
     sr_reproducibility_mode = ''deterministic''\<rparr>"

theorem segments_tile_the_video_witness:
  "\<exists>segs. build_segments plain_codec sample_request ''balanced'' JNull JNull JNull 25 = Inr segs \<and>
     length segs = 3 \<and> sp_end_seconds (last segs) = 25 \<and> sum_list (map sp_duration_seconds segs) = 25"
proof -
  obtain segs where b: "build_segments plain_codec sample_request ''balanced'' JNull JNull JNull 25 = Inr segs"
    by (simp add: build_segments_def Let_def)
  have "ceil_div 25 10 = 3" by (simp add: ceil_div_def)
  with segments_tile_the_video [OF b] b show ?thesis by auto
qed

text \<open>
  Segments of one plan never share an idempotency key, as long as SHA-256 does not collide and the
  compact JSON printing is injective on the lists the keys are made from.
\<close>

theorem idempotency_keys_distinct:
  assumes "build_segments c r pm cfg era fp d = Inr segs"
    and "inj (sha256_hex c)"
    and "inj_on (json_dumps_compact c) {idempotency_source r v i s e n | v i s e n. True}"
  shows "distinct (map sp_idempotency_key segs)"
proof -
  from build_segments_Inr [OF assms(1)] obtain v where
    s: "segs = map (segment_at c r v d) [0 .. ceil_div d 10 - 1]" by blast
  have "inj (\<lambda>i. sp_idempotency_key (segment_at c r v d i))"
  proof (rule injI)
    fix i j
    assume "sp_idempotency_key (segment_at c r v d i) = sp_idempotency_key (segment_at c r v d j)"
    then have "json_dumps_compact c (idempotency_source r v i (i * 10) (min (i * 10 + 10) d) (max (min (i * 10 + 10) d - i * 10) 1)) =
        json_dumps_compact c (idempotency_source r v j (j * 10) (min (j * 10 + 10) d) (max (min (j * 10 + 10) d - j * 10) 1))"
      using assms(2) by (simp add: segment_at_def Let_def SEGMENT_DURATION_SECONDS_def inj_eq)
    then have "idempotency_source r v i (i * 10) (min (i * 10 + 10) d) (max (min (i * 10 + 10) d - i * 10) 1) =
        idempotency_source r v j (j * 10) (min (j * 10 + 10) d) (max (min (j * 10 + 10) d - j * 10) 1)"
      by (rule inj_onD [OF assms(3)]) blast+
    then show "i = j" by (simp add: idempotency_source_def)
  qed
  then show ?thesis
    by (auto simp: s distinct_map comp_def intro: inj_on_subset)
qed

text \<open>A printer that is injective on such lists: strings escaped letter by letter, numbers in unary.\<close>

fun esc :: "string \<Rightarrow> string" where
  "esc [] = ''b''"
| "esc (ch # cs) = CHR ''a'' # ch # esc cs"

definition unary :: "int \<Rightarrow> string" where
  "unary i = (if i < 0 then ''m'' else []) @ replicate (nat \<bar>i\<bar>) (CHR ''c'') @ ''b''"

fun print_atom :: "json \<Rightarrow> string" where
  "print_atom (JStr s) = esc s"
| "print_atom (JInt i) = unary i"
| "print_atom _ = []"

fun print_list :: "json \<Rightarrow> string" where
  "print_list (JList xs) = concat (map print_atom xs)"
| "print_list _ = []"

lemma esc_append_inject [simp]: "esc s @ xs = esc t @ ys \<longleftrightarrow> s = t \<and> xs = ys"
proof (induction s arbitrary: t)
  case Nil
  then show ?case by (cases t) auto
next
  case (Cons ch s)
  then show ?case by (cases t) auto
qed

lemma replicate_b_inject: "replicate m (CHR ''c'') @ CHR ''b'' # xs = replicate n (CHR ''c'') @ CHR ''b'' # ys
    \<Longrightarrow> m = n \<and> xs = ys"
proof (induction m arbitrary: n)
  case 0
  then show ?case by (cases n) auto
next
  case (Suc m)
  then show ?case by (cases n) auto
qed

lemma unary_append_inject: "unary i @ xs = unary j @ ys \<Longrightarrow> i = j \<and> xs = ys"
proof -
  assume u: "unary i @ xs = unary j @ ys"
  have "(i < 0) = (j < 0)"
    using u by (cases "nat \<bar>i\<bar>"; cases "nat \<bar>j\<bar>") (auto simp: unary_def split: if_splits)
  with u replicate_b_inject [of "nat \<bar>i\<bar>" xs "nat \<bar>j\<bar>" ys] show ?thesis
    by (auto simp: unary_def split: if_splits)
qed

lemma print_list_injective: "inj_on print_list {idempotency_source r v i s e n | v i s e n. True}"
proof (rule inj_onI, clarify)
  fix v i s e n v' i' s' e' n'
  assume "print_list (idempotency_source r v i s e n) = print_list (idempotency_source r v' i' s' e' n')"
  then show "idempotency_source r v i s e n = idempotency_source r v' i' s' e' n'"
    by (auto simp: idempotency_source_def dest!: unary_append_inject
        dest: esc_append_inject [where xs = "[]" and ys = "[]", simplified, THEN iffD1])
qed

theorem idempotency_keys_distinct_witness:
  "\<exists>segs. build_segments (plain_codec\<lparr>json_dumps_compact := print_list\<rparr>) sample_request ''balanced'' JNull JNull JNull 25
     = Inr segs \<and> length segs = 3 \<and> distinct (map sp_idempotency_key segs)"
proof -
  let ?c = "plain_codec\<lparr>json_dumps_compact := print_list\<rparr>"
  obtain segs where b: "build_segments ?c sample_request ''balanced'' JNull JNull JNull 25 = Inr segs"
    and l: "length segs = 3"
    by (simp add: build_segments_def Let_def SEGMENT_DURATION_SECONDS_def ceil_div_def)
  have "inj (sha256_hex ?c)" by (simp add: plain_codec_def inj_def)
  from idempotency_keys_distinct [OF b this] b l print_list_injective [of sample_request] show ?thesis by simp
qed

end
