(* ===== verification/Fidelity.thy ===== *)
theory Fidelity
  imports Json
begin

text \<open>
  \<open>app/services/fidelity_profiles.py\<close>: the canonical profile of each fidelity tier and how a job's
  era profile and configuration are resolved against it. The tiers are ordered by strictness.
  Catalog labels and descriptions are not modelled.
\<close>

datatype fidelity_tier = ENHANCE | RESTORE | CONSERVE

fun tier_value :: "fidelity_tier \<Rightarrow> string" where
  "tier_value ENHANCE = ''Enhance''"
| "tier_value RESTORE = ''Restore''"
| "tier_value CONSERVE = ''Conserve''"

text \<open>\<open>FidelityTier(s)\<close>\<close>

definition tier_of_value :: "string \<Rightarrow> fidelity_tier result" where
  "tier_of_value s =
     (if s = ''Enhance'' then Inr ENHANCE else if s = ''Restore'' then Inr RESTORE
      else if s = ''Conserve'' then Inr CONSERVE else Inl (ValueError s))"

fun strictness :: "fidelity_tier \<Rightarrow> nat" where
  "strictness ENHANCE = 0"
| "strictness RESTORE = 1"
| "strictness CONSERVE = 2"

instantiation fidelity_tier :: linorder
begin

definition less_eq_fidelity_tier :: "fidelity_tier \<Rightarrow> fidelity_tier \<Rightarrow> bool" where
  "less_eq_fidelity_tier a b = (strictness a \<le> strictness b)"

definition less_fidelity_tier :: "fidelity_tier \<Rightarrow> fidelity_tier \<Rightarrow> bool" where
  "less_fidelity_tier a b = (strictness a < strictness b)"

instance
proof
  fix a b :: fidelity_tier
  show "a \<le> b \<Longrightarrow> b \<le> a \<Longrightarrow> a = b"
    by (cases a; cases b) (simp_all add: less_eq_fidelity_tier_def)
qed (auto simp: less_eq_fidelity_tier_def less_fidelity_tier_def)

end

datatype grain_preset = MATCHED | SUBTLE | HEAVY

fun grain_value :: "grain_preset \<Rightarrow> string" where
  "grain_value MATCHED = ''Matched''"
| "grain_value SUBTLE = ''Subtle''"
| "grain_value HEAVY = ''Heavy''"

datatype user_persona = ARCHIVIST | FILMMAKER | PROSUMER

record fidelity_profile =
  fp_tier :: fidelity_tier
  e_hf_min :: rat
  s_ls_band_db :: rat
  t_tc_min :: rat
  hallucination_limit_max :: rat
  default_grain :: grain_preset
  codeformer_weight_min :: rat
  codeformer_weight_max :: rat
  identity_lock :: bool
  error_policy :: string
  uncertainty_callout_threshold :: rat

fun fidelity_profile_for :: "fidelity_tier \<Rightarrow> fidelity_profile" where
  "fidelity_profile_for ENHANCE = \<lparr>fp_tier = ENHANCE, e_hf_min = 55 / 100, s_ls_band_db = 6, t_tc_min = 90 / 100,
     hallucination_limit_max = 30 / 100, default_grain = SUBTLE, codeformer_weight_min = 15 / 100,
     codeformer_weight_max = 30 / 100, identity_lock = False, error_policy = ''permissive'',
     uncertainty_callout_threshold = 6 / 100\<rparr>"
| "fidelity_profile_for RESTORE = \<lparr>fp_tier = RESTORE, e_hf_min = 70 / 100, s_ls_band_db = 4, t_tc_min = 90 / 100,
     hallucination_limit_max = 15 / 100, default_grain = MATCHED, codeformer_weight_min = 5 / 100,
     codeformer_weight_max = 15 / 100, identity_lock = False, error_policy = ''balanced'',
     uncertainty_callout_threshold = 4 / 100\<rparr>"
| "fidelity_profile_for CONSERVE = \<lparr>fp_tier = CONSERVE, e_hf_min = 85 / 100, s_ls_band_db = 2, t_tc_min = 90 / 100,
     hallucination_limit_max = 5 / 100, default_grain = MATCHED, codeformer_weight_min = 0,
     codeformer_weight_max = 49 / 1000, identity_lock = True, error_policy = ''strict'',
     uncertainty_callout_threshold = 2 / 100\<rparr>"

fun default_tier_for_persona :: "user_persona \<Rightarrow> fidelity_tier" where
  "default_tier_for_persona ARCHIVIST = CONSERVE"
| "default_tier_for_persona FILMMAKER = RESTORE"
| "default_tier_for_persona PROSUMER = ENHANCE"

fun relative_cost_multiplier_for_tier :: "fidelity_tier \<Rightarrow> rat" where
  "relative_cost_multiplier_for_tier ENHANCE = 1"
| "relative_cost_multiplier_for_tier RESTORE = 3 / 2"
| "relative_cost_multiplier_for_tier CONSERVE = 2"

definition allowed_grain_presets_for_tier :: "fidelity_tier \<Rightarrow> grain_preset list" where
  "allowed_grain_presets_for_tier tier = [MATCHED, SUBTLE, HEAVY]"

type_synonym jdict = "(string \<times> json) list"

definition config_override :: "jdict \<Rightarrow> string \<Rightarrow> json" where
  "config_override config key =
     (case dget config key of
        Some v \<Rightarrow> v
      | None \<Rightarrow> (case jget config ''fidelity_overrides'' of JObj d \<Rightarrow> jget d key | _ \<Rightarrow> JNull))"

definition invalid_override :: "'a result" where
  "invalid_override = Inl (ProblemException ''Invalid Fidelity Override'' 400)"

definition grain_preset_from :: "codec \<Rightarrow> json \<Rightarrow> grain_preset option result" where
  "grain_preset_from c v =
     (if v = JNull \<or> v = JStr [] then Inr None
      else
        (let s = py_str c v in
         if s = ''Matched'' then Inr (Some MATCHED)
         else if s = ''Subtle'' then Inr (Some SUBTLE)
         else if s = ''Heavy'' then Inr (Some HEAVY)
         else invalid_override))"

definition resolve_grain_preset :: "codec \<Rightarrow> fidelity_tier \<Rightarrow> jdict \<Rightarrow> jdict \<Rightarrow> grain_preset result" where
  "resolve_grain_preset c tier era config =
     bind_res (obj_or_empty (jget era ''artifact_policy'')) (\<lambda>policy.
     bind_res (grain_preset_from c (jget policy ''grain_intensity'')) (\<lambda>era_grain.
     case era_grain of
       None \<Rightarrow> invalid_override
     | Some eg \<Rightarrow>
         bind_res (grain_preset_from c (config_override config ''grain_intensity'')) (\<lambda>rq0.
         bind_res (case rq0 of Some g \<Rightarrow> Inr (Some g)
                   | None \<Rightarrow> grain_preset_from c (jget config ''grain_preset'')) (\<lambda>rq.
         if rq \<noteq> None \<and> rq \<noteq> Some eg then invalid_override
         else
           (let resolved = (case rq of Some g \<Rightarrow> g | None \<Rightarrow> eg) in
            if resolved \<notin> set (allowed_grain_presets_for_tier tier) then invalid_override
            else Inr resolved)))))"

text \<open>
  \<open>round((min + max) / 2, 3)\<close> of the three profiles. For Conserve the middle of 0 and 0.049 lies, as a
  binary float, just above 0.0245, so Python rounds it up to 0.025.
\<close>

fun default_codeformer_weight :: "fidelity_tier \<Rightarrow> rat" where
  "default_codeformer_weight ENHANCE = 225 / 1000"
| "default_codeformer_weight RESTORE = 1 / 10"
| "default_codeformer_weight CONSERVE = 25 / 1000"

text \<open>
  The era profile's hallucination limit may be any float. The face-restoration weight is finite: no
  special value lies between the two bounds of the chained comparison that it has to pass.
\<close>

record resolved_fidelity =
  rf_profile :: fidelity_profile
  rf_grain_preset :: grain_preset
  rf_hallucination_limit :: pyfloat
  rf_codeformer_weight :: rat

fun weight_within :: "fidelity_profile \<Rightarrow> pyfloat \<Rightarrow> rat result" where
  "weight_within profile (Fin w) =
     (if \<not> (codeformer_weight_min profile \<le> w \<and> w \<le> codeformer_weight_max profile)
      then invalid_override else Inr w)"
| "weight_within profile (Special x) = invalid_override"

lemma weight_within_Inr [simp]:
  "weight_within profile x = Inr w \<longleftrightarrow>
     x = Fin w \<and> codeformer_weight_min profile \<le> w \<and> w \<le> codeformer_weight_max profile"
  by (cases x) (auto simp: invalid_override_def)

definition resolve_fidelity_profile ::
  "codec \<Rightarrow> (string \<Rightarrow> rat option) \<Rightarrow> fidelity_tier \<Rightarrow> jdict \<Rightarrow> jdict \<Rightarrow> resolved_fidelity result" where
  "resolve_fidelity_profile c rd tier era config =
     (let profile = fidelity_profile_for tier in
      if py_str c (jget era ''mode'') \<noteq> tier_value tier
      then Inl (ProblemException ''Invalid Fidelity Tier'' 400)
      else
        bind_res (to_pyfloat rd (case dget era ''hallucination_limit'' of None \<Rightarrow> JFloat 0 | Some v \<Rightarrow> v)) (\<lambda>limit.
        if float_lt (Fin (hallucination_limit_max profile)) limit then invalid_override
        else
          bind_res (resolve_grain_preset c tier era config) (\<lambda>grain.
          let rh = config_override config ''hallucination_limit'' in
          bind_res (if rh = JNull then Inr (Fin 0) else to_pyfloat rd rh) (\<lambda>h.
          if rh \<noteq> JNull \<and> float_lt (Fin (hallucination_limit_max profile)) h then invalid_override
          else
            (let rc = config_override config ''codeformer_weight'' in
             bind_res
               (if rc \<noteq> JNull then
                  bind_res (to_pyfloat rd rc) (weight_within profile)
                else Inr (default_codeformer_weight tier)) (\<lambda>weight.
             let rl = config_override config ''identity_lock'' in
             if rl \<noteq> JNull \<and> truthy rl \<noteq> identity_lock profile then invalid_override
             else Inr \<lparr>rf_profile = profile, rf_grain_preset = grain,
                    rf_hallucination_limit = float_min limit (Fin (hallucination_limit_max profile)),
                    rf_codeformer_weight = weight\<rparr>))))))"

text \<open>The dictionary form of a resolved profile, as it is stored with the job and hashed.\<close>

definition fidelity_json :: "resolved_fidelity \<Rightarrow> json" where
  "fidelity_json r =
     (let p = rf_profile r in
      JObj [(''tier'', JStr (tier_value (fp_tier p))), (''e_hf_min'', JFloat (e_hf_min p)),
        (''s_ls_band_db'', JFloat (s_ls_band_db p)), (''t_tc_min'', JFloat (t_tc_min p)),
        (''hallucination_limit_max'', JFloat (hallucination_limit_max p)),
        (''grain_preset'', JStr (grain_value (rf_grain_preset r))),
        (''codeformer_weight_min'', JFloat (codeformer_weight_min p)),
        (''codeformer_weight_max'', JFloat (codeformer_weight_max p)),
        (''identity_lock'', JBool (identity_lock p)), (''error_policy'', JStr (error_policy p)),
        (''uncertainty_callout_threshold'', JFloat (uncertainty_callout_threshold p)),
        (''hallucination_limit'', json_of_float (rf_hallucination_limit r)),
        (''codeformer_weight'', JFloat (rf_codeformer_weight r)),
        (''thresholds'', JObj [(''e_hf_min'', JFloat (e_hf_min p)), (''s_ls_band_db'', JFloat (s_ls_band_db p)),
           (''t_tc_min'', JFloat (t_tc_min p))])])"

section \<open>Properties\<close>

text \<open>
  A stricter tier is stricter in every respect: higher texture and coherence minima, a narrower
  spectral band, a lower hallucination limit, weaker face restoration, earlier uncertainty callouts,
  a higher price, and it keeps the identity lock of a laxer one.
\<close>

theorem stricter_tier_is_stricter:
  assumes "a \<le> b"
  shows "e_hf_min (fidelity_profile_for a) \<le> e_hf_min (fidelity_profile_for b) \<and>
    t_tc_min (fidelity_profile_for a) \<le> t_tc_min (fidelity_profile_for b) \<and>
    s_ls_band_db (fidelity_profile_for b) \<le> s_ls_band_db (fidelity_profile_for a) \<and>
    hallucination_limit_max (fidelity_profile_for b) \<le> hallucination_limit_max (fidelity_profile_for a) \<and>
    codeformer_weight_max (fidelity_profile_for b) \<le> codeformer_weight_max (fidelity_profile_for a) \<and>
    uncertainty_callout_threshold (fidelity_profile_for b) \<le> uncertainty_callout_threshold (fidelity_profile_for a) \<and>
    relative_cost_multiplier_for_tier a \<le> relative_cost_multiplier_for_tier b \<and>
    (identity_lock (fidelity_profile_for a) \<longrightarrow> identity_lock (fidelity_profile_for b))"
  using assms by (cases a; cases b) (simp_all add: less_eq_fidelity_tier_def)

theorem stricter_tier_is_stricter_witness:
  "RESTORE \<le> CONSERVE \<and> hallucination_limit_max (fidelity_profile_for CONSERVE) \<le>
     hallucination_limit_max (fidelity_profile_for RESTORE)"
proof -
  have le: "RESTORE \<le> CONSERVE" by (simp add: less_eq_fidelity_tier_def)
  from stricter_tier_is_stricter [OF le] le show ?thesis by blast
qed

lemma float_within:
  assumes "\<not> float_lt (Fin m) x"
  shows "float_min x (Fin m) = x \<and> (float_le x (Fin m) \<or> x = Special NotANumber)"
proof (cases x)
  case (Fin q)
  with assms show ?thesis by simp
next
  case (Special s)
  with assms show ?thesis by (cases s) (simp_all add: float_min_def)
qed

lemma grain_from_override: "grain_preset_from c v = Inr (Some g) \<Longrightarrow> v \<noteq> JNull"
  by (auto simp: grain_preset_from_def)

text \<open>
  C31: A configuration cannot loosen its tier, with one gap. A resolved profile is the requested tier's
  profile; its hallucination limit is the one of the era profile (0 where it has none) and within the
  tier's maximum, unless it is \<open>NaN\<close>, which passes every comparison of the check; its
  face-restoration weight is a number within the tier's range, its grain the era profile's grain; and
  an explicit identity lock in the configuration agreed with the tier.
\<close>

theorem resolved_profile_within_tier:
  assumes "resolve_fidelity_profile c rd tier era config = Inr r"
  shows "rf_profile r = fidelity_profile_for tier \<and> py_str c (jget era ''mode'') = tier_value tier \<and>
    to_pyfloat rd (case dget era ''hallucination_limit'' of None \<Rightarrow> JFloat 0 | Some v \<Rightarrow> v) = Inr (rf_hallucination_limit r) \<and>
    (float_le (rf_hallucination_limit r) (Fin (hallucination_limit_max (fidelity_profile_for tier))) \<or>
     rf_hallucination_limit r = Special NotANumber) \<and>
    codeformer_weight_min (fidelity_profile_for tier) \<le> rf_codeformer_weight r \<and>
    rf_codeformer_weight r \<le> codeformer_weight_max (fidelity_profile_for tier) \<and>
    (\<exists>policy. obj_or_empty (jget era ''artifact_policy'') = Inr policy \<and>
       grain_preset_from c (jget policy ''grain_intensity'') = Inr (Some (rf_grain_preset r))) \<and>
    (config_override config ''identity_lock'' = JNull \<or>
     truthy (config_override config ''identity_lock'') = identity_lock (fidelity_profile_for tier))"
proof -
  have dw: "codeformer_weight_min (fidelity_profile_for tier) \<le> default_codeformer_weight tier"
    "default_codeformer_weight tier \<le> codeformer_weight_max (fidelity_profile_for tier)"
    by (cases tier; simp)+
  from assms obtain grain limit where g: "resolve_grain_preset c tier era config = Inr grain"
    and l: "to_pyfloat rd (case dget era ''hallucination_limit'' of None \<Rightarrow> JFloat 0 | Some v \<Rightarrow> v) = Inr limit"
      "\<not> float_lt (Fin (hallucination_limit_max (fidelity_profile_for tier))) limit"
      "rf_hallucination_limit r = float_min limit (Fin (hallucination_limit_max (fidelity_profile_for tier)))"
    and r: "rf_grain_preset r = grain" "rf_profile r = fidelity_profile_for tier"
      "codeformer_weight_min (fidelity_profile_for tier) \<le> rf_codeformer_weight r"
      "rf_codeformer_weight r \<le> codeformer_weight_max (fidelity_profile_for tier)"
      "py_str c (jget era ''mode'') = tier_value tier"
      "config_override config ''identity_lock'' = JNull \<or>
       truthy (config_override config ''identity_lock'') = identity_lock (fidelity_profile_for tier)"
    using dw by (auto simp: resolve_fidelity_profile_def Let_def bind_res_Inr_iff invalid_override_def
        split: if_splits)
  from g have "\<exists>policy. obj_or_empty (jget era ''artifact_policy'') = Inr policy \<and>
       grain_preset_from c (jget policy ''grain_intensity'') = Inr (Some grain)"
    by (auto simp: resolve_grain_preset_def bind_res_Inr_iff invalid_override_def Let_def
        split: option.splits if_splits)
  with r l float_within [OF l(2)] show ?thesis by simp
qed

definition sample_era :: jdict where
  "sample_era = [(''mode'', JStr ''Conserve''), (''hallucination_limit'', JFloat (3 / 100)),
     (''artifact_policy'', JObj [(''grain_intensity'', JStr ''Heavy'')])]"

text \<open>The same era profile with the hallucination limit \<open>NaN\<close>.\<close>

definition nan_era :: jdict where
  "nan_era = [(''mode'', JStr ''Conserve''), (''hallucination_limit'', JSpecial NotANumber),
     (''artifact_policy'', JObj [(''grain_intensity'', JStr ''Heavy'')])]"

theorem resolved_profile_within_tier_witness:
  "(\<exists>r. resolve_fidelity_profile plain_codec (\<lambda>_. None) CONSERVE sample_era
       [(''fidelity_overrides'', JObj [(''codeformer_weight'', JFloat (4 / 100))]), (''identity_lock'', JBool True)]
     = Inr r \<and> rf_codeformer_weight r \<le> 49 / 1000) \<and>
   (\<exists>r. resolve_fidelity_profile plain_codec (\<lambda>_. None) CONSERVE nan_era [] = Inr r \<and>
      rf_hallucination_limit r = Special NotANumber \<and> rf_codeformer_weight r \<le> 49 / 1000)"
proof -
  note run = resolve_fidelity_profile_def sample_era_def nan_era_def resolve_grain_preset_def grain_preset_from_def
    config_override_def allowed_grain_presets_for_tier_def Let_def
  obtain r where r: "resolve_fidelity_profile plain_codec (\<lambda>_. None) CONSERVE sample_era
       [(''fidelity_overrides'', JObj [(''codeformer_weight'', JFloat (4 / 100))]), (''identity_lock'', JBool True)]
     = Inr r"
    by (simp add: run)
  obtain n where n: "resolve_fidelity_profile plain_codec (\<lambda>_. None) CONSERVE nan_era [] = Inr n"
    by (simp add: run)
  from resolved_profile_within_tier [OF r] r resolved_profile_within_tier [OF n] n show ?thesis
    by (simp add: nan_era_def)
qed

end
