(* ===== verification/Quality.thy ===== *)
theory Quality
  imports Fidelity
begin

text \<open>
  \<open>app/services/quality_metrics.py\<close> and \<open>app/services/reproducibility.py\<close>: the reference metrics a
  processed segment gets, its reproducibility proof, and the summaries over a job. SHA-256 is the
  codec's; the metrics are pseudo-random numbers derived from it.
\<close>

section \<open>Seeds\<close>

text \<open>\<open>int(s, 16)\<close> of a hexadecimal digest; \<open>hexdigest()\<close> has no other characters.\<close>

definition hex_digit :: "char \<Rightarrow> int" where
  "hex_digit ch = (let n = of_char ch :: nat in
     if 48 \<le> n \<and> n \<le> 57 then int n - 48 else if 97 \<le> n \<and> n \<le> 102 then int n - 87 else 0)"

fun hex_value :: "int \<Rightarrow> string \<Rightarrow> int" where
  "hex_value acc [] = acc"
| "hex_value acc (ch # cs) = hex_value (16 * acc + hex_digit ch) cs"

fun join_bar :: "string list \<Rightarrow> string" where
  "join_bar [] = []"
| "join_bar [s] = s"
| "join_bar (s # t # ss) = s @ ''|'' @ join_bar (t # ss)"

definition seed_fraction :: "codec \<Rightarrow> string list \<Rightarrow> rat" where
  "seed_fraction c parts = of_int (hex_value 0 (take 12 (sha256_hex c (join_bar parts)))) / of_int (16 ^ 12 - 1)"

lemma hex_digit_range: "0 \<le> hex_digit ch \<and> hex_digit ch \<le> 15"
  by (auto simp: hex_digit_def Let_def)

lemma hex_value_range:
  "0 \<le> acc \<Longrightarrow> 0 \<le> hex_value acc s \<and> hex_value acc s \<le> acc * 16 ^ length s + (16 ^ length s - 1)"
proof (induction acc s rule: hex_value.induct)
  case (1 acc)
  then show ?case by simp
next
  case (2 acc ch cs)
  note d = hex_digit_range [of ch]
  with 2 have IH: "0 \<le> hex_value (16 * acc + hex_digit ch) cs"
    "hex_value (16 * acc + hex_digit ch) cs \<le> (16 * acc + hex_digit ch) * 16 ^ length cs + (16 ^ length cs - 1)"
    by simp_all
  have "(16 * acc + hex_digit ch) * 16 ^ length cs \<le> (16 * acc + 15) * 16 ^ length cs"
    using d by (intro mult_right_mono) auto
  with IH have "hex_value (16 * acc + hex_digit ch) cs \<le> (16 * acc + 15) * 16 ^ length cs + (16 ^ length cs - 1)"
    by linarith
  with IH(1) show ?case by (simp add: algebra_simps)
qed

lemma seed_range: "0 \<le> seed_fraction c parts \<and> seed_fraction c parts \<le> 1"
proof -
  let ?s = "take 12 (sha256_hex c (join_bar parts))"
  have "(16 :: int) ^ length ?s \<le> 16 ^ 12" by (intro power_increasing) auto
  with hex_value_range [of 0 ?s] have "0 \<le> hex_value 0 ?s" "hex_value 0 ?s \<le> 16 ^ 12 - 1" by auto
  then have "0 \<le> (of_int (hex_value 0 ?s) :: rat)" "(of_int (hex_value 0 ?s) :: rat) \<le> of_int (16 ^ 12 - 1)"
    by (simp, subst of_int_le_iff)
  then show ?thesis by (simp add: seed_fraction_def)
qed

section \<open>Metrics\<close>

record sampling_protocol =
  frames_per_second :: rat
  frames_sampled :: int
  sampled_timestamps_seconds :: "rat list"

definition build_sampling_protocol :: "int \<Rightarrow> sampling_protocol" where
  "build_sampling_protocol dur =
     (let frames = max dur 1 in
      \<lparr>frames_per_second = py_round 2 (of_int frames / of_int (max dur 1)), frames_sampled = frames,
        sampled_timestamps_seconds =
          map (\<lambda>i. py_round 3 (((of_int i + 1 / 2) * of_int (max dur 1)) / of_int frames)) [0 .. frames - 1]\<rparr>)"

record quality =
  q_e_hf :: rat
  q_s_ls_db :: rat
  q_t_tc :: rat
  q_thresholds_met :: bool
  noise_floor_correction :: rat
  reference_deviation_percent :: rat
  q_sampling :: sampling_protocol
  q_uncertainty_callouts :: "string list"
  metric_latency_ms :: int

text \<open>What \<open>calculate\<close> reads of the job and the segment.\<close>

record quality_input =
  qi_job_id :: string
  qi_checksum :: string
  qi_config :: json
  qi_segment_index :: int
  qi_duration :: int

definition e_hf_metric :: "fidelity_profile \<Rightarrow> rat \<Rightarrow> rat \<Rightarrow> rat" where
  "e_hf_metric fp base_seed noise =
     py_round 6 (min (99 / 100) (max (e_hf_min fp)
       (e_hf_min fp + 35 / 1000 + (base_seed - 1 / 2) * (2 / 100) - noise / 5)))"

definition s_ls_metric :: "fidelity_profile \<Rightarrow> rat \<Rightarrow> rat" where
  "s_ls_metric fp slope_seed = py_round 6 ((slope_seed - 1 / 2) * s_ls_band_db fp * (14 / 10))"

definition t_tc_metric :: "fidelity_profile \<Rightarrow> rat \<Rightarrow> rat" where
  "t_tc_metric fp coherence_seed =
     py_round 6 (min (999999 / 1000000) (max (t_tc_min fp)
       (t_tc_min fp + 3 / 100 + coherence_seed * (2 / 100))))"

definition calculate_quality :: "codec \<Rightarrow> quality_input \<Rightarrow> fidelity_profile \<Rightarrow> quality" where
  "calculate_quality c i fp =
     (let protocol = build_sampling_protocol (qi_duration i);
          cfg = json_dumps_compact c (if truthy (qi_config i) then qi_config i else JObj []);
          idx = dec_int (qi_segment_index i);
          base_seed = seed_fraction c [qi_checksum i, idx, tier_value (fp_tier fp), cfg];
          slope_seed = seed_fraction c [qi_job_id i, idx, ''s_ls'', cfg];
          coherence_seed = seed_fraction c [qi_job_id i, idx, ''t_tc'', cfg];
          noise = py_round 6 (18 / 1000 + seed_fraction c [qi_job_id i, idx, ''noise''] * (12 / 1000));
          e_hf = e_hf_metric fp base_seed noise;
          s_ls = s_ls_metric fp slope_seed;
          t_tc = t_tc_metric fp coherence_seed in
      \<lparr>q_e_hf = e_hf, q_s_ls_db = s_ls, q_t_tc = t_tc,
        q_thresholds_met = (e_hf \<ge> e_hf_min fp \<and> \<bar>s_ls\<bar> \<le> s_ls_band_db fp \<and> t_tc \<ge> t_tc_min fp),
        noise_floor_correction = noise, reference_deviation_percent = 0, q_sampling = protocol,
        q_uncertainty_callouts =
          (if e_hf - e_hf_min fp \<le> uncertainty_callout_threshold fp then [''texture_energy_margin_low''] else []) @
          (if s_ls_band_db fp - \<bar>s_ls\<bar> \<le> uncertainty_callout_threshold fp * 100
           then [''spectral_slope_margin_low''] else []) @
          (if t_tc - t_tc_min fp \<le> uncertainty_callout_threshold fp then [''temporal_coherence_margin_low''] else []),
        metric_latency_ms = min 1800 (max (qi_duration i * 120) 120)\<rparr>)"

record quality_summary =
  qs_e_hf :: rat
  qs_s_ls_db :: rat
  qs_t_tc :: rat
  qs_thresholds_met :: bool

definition mean :: "rat list \<Rightarrow> rat" where
  "mean xs = sum_list xs / of_nat (length xs)"

definition aggregate_quality_metrics :: "quality list \<Rightarrow> quality_summary" where
  "aggregate_quality_metrics ms =
     (if ms = [] then \<lparr>qs_e_hf = 0, qs_s_ls_db = 0, qs_t_tc = 0, qs_thresholds_met = False\<rparr>
      else \<lparr>qs_e_hf = py_round 6 (mean (map q_e_hf ms)), qs_s_ls_db = py_round 6 (mean (map q_s_ls_db ms)),
        qs_t_tc = py_round 6 (mean (map q_t_tc ms)), qs_thresholds_met = (\<forall>m \<in> set ms. q_thresholds_met m)\<rparr>)"

section \<open>Reproducibility\<close>

datatype reproducibility_mode = PERCEPTUAL_EQUIVALENCE | DETERMINISTIC | BIT_IDENTICAL

fun mode_value :: "reproducibility_mode \<Rightarrow> string" where
  "mode_value PERCEPTUAL_EQUIVALENCE = ''perceptual_equivalence''"
| "mode_value DETERMINISTIC = ''deterministic''"
| "mode_value BIT_IDENTICAL = ''bit_identical''"

definition mode_of_value :: "string \<Rightarrow> reproducibility_mode result" where
  "mode_of_value s =
     (if s = ''perceptual_equivalence'' then Inr PERCEPTUAL_EQUIVALENCE
      else if s = ''deterministic'' then Inr DETERMINISTIC
      else if s = ''bit_identical'' then Inr BIT_IDENTICAL else Inl (ValueError s))"

definition validate_reproducibility_mode :: "string \<Rightarrow> reproducibility_mode \<Rightarrow> string \<Rightarrow> unit result" where
  "validate_reproducibility_mode environment mode plan_tier =
     (let tier = lower plan_tier in
      if mode = DETERMINISTIC \<and> tier \<notin> {''pro'', ''museum''}
      then Inl (ProblemException ''Unsupported Reproducibility Mode'' 403)
      else if mode = BIT_IDENTICAL \<and> (tier \<noteq> ''museum'' \<or> environment = ''production'')
      then Inl (ProblemException ''Unsupported Reproducibility Mode'' 403)
      else Inr ())"

text \<open>The settings \<open>environment_fingerprint\<close> hashes, as the dictionary it builds.\<close>

definition environment_fingerprint :: "codec \<Rightarrow> (string \<times> json) list \<Rightarrow> string" where
  "environment_fingerprint c build_settings = sha256_hex c (json_dumps_compact c (JObj build_settings))"

record reproducibility_proof =
  rp_mode :: reproducibility_mode
  rp_environment_fingerprint :: string
  frame_hashes :: "string list"
  rp_passed :: bool
  metric_epsilon_percent :: rat
  rp_rerun_count :: int
  perceptual_hash_hamming_distance :: int

definition metric_epsilon :: "reproducibility_mode \<Rightarrow> rat" where
  "metric_epsilon mode = (if mode = PERCEPTUAL_EQUIVALENCE then 1 / 2 else 1 / 1000000)"

definition build_segment_reproducibility_proof ::
  "codec \<Rightarrow> (string \<times> json) list \<Rightarrow> quality_input \<Rightarrow> quality \<Rightarrow> reproducibility_mode \<Rightarrow> int \<Rightarrow> bool \<Rightarrow>
   reproducibility_proof" where
  "build_segment_reproducibility_proof c bs i q mode rerun_count verification_failed =
     \<lparr>rp_mode = mode, rp_environment_fingerprint = environment_fingerprint c bs,
       frame_hashes = map (\<lambda>k. sha256_hex c (qi_checksum i @ ''|'' @ dec_int (qi_segment_index i) @ ''|'' @
           mode_value mode @ ''|'' @ dec_int k)) [0 .. min (frames_sampled (q_sampling q)) 3 - 1],
       rp_passed = (\<not> verification_failed), metric_epsilon_percent = metric_epsilon mode,
       rp_rerun_count = rerun_count,
       perceptual_hash_hamming_distance = (if verification_failed then 4 else 1)\<rparr>"

datatype rollup_level = RollupPass | RollupPartial | RollupWarning | RollupCritical

record reproducibility_summary =
  rs_mode :: reproducibility_mode
  rs_passed :: bool
  rs_failed_segment_count :: int
  rs_rerun_count :: int
  rs_rollup :: rollup_level
  rs_metric_epsilon_percent :: rat
  rs_environment_fingerprint :: string

definition rollup_level_of :: "int \<Rightarrow> int \<Rightarrow> rollup_level" where
  "rollup_level_of failed proofs =
     (let failed_percent = (of_int failed / of_int (max proofs 1)) * 100 :: rat in
      if failed = 0 then RollupPass else if failed_percent < 5 then RollupPartial
      else if failed_percent > 20 then RollupCritical else RollupWarning)"

definition rollup_reproducibility ::
  "codec \<Rightarrow> (string \<times> json) list \<Rightarrow> reproducibility_mode \<Rightarrow> reproducibility_proof list \<Rightarrow> reproducibility_summary" where
  "rollup_reproducibility c bs mode proofs =
     (let failed = int (length (filter (\<lambda>p. \<not> rp_passed p) proofs)) in
      \<lparr>rs_mode = mode, rs_passed = (failed = 0), rs_failed_segment_count = failed,
        rs_rerun_count = sum_list (map rp_rerun_count proofs),
        rs_rollup = rollup_level_of failed (int (length proofs)),
        rs_metric_epsilon_percent = metric_epsilon mode,
        rs_environment_fingerprint = environment_fingerprint c bs\<rparr>)"

section \<open>The reference metrics are in range\<close>

lemma py_round6_hundredths: "py_round 6 (of_int k / 100) = of_int k / 100"
  by (rule py_round_exact [of _ _ "k * 10000"]) simp

lemma profile_thresholds_exact:
  "py_round 6 (e_hf_min (fidelity_profile_for t)) = e_hf_min (fidelity_profile_for t)"
  "py_round 6 (t_tc_min (fidelity_profile_for t)) = t_tc_min (fidelity_profile_for t)"
  using py_round6_hundredths [of 55] py_round6_hundredths [of 70] py_round6_hundredths [of 85]
    py_round6_hundredths [of 90]
  by (cases t; simp)+

lemma py_round_between:
  assumes "lo \<le> x" and "x \<le> hi" and "py_round n lo = lo" and "py_round n hi = hi"
  shows "lo \<le> py_round n x \<and> py_round n x \<le> hi"
  using py_round_mono [OF assms(1), of n] py_round_mono [OF assms(2), of n] assms(3,4) by simp

lemma clamp_round_ge: "py_round 6 lo = lo \<Longrightarrow> lo \<le> hi \<Longrightarrow> lo \<le> py_round 6 (min hi (max lo x))"
  using py_round_mono [of lo "min hi (max lo x)" 6] by simp

lemma e_hf_metric_ge: "e_hf_min (fidelity_profile_for t) \<le> e_hf_metric (fidelity_profile_for t) x y"
proof -
  have "e_hf_min (fidelity_profile_for t) \<le> 99 / 100" by (cases t) simp_all
  then show ?thesis unfolding e_hf_metric_def by (rule clamp_round_ge [OF profile_thresholds_exact(1)])
qed

lemma t_tc_metric_ge: "t_tc_min (fidelity_profile_for t) \<le> t_tc_metric (fidelity_profile_for t) x"
proof -
  have "t_tc_min (fidelity_profile_for t) \<le> 999999 / 1000000" by (cases t) simp_all
  then show ?thesis unfolding t_tc_metric_def by (rule clamp_round_ge [OF profile_thresholds_exact(2)])
qed

lemma s_ls_metric_abs:
  assumes "0 \<le> x" and "x \<le> 1"
  shows "\<bar>s_ls_metric (fidelity_profile_for t) x\<bar> \<le> s_ls_band_db (fidelity_profile_for t)"
proof -
  let ?b = "s_ls_band_db (fidelity_profile_for t)"
  obtain k where b: "?b = of_int k" "0 \<le> k"
  proof (cases t)
    case ENHANCE
    then show thesis using that [of 6] by simp
  next
    case RESTORE
    then show thesis using that [of 4] by simp
  next
    case CONSERVE
    then show thesis using that [of 2] by simp
  qed
  have up: "(x - 1 / 2) * ?b * (14 / 10) \<le> ?b"
  proof -
    have "(x - 1 / 2) * (14 / 10) * ?b \<le> 1 * ?b" using assms b by (intro mult_right_mono) auto
    then show ?thesis by (simp only: mult.commute mult.left_commute mult_1)
  qed
  have low: "- ?b \<le> (x - 1 / 2) * ?b * (14 / 10)"
  proof -
    have "- 1 * ?b \<le> (x - 1 / 2) * (14 / 10) * ?b" using assms b by (intro mult_right_mono) auto
    then show ?thesis by (simp only: mult.commute mult.left_commute mult_minus1)
  qed
  have "py_round 6 ?b = ?b" "py_round 6 (- ?b) = - ?b"
    using py_round_int [of 6 k] py_round_int [of 6 "- k"] b by simp_all
  from py_round_between [OF low up this(2,1)] show ?thesis
    by (auto simp: s_ls_metric_def abs_le_iff)
qed

fun level_rank :: "rollup_level \<Rightarrow> nat" where
  "level_rank RollupPass = 0"
| "level_rank RollupPartial = 1"
| "level_rank RollupWarning = 2"
| "level_rank RollupCritical = 3"

section \<open>Properties\<close>

text \<open>
  Whatever job, segment and configuration, and whatever the hash function is, the reference metrics
  of a segment meet all three thresholds of its tier; so the summary of any non-empty list of them does.
\<close>

theorem reference_metrics_meet_thresholds:
  "q_thresholds_met (calculate_quality c i (fidelity_profile_for tier)) \<and>
   qs_thresholds_met (aggregate_quality_metrics
     (map (\<lambda>(j, t). calculate_quality c j (fidelity_profile_for t)) (jt # jts)))"
proof -
  have met: "q_thresholds_met (calculate_quality c j (fidelity_profile_for t))" for j t
    using e_hf_metric_ge [of t] t_tc_metric_ge [of t] s_ls_metric_abs [of _ t] seed_range
    unfolding calculate_quality_def Let_def quality.simps by blast
  then show ?thesis by (auto simp: aggregate_quality_metrics_def split: prod.splits)
qed

text \<open>
  The reproducibility rollup never improves when another proof of the job fails, and it is a pass
  exactly when no proof failed.
\<close>

theorem rollup_monotone:
  "level_rank (rs_rollup (rollup_reproducibility c bs mode (xs @ [p] @ ys))) \<le>
     level_rank (rs_rollup (rollup_reproducibility c bs mode (xs @ [p\<lparr>rp_passed := False\<rparr>] @ ys))) \<and>
   (rs_rollup (rollup_reproducibility c bs mode ps) = RollupPass) = list_all rp_passed ps \<and>
   rs_passed (rollup_reproducibility c bs mode ps) = list_all rp_passed ps"
proof -
  have mono: "level_rank (rollup_level_of a n) \<le> level_rank (rollup_level_of b n)" if "0 \<le> a" "a \<le> b" for a b n
  proof -
    have "(of_int a / of_int (max n 1)) * 100 \<le> ((of_int b / of_int (max n 1)) * 100 :: rat)"
      using that by (simp add: divide_right_mono)
    with that show ?thesis by (auto simp: rollup_level_of_def Let_def)
  qed
  have pass: "rollup_level_of f n = RollupPass \<longleftrightarrow> f = 0" for f n
    by (simp add: rollup_level_of_def Let_def)
  have none: "length (filter (\<lambda>p. \<not> rp_passed p) ps) = 0 \<longleftrightarrow> list_all rp_passed ps"
    by (simp add: filter_empty_conv list_all_iff)
  have "level_rank (rs_rollup (rollup_reproducibility c bs mode (xs @ [p] @ ys))) \<le>
     level_rank (rs_rollup (rollup_reproducibility c bs mode (xs @ [p\<lparr>rp_passed := False\<rparr>] @ ys)))"
    unfolding rollup_reproducibility_def Let_def reproducibility_summary.simps
    by (simp only: length_append list.size filter_append, rule mono) (simp_all split: if_splits)
  moreover have "(rs_rollup (rollup_reproducibility c bs mode ps) = RollupPass) = list_all rp_passed ps"
    "rs_passed (rollup_reproducibility c bs mode ps) = list_all rp_passed ps"
    unfolding rollup_reproducibility_def Let_def reproducibility_summary.simps pass
    using none by linarith+
  ultimately show ?thesis by blast
qed

end
