(* ===== verification/Pricebook.thy ===== *)
theory Pricebook
  imports Json
begin

text \<open>
  \<open>app/billing/pricebook.py\<close>: parsing and validating the commercial pricebook, and resolving the
  entry of a plan tier. Every raise of the source is an \<open>Inl\<close> branch with the source's message.
  The lemmas state what a parsed pricebook guarantees and that a validated one resolves every
  supported tier.
\<close>

definition SUPPORTED_PLAN_TIERS :: "string list" where
  "SUPPORTED_PLAN_TIERS = [''hobbyist'', ''pro'', ''museum'']"

definition SUPPORTED_FIDELITY_TIERS :: "string list" where
  "SUPPORTED_FIDELITY_TIERS = [''Enhance'', ''Restore'', ''Conserve'']"

definition SUPPORTED_RESOLUTION_CAPS :: "string list" where
  "SUPPORTED_RESOLUTION_CAPS = [''1080p'', ''4k'', ''native_scan'']"

record overage =
  ov_enabled :: bool
  ov_price_id :: string
  ov_rate_usd_per_minute :: pyfloat

record entitlements =
  preview_review :: bool
  fidelity_tiers :: "string list"
  resolution_cap :: string
  parallel_jobs :: int
  export_retention_days :: int

record pricebook_entry =
  subscription_price_id :: string
  plan_tier :: string
  included_minutes_monthly :: int
  entry_overage :: overage
  entry_entitlements :: entitlements

record pricebook =
  pb_version :: string
  entries :: "(string, pricebook_entry) pydict"

abbreviation cfg_err :: "string \<Rightarrow> 'a result" where
  "cfg_err m \<equiv> Inl (CommercialPricebookConfigurationError m)"

section \<open>Field checks\<close>

fun require_dict :: "json \<Rightarrow> string \<Rightarrow> (string \<times> json) list result" where
  "require_dict (JObj d) field = Inr d"
| "require_dict _ field = cfg_err (field @ '' must be an object.'')"

fun require_string :: "json \<Rightarrow> string \<Rightarrow> string result" where
  "require_string (JStr s) field =
     (if strip s = [] then cfg_err (field @ '' must be a non-empty string.'') else Inr (strip s))"
| "require_string _ field = cfg_err (field @ '' must be a non-empty string.'')"

fun require_bool :: "json \<Rightarrow> string \<Rightarrow> bool result" where
  "require_bool (JBool b) field = Inr b"
| "require_bool _ field = cfg_err (field @ '' must be a boolean.'')"

fun require_int :: "json \<Rightarrow> string \<Rightarrow> int \<Rightarrow> int result" where
  "require_int (JInt i) field minimum =
     (if i < minimum then cfg_err (field @ '' must be >= '' @ dec_int minimum @ ''.'') else Inr i)"
| "require_int _ field minimum = cfg_err (field @ '' must be an integer.'')"

text \<open>
  The code calls this with \<open>minimum=0.0\<close> only, which prints as \<open>0.0\<close>. \<open>NaN\<close> is not below it.
\<close>

fun number_of :: "json \<Rightarrow> pyfloat option" where
  "number_of (JInt i) = Some (Fin (of_int i))"
| "number_of (JFloat q) = Some (Fin q)"
| "number_of (JSpecial x) = Some (Special x)"
| "number_of _ = None"

definition require_float :: "json \<Rightarrow> string \<Rightarrow> pyfloat result" where
  "require_float v field =
     (case number_of v of
        None \<Rightarrow> cfg_err (field @ '' must be a number.'')
      | Some q \<Rightarrow> if float_lt q (Fin 0) then cfg_err (field @ '' must be >= 0.0.'') else Inr q)"

section \<open>Parsing\<close>

definition parse_entitlements :: "codec \<Rightarrow> json \<Rightarrow> string \<Rightarrow> entitlements result" where
  "parse_entitlements c payload entry_name =
     (let field = (\<lambda>f. ''entries['' @ entry_name @ ''].entitlements'' @ f) in
      bind_res (require_dict payload (field [])) (\<lambda>ent.
      case jget ent ''fidelity_tiers'' of
        JList raw \<Rightarrow>
          if raw = [] then cfg_err (field ''.fidelity_tiers must be a non-empty array.'')
          else
            (let tiers = map (py_str c) raw in
             if \<exists>t \<in> set tiers. t \<notin> set SUPPORTED_FIDELITY_TIERS
             then cfg_err (field ''.fidelity_tiers must use canonical fidelity tiers only.'')
             else
               bind_res (require_string (jget ent ''resolution_cap'') (field ''.resolution_cap'')) (\<lambda>cap.
               if cap \<notin> set SUPPORTED_RESOLUTION_CAPS
               then cfg_err (field ''.resolution_cap must use a supported canonical value.'')
               else
                 bind_res (require_bool (jget ent ''preview_review'') (field ''.preview_review'')) (\<lambda>pr.
                 bind_res (require_int (jget ent ''parallel_jobs'') (field ''.parallel_jobs'') 1) (\<lambda>pj.
                 bind_res (require_int (jget ent ''export_retention_days'')
                             (field ''.export_retention_days'') 1) (\<lambda>days.
                 Inr \<lparr>preview_review = pr, fidelity_tiers = tiers, resolution_cap = cap,
                      parallel_jobs = pj, export_retention_days = days\<rparr>)))))
      | _ \<Rightarrow> cfg_err (field ''.fidelity_tiers must be a non-empty array.'')))"

definition parse_overage :: "codec \<Rightarrow> json \<Rightarrow> string \<Rightarrow> overage result" where
  "parse_overage c payload entry_name =
     (let field = (\<lambda>f. ''entries['' @ entry_name @ ''].overage'' @ f) in
      bind_res (require_dict payload (field [])) (\<lambda>ov.
      bind_res (require_bool (jget ov ''enabled'') (field ''.enabled'')) (\<lambda>enabled.
      let price_id = strip (str_or_empty c (jget ov ''price_id'')) in
      bind_res (require_float (jget ov ''rate_usd_per_minute'') (field ''.rate_usd_per_minute'')) (\<lambda>rate.
      if enabled \<and> price_id = []
      then cfg_err (field ''.price_id is required when overage.enabled is true.'')
      else if enabled \<and> float_le rate (Fin 0)
      then cfg_err (field ''.rate_usd_per_minute must be > 0 when overage.enabled is true.'')
      else if \<not> enabled \<and> \<not> float_eq rate (Fin 0)
      then cfg_err (field ''.rate_usd_per_minute must be 0 when overage.enabled is false.'')
      else Inr \<lparr>ov_enabled = enabled, ov_price_id = price_id, ov_rate_usd_per_minute = rate\<rparr>))))"

text \<open>The body of the loop over \<open>entries_raw.items()\<close>; the key is a JSON string.\<close>

definition parse_entry :: "codec \<Rightarrow> string \<Rightarrow> json \<Rightarrow> pricebook_entry result" where
  "parse_entry c key payload =
     bind_res (require_string (JStr key) ''COMMERCIAL_PRICEBOOK_JSON.entries key'') (\<lambda>entry_name.
     let field = (\<lambda>f. ''entries['' @ entry_name @ '']'' @ f) in
     bind_res (require_dict payload (field [])) (\<lambda>entry.
     bind_res (require_string (jget entry ''plan_tier'') (field ''.plan_tier'')) (\<lambda>tier_raw.
     let tier = lower tier_raw in
     if tier \<notin> set SUPPORTED_PLAN_TIERS
     then cfg_err (field ''.plan_tier must be one of: hobbyist, pro, museum.'')
     else
       bind_res (require_int (jget entry ''included_minutes_monthly'')
                   (field ''.included_minutes_monthly'') 0) (\<lambda>minutes.
       bind_res (parse_overage c (jget entry ''overage'') entry_name) (\<lambda>ov.
       bind_res (parse_entitlements c (jget entry ''entitlements'') entry_name) (\<lambda>ent.
       Inr \<lparr>subscription_price_id = entry_name, plan_tier = tier, included_minutes_monthly = minutes,
            entry_overage = ov, entry_entitlements = ent\<rparr>))))))"

fun parse_entries ::
  "codec \<Rightarrow> (string \<times> json) list \<Rightarrow> (string, pricebook_entry) pydict \<Rightarrow>
   (string, pricebook_entry) pydict result" where
  "parse_entries c [] acc = Inr acc"
| "parse_entries c ((k, v) # rest) acc =
     bind_res (parse_entry c k v) (\<lambda>e. parse_entries c rest (dset (subscription_price_id e) e acc))"

definition parse_commercial_pricebook :: "codec \<Rightarrow> string \<Rightarrow> pricebook result" where
  "parse_commercial_pricebook c raw_json =
     (if strip raw_json = [] then cfg_err ''COMMERCIAL_PRICEBOOK_JSON is required.''
      else
        (case json_loads c raw_json of
           None \<Rightarrow> cfg_err ''COMMERCIAL_PRICEBOOK_JSON must be valid JSON.''
         | Some payload \<Rightarrow>
             bind_res (require_dict payload ''COMMERCIAL_PRICEBOOK_JSON'') (\<lambda>root.
             bind_res (require_string (jget root ''version'') ''COMMERCIAL_PRICEBOOK_JSON.version'') (\<lambda>version.
             bind_res (require_dict (jget root ''entries'') ''COMMERCIAL_PRICEBOOK_JSON.entries'') (\<lambda>raw.
             if raw = [] then cfg_err ''COMMERCIAL_PRICEBOOK_JSON.entries must not be empty.''
             else bind_res (parse_entries c raw []) (\<lambda>es.
               Inr \<lparr>pb_version = version, entries = es\<rparr>))))))"

section \<open>Validation against the configured price ids, and resolution\<close>

type_synonym price_ids = "(string, string) pydict"

text \<open>\<open>str(recurring_price_ids_by_tier.get(tier) or "").strip()\<close>\<close>

definition price_id_of_tier :: "price_ids \<Rightarrow> string \<Rightarrow> string" where
  "price_id_of_tier ids tier = strip (case dget ids tier of None \<Rightarrow> [] | Some s \<Rightarrow> s)"

definition validate_tier :: "pricebook \<Rightarrow> price_ids \<Rightarrow> string \<Rightarrow> unit result" where
  "validate_tier pb ids tier =
     (let pid = price_id_of_tier ids tier in
      if pid = []
      then cfg_err (tier @ '' recurring Stripe price id is required for COMMERCIAL_PRICEBOOK_JSON resolution.'')
      else
        (case dget (entries pb) pid of
           None \<Rightarrow> cfg_err (''COMMERCIAL_PRICEBOOK_JSON is missing an entry for recurring price id '' @ pid @ ''.'')
         | Some e \<Rightarrow>
             if plan_tier e \<noteq> tier
             then cfg_err (''COMMERCIAL_PRICEBOOK_JSON entry '' @ pid @ '' must declare plan_tier='' @ tier @ ''.'')
             else Inr ()))"

definition validate_commercial_pricebook_configuration ::
  "codec \<Rightarrow> string \<Rightarrow> price_ids \<Rightarrow> pricebook result" where
  "validate_commercial_pricebook_configuration c raw_json ids =
     bind_res (parse_commercial_pricebook c raw_json) (\<lambda>pb.
     bind_res (map_res (validate_tier pb ids) SUPPORTED_PLAN_TIERS) (\<lambda>_. Inr pb))"

definition resolve_pricebook_entry :: "pricebook \<Rightarrow> price_ids \<Rightarrow> string \<Rightarrow> pricebook_entry result" where
  "resolve_pricebook_entry pb ids tier =
     (let normalized = lower (strip tier) in
      if normalized \<notin> set SUPPORTED_PLAN_TIERS
      then cfg_err (''Unsupported plan tier for COMMERCIAL_PRICEBOOK_JSON resolution: '' @ tier)
      else
        (let pid = price_id_of_tier ids normalized in
         if pid = [] then cfg_err (''Recurring Stripe price id is missing for plan tier '' @ normalized @ ''.'')
         else
           (case dget (entries pb) pid of
              None \<Rightarrow> cfg_err (''COMMERCIAL_PRICEBOOK_JSON has no entry for recurring price id '' @ pid @ ''.'')
            | Some e \<Rightarrow>
                if plan_tier e \<noteq> normalized
                then cfg_err (''COMMERCIAL_PRICEBOOK_JSON entry '' @ pid @ '' does not match plan tier '' @ normalized @ ''.'')
                else Inr e)))"

definition cached_commercial_pricebook ::
  "codec \<Rightarrow> string \<Rightarrow> string \<Rightarrow> string \<Rightarrow> string \<Rightarrow> pricebook result" where
  "cached_commercial_pricebook c raw_json hobbyist pro museum =
     validate_commercial_pricebook_configuration c raw_json
       [(''hobbyist'', hobbyist), (''pro'', pro), (''museum'', museum)]"

section \<open>What a parsed pricebook guarantees\<close>

definition overage_ok :: "overage \<Rightarrow> bool" where
  "overage_ok ov \<longleftrightarrow>
     (if ov_enabled ov
      then ov_price_id ov \<noteq> [] \<and>
        (float_lt (Fin 0) (ov_rate_usd_per_minute ov) \<or> ov_rate_usd_per_minute ov = Special NotANumber)
      else ov_rate_usd_per_minute ov = Fin 0)"

definition entitlements_ok :: "entitlements \<Rightarrow> bool" where
  "entitlements_ok ent \<longleftrightarrow>
     fidelity_tiers ent \<noteq> [] \<and> set (fidelity_tiers ent) \<subseteq> set SUPPORTED_FIDELITY_TIERS \<and>
     resolution_cap ent \<in> set SUPPORTED_RESOLUTION_CAPS \<and>
     1 \<le> parallel_jobs ent \<and> 1 \<le> export_retention_days ent"

definition entry_ok :: "pricebook_entry \<Rightarrow> bool" where
  "entry_ok e \<longleftrightarrow>
     subscription_price_id e \<noteq> [] \<and> plan_tier e \<in> set SUPPORTED_PLAN_TIERS \<and>
     0 \<le> included_minutes_monthly e \<and> overage_ok (entry_overage e) \<and>
     entitlements_ok (entry_entitlements e)"

definition entries_ok :: "(string, pricebook_entry) pydict \<Rightarrow> bool" where
  "entries_ok es \<longleftrightarrow> (\<forall>k e. dget es k = Some e \<longrightarrow> subscription_price_id e = k \<and> entry_ok e)"

fun_cases require_int_InrE: "require_int v f m = Inr i"
fun_cases require_string_InrE: "require_string v f = Inr s"

lemma require_int_Inr: "require_int v f m = Inr i \<Longrightarrow> m \<le> i"
  by (elim require_int_InrE) (auto split: if_splits)

lemma require_string_Inr: "require_string v f = Inr s \<Longrightarrow> s \<noteq> [] \<and> strip s = s"
  by (elim require_string_InrE) (auto split: if_splits)

lemma float_positive: "\<not> float_le q (Fin 0) \<Longrightarrow> float_lt (Fin 0) q \<or> q = Special NotANumber"
  by (cases q rule: pyfloat.exhaust; simp; case_tac x2; simp)

lemma float_zero: "float_eq q (Fin a) \<longleftrightarrow> q = Fin a"
  by (cases q) auto

lemma parse_overage_ok: "parse_overage c p n = Inr ov \<Longrightarrow> overage_ok ov"
  by (auto simp: parse_overage_def overage_ok_def Let_def result_simps float_zero dest: float_positive)

lemma parse_entitlements_ok: "parse_entitlements c p n = Inr ent \<Longrightarrow> entitlements_ok ent"
  by (cases "jget (case p of JObj d \<Rightarrow> d | _ \<Rightarrow> []) ''fidelity_tiers''"; cases p)
    (auto simp: parse_entitlements_def entitlements_ok_def Let_def result_simps
      dest: require_int_Inr)

lemma parse_entry_ok: "parse_entry c k p = Inr e \<Longrightarrow> entry_ok e"
  by (auto simp: parse_entry_def entry_ok_def Let_def result_simps
      dest!: require_int_Inr require_string_Inr parse_overage_ok parse_entitlements_ok
      simp del: require_string.simps)

lemma parse_entries_ok:
  "parse_entries c raw acc = Inr es \<Longrightarrow> entries_ok acc \<Longrightarrow> entries_ok es"
proof (induction c raw acc rule: parse_entries.induct)
  case (1 c acc)
  then show ?case by simp
next
  case (2 c k v rest acc)
  from "2.prems"(1) obtain e where e: "parse_entry c k v = Inr e"
    and rest: "parse_entries c rest (dset (subscription_price_id e) e acc) = Inr es"
    by (auto simp: bind_res_Inr_iff)
  from "2.prems"(2) parse_entry_ok [OF e] have "entries_ok (dset (subscription_price_id e) e acc)"
    by (auto simp: entries_ok_def)
  from "2.IH" [OF rest this] show ?case .
qed

lemma parse_pricebook_entries_ok:
  "parse_commercial_pricebook c raw = Inr pb \<Longrightarrow> entries_ok (entries pb)"
  by (auto simp: parse_commercial_pricebook_def bind_res_Inr_iff entries_ok_def [of "[]"]
      split: if_splits option.splits dest: parse_entries_ok)

lemma validate_tier_Inr:
  "validate_tier pb ids t = Inr u \<longleftrightarrow>
     price_id_of_tier ids t \<noteq> [] \<and>
     (\<exists>e. dget (entries pb) (price_id_of_tier ids t) = Some e \<and> plan_tier e = t)"
  by (auto simp: validate_tier_def Let_def split: option.splits)

lemma validated_tier:
  assumes "validate_commercial_pricebook_configuration c raw ids = Inr pb"
    and "t \<in> set SUPPORTED_PLAN_TIERS"
  shows "price_id_of_tier ids t \<noteq> [] \<and>
     (\<exists>e. dget (entries pb) (price_id_of_tier ids t) = Some e \<and> plan_tier e = t \<and> entry_ok e)"
proof -
  from assms(1) obtain us where us: "map_res (validate_tier pb ids) SUPPORTED_PLAN_TIERS = Inr us"
    and p: "parse_commercial_pricebook c raw = Inr pb"
    by (auto simp: validate_commercial_pricebook_configuration_def bind_res_Inr_iff)
  from map_res_Inr_all [OF us] assms(2) obtain u where "validate_tier pb ids t = Inr u"
    by (auto simp: list_all2_conv_all_nth in_set_conv_nth)
  with parse_pricebook_entries_ok [OF p] show ?thesis
    by (auto simp: validate_tier_Inr entries_ok_def)
qed

section \<open>Properties\<close>

text \<open>
  C30: Every pricebook that \<open>parse_commercial_pricebook\<close> accepts is well formed up to one gap: each
  entry is stored under its own non-empty price id, names a supported plan tier, includes a
  non-negative number of minutes, and grants at least one canonical fidelity tier, a supported
  resolution cap, at least one parallel job and at least one retention day. An entry without overage
  has rate 0; an entry with overage has a price id and a rate that is positive or infinite or, since
  every comparison with it is false, \<open>NaN\<close>.
\<close>

theorem parsed_pricebook_well_formed:
  assumes "parse_commercial_pricebook c raw = Inr pb"
    and "dget (entries pb) k = Some e"
  shows "subscription_price_id e = k \<and> k \<noteq> [] \<and> plan_tier e \<in> {''hobbyist'', ''pro'', ''museum''} \<and>
    0 \<le> included_minutes_monthly e \<and>
    (if ov_enabled (entry_overage e)
     then ov_price_id (entry_overage e) \<noteq> [] \<and>
       ((\<exists>q. ov_rate_usd_per_minute (entry_overage e) = Fin q \<and> 0 < q) \<or>
        ov_rate_usd_per_minute (entry_overage e) \<in> {Special PlusInfinity, Special NotANumber})
     else ov_rate_usd_per_minute (entry_overage e) = Fin 0) \<and>
    fidelity_tiers (entry_entitlements e) \<noteq> [] \<and>
    set (fidelity_tiers (entry_entitlements e)) \<subseteq> {''Enhance'', ''Restore'', ''Conserve''} \<and>
    resolution_cap (entry_entitlements e) \<in> {''1080p'', ''4k'', ''native_scan''} \<and>
    1 \<le> parallel_jobs (entry_entitlements e) \<and> 1 \<le> export_retention_days (entry_entitlements e)"
proof -
  from parse_pricebook_entries_ok [OF assms(1)] assms(2)
  have "subscription_price_id e = k" and "entry_ok e" by (auto simp: entries_ok_def)
  moreover have "float_lt (Fin 0) r \<or> r = Special NotANumber \<Longrightarrow>
      (\<exists>q. r = Fin q \<and> 0 < q) \<or> r \<in> {Special PlusInfinity, Special NotANumber}" for r
    by (cases r rule: pyfloat.exhaust; simp; case_tac x2; simp)
  ultimately show ?thesis
    by (simp add: entry_ok_def overage_ok_def entitlements_ok_def SUPPORTED_PLAN_TIERS_def
        SUPPORTED_FIDELITY_TIERS_def SUPPORTED_RESOLUTION_CAPS_def split: if_splits)
qed

text \<open>A pricebook with one entry per tier, and a codec that reads it whatever the text is.\<close>

definition sample_entry :: "string \<Rightarrow> json" where
  "sample_entry tier = JObj
     [(''plan_tier'', JStr tier), (''included_minutes_monthly'', JInt 60),
      (''overage'', JObj [(''enabled'', JBool True), (''price_id'', JStr ''price_ov''),
         (''rate_usd_per_minute'', JFloat (1 / 2))]),
      (''entitlements'', JObj [(''fidelity_tiers'', JList [JStr ''Enhance'', JStr ''Restore'']),
         (''resolution_cap'', JStr ''4k''), (''preview_review'', JBool True),
         (''parallel_jobs'', JInt 2), (''export_retention_days'', JInt 7)])]"

definition sample_pricebook_json :: json where
  "sample_pricebook_json = JObj
     [(''version'', JStr ''v1''),
      (''entries'', JObj [(''price_h'', sample_entry ''hobbyist''), (''price_p'', sample_entry ''Pro''),
         (''price_m'', sample_entry ''museum'')])]"

definition sample_codec :: codec where
  "sample_codec = plain_codec\<lparr>json_loads := (\<lambda>_. Some sample_pricebook_json), json_dumps := (\<lambda>_. ''{}'')\<rparr>"

definition sample_ids :: price_ids where
  "sample_ids = [(''hobbyist'', ''price_h''), (''pro'', ''price_p''), (''museum'', ''price_m'')]"

definition sample_parsed :: "string \<Rightarrow> string \<Rightarrow> pricebook_entry" where
  "sample_parsed pid tier = \<lparr>subscription_price_id = pid, plan_tier = tier, included_minutes_monthly = 60,
     entry_overage = \<lparr>ov_enabled = True, ov_price_id = ''price_ov'', ov_rate_usd_per_minute = Fin (1 / 2)\<rparr>,
     entry_entitlements = \<lparr>preview_review = True, fidelity_tiers = [''Enhance'', ''Restore''],
       resolution_cap = ''4k'', parallel_jobs = 2, export_retention_days = 7\<rparr>\<rparr>"

lemma sample_entry_parses:
  "parse_entry sample_codec ''price_h'' (sample_entry ''hobbyist'') = Inr (sample_parsed ''price_h'' ''hobbyist'')"
  "parse_entry sample_codec ''price_p'' (sample_entry ''Pro'') = Inr (sample_parsed ''price_p'' ''pro'')"
  "parse_entry sample_codec ''price_m'' (sample_entry ''museum'') = Inr (sample_parsed ''price_m'' ''museum'')"
  by (simp_all add: parse_entry_def sample_entry_def sample_parsed_def parse_overage_def require_float_def
      parse_entitlements_def string_eval SUPPORTED_PLAN_TIERS_def SUPPORTED_FIDELITY_TIERS_def
      SUPPORTED_RESOLUTION_CAPS_def str_or_empty_def)

lemma sample_pricebook_parses:
  "parse_commercial_pricebook sample_codec ''{}'' = Inr \<lparr>pb_version = ''v1'',
     entries = [(''price_h'', sample_parsed ''price_h'' ''hobbyist''),
       (''price_p'', sample_parsed ''price_p'' ''pro''), (''price_m'', sample_parsed ''price_m'' ''museum'')]\<rparr>"
proof -
  have loads: "json_loads sample_codec ''{}'' = Some sample_pricebook_json"
    by (simp add: sample_codec_def)
  have pid: "subscription_price_id (sample_parsed p t) = p" for p t
    by (simp add: sample_parsed_def)
  show ?thesis
    by (simp add: parse_commercial_pricebook_def loads) (simp add: sample_pricebook_json_def
        sample_entry_parses pid string_eval)
qed

text \<open>A pricebook whose only rate is \<open>NaN\<close>.\<close>

definition nan_pricebook_json :: json where
  "nan_pricebook_json = JObj [(''version'', JStr ''v1''), (''entries'', JObj [(''price_p'', JObj
     [(''plan_tier'', JStr ''pro''), (''included_minutes_monthly'', JInt 60),
      (''overage'', JObj [(''enabled'', JBool True), (''price_id'', JStr ''price_ov''),
         (''rate_usd_per_minute'', JSpecial NotANumber)]),
      (''entitlements'', JObj [(''fidelity_tiers'', JList [JStr ''Enhance'', JStr ''Restore'']),
         (''resolution_cap'', JStr ''4k''), (''preview_review'', JBool True),
         (''parallel_jobs'', JInt 2), (''export_retention_days'', JInt 7)])])])]"

definition nan_codec :: codec where
  "nan_codec = plain_codec\<lparr>json_loads := (\<lambda>_. Some nan_pricebook_json)\<rparr>"

definition nan_parsed :: pricebook_entry where
  "nan_parsed = sample_parsed ''price_p'' ''pro''\<lparr>entry_overage :=
     \<lparr>ov_enabled = True, ov_price_id = ''price_ov'', ov_rate_usd_per_minute = Special NotANumber\<rparr>\<rparr>"

lemma nan_pricebook_parses:
  "parse_commercial_pricebook nan_codec ''{}'' = Inr \<lparr>pb_version = ''v1'', entries = [(''price_p'', nan_parsed)]\<rparr>"
  by (simp add: parse_commercial_pricebook_def nan_codec_def nan_pricebook_json_def nan_parsed_def sample_parsed_def
      parse_entry_def parse_overage_def parse_entitlements_def require_float_def string_eval SUPPORTED_PLAN_TIERS_def
      SUPPORTED_FIDELITY_TIERS_def SUPPORTED_RESOLUTION_CAPS_def str_or_empty_def)

theorem parsed_pricebook_well_formed_witness:
  "(\<exists>pb e. parse_commercial_pricebook sample_codec ''{}'' = Inr pb \<and>
     dget (entries pb) ''price_p'' = Some e \<and> plan_tier e \<in> {''hobbyist'', ''pro'', ''museum''} \<and>
     1 \<le> parallel_jobs (entry_entitlements e)) \<and>
   (\<exists>pb e. parse_commercial_pricebook nan_codec ''{}'' = Inr pb \<and>
     dget (entries pb) ''price_p'' = Some e \<and> ov_enabled (entry_overage e) \<and>
     ov_rate_usd_per_minute (entry_overage e) = Special NotANumber \<and> ov_price_id (entry_overage e) \<noteq> [])"
  using parsed_pricebook_well_formed [OF sample_pricebook_parses, of "''price_p''" "sample_parsed ''price_p'' ''pro''"]
    parsed_pricebook_well_formed [OF nan_pricebook_parses, of "''price_p''" nan_parsed]
  by (simp add: sample_pricebook_parses nan_pricebook_parses) (simp add: nan_parsed_def)

lemma resolve_validated:
  assumes "validate_commercial_pricebook_configuration c raw ids = Inr pb"
    and "lower (strip tier) \<in> {''hobbyist'', ''pro'', ''museum''}"
  shows "\<exists>e. resolve_pricebook_entry pb ids tier = Inr e \<and> plan_tier e = lower (strip tier) \<and>
    dget (entries pb) (price_id_of_tier ids (lower (strip tier))) = Some e \<and> entry_ok e"
proof -
  let ?t = "lower (strip tier)"
  from assms(2) have t: "?t \<in> set SUPPORTED_PLAN_TIERS" by (simp add: SUPPORTED_PLAN_TIERS_def)
  from validated_tier [OF assms(1) t] obtain e where
    "price_id_of_tier ids ?t \<noteq> []" "dget (entries pb) (price_id_of_tier ids ?t) = Some e"
    "plan_tier e = ?t" "entry_ok e" by blast
  with t show ?thesis by (simp add: resolve_pricebook_entry_def)
qed

text \<open>
  After \<open>validate_commercial_pricebook_configuration\<close> has accepted a configuration,
  \<open>resolve_pricebook_entry\<close> never raises for a supported plan tier, in any letter case and with any
  surrounding blanks: it returns the entry stored under the tier's configured price id, and that
  entry declares the tier and is well formed.
\<close>

theorem validated_pricebook_resolves:
  assumes "validate_commercial_pricebook_configuration c raw ids = Inr pb"
    and "lower (strip tier) \<in> {''hobbyist'', ''pro'', ''museum''}"
  shows "\<exists>e. resolve_pricebook_entry pb ids tier = Inr e \<and> plan_tier e = lower (strip tier) \<and>
    dget (entries pb) (price_id_of_tier ids (lower (strip tier))) = Some e \<and> entry_ok e"
  using resolve_validated [OF assms] .

lemma sample_pricebook_valid:
  "validate_commercial_pricebook_configuration sample_codec ''{}'' sample_ids = Inr \<lparr>pb_version = ''v1'',
     entries = [(''price_h'', sample_parsed ''price_h'' ''hobbyist''),
       (''price_p'', sample_parsed ''price_p'' ''pro''), (''price_m'', sample_parsed ''price_m'' ''museum'')]\<rparr>"
  unfolding validate_commercial_pricebook_configuration_def sample_pricebook_parses
  by (simp add: SUPPORTED_PLAN_TIERS_def validate_tier_def price_id_of_tier_def sample_ids_def
      sample_parsed_def string_eval)

theorem validated_pricebook_resolves_witness:
  "\<exists>pb e. validate_commercial_pricebook_configuration sample_codec ''{}'' sample_ids = Inr pb \<and>
     resolve_pricebook_entry pb sample_ids '' PRO '' = Inr e \<and> plan_tier e = ''pro''"
proof -
  have "lower (strip '' PRO '') = ''pro''" by (simp add: string_eval)
  with validated_pricebook_resolves [OF sample_pricebook_valid, of "'' PRO ''"] sample_pricebook_valid
  show ?thesis by auto
qed

end
