(* ===== verification/Interfaces.thy ===== *)
theory Interfaces
  imports Prelude "HOL-Library.Multiset"
begin

text \<open>
  The contracts between components, each as a locale: the operations a client calls, the laws the
  provider promises, and what follows for the client. The component that provides the operations
  interprets the locale on its own definitions.
\<close>

section \<open>A ledger of claimed keys\<close>

text \<open>
  A ledger hands a key to at most one holder: \<open>claim\<close> grants a key that is claimable, \<open>settle\<close>
  records success and \<open>fail\<close> makes the key claimable again. A trace of operations and the keys
  granted along it:
\<close>

datatype ('i, 'c, 'd) ledger_op = Claim 'i 'c | Settle 'i 'd | Fail 'i 'd

fun ledger_grants ::
  "('i \<Rightarrow> 'c \<Rightarrow> 's \<Rightarrow> bool \<times> 's) \<Rightarrow> ('i \<Rightarrow> 'd \<Rightarrow> 's \<Rightarrow> 's) \<Rightarrow> ('i \<Rightarrow> 'd \<Rightarrow> 's \<Rightarrow> 's) \<Rightarrow>
   ('i, 'c, 'd) ledger_op list \<Rightarrow> 's \<Rightarrow> 'i list" where
  "ledger_grants cl st fl [] s = []"
| "ledger_grants cl st fl (Claim i c # ops) s =
     (if fst (cl i c s) then [i] else []) @ ledger_grants cl st fl ops (snd (cl i c s))"
| "ledger_grants cl st fl (Settle i d # ops) s = ledger_grants cl st fl ops (st i d s)"
| "ledger_grants cl st fl (Fail i d # ops) s = ledger_grants cl st fl ops (fl i d s)"

fun fails_of :: "'i \<Rightarrow> ('i, 'c, 'd) ledger_op list \<Rightarrow> nat" where
  "fails_of i [] = 0"
| "fails_of i (Fail j d # ops) = (if j = i then 1 else 0) + fails_of i ops"
| "fails_of i (_ # ops) = fails_of i ops"

locale event_ledger =
  fixes claimable :: "'s \<Rightarrow> 'i \<Rightarrow> bool"
    and claim :: "'i \<Rightarrow> 'c \<Rightarrow> 's \<Rightarrow> bool \<times> 's"
    and settle :: "'i \<Rightarrow> 'd \<Rightarrow> 's \<Rightarrow> 's"
    and fail :: "'i \<Rightarrow> 'd \<Rightarrow> 's \<Rightarrow> 's"
  assumes claim_grants: "fst (claim i c s) = claimable s i"
    and claim_takes: "claimable (snd (claim i c s)) j = (claimable s j \<and> j \<noteq> i)"
    and settle_keeps: "claimable (settle i d s) j \<Longrightarrow> claimable s j"
    and fail_reopens: "claimable (fail i d s) j \<Longrightarrow> j = i \<or> claimable s j"
begin

lemma granted_once_per_failure:
  "count_list (ledger_grants claim settle fail ops s) i \<le> (if claimable s i then 1 else 0) + fails_of i ops"
proof (induction ops arbitrary: s)
  case Nil
  then show ?case by simp
next
  case (Cons x ops)
  show ?case
  proof (cases x)
    case (Claim j c)
    with Cons.IH [of "snd (claim j c s)"] show ?thesis
      by (auto simp: claim_grants claim_takes)
  next
    case (Settle j d)
    with Cons.IH [of "settle j d s"] settle_keeps [of j d s i] show ?thesis
      by (auto split: if_splits)
  next
    case (Fail j d)
    with Cons.IH [of "fail j d s"] fail_reopens [of j d s i] show ?thesis
      by (auto split: if_splits)
  qed
qed

lemma second_claim_denied: "\<not> fst (claim i c' (snd (claim i c s)))"
  by (simp add: claim_grants claim_takes)

end

section \<open>A keyed store\<close>

text \<open>
  A table read and written by key. What a client learns: a sequence of writes leaves every key with
  the last value written to it, and writes to different keys commute as far as anyone can look up.
\<close>

locale keyed_store =
  fixes lookup :: "'s \<Rightarrow> 'k \<Rightarrow> 'v option"
    and put :: "'k \<Rightarrow> 'v \<Rightarrow> 's \<Rightarrow> 's"
  assumes lookup_put: "lookup (put k v s) k' = (if k' = k then Some v else lookup s k')"
begin

lemma lookup_puts:
  "lookup (fold (\<lambda>(k, v). put k v) ws s) k =
     (case map_of (rev ws) k of None \<Rightarrow> lookup s k | Some v \<Rightarrow> Some v)"
  by (induction ws arbitrary: s) (auto simp: lookup_put map_add_def split: option.splits)

lemma puts_elsewhere: "k \<notin> fst ` set ws \<Longrightarrow> lookup (fold (\<lambda>(k, v). put k v) ws s) k = lookup s k"
  by (induction ws arbitrary: s) (auto simp: lookup_put)

lemma put_commute: "k \<noteq> k' \<Longrightarrow> lookup (put k v (put k' v' s)) j = lookup (put k' v' (put k v s)) j"
  by (simp add: lookup_put)

lemma put_overwrites: "lookup (put k v (put k v' s)) j = lookup (put k v s) j"
  by (simp add: lookup_put)

end

section \<open>A stable priority queue\<close>

text \<open>
  A queue that hands out its entries in the order of their ranks. Entries never tie: whoever puts one
  in gives it a rank of its own. What a client learns: taking everything out yields every entry once,
  in ascending order of rank.
\<close>

locale ranked_queue =
  fixes ranks :: "'q \<Rightarrow> ('r :: linorder \<times> 'm) list"
    and put :: "'r \<times> 'm \<Rightarrow> 'q \<Rightarrow> 'q"
    and take :: "'q \<Rightarrow> ('m \<times> 'q) option"
    and wf :: "'q \<Rightarrow> bool"
  assumes put_ranks: "wf q \<Longrightarrow> mset (ranks (put e q)) = add_mset e (mset (ranks q))"
    and put_wf: "wf q \<Longrightarrow> wf (put e q)"
    and take_empty: "wf q \<Longrightarrow> take q = None \<longleftrightarrow> ranks q = []"
    and take_ranks: "wf q \<Longrightarrow> take q = Some (m, q') \<Longrightarrow>
          \<exists>r. mset (ranks q) = add_mset (r, m) (mset (ranks q')) \<and> (\<forall>e \<in> set (ranks q'). r \<le> fst e) \<and> wf q'"
begin

inductive drains :: "'q \<Rightarrow> 'm list \<Rightarrow> bool" where
  drains_empty: "take q = None \<Longrightarrow> drains q []"
| drains_take: "take q = Some (m, q') \<Longrightarrow> drains q' ms \<Longrightarrow> drains q (m # ms)"

lemma drains_exact:
  "drains q ms \<Longrightarrow> wf q \<Longrightarrow>
   \<exists>rs. length rs = length ms \<and> mset (zip rs ms) = mset (ranks q) \<and> sorted rs"
proof (induction rule: drains.induct)
  case (drains_empty q)
  then show ?case by (auto simp: take_empty)
next
  case (drains_take q m q' ms)
  from take_ranks [OF drains_take.prems drains_take.hyps(1)] obtain r where
    r: "mset (ranks q) = add_mset (r, m) (mset (ranks q'))" "\<forall>e \<in> set (ranks q'). r \<le> fst e" "wf q'" by blast
  from drains_take.IH [OF r(3)] obtain rs where
    rs: "length rs = length ms" "mset (zip rs ms) = mset (ranks q')" "sorted rs" by blast
  have "\<forall>x \<in> set rs. r \<le> x"
  proof
    fix x
    assume "x \<in> set rs"
    with rs(1) obtain y where "(x, y) \<in> set (zip rs ms)"
      by (metis in_set_impl_in_set_zip1)
    with rs(2) have "(x, y) \<in> set (ranks q')" by (metis mset_eq_setD)
    with r(2) show "r \<le> x" by auto
  qed
  with rs r show ?case by (intro exI [of _ "r # rs"]) auto
qed

end

end
