(* ===== verification/Billing_Store.thy ===== *)
theory Billing_Store
  imports Json Interfaces
begin

text \<open>
  The billing side of the in-memory store (\<open>app/db/phase2_store.py\<close>): usage, billing accounts,
  audit events, pricebook revisions and processed Stripe events, with the operations of their
  \<open>_Memory...Repository\<close> classes. A repository operation reads the clock once (\<open>now\<close>), and a
  fresh \<open>uuid4()\<close> is the argument \<open>new_id\<close>. The lemmas are the laws the services rely on: reading
  back what was written, leaving other keys alone, at most one active pricebook revision, and the
  claim protocol of Stripe events.
\<close>

type_synonym time = int

section \<open>Records\<close>

record usage =
  us_user_id :: string
  us_plan_tier :: string
  used_minutes :: int
  monthly_limit_minutes :: int
  estimated_next_job_minutes :: int
  threshold_alerts :: "int list"
  overage_approval_scope :: "string option"
  approved_for_minutes :: int

record invoice =
  invoice_id :: string
  inv_status :: string
  hosted_invoice_url :: string
  amount_paid_usd :: rat
  amount_due_usd :: rat
  inv_created_at :: time

record account =
  acc_id :: string
  acc_owner_user_id :: string
  acc_org_id :: string
  stripe_customer_id :: json
  stripe_subscription_id :: json
  subscription_status :: json
  acc_subscription_price_id :: json
  subscription_price_usd :: json
  acc_included_minutes_monthly :: json
  overage_price_id :: json
  overage_rate_usd_per_minute :: json
  museum_quote_id :: json
  museum_quote_status :: json
  museum_quote_pricing :: "(string \<times> json) list"
  recent_invoices :: "invoice list"
  last_synced_at :: "time option"
  acc_created_at :: time
  acc_updated_at :: time

text \<open>
  The patch dictionary of \<open>upsert_by_org\<close>. A \<open>JNull\<close> or \<open>None\<close> field is a key that is absent or
  \<open>None\<close>, which \<open>_request_patch\<close> drops; \<open>last_synced_at\<close> is the nullable key, so its absence and
  its \<open>None\<close> differ.
\<close>

record account_patch =
  p_stripe_customer_id :: json
  p_stripe_subscription_id :: json
  p_subscription_status :: json
  p_subscription_price_id :: json
  p_subscription_price_usd :: json
  p_included_minutes_monthly :: json
  p_overage_price_id :: json
  p_overage_rate_usd_per_minute :: json
  p_museum_quote_id :: json
  p_museum_quote_status :: json
  p_museum_quote_pricing :: "(string \<times> json) list option"
  p_recent_invoices :: "invoice list option"
  p_last_synced_at :: "time option option"

definition empty_patch :: account_patch where
  "empty_patch = \<lparr>p_stripe_customer_id = JNull, p_stripe_subscription_id = JNull,
     p_subscription_status = JNull, p_subscription_price_id = JNull, p_subscription_price_usd = JNull,
     p_included_minutes_monthly = JNull, p_overage_price_id = JNull,
     p_overage_rate_usd_per_minute = JNull, p_museum_quote_id = JNull, p_museum_quote_status = JNull,
     p_museum_quote_pricing = None, p_recent_invoices = None, p_last_synced_at = None\<rparr>"

record audit_event =
  au_id :: string
  au_org_id :: string
  au_source :: string
  au_event_type :: string
  au_actor_user_id :: "string option"
  au_stripe_event_id :: "string option"
  before_summary :: "(string \<times> json) list"
  after_summary :: "(string \<times> json) list"
  au_created_at :: time

record revision =
  rev_id :: string
  rev_version :: string
  payload :: "(string \<times> json) list"
  applied_by_user_id :: string
  applied_by_org_id :: string
  rev_source :: string
  change_summary :: string
  activated_at :: time
  active :: bool
  rev_updated_at :: time

datatype event_status = Claimed | Processed | EventFailed

record stripe_event =
  ev_id :: string
  ev_type :: string
  ev_org_id :: "string option"
  processing_status :: event_status
  summary_metadata :: "(string \<times> json) list"
  ev_created_at :: time
  processed_at :: "time option"
  ev_updated_at :: time

record billing_store =
  usage_tab :: "(string, usage) pydict"
  accounts :: "(string, account) pydict"
  audit_events :: "audit_event list"
  revisions :: "(string, revision) pydict"
  stripe_events :: "(string, stripe_event) pydict"

definition empty_billing_store :: billing_store where
  "empty_billing_store = \<lparr>usage_tab = [], accounts = [], audit_events = [], revisions = [], stripe_events = []\<rparr>"

section \<open>\<open>_MemoryUsageRepository\<close>\<close>

definition usage_get_or_create :: "string \<Rightarrow> string \<Rightarrow> int \<Rightarrow> (billing_store, usage) prog" where
  "usage_get_or_create user_id tier limit = (\<lambda>s.
     (let u = (case dget (usage_tab s) user_id of
                 None \<Rightarrow> \<lparr>us_user_id = user_id, us_plan_tier = tier, used_minutes = 0,
                   monthly_limit_minutes = limit, estimated_next_job_minutes = 0,
                   threshold_alerts = [], overage_approval_scope = None, approved_for_minutes = 0\<rparr>
               | Some u \<Rightarrow> u\<lparr>us_plan_tier := tier, monthly_limit_minutes := limit\<rparr>)
      in (Inr u, s\<lparr>usage_tab := dset user_id u (usage_tab s)\<rparr>)))"

definition usage_update :: "string \<Rightarrow> (usage \<Rightarrow> usage) \<Rightarrow> (billing_store, usage) prog" where
  "usage_update user_id patch = (\<lambda>s.
     (case dget (usage_tab s) user_id of
        None \<Rightarrow> (Inl (KeyError user_id), s)
      | Some u \<Rightarrow> (Inr (patch u), s\<lparr>usage_tab := dset user_id (patch u) (usage_tab s)\<rparr>)))"

section \<open>\<open>_MemoryBillingAccountRepository\<close>\<close>

definition get_by_org :: "string \<Rightarrow> (billing_store, account option) prog" where
  "get_by_org org = getsE (\<lambda>s. dget (accounts s) org)"

fun find_by_customer :: "codec \<Rightarrow> string \<Rightarrow> (string, account) pydict \<Rightarrow> account option" where
  "find_by_customer c cid [] = None"
| "find_by_customer c cid ((k, a) # rest) =
     (if strip (str_or_empty c (stripe_customer_id a)) = cid then Some a else find_by_customer c cid rest)"

definition get_by_customer_id :: "codec \<Rightarrow> string \<Rightarrow> (billing_store, account option) prog" where
  "get_by_customer_id c customer_id = getsE (\<lambda>s. find_by_customer c (strip customer_id) (accounts s))"

definition new_account :: "string \<Rightarrow> string \<Rightarrow> string \<Rightarrow> time \<Rightarrow> account" where
  "new_account new_id org owner now = \<lparr>acc_id = new_id, acc_owner_user_id = owner, acc_org_id = org,
     stripe_customer_id = JNull, stripe_subscription_id = JNull, subscription_status = JNull,
     acc_subscription_price_id = JNull, subscription_price_usd = JNull,
     acc_included_minutes_monthly = JNull, overage_price_id = JNull,
     overage_rate_usd_per_minute = JNull, museum_quote_id = JNull, museum_quote_status = JNull,
     museum_quote_pricing = [], recent_invoices = [], last_synced_at = None,
     acc_created_at = now, acc_updated_at = now\<rparr>"

text \<open>The value a key has after \<open>record.update(_request_patch(patch))\<close>.\<close>

definition patched :: "json \<Rightarrow> json \<Rightarrow> json" where
  "patched new old = (if new = JNull then old else new)"

definition apply_account_patch :: "account_patch \<Rightarrow> account \<Rightarrow> account" where
  "apply_account_patch p a = a\<lparr>
     stripe_customer_id := patched (p_stripe_customer_id p) (stripe_customer_id a),
     stripe_subscription_id := patched (p_stripe_subscription_id p) (stripe_subscription_id a),
     subscription_status := patched (p_subscription_status p) (subscription_status a),
     acc_subscription_price_id := patched (p_subscription_price_id p) (acc_subscription_price_id a),
     subscription_price_usd := patched (p_subscription_price_usd p) (subscription_price_usd a),
     acc_included_minutes_monthly := patched (p_included_minutes_monthly p) (acc_included_minutes_monthly a),
     overage_price_id := patched (p_overage_price_id p) (overage_price_id a),
     overage_rate_usd_per_minute := patched (p_overage_rate_usd_per_minute p) (overage_rate_usd_per_minute a),
     museum_quote_id := patched (p_museum_quote_id p) (museum_quote_id a),
     museum_quote_status := patched (p_museum_quote_status p) (museum_quote_status a),
     museum_quote_pricing := (case p_museum_quote_pricing p of None \<Rightarrow> museum_quote_pricing a | Some q \<Rightarrow> q),
     recent_invoices := (case p_recent_invoices p of None \<Rightarrow> recent_invoices a | Some xs \<Rightarrow> xs),
     last_synced_at := (case p_last_synced_at p of None \<Rightarrow> last_synced_at a | Some t \<Rightarrow> t)\<rparr>"

text \<open>
  An existing record keeps its id and its creation time; it keeps its owner too, unless the owner
  is the empty string.
\<close>

definition upsert_by_org ::
  "string \<Rightarrow> time \<Rightarrow> string \<Rightarrow> string \<Rightarrow> account_patch \<Rightarrow> (billing_store, account) prog" where
  "upsert_by_org new_id now org owner p = (\<lambda>s.
     (let base = (case dget (accounts s) org of
                    None \<Rightarrow> new_account new_id org owner now
                  | Some a \<Rightarrow> a\<lparr>acc_org_id := org, acc_updated_at := now,
                      acc_owner_user_id := (if acc_owner_user_id a = [] then owner else acc_owner_user_id a)\<rparr>);
          a' = apply_account_patch p base
      in (Inr a', s\<lparr>accounts := dset org a' (accounts s)\<rparr>)))"

section \<open>\<open>_MemoryBillingAuditRepository\<close>\<close>

definition append_event ::
  "string \<Rightarrow> time \<Rightarrow> string \<Rightarrow> string \<Rightarrow> string \<Rightarrow> string option \<Rightarrow> string option \<Rightarrow>
   (string \<times> json) list \<Rightarrow> (string \<times> json) list \<Rightarrow> (billing_store, audit_event) prog" where
  "append_event new_id now org source event_type actor stripe_id before after = (\<lambda>s.
     (let r = \<lparr>au_id = new_id, au_org_id = org, au_source = source, au_event_type = event_type,
          au_actor_user_id = actor, au_stripe_event_id = stripe_id, before_summary = before,
          after_summary = after, au_created_at = now\<rparr>
      in (Inr r, s\<lparr>audit_events := audit_events s @ [r]\<rparr>)))"

text \<open>\<open>sorted(events, key=created_at, reverse=True)\<close> keeps the order of equal keys.\<close>

definition list_events :: "string option \<Rightarrow> (billing_store, audit_event list) prog" where
  "list_events org = getsE (\<lambda>s.
     sort_key (\<lambda>e. - au_created_at e)
       (filter (\<lambda>e. org = None \<or> org = Some (au_org_id e)) (audit_events s)))"

section \<open>\<open>_MemoryCommercialPricebookRevisionRepository\<close>\<close>

definition active_revisions :: "billing_store \<Rightarrow> revision list" where
  "active_revisions s =
     sort_key (\<lambda>r. - activated_at r) (filter active (map snd (revisions s)))"

definition rev_get_active :: "(billing_store, revision option) prog" where
  "rev_get_active = getsE (\<lambda>s. case active_revisions s of [] \<Rightarrow> None | r # _ \<Rightarrow> Some r)"

definition rev_list_active :: "(billing_store, revision list) prog" where
  "rev_list_active = getsE active_revisions"

definition deactivate :: "time \<Rightarrow> string \<times> revision \<Rightarrow> string \<times> revision" where
  "deactivate now = (\<lambda>(k, r). (k, if active r then r\<lparr>active := False, rev_updated_at := now\<rparr> else r))"

definition rev_activate ::
  "string \<Rightarrow> time \<Rightarrow> string \<Rightarrow> (string \<times> json) list \<Rightarrow> string \<Rightarrow> string \<Rightarrow> string \<Rightarrow> string \<Rightarrow>
   (billing_store, revision) prog" where
  "rev_activate new_id now version p user org source summary = (\<lambda>s.
     (case dget (revisions s) version of
        Some _ \<Rightarrow> (Inl (ValueError ''A commercial pricebook revision with that version already exists.''), s)
      | None \<Rightarrow>
          (let r = \<lparr>rev_id = new_id, rev_version = version, payload = p, applied_by_user_id = user,
               applied_by_org_id = org, rev_source = source, change_summary = summary,
               activated_at = now, active = True, rev_updated_at = now\<rparr>
           in (Inr r, s\<lparr>revisions := dset version r (map (deactivate now) (revisions s))\<rparr>))))"

section \<open>\<open>_MemoryProcessedStripeEventRepository\<close>\<close>

definition claim_event ::
  "time \<Rightarrow> string \<Rightarrow> string \<Rightarrow> string option \<Rightarrow> (billing_store, stripe_event option) prog" where
  "claim_event now eid etype org = (\<lambda>s.
     (case dget (stripe_events s) eid of
        None \<Rightarrow>
          (let r = \<lparr>ev_id = eid, ev_type = etype, ev_org_id = org, processing_status = Claimed,
               summary_metadata = [], ev_created_at = now, processed_at = None, ev_updated_at = now\<rparr>
           in (Inr (Some r), s\<lparr>stripe_events := dset eid r (stripe_events s)\<rparr>))
      | Some old \<Rightarrow>
          if processing_status old \<noteq> EventFailed then (Inr None, s)
          else
            (let r = old\<lparr>ev_type := etype,
                 ev_org_id := (if org = None \<or> org = Some [] then ev_org_id old else org),
                 processing_status := Claimed, processed_at := None, ev_updated_at := now\<rparr>
             in (Inr (Some r), s\<lparr>stripe_events := dset eid r (stripe_events s)\<rparr>))))"

definition get_event :: "string \<Rightarrow> (billing_store, stripe_event option) prog" where
  "get_event eid = getsE (\<lambda>s. dget (stripe_events s) eid)"

definition mark_event ::
  "(stripe_event \<Rightarrow> stripe_event) \<Rightarrow> time \<Rightarrow> string \<Rightarrow> (string \<times> json) list option \<Rightarrow>
   (billing_store, stripe_event) prog" where
  "mark_event f now eid meta = (\<lambda>s.
     (case dget (stripe_events s) eid of
        None \<Rightarrow> (Inl (KeyError eid), s)
      | Some old \<Rightarrow>
          (let r = (f old)\<lparr>ev_updated_at := now,
               summary_metadata := (case meta of None \<Rightarrow> summary_metadata old | Some m \<Rightarrow> m)\<rparr>
           in (Inr r, s\<lparr>stripe_events := dset eid r (stripe_events s)\<rparr>))))"

definition mark_processed ::
  "time \<Rightarrow> string \<Rightarrow> (string \<times> json) list option \<Rightarrow> (billing_store, stripe_event) prog" where
  "mark_processed now = mark_event (\<lambda>e. e\<lparr>processing_status := Processed, processed_at := Some now\<rparr>) now"

definition mark_failed ::
  "time \<Rightarrow> string \<Rightarrow> (string \<times> json) list option \<Rightarrow> (billing_store, stripe_event) prog" where
  "mark_failed now = mark_event (\<lambda>e. e\<lparr>processing_status := EventFailed\<rparr>) now"

section \<open>At most one active revision\<close>

definition revisions_ok :: "billing_store \<Rightarrow> bool" where
  "revisions_ok s \<longleftrightarrow> pydict_ok (revisions s) \<and> length (filter active (map snd (revisions s))) \<le> 1"

lemma fst_deactivate [simp]: "fst (deactivate now x) = fst x"
  by (simp add: deactivate_def split: prod.splits)

lemma active_deactivate [simp]: "\<not> active (snd (deactivate now x))"
  by (simp add: deactivate_def split: prod.splits)

lemma map_fst_deactivate [simp]: "map fst (map (deactivate now) xs) = map fst xs"
  by simp

lemma dget_deactivate_None [simp]: "dget (map (deactivate now) xs) k = None \<longleftrightarrow> dget xs k = None"
  by (simp add: map_of_eq_None_iff image_image)

lemma dset_fresh: "dget d k = None \<Longrightarrow> dset k v d = d @ [(k, v)]"
  by (simp add: map_of_eq_None_iff update_nonempty update_conv') (induction d; force)

lemma rev_activate_fresh:
  assumes "dget (revisions s) version = None"
  shows "\<exists>r. rev_activate new_id now version p user org source summary s =
      (Inr r, s\<lparr>revisions := map (deactivate now) (revisions s) @ [(version, r)]\<rparr>) \<and>
    rev_version r = version \<and> payload r = p \<and> active r \<and> activated_at r = now"
  using assms by (simp add: rev_activate_def Let_def dset_fresh)

lemma rev_activate_taken:
  "dget (revisions s) version = Some r \<Longrightarrow>
   rev_activate new_id now version p user org source summary s =
     (Inl (ValueError ''A commercial pricebook revision with that version already exists.''), s)"
  by (simp add: rev_activate_def)

lemma active_revisions_after:
  "active r \<Longrightarrow> active_revisions (s\<lparr>revisions := map (deactivate now) (revisions s) @ [(v, r)]\<rparr>) = [r]"
proof -
  assume "active r"
  have "filter active (map snd (map (deactivate now) xs)) = []" for xs
    by (induction xs) simp_all
  with \<open>active r\<close> show ?thesis by (simp add: active_revisions_def)
qed

lemma revisions_ok_activate: "preserves revisions_ok (rev_activate new_id now version p user org source summary)"
proof (unfold preserves_def, intro allI impI)
  fix s
  assume ok: "revisions_ok s"
  have none: "filter active (map snd (map (deactivate now) xs)) = []" for xs
    by (induction xs) simp_all
  show "revisions_ok (snd (rev_activate new_id now version p user org source summary s))"
  proof (cases "dget (revisions s) version")
    case None
    from rev_activate_fresh [OF None, of new_id now p user org source summary] obtain r where
      r: "rev_activate new_id now version p user org source summary s =
        (Inr r, s\<lparr>revisions := map (deactivate now) (revisions s) @ [(version, r)]\<rparr>)" by blast
    from None have "version \<notin> set (map fst (map (deactivate now) (revisions s)))"
      by (simp only: map_fst_deactivate map_of_eq_None_iff) simp
    with ok none [of "revisions s"] show ?thesis
      unfolding r by (simp add: revisions_ok_def pydict_ok_def del: map_map)
  next
    case (Some old)
    with ok show ?thesis by (simp add: rev_activate_taken)
  qed
qed

text \<open>
  A successful activation leaves exactly one active pricebook revision, the new one, which
  \<open>get_active\<close> then returns; activating a version that is already stored raises and changes nothing.
\<close>

theorem activation_is_exclusive:
  "case dget (revisions s) version of
     Some old \<Rightarrow> rev_activate new_id now version p user org source summary s =
       (Inl (ValueError ''A commercial pricebook revision with that version already exists.''), s)
   | None \<Rightarrow> (\<exists>r t. rev_activate new_id now version p user org source summary s = (Inr r, t) \<and>
       fst (rev_list_active t) = Inr [r] \<and> fst (rev_get_active t) = Inr (Some r) \<and>
       rev_version r = version \<and> payload r = p \<and>
       map fst (revisions t) = map fst (revisions s) @ [version] \<and>
       usage_tab t = usage_tab s \<and> accounts t = accounts s)"
proof (cases "dget (revisions s) version")
  case None
  from rev_activate_fresh [OF None, of new_id now p user org source summary] obtain r where
    r: "rev_activate new_id now version p user org source summary s =
        (Inr r, s\<lparr>revisions := map (deactivate now) (revisions s) @ [(version, r)]\<rparr>)"
    and "rev_version r = version" "payload r = p" "active r" by blast
  with active_revisions_after [OF \<open>active r\<close>, where s = s and now = now and v = version] show ?thesis
    unfolding None option.case r
    by (intro exI [of _ r] exI) (auto simp: rev_list_active_def rev_get_active_def getsE_def)
next
  case (Some old)
  then show ?thesis by (simp add: rev_activate_taken)
qed

section \<open>The claim protocol of Stripe events\<close>

definition claimable :: "billing_store \<Rightarrow> string \<Rightarrow> bool" where
  "claimable s eid = (case dget (stripe_events s) eid of
     None \<Rightarrow> True | Some e \<Rightarrow> processing_status e = EventFailed)"

definition ledger_claim ::
  "string \<Rightarrow> time \<times> string \<times> string option \<Rightarrow> billing_store \<Rightarrow> bool \<times> billing_store" where
  "ledger_claim eid = (\<lambda>(now, etype, org) s.
     (case claim_event now eid etype org s of (r, t) \<Rightarrow> (case r of Inr (Some e) \<Rightarrow> True | _ \<Rightarrow> False, t)))"

definition ledger_settle ::
  "string \<Rightarrow> time \<times> (string \<times> json) list option \<Rightarrow> billing_store \<Rightarrow> billing_store" where
  "ledger_settle eid = (\<lambda>(now, meta) s. snd (mark_processed now eid meta s))"

definition ledger_fail ::
  "string \<Rightarrow> time \<times> (string \<times> json) list option \<Rightarrow> billing_store \<Rightarrow> billing_store" where
  "ledger_fail eid = (\<lambda>(now, meta) s. snd (mark_failed now eid meta s))"

lemma claim_event_None_iff:
  "fst (claim_event now eid etype org s) = Inr None \<longleftrightarrow> \<not> claimable s eid"
  by (auto simp: claim_event_def claimable_def Let_def split: option.splits)

lemma claim_event_duplicate: "\<not> claimable s eid \<Longrightarrow> claim_event now eid etype org s = (Inr None, s)"
  by (auto simp: claim_event_def claimable_def split: option.splits)

lemma claim_event_granted:
  "claimable s eid \<Longrightarrow> \<exists>r. claim_event now eid etype org s =
     (Inr (Some r), s\<lparr>stripe_events := dset eid r (stripe_events s)\<rparr>) \<and> processing_status r = Claimed"
  by (auto simp: claim_event_def claimable_def Let_def split: option.splits)

interpretation stripe_ledger: event_ledger claimable ledger_claim ledger_settle ledger_fail
proof unfold_locales
  fix i j :: string and s :: billing_store and c :: "time \<times> string \<times> string option"
  obtain now etype org where c: "c = (now, etype, org)" by (cases c)
  have "fst (ledger_claim i c s) = claimable s i \<and>
      claimable (snd (ledger_claim i c s)) j = (claimable s j \<and> j \<noteq> i)"
  proof (cases "claimable s i")
    case True
    from claim_event_granted [OF True, of now etype org] obtain r where
      "claim_event now i etype org s = (Inr (Some r), s\<lparr>stripe_events := dset i r (stripe_events s)\<rparr>)"
      and "processing_status r = Claimed" by blast
    with True show ?thesis by (simp add: ledger_claim_def c claimable_def)
  next
    case False
    then show ?thesis by (auto simp: ledger_claim_def c claim_event_duplicate)
  qed
  then show "fst (ledger_claim i c s) = claimable s i"
    and "claimable (snd (ledger_claim i c s)) j = (claimable s j \<and> j \<noteq> i)" by blast+
next
  fix i j :: string and s :: billing_store and d :: "time \<times> (string \<times> json) list option"
  assume "claimable (ledger_settle i d s) j"
  then show "claimable s j"
    by (cases d) (auto simp: ledger_settle_def mark_processed_def mark_event_def claimable_def Let_def
        split: option.splits if_splits)
next
  fix i j :: string and s :: billing_store and d :: "time \<times> (string \<times> json) list option"
  assume "claimable (ledger_fail i d s) j"
  then show "j = i \<or> claimable s j"
    by (cases d) (auto simp: ledger_fail_def mark_failed_def mark_event_def claimable_def Let_def
        split: option.splits if_splits)
qed

text \<open>
  C17: In any sequence of claims, successes and failures recorded for Stripe events, in any order and
  at any times, the claim of one event id is granted at most once more often than a failure was
  recorded for it: a delivered event is handled once, and again only after its handling failed.
\<close>

theorem stripe_event_granted_once:
  "count_list (ledger_grants ledger_claim ledger_settle ledger_fail ops s) eid \<le> 1 + fails_of eid ops"
  using stripe_ledger.granted_once_per_failure [of ops s eid] by (simp split: if_splits)

end
