(* ===== verification/Billing.thy ===== *)
theory Billing
  imports Pricebook Billing_Store
begin

text \<open>
  \<open>app/services/billing_service.py\<close>: effective pricing of a plan, the billing snapshot and the
  three operations on a user's usage record (estimate, consume, approve overage). The state is the
  \<open>billing_store\<close>; the settings the module reads are the record \<open>billing_env\<close>. \<open>float(s)\<close> of a
  string is a field of that record, a parameter.
\<close>

record billing_env =
  be_codec :: codec
  stripe_hobbyist_price_id :: string
  stripe_pro_price_id :: string
  stripe_museum_price_id :: string
  stripe_price_id :: string
  commercial_pricebook_json :: string
  float_of_str :: "string \<Rightarrow> rat option"

definition APPROVAL_SCOPES :: "string list" where
  "APPROVAL_SCOPES = [''single_job'', ''month'', ''upgrade_tier'']"

section \<open>\<open>BillingSnapshot\<close>\<close>

record billing_snapshot =
  bs_user_id :: string
  bs_plan_tier :: string
  bs_used_minutes :: int
  bs_monthly_limit_minutes :: int
  bs_estimated_next_job_minutes :: int
  bs_threshold_alerts :: "int list"
  bs_overage_approval_scope :: "string option"
  bs_approved_for_minutes :: int
  reconciliation_source :: string
  reconciliation_status :: string

definition remaining_minutes :: "billing_snapshot \<Rightarrow> int" where
  "remaining_minutes b = max (bs_monthly_limit_minutes b - bs_used_minutes b) 0"

definition remaining_approved_overage_minutes :: "billing_snapshot \<Rightarrow> int" where
  "remaining_approved_overage_minutes b =
     (let overage_consumed = max (bs_used_minutes b - bs_monthly_limit_minutes b) 0
      in max (bs_approved_for_minutes b - overage_consumed) 0)"

definition effective_limit_minutes :: "billing_snapshot \<Rightarrow> int" where
  "effective_limit_minutes b = bs_monthly_limit_minutes b + bs_approved_for_minutes b"

definition hard_stop :: "billing_snapshot \<Rightarrow> bool" where
  "hard_stop b =
     (let projected_usage = bs_used_minutes b + max (bs_estimated_next_job_minutes b) 0
      in bs_used_minutes b \<ge> effective_limit_minutes b \<or> projected_usage > effective_limit_minutes b)"

section \<open>Effective pricing\<close>

record effective_pricing =
  ep_pricebook_version :: string
  ep_subscription_price_id :: string
  ep_subscription_price_usd :: pyfloat
  ep_included_minutes_monthly :: int
  ep_overage_enabled :: bool
  ep_overage_price_id :: string
  ep_overage_rate_usd_per_minute :: pyfloat
  ep_entitlement_source :: string

definition or_str :: "string \<Rightarrow> string \<Rightarrow> string" where
  "or_str a b = (if a = [] then b else a)"

definition recurring_price_ids_by_tier :: "billing_env \<Rightarrow> price_ids" where
  "recurring_price_ids_by_tier env =
     [(''hobbyist'', strip (stripe_hobbyist_price_id env)),
      (''pro'', strip (or_str (stripe_pro_price_id env) (stripe_price_id env))),
      (''museum'', strip (or_str (stripe_museum_price_id env) (stripe_price_id env)))]"

text \<open>The \<open>except CommercialPricebookConfigurationError\<close> of the source; its body raises nothing else.\<close>

fun pricing_unavailable :: "'a result \<Rightarrow> 'a result" where
  "pricing_unavailable (Inl (CommercialPricebookConfigurationError m)) =
     Inl (CommercialPricingUnavailableError
       ''Billing pricing is temporarily unavailable because the commercial pricebook configuration is invalid.'')"
| "pricing_unavailable r = r"

definition commercial_pricebook_entry ::
  "billing_env \<Rightarrow> string \<Rightarrow> (billing_store, string \<times> pricebook_entry) prog" where
  "commercial_pricebook_entry env tier =
     bindE rev_get_active (\<lambda>revision.
     let ids = recurring_price_ids_by_tier env in
     liftR (pricing_unavailable
       (bind_res
          (case revision of
             Some r \<Rightarrow>
               validate_commercial_pricebook_configuration (be_codec env)
                 (json_dumps (be_codec env) (JObj (payload r))) ids
           | None \<Rightarrow>
               cached_commercial_pricebook (be_codec env) (commercial_pricebook_json env)
                 (strip (stripe_hobbyist_price_id env))
                 (price_id_of_tier ids ''pro'') (price_id_of_tier ids ''museum''))
          (\<lambda>pb. bind_res (resolve_pricebook_entry pb ids tier) (\<lambda>e. Inr (pb_version pb, e))))))"

fun parse_digits :: "bool \<Rightarrow> nat \<Rightarrow> string \<Rightarrow> nat option" where
  "parse_digits need acc [] = (if need then None else Some acc)"
| "parse_digits need acc (c # cs) =
     (let n = of_char c :: nat in
      if 48 \<le> n \<and> n \<le> 57 then parse_digits False (10 * acc + (n - 48)) cs
      else if c = CHR ''_'' \<and> \<not> need then parse_digits True acc cs
      else None)"

text \<open>\<open>int(s)\<close>: surrounding blanks, a sign, digits with single underscores between them.\<close>

definition int_of_str :: "string \<Rightarrow> int option" where
  "int_of_str s =
     (case strip s of
        [] \<Rightarrow> None
      | c # cs \<Rightarrow>
          if c = CHR ''-'' then map_option (\<lambda>n. - int n) (parse_digits True 0 cs)
          else if c = CHR ''+'' then map_option int (parse_digits True 0 cs)
          else map_option int (parse_digits True 0 (c # cs)))"

fun as_int :: "json \<Rightarrow> int \<Rightarrow> int" where
  "as_int (JBool b) d = (if b then 1 else 0)"
| "as_int (JInt i) d = i"
| "as_int (JFloat q) d = (if 0 \<le> q then \<lfloor>q\<rfloor> else \<lceil>q\<rceil>)"
| "as_int (JStr s) d = (case int_of_str s of None \<Rightarrow> d | Some i \<Rightarrow> i)"
| "as_int _ d = d"

text \<open>\<open>_as_int\<close> and \<open>_as_float\<close>. (\<open>OverflowError\<close> of an infinity read as an \<open>int\<close> counts as \<open>ValueError\<close>.)\<close>

definition as_float :: "billing_env \<Rightarrow> json \<Rightarrow> pyfloat \<Rightarrow> pyfloat" where
  "as_float env v d = (case to_pyfloat (float_of_str env) v of Inl _ \<Rightarrow> d | Inr x \<Rightarrow> x)"

definition museum_override ::
  "billing_env \<Rightarrow> account option \<Rightarrow> effective_pricing \<Rightarrow> effective_pricing option" where
  "museum_override env acc dflt =
     (case acc of
        None \<Rightarrow> None
      | Some a \<Rightarrow>
          (let c = be_codec env;
               recurring = strip (str_or_empty c (acc_subscription_price_id a)) in
           if recurring \<noteq> [] then
             (let pid = strip (or_str (str_or_empty c (overage_price_id a)) (ep_overage_price_id dflt));
                  rate = as_float env (overage_rate_usd_per_minute a) (ep_overage_rate_usd_per_minute dflt) in
              Some \<lparr>ep_pricebook_version = ep_pricebook_version dflt,
                ep_subscription_price_id = recurring,
                ep_subscription_price_usd = as_float env (subscription_price_usd a) (ep_subscription_price_usd dflt),
                ep_included_minutes_monthly = as_int (acc_included_minutes_monthly a) (ep_included_minutes_monthly dflt),
                ep_overage_enabled = (pid \<noteq> [] \<or> float_lt (Fin 0) rate),
                ep_overage_price_id = pid,
                ep_overage_rate_usd_per_minute = rate,
                ep_entitlement_source = ''museum_recurring_override''\<rparr>)
           else
             (let q = museum_quote_pricing a;
                  quote_price = strip (str_or_empty c (jget q ''subscription_price_id'')) in
              if quote_price = [] then None
              else
                (let pid = strip (or_str (str_or_empty c (jget q ''overage_price_id'')) (ep_overage_price_id dflt));
                     rate = as_float env (jget q ''overage_rate_usd_per_minute'') (ep_overage_rate_usd_per_minute dflt) in
                 Some \<lparr>ep_pricebook_version = ep_pricebook_version dflt,
                   ep_subscription_price_id = quote_price,
                   ep_subscription_price_usd = as_float env (jget q ''subscription_price_usd'') (ep_subscription_price_usd dflt),
                   ep_included_minutes_monthly = as_int (jget q ''included_minutes_monthly'') (ep_included_minutes_monthly dflt),
                   ep_overage_enabled = (pid \<noteq> [] \<or> float_lt (Fin 0) rate),
                   ep_overage_price_id = pid,
                   ep_overage_rate_usd_per_minute = rate,
                   ep_entitlement_source = ''museum_quote_override''\<rparr>))))"

text \<open>
  The pricing metadata argument is the function \<open>subscription_price_usd_for_tier\<close> of
  \<open>BillingPricingMetadata\<close>, or \<open>None\<close>.
\<close>

definition effective_pricing_for_plan ::
  "billing_env \<Rightarrow> string \<Rightarrow> string option \<Rightarrow> (string \<Rightarrow> rat) option \<Rightarrow>
   (billing_store, effective_pricing) prog" where
  "effective_pricing_for_plan env tier org_id pricing_metadata =
     bindE (commercial_pricebook_entry env tier) (\<lambda>(version, e).
     let eff = \<lparr>ep_pricebook_version = version,
           ep_subscription_price_id = subscription_price_id e,
           ep_subscription_price_usd = Fin (case pricing_metadata of None \<Rightarrow> 0 | Some f \<Rightarrow> f tier),
           ep_included_minutes_monthly = included_minutes_monthly e,
           ep_overage_enabled = ov_enabled (entry_overage e),
           ep_overage_price_id = ov_price_id (entry_overage e),
           ep_overage_rate_usd_per_minute = ov_rate_usd_per_minute (entry_overage e),
           ep_entitlement_source = ''commercial_pricebook''\<rparr> in
     (case org_id of
        None \<Rightarrow> ret eff
      | Some org \<Rightarrow>
          if lower (strip tier) \<noteq> ''museum'' \<or> org = [] then ret eff
          else
            bindE (get_by_org org) (\<lambda>account.
            ret (case museum_override env account eff of None \<Rightarrow> eff | Some ov \<Rightarrow> ov))))"

definition monthly_limit_for_tier :: "billing_env \<Rightarrow> string \<Rightarrow> (billing_store, int) prog" where
  "monthly_limit_for_tier env tier =
     bindE (commercial_pricebook_entry env tier) (\<lambda>(v, e). ret (included_minutes_monthly e))"

definition allowed_fidelity_tiers_for_plan :: "billing_env \<Rightarrow> string \<Rightarrow> (billing_store, string list) prog" where
  "allowed_fidelity_tiers_for_plan env tier =
     bindE (commercial_pricebook_entry env tier) (\<lambda>(v, e). ret (fidelity_tiers (entry_entitlements e)))"

definition resolution_cap_for_plan :: "billing_env \<Rightarrow> string \<Rightarrow> (billing_store, string) prog" where
  "resolution_cap_for_plan env tier =
     bindE (commercial_pricebook_entry env tier) (\<lambda>(v, e). ret (resolution_cap (entry_entitlements e)))"

definition max_retention_days_for_plan :: "billing_env \<Rightarrow> string \<Rightarrow> (billing_store, int) prog" where
  "max_retention_days_for_plan env tier =
     bindE (commercial_pricebook_entry env tier) (\<lambda>(v, e). ret (export_retention_days (entry_entitlements e)))"

definition monthly_limit_for_context ::
  "billing_env \<Rightarrow> string \<Rightarrow> string option \<Rightarrow> (billing_store, int) prog" where
  "monthly_limit_for_context env tier org_id =
     bindE (effective_pricing_for_plan env tier org_id None) (\<lambda>ep. ret (ep_included_minutes_monthly ep))"

section \<open>Minutes\<close>

text \<open>\<open>base * multiplier\<close> with multipliers 1.0, 1.5 and 2.0; 1.0 for any other mode.\<close>

definition billable_minutes_for_duration :: "int \<Rightarrow> string \<Rightarrow> int" where
  "billable_minutes_for_duration duration_seconds mode =
     (let base_minutes = ceil_div (max duration_seconds 0) 60;
          (num, den) = (if mode = ''Enhance'' then (1, 1)
                        else if mode = ''Restore'' then (3, 2)
                        else if mode = ''Conserve'' then (2, 1) else (1, 1))
      in max (ceil_div (base_minutes * num) den) 0)"

definition threshold_alerts_for :: "int \<Rightarrow> int \<Rightarrow> int list" where
  "threshold_alerts_for used limit =
     (if limit \<le> 0 then []
      else
        (let usage_pct = (of_int used / of_int limit) * 100 :: rat
         in filter (\<lambda>threshold. usage_pct \<ge> of_int threshold) [80, 90, 100]))"

definition normalize_approval_scope :: "string \<Rightarrow> string result" where
  "normalize_approval_scope scope =
     (let normalized = lower (strip scope) in
      if normalized \<notin> set APPROVAL_SCOPES
      then Inl (ValueError ''approval_scope must be one of: single_job, month, upgrade_tier'')
      else Inr normalized)"

definition reconciliation_status_for :: "int \<Rightarrow> int \<Rightarrow> string" where
  "reconciliation_status_for used estimated =
     (if estimated > 0 then ''estimate_pending''
      else if used > 0 then ''usage_reconciled'' else ''not_started'')"

section \<open>\<open>BillingService\<close>\<close>

definition snapshot_from_usage :: "usage \<Rightarrow> billing_snapshot" where
  "snapshot_from_usage u = \<lparr>bs_user_id = us_user_id u, bs_plan_tier = us_plan_tier u,
     bs_used_minutes = used_minutes u, bs_monthly_limit_minutes = monthly_limit_minutes u,
     bs_estimated_next_job_minutes = estimated_next_job_minutes u,
     bs_threshold_alerts = threshold_alerts u,
     bs_overage_approval_scope =
       (if overage_approval_scope u = Some [] then None else overage_approval_scope u),
     bs_approved_for_minutes = approved_for_minutes u,
     reconciliation_source = ''user_usage_monthly'',
     reconciliation_status = reconciliation_status_for (used_minutes u) (estimated_next_job_minutes u)\<rparr>"

text \<open>The call that opens every operation: the plan's limit, then the user's record.\<close>

definition current_usage ::
  "billing_env \<Rightarrow> string \<Rightarrow> string \<Rightarrow> string option \<Rightarrow> (billing_store, usage) prog" where
  "current_usage env user_id tier org_id =
     bindE (monthly_limit_for_context env tier org_id) (usage_get_or_create user_id tier)"

definition snapshot ::
  "billing_env \<Rightarrow> string \<Rightarrow> string \<Rightarrow> string option \<Rightarrow> (billing_store, billing_snapshot) prog" where
  "snapshot env user_id tier org_id =
     bindE (current_usage env user_id tier org_id) (\<lambda>u. ret (snapshot_from_usage u))"

definition record_estimate ::
  "billing_env \<Rightarrow> string \<Rightarrow> string \<Rightarrow> int \<Rightarrow> string option \<Rightarrow> (billing_store, billing_snapshot) prog" where
  "record_estimate env user_id tier estimated org_id =
     bindE (current_usage env user_id tier org_id) (\<lambda>u.
     bindE (usage_update user_id (\<lambda>x. x\<lparr>
         estimated_next_job_minutes := estimated,
         threshold_alerts := threshold_alerts_for (used_minutes u) (monthly_limit_minutes u)\<rparr>))
       (\<lambda>u'. ret (snapshot_from_usage u')))"

definition consume_minutes ::
  "billing_env \<Rightarrow> string \<Rightarrow> string \<Rightarrow> int \<Rightarrow> string option \<Rightarrow> (billing_store, billing_snapshot) prog" where
  "consume_minutes env user_id tier minutes org_id =
     bindE (current_usage env user_id tier org_id) (\<lambda>u.
     let used = used_minutes u + max minutes 0;
         overage_consumed = max (used - monthly_limit_minutes u) 0;
         scope = (if overage_approval_scope u = Some ''single_job'' \<and> overage_consumed \<ge> approved_for_minutes u
                  then None else overage_approval_scope u) in
     bindE (usage_update user_id (\<lambda>x. x\<lparr>
         used_minutes := used,
         estimated_next_job_minutes := 0,
         overage_approval_scope := scope,
         threshold_alerts := threshold_alerts_for used (monthly_limit_minutes u)\<rparr>))
       (\<lambda>u'. ret (snapshot_from_usage u')))"

definition approve_overage ::
  "billing_env \<Rightarrow> string \<Rightarrow> string \<Rightarrow> string \<Rightarrow> int \<Rightarrow> string option \<Rightarrow>
   (billing_store, billing_snapshot) prog" where
  "approve_overage env user_id tier approval_scope requested org_id =
     bindE (current_usage env user_id tier org_id) (\<lambda>u.
     bindE (liftR (normalize_approval_scope approval_scope)) (\<lambda>scope.
     let requested' = max requested 0;
         approved = (if scope \<noteq> ''upgrade_tier'' \<and> requested' \<le> 0
                     then estimated_next_job_minutes u else requested') in
     if scope \<noteq> ''upgrade_tier'' \<and> approved \<le> 0
     then raise (ValueError ''requested_minutes must be positive when approval_scope is single_job or month'')
     else
       bindE (usage_update user_id (\<lambda>x. x\<lparr>
           overage_approval_scope := Some scope,
           approved_for_minutes := (if scope = ''upgrade_tier'' then 0 else approved),
           threshold_alerts := threshold_alerts_for (used_minutes u) (monthly_limit_minutes u)\<rparr>))
         (\<lambda>u'. ret (snapshot_from_usage u'))))"

text \<open>Where a request needs a price that is not configured, the services answer 503.\<close>

definition pricing_unavailable_problem :: exn where
  "pricing_unavailable_problem = ProblemException ''Billing Pricing Unavailable'' 503"

fun as_pricing_problem :: "exn \<Rightarrow> exn" where
  "as_pricing_problem (CommercialPricingUnavailableError m) = pricing_unavailable_problem"
| "as_pricing_problem e = e"

definition or_pricing_problem :: "('s, 'a) prog \<Rightarrow> ('s, 'a) prog" where
  "or_pricing_problem m = catchE m (\<lambda>e. raise (as_pricing_problem e))"

section \<open>Reading prices changes nothing\<close>

lemma readonly_commercial_pricebook_entry [readonly_intro]: "readonly (commercial_pricebook_entry env t)"
  unfolding commercial_pricebook_entry_def rev_get_active_def Let_def
  by (intro readonly_intro)

lemma readonly_effective_pricing [readonly_intro]: "readonly (effective_pricing_for_plan env t org md)"
  unfolding effective_pricing_for_plan_def get_by_org_def Let_def
  by (intro readonly_intro)

lemma readonly_monthly_limit [readonly_intro]: "readonly (monthly_limit_for_context env t org)"
  unfolding monthly_limit_for_context_def by (intro readonly_intro)

text \<open>The limit an operation works with, as a function of the state it starts from.\<close>

definition limit_in :: "billing_env \<Rightarrow> string \<Rightarrow> string option \<Rightarrow> billing_store \<Rightarrow> int result" where
  "limit_in env tier org s = fst (monthly_limit_for_context env tier org s)"

text \<open>The record \<open>get_or_create\<close> hands out: the stored one with plan and limit refreshed.\<close>

definition usage_in :: "string \<Rightarrow> string \<Rightarrow> int \<Rightarrow> billing_store \<Rightarrow> usage" where
  "usage_in user_id tier limit s =
     (case dget (usage_tab s) user_id of
        None \<Rightarrow> \<lparr>us_user_id = user_id, us_plan_tier = tier, used_minutes = 0,
          monthly_limit_minutes = limit, estimated_next_job_minutes = 0,
          threshold_alerts = [], overage_approval_scope = None, approved_for_minutes = 0\<rparr>
      | Some u \<Rightarrow> u\<lparr>us_plan_tier := tier, monthly_limit_minutes := limit\<rparr>)"

lemma usage_in_simps [simp]:
  "monthly_limit_minutes (usage_in uid t l s) = l"
  "us_plan_tier (usage_in uid t l s) = t"
  by (auto simp: usage_in_def split: option.splits)

lemma usage_get_or_create_run:
  "usage_get_or_create uid t l s =
     (Inr (usage_in uid t l s), s\<lparr>usage_tab := dset uid (usage_in uid t l s) (usage_tab s)\<rparr>)"
  by (simp add: usage_get_or_create_def usage_in_def Let_def)

lemma usage_update_run:
  "dget (usage_tab s) uid = Some u \<Longrightarrow>
   usage_update uid f s = (Inr (f u), s\<lparr>usage_tab := dset uid (f u) (usage_tab s)\<rparr>)"
  by (simp add: usage_update_def)

lemma current_usage_ok:
  "limit_in env t org s = Inr l \<Longrightarrow>
   current_usage env uid t org s =
     (Inr (usage_in uid t l s), s\<lparr>usage_tab := dset uid (usage_in uid t l s) (usage_tab s)\<rparr>)"
  unfolding current_usage_def limit_in_def
  by (drule readonly_result [OF readonly_monthly_limit])
    (simp add: bindE_run usage_get_or_create_run)

lemma current_usage_unavailable:
  "limit_in env t org s = Inl e \<Longrightarrow> current_usage env uid t org s = (Inl e, s)"
  unfolding current_usage_def limit_in_def
  by (drule readonly_result [OF readonly_monthly_limit]) (simp add: bindE_raised)

lemma billing_op_unavailable:
  assumes "limit_in env t org s = Inl e"
  shows "snapshot env uid t org s = (Inl e, s)"
    and "record_estimate env uid t n org s = (Inl e, s)"
    and "consume_minutes env uid t n org s = (Inl e, s)"
    and "approve_overage env uid t sc n org s = (Inl e, s)"
  using current_usage_unavailable [OF assms]
  by (simp_all add: snapshot_def record_estimate_def consume_minutes_def approve_overage_def bindE_raised)

section \<open>Each operation as one update of the user's record\<close>

definition consumed :: "int \<Rightarrow> usage \<Rightarrow> usage" where
  "consumed minutes u =
     (let used = used_minutes u + max minutes 0 in
      u\<lparr>used_minutes := used, estimated_next_job_minutes := 0,
        overage_approval_scope :=
          (if overage_approval_scope u = Some ''single_job''
              \<and> max (used - monthly_limit_minutes u) 0 \<ge> approved_for_minutes u
           then None else overage_approval_scope u),
        threshold_alerts := threshold_alerts_for used (monthly_limit_minutes u)\<rparr>)"

definition estimated :: "int \<Rightarrow> usage \<Rightarrow> usage" where
  "estimated n u = u\<lparr>estimated_next_job_minutes := n,
     threshold_alerts := threshold_alerts_for (used_minutes u) (monthly_limit_minutes u)\<rparr>"

definition put_usage :: "string \<Rightarrow> usage \<Rightarrow> billing_store \<Rightarrow> billing_store" where
  "put_usage uid u s = s\<lparr>usage_tab := dset uid u (usage_tab s)\<rparr>"

lemma put_usage_simps [simp]:
  "dget (usage_tab (put_usage uid u s)) v = (if v = uid then Some u else dget (usage_tab s) v)"
  "accounts (put_usage uid u s) = accounts s"
  "revisions (put_usage uid u s) = revisions s"
  "stripe_events (put_usage uid u s) = stripe_events s"
  "audit_events (put_usage uid u s) = audit_events s"
  by (auto simp: put_usage_def)

lemma consume_minutes_run:
  "limit_in env t org s = Inr l \<Longrightarrow>
   consume_minutes env uid t n org s =
     (let u' = consumed n (usage_in uid t l s) in (Inr (snapshot_from_usage u'), put_usage uid u' s))"
  by (simp add: consume_minutes_def bindE_run [OF current_usage_ok] Let_def usage_update_run
      bindE_run [OF usage_update_run] consumed_def ret_def put_usage_def)

lemma record_estimate_run:
  "limit_in env t org s = Inr l \<Longrightarrow>
   record_estimate env uid t n org s =
     (let u' = estimated n (usage_in uid t l s) in (Inr (snapshot_from_usage u'), put_usage uid u' s))"
  by (simp add: record_estimate_def bindE_run [OF current_usage_ok] Let_def
      bindE_run [OF usage_update_run] estimated_def ret_def put_usage_def)

lemma snapshot_run:
  "limit_in env t org s = Inr l \<Longrightarrow>
   snapshot env uid t org s = (Inr (snapshot_from_usage (usage_in uid t l s)), put_usage uid (usage_in uid t l s) s)"
  by (simp add: snapshot_def bindE_run [OF current_usage_ok] ret_def put_usage_def)

lemma limit_in_put_usage [simp]: "limit_in env t org (put_usage uid u s) = limit_in env t org s"
  by (simp add: limit_in_def monthly_limit_for_context_def effective_pricing_for_plan_def
      commercial_pricebook_entry_def rev_get_active_def get_by_org_def active_revisions_def
      bindE_def getsE_def liftR_def ret_def Let_def split: prod.splits sum.splits option.splits)

lemma usage_in_put_usage [simp]:
  "usage_in uid t l (put_usage uid u s) = u\<lparr>us_plan_tier := t, monthly_limit_minutes := l\<rparr>"
  by (simp add: usage_in_def)

lemma approve_overage_run:
  assumes "limit_in env t org s = Inr l" and "normalize_approval_scope sc = Inr scope"
    and "scope = ''upgrade_tier'' \<or> 0 < m"
  shows "approve_overage env uid t sc m org s =
    (let u = usage_in uid t l s;
         u' = u\<lparr>overage_approval_scope := Some scope,
                approved_for_minutes := (if scope = ''upgrade_tier'' then 0 else m),
                threshold_alerts := threshold_alerts_for (used_minutes u) l\<rparr>
     in (Inr (snapshot_from_usage u'), put_usage uid u' s))"
  using assms
  by (auto simp: approve_overage_def bindE_run [OF current_usage_ok] Let_def
      bindE_run [OF usage_update_run] liftR_def bindE_def [of "\<lambda>s. (Inr scope, s)"] ret_def put_usage_def
      split: if_splits)

lemma threshold_alerts_for_eq:
  "threshold_alerts_for used limit = filter (\<lambda>t. 0 < limit \<and> t * limit \<le> used * 100) [80, 90, 100]"
proof (cases "0 < limit")
  case True
  have "(of_int t \<le> (of_int used / of_int limit) * (100 :: rat)) = (t * limit \<le> used * 100)" for t
  proof -
    have "(of_int t \<le> (of_int used / of_int limit) * (100 :: rat)) = ((of_int (t * limit) :: rat) \<le> of_int (used * 100))"
      using True by (simp add: field_simps)
    then show ?thesis by (simp only: of_int_le_iff)
  qed
  note eq = this [of 80, simplified] this [of 90, simplified] this [of 100, simplified]
  from True show ?thesis by (simp add: threshold_alerts_for_def Let_def eq)
next
  case False
  then show ?thesis by (simp add: threshold_alerts_for_def)
qed

section \<open>Properties\<close>

definition sample_env :: billing_env where
  "sample_env = \<lparr>be_codec = sample_codec, stripe_hobbyist_price_id = ''price_h'',
     stripe_pro_price_id = ''price_p'', stripe_museum_price_id = ''price_m'', stripe_price_id = [],
     commercial_pricebook_json = ''{}'', float_of_str = (\<lambda>_. None)\<rparr>"

lemma sample_env_simps [simp]:
  "be_codec sample_env = sample_codec" "commercial_pricebook_json sample_env = ''{}''"
  "stripe_hobbyist_price_id sample_env = ''price_h''"
  by (simp_all add: sample_env_def)

lemma sample_pricing_entry:
  "commercial_pricebook_entry sample_env ''pro'' empty_billing_store =
     (Inr (''v1'', sample_parsed ''price_p'' ''pro''), empty_billing_store)"
proof -
  have ids: "recurring_price_ids_by_tier sample_env = sample_ids"
    by (simp add: recurring_price_ids_by_tier_def sample_env_def sample_ids_def or_str_def string_eval)
  have "cached_commercial_pricebook sample_codec ''{}'' (strip ''price_h'')
      (price_id_of_tier sample_ids ''pro'') (price_id_of_tier sample_ids ''museum'') =
    validate_commercial_pricebook_configuration sample_codec ''{}'' sample_ids"
    by (simp add: cached_commercial_pricebook_def sample_ids_def price_id_of_tier_def string_eval)
  note v = this [unfolded sample_pricebook_valid]
  have "resolve_pricebook_entry \<lparr>pb_version = ''v1'',
     entries = [(''price_h'', sample_parsed ''price_h'' ''hobbyist''),
       (''price_p'', sample_parsed ''price_p'' ''pro''), (''price_m'', sample_parsed ''price_m'' ''museum'')]\<rparr>
     sample_ids ''pro'' = Inr (sample_parsed ''price_p'' ''pro'')"
    by (simp add: resolve_pricebook_entry_def SUPPORTED_PLAN_TIERS_def price_id_of_tier_def
        sample_ids_def sample_parsed_def string_eval)
  then show ?thesis
    by (simp add: commercial_pricebook_entry_def bindE_def rev_get_active_def getsE_def liftR_def
        active_revisions_def empty_billing_store_def Let_def ids v)
qed

lemma sample_limit: "limit_in sample_env ''pro'' org empty_billing_store = Inr 60"
  by (cases org) (simp_all add: limit_in_def monthly_limit_for_context_def effective_pricing_for_plan_def
      bindE_def sample_pricing_entry ret_def sample_parsed_def string_eval)

text \<open>
  C19: \<open>consume_minutes\<close> either fails to resolve the plan's pricing and leaves the store as it was, or
  writes exactly one record: the user's minutes grow by \<open>max(minutes, 0)\<close>, the pending estimate is
  cleared, the approved overage stays, the alerts are the thresholds 80, 90 and 100 percent that the
  new usage has reached, and no other user's record and no other table changes.
\<close>

theorem consume_minutes_exact:
  "case limit_in env tier org s of
     Inl e \<Rightarrow> consume_minutes env uid tier n org s = (Inl e, s)
   | Inr l \<Rightarrow>
       (\<exists>b u. consume_minutes env uid tier n org s = (Inr b, s\<lparr>usage_tab := dset uid u (usage_tab s)\<rparr>) \<and>
          used_minutes u = (case dget (usage_tab s) uid of None \<Rightarrow> 0 | Some u0 \<Rightarrow> used_minutes u0) + max n 0 \<and>
          monthly_limit_minutes u = l \<and> estimated_next_job_minutes u = 0 \<and>
          approved_for_minutes u = (case dget (usage_tab s) uid of None \<Rightarrow> 0 | Some u0 \<Rightarrow> approved_for_minutes u0) \<and>
          threshold_alerts u = filter (\<lambda>t. 0 < l \<and> t * l \<le> used_minutes u * 100) [80, 90, 100] \<and>
          b = snapshot_from_usage u)"
proof (cases "limit_in env tier org s")
  case (Inl e)
  then show ?thesis by (simp add: billing_op_unavailable)
next
  case (Inr l)
  let ?u = "consumed n (usage_in uid tier l s)"
  have old: "used_minutes (usage_in uid tier l s) =
        (case dget (usage_tab s) uid of None \<Rightarrow> 0 | Some u0 \<Rightarrow> used_minutes u0)"
    "approved_for_minutes (usage_in uid tier l s) =
        (case dget (usage_tab s) uid of None \<Rightarrow> 0 | Some u0 \<Rightarrow> approved_for_minutes u0)"
    by (simp_all add: usage_in_def split: option.splits)
  have "consume_minutes env uid tier n org s =
      (Inr (snapshot_from_usage ?u), s\<lparr>usage_tab := dset uid ?u (usage_tab s)\<rparr>)"
    by (simp add: consume_minutes_run [OF Inr] put_usage_def Let_def)
  moreover have "used_minutes ?u = used_minutes (usage_in uid tier l s) + max n 0"
    "monthly_limit_minutes ?u = l" "estimated_next_job_minutes ?u = 0"
    "approved_for_minutes ?u = approved_for_minutes (usage_in uid tier l s)"
    "threshold_alerts ?u = filter (\<lambda>t. 0 < l \<and> t * l \<le> used_minutes ?u * 100) [80, 90, 100]"
    by (simp_all add: consumed_def Let_def threshold_alerts_for_eq del: filter.simps)
  ultimately show ?thesis
    unfolding Inr sum.case old [symmetric] by blast
qed

text \<open>
  The hard stop protects the budget. If \<open>record_estimate\<close> for a launch returns a snapshot that is
  not hard-stopped, and the job is then billed for at most the estimated minutes, the usage stays
  within the included minutes plus the approved overage.
\<close>

theorem launch_within_budget:
  assumes "record_estimate env uid tier est org s = (Inr b, s1)" and "\<not> hard_stop b"
    and "consume_minutes env uid tier n org s1 = (Inr b2, s2)" and "n \<le> est"
  shows "bs_used_minutes b2 \<le> effective_limit_minutes b2 \<and>
    bs_used_minutes b2 \<le> bs_monthly_limit_minutes b + bs_approved_for_minutes b"
proof -
  from assms(1) obtain l where l: "limit_in env tier org s = Inr l"
    by (cases "limit_in env tier org s") (auto simp: billing_op_unavailable)
  let ?u = "usage_in uid tier l s"
  from assms(1) record_estimate_run [OF l, of uid est]
  have b: "b = snapshot_from_usage (estimated est ?u)" and s1: "s1 = put_usage uid (estimated est ?u) s"
    by (auto simp: Let_def)
  from assms(3) consume_minutes_run [of env tier org s1 l uid n] l
  have b2: "b2 = snapshot_from_usage (consumed n (usage_in uid tier l s1))"
    by (auto simp: Let_def s1)
  from assms(2,4) show ?thesis
    by (auto simp: b b2 s1 hard_stop_def effective_limit_minutes_def snapshot_from_usage_def
        estimated_def consumed_def Let_def)
qed

theorem launch_within_budget_witness:
  "\<exists>b s1 b2 s2. record_estimate sample_env ''u1'' ''pro'' 40 None empty_billing_store = (Inr b, s1) \<and>
     \<not> hard_stop b \<and> consume_minutes sample_env ''u1'' ''pro'' 30 None s1 = (Inr b2, s2) \<and>
     bs_used_minutes b2 \<le> effective_limit_minutes b2"
proof -
  let ?u = "usage_in ''u1'' ''pro'' 60 empty_billing_store"
  let ?s1 = "put_usage ''u1'' (estimated 40 ?u) empty_billing_store"
  have r: "record_estimate sample_env ''u1'' ''pro'' 40 None empty_billing_store =
      (Inr (snapshot_from_usage (estimated 40 ?u)), ?s1)"
    by (simp add: record_estimate_run [OF sample_limit] Let_def)
  have h: "\<not> hard_stop (snapshot_from_usage (estimated 40 ?u))"
    by (simp add: hard_stop_def snapshot_from_usage_def estimated_def usage_in_def
        empty_billing_store_def effective_limit_minutes_def)
  have c: "\<exists>b2 s2. consume_minutes sample_env ''u1'' ''pro'' 30 None ?s1 = (Inr b2, s2)"
    by (simp add: consume_minutes_run [of _ _ _ _ 60] sample_limit Let_def)
  then obtain b2 s2 where c2: "consume_minutes sample_env ''u1'' ''pro'' 30 None ?s1 = (Inr b2, s2)" by blast
  from launch_within_budget [OF r h c2] have "bs_used_minutes b2 \<le> effective_limit_minutes b2" by simp
  with r h c2 show ?thesis by blast
qed

text \<open>
  An approval given for a single job outlives the job. After \<open>approve_overage\<close> with scope
  \<open>single_job\<close> and any later \<open>consume_minutes\<close>, the approved minutes still count toward the user's
  effective limit, whatever the job used, and while the overage used is below the approval the scope
  itself is still \<open>single_job\<close>.
\<close>

theorem single_job_approval_outlives_job:
  assumes "approve_overage env uid tier ''single_job'' m org s = (Inr b1, s1)" and "0 < m"
    and "consume_minutes env uid tier n org s1 = (Inr b2, s2)"
  shows "effective_limit_minutes b2 = bs_monthly_limit_minutes b2 + m \<and>
    (bs_used_minutes b2 < bs_monthly_limit_minutes b2 + m \<longrightarrow>
       bs_overage_approval_scope b2 = Some ''single_job'')"
proof -
  from assms(1) obtain l where l: "limit_in env tier org s = Inr l"
    by (cases "limit_in env tier org s") (auto simp: billing_op_unavailable)
  let ?u = "usage_in uid tier l s"
  let ?u1 = "?u\<lparr>overage_approval_scope := Some ''single_job'', approved_for_minutes := m,
      threshold_alerts := threshold_alerts_for (used_minutes ?u) l\<rparr>"
  have "normalize_approval_scope ''single_job'' = Inr ''single_job''"
    by (simp add: normalize_approval_scope_def APPROVAL_SCOPES_def string_eval)
  from assms(1) approve_overage_run [OF l this, of m uid] assms(2)
  have s1: "s1 = put_usage uid ?u1 s" by (simp add: Let_def)
  from assms(3) consume_minutes_run [of env tier org s1 l uid n] l
  have b2: "b2 = snapshot_from_usage (consumed n (usage_in uid tier l s1))"
    by (auto simp: Let_def s1)
  from assms(2) show ?thesis
    by (auto simp: b2 s1 effective_limit_minutes_def snapshot_from_usage_def consumed_def Let_def)
qed

theorem single_job_approval_outlives_job_witness:
  "\<exists>b1 s1 b2 s2. approve_overage sample_env ''u1'' ''pro'' ''single_job'' 10 None empty_billing_store = (Inr b1, s1) \<and>
     consume_minutes sample_env ''u1'' ''pro'' 65 None s1 = (Inr b2, s2) \<and> effective_limit_minutes b2 = 70"
proof -
  have n: "normalize_approval_scope ''single_job'' = Inr ''single_job''"
    by (simp add: normalize_approval_scope_def APPROVAL_SCOPES_def string_eval)
  obtain b1 s1 where a: "approve_overage sample_env ''u1'' ''pro'' ''single_job'' 10 None empty_billing_store = (Inr b1, s1)"
    and s1: "limit_in sample_env ''pro'' None s1 = Inr 60"
    using approve_overage_run [OF sample_limit n, of 10 "''u1''"] sample_limit by (simp add: Let_def)
  obtain b2 s2 where c: "consume_minutes sample_env ''u1'' ''pro'' 65 None s1 = (Inr b2, s2)"
    and "bs_monthly_limit_minutes b2 = 60"
    using consume_minutes_run [OF s1, of "''u1''" 65]
    by (auto simp: Let_def snapshot_from_usage_def consumed_def)
  with single_job_approval_outlives_job [OF a _ c] a c show ?thesis by auto
qed

text \<open>
  Billable minutes are whole minutes rounded up twice: the started minutes of the duration, times
  1, 3/2 or 2 for Enhance, Restore and Conserve, rounded up. They are never negative, 0 exactly for a
  non-positive duration, and never less than the duration itself.
\<close>

theorem billable_minutes_reference:
  "billable_minutes_for_duration d mode =
     \<lceil>(if mode = ''Restore'' then 3 / 2 else if mode = ''Conserve'' then 2 else 1) *
      of_int \<lceil>(of_int (max d 0) :: rat) / 60\<rceil> :: rat\<rceil> \<and>
   d \<le> 60 * billable_minutes_for_duration d mode \<and>
   (billable_minutes_for_duration d mode = 0 \<longleftrightarrow> d \<le> 0)"
proof -
  let ?b = "ceil_div (max d 0) 60"
  have b: "?b = \<lceil>(of_int (max d 0) :: rat) / 60\<rceil>" using ceil_div_ceiling [of "max d 0" 60] by simp
  have ge: "max d 0 \<le> ?b * 60" using ceil_div_le_iff [of 60 "max d 0" ?b] by simp
  then have nn: "0 \<le> ?b" by simp
  have z: "?b = 0 \<longleftrightarrow> d \<le> 0"
  proof
    assume "?b = 0"
    with ge show "d \<le> 0" by simp
  next
    assume "d \<le> 0"
    then show "?b = 0" by (simp add: max_def ceil_div_def)
  qed
  have half: "?b \<le> ceil_div (?b * 3) 2" "0 \<le> ceil_div (?b * 3) 2" "ceil_div (?b * 3) 2 = 0 \<longleftrightarrow> ?b = 0"
    using nn by (auto simp: ceil_div_def)
  have one: "ceil_div x 1 = x" for x by (simp add: ceil_div_def)
  have c3: "\<lceil>3 * (of_int ?b :: rat) / 2\<rceil> = ceil_div (?b * 3) 2"
    using ceil_div_ceiling [of "?b * 3" 2] by (simp add: mult.commute)
  have c2: "\<lceil>2 * (of_int ?b :: rat)\<rceil> = ?b * 2"
    using ceiling_of_int [of "?b * 2", where 'a = rat] by (simp add: mult.commute)
  show ?thesis
    using nn ge z half by (auto simp: billable_minutes_for_duration_def Let_def one c3 c2 simp flip: b)
qed

end
