(* ===== verification/Cost_Estimation.thy ===== *)
theory Cost_Estimation
  imports Billing
begin

text \<open>
  \<open>app/services/cost_estimation.py\<close> with the price lookup of \<open>app/billing/stripe_client.py\<close>: what a
  launch is estimated to cost, and how the estimate is compared with the actual run. Stripe's
  \<open>Price.retrieve\<close> and \<open>Decimal(str)\<close> are parameters (\<open>stripe_env\<close>); the price cache, which repeats a
  lookup within five minutes, is not modelled. Reporting to the metrics is left out.
\<close>

section \<open>Prices from Stripe\<close>

record stripe_config =
  sc_secret_key :: string
  sc_product_id :: string
  sc_price_id :: string
  sc_overage_product_id :: string
  sc_overage_price_id :: string
  sc_hobbyist_price_id :: string
  sc_pro_price_id :: string
  sc_museum_price_id :: string

record stripe_env =
  price_retrieve :: "string \<Rightarrow> json result"
  decimal_of_str :: "string \<Rightarrow> rat option"
  se_codec :: codec

record pricing_metadata =
  pm_subscription_price_id :: string
  pm_overage_price_id :: string
  pm_overage_rate_usd_per_minute :: rat
  pm_subscription_price_usd :: rat
  subscription_price_ids_by_tier :: "(string, string) pydict"
  subscription_prices_usd_by_tier :: "(string, rat) pydict"

definition subscription_price_id_for_tier :: "pricing_metadata \<Rightarrow> string \<Rightarrow> string" where
  "subscription_price_id_for_tier m tier =
     (case dget (subscription_price_ids_by_tier m) (lower (strip tier)) of
        Some p \<Rightarrow> p | None \<Rightarrow> pm_subscription_price_id m)"

definition subscription_price_usd_for_tier :: "pricing_metadata \<Rightarrow> string \<Rightarrow> rat" where
  "subscription_price_usd_for_tier m tier =
     (case dget (subscription_prices_usd_by_tier m) (lower (strip tier)) of
        Some p \<Rightarrow> p | None \<Rightarrow> pm_subscription_price_usd m)"

definition validate_no_hardcoded_prices :: "stripe_config \<Rightarrow> bool" where
  "validate_no_hardcoded_prices cfg =
     (starts_with ''prod_'' (sc_product_id cfg) \<and> starts_with ''price_'' (sc_price_id cfg) \<and>
      starts_with ''prod_'' (sc_overage_product_id cfg) \<and> starts_with ''price_'' (sc_overage_price_id cfg) \<and>
      (\<forall>p \<in> set [sc_hobbyist_price_id cfg, sc_pro_price_id cfg, sc_museum_price_id cfg].
         p = [] \<or> starts_with ''price_'' p))"

fun stripe_field :: "json \<Rightarrow> string \<Rightarrow> json" where
  "stripe_field (JObj d) name = jget d name"
| "stripe_field _ name = JNull"

text \<open>\<open>_cached_overage_rate\<close> and \<open>_cached_subscription_price\<close>; \<open>what\<close> names the price in the error.\<close>

definition cached_price :: "stripe_env \<Rightarrow> string \<Rightarrow> string \<Rightarrow> rat result" where
  "cached_price env what price_id =
     bind_res (price_retrieve env price_id) (\<lambda>price.
     let raw0 = stripe_field price ''unit_amount_decimal'';
         raw = (if raw0 = JNull then stripe_field price ''unit_amount'' else raw0) in
     if raw = JNull then Inl (ValueError (''Stripe '' @ what @ '' price is missing unit_amount metadata.''))
     else
       (case decimal_of_str env (py_str (se_codec env) raw) of
          None \<Rightarrow> Inl (ExternalError ''InvalidOperation'')
        | Some q \<Rightarrow> Inr (py_round 4 (q / 100))))"

definition price_ids_by_tier :: "stripe_config \<Rightarrow> (string, string) pydict" where
  "price_ids_by_tier cfg =
     [(''hobbyist'', sc_hobbyist_price_id cfg),
      (''pro'', or_str (sc_pro_price_id cfg) (sc_price_id cfg)),
      (''museum'', or_str (sc_museum_price_id cfg) (sc_price_id cfg))]"

definition resolve_billing_pricing_metadata :: "stripe_env \<Rightarrow> stripe_config \<Rightarrow> pricing_metadata result" where
  "resolve_billing_pricing_metadata env cfg =
     (if sc_secret_key cfg = []
      then Inl (ValueError ''STRIPE_SECRET_KEY is required for billing price resolution.'')
      else
        bind_res (map_res (\<lambda>(tier, pid).
            if pid = [] then Inr (tier, 0)
            else bind_res (cached_price env ''subscription'' pid) (\<lambda>q. Inr (tier, q))) (price_ids_by_tier cfg))
          (\<lambda>usd.
        bind_res (cached_price env ''overage'' (sc_overage_price_id cfg)) (\<lambda>rate.
        Inr \<lparr>pm_subscription_price_id = sc_price_id cfg, pm_overage_price_id = sc_overage_price_id cfg,
          pm_overage_rate_usd_per_minute = rate,
          pm_subscription_price_usd = (case dget usd ''pro'' of Some q \<Rightarrow> q | None \<Rightarrow> 0),
          subscription_price_ids_by_tier = price_ids_by_tier cfg,
          subscription_prices_usd_by_tier = usd\<rparr>)))"

section \<open>Operational cost\<close>

definition GPU_COST_PER_SECOND_USD :: rat where "GPU_COST_PER_SECOND_USD = 12 / 1000"
definition STORAGE_OPERATION_COST_USD :: rat where "STORAGE_OPERATION_COST_USD = 1 / 1000"
definition API_CALL_COST_USD :: rat where "API_CALL_COST_USD = 0"
definition SEGMENT_DURATION :: int where "SEGMENT_DURATION = 10"
definition ESTIMATE_OUTLIER_THRESHOLD_PERCENT :: rat where "ESTIMATE_OUTLIER_THRESHOLD_PERCENT = 20"
definition ESTIMATOR_VERSION :: string where "ESTIMATOR_VERSION = ''packet4e-v1''"

record cost_summary =
  cs_gpu_seconds :: int
  cs_storage_operations :: int
  cs_api_calls :: int
  total_cost_usd :: rat

definition calculate_operational_cost_summary :: "int \<Rightarrow> int \<Rightarrow> int \<Rightarrow> cost_summary" where
  "calculate_operational_cost_summary gpu_seconds storage_operations api_calls =
     (let gpu_time = py_round 4 (of_int (max gpu_seconds 0) * GPU_COST_PER_SECOND_USD);
          storage = py_round 4 (of_int (max storage_operations 0) * STORAGE_OPERATION_COST_USD);
          api_call_cost = py_round 4 (of_int (max api_calls 0) * API_CALL_COST_USD) in
      \<lparr>cs_gpu_seconds = max gpu_seconds 0, cs_storage_operations = max storage_operations 0,
        cs_api_calls = max api_calls 0, total_cost_usd = py_round 4 (gpu_time + storage + api_call_cost)\<rparr>)"

record cost_breakdown =
  cb_gpu_time :: rat
  cb_storage :: rat
  cb_api_calls :: rat
  cb_total :: rat

definition calculate_operational_cost_breakdown :: "int \<Rightarrow> int \<Rightarrow> int \<Rightarrow> cost_breakdown" where
  "calculate_operational_cost_breakdown gpu_seconds storage_operations api_calls =
     (let summary = calculate_operational_cost_summary gpu_seconds storage_operations api_calls;
          gpu_time = py_round 4 (of_int (cs_gpu_seconds summary) * GPU_COST_PER_SECOND_USD);
          storage = py_round 4 (of_int (cs_storage_operations summary) * STORAGE_OPERATION_COST_USD);
          api_call_cost = py_round 4 (of_int (cs_api_calls summary) * API_CALL_COST_USD) in
      \<lparr>cb_gpu_time = gpu_time, cb_storage = storage, cb_api_calls = api_call_cost,
        cb_total = py_round 4 (gpu_time + storage + api_call_cost)\<rparr>)"

definition confidence_multiplier :: "string \<Rightarrow> rat" where
  "confidence_multiplier tier =
     (if tier = ''Enhance'' then 10 / 100 else if tier = ''Restore'' then 12 / 100
      else if tier = ''Conserve'' then 15 / 100 else 12 / 100)"

definition confidence_interval :: "rat \<Rightarrow> string \<Rightarrow> rat \<times> rat" where
  "confidence_interval cost tier =
     (let m = confidence_multiplier tier; low = max (cost * (1 - m)) 0; high = cost * (1 + m)
      in (py_round 4 low, py_round 4 high))"

section \<open>\<open>estimate_launch\<close>\<close>

record cost_estimate =
  ce_usage_minutes :: int
  ce_breakdown :: cost_breakdown
  ce_included_usage :: int
  ce_overage_minutes :: int
  ce_overage_rate :: pyfloat
  ce_charge_total_usd :: pyfloat
  ce_confidence :: "rat \<times> rat"
  ce_usage_snapshot :: billing_snapshot
  ce_effective_pricing :: effective_pricing
  ce_launch_blocker :: string
  ce_generated_at :: time

fun estimate_unavailable :: "exn \<Rightarrow> exn" where
  "estimate_unavailable e = BillingPricingUnavailableError
     ''Pricing data is temporarily unavailable. Retry the request once billing metadata is available.''"

fun on_pricing_unavailable :: "exn \<Rightarrow> exn" where
  "on_pricing_unavailable (CommercialPricingUnavailableError m) =
     estimate_unavailable (CommercialPricingUnavailableError m)"
| "on_pricing_unavailable e = e"

definition estimate_launch ::
  "billing_env \<Rightarrow> stripe_env \<Rightarrow> stripe_config \<Rightarrow> time \<Rightarrow> string \<Rightarrow> string \<Rightarrow> string option \<Rightarrow> int \<Rightarrow> string \<Rightarrow>
   (billing_store, cost_estimate) prog" where
  "estimate_launch env senv cfg now user_id tier org_id duration fidelity =
     (let minutes = billable_minutes_for_duration duration fidelity in
      bindE (catchE (record_estimate env user_id tier minutes org_id) (\<lambda>e. raise (on_pricing_unavailable e)))
        (\<lambda>usage.
      let segment_count = max (ceil_div (max duration 1) SEGMENT_DURATION) 1;
          breakdown = calculate_operational_cost_breakdown duration (segment_count + 1) segment_count in
      bindE (catchE
          (bindE (liftR (resolve_billing_pricing_metadata senv cfg)) (\<lambda>md.
             effective_pricing_for_plan env tier org_id (Some (subscription_price_usd_for_tier md))))
          (\<lambda>e. raise (estimate_unavailable e)))
        (\<lambda>ep.
      let included = min minutes (max (bs_monthly_limit_minutes usage - bs_used_minutes usage) 0);
          overage_minutes = max (minutes - included) 0 in
      ret \<lparr>ce_usage_minutes = minutes, ce_breakdown = breakdown, ce_included_usage = included,
        ce_overage_minutes = overage_minutes, ce_overage_rate = ep_overage_rate_usd_per_minute ep,
        ce_charge_total_usd = float_round 4 (float_times overage_minutes (ep_overage_rate_usd_per_minute ep)),
        ce_confidence = confidence_interval (cb_total breakdown) fidelity,
        ce_usage_snapshot = usage, ce_effective_pricing = ep,
        ce_launch_blocker = (if hard_stop usage then ''overage_approval_required'' else ''none''),
        ce_generated_at = now\<rparr>)))"

section \<open>\<open>reconcile_estimate\<close>\<close>

text \<open>
  \<open>float(v or 0.0)\<close> and \<open>int(v or 0)\<close>; text that is not a number raises. The amounts that a
  reconciliation computes with are finite; the model stops at any other.
\<close>

fun float_or_zero :: "billing_env \<Rightarrow> json \<Rightarrow> rat result" where
  "float_or_zero env (JBool b) = Inr (if b then 1 else 0)"
| "float_or_zero env (JInt i) = Inr (of_int i)"
| "float_or_zero env (JFloat q) = Inr q"
| "float_or_zero env (JSpecial x) = Inl (ExternalError ''not a finite number'')"
| "float_or_zero env (JStr s) =
     (if s = [] then Inr 0 else case float_of_str env s of None \<Rightarrow> Inl (ValueError s) | Some q \<Rightarrow> Inr q)"
| "float_or_zero env v = (if truthy v then Inl (TypeError ''float() argument'') else Inr 0)"

fun int_or_zero :: "json \<Rightarrow> int result" where
  "int_or_zero (JBool b) = Inr (if b then 1 else 0)"
| "int_or_zero (JInt i) = Inr i"
| "int_or_zero (JFloat q) = Inr (if 0 \<le> q then \<lfloor>q\<rfloor> else \<lceil>q\<rceil>)"
| "int_or_zero (JStr s) =
     (if s = [] then Inr 0 else case int_of_str s of None \<Rightarrow> Inl (ValueError s) | Some i \<Rightarrow> Inr i)"
| "int_or_zero v = (if truthy v then Inl (TypeError ''int() argument'') else Inr 0)"

record reconciliation =
  rc_estimated_total_cost_usd :: rat
  rc_actual_total_cost_usd :: rat
  rc_delta_usd :: rat
  rc_delta_percent :: rat
  rc_estimated_charge_total_usd :: rat
  rc_actual_charge_total_usd :: rat
  rc_actual_usage_minutes :: int
  rc_outlier_flagged :: bool
  rc_estimator_version :: string
  rc_reconciled_at :: time

definition delta_percent_of :: "rat \<Rightarrow> rat \<Rightarrow> rat \<Rightarrow> rat" where
  "delta_percent_of delta actual_total estimated_total =
     (if actual_total > 0 then py_round 2 ((\<bar>delta\<bar> / max actual_total (1 / 10000)) * 100)
      else if estimated_total = 0 then 0 else 100)"

definition reconcile_estimate ::
  "billing_env \<Rightarrow> (string \<times> json) list \<Rightarrow> cost_summary option \<Rightarrow> int \<Rightarrow> time \<Rightarrow> int option \<Rightarrow>
   billing_snapshot option \<Rightarrow> reconciliation option result" where
  "reconcile_estimate env estimate actual actual_usage reconciled_at usage_before post =
     (if estimate = [] then Inr None
      else
        bind_res (obj_or_empty (jget estimate ''billing_breakdown_usd'')) (\<lambda>billing.
        bind_res (obj_or_empty (jget estimate ''usage_snapshot'')) (\<lambda>usage.
        bind_res (obj_or_empty (jget estimate ''operational_cost_breakdown_usd'')) (\<lambda>costs.
        bind_res (float_or_zero env (jget costs ''total'')) (\<lambda>estimated_total.
        let actual_total = (case actual of None \<Rightarrow> 0 | Some a \<Rightarrow> total_cost_usd a);
            delta = py_round 4 (actual_total - estimated_total);
            pct = delta_percent_of delta actual_total estimated_total in
        bind_res
          (case (post, usage_before) of
             (Some b, Some before) \<Rightarrow> Inr (max (bs_monthly_limit_minutes b - max before 0) 0)
           | _ \<Rightarrow>
               bind_res (int_or_zero (jget usage ''monthly_limit_minutes'')) (\<lambda>lim.
               bind_res (int_or_zero (jget usage ''used_minutes'')) (\<lambda>used.
               Inr (max (lim - used) 0)))) (\<lambda>remaining_included.
        let included = min actual_usage remaining_included;
            overage_minutes = max (actual_usage - included) 0 in
        bind_res (obj_or_empty (jget estimate ''effective_pricing'')) (\<lambda>pricing.
        bind_res (float_or_zero env (jor (jget pricing ''overage_rate_usd_per_minute'')
                    (jget billing ''overage_rate_usd_per_minute''))) (\<lambda>rate.
        bind_res (float_or_zero env (jget billing ''estimated_charge_total_usd'')) (\<lambda>estimated_charge.
        Inr (Some \<lparr>rc_estimated_total_cost_usd = estimated_total, rc_actual_total_cost_usd = actual_total,
          rc_delta_usd = delta, rc_delta_percent = pct,
          rc_estimated_charge_total_usd = py_round 4 estimated_charge,
          rc_actual_charge_total_usd = py_round 4 (of_int overage_minutes * rate),
          rc_actual_usage_minutes = max actual_usage 0,
          rc_outlier_flagged = (pct > ESTIMATE_OUTLIER_THRESHOLD_PERCENT),
          rc_estimator_version =
            (let v = jget estimate ''estimator_version''
             in if truthy v then py_str (be_codec env) v else ESTIMATOR_VERSION),
          rc_reconciled_at = reconciled_at\<rparr>))))))))))"

text \<open>The dictionary \<open>estimate_launch\<close> returns as its summary, as far as \<open>reconcile_estimate\<close> reads it.\<close>

definition effective_pricing_payload :: "effective_pricing \<Rightarrow> (string \<times> json) list" where
  "effective_pricing_payload ep =
     [(''pricebook_version'', JStr (ep_pricebook_version ep)),
      (''subscription_price_id'', JStr (ep_subscription_price_id ep)),
      (''subscription_price_usd'', json_of_float (ep_subscription_price_usd ep)),
      (''included_minutes_monthly'', JInt (ep_included_minutes_monthly ep)),
      (''overage_enabled'', JBool (ep_overage_enabled ep)),
      (''overage_price_id'', JStr (ep_overage_price_id ep)),
      (''overage_rate_usd_per_minute'', json_of_float (ep_overage_rate_usd_per_minute ep)),
      (''entitlement_source'', JStr (ep_entitlement_source ep))]"

definition build_usage_snapshot :: "billing_snapshot \<Rightarrow> effective_pricing \<Rightarrow> (string \<times> json) list" where
  "build_usage_snapshot b ep =
     [(''user_id'', JStr (bs_user_id b)), (''plan_tier'', JStr (bs_plan_tier b)),
      (''used_minutes'', JInt (bs_used_minutes b)),
      (''monthly_limit_minutes'', JInt (bs_monthly_limit_minutes b)),
      (''remaining_minutes'', JInt (remaining_minutes b)),
      (''estimated_next_job_minutes'', JInt (bs_estimated_next_job_minutes b)),
      (''approved_overage_minutes'', JInt (bs_approved_for_minutes b)),
      (''remaining_approved_overage_minutes'', JInt (remaining_approved_overage_minutes b)),
      (''threshold_alerts'', JList (map JInt (bs_threshold_alerts b))),
      (''overage_approval_scope'', (case bs_overage_approval_scope b of None \<Rightarrow> JNull | Some s \<Rightarrow> JStr s)),
      (''hard_stop'', JBool (hard_stop b)),
      (''price_reference'', JStr (ep_subscription_price_id ep)),
      (''overage_price_reference'', JStr (ep_overage_price_id ep)),
      (''reconciliation_source'', JStr (reconciliation_source b)),
      (''reconciliation_status'', JStr (reconciliation_status b)),
      (''effective_pricing'', JObj (effective_pricing_payload ep))]"

definition estimate_summary :: "(time \<Rightarrow> string) \<Rightarrow> cost_estimate \<Rightarrow> (string \<times> json) list" where
  "estimate_summary isofmt e =
     [(''estimated_usage_minutes'', JInt (ce_usage_minutes e)),
      (''operational_cost_breakdown_usd'', JObj
         [(''gpu_time'', JFloat (cb_gpu_time (ce_breakdown e))), (''storage'', JFloat (cb_storage (ce_breakdown e))),
          (''api_calls'', JFloat (cb_api_calls (ce_breakdown e))), (''total'', JFloat (cb_total (ce_breakdown e)))]),
      (''billing_breakdown_usd'', JObj
         [(''included_usage'', JInt (ce_included_usage e)), (''overage_minutes'', JInt (ce_overage_minutes e)),
          (''overage_rate_usd_per_minute'', json_of_float (ce_overage_rate e)),
          (''estimated_charge_total_usd'', json_of_float (ce_charge_total_usd e))]),
      (''confidence_interval_usd'', JObj
         [(''low'', JFloat (fst (ce_confidence e))), (''high'', JFloat (snd (ce_confidence e)))]),
      (''usage_snapshot'', JObj (build_usage_snapshot (ce_usage_snapshot e) (ce_effective_pricing e))),
      (''effective_pricing'', JObj (effective_pricing_payload (ce_effective_pricing e))),
      (''launch_blocker'', JStr (ce_launch_blocker e)),
      (''estimator_version'', JStr ESTIMATOR_VERSION),
      (''generated_at'', JStr (isofmt (ce_generated_at e)))]"

section \<open>Cost arithmetic\<close>

lemma py_round4_thousandths: "py_round 4 (of_int k * (12 / 1000)) = of_int k * (12 / 1000)"
  "py_round 4 (of_int k * (1 / 1000)) = of_int k * (1 / 1000)"
  by (rule py_round_exact [of _ _ "k * 120"], simp) (rule py_round_exact [of _ _ "k * 10"], simp)

lemma py_round_idem [simp]: "py_round n (py_round n x) = py_round n x"
  by (rule py_round_exact [of _ _ "round_half_even (x * 10 ^ n)"]) (simp add: py_round_def)

text \<open>No rounding ever happens: the cost is 0.012 USD a GPU second and 0.001 USD a storage operation.\<close>

lemma operational_cost_exact:
  "total_cost_usd (calculate_operational_cost_summary g s a) =
     of_int (max g 0) * (12 / 1000) + of_int (max s 0) * (1 / 1000)"
proof -
  have "py_round 4 (of_int (max g 0) * (12 / 1000) + of_int (max s 0) * (1 / 1000)) =
      of_int (max g 0) * (12 / 1000) + of_int (max s 0) * (1 / 1000)"
    by (rule py_round_exact [of _ _ "max g 0 * 120 + max s 0 * 10"]) (simp add: algebra_simps)
  then show ?thesis
    by (simp only: calculate_operational_cost_summary_def Let_def GPU_COST_PER_SECOND_USD_def
        STORAGE_OPERATION_COST_USD_def API_CALL_COST_USD_def py_round4_thousandths cost_summary.simps)
      simp
qed

lemma breakdown_total: "cb_total (calculate_operational_cost_breakdown g s a) =
    total_cost_usd (calculate_operational_cost_summary g s a)"
  by (simp add: calculate_operational_cost_breakdown_def calculate_operational_cost_summary_def Let_def)

lemma operational_cost_nonneg: "0 \<le> total_cost_usd (calculate_operational_cost_summary g s a)"
  unfolding operational_cost_exact by simp

lemma confidence_interval_contains:
  assumes "0 \<le> cost" and "py_round 4 cost = cost"
  shows "0 \<le> fst (confidence_interval cost tier) \<and> fst (confidence_interval cost tier) \<le> cost \<and>
    cost \<le> snd (confidence_interval cost tier)"
proof -
  let ?m = "confidence_multiplier tier"
  have m: "0 \<le> ?m" "?m \<le> 1" by (auto simp: confidence_multiplier_def)
  with assms(1) have "max (cost * (1 - ?m)) 0 \<le> cost" "cost \<le> cost * (1 + ?m)"
    by (auto simp: algebra_simps)
  then have "py_round 4 (max (cost * (1 - ?m)) 0) \<le> py_round 4 cost"
    "py_round 4 cost \<le> py_round 4 (cost * (1 + ?m))" by (auto intro: py_round_mono)
  then show ?thesis
    using assms(2) by (simp add: confidence_interval_def Let_def py_round_nonneg)
qed

section \<open>What an estimate consists of\<close>

definition segments_estimated :: "int \<Rightarrow> int" where
  "segments_estimated duration = max (ceil_div (max duration 1) SEGMENT_DURATION) 1"

definition estimate_of ::
  "time \<Rightarrow> string \<Rightarrow> int \<Rightarrow> billing_snapshot \<Rightarrow> effective_pricing \<Rightarrow> cost_estimate" where
  "estimate_of now fid d usage ep =
     (let minutes = billable_minutes_for_duration d fid;
          breakdown = calculate_operational_cost_breakdown d (segments_estimated d + 1) (segments_estimated d);
          included = min minutes (max (bs_monthly_limit_minutes usage - bs_used_minutes usage) 0);
          overage_minutes = max (minutes - included) 0 in
      \<lparr>ce_usage_minutes = minutes, ce_breakdown = breakdown, ce_included_usage = included,
        ce_overage_minutes = overage_minutes, ce_overage_rate = ep_overage_rate_usd_per_minute ep,
        ce_charge_total_usd = float_round 4 (float_times overage_minutes (ep_overage_rate_usd_per_minute ep)),
        ce_confidence = confidence_interval (cb_total breakdown) fid,
        ce_usage_snapshot = usage, ce_effective_pricing = ep,
        ce_launch_blocker = (if hard_stop usage then ''overage_approval_required'' else ''none''),
        ce_generated_at = now\<rparr>)"

lemma estimate_launch_wp:
  "wp (estimate_launch env senv cfg now uid tier org d fid)
     (\<lambda>est t. \<exists>l ep. est = estimate_of now fid d
        (snapshot_from_usage (estimated (billable_minutes_for_duration d fid) (usage_in uid tier l s))) ep)
     (\<lambda>e t. True) s"
proof (cases "limit_in env tier org s")
  case (Inl e)
  then show ?thesis
    by (simp add: estimate_launch_def Let_def wp_simps wp_def [where m = "record_estimate _ _ _ _ _"]
        billing_op_unavailable)
next
  case (Inr l)
  show ?thesis
    by (auto simp: estimate_launch_def Let_def wp_simps wp_def [where m = "record_estimate _ _ _ _ _"]
        record_estimate_run [OF Inr] segments_estimated_def estimate_of_def
        intro!: wp_mono [OF wp_top] split: sum.splits)
qed

lemma estimate_launch_Inr:
  assumes "estimate_launch env senv cfg now uid tier org d fid s = (Inr est, t)"
  shows "\<exists>l ep. est = estimate_of now fid d
        (snapshot_from_usage (estimated (billable_minutes_for_duration d fid) (usage_in uid tier l s))) ep"
  using estimate_launch_wp [of env senv cfg now uid tier org d fid s] assms by (simp add: wp_def)

lemma hard_stop_overage:
  assumes "\<not> hard_stop b" and "bs_estimated_next_job_minutes b = n" and "0 \<le> n"
  shows "max (n - min n (max (bs_monthly_limit_minutes b - bs_used_minutes b) 0)) 0 \<le>
    remaining_approved_overage_minutes b"
  using assms
  by (auto simp: hard_stop_def Let_def effective_limit_minutes_def remaining_approved_overage_minutes_def)

lemma delta_zero: "delta_percent_of 0 a e = (if 0 < a then 0 else if e = 0 then 0 else 100)"
  by (simp add: delta_percent_of_def)

lemma billable_minutes_nonneg [simp]: "0 \<le> billable_minutes_for_duration d m"
  by (simp add: billable_minutes_for_duration_def Let_def)

lemma reconcile_as_estimated:
  assumes "est = estimate_of now fid d b ep" and rate: "ep_overage_rate_usd_per_minute ep = Fin q"
  shows "\<exists>r. reconcile_estimate env (estimate_summary isofmt est)
      (Some (calculate_operational_cost_summary d (segments_estimated d + 1) (segments_estimated d)))
      (ce_usage_minutes est) rat None None = Inr (Some r) \<and>
    rc_delta_usd r = 0 \<and> rc_delta_percent r = 0 \<and> \<not> rc_outlier_flagged r \<and>
    ce_charge_total_usd est = Fin (rc_actual_charge_total_usd r) \<and>
    rc_estimated_charge_total_usd r = rc_actual_charge_total_usd r \<and>
    rc_actual_total_cost_usd r = cb_total (ce_breakdown est)"
proof -
  let ?c = "calculate_operational_cost_summary d (segments_estimated d + 1) (segments_estimated d)"
  have c: "0 \<le> total_cost_usd ?c" by (rule operational_cost_nonneg)
  show ?thesis
    unfolding assms(1)
    by (simp add: reconcile_estimate_def estimate_summary_def Let_def breakdown_total estimate_of_def rate
        build_usage_snapshot_def effective_pricing_payload_def jor_def delta_zero
        ESTIMATE_OUTLIER_THRESHOLD_PERCENT_def) (use c in auto)
qed

definition sample_stripe_env :: stripe_env where
  "sample_stripe_env = \<lparr>price_retrieve = (\<lambda>_. Inr (JObj [(''unit_amount'', JInt 50)])),
     decimal_of_str = (\<lambda>_. Some 50), se_codec = plain_codec\<rparr>"

definition sample_stripe_config :: stripe_config where
  "sample_stripe_config = \<lparr>sc_secret_key = ''sk'', sc_product_id = ''prod_1'', sc_price_id = ''price_1'',
     sc_overage_product_id = ''prod_1'', sc_overage_price_id = ''price_o'', sc_hobbyist_price_id = ''price_h'',
     sc_pro_price_id = ''price_p'', sc_museum_price_id = ''price_m''\<rparr>"

text \<open>A store in which \<open>u1\<close> has used nothing; an estimate leaves one behind.\<close>

definition unused_billing :: "billing_store \<Rightarrow> bool" where
  "unused_billing s \<longleftrightarrow> s = empty_billing_store \<or>
     (\<exists>u. s = put_usage ''u1'' u empty_billing_store \<and> used_minutes u = 0 \<and> approved_for_minutes u = 0)"

lemma unused_billing_empty [simp]: "unused_billing empty_billing_store"
  by (simp add: unused_billing_def)

lemma unused_usage:
  assumes "unused_billing s"
  shows "limit_in sample_env ''pro'' org s = Inr 60" "used_minutes (usage_in ''u1'' ''pro'' 60 s) = 0"
    "approved_for_minutes (usage_in ''u1'' ''pro'' 60 s) = 0"
    "unused_billing (put_usage ''u1'' (estimated n (usage_in ''u1'' ''pro'' 60 s)) s)"
proof -
  show "limit_in sample_env ''pro'' org s = Inr 60"
    using assms sample_limit by (auto simp: unused_billing_def)
qed (use assms in \<open>auto simp: unused_billing_def usage_in_def empty_billing_store_def put_usage_def estimated_def\<close>)

lemma sample_estimate_unused:
  assumes "unused_billing s"
  shows "\<exists>est t. estimate_launch sample_env sample_stripe_env sample_stripe_config 0 ''u1'' ''pro'' org 600 ''Conserve''
     s = (Inr est, t) \<and> ce_launch_blocker est = ''none'' \<and> ce_usage_minutes est = 20 \<and>
     \<not> hard_stop (ce_usage_snapshot est) \<and> unused_billing t \<and>
     ep_overage_rate_usd_per_minute (ce_effective_pricing est) = Fin (1 / 2)"
proof -
  have m: "\<exists>md. resolve_billing_pricing_metadata sample_stripe_env sample_stripe_config = Inr md"
    by (simp add: resolve_billing_pricing_metadata_def sample_stripe_config_def sample_stripe_env_def
        price_ids_by_tier_def cached_price_def or_str_def Let_def)
  then obtain md where md: "resolve_billing_pricing_metadata sample_stripe_env sample_stripe_config = Inr md" by blast
  have n: "billable_minutes_for_duration 600 ''Conserve'' = 20"
    by (simp add: billable_minutes_for_duration_def ceil_div_def Let_def)
  let ?t = "put_usage ''u1'' (estimated 20 (usage_in ''u1'' ''pro'' 60 s)) s"
  have rev: "revisions ?t = revisions empty_billing_store" using assms by (auto simp: unused_billing_def)
  have e: "commercial_pricebook_entry sample_env ''pro'' ?t = (Inr (''v1'', sample_parsed ''price_p'' ''pro''), ?t)"
    using sample_pricing_entry rev
    by (simp add: commercial_pricebook_entry_def bindE_def getsE_def liftR_def rev_get_active_def
        active_revisions_def Let_def split: sum.splits)
  have acc: "accounts ?t = accounts empty_billing_store" using assms by (auto simp: unused_billing_def)
  show ?thesis
    using unused_usage [OF assms]
    by (cases org) (simp_all add: string_eval estimate_launch_def n Let_def record_estimate_run [OF unused_usage(1) [OF assms]]
        bindE_def catchE_def liftR_def md ret_def effective_pricing_for_plan_def e hard_stop_def snapshot_from_usage_def
        effective_limit_minutes_def, simp_all add: estimated_def sample_parsed_def)
qed

lemma sample_estimate:
  "\<exists>est t. estimate_launch sample_env sample_stripe_env sample_stripe_config 0 ''u1'' ''pro'' org 600 ''Conserve''
     empty_billing_store = (Inr est, t) \<and> ce_launch_blocker est = ''none'' \<and> ce_usage_minutes est = 20 \<and>
     \<not> hard_stop (ce_usage_snapshot est) \<and>
     ep_overage_rate_usd_per_minute (ce_effective_pricing est) = Fin (1 / 2)"
  using sample_estimate_unused [OF unused_billing_empty, of org] by blast

section \<open>Properties\<close>

text \<open>
  C29: An estimate accounts for every billable minute: the included and the overage minutes add up to
  the minutes of the duration, only overage is charged, at the plan's rate, the operational cost lies
  within its confidence interval, and an estimate without a launch blocker needs no more overage than
  what is still approved.
\<close>

theorem estimate_consistent:
  assumes "estimate_launch env senv cfg now uid tier org d fid s = (Inr est, t)"
  shows "ce_usage_minutes est = billable_minutes_for_duration d fid \<and>
    ce_included_usage est + ce_overage_minutes est = ce_usage_minutes est \<and>
    0 \<le> ce_included_usage est \<and> 0 \<le> ce_overage_minutes est \<and>
    ce_charge_total_usd est =
      float_round 4 (float_times (ce_overage_minutes est) (ep_overage_rate_usd_per_minute (ce_effective_pricing est))) \<and>
    fst (ce_confidence est) \<le> cb_total (ce_breakdown est) \<and> cb_total (ce_breakdown est) \<le> snd (ce_confidence est) \<and>
    (ce_launch_blocker est = ''none'' \<longrightarrow>
       ce_overage_minutes est \<le> remaining_approved_overage_minutes (ce_usage_snapshot est))"
proof -
  let ?n = "billable_minutes_for_duration d fid"
  from estimate_launch_Inr [OF assms] obtain l ep where
    e: "est = estimate_of now fid d (snapshot_from_usage (estimated ?n (usage_in uid tier l s))) ep" by blast
  let ?b = "snapshot_from_usage (estimated ?n (usage_in uid tier l s))"
  let ?c = "cb_total (calculate_operational_cost_breakdown d (segments_estimated d + 1) (segments_estimated d))"
  have "0 \<le> ?c" "py_round 4 ?c = ?c"
    by (simp_all add: breakdown_total operational_cost_nonneg) (simp add: calculate_operational_cost_summary_def Let_def)
  note ci = confidence_interval_contains [OF this, of fid]
  have "bs_estimated_next_job_minutes ?b = ?n" by (simp add: snapshot_from_usage_def estimated_def)
  note hs = hard_stop_overage [OF _ this billable_minutes_nonneg]
  show ?thesis
    unfolding e using ci hs by (simp add: estimate_of_def Let_def)
qed

theorem estimate_consistent_witness:
  "\<exists>est t. estimate_launch sample_env sample_stripe_env sample_stripe_config 0 ''u1'' ''pro'' None 600 ''Conserve''
     empty_billing_store = (Inr est, t) \<and> ce_included_usage est + ce_overage_minutes est = 20 \<and>
     ce_overage_minutes est \<le> remaining_approved_overage_minutes (ce_usage_snapshot est)"
proof -
  obtain est t where
    e: "estimate_launch sample_env sample_stripe_env sample_stripe_config 0 ''u1'' ''pro'' None 600 ''Conserve''
      empty_billing_store = (Inr est, t)" "ce_launch_blocker est = ''none''" "ce_usage_minutes est = 20"
    using sample_estimate [of None] by blast
  from estimate_consistent [OF e(1)] e show ?thesis by auto
qed

text \<open>
  With a finite overage rate, a run that used exactly what was estimated reconciles to nothing: no cost difference, no
  outlier, and the actual charge is the estimated charge.
\<close>

theorem estimate_reconciles_exactly:
  assumes "estimate_launch env senv cfg now uid tier org d fid s = (Inr est, t)"
    and "ep_overage_rate_usd_per_minute (ce_effective_pricing est) = Fin q"
  shows "\<exists>r. reconcile_estimate env2 (estimate_summary isofmt est)
      (Some (calculate_operational_cost_summary d (segments_estimated d + 1) (segments_estimated d)))
      (ce_usage_minutes est) reconciled_at None None = Inr (Some r) \<and>
    rc_delta_usd r = 0 \<and> rc_delta_percent r = 0 \<and> \<not> rc_outlier_flagged r \<and>
    ce_charge_total_usd est = Fin (rc_actual_charge_total_usd r) \<and>
    rc_estimated_charge_total_usd r = rc_actual_charge_total_usd r"
proof -
  from estimate_launch_Inr [OF assms(1)] obtain b ep where est: "est = estimate_of now fid d b ep" by blast
  with assms(2) have "ep_overage_rate_usd_per_minute ep = Fin q" by (simp add: estimate_of_def Let_def)
  from reconcile_as_estimated [OF est this, of env2 isofmt reconciled_at] show ?thesis by blast
qed

theorem estimate_reconciles_exactly_witness:
  "\<exists>est t r. estimate_launch sample_env sample_stripe_env sample_stripe_config 0 ''u1'' ''pro'' None 600 ''Conserve''
     empty_billing_store = (Inr est, t) \<and>
     reconcile_estimate sample_env (estimate_summary (\<lambda>_. []) est)
       (Some (calculate_operational_cost_summary 600 (segments_estimated 600 + 1) (segments_estimated 600)))
       20 5 None None = Inr (Some r) \<and> rc_delta_usd r = 0"
proof -
  obtain est t where
    e: "estimate_launch sample_env sample_stripe_env sample_stripe_config 0 ''u1'' ''pro'' None 600 ''Conserve''
      empty_billing_store = (Inr est, t)" "ce_usage_minutes est = 20"
      "ep_overage_rate_usd_per_minute (ce_effective_pricing est) = Fin (1 / 2)" using sample_estimate [of None] by blast
  from estimate_reconciles_exactly [OF e(1,3), of sample_env "\<lambda>_. []" 5] e show ?thesis by fastforce
qed

end
