(* ===== verification/Job_Store.thy ===== *)
theory Job_Store
  imports Job_Pipeline Quality Cost_Estimation Interfaces
begin

text \<open>
  The job side of the in-memory store (\<open>app/db/phase2_store.py\<close>): jobs, their segments, transformation
  manifests and webhook subscriptions, with the operations of their \<open>_Memory...Repository\<close> classes.
  Timestamps are microseconds since the epoch; the patch dictionaries of the update operations are
  functions on records.
\<close>

section \<open>Records\<close>

datatype job_status = Queued | Processing | Completed | Failed | Partial | CancelRequested | Cancelled

definition terminal :: "job_status \<Rightarrow> bool" where
  "terminal st = (st \<in> {Completed, Failed, Partial, Cancelled})"

fun status_value :: "job_status \<Rightarrow> string" where
  "status_value Queued = ''queued''"
| "status_value Processing = ''processing''"
| "status_value Completed = ''completed''"
| "status_value Failed = ''failed''"
| "status_value Partial = ''partial''"
| "status_value CancelRequested = ''cancel_requested''"
| "status_value Cancelled = ''cancelled''"

datatype segment_status = SegQueued | SegProcessing | SegCompleted | SegFailed | SegCancelled

datatype cache_status = CacheHit | CacheMiss | CacheBypass

record stage_timings =
  upload_ms :: "int option"
  era_detection_ms :: "int option"
  queue_wait_ms :: "int option"
  allocation_ms :: "int option"
  processing_ms :: "int option"
  encoding_ms :: "int option"
  download_ms :: "int option"
  total_ms :: "int option"

record cache_summary =
  hits :: int
  misses :: int
  bypassed :: int
  cache_degraded :: bool
  hit_rate :: rat
  saved_gpu_seconds :: int

record gpu_summary =
  gpu_type :: "string option"
  warm_start :: "bool option"
  allocation_latency_ms :: "int option"
  gpu_runtime_seconds :: int
  gs_desired_warm_instances :: int
  gs_active_warm_instances :: int
  gs_busy_instances :: int
  gs_utilization_percent :: rat
  gs_historical_utilization_percent :: "rat option"

record slo_summary =
  target_total_ms :: int
  actual_total_ms :: "int option"
  p95_ratio :: "rat option"
  compliant :: "bool option"
  slo_degraded :: bool
  error_budget_burn_percent :: rat
  museum_sla_applies :: bool

record segment =
  sg_index :: int
  sg_start_seconds :: int
  sg_end_seconds :: int
  sg_duration_seconds :: int
  sg_status :: segment_status
  attempt_count :: int
  sg_idempotency_key :: string
  last_error_classification :: "string option"
  retry_backoffs_seconds :: "int list"
  sg_output_uri :: "string option"
  sg_cache_status :: cache_status
  cache_hit_latency_ms :: "int option"
  cache_namespace :: "string option"
  cached_output_uri :: "string option"
  sg_gpu_type :: "string option"
  sg_allocation_latency_ms :: "int option"
  quality_metrics :: "quality option"
  reproducibility_proof :: "reproducibility_proof option"
  uncertainty_callouts :: "string list"
  sg_updated_at :: time

record job =
  job_id :: string
  owner_user_id :: string
  job_plan_tier :: string
  job_org_id :: string
  media_uri :: string
  original_filename :: string
  mime_type :: string
  source_asset_checksum :: string
  job_fidelity_tier :: string
  effective_fidelity_tier :: string
  effective_fidelity_profile :: "resolved_fidelity option"
  job_reproducibility_mode :: string
  job_processing_mode :: string
  era_profile :: json
  config :: json
  estimated_duration_seconds :: int
  segment_count :: int
  completed_segment_count :: int
  failed_segment_count :: int
  progress_percent :: rat
  eta_seconds :: int
  job_status :: job_status
  current_operation :: string
  progress_topic :: string
  result_uri :: "string option"
  manifest_available :: bool
  manifest_uri :: "string option"
  manifest_sha256 :: "string option"
  manifest_generated_at :: "time option"
  manifest_size_bytes :: int
  quality_summary_of :: quality_summary
  reproducibility_summary_of :: "reproducibility_summary option"
  stage_timings_of :: stage_timings
  cache_summary_of :: cache_summary
  gpu_summary_of :: gpu_summary
  cost_summary_of :: cost_summary
  cost_estimate_summary :: jdict
  billing_pricing_snapshot :: jdict
  cost_reconciliation_summary :: "reconciliation option"
  slo_summary_of :: slo_summary
  failed_segments :: "int list"
  warnings :: "string list"
  last_error :: "string option"
  queued_at :: time
  created_at :: time
  started_at :: "time option"
  completed_at :: "time option"
  cancel_requested_at :: "time option"
  updated_at :: time

record subscription =
  sub_id :: string
  sub_owner_user_id :: string
  webhook_url :: string
  event_types :: "string list"
  enabled :: bool
  sub_created_at :: time
  sub_updated_at :: time

text \<open>What the manifest table keeps beside the payload: the merged retention and redaction fields.\<close>

record manifest_record =
  mf_payload :: jdict
  retention_expires_at :: "time option"
  retention_delete_status :: "string option"
  retention_deleted_at :: "time option"
  retention_delete_attempted_at :: "time option"
  redacted_manifest_uri :: "string option"

record job_store =
  jobs :: "(string, job) pydict"
  job_segments :: "(string, segment list) pydict"
  job_manifests :: "(string, manifest_record) pydict"
  webhook_subscriptions :: "(string, subscription list) pydict"

section \<open>\<open>_MemoryJobRepository\<close>\<close>

definition empty_timings :: stage_timings where
  "empty_timings = \<lparr>upload_ms = None, era_detection_ms = None, queue_wait_ms = None, allocation_ms = None,
     processing_ms = None, encoding_ms = None, download_ms = None, total_ms = None\<rparr>"

definition empty_quality_summary :: quality_summary where
  "empty_quality_summary = \<lparr>qs_e_hf = 0, qs_s_ls_db = 0, qs_t_tc = 0, qs_thresholds_met = False\<rparr>"

definition empty_cache_summary :: cache_summary where
  "empty_cache_summary = \<lparr>hits = 0, misses = 0, bypassed = 0, cache_degraded = False, hit_rate = 0, saved_gpu_seconds = 0\<rparr>"

definition empty_gpu_summary :: gpu_summary where
  "empty_gpu_summary = \<lparr>gpu_type = None, warm_start = None, allocation_latency_ms = None, gpu_runtime_seconds = 0,
     gs_desired_warm_instances = 0, gs_active_warm_instances = 0, gs_busy_instances = 0, gs_utilization_percent = 0,
     gs_historical_utilization_percent = None\<rparr>"

definition empty_cost_summary :: cost_summary where
  "empty_cost_summary = \<lparr>cs_gpu_seconds = 0, cs_storage_operations = 0, cs_api_calls = 0, total_cost_usd = 0\<rparr>"

text \<open>The arguments of \<open>create_job\<close>.\<close>

record job_request =
  rq_job_id :: string
  rq_owner_user_id :: string
  rq_plan_tier :: string
  rq_org_id :: string
  rq_media_uri :: string
  rq_original_filename :: string
  rq_mime_type :: string
  rq_checksum :: string
  rq_fidelity_tier :: string
  rq_processing_mode :: string
  rq_era_profile :: json
  rq_config :: json
  rq_duration :: int
  rq_segments :: "segment_plan list"
  rq_cost_estimate :: jdict
  rq_pricing_snapshot :: jdict
  rq_effective_tier :: string
  rq_effective_profile :: "resolved_fidelity option"
  rq_reproducibility_mode :: string

definition new_segment :: "time \<Rightarrow> segment_plan \<Rightarrow> segment" where
  "new_segment created p = \<lparr>sg_index = sp_index p, sg_start_seconds = sp_start_seconds p,
     sg_end_seconds = sp_end_seconds p, sg_duration_seconds = sp_duration_seconds p, sg_status = SegQueued,
     attempt_count = 0, sg_idempotency_key = sp_idempotency_key p, last_error_classification = None,
     retry_backoffs_seconds = [], sg_output_uri = None, sg_cache_status = CacheMiss,
     cache_hit_latency_ms = None, cache_namespace = None, cached_output_uri = None, sg_gpu_type = None,
     sg_allocation_latency_ms = None, quality_metrics = None, reproducibility_proof = None,
     uncertainty_callouts = [], sg_updated_at = created\<rparr>"

definition or_dict :: "jdict \<Rightarrow> jdict \<Rightarrow> jdict" where
  "or_dict a b = (if a = [] then b else a)"

definition create_job :: "time \<Rightarrow> time \<Rightarrow> job_request \<Rightarrow> (job_store, job) prog" where
  "create_job now now2 rq = (\<lambda>s.
     (let existing = dget (jobs s) (rq_job_id rq);
          created = (case existing of None \<Rightarrow> now | Some j \<Rightarrow> created_at j);
          queued = (case existing of None \<Rightarrow> created | Some j \<Rightarrow> queued_at j);
          j = \<lparr>job_id = rq_job_id rq, owner_user_id = rq_owner_user_id rq, job_plan_tier = rq_plan_tier rq,
            job_org_id = rq_org_id rq, media_uri = rq_media_uri rq, original_filename = rq_original_filename rq,
            mime_type = rq_mime_type rq, source_asset_checksum = rq_checksum rq,
            job_fidelity_tier = rq_fidelity_tier rq,
            effective_fidelity_tier = or_str (rq_effective_tier rq) (rq_fidelity_tier rq),
            effective_fidelity_profile = rq_effective_profile rq,
            job_reproducibility_mode = rq_reproducibility_mode rq, job_processing_mode = rq_processing_mode rq,
            era_profile = rq_era_profile rq, config = rq_config rq, estimated_duration_seconds = rq_duration rq,
            segment_count = int (length (rq_segments rq)), completed_segment_count = 0, failed_segment_count = 0,
            progress_percent = 0, eta_seconds = rq_duration rq, job_status = Queued,
            current_operation = ''Queued for processing'', progress_topic = ''job_progress:'' @ rq_job_id rq,
            result_uri = None, manifest_available = False, manifest_uri = None, manifest_sha256 = None,
            manifest_generated_at = None, manifest_size_bytes = 0, quality_summary_of = empty_quality_summary,
            reproducibility_summary_of = None, stage_timings_of = empty_timings,
            cache_summary_of = empty_cache_summary, gpu_summary_of = empty_gpu_summary,
            cost_summary_of = empty_cost_summary,
            cost_estimate_summary = or_dict (case existing of None \<Rightarrow> [] | Some j \<Rightarrow> cost_estimate_summary j)
                                      (rq_cost_estimate rq),
            billing_pricing_snapshot = or_dict (case existing of None \<Rightarrow> [] | Some j \<Rightarrow> billing_pricing_snapshot j)
                                         (rq_pricing_snapshot rq),
            cost_reconciliation_summary = None,
            slo_summary_of = \<lparr>target_total_ms = rq_duration rq * 2000, actual_total_ms = None, p95_ratio = None,
              compliant = None, slo_degraded = False, error_budget_burn_percent = 0,
              museum_sla_applies = (lower (rq_plan_tier rq) = ''museum'')\<rparr>,
            failed_segments = [], warnings = [], last_error = None, queued_at = queued, created_at = created,
            started_at = None, completed_at = None, cancel_requested_at = None, updated_at = now2\<rparr>
      in (Inr j, s\<lparr>jobs := dset (rq_job_id rq) j (jobs s),
            job_segments := dset (rq_job_id rq) (map (new_segment created) (rq_segments rq)) (job_segments s)\<rparr>)))"

definition owned_by :: "string option \<Rightarrow> job \<Rightarrow> bool" where
  "owned_by owner j = (owner = None \<or> owner = Some [] \<or> owner = Some (owner_user_id j))"

definition get_job :: "string \<Rightarrow> string option \<Rightarrow> (job_store, job option) prog" where
  "get_job jid owner = getsE (\<lambda>s.
     case dget (jobs s) jid of None \<Rightarrow> None | Some j \<Rightarrow> if owned_by owner j then Some j else None)"

definition get_job_for_worker :: "string \<Rightarrow> (job_store, job option) prog" where
  "get_job_for_worker jid = get_job jid None"

text \<open>Newest first; jobs created at the same time keep their order.\<close>

definition list_jobs :: "string \<Rightarrow> (job_store, job list) prog" where
  "list_jobs owner = getsE (\<lambda>s.
     sort_key (\<lambda>j. - created_at j) (filter (\<lambda>j. owner_user_id j = owner) (map snd (jobs s))))"

definition list_all_jobs :: "(job_store, job list) prog" where
  "list_all_jobs = getsE (\<lambda>s. sort_key (\<lambda>j. - created_at j) (map snd (jobs s)))"

definition cost_ops_job_anchor :: "job \<Rightarrow> time option" where
  "cost_ops_job_anchor j =
     (case cost_reconciliation_summary j of Some r \<Rightarrow> Some (rc_reconciled_at r) | None \<Rightarrow> completed_at j)"

definition list_cost_ops_jobs_since :: "time \<Rightarrow> (job_store, job list) prog" where
  "list_cost_ops_jobs_since earliest = getsE (\<lambda>s.
     sort_key (\<lambda>j. case cost_ops_job_anchor j of None \<Rightarrow> 0 | Some t \<Rightarrow> - t)
       (filter (\<lambda>j. job_status j = Completed \<and> cost_reconciliation_summary j \<noteq> None \<and>
                  (case cost_ops_job_anchor j of None \<Rightarrow> False | Some t \<Rightarrow> earliest \<le> t)) (map snd (jobs s))))"

definition segments_of :: "string \<Rightarrow> job_store \<Rightarrow> segment list" where
  "segments_of jid s = (case dget (job_segments s) jid of None \<Rightarrow> [] | Some segs \<Rightarrow> segs)"

definition list_segments :: "string \<Rightarrow> string option \<Rightarrow> (job_store, segment list) prog" where
  "list_segments jid owner = getsE (\<lambda>s.
     case dget (jobs s) jid of None \<Rightarrow> []
     | Some j \<Rightarrow> if owned_by owner j then segments_of jid s else [])"

definition request_cancellation :: "time \<Rightarrow> string \<Rightarrow> string \<Rightarrow> (job_store, job option) prog" where
  "request_cancellation now jid owner = (\<lambda>s.
     (case dget (jobs s) jid of
        None \<Rightarrow> (Inr None, s)
      | Some j \<Rightarrow>
          if owner_user_id j \<noteq> owner then (Inr None, s)
          else if terminal (job_status j) then (Inr (Some j), s)
          else
            (let j' = j\<lparr>job_status := CancelRequested, cancel_requested_at := Some now, updated_at := now\<rparr>
             in (Inr (Some j'), s\<lparr>jobs := dset jid j' (jobs s)\<rparr>))))"

definition update_job_for_worker :: "time \<Rightarrow> string \<Rightarrow> (job \<Rightarrow> job) \<Rightarrow> (job_store, job) prog" where
  "update_job_for_worker now jid patch = (\<lambda>s.
     (case dget (jobs s) jid of
        None \<Rightarrow> (Inl (KeyError jid), s)
      | Some j \<Rightarrow> (let j' = (patch j)\<lparr>updated_at := now\<rparr> in (Inr j', s\<lparr>jobs := dset jid j' (jobs s)\<rparr>))))"

fun patch_segment :: "int \<Rightarrow> (segment \<Rightarrow> segment) \<Rightarrow> segment list \<Rightarrow> (segment \<times> segment list) option" where
  "patch_segment i f [] = None"
| "patch_segment i f (x # xs) =
     (if sg_index x = i then Some (f x, f x # xs)
      else map_option (\<lambda>(y, ys). (y, x # ys)) (patch_segment i f xs))"

definition update_segment_for_worker ::
  "time \<Rightarrow> string \<Rightarrow> int \<Rightarrow> (segment \<Rightarrow> segment) \<Rightarrow> (job_store, segment) prog" where
  "update_segment_for_worker now jid i patch = (\<lambda>s.
     (case patch_segment i (\<lambda>x. (patch x)\<lparr>sg_updated_at := now\<rparr>) (segments_of jid s) of
        None \<Rightarrow> (Inl (KeyError (''Unknown segment '' @ dec_int i @ '' for job '' @ jid)), s)
      | Some (x, segs) \<Rightarrow> (Inr x, s\<lparr>job_segments := dset jid segs (job_segments s)\<rparr>)))"

section \<open>\<open>_MemoryWebhookSubscriptionRepository\<close>\<close>

definition subscriptions_of :: "string \<Rightarrow> job_store \<Rightarrow> subscription list" where
  "subscriptions_of owner s = (case dget (webhook_subscriptions s) owner of None \<Rightarrow> [] | Some xs \<Rightarrow> xs)"

definition upsert_subscription ::
  "string \<Rightarrow> time \<Rightarrow> time \<Rightarrow> string \<Rightarrow> string \<Rightarrow> string list \<Rightarrow> bool \<Rightarrow> (job_store, subscription) prog" where
  "upsert_subscription new_id now now2 owner url events en = (\<lambda>s.
     (let subs = subscriptions_of owner s;
          existing = (case filter (\<lambda>x. webhook_url x = url) subs of [] \<Rightarrow> None | x # _ \<Rightarrow> Some x);
          r = \<lparr>sub_id = (case existing of None \<Rightarrow> new_id | Some x \<Rightarrow> sub_id x), sub_owner_user_id = owner,
            webhook_url = url, event_types = events, enabled = en,
            sub_created_at = (case existing of None \<Rightarrow> now | Some x \<Rightarrow> sub_created_at x), sub_updated_at = now2\<rparr>
      in (Inr r, s\<lparr>webhook_subscriptions :=
            dset owner (filter (\<lambda>x. webhook_url x \<noteq> url) subs @ [r]) (webhook_subscriptions s)\<rparr>)))"

definition list_enabled :: "string \<Rightarrow> string \<Rightarrow> (job_store, subscription list) prog" where
  "list_enabled owner event_type = getsE (\<lambda>s.
     filter (\<lambda>x. enabled x \<and> event_type \<in> set (event_types x)) (subscriptions_of owner s))"

section \<open>\<open>_MemoryManifestRepository\<close>\<close>

definition manifest_is_retained :: "time \<Rightarrow> manifest_record \<Rightarrow> bool" where
  "manifest_is_retained now r =
     (if retention_deleted_at r \<noteq> None then False
      else if retention_delete_status r \<in> {Some ''pending'', Some ''deleted'', Some ''failed''} then False
      else (case retention_expires_at r of None \<Rightarrow> True | Some t \<Rightarrow> t > now))"

definition upsert_manifest_for_worker :: "string \<Rightarrow> manifest_record \<Rightarrow> (job_store, jdict) prog" where
  "upsert_manifest_for_worker jid r = (\<lambda>s. (Inr (mf_payload r), s\<lparr>job_manifests := dset jid r (job_manifests s)\<rparr>))"

definition get_manifest :: "time \<Rightarrow> string \<Rightarrow> string option \<Rightarrow> (job_store, jdict option) prog" where
  "get_manifest now jid owner = getsE (\<lambda>s.
     (case dget (jobs s) jid of
        None \<Rightarrow> None
      | Some j \<Rightarrow>
          if \<not> owned_by owner j then None
          else
            (case dget (job_manifests s) jid of
               None \<Rightarrow> None
             | Some r \<Rightarrow> if manifest_is_retained now r then Some (mf_payload r) else None)))"

definition mark_retention_delete_deleted :: "time \<Rightarrow> string \<Rightarrow> (job_store, unit) prog" where
  "mark_retention_delete_deleted now jid = (\<lambda>s.
     (case dget (job_manifests s) jid of
        None \<Rightarrow> (Inr (), s)
      | Some r \<Rightarrow> (Inr (), s\<lparr>job_manifests := dset jid
            (r\<lparr>retention_delete_status := Some ''deleted'', retention_deleted_at := Some now\<rparr>) (job_manifests s)\<rparr>)))"

definition mark_retention_delete_failed :: "time \<Rightarrow> string \<Rightarrow> (job_store, unit) prog" where
  "mark_retention_delete_failed now jid = (\<lambda>s.
     (case dget (job_manifests s) jid of
        None \<Rightarrow> (Inr (), s)
      | Some r \<Rightarrow> (Inr (), s\<lparr>job_manifests := dset jid
            (r\<lparr>retention_delete_status := Some ''failed'', retention_delete_attempted_at := Some now\<rparr>) (job_manifests s)\<rparr>)))"

definition get_retention_delete_record_for_worker :: "string \<Rightarrow> (job_store, manifest_record option) prog" where
  "get_retention_delete_record_for_worker jid = getsE (\<lambda>s.
     (case dget (job_manifests s) jid of
        None \<Rightarrow> None
      | Some r \<Rightarrow>
          if retention_delete_status r \<in> {Some ''pending'', Some ''failed''} then Some r else None))"

section \<open>Reading and writing by key\<close>

definition put_job :: "string \<Rightarrow> job \<Rightarrow> job_store \<Rightarrow> job_store" where
  "put_job jid j s = s\<lparr>jobs := dset jid j (jobs s)\<rparr>"

definition put_segments :: "string \<Rightarrow> segment list \<Rightarrow> job_store \<Rightarrow> job_store" where
  "put_segments jid segs s = s\<lparr>job_segments := dset jid segs (job_segments s)\<rparr>"

interpretation job_table: keyed_store "\<lambda>s jid. dget (jobs s) jid" put_job
  by unfold_locales (simp add: put_job_def)

interpretation segment_table: keyed_store "\<lambda>s jid. dget (job_segments s) jid" put_segments
  by unfold_locales (simp add: put_segments_def)

interpretation usage_table: keyed_store "\<lambda>s uid. dget (usage_tab s) uid" put_usage
  by unfold_locales simp

lemma put_job_simps [simp]:
  "dget (jobs (put_job jid j s)) k = (if k = jid then Some j else dget (jobs s) k)"
  "job_segments (put_job jid j s) = job_segments s"
  "job_manifests (put_job jid j s) = job_manifests s"
  "webhook_subscriptions (put_job jid j s) = webhook_subscriptions s"
  "segments_of k (put_job jid j s) = segments_of k s"
  by (simp_all add: put_job_def segments_of_def)

lemma put_segments_simps [simp]:
  "jobs (put_segments jid segs s) = jobs s"
  "job_manifests (put_segments jid segs s) = job_manifests s"
  "webhook_subscriptions (put_segments jid segs s) = webhook_subscriptions s"
  "segments_of k (put_segments jid segs s) = (if k = jid then segs else segments_of k s)"
  by (simp_all add: put_segments_def segments_of_def)

lemma wp_update_job [wp_simps]:
  "wp (update_job_for_worker now jid f) Q E s =
     (case dget (jobs s) jid of
        None \<Rightarrow> E (KeyError jid) s
      | Some j \<Rightarrow> Q ((f j)\<lparr>updated_at := now\<rparr>) (put_job jid ((f j)\<lparr>updated_at := now\<rparr>) s))"
  by (simp add: wp_def update_job_for_worker_def put_job_def Let_def split: option.splits)

lemma wp_get_job_for_worker [wp_simps]: "wp (get_job_for_worker jid) Q E s = Q (dget (jobs s) jid) s"
  by (simp add: wp_def get_job_for_worker_def get_job_def getsE_def owned_by_def split: option.splits)

lemma wp_list_segments_worker [wp_simps]:
  "wp (list_segments jid None) Q E s = Q (if dget (jobs s) jid = None then [] else segments_of jid s) s"
  by (simp add: wp_def list_segments_def getsE_def owned_by_def split: option.splits)

lemma patch_segment_None: "patch_segment i f xs = None \<longleftrightarrow> i \<notin> sg_index ` set xs"
  by (induction xs) (auto split: prod.splits)

definition update_at :: "int \<Rightarrow> (segment \<Rightarrow> segment) \<Rightarrow> segment list \<Rightarrow> segment list" where
  "update_at i f xs = map (\<lambda>x. if sg_index x = i then f x else x) xs"

lemma update_at_id: "i \<notin> sg_index ` set xs \<Longrightarrow> update_at i f xs = xs"
  by (induction xs) (auto simp: update_at_def)

lemma patch_segment_distinct:
  "distinct (map sg_index xs) \<Longrightarrow> x \<in> set xs \<Longrightarrow> sg_index x = i \<Longrightarrow>
   patch_segment i f xs = Some (f x, update_at i f xs)"
proof (induction xs)
  case Nil
  then show ?case by simp
next
  case (Cons y ys)
  show ?case
  proof (cases "sg_index y = i")
    case True
    with Cons.prems have "y = x" by force
    moreover from True Cons.prems(1) have "update_at i f ys = ys" by (auto intro!: update_at_id)
    ultimately show ?thesis using True by (simp add: update_at_def)
  next
    case False
    with Cons show ?thesis by (auto simp: update_at_def)
  qed
qed

lemma map_sg_index_update_at [simp]:
  "(\<And>x. sg_index (f x) = sg_index x) \<Longrightarrow> map sg_index (update_at i f xs) = map sg_index xs"
  by (simp add: update_at_def)

lemma length_update_at [simp]: "length (update_at i f xs) = length xs"
  by (simp add: update_at_def)

lemma wp_update_segment:
  assumes "distinct (map sg_index (segments_of jid s))" and "x \<in> set (segments_of jid s)" and "sg_index x = i"
  shows "wp (update_segment_for_worker now jid i f) Q E s =
    Q ((f x)\<lparr>sg_updated_at := now\<rparr>)
      (put_segments jid (update_at i (\<lambda>x. (f x)\<lparr>sg_updated_at := now\<rparr>) (segments_of jid s)) s)"
  by (simp add: wp_def update_segment_for_worker_def patch_segment_distinct [OF assms] put_segments_def)

section \<open>Requests to cancel\<close>

text \<open>Any number of cancellation requests, each with its time, job and requesting user.\<close>

fun cancels :: "(time \<times> string \<times> string) list \<Rightarrow> job_store \<Rightarrow> job_store" where
  "cancels [] s = s"
| "cancels ((now, jid, owner) # reqs) s = cancels reqs (snd (request_cancellation now jid owner s))"

definition cancel_mark :: "time \<Rightarrow> job \<Rightarrow> job" where
  "cancel_mark now j = j\<lparr>job_status := CancelRequested, cancel_requested_at := Some now, updated_at := now\<rparr>"

lemma cancel_mark_simps [simp]:
  "job_status (cancel_mark now j) = CancelRequested" "owner_user_id (cancel_mark now j) = owner_user_id j"
  "cancel_mark t (cancel_mark now j) = cancel_mark t j"
  by (simp_all add: cancel_mark_def)

lemma request_cancellation_effect:
  "snd (request_cancellation now jid owner s) =
     (case dget (jobs s) jid of
        None \<Rightarrow> s
      | Some j \<Rightarrow> if owner_user_id j = owner \<and> \<not> terminal (job_status j) then put_job jid (cancel_mark now j) s else s)"
  by (simp add: request_cancellation_def cancel_mark_def put_job_def Let_def split: option.splits)

lemma cancels_frame:
  "job_segments (cancels reqs s) = job_segments s \<and> job_manifests (cancels reqs s) = job_manifests s \<and>
   webhook_subscriptions (cancels reqs s) = webhook_subscriptions s \<and>
   (dget (jobs (cancels reqs s)) jid = None) = (dget (jobs s) jid = None)"
  by (induction reqs s rule: cancels.induct)
    (auto simp: request_cancellation_effect split: option.splits if_splits)

text \<open>The requests that concern a job and come from its owner, in the order of their arrival.\<close>

definition own_requests :: "(time \<times> string \<times> string) list \<Rightarrow> string \<Rightarrow> string \<Rightarrow> time list" where
  "own_requests reqs jid owner = map fst (filter (\<lambda>(now, k, who). k = jid \<and> who = owner) reqs)"

lemma own_requests_simps [simp]:
  "own_requests [] jid owner = []"
  "own_requests ((now, k, who) # reqs) jid owner =
     (if k = jid \<and> who = owner then now # own_requests reqs jid owner else own_requests reqs jid owner)"
  by (simp_all add: own_requests_def)

lemma cancels_job:
  "dget (jobs s) jid = Some j \<Longrightarrow>
   dget (jobs (cancels reqs s)) jid =
     Some (if terminal (job_status j) \<or> own_requests reqs jid (owner_user_id j) = [] then j
           else cancel_mark (last (own_requests reqs jid (owner_user_id j))) j)"
proof (induction reqs s arbitrary: j rule: cancels.induct)
  case (1 s)
  then show ?case by simp
next
  case (2 now k owner reqs s)
  let ?s = "snd (request_cancellation now k owner s)"
  show ?case
  proof (cases "k = jid \<and> owner_user_id j = owner \<and> \<not> terminal (job_status j)")
    case True
    with 2(2) have "dget (jobs ?s) jid = Some (cancel_mark now j)"
      by (simp add: request_cancellation_effect)
    from 2(1) [OF this] True show ?thesis by (simp add: terminal_def)
  next
    case False
    with 2(2) have "dget (jobs ?s) jid = Some j"
      by (auto simp: request_cancellation_effect split: option.splits)
    from 2(1) [OF this] False show ?thesis by auto
  qed
qed

section \<open>Properties\<close>

text \<open>
  C25: What any sequence of cancellation requests, by whomever and for whatever jobs, does to a job. A job
  that has ended, or whose own owner did not ask, is afterwards exactly as it was. Any other job is
  \<open>cancel_requested\<close>, with the time of its owner's last request as the time of the request and of the
  update, and nothing else of it differs. Segments, manifests and subscriptions never change.
\<close>

theorem cancellation_requests_are_safe:
  assumes "dget (jobs s) jid = Some j"
  shows "job_segments (cancels reqs s) = job_segments s \<and> job_manifests (cancels reqs s) = job_manifests s \<and>
    webhook_subscriptions (cancels reqs s) = webhook_subscriptions s \<and>
    dget (jobs (cancels reqs s)) jid =
      (let asked = map fst (filter (\<lambda>(now, k, who). k = jid \<and> who = owner_user_id j) reqs) in
       if job_status j \<in> {Completed, Failed, Partial, Cancelled} \<or> asked = [] then Some j
       else Some (j\<lparr>job_status := CancelRequested, cancel_requested_at := Some (last asked), updated_at := last asked\<rparr>))"
  using cancels_job [OF assms, of reqs] cancels_frame [of reqs s jid]
  by (simp add: terminal_def cancel_mark_def own_requests_def [symmetric] Let_def)

definition sample_job_request :: job_request where
  "sample_job_request = \<lparr>rq_job_id = ''j1'', rq_owner_user_id = ''u1'', rq_plan_tier = ''pro'', rq_org_id = ''org1'',
     rq_media_uri = ''gs://b/a.mp4'', rq_original_filename = ''a.mp4'', rq_mime_type = ''video/mp4'',
     rq_checksum = ''abc'', rq_fidelity_tier = ''Restore'', rq_processing_mode = ''balanced'',
     rq_era_profile = JObj [], rq_config = JObj [], rq_duration = 25,
     rq_segments = [\<lparr>sp_index = 0, sp_start_seconds = 0, sp_end_seconds = 10, sp_duration_seconds = 10, sp_idempotency_key = ''k0''\<rparr>,
       \<lparr>sp_index = 1, sp_start_seconds = 10, sp_end_seconds = 20, sp_duration_seconds = 10, sp_idempotency_key = ''k1''\<rparr>],
     rq_cost_estimate = [], rq_pricing_snapshot = [], rq_effective_tier = ''Restore'',
     rq_effective_profile = Some \<lparr>rf_profile = fidelity_profile_for RESTORE, rf_grain_preset = MATCHED,
       rf_hallucination_limit = Fin 0, rf_codeformer_weight = 1 / 10\<rparr>,
     rq_reproducibility_mode = ''perceptual_equivalence''\<rparr>"

definition empty_job_store :: job_store where
  "empty_job_store = \<lparr>jobs = [], job_segments = [], job_manifests = [], webhook_subscriptions = []\<rparr>"

theorem cancellation_requests_are_safe_witness:
  "\<exists>s j. dget (jobs s) ''j1'' = Some j \<and> owner_user_id j = ''u1'' \<and> job_status j = Queued \<and>
     dget (jobs (cancels [(5, ''j1'', ''u2''), (6, ''j2'', ''u1'')] s)) ''j1'' = Some j \<and>
     dget (jobs (cancels [(5, ''j1'', ''u1''), (6, ''j1'', ''u2''), (7, ''j1'', ''u1'')] s)) ''j1'' =
       Some (j\<lparr>job_status := CancelRequested, cancel_requested_at := Some 7, updated_at := 7\<rparr>)"
proof -
  let ?s = "snd (create_job 1 2 sample_job_request empty_job_store)"
  obtain j where j: "dget (jobs ?s) ''j1'' = Some j" "owner_user_id j = ''u1''" "job_status j = Queued"
    by (simp add: create_job_def sample_job_request_def empty_job_store_def Let_def)
  from cancellation_requests_are_safe [OF j(1), of "[(5, ''j1'', ''u2''), (6, ''j2'', ''u1'')]"]
    cancellation_requests_are_safe [OF j(1), of "[(5, ''j1'', ''u1''), (6, ''j1'', ''u2''), (7, ''j1'', ''u1'')]"] j
  show ?thesis by (intro exI [of _ ?s] exI [of _ j]) (simp add: Let_def)
qed

end
