(* ===== verification/Classification.thy ===== *)
theory Classification
  imports Job_Store
begin

text \<open>
  Data classification and retention: \<open>app/services/data_classification.py\<close>,
  \<open>app/services/manifest_retention.py\<close> and the in-memory repositories behind them
  (\<open>_MemoryDataClassificationAuditRepository\<close>, \<open>_MemoryManifestRetentionSettingsRepository\<close>).
  A timestamp is a number of microseconds, so an expiry date is the anchor plus whole days; the
  ISO text of a date and the parsing of one are not modelled.
\<close>

definition days :: "int \<Rightarrow> time" where
  "days n = n * (24 * 60 * 60 * 1000000)"

section \<open>\<open>data_classification.py\<close>\<close>

definition ARTIFACT_SOURCE_UPLOAD :: string where
  "ARTIFACT_SOURCE_UPLOAD = ''source_upload''"
definition ARTIFACT_PROCESSED_OUTPUT :: string where
  "ARTIFACT_PROCESSED_OUTPUT = ''processed_output''"
definition ARTIFACT_TRANSFORMATION_MANIFEST :: string where
  "ARTIFACT_TRANSFORMATION_MANIFEST = ''transformation_manifest''"
definition ARTIFACT_EXPORT_PACKAGE :: string where
  "ARTIFACT_EXPORT_PACKAGE = ''export_package''"
definition ARTIFACT_DELETION_PROOF :: string where
  "ARTIFACT_DELETION_PROOF = ''deletion_proof''"

lemmas artifact_names = ARTIFACT_SOURCE_UPLOAD_def ARTIFACT_PROCESSED_OUTPUT_def
  ARTIFACT_TRANSFORMATION_MANIFEST_def ARTIFACT_EXPORT_PACKAGE_def ARTIFACT_DELETION_PROOF_def

definition CLASSIFICATION_POLICY_VERSION :: string where
  "CLASSIFICATION_POLICY_VERSION = ''sec-003-v1''"

definition TIER_RETENTION_DAYS :: "(string, int option) pydict" where
  "TIER_RETENTION_DAYS = [(''hobbyist'', Some 7), (''pro'', Some 90), (''museum'', None)]"

definition COMPLIANCE_RETENTION_DAYS :: int where
  "COMPLIANCE_RETENTION_DAYS = 2555"

record classification_record =
  cl_artifact_type :: string
  classification_label :: string
  cl_object_uri :: string
  cl_object_hash :: string
  cl_retention_days :: "int option"
  cl_retention_expires_at :: "time option"
  policy_version :: string

text \<open>\<open>metadata\<close>, the labels written to the stored object; the date is its timestamp.\<close>

definition classification_metadata :: "classification_record \<Rightarrow> (string, json) pydict" where
  "classification_metadata r =
     [(''classification_label'', JStr (classification_label r)), (''artifact_type'', JStr (cl_artifact_type r)),
      (''classification_policy_version'', JStr (policy_version r))] @
     (case cl_retention_days r of None \<Rightarrow> [] | Some n \<Rightarrow> [(''retention_days'', JStr (dec_int n))]) @
     (case cl_retention_expires_at r of None \<Rightarrow> [] | Some t \<Rightarrow> [(''retention_expires_at'', JInt t)])"

definition classification_label_for_artifact :: "string \<Rightarrow> string result" where
  "classification_label_for_artifact artifact =
     (if artifact \<in> {ARTIFACT_SOURCE_UPLOAD, ARTIFACT_PROCESSED_OUTPUT, ARTIFACT_EXPORT_PACKAGE} then Inr ''Confidential''
      else if artifact = ARTIFACT_TRANSFORMATION_MANIFEST then Inr ''Internal''
      else if artifact = ARTIFACT_DELETION_PROOF then Inr ''Compliance''
      else Inl (ValueError (''Unsupported SEC-003 artifact type: '' @ artifact)))"

definition retention_days_for_artifact :: "string \<Rightarrow> string \<Rightarrow> int option" where
  "retention_days_for_artifact artifact tier =
     (if artifact = ARTIFACT_DELETION_PROOF then Some COMPLIANCE_RETENTION_DAYS
      else (case dget TIER_RETENTION_DAYS (lower tier) of Some d \<Rightarrow> d | None \<Rightarrow> Some 7))"

definition retention_expiry :: "time \<Rightarrow> int option \<Rightarrow> time option" where
  "retention_expiry anchor ds = (case ds of None \<Rightarrow> None | Some n \<Rightarrow> Some (anchor + days n))"

definition object_hash :: "codec \<Rightarrow> string \<Rightarrow> string" where
  "object_hash c uri = sha256_hex c uri"

definition is_local_environment :: "string \<Rightarrow> bool" where
  "is_local_environment e = (e \<in> {''test'', ''dev'', ''development'', ''local''})"

text \<open>The last argument is \<open>retention_days_override\<close> when \<open>use_retention_override\<close> is set.\<close>

definition classify ::
  "codec \<Rightarrow> string \<Rightarrow> string \<Rightarrow> string \<Rightarrow> time \<Rightarrow> int option option \<Rightarrow> classification_record result" where
  "classify c artifact uri tier anchor override =
     bind_res (classification_label_for_artifact artifact) (\<lambda>label.
     let ds = (case override of Some d \<Rightarrow> d | None \<Rightarrow> retention_days_for_artifact artifact tier) in
     Inr \<lparr>cl_artifact_type = artifact, classification_label = label, cl_object_uri = uri,
       cl_object_hash = object_hash c uri, cl_retention_days = ds,
       cl_retention_expires_at = retention_expiry anchor ds, policy_version = CLASSIFICATION_POLICY_VERSION\<rparr>)"

section \<open>The audit trail\<close>

record classification_event =
  ev_id :: string
  ev_record :: classification_record
  ev_type :: string
  ev_metadata :: "(string, json) pydict"
  ev_created_at :: time

type_synonym class_audit = "classification_event list"

definition record_event ::
  "string \<Rightarrow> time \<Rightarrow> classification_record \<Rightarrow> string \<Rightarrow> (string, json) pydict \<Rightarrow> class_audit \<Rightarrow> class_audit" where
  "record_event new_id now r event meta audit =
     audit @ [\<lparr>ev_id = new_id, ev_record = r, ev_type = event, ev_metadata = meta, ev_created_at = now\<rparr>]"

definition list_classification_events :: "class_audit \<Rightarrow> classification_event list" where
  "list_classification_events audit = audit"

section \<open>\<open>manifest_retention.py\<close>\<close>

definition MUSEUM_ALLOWED_RETENTION_DAYS :: "int option list" where
  "MUSEUM_ALLOWED_RETENTION_DAYS = [Some 0, Some 90, Some 365, Some 1825, None]"

definition TIER_DEFAULT_RETENTION_DAYS :: "(string, int option) pydict" where
  "TIER_DEFAULT_RETENTION_DAYS = [(''hobbyist'', Some 7), (''pro'', Some 90), (''museum'', None)]"

record retention_policy =
  rp_retention_days :: "int option"
  rp_retention_expires_at :: "time option"
  retention_class :: string
  retention_policy_source :: string
  rp_redaction_enabled :: bool

record retention_setting =
  rs_org_id :: string
  rs_plan_tier :: string
  rs_retention_days :: "int option"
  rs_redaction_enabled :: bool
  rs_updated_by :: "string option"
  rs_created_at :: time
  rs_updated_at :: time

type_synonym retention_settings = "(string, retention_setting) pydict"

definition retention_class_for_days :: "int option \<Rightarrow> string result" where
  "retention_class_for_days d =
     (case d of
        None \<Rightarrow> Inr ''indefinite''
      | Some n \<Rightarrow>
          if n = 0 then Inr ''0d'' else if n = 7 then Inr ''7d'' else if n = 90 then Inr ''90d''
          else if n = 365 then Inr ''365d'' else if n = 1825 then Inr ''1825d''
          else Inl (ValueError (''Unsupported SEC-005 manifest retention days: '' @ dec_int n)))"

text \<open>\<open>_MemoryManifestRetentionSettingsRepository\<close>; an empty organisation has no settings.\<close>

definition settings_upsert ::
  "time \<Rightarrow> time \<Rightarrow> string \<Rightarrow> string \<Rightarrow> int option \<Rightarrow> bool \<Rightarrow> string option \<Rightarrow>
   (retention_settings, retention_setting) prog" where
  "settings_upsert t t2 org tier ds redaction by = (\<lambda>s.
     (if lower tier \<noteq> ''museum''
      then (Inl (ValueError ''SEC-005 manifest retention settings are Museum-tier only.''), s)
      else
        (let r = \<lparr>rs_org_id = org, rs_plan_tier = ''museum'', rs_retention_days = ds, rs_redaction_enabled = redaction,
               rs_updated_by = by, rs_created_at = (case dget s org of None \<Rightarrow> t | Some x \<Rightarrow> rs_created_at x),
               rs_updated_at = t2\<rparr>
         in (Inr r, dset org r s))))"

definition settings_get :: "string option \<Rightarrow> retention_settings \<Rightarrow> retention_setting option" where
  "settings_get org s = (case org of None \<Rightarrow> None | Some x \<Rightarrow> if x = [] then None else dget s x)"

definition resolve_policy ::
  "string option \<Rightarrow> string \<Rightarrow> time \<Rightarrow> retention_settings \<Rightarrow> retention_policy result" where
  "resolve_policy org tier generated_at s =
     (let t = lower tier;
          setting = (if t = ''museum'' then settings_get org s else None);
          ds = (case setting of
                  Some x \<Rightarrow> rs_retention_days x
                | None \<Rightarrow> (case dget TIER_DEFAULT_RETENTION_DAYS t of Some d \<Rightarrow> d | None \<Rightarrow> Some 7))
      in bind_res (retention_class_for_days ds) (\<lambda>cls.
         Inr \<lparr>rp_retention_days = ds, rp_retention_expires_at = retention_expiry generated_at ds,
           retention_class = cls,
           retention_policy_source = (if setting = None then ''tier_default'' else ''org_data_retention_settings''),
           rp_redaction_enabled = (case setting of None \<Rightarrow> False | Some x \<Rightarrow> rs_redaction_enabled x)\<rparr>))"

definition validate_settings :: "string \<Rightarrow> int option \<Rightarrow> unit result" where
  "validate_settings tier ds =
     (if lower tier \<noteq> ''museum'' then Inl (ValueError ''SEC-005 manifest retention settings are Museum-tier only.'')
      else if ds \<notin> set MUSEUM_ALLOWED_RETENTION_DAYS
      then Inl (ValueError ''Museum manifest retention must be one of 0, 90, 365, 1825, or indefinite.'')
      else Inr ())"

record retention_settings_view =
  rv_org_id :: string
  rv_plan_tier :: string
  rv_retention_days :: "int option"
  rv_redaction_enabled :: bool
  rv_retention_class :: string
  rv_updated_by :: "string option"
  rv_updated_at :: "time option"

definition settings_view :: "retention_setting \<Rightarrow> retention_settings_view result" where
  "settings_view r =
     bind_res (retention_class_for_days (rs_retention_days r)) (\<lambda>cls.
     Inr \<lparr>rv_org_id = rs_org_id r, rv_plan_tier = rs_plan_tier r, rv_retention_days = rs_retention_days r,
       rv_redaction_enabled = rs_redaction_enabled r, rv_retention_class = cls, rv_updated_by = rs_updated_by r,
       rv_updated_at = Some (rs_updated_at r)\<rparr>)"

definition update_settings ::
  "time \<Rightarrow> time \<Rightarrow> string \<Rightarrow> string \<Rightarrow> string \<Rightarrow> int option \<Rightarrow> bool \<Rightarrow>
   (retention_settings, retention_settings_view) prog" where
  "update_settings t t2 org user tier ds redaction =
     bindE (liftR (validate_settings tier ds)) (\<lambda>_.
     bindE (settings_upsert t t2 org tier ds redaction (Some user)) (\<lambda>r.
     liftR (settings_view r)))"

definition get_settings :: "string \<Rightarrow> string \<Rightarrow> retention_settings \<Rightarrow> retention_settings_view result" where
  "get_settings org tier s =
     (if lower tier \<noteq> ''museum'' then Inl (ValueError ''SEC-005 manifest retention settings are Museum-tier only.'')
      else
        (case settings_get (Some org) s of
           None \<Rightarrow> Inr \<lparr>rv_org_id = org, rv_plan_tier = ''museum'', rv_retention_days = None,
             rv_redaction_enabled = False, rv_retention_class = ''indefinite'', rv_updated_by = None,
             rv_updated_at = None\<rparr>
         | Some r \<Rightarrow> settings_view r))"

interpretation settings_table: keyed_store "\<lambda>s org. dget s org" "\<lambda>org r s. dset org r s"
  by unfold_locales simp

text \<open>The settings an organisation can have stored: what \<open>update_settings\<close> accepts.\<close>

definition settings_ok :: "retention_settings \<Rightarrow> bool" where
  "settings_ok s \<longleftrightarrow> (\<forall>org r. dget s org = Some r \<longrightarrow> rs_retention_days r \<in> set MUSEUM_ALLOWED_RETENTION_DAYS)"

lemma update_settings_keeps: "preserves settings_ok (update_settings t t2 org user tier ds redaction)"
  by (auto simp: preserves_def update_settings_def settings_upsert_def validate_settings_def settings_ok_def
      prog_defs Let_def split: if_splits sum.splits prod.splits)

lemma update_settings_read_back:
  "org \<noteq> [] \<Longrightarrow> update_settings t t2 org user tier ds redaction s = (Inr v, s') \<Longrightarrow> get_settings org tier s' = Inr v"
  by (auto simp: update_settings_def settings_upsert_def validate_settings_def get_settings_def settings_get_def
      prog_defs Let_def split: if_splits sum.splits prod.splits)

lemma class_of_allowed: "ds \<in> set MUSEUM_ALLOWED_RETENTION_DAYS \<Longrightarrow> \<exists>c. retention_class_for_days ds = Inr c"
  by (auto simp: MUSEUM_ALLOWED_RETENTION_DAYS_def retention_class_for_days_def)

lemma resolve_policy_total: "settings_ok s \<Longrightarrow> \<exists>p. resolve_policy org tier generated_at s = Inr p"
proof -
  assume ok: "settings_ok s"
  have cls: "retention_class_for_days (Some 7) = Inr ''7d''" "retention_class_for_days (Some 90) = Inr ''90d''"
    "retention_class_for_days None = Inr ''indefinite''"
    by (simp_all add: retention_class_for_days_def)
  show ?thesis
  proof (cases "if lower tier = ''museum'' then settings_get org s else None")
    case None
    then show ?thesis
      by (auto simp: resolve_policy_def Let_def TIER_DEFAULT_RETENTION_DAYS_def cls)
  next
    case (Some x)
    then have "rs_retention_days x \<in> set MUSEUM_ALLOWED_RETENTION_DAYS"
      using ok by (auto simp: settings_ok_def settings_get_def split: if_splits option.splits)
    with Some class_of_allowed [OF this] show ?thesis by (auto simp: resolve_policy_def Let_def)
  qed
qed

text \<open>Every retention policy ends when it says: the expiry is the anchor plus the days, or there is none.\<close>

lemma resolve_policy_expiry:
  "resolve_policy org tier generated_at s = Inr p \<Longrightarrow>
   rp_retention_expires_at p = map_option (\<lambda>n. generated_at + days n) (rp_retention_days p)"
  by (auto simp: resolve_policy_def bind_res_Inr_iff retention_expiry_def Let_def split: option.splits)

end
