(* ===== verification/Iso_Time.thy ===== *)
theory Iso_Time
  imports Billing_Store
begin

text \<open>
  Timestamps are microseconds since 1970-01-01 in UTC. \<open>isoformat\<close> is \<open>datetime.isoformat()\<close> of such
  a timestamp: the date in the proleptic Gregorian calendar, the time of day, the microseconds where
  they are not zero, and the offset.
\<close>

definition MICROS_PER_DAY :: int where
  "MICROS_PER_DAY = 24 * 60 * 60 * 1000000"

text \<open>Year, month and day of a day number; a year of the computation starts in March.\<close>

definition civil_from_days :: "int \<Rightarrow> int \<times> int \<times> int" where
  "civil_from_days z =
     (let shifted = z + 719468;
          era = shifted div 146097;
          doe = shifted mod 146097;
          yoe = (doe - doe div 1460 + doe div 36524 - doe div 146096) div 365;
          doy = doe - (365 * yoe + yoe div 4 - yoe div 100);
          mp = (5 * doy + 2) div 153;
          d = doy - (153 * mp + 2) div 5 + 1;
          m = (if mp < 10 then mp + 3 else mp - 9);
          y = yoe + era * 400 + (if m \<le> 2 then 1 else 0)
      in (y, m, d))"

definition pad :: "nat \<Rightarrow> int \<Rightarrow> string" where
  "pad k n = (let s = dec (nat n) in replicate (k - length s) (CHR ''0'') @ s)"

definition isoformat :: "time \<Rightarrow> string" where
  "isoformat t =
     (let d = t div MICROS_PER_DAY; r = t mod MICROS_PER_DAY; secs = r div 1000000; us = r mod 1000000;
          (y, m, dd) = civil_from_days d
      in pad 4 y @ ''-'' @ pad 2 m @ ''-'' @ pad 2 dd @ ''T'' @ pad 2 (secs div 3600) @ '':'' @
         pad 2 (secs div 60 mod 60) @ '':'' @ pad 2 (secs mod 60) @
         (if us = 0 then [] else ''.'' @ pad 6 us) @ ''+00:00'')"

lemma epoch_date: "civil_from_days 0 = (1970, 1, 1)"
  by code_simp

lemma leap_day_2024: "map civil_from_days [19782, 19783] = [(2024, 2, 29), (2024, 3, 1)]"
  by code_simp

lemma century_not_leap: "map civil_from_days [- 25509, - 25508] = [(1900, 2, 28), (1900, 3, 1)]"
  by code_simp

lemma isoformat_not_empty [simp]: "isoformat t \<noteq> []"
  by (simp add: isoformat_def Let_def split: prod.split)

end
