(* ===== verification/Upload_Store.thy ===== *)
theory Upload_Store
  imports Classification Iso_Time Interfaces
begin

text \<open>
  Upload sessions and the storage client of \<open>app/services/upload_service.py\<close>: the session and pointer
  tables (\<open>_MemoryUploadRepository\<close> of \<open>app/db/phase2_store.py\<close>), the client of the object storage
  (\<open>GcsUploadSessionClient\<close>) and the parsing of file names and headers. The storage itself is outside the
  program: what it answers is a field of the environment, indexed by the number of calls made so far.
\<close>

section \<open>Records\<close>

datatype upload_status = UploadPending | Uploading | UploadCompleted | UploadFailed

record upload_session =
  upload_id :: string
  us_owner_user_id :: string
  us_org_id :: string
  us_original_filename :: string
  us_mime_type :: string
  us_size_bytes :: int
  us_checksum :: "string option"
  us_bucket_name :: string
  us_object_path :: string
  us_media_uri :: string
  resumable_session_url :: string
  us_status :: upload_status
  detection_snapshot :: jdict
  launch_config :: jdict
  configured_at :: "string option"
  us_created_at :: time
  us_updated_at :: time
  us_completed_at :: "time option"

record object_pointer =
  op_id :: string
  op_upload_id :: string
  op_owner_user_id :: string
  op_org_id :: string
  op_bucket_name :: string
  op_object_path :: string
  op_original_filename :: string
  op_mime_type :: string
  op_size_bytes :: int
  op_checksum :: "string option"
  op_classification_label :: string
  op_retention_days :: "int option"
  op_retention_expires_at :: "time option"
  op_policy_version :: string
  op_created_at :: time

record upload_store =
  upload_sessions :: "(string, upload_session) pydict"
  gcs_object_pointers :: "(string, object_pointer) pydict"
  up_audit :: class_audit
  up_calls :: nat

text \<open>An HTTP response, or \<open>None\<close> where the client raises \<open>httpx.HTTPError\<close>.\<close>

record http_response =
  hr_status :: int
  hr_location :: "string option"
  hr_range :: "string option"
  hr_json :: "json option"

record upload_env =
  ue_environment :: string
  ue_gcs_bucket_name :: string
  ue_gcp_access_token :: string
  ue_metadata_token :: "nat \<Rightarrow> string option"
  ue_gcloud_token :: "nat \<Rightarrow> string option"
  ue_clock :: "nat \<Rightarrow> time"
  ue_uuid :: "nat \<Rightarrow> string"
  ue_stable_uuid :: "string \<Rightarrow> string"
  ue_codec :: codec
  gcs_create :: "string \<Rightarrow> string \<Rightarrow> string \<Rightarrow> int \<Rightarrow> nat \<Rightarrow> http_response option"
  gcs_get :: "string \<Rightarrow> string \<Rightarrow> nat \<Rightarrow> http_response option"
  gcs_patch :: "string \<Rightarrow> string \<Rightarrow> (string, json) pydict \<Rightarrow> nat \<Rightarrow> http_response option"
  gcs_probe :: "string \<Rightarrow> int \<Rightarrow> nat \<Rightarrow> http_response option"

text \<open>One call of the clock, of \<open>uuid4\<close> or of the network.\<close>

definition call :: "(nat \<Rightarrow> 'a) \<Rightarrow> (upload_store, 'a) prog" where
  "call f = (\<lambda>s. (Inr (f (up_calls s)), s\<lparr>up_calls := Suc (up_calls s)\<rparr>))"

section \<open>\<open>_MemoryUploadRepository\<close>\<close>

definition create_session ::
  "upload_env \<Rightarrow> string \<Rightarrow> string \<Rightarrow> string \<Rightarrow> string \<Rightarrow> string \<Rightarrow> int \<Rightarrow> string option \<Rightarrow> string \<Rightarrow> string \<Rightarrow>
   string \<Rightarrow> (upload_store, upload_session) prog" where
  "create_session env uid owner org filename mime sz checksum bucket path url =
     bindE (call (ue_clock env)) (\<lambda>now.
     let r = \<lparr>upload_id = uid, us_owner_user_id = owner, us_org_id = org, us_original_filename = filename,
           us_mime_type = mime, us_size_bytes = sz, us_checksum = checksum, us_bucket_name = bucket,
           us_object_path = path, us_media_uri = ''gs://'' @ bucket @ ''/'' @ path, resumable_session_url = url,
           us_status = UploadPending, detection_snapshot = [], launch_config = [], configured_at = None,
           us_created_at = now, us_updated_at = now, us_completed_at = None\<rparr> in
     bindE (modifyE (\<lambda>s. s\<lparr>upload_sessions := dset uid r (upload_sessions s)\<rparr>)) (\<lambda>_. ret r))"

definition get_session :: "string \<Rightarrow> string option \<Rightarrow> (upload_store, upload_session option) prog" where
  "get_session uid owner = getsE (\<lambda>s.
     case dget (upload_sessions s) uid of
       None \<Rightarrow> None
     | Some r \<Rightarrow> if owner \<noteq> None \<and> owner \<noteq> Some [] \<and> owner \<noteq> Some (us_owner_user_id r) then None else Some r)"

text \<open>The patch is a function; \<open>_request_patch\<close> leaves a key alone when its value is \<open>None\<close>.\<close>

definition update_session ::
  "upload_env \<Rightarrow> string \<Rightarrow> string \<Rightarrow> (upload_session \<Rightarrow> upload_session) \<Rightarrow> (upload_store, upload_session option) prog" where
  "update_session env uid owner patch =
     bindE (getsE (\<lambda>s. dget (upload_sessions s) uid)) (\<lambda>found.
     case found of
       None \<Rightarrow> ret None
     | Some r \<Rightarrow>
         if us_owner_user_id r \<noteq> owner then ret None
         else
           bindE (call (ue_clock env)) (\<lambda>now.
           let r' = (patch r)\<lparr>us_updated_at := now\<rparr> in
           bindE (modifyE (\<lambda>s. s\<lparr>upload_sessions := dset uid r' (upload_sessions s)\<rparr>)) (\<lambda>_. ret (Some r'))))"

definition request_patch :: "'a option \<Rightarrow> 'a option \<Rightarrow> 'a option" where
  "request_patch v old = (case v of None \<Rightarrow> old | Some x \<Rightarrow> Some x)"

definition new_pointer ::
  "upload_env \<Rightarrow> string \<Rightarrow> upload_session \<Rightarrow> string \<Rightarrow> int \<Rightarrow> string option \<Rightarrow> classification_record \<Rightarrow> time \<Rightarrow>
   object_pointer" where
  "new_pointer env uid r owner sz checksum cl now =
     \<lparr>op_id = ue_stable_uuid env (''pointer:'' @ uid), op_upload_id = uid, op_owner_user_id = owner,
       op_org_id = us_org_id r, op_bucket_name = us_bucket_name r, op_object_path = us_object_path r,
       op_original_filename = us_original_filename r, op_mime_type = us_mime_type r, op_size_bytes = sz,
       op_checksum = checksum,
       op_classification_label = or_str (classification_label cl) ''Confidential'',
       op_retention_days = cl_retention_days cl, op_retention_expires_at = cl_retention_expires_at cl,
       op_policy_version = or_str (policy_version cl) ''v0-backfill'', op_created_at = now\<rparr>"

definition upsert_pointer ::
  "upload_env \<Rightarrow> string \<Rightarrow> upload_session \<Rightarrow> string \<Rightarrow> int \<Rightarrow> string option \<Rightarrow> classification_record \<Rightarrow>
   (upload_store, object_pointer) prog" where
  "upsert_pointer env uid r owner sz checksum cl =
     bindE (call (ue_clock env)) (\<lambda>now.
     let p = new_pointer env uid r owner sz checksum cl now in
     bindE (modifyE (\<lambda>s. s\<lparr>gcs_object_pointers := dset uid p (gcs_object_pointers s)\<rparr>)) (\<lambda>_. ret p))"

definition put_session :: "string \<Rightarrow> upload_session \<Rightarrow> upload_store \<Rightarrow> upload_store" where
  "put_session uid r s = s\<lparr>upload_sessions := dset uid r (upload_sessions s)\<rparr>"

interpretation session_table: keyed_store "\<lambda>s uid. dget (upload_sessions s) uid" put_session
  by unfold_locales (simp add: put_session_def)

section \<open>File names and headers\<close>

fun split_on :: "char \<Rightarrow> string \<Rightarrow> string list" where
  "split_on d [] = [[]]"
| "split_on d (c # cs) =
     (if c = d then [] # split_on d cs
      else (case split_on d cs of [] \<Rightarrow> [[c]] | x # xs \<Rightarrow> (c # x) # xs))"

text \<open>\<open>Path(filename).name\<close>: the last component that is neither empty nor a single dot.\<close>

definition path_name :: "string \<Rightarrow> string" where
  "path_name filename =
     (case rev (filter (\<lambda>x. x \<noteq> [] \<and> x \<noteq> ''.'') (split_on (CHR ''/'') filename)) of [] \<Rightarrow> [] | x # _ \<Rightarrow> x)"

text \<open>\<open>Path(filename).suffix\<close>: from the last dot, when something stands before and after it.\<close>

definition path_suffix :: "string \<Rightarrow> string" where
  "path_suffix filename =
     (let name = path_name filename;
          ext = rev (takeWhile (\<lambda>c. c \<noteq> CHR ''.'') (rev name));
          i = int (length name) - int (length ext) - 1
      in if 0 < i \<and> i < int (length name) - 1 then ''.'' @ ext else [])"

definition normalize_extension :: "string \<Rightarrow> string" where
  "normalize_extension filename = lower (path_suffix filename)"

definition SUPPORTED_FORMATS :: "(string, string list) pydict" where
  "SUPPORTED_FORMATS =
     [(''.mp4'', [''video/mp4'']), (''.avi'', [''video/x-msvideo'', ''video/avi'']), (''.mov'', [''video/quicktime'']),
      (''.mkv'', [''video/x-matroska'']), (''.tif'', [''image/tiff'']), (''.tiff'', [''image/tiff'']),
      (''.png'', [''image/png'']), (''.jpg'', [''image/jpeg'']), (''.jpeg'', [''image/jpeg''])]"

definition media_supported :: "string \<Rightarrow> string \<Rightarrow> bool" where
  "media_supported filename mime =
     (case dget SUPPORTED_FORMATS (normalize_extension filename) of None \<Rightarrow> False | Some ms \<Rightarrow> mime \<in> set ms)"

definition validate_media_type :: "string \<Rightarrow> string \<Rightarrow> unit result" where
  "validate_media_type filename mime =
     (if media_supported filename mime then Inr () else Inl (ProblemException ''Unsupported Media Format'' 415))"

definition safe_char :: "char \<Rightarrow> bool" where
  "safe_char c =
     (let n = of_char c :: nat in
      48 \<le> n \<and> n \<le> 57 \<or> 65 \<le> n \<and> n \<le> 90 \<or> 97 \<le> n \<and> n \<le> 122 \<or> c \<in> {CHR ''.'', CHR ''_'', CHR ''-''})"

text \<open>\<open>_SAFE_FILENAME.sub("_", s)\<close>: every maximal run of other characters becomes one underscore.\<close>

fun replace_unsafe :: "bool \<Rightarrow> string \<Rightarrow> string" where
  "replace_unsafe in_run [] = []"
| "replace_unsafe in_run (c # cs) =
     (if safe_char c then c # replace_unsafe False cs
      else if in_run then replace_unsafe True cs
      else CHR ''_'' # replace_unsafe True cs)"

definition strip_chars :: "char set \<Rightarrow> string \<Rightarrow> string" where
  "strip_chars P s = rev (dropWhile (\<lambda>c. c \<in> P) (rev (dropWhile (\<lambda>c. c \<in> P) s)))"

definition sanitize_filename :: "string \<Rightarrow> string" where
  "sanitize_filename filename =
     or_str (strip_chars {CHR ''.'', CHR ''_''} (replace_unsafe False filename)) ''upload.bin''"

definition is_digit :: "char \<Rightarrow> bool" where
  "is_digit c = (let n = of_char c :: nat in 48 \<le> n \<and> n \<le> 57)"

text \<open>The number of committed bytes in a \<open>Range\<close> header: \<open>bytes=0-<last>\<close>, anything else counts as none.\<close>

definition parse_committed_offset :: "string option \<Rightarrow> int \<Rightarrow> int" where
  "parse_committed_offset header sz =
     (case header of
        None \<Rightarrow> 0
      | Some h \<Rightarrow>
          (let s = strip h; digits = drop 8 s in
           if take 8 s = ''bytes=0-'' \<and> digits \<noteq> [] \<and> list_all is_digit digits
           then min (int (undec_acc 0 digits) + 1) sz else 0))"

section \<open>\<open>GcsUploadSessionClient\<close>\<close>

definition FAKE_SESSION_PREFIX :: string where
  "FAKE_SESSION_PREFIX = ''https://storage.googleapis.com/upload/resumable/fake''"

definition storage_unavailable :: exn where
  "storage_unavailable = ProblemException ''Upload Storage Unavailable'' 500"

definition access_token :: "upload_env \<Rightarrow> nat \<Rightarrow> string option" where
  "access_token env n =
     (if ue_gcp_access_token env \<noteq> [] then Some (ue_gcp_access_token env)
      else (case ue_metadata_token env n of
              Some t \<Rightarrow> if t \<noteq> [] then Some t else ue_gcloud_token env n
            | None \<Rightarrow> ue_gcloud_token env n))"

definition has_token :: "upload_env \<Rightarrow> (upload_store, bool) prog" where
  "has_token env = call (\<lambda>n. access_token env n \<notin> {None, Some []})"

text \<open>\<open>raise_for_status\<close> passes 2xx only.\<close>

definition is_success :: "http_response \<Rightarrow> bool" where
  "is_success r = (200 \<le> hr_status r \<and> hr_status r < 300)"

definition create_resumable_session ::
  "upload_env \<Rightarrow> string \<Rightarrow> string \<Rightarrow> string \<Rightarrow> int \<Rightarrow> (upload_store, string) prog" where
  "create_resumable_session env bucket path mime sz =
     (let fake = FAKE_SESSION_PREFIX @ ''/'' @ path; test = (ue_environment env = ''test'') in
      if bucket = [] then (if test then ret fake else raise storage_unavailable)
      else
        bindE (has_token env) (\<lambda>ok.
        if \<not> ok then (if test then ret fake else raise storage_unavailable)
        else
          bindE (call (gcs_create env bucket path mime sz)) (\<lambda>resp.
          case resp of
            None \<Rightarrow> raise storage_unavailable
          | Some r \<Rightarrow>
              if \<not> is_success r then raise storage_unavailable
              else if hr_location r \<notin> {None, Some []} then ret (the (hr_location r))
              else if test then ret fake else raise storage_unavailable)))"

record object_metadata =
  om_size_bytes :: int
  om_mime_type :: json

definition metadata_of_body :: "json option \<Rightarrow> object_metadata result" where
  "metadata_of_body body =
     (case body of
        None \<Rightarrow> Inl (ValueError ''JSONDecodeError'')
      | Some (JObj d) \<Rightarrow>
          bind_res (int_or_zero (jget d ''size'')) (\<lambda>n.
          Inr \<lparr>om_size_bytes = n, om_mime_type = jor (jget d ''contentType'') (JStr [])\<rparr>)
      | Some _ \<Rightarrow> Inl (AttributeError ''get''))"

definition fetch_object_metadata ::
  "upload_env \<Rightarrow> string \<Rightarrow> string \<Rightarrow> (upload_store, object_metadata option) prog" where
  "fetch_object_metadata env bucket path =
     (let test = (ue_environment env = ''test'') in
      if bucket = [] then (if test then ret None else raise storage_unavailable)
      else
        bindE (has_token env) (\<lambda>ok.
        if \<not> ok then (if test then ret None else raise storage_unavailable)
        else
          bindE (call (gcs_get env bucket path)) (\<lambda>resp.
          case resp of
            None \<Rightarrow> raise storage_unavailable
          | Some r \<Rightarrow>
              if hr_status r = 404 then ret None
              else if \<not> is_success r then raise storage_unavailable
              else bindE (liftR (metadata_of_body (hr_json r))) (\<lambda>m. ret (Some m)))))"

definition patch_object_metadata ::
  "upload_env \<Rightarrow> string \<Rightarrow> string \<Rightarrow> (string, json) pydict \<Rightarrow> (upload_store, bool) prog" where
  "patch_object_metadata env bucket path meta =
     (let loc = is_local_environment (ue_environment env) in
      if bucket = [] then (if loc then ret False else raise storage_unavailable)
      else
        bindE (has_token env) (\<lambda>ok.
        if \<not> ok then (if loc then ret False else raise storage_unavailable)
        else
          bindE (call (gcs_patch env bucket path meta)) (\<lambda>resp.
          case resp of
            None \<Rightarrow> raise storage_unavailable
          | Some r \<Rightarrow> if is_success r then ret True else raise storage_unavailable)))"

record upload_probe =
  pr_next_byte_offset :: int
  pr_upload_complete :: bool
  pr_session_expired :: bool

definition no_progress :: "bool \<Rightarrow> upload_probe" where
  "no_progress expired = \<lparr>pr_next_byte_offset = 0, pr_upload_complete = False, pr_session_expired = expired\<rparr>"

definition probe_failed :: exn where
  "probe_failed = ProblemException ''Upload Session Probe Failed'' 500"

definition probe_response :: "http_response \<Rightarrow> int \<Rightarrow> upload_probe result" where
  "probe_response r sz =
     (if hr_status r = 308
      then (let n = parse_committed_offset (hr_range r) sz
            in Inr \<lparr>pr_next_byte_offset = n, pr_upload_complete = (n \<ge> sz), pr_session_expired = False\<rparr>)
      else if hr_status r \<in> {200, 201}
      then Inr \<lparr>pr_next_byte_offset = sz, pr_upload_complete = True, pr_session_expired = False\<rparr>
      else if hr_status r \<in> {404, 410} then Inr (no_progress True)
      else Inl probe_failed)"

definition probe_resumable_session :: "upload_env \<Rightarrow> string \<Rightarrow> int \<Rightarrow> (upload_store, upload_probe) prog" where
  "probe_resumable_session env url sz =
     (if url = [] then ret (no_progress True)
      else if starts_with FAKE_SESSION_PREFIX url then ret (no_progress False)
      else
        bindE (call (gcs_probe env url sz)) (\<lambda>resp.
        case resp of None \<Rightarrow> raise probe_failed | Some r \<Rightarrow> liftR (probe_response r sz)))"

section \<open>Lemmas\<close>

lemma wp_call [wp_simps]: "wp (call f) Q E s = Q (f (up_calls s)) (s\<lparr>up_calls := Suc (up_calls s)\<rparr>)"
  by (simp add: wp_def call_def)

lemma probe_within: "probe_response r sz = Inr p \<Longrightarrow> 0 \<le> sz \<Longrightarrow> 0 \<le> pr_next_byte_offset p \<and> pr_next_byte_offset p \<le> sz"
  by (auto simp: probe_response_def parse_committed_offset_def no_progress_def Let_def split: if_splits option.splits)

lemma replace_unsafe_safe: "list_all safe_char (replace_unsafe b s)"
  by (induction b s rule: replace_unsafe.induct) (auto simp: safe_char_def)

lemma replace_unsafe_id: "list_all safe_char s \<Longrightarrow> replace_unsafe b s = s"
  by (induction s arbitrary: b) auto

lemma set_strip_chars: "set (strip_chars P s) \<subseteq> set s"
  unfolding strip_chars_def by (auto dest!: set_dropWhileD)

lemma strip_chars_ends:
  assumes "strip_chars P s \<noteq> []"
  shows "hd (strip_chars P s) \<notin> P" and "last (strip_chars P s) \<notin> P"
proof -
  define t where "t = dropWhile (\<lambda>c. c \<in> P) s"
  have strip: "strip_chars P s = rev (dropWhile (\<lambda>c. c \<in> P) (rev t))" by (simp add: strip_chars_def t_def)
  have "t \<noteq> []" using assms by (auto simp: strip)
  then have first: "hd t \<notin> P" using hd_dropWhile [of "\<lambda>c. c \<in> P" s] by (auto simp: t_def)
  have rest: "dropWhile (\<lambda>c. c \<in> P) (rev t) \<noteq> []" using assms by (simp add: strip)
  have last_ok: "hd (dropWhile (\<lambda>c. c \<in> P) (rev t)) \<notin> P" using hd_dropWhile [OF rest] by simp
  with rest show "last (strip_chars P s) \<notin> P" by (simp add: strip last_rev)
  have "rev (dropWhile (\<lambda>c. c \<in> P) (rev t)) = take (length (dropWhile (\<lambda>c. c \<in> P) (rev t))) t"
    by (metis dropWhile_eq_drop length_drop length_rev rev_drop rev_rev_ident)
  with rest have "hd (rev (dropWhile (\<lambda>c. c \<in> P) (rev t))) = hd t"
    by (metis hd_take length_greater_0_conv)
  with first show "hd (strip_chars P s) \<notin> P" by (simp add: strip)
qed

lemma strip_id: "s \<noteq> [] \<Longrightarrow> \<not> is_space (hd s) \<Longrightarrow> \<not> is_space (last s) \<Longrightarrow> strip s = s"
proof -
  assume s: "s \<noteq> []" "\<not> is_space (hd s)" "\<not> is_space (last s)"
  have keep: "dropWhile is_space t = t" if "t \<noteq> []" "\<not> is_space (hd t)" for t
    using that by (cases t) auto
  show ?thesis using s by (simp add: strip_def keep hd_rev)
qed

definition sample_upload_env :: upload_env where
  "sample_upload_env = \<lparr>ue_environment = ''production'', ue_gcs_bucket_name = ''media'', ue_gcp_access_token = ''tok'',
     ue_metadata_token = (\<lambda>_. None), ue_gcloud_token = (\<lambda>_. None), ue_clock = int, ue_uuid = dec,
     ue_stable_uuid = (\<lambda>s. s), ue_codec = plain_codec,
     gcs_create = (\<lambda>_ _ _ _ _. Some \<lparr>hr_status = 200, hr_location = Some ''https://up'', hr_range = None, hr_json = None\<rparr>),
     gcs_get = (\<lambda>_ _ _. Some \<lparr>hr_status = 200, hr_location = None, hr_range = None,
       hr_json = Some (JObj [(''size'', JStr ''3''), (''contentType'', JStr ''video/mp4'')])\<rparr>),
     gcs_patch = (\<lambda>_ _ _ _. Some \<lparr>hr_status = 200, hr_location = None, hr_range = None, hr_json = None\<rparr>),
     gcs_probe = (\<lambda>_ _ _. Some \<lparr>hr_status = 308, hr_location = None, hr_range = Some ''bytes=0-2'', hr_json = None\<rparr>)\<rparr>"

end
