(* ===== verification/Upload_Service.thy ===== *)
theory Upload_Service
  imports Upload_Store
begin

text \<open>
  \<open>UploadService\<close> of \<open>app/services/upload_service.py\<close>: creating, resuming and finalising an upload, the
  invariant of the session table, and the abstract machine the service implements: an upload is open
  from its creation with a fixed owner and size until the storage has confirmed every byte of it.
\<close>

section \<open>Operations\<close>

definition MAX_UPLOAD_SIZE_BYTES :: int where
  "MAX_UPLOAD_SIZE_BYTES = 100 * 1024 * 1024 * 1024"

definition TEST_BUCKET_NAME :: string where
  "TEST_BUCKET_NAME = ''chronos-test-bucket''"

definition resolve_bucket_name :: "upload_env \<Rightarrow> string" where
  "resolve_bucket_name env =
     (if ue_gcs_bucket_name env \<noteq> [] then ue_gcs_bucket_name env
      else if ue_environment env = ''test'' then TEST_BUCKET_NAME else [])"

record upload_request =
  ur_original_filename :: string
  ur_mime_type :: string
  ur_size_bytes :: int
  ur_checksum :: "string option"

record finalize_request =
  fr_size_bytes :: int
  fr_checksum :: "string option"

definition lower_checksum :: "string option \<Rightarrow> string option" where
  "lower_checksum c = (case c of None \<Rightarrow> None | Some x \<Rightarrow> if x = [] then None else Some (lower x))"

definition not_found :: exn where
  "not_found = ProblemException ''Not Found'' 404"

definition invalid_size :: exn where
  "invalid_size = ProblemException ''Invalid Upload Size'' 400"

definition metadata_mismatch :: exn where
  "metadata_mismatch = ProblemException ''Upload Metadata Mismatch'' 400"

definition upload_path :: "string \<Rightarrow> string \<Rightarrow> string \<Rightarrow> string" where
  "upload_path user uid filename = ''uploads/'' @ user @ ''/'' @ uid @ ''/'' @ sanitize_filename filename"

text \<open>The public payload is the session without its owner, organisation and configuration; the session itself here.\<close>

definition create_upload ::
  "upload_env \<Rightarrow> string \<Rightarrow> string \<Rightarrow> upload_request \<Rightarrow> (upload_store, upload_session) prog" where
  "create_upload env user org rq =
     (let mime = lower (ur_mime_type rq); sz = ur_size_bytes rq in
      if sz \<le> 0 then raise invalid_size
      else if sz > MAX_UPLOAD_SIZE_BYTES then raise (ProblemException ''Upload Too Large'' 413)
      else
        bindE (liftR (validate_media_type (ur_original_filename rq) mime)) (\<lambda>_.
        bindE (call (ue_uuid env)) (\<lambda>uid.
        let path = upload_path user uid (ur_original_filename rq); bucket = resolve_bucket_name env in
        bindE (create_resumable_session env bucket path mime sz) (\<lambda>url.
        create_session env uid user org (ur_original_filename rq) mime sz (lower_checksum (ur_checksum rq)) bucket path url))))"

record resume_view =
  rz_session :: upload_session
  rz_next_byte_offset :: int
  rz_upload_complete :: bool
  rz_session_regenerated :: bool

definition require_session :: "string \<Rightarrow> string \<Rightarrow> (upload_store, upload_session) prog" where
  "require_session uid owner =
     bindE (get_session uid (Some owner)) (\<lambda>found. case found of None \<Rightarrow> raise not_found | Some r \<Rightarrow> ret r)"

definition resume_patch :: "upload_session \<Rightarrow> string \<Rightarrow> upload_session \<Rightarrow> upload_session" where
  "resume_patch session url r =
     (let r1 = (if us_status session \<noteq> Uploading then r\<lparr>us_status := Uploading\<rparr> else r)
      in if url \<noteq> resumable_session_url session then r1\<lparr>resumable_session_url := url\<rparr> else r1)"

text \<open>An expired session is replaced by a new one, which starts at the first byte.\<close>

definition resume_target ::
  "upload_env \<Rightarrow> upload_session \<Rightarrow> upload_probe \<Rightarrow> (upload_store, string \<times> upload_probe \<times> bool) prog" where
  "resume_target env session probe =
     (if pr_session_expired probe
      then bindE (create_resumable_session env (us_bucket_name session) (us_object_path session)
             (us_mime_type session) (us_size_bytes session)) (\<lambda>url. ret (url, no_progress False, True))
      else ret (resumable_session_url session, probe, False))"

definition resume_upload :: "upload_env \<Rightarrow> string \<Rightarrow> string \<Rightarrow> (upload_store, resume_view) prog" where
  "resume_upload env uid owner =
     bindE (require_session uid owner) (\<lambda>session.
     let declared = us_size_bytes session in
     if us_status session = UploadCompleted
     then ret \<lparr>rz_session = session, rz_next_byte_offset = declared, rz_upload_complete = True, rz_session_regenerated = False\<rparr>
     else
       bindE (probe_resumable_session env (resumable_session_url session) declared) (\<lambda>probe.
       bindE (resume_target env session probe) (\<lambda>(url, probe', regenerated).
       bindE (if us_status session \<noteq> Uploading \<or> url \<noteq> resumable_session_url session
              then bindE (update_session env uid owner (resume_patch session url)) (\<lambda>updated.
                     case updated of None \<Rightarrow> raise probe_failed | Some r \<Rightarrow> ret r)
              else ret session) (\<lambda>session'.
       ret \<lparr>rz_session = session', rz_next_byte_offset = pr_next_byte_offset probe',
         rz_upload_complete = pr_upload_complete probe', rz_session_regenerated = regenerated\<rparr>))))"

definition mark_upload_in_progress :: "upload_env \<Rightarrow> upload_session \<Rightarrow> string \<Rightarrow> string \<Rightarrow> (upload_store, upload_session) prog" where
  "mark_upload_in_progress env session uid owner =
     (if us_status session = Uploading \<and> us_completed_at session = None then ret session
      else
        bindE (update_session env uid owner (\<lambda>r. r\<lparr>us_status := Uploading, us_completed_at := None\<rparr>)) (\<lambda>updated.
        ret (case updated of None \<Rightarrow> session | Some r \<Rightarrow> r)))"

definition finalization_failed :: "nat \<Rightarrow> exn" where
  "finalization_failed code = ProblemException ''Upload Finalization Failed'' code"

definition audit_classification :: "upload_env \<Rightarrow> classification_record \<Rightarrow> string \<Rightarrow> (upload_store, unit) prog" where
  "audit_classification env cl event =
     bindE (call (ue_uuid env)) (\<lambda>new_id.
     bindE (call (ue_clock env)) (\<lambda>now.
     modifyE (\<lambda>s. s\<lparr>up_audit := record_event new_id now cl event [] (up_audit s)\<rparr>)))"

text \<open>What is checked of the request, before the storage is asked.\<close>

definition check_finalize :: "finalize_request \<Rightarrow> upload_session \<Rightarrow> unit result" where
  "check_finalize rq session =
     (let checksum = lower_checksum (fr_checksum rq) in
      if fr_size_bytes rq \<le> 0 then Inl invalid_size
      else if fr_size_bytes rq \<noteq> us_size_bytes session then Inl metadata_mismatch
      else if us_checksum session \<notin> {None, Some []} \<and> checksum \<noteq> None \<and> checksum \<noteq> us_checksum session
      then Inl metadata_mismatch
      else Inr ())"

text \<open>The storage's own account of the object, or a conflict that leaves the upload in progress.\<close>

definition confirm_upload ::
  "upload_env \<Rightarrow> string \<Rightarrow> string \<Rightarrow> int \<Rightarrow> upload_session \<Rightarrow> (upload_store, object_metadata) prog" where
  "confirm_upload env uid owner sz session =
     bindE (probe_resumable_session env (resumable_session_url session) sz) (\<lambda>probe.
     if \<not> pr_upload_complete probe
     then bindE (mark_upload_in_progress env session uid owner) (\<lambda>_. raise (finalization_failed 409))
     else
       bindE (fetch_object_metadata env (us_bucket_name session) (us_object_path session)) (\<lambda>md.
       case md of
         Some m \<Rightarrow> ret m
       | None \<Rightarrow>
           if ue_environment env = ''test'' \<and> starts_with FAKE_SESSION_PREFIX (resumable_session_url session)
           then ret \<lparr>om_size_bytes = sz, om_mime_type = JStr (us_mime_type session)\<rparr>
           else bindE (mark_upload_in_progress env session uid owner) (\<lambda>_. raise (finalization_failed 409))))"

definition check_metadata :: "upload_env \<Rightarrow> int \<Rightarrow> upload_session \<Rightarrow> object_metadata \<Rightarrow> unit result" where
  "check_metadata env sz session m =
     (if om_size_bytes m \<noteq> sz then Inl metadata_mismatch
      else if \<not> media_supported (us_original_filename session) (lower (str_or_empty (ue_codec env) (om_mime_type m)))
      then Inl metadata_mismatch
      else Inr ())"

text \<open>The classification labels are written to the object; the audit trail says how that went.\<close>

definition label_object ::
  "upload_env \<Rightarrow> upload_session \<Rightarrow> classification_record \<Rightarrow> (upload_store, unit) prog" where
  "label_object env session cl =
     bindE (audit_classification env cl ''classification_assigned'') (\<lambda>_.
     bindE (catchE (patch_object_metadata env (us_bucket_name session) (us_object_path session) (classification_metadata cl))
        (\<lambda>e. bindE (audit_classification env cl ''gcs_metadata_patch_failed'') (\<lambda>_. raise e))) (\<lambda>patched.
     audit_classification env cl (if patched then ''gcs_metadata_patched'' else ''gcs_metadata_patch_skipped'')))"

definition upload_completed_patch :: "string option \<Rightarrow> int \<Rightarrow> time \<Rightarrow> upload_session \<Rightarrow> upload_session" where
  "upload_completed_patch checksum sz t r =
     r\<lparr>us_status := UploadCompleted, us_checksum := request_patch checksum (us_checksum r), us_size_bytes := sz,
       us_completed_at := Some t\<rparr>"

definition or_checksum :: "string option \<Rightarrow> string option \<Rightarrow> string option" where
  "or_checksum a b = (case a of None \<Rightarrow> b | Some x \<Rightarrow> Some x)"

definition complete_upload ::
  "upload_env \<Rightarrow> string \<Rightarrow> string \<Rightarrow> string \<Rightarrow> finalize_request \<Rightarrow> upload_session \<Rightarrow> (upload_store, upload_session) prog" where
  "complete_upload env uid owner tier rq session =
     (let checksum = or_checksum (lower_checksum (fr_checksum rq)) (us_checksum session); sz = fr_size_bytes rq in
      bindE (call (ue_clock env)) (\<lambda>classified_at.
      bindE (liftR (classify (ue_codec env) ARTIFACT_SOURCE_UPLOAD (us_media_uri session) tier classified_at None)) (\<lambda>cl.
      bindE (label_object env session cl) (\<lambda>_.
      bindE (upsert_pointer env uid session owner sz checksum cl) (\<lambda>_.
      bindE (call (ue_clock env)) (\<lambda>t.
      bindE (update_session env uid owner (upload_completed_patch checksum sz t)) (\<lambda>updated.
      case updated of None \<Rightarrow> raise (finalization_failed 500) | Some r \<Rightarrow> ret r)))))))"

definition finalize_upload ::
  "upload_env \<Rightarrow> string \<Rightarrow> string \<Rightarrow> string \<Rightarrow> finalize_request \<Rightarrow> (upload_store, upload_session) prog" where
  "finalize_upload env uid owner tier rq =
     bindE (require_session uid owner) (\<lambda>session.
     if us_status session = UploadCompleted then ret session
     else
       bindE (liftR (check_finalize rq session)) (\<lambda>_.
       bindE (confirm_upload env uid owner (fr_size_bytes rq) session) (\<lambda>m.
       bindE (liftR (check_metadata env (fr_size_bytes rq) session m)) (\<lambda>_.
       complete_upload env uid owner tier rq session))))"

section \<open>The invariant of the tables\<close>

definition session_ok :: "string \<Rightarrow> upload_session \<Rightarrow> bool" where
  "session_ok uid r \<longleftrightarrow> upload_id r = uid \<and> 0 < us_size_bytes r \<and> us_size_bytes r \<le> MAX_UPLOAD_SIZE_BYTES \<and>
     media_supported (us_original_filename r) (us_mime_type r) \<and>
     us_object_path r = upload_path (us_owner_user_id r) uid (us_original_filename r) \<and>
     us_media_uri r = ''gs://'' @ us_bucket_name r @ ''/'' @ us_object_path r \<and>
     us_status r \<noteq> UploadFailed \<and> (us_status r = UploadCompleted \<longleftrightarrow> us_completed_at r \<noteq> None)"

text \<open>The pointer of a completed upload: it names the stored object, with the label and size that were confirmed.\<close>

definition points_to :: "object_pointer \<Rightarrow> upload_session \<Rightarrow> bool" where
  "points_to p r \<longleftrightarrow> op_upload_id p = upload_id r \<and> op_owner_user_id p = us_owner_user_id r \<and>
     op_bucket_name p = us_bucket_name r \<and> op_object_path p = us_object_path r \<and>
     op_size_bytes p = us_size_bytes r \<and> op_checksum p = us_checksum r \<and> op_classification_label p = ''Confidential''"

definition uploads_ok :: "upload_store \<Rightarrow> bool" where
  "uploads_ok s \<longleftrightarrow> (\<forall>uid r. dget (upload_sessions s) uid = Some r \<longrightarrow> session_ok uid r \<and>
     (us_status r = UploadCompleted \<longrightarrow> (\<exists>p. dget (gcs_object_pointers s) uid = Some p \<and> points_to p r)))"

lemma uploads_ok_calls [simp]: "uploads_ok (s\<lparr>up_calls := n\<rparr>) = uploads_ok s" "uploads_ok (s\<lparr>up_audit := a\<rparr>) = uploads_ok s"
  by (simp_all add: uploads_ok_def)

lemma uploads_ok_session: "uploads_ok s \<Longrightarrow> dget (upload_sessions s) uid = Some r \<Longrightarrow> session_ok uid r"
  by (simp add: uploads_ok_def)

text \<open>Writing an open session keeps the invariant, whatever pointer there is.\<close>

lemma uploads_ok_open:
  "uploads_ok s \<Longrightarrow> session_ok uid r \<Longrightarrow> us_status r \<noteq> UploadCompleted \<Longrightarrow>
   uploads_ok (s\<lparr>upload_sessions := dset uid r (upload_sessions s)\<rparr>)"
  by (simp add: uploads_ok_def)

text \<open>Operations that change neither table.\<close>

definition tables_same :: "upload_store \<Rightarrow> upload_store \<Rightarrow> bool" where
  "tables_same s t \<longleftrightarrow> upload_sessions t = upload_sessions s \<and> gcs_object_pointers t = gcs_object_pointers s"

lemma tables_same_intros [pres_intro]:
  "preserves (tables_same s) (call f)" "preserves (tables_same s) (audit_classification env cl event)"
  by (simp_all add: preserves_def tables_same_def call_def audit_classification_def prog_defs)

lemma probe_same [pres_intro]: "preserves (tables_same s) (probe_resumable_session env url sz)"
  unfolding probe_resumable_session_def by (intro pres_intro)

lemma create_url_same [pres_intro]: "preserves (tables_same s) (create_resumable_session env bucket path mime sz)"
  unfolding create_resumable_session_def has_token_def Let_def by (intro pres_intro)

lemma fetch_same [pres_intro]: "preserves (tables_same s) (fetch_object_metadata env bucket path)"
  unfolding fetch_object_metadata_def has_token_def Let_def by (intro pres_intro)

lemma patch_same [pres_intro]: "preserves (tables_same s) (patch_object_metadata env bucket path meta)"
  unfolding patch_object_metadata_def has_token_def Let_def by (intro pres_intro)

lemma target_same [pres_intro]: "preserves (tables_same s) (resume_target env session probe)"
  unfolding resume_target_def by (intro pres_intro)

lemma label_same [pres_intro]: "preserves (tables_same s) (label_object env session cl)"
  unfolding label_object_def by (intro pres_intro)

lemma wp_same:
  assumes "preserves (tables_same s) m"
    and "\<And>a t. upload_sessions t = upload_sessions s \<Longrightarrow> gcs_object_pointers t = gcs_object_pointers s \<Longrightarrow> fst (m s) = Inr a \<Longrightarrow> Q a t"
    and "\<And>e t. upload_sessions t = upload_sessions s \<Longrightarrow> gcs_object_pointers t = gcs_object_pointers s \<Longrightarrow> E e t"
  shows "wp m Q E s"
proof -
  have "tables_same s (snd (m s))" using assms(1) by (simp add: preserves_def tables_same_def)
  then show ?thesis
    using assms(2,3) by (auto simp: wp_def tables_same_def split: prod.splits sum.splits)
qed

lemma wp_require_session [wp_simps]:
  "wp (require_session uid owner) Q E s =
     (case dget (upload_sessions s) uid of
        None \<Rightarrow> E not_found s
      | Some r \<Rightarrow> if owner = [] \<or> us_owner_user_id r = owner then Q r s else E not_found s)"
  by (auto simp: require_session_def get_session_def wp_simps split: option.splits)

lemma wp_update_session [wp_simps]:
  "wp (update_session env uid owner f) Q E s =
     (case dget (upload_sessions s) uid of
        None \<Rightarrow> Q None s
      | Some r \<Rightarrow> if us_owner_user_id r \<noteq> owner then Q None s
          else (let r' = (f r)\<lparr>us_updated_at := ue_clock env (up_calls s)\<rparr> in
            Q (Some r') (s\<lparr>up_calls := Suc (up_calls s), upload_sessions := dset uid r' (upload_sessions s)\<rparr>)))"
  by (simp add: update_session_def wp_simps Let_def split: option.splits)

section \<open>The abstract machine\<close>

text \<open>What a user is promised of an upload: its owner, where it lies, its size, and whether it is complete.\<close>

record upload_spec =
  sp_owner :: string
  sp_bucket :: string
  sp_path :: string
  sp_size :: int
  sp_complete :: bool

definition spec_of :: "upload_session \<Rightarrow> upload_spec" where
  "spec_of r = \<lparr>sp_owner = us_owner_user_id r, sp_bucket = us_bucket_name r, sp_path = us_object_path r,
     sp_size = us_size_bytes r, sp_complete = (us_status r = UploadCompleted)\<rparr>"

definition abs_uploads :: "upload_store \<Rightarrow> string \<Rightarrow> upload_spec option" where
  "abs_uploads s uid = map_option spec_of (dget (upload_sessions s) uid)"

text \<open>The storage says the session behind some URL is complete and the object has the promised size.\<close>

definition storage_confirms :: "upload_env \<Rightarrow> upload_spec \<Rightarrow> bool" where
  "storage_confirms env u \<longleftrightarrow>
     (\<exists>url n resp p. gcs_probe env url (sp_size u) n = Some resp \<and> probe_response resp (sp_size u) = Inr p \<and>
        pr_upload_complete p) \<and>
     (\<exists>n resp m. gcs_get env (sp_bucket u) (sp_path u) n = Some resp \<and> is_success resp \<and>
        metadata_of_body (hr_json resp) = Inr m \<and> om_size_bytes m = sp_size u)"

text \<open>
  A new upload appears under an identifier that is not in use, so no step opens or completes anew what
  is complete, or replaces one upload by another.
\<close>

inductive upload_step :: "upload_env \<Rightarrow> (string \<Rightarrow> upload_spec option) \<Rightarrow> (string \<Rightarrow> upload_spec option) \<Rightarrow> bool"
  for env where
  stay: "upload_step env m m"
| open_upload: "m uid = None \<Longrightarrow> 0 < sp_size u \<Longrightarrow> sp_size u \<le> MAX_UPLOAD_SIZE_BYTES \<Longrightarrow> \<not> sp_complete u \<Longrightarrow>
     upload_step env m (m(uid \<mapsto> u))"
| finish_upload: "m uid = Some u \<Longrightarrow> \<not> sp_complete u \<Longrightarrow> storage_confirms env u \<Longrightarrow>
     upload_step env m (m(uid \<mapsto> u\<lparr>sp_complete := True\<rparr>))"

datatype upload_op =
    CreateUpload string string upload_request
  | ResumeUpload string string
  | FinalizeUpload string string string finalize_request

fun run_upload :: "upload_env \<Rightarrow> upload_op \<Rightarrow> upload_store \<Rightarrow> upload_store" where
  "run_upload env (CreateUpload user org rq) s = snd (create_upload env user org rq s)"
| "run_upload env (ResumeUpload uid owner) s = snd (resume_upload env uid owner s)"
| "run_upload env (FinalizeUpload uid owner tier rq) s = snd (finalize_upload env uid owner tier rq s)"

definition simulates :: "upload_env \<Rightarrow> upload_store \<Rightarrow> upload_store \<Rightarrow> bool" where
  "simulates env s t \<longleftrightarrow> uploads_ok t \<and> upload_step env (abs_uploads s) (abs_uploads t)"

lemma abs_uploads_calls [simp]: "abs_uploads (s\<lparr>up_calls := n\<rparr>) = abs_uploads s"
  by (simp add: abs_uploads_def fun_eq_iff)

lemma abs_uploads_cong: "upload_sessions t = upload_sessions s \<Longrightarrow> abs_uploads t = abs_uploads s"
  by (simp add: abs_uploads_def fun_eq_iff)

lemma uploads_ok_cong:
  "upload_sessions t = upload_sessions s \<Longrightarrow> gcs_object_pointers t = gcs_object_pointers s \<Longrightarrow> uploads_ok t = uploads_ok s"
  by (simp add: uploads_ok_def)

lemma simulates_stay:
  "uploads_ok s \<Longrightarrow> upload_sessions t = upload_sessions s \<Longrightarrow> gcs_object_pointers t = gcs_object_pointers s \<Longrightarrow> simulates env s t"
  using abs_uploads_cong [of t s] uploads_ok_cong [of t s] by (simp add: simulates_def stay)

text \<open>An open session rewritten with the same promise is a step that stays.\<close>

lemma simulates_rewrite:
  assumes ok: "uploads_ok s" and found: "dget (upload_sessions s) uid = Some r"
    and new: "session_ok uid r'" "us_status r' \<noteq> UploadCompleted" "spec_of r' = spec_of r"
    and t: "upload_sessions t = dset uid r' (upload_sessions s)" "gcs_object_pointers t = gcs_object_pointers s"
  shows "simulates env s t"
proof -
  have "uploads_ok t" using ok new t by (simp add: uploads_ok_def)
  moreover have "abs_uploads t = abs_uploads s" using found new t by (auto simp: abs_uploads_def fun_eq_iff)
  ultimately show ?thesis by (simp add: simulates_def stay)
qed

text \<open>The identifiers that \<open>uuid4\<close> is still going to give are pairwise different and not in use.\<close>

definition uploads_fresh :: "upload_env \<Rightarrow> upload_store \<Rightarrow> bool" where
  "uploads_fresh env s \<longleftrightarrow> inj (ue_uuid env) \<and> (\<forall>n \<ge> up_calls s. dget (upload_sessions s) (ue_uuid env n) = None)"

definition fresh_since :: "upload_env \<Rightarrow> nat \<Rightarrow> upload_store \<Rightarrow> bool" where
  "fresh_since env n s \<longleftrightarrow> uploads_fresh env s \<and> n \<le> up_calls s"

lemma fresh_primitives [pres_intro]:
  "preserves (fresh_since env n) (call f)" "preserves (fresh_since env n) (audit_classification env cl event)"
  "preserves (fresh_since env n) (upsert_pointer env uid r owner sz checksum cl)"
  "preserves (fresh_since env n) (update_session env uid owner patch)"
  by (auto simp: preserves_def fresh_since_def uploads_fresh_def call_def audit_classification_def upsert_pointer_def
      update_session_def prog_defs Let_def split: option.splits)

lemma fresh_operations [pres_intro]:
  "preserves (fresh_since env n) (create_resumable_session env bucket path mime sz)"
  "preserves (fresh_since env n) (resume_target env r q)"
  "preserves (fresh_since env n) (mark_upload_in_progress env r uid owner)"
  "preserves (fresh_since env n) (fetch_object_metadata env bucket path)"
  "preserves (fresh_since env n) (patch_object_metadata env bucket path meta)"
  "preserves (fresh_since env n) (probe_resumable_session env url sz)"
  "preserves (fresh_since env n) (require_session uid owner)"
  unfolding create_resumable_session_def resume_target_def mark_upload_in_progress_def fetch_object_metadata_def
    patch_object_metadata_def probe_resumable_session_def require_session_def get_session_def has_token_def Let_def
  by (intro pres_intro)+

lemma fresh_resume: "preserves (fresh_since env n) (resume_upload env uid owner)"
  unfolding resume_upload_def Let_def split_beta by (intro pres_intro)

lemma fresh_finalize: "preserves (fresh_since env n) (finalize_upload env uid owner tier rq)"
  unfolding finalize_upload_def confirm_upload_def complete_upload_def label_object_def Let_def by (intro pres_intro)

lemma fresh_create:
  assumes "uploads_fresh env s"
  shows "wp (create_upload env user org rq) (\<lambda>_. uploads_fresh env) (\<lambda>_. uploads_fresh env) s"
proof -
  have since: "fresh_since env (Suc (up_calls s)) (s\<lparr>up_calls := Suc (up_calls s)\<rparr>)"
    using assms by (simp add: fresh_since_def uploads_fresh_def)
  have stored: "uploads_fresh env (t\<lparr>up_calls := Suc (up_calls t),
      upload_sessions := dset (ue_uuid env (up_calls s)) r (upload_sessions t)\<rparr>)"
    if "fresh_since env (Suc (up_calls s)) t" for t r
    using that by (auto simp: fresh_since_def uploads_fresh_def inj_eq)
  have opened: "wp (create_resumable_session env bucket path mime sz) Q (\<lambda>_. uploads_fresh env) (s\<lparr>up_calls := Suc (up_calls s)\<rparr>)"
    if "\<And>a t. fresh_since env (Suc (up_calls s)) t \<Longrightarrow> Q a t" for bucket path mime sz Q
    by (rule wp_mono [OF wp_preserves [OF fresh_operations(1) since]]) (auto simp: that fresh_since_def)
  show ?thesis
    using assms since
    by (auto simp: create_upload_def wp_simps Let_def create_session_def fresh_since_def intro!: opened stored
        split: sum.splits)
qed

lemma create_simulates:
  "uploads_ok s \<Longrightarrow> uploads_fresh env s \<Longrightarrow>
   wp (create_upload env user org rq) (\<lambda>_. simulates env s) (\<lambda>_. simulates env s) s"
proof -
  assume ok: "uploads_ok s" and "uploads_fresh env s"
  then have new: "dget (upload_sessions s) (ue_uuid env (up_calls s)) = None" by (simp add: uploads_fresh_def)
  have url: "wp (create_resumable_session env bucket path mime sz) Q (\<lambda>_. simulates env s) (s\<lparr>up_calls := n\<rparr>)"
    if "\<And>url t. upload_sessions t = upload_sessions s \<Longrightarrow> gcs_object_pointers t = gcs_object_pointers s \<Longrightarrow> Q url t"
    for bucket path mime sz n Q
    by (rule wp_same [OF create_url_same]) (auto intro: that simulates_stay [OF ok])
  have step: "simulates env s (t\<lparr>up_calls := n, upload_sessions := dset uid r (upload_sessions s)\<rparr>)"
    if "upload_sessions t = upload_sessions s" "gcs_object_pointers t = gcs_object_pointers s"
      "session_ok uid r" "us_status r = UploadPending" "dget (upload_sessions s) uid = None" for t n uid r
  proof -
    have "upload_step env (abs_uploads s) ((abs_uploads s)(uid \<mapsto> spec_of r))"
      by (rule open_upload) (use that in \<open>auto simp: spec_of_def session_ok_def abs_uploads_def\<close>)
    moreover have "abs_uploads (t\<lparr>up_calls := n, upload_sessions := dset uid r (upload_sessions s)\<rparr>) = (abs_uploads s)(uid \<mapsto> spec_of r)"
      using that by (auto simp: abs_uploads_def fun_eq_iff)
    moreover have "uploads_ok (t\<lparr>up_calls := n, upload_sessions := dset uid r (upload_sessions s)\<rparr>)"
      using ok that by (simp add: uploads_ok_def)
    ultimately show ?thesis by (simp add: simulates_def)
  qed
  have stop: "simulates env s s" by (rule simulates_stay [OF ok]) simp_all
  show ?thesis
    by (auto simp: create_upload_def wp_simps Let_def validate_media_type_def stop not_le not_less
        create_session_def session_ok_def new intro!: url step split: if_splits)
qed

lemma resume_simulates: "uploads_ok s \<Longrightarrow> wp (resume_upload env uid owner) (\<lambda>_. simulates env s) (\<lambda>_. simulates env s) s"
proof -
  assume ok: "uploads_ok s"
  have stop: "simulates env s s" by (rule simulates_stay [OF ok]) simp_all
  have patched: "simulates env s (t\<lparr>up_calls := n, upload_sessions := dset uid ((resume_patch r url r)\<lparr>us_updated_at := now\<rparr>) (upload_sessions s)\<rparr>)"
    if "gcs_object_pointers t = gcs_object_pointers s" "dget (upload_sessions s) uid = Some r" "us_status r \<noteq> UploadCompleted"
    for t n r url now
    using uploads_ok_session [OF ok that(2)] that
    by (intro simulates_rewrite [OF ok that(2)]) (auto simp: session_ok_def resume_patch_def spec_of_def Let_def)
  have target: "wp (resume_target env r p) Q (\<lambda>_. simulates env s) t"
    if "upload_sessions t = upload_sessions s" "gcs_object_pointers t = gcs_object_pointers s"
      "\<And>a t. upload_sessions t = upload_sessions s \<Longrightarrow> gcs_object_pointers t = gcs_object_pointers s \<Longrightarrow> Q a t" for r p Q t
    by (rule wp_same [OF target_same]) (use that in \<open>auto intro: simulates_stay [OF ok]\<close>)
  have probe: "wp (probe_resumable_session env url sz) Q (\<lambda>_. simulates env s) s"
    if "\<And>a t. upload_sessions t = upload_sessions s \<Longrightarrow> gcs_object_pointers t = gcs_object_pointers s \<Longrightarrow> Q a t" for url sz Q
    by (rule wp_same [OF probe_same]) (use that in \<open>auto intro: simulates_stay [OF ok]\<close>)
  show ?thesis
    by (auto simp: resume_upload_def wp_simps stop Let_def intro!: probe target patched split: option.splits prod.splits;
        rule simulates_stay [OF ok]; simp)
qed

lemma probe_complete:
  "fst (probe_resumable_session env url sz s) = Inr p \<Longrightarrow> pr_upload_complete p \<Longrightarrow>
   \<not> starts_with FAKE_SESSION_PREFIX url \<and>
   (\<exists>n resp. gcs_probe env url sz n = Some resp \<and> probe_response resp sz = Inr p)"
  by (auto simp: probe_resumable_session_def call_def prog_defs no_progress_def
      split: if_splits option.splits)

lemma fetch_some:
  "fst (fetch_object_metadata env bucket path s) = Inr (Some m) \<Longrightarrow>
   \<exists>n resp. gcs_get env bucket path n = Some resp \<and> is_success resp \<and> metadata_of_body (hr_json resp) = Inr m"
  by (auto simp: fetch_object_metadata_def has_token_def call_def prog_defs Let_def
      split: if_splits option.splits sum.splits)

lemma wp_mark [wp_simps]:
  "wp (mark_upload_in_progress env session uid owner) Q E s =
     (if us_status session = Uploading \<and> us_completed_at session = None then Q session s
      else wp (update_session env uid owner (\<lambda>r. r\<lparr>us_status := Uploading, us_completed_at := None\<rparr>))
        (\<lambda>u. Q (case u of None \<Rightarrow> session | Some r \<Rightarrow> r)) E s)"
  by (simp add: mark_upload_in_progress_def wp_bindE wp_ret)

lemma mark_simulates:
  assumes ok: "uploads_ok s" and found: "dget (upload_sessions s) uid = Some r" "us_status r \<noteq> UploadCompleted"
    and t: "upload_sessions t = upload_sessions s" "gcs_object_pointers t = gcs_object_pointers s"
  shows "wp (mark_upload_in_progress env r uid owner) (\<lambda>_. simulates env s) (\<lambda>_. simulates env s) t"
proof -
  have "session_ok uid (r\<lparr>us_status := Uploading, us_completed_at := None, us_updated_at := now\<rparr>)" for now
    using uploads_ok_session [OF ok found(1)] by (simp add: session_ok_def)
  then have "simulates env s (t\<lparr>up_calls := n, upload_sessions :=
      dset uid (r\<lparr>us_status := Uploading, us_completed_at := None, us_updated_at := now\<rparr>) (upload_sessions s)\<rparr>)" for n now
    using found t by (intro simulates_rewrite [OF ok found(1)]) (auto simp: spec_of_def)
  then show ?thesis
    using simulates_stay [OF ok t] found t by (simp add: wp_simps Let_def)
qed

lemma confirm_simulates:
  assumes ok: "uploads_ok s" and found: "dget (upload_sessions s) uid = Some r" "us_status r \<noteq> UploadCompleted"
  shows "wp (confirm_upload env uid owner (us_size_bytes r) r)
     (\<lambda>m t. upload_sessions t = upload_sessions s \<and> gcs_object_pointers t = gcs_object_pointers s \<and>
        (om_size_bytes m = us_size_bytes r \<longrightarrow> storage_confirms env (spec_of r)))
     (\<lambda>_. simulates env s) s"
proof -
  note marked = mark_simulates [OF ok found]
  have failed: "wp (mark_upload_in_progress env r uid owner) (\<lambda>_. simulates env s) (\<lambda>_. simulates env s) t"
    if "upload_sessions t = upload_sessions s" "gcs_object_pointers t = gcs_object_pointers s" for t
    using that by (rule marked)
  have fetched: "wp (fetch_object_metadata env b p) Q (\<lambda>_. simulates env s) t"
    if "upload_sessions t = upload_sessions s" "gcs_object_pointers t = gcs_object_pointers s"
      "\<And>a u. upload_sessions u = upload_sessions s \<Longrightarrow> gcs_object_pointers u = gcs_object_pointers s \<Longrightarrow>
         fst (fetch_object_metadata env b p t) = Inr a \<Longrightarrow> Q a u" for b p Q t
    by (rule wp_same [OF fetch_same]) (use that in \<open>auto intro: simulates_stay [OF ok]\<close>)
  have confirms: "storage_confirms env (spec_of r)"
    if "fst (probe_resumable_session env (resumable_session_url r) (us_size_bytes r) s) = Inr p" "pr_upload_complete p"
      "fst (fetch_object_metadata env (us_bucket_name r) (us_object_path r) t) = Inr (Some m)"
      "om_size_bytes m = us_size_bytes r" for p t m
    using probe_complete [OF that(1,2)] fetch_some [OF that(3)] that(2,4)
    by (auto simp: storage_confirms_def spec_of_def)
  have incomplete: "\<not> starts_with FAKE_SESSION_PREFIX (resumable_session_url r)"
    if "fst (probe_resumable_session env (resumable_session_url r) (us_size_bytes r) s) = Inr p" "pr_upload_complete p" for p
    using probe_complete [OF that] by simp
  show ?thesis
    unfolding confirm_upload_def wp_bindE
    by (rule wp_same [OF probe_same])
      (auto simp: wp_bindE wp_ret wp_raise incomplete intro!: failed fetched intro: confirms simulates_stay [OF ok] split: option.split)
qed

lemma uploads_ok_pointer:
  "uploads_ok s \<Longrightarrow> dget (upload_sessions s) uid = Some r \<Longrightarrow> us_status r \<noteq> UploadCompleted \<Longrightarrow>
   upload_sessions t = upload_sessions s \<Longrightarrow> gcs_object_pointers t = dset uid p (gcs_object_pointers s) \<Longrightarrow> simulates env s t"
  using abs_uploads_cong [of t s] by (auto simp: uploads_ok_def simulates_def stay)

lemma simulates_finish:
  assumes ok: "uploads_ok s" and found: "dget (upload_sessions s) uid = Some r" "us_status r \<noteq> UploadCompleted"
    and confirmed: "storage_confirms env (spec_of r)"
    and r': "session_ok uid r'" "spec_of r' = (spec_of r)\<lparr>sp_complete := True\<rparr>" "points_to p r'"
    and t: "upload_sessions t = dset uid r' (upload_sessions s)" "gcs_object_pointers t = dset uid p (gcs_object_pointers s)"
  shows "simulates env s t"
proof -
  have "abs_uploads t = (abs_uploads s)(uid \<mapsto> (spec_of r)\<lparr>sp_complete := True\<rparr>)"
    using r' t by (auto simp: abs_uploads_def fun_eq_iff)
  moreover have "upload_step env (abs_uploads s) ((abs_uploads s)(uid \<mapsto> (spec_of r)\<lparr>sp_complete := True\<rparr>))"
    using found confirmed by (intro finish_upload) (auto simp: abs_uploads_def spec_of_def)
  moreover have "uploads_ok t" using ok r' t by (auto simp: uploads_ok_def)
  ultimately show ?thesis by (simp add: simulates_def)
qed

lemma complete_simulates:
  assumes ok: "uploads_ok s" and found: "dget (upload_sessions s) uid = Some r" "us_status r \<noteq> UploadCompleted"
    and confirmed: "storage_confirms env (spec_of r)" and sz: "fr_size_bytes rq = us_size_bytes r"
    and t: "upload_sessions t = upload_sessions s" "gcs_object_pointers t = gcs_object_pointers s"
  shows "wp (complete_upload env uid owner tier rq r)
     (\<lambda>v u. simulates env s u \<and> dget (upload_sessions u) uid = Some v \<and> us_status v = UploadCompleted)
     (\<lambda>_. simulates env s) t"
proof -
  have label: "wp (label_object env r cl) Q (\<lambda>_. simulates env s) (t\<lparr>up_calls := n\<rparr>)"
    if "\<And>u. upload_sessions u = upload_sessions s \<Longrightarrow> gcs_object_pointers u = gcs_object_pointers s \<Longrightarrow> Q () u" for cl n Q
    by (rule wp_same [OF label_same]) (use t that in \<open>auto intro: simulates_stay [OF ok]\<close>)
  have key: "upload_id r = uid" using uploads_ok_session [OF ok found(1)] by (simp add: session_ok_def)
  have done1: "simulates env s u"
    if u: "upload_sessions u = dset uid ((upload_completed_patch (or_checksum c (us_checksum r)) (us_size_bytes r) d r)\<lparr>us_updated_at := now\<rparr>) (upload_sessions s)"
      "gcs_object_pointers u = dset uid (new_pointer env uid r (us_owner_user_id r) (us_size_bytes r) (or_checksum c (us_checksum r)) cl m) (gcs_object_pointers s)"
      and cl: "classification_label cl = ''Confidential''" for u c d now m cl
  proof (rule simulates_finish [OF ok found confirmed _ _ _ u])
    show "session_ok uid ((upload_completed_patch (or_checksum c (us_checksum r)) (us_size_bytes r) d r)\<lparr>us_updated_at := now\<rparr>)"
      using uploads_ok_session [OF ok found(1)] by (simp add: session_ok_def upload_completed_patch_def)
    show "spec_of ((upload_completed_patch (or_checksum c (us_checksum r)) (us_size_bytes r) d r)\<lparr>us_updated_at := now\<rparr>) = (spec_of r)\<lparr>sp_complete := True\<rparr>"
      by (simp add: spec_of_def upload_completed_patch_def)
    show "points_to (new_pointer env uid r (us_owner_user_id r) (us_size_bytes r) (or_checksum c (us_checksum r)) cl m)
        ((upload_completed_patch (or_checksum c (us_checksum r)) (us_size_bytes r) d r)\<lparr>us_updated_at := now\<rparr>)"
      by (auto simp: points_to_def new_pointer_def upload_completed_patch_def request_patch_def or_checksum_def or_str_def cl key split: option.split)
  qed
  have done2: "simulates env s (x\<lparr>gcs_object_pointers :=
        dset uid (new_pointer env uid r (us_owner_user_id r) (us_size_bytes r) (or_checksum c (us_checksum r)) cl m) (gcs_object_pointers s),
        up_calls := n, upload_sessions := dset uid ((upload_completed_patch (or_checksum c (us_checksum r)) (us_size_bytes r) d r)
          \<lparr>us_updated_at := now\<rparr>) (upload_sessions s)\<rparr>)"
    if "classification_label cl = ''Confidential''" for x c d now m cl n
    by (rule done1 [OF _ _ that, where c = c and d = d and now = now and m = m]) simp_all
  have label_value: "classification_label_for_artifact ARTIFACT_SOURCE_UPLOAD = Inr ''Confidential''"
    by (simp add: classification_label_for_artifact_def)
  show ?thesis
    unfolding complete_upload_def Let_def sz
    by (auto simp: wp_simps classify_def label_value upsert_pointer_def found Let_def intro!: label;
        ((rule done2; simp) | (rule uploads_ok_pointer [OF ok found]; simp) | simp add: upload_completed_patch_def))
qed

lemma finalize_simulates:
  assumes ok: "uploads_ok s"
  shows "wp (finalize_upload env uid owner tier rq)
     (\<lambda>v t. simulates env s t \<and> dget (upload_sessions t) uid = Some v \<and> us_status v = UploadCompleted)
     (\<lambda>_. simulates env s) s"
proof -
  have stop: "simulates env s s" by (rule simulates_stay [OF ok]) simp_all
  have checked: "fr_size_bytes rq = us_size_bytes r" if "check_finalize rq r = Inr ()" for r
    using that by (simp add: check_finalize_def Let_def split: if_splits)
  have run: "wp (confirm_upload env uid own (us_size_bytes r) r)
      (\<lambda>m. wp (bindE (liftR (check_metadata env (us_size_bytes r) r m)) (\<lambda>_. complete_upload env uid own tier rq r))
        (\<lambda>v t. simulates env s t \<and> dget (upload_sessions t) uid = Some v \<and> us_status v = UploadCompleted)
        (\<lambda>_. simulates env s)) (\<lambda>_. simulates env s) s"
    if r: "dget (upload_sessions s) uid = Some r" "us_status r \<noteq> UploadCompleted" "check_finalize rq r = Inr ()" for r own
    by (rule wp_mono [OF confirm_simulates [OF ok r(1,2)]])
      (auto simp: wp_bindE wp_liftR check_metadata_def intro: complete_simulates [OF ok r(1,2) _ checked [OF r(3)]] simulates_stay [OF ok]
        split: if_splits)
  show ?thesis
    unfolding finalize_upload_def
    by (auto simp: wp_simps stop split: option.split sum.split) (simp_all add: checked run)
qed

lemma run_upload_fresh: "uploads_fresh env s \<Longrightarrow> uploads_fresh env (run_upload env op s)"
proof -
  assume fresh: "uploads_fresh env s"
  have kept: "uploads_fresh env (snd (m s))" if "preserves (fresh_since env 0) m" for m :: "(upload_store, 'a) prog"
    using preservesD [OF that, of s] fresh by (simp add: fresh_since_def)
  show ?thesis
    using wp_run [OF fresh_create [OF fresh]]
    by (cases op) (auto intro: kept fresh_resume fresh_finalize split: sum.splits)
qed

lemma run_upload_simulates: "uploads_ok s \<Longrightarrow> uploads_fresh env s \<Longrightarrow> simulates env s (run_upload env op s)"
proof -
  assume ok: "uploads_ok s" and fresh: "uploads_fresh env s"
  have after: "R (snd (m s))" if "wp m (\<lambda>_. R) (\<lambda>_. R) s" for R and m :: "(upload_store, 'a) prog"
    using that by (auto simp: wp_def split: prod.splits sum.splits)
  have "wp (finalize_upload env uid owner tier rq) (\<lambda>_. simulates env s) (\<lambda>_. simulates env s) s" for uid owner tier rq
    by (rule wp_mono [OF finalize_simulates [OF ok]]) simp_all
  then show ?thesis
    by (cases op) (auto intro: after create_simulates [OF ok fresh] resume_simulates [OF ok])
qed

lemma runs_simulate:
  "uploads_ok s \<Longrightarrow> uploads_fresh env s \<Longrightarrow> uploads_ok (fold (run_upload env) ops s) \<and>
     (upload_step env)\<^sup>*\<^sup>* (abs_uploads s) (abs_uploads (fold (run_upload env) ops s))"
proof (induction ops arbitrary: s)
  case Nil
  then show ?case by simp
next
  case (Cons op ops)
  have "simulates env s (run_upload env op s)" by (rule run_upload_simulates [OF Cons.prems])
  moreover have "uploads_fresh env (run_upload env op s)" by (rule run_upload_fresh [OF Cons.prems(2)])
  ultimately show ?case
    using Cons.IH [of "run_upload env op s"] by (auto simp: simulates_def intro: converse_rtranclp_into_rtranclp)
qed

text \<open>Along any run of the abstract machine, what is complete was confirmed, and stays so.\<close>

lemma confirms_completed [simp]: "storage_confirms env (u\<lparr>sp_complete := b\<rparr>) = storage_confirms env u"
  by (simp add: storage_confirms_def)

lemma steps_confirmed:
  assumes "(upload_step env)\<^sup>*\<^sup>* m m'" and "\<And>uid u. m uid = Some u \<Longrightarrow> sp_complete u \<Longrightarrow> storage_confirms env u"
  shows "m' uid = Some u \<Longrightarrow> sp_complete u \<Longrightarrow> storage_confirms env u"
  using assms
proof (induction arbitrary: uid u rule: rtranclp_induct)
  case base
  then show ?case by blast
next
  case (step y z)
  from step(2) show ?case
    using step.prems(1,2) step.IH [OF _ _ step.prems(3)]
    by cases (auto split: if_splits)
qed

definition empty_upload_store :: upload_store where
  "empty_upload_store = \<lparr>upload_sessions = [], gcs_object_pointers = [], up_audit = [], up_calls = 0\<rparr>"

lemma empty_uploads: "uploads_ok empty_upload_store" "abs_uploads empty_upload_store uid = None"
  "inj (ue_uuid env) \<Longrightarrow> uploads_fresh env empty_upload_store"
  by (simp_all add: uploads_ok_def abs_uploads_def empty_upload_store_def uploads_fresh_def)

lemma completed_stay:
  assumes "(upload_step env)\<^sup>*\<^sup>* m m'" and "m uid = Some u" and "sp_complete u"
  shows "m' uid = Some u"
  using assms
proof (induction rule: rtranclp_induct)
  case base
  then show ?case by simp
next
  case (step y z)
  then have "y uid = Some u" by blast
  with step(2) step.prems show ?case by cases auto
qed

section \<open>Properties\<close>

text \<open>
  C18: The upload service implements its specification. From a well-formed store in which the identifiers
  to come are not in use, every request (create, resume, finalise, by anyone, returning or raising)
  leaves such a store and is one step of the abstract machine: nothing, a new open upload of a positive
  size within the limit under an unused identifier, or the completion of one open upload that the
  storage confirms. Owner, place and size of an upload never change, and one that is complete stays so.
\<close>

theorem uploads_refine_spec:
  assumes "uploads_ok s" and "uploads_fresh env s"
  shows "uploads_ok (run_upload env op s) \<and> uploads_fresh env (run_upload env op s) \<and>
    upload_step env (abs_uploads s) (abs_uploads (run_upload env op s)) \<and>
    (\<forall>uid u. abs_uploads s uid = Some u \<and> sp_complete u \<longrightarrow> abs_uploads (run_upload env op s) uid = Some u)"
proof -
  have "simulates env s (run_upload env op s)" by (rule run_upload_simulates [OF assms])
  then have "uploads_ok (run_upload env op s)" and
    step: "upload_step env (abs_uploads s) (abs_uploads (run_upload env op s))" by (simp_all add: simulates_def)
  with run_upload_fresh [OF assms(2)] completed_stay [OF r_into_rtranclp [of "upload_step env", OF step]]
  show ?thesis by blast
qed

text \<open>
  No upload is completed on the client's word. After any sequence of requests on an empty store,
  a completed session has a size the storage reported, both as committed bytes of a resumable session and
  as the size of the stored object, and there is a pointer to it with its owner, place, size and
  checksum that classifies it as confidential.
\<close>

theorem completed_uploads_confirmed:
  assumes "dget (upload_sessions (fold (run_upload env) ops empty_upload_store)) uid = Some r"
    and "us_status r = UploadCompleted" and "inj (ue_uuid env)"
  shows "storage_confirms env (spec_of r) \<and>
    (\<exists>p. dget (gcs_object_pointers (fold (run_upload env) ops empty_upload_store)) uid = Some p \<and>
       op_owner_user_id p = us_owner_user_id r \<and> op_bucket_name p = us_bucket_name r \<and> op_object_path p = us_object_path r \<and>
       op_size_bytes p = us_size_bytes r \<and> op_checksum p = us_checksum r \<and> op_classification_label p = ''Confidential'')"
proof -
  let ?t = "fold (run_upload env) ops empty_upload_store"
  have run: "uploads_ok ?t" "(upload_step env)\<^sup>*\<^sup>* (abs_uploads empty_upload_store) (abs_uploads ?t)"
    using runs_simulate [OF empty_uploads(1) empty_uploads(3) [OF assms(3)], of ops] by simp_all
  have "abs_uploads ?t uid = Some (spec_of r)" "sp_complete (spec_of r)"
    using assms by (simp_all add: abs_uploads_def spec_of_def)
  then have "storage_confirms env (spec_of r)"
    by (rule steps_confirmed [OF run(2), rotated]) (simp add: empty_uploads(2))
  with run(1) assms show ?thesis by (auto simp: uploads_ok_def points_to_def)
qed

definition sample_upload_ops :: "upload_op list" where
  "sample_upload_ops =
     [CreateUpload ''u1'' ''org1'' \<lparr>ur_original_filename = ''a.MP4'', ur_mime_type = ''video/mp4'', ur_size_bytes = 3, ur_checksum = None\<rparr>,
      FinalizeUpload ''0'' ''u1'' ''pro'' \<lparr>fr_size_bytes = 3, fr_checksum = None\<rparr>]"

lemma sample_ids_differ: "inj (ue_uuid sample_upload_env)"
  by (rule inj_on_inverseI [of _ "undec_acc 0"]) (simp add: sample_upload_env_def undec_dec)

theorem uploads_refine_spec_witness:
  "uploads_ok (run_upload sample_upload_env (hd sample_upload_ops) empty_upload_store) \<and>
   uploads_fresh sample_upload_env (run_upload sample_upload_env (hd sample_upload_ops) empty_upload_store)"
  using uploads_refine_spec [OF empty_uploads(1) empty_uploads(3) [OF sample_ids_differ]] by blast

lemma sample_media: "media_supported ''a.MP4'' ''video/mp4''"
  by code_simp

lemma sample_name: "sanitize_filename ''a.MP4'' = ''a.MP4''"
  by code_simp

lemma sample_mime: "lower ''video/mp4'' = ''video/mp4''"
  by code_simp

lemma sample_offset: "parse_committed_offset (Some ''bytes=0-2'') 3 = 3"
  by code_simp

lemma sample_size: "int_of_str ''3'' = Some 3"
  by code_simp

lemma dec_0: "dec 0 = ''0''"
  by code_simp

lemma sample_upload_completed:
  "\<exists>r. dget (upload_sessions (fold (run_upload sample_upload_env) sample_upload_ops empty_upload_store)) ''0'' = Some r \<and>
     us_status r = UploadCompleted \<and>
     spec_of r = \<lparr>sp_owner = ''u1'', sp_bucket = ''media'', sp_path = ''uploads/u1/0/a.MP4'', sp_size = 3, sp_complete = True\<rparr>"
  by (simp add: spec_of_def upload_path_def sample_name sample_upload_ops_def create_upload_def finalize_upload_def prog_defs Let_def sample_upload_env_def
      validate_media_type_def sample_media sample_mime call_def create_resumable_session_def has_token_def access_token_def
      create_session_def empty_upload_store_def resolve_bucket_name_def is_success_def dec_0 MAX_UPLOAD_SIZE_BYTES_def
      require_session_def get_session_def check_finalize_def confirm_upload_def probe_resumable_session_def
      FAKE_SESSION_PREFIX_def starts_with_def probe_response_def sample_offset fetch_object_metadata_def metadata_of_body_def
      sample_size check_metadata_def jor_def complete_upload_def classify_def classification_label_for_artifact_def
      label_object_def audit_classification_def patch_object_metadata_def upsert_pointer_def update_session_def upload_completed_patch_def
      lower_checksum_def)

theorem completed_uploads_confirmed_witness:
  "storage_confirms sample_upload_env \<lparr>sp_owner = ''u1'', sp_bucket = ''media'', sp_path = ''uploads/u1/0/a.MP4'',
     sp_size = 3, sp_complete = True\<rparr>"
  using sample_upload_completed completed_uploads_confirmed [of sample_upload_env sample_upload_ops "''0''"] sample_ids_differ by metis

lemma dec_digits: "list_all is_digit (dec n) \<and> dec n \<noteq> []"
proof (induction n rule: dec.induct)
  case (1 n)
  have digit: "is_digit (digit_char d)" if "d < 10" for d
    using that by (simp add: is_digit_def digit_char_def of_char_of Let_def)
  show ?case
  proof (cases "n < 10")
    case True
    then show ?thesis by (subst (1 2) dec.simps) (simp add: digit)
  next
    case False
    with 1 show ?thesis by (subst (1 2) dec.simps) (simp add: digit)
  qed
qed

lemma strip_range: "strip (''bytes=0-'' @ dec n) = ''bytes=0-'' @ dec n"
proof (rule strip_id)
  have "is_digit (last (dec n))" using dec_digits [of n] by (metis last_in_set list_all_iff)
  then show "\<not> is_space (last (''bytes=0-'' @ dec n))"
    using dec_digits [of n] by (auto simp: is_space_def is_digit_def Let_def)
qed (simp_all add: is_space_def)

text \<open>
  C26: The number of committed bytes is read back from the header the storage prints: a range
  \<open>bytes=0-n\<close> means \<open>n + 1\<close> bytes, capped at the declared size.
\<close>

theorem committed_offset_roundtrip:
  "parse_committed_offset (Some (''bytes=0-'' @ dec n)) sz = min (int n + 1) sz"
  using dec_digits [of n] undec_dec [of n] strip_range [of n] by (simp add: parse_committed_offset_def Let_def)

lemma sanitize_cases:
  "sanitize_filename f = ''upload.bin'' \<or>
   sanitize_filename f \<noteq> [] \<and> sanitize_filename f = strip_chars {CHR ''.'', CHR ''_''} (replace_unsafe False f)"
  by (auto simp: sanitize_filename_def or_str_def)

lemma upload_bin: "list_all safe_char ''upload.bin''" "sanitize_filename ''upload.bin'' = ''upload.bin''"
  by code_simp+

lemma sanitize_ok:
  "sanitize_filename f \<noteq> [] \<and> list_all safe_char (sanitize_filename f) \<and>
   hd (sanitize_filename f) \<notin> {CHR ''.'', CHR ''_''} \<and> last (sanitize_filename f) \<notin> {CHR ''.'', CHR ''_''}"
  using sanitize_cases [of f]
proof
  assume "sanitize_filename f = ''upload.bin''"
  then show ?thesis using upload_bin by simp
next
  let ?t = "strip_chars {CHR ''.'', CHR ''_''} (replace_unsafe False f)"
  assume t: "sanitize_filename f \<noteq> [] \<and> sanitize_filename f = ?t"
  moreover have "list_all safe_char ?t"
    using replace_unsafe_safe [of False f] set_strip_chars [of "{CHR ''.'', CHR ''_''}"] by (auto simp: list_all_iff)
  ultimately show ?thesis using strip_chars_ends [of "{CHR ''.'', CHR ''_''}" "replace_unsafe False f"] by metis
qed

lemma sanitize_keeps:
  assumes "s \<noteq> []" "list_all safe_char s" "hd s \<notin> {CHR ''.'', CHR ''_''}" "last s \<notin> {CHR ''.'', CHR ''_''}"
  shows "sanitize_filename s = s"
proof -
  have keep: "dropWhile (\<lambda>c. c \<in> P) t = t" if "t \<noteq> []" "hd t \<notin> P" for t :: string and P
    using that by (cases t) auto
  have "strip_chars {CHR ''.'', CHR ''_''} s = s"
    unfolding strip_chars_def by (simp only: keep assms hd_rev rev_is_Nil_conv rev_rev_ident not_False_eq_True simp_thms)
  with assms show ?thesis by (simp add: sanitize_filename_def or_str_def replace_unsafe_id)
qed

text \<open>
  File names are made safe for object paths. Whatever the client calls its file, the name used in the
  storage is not empty, consists of letters, digits, dots, underscores and dashes, neither starts nor
  ends with a dot or an underscore (so it is no path and no \<open>..\<close>), and making it safe again changes nothing.
\<close>

theorem stored_names_are_safe:
  "sanitize_filename f \<noteq> [] \<and> list_all safe_char (sanitize_filename f) \<and>
   hd (sanitize_filename f) \<notin> {CHR ''.'', CHR ''_''} \<and> last (sanitize_filename f) \<notin> {CHR ''.'', CHR ''_''} \<and>
   sanitize_filename (sanitize_filename f) = sanitize_filename f"
  using sanitize_ok [of f] sanitize_keeps [of "sanitize_filename f"] by blast

end
