(* ===== verification/Fingerprint.thy ===== *)
theory Fingerprint
  imports Upload_Service
begin

text \<open>
  Fingerprints of a saved configuration: \<open>app/services/configuration_fingerprint.py\<close>, the cache
  fingerprint of \<open>app/db/phase2_store.py\<close>, and the launch snapshot that
  \<open>app/services/preview_generation.py\<close> reads back from an upload session. Printing JSON, SHA-256 and
  \<open>uuid5\<close> are the codec's and the environment's.
\<close>

definition core_job_payload :: "jdict \<Rightarrow> jdict" where
  "core_job_payload p = dpop ''launch_context'' p"

definition configuration_fingerprint :: "codec \<Rightarrow> string \<Rightarrow> jdict \<Rightarrow> string" where
  "configuration_fingerprint c stamp p =
     sha256_hex c (json_dumps_compact c
       (JObj [(''configured_at'', JStr stamp), (''job_payload_preview'', JObj (core_job_payload p))]))"

definition preview_launch_external_job_id :: "(string \<Rightarrow> string) \<Rightarrow> string \<Rightarrow> string \<Rightarrow> string" where
  "preview_launch_external_job_id uuid5 pid fp = uuid5 (''preview-launch:'' @ pid @ '':'' @ fp)"

definition preview_id_for_snapshot :: "(string \<Rightarrow> string) \<Rightarrow> string \<Rightarrow> string \<Rightarrow> string" where
  "preview_id_for_snapshot uuid5 uid stamp = uuid5 (''preview-session:'' @ uid @ '':'' @ stamp)"

definition preview_cache_config :: "jdict \<Rightarrow> jdict" where
  "preview_cache_config config0 =
     (let config = dpop ''configured_at'' config0 in
      case jget config ''detection_snapshot'' of
        JObj d \<Rightarrow> dset ''detection_snapshot'' (JObj (filter (\<lambda>(k, v). k \<noteq> ''detection_id'') d)) config
      | _ \<Rightarrow> config)"

definition preview_configuration_cache_payload :: "jdict \<Rightarrow> json result" where
  "preview_configuration_cache_payload p =
     bind_res (obj_or_empty (jget p ''config'')) (\<lambda>config.
     Inr (JObj [(''mime_type'', jget p ''mime_type''), (''estimated_duration_seconds'', jget p ''estimated_duration_seconds''),
       (''fidelity_tier'', jget p ''fidelity_tier''), (''reproducibility_mode'', jget p ''reproducibility_mode''),
       (''processing_mode'', jget p ''processing_mode''), (''era_profile'', jor (jget p ''era_profile'') (JObj [])),
       (''config'', JObj (preview_cache_config config))]))"

text \<open>\<open>None\<close> for an empty payload.\<close>

definition preview_configuration_cache_fingerprint :: "codec \<Rightarrow> jdict \<Rightarrow> string option result" where
  "preview_configuration_cache_fingerprint c p =
     (if p = [] then Inr None
      else bind_res (preview_configuration_cache_payload p) (\<lambda>v. Inr (Some (sha256_hex c (json_dumps_compact c v)))))"

section \<open>The launch snapshot of a session\<close>

record launch_snapshot =
  ls_job_payload_preview :: jdict
  ls_configured_at :: string
  ls_source_asset_checksum :: string
  ls_preview_id :: string
  ls_configuration_fingerprint :: string
  ls_configuration_cache_fingerprint :: string
  ls_cache_key :: string

definition configuration_not_ready :: exn where
  "configuration_not_ready = ProblemException ''Configuration Not Ready'' 409"

definition saved_launch_snapshot :: "upload_env \<Rightarrow> upload_session \<Rightarrow> launch_snapshot result" where
  "saved_launch_snapshot env session =
     (case (jget (launch_config session) ''job_payload_preview'', configured_at session) of
        (JObj p, Some stamp) \<Rightarrow>
          if p = [] \<or> stamp = [] then Inl configuration_not_ready
          else
            (let c = ue_codec env;
                 checksum = str_or_empty c (jor (jget p ''source_asset_checksum'')
                              (case us_checksum session of None \<Rightarrow> JNull | Some x \<Rightarrow> JStr x)) in
             if checksum = [] then Inl configuration_not_ready
             else
               bind_res (preview_configuration_cache_fingerprint c p) (\<lambda>cache.
               case cache of
                 None \<Rightarrow> Inl configuration_not_ready
               | Some cfp \<Rightarrow>
                   Inr \<lparr>ls_job_payload_preview = p, ls_configured_at = stamp, ls_source_asset_checksum = checksum,
                     ls_preview_id = preview_id_for_snapshot (ue_stable_uuid env) (upload_id session) stamp,
                     ls_configuration_fingerprint = configuration_fingerprint c stamp p,
                     ls_configuration_cache_fingerprint = cfp,
                     ls_cache_key = sha256_hex c (json_dumps_compact c
                       (JObj [(''upload_id'', JStr (upload_id session)), (''configured_at_snapshot'', JStr stamp)]))\<rparr>))
      | _ \<Rightarrow> Inl configuration_not_ready)"

section \<open>What a fingerprint ignores\<close>

lemma dpop_dset [simp]: "dpop k (dset k v d) = dpop k d"
  by (induction d) auto

text \<open>The launch context can be filled in afterwards: the fingerprint does not see it.\<close>

lemma fingerprint_ignores_context:
  "configuration_fingerprint c stamp (dset ''launch_context'' v p) = configuration_fingerprint c stamp p"
  by (simp add: configuration_fingerprint_def core_job_payload_def)

lemma snapshot_of_session:
  assumes "jget (launch_config r) ''job_payload_preview'' = JObj p" "p \<noteq> []" "configured_at r = Some stamp" "stamp \<noteq> []"
    and "jget p ''source_asset_checksum'' = JStr x" "x \<noteq> []" "obj_or_empty (jget p ''config'') = Inr cfg"
  shows "\<exists>ls. saved_launch_snapshot env r = Inr ls \<and> ls_job_payload_preview ls = p \<and> ls_configured_at ls = stamp \<and>
    ls_source_asset_checksum ls = x \<and> ls_configuration_fingerprint ls = configuration_fingerprint (ue_codec env) stamp p \<and>
    ls_preview_id ls = preview_id_for_snapshot (ue_stable_uuid env) (upload_id r) stamp"
  using assms
  by (simp add: saved_launch_snapshot_def jor_def preview_configuration_cache_fingerprint_def
      preview_configuration_cache_payload_def Let_def)

end
