(* ===== verification/Signing.thy ===== *)
theory Signing
  imports Json Iso_Time Billing
begin

text \<open>
  Signed URLs, as \<open>app/services/output_delivery.py\<close> and \<open>app/services/preview_generation.py\<close> build them:
  percent encoding (\<open>urllib.parse.quote\<close> on the bytes of a text), storage URIs, timestamps and the check
  of the signing secret. HMAC-SHA256 is a field of the environment.
\<close>

record signing_env =
  sn_environment :: string
  sn_secret :: string
  sn_bucket_name :: string
  hmac_sha256_hex :: "string \<Rightarrow> string \<Rightarrow> string"

section \<open>Percent encoding\<close>

definition unreserved :: "char \<Rightarrow> bool" where
  "unreserved c =
     (let n = of_char c :: nat in
      48 \<le> n \<and> n \<le> 57 \<or> 65 \<le> n \<and> n \<le> 90 \<or> 97 \<le> n \<and> n \<le> 122 \<or> c \<in> {CHR ''_'', CHR ''.'', CHR ''-'', CHR ''~''})"

definition percent_digit :: "nat \<Rightarrow> char" where
  "percent_digit d = (if d < 10 then char_of (48 + d) else char_of (55 + d))"

fun quote :: "string \<Rightarrow> string \<Rightarrow> string" where
  "quote safe [] = []"
| "quote safe (c # cs) =
     (if unreserved c \<or> c \<in> set safe then c # quote safe cs
      else (let n = of_char c :: nat in CHR ''%'' # percent_digit (n div 16) # percent_digit (n mod 16) # quote safe cs))"

text \<open>What the storage does with it.\<close>

definition percent_value :: "char \<Rightarrow> nat" where
  "percent_value c = (let n = of_char c :: nat in if n \<le> 57 then n - 48 else n - 55)"

fun unquote :: "string \<Rightarrow> string" where
  "unquote (c # cs) =
     (if c = CHR ''%''
      then (case cs of h # l # rest \<Rightarrow> char_of (16 * percent_value h + percent_value l) # unquote rest | _ \<Rightarrow> c # cs)
      else c # unquote cs)"
| "unquote [] = []"

section \<open>Storage URIs\<close>

text \<open>\<open>uri.partition("gs://")\<close> and then \<open>path.partition("/")\<close>; other URIs are paths in the default bucket.\<close>

definition bucket_and_path :: "string \<Rightarrow> string \<Rightarrow> string \<times> string" where
  "bucket_and_path fallback uri =
     (if starts_with ''gs://'' uri
      then (let path = drop 5 uri in (takeWhile (\<lambda>c. c \<noteq> CHR ''/'') path, drop 1 (dropWhile (\<lambda>c. c \<noteq> CHR ''/'') path)))
      else (fallback, dropWhile (\<lambda>c. c = CHR ''/'') uri))"

definition bucket_uri :: "string \<Rightarrow> string \<Rightarrow> string" where
  "bucket_uri bucket path = ''gs://'' @ bucket @ ''/'' @ path"

section \<open>Time stamps and signatures\<close>

text \<open>\<open>strftime("%Y%m%d")\<close> and \<open>strftime("%Y%m%dT%H%M%SZ")\<close>\<close>

definition date_stamp :: "time \<Rightarrow> string" where
  "date_stamp t = (case civil_from_days (t div MICROS_PER_DAY) of (y, m, d) \<Rightarrow> pad 4 y @ pad 2 m @ pad 2 d)"

definition time_stamp :: "time \<Rightarrow> string" where
  "time_stamp t =
     (let secs = t mod MICROS_PER_DAY div 1000000
      in date_stamp t @ ''T'' @ pad 2 (secs div 3600) @ pad 2 (secs div 60 mod 60) @ pad 2 (secs mod 60) @ ''Z'')"

text \<open>\<open>int(delta.total_seconds())\<close>, which truncates.\<close>

definition whole_seconds :: "int \<Rightarrow> int" where
  "whole_seconds d = (if 0 \<le> d then d div 1000000 else - (- d div 1000000))"

definition insecure_secret :: "signing_env \<Rightarrow> bool" where
  "insecure_secret env \<longleftrightarrow>
     sn_environment env \<notin> {''test'', ''dev'', ''development''} \<and>
     sn_secret env \<in> {[], ''chronos-output-delivery-test-secret'', ''chronos-output-delivery-dev-secret''}"

definition sign_value :: "signing_env \<Rightarrow> string \<Rightarrow> string result" where
  "sign_value env v =
     (if insecure_secret env then Inl (RuntimeError ''OUTPUT_DELIVERY_SIGNING_SECRET must be set to a non-default value.'')
      else Inr (hmac_sha256_hex env (sn_secret env) v))"

text \<open>A download link is valid for this long from the second of its time stamp: at least for one second.\<close>

definition download_expires_seconds :: "time \<Rightarrow> time \<Rightarrow> int" where
  "download_expires_seconds expires_at now = max (whole_seconds (expires_at - now)) 1"

definition signed_download_url :: "signing_env \<Rightarrow> string \<Rightarrow> string \<Rightarrow> time \<Rightarrow> time \<Rightarrow> string result" where
  "signed_download_url env uri name expires_at now =
     (case bucket_and_path (or_str (sn_bucket_name env) ''chronos-refine-downloads'') uri of
        (bucket, path) \<Rightarrow>
          (let stamp = time_stamp now; secs = dec_int (download_expires_seconds expires_at now);
               credential = ''chronos-output-delivery/'' @ date_stamp now @ ''/auto/storage/goog4_request'' in
           bind_res (sign_value env (uri @ '':'' @ name @ '':'' @ stamp @ '':'' @ secs)) (\<lambda>signature.
           Inr (''https://storage.googleapis.com/'' @ bucket @ ''/'' @ quote ''/'' path @
             ''?X-Goog-Algorithm=GOOG4-HMAC-SHA256'' @ ''&X-Goog-Credential='' @ quote [] credential @
             ''&X-Goog-Date='' @ stamp @ ''&X-Goog-Expires='' @ secs @ ''&X-Goog-SignedHeaders=host'' @
             ''&response-content-disposition=attachment%3Bfilename%3D'' @ quote ''/'' name @
             ''&X-Goog-Signature='' @ signature))))"

lemma signed_download_url_shape:
  assumes "signed_download_url env uri name e now = Inr url"
  shows "\<exists>front rest. url = front @ ''&X-Goog-Date='' @ time_stamp now @
     ''&X-Goog-Expires='' @ dec_int (download_expires_seconds e now) @ ''&X-Goog-SignedHeaders=host'' @ rest"
proof -
  obtain bucket path where b: "bucket_and_path (or_str (sn_bucket_name env) ''chronos-refine-downloads'') uri = (bucket, path)"
    by (rule prod.exhaust)
  from assms obtain signature where
    url: "url = ''https://storage.googleapis.com/'' @ bucket @ ''/'' @ quote ''/'' path @
      ''?X-Goog-Algorithm=GOOG4-HMAC-SHA256'' @ ''&X-Goog-Credential='' @
      quote [] (''chronos-output-delivery/'' @ date_stamp now @ ''/auto/storage/goog4_request'') @
      ''&X-Goog-Date='' @ time_stamp now @ ''&X-Goog-Expires='' @ dec_int (download_expires_seconds e now) @
      ''&X-Goog-SignedHeaders=host'' @ ''&response-content-disposition=attachment%3Bfilename%3D'' @ quote ''/'' name @
      ''&X-Goog-Signature='' @ signature"
    unfolding signed_download_url_def b prod.case Let_def bind_res_Inr_iff sum.inject by (elim exE conjE) (rule that, erule sym)
  show ?thesis
    by (rule exI [of _ "''https://storage.googleapis.com/'' @ bucket @ ''/'' @ quote ''/'' path @
      ''?X-Goog-Algorithm=GOOG4-HMAC-SHA256'' @ ''&X-Goog-Credential='' @
      quote [] (''chronos-output-delivery/'' @ date_stamp now @ ''/auto/storage/goog4_request'')"])
      (rule exI, unfold url append_assoc, rule refl)
qed

lemma download_lifetime: "now div 1000000 * 1000000 + 1000000 * download_expires_seconds e now \<le> max e (now + 1000000)"
proof -
  have "1000000 * whole_seconds (e - now) \<le> e - now \<or> whole_seconds (e - now) \<le> 0"
    by (auto simp: whole_seconds_def)
  moreover have "now div 1000000 * 1000000 \<le> now" by (simp add: minus_mod_eq_div_mult [symmetric])
  ultimately show ?thesis by (auto simp: download_expires_seconds_def max_def)
qed

text \<open>A preview link lives an hour at most, and no longer than the preview where that has a second left.\<close>

definition PREVIEW_URL_TTL_HOURS :: int where
  "PREVIEW_URL_TTL_HOURS = 1"

definition preview_expires_seconds :: "time \<Rightarrow> time \<Rightarrow> int" where
  "preview_expires_seconds expires_at now =
     max (min (whole_seconds (expires_at - now)) (PREVIEW_URL_TTL_HOURS * 3600)) 1"

definition preview_storage_unavailable :: exn where
  "preview_storage_unavailable = RuntimeError ''Preview signing secret is unavailable.''"

definition preview_sign_value :: "signing_env \<Rightarrow> string \<Rightarrow> string result" where
  "preview_sign_value env v =
     (if insecure_secret env then Inl preview_storage_unavailable else Inr (hmac_sha256_hex env (sn_secret env) v))"

definition signed_preview_url :: "signing_env \<Rightarrow> string \<Rightarrow> string \<Rightarrow> time \<Rightarrow> time \<Rightarrow> string result" where
  "signed_preview_url env uri name expires_at now =
     (case bucket_and_path (or_str (sn_bucket_name env) ''chronos-refine-previews'') uri of
        (bucket, path) \<Rightarrow>
          (let stamp = time_stamp now; secs = dec_int (preview_expires_seconds expires_at now);
               credential = ''preview-signer/'' @ date_stamp now @ ''/auto/storage/goog4_request'';
               newline = [CHR 0x0A] in
           bind_res (preview_sign_value env (''GOOG4-HMAC-SHA256'' @ newline @ stamp @ newline @ credential @ newline @
               bucket @ ''/'' @ path @ ''/'' @ name @ ''/'' @ secs)) (\<lambda>signature.
           Inr (''https://storage.googleapis.com/download/storage/v1/b/'' @ bucket @ ''/o/'' @ quote [] path @
             ''?response-content-disposition=attachment%3B%20filename%3D%22'' @ quote ''/'' name @ ''%22'' @
             ''&X-Goog-Algorithm=GOOG4-HMAC-SHA256'' @ ''&X-Goog-Credential='' @ quote [] credential @
             ''&X-Goog-Date='' @ stamp @ ''&X-Goog-Expires='' @ secs @ ''&X-Goog-SignedHeaders=host'' @
             ''&X-Goog-Signature='' @ signature))))"

definition sample_signing_env :: signing_env where
  "sample_signing_env = \<lparr>sn_environment = ''production'', sn_secret = ''s3cret'', sn_bucket_name = ''media'',
     hmac_sha256_hex = (\<lambda>k v. ''sig'')\<rparr>"

section \<open>Lemmas\<close>

lemma percent_digit_roundtrip: "d < 16 \<Longrightarrow> percent_value (percent_digit d) = d"
  by (auto simp: percent_value_def percent_digit_def of_char_of Let_def)

lemma percent_reserved: "\<not> unreserved (CHR ''%'')"
  by (simp add: unreserved_def)

lemma unquote_quote: "CHR ''%'' \<notin> set safe \<Longrightarrow> unquote (quote safe s) = s"
proof (induction s)
  case Nil
  then show ?case by simp
next
  case (Cons c cs)
  have c: "(of_char c :: nat) div 16 < 16" using nat_of_char_less_256 [of c] by linarith
  have "16 * ((of_char c :: nat) div 16) + of_char c mod 16 = of_char c" by simp
  then have "char_of (16 * ((of_char c :: nat) div 16) + of_char c mod 16) = c" by (simp only: char_of_char)
  with Cons c percent_reserved show ?case
    by (auto simp: Let_def percent_digit_roundtrip)
qed

lemma bucket_of_uri: "CHR ''/'' \<notin> set bucket \<Longrightarrow> bucket_and_path d (bucket_uri bucket path) = (bucket, path)"
  by (simp add: bucket_and_path_def bucket_uri_def starts_with_def takeWhile_append dropWhile_append)

lemma preview_expiry_bounds:
  "1 \<le> preview_expires_seconds e now \<and> preview_expires_seconds e now \<le> 3600"
  by (simp add: preview_expires_seconds_def PREVIEW_URL_TTL_HOURS_def)

section \<open>Property\<close>

text \<open>
  An object's name survives the signed URL. Whatever characters it has, the storage reads back from a
  download link the path that was signed, slashes included, and from a preview link the path as one
  component without any slash.
\<close>

theorem quoted_path_roundtrip:
  "unquote (quote ''/'' path) = path \<and> unquote (quote [] path) = path \<and> CHR ''/'' \<notin> set (quote [] path)"
proof -
  have hex: "percent_digit d \<noteq> CHR ''/''" if "d < 16" for d
  proof
    assume "percent_digit d = CHR ''/''"
    then have "(of_char (percent_digit d) :: nat) = of_char (CHR ''/'')" by simp
    with that show False by (simp add: percent_digit_def split: if_splits)
  qed
  have "CHR ''/'' \<notin> set (quote [] s)" for s
  proof (induction s)
    case Nil
    then show ?case by simp
  next
    case (Cons c cs)
    have "(of_char c :: nat) div 16 < 16" using nat_of_char_less_256 [of c] by linarith
    then have "percent_digit (of_char c div 16) \<noteq> CHR ''/''" "percent_digit (of_char c mod 16) \<noteq> CHR ''/''"
      using hex by simp_all
    moreover have "\<not> unreserved (CHR ''/'')" by (simp add: unreserved_def)
    ultimately show ?case using Cons by (auto simp: Let_def)
  qed
  then show ?thesis by (simp add: unquote_quote)
qed

end
