(* ===== verification/Preview_Selection.thy ===== *)
theory Preview_Selection
  imports Signing
begin

text \<open>
  Which keyframes a preview shows: the scene-aware and the uniform selection of
  \<open>app/services/preview_generation.py\<close>. Scenes are not detected; their centers are slots of the duration,
  shifted by bytes of the checksum's SHA-256 digest. Floats are rationals.
\<close>

definition TARGET_KEYFRAME_COUNT :: nat where
  "TARGET_KEYFRAME_COUNT = 10"

record keyframe =
  kf_index :: nat
  kf_timestamp_seconds :: rat
  kf_scene_number :: nat
  kf_confidence_score :: rat
  kf_thumbnail_uri :: string
  kf_frame_uri :: string

record selection =
  sel_mode :: string
  sel_scene_diversity :: rat
  sel_keyframes :: "keyframe list"

text \<open>Byte \<open>i\<close> of a digest of which \<open>sha256_hex\<close> is the hexadecimal form.\<close>

definition nibble :: "char \<Rightarrow> nat" where
  "nibble ch = (let n = of_char ch :: nat in if n \<le> 57 then n - 48 else n - 87) mod 16"

definition digest_byte :: "string \<Rightarrow> nat \<Rightarrow> nat" where
  "digest_byte hex i = (let k = i mod (length hex div 2) in 16 * nibble (hex ! (2 * k)) + nibble (hex ! (2 * k + 1)))"

section \<open>Scenes\<close>

definition scene_center :: "nat \<Rightarrow> int \<Rightarrow> rat \<Rightarrow> nat \<Rightarrow> rat" where
  "scene_center byte duration slot_width idx =
     (let slot_start = slot_width * of_nat idx;
          slot_end = min (slot_width * (of_nat idx + 1)) (of_int duration);
          midpoint = (slot_start + slot_end) / 2;
          jitter_window = max ((slot_end - slot_start) * (22 / 100)) (2 / 100);
          jitter = (of_nat byte / 255 - 1 / 2) * 2 * jitter_window;
          timestamp = max (min (midpoint + jitter) (max (slot_end - 1 / 100) 0)) (min (slot_start + 1 / 100) slot_end)
      in py_round 3 timestamp)"

definition detect_scene_centers :: "codec \<Rightarrow> string \<Rightarrow> int \<Rightarrow> rat list" where
  "detect_scene_centers c checksum duration =
     (let digest = sha256_hex c checksum;
          scene_count = max (TARGET_KEYFRAME_COUNT + 4) 12;
          slot_width = max (of_int duration / of_nat scene_count) (1 / 10)
      in map (\<lambda>idx. scene_center (digest_byte digest idx) duration slot_width idx) [0..<scene_count])"

definition raw_index :: "int \<Rightarrow> int \<Rightarrow> int \<Rightarrow> int" where
  "raw_index n wanted item = round_half_even (of_int (item * (n - 1)) / of_int (max (wanted - 1) 1))"

fun spread_loop :: "int \<Rightarrow> int \<Rightarrow> int list \<Rightarrow> int list \<Rightarrow> int list" where
  "spread_loop n wanted indexes [] = indexes"
| "spread_loop n wanted indexes (item # items) =
     (let raw = raw_index n wanted item;
          chosen = (if indexes \<noteq> [] \<and> raw \<le> last indexes then min (last indexes + 1) (n - 1) else raw)
      in spread_loop n wanted (indexes @ [chosen]) items)"

definition spread_indexes :: "int \<Rightarrow> int \<Rightarrow> int list" where
  "spread_indexes n wanted =
     (if n \<le> wanted then [0 .. n - 1]
      else take (nat wanted) (spread_loop n wanted [] [0 .. wanted - 1]))"

definition confidence_for :: "codec \<Rightarrow> string \<Rightarrow> int \<Rightarrow> rat" where
  "confidence_for c checksum scene_index =
     py_round 3 (65 / 100 + of_nat (digest_byte (sha256_hex c (checksum @ '':'' @ dec_int scene_index)) 0) / 255 * (3 / 10))"

definition scene_diversity :: "keyframe list \<Rightarrow> rat" where
  "scene_diversity keyframes =
     (if length keyframes < 2 then 0
      else
        (let timestamps = sort (map kf_timestamp_seconds keyframes);
             gaps = map (\<lambda>(a, b). b - a) (zip timestamps (tl timestamps));
             average_gap = sum_list gaps / of_nat (length gaps) in
         if average_gap \<le> 0 then 0
         else
           (let mean_abs_deviation = sum_list (map (\<lambda>g. \<bar>g - average_gap\<bar>) gaps) / of_nat (length gaps)
            in py_round 3 (max 0 (min 1 (1 - mean_abs_deviation / (average_gap * (3 / 2))))))))"

definition preview_bucket_uri :: "signing_env \<Rightarrow> string \<Rightarrow> string" where
  "preview_bucket_uri env path = bucket_uri (or_str (sn_bucket_name env) ''chronos-refine-previews'') path"

definition build_keyframe :: "signing_env \<Rightarrow> string \<Rightarrow> nat \<Rightarrow> rat \<Rightarrow> nat \<Rightarrow> rat \<Rightarrow> keyframe" where
  "build_keyframe env pid index timestamp scene_number confidence =
     \<lparr>kf_index = index, kf_timestamp_seconds = py_round 3 timestamp, kf_scene_number = scene_number,
       kf_confidence_score = py_round 3 confidence,
       kf_thumbnail_uri = preview_bucket_uri env
         (''previews/'' @ pid @ ''/thumbnails/keyframe-'' @ pad 2 (int index) @ ''-320x180.jpg''),
       kf_frame_uri = preview_bucket_uri env (''previews/'' @ pid @ ''/frames/keyframe-'' @ pad 2 (int index) @ ''.jpg'')\<rparr>"

definition scene_aware_selection :: "codec \<Rightarrow> signing_env \<Rightarrow> string \<Rightarrow> int \<Rightarrow> string \<Rightarrow> selection" where
  "scene_aware_selection c env checksum duration pid =
     (let scene_centers = detect_scene_centers c checksum duration;
          selected = spread_indexes (int (length scene_centers)) (int TARGET_KEYFRAME_COUNT);
          keyframes = map (\<lambda>(k, scene_index). build_keyframe env pid k (scene_centers ! nat scene_index) (nat (scene_index + 1))
                        (confidence_for c checksum scene_index)) (zip [0..<length selected] selected)
      in \<lparr>sel_mode = ''scene_aware'', sel_scene_diversity = scene_diversity keyframes, sel_keyframes = keyframes\<rparr>)"

definition uniform_selection :: "signing_env \<Rightarrow> int \<Rightarrow> string \<Rightarrow> selection" where
  "uniform_selection env duration pid =
     (let interval = max (of_int duration / of_nat TARGET_KEYFRAME_COUNT) (1 / 10);
          keyframes = map (\<lambda>k. build_keyframe env pid k
                        (py_round 3 (min (interval * of_nat k + interval / 2) (max (of_int duration - 1 / 100) 0))) (k + 1) (55 / 100))
                        [0..<TARGET_KEYFRAME_COUNT]
      in \<lparr>sel_mode = ''uniform_fallback'', sel_scene_diversity = scene_diversity keyframes, sel_keyframes = keyframes\<rparr>)"

text \<open>
  \<open>_select_keyframes\<close>: the uniform selection is the handler of an exception, and the scene-aware one
  raises none on a duration a float can hold.
\<close>

definition select_keyframes :: "codec \<Rightarrow> signing_env \<Rightarrow> bool \<Rightarrow> string \<Rightarrow> int \<Rightarrow> string \<Rightarrow> selection" where
  "select_keyframes c env float_fits checksum duration pid =
     (if float_fits then scene_aware_selection c env checksum duration pid else uniform_selection env duration pid)"

definition estimated_processing_time_seconds :: "int \<Rightarrow> int" where
  "estimated_processing_time_seconds duration =
     max 2 (min 6 (round_half_even (of_int (max duration 1) / 90) + 1))"

section \<open>Indexes\<close>

lemma round_half_even_near: "of_int (round_half_even x) \<le> x + 1 / 2" "x - 1 / 2 \<le> of_int (round_half_even x)"
proof -
  define f where "f = \<lfloor>x\<rfloor>"
  have "of_int f \<le> x" "x < of_int f + 1" using floor_correct [of x] by (simp_all add: f_def)
  then show "of_int (round_half_even x) \<le> x + 1 / 2" "x - 1 / 2 \<le> of_int (round_half_even x)"
    by (auto simp: round_half_even_def Let_def f_def [symmetric])
qed

lemma round_half_even_strict:
  assumes "x + 1 < y"
  shows "round_half_even x < round_half_even y"
proof -
  have "(of_int (round_half_even x) :: rat) < of_int (round_half_even y)"
    using round_half_even_near(1) [of x] round_half_even_near(2) [of y] assms by linarith
  then show ?thesis by simp
qed

lemma raw_index_strict:
  assumes "wanted < n" "1 \<le> wanted" "i < j" "0 \<le> i" "j < wanted"
  shows "raw_index n wanted i < raw_index n wanted j"
proof -
  let ?step = "of_int (n - 1) / of_int (wanted - 1) :: rat"
  have d: "0 < (of_int (wanted - 1) :: rat)" and max: "max (wanted - 1) 1 = wanted - 1" using assms by simp_all
  have "1 < ?step" using assms d by (simp add: less_divide_eq)
  moreover have "(1 :: rat) \<le> of_int (j - i)" using assms(3) by simp
  ultimately have "1 < of_int (j - i) * ?step"
    using mult_right_mono [of 1 "of_int (j - i)" ?step] by linarith
  moreover have "of_int (j - i) * ?step = of_int (j * (n - 1)) / of_int (wanted - 1) - of_int (i * (n - 1)) / of_int (wanted - 1)"
    by (simp add: diff_divide_distrib [symmetric] algebra_simps)
  ultimately have "of_int (i * (n - 1)) / of_int (wanted - 1) + 1 < (of_int (j * (n - 1)) / of_int (wanted - 1) :: rat)"
    by linarith
  then show ?thesis unfolding raw_index_def max by (rule round_half_even_strict)
qed

lemma spread_loop_strict:
  assumes "sorted_wrt (\<lambda>i j. raw_index n m i < raw_index n m j) (xs @ items)"
  shows "spread_loop n m (map (raw_index n m) xs) items = map (raw_index n m) (xs @ items)"
  using assms
proof (induction items arbitrary: xs)
  case Nil
  then show ?case by simp
next
  case (Cons i items)
  have "last (map (raw_index n m) xs) < raw_index n m i" if "xs \<noteq> []"
    using Cons.prems that by (simp add: last_map sorted_wrt_append)
  then show ?case
    using Cons.IH [of "xs @ [i]"] Cons.prems by (cases "xs = []") (auto simp: Let_def not_le)
qed

lemma raw_index_ends:
  assumes "1 \<le> n"
  shows "raw_index n m 0 = 0" and "2 \<le> m \<Longrightarrow> raw_index n m (m - 1) = n - 1"
proof -
  show "raw_index n m 0 = 0" using round_half_even_of_int [of 0] by (simp add: raw_index_def)
  assume "2 \<le> m"
  then have "(of_int ((m - 1) * (n - 1)) :: rat) / of_int (max (m - 1) 1) = of_int (n - 1)"
    by (simp add: max_def)
  then show "raw_index n m (m - 1) = n - 1" unfolding raw_index_def by (simp only: round_half_even_of_int)
qed

text \<open>As many indexes as wanted, in ascending order, from the first item to the last.\<close>

lemma spread_indexes_spread:
  assumes "0 \<le> n" "2 \<le> m"
  shows "int (length (spread_indexes n m)) = min n m" and "sorted_wrt (<) (spread_indexes n m)"
    and "set (spread_indexes n m) \<subseteq> {0 .. n - 1}"
proof -
  have "int (length (spread_indexes n m)) = min n m \<and> sorted_wrt (<) (spread_indexes n m) \<and> set (spread_indexes n m) \<subseteq> {0 .. n - 1}"
  proof (cases "n \<le> m")
    case True
    with assms show ?thesis by (auto simp: spread_indexes_def sorted_wrt_upto)
  next
    case False
    have strict: "raw_index n m i < raw_index n m j" if "0 \<le> i" "i < j" "j < m" for i j
      using raw_index_strict [of m n i j] False assms that by simp
    have "sorted_wrt (\<lambda>i j. raw_index n m i < raw_index n m j) [0 .. m - 1]"
      by (rule sorted_wrt_mono_rel [OF _ sorted_wrt_upto]) (auto intro: strict)
    with spread_loop_strict [of n m "[]" "[0 .. m - 1]"]
    have eq: "spread_indexes n m = map (raw_index n m) [0 .. m - 1]"
      and sorted: "sorted_wrt (<) (map (raw_index n m) [0 .. m - 1])"
      using False by (simp_all add: spread_indexes_def sorted_wrt_map)
    have "0 \<le> raw_index n m i \<and> raw_index n m i \<le> n - 1" if "0 \<le> i" "i \<le> m - 1" for i
    proof -
      have "raw_index n m 0 \<le> raw_index n m i" using strict [of 0 i] that by (cases "i = 0") auto
      moreover have "raw_index n m i \<le> raw_index n m (m - 1)" using strict [of i "m - 1"] that by (cases "i = m - 1") auto
      ultimately show ?thesis using raw_index_ends [of n m] False assms by auto
    qed
    with eq sorted False assms show ?thesis by auto
  qed
  then show "int (length (spread_indexes n m)) = min n m" "sorted_wrt (<) (spread_indexes n m)" "set (spread_indexes n m) \<subseteq> {0 .. n - 1}"
    by blast+
qed

section \<open>Timestamps\<close>

lemma py_round_range: "0 \<le> x \<Longrightarrow> x \<le> of_int d \<Longrightarrow> 0 \<le> py_round n x \<and> py_round n x \<le> of_int d"
  using py_round_mono [of x "of_int d" n] py_round_nonneg [of x n] by simp

lemma scene_center_range:
  assumes "1 \<le> d" "0 < w"
  shows "0 \<le> scene_center b d w idx \<and> scene_center b d w idx \<le> of_int d"
proof -
  have start: "0 \<le> w * of_nat idx" and stop: "0 \<le> w * (of_nat idx + 1)" using assms(2) by simp_all
  then show ?thesis unfolding scene_center_def Let_def using assms
    by (intro py_round_range) (auto simp: le_max_iff_disj min_le_iff_disj)
qed

lemma scene_centers_range:
  assumes "1 \<le> d"
  shows "length (detect_scene_centers c checksum d) = 14"
    and "k < 14 \<Longrightarrow> 0 \<le> detect_scene_centers c checksum d ! k \<and> detect_scene_centers c checksum d ! k \<le> of_int d"
proof -
  show "length (detect_scene_centers c checksum d) = 14"
    by (simp add: detect_scene_centers_def TARGET_KEYFRAME_COUNT_def Let_def)
  show "0 \<le> detect_scene_centers c checksum d ! k \<and> detect_scene_centers c checksum d ! k \<le> of_int d" if "k < 14"
  proof -
    have "0 < max (rat_of_int d / 14) (1 / 10)" by (simp add: less_max_iff_disj)
    with scene_center_range [OF assms this] that show ?thesis
      by (simp add: detect_scene_centers_def TARGET_KEYFRAME_COUNT_def Let_def del: upt_Suc)
  qed
qed

lemma digest_byte_bound: "digest_byte hex i \<le> 255"
proof -
  have "nibble ch \<le> 15" for ch unfolding nibble_def by presburger
  from this [of "hex ! (2 * (i mod (length hex div 2)))"] this [of "hex ! (2 * (i mod (length hex div 2)) + 1)"]
  show ?thesis by (simp add: digest_byte_def Let_def)
qed

lemma confidence_range: "65 / 100 \<le> confidence_for c checksum k \<and> confidence_for c checksum k \<le> 95 / 100"
proof -
  have b: "(of_nat (digest_byte h 0) :: rat) \<le> 255" for h using digest_byte_bound [of h 0] by simp
  have lo: "py_round 3 (65 / 100) = 65 / 100" and hi: "py_round 3 (95 / 100) = 95 / 100"
    by (rule py_round_exact [of _ _ 650], simp) (rule py_round_exact [of _ _ 950], simp)
  show ?thesis unfolding confidence_for_def
    using py_round_mono [of "65 / 100" "65 / 100 + of_nat (digest_byte (sha256_hex c (checksum @ '':'' @ dec_int k)) 0) / 255 * (3 / 10)" 3]
      py_round_mono [of "65 / 100 + of_nat (digest_byte (sha256_hex c (checksum @ '':'' @ dec_int k)) 0) / 255 * (3 / 10)" "95 / 100" 3]
      b [of "sha256_hex c (checksum @ '':'' @ dec_int k)"] lo hi by simp
qed

lemma diversity_range: "0 \<le> scene_diversity ks \<and> scene_diversity ks \<le> 1"
proof -
  have "0 \<le> py_round 3 (max 0 (min 1 x)) \<and> py_round 3 (max 0 (min 1 x)) \<le> 1" for x :: rat
    using py_round_range [of "max 0 (min 1 x)" 1 3] by simp
  then show ?thesis by (simp add: scene_diversity_def Let_def)
qed

section \<open>Property\<close>

definition keyframe_ok :: "int \<Rightarrow> keyframe \<Rightarrow> bool" where
  "keyframe_ok d k \<longleftrightarrow> 0 \<le> kf_timestamp_seconds k \<and> kf_timestamp_seconds k \<le> of_int d \<and>
     55 / 100 \<le> kf_confidence_score k \<and> kf_confidence_score k \<le> 95 / 100 \<and> 1 \<le> kf_scene_number k \<and> kf_scene_number k \<le> 14"

lemma confidence_rounds: "55 / 100 \<le> x \<Longrightarrow> x \<le> 95 / 100 \<Longrightarrow> 55 / 100 \<le> py_round 3 x \<and> py_round 3 x \<le> 95 / 100"
proof -
  have lo: "py_round 3 (55 / 100) = 55 / 100" and hi: "py_round 3 (95 / 100) = 95 / 100"
    by (rule py_round_exact [of _ _ 550], simp) (rule py_round_exact [of _ _ 950], simp)
  assume "55 / 100 \<le> x" "x \<le> 95 / 100"
  from py_round_mono [OF this(1), of 3] py_round_mono [OF this(2), of 3] show ?thesis unfolding lo hi by blast
qed

lemma build_keyframe_ok:
  assumes "0 \<le> t" "t \<le> of_int d" "55 / 100 \<le> q" "q \<le> 95 / 100" "1 \<le> n" "n \<le> 14"
  shows "keyframe_ok d (build_keyframe env pid k t n q)"
  using assms py_round_range [of t d 3] confidence_rounds [of q] by (simp add: keyframe_ok_def build_keyframe_def)

lemma scene_aware_ok:
  fixes c env checksum pid d
  defines "sel \<equiv> scene_aware_selection c env checksum d pid"
  assumes d: "1 \<le> d"
  shows "map kf_index (sel_keyframes sel) = [0..<10]" "sorted_wrt (<) (map kf_scene_number (sel_keyframes sel))"
    "\<forall>k \<in> set (sel_keyframes sel). keyframe_ok d k" "0 \<le> sel_scene_diversity sel \<and> sel_scene_diversity sel \<le> 1"
proof -
  define ixs where "ixs = spread_indexes 14 10"
  note spread = spread_indexes_spread [of 14 10, folded ixs_def, simplified]
  have sel: "sel_keyframes sel = map (\<lambda>(k, i). build_keyframe env pid k (detect_scene_centers c checksum d ! nat i) (nat (i + 1))
      (confidence_for c checksum i)) (zip [0..<10] ixs)"
    using spread(1)
    by (simp add: sel_def scene_aware_selection_def Let_def scene_centers_range(1) [OF d] TARGET_KEYFRAME_COUNT_def ixs_def)
  have len: "length ixs = 10" using spread(1) by simp
  have "map kf_index (sel_keyframes sel) = map fst (zip [0..<10] ixs)" by (simp add: sel build_keyframe_def case_prod_beta)
  then show "map kf_index (sel_keyframes sel) = [0..<10]" using len by simp
  have "map kf_scene_number (sel_keyframes sel) = map (\<lambda>i. nat (i + 1)) (map snd (zip [0..<10] ixs))"
    by (simp add: sel build_keyframe_def case_prod_beta)
  then have numbers: "map kf_scene_number (sel_keyframes sel) = map (\<lambda>i. nat (i + 1)) ixs" using len by simp
  show "sorted_wrt (<) (map kf_scene_number (sel_keyframes sel))"
    unfolding numbers sorted_wrt_map using spread(2,3) by (auto elim!: sorted_wrt_mono_rel [rotated])
  show "\<forall>k \<in> set (sel_keyframes sel). keyframe_ok d k"
  proof
    fix k
    assume "k \<in> set (sel_keyframes sel)"
    then obtain j i where i: "i \<in> set ixs" and k: "k = build_keyframe env pid j (detect_scene_centers c checksum d ! nat i) (nat (i + 1))
        (confidence_for c checksum i)"
      by (auto simp: sel dest: set_zip_rightD)
    from subsetD [OF spread(3) i] have "nat i < 14" "0 \<le> i" unfolding atLeastAtMost_iff by linarith+
    with scene_centers_range(2) [OF d, of "nat i" c checksum] confidence_range [of c checksum i]
    show "keyframe_ok d k" unfolding k by (intro build_keyframe_ok) auto
  qed
  show "0 \<le> sel_scene_diversity sel \<and> sel_scene_diversity sel \<le> 1"
    by (simp add: sel_def scene_aware_selection_def Let_def diversity_range)
qed

lemma uniform_ok:
  fixes env pid d
  defines "sel \<equiv> uniform_selection env d pid"
  assumes d: "1 \<le> d"
  shows "map kf_index (sel_keyframes sel) = [0..<10]" "sorted_wrt (<) (map kf_scene_number (sel_keyframes sel))"
    "\<forall>k \<in> set (sel_keyframes sel). keyframe_ok d k" "0 \<le> sel_scene_diversity sel \<and> sel_scene_diversity sel \<le> 1"
proof -
  define w where "w = max (rat_of_int d / 10) (1 / 10)"
  define t where "t = (\<lambda>k. py_round 3 (min (w * rat_of_nat k + w / 2) (max (of_int d - 1 / 100) 0)))"
  have sel: "sel_keyframes sel = map (\<lambda>k. build_keyframe env pid k (t k) (k + 1) (55 / 100)) [0..<10]"
    by (simp add: sel_def uniform_selection_def Let_def TARGET_KEYFRAME_COUNT_def t_def w_def del: upt_Suc)
  show "map kf_index (sel_keyframes sel) = [0..<10]" by (simp add: sel build_keyframe_def comp_def)
  show "sorted_wrt (<) (map kf_scene_number (sel_keyframes sel))" by (simp add: sel build_keyframe_def comp_def sorted_wrt_map)
  have w: "0 < w" by (simp add: w_def less_max_iff_disj)
  have "0 \<le> t k \<and> t k \<le> of_int d" for k
  proof -
    have "0 \<le> w * rat_of_nat k" using w by simp
    with w d show ?thesis unfolding t_def by (intro py_round_range) auto
  qed
  then show "\<forall>k \<in> set (sel_keyframes sel). keyframe_ok d k"
    by (auto simp: sel intro!: build_keyframe_ok)
  show "0 \<le> sel_scene_diversity sel \<and> sel_scene_diversity sel \<le> 1"
    by (simp add: sel_def uniform_selection_def Let_def diversity_range)
qed

text \<open>
  A preview shows ten keyframes of the video. Scene-aware or uniform, they are numbered from 0 to 9,
  come from different scenes in ascending order, lie between the start and the end of the video, and carry
  confidences between 0.55 and 0.95; the diversity is a fraction.
\<close>

theorem keyframes_within_video:
  assumes "1 \<le> duration"
  shows "map kf_index (sel_keyframes (select_keyframes c env fits checksum duration pid)) = [0..<10] \<and>
    sorted_wrt (<) (map kf_scene_number (sel_keyframes (select_keyframes c env fits checksum duration pid))) \<and>
    (\<forall>k \<in> set (sel_keyframes (select_keyframes c env fits checksum duration pid)). keyframe_ok duration k) \<and>
    0 \<le> sel_scene_diversity (select_keyframes c env fits checksum duration pid) \<and>
    sel_scene_diversity (select_keyframes c env fits checksum duration pid) \<le> 1"
  using scene_aware_ok [OF assms, of c env checksum pid] uniform_ok [OF assms, of env pid]
  by (simp add: select_keyframes_def)

theorem keyframes_within_video_witness:
  "map kf_index (sel_keyframes (select_keyframes plain_codec sample_signing_env True ''0123abcd'' 120 ''p1'')) = [0..<10] \<and>
   list_all (keyframe_ok 120) (sel_keyframes (select_keyframes plain_codec sample_signing_env True ''0123abcd'' 120 ''p1''))"
  using keyframes_within_video [of 120 plain_codec sample_signing_env True "''0123abcd''" "''p1''"] by (simp add: list_all_iff)

end
