(* ===== verification/Preview_Store.thy ===== *)
theory Preview_Store
  imports Fingerprint Preview_Selection
begin

text \<open>
  Preview sessions and their in-memory repository (\<open>_MemoryPreviewSessionRepository\<close> of
  \<open>app/db/phase2_store.py\<close>). A preview is reviewed and launched at most once: \<open>claim_launch\<close> is an
  instance of the ledger of \<open>Interfaces\<close>. Dates are timestamps in microseconds.
\<close>

datatype review_status = ReviewPending | ReviewApproved | ReviewRejected
datatype launch_status = NotLaunched | LaunchPending | Launched

record preview =
  prv_id :: string
  prv_upload_id :: string
  prv_owner_user_id :: string
  prv_org_id :: string
  prv_status :: string
  prv_configured_at_snapshot :: string
  prv_fingerprint :: string
  prv_cache_fingerprint :: string
  prv_review :: review_status
  prv_reviewed_at :: "time option"
  prv_launch :: launch_status
  prv_launched_job_id :: "string option"
  prv_external_job_id :: "string option"
  prv_launched_at :: "time option"
  prv_checksum :: string
  prv_cache_key :: string
  prv_job_payload :: jdict
  prv_selection_mode :: string
  prv_scene_diversity :: rat
  prv_keyframe_count :: int
  prv_cost_summary :: jdict
  prv_processing_seconds :: int
  prv_keyframes :: "keyframe list"
  prv_root_uri :: string
  prv_expires_at :: time
  prv_deleted_at :: "time option"
  prv_created_at :: time
  prv_updated_at :: time

text \<open>The table, and how often the clock has been read.\<close>

record preview_store =
  preview_sessions :: "(string, preview) pydict"
  ps_calls :: nat

definition preview_clock :: "(nat \<Rightarrow> time) \<Rightarrow> (preview_store, time) prog" where
  "preview_clock clock = (\<lambda>s. (Inr (clock (ps_calls s)), s\<lparr>ps_calls := Suc (ps_calls s)\<rparr>))"

definition put_preview :: "string \<Rightarrow> preview \<Rightarrow> preview_store \<Rightarrow> preview_store" where
  "put_preview pid p s = s\<lparr>preview_sessions := dset pid p (preview_sessions s)\<rparr>"

section \<open>The operations\<close>

definition create_preview_record :: "(nat \<Rightarrow> time) \<Rightarrow> preview \<Rightarrow> (preview_store, preview) prog" where
  "create_preview_record clock p =
     bindE (preview_clock clock) (\<lambda>created.
     bindE (preview_clock clock) (\<lambda>updated.
     let r = p\<lparr>prv_created_at := created, prv_updated_at := updated\<rparr> in
     bindE (modifyE (put_preview (prv_id p) r)) (\<lambda>_. ret r)))"

definition get_preview_record :: "string \<Rightarrow> string \<Rightarrow> (preview_store, preview option) prog" where
  "get_preview_record pid owner = getsE (\<lambda>s.
     case dget (preview_sessions s) pid of
       None \<Rightarrow> None
     | Some p \<Rightarrow> if owner \<noteq> [] \<and> prv_owner_user_id p \<noteq> owner then None else Some p)"

definition effective_cache_fingerprint :: "codec \<Rightarrow> preview \<Rightarrow> string option result" where
  "effective_cache_fingerprint c p =
     (if prv_cache_fingerprint p \<noteq> [] then Inr (Some (prv_cache_fingerprint p))
      else preview_configuration_cache_fingerprint c (prv_job_payload p))"

fun first_with_fingerprint :: "codec \<Rightarrow> string \<Rightarrow> preview list \<Rightarrow> preview option result" where
  "first_with_fingerprint c fp [] = Inr None"
| "first_with_fingerprint c fp (p # ps) =
     bind_res (effective_cache_fingerprint c p) (\<lambda>eff.
     if eff = Some fp then Inr (Some p) else first_with_fingerprint c fp ps)"

text \<open>Candidates are tried newest first; those of the same age in the order of the table.\<close>

definition newest_first :: "preview list \<Rightarrow> preview list" where
  "newest_first ps = rev (sort_key prv_created_at (rev ps))"

definition get_reusable_preview :: "codec \<Rightarrow> string \<Rightarrow> string \<Rightarrow> string \<Rightarrow> (preview_store, preview option) prog" where
  "get_reusable_preview c checksum fp owner =
     bindE (getsE (\<lambda>s. newest_first (filter (\<lambda>p. prv_owner_user_id p = owner \<and> prv_checksum p = checksum \<and>
       prv_deleted_at p = None \<and> prv_status p = ''ready'') (map snd (preview_sessions s))))) (\<lambda>candidates.
     liftR (first_with_fingerprint c fp candidates))"

definition owned_preview :: "string \<Rightarrow> string \<Rightarrow> preview_store \<Rightarrow> preview option" where
  "owned_preview pid owner s =
     (case dget (preview_sessions s) pid of
        None \<Rightarrow> None
      | Some p \<Rightarrow> if prv_owner_user_id p = owner then Some p else None)"

definition update_preview ::
  "(nat \<Rightarrow> time) \<Rightarrow> string \<Rightarrow> string \<Rightarrow> (preview \<Rightarrow> preview) \<Rightarrow> (preview_store, preview option) prog" where
  "update_preview clock pid owner patch =
     bindE (getsE (owned_preview pid owner)) (\<lambda>found.
     case found of
       None \<Rightarrow> ret None
     | Some p \<Rightarrow>
         bindE (preview_clock clock) (\<lambda>now.
         let r = (patch p)\<lparr>prv_updated_at := now\<rparr> in
         bindE (modifyE (put_preview pid r)) (\<lambda>_. ret (Some r))))"

definition claim_launch :: "(nat \<Rightarrow> time) \<Rightarrow> string \<Rightarrow> string \<Rightarrow> string \<Rightarrow> (preview_store, preview option) prog" where
  "claim_launch clock pid owner external =
     bindE (getsE (owned_preview pid owner)) (\<lambda>found.
     case found of
       None \<Rightarrow> ret None
     | Some p \<Rightarrow>
         if prv_launch p \<noteq> NotLaunched then ret None
         else
           bindE (preview_clock clock) (\<lambda>now.
           let r = p\<lparr>prv_launch := LaunchPending, prv_external_job_id := Some external, prv_updated_at := now\<rparr> in
           bindE (modifyE (put_preview pid r)) (\<lambda>_. ret (Some r))))"

text \<open>How many launches are pending, and for how many microseconds the oldest has been.\<close>

definition launch_pending_metrics :: "time \<Rightarrow> preview list \<Rightarrow> nat \<times> time" where
  "launch_pending_metrics now ps =
     (let pending = filter (\<lambda>p. prv_launch p = LaunchPending) ps
      in (length pending, foldl (\<lambda>oldest p. max oldest (max (now - prv_updated_at p) 0)) 0 pending))"

definition launch_pending_snapshot :: "(nat \<Rightarrow> time) \<Rightarrow> string \<Rightarrow> (preview_store, nat \<times> time) prog" where
  "launch_pending_snapshot clock owner =
     bindE (getsE (\<lambda>s. filter (\<lambda>p. prv_owner_user_id p = owner) (map snd (preview_sessions s)))) (\<lambda>ps.
     bindE (preview_clock clock) (\<lambda>now. ret (launch_pending_metrics now ps)))"

section \<open>How they act on the table\<close>

lemma put_preview_simps [simp]:
  "dget (preview_sessions (put_preview pid p s)) q = (if q = pid then Some p else dget (preview_sessions s) q)"
  "ps_calls (put_preview pid p s) = ps_calls s"
  by (simp_all add: put_preview_def)

interpretation preview_table: keyed_store "\<lambda>s pid. dget (preview_sessions s) pid" put_preview
  by unfold_locales simp

lemma wp_preview_clock [wp_simps]:
  "wp (preview_clock clock) Q E s = Q (clock (ps_calls s)) (s\<lparr>ps_calls := Suc (ps_calls s)\<rparr>)"
  by (simp add: wp_def preview_clock_def)

lemma owned_preview_Some: "owned_preview pid owner s = Some p \<longleftrightarrow> dget (preview_sessions s) pid = Some p \<and> prv_owner_user_id p = owner"
  by (auto simp: owned_preview_def split: option.splits)

lemma owned_preview_calls [simp]: "owned_preview pid owner (s\<lparr>ps_calls := n\<rparr>) = owned_preview pid owner s"
  by (simp add: owned_preview_def)

lemma wp_update_preview:
  "wp (update_preview clock pid owner f) Q E s =
     (case owned_preview pid owner s of
        None \<Rightarrow> Q None s
      | Some p \<Rightarrow> (let r = (f p)\<lparr>prv_updated_at := clock (ps_calls s)\<rparr>
                  in Q (Some r) (put_preview pid r (s\<lparr>ps_calls := Suc (ps_calls s)\<rparr>))))"
  by (simp add: update_preview_def wp_simps Let_def split: option.splits)

lemma wp_claim_launch:
  "wp (claim_launch clock pid owner x) Q E s =
     (case owned_preview pid owner s of
        None \<Rightarrow> Q None s
      | Some p \<Rightarrow>
          if prv_launch p \<noteq> NotLaunched then Q None s
          else (let r = p\<lparr>prv_launch := LaunchPending, prv_external_job_id := Some x, prv_updated_at := clock (ps_calls s)\<rparr>
                in Q (Some r) (put_preview pid r (s\<lparr>ps_calls := Suc (ps_calls s)\<rparr>))))"
  by (simp add: claim_launch_def wp_simps Let_def split: option.splits)

section \<open>A preview is claimed once\<close>

text \<open>What a request learns from a claim, and how it ends one: by launching, or by giving the claim back.\<close>

definition claim_step :: "(nat \<Rightarrow> time) \<Rightarrow> string \<Rightarrow> string \<Rightarrow> string \<Rightarrow> preview_store \<Rightarrow> bool \<times> preview_store" where
  "claim_step clock owner pid external s =
     (case claim_launch clock pid owner external s of
        (Inr (Some p), t) \<Rightarrow> (True, t)
      | (_, t) \<Rightarrow> (False, t))"

definition launched_patch :: "string \<Rightarrow> string \<Rightarrow> time option \<Rightarrow> preview \<Rightarrow> preview" where
  "launched_patch internal external launched_at p =
     p\<lparr>prv_launch := Launched, prv_launched_job_id := Some internal, prv_external_job_id := Some external,
       prv_launched_at := launched_at\<rparr>"

definition released_patch :: "preview \<Rightarrow> preview" where
  "released_patch p = p\<lparr>prv_launch := NotLaunched, prv_launched_job_id := None, prv_external_job_id := None, prv_launched_at := None\<rparr>"

definition settle_step :: "(nat \<Rightarrow> time) \<Rightarrow> string \<Rightarrow> string \<Rightarrow> string \<times> time \<Rightarrow> preview_store \<Rightarrow> preview_store" where
  "settle_step clock owner pid d s = snd (update_preview clock pid owner (launched_patch (fst d) (fst d) (Some (snd d))) s)"

definition release_step :: "(nat \<Rightarrow> time) \<Rightarrow> string \<Rightarrow> string \<Rightarrow> string \<times> time \<Rightarrow> preview_store \<Rightarrow> preview_store" where
  "release_step clock owner pid d s = snd (update_preview clock pid owner released_patch s)"

definition claimable_preview :: "string \<Rightarrow> preview_store \<Rightarrow> string \<Rightarrow> bool" where
  "claimable_preview owner s pid \<longleftrightarrow> (\<exists>p. owned_preview pid owner s = Some p \<and> prv_launch p = NotLaunched)"

lemma update_preview_run:
  "snd (update_preview clock pid owner f s) =
     (case owned_preview pid owner s of
        None \<Rightarrow> s
      | Some p \<Rightarrow> put_preview pid ((f p)\<lparr>prv_updated_at := clock (ps_calls s)\<rparr>) (s\<lparr>ps_calls := Suc (ps_calls s)\<rparr>))"
  by (simp add: update_preview_def prog_defs preview_clock_def Let_def split: option.splits)

lemma claim_step_run:
  "claim_step clock owner pid x s =
     (case owned_preview pid owner s of
        None \<Rightarrow> (False, s)
      | Some p \<Rightarrow>
          if prv_launch p \<noteq> NotLaunched then (False, s)
          else (True, put_preview pid (p\<lparr>prv_launch := LaunchPending, prv_external_job_id := Some x,
            prv_updated_at := clock (ps_calls s)\<rparr>) (s\<lparr>ps_calls := Suc (ps_calls s)\<rparr>)))"
  by (simp add: claim_step_def claim_launch_def prog_defs preview_clock_def Let_def split: option.splits)

lemma claimable_preview_put:
  "claimable_preview owner (put_preview pid r s) q \<longleftrightarrow>
     (if q = pid then prv_owner_user_id r = owner \<and> prv_launch r = NotLaunched else claimable_preview owner s q)"
  by (simp add: claimable_preview_def owned_preview_def)

lemma claimable_preview_calls [simp]: "claimable_preview owner (s\<lparr>ps_calls := n\<rparr>) q = claimable_preview owner s q"
  by (simp add: claimable_preview_def)

interpretation preview_ledger: event_ledger "claimable_preview owner" "claim_step clock owner" "settle_step clock owner" "release_step clock owner"
  for owner clock
proof
  show "fst (claim_step clock owner pid x s) = claimable_preview owner s pid" for pid x s
    by (simp add: claim_step_run claimable_preview_def split: option.split)
  show "claimable_preview owner (snd (claim_step clock owner pid x s)) q = (claimable_preview owner s q \<and> q \<noteq> pid)" for pid x s q
    by (cases "owned_preview pid owner s")
      (auto simp: claim_step_run claimable_preview_put, auto simp: claimable_preview_def)
  show "claimable_preview owner (settle_step clock owner pid d s) q \<Longrightarrow> claimable_preview owner s q" for pid d s q
    by (cases "owned_preview pid owner s")
      (simp_all add: settle_step_def update_preview_run claimable_preview_put launched_patch_def split: if_splits)
  show "claimable_preview owner (release_step clock owner pid d s) q \<Longrightarrow> q = pid \<or> claimable_preview owner s q" for pid d s q
    by (cases "owned_preview pid owner s")
      (simp_all add: release_step_def update_preview_run claimable_preview_put split: if_splits)
qed

text \<open>
  C37: However claims, launches and withdrawn claims of one user's requests follow one another, a preview is
  granted at most once, and once more for each claim that was given back.
\<close>

theorem preview_claimed_once:
  "count_list (ledger_grants (claim_step clock owner) (settle_step clock owner) (release_step clock owner) ops s) pid
     \<le> 1 + fails_of pid ops"
  using preview_ledger.granted_once_per_failure [of clock owner ops s pid] by (simp split: if_splits)

end
