(* ===== verification/Callouts.thy ===== *)
theory Callouts
  imports Job_Store
begin

text \<open>
  \<open>app/services/uncertainty_callouts.py\<close>: the warnings a user sees with a finished job, one for an era
  that was detected with little confidence and one for each metric of a segment that passed narrowly.
\<close>

record callout_text =
  tx_code :: string
  tx_title :: string
  tx_message :: string
  tx_metric_key :: string

record callout =
  callout_id :: string
  co_text :: callout_text
  co_segment_index :: "int option"
  co_start :: rat
  co_end :: rat

text \<open>\<open>severity\<close> is always a warning, and \<open>scope\<close> says whether a segment is named.\<close>

definition callout_scope :: "callout \<Rightarrow> string" where
  "callout_scope c = (if co_segment_index c = None then ''global'' else ''segment'')"

definition SEGMENT_CALLOUT_MAP :: "(string, callout_text) pydict" where
  "SEGMENT_CALLOUT_MAP =
     [(''texture_energy_margin_low'',
        \<lparr>tx_code = ''texture_loss_risk'', tx_title = ''Texture loss risk'',
          tx_message = ''Texture-energy metrics are close to the acceptance threshold for this segment.'',
          tx_metric_key = ''e_hf''\<rparr>),
      (''spectral_slope_margin_low'',
        \<lparr>tx_code = ''spectral_boundary_risk'', tx_title = ''Spectral boundary risk'',
          tx_message = ''Spectral balance is close to the acceptance threshold for this segment.'',
          tx_metric_key = ''s_ls_db''\<rparr>),
      (''temporal_coherence_margin_low'',
        \<lparr>tx_code = ''temporal_coherence_risk'', tx_title = ''Temporal coherence risk'',
          tx_message = ''Temporal coherence is close to the acceptance threshold for this segment.'',
          tx_metric_key = ''t_tc''\<rparr>)]"

definition non_negative_seconds :: "int \<Rightarrow> rat" where
  "non_negative_seconds raw = max (of_int raw) 0"

definition normalized_confidence :: "(string \<Rightarrow> rat option) \<Rightarrow> json \<Rightarrow> rat option" where
  "normalized_confidence rd raw =
     (case to_pyfloat rd raw of Inr (Fin v) \<Rightarrow> if 0 \<le> v \<and> v \<le> 1 then Some v else None | _ \<Rightarrow> None)"

section \<open>The era\<close>

text \<open>\<open>str(snapshot.get("era") or era_profile.get("capture_medium") or "the current media")\<close>\<close>

definition detected_era :: "codec \<Rightarrow> job \<Rightarrow> jdict \<Rightarrow> string result" where
  "detected_era c j era =
     bind_res (obj_or_empty (config j)) (\<lambda>cfg.
     bind_res (obj_or_empty (jget cfg ''detection_snapshot'')) (\<lambda>snap.
     Inr (py_str c (jor (jget snap ''era'') (jor (jget era ''capture_medium'') (JStr ''the current media''))))))"

definition global_message :: "bool \<Rightarrow> rat option \<Rightarrow> string \<Rightarrow> string" where
  "global_message manual confidence era =
     (if manual then ''Era detection required manual confirmation. Review the restored output carefully.''
      else if confidence = None
      then ''Era detection confidence for '' @ era @ '' could not be validated. Review the restored output carefully.''
      else ''Era detection confidence for '' @ era @ '' remained below 0.70. Review the restored output carefully.'')"

definition global_detection_callout ::
  "codec \<Rightarrow> (string \<Rightarrow> rat option) \<Rightarrow> job \<Rightarrow> callout option result" where
  "global_detection_callout c rd j =
     bind_res (obj_or_empty (era_profile j)) (\<lambda>era.
     let confidence = jget era ''gemini_confidence'';
         manual = truthy (jget era ''manual_confirmation_required'');
         v = normalized_confidence rd confidence;
         low = (confidence \<noteq> JNull \<and> (case v of None \<Rightarrow> True | Some x \<Rightarrow> x < 70 / 100)) in
     if \<not> manual \<and> \<not> low then Inr None
     else
       bind_res (detected_era c j era) (\<lambda>name.
       Inr (Some \<lparr>callout_id = job_id j @ '':global:low-confidence-era'',
         co_text = \<lparr>tx_code = ''low_confidence_era_classification'', tx_title = ''Low-confidence era classification'',
           tx_message = global_message manual v name, tx_metric_key = ''gemini_confidence''\<rparr>,
         co_segment_index = None, co_start = 0, co_end = non_negative_seconds (estimated_duration_seconds j)\<rparr>)))"

section \<open>The segments\<close>

definition segment_callout_id :: "string \<Rightarrow> int \<Rightarrow> string \<Rightarrow> string" where
  "segment_callout_id jid i code = jid @ '':segment:'' @ dec_int i @ '':'' @ code"

fun segment_callouts_from :: "string \<Rightarrow> segment \<Rightarrow> string list \<Rightarrow> string list \<Rightarrow> callout list" where
  "segment_callouts_from jid sg seen [] = []"
| "segment_callouts_from jid sg seen (slug # slugs) =
     (case dget SEGMENT_CALLOUT_MAP slug of
        None \<Rightarrow> segment_callouts_from jid sg seen slugs
      | Some mapped \<Rightarrow>
          (let cid = segment_callout_id jid (sg_index sg) (tx_code mapped) in
           if cid \<in> set seen then segment_callouts_from jid sg seen slugs
           else \<lparr>callout_id = cid, co_text = mapped, co_segment_index = Some (sg_index sg),
                  co_start = non_negative_seconds (sg_start_seconds sg), co_end = non_negative_seconds (sg_end_seconds sg)\<rparr>
                # segment_callouts_from jid sg (cid # seen) slugs))"

definition segment_callouts :: "string \<Rightarrow> segment \<Rightarrow> callout list" where
  "segment_callouts jid sg = segment_callouts_from jid sg [] (uncertainty_callouts sg)"

definition build_callouts ::
  "codec \<Rightarrow> (string \<Rightarrow> rat option) \<Rightarrow> job \<Rightarrow> segment list \<Rightarrow> callout list result" where
  "build_callouts c rd j segs =
     bind_res (global_detection_callout c rd j) (\<lambda>g.
     Inr ((case g of None \<Rightarrow> [] | Some x \<Rightarrow> [x]) @ concat (map (segment_callouts (job_id j)) (sort_key sg_index segs))))"

record callouts_view =
  cv_job_id :: string
  cv_status :: job_status
  cv_callouts :: "callout list"

definition list_callouts ::
  "codec \<Rightarrow> (string \<Rightarrow> rat option) \<Rightarrow> string \<Rightarrow> string \<Rightarrow> (job_store, callouts_view) prog" where
  "list_callouts c rd jid owner =
     bindE (get_job jid (Some owner)) (\<lambda>found.
     case found of
       None \<Rightarrow> raise (ProblemException ''Not Found'' 404)
     | Some j \<Rightarrow>
         bindE (list_segments jid (Some owner)) (\<lambda>segs.
         bindE (liftR (build_callouts c rd j segs)) (\<lambda>cs.
         ret \<lparr>cv_job_id = jid, cv_status = job_status j, cv_callouts = cs\<rparr>)))"

text \<open>A callout as the text that is hashed into a package has it: \<open>json.dumps\<close> with sorted keys.\<close>

definition callout_json :: "callout \<Rightarrow> json" where
  "callout_json c =
     JObj [(''callout_id'', JStr (callout_id c)), (''code'', JStr (tx_code (co_text c))),
       (''message'', JStr (tx_message (co_text c))), (''scope'', JStr (callout_scope c)),
       (''severity'', JStr ''warning''),
       (''source'', JObj ((''metric_key'', JStr (tx_metric_key (co_text c))) #
          (case co_segment_index c of None \<Rightarrow> [] | Some i \<Rightarrow> [(''segment_index'', JInt i)]))),
       (''time_range_seconds'', JObj [(''end'', JFloat (co_end c)), (''start'', JFloat (co_start c))]),
       (''title'', JStr (tx_title (co_text c)))]"

section \<open>Every warning once\<close>

lemma dec_no_colon: "CHR '':'' \<notin> set (dec n)"
proof (induction n rule: dec.induct)
  case (1 n)
  have d: "CHR '':'' \<noteq> digit_char k" if "k < 10" for k
  proof
    assume "CHR '':'' = digit_char k"
    then have "of_char (CHR '':'') = (of_char (digit_char k) :: nat)" by simp
    with that show False by (simp add: digit_char_def of_char_of)
  qed
  show ?case
  proof (cases "n < 10")
    case True
    then show ?thesis by (subst dec.simps) (simp add: d)
  next
    case False
    with 1 show ?thesis by (subst dec.simps) (auto simp: d)
  qed
qed

lemma dec_not_minus: "dec n \<noteq> CHR ''-'' # xs"
proof
  assume e: "dec n = CHR ''-'' # xs"
  have "hd (dec n) \<noteq> CHR ''-''"
  proof (induction n rule: dec.induct)
    case (1 n)
    have d: "digit_char k \<noteq> CHR ''-''" if "k < 10" for k
    proof
      assume "digit_char k = CHR ''-''"
      then have "(of_char (digit_char k) :: nat) = of_char (CHR ''-'')" by simp
      with that show False by (simp add: digit_char_def of_char_of)
    qed
    have ne: "dec (n div 10) \<noteq> []" by (subst dec.simps) simp
    show ?case
    proof (cases "n < 10")
      case True
      then show ?thesis by (subst dec.simps) (simp add: d)
    next
      case False
      with 1 ne show ?thesis by (subst dec.simps) simp
    qed
  qed
  with e show False by simp
qed

lemma dec_int_inject [simp]: "dec_int i = dec_int k \<longleftrightarrow> i = k"
  using dec_not_minus [of "nat i"] dec_not_minus [of "nat k"] unfolding dec_int_def
  by (metis dec_inject list.inject neg_equal_iff_equal linorder_not_less nat_eq_iff2 nat_0_le neg_0_le_iff_le order_less_imp_le)

lemma dec_int_no_colon: "CHR '':'' \<notin> set (dec_int i)"
  by (simp add: dec_int_def dec_no_colon)

lemma segment_callout_id_inject:
  "segment_callout_id jid i a = segment_callout_id jid k b \<longleftrightarrow> i = k \<and> a = b"
proof
  assume e: "segment_callout_id jid i a = segment_callout_id jid k b"
  then have "dec_int i @ '':'' @ a = dec_int k @ '':'' @ b" by (simp add: segment_callout_id_def)
  then have "takeWhile (\<lambda>ch. ch \<noteq> CHR '':'') (dec_int i @ '':'' @ a) = takeWhile (\<lambda>ch. ch \<noteq> CHR '':'') (dec_int k @ '':'' @ b)"
    by simp
  moreover have "takeWhile (\<lambda>ch. ch \<noteq> CHR '':'') (dec_int n @ '':'' @ x) = dec_int n" for n x
    using dec_int_no_colon [of n] by (subst takeWhile_append2) auto
  ultimately have "i = k" by simp
  with e show "i = k \<and> a = b" by (simp add: segment_callout_id_def)
qed simp

lemma global_id_apart: "jid @ '':global:low-confidence-era'' \<noteq> segment_callout_id jid i code"
  by (simp add: segment_callout_id_def)

lemma segment_callouts_from_ids:
  "distinct (map callout_id (segment_callouts_from jid sg seen slugs)) \<and>
   set (map callout_id (segment_callouts_from jid sg seen slugs)) \<inter> set seen = {}"
  by (induction jid sg seen slugs rule: segment_callouts_from.induct) (auto simp: Let_def split: option.splits)

lemma segment_callouts_from_member:
  "x \<in> set (segment_callouts_from jid sg seen slugs) \<Longrightarrow>
   co_segment_index x = Some (sg_index sg) \<and> callout_id x = segment_callout_id jid (sg_index sg) (tx_code (co_text x)) \<and>
   co_start x = non_negative_seconds (sg_start_seconds sg) \<and> co_end x = non_negative_seconds (sg_end_seconds sg) \<and>
   (\<exists>slug \<in> set slugs. dget SEGMENT_CALLOUT_MAP slug = Some (co_text x))"
  by (induction jid sg seen slugs rule: segment_callouts_from.induct) (auto simp: Let_def split: option.splits if_splits)

lemma segment_callouts_from_complete:
  "slug \<in> set slugs \<Longrightarrow> dget SEGMENT_CALLOUT_MAP slug = Some m \<Longrightarrow>
   segment_callout_id jid (sg_index sg) (tx_code m) \<in> set seen \<union> callout_id ` set (segment_callouts_from jid sg seen slugs)"
  by (induction jid sg seen slugs rule: segment_callouts_from.induct) (auto simp: Let_def split: option.splits)

lemma segment_callouts_codes:
  "tx_code ` co_text ` set (segment_callouts jid sg) =
   {tx_code m | slug m. slug \<in> set (uncertainty_callouts sg) \<and> dget SEGMENT_CALLOUT_MAP slug = Some m}"
proof (intro equalityI subsetI)
  fix code
  assume "code \<in> {tx_code m | slug m. slug \<in> set (uncertainty_callouts sg) \<and> dget SEGMENT_CALLOUT_MAP slug = Some m}"
  then obtain slug m where m: "slug \<in> set (uncertainty_callouts sg)" "dget SEGMENT_CALLOUT_MAP slug = Some m" "code = tx_code m"
    by auto
  from segment_callouts_from_complete [OF m(1,2), of jid sg "[]"] obtain x where
    x: "x \<in> set (segment_callouts jid sg)" "callout_id x = segment_callout_id jid (sg_index sg) (tx_code m)"
    by (auto simp: segment_callouts_def)
  from segment_callouts_from_member [OF x(1) [unfolded segment_callouts_def]] x(2) m(3)
  have "code = tx_code (co_text x)" by (simp add: segment_callout_id_inject)
  with x(1) show "code \<in> tx_code ` co_text ` set (segment_callouts jid sg)" by blast
qed (force simp: segment_callouts_def dest!: segment_callouts_from_member)

lemma segments_callouts_distinct:
  "distinct (map sg_index segs) \<Longrightarrow> distinct (map callout_id (concat (map (segment_callouts jid) segs)))"
proof (induction segs)
  case (Cons sg segs)
  have "callout_id x \<noteq> callout_id y" if "x \<in> set (segment_callouts jid sg)" "t \<in> set segs" "y \<in> set (segment_callouts jid t)" for x y t
  proof -
    have "sg_index sg \<noteq> sg_index t" using Cons.prems that(2) by auto
    then show ?thesis
      using segment_callouts_from_member [OF that(1) [unfolded segment_callouts_def]]
        segment_callouts_from_member [OF that(3) [unfolded segment_callouts_def]]
      by (simp add: segment_callout_id_inject)
  qed
  then have "set (map callout_id (segment_callouts jid sg)) \<inter>
      set (map callout_id (concat (map (segment_callouts jid) segs))) = {}" by auto
  moreover have "distinct (map callout_id (segment_callouts jid sg))"
    unfolding segment_callouts_def by (rule conjunct1 [OF segment_callouts_from_ids])
  moreover have "distinct (map callout_id (concat (map (segment_callouts jid) segs)))" using Cons by simp
  ultimately show ?case by (simp only: list.map concat.simps map_append distinct_append)
qed simp

lemma global_callout_shape:
  "global_detection_callout c rd j = Inr (Some x) \<Longrightarrow>
   callout_id x = job_id j @ '':global:low-confidence-era'' \<and> co_segment_index x = None \<and>
   tx_code (co_text x) = ''low_confidence_era_classification''"
  by (auto simp: global_detection_callout_def bind_res_Inr_iff Let_def split: if_splits)

lemma global_callout_iff:
  "global_detection_callout c rd j = Inr g \<Longrightarrow>
   (g \<noteq> None) \<longleftrightarrow> (\<exists>era. obj_or_empty (era_profile j) = Inr era \<and>
      (truthy (jget era ''manual_confirmation_required'') \<or>
       jget era ''gemini_confidence'' \<noteq> JNull \<and>
       (\<forall>v. normalized_confidence rd (jget era ''gemini_confidence'') = Some v \<longrightarrow> v < 70 / 100)))"
  by (cases "normalized_confidence rd (jget (projr (obj_or_empty (era_profile j))) ''gemini_confidence'')")
    (auto simp: global_detection_callout_def bind_res_Inr_iff Let_def split: if_splits)

lemma segment_indexes_sorted:
  "sorted (map sg_index segs) \<Longrightarrow>
   sorted (map (the \<circ> co_segment_index) (concat (map (segment_callouts jid) segs)))"
proof (induction segs)
  case (Cons sg segs)
  have here: "co_segment_index x = Some (sg_index t)" if "x \<in> set (segment_callouts jid t)" for x t
    using segment_callouts_from_member [of x jid t "[]" "uncertainty_callouts t"] that by (simp add: segment_callouts_def)
  have "map (the \<circ> co_segment_index) (segment_callouts jid sg) = replicate (length (segment_callouts jid sg)) (sg_index sg)"
    by (rule replicate_eqI) (auto simp: here)
  then have "sorted (map (the \<circ> co_segment_index) (segment_callouts jid sg))" by simp
  moreover have "\<forall>x \<in> set (segment_callouts jid sg). \<forall>y \<in> set (concat (map (segment_callouts jid) segs)).
      the (co_segment_index x) \<le> the (co_segment_index y)"
    using Cons.prems by (fastforce simp: here)
  ultimately show ?case using Cons by (simp add: sorted_append comp_def)
qed simp

text \<open>
  The warnings of a finished job are complete, never repeated and in order. No two have the same
  identifier, each segment has exactly the codes of the margins recorded for it that the code knows, the
  segments follow one another in ascending order, and there is a warning about the era exactly when the era
  needed confirming by hand or its confidence is below 0.70 or no confidence at all.
\<close>

theorem callouts_complete_and_distinct:
  assumes "build_callouts c rd j segs = Inr cs" "distinct (map sg_index segs)"
  shows "distinct (map callout_id cs) \<and>
    (\<forall>s \<in> set segs. {tx_code (co_text x) | x. x \<in> set cs \<and> co_segment_index x = Some (sg_index s)} =
       {tx_code m | slug m. slug \<in> set (uncertainty_callouts s) \<and> dget SEGMENT_CALLOUT_MAP slug = Some m}) \<and>
    sorted (map the (filter (\<lambda>i. i \<noteq> None) (map co_segment_index cs))) \<and>
    ((\<exists>x \<in> set cs. co_segment_index x = None) \<longleftrightarrow> (\<exists>era. obj_or_empty (era_profile j) = Inr era \<and>
      (truthy (jget era ''manual_confirmation_required'') \<or>
       jget era ''gemini_confidence'' \<noteq> JNull \<and>
       (\<forall>v. normalized_confidence rd (jget era ''gemini_confidence'') = Some v \<longrightarrow> v < 70 / 100))))"
proof -
  define ss where "ss = concat (map (segment_callouts (job_id j)) (sort_key sg_index segs))"
  obtain g where g: "global_detection_callout c rd j = Inr g" and cs: "cs = (case g of None \<Rightarrow> [] | Some x \<Rightarrow> [x]) @ ss"
    using assms(1) by (auto simp: build_callouts_def ss_def bind_res_Inr_iff)
  have gx: "callout_id x = job_id j @ '':global:low-confidence-era'' \<and> co_segment_index x = None" if "g = Some x" for x
    using global_callout_shape g that by blast
  have mem: "co_segment_index x = Some (sg_index t) \<and> callout_id x = segment_callout_id (job_id j) (sg_index t) (tx_code (co_text x))"
    if "x \<in> set (segment_callouts (job_id j) t)" for x t
    using segment_callouts_from_member [of x "job_id j" t "[]" "uncertainty_callouts t"] that by (simp add: segment_callouts_def)
  have set_ss: "set ss = (\<Union>t \<in> set segs. set (segment_callouts (job_id j) t))" by (simp add: ss_def)
  have "distinct (map sg_index (sort_key sg_index segs))"
    using assms(2) by (metis distinct_map distinct_sort set_sort)
  then have d: "distinct (map callout_id ss)" unfolding ss_def by (rule segments_callouts_distinct)
  have apart: "callout_id x \<notin> callout_id ` set ss" if "g = Some x" for x
  proof
    assume "callout_id x \<in> callout_id ` set ss"
    then obtain t y where "y \<in> set (segment_callouts (job_id j) t)" "callout_id x = callout_id y" by (auto simp: set_ss)
    with mem [of y t] gx [OF that] show False using global_id_apart by metis
  qed
  have "distinct (map callout_id cs)" using d apart by (auto simp: cs split: option.splits)
  moreover have "\<forall>s \<in> set segs. {tx_code (co_text x) | x. x \<in> set cs \<and> co_segment_index x = Some (sg_index s)} =
       {tx_code m | slug m. slug \<in> set (uncertainty_callouts s) \<and> dget SEGMENT_CALLOUT_MAP slug = Some m}"
  proof
    fix s assume s: "s \<in> set segs"
    have "{x \<in> set cs. co_segment_index x = Some (sg_index s)} = set (segment_callouts (job_id j) s)"
      using s mem gx assms(2) by (auto simp: cs set_ss distinct_map inj_on_def split: option.splits; fastforce)
    then have "{tx_code (co_text x) | x. x \<in> set cs \<and> co_segment_index x = Some (sg_index s)} =
        tx_code ` co_text ` set (segment_callouts (job_id j) s)" by blast
    then show "{tx_code (co_text x) | x. x \<in> set cs \<and> co_segment_index x = Some (sg_index s)} =
       {tx_code m | slug m. slug \<in> set (uncertainty_callouts s) \<and> dget SEGMENT_CALLOUT_MAP slug = Some m}"
      by (simp only: segment_callouts_codes)
  qed
  moreover have "map the (filter (\<lambda>i. i \<noteq> None) (map co_segment_index cs)) = map (the \<circ> co_segment_index) ss"
  proof -
    have "filter (\<lambda>i. i \<noteq> None) (map co_segment_index ss) = map co_segment_index ss"
      using mem by (intro filter_True) (fastforce simp: set_ss)
    then show ?thesis using gx by (auto simp: cs split: option.splits)
  qed
  then have "sorted (map the (filter (\<lambda>i. i \<noteq> None) (map co_segment_index cs)))"
    using segment_indexes_sorted [of "sort_key sg_index segs" "job_id j"] by (simp add: ss_def)
  moreover have "(\<exists>x \<in> set cs. co_segment_index x = None) \<longleftrightarrow> g \<noteq> None"
    using mem gx by (fastforce simp: cs set_ss split: option.splits)
  ultimately show ?thesis using global_callout_iff [OF g] by blast
qed

definition doubtful_job :: job where
  "doubtful_job = (projr (fst (create_job 1 2 sample_job_request empty_job_store)))
     \<lparr>era_profile := JObj [(''gemini_confidence'', JFloat (1 / 2))], config := JObj []\<rparr>"

definition narrow_segment :: "int \<Rightarrow> segment" where
  "narrow_segment i = (new_segment 1 \<lparr>sp_index = i, sp_start_seconds = 10 * i, sp_end_seconds = 10 * i + 10,
     sp_duration_seconds = 10, sp_idempotency_key = ''key''\<rparr>)\<lparr>uncertainty_callouts := [''texture_energy_margin_low'', ''other'']\<rparr>"

theorem callouts_complete_and_distinct_witness:
  "\<exists>cs. build_callouts plain_codec (\<lambda>_. None) doubtful_job [narrow_segment 1, narrow_segment 0] = Inr cs \<and> length cs = 3 \<and>
     distinct (map callout_id cs) \<and> sorted (map the (filter (\<lambda>i. i \<noteq> None) (map co_segment_index cs)))"
proof -
  let ?segs = "[narrow_segment 1, narrow_segment 0]"
  have g: "\<exists>x. global_detection_callout plain_codec (\<lambda>_. None) doubtful_job = Inr (Some x)"
    by (simp add: global_detection_callout_def doubtful_job_def normalized_confidence_def detected_era_def jget_def)
  then obtain cs where b: "build_callouts plain_codec (\<lambda>_. None) doubtful_job ?segs = Inr cs" "length cs = 3"
    by (auto simp: build_callouts_def segment_callouts_def narrow_segment_def new_segment_def SEGMENT_CALLOUT_MAP_def
        insort_key_def sort_key_def)
  with callouts_complete_and_distinct [OF b(1)] show ?thesis by (auto simp: narrow_segment_def new_segment_def)
qed

end
