(* ===== verification/Output_Delivery.thy ===== *)
theory Output_Delivery
  imports Callouts Signing Classification
begin

text \<open>
  \<open>OutputDeliveryService\<close> of \<open>app/services/output_delivery.py\<close> with the in-memory tables of packages and
  deletion proofs: what is made when a job has finished, and what its owner can download. The clock and
  \<open>uuid4\<close> are read by position.
\<close>

section \<open>Records\<close>

record output_encoding =
  en_variant :: string
  en_codec :: string
  en_bitrate_mbps :: int
  en_resolution_target :: string

record deletion_proof =
  dp_id :: string
  dp_job_id :: string
  dp_owner_user_id :: string
  dp_generated_at :: time
  dp_signature :: string
  dp_sha256 :: string
  dp_result_uri :: "string option"
  dp_manifest_sha256 :: json
  dp_original_checksum :: string
  dp_pdf_uri :: string
  dp_payload :: jdict
  dp_classification :: classification_record
  dp_created_at :: time
  dp_updated_at :: time

record export_package =
  pk_job_id :: string
  pk_variant :: string
  pk_package_uri :: string
  pk_file_name :: string
  pk_contents :: "string list"
  pk_artifact_metadata :: jdict
  pk_encoding :: output_encoding
  pk_deletion_proof_id :: string
  pk_available_until :: time
  pk_classification :: classification_record
  pk_sha256 :: string
  pk_size_bytes :: int
  pk_owner_user_id :: string
  pk_generated_at :: time
  pk_deleted_at :: "time option"
  pk_created_at :: time
  pk_updated_at :: time

record output_world =
  ow_store :: job_store
  ow_billing :: billing_store
  ow_packages :: "(string, export_package) pydict"
  ow_proofs :: "(string, deletion_proof) pydict"
  ow_audit :: class_audit
  ow_calls :: nat

record output_env =
  od_signing :: signing_env
  od_codec :: codec
  od_read_float :: "string \<Rightarrow> rat option"
  od_billing :: billing_env
  od_clock :: "nat \<Rightarrow> time"
  od_uuid :: "nat \<Rightarrow> string"
  od_stable_uuid :: "string \<Rightarrow> string"

definition EXPORT_VARIANTS :: "string list" where
  "EXPORT_VARIANTS = [''av1'', ''h264'']"

definition exportable :: "job_status \<Rightarrow> bool" where
  "exportable st = (st \<in> {Completed, Partial})"

definition PDF_URL_TTL_HOURS :: int where
  "PDF_URL_TTL_HOURS = 1"

definition on_output_store :: "(job_store, 'a) prog \<Rightarrow> (output_world, 'a) prog" where
  "on_output_store = zoom ow_store (\<lambda>t w. w\<lparr>ow_store := t\<rparr>)"

definition on_output_billing :: "(billing_store, 'a) prog \<Rightarrow> (output_world, 'a) prog" where
  "on_output_billing = zoom ow_billing (\<lambda>t w. w\<lparr>ow_billing := t\<rparr>)"

definition output_call :: "(nat \<Rightarrow> 'a) \<Rightarrow> (output_world, 'a) prog" where
  "output_call f = (\<lambda>w. (Inr (f (ow_calls w)), w\<lparr>ow_calls := Suc (ow_calls w)\<rparr>))"

section \<open>The tables\<close>

definition package_key :: "string \<Rightarrow> string \<Rightarrow> string" where
  "package_key jid variant = jid @ '':'' @ variant"

definition upsert_package :: "output_env \<Rightarrow> export_package \<Rightarrow> (output_world, export_package) prog" where
  "upsert_package env p =
     bindE (output_call (od_clock env)) (\<lambda>created.
     bindE (output_call (od_clock env)) (\<lambda>updated.
     let r = p\<lparr>pk_created_at := created, pk_updated_at := updated\<rparr> in
     bindE (modifyE (\<lambda>w. w\<lparr>ow_packages := dset (package_key (pk_job_id p) (pk_variant p)) r (ow_packages w)\<rparr>)) (\<lambda>_. ret r)))"

definition get_package :: "string \<Rightarrow> string \<Rightarrow> string \<Rightarrow> (output_world, export_package option) prog" where
  "get_package jid variant owner = getsE (\<lambda>w.
     case dget (jobs (ow_store w)) jid of
       None \<Rightarrow> None
     | Some j \<Rightarrow> if owned_by (Some owner) j then dget (ow_packages w) (package_key jid variant) else None)"

definition update_package ::
  "output_env \<Rightarrow> string \<Rightarrow> string \<Rightarrow> (export_package \<Rightarrow> export_package) \<Rightarrow> (output_world, export_package) prog" where
  "update_package env jid variant patch =
     bindE (getsE (\<lambda>w. dget (ow_packages w) (package_key jid variant))) (\<lambda>found.
     case found of
       None \<Rightarrow> raise (KeyError (package_key jid variant))
     | Some p \<Rightarrow>
         bindE (output_call (od_clock env)) (\<lambda>updated.
         let r = (patch p)\<lparr>pk_updated_at := updated\<rparr> in
         bindE (modifyE (\<lambda>w. w\<lparr>ow_packages := dset (package_key jid variant) r (ow_packages w)\<rparr>)) (\<lambda>_. ret r)))"

definition upsert_proof :: "output_env \<Rightarrow> deletion_proof \<Rightarrow> (output_world, deletion_proof) prog" where
  "upsert_proof env p =
     bindE (output_call (od_clock env)) (\<lambda>created.
     bindE (output_call (od_clock env)) (\<lambda>updated.
     let r = p\<lparr>dp_created_at := created, dp_updated_at := updated\<rparr> in
     bindE (modifyE (\<lambda>w. w\<lparr>ow_proofs := dset (dp_id p) r (ow_proofs w)\<rparr>)) (\<lambda>_. ret r)))"

definition get_proof :: "string \<Rightarrow> string \<Rightarrow> (output_world, deletion_proof option) prog" where
  "get_proof pid owner = getsE (\<lambda>w.
     case dget (ow_proofs w) pid of
       None \<Rightarrow> None
     | Some p \<Rightarrow> if owner \<noteq> [] \<and> dp_owner_user_id p \<noteq> owner then None else Some p)"

text \<open>The first proof of the job, in the order in which the proofs were stored.\<close>

definition get_proof_for_job :: "string \<Rightarrow> string \<Rightarrow> (output_world, deletion_proof option) prog" where
  "get_proof_for_job jid owner = getsE (\<lambda>w.
     case filter (\<lambda>p. dp_job_id p = jid \<and> \<not> (owner \<noteq> [] \<and> dp_owner_user_id p \<noteq> owner)) (map snd (ow_proofs w)) of
       [] \<Rightarrow> None
     | p # _ \<Rightarrow> Some p)"

section \<open>What is made of a finished job\<close>

definition bitrate_of_plan :: "string \<Rightarrow> int" where
  "bitrate_of_plan plan = (if plan = ''hobbyist'' then 8 else if plan = ''pro'' then 16 else 32)"

definition resolve_output_encoding :: "billing_env \<Rightarrow> string \<Rightarrow> string \<Rightarrow> (billing_store, output_encoding) prog" where
  "resolve_output_encoding env tier variant =
     (let plan = lower tier in
      if plan \<notin> {''hobbyist'', ''pro'', ''museum''} then raise (ValueError (''Unsupported plan tier for output delivery: '' @ tier))
      else if variant \<notin> set EXPORT_VARIANTS then raise (ValueError (''Unsupported export variant: '' @ variant))
      else
        bindE (resolution_cap_for_plan env tier) (\<lambda>cap.
        ret \<lparr>en_variant = variant, en_codec = (if variant = ''av1'' then ''av1'' else ''h264''),
          en_bitrate_mbps = bitrate_of_plan plan, en_resolution_target = (if cap = ''4k'' then ''4K'' else cap)\<rparr>))"

definition encoding_json :: "output_encoding \<Rightarrow> json" where
  "encoding_json e =
     JObj [(''variant'', JStr (en_variant e)), (''codec'', JStr (en_codec e)), (''container'', JStr ''mp4''),
       (''bitrate_mbps'', JInt (en_bitrate_mbps e)), (''resolution_target'', JStr (en_resolution_target e)),
       (''frame_rate'', JStr ''source_preserved''), (''color_space'', JStr ''bt709_preserved''),
       (''metadata_preservation'', JObj [(''timecode'', JBool True), (''aspect_ratio'', JBool True),
          (''color_primaries'', JBool True), (''source_filename'', JBool True)])]"

definition download_uri :: "output_env \<Rightarrow> string \<Rightarrow> string" where
  "download_uri env path = bucket_uri (or_str (sn_bucket_name (od_signing env)) ''chronos-refine-downloads'') path"

definition payload_sha256 :: "output_env \<Rightarrow> jdict \<Rightarrow> string" where
  "payload_sha256 env p = sha256_hex (od_codec env) (json_dumps_compact (od_codec env) (JObj p))"

definition persistence_fields :: "classification_record \<Rightarrow> jdict" where
  "persistence_fields r =
     [(''classification_label'', JStr (classification_label r)), (''retention_days'', opt_json JInt (cl_retention_days r)),
      (''retention_expires_at'', opt_json (\<lambda>t. JStr (isoformat t)) (cl_retention_expires_at r)),
      (''classification_policy_version'', JStr (policy_version r))]"

definition record_output_event ::
  "output_env \<Rightarrow> classification_record \<Rightarrow> string \<Rightarrow> (string, json) pydict \<Rightarrow> (output_world, unit) prog" where
  "record_output_event env cl event meta =
     bindE (output_call (od_uuid env)) (\<lambda>new_id.
     bindE (output_call (od_clock env)) (\<lambda>now.
     modifyE (\<lambda>w. w\<lparr>ow_audit := record_event new_id now cl event meta (ow_audit w)\<rparr>)))"

definition record_uri_only_classification ::
  "output_env \<Rightarrow> string \<Rightarrow> string \<Rightarrow> string \<Rightarrow> time \<Rightarrow> (output_world, classification_record) prog" where
  "record_uri_only_classification env artifact uri tier anchor =
     bindE (liftR (classify (od_codec env) artifact uri tier anchor None)) (\<lambda>cl.
     bindE (record_output_event env cl ''classification_assigned'' []) (\<lambda>_.
     bindE (record_output_event env cl ''gcs_metadata_patch_skipped'' [(''reason'', JStr ''no_real_gcs_write_path'')]) (\<lambda>_.
     ret cl)))"

definition classification_plan_tier :: "job \<Rightarrow> string" where
  "classification_plan_tier j = or_str (job_plan_tier j) ''hobbyist''"

definition proof_payload :: "job \<Rightarrow> json \<Rightarrow> callout list \<Rightarrow> time \<Rightarrow> jdict" where
  "proof_payload j manifest_sha cs generated_at =
     [(''job_id'', JStr (job_id j)), (''user_id'', JStr (owner_user_id j)), (''generated_at'', JStr (isoformat generated_at)),
      (''source_asset_checksum'', JStr (source_asset_checksum j)), (''result_uri'', opt_json JStr (result_uri j)),
      (''manifest_sha256'', manifest_sha), (''callout_codes'', JList (map (\<lambda>x. JStr (tx_code (co_text x))) cs)),
      (''fidelity_tier'', JStr (job_fidelity_tier j)), (''effective_fidelity_tier'', JStr (effective_fidelity_tier j))]"

definition build_deletion_proof ::
  "output_env \<Rightarrow> job \<Rightarrow> jdict \<Rightarrow> callout list \<Rightarrow> time \<Rightarrow> (output_world, deletion_proof) prog" where
  "build_deletion_proof env j manifest cs generated_at =
     bindE (liftR (jitem manifest ''manifest_sha256'')) (\<lambda>manifest_sha.
     let pid = od_stable_uuid env (''deletion-proof:'' @ job_id j @ '':'' @ py_str (od_codec env) manifest_sha);
         pl = proof_payload j manifest_sha cs generated_at;
         sha = payload_sha256 env pl;
         pdf = download_uri env (''deletion-proofs/'' @ job_id j @ ''/'' @ pid @ ''.pdf'') in
     bindE (liftR (sign_value (od_signing env) (pid @ '':'' @ sha))) (\<lambda>signature.
     bindE (record_uri_only_classification env ARTIFACT_DELETION_PROOF pdf (classification_plan_tier j) generated_at) (\<lambda>cl.
     ret \<lparr>dp_id = pid, dp_job_id = job_id j, dp_owner_user_id = owner_user_id j, dp_generated_at = generated_at,
       dp_signature = signature, dp_sha256 = sha, dp_result_uri = result_uri j, dp_manifest_sha256 = manifest_sha,
       dp_original_checksum = source_asset_checksum j, dp_pdf_uri = pdf, dp_payload = pl, dp_classification = cl,
       dp_created_at = 0, dp_updated_at = 0\<rparr>)))"

text \<open>
  \<open>int(n * 0.82)\<close> in binary floating point. The float 0.82 is \<open>7385903388887613 / 2 ^ 53\<close>; the product
  keeps 53 significant bits, to nearest and ties to even. (\<open>n\<close> itself is below \<open>2 ^ 53\<close>.)
\<close>

fun bit_length :: "nat \<Rightarrow> nat" where
  "bit_length n = (if n = 0 then 0 else Suc (bit_length (n div 2)))"

declare bit_length.simps [simp del]

lemma bit_length_numeral [simp]:
  "bit_length 0 = 0" "bit_length (Suc 0) = 1" "bit_length 1 = 1"
  "bit_length (numeral (num.Bit0 m)) = Suc (bit_length (numeral m))"
  "bit_length (numeral (num.Bit1 m)) = Suc (bit_length (numeral m))"
  by (subst bit_length.simps; simp add: bit_length.simps)+

definition float_times_082 :: "int \<Rightarrow> int" where
  "float_times_082 n =
     (let exact = n * 7385903388887613; k = bit_length (nat exact) - 53; q = exact div 2 ^ k; r = exact mod 2 ^ k;
          rounded = (if 2 * r > 2 ^ k \<or> 2 * r = 2 ^ k \<and> odd q then q + 1 else q)
      in rounded * 2 ^ k div 2 ^ 53)"

text \<open>Five seconds at eight megabits per second: one byte less than 82 per cent.\<close>

lemma float_times_082_example: "float_times_082 5000000 = 5000000 * 82 div 100 - 1"
  by (simp add: float_times_082_def Let_def)

text \<open>Bytes: megabits per second of video, 82 per cent of it for AV1, and a fixed amount for each file.\<close>

definition estimate_package_size :: "int \<Rightarrow> output_encoding \<Rightarrow> string list \<Rightarrow> int" where
  "estimate_package_size duration e contents =
     (let video_bytes = max duration 1 * en_bitrate_mbps e * 125000;
          metadata_bytes = int (length contents) * 3000 + 8192
      in (if en_variant e = ''av1'' then float_times_082 video_bytes else video_bytes) + metadata_bytes)"

definition artifact_metadata :: "output_env \<Rightarrow> job \<Rightarrow> jdict \<Rightarrow> callout list \<Rightarrow> deletion_proof \<Rightarrow> string \<Rightarrow> jdict result" where
  "artifact_metadata env j manifest cs proof variant =
     (let media = job_id j @ ''-'' @ variant @ ''.mp4'' in
      bind_res (jitem manifest ''manifest_uri'') (\<lambda>muri.
      bind_res (jitem manifest ''manifest_sha256'') (\<lambda>msha.
      Inr [(''restored_media'', JObj [(''file_name'', JStr media),
             (''uri'', JStr (or_str (case result_uri j of None \<Rightarrow> [] | Some u \<Rightarrow> u)
                (download_uri env (''jobs/'' @ job_id j @ ''/'' @ media))))]),
           (''transformation_manifest'', JObj [(''file_name'', JStr ''transformation_manifest.json''), (''uri'', muri), (''sha256'', msha)]),
           (''uncertainty_callouts'', JObj [(''file_name'', JStr ''uncertainty_callouts.json''),
             (''sha256'', JStr (sha256_hex (od_codec env) (json_dumps (od_codec env) (JList (map callout_json cs)))))]),
           (''quality_report'', JObj [(''file_name'', JStr ''quality_report.pdf''),
             (''uri'', JStr (download_uri env (''downloads/'' @ job_id j @ ''/'' @ variant @ ''/quality_report.pdf'')))]),
           (''deletion_proof'', JObj [(''file_name'', JStr ''deletion_proof.pdf''), (''uri'', JStr (dp_pdf_uri proof)),
             (''deletion_proof_id'', JStr (dp_id proof))])])))"

definition package_contents :: "job \<Rightarrow> string \<Rightarrow> string list" where
  "package_contents j variant =
     [job_id j @ ''-'' @ variant @ ''.mp4'', ''transformation_manifest.json'', ''uncertainty_callouts.json'',
      ''quality_report.pdf'', ''deletion_proof.pdf'']"

definition build_export_package ::
  "output_env \<Rightarrow> job \<Rightarrow> jdict \<Rightarrow> callout list \<Rightarrow> deletion_proof \<Rightarrow> time \<Rightarrow> string \<Rightarrow> (output_world, export_package) prog" where
  "build_export_package env j manifest cs proof generated_at variant =
     bindE (on_output_billing (resolve_output_encoding (od_billing env) (job_plan_tier j) variant)) (\<lambda>encoding.
     bindE (liftR (artifact_metadata env j manifest cs proof variant)) (\<lambda>meta.
     let uri = download_uri env (''downloads/'' @ job_id j @ ''/'' @ variant @ ''/'' @ job_id j @ ''-'' @ variant @ ''.zip'');
         file = ''chronos-'' @ job_id j @ ''-'' @ variant @ ''.zip'';
         contents = package_contents j variant in
     bindE (on_output_billing (max_retention_days_for_plan (od_billing env) (job_plan_tier j))) (\<lambda>keep.
     bindE (record_uri_only_classification env ARTIFACT_EXPORT_PACKAGE uri (classification_plan_tier j) generated_at) (\<lambda>cl.
     let until = generated_at + days keep;
         pl = [(''job_id'', JStr (job_id j)), (''variant'', JStr variant), (''package_uri'', JStr uri), (''file_name'', JStr file),
            (''package_contents'', JList (map JStr contents)), (''artifact_metadata'', JObj meta),
            (''encoding_metadata'', encoding_json encoding), (''deletion_proof_id'', JStr (dp_id proof)),
            (''available_until'', JStr (isoformat until))] @ persistence_fields cl in
     ret \<lparr>pk_job_id = job_id j, pk_variant = variant, pk_package_uri = uri, pk_file_name = file, pk_contents = contents,
       pk_artifact_metadata = meta, pk_encoding = encoding, pk_deletion_proof_id = dp_id proof, pk_available_until = until,
       pk_classification = cl, pk_sha256 = payload_sha256 env pl,
       pk_size_bytes = estimate_package_size (estimated_duration_seconds j) encoding contents,
       pk_owner_user_id = owner_user_id j, pk_generated_at = generated_at, pk_deleted_at = None,
       pk_created_at = 0, pk_updated_at = 0\<rparr>))))"

fun build_packages ::
  "output_env \<Rightarrow> job \<Rightarrow> jdict \<Rightarrow> callout list \<Rightarrow> deletion_proof \<Rightarrow> time \<Rightarrow> string list \<Rightarrow>
   (output_world, export_package list) prog" where
  "build_packages env j manifest cs proof generated_at [] = ret []"
| "build_packages env j manifest cs proof generated_at (variant # variants) =
     bindE (build_export_package env j manifest cs proof generated_at variant) (\<lambda>p.
     bindE (upsert_package env p) (\<lambda>stored.
     bindE (build_packages env j manifest cs proof generated_at variants) (\<lambda>ps.
     ret (stored # ps))))"

definition classify_result :: "output_env \<Rightarrow> job \<Rightarrow> time \<Rightarrow> (output_world, unit) prog" where
  "classify_result env j generated_at =
     (case result_uri j of
        None \<Rightarrow> ret ()
      | Some uri \<Rightarrow>
          if uri = [] then ret ()
          else bindE (record_uri_only_classification env ARTIFACT_PROCESSED_OUTPUT uri (classification_plan_tier j) generated_at)
                 (\<lambda>_. ret ()))"

definition materialize_delivery ::
  "output_env \<Rightarrow> job \<Rightarrow> segment list \<Rightarrow> jdict \<Rightarrow> (output_world, deletion_proof option \<times> export_package list) prog" where
  "materialize_delivery env j segs manifest =
     (if \<not> exportable (job_status j) then ret (None, [])
      else
        bindE (output_call (od_clock env)) (\<lambda>generated_at.
        bindE (liftR (build_callouts (od_codec env) (od_read_float env) j segs)) (\<lambda>cs.
        bindE (classify_result env j generated_at) (\<lambda>_.
        bindE (build_deletion_proof env j manifest cs generated_at) (\<lambda>p.
        bindE (upsert_proof env p) (\<lambda>proof.
        bindE (build_packages env j manifest cs proof generated_at EXPORT_VARIANTS) (\<lambda>packages.
        ret (Some proof, packages))))))))"

section \<open>What the owner can download\<close>

definition check_retention :: "string \<Rightarrow> int \<Rightarrow> int \<Rightarrow> unit result" where
  "check_retention plan requested allowed =
     (if plan \<noteq> ''museum'' \<and> requested > allowed then Inl (ProblemException ''Plan Upgrade Required'' 403)
      else if plan = ''museum'' \<and> requested > allowed then Inl (ProblemException ''Invalid Retention Window'' 400)
      else Inr ())"

definition validate_retention_days :: "output_env \<Rightarrow> string \<Rightarrow> int \<Rightarrow> (output_world, unit) prog" where
  "validate_retention_days env tier requested =
     (if requested < 1 then raise (ProblemException ''Invalid Retention Window'' 400)
      else
        bindE (or_pricing_problem (on_output_billing (max_retention_days_for_plan (od_billing env) tier))) (\<lambda>allowed.
        liftR (check_retention (lower tier) requested allowed)))"

text \<open>A package past its date becomes a tombstone the first time someone asks for it.\<close>

definition expire_package_if_needed :: "output_env \<Rightarrow> export_package \<Rightarrow> (output_world, export_package) prog" where
  "expire_package_if_needed env p =
     (if pk_deleted_at p \<noteq> None then ret p
      else
        bindE (output_call (od_clock env)) (\<lambda>now.
        if pk_available_until p \<ge> now then ret p
        else
          bindE (output_call (od_clock env)) (\<lambda>deleted.
          update_package env (pk_job_id p) (pk_variant p) (\<lambda>r. r\<lparr>pk_deleted_at := Some deleted\<rparr>))))"

record export_view =
  xv_job_id :: string
  xv_status :: job_status
  xv_variant :: string
  xv_download_url :: string
  xv_expires_at :: time
  xv_file_name :: string
  xv_size_bytes :: int
  xv_sha256 :: string
  xv_deletion_proof_id :: string
  xv_contents :: "string list"

definition download_link ::
  "output_env \<Rightarrow> string \<Rightarrow> job \<Rightarrow> string \<Rightarrow> int \<Rightarrow> export_package \<Rightarrow> (output_world, export_view) prog" where
  "download_link env jid j variant retention p0 =
     bindE (expire_package_if_needed env p0) (\<lambda>p.
     if pk_deleted_at p \<noteq> None then raise (ProblemException ''Download Expired'' 410)
     else
       bindE (output_call (od_clock env)) (\<lambda>now.
       let expires = min (now + days retention) (pk_available_until p) in
       bindE (output_call (od_clock env)) (\<lambda>request_time.
       bindE (liftR (signed_download_url (od_signing env) (pk_package_uri p) (pk_file_name p) expires request_time)) (\<lambda>url.
       ret \<lparr>xv_job_id = jid, xv_status = job_status j, xv_variant = variant, xv_download_url = url,
         xv_expires_at = expires, xv_file_name = pk_file_name p, xv_size_bytes = pk_size_bytes p,
         xv_sha256 = pk_sha256 p, xv_deletion_proof_id = pk_deletion_proof_id p, xv_contents = pk_contents p\<rparr>))))"

definition get_export ::
  "output_env \<Rightarrow> string \<Rightarrow> string \<Rightarrow> string \<Rightarrow> string \<Rightarrow> int \<Rightarrow> (output_world, export_view) prog" where
  "get_export env jid owner tier variant retention =
     bindE (on_output_store (get_job jid (Some owner))) (\<lambda>found.
     case found of
       None \<Rightarrow> raise (ProblemException ''Not Found'' 404)
     | Some j \<Rightarrow>
         if \<not> exportable (job_status j) then raise (ProblemException ''Export Not Ready'' 409)
         else
           bindE (validate_retention_days env tier retention) (\<lambda>_.
           bindE (get_package jid variant owner) (\<lambda>stored.
           case stored of
             None \<Rightarrow> raise (ProblemException ''Not Found'' 404)
           | Some p0 \<Rightarrow> download_link env jid j variant retention p0)))"

record proof_view =
  pv_id :: string
  pv_job_id :: string
  pv_generated_at :: time
  pv_signature :: string
  pv_sha256 :: string
  pv_pdf_download_url :: string
  pv_pdf_expires_at :: time
  pv_result_uri :: "string option"
  pv_manifest_sha256 :: json
  pv_original_checksum :: string

definition hours :: "int \<Rightarrow> time" where
  "hours n = n * (60 * 60 * 1000000)"

definition get_deletion_proof :: "output_env \<Rightarrow> string \<Rightarrow> string \<Rightarrow> (output_world, proof_view) prog" where
  "get_deletion_proof env pid owner =
     bindE (get_proof pid owner) (\<lambda>found.
     case found of
       None \<Rightarrow> raise (ProblemException ''Not Found'' 404)
     | Some p \<Rightarrow>
         bindE (output_call (od_clock env)) (\<lambda>now.
         let expires = now + hours PDF_URL_TTL_HOURS in
         bindE (output_call (od_clock env)) (\<lambda>request_time.
         bindE (liftR (signed_download_url (od_signing env) (dp_pdf_uri p) (dp_id p @ ''.pdf'') expires request_time)) (\<lambda>url.
         ret \<lparr>pv_id = dp_id p, pv_job_id = dp_job_id p, pv_generated_at = dp_generated_at p, pv_signature = dp_signature p,
           pv_sha256 = dp_sha256 p, pv_pdf_download_url = url, pv_pdf_expires_at = expires, pv_result_uri = dp_result_uri p,
           pv_manifest_sha256 = dp_manifest_sha256 p, pv_original_checksum = dp_original_checksum p\<rparr>))))"

section \<open>How the operations act on the state\<close>

lemma wp_output_call [wp_simps]: "wp (output_call f) Q E w = Q (f (ow_calls w)) (w\<lparr>ow_calls := Suc (ow_calls w)\<rparr>)"
  by (simp add: wp_def output_call_def)

lemma wp_on_output_billing:
  "readonly m \<Longrightarrow> wp (on_output_billing m) Q E w = (case fst (m (ow_billing w)) of Inl e \<Rightarrow> E e w | Inr a \<Rightarrow> Q a w)"
  by (cases w) (simp add: on_output_billing_def wp_zoom readonly_wp split: sum.splits)

lemma readonly_resolution_cap [readonly_intro]: "readonly (resolution_cap_for_plan env tier)"
  unfolding resolution_cap_for_plan_def by (intro readonly_intro)

lemma readonly_max_retention [readonly_intro]: "readonly (max_retention_days_for_plan env tier)"
  unfolding max_retention_days_for_plan_def by (intro readonly_intro)

lemma readonly_resolve_output_encoding [readonly_intro]: "readonly (resolve_output_encoding env tier variant)"
  unfolding resolve_output_encoding_def Let_def by (intro readonly_intro)

definition plan_retention :: "output_env \<Rightarrow> string \<Rightarrow> output_world \<Rightarrow> int result" where
  "plan_retention env tier w = fst (max_retention_days_for_plan (od_billing env) tier (ow_billing w))"

text \<open>Everything but the audit trail and the number of calls is as before.\<close>

definition output_frame :: "output_world \<Rightarrow> output_world \<Rightarrow> bool" where
  "output_frame w w' \<longleftrightarrow> ow_store w' = ow_store w \<and> ow_billing w' = ow_billing w \<and> ow_packages w' = ow_packages w \<and>
     ow_proofs w' = ow_proofs w"

text \<open>What a run needs in order to succeed.\<close>

definition packable :: "output_env \<Rightarrow> job \<Rightarrow> jdict \<Rightarrow> output_world \<Rightarrow> bool" where
  "packable env j manifest w \<longleftrightarrow> \<not> insecure_secret (od_signing env) \<and>
     (\<exists>x. jitem manifest ''manifest_sha256'' = Inr x) \<and> (\<exists>x. jitem manifest ''manifest_uri'' = Inr x) \<and>
     lower (job_plan_tier j) \<in> {''hobbyist'', ''pro'', ''museum''} \<and>
     (\<exists>cap. fst (resolution_cap_for_plan (od_billing env) (job_plan_tier j) (ow_billing w)) = Inr cap) \<and>
     (\<exists>n. plan_retention env (job_plan_tier j) w = Inr n)"

lemma packable_frame: "ow_billing w' = ow_billing w \<Longrightarrow> packable env j m w' = packable env j m w"
  by (simp add: packable_def plan_retention_def)

definition known_artifact :: "string \<Rightarrow> bool" where
  "known_artifact a \<longleftrightarrow> a \<in> {ARTIFACT_PROCESSED_OUTPUT, ARTIFACT_EXPORT_PACKAGE, ARTIFACT_DELETION_PROOF}"

lemma known_artifacts [simp]:
  "known_artifact ARTIFACT_PROCESSED_OUTPUT" "known_artifact ARTIFACT_EXPORT_PACKAGE" "known_artifact ARTIFACT_DELETION_PROOF"
  by (simp_all add: known_artifact_def)

lemma known_artifact_classified: "known_artifact a \<Longrightarrow> \<exists>cl. classify c a uri tier anchor ovr = Inr cl"
proof -
  assume "known_artifact a"
  then obtain l where "classification_label_for_artifact a = Inr l"
    unfolding known_artifact_def classification_label_for_artifact_def by (metis insert_iff empty_iff)
  then show ?thesis by (simp add: classify_def Let_def)
qed

lemma wp_record_uri_only_classification:
  assumes "known_artifact artifact" and "\<And>cl w'. output_frame w w' \<Longrightarrow> Q cl w'"
  shows "wp (record_uri_only_classification env artifact uri tier anchor) Q E w"
proof -
  obtain cl where "classify (od_codec env) artifact uri tier anchor None = Inr cl"
    using known_artifact_classified [OF assms(1)] by blast
  then show ?thesis
    by (simp add: record_uri_only_classification_def record_output_event_def output_frame_def wp_simps assms(2))
qed

lemma wp_classify_result:
  "(\<And>w'. output_frame w w' \<Longrightarrow> Q () w') \<Longrightarrow> wp (classify_result env j g) Q E w"
  by (auto simp: classify_result_def wp_simps output_frame_def intro!: wp_record_uri_only_classification split: option.splits)

definition proof_of_job :: "output_env \<Rightarrow> job \<Rightarrow> deletion_proof \<Rightarrow> bool" where
  "proof_of_job env j p \<longleftrightarrow> dp_job_id p = job_id j \<and> dp_owner_user_id p = owner_user_id j \<and>
     dp_original_checksum p = source_asset_checksum j \<and> dp_sha256 p = payload_sha256 env (dp_payload p) \<and>
     sign_value (od_signing env) (dp_id p @ '':'' @ dp_sha256 p) = Inr (dp_signature p)"

lemma wp_build_deletion_proof:
  assumes "\<And>p w'. output_frame w w' \<Longrightarrow> proof_of_job env j p \<Longrightarrow> Q p w'"
    and "\<And>e w'. \<not> packable env j manifest w \<Longrightarrow> E e w'"
  shows "wp (build_deletion_proof env j manifest cs g) Q E w"
  unfolding build_deletion_proof_def Let_def
  by (auto simp: wp_simps proof_of_job_def packable_def sign_value_def intro!: wp_record_uri_only_classification assms
      split: sum.splits)

text \<open>Packaging reads the jobs and the prices and writes neither.\<close>

lemma outside_upserts [pres_intro]:
  "preserves (\<lambda>w. ow_store w = st \<and> ow_billing w = bl) (output_call f)"
  "preserves (\<lambda>w. ow_store w = st \<and> ow_billing w = bl) (upsert_package env p)"
  "preserves (\<lambda>w. ow_store w = st \<and> ow_billing w = bl) (upsert_proof env q)"
  "preserves (\<lambda>w. ow_store w = st \<and> ow_billing w = bl) (record_output_event env cl event meta)"
  by (auto simp: preserves_wp upsert_package_def upsert_proof_def record_output_event_def Let_def wp_simps)

lemma outside_on_output_billing:
  "readonly m \<Longrightarrow> preserves (\<lambda>w. ow_store w = st \<and> ow_billing w = bl) (on_output_billing m)"
  by (auto simp: preserves_wp wp_on_output_billing split: sum.splits)

lemma outside_build_packages [pres_intro]:
  "preserves (\<lambda>w. ow_store w = st \<and> ow_billing w = bl) (build_packages env j manifest cs p g variants)"
  by (induction variants)
    (auto simp: build_export_package_def record_uri_only_classification_def Let_def
      intro!: pres_intro outside_on_output_billing readonly_intro)

lemma materialize_leaves_jobs:
  "preserves (\<lambda>w. ow_store w = st \<and> ow_billing w = bl) (materialize_delivery env j segs manifest)"
  unfolding materialize_delivery_def classify_result_def build_deletion_proof_def record_uri_only_classification_def Let_def
  by (intro pres_intro)

lemma encoding_fails:
  "fst (resolve_output_encoding env tier variant s) = Inl e \<Longrightarrow> variant \<in> set EXPORT_VARIANTS \<Longrightarrow>
   lower tier \<in> {''hobbyist'', ''pro'', ''museum''} \<Longrightarrow> \<exists>e. fst (resolution_cap_for_plan env tier s) = Inl e"
  by (auto simp: resolve_output_encoding_def Let_def bindE_def ret_def split: prod.splits sum.splits)

definition package_of_job :: "job \<Rightarrow> string \<Rightarrow> string \<Rightarrow> time \<Rightarrow> export_package \<Rightarrow> bool" where
  "package_of_job j variant pid until p \<longleftrightarrow> pk_job_id p = job_id j \<and> pk_variant p = variant \<and> pk_deletion_proof_id p = pid \<and>
     pk_contents p = package_contents j variant \<and> pk_deleted_at p = None \<and> pk_available_until p = until"

lemma wp_build_export_package:
  assumes "\<And>p w' keep. output_frame w w' \<Longrightarrow> plan_retention env (job_plan_tier j) w = Inr keep \<Longrightarrow>
      package_of_job j variant (dp_id proof) (g + days keep) p \<Longrightarrow> Q p w'"
    and "\<And>e w'. \<not> packable env j manifest w \<Longrightarrow> E e w'" and "variant \<in> set EXPORT_VARIANTS"
  shows "wp (build_export_package env j manifest cs proof g variant) Q E w"
proof -
  let ?enc = "fst (resolve_output_encoding (od_billing env) (job_plan_tier j) variant (ow_billing w))"
  let ?meta = "artifact_metadata env j manifest cs proof variant"
  have fail: "?enc = Inl e \<Longrightarrow> \<not> packable env j manifest w" "?meta = Inl e \<Longrightarrow> \<not> packable env j manifest w"
    "plan_retention env (job_plan_tier j) w = Inl e \<Longrightarrow> \<not> packable env j manifest w" for e
    using encoding_fails [of "od_billing env" "job_plan_tier j" variant "ow_billing w" e] assms(3)
    by (auto simp: packable_def artifact_metadata_def Let_def)
  show ?thesis
    unfolding build_export_package_def Let_def wp_bindE wp_on_output_billing [OF readonly_resolve_output_encoding]
      wp_on_output_billing [OF readonly_max_retention] wp_liftR plan_retention_def [symmetric]
    by (cases ?enc; cases ?meta; cases "plan_retention env (job_plan_tier j) w")
      (auto simp: wp_ret package_of_job_def intro!: wp_record_uri_only_classification assms(1,2) dest: fail)
qed

lemma wp_upsert_package:
  assumes "\<And>r w'. ow_store w' = ow_store w \<Longrightarrow> ow_billing w' = ow_billing w \<Longrightarrow> ow_proofs w' = ow_proofs w \<Longrightarrow>
      ow_packages w' = dset (package_key (pk_job_id p) (pk_variant p)) r (ow_packages w) \<Longrightarrow>
      (\<And>j v pid u. package_of_job j v pid u p \<Longrightarrow> package_of_job j v pid u r) \<Longrightarrow> Q r w'"
  shows "wp (upsert_package env p) Q E w"
  by (auto simp: upsert_package_def wp_simps Let_def package_of_job_def intro!: assms)

lemma wp_upsert_proof:
  assumes "\<And>r w'. ow_store w' = ow_store w \<Longrightarrow> ow_billing w' = ow_billing w \<Longrightarrow> ow_packages w' = ow_packages w \<Longrightarrow>
      ow_proofs w' = dset (dp_id r) r (ow_proofs w) \<Longrightarrow> (\<And>j. proof_of_job env j p \<Longrightarrow> proof_of_job env j r) \<Longrightarrow> Q r w'"
  shows "wp (upsert_proof env p) Q E w"
  by (auto simp: upsert_proof_def wp_simps Let_def proof_of_job_def intro!: assms)

text \<open>After a successful run both packages and the proof they name are stored.\<close>

definition delivered :: "output_env \<Rightarrow> job \<Rightarrow> deletion_proof \<Rightarrow> time \<Rightarrow> output_world \<Rightarrow> bool" where
  "delivered env j p g w \<longleftrightarrow> proof_of_job env j p \<and> dget (ow_proofs w) (dp_id p) = Some p \<and>
     (\<exists>keep. plan_retention env (job_plan_tier j) w = Inr keep \<and>
        list_all (\<lambda>v. \<exists>r. dget (ow_packages w) (package_key (job_id j) v) = Some r \<and>
          package_of_job j v (dp_id p) (g + days keep) r) EXPORT_VARIANTS)"

lemma package_key_variant [simp]: "package_key jid v = package_key jid v' \<longleftrightarrow> v = v'"
  by (simp add: package_key_def)

lemma wp_build_packages:
  assumes "\<And>w' r1 r2 k1. ow_store w' = ow_store w \<Longrightarrow> ow_billing w' = ow_billing w \<Longrightarrow> ow_proofs w' = ow_proofs w \<Longrightarrow>
      plan_retention env (job_plan_tier j) w = Inr k1 \<Longrightarrow>
      dget (ow_packages w') (package_key (job_id j) ''av1'') = Some r1 \<Longrightarrow>
      dget (ow_packages w') (package_key (job_id j) ''h264'') = Some r2 \<Longrightarrow>
      package_of_job j ''av1'' (dp_id proof) (g + days k1) r1 \<Longrightarrow>
      package_of_job j ''h264'' (dp_id proof) (g + days k1) r2 \<Longrightarrow> Q [r1, r2] w'"
    and "\<And>e w'. \<not> packable env j manifest w \<Longrightarrow> E e w'"
  shows "wp (build_packages env j manifest cs proof g EXPORT_VARIANTS) Q E w"
proof -
  have unpackable: "\<not> packable env j manifest u \<Longrightarrow> ow_billing u = ow_billing w \<Longrightarrow> E e v" for e v and u :: output_world
    using assms(2) packable_frame by blast
  show ?thesis
  unfolding EXPORT_VARIANTS_def build_packages.simps wp_bindE wp_ret
proof (rule wp_build_export_package, rule wp_upsert_package, rule wp_build_export_package, rule wp_upsert_package)
  fix p keep r p' keep' r' and w1 w2 w3 w4 :: output_world
  assume a: "output_frame w w1" "plan_retention env (job_plan_tier j) w = Inr keep"
    "package_of_job j ''av1'' (dp_id proof) (g + days keep) p"
    "ow_store w2 = ow_store w1" "ow_billing w2 = ow_billing w1" "ow_proofs w2 = ow_proofs w1"
    "ow_packages w2 = dset (package_key (pk_job_id p) (pk_variant p)) r (ow_packages w1)"
    "\<And>j v pid u. package_of_job j v pid u p \<Longrightarrow> package_of_job j v pid u r"
    "output_frame w2 w3" "plan_retention env (job_plan_tier j) w2 = Inr keep'"
    "package_of_job j ''h264'' (dp_id proof) (g + days keep') p'"
    "ow_store w4 = ow_store w3" "ow_billing w4 = ow_billing w3" "ow_proofs w4 = ow_proofs w3"
    "ow_packages w4 = dset (package_key (pk_job_id p') (pk_variant p')) r' (ow_packages w3)"
    "\<And>j v pid u. package_of_job j v pid u p' \<Longrightarrow> package_of_job j v pid u r'"
  have "keep' = keep" using a by (simp add: plan_retention_def output_frame_def)
  with a show "Q [r, r'] w4"
    by (intro assms(1) [of w4 keep r r']) (auto simp: output_frame_def package_of_job_def)
qed (rule unpackable, assumption, simp add: output_frame_def, simp add: EXPORT_VARIANTS_def, erule assms(2),
    simp add: EXPORT_VARIANTS_def)
qed

lemma wp_materialize_delivery:
  assumes "exportable (job_status j)"
    and "\<And>e w'. \<not> (packable env j manifest w \<and> (\<exists>cs. build_callouts (od_codec env) (od_read_float env) j segs = Inr cs)) \<Longrightarrow> E e w'"
    and "\<And>p r1 r2 w'. ow_store w' = ow_store w \<Longrightarrow> ow_billing w' = ow_billing w \<Longrightarrow>
      delivered env j p (od_clock env (ow_calls w)) w' \<Longrightarrow> Q (Some p, [r1, r2]) w'"
  shows "wp (materialize_delivery env j segs manifest) Q E w"
proof -
  have unpackable: "\<not> packable env j manifest u \<Longrightarrow> ow_billing u = ow_billing w \<Longrightarrow> E e v" for e v and u :: output_world
    using assms(2) packable_frame by blast
  have "wp (bindE (classify_result env j g) (\<lambda>_. bindE (build_deletion_proof env j manifest cs g) (\<lambda>p.
        bindE (upsert_proof env p) (\<lambda>proof.
        bindE (build_packages env j manifest cs proof g EXPORT_VARIANTS) (\<lambda>packages.
        ret (Some proof, packages)))))) Q E (w\<lparr>ow_calls := n\<rparr>)"
    if g: "g = od_clock env (ow_calls w)" for g cs n
    unfolding wp_bindE wp_ret
  proof (rule wp_classify_result, rule wp_build_deletion_proof, rule wp_upsert_proof, rule wp_build_packages)
    fix p dp r1 r2 k and w1 w2 w3 w4 :: output_world
    assume a: "output_frame (w\<lparr>ow_calls := n\<rparr>) w1" "output_frame w1 w2" "proof_of_job env j p"
      "ow_store w3 = ow_store w2" "ow_billing w3 = ow_billing w2" "ow_packages w3 = ow_packages w2"
      "ow_proofs w3 = dset (dp_id dp) dp (ow_proofs w2)" "\<And>j. proof_of_job env j p \<Longrightarrow> proof_of_job env j dp"
      "ow_store w4 = ow_store w3" "ow_billing w4 = ow_billing w3" "ow_proofs w4 = ow_proofs w3"
      "plan_retention env (job_plan_tier j) w3 = Inr k"
      "dget (ow_packages w4) (package_key (job_id j) ''av1'') = Some r1"
      "dget (ow_packages w4) (package_key (job_id j) ''h264'') = Some r2"
      "package_of_job j ''av1'' (dp_id dp) (g + days k) r1" "package_of_job j ''h264'' (dp_id dp) (g + days k) r2"
    have "delivered env j dp g w4"
      using a by (auto simp: delivered_def EXPORT_VARIANTS_def plan_retention_def)
    with a g show "Q (Some dp, [r1, r2]) w4"
      by (intro assms(3)) (auto simp: output_frame_def)
  qed (rule unpackable, assumption, simp add: output_frame_def)+
  then show ?thesis
    using assms(1,2) by (auto simp: materialize_delivery_def wp_simps split: sum.splits)
qed

section \<open>Downloads\<close>

lemma run_on_output_billing: "readonly m \<Longrightarrow> on_output_billing m w = (fst (m (ow_billing w)), w)"
  by (cases w) (simp add: on_output_billing_def zoom_def readonly_def case_prod_beta)

lemma validate_retention_run:
  "validate_retention_days env tier r w =
     (if r < 1 then Inl (ProblemException ''Invalid Retention Window'' 400)
      else case plan_retention env tier w of Inl e \<Rightarrow> Inl (as_pricing_problem e) | Inr n \<Rightarrow> check_retention (lower tier) r n, w)"
  by (cases "plan_retention env tier w")
    (simp_all add: validate_retention_days_def or_pricing_problem_def bindE_def catchE_def raise_def liftR_def
      run_on_output_billing readonly_max_retention plan_retention_def)

lemma check_retention_ok: "check_retention plan r n = Inr () \<longleftrightarrow> r \<le> n"
  by (auto simp: check_retention_def)

definition can_export :: "output_env \<Rightarrow> string \<Rightarrow> string \<Rightarrow> string \<Rightarrow> int \<Rightarrow> output_world \<Rightarrow> job \<Rightarrow> bool" where
  "can_export env jid owner tier r w j \<longleftrightarrow> dget (jobs (ow_store w)) jid = Some j \<and> owned_by (Some owner) j \<and>
     exportable (job_status j) \<and> 1 \<le> r \<and> (\<exists>n. plan_retention env tier w = Inr n \<and> r \<le> n)"

lemma run_output_job:
  "on_output_store (get_job jid owner) w =
     (Inr (case dget (jobs (ow_store w)) jid of None \<Rightarrow> None | Some j \<Rightarrow> if owned_by owner j then Some j else None), w)"
  by (cases w) (simp add: on_output_store_def get_job_def getsE_def zoom_def)

lemma run_get_package:
  "dget (jobs (ow_store w)) jid = Some j \<Longrightarrow> owned_by (Some owner) j \<Longrightarrow>
   get_package jid variant owner w = (Inr (dget (ow_packages w) (package_key jid variant)), w)"
  by (simp add: get_package_def getsE_def)

lemma run_output_call: "output_call f w = (Inr (f (ow_calls w)), w\<lparr>ow_calls := Suc (ow_calls w)\<rparr>)"
  by (simp add: output_call_def)

lemma signed_download_url_ok: "\<not> insecure_secret env \<Longrightarrow> \<exists>url. signed_download_url env u f e t = Inr url"
  by (simp only: signed_download_url_def sign_value_def Let_def case_prod_beta if_False bind_res.simps) blast

text \<open>What is left of a download once the checks have passed.\<close>

lemma get_export_checked:
  assumes "can_export env jid owner tier r w j" "dget (ow_packages w) (package_key jid variant) = Some p0"
  shows "get_export env jid owner tier variant r w = download_link env jid j variant r p0 w"
proof -
  from assms(1) obtain n where j: "dget (jobs (ow_store w)) jid = Some j" "owned_by (Some owner) j" "exportable (job_status j)"
    and n: "1 \<le> r" "plan_retention env tier w = Inr n" "r \<le> n" by (auto simp: can_export_def)
  have job: "on_output_store (get_job jid (Some owner)) w = (Inr (Some j), w)" by (simp add: run_output_job j)
  have ok: "validate_retention_days env tier r w = (Inr (), w)"
    using n by (simp add: validate_retention_run check_retention_ok)
  have pkg: "get_package jid variant owner w = (Inr (Some p0), w)" by (simp add: run_get_package [OF j(1,2)] assms(2))
  show ?thesis
    by (simp only: get_export_def bindE_run [where m = "on_output_store (get_job jid (Some owner))", OF job] option.case(2) j(3) not_True_eq_False if_False
        bindE_run [where m = "validate_retention_days env tier r", OF ok]
        bindE_run [where m = "get_package jid variant owner", OF pkg])
qed

lemma get_export_live:
  assumes "can_export env jid owner tier r w j" "dget (ow_packages w) (package_key jid variant) = Some p"
    "pk_deleted_at p = None" "od_clock env (ow_calls w) \<le> pk_available_until p" "\<not> insecure_secret (od_signing env)"
  shows "\<exists>url. signed_download_url (od_signing env) (pk_package_uri p) (pk_file_name p)
        (min (od_clock env (Suc (ow_calls w)) + days r) (pk_available_until p)) (od_clock env (Suc (Suc (ow_calls w)))) = Inr url \<and>
     get_export env jid owner tier variant r w =
     (Inr \<lparr>xv_job_id = jid, xv_status = job_status j, xv_variant = variant, xv_download_url = url,
        xv_expires_at = min (od_clock env (Suc (ow_calls w)) + days r) (pk_available_until p), xv_file_name = pk_file_name p,
        xv_size_bytes = pk_size_bytes p, xv_sha256 = pk_sha256 p, xv_deletion_proof_id = pk_deletion_proof_id p,
        xv_contents = pk_contents p\<rparr>, w\<lparr>ow_calls := ow_calls w + 3\<rparr>)"
proof -
  obtain url where url: "signed_download_url (od_signing env) (pk_package_uri p) (pk_file_name p)
      (min (od_clock env (Suc (ow_calls w)) + days r) (pk_available_until p)) (od_clock env (Suc (Suc (ow_calls w)))) = Inr url"
    using signed_download_url_ok [OF assms(5)] by blast
  have e: "expire_package_if_needed env p w = (Inr p, w\<lparr>ow_calls := Suc (ow_calls w)\<rparr>)"
    using assms(3,4) by (simp add: expire_package_if_needed_def bindE_def run_output_call ret_def)
  show ?thesis
    unfolding get_export_checked [OF assms(1,2)] download_link_def bindE_run [of "expire_package_if_needed env p", OF e]
    by (rule exI [of _ url]) (simp add: url assms(3) bindE_def run_output_call Let_def liftR_def url ret_def)
qed

lemma get_export_expired:
  assumes "can_export env jid owner tier r w j" "dget (ow_packages w) (package_key jid variant) = Some p"
    "pk_job_id p = jid" "pk_variant p = variant" "pk_deleted_at p \<noteq> None \<or> pk_available_until p < od_clock env (ow_calls w)"
  shows "\<exists>p' w'. get_export env jid owner tier variant r w = (Inl (ProblemException ''Download Expired'' 410), w') \<and>
     dget (ow_packages w') (package_key jid variant) = Some p' \<and> pk_deleted_at p' \<noteq> None \<and> pk_job_id p' = jid \<and>
     pk_variant p' = variant \<and> (\<forall>k. k \<noteq> package_key jid variant \<longrightarrow> dget (ow_packages w') k = dget (ow_packages w) k) \<and>
     ow_store w' = ow_store w \<and> ow_billing w' = ow_billing w \<and> ow_proofs w' = ow_proofs w"
proof -
  have "\<exists>p' w'. expire_package_if_needed env p w = (Inr p', w') \<and> dget (ow_packages w') (package_key jid variant) = Some p' \<and>
      pk_deleted_at p' \<noteq> None \<and> pk_job_id p' = jid \<and> pk_variant p' = variant \<and>
      (\<forall>k. k \<noteq> package_key jid variant \<longrightarrow> dget (ow_packages w') k = dget (ow_packages w) k) \<and>
      ow_store w' = ow_store w \<and> ow_billing w' = ow_billing w \<and> ow_proofs w' = ow_proofs w"
  proof (cases "pk_deleted_at p = None")
    case False
    then show ?thesis using assms(2-4) by (simp add: expire_package_if_needed_def ret_def)
  next
    case True
    with assms show ?thesis
      by (simp add: expire_package_if_needed_def update_package_def bindE_def run_output_call getsE_def modifyE_def ret_def Let_def)
  qed
  then obtain p' w' where e: "expire_package_if_needed env p w = (Inr p', w')" and f: "pk_deleted_at p' \<noteq> None"
    "dget (ow_packages w') (package_key jid variant) = Some p'" "pk_job_id p' = jid" "pk_variant p' = variant"
    "\<forall>k. k \<noteq> package_key jid variant \<longrightarrow> dget (ow_packages w') k = dget (ow_packages w) k"
    "ow_store w' = ow_store w" "ow_billing w' = ow_billing w" "ow_proofs w' = ow_proofs w" by blast
  have "get_export env jid owner tier variant r w = (Inl (ProblemException ''Download Expired'' 410), w')"
    unfolding get_export_checked [OF assms(1,2)] download_link_def bindE_run [of "expire_package_if_needed env p", OF e]
    by (simp add: f(1) raise_def)
  with f show ?thesis by blast
qed

lemma expire_package_live:
  "expire_package_if_needed env p w = (Inr p', w') \<Longrightarrow> pk_deleted_at p' = None \<Longrightarrow>
   p' = p \<and> od_clock env (ow_calls w) \<le> pk_available_until p"
  by (auto simp: expire_package_if_needed_def update_package_def output_call_def getsE_def modifyE_def ret_def raise_def bindE_def
      Let_def split: if_splits option.splits)

lemma get_export_cases:
  assumes "get_export env jid owner tier variant r w = (Inr v, w')"
  shows "\<exists>j p. can_export env jid owner tier r w j \<and> dget (ow_packages w) (package_key jid variant) = Some p \<and>
    pk_deleted_at p = None \<and> od_clock env (ow_calls w) \<le> pk_available_until p \<and> \<not> insecure_secret (od_signing env)"
proof -
  from bindE_InrD [OF assms [unfolded get_export_def]] obtain j where
    j: "dget (jobs (ow_store w)) jid = Some j" "owned_by (Some owner) j" "exportable (job_status j)"
    and rest: "bindE (validate_retention_days env tier r) (\<lambda>_. bindE (get_package jid variant owner) (\<lambda>stored.
           case stored of None \<Rightarrow> raise (ProblemException ''Not Found'' 404)
           | Some p0 \<Rightarrow> download_link env jid j variant r p0)) w = (Inr v, w')"
    by (auto simp: run_output_job raise_def split: option.splits if_splits)
  from bindE_InrD [OF rest] have ok: "validate_retention_days env tier r w = (Inr (), w)"
    by (auto simp: validate_retention_run split: if_splits)
  then obtain n where n: "1 \<le> r" "plan_retention env tier w = Inr n" "r \<le> n"
    by (auto simp: validate_retention_run check_retention_ok split: if_splits sum.splits)
  have can: "can_export env jid owner tier r w j" using j n by (simp add: can_export_def)
  from bindE_InrD [OF rest [unfolded bindE_run [where m = "validate_retention_days env tier r", OF ok]]] obtain p0 where
    p0: "dget (ow_packages w) (package_key jid variant) = Some p0"
    by (auto simp: run_get_package [OF j(1,2)] raise_def split: option.splits)
  note link = assms [unfolded get_export_checked [OF can p0] download_link_def]
  from bindE_InrD [OF link] obtain p w1 where
    e: "expire_package_if_needed env p0 w = (Inr p, w1)" "pk_deleted_at p = None" by (auto simp: raise_def split: if_splits)
  have "\<not> insecure_secret (od_signing env)"
    using link by (auto simp: e bindE_def run_output_call Let_def liftR_def signed_download_url_def sign_value_def case_prod_beta
        split: if_splits)
  with can p0 expire_package_live [OF e] e(2) show ?thesis by auto
qed

text \<open>
  C34: A download link is only given to the owner of a completed or partial job whose package is stored, not
  deleted and not past its date, for at least one day and no longer than the plan keeps exports. Both the
  expiry that is reported and the expiry that is signed into the link are the requested days after the
  request or the date of the package, whichever is earlier; the link, whose lifetime in whole seconds runs
  from the second of its time stamp, ends by then, or within a second of the request where less than a
  second is left: only so can it outlive the package. Asking for one changes nothing stored.
\<close>

theorem downloads_stay_within_limits:
  assumes "get_export env jid owner tier variant r w = (Inr v, w')"
  shows "\<exists>j p n t. dget (jobs (ow_store w)) jid = Some j \<and> owned_by (Some owner) j \<and> job_status j \<in> {Completed, Partial} \<and>
    dget (ow_packages w) (package_key jid variant) = Some p \<and> pk_deleted_at p = None \<and>
    od_clock env (ow_calls w) \<le> pk_available_until p \<and> plan_retention env tier w = Inr n \<and> 1 \<le> r \<and> r \<le> n \<and>
    xv_expires_at v = min (od_clock env (ow_calls w + 1) + days r) (pk_available_until p) \<and> t = od_clock env (ow_calls w + 2) \<and>
    signed_download_url (od_signing env) (pk_package_uri p) (pk_file_name p) (xv_expires_at v) t = Inr (xv_download_url v) \<and>
    (\<exists>front lifetime rest. xv_download_url v =
        front @ ''&X-Goog-Date='' @ time_stamp t @ ''&X-Goog-Expires='' @ dec_int lifetime @ ''&X-Goog-SignedHeaders=host'' @ rest \<and>
      t div 1000000 * 1000000 + 1000000 * lifetime \<le> max (xv_expires_at v) (t + 1000000)) \<and>
    xv_deletion_proof_id v = pk_deletion_proof_id p \<and> w' = w\<lparr>ow_calls := ow_calls w + 3\<rparr>"
proof -
  from get_export_cases [OF assms] obtain j p where
    c: "can_export env jid owner tier r w j" "dget (ow_packages w) (package_key jid variant) = Some p"
      "pk_deleted_at p = None" "od_clock env (ow_calls w) \<le> pk_available_until p" "\<not> insecure_secret (od_signing env)" by blast
  let ?t = "od_clock env (ow_calls w + 2)"
  from get_export_live [OF c] assms have v: "xv_expires_at v = min (od_clock env (ow_calls w + 1) + days r) (pk_available_until p)"
    "signed_download_url (od_signing env) (pk_package_uri p) (pk_file_name p) (xv_expires_at v) ?t = Inr (xv_download_url v)"
    "xv_deletion_proof_id v = pk_deletion_proof_id p" "w' = w\<lparr>ow_calls := ow_calls w + 3\<rparr>" by auto
  from signed_download_url_shape [OF v(2)] obtain front rest where
    "xv_download_url v = front @ ''&X-Goog-Date='' @ time_stamp ?t @
       ''&X-Goog-Expires='' @ dec_int (download_expires_seconds (xv_expires_at v) ?t) @ ''&X-Goog-SignedHeaders=host'' @ rest" by blast
  with download_lifetime [of ?t "xv_expires_at v"] have "\<exists>front lifetime rest. xv_download_url v =
      front @ ''&X-Goog-Date='' @ time_stamp ?t @ ''&X-Goog-Expires='' @ dec_int lifetime @ ''&X-Goog-SignedHeaders=host'' @ rest \<and>
    ?t div 1000000 * 1000000 + 1000000 * lifetime \<le> max (xv_expires_at v) (?t + 1000000)" by blast
  moreover from c(1) obtain n where "dget (jobs (ow_store w)) jid = Some j" "owned_by (Some owner) j"
    "job_status j \<in> {Completed, Partial}" "plan_retention env tier w = Inr n" "1 \<le> r" "r \<le> n"
    by (auto simp: can_export_def exportable_def)
  ultimately show ?thesis using c(2-4) v by blast
qed

text \<open>
  C35: A package past its date is gone. The first request that finds it expired marks it deleted and is
  answered with 410, the next one is answered the same, and no other package, job or proof is touched.
\<close>

theorem expired_package_is_gone:
  assumes "can_export env jid owner tier r w j" "dget (ow_packages w) (package_key jid variant) = Some p"
    "pk_job_id p = jid" "pk_variant p = variant" "pk_deleted_at p \<noteq> None \<or> pk_available_until p < od_clock env (ow_calls w)"
  shows "\<exists>w'. get_export env jid owner tier variant r w = (Inl (ProblemException ''Download Expired'' 410), w') \<and>
    (\<forall>k. k \<noteq> package_key jid variant \<longrightarrow> dget (ow_packages w') k = dget (ow_packages w) k) \<and>
    ow_store w' = ow_store w \<and> ow_proofs w' = ow_proofs w \<and>
    fst (get_export env jid owner tier variant r w') = Inl (ProblemException ''Download Expired'' 410)"
proof -
  from get_export_expired [OF assms] obtain p' w' where
    e: "get_export env jid owner tier variant r w = (Inl (ProblemException ''Download Expired'' 410), w')"
      "dget (ow_packages w') (package_key jid variant) = Some p'" "pk_deleted_at p' \<noteq> None" "pk_job_id p' = jid" "pk_variant p' = variant"
      "\<forall>k. k \<noteq> package_key jid variant \<longrightarrow> dget (ow_packages w') k = dget (ow_packages w) k"
      "ow_store w' = ow_store w" "ow_billing w' = ow_billing w" "ow_proofs w' = ow_proofs w" by blast
  have "can_export env jid owner tier r w' j" using assms(1) e(7,8) by (simp add: can_export_def plan_retention_def)
  from get_export_expired [OF this e(2,4,5)] e(3) have
    "fst (get_export env jid owner tier variant r w') = Inl (ProblemException ''Download Expired'' 410)" by auto
  with e show ?thesis by blast
qed

text \<open>
  C33: What a finished job delivers can be downloaded. After a run of the delivery for a stored job, its owner
  can get both variants for as long as the plan keeps exports, each naming the deletion proof of the run, and
  the proof itself, whose digest is that of its payload and whose signature is that of its identifier and digest.
\<close>

theorem delivered_output_downloadable:
  assumes run: "materialize_delivery env j segs manifest w = (Inr (Some p, packages), w')"
    and job: "dget (jobs (ow_store w)) (job_id j) = Some j"
    and r: "1 \<le> r" "plan_retention env (job_plan_tier j) w = Inr n" "r \<le> n"
    and time: "od_clock env (ow_calls w') \<le> od_clock env (ow_calls w) + days n"
    and variant: "variant \<in> {''av1'', ''h264''}"
  shows "(\<exists>v w''. get_export env (job_id j) (owner_user_id j) (job_plan_tier j) variant r w' = (Inr v, w'') \<and>
      xv_deletion_proof_id v = dp_id p \<and> xv_contents v = package_contents j variant \<and>
      xv_expires_at v \<le> od_clock env (ow_calls w) + days n) \<and>
    (\<exists>v w''. get_deletion_proof env (dp_id p) (owner_user_id j) w' = (Inr v, w'') \<and> pv_job_id v = job_id j \<and>
      pv_sha256 v = payload_sha256 env (dp_payload p) \<and>
      sign_value (od_signing env) (pv_id v @ '':'' @ pv_sha256 v) = Inr (pv_signature v))"
proof -
  have "exportable (job_status j)"
    using run by (auto simp: materialize_delivery_def ret_def split: if_splits)
  then have "wp (materialize_delivery env j segs manifest)
      (\<lambda>x u. ow_store u = ow_store w \<and> ow_billing u = ow_billing w \<and>
         (\<exists>q. fst x = Some q \<and> delivered env j q (od_clock env (ow_calls w)) u)) (\<lambda>_ _. True) w"
    by (rule wp_materialize_delivery) auto
  then have frame: "ow_store w' = ow_store w" "ow_billing w' = ow_billing w"
    and d: "delivered env j p (od_clock env (ow_calls w)) w'"
    by (simp_all add: wp_def run)
  have dpf: "proof_of_job env j p" "dget (ow_proofs w') (dp_id p) = Some p" using d by (auto simp: delivered_def)
  have keep: "plan_retention env (job_plan_tier j) w' = Inr n" using r(2) frame by (simp add: plan_retention_def)
  obtain q where q: "dget (ow_packages w') (package_key (job_id j) variant) = Some q"
      "package_of_job j variant (dp_id p) (od_clock env (ow_calls w) + days n) q"
    using d keep variant by (auto simp: delivered_def EXPORT_VARIANTS_def)
  have secure: "\<not> insecure_secret (od_signing env)"
    using dpf(1) by (auto simp: proof_of_job_def sign_value_def split: if_splits)
  have can: "can_export env (job_id j) (owner_user_id j) (job_plan_tier j) r w' j"
    using job frame r keep \<open>exportable (job_status j)\<close> by (simp add: can_export_def owned_by_def)
  have live: "pk_deleted_at q = None" "od_clock env (ow_calls w') \<le> pk_available_until q"
    using q(2) time by (simp_all add: package_of_job_def)
  from get_export_live [OF can q(1) live secure] q(2) have
    "\<exists>v w''. get_export env (job_id j) (owner_user_id j) (job_plan_tier j) variant r w' = (Inr v, w'') \<and>
      xv_deletion_proof_id v = dp_id p \<and> xv_contents v = package_contents j variant \<and>
      xv_expires_at v \<le> od_clock env (ow_calls w) + days n"
    by (auto simp: package_of_job_def)
  moreover have "\<exists>v w''. get_deletion_proof env (dp_id p) (owner_user_id j) w' = (Inr v, w'') \<and> pv_job_id v = job_id j \<and>
      pv_sha256 v = payload_sha256 env (dp_payload p) \<and>
      sign_value (od_signing env) (pv_id v @ '':'' @ pv_sha256 v) = Inr (pv_signature v)"
  proof -
    let ?e = "od_clock env (ow_calls w') + hours PDF_URL_TTL_HOURS"
    obtain url where url: "signed_download_url (od_signing env) (dp_pdf_uri p) (dp_id p @ ''.pdf'') ?e
        (od_clock env (Suc (ow_calls w'))) = Inr url"
      using signed_download_url_ok [OF secure] by blast
    have g: "get_proof (dp_id p) (owner_user_id j) w' = (Inr (Some p), w')"
      using dpf by (simp add: get_proof_def getsE_def proof_of_job_def)
    show ?thesis
      using dpf(1) by (auto simp: get_deletion_proof_def bindE_def g run_output_call Let_def url liftR_def ret_def proof_of_job_def)
  qed
  ultimately show ?thesis by blast
qed

section \<open>Witnesses\<close>

definition sample_output_env :: output_env where
  "sample_output_env = \<lparr>od_signing = sample_signing_env, od_codec = plain_codec, od_read_float = (\<lambda>_. None),
     od_billing = sample_env, od_clock = (\<lambda>_. 0), od_uuid = (\<lambda>_. ''id''), od_stable_uuid = (\<lambda>s. s)\<rparr>"

definition finished_job :: job where
  "finished_job = (projr (fst (create_job 1 2 sample_job_request empty_job_store)))\<lparr>job_status := Completed\<rparr>"

definition sample_package :: "time \<Rightarrow> export_package" where
  "sample_package until = \<lparr>pk_job_id = ''j1'', pk_variant = ''av1'', pk_package_uri = ''gs://b/p.zip'', pk_file_name = ''p.zip'',
     pk_contents = [], pk_artifact_metadata = [],
     pk_encoding = \<lparr>en_variant = ''av1'', en_codec = ''av1'', en_bitrate_mbps = 16, en_resolution_target = ''4K''\<rparr>,
     pk_deletion_proof_id = ''dp'', pk_available_until = until,
     pk_classification = \<lparr>cl_artifact_type = ''export_package'', classification_label = ''Confidential'', cl_object_uri = [],
       cl_object_hash = [], cl_retention_days = None, cl_retention_expires_at = None, policy_version = []\<rparr>,
     pk_sha256 = [], pk_size_bytes = 1, pk_owner_user_id = ''u1'', pk_generated_at = 0, pk_deleted_at = None,
     pk_created_at = 0, pk_updated_at = 0\<rparr>"

definition sample_output_world :: "time \<Rightarrow> output_world" where
  "sample_output_world until = \<lparr>ow_store = empty_job_store\<lparr>jobs := [(''j1'', finished_job)]\<rparr>, ow_billing = empty_billing_store,
     ow_packages = [(package_key ''j1'' ''av1'', sample_package until)], ow_proofs = [], ow_audit = [], ow_calls = 0\<rparr>"

lemma finished_job_simps [simp]:
  "job_id finished_job = ''j1''" "owner_user_id finished_job = ''u1''" "job_plan_tier finished_job = ''pro''"
  "job_status finished_job = Completed" "era_profile finished_job = JObj []"
  by (simp_all add: finished_job_def create_job_def sample_job_request_def Let_def)

lemma sample_plan_retention: "plan_retention sample_output_env ''pro'' (sample_output_world until) = Inr 7"
  by (simp add: plan_retention_def sample_output_env_def sample_output_world_def max_retention_days_for_plan_def bindE_def
      sample_pricing_entry sample_parsed_def ret_def)

lemma sample_can_export: "can_export sample_output_env ''j1'' ''u1'' ''pro'' 7 (sample_output_world until) finished_job"
  using sample_plan_retention [of until]
  by (simp add: can_export_def sample_output_world_def owned_by_def exportable_def)

lemma sample_secret: "\<not> insecure_secret (od_signing sample_output_env)"
  by (simp add: insecure_secret_def sample_output_env_def sample_signing_env_def)

theorem downloads_stay_within_limits_witness:
  "\<exists>v w'. get_export sample_output_env ''j1'' ''u1'' ''pro'' ''av1'' 7 (sample_output_world 5) = (Inr v, w') \<and> xv_expires_at v \<le> 5 \<and>
     (\<exists>front lifetime rest. xv_download_url v =
        front @ ''&X-Goog-Date='' @ time_stamp 0 @ ''&X-Goog-Expires='' @ dec_int lifetime @ ''&X-Goog-SignedHeaders=host'' @ rest \<and> 1000000 * lifetime \<le> 1000000)"
proof -
  have p: "dget (ow_packages (sample_output_world 5)) (package_key ''j1'' ''av1'') = Some (sample_package 5)"
    "pk_deleted_at (sample_package 5) = None"
    "od_clock sample_output_env (ow_calls (sample_output_world 5)) \<le> pk_available_until (sample_package 5)"
    by (simp_all add: sample_output_world_def sample_package_def sample_output_env_def)
  from get_export_live [OF sample_can_export p sample_secret] obtain v w' where
    v: "get_export sample_output_env ''j1'' ''u1'' ''pro'' ''av1'' 7 (sample_output_world 5) = (Inr v, w')" by blast
  from downloads_stay_within_limits [OF v] p(1) obtain front lifetime rest where
    x: "xv_expires_at v \<le> 5" "xv_download_url v = front @ ''&X-Goog-Date='' @ time_stamp 0 @ ''&X-Goog-Expires='' @ dec_int lifetime @ ''&X-Goog-SignedHeaders=host'' @ rest"
      "1000000 * lifetime \<le> max (xv_expires_at v) 1000000"
    by (auto simp: sample_package_def sample_output_env_def)
  then have "1000000 * lifetime \<le> 1000000" by simp
  with v x(1,2) show ?thesis by blast
qed

theorem expired_package_is_gone_witness:
  "fst (get_export sample_output_env ''j1'' ''u1'' ''pro'' ''av1'' 7 (sample_output_world (- 1))) =
     Inl (ProblemException ''Download Expired'' 410)"
proof -
  have "dget (ow_packages (sample_output_world (- 1))) (package_key ''j1'' ''av1'') = Some (sample_package (- 1))"
    "pk_job_id (sample_package (- 1)) = ''j1''" "pk_variant (sample_package (- 1)) = ''av1''"
    "pk_deleted_at (sample_package (- 1)) \<noteq> None \<or>
     pk_available_until (sample_package (- 1)) < od_clock sample_output_env (ow_calls (sample_output_world (- 1)))"
    by (simp_all add: sample_output_world_def sample_package_def sample_output_env_def)
  from expired_package_is_gone [OF sample_can_export this] show ?thesis by auto
qed

definition sample_delivery_manifest :: jdict where
  "sample_delivery_manifest = [(''manifest_sha256'', JStr ''abc''), (''manifest_uri'', JStr ''gs://b/m.json'')]"

theorem delivered_output_downloadable_witness:
  "\<exists>p ps w' v w''. materialize_delivery sample_output_env finished_job [] sample_delivery_manifest (sample_output_world 0) =
      (Inr (Some p, ps), w') \<and>
     get_export sample_output_env ''j1'' ''u1'' ''pro'' ''h264'' 7 w' = (Inr v, w'') \<and> xv_deletion_proof_id v = dp_id p"
proof -
  have cs: "build_callouts (od_codec sample_output_env) (od_read_float sample_output_env) finished_job [] = Inr []"
    by (simp add: build_callouts_def global_detection_callout_def normalized_confidence_def)
  have cap: "fst (resolution_cap_for_plan (od_billing sample_output_env) ''pro'' (ow_billing (sample_output_world 0))) = Inr ''4k''"
    by (simp add: resolution_cap_for_plan_def sample_output_env_def sample_output_world_def bindE_def sample_pricing_entry
        sample_parsed_def ret_def)
  have "packable sample_output_env finished_job sample_delivery_manifest (sample_output_world 0)"
    using sample_secret cap sample_plan_retention [of 0]
    by (simp add: packable_def sample_delivery_manifest_def jitem_def string_eval)
  then have "wp (materialize_delivery sample_output_env finished_job [] sample_delivery_manifest)
      (\<lambda>x _. \<exists>q r1 r2. x = (Some q, [r1, r2])) (\<lambda>_ _. False) (sample_output_world 0)"
    using cs by (intro wp_materialize_delivery) (auto simp: exportable_def)
  then obtain p ps w' where run: "materialize_delivery sample_output_env finished_job [] sample_delivery_manifest (sample_output_world 0) =
      (Inr (Some p, ps), w')"
    by (auto simp: wp_def split: prod.splits sum.splits)
  have "dget (jobs (ow_store (sample_output_world 0))) (job_id finished_job) = Some finished_job"
    by (simp add: sample_output_world_def)
  from delivered_output_downloadable [OF run this, of 7 7 "''h264''"] sample_plan_retention [of 0] run show ?thesis
    by (auto simp: sample_output_env_def days_def)
qed

end
