(* ===== verification/Era_Validation.thy ===== *)
theory Era_Validation
  imports Cost_Estimation Fidelity
begin

text \<open>
  The validation layer for era profiles, \<open>app/validation/schema_validation.py\<close>: the rules by which a
  profile from outside is accepted, as a list of errors and one of warnings, each with its rule and
  field. The messages and the measured latency are left out.
\<close>

definition CAPTURE_MEDIA :: "string list" where
  "CAPTURE_MEDIA = [''daguerreotype'', ''albumen'', ''16mm'', ''super_8'', ''kodachrome'', ''vhs'']"

definition MODES :: "string list" where
  "MODES = [''Conserve'', ''Restore'', ''Enhance'']"

definition TIERS :: "string list" where
  "TIERS = [''Hobbyist'', ''Pro'', ''Museum'']"

definition RESOLUTION_CAPS :: "string list" where
  "RESOLUTION_CAPS = [''1080p'', ''2k'', ''4k'', ''native_scan'']"

definition GRAIN_INTENSITIES :: "string list" where
  "GRAIN_INTENSITIES = [''Matched'', ''Subtle'', ''Heavy'']"

lemmas era_enums = CAPTURE_MEDIA_def MODES_def TIERS_def RESOLUTION_CAPS_def GRAIN_INTENSITIES_def

record validation_issue =
  vi_rule_id :: string
  vi_field :: string

record validation_result =
  vr_errors :: "validation_issue list"
  vr_warnings :: "validation_issue list"

definition is_valid :: "validation_result \<Rightarrow> bool" where
  "is_valid r = (vr_errors r = [])"

definition issue_when :: "bool \<Rightarrow> string \<Rightarrow> string \<Rightarrow> validation_issue list" where
  "issue_when b rule field = (if b then [\<lparr>vi_rule_id = rule, vi_field = field\<rparr>] else [])"

lemma issue_when_simps [simp]: "issue_when b rule field = [] \<longleftrightarrow> \<not> b"
  by (simp add: issue_when_def)

text \<open>A nested mapping; anything else counts as an empty one.\<close>

definition mapping_of :: "json \<Rightarrow> jdict" where
  "mapping_of v = (case v of JObj d \<Rightarrow> d | _ \<Rightarrow> [])"

definition one_of :: "json \<Rightarrow> string list \<Rightarrow> bool" where
  "one_of v names = (case v of JStr s \<Rightarrow> s \<in> set names | _ \<Rightarrow> False)"

text \<open>\<open>payload.get(field, default)\<close>: a key that holds \<open>None\<close> stays \<open>None\<close>.\<close>

definition get_default :: "jdict \<Rightarrow> string \<Rightarrow> json \<Rightarrow> json" where
  "get_default d k v = (case dget d k of None \<Rightarrow> v | Some x \<Rightarrow> x)"

definition float_value :: "(string \<Rightarrow> rat option) \<Rightarrow> json \<Rightarrow> pyfloat option" where
  "float_value rd v = (case to_pyfloat rd v of Inl _ \<Rightarrow> None | Inr q \<Rightarrow> Some q)"

text \<open>\<open>int(v)\<close>; of the special values it raises. (\<open>OverflowError\<close> of an infinity counts as \<open>ValueError\<close> here.)\<close>

fun to_int :: "json \<Rightarrow> int option" where
  "to_int (JBool b) = Some (if b then 1 else 0)"
| "to_int (JInt i) = Some i"
| "to_int (JFloat q) = Some (if 0 \<le> q then \<lfloor>q\<rfloor> else \<lceil>q\<rceil>)"
| "to_int (JStr s) = int_of_str s"
| "to_int _ = None"

definition required_issues :: "jdict \<Rightarrow> validation_issue list" where
  "required_issues p =
     concat (map (\<lambda>f. issue_when (jget p f \<in> {JNull, JStr [], JObj []}) ''VR-REQUIRED'' f)
       [''capture_medium'', ''mode'', ''tier'', ''resolution_cap'', ''hallucination_limit'', ''artifact_policy'', ''era_range''])"

definition nested_required_issues :: "jdict \<Rightarrow> jdict \<Rightarrow> validation_issue list" where
  "nested_required_issues policy years =
     concat (map (\<lambda>f. issue_when (jget policy f \<in> {JNull, JStr []}) ''VR-REQUIRED'' (''artifact_policy.'' @ f))
       [''deinterlace'', ''grain_intensity'', ''preserve_edge_fog'', ''preserve_chromatic_aberration'']) @
     concat (map (\<lambda>f. issue_when (jget years f \<in> {JNull, JStr []}) ''VR-REQUIRED'' (''era_range.'' @ f))
       [''start_year'', ''end_year''])"

definition enum_issues :: "jdict \<Rightarrow> jdict \<Rightarrow> validation_issue list" where
  "enum_issues p policy =
     issue_when (\<not> one_of (jget p ''capture_medium'') CAPTURE_MEDIA) ''VR-ENUM'' ''capture_medium'' @
     issue_when (\<not> one_of (jget p ''mode'') MODES) ''VR-ENUM'' ''mode'' @
     issue_when (\<not> one_of (jget p ''tier'') TIERS) ''VR-ENUM'' ''tier'' @
     issue_when (\<not> one_of (jget p ''resolution_cap'') RESOLUTION_CAPS) ''VR-ENUM'' ''resolution_cap'' @
     issue_when (\<not> one_of (jget policy ''grain_intensity'') GRAIN_INTENSITIES) ''VR-ENUM'' ''artifact_policy.grain_intensity''"

definition era_range_issues :: "jdict \<Rightarrow> validation_issue list" where
  "era_range_issues years =
     (let a = jget years ''start_year''; b = jget years ''end_year'' in
      if a = JNull \<or> b = JNull then []
      else (case (to_int a, to_int b) of
              (Some start, Some stop) \<Rightarrow> issue_when (start > stop) ''VR-008'' ''era_range''
            | _ \<Rightarrow> issue_when True ''VR-TYPE'' ''era_range''))"

text \<open>
  \<open>validate_era_profile\<close>. \<open>rd\<close> reads a string as a number, \<open>c\<close> prints values. The order of the issues is
  the order in which the code appends them.
\<close>

definition validate_era_profile :: "codec \<Rightarrow> (string \<Rightarrow> rat option) \<Rightarrow> jdict \<Rightarrow> validation_result" where
  "validate_era_profile c rd p =
     (let policy = mapping_of (jget p ''artifact_policy'');
          years = mapping_of (jget p ''era_range'');
          limit = float_value rd (get_default p ''hallucination_limit'' (JInt 0));
          confidence = float_value rd (get_default p ''gemini_confidence'' (JFloat 1));
          confirmed = truthy (jget p ''manual_confirmation_required'');
          mode = jget p ''mode''; medium = jget p ''capture_medium'';
          mode_key = (py_str c (get_default p ''tier'' (JStr [])), py_str c (get_default p ''mode'' (JStr []))) in
      \<lparr>vr_errors =
         required_issues p @ nested_required_issues policy years @ enum_issues p policy @
         issue_when (limit = None) ''VR-TYPE'' ''hallucination_limit'' @
         issue_when (confidence = None) ''VR-TYPE'' ''gemini_confidence'' @
         era_range_issues years @
         issue_when (medium = JStr ''vhs'' \<and> jget policy ''deinterlace'' \<noteq> JBool True) ''VR-001'' ''artifact_policy.deinterlace'' @
         issue_when (mode = JStr ''Conserve'' \<and> limit \<noteq> None \<and> float_lt (Fin (5 / 100)) (the limit)) ''VR-002'' ''hallucination_limit'' @
         issue_when (confidence \<noteq> None \<and> float_lt (the confidence) (Fin (70 / 100)) \<and> \<not> confirmed) ''VR-003'' ''manual_confirmation_required'' @
         issue_when (medium \<in> {JStr ''daguerreotype'', JStr ''albumen''} \<and>
             jget p ''resolution_cap'' \<notin> {JStr ''2k'', JStr ''4k'', JStr ''native_scan''}) ''VR-006'' ''resolution_cap'' @
         issue_when (mode_key = (''Museum'', ''Conserve'') \<and>
             (jget policy ''preserve_edge_fog'' \<noteq> JBool True \<or> jget policy ''preserve_chromatic_aberration'' \<noteq> JBool True))
           ''VR-007'' ''artifact_policy'',
       vr_warnings =
         issue_when (mode = JStr ''Conserve'' \<and> jget policy ''grain_intensity'' \<noteq> JStr ''Matched'') ''VR-004'' ''artifact_policy.grain_intensity'' @
         issue_when (mode = JStr ''Enhance'' \<and> limit \<noteq> None \<and> float_lt (the limit) (Fin (15 / 100))) ''VR-005'' ''hallucination_limit'' @
         issue_when (mode = JStr ''Restore'' \<and> limit \<noteq> None \<and> \<not> (float_lt (Fin (5 / 100)) (the limit) \<and> float_le (the limit) (Fin (20 / 100)))) ''VR-009'' ''hallucination_limit''\<rparr>)"

section \<open>What an accepted profile is\<close>

text \<open>The rules as a predicate on the profile, without reference to issues and their order.\<close>

definition era_profile_ok :: "codec \<Rightarrow> (string \<Rightarrow> rat option) \<Rightarrow> jdict \<Rightarrow> bool" where
  "era_profile_ok c rd p \<longleftrightarrow>
     (let policy = mapping_of (jget p ''artifact_policy''); years = mapping_of (jget p ''era_range'') in
      one_of (jget p ''capture_medium'') CAPTURE_MEDIA \<and> one_of (jget p ''mode'') MODES \<and> one_of (jget p ''tier'') TIERS \<and>
      one_of (jget p ''resolution_cap'') RESOLUTION_CAPS \<and> one_of (jget policy ''grain_intensity'') GRAIN_INTENSITIES \<and>
      jget policy ''deinterlace'' \<notin> {JNull, JStr []} \<and> jget policy ''preserve_edge_fog'' \<notin> {JNull, JStr []} \<and>
      jget policy ''preserve_chromatic_aberration'' \<notin> {JNull, JStr []} \<and>
      (\<exists>start stop. to_int (jget years ''start_year'') = Some start \<and> to_int (jget years ''end_year'') = Some stop \<and> start \<le> stop) \<and>
      (\<exists>limit. jget p ''hallucination_limit'' \<notin> {JNull, JStr []} \<and> to_pyfloat rd (jget p ''hallucination_limit'') = Inr limit \<and>
         (jget p ''mode'' = JStr ''Conserve'' \<longrightarrow> \<not> float_lt (Fin (5 / 100)) limit)) \<and>
      (\<exists>confidence. to_pyfloat rd (get_default p ''gemini_confidence'' (JFloat 1)) = Inr confidence \<and>
         (\<not> float_lt confidence (Fin (70 / 100)) \<or> truthy (jget p ''manual_confirmation_required''))) \<and>
      (jget p ''capture_medium'' = JStr ''vhs'' \<longrightarrow> jget policy ''deinterlace'' = JBool True) \<and>
      (jget p ''capture_medium'' \<in> {JStr ''daguerreotype'', JStr ''albumen''} \<longrightarrow> jget p ''resolution_cap'' \<noteq> JStr ''1080p'') \<and>
      (jget p ''tier'' = JStr ''Museum'' \<and> jget p ''mode'' = JStr ''Conserve'' \<longrightarrow>
         jget policy ''preserve_edge_fog'' = JBool True \<and> jget policy ''preserve_chromatic_aberration'' = JBool True))"

lemma one_of_iff: "one_of v names \<longleftrightarrow> (\<exists>s \<in> set names. v = JStr s)"
  by (auto simp: one_of_def split: json.splits)

lemma float_value_iff: "float_value rd v = Some q \<longleftrightarrow> to_pyfloat rd v = Inr q"
  by (simp add: float_value_def split: sum.splits)

lemma era_range_ok:
  "nested_required_issues policy years = [] \<and> era_range_issues years = [] \<longleftrightarrow>
   jget policy ''deinterlace'' \<notin> {JNull, JStr []} \<and> jget policy ''grain_intensity'' \<notin> {JNull, JStr []} \<and>
   jget policy ''preserve_edge_fog'' \<notin> {JNull, JStr []} \<and> jget policy ''preserve_chromatic_aberration'' \<notin> {JNull, JStr []} \<and>
   (\<exists>start stop. to_int (jget years ''start_year'') = Some start \<and> to_int (jget years ''end_year'') = Some stop \<and> start \<le> stop)"
proof -
  have empty: "int_of_str [] = None" by (simp add: int_of_str_def)
  show ?thesis
    by (cases "jget years ''start_year'' \<in> {JNull, JStr []} \<or> jget years ''end_year'' \<in> {JNull, JStr []}")
      (auto simp: nested_required_issues_def era_range_issues_def Let_def empty split: option.splits)
qed

text \<open>The rules are complete and nothing else rejects a profile.\<close>

lemma validate_iff_ok: "is_valid (validate_era_profile c rd p) \<longleftrightarrow> era_profile_ok c rd p"
proof -
  define policy where "policy = mapping_of (jget p ''artifact_policy'')"
  define years where "years = mapping_of (jget p ''era_range'')"
  have present: "jget policy k = JNull" if "jget p ''artifact_policy'' \<in> {JNull, JStr [], JObj []}" for k
    using that by (auto simp: policy_def mapping_of_def)
  have present_years: "jget years k = JNull" if "jget p ''era_range'' \<in> {JNull, JStr [], JObj []}" for k
    using that by (auto simp: years_def mapping_of_def)
  have limit: "get_default p ''hallucination_limit'' (JInt 0) = jget p ''hallucination_limit''"
    if "jget p ''hallucination_limit'' \<noteq> JNull"
    using that by (simp add: get_default_def jget_def split: option.splits)
  define limit where "limit = float_value rd (get_default p ''hallucination_limit'' (JInt 0))"
  define confidence where "confidence = float_value rd (get_default p ''gemini_confidence'' (JFloat 1))"
  define key where "key = (py_str c (get_default p ''tier'' (JStr [])), py_str c (get_default p ''mode'' (JStr [])))"
  have key: "key = (''Museum'', ''Conserve'') \<longleftrightarrow> jget p ''tier'' = JStr ''Museum'' \<and> jget p ''mode'' = JStr ''Conserve''"
    if "one_of (jget p ''tier'') TIERS" "one_of (jget p ''mode'') MODES"
    using that by (auto simp: key_def get_default_def jget_def one_of_iff split: option.splits)
  have cap: "jget p ''resolution_cap'' \<notin> {JStr ''2k'', JStr ''4k'', JStr ''native_scan''} \<longleftrightarrow> jget p ''resolution_cap'' = JStr ''1080p''"
    if "one_of (jget p ''resolution_cap'') RESOLUTION_CAPS"
    using that by (auto simp: one_of_iff RESOLUTION_CAPS_def)
  have issues: "is_valid (validate_era_profile c rd p) \<longleftrightarrow>
      required_issues p = [] \<and> enum_issues p policy = [] \<and> (nested_required_issues policy years = [] \<and> era_range_issues years = []) \<and>
      limit \<noteq> None \<and> confidence \<noteq> None \<and>
      (jget p ''capture_medium'' = JStr ''vhs'' \<longrightarrow> jget policy ''deinterlace'' = JBool True) \<and>
      (jget p ''mode'' = JStr ''Conserve'' \<longrightarrow> \<not> float_lt (Fin (5 / 100)) (the limit)) \<and>
      (\<not> float_lt (the confidence) (Fin (70 / 100)) \<or> truthy (jget p ''manual_confirmation_required'')) \<and>
      (jget p ''capture_medium'' \<in> {JStr ''daguerreotype'', JStr ''albumen''} \<longrightarrow>
         jget p ''resolution_cap'' \<in> {JStr ''2k'', JStr ''4k'', JStr ''native_scan''}) \<and>
      (key = (''Museum'', ''Conserve'') \<longrightarrow>
         jget policy ''preserve_edge_fog'' = JBool True \<and> jget policy ''preserve_chromatic_aberration'' = JBool True)"
    unfolding validate_era_profile_def is_valid_def Let_def policy_def [symmetric] years_def [symmetric] limit_def [symmetric]
      confidence_def [symmetric] key_def [symmetric]
    by simp blast
  have enums: "enum_issues p policy = [] \<longleftrightarrow>
      one_of (jget p ''capture_medium'') CAPTURE_MEDIA \<and> one_of (jget p ''mode'') MODES \<and> one_of (jget p ''tier'') TIERS \<and>
      one_of (jget p ''resolution_cap'') RESOLUTION_CAPS \<and> one_of (jget policy ''grain_intensity'') GRAIN_INTENSITIES"
    by (simp add: enum_issues_def)
  have req: "required_issues p = [] \<longleftrightarrow> jget p ''hallucination_limit'' \<notin> {JNull, JStr [], JObj []}"
    if "one_of (jget p ''capture_medium'') CAPTURE_MEDIA" "one_of (jget p ''mode'') MODES" "one_of (jget p ''tier'') TIERS"
      "one_of (jget p ''resolution_cap'') RESOLUTION_CAPS" "jget policy ''deinterlace'' \<noteq> JNull" "jget years ''start_year'' \<noteq> JNull"
  proof -
    have v: "v \<notin> {JNull, JStr [], JObj []}" if "one_of v names" "[] \<notin> set names" for v names
      using that by (auto simp: one_of_iff)
    have "jget p ''capture_medium'' \<notin> {JNull, JStr [], JObj []}" "jget p ''mode'' \<notin> {JNull, JStr [], JObj []}"
      "jget p ''tier'' \<notin> {JNull, JStr [], JObj []}" "jget p ''resolution_cap'' \<notin> {JNull, JStr [], JObj []}"
      by (rule v [OF that(1)] v [OF that(2)] v [OF that(3)] v [OF that(4)]; simp add: era_enums)+
    moreover have "jget p ''artifact_policy'' \<notin> {JNull, JStr [], JObj []}" "jget p ''era_range'' \<notin> {JNull, JStr [], JObj []}"
      using that(5,6) present present_years by blast+
    ultimately show ?thesis by (simp add: required_issues_def)
  qed
  have limit_iff: "limit = Some q \<longleftrightarrow> to_pyfloat rd (jget p ''hallucination_limit'') = Inr q"
    if "jget p ''hallucination_limit'' \<noteq> JNull" for q
    using that limit by (simp add: limit_def float_value_iff)
  have lim: "(\<exists>q. jget p ''hallucination_limit'' \<notin> {JNull, JStr []} \<and> to_pyfloat rd (jget p ''hallucination_limit'') = Inr q \<and>
         (jget p ''mode'' = JStr ''Conserve'' \<longrightarrow> \<not> float_lt (Fin (5 / 100)) q)) \<longleftrightarrow>
      jget p ''hallucination_limit'' \<notin> {JNull, JStr [], JObj []} \<and> limit \<noteq> None \<and> (jget p ''mode'' = JStr ''Conserve'' \<longrightarrow> \<not> float_lt (Fin (5 / 100)) (the limit))"
    using limit_iff by fastforce
  have conf: "(\<exists>q. to_pyfloat rd (get_default p ''gemini_confidence'' (JFloat 1)) = Inr q \<and>
         (\<not> float_lt q (Fin (70 / 100)) \<or> truthy (jget p ''manual_confirmation_required''))) \<longleftrightarrow>
      confidence \<noteq> None \<and> (\<not> float_lt (the confidence) (Fin (70 / 100)) \<or> truthy (jget p ''manual_confirmation_required''))"
    by (auto simp: confidence_def float_value_def split: sum.splits)
  have grain: "jget policy ''grain_intensity'' \<notin> {JNull, JStr []}" if "one_of (jget policy ''grain_intensity'') GRAIN_INTENSITIES"
    using that by (auto simp: one_of_iff GRAIN_INTENSITIES_def)
  have year: "jget years ''start_year'' \<noteq> JNull"
    if "\<exists>start stop. to_int (jget years ''start_year'') = Some start \<and> to_int (jget years ''end_year'') = Some stop \<and> start \<le> stop"
    using that by auto
  note rewritten = issues era_profile_ok_def Let_def policy_def [symmetric] years_def [symmetric] era_range_ok enums lim conf
  show ?thesis
  proof (cases "(one_of (jget p ''capture_medium'') CAPTURE_MEDIA \<and> one_of (jget p ''mode'') MODES \<and> one_of (jget p ''tier'') TIERS \<and>
      one_of (jget p ''resolution_cap'') RESOLUTION_CAPS \<and> one_of (jget policy ''grain_intensity'') GRAIN_INTENSITIES) \<and>
      jget policy ''deinterlace'' \<noteq> JNull \<and>
      (\<exists>start stop. to_int (jget years ''start_year'') = Some start \<and> to_int (jget years ''end_year'') = Some stop \<and> start \<le> stop)")
    case True
    then have eqs: "required_issues p = [] \<longleftrightarrow> jget p ''hallucination_limit'' \<notin> {JNull, JStr [], JObj []}"
      "key = (''Museum'', ''Conserve'') \<longleftrightarrow> jget p ''tier'' = JStr ''Museum'' \<and> jget p ''mode'' = JStr ''Conserve''"
      "jget p ''resolution_cap'' \<in> {JStr ''2k'', JStr ''4k'', JStr ''native_scan''} \<longleftrightarrow> jget p ''resolution_cap'' \<noteq> JStr ''1080p''"
      using req key cap year by blast+
    show ?thesis unfolding rewritten eqs using True grain by blast
  next
    case False
    then show ?thesis unfolding rewritten by blast
  qed
qed

end
