(* ===== verification/Runtime_Ops.thy ===== *)
theory Runtime_Ops
  imports Job_Store
begin

text \<open>
  \<open>app/services/runtime_ops.py\<close> with the repository it writes to: the segment cache, the pool of GPU
  leases, the processing-time SLO and the incidents. The state also holds the two sources of
  nondeterminism, read in order: the clock (\<open>ticks\<close> counts its readings) and \<open>uuid4\<close> (\<open>draws\<close>).
  Redis, when configured, is outside the program: a call works on the same table,
  finds the entry expired, or fails.
  Alert delivery to PagerDuty and Slack, whose failures the code swallows, and the metrics are left out.
\<close>

section \<open>State and environment\<close>

datatype lease_state = Idle | Busy | Released

record lease =
  worker_id :: string
  ls_gpu_type :: string
  lease_state :: lease_state
  is_warm :: bool
  current_job_id :: "string option"
  queue_depth_snapshot :: int
  md_queue_age_seconds :: rat
  md_desired_warm_instances :: int
  md_plan_tier :: "string option"
  md_warm_start :: "bool option"
  md_last_gpu_runtime_seconds :: "int option"
  allocated_at :: "time option"
  released_at :: "time option"
  expires_at :: "time option"
  ls_updated_at :: time

record incident =
  incident_key :: string
  incident_id :: string
  severity :: string
  incident_state :: string
  source_signal :: string
  incident_summary :: string
  opened_at :: time
  postmortem_due_at :: "time option"
  in_updated_at :: time

record cache_entry =
  ce_output_uri :: string
  ce_quality_metrics :: quality
  ce_reproducibility_proof :: reproducibility_proof
  ce_uncertainty_callouts :: "string list"

record slo_sample =
  ss_job_id :: string
  ss_ratio :: rat
  ss_plan_tier :: string

record ops_state =
  gpu_leases :: "(string, lease) pydict"
  incidents :: "(string, incident) pydict"
  segment_cache :: "(string, cache_entry) pydict"
  slo_history :: "slo_sample list"
  alert_history :: "(string \<times> string) list"
  ticks :: nat
  draws :: nat

text \<open>What a call to Redis finds: the table, the table without this entry (it expired), or no server.\<close>

datatype redis_reply = Usable | Gone | Unreachable

datatype redis_mode = NoRedis | RedisMissing | RedisAt "nat \<Rightarrow> redis_reply"

record ops_env =
  clock :: "nat \<Rightarrow> time"
  uuid_hex :: "nat \<Rightarrow> string"
  redis :: redis_mode
  oe_codec :: codec
  segment_cache_namespace :: string
  gpu_pool_min_warm_instances :: int
  gpu_pool_scale_step :: int
  gpu_pool_queue_depth_threshold :: int
  gpu_pool_idle_timeout_seconds :: int
  gpu_warm_allocation_latency_ms :: int
  gpu_cold_allocation_latency_ms :: int
  slo_degradation_threshold_percent :: rat
  museum_processing_sla_enabled :: bool

definition utc_now :: "ops_env \<Rightarrow> (ops_state, time) prog" where
  "utc_now env = (\<lambda>s. (Inr (clock env (ticks s)), s\<lparr>ticks := Suc (ticks s)\<rparr>))"

definition draw_uuid :: "ops_env \<Rightarrow> (ops_state, string) prog" where
  "draw_uuid env = (\<lambda>s. (Inr (uuid_hex env (draws s)), s\<lparr>draws := Suc (draws s)\<rparr>))"

definition reset_runtime_ops_state :: "ops_state \<Rightarrow> ops_state" where
  "reset_runtime_ops_state s = s\<lparr>segment_cache := [], slo_history := [], alert_history := []\<rparr>"

section \<open>\<open>_MemoryRuntimeOpsRepository\<close>\<close>

definition list_gpu_leases :: "(ops_state, lease list) prog" where
  "list_gpu_leases = getsE (\<lambda>s. map snd (gpu_leases s))"

text \<open>The payload always comes without \<open>created_at\<close>; a lease's \<open>worker_id\<close> is its key.\<close>

definition upsert_gpu_lease :: "ops_env \<Rightarrow> string \<Rightarrow> lease \<Rightarrow> (ops_state, lease) prog" where
  "upsert_gpu_lease env wid l =
     bindE (utc_now env) (\<lambda>created.
     bindE (utc_now env) (\<lambda>now.
     let r = l\<lparr>worker_id := wid, ls_updated_at := now\<rparr> in
     bindE (modifyE (\<lambda>s. s\<lparr>gpu_leases := dset wid r (gpu_leases s)\<rparr>)) (\<lambda>_. ret r)))"

definition delete_gpu_lease :: "string \<Rightarrow> (ops_state, unit) prog" where
  "delete_gpu_lease wid = modifyE (\<lambda>s. s\<lparr>gpu_leases := dpop wid (gpu_leases s)\<rparr>)"

definition queued_job_backlog_count :: "job_store \<Rightarrow> int" where
  "queued_job_backlog_count js = int (length (filter (\<lambda>j. job_status j = Queued) (map snd (jobs js))))"

definition runnable_backlog_depth :: "job_store \<Rightarrow> int" where
  "runnable_backlog_depth js = max (queued_job_backlog_count js) 1"

text \<open>An existing incident keeps its id; its other fields come from the payload.\<close>

definition upsert_incident :: "ops_env \<Rightarrow> incident \<Rightarrow> (ops_state, incident) prog" where
  "upsert_incident env inc =
     bindE (draw_uuid env) (\<lambda>new_id.
     bindE (utc_now env) (\<lambda>spare.
     bindE (utc_now env) (\<lambda>now.
     bindE (getsE (\<lambda>s. dget (incidents s) (incident_key inc))) (\<lambda>existing.
     let r = inc\<lparr>incident_id := (case existing of None \<Rightarrow> new_id | Some old \<Rightarrow> incident_id old), in_updated_at := now\<rparr> in
     bindE (modifyE (\<lambda>s. s\<lparr>incidents := dset (incident_key inc) r (incidents s)\<rparr>)) (\<lambda>_. ret r)))))"

definition list_incidents :: "(ops_state, incident list) prog" where
  "list_incidents = getsE (\<lambda>s. sort_key (\<lambda>i. - opened_at i) (map snd (incidents s)))"

section \<open>Segment cache\<close>

record cache_request =
  cr_user_id :: string
  cr_checksum :: string
  cr_segment :: segment
  cr_profile :: json
  cr_mode :: string
  cr_namespace :: string
  cr_variant :: pipeline_variant

definition cache_key_payload :: "cache_request \<Rightarrow> json" where
  "cache_key_payload r =
     (let v = cr_variant r in
      JObj [(''user_id'', JStr (cr_user_id r)), (''source_asset_checksum'', JStr (cr_checksum r)),
        (''segment_index'', JInt (sg_index (cr_segment r))),
        (''segment_start_seconds'', JInt (sg_start_seconds (cr_segment r))),
        (''segment_end_seconds'', JInt (sg_end_seconds (cr_segment r))),
        (''effective_fidelity_profile'', cr_profile r), (''reproducibility_mode'', JStr (cr_mode r)),
        (''version_namespace'', JStr (cr_namespace r)),
        (''pipeline_variant'', JObj [(''processing_mode'', JStr (pv_processing_mode v)),
           (''config_hash'', JStr (config_hash v)), (''model_digest'', JStr (model_digest v)),
           (''era_profile_digest'', JStr (era_profile_digest v)),
           (''fidelity_profile_digest'', JStr (fidelity_profile_digest v)),
           (''encoder_digest'', JStr (encoder_digest v))])])"

definition build_segment_cache_key :: "ops_env \<Rightarrow> cache_request \<Rightarrow> string" where
  "build_segment_cache_key env r =
     segment_cache_namespace env @ '':'' @
       sha256_hex (oe_codec env) (json_dumps_compact (oe_codec env) (cache_key_payload r))"

record cache_state =
  cst_status :: cache_status
  cst_latency_ms :: "int option"
  cst_namespace :: string
  cst_cached_output_uri :: "string option"
  cst_degraded :: bool

text \<open>\<open>_segment_cache_backend()\<close> and one call on what it returns. A missing package raises.\<close>

definition cache_backend :: "ops_env \<Rightarrow> (ops_state, redis_reply) prog" where
  "cache_backend env =
     (case redis env of
        NoRedis \<Rightarrow> ret Usable
      | RedisMissing \<Rightarrow> raise (RuntimeError ''redis package is required when SEGMENT_CACHE_MODE=redis.'')
      | RedisAt up \<Rightarrow> getsE (\<lambda>s. up (ticks s)))"

definition bypass_state :: "ops_env \<Rightarrow> cache_state" where
  "bypass_state env = \<lparr>cst_status = CacheBypass, cst_latency_ms = None, cst_namespace = segment_cache_namespace env,
     cst_cached_output_uri = None, cst_degraded = True\<rparr>"

definition lookup_segment_cache ::
  "ops_env \<Rightarrow> cache_request \<Rightarrow> (ops_state, cache_entry option \<times> cache_state) prog" where
  "lookup_segment_cache env r =
     (let key = build_segment_cache_key env r in
      bindE (utc_now env) (\<lambda>started.
      bindE (cache_backend env) (\<lambda>reply.
      case reply of
        Unreachable \<Rightarrow> ret (None, bypass_state env)
      | _ \<Rightarrow>
          bindE (getsE (\<lambda>s. if reply = Gone then None else dget (segment_cache s) key)) (\<lambda>entry.
          bindE (utc_now env) (\<lambda>now.
          let latency = max ((now - started) div 1000) 1 in
          ret (entry, \<lparr>cst_status = (if entry = None then CacheMiss else CacheHit), cst_latency_ms = Some latency,
            cst_namespace = segment_cache_namespace env,
            cst_cached_output_uri = map_option ce_output_uri entry, cst_degraded = False\<rparr>))))))"

text \<open>The result is the flag \<open>degraded\<close>.\<close>

definition store_segment_cache :: "ops_env \<Rightarrow> string \<Rightarrow> cache_entry \<Rightarrow> (ops_state, bool) prog" where
  "store_segment_cache env key entry =
     bindE (cache_backend env) (\<lambda>reply.
     case reply of
       Unreachable \<Rightarrow> ret True
     | _ \<Rightarrow> bindE (modifyE (\<lambda>s. s\<lparr>segment_cache := dset key entry (segment_cache s)\<rparr>)) (\<lambda>_. ret False))"

section \<open>The GPU pool\<close>

definition desired_warm_pool :: "ops_env \<Rightarrow> int \<Rightarrow> int" where
  "desired_warm_pool env queue_depth =
     (let min_warm = max (gpu_pool_min_warm_instances env) 0;
          threshold = max (gpu_pool_queue_depth_threshold env) 1 in
      if queue_depth \<le> threshold then min_warm
      else min_warm + ceil_div (queue_depth - threshold) threshold * max (gpu_pool_scale_step env) 1)"

definition active_warm :: "lease \<Rightarrow> bool" where
  "active_warm l = (lease_state l \<noteq> Released \<and> is_warm l)"

definition fresh_warm_lease :: "ops_env \<Rightarrow> int \<Rightarrow> rat \<Rightarrow> int \<Rightarrow> time \<Rightarrow> lease" where
  "fresh_warm_lease env queue_depth age desired now =
     \<lparr>worker_id = [], ls_gpu_type = ''L4'', lease_state = Idle, is_warm = True, current_job_id = None,
       queue_depth_snapshot = queue_depth, md_queue_age_seconds = py_round 3 age, md_desired_warm_instances = desired,
       md_plan_tier = None, md_warm_start = None, md_last_gpu_runtime_seconds = None, allocated_at = None,
       released_at = None, expires_at = Some (now + gpu_pool_idle_timeout_seconds env * 1000000), ls_updated_at = 0\<rparr>"

text \<open>The \<open>while len(active_warm) < desired\<close> loop, with the leases missing as its count.\<close>

fun add_warm :: "ops_env \<Rightarrow> int \<Rightarrow> rat \<Rightarrow> int \<Rightarrow> nat \<Rightarrow> (ops_state, lease list) prog" where
  "add_warm env depth age desired 0 = ret []"
| "add_warm env depth age desired (Suc n) =
     bindE (draw_uuid env) (\<lambda>u.
     bindE (utc_now env) (\<lambda>now.
     bindE (upsert_gpu_lease env (''warm-'' @ take 8 u) (fresh_warm_lease env depth age desired now)) (\<lambda>l.
     bindE (add_warm env depth age desired n) (\<lambda>ls. ret (l # ls)))))"

definition refreshed :: "int \<Rightarrow> rat \<Rightarrow> int \<Rightarrow> lease \<Rightarrow> lease" where
  "refreshed depth age desired l = l\<lparr>queue_depth_snapshot := depth, md_queue_age_seconds := py_round 3 age,
     md_desired_warm_instances := desired\<rparr>"

fun refresh_leases :: "ops_env \<Rightarrow> int \<Rightarrow> rat \<Rightarrow> int \<Rightarrow> lease list \<Rightarrow> (ops_state, lease list) prog" where
  "refresh_leases env depth age desired [] = ret []"
| "refresh_leases env depth age desired (l # ls) =
     bindE (upsert_gpu_lease env (worker_id l) (refreshed depth age desired l)) (\<lambda>l'.
     bindE (refresh_leases env depth age desired ls) (\<lambda>ls'. ret (l' # ls')))"

record pool_snapshot =
  ps_queue_depth :: int
  ps_queue_age_seconds :: rat
  ps_desired_warm_instances :: int
  ps_active_warm_instances :: int
  ps_busy_instances :: int
  ps_idle_instances :: int
  ps_utilization_percent :: rat

definition utilization :: "int \<Rightarrow> int \<Rightarrow> rat" where
  "utilization busy act = (if act = 0 then 0 else py_round 2 ((of_int busy / of_int (max act 1)) * 100))"

definition snapshot_of :: "int \<Rightarrow> rat \<Rightarrow> int \<Rightarrow> lease list \<Rightarrow> pool_snapshot" where
  "snapshot_of depth age desired ls =
     (let act = int (length ls); busy = int (length (filter (\<lambda>l. lease_state l = Busy) ls)) in
      \<lparr>ps_queue_depth = depth, ps_queue_age_seconds = py_round 3 age, ps_desired_warm_instances = desired,
        ps_active_warm_instances = act, ps_busy_instances = busy, ps_idle_instances = max (act - busy) 0,
        ps_utilization_percent = utilization busy act\<rparr>)"

definition reconcile_gpu_pool :: "ops_env \<Rightarrow> int \<Rightarrow> rat \<Rightarrow> (ops_state, pool_snapshot) prog" where
  "reconcile_gpu_pool env depth age =
     bindE list_gpu_leases (\<lambda>leases.
     let warm = filter active_warm leases;
         idle = filter (\<lambda>l. lease_state l = Idle) warm;
         desired = desired_warm_pool env depth in
     bindE (add_warm env depth age desired (nat (desired - int (length warm)))) (\<lambda>added.
     let warm' = warm @ added; idle' = idle @ added; surplus = int (length warm') - desired in
     bindE
       (if surplus > 0
        then
          bindE (forE (take (nat surplus) idle') (\<lambda>l. delete_gpu_lease (worker_id l))) (\<lambda>_.
          bindE list_gpu_leases (\<lambda>ls. ret (filter active_warm ls)))
        else ret warm') (\<lambda>kept.
     bindE (refresh_leases env depth age desired kept) (\<lambda>final.
     ret (snapshot_of depth age desired final)))))"

record allocation =
  al_gpu_type :: string
  al_warm_start :: bool
  al_latency_ms :: int
  al_queue_wait_ms :: int
  al_pool :: pool_snapshot
  al_worker_id :: string

text \<open>What \<open>allocate_gpu\<close> reads of the job it is called with.\<close>

record gpu_request =
  gr_job_id :: string
  gr_plan_tier :: string
  gr_queued_at :: time

definition busy_lease ::
  "ops_env \<Rightarrow> gpu_request \<Rightarrow> bool \<Rightarrow> pool_snapshot \<Rightarrow> rat \<Rightarrow> lease option \<Rightarrow> string \<Rightarrow> time \<Rightarrow> time \<Rightarrow> lease" where
  "busy_lease env r warm pool age selected target now now2 =
     \<lparr>worker_id = [], ls_gpu_type = target, lease_state = Busy, is_warm = warm, current_job_id = Some (gr_job_id r),
       queue_depth_snapshot = ps_queue_depth pool, md_queue_age_seconds = py_round 3 age,
       md_desired_warm_instances = ps_desired_warm_instances pool, md_plan_tier = Some (gr_plan_tier r),
       md_warm_start = Some warm,
       md_last_gpu_runtime_seconds = (case selected of None \<Rightarrow> None | Some l \<Rightarrow> md_last_gpu_runtime_seconds l),
       allocated_at = Some now, released_at = None,
       expires_at = Some (now2 + gpu_pool_idle_timeout_seconds env * 1000000), ls_updated_at = 0\<rparr>"

text \<open>The \<open>try\<close> block of \<open>allocate_gpu\<close>: write the busy lease and reconcile, or put back what was there.\<close>

definition hold_gpu ::
  "ops_env \<Rightarrow> gpu_request \<Rightarrow> int \<Rightarrow> pool_snapshot \<Rightarrow> rat \<Rightarrow> lease option \<Rightarrow> string \<Rightarrow> string \<Rightarrow>
   (ops_state, pool_snapshot) prog" where
  "hold_gpu env r depth pool age selected target wid =
     catchE
       (bindE (utc_now env) (\<lambda>now1.
        bindE (utc_now env) (\<lambda>now2.
        bindE (upsert_gpu_lease env wid (busy_lease env r (selected \<noteq> None) pool age selected target now1 now2)) (\<lambda>_.
        reconcile_gpu_pool env (ps_queue_depth pool) age))))
       (\<lambda>e.
          bindE
            (case selected of
               Some l \<Rightarrow> bindE (upsert_gpu_lease env wid
                          (refreshed (if queue_depth_snapshot l = 0 then depth else queue_depth_snapshot l)
                             (md_queue_age_seconds l) (md_desired_warm_instances l) l)) (\<lambda>_. ret ())
             | None \<Rightarrow> delete_gpu_lease wid) (\<lambda>_. raise e))"

definition select_idle :: "lease list \<Rightarrow> lease option" where
  "select_idle leases =
     (case filter (\<lambda>l. lease_state l = Idle \<and> is_warm l) leases of [] \<Rightarrow> None | l # _ \<Rightarrow> Some l)"

definition worker_for :: "ops_env \<Rightarrow> lease option \<Rightarrow> (ops_state, string) prog" where
  "worker_for env selected =
     (case selected of Some l \<Rightarrow> ret (worker_id l)
      | None \<Rightarrow> bindE (draw_uuid env) (\<lambda>u. ret (''cold-'' @ take 8 u)))"

definition allocate_gpu :: "ops_env \<Rightarrow> job_store \<Rightarrow> gpu_request \<Rightarrow> (ops_state, allocation) prog" where
  "allocate_gpu env js r =
     bindE (utc_now env) (\<lambda>now0.
     let wait = max ((now0 - gr_queued_at r) div 1000) 0;
         age = py_round 3 (of_int wait / 1000);
         depth = runnable_backlog_depth js;
         target = (if lower (gr_plan_tier r) = ''museum'' then ''RTX 6000'' else ''L4'') in
     bindE (reconcile_gpu_pool env depth age) (\<lambda>pool.
     bindE list_gpu_leases (\<lambda>leases.
     let selected = select_idle leases;
         latency = (if selected \<noteq> None then gpu_warm_allocation_latency_ms env
                    else gpu_cold_allocation_latency_ms env) in
     bindE (worker_for env selected) (\<lambda>wid.
     bindE (hold_gpu env r depth pool age selected target wid) (\<lambda>pool'.
     ret \<lparr>al_gpu_type = target, al_warm_start = (selected \<noteq> None), al_latency_ms = latency,
       al_queue_wait_ms = wait, al_pool = pool', al_worker_id = wid\<rparr>)))))"

definition release_lease :: "ops_env \<Rightarrow> int \<Rightarrow> lease \<Rightarrow> (ops_state, unit) prog" where
  "release_lease env runtime l =
     (if is_warm l then
        bindE (utc_now env) (\<lambda>now.
        bindE (utc_now env) (\<lambda>now2.
        bindE (upsert_gpu_lease env (worker_id l)
          (l\<lparr>lease_state := Idle, is_warm := True, current_job_id := None,
             md_queue_age_seconds := py_round 3 (md_queue_age_seconds l),
             md_last_gpu_runtime_seconds := Some runtime, released_at := Some now,
             expires_at := Some (now2 + gpu_pool_idle_timeout_seconds env * 1000000)\<rparr>)) (\<lambda>_. ret ())))
      else delete_gpu_lease (worker_id l))"

definition release_gpu :: "ops_env \<Rightarrow> string \<Rightarrow> int \<Rightarrow> (ops_state, pool_snapshot) prog" where
  "release_gpu env jid runtime =
     bindE list_gpu_leases (\<lambda>leases.
     bindE (case filter (\<lambda>l. current_job_id l = Some jid) leases of
              [] \<Rightarrow> ret ()
            | l # _ \<Rightarrow> release_lease env runtime l) (\<lambda>_.
     reconcile_gpu_pool env 0 0))"

section \<open>Who holds a GPU\<close>

text \<open>
  \<open>held_by K jid\<close>: leases are stored under their worker id, and those held by the job \<open>jid\<close> are under
  keys in \<open>K\<close>. Every operation of the pool returns normally.
\<close>

definition held_by :: "string set \<Rightarrow> string \<Rightarrow> ops_state \<Rightarrow> bool" where
  "held_by K jid s \<longleftrightarrow> pydict_ok (gpu_leases s) \<and>
     (\<forall>(k, l) \<in> set (gpu_leases s). worker_id l = k \<and> (current_job_id l = Some jid \<longrightarrow> k \<in> K))"

definition lease_in :: "string set \<Rightarrow> string \<Rightarrow> lease \<Rightarrow> bool" where
  "lease_in K jid l = (current_job_id l = Some jid \<longrightarrow> worker_id l \<in> K)"

definition idle_is_free :: "ops_state \<Rightarrow> bool" where
  "idle_is_free s \<longleftrightarrow> (\<forall>l \<in> snd ` set (gpu_leases s). lease_state l = Idle \<longrightarrow> current_job_id l = None)"

lemma held_by_ticks [simp]:
  "held_by K jid (s\<lparr>ticks := n\<rparr>) = held_by K jid s" "held_by K jid (s\<lparr>draws := n\<rparr>) = held_by K jid s"
  by (simp_all add: held_by_def)

lemma wp_utc_now [wp_simps]: "wp (utc_now env) Q E s = Q (clock env (ticks s)) (s\<lparr>ticks := Suc (ticks s)\<rparr>)"
  by (simp add: wp_def utc_now_def)

lemma wp_draw_uuid [wp_simps]: "wp (draw_uuid env) Q E s = Q (uuid_hex env (draws s)) (s\<lparr>draws := Suc (draws s)\<rparr>)"
  by (simp add: wp_def draw_uuid_def)

lemma wp_list_gpu_leases [wp_simps]: "wp list_gpu_leases Q E s = Q (map snd (gpu_leases s)) s"
  by (simp add: list_gpu_leases_def wp_getsE)

lemma wp_delete_gpu_lease [wp_simps]:
  "wp (delete_gpu_lease w) Q E s = Q () (s\<lparr>gpu_leases := dpop w (gpu_leases s)\<rparr>)"
  by (simp add: delete_gpu_lease_def wp_modifyE)

lemma dset_in: "(k, v) \<in> set (dset a b d) \<Longrightarrow> (k, v) = (a, b) \<or> (k, v) \<in> set d \<and> (pydict_ok d \<longrightarrow> k \<noteq> a)"
proof (induction d)
  case Nil
  then show ?case by simp
next
  case (Cons x d)
  then show ?case by (cases x) (force simp: pydict_ok_def split: if_splits)
qed

lemma held_by_put:
  assumes "held_by K jid s" and "worker_id l = w" and "current_job_id l = Some jid \<Longrightarrow> w \<in> K"
    and "gpu_leases t = dset w l (gpu_leases s)"
  shows "held_by K jid t"
  using assms by (auto simp: held_by_def dest!: dset_in)

lemma held_by_delete: "held_by K jid s \<Longrightarrow> held_by K jid (s\<lparr>gpu_leases := dpop w (gpu_leases s)\<rparr>)"
  by (auto simp: held_by_def set_dpop)

lemma held_by_leases: "held_by K jid s \<Longrightarrow> l \<in> snd ` set (gpu_leases s) \<Longrightarrow> lease_in K jid l"
  by (auto simp: held_by_def lease_in_def)

lemma held_by_entry: "held_by K jid s \<Longrightarrow> (k, l) \<in> set (gpu_leases s) \<Longrightarrow> lease_in K jid l"
  by (auto simp: held_by_def lease_in_def)

lemma upsert_gpu_lease_held:
  assumes "held_by K jid s" and "current_job_id l = Some jid \<Longrightarrow> w \<in> K"
  shows "wp (upsert_gpu_lease env w l) (\<lambda>r t. held_by K jid t \<and> lease_in K jid r) (\<lambda>_ _. False) s"
  using assms by (auto simp: upsert_gpu_lease_def wp_simps Let_def lease_in_def
      intro: held_by_put [OF assms(1), where l = "l\<lparr>worker_id := w, ls_updated_at := clock env (Suc (ticks s))\<rparr>"])

lemma add_warm_held:
  "held_by K jid s \<Longrightarrow>
   wp (add_warm env depth age desired n) (\<lambda>ls t. held_by K jid t \<and> (\<forall>l \<in> set ls. lease_in K jid l)) (\<lambda>_ _. False) s"
proof (induction n arbitrary: s)
  case 0
  then show ?case by (simp add: wp_simps)
next
  case (Suc n)
  show ?case
    by (simp add: wp_simps, rule wp_mono [OF upsert_gpu_lease_held [where K = K and jid = jid]])
      (use Suc in \<open>auto simp: fresh_warm_lease_def wp_simps intro: wp_mono [OF Suc.IH]\<close>)
qed

lemma refresh_leases_held:
  "held_by K jid s \<Longrightarrow> \<forall>l \<in> set ls. lease_in K jid l \<Longrightarrow>
   wp (refresh_leases env depth age desired ls) (\<lambda>_ t. held_by K jid t) (\<lambda>_ _. False) s"
proof (induction ls arbitrary: s)
  case Nil
  then show ?case by (simp add: wp_simps)
next
  case (Cons l ls)
  show ?case
    by (simp add: wp_simps, rule wp_mono [OF upsert_gpu_lease_held [where K = K and jid = jid]])
      (use Cons in \<open>auto simp: refreshed_def lease_in_def wp_simps intro: wp_mono [OF Cons.IH]\<close>)
qed

lemma delete_leases_held:
  "held_by K jid s \<Longrightarrow>
   wp (forE ls (\<lambda>l. delete_gpu_lease (worker_id l))) (\<lambda>_ t. held_by K jid t) (\<lambda>_ _. False) s"
  by (induction ls arbitrary: s) (auto simp: wp_simps intro: held_by_delete)

lemma reconcile_gpu_pool_held:
  assumes "held_by K jid s"
  shows "wp (reconcile_gpu_pool env depth age) (\<lambda>_ t. held_by K jid t) (\<lambda>_ _. False) s"
proof -
  have kept: "\<forall>l \<in> set (filter P (map snd (gpu_leases t))). lease_in K jid l" if "held_by K jid t" for P t
    using held_by_leases [OF that] by auto
  have again: "wp (refresh_leases env depth age d (filter active_warm (map snd (gpu_leases t))))
      (\<lambda>_ t. held_by K jid t) (\<lambda>_ _. False) t" if "held_by K jid t" for d t
    using that kept [OF that] by (rule refresh_leases_held)
  have all: "wp (refresh_leases env depth age d (filter active_warm (map snd (gpu_leases s)) @ ls))
      (\<lambda>_ t. held_by K jid t) (\<lambda>_ _. False) t"
    if "held_by K jid t" "\<forall>l \<in> set ls. lease_in K jid l" for d ls t
    using that(1) by (rule refresh_leases_held) (use that(2) kept [OF assms] in auto)
  show ?thesis
    unfolding reconcile_gpu_pool_def Let_def
    by (simp only: wp_simps, rule wp_mono [OF add_warm_held [OF assms]])
      (auto simp only: wp_simps wp_ret split: if_split intro!: again all wp_mono [OF delete_leases_held])
qed

lemma held_by_mono: "held_by K jid s \<Longrightarrow> K \<subseteq> L \<Longrightarrow> held_by L jid s"
  by (auto simp: held_by_def)

lemma hold_gpu_held:
  assumes "held_by {} (gr_job_id r) s"
  shows "wp (hold_gpu env r depth pool age selected target wid) (\<lambda>_ t. held_by {wid} (gr_job_id r) t) (\<lambda>_ _. False) s"
proof -
  have s: "held_by {wid} (gr_job_id r) (s\<lparr>ticks := Suc (Suc (ticks s))\<rparr>)" using assms by (auto intro: held_by_mono)
  show ?thesis
    unfolding hold_gpu_def wp_catchE wp_bindE wp_utc_now
    by (simp, rule wp_mono [OF upsert_gpu_lease_held [OF s]])
      (auto intro!: wp_mono [OF reconcile_gpu_pool_held])
qed

lemma wp_worker_for: "(\<And>w t. held_by {} jid t \<Longrightarrow> Q w t) \<Longrightarrow> held_by {} jid s \<Longrightarrow> wp (worker_for env sel) Q E s"
  by (auto simp: worker_for_def wp_simps split: option.split)

lemma allocate_gpu_held:
  assumes "held_by {} (gr_job_id r) s"
  shows "wp (allocate_gpu env js r) (\<lambda>a t. held_by {al_worker_id a} (gr_job_id r) t) (\<lambda>_ _. False) s"
proof -
  have s0: "held_by {} (gr_job_id r) (s\<lparr>ticks := Suc (ticks s)\<rparr>)" using assms by simp
  show ?thesis
    unfolding allocate_gpu_def Let_def wp_bindE wp_utc_now
    by (rule wp_mono [OF reconcile_gpu_pool_held [OF s0]])
      (auto simp: wp_simps intro!: wp_worker_for wp_mono [OF hold_gpu_held])
qed

lemma release_gpu_held:
  assumes "held_by {w} jid s"
  shows "wp (release_gpu env jid runtime) (\<lambda>_ t. held_by {} jid t) (\<lambda>_ _. False) s"
proof -
  let ?mine = "filter (\<lambda>l. current_job_id l = Some jid) (map snd (gpu_leases s))"
  show ?thesis
  proof (cases ?mine)
    case Nil
    then have "held_by {} jid s"
      using assms by (auto simp: held_by_def filter_empty_conv)
    then show ?thesis
      by (simp add: release_gpu_def wp_simps Nil reconcile_gpu_pool_held)
  next
    case (Cons l ls)
    then have "l \<in> set ?mine" by simp
    then obtain k where kl: "(k, l) \<in> set (gpu_leases s)" "current_job_id l = Some jid" by auto
    with assms have wl: "worker_id l = w" by (auto simp: held_by_def)
    have put: "held_by {} jid t"
      if "gpu_leases t = dset w l' (gpu_leases s)" "worker_id l' = w" "current_job_id l' = None" for l' t
      using assms that by (auto simp: held_by_def dest!: dset_in)
    have del: "held_by {} jid (s\<lparr>gpu_leases := dpop w (gpu_leases s)\<rparr>)"
      using assms by (auto simp: held_by_def set_dpop)
    show ?thesis
      by (auto simp: release_gpu_def wp_simps Cons release_lease_def upsert_gpu_lease_def Let_def wl
          intro!: reconcile_gpu_pool_held del intro: put)
  qed
qed

end
