(* ===== verification/Slo_Incidents.thy ===== *)
theory Slo_Incidents
  imports Runtime_Ops
begin

text \<open>
  The observing half of \<open>app/services/runtime_ops.py\<close>: incidents, the processing-time SLO over the
  history of jobs, saturation checks, the runtime snapshot and the autoscaler check. Delivery of an
  alert to PagerDuty or Slack happens outside the program and its failure is swallowed, so an emitted
  incident is its stored record and its entry in the alert history; fields that are copies of settings
  or constants (URLs, runbook key, communication status) are left out of the record.
\<close>

section \<open>Incidents\<close>

definition WEEK_US :: int where
  "WEEK_US = 7 * 24 * 3600 * 1000000"

definition emit_incident :: "ops_env \<Rightarrow> string \<Rightarrow> string \<Rightarrow> string \<Rightarrow> (ops_state, incident) prog" where
  "emit_incident env sev signal summary =
     (let key = sev @ '':'' @ signal in
      bindE (if sev \<in> {''P0'', ''P1''} then bindE (utc_now env) (\<lambda>t. ret (Some (t + WEEK_US))) else ret None) (\<lambda>due.
      bindE (utc_now env) (\<lambda>opened.
      bindE (upsert_incident env \<lparr>incident_key = key, incident_id = [], severity = sev, incident_state = ''open'',
               source_signal = signal, incident_summary = summary, opened_at = opened, postmortem_due_at = due,
               in_updated_at = 0\<rparr>) (\<lambda>inc.
      bindE (modifyE (\<lambda>s. s\<lparr>alert_history := alert_history s @ [(key, sev)]\<rparr>)) (\<lambda>_. ret inc)))))"

section \<open>Processing-time SLO\<close>

definition p95_of :: "rat list \<Rightarrow> rat" where
  "p95_of rs =
     (let n = int (length rs) in sort rs ! nat (min (max (ceil_div (n * 95) 100 - 1) 0) (n - 1)))"

record slo_request =
  sq_job_id :: string
  sq_duration_seconds :: int
  sq_total_ms :: "int option"
  sq_plan_tier :: string

definition slo_ratio :: "slo_request \<Rightarrow> rat" where
  "slo_ratio q =
     py_round 6 (of_int (case sq_total_ms q of None \<Rightarrow> 0 | Some t \<Rightarrow> t) / of_int (max (sq_duration_seconds q * 2000) 1))"

text \<open>The verdict from the ratios before this job, and the incident it raises.\<close>

definition judge_slo :: "ops_env \<Rightarrow> slo_request \<Rightarrow> rat list \<Rightarrow> slo_summary" where
  "judge_slo env q prior =
     (let ratios = prior @ [slo_ratio q];
          p95 = p95_of ratios;
          failed = int (length (filter (\<lambda>r. r > 1) ratios)) in
      \<lparr>target_total_ms = sq_duration_seconds q * 2000,
        actual_total_ms = Some (case sq_total_ms q of None \<Rightarrow> 0 | Some t \<Rightarrow> t),
        p95_ratio = Some p95, compliant = Some (p95 \<le> 1),
        slo_degraded = (prior \<noteq> [] \<and> p95 > p95_of prior * (1 + slo_degradation_threshold_percent env / 100)),
        error_budget_burn_percent = py_round 2 ((of_int failed / of_nat (max (length ratios) 1)) * 100),
        museum_sla_applies = (lower (sq_plan_tier q) = ''museum'' \<and> museum_processing_sla_enabled env)\<rparr>)"

definition alert_slo :: "ops_env \<Rightarrow> slo_summary \<Rightarrow> (ops_state, unit) prog" where
  "alert_slo env summary =
     (if compliant summary \<noteq> Some True
      then bindE (emit_incident env (if museum_sla_applies summary then ''P1'' else ''P2'') ''processing-time-slo''
                    ''Processing time SLO breached.'') (\<lambda>_. ret ())
      else if slo_degraded summary
      then bindE (emit_incident env ''P3'' ''processing-time-regression''
                    ''Processing time p95 degraded more than 10 percent.'') (\<lambda>_. ret ())
      else ret ())"

definition evaluate_job_slo :: "ops_env \<Rightarrow> slo_request \<Rightarrow> (ops_state, slo_summary) prog" where
  "evaluate_job_slo env q =
     bindE (getsE (\<lambda>s. map ss_ratio (slo_history s))) (\<lambda>prior.
     bindE (modifyE (\<lambda>s. s\<lparr>slo_history := slo_history s @
              [\<lparr>ss_job_id = sq_job_id q, ss_ratio = slo_ratio q, ss_plan_tier = sq_plan_tier q\<rparr>]\<rparr>)) (\<lambda>_.
     bindE (alert_slo env (judge_slo env q prior)) (\<lambda>_. ret (judge_slo env q prior))))"

definition evaluate_runtime_snapshot :: "ops_env \<Rightarrow> pool_snapshot \<Rightarrow> bool \<Rightarrow> (ops_state, incident list) prog" where
  "evaluate_runtime_snapshot env snap degraded =
     bindE
       (if ps_queue_depth snap > ps_active_warm_instances snap \<and> ps_busy_instances snap \<ge> ps_active_warm_instances snap
        then bindE (emit_incident env ''P2'' ''gpu-pool-exhaustion''
                      ''GPU pool is saturated and queue depth exceeds active warm capacity.'') (\<lambda>i. ret [i])
        else ret []) (\<lambda>first.
     bindE
       (if degraded
        then bindE (emit_incident env ''P3'' ''redis-cache-degraded'' ''Segment cache degraded mode is active.'')
               (\<lambda>i. ret [i])
        else ret []) (\<lambda>second. ret (first @ second)))"

definition max_or_zero :: "'a :: {linorder, zero} list \<Rightarrow> 'a" where
  "max_or_zero xs = (case xs of [] \<Rightarrow> 0 | y # ys \<Rightarrow> fold max ys y)"

definition current_runtime_snapshot :: "ops_env \<Rightarrow> (ops_state, pool_snapshot) prog" where
  "current_runtime_snapshot env =
     bindE list_gpu_leases (\<lambda>leases.
     let warm = filter active_warm leases;
         act = int (length warm);
         busy = int (length (filter (\<lambda>l. lease_state l = Busy) warm)) in
     ret \<lparr>ps_queue_depth = max_or_zero (map queue_depth_snapshot warm),
       ps_queue_age_seconds = py_round 3 (max_or_zero (map md_queue_age_seconds warm)),
       ps_desired_warm_instances = max (max (gpu_pool_min_warm_instances env) 0)
         (max_or_zero (map md_desired_warm_instances warm)),
       ps_active_warm_instances = act, ps_busy_instances = busy, ps_idle_instances = max (act - busy) 0,
       ps_utilization_percent = utilization busy act\<rparr>)"

definition IDLE_GRACE_US :: int where
  "IDLE_GRACE_US = 30 * 1000000"

text \<open>A lease without an expiry sorts before all others.\<close>

definition autoscaler_idle_scale_down_healthy :: "ops_env \<Rightarrow> pool_snapshot \<Rightarrow> (ops_state, bool) prog" where
  "autoscaler_idle_scale_down_healthy env snap =
     (let min_warm = max (gpu_pool_min_warm_instances env) 0 in
      if ps_queue_depth snap > 0 then ret (ps_active_warm_instances snap \<ge> ps_desired_warm_instances snap)
      else
        bindE list_gpu_leases (\<lambda>leases.
        let idle = filter (\<lambda>l. active_warm l \<and> lease_state l = Idle) leases in
        if int (length idle) \<le> min_warm then ret True
        else
          bindE (utc_now env) (\<lambda>now.
          let extra = take (nat (int (length idle) - min_warm))
                (sort_key (\<lambda>l. if expires_at l = None then 0 else 1 :: nat)
                   (sort_key (\<lambda>l. case expires_at l of None \<Rightarrow> 0 | Some t \<Rightarrow> t) idle)) in
          ret (\<forall>l \<in> set extra.
             (case expires_at l of None \<Rightarrow> False | Some t \<Rightarrow> now < t + IDLE_GRACE_US)))))"

section \<open>The 95th percentile\<close>

lemma sorted_nth_le:
  "sorted xs \<Longrightarrow> k < length xs \<Longrightarrow> xs ! k \<le> c \<longleftrightarrow> k < length (filter (\<lambda>x. x \<le> c) xs)"
  for xs :: "'a :: linorder list"
proof (induction xs arbitrary: k)
  case Nil
  then show ?case by simp
next
  case (Cons x xs)
  show ?case
  proof (cases "x \<le> c")
    case True
    with Cons show ?thesis by (cases k) auto
  next
    case False
    with Cons.prems have "filter (\<lambda>x. x \<le> c) xs = []" by (force simp: filter_empty_conv)
    moreover from False Cons.prems have "\<not> (x # xs) ! k \<le> c"
      by (metis nth_mem order_trans set_ConsD sorted_simps(2))
    ultimately show ?thesis using False by simp
  qed
qed

lemma p95_index: "rs \<noteq> [] \<Longrightarrow> nat (min (max (ceil_div (int (length rs) * 95) 100 - 1) 0) (int (length rs) - 1)) =
    nat (ceil_div (int (length rs) * 95) 100) - 1 \<and> nat (ceil_div (int (length rs) * 95) 100) - 1 < length rs"
proof -
  assume "rs \<noteq> []"
  then have n: "1 \<le> int (length rs)" by (cases rs) auto
  have "ceil_div (int (length rs) * 95) 100 \<le> int (length rs)" by (simp add: ceil_div_le_iff)
  moreover have "1 \<le> ceil_div (int (length rs) * 95) 100"
    using ceil_div_le_iff [of 100 "int (length rs) * 95" 0] n by linarith
  ultimately show ?thesis by auto
qed

lemma p95_le_iff:
  assumes "rs \<noteq> []"
  shows "p95_of rs \<le> c \<longleftrightarrow> length rs * 95 \<le> length (filter (\<lambda>r. r \<le> c) rs) * 100"
proof -
  let ?k = "nat (ceil_div (int (length rs) * 95) 100) - 1"
  from p95_index [OF assms] have k: "p95_of rs = sort rs ! ?k" "?k < length rs"
    by (simp_all add: p95_of_def Let_def)
  have "length (filter (\<lambda>r. r \<le> c) (sort rs)) = length (filter (\<lambda>r. r \<le> c) rs)"
    by (simp add: filter_sort)
  with sorted_nth_le [of "sort rs" ?k c] k
  have "p95_of rs \<le> c \<longleftrightarrow> ?k < length (filter (\<lambda>r. r \<le> c) rs)" by simp
  also have "\<dots> \<longleftrightarrow> ceil_div (int (length rs) * 95) 100 \<le> int (length (filter (\<lambda>r. r \<le> c) rs))"
    using ceil_div_le_iff [of 100 "int (length rs) * 95" 0] assms by (cases rs) auto
  also have "\<dots> \<longleftrightarrow> int (length rs) * 95 \<le> int (length (filter (\<lambda>r. r \<le> c) rs)) * 100"
    by (rule ceil_div_le_iff) simp
  finally show ?thesis by linarith
qed

lemma p95_in_set: "rs \<noteq> [] \<Longrightarrow> p95_of rs \<in> set rs"
  using p95_index [of rs] nth_mem [of "nat (ceil_div (int (length rs) * 95) 100) - 1" "sort rs"]
  by (simp add: p95_of_def Let_def)

lemma p95_minimal:
  assumes "rs \<noteq> []"
  shows "length (filter (\<lambda>r. r < p95_of rs) rs) * 100 < length rs * 95"
proof (cases "filter (\<lambda>r. r < p95_of rs) rs = []")
  case True
  with assms show ?thesis by (cases rs) auto
next
  case False
  let ?B = "{r \<in> set rs. r < p95_of rs}"
  from False have B: "finite ?B" "?B \<noteq> {}" by (auto simp: filter_empty_conv)
  then have m: "Max ?B < p95_of rs" using Max_in [OF B] by simp
  have "filter (\<lambda>r. r \<le> Max ?B) rs = filter (\<lambda>r. r < p95_of rs) rs"
    using B by (auto intro!: filter_cong Max_ge dest: le_less_trans [OF _ m])
  with p95_le_iff [OF assms, of "Max ?B"] m show ?thesis by simp
qed

lemma not_le_count: "length (filter (\<lambda>r. r > c) rs) = length rs - length (filter (\<lambda>r. r \<le> c) rs)"
  for rs :: "rat list"
  using sum_length_filter_compl [of "\<lambda>r. r \<le> c" rs] by (simp add: not_le)

lemma within_budget_iff:
  "length rs * 95 \<le> length (filter (\<lambda>r. r \<le> 1) rs) * 100 \<longleftrightarrow>
   length (filter (\<lambda>r. r > 1) rs) * 20 \<le> length rs" for rs :: "rat list"
  using sum_length_filter_compl [of "\<lambda>r. r \<le> 1" rs] by (simp add: not_le) linarith

section \<open>Frames\<close>

text \<open>Everything but the incidents, the alert history, the clock and the ids stays.\<close>

definition quiet :: "ops_state \<Rightarrow> ops_state \<Rightarrow> bool" where
  "quiet s t \<longleftrightarrow> gpu_leases t = gpu_leases s \<and> segment_cache t = segment_cache s \<and> slo_history t = slo_history s"

lemma quiet_refl [simp]: "quiet s s"
  by (simp add: quiet_def)

lemma emit_incident_wp:
  "wp (emit_incident env sev signal summary)
     (\<lambda>i t. quiet s t \<and> alert_history t = alert_history s @ [(sev @ '':'' @ signal, sev)] \<and>
        dget (incidents t) (sev @ '':'' @ signal) = Some i \<and> severity i = sev) (\<lambda>_ _. False) s"
  by (auto simp: emit_incident_def upsert_incident_def Let_def wp_simps quiet_def)

definition incident_count :: "slo_summary \<Rightarrow> nat" where
  "incident_count sm = (if compliant sm \<noteq> Some True \<or> slo_degraded sm then 1 else 0)"

lemma wp_emit_then_ret:
  assumes "\<And>i t. quiet s t \<Longrightarrow> alert_history t = alert_history s @ [(sev @ '':'' @ signal, sev)] \<Longrightarrow> Q () t"
  shows "wp (bindE (emit_incident env sev signal summary) (\<lambda>_. ret ())) Q (\<lambda>_ _. False) s"
  unfolding wp_bindE wp_ret by (rule wp_mono [OF emit_incident_wp]) (use assms in auto)

lemma alert_slo_wp:
  "wp (alert_slo env sm)
     (\<lambda>_ t. quiet s t \<and> length (alert_history t) = length (alert_history s) + incident_count sm) (\<lambda>_ _. False) s"
  by (auto simp: alert_slo_def incident_count_def wp_ret intro!: wp_emit_then_ret)

section \<open>Properties\<close>

text \<open>
  The SLO verdict on a job always returns and adds exactly one sample. Its \<open>p95_ratio\<close> is the
  nearest-rank 95th percentile of all samples, and the verdict is compliant exactly when at most one
  job in twenty overran its target, that is, when the error budget of 5 percent is not overspent. One
  incident is raised when the verdict is not compliant or degraded, none otherwise.
\<close>

theorem slo_verdict:
  "\<exists>sm t p. evaluate_job_slo env q s = (Inr sm, t) \<and>
     (let rs = map ss_ratio (slo_history s) @ [slo_ratio q] in
      map ss_ratio (slo_history t) = rs \<and>
      p95_ratio sm = Some p \<and> p \<in> set rs \<and>
      length rs * 95 \<le> length (filter (\<lambda>r. r \<le> p) rs) * 100 \<and>
      length (filter (\<lambda>r. r < p) rs) * 100 < length rs * 95 \<and>
      compliant sm = Some (length (filter (\<lambda>r. r > 1) rs) * 20 \<le> length rs) \<and>
      length (alert_history t) = length (alert_history s) + incident_count sm) \<and>
     gpu_leases t = gpu_leases s \<and> segment_cache t = segment_cache s"
proof -
  let ?rs = "map ss_ratio (slo_history s) @ [slo_ratio q]"
  have ne: "?rs \<noteq> []" by simp
  have "wp (evaluate_job_slo env q) (\<lambda>sm t.
      map ss_ratio (slo_history t) = ?rs \<and> p95_ratio sm = Some (p95_of ?rs) \<and>
      compliant sm = Some (p95_of ?rs \<le> 1) \<and>
      length (alert_history t) = length (alert_history s) + incident_count sm \<and>
      gpu_leases t = gpu_leases s \<and> segment_cache t = segment_cache s) (\<lambda>_ _. False) s"
    unfolding evaluate_job_slo_def wp_simps
    by (rule wp_mono [OF alert_slo_wp]) (auto simp: quiet_def judge_slo_def Let_def)
  then obtain sm t where r: "evaluate_job_slo env q s = (Inr sm, t)"
    "map ss_ratio (slo_history t) = ?rs" "p95_ratio sm = Some (p95_of ?rs)" "compliant sm = Some (p95_of ?rs \<le> 1)"
    "length (alert_history t) = length (alert_history s) + incident_count sm"
    "gpu_leases t = gpu_leases s" "segment_cache t = segment_cache s"
    by (cases "evaluate_job_slo env q s"; cases "fst (evaluate_job_slo env q s)") (auto simp: wp_def)
  have le: "length ?rs * 95 \<le> length (filter (\<lambda>r. r \<le> p95_of ?rs) ?rs) * 100"
    using p95_le_iff [OF ne, of "p95_of ?rs"] by (simp only: order_refl)
  have c: "compliant sm = Some (length (filter (\<lambda>r. r > 1) ?rs) * 20 \<le> length ?rs)"
    unfolding r(4) p95_le_iff [OF ne] within_budget_iff ..
  show ?thesis
    unfolding Let_def
    by (intro exI [of _ sm] exI [of _ t] exI [of _ "p95_of ?rs"] conjI)
      (fact r le c p95_in_set [OF ne] p95_minimal [OF ne])+
qed

end
