(* ===== verification/Cost_Ops.thy ===== *)
theory Cost_Ops
  imports Slo_Incidents
begin

text \<open>
  \<open>app/services/cost_ops.py\<close>: the admin snapshot of costs, margins and anomalies over the completed jobs
  of the last quarter, and the incidents it raises, one per job and kind of anomaly. It reads the job and
  the billing stores and writes incidents. Metrics are left out.
\<close>

definition DAY_US :: int where "DAY_US = 24 * 3600 * 1000000"
definition SUMMARY_WINDOW_DAYS :: int where "SUMMARY_WINDOW_DAYS = 30"
definition QUARTERLY_WINDOW_DAYS :: int where "QUARTERLY_WINDOW_DAYS = 90"
definition GROSS_MARGIN_TARGET_PERCENT :: rat where "GROSS_MARGIN_TARGET_PERCENT = 60"

record cost_ops_env =
  co_ops :: ops_env
  co_billing :: billing_env
  co_stripe :: stripe_env
  co_config :: stripe_config

definition job_terminal_timestamp :: "job \<Rightarrow> time option" where
  "job_terminal_timestamp j =
     (case cost_reconciliation_summary j of
        Some r \<Rightarrow> Some (rc_reconciled_at r)
      | None \<Rightarrow> completed_at j)"

definition ops_cost_breakdown :: "job \<Rightarrow> rat \<times> rat \<times> rat" where
  "ops_cost_breakdown j =
     (let c = cost_summary_of j in
      (py_round 4 (of_int (cs_gpu_seconds c) * GPU_COST_PER_SECOND_USD),
       py_round 4 (of_int (cs_storage_operations c) * STORAGE_OPERATION_COST_USD),
       py_round 4 (of_int (cs_api_calls c) * API_CALL_COST_USD)))"

text \<open>\<open>dict(v or {})\<close> of a value that is a dictionary when it is stored at all.\<close>

fun dict_or_empty :: "json \<Rightarrow> jdict result" where
  "dict_or_empty (JObj d) = Inr d"
| "dict_or_empty v = (if truthy v then Inl (TypeError ''dict() argument'') else Inr [])"

definition job_pricing_snapshot :: "job \<Rightarrow> jdict result" where
  "job_pricing_snapshot j =
     (if billing_pricing_snapshot j \<noteq> [] then Inr (billing_pricing_snapshot j)
      else dict_or_empty (jget (cost_estimate_summary j) ''effective_pricing''))"

definition job_overage_rate :: "billing_env \<Rightarrow> pricing_metadata \<Rightarrow> job \<Rightarrow> rat result" where
  "job_overage_rate env md j =
     bind_res (job_pricing_snapshot j) (\<lambda>snap.
     let v = jget snap ''overage_rate_usd_per_minute'' in
     if v \<noteq> JNull then to_float (float_of_str env) v
     else
       bind_res (obj_or_empty (jget (cost_estimate_summary j) ''billing_breakdown_usd'')) (\<lambda>breakdown.
       let w = jget breakdown ''overage_rate_usd_per_minute'' in
       if w \<noteq> JNull then to_float (float_of_str env) w else Inr (pm_overage_rate_usd_per_minute md)))"

definition rc_minutes :: "job \<Rightarrow> int" where
  "rc_minutes j = (case cost_reconciliation_summary j of None \<Rightarrow> 0 | Some r \<Rightarrow> rc_actual_usage_minutes r)"

definition rc_charge :: "job \<Rightarrow> rat" where
  "rc_charge j = (case cost_reconciliation_summary j of None \<Rightarrow> 0 | Some r \<Rightarrow> rc_actual_charge_total_usd r)"

definition rc_cost :: "job \<Rightarrow> rat" where
  "rc_cost j = (case cost_reconciliation_summary j of None \<Rightarrow> 0 | Some r \<Rightarrow> rc_actual_total_cost_usd r)"

definition rc_delta :: "job \<Rightarrow> rat" where
  "rc_delta j = (case cost_reconciliation_summary j of None \<Rightarrow> 0 | Some r \<Rightarrow> rc_delta_usd r)"

definition rc_percent :: "job \<Rightarrow> rat" where
  "rc_percent j = (case cost_reconciliation_summary j of None \<Rightarrow> 0 | Some r \<Rightarrow> rc_delta_percent r)"

definition included_minutes :: "billing_env \<Rightarrow> pricing_metadata \<Rightarrow> job \<Rightarrow> int result" where
  "included_minutes env md j =
     bind_res (job_overage_rate env md j) (\<lambda>rate.
     let used = rc_minutes j;
         over = (if rate > 0 \<and> rc_charge j > 0 then round_half_even (rc_charge j / rate) else 0) in
     Inr (max (used - max (min over used) 0) 0))"

record financials =
  fi_cost :: rat
  fi_charge :: rat
  fi_revenue :: rat
  fi_margin_percent :: rat

definition margin_percent :: "rat \<Rightarrow> rat \<Rightarrow> rat" where
  "margin_percent revenue cost =
     (if revenue > 0 then py_round 2 (((revenue - cost) / revenue) * 100) else if cost > 0 then - 100 else 0)"

definition subscription_price_of :: "billing_env \<Rightarrow> pricing_metadata \<Rightarrow> job \<Rightarrow> jdict \<Rightarrow> rat result" where
  "subscription_price_of env md j snap =
     (let v = jget snap ''subscription_price_usd'' in
      if v \<noteq> JNull then to_float (float_of_str env) v
      else Inr (subscription_price_usd_for_tier md (job_plan_tier j)))"

definition job_financials ::
  "billing_env \<Rightarrow> billing_store \<Rightarrow> pricing_metadata \<Rightarrow> job \<Rightarrow> financials result" where
  "job_financials env bs md j =
     (let cost = py_round 4 (rc_cost j); charge = py_round 4 (rc_charge j) in
      bind_res (job_pricing_snapshot j) (\<lambda>snap.
      bind_res (int_or_zero (jget snap ''included_minutes_monthly'')) (\<lambda>stored.
      bind_res (if stored \<noteq> 0 then Inr stored else fst (monthly_limit_for_tier env (job_plan_tier j) bs)) (\<lambda>lim.
      bind_res (included_minutes env md j) (\<lambda>included.
      bind_res (subscription_price_of env md j snap) (\<lambda>price.
      let included_revenue = py_round 4 ((price / of_int (max lim 1)) * of_int included);
          revenue = py_round 4 (included_revenue + charge) in
      Inr \<lparr>fi_cost = cost, fi_charge = charge, fi_revenue = revenue,
        fi_margin_percent = margin_percent revenue cost\<rparr>))))))"

definition cache_hit_rate_percent :: "job list \<Rightarrow> rat" where
  "cache_hit_rate_percent js =
     (let h = sum_list (map (\<lambda>j. hits (cache_summary_of j)) js);
          n = h + sum_list (map (\<lambda>j. misses (cache_summary_of j)) js)
                + sum_list (map (\<lambda>j. bypassed (cache_summary_of j)) js) in
      if n \<le> 0
      then (if js = [] then 0 else py_round 2 (mean (map (\<lambda>j. hit_rate (cache_summary_of j)) js)))
      else py_round 2 ((of_int h / of_int n) * 100))"

definition gpu_utilization_percent :: "job list \<Rightarrow> pool_snapshot \<Rightarrow> rat" where
  "gpu_utilization_percent js snap =
     (let samples = List.map_filter (\<lambda>j. gs_historical_utilization_percent (gpu_summary_of j)) js in
      if samples \<noteq> [] then py_round 2 (mean samples) else py_round 2 (ps_utilization_percent snap))"

datatype anomaly_type = CostDelta | GrossMargin

definition anomaly_types :: "job \<Rightarrow> rat \<Rightarrow> anomaly_type list" where
  "anomaly_types j margin =
     (if rc_delta j > 0 \<and> rc_percent j > ESTIMATE_OUTLIER_THRESHOLD_PERCENT then [CostDelta] else []) @
     (if margin < GROSS_MARGIN_TARGET_PERCENT then [GrossMargin] else [])"

record anomaly =
  an_job_id :: string
  an_detected_at :: time
  an_types :: "anomaly_type list"
  an_delta_percent :: rat
  an_margin_percent :: rat
  an_cost :: rat
  an_charge :: rat

section \<open>Incidents for anomalies\<close>

fun anomaly_signal :: "string \<Rightarrow> anomaly_type \<Rightarrow> string" where
  "anomaly_signal jid CostDelta = ''cost-anomaly-'' @ jid"
| "anomaly_signal jid GrossMargin = ''gross-margin-breach-'' @ jid"

fun anomaly_text :: "anomaly_type \<Rightarrow> string" where
  "anomaly_text CostDelta = ''Job cost exceeded the launch-time estimate by more than 20 percent.''"
| "anomaly_text GrossMargin = ''Job gross margin fell below the 60 percent target.''"

text \<open>One \<open>if\<close> of the loop body; the set of existing keys is passed on.\<close>

definition anomaly_key :: "string \<Rightarrow> anomaly_type \<Rightarrow> string" where
  "anomaly_key jid k = ''P2:'' @ anomaly_signal jid k"

definition emit_anomaly ::
  "ops_env \<Rightarrow> anomaly \<Rightarrow> anomaly_type \<Rightarrow> string set \<Rightarrow> (ops_state, string set) prog" where
  "emit_anomaly env a k keys =
     (let key = anomaly_key (an_job_id a) k in
      if k \<in> set (an_types a) \<and> key \<notin> keys
      then bindE (emit_incident env ''P2'' (anomaly_signal (an_job_id a) k) (anomaly_text k)) (\<lambda>_. ret (insert key keys))
      else ret keys)"

fun emit_anomalies :: "ops_env \<Rightarrow> anomaly list \<Rightarrow> string set \<Rightarrow> (ops_state, unit) prog" where
  "emit_anomalies env [] keys = ret ()"
| "emit_anomalies env (a # rest) keys =
     bindE (emit_anomaly env a CostDelta keys) (\<lambda>keys1.
     bindE (emit_anomaly env a GrossMargin keys1) (\<lambda>keys2. emit_anomalies env rest keys2))"

definition emit_anomaly_incidents :: "ops_env \<Rightarrow> anomaly list \<Rightarrow> (ops_state, unit) prog" where
  "emit_anomaly_incidents env as =
     bindE list_incidents (\<lambda>known. emit_anomalies env as (set (map incident_key known)))"

section \<open>Recommendations\<close>

record recommendation =
  rec_category :: string
  rec_priority :: string
  rec_action_required :: bool
  rec_metric_value :: rat
  rec_threshold_value :: rat

definition recommend :: "string \<Rightarrow> bool \<Rightarrow> rat \<Rightarrow> rat \<Rightarrow> string \<Rightarrow> recommendation" where
  "recommend category met v threshold prio =
     \<lparr>rec_category = category, rec_priority = (if met then ''none'' else prio), rec_action_required = (\<not> met),
       rec_metric_value = py_round 2 v, rec_threshold_value = py_round 2 threshold\<rparr>"

definition recommendations :: "rat \<Rightarrow> rat \<Rightarrow> nat \<Rightarrow> rat \<Rightarrow> recommendation list" where
  "recommendations gpu cache n margin =
     [recommend ''cache_efficiency'' (cache \<ge> 40) cache 40 ''medium'',
      recommend ''gpu_utilization'' (gpu \<ge> 70) gpu 70 ''medium'',
      recommend ''cost_anomaly_remediation'' (n = 0) (of_nat n) 0 ''high'',
      recommend ''gross_margin_protection'' (margin \<ge> GROSS_MARGIN_TARGET_PERCENT) margin
        GROSS_MARGIN_TARGET_PERCENT ''high'']"

section \<open>The snapshot\<close>

record cost_ops_snapshot =
  os_generated_at :: time
  os_summary_start :: time
  os_quarterly_start :: time
  os_gpu_cost :: rat
  os_storage_cost :: rat
  os_api_cost :: rat
  os_actual_charge_total :: rat
  os_revenue_total :: rat
  os_cost_total :: rat
  os_margin_percent :: rat
  os_below_target :: bool
  os_gpu_utilization_percent :: rat
  os_cache_hit_rate_percent :: rat
  os_autoscaler_healthy :: bool
  os_all_anomalies :: "anomaly list"
  os_quarterly_anomaly_count :: nat
  os_recommendations :: "recommendation list"

definition running_total :: "rat list \<Rightarrow> rat" where
  "running_total xs = fold (\<lambda>x acc. py_round 4 (acc + x)) xs 0"

definition anomaly_of :: "job \<times> financials \<Rightarrow> anomaly" where
  "anomaly_of jf = (case jf of (j, f) \<Rightarrow>
     \<lparr>an_job_id = job_id j, an_detected_at = (case job_terminal_timestamp j of None \<Rightarrow> 0 | Some t \<Rightarrow> t),
       an_types = anomaly_types j (fi_margin_percent f), an_delta_percent = py_round 2 (rc_percent j),
       an_margin_percent = fi_margin_percent f, an_cost = fi_cost f, an_charge = fi_charge f\<rparr>)"

definition anomalies_of :: "(job \<times> financials) list \<Rightarrow> anomaly list" where
  "anomalies_of jfs = sort_key (\<lambda>a. - an_detected_at a) (filter (\<lambda>a. an_types a \<noteq> []) (map anomaly_of jfs))"

definition financials_of ::
  "billing_env \<Rightarrow> billing_store \<Rightarrow> pricing_metadata \<Rightarrow> job list \<Rightarrow> (job \<times> financials) list result" where
  "financials_of env bs md js = map_res (\<lambda>j. bind_res (job_financials env bs md j) (\<lambda>f. Inr (j, f))) js"

definition windowed_jobs :: "time \<Rightarrow> job_store \<Rightarrow> job list" where
  "windowed_jobs start js =
     (case fst (list_cost_ops_jobs_since start js) of
        Inl e \<Rightarrow> []
      | Inr found \<Rightarrow> filter (\<lambda>j. job_terminal_timestamp j \<noteq> None) found)"

definition in_job_window :: "time \<Rightarrow> job \<Rightarrow> bool" where
  "in_job_window start j = (case job_terminal_timestamp j of None \<Rightarrow> False | Some t \<Rightarrow> start \<le> t)"

definition evaluate_cost_ops_snapshot ::
  "cost_ops_env \<Rightarrow> billing_store \<Rightarrow> job_store \<Rightarrow> pricing_metadata \<Rightarrow> (ops_state, cost_ops_snapshot) prog" where
  "evaluate_cost_ops_snapshot env bs js md =
     bindE (utc_now (co_ops env)) (\<lambda>now.
     let summary_start = now - SUMMARY_WINDOW_DAYS * DAY_US;
         quarterly_start = now - QUARTERLY_WINDOW_DAYS * DAY_US;
         completed = windowed_jobs quarterly_start js;
         recent = filter (in_job_window summary_start) completed in
     bindE (current_runtime_snapshot (co_ops env)) (\<lambda>pool.
     bindE (liftR (financials_of (co_billing env) bs md recent)) (\<lambda>jfs.
     let revenue = running_total (map (fi_revenue \<circ> snd) jfs);
         cost = running_total (map (fi_cost \<circ> snd) jfs);
         margin = margin_percent revenue cost in
     bindE (autoscaler_idle_scale_down_healthy (co_ops env) pool) (\<lambda>healthy.
     bindE (liftR (financials_of (co_billing env) bs md completed)) (\<lambda>qfs.
     let count_q = length (filter (\<lambda>a. an_types a \<noteq> []) (map anomaly_of qfs)) in
     ret \<lparr>os_generated_at = now, os_summary_start = summary_start, os_quarterly_start = quarterly_start,
       os_gpu_cost = running_total (map (fst \<circ> ops_cost_breakdown) recent),
       os_storage_cost = running_total (map (fst \<circ> snd \<circ> ops_cost_breakdown) recent),
       os_api_cost = running_total (map (snd \<circ> snd \<circ> ops_cost_breakdown) recent),
       os_actual_charge_total = running_total (map (fi_charge \<circ> snd) jfs),
       os_revenue_total = revenue, os_cost_total = cost, os_margin_percent = margin,
       os_below_target = (margin < GROSS_MARGIN_TARGET_PERCENT),
       os_gpu_utilization_percent = gpu_utilization_percent recent pool,
       os_cache_hit_rate_percent = cache_hit_rate_percent recent,
       os_autoscaler_healthy = healthy,
       os_all_anomalies = anomalies_of jfs, os_quarterly_anomaly_count = count_q,
       os_recommendations = recommendations (gpu_utilization_percent completed pool)
         (cache_hit_rate_percent completed) count_q margin\<rparr>)))))"

definition resolve_pricing_metadata :: "cost_ops_env \<Rightarrow> pricing_metadata result" where
  "resolve_pricing_metadata env =
     (case resolve_billing_pricing_metadata (co_stripe env) (co_config env) of
        Inl e \<Rightarrow> Inl (estimate_unavailable e) | Inr md \<Rightarrow> Inr md)"

definition build_cost_ops_snapshot ::
  "cost_ops_env \<Rightarrow> billing_store \<Rightarrow> job_store \<Rightarrow> pricing_metadata \<Rightarrow> bool \<Rightarrow> (ops_state, cost_ops_snapshot) prog" where
  "build_cost_ops_snapshot env bs js md emit =
     bindE (evaluate_cost_ops_snapshot env bs js md) (\<lambda>snap.
     bindE (if emit then emit_anomaly_incidents (co_ops env) (os_all_anomalies snap) else ret ()) (\<lambda>_. ret snap))"

definition refresh_cost_ops_signals ::
  "cost_ops_env \<Rightarrow> billing_store \<Rightarrow> job_store \<Rightarrow> (ops_state, cost_ops_snapshot) prog" where
  "refresh_cost_ops_signals env bs js =
     bindE (liftR (resolve_pricing_metadata env)) (\<lambda>md. build_cost_ops_snapshot env bs js md True)"

definition current_cost_ops_snapshot ::
  "cost_ops_env \<Rightarrow> billing_store \<Rightarrow> job_store \<Rightarrow> (ops_state, cost_ops_snapshot) prog" where
  "current_cost_ops_snapshot env bs js =
     bindE (liftR (resolve_pricing_metadata env)) (\<lambda>md. build_cost_ops_snapshot env bs js md False)"

section \<open>Alerting once\<close>

definition incidents_ok :: "ops_state \<Rightarrow> bool" where
  "incidents_ok s \<longleftrightarrow> (\<forall>(k, i) \<in> set (incidents s). incident_key i = k)"

definition known_keys :: "ops_state \<Rightarrow> string set" where
  "known_keys s = fst ` set (incidents s)"

definition anomaly_keys :: "anomaly list \<Rightarrow> string set" where
  "anomaly_keys as = (\<Union>a \<in> set as. anomaly_key (an_job_id a) ` set (an_types a))"

lemma known_keys_incidents: "incidents_ok s \<Longrightarrow> incident_key ` snd ` set (incidents s) = known_keys s"
  by (force simp: incidents_ok_def known_keys_def image_iff)

lemma dset_keys: "fst ` set (dset k v d) = insert k (fst ` set d)"
  by (induction d) auto

lemma emit_incident_write:
  "wp (emit_incident env ''P2'' signal summary)
    (\<lambda>_ t. \<exists>r. incident_key r = ''P2:'' @ signal \<and> incidents t = dset (''P2:'' @ signal) r (incidents s) \<and>
       alert_history t = alert_history s @ [(''P2:'' @ signal, ''P2'')]) (\<lambda>_ _. False) s"
  by (simp add: emit_incident_def upsert_incident_def Let_def wp_simps)
    (rule exI, rule conjI [rotated], rule refl, simp)

lemma emit_incident_keys:
  assumes "incidents_ok s" and "key = ''P2:'' @ signal"
  shows "wp (emit_incident env ''P2'' signal summary)
    (\<lambda>_ t. incidents_ok t \<and> known_keys t = insert key (known_keys s) \<and>
       alert_history t = alert_history s @ [(key, ''P2'')]) (\<lambda>_ _. False) s"
proof -
  have "incidents_ok t" if "incident_key r = key" "incidents t = dset key r (incidents s)" for r t
    using assms(1) that by (force simp: incidents_ok_def dest!: dset_members)
  then have ok: "\<exists>r. incident_key r = ''P2:'' @ signal \<and> incidents t = dset (''P2:'' @ signal) r (incidents s) \<and>
      alert_history t = alert_history s @ [(''P2:'' @ signal, ''P2'')] \<Longrightarrow>
    incidents_ok t \<and> known_keys t = insert (''P2:'' @ signal) (known_keys s) \<and>
      alert_history t = alert_history s @ [(''P2:'' @ signal, ''P2'')]" for t
    by (elim exE conjE) (simp add: known_keys_def dset_keys assms(2))
  show ?thesis
    unfolding assms(2) by (rule wp_mono [OF emit_incident_write]) (rule ok)
qed

text \<open>What a run of the alerting loop leaves: \<open>new\<close> are the keys it alerted, in order.\<close>

definition alerted :: "string list \<Rightarrow> ops_state \<Rightarrow> ops_state \<Rightarrow> bool" where
  "alerted new s t \<longleftrightarrow> incidents_ok t \<and> known_keys t = known_keys s \<union> set new \<and>
     alert_history t = alert_history s @ map (\<lambda>k. (k, ''P2'')) new \<and>
     distinct new \<and> set new \<inter> known_keys s = {} \<and> (new = [] \<longrightarrow> t = s)"

lemma alerted_refl: "incidents_ok s \<Longrightarrow> alerted [] s s"
  by (simp add: alerted_def)

lemma alerted_trans: "alerted m s t \<Longrightarrow> alerted n t u \<Longrightarrow> alerted (m @ n) s u"
  by (auto simp: alerted_def)

definition new_key :: "anomaly \<Rightarrow> anomaly_type \<Rightarrow> ops_state \<Rightarrow> string list" where
  "new_key a k s = (if k \<in> set (an_types a) \<and> anomaly_key (an_job_id a) k \<notin> known_keys s
     then [anomaly_key (an_job_id a) k] else [])"

lemma emit_anomaly_alerts:
  assumes "incidents_ok s"
  shows "wp (emit_anomaly env a k (known_keys s)) (\<lambda>keys t. keys = known_keys t \<and> alerted (new_key a k s) s t)
    (\<lambda>_ _. False) s"
proof (cases "k \<in> set (an_types a) \<and> anomaly_key (an_job_id a) k \<notin> known_keys s")
  case True
  have key: "anomaly_key (an_job_id a) k = ''P2:'' @ anomaly_signal (an_job_id a) k" by (rule anomaly_key_def)
  show ?thesis
    using True
    by (simp add: emit_anomaly_def Let_def wp_bindE wp_ret)
      (rule wp_mono [OF emit_incident_keys [OF assms key]], simp_all add: alerted_def new_key_def True)
next
  case False
  show ?thesis
    unfolding emit_anomaly_def new_key_def Let_def if_not_P [OF False] wp_ret by (simp add: alerted_refl [OF assms])
qed

lemma two_kinds: "anomaly_key j ` set ks =
  (if CostDelta \<in> set ks then {anomaly_key j CostDelta} else {}) \<union>
  (if GrossMargin \<in> set ks then {anomaly_key j GrossMargin} else {})"
proof -
  have ex: "(\<exists>k. P k) \<longleftrightarrow> P CostDelta \<or> P GrossMargin" for P
    by (metis anomaly_type.exhaust)
  show ?thesis by (simp add: set_eq_iff image_iff Bex_def ex)
qed

lemma alerted_step:
  assumes "alerted (new_key a CostDelta s) s t" and "alerted (new_key a GrossMargin t) t u"
    and "set n = anomaly_keys as - known_keys u" and "alerted n u v"
  shows "\<exists>new. set new = anomaly_keys (a # as) - known_keys s \<and> alerted new s v"
proof (intro exI conjI)
  show "alerted (new_key a CostDelta s @ new_key a GrossMargin t @ n) s v"
    using assms by (intro alerted_trans)
  have kt: "known_keys t = known_keys s \<union> set (new_key a CostDelta s)"
    and ku: "known_keys u = known_keys t \<union> set (new_key a GrossMargin t)"
    using assms by (simp_all add: alerted_def)
  have "anomaly_keys (a # as) = anomaly_key (an_job_id a) ` set (an_types a) \<union> anomaly_keys as"
    by (simp add: anomaly_keys_def)
  then show "set (new_key a CostDelta s @ new_key a GrossMargin t @ n) = anomaly_keys (a # as) - known_keys s"
    unfolding set_append assms(3) ku kt two_kinds
    by (simp add: new_key_def kt) blast
qed

lemma emit_anomalies_alerts:
  "incidents_ok s \<Longrightarrow>
   wp (emit_anomalies env as (known_keys s))
     (\<lambda>_ t. \<exists>new. set new = anomaly_keys as - known_keys s \<and> alerted new s t) (\<lambda>_ _. False) s"
proof (induction as arbitrary: s)
  case Nil
  then show ?case by (auto simp: wp_ret anomaly_keys_def intro!: exI [of _ "[]"] alerted_refl)
next
  case (Cons a as)
  show ?case
    unfolding emit_anomalies.simps wp_bindE
  proof (rule wp_mono [OF emit_anomaly_alerts [OF Cons.prems]], goal_cases)
    case (1 keys t)
    then have t: "keys = known_keys t" "alerted (new_key a CostDelta s) s t" "incidents_ok t"
      by (simp_all add: alerted_def)
    show ?case
      unfolding t(1)
    proof (rule wp_mono [OF emit_anomaly_alerts [OF t(3)]], goal_cases)
      case (1 keys' u)
      then have u: "keys' = known_keys u" "alerted (new_key a GrossMargin t) t u" "incidents_ok u"
        by (simp_all add: alerted_def)
      show ?case
        unfolding u(1) by (rule wp_mono [OF Cons.IH [OF u(3)]]) (use alerted_step [OF t(2) u(2)] in blast)+
    qed simp
  qed simp
qed

section \<open>Properties\<close>

text \<open>
  Alerting on the anomalies of a snapshot is idempotent. It always returns; it alerts exactly the
  pairs of job and kind that have no incident yet, each once; and alerting on the same list again
  alerts nothing and changes nothing.
\<close>

theorem anomaly_alerts_once:
  assumes "incidents_ok s"
  shows "\<exists>t new. emit_anomaly_incidents env as s = (Inr (), t) \<and>
    alert_history t = alert_history s @ map (\<lambda>k. (k, ''P2'')) new \<and> distinct new \<and>
    set new = anomaly_keys as - fst ` set (incidents s) \<and>
    emit_anomaly_incidents env as t = (Inr (), t)"
proof -
  have run: "\<exists>t new. emit_anomaly_incidents env as s = (Inr (), t) \<and> set new = anomaly_keys as - known_keys s \<and>
      alerted new s t" if "incidents_ok s" for s
  proof -
    have "wp (emit_anomaly_incidents env as)
        (\<lambda>_ t. \<exists>new. set new = anomaly_keys as - known_keys s \<and> alerted new s t) (\<lambda>_ _. False) s"
      using emit_anomalies_alerts [OF that] known_keys_incidents [OF that]
      by (simp add: emit_anomaly_incidents_def list_incidents_def wp_simps)
    then show ?thesis
      by (cases "emit_anomaly_incidents env as s") (auto simp: wp_def split: sum.splits)
  qed
  from run [OF assms] obtain t new where t: "emit_anomaly_incidents env as s = (Inr (), t)"
    "set new = anomaly_keys as - known_keys s" "alerted new s t" by blast
  then have "incidents_ok t" "anomaly_keys as \<subseteq> known_keys t" by (auto simp: alerted_def)
  with run [of t] obtain u m where "emit_anomaly_incidents env as t = (Inr (), u)"
    "set m = anomaly_keys as - known_keys t" "alerted m t u" by blast
  moreover with \<open>anomaly_keys as \<subseteq> known_keys t\<close> have "m = []" by (metis Diff_eq_empty_iff set_empty)
  ultimately have "emit_anomaly_incidents env as t = (Inr (), t)" by (simp add: alerted_def)
  with t show ?thesis by (auto simp: alerted_def known_keys_def)
qed

definition sample_anomaly :: anomaly where
  "sample_anomaly = \<lparr>an_job_id = ''j1'', an_detected_at = 5, an_types = [CostDelta, GrossMargin], an_delta_percent = 30,
     an_margin_percent = 10, an_cost = 2, an_charge = 1\<rparr>"

definition empty_ops :: ops_state where
  "empty_ops = \<lparr>gpu_leases = [], incidents = [], segment_cache = [], slo_history = [], alert_history = [],
     ticks = 0, draws = 0\<rparr>"

definition sample_ops_env :: ops_env where
  "sample_ops_env = \<lparr>clock = (\<lambda>n. int n * 1000), uuid_hex = (\<lambda>n. ''u'' @ dec n), redis = NoRedis,
     oe_codec = plain_codec, segment_cache_namespace = ''ns'', gpu_pool_min_warm_instances = 0, gpu_pool_scale_step = 1,
     gpu_pool_queue_depth_threshold = 5, gpu_pool_idle_timeout_seconds = 60, gpu_warm_allocation_latency_ms = 100,
     gpu_cold_allocation_latency_ms = 900, slo_degradation_threshold_percent = 10, museum_processing_sla_enabled = True\<rparr>"

theorem anomaly_alerts_once_witness:
  "\<exists>t new. emit_anomaly_incidents sample_ops_env [sample_anomaly, sample_anomaly] empty_ops = (Inr (), t) \<and>
     distinct new \<and> alert_history t = map (\<lambda>k. (k, ''P2'')) new \<and>
     set new = {''P2:cost-anomaly-j1'', ''P2:gross-margin-breach-j1''}"
proof -
  have ok: "incidents_ok empty_ops" by (simp add: incidents_ok_def empty_ops_def)
  have "anomaly_keys [sample_anomaly, sample_anomaly] = {''P2:cost-anomaly-j1'', ''P2:gross-margin-breach-j1''}"
    by (auto simp: anomaly_keys_def sample_anomaly_def anomaly_key_def)
  with anomaly_alerts_once [OF ok, of sample_ops_env "[sample_anomaly, sample_anomaly]"] show ?thesis
    by (auto simp: empty_ops_def)
qed

end
