(* ===== verification/Dispatch.thy ===== *)
theory Dispatch
  imports Json Interfaces "HOL-Library.Product_Lexorder"
begin

text \<open>
  The job queue of \<open>app/services/job_dispatcher.py\<close> (the in-memory dispatcher) and the trusted-worker
  boundary of \<open>app/services/job_worker.py\<close>. The queue is the list of \<open>(priority, sequence, message)\<close>
  tuples with the sequence counter; Pub/Sub publishing is outside the program.
\<close>

section \<open>Dispatcher\<close>

record dispatch_message =
  dm_job_id :: string
  dm_plan_tier :: string
  dm_source :: string
  dm_submitted_at :: int

record dispatcher =
  memory_queue :: "((nat \<times> nat) \<times> dispatch_message) list"
  queue_sequence :: nat

definition plan_priority :: "string \<Rightarrow> nat" where
  "plan_priority tier =
     (let t = lower tier in
      if t = ''museum'' then 0 else if t = ''pro'' then 1 else if t = ''hobbyist'' then 2 else 99)"

definition reset_job_dispatcher_state :: "dispatcher \<Rightarrow> dispatcher" where
  "reset_job_dispatcher_state d = \<lparr>memory_queue = [], queue_sequence = 0\<rparr>"

text \<open>\<open>append\<close> and \<open>sort()\<close>: the sequence numbers differ, so the messages are never compared.\<close>

definition enqueue_message :: "dispatch_message \<Rightarrow> dispatcher \<Rightarrow> dispatcher" where
  "enqueue_message m d =
     \<lparr>memory_queue = sort_key fst (memory_queue d @ [((plan_priority (dm_plan_tier m), queue_sequence d), m)]),
       queue_sequence = queue_sequence d + 1\<rparr>"

definition build_dispatch_message :: "int \<Rightarrow> string \<Rightarrow> string \<Rightarrow> string \<Rightarrow> dispatch_message" where
  "build_dispatch_message now jid tier source =
     \<lparr>dm_job_id = jid, dm_plan_tier = tier, dm_source = source, dm_submitted_at = now\<rparr>"

definition publish_job :: "int \<Rightarrow> string \<Rightarrow> string \<Rightarrow> string \<Rightarrow> (dispatcher, dispatch_message) prog" where
  "publish_job now jid tier source = (\<lambda>d.
     (let m = build_dispatch_message now jid tier source in (Inr m, enqueue_message m d)))"

definition queued_dispatch_messages :: "dispatcher \<Rightarrow> dispatch_message list" where
  "queued_dispatch_messages d = map snd (memory_queue d)"

definition pop_next_dispatch_message :: "(dispatcher, dispatch_message option) prog" where
  "pop_next_dispatch_message = (\<lambda>d.
     (case memory_queue d of [] \<Rightarrow> (Inr None, d) | (r, m) # rest \<Rightarrow> (Inr (Some m), d\<lparr>memory_queue := rest\<rparr>)))"

definition requeue_dispatch_message :: "dispatch_message \<Rightarrow> (dispatcher, unit) prog" where
  "requeue_dispatch_message m = modifyE (enqueue_message m)"

section \<open>Worker\<close>

record worker_env =
  job_worker_trusted_token :: string
  wk_environment :: string
  job_progress_mode :: string
  broadcast_error :: "nat \<Rightarrow> exn option"

record progress_event =
  pe_job_id :: string
  pe_segment_index :: int
  pe_segment_count :: int
  pe_percent_complete :: rat
  pe_eta_seconds :: int
  pe_status :: string
  pe_current_operation :: string
  pe_updated_at :: int
  pe_channel :: string

type_synonym progress_log = "(string, progress_event list) pydict"

definition default_trusted_worker_token :: "worker_env \<Rightarrow> string result" where
  "default_trusted_worker_token env =
     (if job_worker_trusted_token env \<noteq> [] then Inr (job_worker_trusted_token env)
      else if wk_environment env = ''test'' then Inr ''chronos-test-worker-token''
      else Inl (RuntimeError ''JOB_WORKER_TRUSTED_TOKEN is required for trusted worker execution outside test mode.''))"

definition authorize_trusted_worker :: "worker_env \<Rightarrow> string option \<Rightarrow> string result" where
  "authorize_trusted_worker env token =
     bind_res (default_trusted_worker_token env) (\<lambda>expected.
     if token \<noteq> Some expected then Inl (ProblemException ''Forbidden'' 403) else Inr expected)"

definition progress_events_for_job :: "string \<Rightarrow> progress_log \<Rightarrow> progress_event list" where
  "progress_events_for_job jid lg = (case dget lg jid of None \<Rightarrow> [] | Some es \<Rightarrow> es)"

text \<open>
  The event is recorded before it is broadcast, so a failed broadcast leaves it in the log. The
  broadcast's outcome is an argument, indexed by the number of events recorded for the job.
\<close>

definition publish_progress_event :: "worker_env \<Rightarrow> string \<Rightarrow> progress_event \<Rightarrow> (progress_log, unit) prog" where
  "publish_progress_event env token e =
     bindE (liftR (authorize_trusted_worker env (Some token))) (\<lambda>_.
     bindE (modifyE (\<lambda>lg. dset (pe_job_id e) (progress_events_for_job (pe_job_id e) lg @ [e]) lg)) (\<lambda>_.
     bindE (getsE (\<lambda>lg. length (progress_events_for_job (pe_job_id e) lg))) (\<lambda>n.
     if lower (job_progress_mode env) = ''supabase''
     then (case broadcast_error env n of None \<Rightarrow> ret () | Some x \<Rightarrow> raise x)
     else ret ())))"

section \<open>The queue is a ranked queue\<close>

definition dispatcher_wf :: "dispatcher \<Rightarrow> bool" where
  "dispatcher_wf d \<longleftrightarrow> sorted (map fst (memory_queue d)) \<and>
     (\<forall>((p, n), m) \<in> set (memory_queue d). n < queue_sequence d \<and> p = plan_priority (dm_plan_tier m))"

definition put_ranked :: "(nat \<times> nat) \<times> dispatch_message \<Rightarrow> dispatcher \<Rightarrow> dispatcher" where
  "put_ranked e d = d\<lparr>memory_queue := sort_key fst (memory_queue d @ [e]),
     queue_sequence := max (queue_sequence d) (Suc (snd (fst e)))\<rparr>"

definition take_message :: "dispatcher \<Rightarrow> (dispatch_message \<times> dispatcher) option" where
  "take_message d = (case pop_next_dispatch_message d of (Inr (Some m), d') \<Rightarrow> Some (m, d') | _ \<Rightarrow> None)"

lemma enqueue_message_ranked:
  "enqueue_message m d = put_ranked ((plan_priority (dm_plan_tier m), queue_sequence d), m) d"
  by (simp add: enqueue_message_def put_ranked_def)

lemma take_message_simps:
  "take_message d = (case memory_queue d of [] \<Rightarrow> None | e # rest \<Rightarrow> Some (snd e, d\<lparr>memory_queue := rest\<rparr>))"
  by (auto simp: take_message_def pop_next_dispatch_message_def split: list.splits prod.splits)

interpretation dispatch_queue: ranked_queue memory_queue put_ranked take_message
  "\<lambda>d. sorted (map fst (memory_queue d))"
proof unfold_locales
  fix d m d'
  assume s: "sorted (map fst (memory_queue d))" and t: "take_message d = Some (m, d')"
  then obtain r rest where q: "memory_queue d = (r, m) # rest" "d' = d\<lparr>memory_queue := rest\<rparr>"
    by (auto simp: take_message_simps split: list.splits)
  with s show "\<exists>r. mset (memory_queue d) = add_mset (r, m) (mset (memory_queue d')) \<and>
      (\<forall>e \<in> set (memory_queue d'). r \<le> fst e) \<and> sorted (map fst (memory_queue d'))"
    by auto
qed (auto simp: put_ranked_def take_message_simps split: list.splits)

text \<open>Taking messages until none is left.\<close>

fun take_all :: "nat \<Rightarrow> dispatcher \<Rightarrow> dispatch_message list" where
  "take_all 0 d = []"
| "take_all (Suc n) d = (case take_message d of None \<Rightarrow> [] | Some (m, d') \<Rightarrow> m # take_all n d')"

lemma take_all_queue: "length (memory_queue d) \<le> n \<Longrightarrow> take_all n d = map snd (memory_queue d)"
  by (induction n arbitrary: d) (auto simp: take_message_simps split: list.splits)

lemma enqueue_wf: "dispatcher_wf d \<Longrightarrow> dispatcher_wf (enqueue_message m d)"
  by (fastforce simp: dispatcher_wf_def enqueue_message_def)

definition empty_dispatcher :: dispatcher where
  "empty_dispatcher = \<lparr>memory_queue = [], queue_sequence = 0\<rparr>"

definition message_priority :: "dispatch_message \<Rightarrow> nat" where
  "message_priority m = plan_priority (dm_plan_tier m)"

lemma sort_key_sorted_id: "sorted (map f xs) \<Longrightarrow> sort_key f xs = xs"
  by (rule properties_for_sort_key) auto

lemma filter_enqueue:
  assumes "dispatcher_wf d"
  shows "filter (\<lambda>x. message_priority x = p) (map snd (memory_queue (enqueue_message m d))) =
    filter (\<lambda>x. message_priority x = p) (map snd (memory_queue d) @ [m])"
proof -
  let ?q = "memory_queue d" and ?e = "((plan_priority (dm_plan_tier m), queue_sequence d), m)"
  let ?P = "\<lambda>x :: (nat \<times> nat) \<times> dispatch_message. message_priority (snd x) = p"
  have keys: "x \<in> set ?q \<Longrightarrow> fst (fst x) = message_priority (snd x) \<and> snd (fst x) < queue_sequence d" for x
    using assms by (auto simp: dispatcher_wf_def message_priority_def)
  have "sorted (map fst (filter ?P (?q @ [?e])))"
    using assms keys
    by (fastforce simp: dispatcher_wf_def sorted_append message_priority_def intro: sorted_filter less_imp_le)
  then have "filter ?P (sort_key fst (?q @ [?e])) = filter ?P (?q @ [?e])"
    by (simp only: filter_sort sort_key_sorted_id)
  moreover have "filter (\<lambda>x. message_priority x = p) (map snd xs) = map snd (filter ?P xs)" for xs
    by (simp add: filter_map comp_def)
  ultimately show ?thesis by (simp add: enqueue_message_def del: filter_append) simp
qed

lemma enqueued_wf: "dispatcher_wf (fold enqueue_message ms empty_dispatcher)"
proof -
  have "dispatcher_wf d \<Longrightarrow> dispatcher_wf (fold enqueue_message ms d)" for d
    by (induction ms arbitrary: d) (auto intro: enqueue_wf)
  moreover have "dispatcher_wf empty_dispatcher" by (simp add: dispatcher_wf_def empty_dispatcher_def)
  ultimately show ?thesis by blast
qed

lemma enqueued_filter:
  "filter (\<lambda>x. message_priority x = p) (map snd (memory_queue (fold enqueue_message ms empty_dispatcher))) =
   filter (\<lambda>x. message_priority x = p) ms"
proof (induction ms rule: rev_induct)
  case Nil
  then show ?case by (simp add: empty_dispatcher_def)
next
  case (snoc m ms)
  then show ?case by (simp add: filter_enqueue [OF enqueued_wf] del: filter_append) simp
qed

lemma mset_enqueue: "mset (map snd (memory_queue (enqueue_message m d))) = add_mset m (mset (map snd (memory_queue d)))"
  by (simp add: enqueue_message_def mset_map)

lemma enqueued_mset: "mset (map snd (memory_queue (fold enqueue_message ms empty_dispatcher))) = mset ms"
proof (induction ms rule: rev_induct)
  case Nil
  then show ?case by (simp add: empty_dispatcher_def)
next
  case (snoc m ms)
  then show ?case by (simp add: mset_enqueue del: mset_map)
qed

lemma sorted_fst_of_rank: "sorted (map fst xs) \<Longrightarrow> sorted (map (\<lambda>x. fst (fst x)) xs)"
  by (induction xs) (auto simp: less_eq_prod_def)

lemma enqueued_sorted: "map snd (memory_queue (fold enqueue_message ms empty_dispatcher)) = sort_key message_priority ms"
proof (rule properties_for_sort_key [symmetric])
  let ?d = "fold enqueue_message ms empty_dispatcher"
  have "sorted (map fst (memory_queue ?d))" and k: "\<forall>x \<in> set (memory_queue ?d). fst (fst x) = message_priority (snd x)"
    using enqueued_wf [of ms] by (auto simp: dispatcher_wf_def message_priority_def)
  then have "sorted (map (\<lambda>x. fst (fst x)) (memory_queue ?d))"
    by (simp add: sorted_fst_of_rank)
  moreover have "map (\<lambda>x. fst (fst x)) (memory_queue ?d) = map message_priority (map snd (memory_queue ?d))"
    using k by simp
  ultimately show "sorted (map message_priority (map snd (memory_queue ?d)))" by simp
qed (use enqueued_mset [of ms] enqueued_filter [of _ ms] in \<open>auto simp: eq_commute\<close>)

section \<open>Properties\<close>

text \<open>
  C27: The dispatcher serves museum jobs before pro jobs before hobbyist jobs, and first come first
  served within a plan: publishing any messages to an empty queue and then taking them all yields
  the stable sort of the messages by plan priority, so none is lost, duplicated or overtaken by a
  later one of its own plan.
\<close>

theorem dispatch_order:
  "take_all (length ms) (fold enqueue_message ms empty_dispatcher) =
     sort_key (\<lambda>m. plan_priority (dm_plan_tier m)) ms"
proof -
  have "length (memory_queue (fold enqueue_message ms empty_dispatcher)) = length ms"
    using enqueued_mset [of ms] by (metis length_map size_mset)
  with enqueued_sorted [of ms] show ?thesis
    by (simp add: take_all_queue message_priority_def [abs_def])
qed

end
