(* ===== verification/Manifest.thy ===== *)
theory Manifest
  imports Upload_Store Signing Era_Validation "HOL-Library.List_Lexorder" "HOL-Library.Char_ord"
begin

text \<open>
  Transformation manifests: \<open>app/services/transformation_manifest.py\<close> builds, redacts, stores and classifies
  the account of what was done to a video. The object storage is outside the program, as for uploads. That a
  payload has the shape of the response model (\<open>TransformationManifestResponse\<close>) is not checked again.
\<close>

section \<open>Records as JSON\<close>

definition quality_summary_json :: "quality_summary \<Rightarrow> json" where
  "quality_summary_json q = JObj [(''e_hf'', JFloat (qs_e_hf q)), (''s_ls_db'', JFloat (qs_s_ls_db q)),
     (''t_tc'', JFloat (qs_t_tc q)), (''thresholds_met'', JBool (qs_thresholds_met q))]"

definition verification_status :: "bool \<Rightarrow> json" where
  "verification_status passed = JStr (if passed then ''pass'' else ''failed'')"

fun rollup_value :: "rollup_level \<Rightarrow> string" where
  "rollup_value RollupPass = ''pass''"
| "rollup_value RollupPartial = ''partial''"
| "rollup_value RollupWarning = ''warning''"
| "rollup_value RollupCritical = ''critical''"

definition reproducibility_summary_json :: "reproducibility_summary \<Rightarrow> json" where
  "reproducibility_summary_json r = JObj [(''mode'', JStr (mode_value (rs_mode r))),
     (''verification_status'', verification_status (rs_passed r)), (''failed_segment_count'', JInt (rs_failed_segment_count r)),
     (''rerun_count'', JInt (rs_rerun_count r)), (''rollup'', JStr (rollup_value (rs_rollup r))),
     (''metric_epsilon_percent'', JFloat (rs_metric_epsilon_percent r)),
     (''environment_fingerprint'', JStr (rs_environment_fingerprint r))]"

definition stage_timings_json :: "stage_timings \<Rightarrow> json" where
  "stage_timings_json t = JObj [(''upload_ms'', opt_json JInt (upload_ms t)), (''era_detection_ms'', opt_json JInt (era_detection_ms t)),
     (''queue_wait_ms'', opt_json JInt (queue_wait_ms t)), (''allocation_ms'', opt_json JInt (allocation_ms t)),
     (''processing_ms'', opt_json JInt (processing_ms t)), (''encoding_ms'', opt_json JInt (encoding_ms t)),
     (''download_ms'', opt_json JInt (download_ms t)), (''total_ms'', opt_json JInt (total_ms t))]"

definition cache_summary_json :: "cache_summary \<Rightarrow> json" where
  "cache_summary_json s = JObj [(''hits'', JInt (hits s)), (''misses'', JInt (misses s)), (''bypassed'', JInt (bypassed s)),
     (''degraded'', JBool (cache_degraded s)), (''hit_rate'', JFloat (hit_rate s)), (''saved_gpu_seconds'', JInt (saved_gpu_seconds s))]"

definition cost_summary_json :: "cost_summary \<Rightarrow> json" where
  "cost_summary_json s = JObj [(''gpu_seconds'', JInt (cs_gpu_seconds s)), (''storage_operations'', JInt (cs_storage_operations s)),
     (''api_calls'', JInt (cs_api_calls s)), (''total_cost_usd'', JFloat (total_cost_usd s))]"

definition slo_summary_json :: "slo_summary \<Rightarrow> json" where
  "slo_summary_json s = JObj [(''target_total_ms'', JInt (target_total_ms s)), (''actual_total_ms'', opt_json JInt (actual_total_ms s)),
     (''p95_ratio'', opt_json JFloat (p95_ratio s)), (''compliant'', opt_json JBool (compliant s)), (''degraded'', JBool (slo_degraded s)),
     (''error_budget_burn_percent'', JFloat (error_budget_burn_percent s)), (''museum_sla_applies'', JBool (museum_sla_applies s))]"

definition roi_json :: "int \<Rightarrow> int \<Rightarrow> int \<Rightarrow> int \<Rightarrow> json" where
  "roi_json x y width height = JObj [(''x'', JInt x), (''y'', JInt y), (''width'', JInt width), (''height'', JInt height)]"

definition downscale_rule :: json where
  "downscale_rule = JStr ''720p for optical flow if source > 720p''"

definition sampling_json :: "sampling_protocol \<Rightarrow> json" where
  "sampling_json p = JObj [(''frames_per_second'', JFloat (frames_per_second p)), (''frames_sampled'', JInt (frames_sampled p)),
     (''sampled_timestamps_seconds'', JList (map JFloat (sampled_timestamps_seconds p))), (''downscale_rule'', downscale_rule),
     (''roi_256'', roi_json 832 412 256 256), (''roi_512'', roi_json 704 284 512 512),
     (''roi_full_frame'', roi_json 0 0 1280 720), (''roi_source'', JStr ''center_crop'')]"

text \<open>What a segment without quality metrics is given.\<close>

definition no_sampling_json :: json where
  "no_sampling_json = JObj [(''frames_per_second'', JFloat 1), (''frames_sampled'', JInt 0), (''sampled_timestamps_seconds'', JList []),
     (''downscale_rule'', downscale_rule), (''roi_256'', roi_json 0 0 256 256), (''roi_512'', roi_json 0 0 512 512),
     (''roi_full_frame'', roi_json 0 0 1280 720), (''roi_source'', JStr ''center_crop'')]"

section \<open>The environment\<close>

text \<open>\<open>me_upload\<close> has the settings, the clock and the access token; what the storage answers is indexed by calls.\<close>

record manifest_env =
  me_upload :: upload_env
  me_gemini_model :: string
  me_build_settings :: jdict
  me_hex :: "nat \<Rightarrow> string"
  manifest_put :: "string \<Rightarrow> string \<Rightarrow> string \<Rightarrow> nat \<Rightarrow> http_response option"
  manifest_delete :: "string \<Rightarrow> string \<Rightarrow> nat \<Rightarrow> http_response option"

record manifest_world =
  mw_settings :: retention_settings
  mw_audit :: class_audit
  mw_calls :: nat

definition me_codec :: "manifest_env \<Rightarrow> codec" where
  "me_codec env = ue_codec (me_upload env)"

definition manifest_call :: "(nat \<Rightarrow> 'a) \<Rightarrow> (manifest_world, 'a) prog" where
  "manifest_call f = (\<lambda>w. (Inr (f (mw_calls w)), w\<lparr>mw_calls := Suc (mw_calls w)\<rparr>))"

definition environment_json :: "manifest_env \<Rightarrow> json" where
  "environment_json env = JObj (me_build_settings env @
     [(''fingerprint'', JStr (environment_fingerprint (me_codec env) (me_build_settings env)))])"

definition proof_json :: "manifest_env \<Rightarrow> reproducibility_proof \<Rightarrow> json" where
  "proof_json env p = JObj [(''mode'', JStr (mode_value (rp_mode p))), (''environment_fingerprint'', JStr (rp_environment_fingerprint p)),
     (''environment'', environment_json env), (''frame_hashes'', JList (map JStr (frame_hashes p))),
     (''verification_status'', verification_status (rp_passed p)), (''metric_epsilon_percent'', JFloat (metric_epsilon_percent p)),
     (''rerun_count'', JInt (rp_rerun_count p)), (''normalized_frame_stage'', JStr ''post-restoration-pre-encode''),
     (''perceptual_hash_hamming_distance'', JInt (perceptual_hash_hamming_distance p)),
     (''frame_equivalence_verified'', JBool (rp_passed p)), (''metrics_stability_verified'', JBool (rp_passed p))]"

section \<open>The payload\<close>

definition model_versions :: "manifest_env \<Rightarrow> resolved_fidelity option \<Rightarrow> json result" where
  "model_versions env profile =
     (case profile of
        None \<Rightarrow> Inl (TypeError ''NoneType'')
      | Some r \<Rightarrow> Inr (JObj [
          (''codeformer'', JStr (''reference-codeformer-contract-'' @ lower (tier_value (fp_tier (rf_profile r))) @ ''-v1'')),
          (''identity_lock'', JStr (if identity_lock (rf_profile r) then ''enabled'' else ''disabled'')),
          (''av1_encoder'', JStr ''reference-av1-fgs-contract-v1''), (''encoding_profile'', JStr ''reference-balanced-profile''),
          (''gemini'', JStr (me_gemini_model env))]))"

definition segment_quality_json :: "quality option \<Rightarrow> json" where
  "segment_quality_json q =
     (case q of
        None \<Rightarrow> quality_summary_json empty_quality_summary
      | Some m \<Rightarrow> JObj [(''e_hf'', JFloat (q_e_hf m)), (''s_ls_db'', JFloat (q_s_ls_db m)), (''t_tc'', JFloat (q_t_tc m)),
          (''thresholds_met'', JBool (q_thresholds_met m))])"

definition manifest_segment :: "manifest_env \<Rightarrow> segment \<Rightarrow> json" where
  "manifest_segment env x =
     JObj [(''segment_index'', JInt (sg_index x)),
       (''frame_range'', JStr (dec_int (sg_start_seconds x) @ ''s-'' @ dec_int (sg_end_seconds x) @ ''s'')),
       (''quality_summary'', segment_quality_json (quality_metrics x)),
       (''uncertainty_callouts'', JList (map JStr (uncertainty_callouts x))),
       (''sampling_protocol'', (case quality_metrics x of None \<Rightarrow> no_sampling_json | Some m \<Rightarrow> sampling_json (q_sampling m))),
       (''reproducibility_proof'', (case reproducibility_proof x of None \<Rightarrow> JObj [] | Some p \<Rightarrow> proof_json env p)),
       (''output_uri'', opt_json JStr (sg_output_uri x))]"

definition build_manifest_payload :: "manifest_env \<Rightarrow> string \<Rightarrow> time \<Rightarrow> job \<Rightarrow> segment list \<Rightarrow> jdict result" where
  "build_manifest_payload env mid generated_at j segs =
     bind_res (model_versions env (effective_fidelity_profile j)) (\<lambda>versions.
     Inr [(''manifest_id'', JStr mid), (''job_id'', JStr (job_id j)), (''generated_at'', JStr (isoformat generated_at)),
       (''user_id'', JStr (owner_user_id j)), (''era_profile'', era_profile j), (''fidelity_tier'', JStr (effective_fidelity_tier j)),
       (''effective_fidelity_profile'', opt_json fidelity_json (effective_fidelity_profile j)),
       (''reproducibility_mode'', JStr (job_reproducibility_mode j)), (''job_status'', JStr (status_value (job_status j))),
       (''quality_summary'', quality_summary_json (quality_summary_of j)),
       (''reproducibility_summary'', opt_json reproducibility_summary_json (reproducibility_summary_of j)),
       (''stage_timings'', stage_timings_json (stage_timings_of j)),
       (''processing_time_ms'', JInt (case processing_ms (stage_timings_of j) of None \<Rightarrow> 0 | Some n \<Rightarrow> n)),
       (''gpu_usage'', JObj [(''gpu_type'', opt_json JStr (gpu_type (gpu_summary_of j))),
          (''gpu_seconds'', JInt (cs_gpu_seconds (cost_summary_of j))), (''warm_start'', opt_json JBool (warm_start (gpu_summary_of j))),
          (''allocation_latency_ms'', opt_json JInt (allocation_latency_ms (gpu_summary_of j)))]),
       (''cache_summary'', cache_summary_json (cache_summary_of j)), (''cost_summary'', cost_summary_json (cost_summary_of j)),
       (''slo_summary'', slo_summary_json (slo_summary_of j)), (''model_versions'', versions), (''environment'', environment_json env),
       (''segments'', JList (map (manifest_segment env) segs)),
       (''uncertainty_callouts'', JList (map JStr (sort (remdups (concat (map uncertainty_callouts segs)))))),
       (''warnings'', JList (map JStr (warnings j))), (''result_uri'', opt_json JStr (result_uri j)),
       (''manifest_uri'', JStr []), (''manifest_sha256'', JStr [])])"

definition manifest_sha256_of :: "codec \<Rightarrow> jdict \<Rightarrow> string" where
  "manifest_sha256_of c pl = sha256_hex c (json_dumps_compact c (JObj pl))"

section \<open>Redaction\<close>

definition redacted_segment :: "json \<Rightarrow> json" where
  "redacted_segment v =
     (let d = mapping_of v in
      JObj [(''segment_index'', jget d ''segment_index''), (''frame_range'', jget d ''frame_range''),
        (''quality_summary'', jor (jget d ''quality_summary'') (JObj [])),
        (''sampling_protocol'', jor (jget d ''sampling_protocol'') (JObj [])),
        (''reproducibility_proof'', jor (jget d ''reproducibility_proof'') (JObj []))])"

definition list_of :: "json \<Rightarrow> json list" where
  "list_of v = (case v of JList xs \<Rightarrow> xs | _ \<Rightarrow> [])"

definition build_redacted_manifest_payload :: "jdict \<Rightarrow> jdict" where
  "build_redacted_manifest_payload p =
     [(''manifest_id'', jget p ''manifest_id''), (''job_id'', jget p ''job_id''), (''redaction_version'', JStr ''sec-005-v1''),
      (''era_profile'', jor (jget p ''era_profile'') (JObj [])), (''fidelity_tier'', jget p ''fidelity_tier''),
      (''effective_fidelity_profile'', jor (jget p ''effective_fidelity_profile'') (JObj [])),
      (''reproducibility_mode'', jget p ''reproducibility_mode''),
      (''quality_summary'', jor (jget p ''quality_summary'') (JObj [])),
      (''reproducibility_summary'', jor (jget p ''reproducibility_summary'') (JObj [])),
      (''model_versions'', jor (jget p ''model_versions'') (JObj [])),
      (''segments'', JList (map redacted_segment (list_of (jget p ''segments''))))]"

section \<open>The object storage\<close>

definition manifest_storage_unavailable :: exn where
  "manifest_storage_unavailable = ProblemException ''Manifest Storage Unavailable'' 500"

definition local_storage :: "manifest_env \<Rightarrow> bool" where
  "local_storage env = is_local_environment (ue_environment (me_upload env))"

definition manifest_token :: "manifest_env \<Rightarrow> (manifest_world, bool) prog" where
  "manifest_token env = manifest_call (\<lambda>n. access_token (me_upload env) n \<notin> {None, Some []})"

definition manifest_object_name :: "string \<Rightarrow> string \<Rightarrow> string \<Rightarrow> bool \<Rightarrow> string" where
  "manifest_object_name cls jid basename redacted =
     ''manifests/'' @ cls @ ''/'' @ jid @ ''/'' @ basename @ (if redacted then ''.redacted.json'' else ''.json'')"

definition store_manifest ::
  "manifest_env \<Rightarrow> string \<Rightarrow> jdict \<Rightarrow> string \<Rightarrow> string \<Rightarrow> bool \<Rightarrow> (manifest_world, string \<times> int) prog" where
  "store_manifest env jid pl cls basename redacted =
     (let encoded = json_dumps_compact (me_codec env) (JObj pl); bucket = ue_gcs_bucket_name (me_upload env);
          name = manifest_object_name cls jid basename redacted in
      if local_storage env then ret (bucket_uri (or_str bucket ''chronos'') name, int (length encoded))
      else if bucket = [] then raise manifest_storage_unavailable
      else
        bindE (manifest_token env) (\<lambda>ok.
        if \<not> ok then raise manifest_storage_unavailable
        else
          bindE (manifest_call (manifest_put env bucket name encoded)) (\<lambda>resp.
          case resp of
            None \<Rightarrow> raise (ExternalError ''HTTPError'')
          | Some r \<Rightarrow> if is_success r then ret (bucket_uri bucket name, int (length encoded)) else raise (ExternalError ''HTTPStatusError''))))"

definition parse_gs_uri :: "string \<Rightarrow> string \<times> string" where
  "parse_gs_uri uri = (if starts_with ''gs://'' uri then bucket_and_path [] uri else ([], []))"

text \<open>The checks that \<open>delete_object\<close> and \<open>patch_manifest_metadata\<close> share; nothing is sent from a local environment.\<close>

definition object_request ::
  "manifest_env \<Rightarrow> string \<Rightarrow> (string \<Rightarrow> string \<Rightarrow> nat \<Rightarrow> http_response option) \<Rightarrow> (manifest_world, bool) prog" where
  "object_request env uri send =
     (if local_storage env then ret False
      else if ue_gcs_bucket_name (me_upload env) = [] then raise manifest_storage_unavailable
      else
        (case parse_gs_uri uri of (bucket, path) \<Rightarrow>
           if bucket = [] \<or> path = [] then raise manifest_storage_unavailable
           else
             bindE (manifest_token env) (\<lambda>ok.
             if \<not> ok then raise manifest_storage_unavailable
             else
               bindE (manifest_call (send bucket (quote [] path))) (\<lambda>resp.
               case resp of
                 None \<Rightarrow> raise manifest_storage_unavailable
               | Some r \<Rightarrow> if is_success r then ret True else raise manifest_storage_unavailable))))"

definition delete_object :: "manifest_env \<Rightarrow> string \<Rightarrow> (manifest_world, bool) prog" where
  "delete_object env uri = object_request env uri (manifest_delete env)"

definition patch_manifest_metadata :: "manifest_env \<Rightarrow> string \<Rightarrow> (string, json) pydict \<Rightarrow> (manifest_world, bool) prog" where
  "patch_manifest_metadata env uri metadata =
     object_request env uri (\<lambda>bucket path. gcs_patch (me_upload env) bucket path metadata)"

definition delete_manifest_objects :: "manifest_env \<Rightarrow> string list \<Rightarrow> (manifest_world, unit) prog" where
  "delete_manifest_objects env uris = forE uris (\<lambda>uri. bindE (delete_object env uri) (\<lambda>_. ret ()))"

section \<open>\<open>finalize_manifest_payload\<close>\<close>

definition record_manifest_event :: "manifest_env \<Rightarrow> classification_record \<Rightarrow> string \<Rightarrow> (manifest_world, unit) prog" where
  "record_manifest_event env cl event =
     bindE (manifest_call (ue_uuid (me_upload env))) (\<lambda>new_id.
     bindE (manifest_call (ue_clock (me_upload env))) (\<lambda>now.
     modifyE (\<lambda>w. w\<lparr>mw_audit := record_event new_id now cl event [] (mw_audit w)\<rparr>)))"

text \<open>Only the patcher's own exception is recorded as a failure, and it raises no other.\<close>

definition classify_manifest ::
  "manifest_env \<Rightarrow> string \<Rightarrow> string \<Rightarrow> time \<Rightarrow> int option \<Rightarrow> (manifest_world, classification_record) prog" where
  "classify_manifest env uri tier generated_at ds =
     bindE (liftR (classify (me_codec env) ARTIFACT_TRANSFORMATION_MANIFEST uri tier generated_at (Some ds))) (\<lambda>cl.
     bindE (record_manifest_event env cl ''classification_assigned'') (\<lambda>_.
     bindE (catchE (patch_manifest_metadata env uri (classification_metadata cl))
         (\<lambda>e. bindE (record_manifest_event env cl ''gcs_metadata_patch_failed'') (\<lambda>_. raise e))) (\<lambda>patched.
     bindE (record_manifest_event env cl (if patched then ''gcs_metadata_patched'' else ''gcs_metadata_patch_skipped'')) (\<lambda>_.
     ret cl))))"

record redaction =
  rd_payload :: jdict
  rd_uri :: string
  rd_sha256 :: string
  rd_size_bytes :: int

definition redact_manifest ::
  "manifest_env \<Rightarrow> job \<Rightarrow> jdict \<Rightarrow> retention_policy \<Rightarrow> time \<Rightarrow> string \<Rightarrow> (manifest_world, redaction option) prog" where
  "redact_manifest env j pl policy generated_at basename =
     (if \<not> rp_redaction_enabled policy then ret None
      else
        (let redacted = dset ''source_manifest_sha256'' (jget pl ''manifest_sha256'') (build_redacted_manifest_payload pl);
             sha = manifest_sha256_of (me_codec env) redacted;
             final = dset ''redacted_manifest_sha256'' (JStr sha) redacted in
         bindE (store_manifest env (job_id j) final (retention_class policy) basename True) (\<lambda>(uri, sz).
         bindE (classify_manifest env uri (job_plan_tier j) generated_at (rp_retention_days policy)) (\<lambda>_.
         ret (Some \<lparr>rd_payload = final, rd_uri = uri, rd_sha256 = sha, rd_size_bytes = sz\<rparr>)))))"

record manifest_result =
  mr_record :: manifest_record
  mr_manifest_uri :: string
  mr_manifest_sha256 :: string
  mr_generated_at :: time
  mr_size_bytes :: int
  mr_delete_uris :: "string list"

text \<open>A policy of zero days marks the record for deletion before it is stored.\<close>

definition manifest_result_of ::
  "jdict \<Rightarrow> string \<Rightarrow> string \<Rightarrow> int \<Rightarrow> time \<Rightarrow> retention_policy \<Rightarrow> redaction option \<Rightarrow> time \<Rightarrow> manifest_result" where
  "manifest_result_of pl uri sha sz generated_at policy red attempted =
     (let zero = (retention_class policy = ''0d'') in
      \<lparr>mr_record = \<lparr>mf_payload = pl, retention_expires_at = rp_retention_expires_at policy,
          retention_delete_status = (if zero then Some ''pending'' else None), retention_deleted_at = None,
          retention_delete_attempted_at = (if zero then Some attempted else None), redacted_manifest_uri = map_option rd_uri red\<rparr>,
        mr_manifest_uri = uri, mr_manifest_sha256 = sha, mr_generated_at = generated_at, mr_size_bytes = sz,
        mr_delete_uris = (if zero then uri # (case red of None \<Rightarrow> [] | Some r \<Rightarrow> [rd_uri r]) else [])\<rparr>)"

definition finalize_manifest ::
  "manifest_env \<Rightarrow> string \<Rightarrow> time \<Rightarrow> job \<Rightarrow> segment list \<Rightarrow> (manifest_world, manifest_result) prog" where
  "finalize_manifest env mid generated_at j segs =
     bindE (liftR (build_manifest_payload env mid generated_at j segs)) (\<lambda>payload0.
     let sha = manifest_sha256_of (me_codec env) payload0; payload1 = dset ''manifest_sha256'' (JStr sha) payload0 in
     bindE (getsE (\<lambda>w. resolve_policy (Some (job_org_id j)) (job_plan_tier j) generated_at (mw_settings w))) (\<lambda>found.
     bindE (liftR found) (\<lambda>policy.
     bindE (manifest_call (me_hex env)) (\<lambda>basename.
     bindE (store_manifest env (job_id j) payload1 (retention_class policy) basename False) (\<lambda>(uri, sz).
     let pl = dset ''size_bytes'' (JInt sz) (dset ''manifest_uri'' (JStr uri) payload1) in
     bindE (classify_manifest env uri (job_plan_tier j) generated_at (rp_retention_days policy)) (\<lambda>_.
     bindE (redact_manifest env j pl policy generated_at basename) (\<lambda>red.
     bindE (if retention_class policy = ''0d'' then manifest_call (ue_clock (me_upload env)) else ret 0) (\<lambda>attempted.
     ret (manifest_result_of pl uri sha sz generated_at policy red attempted)))))))))"

section \<open>What comes out\<close>

lemma wp_redact_manifest:
  "(\<And>red w'. (red = None \<longleftrightarrow> \<not> rp_redaction_enabled policy) \<Longrightarrow> Q red w') \<Longrightarrow>
   wp (redact_manifest env j pl policy g basename) Q (\<lambda>_ _. True) w"
  unfolding redact_manifest_def Let_def wp_if wp_bindE wp_ret case_prod_beta
  by (simp, intro impI wp_any) simp_all

lemma wp_finalize_manifest:
  assumes "\<And>pl0 policy uri sz red attempted w'. build_manifest_payload env mid g j segs = Inr pl0 \<Longrightarrow>
      resolve_policy (Some (job_org_id j)) (job_plan_tier j) g (mw_settings w) = Inr policy \<Longrightarrow>
      (red = None \<longleftrightarrow> \<not> rp_redaction_enabled policy) \<Longrightarrow>
      Q (manifest_result_of (dset ''size_bytes'' (JInt sz) (dset ''manifest_uri'' (JStr uri)
            (dset ''manifest_sha256'' (JStr (manifest_sha256_of (me_codec env) pl0)) pl0))) uri
          (manifest_sha256_of (me_codec env) pl0) sz g policy red attempted) w'"
  shows "wp (finalize_manifest env mid g j segs) Q (\<lambda>_ _. True) w"
proof (cases "build_manifest_payload env mid g j segs")
  case (Inl e)
  then show ?thesis by (simp add: finalize_manifest_def wp_simps)
next
  case (Inr pl0)
  show ?thesis
  proof (cases "resolve_policy (Some (job_org_id j)) (job_plan_tier j) g (mw_settings w)")
    case (Inl e)
    with Inr show ?thesis by (simp add: finalize_manifest_def Let_def wp_simps)
  next
    case (Inr policy)
    note a = assms [OF \<open>build_manifest_payload env mid g j segs = Inr pl0\<close> Inr]
    show ?thesis
      unfolding finalize_manifest_def wp_bindE wp_liftR wp_getsE \<open>build_manifest_payload env mid g j segs = Inr pl0\<close> sum.case Let_def
        Inr case_prod_beta wp_ret
      by (rule wp_any, rule wp_any, rule wp_any, rule wp_redact_manifest, rule wp_any, rule a) simp_all
  qed
qed

text \<open>Writing back what a key had, and overwriting.\<close>

lemma dset_same: "dget d k = Some v \<Longrightarrow> dset k v d = d"
  by (induction d) auto

lemma dset_twice: "dset k v (dset k v' d) = dset k v d"
  by (induction d) auto

lemma dset_swap: "k \<noteq> k' \<Longrightarrow> dget d k \<noteq> None \<Longrightarrow> dset k v (dset k' v' d) = dset k' v' (dset k v d)"
  by (induction d) auto

lemma dpop_dset_new: "dget d k = None \<Longrightarrow> dpop k (dset k v d) = d"
  by (induction d) (auto simp: AList.delete_eq filter_id_conv split: if_splits)

lemma blank_fields:
  "build_manifest_payload env mid g j segs = Inr pl0 \<Longrightarrow>
   dget pl0 ''manifest_uri'' = Some (JStr []) \<and> dget pl0 ''manifest_sha256'' = Some (JStr []) \<and> dget pl0 ''size_bytes'' = None"
  by (auto simp: build_manifest_payload_def bind_res_Inr_iff)

text \<open>Recomputing the digest: without the size, and with the two fields blank that were filled in last.\<close>

definition digest_checks :: "codec \<Rightarrow> manifest_result \<Rightarrow> bool" where
  "digest_checks c m \<longleftrightarrow>
     (let pl = mf_payload (mr_record m) in
      jget pl ''manifest_sha256'' = JStr (mr_manifest_sha256 m) \<and> jget pl ''manifest_uri'' = JStr (mr_manifest_uri m) \<and>
      mr_manifest_sha256 m =
        manifest_sha256_of c (dset ''manifest_uri'' (JStr []) (dset ''manifest_sha256'' (JStr []) (dpop ''size_bytes'' pl))))"

lemma digest_checks_result:
  assumes "build_manifest_payload env mid g j segs = Inr pl0"
  shows "digest_checks c (manifest_result_of (dset ''size_bytes'' (JInt sz) (dset ''manifest_uri'' (JStr uri)
       (dset ''manifest_sha256'' (JStr (manifest_sha256_of c pl0)) pl0))) uri (manifest_sha256_of c pl0) sz g policy red attempted)"
proof -
  note b = blank_fields [OF assms]
  have "dset ''manifest_uri'' (JStr []) (dset ''manifest_sha256'' (JStr []) (dset ''manifest_uri'' (JStr uri)
      (dset ''manifest_sha256'' (JStr sha) pl0))) = pl0" for sha
  proof -
    have "dset ''manifest_sha256'' (JStr []) (dset ''manifest_uri'' (JStr uri) (dset ''manifest_sha256'' (JStr sha) pl0)) =
        dset ''manifest_uri'' (JStr uri) pl0"
      using b by (subst dset_swap) (simp_all add: dset_twice dset_same)
    then show ?thesis using b by (simp add: dset_twice dset_same)
  qed
  then show ?thesis
    using b by (simp add: digest_checks_def manifest_result_of_def Let_def jget_def dpop_dset_new)
qed

text \<open>
  The digest of a manifest can be checked. Taking the size out of the finished payload and blanking the
  two fields that were filled in last gives back the payload whose SHA-256 it names.
\<close>

theorem manifest_digest_verifiable:
  assumes "finalize_manifest env mid g j segs w = (Inr m, w')"
  shows "digest_checks (me_codec env) m"
proof -
  have "wp (finalize_manifest env mid g j segs) (\<lambda>m _. digest_checks (me_codec env) m) (\<lambda>_ _. True) w"
    by (rule wp_finalize_manifest, rule digest_checks_result)
  then show ?thesis by (simp add: wp_def assms)
qed

text \<open>
  C13: A stored manifest can be read exactly while its retention policy keeps it. Take the manifest that
  finalize_manifest has just made under the policy in force and store it for its job: whoever the job belongs
  to reads the payload back until the days of the policy have passed, for ever where the policy is indefinite, and never, not even
  before the objects are deleted, where the policy is zero days; then every object stored is listed for deletion.
\<close>

theorem manifest_visible_while_retained:
  assumes run: "finalize_manifest env mid g j segs w = (Inr m, w')"
    and policy: "resolve_policy (Some (job_org_id j)) (job_plan_tier j) g (mw_settings w) = Inr policy"
    and job: "dget (jobs s) (job_id j) = Some k" "owned_by owner k"
  shows "fst (get_manifest now (job_id j) owner (snd (upsert_manifest_for_worker (job_id j) (mr_record m) s))) =
      Inr (if rp_retention_days policy = Some 0 then None
           else case rp_retention_days policy of
                  None \<Rightarrow> Some (mf_payload (mr_record m))
                | Some n \<Rightarrow> if now < g + days n then Some (mf_payload (mr_record m)) else None) \<and>
    mr_delete_uris m = (if rp_retention_days policy = Some 0
      then mr_manifest_uri m # (case redacted_manifest_uri (mr_record m) of None \<Rightarrow> [] | Some u \<Rightarrow> [u]) else [])"
proof -
  have cls: "retention_class policy = ''0d'' \<longleftrightarrow> rp_retention_days policy = Some 0"
    and expires: "rp_retention_expires_at policy = retention_expiry g (rp_retention_days policy)"
    using policy by (auto simp: resolve_policy_def Let_def bind_res_Inr_iff retention_class_for_days_def split: option.splits if_splits)
  define R where "R m \<longleftrightarrow> retention_deleted_at (mr_record m) = None \<and>
      retention_delete_status (mr_record m) = (if rp_retention_days policy = Some 0 then Some ''pending'' else None) \<and>
      retention_expires_at (mr_record m) = retention_expiry g (rp_retention_days policy) \<and>
      mr_delete_uris m = (if rp_retention_days policy = Some 0
        then mr_manifest_uri m # (case redacted_manifest_uri (mr_record m) of None \<Rightarrow> [] | Some u \<Rightarrow> [u]) else [])" for m :: manifest_result
  have "wp (finalize_manifest env mid g j segs) (\<lambda>m _. R m) (\<lambda>_ _. True) w"
    by (rule wp_finalize_manifest)
      (auto simp: R_def manifest_result_of_def Let_def cls expires policy split: option.splits)
  then have "R m" by (simp add: wp_def run)
  then show ?thesis
    using job by (auto simp: R_def get_manifest_def upsert_manifest_for_worker_def getsE_def manifest_is_retained_def
        retention_expiry_def split: option.splits)
qed

lemma redacted_segment_hides:
  "redacted_segment (manifest_segment env (x\<lparr>sg_output_uri := u, uncertainty_callouts := cs\<rparr>)) = redacted_segment (manifest_segment env x)"
  by (simp add: redacted_segment_def manifest_segment_def mapping_of_def Let_def)

text \<open>
  A redacted manifest does not tell who owns the video, where its results are or what it cost. Two jobs that
  differ only in their owner, result, warnings, status, costs, timings and the outputs and callouts of their
  segments have the same redacted manifest, whenever they were processed.
\<close>

theorem redaction_hides_owner_and_results:
  assumes "build_manifest_payload env mid g j segs = Inr p"
    and "build_manifest_payload env mid g' (j\<lparr>owner_user_id := user, result_uri := uri, warnings := ws, job_status := st,
      cost_summary_of := costs, gpu_summary_of := gpu, cache_summary_of := cache, slo_summary_of := slo, stage_timings_of := tm\<rparr>)
      (map (\<lambda>x. x\<lparr>sg_output_uri := out x, uncertainty_callouts := cs x\<rparr>) segs) = Inr p'"
  shows "build_redacted_manifest_payload p' = build_redacted_manifest_payload p"
proof -
  obtain versions where v: "model_versions env (effective_fidelity_profile j) = Inr versions"
    using assms(1) by (auto simp: build_manifest_payload_def bind_res_Inr_iff)
  have segs: "map redacted_segment (map (manifest_segment env) (map (\<lambda>x. x\<lparr>sg_output_uri := out x, uncertainty_callouts := cs x\<rparr>) segs)) =
      map redacted_segment (map (manifest_segment env) segs)"
    by (simp add: redacted_segment_hides)
  show ?thesis
    using assms v
    by (auto simp: build_manifest_payload_def build_redacted_manifest_payload_def list_of_def simp del: list.map_comp map_map intro: segs)
qed

section \<open>Witnesses\<close>

definition sample_manifest_env :: manifest_env where
  "sample_manifest_env = \<lparr>me_upload = sample_upload_env\<lparr>ue_environment := ''test''\<rparr>, me_gemini_model = ''gemini'',
     me_build_settings = [], me_hex = (\<lambda>_. ''hex''), manifest_put = (\<lambda>_ _ _ _. None), manifest_delete = (\<lambda>_ _ _. None)\<rparr>"

definition sample_manifest_world :: manifest_world where
  "sample_manifest_world = \<lparr>mw_settings = [(''org1'', \<lparr>rs_org_id = ''org1'', rs_plan_tier = ''museum'', rs_retention_days = Some 0,
       rs_redaction_enabled = True, rs_updated_by = None, rs_created_at = 0, rs_updated_at = 0\<rparr>)], mw_audit = [], mw_calls = 0\<rparr>"

definition museum_job :: job where
  "museum_job = (projr (fst (create_job 1 2 sample_job_request empty_job_store)))\<lparr>job_status := Completed, job_plan_tier := ''museum''\<rparr>"

lemma museum_job_simps [simp]:
  "job_id museum_job = ''j1''" "job_org_id museum_job = ''org1''" "job_plan_tier museum_job = ''museum''"
  "effective_fidelity_profile museum_job \<noteq> None" "owner_user_id museum_job = ''u1''"
  by (simp_all add: museum_job_def create_job_def sample_job_request_def Let_def)

lemma sample_payload: "effective_fidelity_profile j \<noteq> None \<Longrightarrow> \<exists>p. build_manifest_payload env mid g j segs = Inr p"
proof -
  assume "effective_fidelity_profile j \<noteq> None"
  then obtain r where "effective_fidelity_profile j = Some r" by blast
  then obtain v where "model_versions env (effective_fidelity_profile j) = Inr v" by (simp add: model_versions_def)
  then show ?thesis unfolding build_manifest_payload_def by simp
qed

lemma sample_policy:
  "resolve_policy (Some ''org1'') ''museum'' 5 (mw_settings sample_manifest_world) =
     Inr \<lparr>rp_retention_days = Some 0, rp_retention_expires_at = Some 5, retention_class = ''0d'',
       retention_policy_source = ''org_data_retention_settings'', rp_redaction_enabled = True\<rparr>"
  by (simp add: resolve_policy_def sample_manifest_world_def settings_get_def retention_class_for_days_def retention_expiry_def
      days_def Let_def string_eval)

text \<open>From a local environment nothing is sent, so nothing can fail.\<close>

lemma local_store_manifest: "local_storage env \<Longrightarrow> (\<And>r. Q r w) \<Longrightarrow> wp (store_manifest env jid pl cls basename red) Q E w"
  by (simp add: store_manifest_def Let_def wp_ret)

lemma local_patch: "local_storage env \<Longrightarrow> patch_manifest_metadata env uri md = ret False"
  by (simp add: patch_manifest_metadata_def object_request_def)

lemma wp_manifest_call: "wp (manifest_call f) Q E w = Q (f (mw_calls w)) (w\<lparr>mw_calls := Suc (mw_calls w)\<rparr>)"
  by (simp add: wp_def manifest_call_def)

lemma local_classify_manifest:
  assumes "local_storage env" and "\<And>cl w'. Q cl w'"
  shows "wp (classify_manifest env uri tier g ds) Q E w"
proof -
  have "\<exists>cl. classify (me_codec env) ARTIFACT_TRANSFORMATION_MANIFEST uri tier g (Some ds) = Inr cl"
    unfolding classify_def classification_label_for_artifact_def artifact_names Let_def by simp
  then obtain cl where "classify (me_codec env) ARTIFACT_TRANSFORMATION_MANIFEST uri tier g (Some ds) = Inr cl" ..
  then show ?thesis
    using assms by (simp add: classify_manifest_def local_patch record_manifest_event_def wp_manifest_call wp_simps)
qed

lemma local_redact_manifest:
  assumes "local_storage env" and "\<And>red w'. Q red w'"
  shows "wp (redact_manifest env j pl policy g basename) Q E w"
  unfolding redact_manifest_def Let_def wp_if wp_bindE wp_ret case_prod_beta
  using assms by (auto intro!: local_store_manifest local_classify_manifest simp: wp_ret)

lemma sample_finalized: "\<exists>m w'. finalize_manifest sample_manifest_env ''j1'' 5 museum_job [] sample_manifest_world = (Inr m, w')"
proof -
  have loc: "local_storage sample_manifest_env" by (simp add: local_storage_def sample_manifest_env_def is_local_environment_def)
  obtain pl0 where pl0: "build_manifest_payload sample_manifest_env ''j1'' 5 museum_job [] = Inr pl0"
    using sample_payload [OF museum_job_simps(4)] by blast
  have "wp (finalize_manifest sample_manifest_env ''j1'' 5 museum_job []) (\<lambda>_ _. True) (\<lambda>_ _. False) sample_manifest_world"
    unfolding finalize_manifest_def wp_bindE wp_liftR wp_getsE pl0 sum.case Let_def museum_job_simps sample_policy
      wp_manifest_call case_prod_beta wp_if wp_ret
    by (rule local_store_manifest [OF loc], rule local_classify_manifest [OF loc], rule local_redact_manifest [OF loc]) simp
  then show ?thesis by (auto simp: wp_def split: prod.splits sum.splits)
qed

theorem manifest_digest_verifiable_witness:
  "\<exists>m w'. finalize_manifest sample_manifest_env ''j1'' 5 museum_job [] sample_manifest_world = (Inr m, w') \<and>
     digest_checks (me_codec sample_manifest_env) m"
proof -
  obtain m w' where "finalize_manifest sample_manifest_env ''j1'' 5 museum_job [] sample_manifest_world = (Inr m, w')"
    using sample_finalized by blast
  with manifest_digest_verifiable [OF this] show ?thesis by blast
qed

definition sample_job_store :: job_store where
  "sample_job_store = snd (create_job 1 2 sample_job_request empty_job_store)"

lemma retained_job_stored: "\<exists>k. dget (jobs sample_job_store) ''j1'' = Some k \<and> owned_by (Some ''u1'') k"
  by (simp add: sample_job_store_def create_job_def sample_job_request_def empty_job_store_def owned_by_def Let_def)

theorem manifest_visible_while_retained_witness:
  "\<exists>m w'. finalize_manifest sample_manifest_env ''j1'' 5 museum_job [] sample_manifest_world = (Inr m, w') \<and>
     fst (get_manifest 4 ''j1'' (Some ''u1'') (snd (upsert_manifest_for_worker ''j1'' (mr_record m) sample_job_store))) = Inr None \<and>
     mr_manifest_uri m \<in> set (mr_delete_uris m)"
proof -
  obtain m w' where run: "finalize_manifest sample_manifest_env ''j1'' 5 museum_job [] sample_manifest_world = (Inr m, w')"
    using sample_finalized by blast
  obtain k where k: "dget (jobs sample_job_store) (job_id museum_job) = Some k" "owned_by (Some ''u1'') k"
    using retained_job_stored by auto
  have "resolve_policy (Some (job_org_id museum_job)) (job_plan_tier museum_job) 5 (mw_settings sample_manifest_world) =
     Inr \<lparr>rp_retention_days = Some 0, rp_retention_expires_at = Some 5, retention_class = ''0d'',
       retention_policy_source = ''org_data_retention_settings'', rp_redaction_enabled = True\<rparr>"
    by (simp add: sample_policy)
  from manifest_visible_while_retained [OF run this k, of 4] run show ?thesis by auto
qed

theorem redaction_hides_owner_and_results_witness:
  "\<exists>p p'. build_manifest_payload sample_manifest_env ''j1'' 5 museum_job [] = Inr p \<and>
     build_manifest_payload sample_manifest_env ''j1'' 6 (museum_job\<lparr>owner_user_id := ''u2'', result_uri := None, warnings := [],
       job_status := Partial, cost_summary_of := cost_summary_of museum_job, gpu_summary_of := gpu_summary_of museum_job,
       cache_summary_of := cache_summary_of museum_job, slo_summary_of := slo_summary_of museum_job,
       stage_timings_of := stage_timings_of museum_job\<rparr>) [] = Inr p' \<and>
     build_redacted_manifest_payload p' = build_redacted_manifest_payload p"
proof -
  let ?j = "museum_job\<lparr>owner_user_id := ''u2'', result_uri := None, warnings := [],
       job_status := Partial, cost_summary_of := cost_summary_of museum_job, gpu_summary_of := gpu_summary_of museum_job,
       cache_summary_of := cache_summary_of museum_job, slo_summary_of := slo_summary_of museum_job,
       stage_timings_of := stage_timings_of museum_job\<rparr>"
  obtain p where p: "build_manifest_payload sample_manifest_env ''j1'' 5 museum_job [] = Inr p"
    using sample_payload [OF museum_job_simps(4)] by blast
  have "effective_fidelity_profile ?j \<noteq> None" by simp
  from sample_payload [OF this, of sample_manifest_env "''j1''" 6 "[]"]
  obtain p' where p': "build_manifest_payload sample_manifest_env ''j1'' 6 ?j [] = Inr p'" by blast
  then have "build_manifest_payload sample_manifest_env ''j1'' 6 ?j
      (map (\<lambda>x. x\<lparr>sg_output_uri := None, uncertainty_callouts := []\<rparr>) []) = Inr p'"
    by (simp only: list.map(1))
  from p p' redaction_hides_owner_and_results [OF p this] show ?thesis by blast
qed

end
