(* ===== verification/Runtime_World.thy ===== *)
theory Runtime_World
  imports Cost_Ops Dispatch Output_Delivery Manifest
begin

text \<open>
  The state of the job runtime (\<open>app/services/job_runtime.py\<close>): the slices of the store and of the other
  components it works on, its module globals, and the locals of \<open>process_job\<close> that its \<open>except\<close> and
  \<open>finally\<close> blocks read. Other requests run between any two repository operations of the worker: the
  environment's \<open>interference\<close> lists the cancellation requests that arrive before each of them. What
  this file defines are the small steps: storing, publishing progress, delivering webhooks.
\<close>

datatype delivery_status = Delivered | Retrying | DeliveryFailed

record delivery =
  dl_job_id :: string
  dl_event_type :: string
  dl_webhook_url :: string
  dl_attempt :: nat
  dl_status :: delivery_status
  dl_backoff_seconds :: "int option"

text \<open>The locals of \<open>process_job\<close>.\<close>

record frame =
  gpu_allocated :: bool
  gpu_released :: bool
  validated_plan_tier :: "string option"

text \<open>
  What manifests and packages are stored in, beside the jobs: the packages and deletion proofs, the audit of
  classifications, the organisations' retention settings, and how often either storage has been called.
\<close>

record artifacts =
  ar_packages :: "(string, export_package) pydict"
  ar_proofs :: "(string, deletion_proof) pydict"
  ar_audit :: class_audit
  ar_settings :: retention_settings
  ar_output_calls :: nat
  ar_manifest_calls :: nat

record world =
  w_store :: job_store
  w_billing :: billing_store
  w_ops :: ops_state
  w_queue :: dispatcher
  w_progress :: progress_log
  w_deliveries :: "delivery list"
  w_failures :: "(string \<times> int, string list) pydict"
  w_repro :: "(string \<times> int, int) pydict"
  w_dead :: "string list"
  w_slept :: "int list"
  w_polls :: nat
  w_frame :: frame
  w_artifacts :: artifacts

record parsed_url =
  url_scheme :: string
  url_hostname :: "string option"
  url_username :: "string option"
  url_password :: "string option"
  url_port :: "int option"

record ip_flags =
  is_private :: bool
  is_loopback :: bool
  is_link_local :: bool
  is_multicast :: bool
  is_reserved :: bool
  is_unspecified :: bool

record runtime_env =
  re_ops :: ops_env
  re_worker :: worker_env
  re_billing :: billing_env
  re_stripe :: stripe_env
  re_config :: stripe_config
  re_manifest :: manifest_env
  re_output :: output_env
  build_sha :: string
  interference :: "nat \<Rightarrow> (time \<times> string \<times> string) list"
  urlparse :: "string \<Rightarrow> parsed_url"
  getaddrinfo :: "string \<Rightarrow> int \<Rightarrow> ip_flags list option"
  http_post :: "string \<Rightarrow> nat \<Rightarrow> int result"

definition env_codec :: "runtime_env \<Rightarrow> codec" where
  "env_codec env = oe_codec (re_ops env)"

section \<open>Running an operation on its slice\<close>

definition on_store :: "(job_store, 'a) prog \<Rightarrow> (world, 'a) prog" where
  "on_store = zoom w_store (\<lambda>t w. w\<lparr>w_store := t\<rparr>)"

definition on_billing :: "(billing_store, 'a) prog \<Rightarrow> (world, 'a) prog" where
  "on_billing = zoom w_billing (\<lambda>t w. w\<lparr>w_billing := t\<rparr>)"

definition on_ops :: "(ops_state, 'a) prog \<Rightarrow> (world, 'a) prog" where
  "on_ops = zoom w_ops (\<lambda>t w. w\<lparr>w_ops := t\<rparr>)"

definition on_queue :: "(dispatcher, 'a) prog \<Rightarrow> (world, 'a) prog" where
  "on_queue = zoom w_queue (\<lambda>t w. w\<lparr>w_queue := t\<rparr>)"

definition on_progress :: "(progress_log, 'a) prog \<Rightarrow> (world, 'a) prog" where
  "on_progress = zoom w_progress (\<lambda>t w. w\<lparr>w_progress := t\<rparr>)"

text \<open>Packaging reads the jobs and the prices and writes neither (\<open>materialize_leaves_jobs\<close>), so only the artifacts are put back.\<close>

definition output_world_of :: "world \<Rightarrow> output_world" where
  "output_world_of w = \<lparr>ow_store = w_store w, ow_billing = w_billing w, ow_packages = ar_packages (w_artifacts w),
     ow_proofs = ar_proofs (w_artifacts w), ow_audit = ar_audit (w_artifacts w), ow_calls = ar_output_calls (w_artifacts w)\<rparr>"

definition put_output_world :: "output_world \<Rightarrow> world \<Rightarrow> world" where
  "put_output_world t w = w\<lparr>w_artifacts := (w_artifacts w)\<lparr>ar_packages := ow_packages t, ar_proofs := ow_proofs t,
     ar_audit := ow_audit t, ar_output_calls := ow_calls t\<rparr>\<rparr>"

definition on_outputs :: "(output_world, 'a) prog \<Rightarrow> (world, 'a) prog" where
  "on_outputs = zoom output_world_of put_output_world"

definition manifest_world_of :: "world \<Rightarrow> manifest_world" where
  "manifest_world_of w = \<lparr>mw_settings = ar_settings (w_artifacts w), mw_audit = ar_audit (w_artifacts w),
     mw_calls = ar_manifest_calls (w_artifacts w)\<rparr>"

definition put_manifest_world :: "manifest_world \<Rightarrow> world \<Rightarrow> world" where
  "put_manifest_world t w = w\<lparr>w_artifacts := (w_artifacts w)\<lparr>ar_settings := mw_settings t, ar_audit := mw_audit t,
     ar_manifest_calls := mw_calls t\<rparr>\<rparr>"

definition on_manifests :: "(manifest_world, 'a) prog \<Rightarrow> (world, 'a) prog" where
  "on_manifests = zoom manifest_world_of put_manifest_world"

definition now :: "runtime_env \<Rightarrow> (world, time) prog" where
  "now env = on_ops (utc_now (re_ops env))"

text \<open>Requests of other users, handled before the next repository operation.\<close>

definition interfere :: "runtime_env \<Rightarrow> (world, unit) prog" where
  "interfere env = modifyE (\<lambda>w. w\<lparr>w_store := cancels (interference env (w_polls w)) (w_store w),
     w_polls := Suc (w_polls w)\<rparr>)"

definition store_op :: "runtime_env \<Rightarrow> (job_store, 'a) prog \<Rightarrow> (world, 'a) prog" where
  "store_op env m = bindE (interfere env) (\<lambda>_. on_store m)"

definition poll_job :: "runtime_env \<Rightarrow> string \<Rightarrow> (world, job option) prog" where
  "poll_job env jid = store_op env (get_job_for_worker jid)"

definition segments_now :: "runtime_env \<Rightarrow> string \<Rightarrow> (world, segment list) prog" where
  "segments_now env jid = store_op env (list_segments jid None)"

definition update_job :: "runtime_env \<Rightarrow> string \<Rightarrow> (job \<Rightarrow> job) \<Rightarrow> (world, job) prog" where
  "update_job env jid f = bindE (now env) (\<lambda>t. store_op env (update_job_for_worker t jid f))"

definition update_segment :: "runtime_env \<Rightarrow> string \<Rightarrow> int \<Rightarrow> (segment \<Rightarrow> segment) \<Rightarrow> (world, unit) prog" where
  "update_segment env jid i f =
     bindE (now env) (\<lambda>t. bindE (store_op env (update_segment_for_worker t jid i f)) (\<lambda>_. ret ()))"

definition set_frame :: "(frame \<Rightarrow> frame) \<Rightarrow> (world, unit) prog" where
  "set_frame f = modifyE (\<lambda>w. w\<lparr>w_frame := f (w_frame w)\<rparr>)"

section \<open>Progress events\<close>

definition publish_progress :: "runtime_env \<Rightarrow> job \<Rightarrow> int \<Rightarrow> string option \<Rightarrow> (world, unit) prog" where
  "publish_progress env j i token =
     bindE (liftR (authorize_trusted_worker (re_worker env) token)) (\<lambda>tok.
     on_progress (publish_progress_event (re_worker env) tok
       \<lparr>pe_job_id = job_id j, pe_segment_index = i, pe_segment_count = segment_count j,
         pe_percent_complete = progress_percent j, pe_eta_seconds = eta_seconds j,
         pe_status = status_value (job_status j), pe_current_operation = current_operation j,
         pe_updated_at = updated_at j, pe_channel = progress_topic j\<rparr>))"

section \<open>Webhooks\<close>

definition RETRY_BACKOFF_SECONDS :: "int list" where
  "RETRY_BACKOFF_SECONDS = [1, 2, 4]"

definition non_public :: "ip_flags \<Rightarrow> bool" where
  "non_public a = (is_private a \<or> is_loopback a \<or> is_link_local a \<or> is_multicast a \<or> is_reserved a \<or> is_unspecified a)"

definition assert_safe_webhook_target :: "runtime_env \<Rightarrow> string \<Rightarrow> unit result" where
  "assert_safe_webhook_target env url =
     (let p = urlparse env url in
      if url_scheme p \<notin> {''http'', ''https''} then Inl (RuntimeError ''Webhook target must use http or https.'')
      else if url_hostname p \<in> {None, Some []} \<or> url_username p \<notin> {None, Some []} \<or> url_password p \<notin> {None, Some []}
      then Inl (RuntimeError ''Webhook target must not include credentials and must include a hostname.'')
      else
        (let port = (case url_port p of Some n \<Rightarrow> if n = 0 then (if url_scheme p = ''https'' then 443 else 80) else n
                     | None \<Rightarrow> if url_scheme p = ''https'' then 443 else 80) in
         case getaddrinfo env (the (url_hostname p)) port of
           None \<Rightarrow> Inl (RuntimeError ''Webhook target hostname could not be resolved.'')
         | Some addresses \<Rightarrow>
             if addresses = [] then Inl (RuntimeError ''Webhook target hostname resolved to no addresses.'')
             else if \<exists>a \<in> set addresses. non_public a
             then Inl (RuntimeError ''Webhook target resolves to a non-public address.'')
             else Inr ()))"

text \<open>The outcome of the request number \<open>n\<close>; the answer's status decides, and redirects are refused.\<close>

definition send_webhook_request :: "runtime_env \<Rightarrow> string \<Rightarrow> nat \<Rightarrow> unit result" where
  "send_webhook_request env url n =
     (if wk_environment (re_worker env) = ''test'' then Inr ()
      else
        bind_res (assert_safe_webhook_target env url) (\<lambda>_.
        bind_res (http_post env url n) (\<lambda>status.
        if 300 \<le> status \<and> status < 400 then Inl (RuntimeError ''Webhook target redirects are not allowed.'')
        else if 200 \<le> status \<and> status < 300 then Inr ()
        else Inl (ExternalError ''HTTPStatusError''))))"

definition add_delivery :: "delivery \<Rightarrow> (world, unit) prog" where
  "add_delivery d = modifyE (\<lambda>w. w\<lparr>w_deliveries := w_deliveries w @ [d]\<rparr>)"

definition sleep :: "int \<Rightarrow> (world, unit) prog" where
  "sleep n = modifyE (\<lambda>w. w\<lparr>w_slept := w_slept w @ [n]\<rparr>)"

text \<open>\<open>for attempt in range(1, 4)\<close>, as recursion over the attempts left.\<close>

fun deliver_attempts :: "runtime_env \<Rightarrow> string \<Rightarrow> string \<Rightarrow> string \<Rightarrow> nat list \<Rightarrow> (world, unit) prog" where
  "deliver_attempts env jid event url [] = ret ()"
| "deliver_attempts env jid event url (attempt # rest) =
     bindE (getsE (\<lambda>w. length (w_deliveries w))) (\<lambda>n.
     tryE (liftR (send_webhook_request env url n))
       (\<lambda>e.
          let backoff = RETRY_BACKOFF_SECONDS ! (attempt - 1) in
          bindE (add_delivery \<lparr>dl_job_id = jid, dl_event_type = event, dl_webhook_url = url, dl_attempt = attempt,
                   dl_status = (if attempt = 3 then DeliveryFailed else Retrying), dl_backoff_seconds = Some backoff\<rparr>) (\<lambda>_.
          if attempt = 3 then ret ()
          else bindE (sleep backoff) (\<lambda>_. deliver_attempts env jid event url rest)))
       (\<lambda>_. add_delivery \<lparr>dl_job_id = jid, dl_event_type = event, dl_webhook_url = url, dl_attempt = attempt,
              dl_status = Delivered, dl_backoff_seconds = None\<rparr>))"

definition deliver_webhooks :: "runtime_env \<Rightarrow> job \<Rightarrow> string \<Rightarrow> (world, unit) prog" where
  "deliver_webhooks env j event =
     bindE (store_op env (list_enabled (owner_user_id j) event)) (\<lambda>subs.
     forE subs (\<lambda>sub. deliver_attempts env (job_id j) event (webhook_url sub) [1, 2, 3]))"

section \<open>Planned failures and the dead-letter queue\<close>

definition configure_segment_failures :: "string \<Rightarrow> int \<Rightarrow> string list \<Rightarrow> (world, unit) prog" where
  "configure_segment_failures jid i fs = modifyE (\<lambda>w. w\<lparr>w_failures := dset (jid, i) fs (w_failures w)\<rparr>)"

definition configure_reproducibility_failures :: "string \<Rightarrow> int \<Rightarrow> int \<Rightarrow> (world, unit) prog" where
  "configure_reproducibility_failures jid i n = modifyE (\<lambda>w. w\<lparr>w_repro := dset (jid, i) (max n 0) (w_repro w)\<rparr>)"

definition next_failure :: "string \<Rightarrow> int \<Rightarrow> (world, string option) prog" where
  "next_failure jid i = (\<lambda>w.
     (case dget (w_failures w) (jid, i) of
        None \<Rightarrow> (Inr None, w)
      | Some [] \<Rightarrow> (Inr None, w)
      | Some (f # fs) \<Rightarrow> (Inr (Some f), w\<lparr>w_failures := dset (jid, i) fs (w_failures w)\<rparr>)))"

definition classify_failure :: "string \<Rightarrow> string" where
  "classify_failure f = (if f \<in> {''network'', ''gpu_oom'', ''transient''} then ''transient'' else ''persistent'')"

definition should_fail_reproducibility :: "string \<Rightarrow> int \<Rightarrow> (world, bool) prog" where
  "should_fail_reproducibility jid i = (\<lambda>w.
     (let remaining = (case dget (w_repro w) (jid, i) of None \<Rightarrow> 0 | Some n \<Rightarrow> n) in
      if remaining \<le> 0 then (Inr False, w)
      else (Inr True, w\<lparr>w_repro := dset (jid, i) (remaining - 1) (w_repro w)\<rparr>)))"

definition dead_letter :: "string \<Rightarrow> (world, unit) prog" where
  "dead_letter jid = modifyE (\<lambda>w. if jid \<in> set (w_dead w) then w else w\<lparr>w_dead := w_dead w @ [jid]\<rparr>)"

definition VALID_PLAN_TIERS :: "string list" where
  "VALID_PLAN_TIERS = [''hobbyist'', ''pro'', ''museum'']"

definition validate_plan_tier :: "string \<Rightarrow> string result" where
  "validate_plan_tier tier =
     (let normalized = lower (strip tier) in
      if normalized \<notin> set VALID_PLAN_TIERS
      then Inl (ValueError (''Unsupported plan_tier '' @ tier @ ''. Allowed tiers: hobbyist, museum, pro''))
      else Inr normalized)"

section \<open>Lemmas on the steps\<close>

lemma send_webhook_safe:
  "send_webhook_request env url n = Inr () \<Longrightarrow> wk_environment (re_worker env) \<noteq> ''test'' \<Longrightarrow>
   url_scheme (urlparse env url) \<in> {''http'', ''https''} \<and>
   (\<exists>host port addresses. url_hostname (urlparse env url) = Some host \<and>
      getaddrinfo env host port = Some addresses \<and> addresses \<noteq> [] \<and> (\<forall>a \<in> set addresses. \<not> non_public a))"
  by (auto simp: send_webhook_request_def assert_safe_webhook_target_def Let_def bind_res_Inr_iff
      split: if_splits option.splits)

end
