(* ===== verification/Segment_Processing.thy ===== *)
theory Segment_Processing
  imports Runtime_World
begin

text \<open>
  \<open>_process_segment\<close> and \<open>_update_processing_progress\<close> of \<open>app/services/job_runtime.py\<close>: one segment
  from the cache or through at most three attempts. The \<open>for attempt\<close> loop is recursion over the
  attempts left; its locals are the record \<open>segment_ctx\<close>. The list of backoffs the code shares with the
  stored segment is written back by the next repository call, so it is a value here.
\<close>

section \<open>Progress of the job\<close>

definition seg_done :: "segment \<Rightarrow> bool" where
  "seg_done x = (sg_status x \<in> {SegCompleted, SegFailed})"

definition count_segments :: "(segment \<Rightarrow> bool) \<Rightarrow> segment list \<Rightarrow> int" where
  "count_segments P segs = int (length (filter P segs))"

text \<open>\<open>int(cache_hit_latency_ms or quality_metrics.get("metric_latency_ms", duration * 100))\<close>\<close>

definition segment_latency :: "segment \<Rightarrow> int" where
  "segment_latency x =
     (case cache_hit_latency_ms x of
        Some n \<Rightarrow> if n \<noteq> 0 then n
                  else (case quality_metrics x of Some q \<Rightarrow> metric_latency_ms q | None \<Rightarrow> sg_duration_seconds x * 100)
      | None \<Rightarrow> (case quality_metrics x of Some q \<Rightarrow> metric_latency_ms q | None \<Rightarrow> sg_duration_seconds x * 100))"

definition processing_ms_of :: "segment list \<Rightarrow> int" where
  "processing_ms_of segs = sum_list (map segment_latency (filter seg_done segs))"

definition gpu_seconds_of :: "segment list \<Rightarrow> int" where
  "gpu_seconds_of segs = sum_list (map sg_duration_seconds (filter (\<lambda>x. seg_done x \<and> sg_cache_status x \<noteq> CacheHit) segs))"

definition completed_of :: "segment list \<Rightarrow> int" where
  "completed_of segs = count_segments (\<lambda>x. sg_status x = SegCompleted) segs"

definition failed_indexes :: "segment list \<Rightarrow> int list" where
  "failed_indexes segs = map sg_index (filter (\<lambda>x. sg_status x = SegFailed) segs)"

definition cache_hits_of :: "segment list \<Rightarrow> int" where
  "cache_hits_of segs = count_segments (\<lambda>x. sg_cache_status x = CacheHit) segs"

definition cache_bypassed_of :: "segment list \<Rightarrow> int" where
  "cache_bypassed_of segs = count_segments (\<lambda>x. sg_cache_status x = CacheBypass) segs"

definition processed_of :: "segment list \<Rightarrow> int" where
  "processed_of segs = completed_of segs + int (length (failed_indexes segs))"

definition cache_summary_for :: "int \<Rightarrow> int \<Rightarrow> int \<Rightarrow> int \<Rightarrow> cache_summary" where
  "cache_summary_for ch cb n saved =
     (let misses_n = max (n - ch - cb) 0 in
      \<lparr>hits = ch, misses = misses_n, bypassed = cb, cache_degraded = (cb > 0),
        hit_rate = py_round 4 (of_int ch / of_int (max (ch + misses_n) 1)), saved_gpu_seconds = saved\<rparr>)"

definition encoding_ms_of :: "segment list \<Rightarrow> int" where
  "encoding_ms_of segs = max ((completed_of segs - cache_hits_of segs) * 90) 0 + cache_hits_of segs * 15"

definition ms_or_zero :: "int option \<Rightarrow> int" where
  "ms_or_zero v = (case v of None \<Rightarrow> 0 | Some n \<Rightarrow> n)"

definition timing_total :: "stage_timings \<Rightarrow> int" where
  "timing_total t = sum_list (map ms_or_zero [upload_ms t, era_detection_ms t, queue_wait_ms t, allocation_ms t,
     processing_ms t, encoding_ms t, download_ms t])"

definition with_total :: "stage_timings \<Rightarrow> stage_timings" where
  "with_total t = t\<lparr>total_ms := Some (timing_total t)\<rparr>"

definition percent_complete :: "int \<Rightarrow> int \<Rightarrow> rat" where
  "percent_complete k n = py_round 2 ((of_int k / of_int (max n 1)) * 100)"

text \<open>The patch, from the segments read first and the timings read before the GPU summary.\<close>

definition progress_patch :: "segment list \<Rightarrow> int \<Rightarrow> int \<Rightarrow> stage_timings \<Rightarrow> gpu_summary \<Rightarrow> job \<Rightarrow> job" where
  "progress_patch segs i cnt timings gpu j =
     j\<lparr>completed_segment_count := completed_of segs,
       failed_segment_count := int (length (failed_indexes segs)),
       failed_segments := failed_indexes segs,
       progress_percent := percent_complete (processed_of segs) cnt,
       eta_seconds := max (cnt - processed_of segs) 0 * 10,
       current_operation := ''Processed segment '' @ dec_int (i + 1) @ ''/'' @ dec_int cnt,
       stage_timings_of := with_total (timings\<lparr>processing_ms := Some (processing_ms_of segs),
         encoding_ms := Some (encoding_ms_of segs)\<rparr>),
       cache_summary_of := cache_summary_for (cache_hits_of segs) (cache_bypassed_of segs) (processed_of segs)
         (cache_hits_of segs * 10),
       gpu_summary_of := gpu\<lparr>gpu_runtime_seconds := gpu_seconds_of segs\<rparr>\<rparr>"

text \<open>\<open>repo.get_job_for_worker(job_id)\<close> where the code asks the result for a key.\<close>

definition poll_existing :: "runtime_env \<Rightarrow> string \<Rightarrow> (world, job) prog" where
  "poll_existing env jid =
     bindE (poll_job env jid) (\<lambda>r. case r of None \<Rightarrow> raise (AttributeError ''get'') | Some j \<Rightarrow> ret j)"

definition update_processing_progress ::
  "runtime_env \<Rightarrow> string \<Rightarrow> int \<Rightarrow> int \<Rightarrow> string option \<Rightarrow> (world, unit) prog" where
  "update_processing_progress env jid i cnt token =
     bindE (segments_now env jid) (\<lambda>segs.
     bindE (poll_existing env jid) (\<lambda>first.
     bindE (poll_existing env jid) (\<lambda>current.
     bindE (update_job env jid (progress_patch segs i cnt (stage_timings_of first) (gpu_summary_of current))) (\<lambda>j.
     publish_progress env j i token))))"

section \<open>One segment\<close>

text \<open>The locals of \<open>_process_segment\<close> that do not change in its loop.\<close>

record segment_ctx =
  cx_job :: job
  cx_segment :: segment
  cx_count :: int
  cx_mode :: reproducibility_mode
  cx_profile :: resolved_fidelity
  cx_request :: cache_request
  cx_cache :: cache_state
  cx_token :: "string option"

definition json_or_empty :: "json \<Rightarrow> json" where
  "json_or_empty v = jor v (JObj [])"

definition cache_request_for :: "runtime_env \<Rightarrow> job \<Rightarrow> segment \<Rightarrow> resolved_fidelity \<Rightarrow> cache_request" where
  "cache_request_for env j x fp =
     \<lparr>cr_user_id = owner_user_id j, cr_checksum = source_asset_checksum j, cr_segment = x,
       cr_profile = fidelity_json fp, cr_mode = job_reproducibility_mode j,
       cr_namespace = tier_value (fp_tier (rf_profile fp)) @ '':'' @ build_sha env @ '':'' @ me_gemini_model (re_manifest env),
       cr_variant = build_pipeline_variant_fingerprint (env_codec env) (job_processing_mode j)
         (json_or_empty (config j)) (json_or_empty (era_profile j)) (fidelity_json fp)\<rparr>"

text \<open>
  Without a stored profile the code falls back on the catalog's dataclass and then subscripts it,
  which raises.
\<close>

definition profile_of_job :: "job \<Rightarrow> resolved_fidelity result" where
  "profile_of_job j =
     (case effective_fidelity_profile j of
        Some fp \<Rightarrow> Inr fp
      | None \<Rightarrow> bind_res (tier_of_value (job_fidelity_tier j))
                  (\<lambda>_. Inl (TypeError ''FidelityProfile object is not subscriptable'')))"

definition cached_patch :: "job \<Rightarrow> cache_entry \<Rightarrow> cache_state \<Rightarrow> int \<Rightarrow> segment \<Rightarrow> segment" where
  "cached_patch j entry cst attempts y =
     y\<lparr>sg_status := SegCompleted, attempt_count := max attempts 1, sg_output_uri := Some (ce_output_uri entry),
       sg_cache_status := cst_status cst, cache_hit_latency_ms := cst_latency_ms cst,
       cache_namespace := Some (cst_namespace cst), cached_output_uri := Some (ce_output_uri entry),
       sg_gpu_type := gpu_type (gpu_summary_of j), sg_allocation_latency_ms := allocation_ms (stage_timings_of j),
       quality_metrics := Some (ce_quality_metrics entry),
       reproducibility_proof := Some (ce_reproducibility_proof entry),
       uncertainty_callouts := ce_uncertainty_callouts entry\<rparr>"

definition attempt_patch :: "int \<Rightarrow> segment \<Rightarrow> segment" where
  "attempt_patch a y = y\<lparr>sg_status := SegProcessing, attempt_count := a\<rparr>"

text \<open>A segment that will be retried or has failed, without and with the metrics of the attempt.\<close>

definition unsuccessful_patch ::
  "segment_ctx \<Rightarrow> segment_status \<Rightarrow> int \<Rightarrow> string \<Rightarrow> int list \<Rightarrow> segment \<Rightarrow> segment" where
  "unsuccessful_patch cx st a err backoffs y =
     y\<lparr>sg_status := st, attempt_count := a, last_error_classification := Some err,
       retry_backoffs_seconds := backoffs, sg_cache_status := cst_status (cx_cache cx),
       cache_hit_latency_ms := cst_latency_ms (cx_cache cx), cache_namespace := Some (cst_namespace (cx_cache cx))\<rparr>"

definition measured_patch :: "quality \<Rightarrow> reproducibility_proof \<Rightarrow> segment \<Rightarrow> segment" where
  "measured_patch q p y =
     y\<lparr>quality_metrics := Some q, reproducibility_proof := Some p, uncertainty_callouts := q_uncertainty_callouts q\<rparr>"

definition stored_cache_state :: "cache_state \<Rightarrow> bool \<Rightarrow> cache_state" where
  "stored_cache_state cst degraded =
     (if degraded
      then cst\<lparr>cst_status := CacheBypass, cst_latency_ms := None, cst_cached_output_uri := None, cst_degraded := True\<rparr>
      else cst)"

definition completed_patch :: "segment_ctx \<Rightarrow> int \<Rightarrow> string \<Rightarrow> int list \<Rightarrow> cache_state \<Rightarrow> segment \<Rightarrow> segment" where
  "completed_patch cx a uri backoffs cst y =
     y\<lparr>sg_status := SegCompleted, attempt_count := a, sg_output_uri := Some uri, last_error_classification := None,
       retry_backoffs_seconds := backoffs, sg_cache_status := cst_status cst,
       cache_hit_latency_ms := cst_latency_ms cst, cache_namespace := Some (cst_namespace cst),
       cached_output_uri := cst_cached_output_uri cst,
       sg_gpu_type := gpu_type (gpu_summary_of (cx_job cx)),
       sg_allocation_latency_ms := allocation_ms (stage_timings_of (cx_job cx))\<rparr>"

definition quality_input_of :: "job \<Rightarrow> segment \<Rightarrow> quality_input" where
  "quality_input_of j x = \<lparr>qi_job_id = job_id j, qi_checksum = source_asset_checksum j, qi_config = config j,
     qi_segment_index = sg_index x, qi_duration = sg_duration_seconds x\<rparr>"

definition segment_output_uri :: "job \<Rightarrow> segment \<Rightarrow> string" where
  "segment_output_uri j x =
     ''gs://chronos/jobs/'' @ job_id j @ ''/segment-'' @ pad4 (nat (sg_index x)) @ ''.mp4''"

definition attempt_quality :: "runtime_env \<Rightarrow> segment_ctx \<Rightarrow> quality" where
  "attempt_quality env cx =
     calculate_quality (env_codec env) (quality_input_of (cx_job cx) (cx_segment cx)) (rf_profile (cx_profile cx))"

definition attempt_proof :: "runtime_env \<Rightarrow> segment_ctx \<Rightarrow> int \<Rightarrow> bool \<Rightarrow> reproducibility_proof" where
  "attempt_proof env cx a bad =
     build_segment_reproducibility_proof (env_codec env) (me_build_settings (re_manifest env))
       (quality_input_of (cx_job cx) (cx_segment cx)) (attempt_quality env cx) (cx_mode cx) (max (a - 1) 0) bad"

definition progress_of :: "runtime_env \<Rightarrow> segment_ctx \<Rightarrow> (world, unit) prog" where
  "progress_of env cx =
     update_processing_progress env (job_id (cx_job cx)) (sg_index (cx_segment cx)) (cx_count cx) (cx_token cx)"

definition patch_of :: "runtime_env \<Rightarrow> segment_ctx \<Rightarrow> (segment \<Rightarrow> segment) \<Rightarrow> (world, unit) prog" where
  "patch_of env cx f = update_segment env (job_id (cx_job cx)) (sg_index (cx_segment cx)) f"

text \<open>The part of an attempt after \<open>reproducibility_failed\<close> is known to be false.\<close>

definition store_output :: "runtime_env \<Rightarrow> segment_ctx \<Rightarrow> int \<Rightarrow> int list \<Rightarrow> (world, unit) prog" where
  "store_output env cx a backoffs =
     (let uri = segment_output_uri (cx_job cx) (cx_segment cx);
          q = attempt_quality env cx;
          p = attempt_proof env cx a False;
          key = build_segment_cache_key (re_ops env) (cx_request cx) in
      bindE (on_ops (store_segment_cache (re_ops env) key
        \<lparr>ce_output_uri = uri, ce_quality_metrics = q, ce_reproducibility_proof = p,
          ce_uncertainty_callouts = q_uncertainty_callouts q\<rparr>)) (\<lambda>degraded.
      bindE (patch_of env cx
        (\<lambda>y. measured_patch q p (completed_patch cx a uri backoffs (stored_cache_state (cx_cache cx) degraded) y))) (\<lambda>_.
      progress_of env cx)))"

text \<open>
  What an attempt that failed does: another attempt is due as long as it was not the third. The result
  is the list of back-offs to go on with, or \<open>None\<close> when the loop ends.
\<close>

definition fail_attempt ::
  "runtime_env \<Rightarrow> segment_ctx \<Rightarrow> int \<Rightarrow> string \<Rightarrow> int list \<Rightarrow> (segment \<Rightarrow> segment) \<Rightarrow>
   (world, int list option) prog" where
  "fail_attempt env cx a err backoffs extra =
     (if a < int (length RETRY_BACKOFF_SECONDS) then
        (let b = RETRY_BACKOFF_SECONDS ! nat (a - 1); bs = backoffs @ [b] in
         bindE (patch_of env cx (\<lambda>y. extra (unsuccessful_patch cx SegQueued a err bs y))) (\<lambda>_.
         bindE (sleep b) (\<lambda>_. ret (Some bs))))
      else
        bindE (patch_of env cx (\<lambda>y. extra (unsuccessful_patch cx SegFailed a err backoffs y))) (\<lambda>_.
        bindE (progress_of env cx) (\<lambda>_. ret None)))"

definition run_attempt :: "runtime_env \<Rightarrow> segment_ctx \<Rightarrow> int \<Rightarrow> int list \<Rightarrow> (world, int list option) prog" where
  "run_attempt env cx a backoffs =
     (let jid = job_id (cx_job cx); i = sg_index (cx_segment cx) in
      bindE (patch_of env cx (attempt_patch a)) (\<lambda>_.
      bindE (update_job env jid (\<lambda>j. j\<lparr>current_operation :=
        job_fidelity_tier (cx_job cx) @ '' segment '' @ dec_int (i + 1) @ ''/'' @ dec_int (cx_count cx)\<rparr>)) (\<lambda>_.
      bindE (next_failure jid i) (\<lambda>failure.
      case failure of
        Some f \<Rightarrow> fail_attempt env cx a (classify_failure f) backoffs id
      | None \<Rightarrow>
          bindE (should_fail_reproducibility jid i) (\<lambda>bad.
          if bad
          then fail_attempt env cx a ''reproducibility'' backoffs
                 (measured_patch (attempt_quality env cx) (attempt_proof env cx a True))
          else bindE (store_output env cx a backoffs) (\<lambda>_. ret None))))))"

fun segment_loop :: "runtime_env \<Rightarrow> segment_ctx \<Rightarrow> int list \<Rightarrow> int list \<Rightarrow> (world, unit) prog" where
  "segment_loop env cx backoffs [] = ret ()"
| "segment_loop env cx backoffs (a # rest) =
     bindE (run_attempt env cx a backoffs) (\<lambda>again.
     case again of None \<Rightarrow> ret () | Some bs \<Rightarrow> segment_loop env cx bs rest)"

definition process_segment :: "runtime_env \<Rightarrow> job \<Rightarrow> segment \<Rightarrow> string option \<Rightarrow> (world, unit) prog" where
  "process_segment env j x token =
     bindE (liftR (mode_of_value (job_reproducibility_mode j))) (\<lambda>mode.
     bindE (liftR (profile_of_job j)) (\<lambda>fp.
     bindE (on_ops (lookup_segment_cache (re_ops env) (cache_request_for env j x fp))) (\<lambda>found.
     let cx = \<lparr>cx_job = j, cx_segment = x, cx_count = max (segment_count j) 1, cx_mode = mode, cx_profile = fp,
           cx_request = cache_request_for env j x fp, cx_cache = snd found, cx_token = token\<rparr> in
     case fst found of
       Some entry \<Rightarrow>
         bindE (patch_of env cx (cached_patch j entry (snd found) (attempt_count x))) (\<lambda>_. progress_of env cx)
     | None \<Rightarrow> segment_loop env cx (retry_backoffs_seconds x)
                 [attempt_count x + 1 .. int (length RETRY_BACKOFF_SECONDS)])))"

end
