(* ===== verification/Job_Runtime.thy ===== *)
theory Job_Runtime
  imports Segment_Processing
begin

text \<open>
  The rest of \<open>app/services/job_runtime.py\<close>: cancelling, billing and finalising a job, \<open>process_job\<close>
  with its \<open>except\<close> and \<open>finally\<close> blocks, the worker entry of \<open>app/services/job_worker.py\<close> and draining
  the queue. The patches of the two ends of \<open>_finalize_job\<close> share the summaries computed before the GPU
  is released (\<open>final_facts\<close>).
\<close>

section \<open>Billing a finished job\<close>

definition some_or_none :: "string \<Rightarrow> string option" where
  "some_or_none s = (if s = [] then None else Some s)"

definition cost_env :: "runtime_env \<Rightarrow> cost_ops_env" where
  "cost_env env = \<lparr>co_ops = re_ops env, co_billing = re_billing env, co_stripe = re_stripe env, co_config = re_config env\<rparr>"

definition refresh_signals :: "runtime_env \<Rightarrow> (world, unit) prog" where
  "refresh_signals env =
     bindE (interfere env) (\<lambda>_.
     bindE (getsE (\<lambda>w. (w_billing w, w_store w))) (\<lambda>bj.
     bindE (on_ops (refresh_cost_ops_signals (cost_env env) (fst bj) (snd bj))) (\<lambda>_. ret ())))"

definition consume_usage_and_reconcile ::
  "runtime_env \<Rightarrow> job \<Rightarrow> cost_summary \<Rightarrow> int \<Rightarrow> (world, reconciliation option) prog" where
  "consume_usage_and_reconcile env j actual minutes =
     bindE (on_billing (snapshot (re_billing env) (owner_user_id j) (job_plan_tier j) (some_or_none (job_org_id j))))
       (\<lambda>before.
     bindE (on_billing (consume_minutes (re_billing env) (owner_user_id j) (job_plan_tier j) minutes
              (some_or_none (job_org_id j)))) (\<lambda>after.
     bindE (now env) (\<lambda>t.
     bindE (liftR (reconcile_estimate (re_billing env) (cost_estimate_summary j) (Some actual) minutes t
              (Some (bs_used_minutes before)) (Some after))) (\<lambda>r.
     case r of
       None \<Rightarrow> ret None
     | Some rec \<Rightarrow>
         tryE (update_job env (job_id j) (\<lambda>x. x\<lparr>cost_reconciliation_summary := Some rec\<rparr>))
           (\<lambda>e. ret (Some rec))
           (\<lambda>_. tryE (refresh_signals env) (\<lambda>e. ret (Some rec)) (\<lambda>_. ret (Some rec)))))))"

section \<open>Cancelling\<close>

definition cancelled_patch :: "time \<Rightarrow> job \<Rightarrow> job" where
  "cancelled_patch t j = j\<lparr>job_status := Cancelled, completed_at := Some t,
     current_operation := ''Cancellation acknowledged'', eta_seconds := 0\<rparr>"

text \<open>The organisation is not passed on, unlike in the two other places that bill.\<close>

definition cancel_job :: "runtime_env \<Rightarrow> string \<Rightarrow> int \<Rightarrow> string option \<Rightarrow> (world, job) prog" where
  "cancel_job env jid i token =
     bindE (now env) (\<lambda>t.
     bindE (update_job env jid (cancelled_patch t)) (\<lambda>j.
     bindE (on_billing (consume_minutes (re_billing env) (owner_user_id j) (job_plan_tier j) 0 None)) (\<lambda>_.
     bindE (publish_progress env j i token) (\<lambda>_. ret j))))"

section \<open>Finalising\<close>

record final_facts =
  ff_status :: job_status
  ff_result_uri :: "string option"
  ff_warnings :: "string list"
  ff_quality :: quality_summary
  ff_repro :: reproducibility_summary
  ff_timings :: stage_timings
  ff_cache :: cache_summary
  ff_gpu :: gpu_summary
  ff_cost :: cost_summary
  ff_slo :: slo_summary

definition final_status :: "segment list \<Rightarrow> job_status" where
  "final_status segs =
     (if failed_indexes segs \<noteq> [] \<and> completed_of segs > 0 then Partial
      else if failed_indexes segs \<noteq> [] then Failed else Completed)"

definition final_result_uri :: "string \<Rightarrow> job_status \<Rightarrow> string option" where
  "final_result_uri jid st =
     (if st = Partial then Some (''gs://chronos/jobs/'' @ jid @ ''/partial-result.mp4'')
      else if st = Failed then None else Some (''gs://chronos/jobs/'' @ jid @ ''/result.mp4''))"

definition final_warnings :: "job_status \<Rightarrow> string list" where
  "final_warnings st =
     (if st = Partial then [''One or more segments failed. Partial results are available.'']
      else if st = Failed then [''All processed segments failed.''] else [])"

definition final_timings :: "job_status \<Rightarrow> segment list \<Rightarrow> stage_timings \<Rightarrow> stage_timings" where
  "final_timings st segs t =
     with_total (t\<lparr>processing_ms := Some (processing_ms_of segs), encoding_ms := Some (encoding_ms_of segs),
       download_ms := (if st \<in> {Completed, Partial} then Some 40 else None)\<rparr>)"

definition final_cache_summary :: "segment list \<Rightarrow> cache_summary" where
  "final_cache_summary segs =
     cache_summary_for (cache_hits_of segs) (cache_bypassed_of segs) (int (length segs))
       (sum_list (map sg_duration_seconds (filter (\<lambda>x. sg_cache_status x = CacheHit) segs)))"

definition pool_summary :: "int \<Rightarrow> pool_snapshot \<Rightarrow> gpu_summary \<Rightarrow> gpu_summary" where
  "pool_summary runtime pool g =
     g\<lparr>gpu_runtime_seconds := runtime, gs_desired_warm_instances := ps_desired_warm_instances pool,
       gs_active_warm_instances := ps_active_warm_instances pool, gs_busy_instances := ps_busy_instances pool,
       gs_utilization_percent := ps_utilization_percent pool\<rparr>"

definition final_cost :: "string option \<Rightarrow> segment list \<Rightarrow> cost_summary" where
  "final_cost uri segs =
     calculate_operational_cost_summary (gpu_seconds_of segs)
       (completed_of segs + (if uri = None then 0 else 1))
       (count_segments (\<lambda>x. quality_metrics x \<noteq> None) segs)"

text \<open>Up to the release of the GPU; the released pool and the facts the patches need.\<close>

definition gather_final ::
  "runtime_env \<Rightarrow> string \<Rightarrow> job \<Rightarrow> segment list \<Rightarrow> (world, final_facts \<times> pool_snapshot) prog" where
  "gather_final env jid j segs =
     (let st = final_status segs;
          uri = final_result_uri jid st;
          timings = final_timings st segs (stage_timings_of j) in
      bindE (if st = Failed then dead_letter jid else ret ()) (\<lambda>_.
      bindE (liftR (mode_of_value (job_reproducibility_mode j))) (\<lambda>mode.
      bindE (on_ops (evaluate_job_slo (re_ops env) \<lparr>sq_job_id = jid, sq_duration_seconds = estimated_duration_seconds j,
               sq_total_ms = total_ms timings, sq_plan_tier = job_plan_tier j\<rparr>)) (\<lambda>slo.
      bindE (on_ops (release_gpu (re_ops env) jid (gpu_seconds_of segs))) (\<lambda>pool.
      ret (\<lparr>ff_status = st, ff_result_uri = uri, ff_warnings = final_warnings st,
        ff_quality = aggregate_quality_metrics (List.map_filter quality_metrics segs),
        ff_repro = rollup_reproducibility (env_codec env) (me_build_settings (re_manifest env)) mode
          (List.map_filter reproducibility_proof segs),
        ff_timings = timings, ff_cache = final_cache_summary segs,
        ff_gpu = pool_summary (gpu_seconds_of segs) pool (gpu_summary_of j),
        ff_cost = final_cost uri segs, ff_slo = slo\<rparr>, pool))))))"

definition summaries_patch :: "final_facts \<Rightarrow> time \<Rightarrow> job \<Rightarrow> job" where
  "summaries_patch ff t j =
     j\<lparr>completed_at := Some t, eta_seconds := 0, progress_percent := 100, quality_summary_of := ff_quality ff,
       reproducibility_summary_of := Some (ff_repro ff), stage_timings_of := ff_timings ff,
       cache_summary_of := ff_cache ff, gpu_summary_of := ff_gpu ff, cost_summary_of := ff_cost ff,
       slo_summary_of := ff_slo ff\<rparr>"

definition final_patch :: "final_facts \<Rightarrow> time \<Rightarrow> job \<Rightarrow> job" where
  "final_patch ff t j =
     (summaries_patch ff t j)\<lparr>job_status := ff_status ff, result_uri := ff_result_uri ff, warnings := ff_warnings ff,
       last_error := (if ff_status ff \<noteq> Failed then None else Some ''Processing failed after retry exhaustion.''),
       current_operation := (if ff_status ff = Completed then ''Completed'' else ''Completed with segment failures'')\<rparr>"

definition finalize_failed_patch :: "final_facts \<Rightarrow> exn \<Rightarrow> time \<Rightarrow> job \<Rightarrow> job" where
  "finalize_failed_patch ff e t j =
     (summaries_patch ff t j)\<lparr>job_status := Failed,
       last_error := Some (''Finalize failed after GPU release: '' @ exn_str e),
       warnings := ff_warnings ff @ [''Finalize failed after GPU release.''],
       current_operation := ''Finalize failed after GPU release''\<rparr>"

definition late_failure_patch :: "string \<Rightarrow> string list \<Rightarrow> exn \<Rightarrow> job \<Rightarrow> job" where
  "late_failure_patch what ws e j =
     j\<lparr>job_status := Failed, last_error := Some (what @ '' failed: '' @ exn_str e),
       warnings := ws @ [what @ '' failed after processing completed.''], current_operation := what @ '' failed''\<rparr>"

definition manifest_patch :: "manifest_result \<Rightarrow> job \<Rightarrow> job" where
  "manifest_patch m j =
     j\<lparr>manifest_available := True, manifest_uri := Some (mr_manifest_uri m), manifest_sha256 := Some (mr_manifest_sha256 m),
       manifest_generated_at := Some (mr_generated_at m), manifest_size_bytes := mr_size_bytes m\<rparr>"

definition delete_retained_objects :: "runtime_env \<Rightarrow> string \<Rightarrow> string list \<Rightarrow> (world, unit) prog" where
  "delete_retained_objects env jid uris =
     (if uris = [] then ret ()
      else
        bindE (catchE (on_manifests (delete_manifest_objects (re_manifest env) uris))
          (\<lambda>e. bindE (now env) (\<lambda>t. bindE (store_op env (mark_retention_delete_failed t jid)) (\<lambda>_. raise e)))) (\<lambda>_.
        bindE (now env) (\<lambda>t. store_op env (mark_retention_delete_deleted t jid))))"

definition publish_manifest :: "runtime_env \<Rightarrow> string \<Rightarrow> job \<Rightarrow> (world, job \<times> jdict) prog" where
  "publish_manifest env jid fin =
     bindE (segments_now env jid) (\<lambda>segs.
     bindE (on_manifests (finalize_manifest (re_manifest env) jid (updated_at fin) fin segs)) (\<lambda>m.
     bindE (store_op env (upsert_manifest_for_worker jid (mr_record m))) (\<lambda>_.
     bindE (delete_retained_objects env jid (mr_delete_uris m)) (\<lambda>_.
     bindE (update_job env jid (manifest_patch m)) (\<lambda>j. ret (j, mf_payload (mr_record m)))))))"

text \<open>The job after manifest and packaging; a failure of either marks it failed.\<close>

definition package_outputs :: "runtime_env \<Rightarrow> string \<Rightarrow> final_facts \<Rightarrow> job \<Rightarrow> (world, job \<times> job_status) prog" where
  "package_outputs env jid ff fin =
     (if ff_status ff \<notin> {Completed, Partial} then ret (fin, ff_status ff)
      else
        tryE (publish_manifest env jid fin)
          (\<lambda>e. bindE (update_job env jid (late_failure_patch ''Manifest generation'' (ff_warnings ff) e)) (\<lambda>j. ret (j, Failed)))
          (\<lambda>jm.
             tryE (bindE (segments_now env jid) (\<lambda>segs. on_outputs (materialize_delivery (re_output env) (fst jm) segs (snd jm))))
               (\<lambda>e. bindE (update_job env jid (late_failure_patch ''Output delivery packaging'' (warnings (fst jm)) e))
                       (\<lambda>j. ret (j, Failed)))
               (\<lambda>_. ret (fst jm, ff_status ff))))"

definition with_reconciliation :: "reconciliation option \<Rightarrow> job \<Rightarrow> job" where
  "with_reconciliation r j = (case r of None \<Rightarrow> j | Some x \<Rightarrow> j\<lparr>cost_reconciliation_summary := Some x\<rparr>)"

definition actual_minutes :: "job_status \<Rightarrow> job \<Rightarrow> int" where
  "actual_minutes st j =
     (if st \<in> {Completed, Partial}
      then billable_minutes_for_duration (estimated_duration_seconds j) (job_fidelity_tier j) else 0)"

definition commit_final ::
  "runtime_env \<Rightarrow> string \<Rightarrow> final_facts \<Rightarrow> pool_snapshot \<Rightarrow> (world, job) prog" where
  "commit_final env jid ff pool =
     bindE (now env) (\<lambda>t.
     bindE (update_job env jid (final_patch ff t)) (\<lambda>fin.
     bindE (on_ops (evaluate_runtime_snapshot (re_ops env) pool (cache_degraded (ff_cache ff)))) (\<lambda>_.
     bindE (package_outputs env jid ff fin) (\<lambda>js.
     bindE (consume_usage_and_reconcile env (fst js) (ff_cost ff) (actual_minutes (snd js) (fst js))) (\<lambda>r.
     ret (with_reconciliation r (fst js)))))))"

definition finalize_failed :: "runtime_env \<Rightarrow> string \<Rightarrow> final_facts \<Rightarrow> exn \<Rightarrow> (world, job) prog" where
  "finalize_failed env jid ff e =
     bindE (now env) (\<lambda>t.
     bindE (update_job env jid (finalize_failed_patch ff e t)) (\<lambda>failed.
     bindE (consume_usage_and_reconcile env failed (ff_cost ff) 0) (\<lambda>r. ret (with_reconciliation r failed))))"

definition finalize_job :: "runtime_env \<Rightarrow> string \<Rightarrow> string option \<Rightarrow> (world, job \<times> bool) prog" where
  "finalize_job env jid token =
     bindE (poll_job env jid) (\<lambda>found.
     case found of
       None \<Rightarrow> raise (RuntimeError (''Unknown job '' @ jid))
     | Some j \<Rightarrow>
         bindE (segments_now env jid) (\<lambda>segs.
         if job_status j = CancelRequested
         then bindE (cancel_job env jid (max (int (length segs) - 1) 0) token) (\<lambda>c. ret (c, False))
         else
           bindE (gather_final env jid j segs) (\<lambda>fp.
           bindE (catchE (commit_final env jid (fst fp) (snd fp)) (finalize_failed env jid (fst fp))) (\<lambda>j'.
           ret (j', True)))))"

section \<open>\<open>process_job\<close>\<close>

definition EVENT_STARTED :: string where "EVENT_STARTED = ''started''"

definition event_of_status :: "job_status \<Rightarrow> string result" where
  "event_of_status st =
     (case st of
        Completed \<Rightarrow> Inr ''completed'' | Partial \<Rightarrow> Inr ''partial'' | Failed \<Rightarrow> Inr ''failed''
      | Cancelled \<Rightarrow> Inr ''cancelled'' | _ \<Rightarrow> Inl (KeyError (status_value st)))"

definition cancel_and_notify :: "runtime_env \<Rightarrow> string \<Rightarrow> int \<Rightarrow> string option \<Rightarrow> (world, job) prog" where
  "cancel_and_notify env jid i token =
     bindE (cancel_job env jid i token) (\<lambda>c. bindE (deliver_webhooks env c ''cancelled'') (\<lambda>_. ret c))"

definition or_time :: "time option \<Rightarrow> time \<Rightarrow> time option" where
  "or_time a t = (case a of None \<Rightarrow> Some t | Some x \<Rightarrow> Some x)"

definition processing_patch :: "time option \<Rightarrow> job \<Rightarrow> job" where
  "processing_patch started j = j\<lparr>job_status := Processing, started_at := started,
     current_operation := ''Preparing processing pipeline''\<rparr>"

definition allocation_patch :: "stage_timings \<Rightarrow> allocation \<Rightarrow> job \<Rightarrow> job" where
  "allocation_patch timings a j =
     j\<lparr>stage_timings_of := timings\<lparr>queue_wait_ms := Some (al_queue_wait_ms a), allocation_ms := Some (al_latency_ms a)\<rparr>,
       gpu_summary_of := \<lparr>gpu_type = Some (al_gpu_type a), warm_start = Some (al_warm_start a),
         allocation_latency_ms = Some (al_latency_ms a), gpu_runtime_seconds = 0,
         gs_desired_warm_instances = ps_desired_warm_instances (al_pool a),
         gs_active_warm_instances = ps_active_warm_instances (al_pool a),
         gs_busy_instances = ps_busy_instances (al_pool a), gs_utilization_percent = ps_utilization_percent (al_pool a),
         gs_historical_utilization_percent = None\<rparr>\<rparr>"

definition allocate_for :: "runtime_env \<Rightarrow> job \<Rightarrow> (world, allocation) prog" where
  "allocate_for env j =
     bindE (interfere env) (\<lambda>_.
     bindE (getsE w_store) (\<lambda>js.
     on_ops (allocate_gpu (re_ops env) js
       \<lparr>gr_job_id = job_id j, gr_plan_tier = job_plan_tier j, gr_queued_at = queued_at j\<rparr>)))"

text \<open>Mark the job as processing and get a GPU.\<close>

definition start_job :: "runtime_env \<Rightarrow> string \<Rightarrow> job \<Rightarrow> (world, job) prog" where
  "start_job env jid j =
     bindE (if started_at j = None then bindE (now env) (\<lambda>t. ret (Some t)) else ret (started_at j)) (\<lambda>started.
     bindE (update_job env jid (processing_patch started)) (\<lambda>processing.
     bindE (allocate_for env processing) (\<lambda>a.
     bindE (set_frame (\<lambda>f. f\<lparr>gpu_allocated := True\<rparr>)) (\<lambda>_.
     update_job env jid (allocation_patch (stage_timings_of processing) a)))))"

text \<open>The loop over the segments; \<open>Some r\<close> is an early return of \<open>r\<close>.\<close>

fun segments_loop :: "runtime_env \<Rightarrow> string \<Rightarrow> string option \<Rightarrow> segment list \<Rightarrow> (world, job option option) prog" where
  "segments_loop env jid token [] = ret None"
| "segments_loop env jid token (x # xs) =
     bindE (poll_job env jid) (\<lambda>found.
     case found of
       None \<Rightarrow> ret (Some None)
     | Some cur \<Rightarrow>
         if job_status cur = CancelRequested
         then bindE (cancel_and_notify env jid (sg_index x) token) (\<lambda>c. ret (Some (Some c)))
         else bindE (process_segment env cur x token) (\<lambda>_. segments_loop env jid token xs))"

definition finish_job :: "runtime_env \<Rightarrow> string \<Rightarrow> string option \<Rightarrow> (world, job option) prog" where
  "finish_job env jid token =
     bindE (finalize_job env jid token) (\<lambda>jr.
     bindE (set_frame (\<lambda>f. f\<lparr>gpu_released := snd jr\<rparr>)) (\<lambda>_.
     bindE (liftR (event_of_status (job_status (fst jr)))) (\<lambda>event.
     bindE (publish_progress env (fst jr) (max (segment_count (fst jr) - 1) 0) token) (\<lambda>_.
     bindE (deliver_webhooks env (fst jr) event) (\<lambda>_. ret (Some (fst jr)))))))"

definition process_body :: "runtime_env \<Rightarrow> string \<Rightarrow> job \<Rightarrow> string option \<Rightarrow> (world, job option) prog" where
  "process_body env jid j token =
     bindE (liftR (validate_plan_tier (job_plan_tier j))) (\<lambda>tier.
     bindE (set_frame (\<lambda>f. f\<lparr>validated_plan_tier := Some tier\<rparr>)) (\<lambda>_.
     if job_status j = CancelRequested
     then bindE (cancel_and_notify env jid 0 token) (\<lambda>c. ret (Some c))
     else
       bindE (start_job env jid j) (\<lambda>processing.
       bindE (publish_progress env processing 0 token) (\<lambda>_.
       bindE (deliver_webhooks env processing EVENT_STARTED) (\<lambda>_.
       bindE (segments_now env jid) (\<lambda>segs.
       bindE (segments_loop env jid token segs) (\<lambda>early.
       case early of
         Some r \<Rightarrow> ret r
       | None \<Rightarrow> finish_job env jid token)))))))"

definition failed_patch :: "exn \<Rightarrow> time \<Rightarrow> job \<Rightarrow> job" where
  "failed_patch e t j = j\<lparr>job_status := Failed, last_error := Some (exn_str e),
     current_operation := ''Failed during worker execution'', completed_at := Some t\<rparr>"

text \<open>\<open>except Exception as exc\<close>\<close>

definition process_failed :: "runtime_env \<Rightarrow> string \<Rightarrow> string option \<Rightarrow> exn \<Rightarrow> (world, job option) prog" where
  "process_failed env jid token e =
     bindE (now env) (\<lambda>t.
     bindE (update_job env jid (failed_patch e t)) (\<lambda>failed.
     bindE (dead_letter jid) (\<lambda>_.
     bindE (getsE (\<lambda>w. validated_plan_tier (w_frame w))) (\<lambda>tier.
     bindE (case tier of None \<Rightarrow> ret ()
            | Some pt \<Rightarrow> bindE (on_billing (consume_minutes (re_billing env) (owner_user_id failed) pt 0
                                 (some_or_none (job_org_id failed)))) (\<lambda>_. ret ())) (\<lambda>_.
     bindE (publish_progress env failed 0 token) (\<lambda>_.
     bindE (deliver_webhooks env failed ''failed'') (\<lambda>_. ret (Some failed))))))))"

text \<open>\<open>finally\<close>\<close>

definition release_if_held :: "runtime_env \<Rightarrow> string \<Rightarrow> (world, unit) prog" where
  "release_if_held env jid =
     bindE (getsE w_frame) (\<lambda>f.
     if gpu_allocated f \<and> \<not> gpu_released f
     then
       bindE (segments_now env jid) (\<lambda>segs.
       bindE (on_ops (release_gpu (re_ops env) jid (gpu_seconds_of segs))) (\<lambda>_. ret ()))
     else ret ())"

definition fresh_frame :: frame where
  "fresh_frame = \<lparr>gpu_allocated = False, gpu_released = False, validated_plan_tier = None\<rparr>"

definition process_job :: "runtime_env \<Rightarrow> string \<Rightarrow> string option \<Rightarrow> (world, job option) prog" where
  "process_job env jid token =
     bindE (liftR (authorize_trusted_worker (re_worker env) token)) (\<lambda>tok.
     bindE (poll_job env jid) (\<lambda>found.
     case found of
       None \<Rightarrow> ret None
     | Some j \<Rightarrow>
         bindE (set_frame (\<lambda>_. fresh_frame)) (\<lambda>_.
         finallyE (catchE (process_body env jid j (Some tok)) (process_failed env jid (Some tok)))
           (release_if_held env jid))))"

section \<open>The queue\<close>

definition run_worker_message :: "runtime_env \<Rightarrow> dispatch_message \<Rightarrow> string option \<Rightarrow> (world, job option) prog" where
  "run_worker_message env m token =
     bindE (liftR (authorize_trusted_worker (re_worker env) token)) (\<lambda>_. process_job env (dm_job_id m) token)"

text \<open>
  \<open>drain_job_queue\<close>; the fuel bounds the number of rounds and \<open>None\<close> says that it ran out.
\<close>

fun drain_loop :: "nat \<Rightarrow> runtime_env \<Rightarrow> nat option \<Rightarrow> string list \<Rightarrow> (world, string list option) prog" where
  "drain_loop 0 env max_jobs processed = ret None"
| "drain_loop (Suc fuel) env max_jobs processed =
     (if (case max_jobs of None \<Rightarrow> False | Some n \<Rightarrow> n \<le> length processed) then ret (Some processed)
      else
        bindE (on_queue pop_next_dispatch_message) (\<lambda>next.
        case next of
          None \<Rightarrow> ret (Some processed)
        | Some m \<Rightarrow>
            bindE (liftR (default_trusted_worker_token (re_worker env))) (\<lambda>token.
            bindE (catchE (bindE (run_worker_message env m (Some token)) (\<lambda>_. ret ()))
                     (\<lambda>e. bindE (on_queue (requeue_dispatch_message m)) (\<lambda>_. raise e))) (\<lambda>_.
            drain_loop fuel env max_jobs (processed @ [dm_job_id m])))))"

definition drain_job_queue :: "nat \<Rightarrow> runtime_env \<Rightarrow> nat option \<Rightarrow> (world, string list option) prog" where
  "drain_job_queue fuel env max_jobs = drain_loop fuel env max_jobs []"

definition enqueue_job :: "runtime_env \<Rightarrow> string \<Rightarrow> string \<Rightarrow> (world, unit) prog" where
  "enqueue_job env jid tier =
     bindE (now env) (\<lambda>t. bindE (on_queue (publish_job t jid tier ''api'')) (\<lambda>_. ret ()))"

definition reset_job_runtime_state :: "world \<Rightarrow> world" where
  "reset_job_runtime_state w =
     w\<lparr>w_queue := reset_job_dispatcher_state (w_queue w), w_progress := [],
       w_ops := reset_runtime_ops_state (w_ops w), w_deliveries := [], w_failures := [], w_repro := [], w_dead := []\<rparr>"

definition webhook_deliveries_for_job :: "string \<Rightarrow> world \<Rightarrow> delivery list" where
  "webhook_deliveries_for_job jid w = filter (\<lambda>d. dl_job_id d = jid) (w_deliveries w)"

definition dead_letter_jobs :: "world \<Rightarrow> string list" where
  "dead_letter_jobs w = w_dead w"

end
