(* ===== verification/Runtime_Invariant.thy ===== *)
theory Runtime_Invariant
  imports Job_Runtime
begin

text \<open>
  What every step of the job runtime keeps: the stored job keeps its identity, its progress stays in range
  and its terminal states carry their result; its segments keep their numbering and never exceed three
  attempts; every published progress event is in range.
\<close>

section \<open>Keeping an invariant and a promise on the result\<close>

definition keeps :: "('s \<Rightarrow> bool) \<Rightarrow> ('s, 'a) prog \<Rightarrow> ('a \<Rightarrow> bool) \<Rightarrow> bool" where
  "keeps I m R \<longleftrightarrow> (\<forall>s. I s \<longrightarrow> wp m (\<lambda>a t. I t \<and> R a) (\<lambda>_. I) s)"

named_theorems keeps_intro \<open>rules by which an invariant is kept\<close>

lemma keepsI: "(\<And>s. I s \<Longrightarrow> wp m (\<lambda>a t. I t \<and> R a) (\<lambda>_. I) s) \<Longrightarrow> keeps I m R"
  by (simp add: keeps_def)

lemma keepsD: "keeps I m R \<Longrightarrow> I s \<Longrightarrow> wp m (\<lambda>a t. I t \<and> R a) (\<lambda>_. I) s"
  by (simp add: keeps_def)

lemma keeps_bindE [keeps_intro]:
  "keeps I m R \<Longrightarrow> (\<And>a. R a \<Longrightarrow> keeps I (f a) S) \<Longrightarrow> keeps I (bindE m f) S"
  by (rule keepsI, unfold wp_bindE, rule wp_mono, erule keepsD, assumption) (auto dest: keepsD)

lemma keeps_catchE [keeps_intro]:
  "keeps I m R \<Longrightarrow> (\<And>e. keeps I (h e) R) \<Longrightarrow> keeps I (catchE m h) R"
  by (rule keepsI, unfold wp_catchE, rule wp_mono, erule keepsD, assumption) (auto dest: keepsD)

lemma keeps_tryE [keeps_intro]:
  "keeps I m R \<Longrightarrow> (\<And>e. keeps I (h e) S) \<Longrightarrow> (\<And>a. R a \<Longrightarrow> keeps I (f a) S) \<Longrightarrow> keeps I (tryE m h f) S"
  by (rule keepsI, unfold wp_tryE, rule wp_mono, erule keepsD, assumption) (simp_all add: keepsD)

lemma keeps_finallyE [keeps_intro]:
  "keeps I m R \<Longrightarrow> keeps I f S \<Longrightarrow> keeps I (finallyE m f) R"
  by (rule keepsI, unfold wp_finallyE, rule wp_mono, erule keepsD, assumption)
    (auto dest: keepsD intro: wp_mono)

lemma keeps_ret [keeps_intro]: "R a \<Longrightarrow> keeps I (ret a) R"
  by (simp add: keeps_def wp_ret)

lemma keeps_raise [keeps_intro]: "keeps I (raise e) R"
  by (simp add: keeps_def wp_raise)

lemma keeps_if [keeps_intro]:
  "(b \<Longrightarrow> keeps I m R) \<Longrightarrow> (\<not> b \<Longrightarrow> keeps I n R) \<Longrightarrow> keeps I (if b then m else n) R"
  by simp

lemma keeps_case_option [keeps_intro]:
  "(x = None \<Longrightarrow> keeps I m R) \<Longrightarrow> (\<And>y. x = Some y \<Longrightarrow> keeps I (f y) R) \<Longrightarrow>
   keeps I (case x of None \<Rightarrow> m | Some y \<Rightarrow> f y) R"
  by (cases x) simp_all

lemma keeps_getsE: "(\<And>s. I s \<Longrightarrow> R (f s)) \<Longrightarrow> keeps I (getsE f) R"
  by (simp add: keeps_def wp_getsE)

lemma keeps_liftR: "(\<And>a. r = Inr a \<Longrightarrow> R a) \<Longrightarrow> keeps I (liftR r) R"
  by (simp add: keeps_def wp_liftR split: sum.split)

lemma keeps_getsE_True [keeps_intro]: "keeps I (getsE f) (\<lambda>_. True)"
  by (simp add: keeps_getsE)

lemma keeps_liftR_True [keeps_intro]: "keeps I (liftR r) (\<lambda>_. True)"
  by (simp add: keeps_liftR)

lemma keeps_weaken: "keeps I m R \<Longrightarrow> (\<And>a. R a \<Longrightarrow> S a) \<Longrightarrow> keeps I m S"
  unfolding keeps_def by (blast intro: wp_mono)

lemma keeps_forE [keeps_intro]: "(\<And>x. keeps I (f x) (\<lambda>_. True)) \<Longrightarrow> keeps I (forE xs f) (\<lambda>_. True)"
  by (induction xs) (auto simp: thenE_def intro: keeps_ret keeps_bindE)

lemma keeps_preserves: "preserves I m \<Longrightarrow> keeps I m (\<lambda>_. True)"
  by (simp add: keeps_def preserves_wp)

lemma preserves_keeps: "keeps I m R \<Longrightarrow> preserves I m"
  unfolding keeps_def preserves_wp by (blast intro: wp_mono)

text \<open>Running on a slice the invariant does not look at.\<close>

lemma keeps_zoom: "(\<And>s t. I s \<Longrightarrow> I (p t s)) \<Longrightarrow> keeps I (zoom g p m) (\<lambda>_. True)"
  by (rule keeps_preserves, rule preserves_zoom)

section \<open>The invariant\<close>

text \<open>What no operation of the runtime changes in a job.\<close>

definition job_static :: "job \<Rightarrow> string \<times> string \<times> string \<times> string \<times> string \<times> string \<times> string \<times> int \<times> int" where
  "job_static j = (job_id j, owner_user_id j, job_plan_tier j, job_org_id j, media_uri j, source_asset_checksum j,
     job_fidelity_tier j, estimated_duration_seconds j, segment_count j)"

definition job_ok :: "job \<Rightarrow> bool" where
  "job_ok j \<longleftrightarrow> 0 \<le> progress_percent j \<and> progress_percent j \<le> 100 \<and> 0 \<le> eta_seconds j \<and>
     0 \<le> completed_segment_count j \<and> 0 \<le> failed_segment_count j \<and>
     completed_segment_count j + failed_segment_count j \<le> segment_count j \<and>
     (terminal (job_status j) \<longrightarrow> completed_at j \<noteq> None) \<and>
     (job_status j \<in> {Completed, Partial} \<longrightarrow> result_uri j \<noteq> None)"

definition backoffs_ok :: "int \<Rightarrow> int list \<Rightarrow> bool" where
  "backoffs_ok a bs \<longleftrightarrow> sorted_wrt (<) bs \<and> set bs \<subseteq> set (take (nat a) [1, 2])"

definition seg_ok :: "segment \<Rightarrow> bool" where
  "seg_ok x \<longleftrightarrow> 0 \<le> attempt_count x \<and> attempt_count x \<le> 3 \<and>
     backoffs_ok (attempt_count x) (retry_backoffs_seconds x) \<and>
     (sg_status x = SegCompleted \<longrightarrow> sg_output_uri x \<noteq> None \<and> 1 \<le> attempt_count x) \<and>
     (sg_status x = SegFailed \<longrightarrow> attempt_count x = 3 \<and> last_error_classification x \<noteq> None)"

definition event_ok :: "progress_event \<Rightarrow> bool" where
  "event_ok e \<longleftrightarrow> 0 \<le> pe_percent_complete e \<and> pe_percent_complete e \<le> 100 \<and> 0 \<le> pe_eta_seconds e"

definition good_job :: "string \<Rightarrow> job \<Rightarrow> job \<Rightarrow> bool" where
  "good_job jid j0 j \<longleftrightarrow> job_id j0 = jid \<and> job_static j = job_static j0 \<and> job_ok j \<and>
     (completed_at j0 \<noteq> None \<longrightarrow> completed_at j \<noteq> None)"

text \<open>\<open>b\<close> bounds the attempts of each segment by its index.\<close>

definition segs_good :: "job \<Rightarrow> (int \<Rightarrow> int) \<Rightarrow> segment list \<Rightarrow> bool" where
  "segs_good j0 b segs \<longleftrightarrow> distinct (map sg_index segs) \<and> int (length segs) = segment_count j0 \<and>
     (\<forall>x \<in> set segs. seg_ok x \<and> attempt_count x \<le> b (sg_index x))"

definition events_good :: "progress_log \<Rightarrow> bool" where
  "events_good lg \<longleftrightarrow> (\<forall>jid. \<forall>e \<in> set (progress_events_for_job jid lg). event_ok e)"

definition runtime_inv :: "string \<Rightarrow> job \<Rightarrow> (int \<Rightarrow> int) \<Rightarrow> world \<Rightarrow> bool" where
  "runtime_inv jid j0 b w \<longleftrightarrow> (\<exists>j. dget (jobs (w_store w)) jid = Some j \<and> good_job jid j0 j) \<and>
     segs_good j0 b (segments_of jid (w_store w)) \<and> events_good (w_progress w) \<and> distinct (w_dead w)"

lemma job_static_simps:
  assumes "job_static j = job_static j0"
  shows "job_id j = job_id j0" "owner_user_id j = owner_user_id j0" "job_plan_tier j = job_plan_tier j0"
    "job_org_id j = job_org_id j0" "job_fidelity_tier j = job_fidelity_tier j0"
    "estimated_duration_seconds j = estimated_duration_seconds j0" "segment_count j = segment_count j0"
  using assms by (simp_all add: job_static_def)

lemma runtime_inv_slices [simp]:
  "runtime_inv jid j0 b (w\<lparr>w_billing := bl\<rparr>) = runtime_inv jid j0 b w"
  "runtime_inv jid j0 b (w\<lparr>w_ops := os\<rparr>) = runtime_inv jid j0 b w"
  "runtime_inv jid j0 b (w\<lparr>w_queue := q\<rparr>) = runtime_inv jid j0 b w"
  "runtime_inv jid j0 b (w\<lparr>w_deliveries := ds\<rparr>) = runtime_inv jid j0 b w"
  "runtime_inv jid j0 b (w\<lparr>w_failures := fs\<rparr>) = runtime_inv jid j0 b w"
  "runtime_inv jid j0 b (w\<lparr>w_repro := rs\<rparr>) = runtime_inv jid j0 b w"
  "runtime_inv jid j0 b (w\<lparr>w_slept := sl\<rparr>) = runtime_inv jid j0 b w"
  "runtime_inv jid j0 b (w\<lparr>w_polls := n\<rparr>) = runtime_inv jid j0 b w"
  "runtime_inv jid j0 b (w\<lparr>w_frame := f\<rparr>) = runtime_inv jid j0 b w"
  by (simp_all add: runtime_inv_def)

section \<open>Small steps\<close>

lemma keeps_on_ops [keeps_intro]: "keeps (runtime_inv jid j0 b) (on_ops m) (\<lambda>_. True)"
  unfolding on_ops_def by (rule keeps_zoom) simp

lemma keeps_on_billing [keeps_intro]: "keeps (runtime_inv jid j0 b) (on_billing m) (\<lambda>_. True)"
  unfolding on_billing_def by (rule keeps_zoom) simp

lemma keeps_on_outputs [keeps_intro]: "keeps (runtime_inv jid j0 b) (on_outputs m) (\<lambda>_. True)"
  unfolding on_outputs_def by (rule keeps_zoom) (simp add: put_output_world_def runtime_inv_def)

lemma keeps_on_manifests [keeps_intro]: "keeps (runtime_inv jid j0 b) (on_manifests m) (\<lambda>_. True)"
  unfolding on_manifests_def by (rule keeps_zoom) (simp add: put_manifest_world_def runtime_inv_def)

lemma keeps_set_frame [keeps_intro]: "keeps (runtime_inv jid j0 b) (set_frame f) (\<lambda>_. True)"
  unfolding set_frame_def by (rule keeps_preserves, rule preserves_modifyE) simp

lemma keeps_sleep [keeps_intro]: "keeps (runtime_inv jid j0 b) (sleep n) (\<lambda>_. True)"
  unfolding sleep_def by (rule keeps_preserves, rule preserves_modifyE) simp

lemma keeps_add_delivery [keeps_intro]: "keeps (runtime_inv jid j0 b) (add_delivery d) (\<lambda>_. True)"
  unfolding add_delivery_def by (rule keeps_preserves, rule preserves_modifyE) simp

lemma keeps_dead_letter [keeps_intro]: "keeps (runtime_inv jid j0 b) (dead_letter k) (\<lambda>_. True)"
  unfolding dead_letter_def
  by (rule keeps_preserves, rule preserves_modifyE) (simp add: runtime_inv_def)

lemma keeps_now [keeps_intro]: "keeps (runtime_inv jid j0 b) (now env) (\<lambda>_. True)"
  unfolding now_def by (rule keeps_on_ops)

lemma keeps_next_failure [keeps_intro]: "keeps (runtime_inv jid j0 b) (next_failure k i) (\<lambda>_. True)"
  by (rule keepsI) (auto simp: wp_def next_failure_def split: option.split list.split)

lemma keeps_should_fail [keeps_intro]: "keeps (runtime_inv jid j0 b) (should_fail_reproducibility k i) (\<lambda>_. True)"
  by (rule keepsI) (auto simp: wp_def should_fail_reproducibility_def Let_def split: option.split)

lemma job_ok_cancel_mark: "job_ok j \<Longrightarrow> job_ok (cancel_mark t j)"
  by (simp add: job_ok_def cancel_mark_def terminal_def)

lemma cancel_mark_good: "good_job jid j0 j \<Longrightarrow> good_job jid j0 (cancel_mark t j)"
  by (simp add: good_job_def job_ok_cancel_mark) (simp add: cancel_mark_def job_static_def)

lemma runtime_inv_cancels:
  assumes "runtime_inv jid j0 b w"
  shows "runtime_inv jid j0 b (w\<lparr>w_store := cancels reqs (w_store w)\<rparr>)"
proof -
  from assms obtain j where j: "dget (jobs (w_store w)) jid = Some j" "good_job jid j0 j"
    by (auto simp: runtime_inv_def)
  from cancels_job [OF j(1), of reqs] j
  have "\<exists>j. dget (jobs (cancels reqs (w_store w))) jid = Some j \<and> good_job jid j0 j"
    by (auto simp: cancel_mark_good)
  moreover have "segments_of jid (cancels reqs (w_store w)) = segments_of jid (w_store w)"
    using cancels_frame [of reqs "w_store w"] by (simp add: segments_of_def)
  ultimately show ?thesis using assms by (simp add: runtime_inv_def)
qed

lemma keeps_interfere [keeps_intro]: "keeps (runtime_inv jid j0 b) (interfere env) (\<lambda>_. True)"
  unfolding interfere_def
  by (rule keeps_preserves, rule preserves_modifyE) (simp add: runtime_inv_cancels)

lemma keeps_store_op:
  assumes "\<And>w. runtime_inv jid j0 b w \<Longrightarrow>
    wp m (\<lambda>a t. runtime_inv jid j0 b (w\<lparr>w_store := t\<rparr>) \<and> R a) (\<lambda>_ t. runtime_inv jid j0 b (w\<lparr>w_store := t\<rparr>)) (w_store w)"
  shows "keeps (runtime_inv jid j0 b) (store_op env m) R"
  unfolding store_op_def
  by (rule keeps_bindE [OF keeps_interfere], rule keepsI) (use assms in \<open>simp add: on_store_def wp_zoom\<close>)

lemma runtime_inv_store: "runtime_inv jid j0 b w \<Longrightarrow> runtime_inv jid j0 b (w\<lparr>w_store := w_store w\<rparr>)"
  by simp

lemma keeps_poll_job [keeps_intro]:
  "keeps (runtime_inv jid j0 b) (poll_job env jid) (\<lambda>r. \<exists>j. r = Some j \<and> good_job jid j0 j)"
  unfolding poll_job_def by (rule keeps_store_op) (auto simp: wp_get_job_for_worker runtime_inv_def)

lemma keeps_segments_now [keeps_intro]:
  "keeps (runtime_inv jid j0 b) (segments_now env jid) (segs_good j0 b)"
  unfolding segments_now_def by (rule keeps_store_op) (auto simp: wp_list_segments_worker runtime_inv_def)

lemma good_job_updated: "good_job jid j0 j \<Longrightarrow> good_job jid j0 (j\<lparr>updated_at := t\<rparr>)"
  by (simp add: good_job_def job_static_def job_ok_def)

text \<open>\<open>P\<close> is what the caller learns of the returned job beyond the invariant.\<close>

lemma keeps_update_job_with:
  assumes "\<And>j. good_job jid j0 j \<Longrightarrow> good_job jid j0 (f j) \<and> P (f j)"
    and "\<And>j t. P j \<Longrightarrow> P (j\<lparr>updated_at := t\<rparr>)"
  shows "keeps (runtime_inv jid j0 b) (update_job env jid f) (\<lambda>j. good_job jid j0 j \<and> P j)"
  unfolding update_job_def
  by (rule keeps_bindE [OF keeps_now], rule keeps_store_op)
    (use assms in \<open>auto simp: wp_update_job runtime_inv_def good_job_updated\<close>)

lemma keeps_update_job:
  assumes "\<And>j. good_job jid j0 j \<Longrightarrow> good_job jid j0 (f j)"
  shows "keeps (runtime_inv jid j0 b) (update_job env jid f) (good_job jid j0)"
  using keeps_update_job_with [where P = "\<lambda>_. True"] assms by (simp add: keeps_weaken)

lemma keeps_manifest_op:
  assumes "\<And>s. wp m (\<lambda>a t. jobs t = jobs s \<and> job_segments t = job_segments s \<and> R a)
    (\<lambda>_ t. jobs t = jobs s \<and> job_segments t = job_segments s) s"
  shows "keeps (runtime_inv jid j0 b) (store_op env m) R"
  by (rule keeps_store_op, rule wp_mono [OF assms]) (auto simp: runtime_inv_def segments_of_def)

lemma events_good_add: "events_good lg \<Longrightarrow> event_ok e \<Longrightarrow>
    events_good (dset k (progress_events_for_job k lg @ [e]) lg)"
  by (auto simp: events_good_def progress_events_for_job_def)

lemma keeps_publish_progress:
  assumes "good_job jid j0 j"
  shows "keeps (runtime_inv jid j0 b) (publish_progress env j i token) (\<lambda>_. True)"
  unfolding publish_progress_def
proof (rule keeps_bindE [OF keeps_liftR_True], unfold on_progress_def, rule keeps_preserves,
    rule preserves_zoom_slice [where J = events_good])
  fix tok
  let ?e = "\<lparr>pe_job_id = job_id j, pe_segment_index = i, pe_segment_count = segment_count j,
         pe_percent_complete = progress_percent j, pe_eta_seconds = eta_seconds j,
         pe_status = status_value (job_status j), pe_current_operation = current_operation j,
         pe_updated_at = updated_at j, pe_channel = progress_topic j\<rparr>"
  have "event_ok ?e" using assms by (simp add: good_job_def job_ok_def event_ok_def)
  then show "preserves events_good (publish_progress_event (re_worker env) tok ?e)"
    unfolding publish_progress_event_def
    by (intro pres_intro preserves_modifyE) (auto simp: events_good_add)
qed (auto simp: runtime_inv_def)

lemma keeps_deliver_attempts [keeps_intro]:
  "keeps (runtime_inv jid j0 b) (deliver_attempts env k event url ns) (\<lambda>_. True)"
  by (induction ns) (auto simp: Let_def intro!: keeps_intro)

lemma keeps_deliver_webhooks [keeps_intro]:
  "keeps (runtime_inv jid j0 b) (deliver_webhooks env j event) (\<lambda>_. True)"
  unfolding deliver_webhooks_def
  by (rule keeps_bindE [OF keeps_manifest_op [where R = "\<lambda>_. True"]])
    (simp add: list_enabled_def wp_getsE, intro keeps_intro)

section \<open>Segments\<close>

lemma count_done_le: "completed_of segs + int (length (failed_indexes segs)) \<le> int (length segs)"
  by (induction segs) (auto simp: completed_of_def failed_indexes_def count_segments_def)

lemma processed_range: "0 \<le> processed_of segs \<and> processed_of segs \<le> int (length segs)"
  using count_done_le [of segs] by (simp add: processed_of_def completed_of_def count_segments_def)

lemma percent_range:
  assumes "0 \<le> k" and "k \<le> n"
  shows "0 \<le> percent_complete k n \<and> percent_complete k n \<le> 100"
proof -
  have "(of_int k :: rat) \<le> of_int (max n 1)" using assms by simp
  moreover have "(0 :: rat) < of_int (max n 1)" by simp
  ultimately have "(of_int k :: rat) / of_int (max n 1) \<le> 1" by (simp only: divide_le_eq_1_pos)
  then have "(of_int k :: rat) / of_int (max n 1) * 100 \<le> 1 * 100" by (rule mult_right_mono) simp
  then have "(of_int k :: rat) / of_int (max n 1) * 100 \<le> of_int 100" by (simp only: mult_1 of_int_numeral)
  then have "percent_complete k n \<le> py_round 2 (of_int 100)"
    unfolding percent_complete_def by (rule py_round_mono)
  moreover have "0 \<le> percent_complete k n" using assms unfolding percent_complete_def by (intro py_round_nonneg) simp
  ultimately show ?thesis unfolding py_round_int by simp
qed

lemma progress_patch_good:
  assumes "segs_good j0 b segs" and "good_job jid j0 j"
  shows "good_job jid j0 (progress_patch segs i (max (segment_count j0) 1) tm g j)"
proof -
  have n: "processed_of segs \<le> max (segment_count j0) 1" "0 \<le> processed_of segs"
    using processed_range [of segs] assms(1) by (auto simp: segs_good_def)
  have "completed_of segs + int (length (failed_indexes segs)) \<le> segment_count j0" "0 \<le> completed_of segs"
    using count_done_le [of segs] assms(1) by (auto simp: segs_good_def completed_of_def count_segments_def)
  with percent_range [OF n(2,1)] assms(2) show ?thesis
    by (simp add: good_job_def job_ok_def job_static_def progress_patch_def)
qed

lemma keeps_poll_existing [keeps_intro]:
  "keeps (runtime_inv jid j0 b) (poll_existing env jid) (good_job jid j0)"
  unfolding poll_existing_def by (rule keeps_bindE [OF keeps_poll_job]) (auto intro: keeps_ret)

lemma keeps_update_processing_progress:
  assumes "cnt = max (segment_count j0) 1"
  shows "keeps (runtime_inv jid j0 b) (update_processing_progress env jid i cnt token) (\<lambda>_. True)"
  unfolding update_processing_progress_def assms
  by (rule keeps_bindE [OF keeps_segments_now], rule keeps_bindE [OF keeps_poll_existing],
      rule keeps_bindE [OF keeps_poll_existing], rule keeps_bindE [OF keeps_update_job])
    (simp_all add: progress_patch_good keeps_publish_progress)

lemma segs_good_update:
  assumes "segs_good j0 b segs"
    and "\<And>y. sg_index y = i \<Longrightarrow> seg_ok y \<Longrightarrow> attempt_count y \<le> b i \<Longrightarrow>
      sg_index (f y) = i \<and> seg_ok (f y) \<and> attempt_count (f y) \<le> a"
  shows "segs_good j0 (b(i := a)) (update_at i f segs)"
proof -
  have f: "\<And>y. y \<in> set segs \<Longrightarrow> sg_index y = i \<Longrightarrow> sg_index (f y) = i \<and> seg_ok (f y) \<and> attempt_count (f y) \<le> a"
    using assms by (auto simp: segs_good_def)
  have "map sg_index (update_at i f segs) = map sg_index segs"
    using f by (simp add: update_at_def)
  then have "distinct (map sg_index (update_at i f segs))" using assms(1) by (simp only: segs_good_def)
  moreover have "int (length (update_at i f segs)) = segment_count j0" using assms(1) by (simp add: segs_good_def)
  moreover have "\<forall>x \<in> set (update_at i f segs). seg_ok x \<and> attempt_count x \<le> (b(i := a)) (sg_index x)"
    using f assms(1) by (auto simp: update_at_def segs_good_def)
  ultimately show ?thesis by (simp only: segs_good_def simp_thms)
qed

lemma seg_ok_updated: "seg_ok x \<Longrightarrow> seg_ok (x\<lparr>sg_updated_at := t\<rparr>)"
  by (simp add: seg_ok_def)

lemma update_segment_inv:
  assumes "runtime_inv jid j0 b w"
    and f: "\<And>y. sg_index y = i \<Longrightarrow> seg_ok y \<Longrightarrow> attempt_count y \<le> b i \<Longrightarrow>
      sg_index (f y) = i \<and> seg_ok (f y) \<and> attempt_count (f y) \<le> a"
  shows "wp (update_segment env jid i f) (\<lambda>_ t. runtime_inv jid j0 (b(i := a)) t) (\<lambda>_ t. runtime_inv jid j0 b t) w"
proof -
  have "wp (update_segment_for_worker now jid i f)
      (\<lambda>_ t. runtime_inv jid j0 (b(i := a)) (w\<lparr>w_store := t\<rparr>)) (\<lambda>_ t. runtime_inv jid j0 b (w\<lparr>w_store := t\<rparr>)) (w_store w)"
    if inv: "runtime_inv jid j0 b w" for w now
  proof (cases "i \<in> sg_index ` set (segments_of jid (w_store w))")
    case True
    then obtain x where x: "x \<in> set (segments_of jid (w_store w))" "sg_index x = i" by auto
    from inv have sg: "segs_good j0 b (segments_of jid (w_store w))" by (simp add: runtime_inv_def)
    then have d: "distinct (map sg_index (segments_of jid (w_store w)))" by (simp add: segs_good_def)
    have "segs_good j0 (b(i := a)) (update_at i (\<lambda>y. (f y)\<lparr>sg_updated_at := now\<rparr>) (segments_of jid (w_store w)))"
      using f by (intro segs_good_update [OF sg]) (simp add: seg_ok_updated)
    with inv show ?thesis unfolding wp_update_segment [OF d x] by (simp add: runtime_inv_def)
  next
    case False
    then have "patch_segment i g (segments_of jid (w_store w)) = None" for g
      by (simp add: patch_segment_None)
    with inv show ?thesis by (simp add: wp_def update_segment_for_worker_def)
  qed
  then show ?thesis
    unfolding update_segment_def store_op_def on_store_def wp_bindE
    by (intro wp_mono [OF keepsD [OF keeps_now assms(1)]] wp_mono [OF keepsD [OF keeps_interfere]])
      (auto simp: wp_zoom wp_ret)
qed

lemma keeps_update_segment:
  assumes "\<And>y. sg_index y = i \<Longrightarrow> seg_ok y \<Longrightarrow> attempt_count y \<le> b i \<Longrightarrow>
    sg_index (f y) = i \<and> seg_ok (f y) \<and> attempt_count (f y) \<le> b i"
  shows "keeps (runtime_inv jid j0 b) (update_segment env jid i f) (\<lambda>_. True)"
proof (rule keepsI)
  fix w
  assume "runtime_inv jid j0 b w"
  from update_segment_inv [OF this assms]
  show "wp (update_segment env jid i f) (\<lambda>_ t. runtime_inv jid j0 b t \<and> True) (\<lambda>_. runtime_inv jid j0 b) w"
    by simp
qed

text \<open>The locals of a segment's processing agree with the job and segment they were read from.\<close>

definition ctx_ok :: "string \<Rightarrow> job \<Rightarrow> int \<Rightarrow> segment_ctx \<Rightarrow> bool" where
  "ctx_ok jid j0 i cx \<longleftrightarrow> job_id (cx_job cx) = jid \<and> sg_index (cx_segment cx) = i \<and> cx_count cx = max (segment_count j0) 1"

lemma keeps_progress_of: "ctx_ok jid j0 i cx \<Longrightarrow> keeps (runtime_inv jid j0 b) (progress_of env cx) (\<lambda>_. True)"
  unfolding progress_of_def by (simp add: ctx_ok_def keeps_update_processing_progress)

lemma keeps_patch_of:
  assumes "ctx_ok jid j0 i cx"
    and "\<And>y. sg_index y = i \<Longrightarrow> seg_ok y \<Longrightarrow> attempt_count y \<le> b i \<Longrightarrow>
      sg_index (f y) = i \<and> seg_ok (f y) \<and> attempt_count (f y) \<le> b i"
  shows "keeps (runtime_inv jid j0 b) (patch_of env cx f) (\<lambda>_. True)"
proof -
  have "keeps (runtime_inv jid j0 b) (update_segment env jid i f) (\<lambda>_. True)"
    by (rule keeps_update_segment) (rule assms(2))
  with assms(1) show ?thesis by (simp add: patch_of_def ctx_ok_def)
qed

lemma backoffs_ok_mono: "backoffs_ok a bs \<Longrightarrow> a \<le> a' \<Longrightarrow> backoffs_ok a' bs"
  unfolding backoffs_ok_def by (meson set_take_subset_set_take subset_trans nat_mono)

lemma backoffs_ok_append:
  assumes "backoffs_ok (a - 1) bs" and "a = 1 \<or> a = 2"
  shows "backoffs_ok a (bs @ [RETRY_BACKOFF_SECONDS ! nat (a - 1)])"
  using assms by (auto simp: backoffs_ok_def RETRY_BACKOFF_SECONDS_def sorted_wrt_append numeral_2_eq_2 split: if_splits)

lemma seg_ok_attempt: "seg_ok y \<Longrightarrow> attempt_count y \<le> a \<Longrightarrow> 0 \<le> a \<Longrightarrow> a \<le> 3 \<Longrightarrow> seg_ok (attempt_patch a y)"
  by (auto simp: seg_ok_def attempt_patch_def intro: backoffs_ok_mono)

lemma keeps_fail_attempt:
  assumes cx: "ctx_ok jid j0 i cx" and a: "1 \<le> a" "a \<le> 3" "b i = a" and bs: "backoffs_ok (a - 1) bs"
    and extra: "\<And>y. sg_index (extra y) = sg_index y \<and> seg_ok (extra y) = seg_ok y \<and> attempt_count (extra y) = attempt_count y"
  shows "keeps (runtime_inv jid j0 b) (fail_attempt env cx a err bs extra)
    (\<lambda>r. \<forall>bs'. r = Some bs' \<longrightarrow> a < 3 \<and> backoffs_ok a bs')"
proof -
  have bs': "backoffs_ok a bs" using bs by (rule backoffs_ok_mono) simp
  have three: "int (length RETRY_BACKOFF_SECONDS) = 3" by (simp add: RETRY_BACKOFF_SECONDS_def)
  have again: "backoffs_ok a (bs @ [RETRY_BACKOFF_SECONDS ! nat (a - 1)])" if "a < 3"
    using backoffs_ok_append [OF bs] a that by linarith
  have queued: "keeps (runtime_inv jid j0 b)
      (patch_of env cx (\<lambda>y. extra (unsuccessful_patch cx SegQueued a err bs1 y))) (\<lambda>_. True)"
    if "backoffs_ok a bs1" for bs1
  proof (rule keeps_patch_of [OF cx])
    fix y
    have "seg_ok (unsuccessful_patch cx SegQueued a err bs1 y)"
      using a that by (simp add: unsuccessful_patch_def seg_ok_def)
    moreover assume "sg_index y = i"
    ultimately show "sg_index (extra (unsuccessful_patch cx SegQueued a err bs1 y)) = i \<and>
        seg_ok (extra (unsuccessful_patch cx SegQueued a err bs1 y)) \<and>
        attempt_count (extra (unsuccessful_patch cx SegQueued a err bs1 y)) \<le> b i"
      using a by (simp add: extra) (simp add: unsuccessful_patch_def)
  qed
  have failed: "keeps (runtime_inv jid j0 b)
      (patch_of env cx (\<lambda>y. extra (unsuccessful_patch cx SegFailed a err bs y))) (\<lambda>_. True)" if "\<not> a < 3"
  proof (rule keeps_patch_of [OF cx])
    fix y
    have "seg_ok (unsuccessful_patch cx SegFailed a err bs y)"
      using a bs' that by (simp add: unsuccessful_patch_def seg_ok_def)
    moreover assume "sg_index y = i"
    ultimately show "sg_index (extra (unsuccessful_patch cx SegFailed a err bs y)) = i \<and>
        seg_ok (extra (unsuccessful_patch cx SegFailed a err bs y)) \<and>
        attempt_count (extra (unsuccessful_patch cx SegFailed a err bs y)) \<le> b i"
      using a by (simp add: extra) (simp add: unsuccessful_patch_def)
  qed
  show ?thesis
    unfolding fail_attempt_def Let_def three
    by (rule keeps_intro keeps_progress_of [OF cx] queued failed again | use again in auto)+
qed

lemma keeps_store_output:
  assumes cx: "ctx_ok jid j0 i cx" and a: "1 \<le> a" "a \<le> 3" "b i = a" and bs: "backoffs_ok (a - 1) bs"
  shows "keeps (runtime_inv jid j0 b) (store_output env cx a bs) (\<lambda>_. True)"
proof -
  have bs': "backoffs_ok a bs" using bs by (rule backoffs_ok_mono) simp
  have out: "keeps (runtime_inv jid j0 b)
      (patch_of env cx (\<lambda>y. measured_patch q p (completed_patch cx a uri bs cst y))) (\<lambda>_. True)" for q p uri cst
    by (rule keeps_patch_of [OF cx]) (use a bs' in \<open>simp add: measured_patch_def completed_patch_def seg_ok_def\<close>)
  show ?thesis
    unfolding store_output_def Let_def by (rule keeps_intro out keeps_progress_of [OF cx])+
qed

lemma segs_good_mono:
  assumes "segs_good j0 b segs" and "\<And>i. b i \<le> b' i \<or> 3 \<le> b' i"
  shows "segs_good j0 b' segs"
proof -
  have "attempt_count x \<le> b' (sg_index x)" if "x \<in> set segs" for x
    using assms(1) that assms(2) [of "sg_index x"] by (auto simp: segs_good_def seg_ok_def)
  with assms(1) show ?thesis by (simp add: segs_good_def)
qed

lemma runtime_inv_mono:
  "runtime_inv jid j0 b w \<Longrightarrow> (\<And>i. b i \<le> b' i \<or> 3 \<le> b' i) \<Longrightarrow> runtime_inv jid j0 b' w"
  unfolding runtime_inv_def by (blast intro: segs_good_mono)

lemma keeps_operation:
  "keeps (runtime_inv jid j0 b) (update_job env jid (\<lambda>j. j\<lparr>current_operation := op\<rparr>)) (good_job jid j0)"
  by (rule keeps_update_job) (simp add: good_job_def job_static_def job_ok_def)

lemma run_attempt_inv:
  assumes cx: "ctx_ok jid j0 i cx" and a: "1 \<le> a" "a \<le> 3" "b i \<le> a - 1" and bs: "backoffs_ok (a - 1) bs"
    and inv: "runtime_inv jid j0 b w"
  shows "wp (run_attempt env cx a bs)
    (\<lambda>r t. runtime_inv jid j0 (b(i := a)) t \<and> (\<forall>bs'. r = Some bs' \<longrightarrow> a < 3 \<and> backoffs_ok a bs'))
    (\<lambda>_. runtime_inv jid j0 (b(i := a))) w"
proof -
  let ?b = "b(i := a)"
  have ba: "?b i = a" by simp
  have job: "job_id (cx_job cx) = jid" and seg: "sg_index (cx_segment cx) = i" using cx by (simp_all add: ctx_ok_def)
  have attempted: "seg_ok y \<Longrightarrow> attempt_count y \<le> a \<Longrightarrow> seg_ok (attempt_patch a y)"
    "sg_index (attempt_patch a y) = sg_index y" "attempt_count (attempt_patch a y) = a" for y
    using a seg_ok_attempt [of y a] by (simp_all add: attempt_patch_def)
  have start: "wp (patch_of env cx (attempt_patch a)) (\<lambda>_. runtime_inv jid j0 ?b) (\<lambda>_. runtime_inv jid j0 ?b) w"
    unfolding patch_of_def job seg
    by (rule wp_mono [OF update_segment_inv [OF inv, where a = a]])
      (use a in \<open>auto simp: attempted intro: runtime_inv_mono\<close>)
  note fail = keeps_fail_attempt [where b = ?b, OF cx a(1,2) ba bs]
  note out = keeps_store_output [where b = ?b, OF cx a(1,2) ba bs]
  have rest: "keeps (runtime_inv jid j0 ?b)
      (bindE (update_job env jid (\<lambda>j. j\<lparr>current_operation :=
        job_fidelity_tier (cx_job cx) @ '' segment '' @ dec_int (i + 1) @ ''/'' @ dec_int (cx_count cx)\<rparr>)) (\<lambda>_.
      bindE (next_failure jid i) (\<lambda>failure.
      case failure of
        Some f \<Rightarrow> fail_attempt env cx a (classify_failure f) bs id
      | None \<Rightarrow>
          bindE (should_fail_reproducibility jid i) (\<lambda>bad.
          if bad
          then fail_attempt env cx a ''reproducibility'' bs
                 (measured_patch (attempt_quality env cx) (attempt_proof env cx a True))
          else bindE (store_output env cx a bs) (\<lambda>_. ret None)))))
      (\<lambda>r. \<forall>bs'. r = Some bs' \<longrightarrow> a < 3 \<and> backoffs_ok a bs')"
    by (rule keeps_intro keeps_operation fail out | simp add: measured_patch_def seg_ok_def)+
  show ?thesis
    unfolding run_attempt_def Let_def job seg
    by (subst wp_bindE, rule wp_mono [OF start]) (erule keepsD [OF rest])
qed

lemma segment_loop_inv:
  assumes cx: "ctx_ok jid j0 i cx"
  shows "as = [a .. 3] \<Longrightarrow> 1 \<le> a \<Longrightarrow> b i \<le> a - 1 \<Longrightarrow> backoffs_ok (a - 1) bs \<Longrightarrow> runtime_inv jid j0 b w \<Longrightarrow>
    wp (segment_loop env cx bs as) (\<lambda>_. runtime_inv jid j0 (b(i := 3))) (\<lambda>_. runtime_inv jid j0 (b(i := 3))) w"
proof (induction as arbitrary: a b bs w)
  case Nil
  have "runtime_inv jid j0 (b(i := 3)) w" using Nil.prems(5) by (rule runtime_inv_mono) simp
  then show ?case by (simp only: segment_loop.simps wp_ret)
next
  case (Cons x xs)
  then have "a \<le> 3" by (cases "a \<le> 3") auto
  with Cons.prems(1) have x: "x = a" "xs = [a + 1 .. 3]" by (auto simp: upto_rec1)
  have up: "runtime_inv jid j0 (b(i := a)) t \<Longrightarrow> runtime_inv jid j0 (b(i := 3)) t" for t
    by (erule runtime_inv_mono) (simp add: \<open>a \<le> 3\<close>)
  have go: "wp (segment_loop env cx bs' xs) (\<lambda>_. runtime_inv jid j0 (b(i := 3))) (\<lambda>_. runtime_inv jid j0 (b(i := 3))) t"
    if "runtime_inv jid j0 (b(i := a)) t" "backoffs_ok a bs'" for t bs'
  proof -
    have "wp (segment_loop env cx bs' xs) (\<lambda>_. runtime_inv jid j0 ((b(i := a))(i := 3)))
        (\<lambda>_. runtime_inv jid j0 ((b(i := a))(i := 3))) t"
      by (rule Cons.IH [OF x(2) _ _ _ that(1)]) (use that(2) Cons.prems(2) in simp_all)
    then show ?thesis by (simp only: fun_upd_upd)
  qed
  show ?case
    unfolding segment_loop.simps wp_bindE x(1)
    by (rule wp_mono [OF run_attempt_inv [OF cx Cons.prems(2) \<open>a \<le> 3\<close> Cons.prems(3-5)]])
      (auto simp: wp_ret up go split: option.split)
qed

lemma process_segment_inv:
  assumes inv: "runtime_inv jid j0 b w" and j: "good_job jid j0 j"
    and x: "sg_index x = i" "seg_ok x" "b i \<le> attempt_count x"
  shows "wp (process_segment env j x token) (\<lambda>_. runtime_inv jid j0 (b(i := 3))) (\<lambda>_. runtime_inv jid j0 (b(i := 3))) w"
proof -
  have up: "runtime_inv jid j0 b t \<Longrightarrow> runtime_inv jid j0 (b(i := 3)) t" for t
    by (erule runtime_inv_mono) simp
  have x3: "0 \<le> attempt_count x" "attempt_count x \<le> 3" "backoffs_ok (attempt_count x) (retry_backoffs_seconds x)"
    using x(2) by (simp_all add: seg_ok_def)
  have three: "int (length RETRY_BACKOFF_SECONDS) = 3" by (simp add: RETRY_BACKOFF_SECONDS_def)
  have body: "wp (let cx = \<lparr>cx_job = j, cx_segment = x, cx_count = max (segment_count j) 1, cx_mode = mode,
        cx_profile = fp, cx_request = cache_request_for env j x fp, cx_cache = snd found, cx_token = token\<rparr> in
      case fst found of
        Some entry \<Rightarrow>
          bindE (patch_of env cx (cached_patch j entry (snd found) (attempt_count x))) (\<lambda>_. progress_of env cx)
      | None \<Rightarrow> segment_loop env cx (retry_backoffs_seconds x) [attempt_count x + 1 .. int (length RETRY_BACKOFF_SECONDS)])
      (\<lambda>_. runtime_inv jid j0 (b(i := 3))) (\<lambda>_. runtime_inv jid j0 (b(i := 3))) t"
    if t: "runtime_inv jid j0 b t" for mode fp found t
  proof -
    let ?cx = "\<lparr>cx_job = j, cx_segment = x, cx_count = max (segment_count j) 1, cx_mode = mode,
        cx_profile = fp, cx_request = cache_request_for env j x fp, cx_cache = snd found, cx_token = token\<rparr>"
    have cx: "ctx_ok jid j0 i ?cx"
      using j x(1) by (auto simp: ctx_ok_def good_job_def dest: job_static_simps)
    have cached: "seg_ok (cached_patch j entry (snd found) (attempt_count x) y)"
      if "seg_ok y" "attempt_count y \<le> attempt_count x" for entry y
      using that x3 backoffs_ok_mono [of "attempt_count y" "retry_backoffs_seconds y" "max (attempt_count x) 1"]
      by (simp add: seg_ok_def cached_patch_def)
    show ?thesis
    proof (cases "fst found")
      case None
      then show ?thesis
        using segment_loop_inv [OF cx refl, of "attempt_count x + 1" b "retry_backoffs_seconds x" t env] x3 x(3) t three
        by (simp only: Let_def option.case add_diff_cancel_right')
    next
      case (Some entry)
      let ?f = "cached_patch j entry (snd found) (attempt_count x)"
      have patch: "wp (patch_of env ?cx ?f) (\<lambda>_. runtime_inv jid j0 (b(i := 3))) (\<lambda>_. runtime_inv jid j0 (b(i := 3))) t"
      proof -
        have f: "sg_index (?f y) = i \<and> seg_ok (?f y) \<and> attempt_count (?f y) \<le> 3"
          if y: "sg_index y = i" "seg_ok y" "attempt_count y \<le> b i" for y
        proof -
          have "attempt_count (?f y) = max (attempt_count x) 1" by (simp add: cached_patch_def)
          moreover have "sg_index (?f y) = i" using y(1) by (simp add: cached_patch_def)
          ultimately show ?thesis using cached [OF y(2)] y(3) x(3) x3(2) by simp
        qed
        have same: "patch_of env ?cx ?f = update_segment env jid i ?f"
          using cx by (simp only: patch_of_def ctx_ok_def)
        show ?thesis
          unfolding same by (rule wp_mono [OF update_segment_inv [OF t f]]) (assumption | erule up)+
      qed
      show ?thesis
        unfolding Let_def Some option.case wp_bindE
      proof (rule wp_mono [OF patch], goal_cases)
        case (1 u t)
        from keepsD [OF keeps_progress_of [OF cx] 1] show ?case by (rule wp_mono) (erule conjunct1 | assumption)+
      qed
    qed
  qed
  note lift = keepsD [OF keeps_liftR_True [where I = "runtime_inv jid j0 b"]]
    and ops = keepsD [OF keeps_on_ops [of jid j0 b]]
  show ?thesis
    unfolding process_segment_def wp_bindE
  proof (rule wp_mono [OF lift [OF inv]], goal_cases)
    case (1 mode t)
    then have t: "runtime_inv jid j0 b t" ..
    show ?case
    proof (rule wp_mono [OF lift [OF t]], goal_cases)
      case (1 fp t)
      then have t: "runtime_inv jid j0 b t" ..
      show ?case by (rule wp_mono [OF ops [OF t]]) (erule conjunct1 [THEN body] up)+
    qed (rule up)
  qed (rule up)
qed

section \<open>The whole job\<close>

text \<open>After the segments, and at the start, only the bound of three attempts matters.\<close>

abbreviation inv3 :: "string \<Rightarrow> job \<Rightarrow> world \<Rightarrow> bool" where
  "inv3 jid j0 \<equiv> runtime_inv jid j0 (\<lambda>_. 3)"

lemma inv3_of: "runtime_inv jid j0 b w \<Longrightarrow> inv3 jid j0 w"
  by (erule runtime_inv_mono) simp

lemma cancelled_patch_good: "good_job jid j0 j \<Longrightarrow> good_job jid j0 (cancelled_patch t j)"
  by (simp add: good_job_def job_static_def job_ok_def cancelled_patch_def terminal_def)

lemma keeps_cancel_job [keeps_intro]:
  "keeps (runtime_inv jid j0 b) (cancel_job env jid i token) (good_job jid j0)"
  unfolding cancel_job_def
  by (rule keeps_bindE [OF keeps_now] keeps_bindE [OF keeps_update_job] keeps_bindE [OF keeps_on_billing]
      keeps_bindE [OF keeps_publish_progress] keeps_ret cancelled_patch_good | assumption)+

lemma keeps_cancel_and_notify [keeps_intro]:
  "keeps (runtime_inv jid j0 b) (cancel_and_notify env jid i token) (good_job jid j0)"
  unfolding cancel_and_notify_def
  by (rule keeps_bindE [OF keeps_cancel_job] keeps_bindE [OF keeps_deliver_webhooks] keeps_ret | assumption)+

definition facts_ok :: "final_facts \<Rightarrow> bool" where
  "facts_ok ff \<longleftrightarrow> ff_status ff \<in> {Completed, Partial, Failed} \<and>
     (ff_status ff \<in> {Completed, Partial} \<longrightarrow> ff_result_uri ff \<noteq> None)"

lemma final_patch_good: "facts_ok ff \<Longrightarrow> good_job jid j0 j \<Longrightarrow> good_job jid j0 (final_patch ff t j)"
  by (cases "ff_status ff")
    (simp_all add: good_job_def job_static_def job_ok_def final_patch_def summaries_patch_def facts_ok_def terminal_def)

lemma finalize_failed_patch_good: "good_job jid j0 j \<Longrightarrow> good_job jid j0 (finalize_failed_patch ff e t j)"
  by (simp add: good_job_def job_static_def job_ok_def finalize_failed_patch_def summaries_patch_def)

text \<open>A late failure hits a job that has already ended, so it has its time of completion.\<close>

lemma late_failure_patch_good:
  "good_job jid j0 j \<Longrightarrow> completed_at j0 \<noteq> None \<Longrightarrow> good_job jid j0 (late_failure_patch what ws e j)"
  by (simp add: good_job_def job_static_def job_ok_def late_failure_patch_def)

lemma failed_patch_good: "good_job jid j0 j \<Longrightarrow> good_job jid j0 (failed_patch e t j)"
  by (simp add: good_job_def job_static_def job_ok_def failed_patch_def)

lemma manifest_patch_good: "good_job jid j0 j \<Longrightarrow> good_job jid j0 (manifest_patch m j)"
  by (simp add: good_job_def job_static_def job_ok_def manifest_patch_def)

lemma processing_patch_good: "good_job jid j0 j \<Longrightarrow> good_job jid j0 (processing_patch t j)"
  by (simp add: good_job_def job_static_def job_ok_def processing_patch_def terminal_def)

lemma allocation_patch_good: "good_job jid j0 j \<Longrightarrow> good_job jid j0 (allocation_patch tm a j)"
  by (simp add: good_job_def job_static_def job_ok_def allocation_patch_def)

definition ended :: "string \<Rightarrow> job \<Rightarrow> job \<Rightarrow> bool" where
  "ended jid j0 j \<longleftrightarrow> good_job jid j0 j \<and> completed_at j \<noteq> None"

lemma ended_good: "ended jid j0 j \<Longrightarrow> good_job jid j0 j"
  by (simp add: ended_def)

text \<open>Once the job has ended, the ended job itself is the reference: its time of completion stays.\<close>

lemma good_job_trans: "good_job jid j0 j1 \<Longrightarrow> good_job jid j1 j \<Longrightarrow> good_job jid j0 j"
  by (auto simp: good_job_def job_static_def)

lemma segs_good_static: "good_job jid j0 j1 \<Longrightarrow> segs_good j1 b segs = segs_good j0 b segs"
  by (simp add: segs_good_def good_job_def job_static_def)

lemma runtime_inv_back: "good_job jid j0 j1 \<Longrightarrow> runtime_inv jid j1 b w \<Longrightarrow> runtime_inv jid j0 b w"
  by (auto simp: runtime_inv_def segs_good_static intro: good_job_trans)

lemma good_job_self: "good_job jid j0 j \<Longrightarrow> good_job jid j j"
  by (simp add: good_job_def job_static_def)

lemma update_job_ends:
  assumes inv: "runtime_inv jid j0 b w" and f: "\<And>j. good_job jid j0 j \<Longrightarrow> good_job jid j0 (f j) \<and> completed_at (f j) \<noteq> None"
  shows "wp (update_job env jid f) (\<lambda>j t. ended jid j0 j \<and> runtime_inv jid j b t) (\<lambda>_. runtime_inv jid j0 b) w"
proof -
  have step: "wp (update_job_for_worker now jid f) (\<lambda>j t. ended jid j0 j \<and> runtime_inv jid j b (w\<lparr>w_store := t\<rparr>))
      (\<lambda>_ t. runtime_inv jid j0 b (w\<lparr>w_store := t\<rparr>)) (w_store w)" if "runtime_inv jid j0 b w" for w now
  proof -
    from that obtain j where j: "dget (jobs (w_store w)) jid = Some j" "good_job jid j0 j"
      by (auto simp: runtime_inv_def)
    let ?j = "(f j)\<lparr>updated_at := now\<rparr>"
    have g: "good_job jid j0 ?j" "completed_at ?j \<noteq> None"
      using f [OF j(2)] by (auto intro: good_job_updated)
    then have "segs_good ?j b (segments_of jid (w_store w))"
      using that segs_good_static [OF g(1)] by (simp add: runtime_inv_def)
    with g good_job_self [OF g(1)] that j show ?thesis
      by (simp add: wp_update_job runtime_inv_def ended_def)
  qed
  show ?thesis
    unfolding update_job_def store_op_def on_store_def
    by (subst wp_bindE, rule wp_mono [OF keepsD [OF keeps_now inv]], subst wp_bindE,
        erule conjunct1 [THEN wp_mono [OF keepsD [OF keeps_interfere]]])
      (auto simp: wp_zoom step)
qed

lemma keeps_delete_retained [keeps_intro]:
  "keeps (runtime_inv jid j0 b) (delete_retained_objects env k uris) (\<lambda>_. True)"
proof -
  have m: "keeps (runtime_inv jid j0 b) (store_op env (mark_retention_delete_failed t k)) (\<lambda>_. True)"
    "keeps (runtime_inv jid j0 b) (store_op env (mark_retention_delete_deleted t k)) (\<lambda>_. True)" for t
    by (rule keeps_manifest_op, simp add: wp_def mark_retention_delete_failed_def mark_retention_delete_deleted_def
        split: option.split)+
  show ?thesis
    unfolding delete_retained_objects_def by (rule keeps_intro m | simp)+
qed

lemma keeps_publish_manifest:
  "keeps (runtime_inv jid j0 b) (publish_manifest env jid fin) (\<lambda>jm. good_job jid j0 (fst jm))"
proof -
  have m: "keeps (runtime_inv jid j0 b) (store_op env (upsert_manifest_for_worker jid r)) (\<lambda>_. True)" for r
    by (rule keeps_manifest_op) (simp add: wp_def upsert_manifest_for_worker_def)
  show ?thesis
    unfolding publish_manifest_def
    by (rule keeps_bindE [OF keeps_segments_now] keeps_bindE [OF keeps_on_manifests] keeps_bindE [OF m]
        keeps_bindE [OF keeps_delete_retained] keeps_bindE [OF keeps_update_job] keeps_ret manifest_patch_good
        | simp)+
qed

lemma keeps_package_outputs:
  assumes "good_job jid j0 fin" and "completed_at j0 \<noteq> None"
  shows "keeps (runtime_inv jid j0 b) (package_outputs env jid ff fin) (\<lambda>js. good_job jid j0 (fst js))"
  unfolding package_outputs_def
  by (rule keeps_if keeps_tryE [OF keeps_publish_manifest] keeps_tryE [OF keeps_bindE [OF keeps_segments_now keeps_on_outputs]]
      keeps_bindE [OF keeps_update_job] keeps_ret late_failure_patch_good | simp add: assms)+

lemma reconciliation_good: "good_job jid j0 j \<Longrightarrow> good_job jid j0 (j\<lparr>cost_reconciliation_summary := r\<rparr>)"
  by (simp add: good_job_def job_static_def job_ok_def)

lemma keeps_refresh_signals [keeps_intro]: "keeps (runtime_inv jid j0 b) (refresh_signals env) (\<lambda>_. True)"
  unfolding refresh_signals_def by (rule keeps_intro | simp)+

lemma keeps_consume:
  assumes "good_job jid j0 j"
  shows "keeps (runtime_inv jid j0 b) (consume_usage_and_reconcile env j c n) (\<lambda>_. True)"
proof -
  have jid: "job_id j = jid" using assms by (auto simp: good_job_def job_static_def)
  show ?thesis
    unfolding consume_usage_and_reconcile_def jid
    by (rule keeps_bindE [OF keeps_on_billing] keeps_bindE [OF keeps_now] keeps_bindE [OF keeps_liftR_True]
        keeps_case_option keeps_tryE [OF keeps_update_job] keeps_tryE [OF keeps_refresh_signals] keeps_ret
        reconciliation_good | simp)+
qed

lemma with_reconciliation_good: "good_job jid j0 j \<Longrightarrow> good_job jid j0 (with_reconciliation r j)"
  by (simp add: with_reconciliation_def reconciliation_good split: option.split)

lemma keeps_after_end:
  assumes "\<And>fin. ended jid j0 fin \<Longrightarrow> keeps (runtime_inv jid fin b) (g fin) (good_job jid fin)"
    and f: "\<And>j. good_job jid j0 j \<Longrightarrow> good_job jid j0 (f j) \<and> completed_at (f j) \<noteq> None"
  shows "keeps (runtime_inv jid j0 b) (bindE (update_job env jid f) g) (good_job jid j0)"
proof (rule keepsI, subst wp_bindE)
  fix w
  assume inv: "runtime_inv jid j0 b w"
  have go: "wp (g fin) (\<lambda>a t. runtime_inv jid j0 b t \<and> good_job jid j0 a) (\<lambda>_. runtime_inv jid j0 b) t"
    if "ended jid j0 fin \<and> runtime_inv jid fin b t" for fin t
  proof -
    from that have fin: "ended jid j0 fin" "good_job jid j0 fin" and t: "runtime_inv jid fin b t"
      by (simp_all add: ended_def)
    show ?thesis
      by (rule wp_mono [OF keepsD [OF assms(1) [OF fin(1)] t]])
        (use fin(2) in \<open>blast intro: runtime_inv_back good_job_trans\<close>)+
  qed
  have "wp (update_job env jid f) (\<lambda>j t. ended jid j0 j \<and> runtime_inv jid j b t) (\<lambda>_. runtime_inv jid j0 b) w"
    using inv by (rule update_job_ends) (rule f)
  then show "wp (update_job env jid f) (\<lambda>a. wp (g a) (\<lambda>a t. runtime_inv jid j0 b t \<and> good_job jid j0 a)
      (\<lambda>_. runtime_inv jid j0 b)) (\<lambda>_. runtime_inv jid j0 b) w"
    by (rule wp_mono) (erule go | assumption)+
qed

lemma keeps_commit_final:
  assumes "facts_ok ff"
  shows "keeps (runtime_inv jid j0 b) (commit_final env jid ff pool) (good_job jid j0)"
  unfolding commit_final_def
proof (rule keeps_bindE [OF keeps_now], rule keeps_after_end)
  fix t fin
  assume "ended jid j0 fin"
  then have fin: "good_job jid fin fin" "completed_at fin \<noteq> None"
    by (auto simp: ended_def intro: good_job_self)
  show "keeps (runtime_inv jid fin b)
      (bindE (on_ops (evaluate_runtime_snapshot (re_ops env) pool (cache_degraded (ff_cache ff)))) (\<lambda>_.
       bindE (package_outputs env jid ff fin) (\<lambda>js.
       bindE (consume_usage_and_reconcile env (fst js) (ff_cost ff) (actual_minutes (snd js) (fst js))) (\<lambda>r.
       ret (with_reconciliation r (fst js)))))) (good_job jid fin)"
    by (rule keeps_bindE [OF keeps_on_ops] keeps_bindE [OF keeps_package_outputs [OF fin]] keeps_bindE [OF keeps_consume]
        keeps_ret with_reconciliation_good | assumption)+
next
  fix t j
  assume "good_job jid j0 j"
  then show "good_job jid j0 (final_patch ff t j) \<and> completed_at (final_patch ff t j) \<noteq> None"
    using final_patch_good [OF assms] by (simp add: final_patch_def summaries_patch_def)
qed

lemma keeps_finalize_failed: "keeps (runtime_inv jid j0 b) (finalize_failed env jid ff e) (good_job jid j0)"
  unfolding finalize_failed_def
  by (rule keeps_bindE [OF keeps_now] keeps_bindE [OF keeps_update_job] keeps_bindE [OF keeps_consume] keeps_ret
      finalize_failed_patch_good with_reconciliation_good | assumption)+

lemma keeps_gather_final:
  "keeps (runtime_inv jid j0 b) (gather_final env jid j segs) (\<lambda>fp. facts_ok (fst fp))"
  unfolding gather_final_def Let_def
  by (rule keeps_bindE [OF keeps_liftR_True] keeps_bindE [OF keeps_on_ops] keeps_bindE [OF keeps_if [OF keeps_dead_letter keeps_ret]]
      keeps_ret | simp add: facts_ok_def final_status_def final_result_uri_def)+

lemma keeps_finalize_job [keeps_intro]:
  "keeps (runtime_inv jid j0 b) (finalize_job env jid token) (\<lambda>jr. good_job jid j0 (fst jr))"
  unfolding finalize_job_def
proof (rule keeps_bindE [OF keeps_poll_job], rule keeps_case_option)
  fix found j
  show "keeps (runtime_inv jid j0 b)
      (bindE (segments_now env jid) (\<lambda>segs.
         if job_status j = CancelRequested
         then bindE (cancel_job env jid (max (int (length segs) - 1) 0) token) (\<lambda>c. ret (c, False))
         else
           bindE (gather_final env jid j segs) (\<lambda>fp.
           bindE (catchE (commit_final env jid (fst fp) (snd fp)) (finalize_failed env jid (fst fp))) (\<lambda>j'.
           ret (j', True))))) (\<lambda>jr. good_job jid j0 (fst jr))"
    by (rule keeps_bindE [OF keeps_segments_now] keeps_if keeps_bindE [OF keeps_cancel_job]
        keeps_bindE [OF keeps_gather_final] keeps_bindE [OF keeps_catchE [OF keeps_commit_final keeps_finalize_failed]]
        keeps_ret | simp)+
qed (rule keeps_raise)

section \<open>\<open>process_job\<close>\<close>

lemma keeps_allocate_for [keeps_intro]: "keeps (runtime_inv jid j0 b) (allocate_for env j) (\<lambda>_. True)"
  unfolding allocate_for_def by (rule keeps_intro | simp)+

lemma keeps_start_job [keeps_intro]:
  "keeps (runtime_inv jid j0 b) (start_job env jid j) (good_job jid j0)"
  unfolding start_job_def
  by (rule keeps_bindE [OF keeps_if [OF keeps_bindE [OF keeps_now keeps_ret] keeps_ret], where R = "\<lambda>_. True"]
      keeps_bindE [OF keeps_update_job] keeps_bindE [OF keeps_allocate_for] keeps_bindE [OF keeps_set_frame]
      keeps_update_job processing_patch_good allocation_patch_good | assumption | simp)+

definition good_option :: "string \<Rightarrow> job \<Rightarrow> job option \<Rightarrow> bool" where
  "good_option jid j0 r = (case r of None \<Rightarrow> True | Some j \<Rightarrow> good_job jid j0 j)"

text \<open>What remains to be processed has not been attempted more often than when it was read.\<close>

lemma segments_loop_inv:
  "distinct (map sg_index xs) \<Longrightarrow> \<forall>x \<in> set xs. seg_ok x \<and> b (sg_index x) \<le> attempt_count x \<Longrightarrow>
   runtime_inv jid j0 b w \<Longrightarrow>
   wp (segments_loop env jid token xs)
     (\<lambda>r t. inv3 jid j0 t \<and> (case r of None \<Rightarrow> True | Some e \<Rightarrow> good_option jid j0 e)) (\<lambda>_. inv3 jid j0) w"
proof (induction xs arbitrary: b w)
  case Nil
  then show ?case by (simp add: wp_ret inv3_of)
next
  case (Cons x xs)
  let ?i = "sg_index x"
  have rest: "wp (segments_loop env jid token xs)
      (\<lambda>r t. inv3 jid j0 t \<and> (case r of None \<Rightarrow> True | Some e \<Rightarrow> good_option jid j0 e)) (\<lambda>_. inv3 jid j0) t"
    if "runtime_inv jid j0 (b(?i := 3)) t" for t
    by (rule Cons.IH [OF _ _ that]) (use Cons.prems(1,2) in \<open>auto simp: image_iff\<close>)
  have cancelled: "keeps (runtime_inv jid j0 b)
      (bindE (cancel_and_notify env jid ?i token) (\<lambda>c. ret (Some (Some c))))
      (\<lambda>r. case r of None \<Rightarrow> True | Some e \<Rightarrow> good_option jid j0 e)"
    by (rule keeps_bindE [OF keeps_cancel_and_notify] keeps_ret | simp add: good_option_def)+
  show ?case
    unfolding segments_loop.simps
  proof (subst wp_bindE, rule wp_mono [OF keepsD [OF keeps_poll_job Cons.prems(3)]], goal_cases)
    case (1 found t)
    then obtain cur where cur: "found = Some cur" "good_job jid j0 cur" and t: "runtime_inv jid j0 b t" by auto
    have segment: "wp (process_segment env cur x token) (\<lambda>_. runtime_inv jid j0 (b(?i := 3)))
        (\<lambda>_. runtime_inv jid j0 (b(?i := 3))) t"
      by (rule process_segment_inv [OF t cur(2) refl]) (use Cons.prems(2) in simp_all)
    show ?case
    proof (cases "job_status cur = CancelRequested")
      case True
      show ?thesis
        unfolding cur(1) option.case if_P [OF True]
        by (rule wp_mono [OF keepsD [OF cancelled t]]) (auto intro: inv3_of)
    next
      case False
      show ?thesis
        unfolding cur(1) option.case if_not_P [OF False]
        by (subst wp_bindE, rule wp_mono [OF segment]) (erule rest inv3_of)+
    qed
  qed (erule inv3_of)
qed

definition bound_of :: "segment list \<Rightarrow> int \<Rightarrow> int" where
  "bound_of segs i = (case find (\<lambda>x. sg_index x = i) segs of None \<Rightarrow> 3 | Some x \<Rightarrow> attempt_count x)"

lemma bound_of_index: "distinct (map sg_index segs) \<Longrightarrow> x \<in> set segs \<Longrightarrow> bound_of segs (sg_index x) = attempt_count x"
  by (induction segs) (auto simp: bound_of_def)

lemma runtime_inv_bound_of: "inv3 jid j0 w \<Longrightarrow> runtime_inv jid j0 (bound_of (segments_of jid (w_store w))) w"
  by (auto simp: runtime_inv_def segs_good_def bound_of_index)

definition run_segments :: "runtime_env \<Rightarrow> string \<Rightarrow> string option \<Rightarrow> (world, job option option) prog" where
  "run_segments env jid token = bindE (segments_now env jid) (segments_loop env jid token)"

lemma segments_now_read:
  assumes "inv3 jid j0 w"
  shows "wp (segments_now env jid) (\<lambda>segs t. inv3 jid j0 t \<and> segs = segments_of jid (w_store t)) (\<lambda>_. inv3 jid j0) w"
  unfolding segments_now_def store_op_def on_store_def
  by (subst wp_bindE, rule wp_mono [OF keepsD [OF keeps_interfere assms]])
    (auto simp: wp_zoom wp_list_segments_worker runtime_inv_def)

text \<open>The segments read are within the bounds of their own attempt counts.\<close>

lemma segments_read_bounded:
  assumes "inv3 jid j0 w"
  defines "segs \<equiv> segments_of jid (w_store w)"
  shows "distinct (map sg_index segs)" "\<forall>x \<in> set segs. seg_ok x \<and> bound_of segs (sg_index x) \<le> attempt_count x"
proof -
  from assms(1) have sg: "segs_good j0 (\<lambda>_. 3) segs" by (simp add: runtime_inv_def segs_def)
  then show d: "distinct (map sg_index segs)" by (simp add: segs_good_def)
  show "\<forall>x \<in> set segs. seg_ok x \<and> bound_of segs (sg_index x) \<le> attempt_count x"
    using sg by (simp add: bound_of_index [OF d]) (simp add: segs_good_def)
qed

lemma keeps_run_segments:
  "keeps (inv3 jid j0) (run_segments env jid token) (\<lambda>r. case r of None \<Rightarrow> True | Some e \<Rightarrow> good_option jid j0 e)"
proof (rule keepsI)
  fix w
  assume inv: "inv3 jid j0 w"
  let ?Q = "\<lambda>r t. inv3 jid j0 t \<and> (case r of None \<Rightarrow> True | Some e \<Rightarrow> good_option jid j0 e)"
  have loop: "wp (segments_loop env jid token (segments_of jid (w_store t))) ?Q (\<lambda>_. inv3 jid j0) t"
    if t: "inv3 jid j0 t" for t
    by (rule segments_loop_inv [OF segments_read_bounded [OF t] runtime_inv_bound_of [OF t]])
  show "wp (run_segments env jid token) ?Q (\<lambda>_. inv3 jid j0) w"
    unfolding run_segments_def
    by (subst wp_bindE, rule wp_mono [OF segments_now_read [OF inv]]) (auto intro: loop)
qed

lemma keeps_finish_job:
  "keeps (runtime_inv jid j0 b) (finish_job env jid token) (good_option jid j0)"
  unfolding finish_job_def
  by (rule keeps_bindE [OF keeps_finalize_job] keeps_bindE [OF keeps_set_frame] keeps_bindE [OF keeps_liftR_True]
      keeps_bindE [OF keeps_publish_progress] keeps_bindE [OF keeps_deliver_webhooks] keeps_ret
      | assumption | simp add: good_option_def)+

lemma process_body_segments:
  "process_body env jid j token =
     bindE (liftR (validate_plan_tier (job_plan_tier j))) (\<lambda>tier.
     bindE (set_frame (\<lambda>f. f\<lparr>validated_plan_tier := Some tier\<rparr>)) (\<lambda>_.
     if job_status j = CancelRequested
     then bindE (cancel_and_notify env jid 0 token) (\<lambda>c. ret (Some c))
     else
       bindE (start_job env jid j) (\<lambda>processing.
       bindE (publish_progress env processing 0 token) (\<lambda>_.
       bindE (deliver_webhooks env processing EVENT_STARTED) (\<lambda>_.
       bindE (run_segments env jid token) (\<lambda>early.
       case early of Some r \<Rightarrow> ret r | None \<Rightarrow> finish_job env jid token))))))"
proof -
  have assoc: "bindE (bindE m f) g = bindE m (\<lambda>a. bindE (f a) g)" for m :: "('s, 'a) prog" and f g
    by (auto simp: bindE_def fun_eq_iff split: prod.splits sum.splits)
  show ?thesis unfolding process_body_def run_segments_def assoc ..
qed

lemma keeps_process_body:
  "keeps (inv3 jid j0) (process_body env jid j token) (good_option jid j0)"
  unfolding process_body_segments
  by (rule keeps_bindE [OF keeps_liftR_True] keeps_bindE [OF keeps_set_frame] keeps_if
      keeps_bindE [OF keeps_cancel_and_notify] keeps_bindE [OF keeps_start_job] keeps_bindE [OF keeps_publish_progress]
      keeps_bindE [OF keeps_deliver_webhooks] keeps_bindE [OF keeps_run_segments] keeps_case_option keeps_finish_job
      keeps_ret | assumption | simp add: good_option_def)+

lemma keeps_process_failed:
  "keeps (runtime_inv jid j0 b) (process_failed env jid token e) (good_option jid j0)"
  unfolding process_failed_def
  by (rule keeps_bindE [OF keeps_now] keeps_bindE [OF keeps_update_job] keeps_bindE [OF keeps_dead_letter]
      keeps_bindE [OF keeps_getsE_True]
      keeps_bindE [OF keeps_case_option [OF keeps_ret keeps_bindE [OF keeps_on_billing keeps_ret]], where R = "\<lambda>_. True"]
      keeps_bindE [OF keeps_publish_progress] keeps_bindE [OF keeps_deliver_webhooks] keeps_ret failed_patch_good
      | assumption | simp add: good_option_def)+

lemma keeps_release_if_held: "keeps (runtime_inv jid j0 b) (release_if_held env jid) (\<lambda>_. True)"
  unfolding release_if_held_def
  by (rule keeps_bindE [OF keeps_getsE_True] keeps_if keeps_bindE [OF keeps_segments_now]
      keeps_bindE [OF keeps_on_ops] keeps_ret | simp)+

lemma keeps_process_job: "keeps (inv3 jid j0) (process_job env jid token) (good_option jid j0)"
  unfolding process_job_def
  by (rule keeps_bindE [OF keeps_liftR_True] keeps_bindE [OF keeps_poll_job] keeps_case_option
      keeps_bindE [OF keeps_set_frame]
      keeps_finallyE [OF keeps_catchE [OF keeps_process_body keeps_process_failed] keeps_release_if_held]
      keeps_ret | simp add: good_option_def)+

end
