(* ===== verification/Job_Service.thy ===== *)
theory Job_Service
  imports Output_Delivery Era_Validation Fingerprint Runtime_Invariant
begin

text \<open>
  \<open>JobService\<close> of \<open>app/services/job_service.py\<close>: estimating and creating jobs, and everything a user can ask
  about them. A request is the dictionary the API hands over. Publishing goes to the queue in memory or to
  Pub/Sub (\<open>PubSubJobDispatcher\<close> of \<open>app/services/job_dispatcher.py\<close>), which is outside the program.
\<close>

section \<open>The state and the environment\<close>

record job_world =
  jw_output :: output_world
  jw_queue :: dispatcher

record job_env =
  je_output :: output_env
  je_stripe :: stripe_env
  je_prices :: stripe_config
  je_environment :: string
  job_dispatch_mode :: string
  job_pubsub_topic :: string
  pubsub_publish :: "dispatch_message \<Rightarrow> nat \<Rightarrow> unit result"

definition je_codec :: "job_env \<Rightarrow> codec" where
  "je_codec env = od_codec (je_output env)"

definition je_read :: "job_env \<Rightarrow> string \<Rightarrow> rat option" where
  "je_read env = od_read_float (je_output env)"

definition on_output :: "(output_world, 'a) prog \<Rightarrow> (job_world, 'a) prog" where
  "on_output = zoom jw_output (\<lambda>t w. w\<lparr>jw_output := t\<rparr>)"

definition on_job_store :: "(job_store, 'a) prog \<Rightarrow> (job_world, 'a) prog" where
  "on_job_store m = on_output (on_output_store m)"

definition on_job_billing :: "(billing_store, 'a) prog \<Rightarrow> (job_world, 'a) prog" where
  "on_job_billing m = on_output (on_output_billing m)"

definition on_job_queue :: "(dispatcher, 'a) prog \<Rightarrow> (job_world, 'a) prog" where
  "on_job_queue = zoom jw_queue (\<lambda>t w. w\<lparr>jw_queue := t\<rparr>)"

definition job_now :: "job_env \<Rightarrow> (job_world, time) prog" where
  "job_now env = on_output (output_call (od_clock (je_output env)))"

definition job_not_found :: exn where
  "job_not_found = ProblemException ''Not Found'' 404"

section \<open>Publishing\<close>

text \<open>A message that Pub/Sub does not take is not queued anywhere.\<close>

definition publish_message :: "job_env \<Rightarrow> string \<Rightarrow> string \<Rightarrow> string \<Rightarrow> (job_world, unit) prog" where
  "publish_message env jid tier source =
     bindE (job_now env) (\<lambda>now.
     if lower (job_dispatch_mode env) = ''pubsub''
     then
       (if job_pubsub_topic env = []
        then raise (ValueError ''JOB_PUBSUB_TOPIC is required when JOB_DISPATCH_MODE=pubsub.'')
        else bindE (on_output (output_call (\<lambda>n. n))) (\<lambda>n.
               liftR (pubsub_publish env (build_dispatch_message now jid tier source) n)))
     else bindE (on_job_queue (publish_job now jid tier source)) (\<lambda>_. ret ()))"

section \<open>Checking a request\<close>

text \<open>A dictionary is what the API's contract lets through as an era profile.\<close>

definition era_of_payload :: "jdict \<Rightarrow> jdict result" where
  "era_of_payload p =
     bind_res (jitem p ''era_profile'') (\<lambda>v. case v of JObj d \<Rightarrow> Inr d | _ \<Rightarrow> Inl (AttributeError ''get''))"

definition int_item :: "jdict \<Rightarrow> string \<Rightarrow> int result" where
  "int_item p k = bind_res (jitem p k) (\<lambda>v. case to_int v of Some i \<Rightarrow> Inr i | None \<Rightarrow> Inl (ValueError k))"

definition str_item :: "codec \<Rightarrow> jdict \<Rightarrow> string \<Rightarrow> string result" where
  "str_item c p k = bind_res (jitem p k) (\<lambda>v. Inr (py_str c v))"

definition mode_of_payload :: "codec \<Rightarrow> jdict \<Rightarrow> reproducibility_mode result" where
  "mode_of_payload c p =
     mode_of_value (py_str c (jor (jget p ''reproducibility_mode'') (JStr (mode_value PERCEPTUAL_EQUIVALENCE))))"

definition schema_validation_failed :: exn where
  "schema_validation_failed = ProblemException ''Schema Validation Failed'' 400"

text \<open>The era profile and the reproducibility mode, in the order in which they are checked.\<close>

definition checked_mode :: "job_env \<Rightarrow> string \<Rightarrow> jdict \<Rightarrow> (jdict \<times> reproducibility_mode) result" where
  "checked_mode env tier p =
     bind_res (era_of_payload p) (\<lambda>era.
     if \<not> is_valid (validate_era_profile (je_codec env) (je_read env) era) then Inl schema_validation_failed
     else
       bind_res (mode_of_payload (je_codec env) p) (\<lambda>mode.
       bind_res (validate_reproducibility_mode (je_environment env) mode tier) (\<lambda>_.
       Inr (era, mode))))"

section \<open>Estimates\<close>

fun as_estimate_problem :: "exn \<Rightarrow> exn" where
  "as_estimate_problem (BillingPricingUnavailableError m) = pricing_unavailable_problem"
| "as_estimate_problem e = e"

definition estimate_payload ::
  "job_env \<Rightarrow> string \<Rightarrow> string \<Rightarrow> string option \<Rightarrow> jdict \<Rightarrow> (job_world, cost_estimate) prog" where
  "estimate_payload env user tier org p =
     catchE
       (bindE (liftR (int_item p ''estimated_duration_seconds'')) (\<lambda>duration.
        bindE (liftR (str_item (je_codec env) p ''fidelity_tier'')) (\<lambda>fidelity.
        bindE (job_now env) (\<lambda>now.
        on_job_billing (estimate_launch (od_billing (je_output env)) (je_stripe env) (je_prices env) now user tier org
          duration fidelity)))))
       (\<lambda>e. raise (as_estimate_problem e))"

definition configuration_fingerprint_for_payload :: "job_env \<Rightarrow> jdict \<Rightarrow> string" where
  "configuration_fingerprint_for_payload env p =
     (let stamp = (case jget p ''config'' of JObj d \<Rightarrow> str_or_empty (je_codec env) (jget d ''configured_at'') | _ \<Rightarrow> [])
      in configuration_fingerprint (je_codec env) stamp p)"

definition estimate_job ::
  "job_env \<Rightarrow> string \<Rightarrow> string \<Rightarrow> string option \<Rightarrow> jdict \<Rightarrow> (job_world, jdict) prog" where
  "estimate_job env user tier org p =
     bindE (liftR (checked_mode env tier p)) (\<lambda>_.
     bindE (estimate_payload env user tier org p) (\<lambda>e.
     ret (estimate_summary isoformat e @ [(''configuration_fingerprint'', JStr (configuration_fingerprint_for_payload env p))])))"

section \<open>What a user is shown of a job\<close>

record progress_view =
  pg_segment_index :: int
  pg_segment_count :: int
  pg_percent_complete :: rat
  pg_eta_seconds :: int
  pg_status :: job_status
  pg_current_operation :: string
  pg_updated_at :: time

definition progress_from_job :: "job \<Rightarrow> progress_view" where
  "progress_from_job j = \<lparr>pg_segment_index = (if segment_count j \<noteq> 0
         then max (completed_segment_count j + failed_segment_count j - 1) 0 else 0),
     pg_segment_count = segment_count j, pg_percent_complete = progress_percent j, pg_eta_seconds = eta_seconds j,
     pg_status = job_status j, pg_current_operation = current_operation j, pg_updated_at = updated_at j\<rparr>"

record manifest_view =
  mv_manifest_id :: string
  mv_manifest_uri :: "string option"
  mv_manifest_sha256 :: "string option"
  mv_generated_at :: "time option"
  mv_size_bytes :: int

definition manifest_view_of :: "job \<Rightarrow> manifest_view option" where
  "manifest_view_of j =
     (if manifest_available j
      then Some \<lparr>mv_manifest_id = job_id j, mv_manifest_uri = manifest_uri j, mv_manifest_sha256 = manifest_sha256 j,
             mv_generated_at = manifest_generated_at j, mv_size_bytes = manifest_size_bytes j\<rparr>
      else None)"

definition throughput_ratio :: "job \<Rightarrow> rat option" where
  "throughput_ratio j =
     map_option (\<lambda>t. py_round 6 (of_int t / of_int (max (estimated_duration_seconds j * 2000) 1))) (total_ms (stage_timings_of j))"

record segment_view =
  sv_job_id :: string
  sv_segment_index :: int
  sv_segment_start_seconds :: int
  sv_segment_end_seconds :: int
  sv_segment_duration_seconds :: int
  sv_status :: segment_status
  sv_attempt_count :: int
  sv_idempotency_key :: string
  sv_last_error_classification :: "string option"
  sv_retry_backoffs_seconds :: "int list"
  sv_output_uri :: "string option"
  sv_cache_status :: cache_status
  sv_cache_hit_latency_ms :: "int option"
  sv_cache_namespace :: "string option"
  sv_cached_output_uri :: "string option"
  sv_gpu_type :: "string option"
  sv_allocation_latency_ms :: "int option"
  sv_updated_at :: time

definition segment_response_payload :: "string \<Rightarrow> segment \<Rightarrow> segment_view" where
  "segment_response_payload jid x = \<lparr>sv_job_id = jid, sv_segment_index = sg_index x,
     sv_segment_start_seconds = sg_start_seconds x, sv_segment_end_seconds = sg_end_seconds x,
     sv_segment_duration_seconds = sg_duration_seconds x, sv_status = sg_status x, sv_attempt_count = attempt_count x,
     sv_idempotency_key = sg_idempotency_key x, sv_last_error_classification = last_error_classification x,
     sv_retry_backoffs_seconds = retry_backoffs_seconds x, sv_output_uri = sg_output_uri x,
     sv_cache_status = sg_cache_status x, sv_cache_hit_latency_ms = cache_hit_latency_ms x,
     sv_cache_namespace = cache_namespace x, sv_cached_output_uri = cached_output_uri x, sv_gpu_type = sg_gpu_type x,
     sv_allocation_latency_ms = sg_allocation_latency_ms x, sv_updated_at = sg_updated_at x\<rparr>"

text \<open>The part of the payload that is only given with the segments.\<close>

record job_details =
  jd_started_at :: "time option"
  jd_completed_at :: "time option"
  jd_cancel_requested_at :: "time option"
  jd_last_error :: "string option"
  jd_deletion_proof_id :: "string option"
  jd_segments :: "segment_view list"

record job_view =
  jv_job_id :: string
  jv_media_uri :: string
  jv_original_filename :: string
  jv_mime_type :: string
  jv_fidelity_tier :: string
  jv_effective_fidelity_tier :: string
  jv_processing_mode :: string
  jv_reproducibility_mode :: string
  jv_estimated_duration_seconds :: int
  jv_status :: job_status
  jv_progress_topic :: string
  jv_result_uri :: "string option"
  jv_manifest :: "manifest_view option"
  jv_throughput_ratio :: "rat option"
  jv_quality_summary :: quality_summary
  jv_reproducibility_summary :: "reproducibility_summary option"
  jv_stage_timings :: stage_timings
  jv_cache_summary :: cache_summary
  jv_gpu_summary :: gpu_summary
  jv_cost_summary :: cost_summary
  jv_cost_estimate_summary :: jdict
  jv_cost_reconciliation_summary :: "reconciliation option"
  jv_slo_summary :: slo_summary
  jv_failed_segments :: "int list"
  jv_warnings :: "string list"
  jv_created_at :: time
  jv_updated_at :: time
  jv_progress :: progress_view
  jv_queued_at :: "time option"
  jv_details :: "job_details option"

text \<open>\<open>queued_at\<close> is added by the callers that create a job or read it back after creating it.\<close>

definition job_response_payload :: "job \<Rightarrow> job_details option \<Rightarrow> job_view" where
  "job_response_payload j details = \<lparr>jv_job_id = job_id j, jv_media_uri = media_uri j,
     jv_original_filename = original_filename j, jv_mime_type = mime_type j, jv_fidelity_tier = job_fidelity_tier j,
     jv_effective_fidelity_tier = effective_fidelity_tier j, jv_processing_mode = job_processing_mode j,
     jv_reproducibility_mode = job_reproducibility_mode j, jv_estimated_duration_seconds = estimated_duration_seconds j,
     jv_status = job_status j, jv_progress_topic = progress_topic j, jv_result_uri = result_uri j,
     jv_manifest = manifest_view_of j, jv_throughput_ratio = throughput_ratio j, jv_quality_summary = quality_summary_of j,
     jv_reproducibility_summary = reproducibility_summary_of j, jv_stage_timings = stage_timings_of j,
     jv_cache_summary = cache_summary_of j, jv_gpu_summary = gpu_summary_of j, jv_cost_summary = cost_summary_of j,
     jv_cost_estimate_summary = cost_estimate_summary j, jv_cost_reconciliation_summary = cost_reconciliation_summary j,
     jv_slo_summary = slo_summary_of j, jv_failed_segments = failed_segments j, jv_warnings = warnings j,
     jv_created_at = created_at j, jv_updated_at = updated_at j, jv_progress = progress_from_job j,
     jv_queued_at = None, jv_details = details\<rparr>"

section \<open>Creating a job\<close>

text \<open>What is decided about a request before anything is priced.\<close>

record launch_plan =
  lp_era :: jdict
  lp_mode :: reproducibility_mode
  lp_tier :: fidelity_tier
  lp_config :: jdict
  lp_profile :: resolved_fidelity

definition plan_launch :: "job_env \<Rightarrow> string \<Rightarrow> jdict \<Rightarrow> launch_plan result" where
  "plan_launch env tier p =
     bind_res (checked_mode env tier p) (\<lambda>(era, mode).
     bind_res (str_item (je_codec env) p ''fidelity_tier'') (\<lambda>name.
     bind_res (tier_of_value name) (\<lambda>requested.
     bind_res (obj_or_empty (jget p ''config'')) (\<lambda>cfg.
     bind_res (resolve_fidelity_profile (je_codec env) (je_read env) requested era cfg) (\<lambda>profile.
     Inr \<lparr>lp_era = era, lp_mode = mode, lp_tier = requested, lp_config = cfg, lp_profile = profile\<rparr>)))))"

text \<open>The segments, and with them the record that is stored.\<close>

definition job_request_of ::
  "job_env \<Rightarrow> string \<Rightarrow> string \<Rightarrow> string \<Rightarrow> string \<Rightarrow> jdict \<Rightarrow> launch_plan \<Rightarrow> cost_estimate \<Rightarrow> job_request result" where
  "job_request_of env jid user tier org p lp e =
     (let c = je_codec env; value = tier_value (lp_tier lp) in
      bind_res (str_item c p ''source_asset_checksum'') (\<lambda>checksum.
      bind_res (int_item p ''estimated_duration_seconds'') (\<lambda>duration.
      bind_res (str_item c p ''processing_mode'') (\<lambda>processing.
      bind_res (build_segments c \<lparr>sr_user_id = user, sr_checksum = checksum, sr_fidelity_tier = value,
            sr_reproducibility_mode = mode_value (lp_mode lp)\<rparr> processing (JObj (lp_config lp)) (JObj (lp_era lp))
          (fidelity_json (lp_profile lp)) duration) (\<lambda>segs.
      bind_res (str_item c p ''media_uri'') (\<lambda>uri.
      Inr \<lparr>rq_job_id = jid, rq_owner_user_id = user, rq_plan_tier = tier, rq_org_id = org, rq_media_uri = uri,
        rq_original_filename = str_or_empty c (jget p ''original_filename''), rq_mime_type = str_or_empty c (jget p ''mime_type''),
        rq_checksum = checksum, rq_fidelity_tier = value, rq_processing_mode = processing, rq_era_profile = JObj (lp_era lp),
        rq_config = JObj (lp_config lp), rq_duration = duration, rq_segments = segs,
        rq_cost_estimate = estimate_summary isoformat e, rq_pricing_snapshot = effective_pricing_payload (ce_effective_pricing e),
        rq_effective_tier = value, rq_effective_profile = Some (lp_profile lp),
        rq_reproducibility_mode = mode_value (lp_mode lp)\<rparr>))))))"

definition overage_approval_required :: exn where
  "overage_approval_required = ProblemException ''Overage Approval Required'' 403"

definition new_job_id :: "job_env \<Rightarrow> string option \<Rightarrow> (job_world, string) prog" where
  "new_job_id env override =
     (case override of
        Some jid \<Rightarrow> if jid = [] then on_output (output_call (od_uuid (je_output env))) else ret jid
      | None \<Rightarrow> on_output (output_call (od_uuid (je_output env))))"

definition store_job :: "job_env \<Rightarrow> job_request \<Rightarrow> (job_world, job) prog" where
  "store_job env rq = bindE (job_now env) (\<lambda>now. bindE (job_now env) (\<lambda>now2. on_job_store (create_job now now2 rq)))"

definition launch_priced ::
  "job_env \<Rightarrow> string \<Rightarrow> string \<Rightarrow> string \<Rightarrow> jdict \<Rightarrow> string option \<Rightarrow> bool \<Rightarrow> string \<Rightarrow> launch_plan \<Rightarrow> cost_estimate \<Rightarrow>
   (job_world, job_view) prog" where
  "launch_priced env user tier org p job_id_override publish_immediately source lp e =
     (if hard_stop (ce_usage_snapshot e) then raise overage_approval_required
      else
        bindE (new_job_id env job_id_override) (\<lambda>jid.
        bindE (liftR (job_request_of env jid user tier org p lp e)) (\<lambda>rq.
        bindE (store_job env rq) (\<lambda>j.
        bindE (whenE publish_immediately (publish_message env jid tier source)) (\<lambda>_.
        ret ((job_response_payload j None)\<lparr>jv_queued_at := Some (queued_at j)\<rparr>))))))"

definition service_create_job ::
  "job_env \<Rightarrow> string \<Rightarrow> string \<Rightarrow> string \<Rightarrow> jdict \<Rightarrow> string option \<Rightarrow> bool \<Rightarrow> string \<Rightarrow> (job_world, job_view) prog" where
  "service_create_job env user tier org p job_id_override publish_immediately source =
     bindE (liftR (plan_launch env tier p)) (\<lambda>lp.
     bindE (estimate_payload env user tier (Some org) p) (\<lambda>e.
     launch_priced env user tier org p job_id_override publish_immediately source lp e))"

section \<open>Asking about a job\<close>

definition owned_job :: "string \<Rightarrow> string \<Rightarrow> (job_world, job) prog" where
  "owned_job jid owner =
     bindE (on_job_store (get_job jid (Some owner))) (\<lambda>found.
     case found of None \<Rightarrow> raise job_not_found | Some j \<Rightarrow> ret j)"

definition details_of :: "job \<Rightarrow> segment list \<Rightarrow> (job_world, job_details) prog" where
  "details_of j segs =
     bindE (if exportable (job_status j)
            then on_output (get_proof_for_job (job_id j) (owner_user_id j)) else ret None) (\<lambda>p.
     ret \<lparr>jd_started_at = started_at j, jd_completed_at = completed_at j, jd_cancel_requested_at = cancel_requested_at j,
       jd_last_error = last_error j, jd_deletion_proof_id = map_option dp_id p,
       jd_segments = map (segment_response_payload (job_id j)) segs\<rparr>)"

definition service_get_job :: "string \<Rightarrow> string \<Rightarrow> (job_world, job_view) prog" where
  "service_get_job jid owner =
     bindE (owned_job jid owner) (\<lambda>j.
     bindE (on_job_store (list_segments jid (Some owner))) (\<lambda>segs.
     bindE (details_of j segs) (\<lambda>d.
     ret (job_response_payload j (Some d)))))"

definition get_job_create_response :: "string \<Rightarrow> string \<Rightarrow> (job_world, job_view) prog" where
  "get_job_create_response jid owner =
     bindE (owned_job jid owner) (\<lambda>j. ret ((job_response_payload j None)\<lparr>jv_queued_at := Some (queued_at j)\<rparr>))"

definition service_list_jobs :: "string \<Rightarrow> (job_world, job_view list) prog" where
  "service_list_jobs owner = bindE (on_job_store (list_jobs owner)) (\<lambda>js. ret (map (\<lambda>j. job_response_payload j None) js))"

definition service_get_manifest :: "job_env \<Rightarrow> string \<Rightarrow> string \<Rightarrow> (job_world, jdict) prog" where
  "service_get_manifest env jid owner =
     bindE (job_now env) (\<lambda>now.
     bindE (on_job_store (get_manifest now jid (Some owner))) (\<lambda>found.
     case found of None \<Rightarrow> raise job_not_found | Some m \<Rightarrow> ret m))"

definition service_request_cancellation :: "job_env \<Rightarrow> string \<Rightarrow> string \<Rightarrow> (job_world, job) prog" where
  "service_request_cancellation env jid owner =
     bindE (job_now env) (\<lambda>now.
     bindE (on_job_store (request_cancellation now jid owner)) (\<lambda>found.
     case found of
       None \<Rightarrow> raise job_not_found
     | Some j \<Rightarrow>
         if job_status j = CancelRequested \<and> cancel_requested_at j = None
         then raise (ProblemException ''Cancellation Failed'' 500)
         else ret j))"

definition service_uncertainty_callouts :: "job_env \<Rightarrow> string \<Rightarrow> string \<Rightarrow> (job_world, callouts_view) prog" where
  "service_uncertainty_callouts env jid owner = on_job_store (list_callouts (je_codec env) (je_read env) jid owner)"

definition service_get_export ::
  "job_env \<Rightarrow> string \<Rightarrow> string \<Rightarrow> string \<Rightarrow> string \<Rightarrow> int \<Rightarrow> (job_world, export_view) prog" where
  "service_get_export env jid owner tier variant retention =
     on_output (get_export (je_output env) jid owner tier variant retention)"

definition service_get_deletion_proof :: "job_env \<Rightarrow> string \<Rightarrow> string \<Rightarrow> (job_world, proof_view) prog" where
  "service_get_deletion_proof env pid owner = on_output (get_deletion_proof (je_output env) pid owner)"

section \<open>How the operations act on the state\<close>

lemma wp_job_now [wp_simps]:
  "wp (job_now env) Q E w =
     Q (od_clock (je_output env) (ow_calls (jw_output w))) (w\<lparr>jw_output := (jw_output w)\<lparr>ow_calls := Suc (ow_calls (jw_output w))\<rparr>\<rparr>)"
  by (simp add: job_now_def on_output_def wp_simps)

abbreviation job_table_of :: "job_world \<Rightarrow> job_store" where
  "job_table_of w \<equiv> ow_store (jw_output w)"

text \<open>Jobs, packages, proofs and the queue are as before; prices, usage and the clock may have moved on.\<close>

definition job_frame :: "job_world \<Rightarrow> job_world \<Rightarrow> bool" where
  "job_frame w w' \<longleftrightarrow> job_table_of w' = job_table_of w \<and> ow_packages (jw_output w') = ow_packages (jw_output w) \<and>
     ow_proofs (jw_output w') = ow_proofs (jw_output w) \<and> jw_queue w' = jw_queue w"

lemma job_frame_refl [simp]: "job_frame w w"
  by (simp add: job_frame_def)

lemma job_frame_trans: "job_frame u v \<Longrightarrow> job_frame v w \<Longrightarrow> job_frame u w"
  by (simp add: job_frame_def)

lemma wp_estimate_payload:
  assumes "\<And>e w'. job_frame w w' \<Longrightarrow> Q e w'" "\<And>e w'. job_frame w w' \<Longrightarrow> E e w'"
  shows "wp (estimate_payload env user tier org p) Q E w"
  unfolding estimate_payload_def on_job_billing_def on_output_def on_output_billing_def
  by (auto simp: wp_simps job_frame_def intro!: wp_any assms split: sum.splits)

lemma wp_new_job_id:
  "(\<And>jid w'. job_frame w w' \<Longrightarrow> (\<And>x. ovr = Some x \<Longrightarrow> x \<noteq> [] \<Longrightarrow> jid = x) \<Longrightarrow> Q jid w') \<Longrightarrow> wp (new_job_id env ovr) Q E w"
  by (auto simp: new_job_id_def on_output_def wp_simps job_frame_def split: option.splits)

text \<open>What the repository stores for a request.\<close>

definition fresh_job :: "job_request \<Rightarrow> job \<Rightarrow> bool" where
  "fresh_job rq j \<longleftrightarrow> job_id j = rq_job_id rq \<and> owner_user_id j = rq_owner_user_id rq \<and> job_plan_tier j = rq_plan_tier rq \<and>
     job_org_id j = rq_org_id rq \<and> source_asset_checksum j = rq_checksum rq \<and> job_fidelity_tier j = rq_fidelity_tier rq \<and>
     effective_fidelity_profile j = rq_effective_profile rq \<and> era_profile j = rq_era_profile rq \<and> config j = rq_config rq \<and>
     estimated_duration_seconds j = rq_duration rq \<and> eta_seconds j = rq_duration rq \<and> job_status j = Queued \<and>
     segment_count j = int (length (rq_segments rq)) \<and> completed_segment_count j = 0 \<and> failed_segment_count j = 0 \<and>
     progress_percent j = 0 \<and> result_uri j = None \<and> completed_at j = None"

definition job_stored :: "job_request \<Rightarrow> job \<Rightarrow> job_store \<Rightarrow> job_store \<Rightarrow> bool" where
  "job_stored rq j s s' \<longleftrightarrow> fresh_job rq j \<and> dget (jobs s') (rq_job_id rq) = Some j \<and>
     (\<exists>t. segments_of (rq_job_id rq) s' = map (new_segment t) (rq_segments rq)) \<and>
     (\<forall>k. k \<noteq> rq_job_id rq \<longrightarrow> dget (jobs s') k = dget (jobs s) k \<and> segments_of k s' = segments_of k s) \<and>
     job_manifests s' = job_manifests s \<and> webhook_subscriptions s' = webhook_subscriptions s"

lemma wp_create_job: "(\<And>j s'. job_stored rq j s s' \<Longrightarrow> Q j s') \<Longrightarrow> wp (create_job t1 t2 rq) Q E s"
proof -
  assume Q: "\<And>j s'. job_stored rq j s s' \<Longrightarrow> Q j s'"
  have "\<exists>j s'. create_job t1 t2 rq s = (Inr j, s') \<and> job_stored rq j s s'"
    by (simp add: create_job_def Let_def job_stored_def fresh_job_def segments_of_def) blast
  then show ?thesis using Q by (auto simp: wp_def)
qed

lemma wp_publish_job:
  "wp (publish_job t jid tier source) Q E d =
     Q (build_dispatch_message t jid tier source) (enqueue_message (build_dispatch_message t jid tier source) d)"
  by (simp add: wp_def publish_job_def Let_def)

lemma wp_store_job:
  assumes "\<And>j w'. job_stored rq j (job_table_of w) (job_table_of w') \<Longrightarrow> jw_queue w' = jw_queue w \<Longrightarrow> Q j w'"
  shows "wp (store_job env rq) Q E w"
  by (auto simp: store_job_def on_job_store_def on_output_def on_output_store_def wp_simps intro!: wp_create_job assms)

definition to_pubsub :: "job_env \<Rightarrow> bool" where
  "to_pubsub env \<longleftrightarrow> lower (job_dispatch_mode env) = ''pubsub''"

lemma wp_publish_message:
  assumes "\<And>w' t. job_table_of w' = job_table_of w \<Longrightarrow>
      jw_queue w' = (if to_pubsub env then jw_queue w else enqueue_message (build_dispatch_message t jid tier source) (jw_queue w)) \<Longrightarrow>
      (to_pubsub env \<Longrightarrow> \<exists>n. pubsub_publish env (build_dispatch_message t jid tier source) n = Inr ()) \<Longrightarrow> Q () w'"
    and "\<And>e w'. to_pubsub env \<Longrightarrow> job_table_of w' = job_table_of w \<Longrightarrow> jw_queue w' = jw_queue w \<Longrightarrow> E e w'"
  shows "wp (publish_message env jid tier source) Q E w"
proof (cases "to_pubsub env")
  case True
  then show ?thesis
    by (auto simp: publish_message_def to_pubsub_def on_output_def wp_simps intro!: assms split: sum.splits)
next
  case False
  then show ?thesis
    by (auto simp: publish_message_def to_pubsub_def on_job_queue_def wp_simps wp_publish_job intro!: assms)
qed

lemma job_request_of_id: "job_request_of env jid user tier org p lp e = Inr rq \<Longrightarrow> rq_job_id rq = jid"
  by (auto simp: job_request_of_def Let_def bind_res_Inr_iff)

definition queued_for :: "job_env \<Rightarrow> bool \<Rightarrow> string \<Rightarrow> string \<Rightarrow> string \<Rightarrow> dispatcher \<Rightarrow> dispatcher \<Rightarrow> bool" where
  "queued_for env publish jid tier source q q' \<longleftrightarrow>
     (if publish \<and> \<not> to_pubsub env then \<exists>t. q' = enqueue_message (build_dispatch_message t jid tier source) q else q' = q)"

lemma wp_launch_priced:
  assumes "\<And>rq j w'. \<not> hard_stop (ce_usage_snapshot e) \<Longrightarrow> job_request_of env (rq_job_id rq) user tier org p lp e = Inr rq \<Longrightarrow>
      (\<And>x. ovr = Some x \<Longrightarrow> x \<noteq> [] \<Longrightarrow> rq_job_id rq = x) \<Longrightarrow> job_stored rq j (job_table_of w) (job_table_of w') \<Longrightarrow>
      queued_for env publish (rq_job_id rq) tier source (jw_queue w) (jw_queue w') \<Longrightarrow>
      Q ((job_response_payload j None)\<lparr>jv_queued_at := Some (queued_at j)\<rparr>) w'"
    and E: "\<And>e w'. jw_queue w' = jw_queue w \<Longrightarrow> job_table_of w' = job_table_of w \<or> publish \<and> to_pubsub env \<Longrightarrow> E e w'"
  shows "wp (launch_priced env user tier org p ovr publish source lp e) Q E w"
proof (cases "hard_stop (ce_usage_snapshot e)")
  case True
  then show ?thesis by (simp add: launch_priced_def wp_raise E)
next
  case False
  show ?thesis
    unfolding launch_priced_def if_not_P [OF False] wp_bindE wp_ret wp_liftR
  proof (rule wp_new_job_id, split sum.split, intro conjI allI impI)
    fix jid w1 er
    assume "job_frame w w1"
    then show "E er w1" by (intro E) (simp_all add: job_frame_def)
  next
    fix jid rq and w1 :: job_world
    assume w1: "job_frame w w1" and jid: "\<And>x. ovr = Some x \<Longrightarrow> x \<noteq> [] \<Longrightarrow> jid = x"
      and rq: "job_request_of env jid user tier org p lp e = Inr rq"
    note rqid = job_request_of_id [OF rq]
    show "wp (store_job env rq) (\<lambda>a. wp (whenE publish (publish_message env jid tier source))
        (\<lambda>aa. Q ((job_response_payload a None)\<lparr>jv_queued_at := Some (queued_at a)\<rparr>)) E) E w1"
    proof (rule wp_store_job)
      fix j and w2 :: job_world
      assume st: "job_stored rq j (job_table_of w1) (job_table_of w2)" and q: "jw_queue w2 = jw_queue w1"
      have st': "job_stored rq j (job_table_of w) (job_table_of w3)" if "job_table_of w3 = job_table_of w2" for w3
        using st w1 that by (simp add: job_frame_def)
      have go: "Q ((job_response_payload j None)\<lparr>jv_queued_at := Some (queued_at j)\<rparr>) w3"
        if "job_table_of w3 = job_table_of w2" "queued_for env publish jid tier source (jw_queue w) (jw_queue w3)" for w3
        using that False rq rqid jid st' [OF that(1)] by (intro assms(1)) auto
      show "wp (whenE publish (publish_message env jid tier source))
          (\<lambda>aa. Q ((job_response_payload j None)\<lparr>jv_queued_at := Some (queued_at j)\<rparr>)) E w2"
        using q w1 by (auto simp: wp_whenE queued_for_def job_frame_def intro!: wp_publish_message go E)
    qed
  qed
qed

lemma wp_service_create_job:
  assumes "\<And>lp e rq j w'. plan_launch env tier p = Inr lp \<Longrightarrow> \<not> hard_stop (ce_usage_snapshot e) \<Longrightarrow>
      job_request_of env (rq_job_id rq) user tier org p lp e = Inr rq \<Longrightarrow>
      (\<And>x. ovr = Some x \<Longrightarrow> x \<noteq> [] \<Longrightarrow> rq_job_id rq = x) \<Longrightarrow> job_stored rq j (job_table_of w) (job_table_of w') \<Longrightarrow>
      queued_for env publish (rq_job_id rq) tier source (jw_queue w) (jw_queue w') \<Longrightarrow>
      Q ((job_response_payload j None)\<lparr>jv_queued_at := Some (queued_at j)\<rparr>) w'"
    and E: "\<And>e w'. jw_queue w' = jw_queue w \<Longrightarrow> job_table_of w' = job_table_of w \<or> publish \<and> to_pubsub env \<Longrightarrow> E e w'"
  shows "wp (service_create_job env user tier org p ovr publish source) Q E w"
proof (cases "plan_launch env tier p")
  case (Inl er)
  then show ?thesis by (simp add: service_create_job_def wp_bindE wp_liftR E)
next
  case (Inr lp)
  have "wp (estimate_payload env user tier (Some org) p)
      (\<lambda>e. wp (launch_priced env user tier org p ovr publish source lp e) Q E) E w"
  proof (rule wp_estimate_payload)
    fix e and w1 :: job_world
    assume "job_frame w w1"
    then show "wp (launch_priced env user tier org p ovr publish source lp e) Q E w1"
      using Inr by (intro wp_launch_priced) (auto simp: job_frame_def intro!: assms)
  qed (auto simp: job_frame_def intro: E)
  then show ?thesis by (simp add: service_create_job_def wp_bindE wp_liftR Inr)
qed

section \<open>Properties\<close>

text \<open>The segments of a job cut its video into pieces of ten seconds, none of them begun.\<close>

definition fresh_tiles :: "int \<Rightarrow> segment list \<Rightarrow> bool" where
  "fresh_tiles d segs \<longleftrightarrow>
     map (\<lambda>x. (sg_index x, sg_start_seconds x, sg_end_seconds x, sg_status x)) segs =
     map (\<lambda>i. (i, 10 * i, min (10 * i + 10) d, SegQueued)) [0 .. ceil_div d 10 - 1]"

lemma new_segments_good:
  assumes "build_segments c r pm cfg era fp d = Inr plans" "segment_count j = int (length plans)"
  shows "segs_good j (\<lambda>_. 0) (map (new_segment t) plans) \<and> fresh_tiles d (map (new_segment t) plans) \<and> 1 \<le> d"
proof -
  obtain v where plans: "plans = map (segment_at c r v d) [0 .. ceil_div d 10 - 1]" and d: "1 \<le> d"
    using build_segments_Inr [OF assms(1)] by blast
  have "segs_good j (\<lambda>_. 0) (map (new_segment t) plans)"
    using assms(2) by (auto simp: segs_good_def plans comp_def new_segment_def seg_ok_def backoffs_ok_def)
  moreover have "fresh_tiles d (map (new_segment t) plans)"
    by (simp add: fresh_tiles_def plans comp_def new_segment_def mult.commute)
  ultimately show ?thesis using d by blast
qed

definition valid_plan :: "job_env \<Rightarrow> string \<Rightarrow> launch_plan \<Rightarrow> bool" where
  "valid_plan env tier lp \<longleftrightarrow> is_valid (validate_era_profile (je_codec env) (je_read env) (lp_era lp)) \<and>
     validate_reproducibility_mode (je_environment env) (lp_mode lp) tier = Inr () \<and>
     resolve_fidelity_profile (je_codec env) (je_read env) (lp_tier lp) (lp_era lp) (lp_config lp) = Inr (lp_profile lp)"

lemma plan_launch_valid: "plan_launch env tier p = Inr lp \<Longrightarrow> valid_plan env tier lp"
  by (auto simp: plan_launch_def checked_mode_def valid_plan_def bind_res_Inr_iff split: if_splits)

lemma created_job_good:
  assumes "job_request_of env jid user tier org p lp e = Inr rq" "job_stored rq j s s'"
  shows "good_job jid j j \<and> segs_good j (\<lambda>_. 0) (segments_of jid s') \<and>
    fresh_tiles (estimated_duration_seconds j) (segments_of jid s') \<and> dget (jobs s') jid = Some j \<and>
    owner_user_id j = user \<and> job_plan_tier j = tier \<and> job_status j = Queued \<and> era_profile j = JObj (lp_era lp) \<and>
    effective_fidelity_profile j = Some (lp_profile lp) \<and>
    (\<forall>k. k \<noteq> jid \<longrightarrow> dget (jobs s') k = dget (jobs s) k \<and> segments_of k s' = segments_of k s)"
proof -
  have f: "fresh_job rq j" and jid: "rq_job_id rq = jid"
    using assms(2) job_request_of_id [OF assms(1)] by (simp_all add: job_stored_def)
  obtain t where t: "segments_of jid s' = map (new_segment t) (rq_segments rq)" using assms(2) jid by (auto simp: job_stored_def)
  obtain c r pm cfg era fp where b: "build_segments c r pm cfg era fp (rq_duration rq) = Inr (rq_segments rq)"
    and rq: "rq_owner_user_id rq = user" "rq_plan_tier rq = tier" "rq_era_profile rq = JObj (lp_era lp)"
      "rq_effective_profile rq = Some (lp_profile lp)"
    using assms(1) by (auto simp: job_request_of_def Let_def bind_res_Inr_iff)
  have "segs_good j (\<lambda>_. 0) (segments_of jid s') \<and> fresh_tiles (rq_duration rq) (segments_of jid s') \<and> 1 \<le> rq_duration rq"
    unfolding t by (rule new_segments_good [OF b]) (use f in \<open>simp add: fresh_job_def\<close>)
  then show ?thesis
    using f assms(2) jid rq by (simp add: fresh_job_def job_stored_def good_job_def job_ok_def terminal_def)
qed

end
