(* ===== verification/Preview_Service.thy ===== *)
theory Preview_Service
  imports Preview_Store Job_Service
begin

text \<open>
  \<open>PreviewGenerationService\<close> of \<open>app/services/preview_generation.py\<close>: making, reading, reviewing and launching
  previews, over the uploads, the previews and the job service. Other requests of the user may claim, launch
  or give back the same preview just before a claim; the environment's \<open>pe_rivals\<close> lists them. Of what
  goes to the monitoring only the health of pending launches is kept.
\<close>

section \<open>The state and the environment\<close>

record launch_health =
  lh_pending :: nat
  lh_oldest_age :: time
  lh_stale_event :: bool

record preview_world =
  pw_jobs :: job_world
  pw_uploads :: upload_store
  pw_previews :: preview_store
  pw_health :: "launch_health list"

datatype rival =
    RivalClaims string string string
  | RivalLaunches string string string time
  | RivalReleases string string

record preview_env =
  pe_jobs :: job_env
  pe_uploads :: upload_env
  pe_clock :: "nat \<Rightarrow> time"
  pe_float_fits :: "int \<Rightarrow> bool"
  pe_rivals :: "nat \<Rightarrow> rival list"

definition pe_signing :: "preview_env \<Rightarrow> signing_env" where
  "pe_signing env = od_signing (je_output (pe_jobs env))"

definition pe_codec :: "preview_env \<Rightarrow> codec" where
  "pe_codec env = ue_codec (pe_uploads env)"

definition on_jobs :: "(job_world, 'a) prog \<Rightarrow> (preview_world, 'a) prog" where
  "on_jobs = zoom pw_jobs (\<lambda>t w. w\<lparr>pw_jobs := t\<rparr>)"

definition on_preview_uploads :: "(upload_store, 'a) prog \<Rightarrow> (preview_world, 'a) prog" where
  "on_preview_uploads = zoom pw_uploads (\<lambda>t w. w\<lparr>pw_uploads := t\<rparr>)"

definition on_previews :: "(preview_store, 'a) prog \<Rightarrow> (preview_world, 'a) prog" where
  "on_previews = zoom pw_previews (\<lambda>t w. w\<lparr>pw_previews := t\<rparr>)"

definition preview_now :: "preview_env \<Rightarrow> (preview_world, time) prog" where
  "preview_now env = on_previews (preview_clock (pe_clock env))"

definition change_preview :: "preview_env \<Rightarrow> string \<Rightarrow> string \<Rightarrow> (preview \<Rightarrow> preview) \<Rightarrow> (preview_world, preview option) prog" where
  "change_preview env pid owner f = on_previews (update_preview (pe_clock env) pid owner f)"

fun rival_step :: "(nat \<Rightarrow> time) \<Rightarrow> rival \<Rightarrow> preview_store \<Rightarrow> preview_store" where
  "rival_step tick (RivalClaims pid owner x) s = snd (claim_step tick owner pid x s)"
| "rival_step tick (RivalLaunches pid owner x t) s = settle_step tick owner pid (x, t) s"
| "rival_step tick (RivalReleases pid owner) s = release_step tick owner pid ([], 0) s"

definition rivals_act :: "preview_env \<Rightarrow> (preview_world, unit) prog" where
  "rivals_act env = on_previews (modifyE (\<lambda>s. fold (rival_step (pe_clock env)) (pe_rivals env (ps_calls s)) s))"

section \<open>Problems\<close>

text \<open>The problems of the service differ in their title as they do in their type.\<close>

definition preview_not_found :: exn where "preview_not_found = ProblemException ''Not Found'' 404"
definition preview_expired :: exn where "preview_expired = ProblemException ''Preview Expired'' 410"
definition preview_stale :: exn where "preview_stale = ProblemException ''Preview Stale'' 409"
definition preview_approval_required :: exn where "preview_approval_required = ProblemException ''Preview Approval Required'' 409"
definition preview_already_launched :: exn where "preview_already_launched = ProblemException ''Preview Already Launched'' 409"
definition preview_review_failed :: exn where "preview_review_failed = ProblemException ''Preview Review Failed'' 500"
definition preview_launch_failed :: exn where "preview_launch_failed = ProblemException ''Preview Launch Failed'' 500"
definition launch_dispatch_failed :: exn where "launch_dispatch_failed = ProblemException ''Launch Dispatch Failed'' 503"
definition preview_storage_problem :: exn where "preview_storage_problem = ProblemException ''Preview Storage Unavailable'' 503"
definition upload_not_ready :: exn where "upload_not_ready = ProblemException ''Upload Not Ready'' 409"

definition is_problem :: "exn \<Rightarrow> bool" where
  "is_problem e = (case e of ProblemException t n \<Rightarrow> True | _ \<Rightarrow> False)"

definition as_storage_problem :: "exn \<Rightarrow> exn" where
  "as_storage_problem e = (if e = preview_storage_unavailable then preview_storage_problem else e)"

section \<open>Reading a preview\<close>

definition PREVIEW_RETENTION_HOURS :: int where
  "PREVIEW_RETENTION_HOURS = 24"

definition LAUNCH_PENDING_STUCK_SECONDS :: int where
  "LAUNCH_PENDING_STUCK_SECONDS = 300"

definition find_preview :: "string \<Rightarrow> string \<Rightarrow> (preview_world, preview) prog" where
  "find_preview pid owner =
     bindE (on_previews (get_preview_record pid owner)) (\<lambda>found.
     case found of None \<Rightarrow> raise preview_not_found | Some p \<Rightarrow> ret p)"

definition session_of :: "string \<Rightarrow> string \<Rightarrow> (preview_world, upload_session option) prog" where
  "session_of uid owner = on_preview_uploads (get_session uid (Some owner))"

definition expire_if_needed :: "preview_env \<Rightarrow> string \<Rightarrow> preview \<Rightarrow> (preview_world, preview) prog" where
  "expire_if_needed env owner p =
     (if prv_deleted_at p \<noteq> None then ret p
      else
        bindE (preview_now env) (\<lambda>now.
        if prv_expires_at p \<ge> now then ret p
        else
          bindE (preview_now env) (\<lambda>deleted.
          bindE (change_preview env (prv_id p) owner (\<lambda>r. r\<lparr>prv_deleted_at := Some deleted\<rparr>)) (\<lambda>updated.
          case updated of
            Some r \<Rightarrow> ret r
          | None \<Rightarrow> bindE (preview_now env) (\<lambda>t. ret (p\<lparr>prv_deleted_at := Some t\<rparr>))))))"

definition is_active_preview :: "preview_env \<Rightarrow> preview \<Rightarrow> string option \<Rightarrow> (preview_world, bool) prog" where
  "is_active_preview env p expected =
     (if prv_status p \<noteq> ''ready'' \<or> prv_deleted_at p \<noteq> None \<or> expected \<notin> {None, Some (prv_fingerprint p)} then ret False
      else bindE (preview_now env) (\<lambda>now. ret (prv_expires_at p > now)))"

definition record_launch_pending_health :: "preview_env \<Rightarrow> string \<Rightarrow> preview \<Rightarrow> (preview_world, unit) prog" where
  "record_launch_pending_health env owner p =
     bindE (on_previews (launch_pending_snapshot (pe_clock env) owner)) (\<lambda>(n, oldest).
     modifyE (\<lambda>w. w\<lparr>pw_health := pw_health w @ [\<lparr>lh_pending = n, lh_oldest_age = oldest,
       lh_stale_event = (prv_launch p = LaunchPending \<and> oldest \<ge> LAUNCH_PENDING_STUCK_SECONDS * 1000000)\<rparr>]\<rparr>))"

text \<open>The preview, its session and the configuration it was made of, all still current.\<close>

definition check_current ::
  "preview_env \<Rightarrow> preview \<Rightarrow> upload_session option \<Rightarrow> string option \<Rightarrow> (preview_world, upload_session \<times> launch_snapshot) prog" where
  "check_current env p session request_fp =
     (case session of
        None \<Rightarrow> raise preview_stale
      | Some r \<Rightarrow>
          bindE (catchE (liftR (saved_launch_snapshot (pe_uploads env) r))
              (\<lambda>e. raise (if is_problem e then preview_stale else e))) (\<lambda>ls.
          if ls_configuration_fingerprint ls \<noteq> prv_fingerprint p then raise preview_stale
          else if request_fp \<notin> {None, Some (prv_fingerprint p)} then raise preview_stale
          else ret (r, ls)))"

definition load_mutable_preview ::
  "preview_env \<Rightarrow> string \<Rightarrow> string \<Rightarrow> string option \<Rightarrow> (preview_world, preview \<times> upload_session \<times> launch_snapshot) prog" where
  "load_mutable_preview env pid owner request_fp =
     bindE (find_preview pid owner) (\<lambda>p0.
     bindE (expire_if_needed env owner p0) (\<lambda>p.
     if prv_deleted_at p \<noteq> None then raise preview_expired
     else
       bindE (session_of (prv_upload_id p) owner) (\<lambda>session.
       bindE (check_current env p session request_fp) (\<lambda>current.
       bindE (record_launch_pending_health env owner p) (\<lambda>_.
       ret (p, current))))))"

section \<open>What a user is shown of a preview\<close>

record keyframe_view =
  kv_index :: nat
  kv_timestamp_seconds :: rat
  kv_scene_number :: nat
  kv_confidence_score :: rat
  kv_thumbnail_url :: string
  kv_frame_url :: string

record preview_view =
  vw_preview_id :: string
  vw_upload_id :: string
  vw_status :: string
  vw_configuration_fingerprint :: string
  vw_review_status :: review_status
  vw_reviewed_at :: "time option"
  vw_launch_status :: launch_status
  vw_launched_job_id :: "string option"
  vw_launched_at :: "time option"
  vw_stale :: bool
  vw_expires_at :: time
  vw_selection_mode :: string
  vw_scene_diversity :: rat
  vw_keyframe_count :: int
  vw_cost_summary :: jdict
  vw_processing_seconds :: int
  vw_keyframes :: "keyframe_view list"

definition keyframe_file :: "preview \<Rightarrow> string \<Rightarrow> keyframe \<Rightarrow> string" where
  "keyframe_file p kind k = ''preview-'' @ prv_id p @ ''-'' @ kind @ ''-'' @ pad 2 (int (kf_index k)) @ ''.jpg''"

definition sign_keyframe :: "preview_env \<Rightarrow> preview \<Rightarrow> keyframe \<Rightarrow> (preview_world, keyframe_view) prog" where
  "sign_keyframe env p k =
     bindE (preview_now env) (\<lambda>t1.
     bindE (liftR (signed_preview_url (pe_signing env) (kf_thumbnail_uri k) (keyframe_file p ''thumbnail'' k) (prv_expires_at p) t1)) (\<lambda>thumb.
     bindE (preview_now env) (\<lambda>t2.
     bindE (liftR (signed_preview_url (pe_signing env) (kf_frame_uri k) (keyframe_file p ''frame'' k) (prv_expires_at p) t2)) (\<lambda>frame_url.
     ret \<lparr>kv_index = kf_index k, kv_timestamp_seconds = kf_timestamp_seconds k, kv_scene_number = kf_scene_number k,
       kv_confidence_score = kf_confidence_score k, kv_thumbnail_url = thumb, kv_frame_url = frame_url\<rparr>))))"

fun sign_keyframes :: "preview_env \<Rightarrow> preview \<Rightarrow> keyframe list \<Rightarrow> (preview_world, keyframe_view list) prog" where
  "sign_keyframes env p [] = ret []"
| "sign_keyframes env p (k # ks) =
     bindE (sign_keyframe env p k) (\<lambda>v. bindE (sign_keyframes env p ks) (\<lambda>vs. ret (v # vs)))"

definition current_fingerprint :: "preview_env \<Rightarrow> upload_session option \<Rightarrow> string option result" where
  "current_fingerprint env session =
     (case session of
        None \<Rightarrow> Inr None
      | Some r \<Rightarrow>
          (case saved_launch_snapshot (pe_uploads env) r of
             Inr ls \<Rightarrow> Inr (Some (ls_configuration_fingerprint ls))
           | Inl e \<Rightarrow> if is_problem e then Inr None else Inl e))"

definition preview_response :: "preview_env \<Rightarrow> preview \<Rightarrow> upload_session option \<Rightarrow> (preview_world, preview_view) prog" where
  "preview_response env p session =
     bindE (liftR (current_fingerprint env session)) (\<lambda>current.
     bindE (catchE (sign_keyframes env p (prv_keyframes p)) (\<lambda>e. raise (as_storage_problem e))) (\<lambda>ks.
     ret \<lparr>vw_preview_id = prv_id p, vw_upload_id = prv_upload_id p, vw_status = prv_status p,
       vw_configuration_fingerprint = prv_fingerprint p, vw_review_status = prv_review p, vw_reviewed_at = prv_reviewed_at p,
       vw_launch_status = prv_launch p, vw_launched_job_id = prv_external_job_id p, vw_launched_at = prv_launched_at p,
       vw_stale = (current \<notin> {None, Some (prv_fingerprint p)}), vw_expires_at = prv_expires_at p,
       vw_selection_mode = prv_selection_mode p, vw_scene_diversity = prv_scene_diversity p,
       vw_keyframe_count = prv_keyframe_count p, vw_cost_summary = prv_cost_summary p,
       vw_processing_seconds = prv_processing_seconds p, vw_keyframes = ks\<rparr>))"

section \<open>Making a preview\<close>

definition require_preview_ready_upload :: "upload_session option \<Rightarrow> (preview_world, upload_session) prog" where
  "require_preview_ready_upload found =
     (case found of
        None \<Rightarrow> raise preview_not_found
      | Some r \<Rightarrow> if us_status r \<noteq> UploadCompleted then raise upload_not_ready else ret r)"

definition preview_selection :: "preview_env \<Rightarrow> launch_snapshot \<Rightarrow> int \<Rightarrow> preview option \<Rightarrow> selection \<times> string" where
  "preview_selection env ls duration reusable =
     (case reusable of
        None \<Rightarrow>
          (select_keyframes (pe_codec env) (pe_signing env) (pe_float_fits env duration) (ls_source_asset_checksum ls) duration
             (ls_preview_id ls), preview_bucket_uri (pe_signing env) (''previews/'' @ ls_preview_id ls @ ''/''))
      | Some q \<Rightarrow>
          (\<lparr>sel_mode = prv_selection_mode q, sel_scene_diversity = prv_scene_diversity q, sel_keyframes = prv_keyframes q\<rparr>,
           prv_root_uri q))"

definition build_preview_record ::
  "preview_env \<Rightarrow> upload_session \<Rightarrow> launch_snapshot \<Rightarrow> string \<Rightarrow> jdict \<Rightarrow> preview option \<Rightarrow> (preview_world, preview) prog" where
  "build_preview_record env session ls owner cost reusable =
     bindE (liftR (int_item (ls_job_payload_preview ls) ''estimated_duration_seconds'')) (\<lambda>duration.
     bindE (preview_now env) (\<lambda>now.
     let (sel, root) = preview_selection env ls duration reusable in
     ret \<lparr>prv_id = ls_preview_id ls, prv_upload_id = upload_id session, prv_owner_user_id = owner, prv_org_id = us_org_id session,
       prv_status = ''ready'', prv_configured_at_snapshot = ls_configured_at ls,
       prv_fingerprint = ls_configuration_fingerprint ls, prv_cache_fingerprint = ls_configuration_cache_fingerprint ls,
       prv_review = ReviewPending, prv_reviewed_at = None, prv_launch = NotLaunched, prv_launched_job_id = None,
       prv_external_job_id = None, prv_launched_at = None, prv_checksum = ls_source_asset_checksum ls,
       prv_cache_key = ls_cache_key ls, prv_job_payload = ls_job_payload_preview ls, prv_selection_mode = sel_mode sel,
       prv_scene_diversity = sel_scene_diversity sel, prv_keyframe_count = int (length (sel_keyframes sel)),
       prv_cost_summary = cost, prv_processing_seconds = estimated_processing_time_seconds duration,
       prv_keyframes = sel_keyframes sel, prv_root_uri = root, prv_expires_at = now + hours PREVIEW_RETENTION_HOURS,
       prv_deleted_at = None, prv_created_at = 0, prv_updated_at = 0\<rparr>))"

text \<open>The preview of the same configuration, if it is still active.\<close>

definition exact_preview :: "preview_env \<Rightarrow> launch_snapshot \<Rightarrow> string \<Rightarrow> (preview_world, preview option) prog" where
  "exact_preview env ls owner =
     bindE (on_previews (get_preview_record (ls_preview_id ls) owner)) (\<lambda>found.
     case found of
       None \<Rightarrow> ret None
     | Some p0 \<Rightarrow>
         bindE (expire_if_needed env owner p0) (\<lambda>p.
         bindE (is_active_preview env p (Some (ls_configuration_fingerprint ls))) (\<lambda>active.
         ret (if active then Some p else None))))"

definition reusable_preview :: "preview_env \<Rightarrow> launch_snapshot \<Rightarrow> string \<Rightarrow> (preview_world, preview option) prog" where
  "reusable_preview env ls owner =
     bindE (on_previews (get_reusable_preview (pe_codec env) (ls_source_asset_checksum ls) (ls_configuration_cache_fingerprint ls) owner)) (\<lambda>found.
     case found of
       None \<Rightarrow> ret None
     | Some p0 \<Rightarrow>
         bindE (expire_if_needed env owner p0) (\<lambda>p.
         bindE (is_active_preview env p None) (\<lambda>active.
         ret (if active then Some p else None))))"

definition fresh_preview ::
  "preview_env \<Rightarrow> upload_session \<Rightarrow> launch_snapshot \<Rightarrow> string \<Rightarrow> string \<Rightarrow> string \<Rightarrow> (preview_world, preview) prog" where
  "fresh_preview env session ls owner org tier =
     bindE (on_jobs (estimate_payload (pe_jobs env) owner tier (Some org) (ls_job_payload_preview ls))) (\<lambda>e.
     bindE (reusable_preview env ls owner) (\<lambda>reusable.
     catchE
       (bindE (build_preview_record env session ls owner (estimate_summary isoformat e) reusable) (\<lambda>p.
        on_previews (create_preview_record (pe_clock env) p)))
       (\<lambda>e. raise (as_storage_problem e))))"

definition create_preview :: "preview_env \<Rightarrow> string \<Rightarrow> string \<Rightarrow> string \<Rightarrow> string \<Rightarrow> (preview_world, preview_view) prog" where
  "create_preview env uid owner org tier =
     bindE (session_of uid owner) (\<lambda>found.
     bindE (require_preview_ready_upload found) (\<lambda>session.
     bindE (liftR (saved_launch_snapshot (pe_uploads env) session)) (\<lambda>ls.
     bindE (exact_preview env ls owner) (\<lambda>exact.
     case exact of
       Some p \<Rightarrow> preview_response env p (Some session)
     | None \<Rightarrow> bindE (fresh_preview env session ls owner org tier) (\<lambda>p. preview_response env p (Some session))))))"

section \<open>Reading and reviewing\<close>

definition service_get_preview :: "preview_env \<Rightarrow> string \<Rightarrow> string \<Rightarrow> (preview_world, preview_view) prog" where
  "service_get_preview env pid owner =
     bindE (find_preview pid owner) (\<lambda>p0.
     bindE (expire_if_needed env owner p0) (\<lambda>p.
     if prv_deleted_at p \<noteq> None then raise preview_expired
     else
       bindE (session_of (prv_upload_id p) owner) (\<lambda>session.
       bindE (record_launch_pending_health env owner p) (\<lambda>_.
       preview_response env p session))))"

definition review_preview :: "preview_env \<Rightarrow> string \<Rightarrow> string \<Rightarrow> review_status \<Rightarrow> (preview_world, preview_view) prog" where
  "review_preview env pid owner verdict =
     bindE (load_mutable_preview env pid owner None) (\<lambda>(p, session, _).
     if prv_launch p \<noteq> NotLaunched then raise preview_already_launched
     else if prv_review p = verdict then preview_response env p (Some session)
     else
       bindE (preview_now env) (\<lambda>now.
       bindE (change_preview env pid owner (\<lambda>r. r\<lparr>prv_review := verdict, prv_reviewed_at := Some now\<rparr>)) (\<lambda>updated.
       case updated of
         None \<Rightarrow> raise preview_review_failed
       | Some r \<Rightarrow> preview_response env r (Some session))))"

section \<open>Launching\<close>

definition PREVIEW_LAUNCH_SOURCE :: string where
  "PREVIEW_LAUNCH_SOURCE = ''preview_launch''"

definition bound_job_id :: "preview_env \<Rightarrow> string \<Rightarrow> preview \<Rightarrow> launch_snapshot \<Rightarrow> string" where
  "bound_job_id env pid p ls =
     (case prv_external_job_id p of
        Some x \<Rightarrow> if x \<noteq> [] then x else preview_launch_external_job_id (ue_stable_uuid (pe_uploads env)) pid (ls_configuration_fingerprint ls)
      | None \<Rightarrow> preview_launch_external_job_id (ue_stable_uuid (pe_uploads env)) pid (ls_configuration_fingerprint ls))"

definition pending_patch :: "string \<Rightarrow> string \<Rightarrow> preview \<Rightarrow> preview" where
  "pending_patch internal external p =
     p\<lparr>prv_launch := LaunchPending, prv_launched_job_id := Some internal, prv_external_job_id := Some external\<rparr>"

text \<open>Whether the claim was won; a request that lost it goes on with what it reads then.\<close>

definition claim_preview ::
  "preview_env \<Rightarrow> string \<Rightarrow> string \<Rightarrow> string \<Rightarrow> string \<Rightarrow> preview \<Rightarrow> launch_snapshot \<Rightarrow>
   (preview_world, preview \<times> launch_snapshot \<times> bool) prog" where
  "claim_preview env pid owner fp x p ls =
     (if prv_launch p \<noteq> NotLaunched then ret (p, ls, False)
      else
        bindE (rivals_act env) (\<lambda>_.
        bindE (on_previews (claim_launch (pe_clock env) pid owner x)) (\<lambda>claimed.
        case claimed of
          Some q \<Rightarrow> ret (q, ls, True)
        | None \<Rightarrow> bindE (load_mutable_preview env pid owner (Some fp)) (\<lambda>(q, _, ls2). ret (q, ls2, False)))))"

definition create_bound_job ::
  "preview_env \<Rightarrow> string \<Rightarrow> string \<Rightarrow> string \<Rightarrow> string \<Rightarrow> string \<Rightarrow> launch_snapshot \<Rightarrow> bool \<Rightarrow> (preview_world, job_view) prog" where
  "create_bound_job env pid owner org tier x ls claim_won =
     catchE
       (on_jobs (service_create_job (pe_jobs env) owner tier org (ls_job_payload_preview ls) (Some x) False PREVIEW_LAUNCH_SOURCE))
       (\<lambda>e.
          if is_problem e \<and> claim_won
          then bindE (change_preview env pid owner released_patch) (\<lambda>_. raise e)
          else raise e)"

definition dispatch_bound_job :: "preview_env \<Rightarrow> string \<Rightarrow> string \<Rightarrow> string \<Rightarrow> preview \<Rightarrow> (preview_world, unit) prog" where
  "dispatch_bound_job env owner tier x pending =
     catchE (on_jobs (publish_message (pe_jobs env) x tier PREVIEW_LAUNCH_SOURCE))
       (\<lambda>e. bindE (record_launch_pending_health env owner pending) (\<lambda>_. raise launch_dispatch_failed))"

definition finish_launch ::
  "preview_env \<Rightarrow> string \<Rightarrow> string \<Rightarrow> string \<Rightarrow> string \<Rightarrow> string \<Rightarrow> launch_snapshot \<Rightarrow> bool \<Rightarrow> (preview_world, job_view) prog" where
  "finish_launch env pid owner org tier x ls claim_won =
     bindE (create_bound_job env pid owner org tier x ls claim_won) (\<lambda>created.
     let internal = ue_stable_uuid (pe_uploads env) x in
     bindE (change_preview env pid owner (pending_patch internal x)) (\<lambda>pending.
     case pending of
       None \<Rightarrow> raise preview_launch_failed
     | Some q \<Rightarrow>
         bindE (dispatch_bound_job env owner tier x q) (\<lambda>_.
         bindE (change_preview env pid owner (launched_patch internal x (jv_queued_at created))) (\<lambda>launched.
         if launched = None then raise preview_launch_failed
         else on_jobs (get_job_create_response x owner)))))"

definition launch_preview ::
  "preview_env \<Rightarrow> string \<Rightarrow> string \<Rightarrow> string \<Rightarrow> string \<Rightarrow> string \<Rightarrow> (preview_world, job_view) prog" where
  "launch_preview env pid owner org tier fp =
     bindE (load_mutable_preview env pid owner (Some fp)) (\<lambda>(p, _, ls).
     let x = bound_job_id env pid p ls in
     if prv_launch p = Launched then on_jobs (get_job_create_response x owner)
     else if prv_review p \<noteq> ReviewApproved then raise preview_approval_required
     else
       bindE (claim_preview env pid owner fp x p ls) (\<lambda>(q, ls2, won).
       if \<not> won \<and> prv_launch q = Launched then on_jobs (get_job_create_response x owner)
       else finish_launch env pid owner org tier x ls2 won))"

text \<open>\<open>POST /v1/jobs\<close>: a job can only be launched through the approved preview of its configuration.\<close>

definition context_of :: "preview_env \<Rightarrow> jdict \<Rightarrow> (string \<times> string) result" where
  "context_of env body =
     (case jget body ''launch_context'' of
        JObj d \<Rightarrow> Inr (str_or_empty (pe_codec env) (jget d ''upload_id''), str_or_empty (pe_codec env) (jget d ''configuration_fingerprint''))
      | _ \<Rightarrow> Inl preview_approval_required)"

definition request_fingerprint :: "preview_env \<Rightarrow> jdict \<Rightarrow> string result" where
  "request_fingerprint env body =
     bind_res (obj_or_empty (jget body ''config'')) (\<lambda>cfg.
     Inr (configuration_fingerprint (pe_codec env) (str_or_empty (pe_codec env) (jget cfg ''configured_at'')) (core_job_payload body)))"

definition launch_job_request :: "preview_env \<Rightarrow> string \<Rightarrow> string \<Rightarrow> string \<Rightarrow> jdict \<Rightarrow> (preview_world, job_view) prog" where
  "launch_job_request env owner org tier body =
     bindE (liftR (context_of env body)) (\<lambda>(uid, fp).
     bindE (session_of uid owner) (\<lambda>found.
     case found of
       None \<Rightarrow> raise preview_not_found
     | Some session \<Rightarrow>
         bindE (catchE (liftR (saved_launch_snapshot (pe_uploads env) session))
             (\<lambda>e. raise (if is_problem e then preview_stale else e))) (\<lambda>ls.
         bindE (liftR (request_fingerprint env body)) (\<lambda>request_fp.
         if fp = [] \<or> fp \<noteq> request_fp \<or> fp \<noteq> ls_configuration_fingerprint ls then raise preview_stale
         else
           bindE (on_previews (get_preview_record (ls_preview_id ls) owner)) (\<lambda>p.
           if p = None then raise preview_approval_required
           else launch_preview env (ls_preview_id ls) owner org tier fp)))))"

end
