(* ===== verification/Era_Classifier.thy ===== *)
theory Era_Classifier
  imports Era_Validation Upload_Store
begin

text \<open>
  Era classification: the catalog, label canonicalisation, the default profiles and the deterministic
  fallback of \<open>app/services/era_classifier.py\<close>. Labels are compared with \<open>str.casefold()\<close>, which is
  \<open>lower\<close> on ASCII text. A candidate is the dictionary the code handles.
\<close>

definition UNKNOWN_ERA :: string where
  "UNKNOWN_ERA = ''Unknown Era''"

definition ERA_CATALOG :: "string list" where
  "ERA_CATALOG = [''1840s Daguerreotype Plate'', ''1860s Albumen Print'', ''1930s 16mm Film'', ''1950s Kodachrome Film'',
     ''1960s Kodachrome Film'', ''1970s Super 8 Film'', ''1980s VHS Tape'', ''1990s VHS Tape'']"

definition CANONICAL_ERA_BY_KEY :: "(string, string) pydict" where
  "CANONICAL_ERA_BY_KEY = map (\<lambda>e. (lower e, e)) ERA_CATALOG"

definition ERA_ALIASES :: "(string, string) pydict" where
  "ERA_ALIASES = [(''daguerreotype'', ''1840s Daguerreotype Plate''), (''daguerreotype plate'', ''1840s Daguerreotype Plate''),
     (''albumen'', ''1860s Albumen Print''), (''albumen print'', ''1860s Albumen Print''),
     (''16mm'', ''1930s 16mm Film''), (''16mm film'', ''1930s 16mm Film''), (''1930s 16mm'', ''1930s 16mm Film''),
     (''1930s 16mm film'', ''1930s 16mm Film''), (''1950s kodachrome'', ''1950s Kodachrome Film''),
     (''1950s kodachrome film'', ''1950s Kodachrome Film''), (''1960s kodachrome'', ''1960s Kodachrome Film''),
     (''1960s kodachrome film'', ''1960s Kodachrome Film''), (''super 8'', ''1970s Super 8 Film''),
     (''super 8 film'', ''1970s Super 8 Film''), (''super 8mm'', ''1970s Super 8 Film''),
     (''super 8mm film'', ''1970s Super 8 Film''), (''1970s super 8'', ''1970s Super 8 Film''),
     (''1970s super 8 film'', ''1970s Super 8 Film''), (''1980s vhs'', ''1980s VHS Tape''),
     (''1980s vhs tape'', ''1980s VHS Tape''), (''1990s vhs'', ''1990s VHS Tape''), (''1990s vhs tape'', ''1990s VHS Tape''),
     (''vhs'', ''1980s VHS Tape''), (''vhs tape'', ''1980s VHS Tape'')]"

text \<open>Era, confidence, grain structure and artifacts of each medium.\<close>

definition MEDIUM_DEFAULTS :: "(string, string \<times> rat \<times> string \<times> string list) pydict" where
  "MEDIUM_DEFAULTS =
     [(''daguerreotype'', ''1840s Daguerreotype Plate'', 94 / 100, ''fine silver mirroring'', [''plate_edges'', ''tonal_falloff'']),
      (''albumen'', ''1860s Albumen Print'', 92 / 100, ''paper fiber bloom'', [''sepia_cast'', ''albumen_sheen'']),
      (''16mm'', ''1930s 16mm Film'', 81 / 100, ''coarse film grain'', [''gate_weave'', ''flicker'']),
      (''super_8'', ''1970s Super 8 Film'', 79 / 100, ''consumer film grain'', [''splices'', ''frame_jitter'']),
      (''kodachrome'', ''1960s Kodachrome Film'', 88 / 100, ''dense color grain'', [''saturated_reds'', ''dye_stability'']),
      (''vhs'', ''1980s VHS Tape'', 76 / 100, ''magnetic noise smear'', [''head_switching_noise'', ''chroma_bleed''])]"

definition candidate :: "string \<Rightarrow> rat \<Rightarrow> jdict" where
  "candidate era confidence = [(''era'', JStr era), (''confidence'', JFloat confidence)]"

text \<open>\<open>ERA_CATALOG.index(e)\<close>, for an era of the catalog.\<close>

definition catalog_index :: "string \<Rightarrow> nat" where
  "catalog_index e = length (takeWhile (\<lambda>x. x \<noteq> e) ERA_CATALOG)"

text \<open>Two eras to offer beside the first one: the next of the catalog, in its order and cyclically.\<close>

definition fallback_top_candidates :: "string \<Rightarrow> string \<Rightarrow> jdict list" where
  "fallback_top_candidates primary default_era =
     (let n = length ERA_CATALOG;
          ordered = (if primary \<in> set ERA_CATALOG
             then map (\<lambda>k. ERA_CATALOG ! ((catalog_index primary + 1 + k) mod n)) [0..<n]
             else (let i = (if default_era \<in> set ERA_CATALOG then catalog_index default_era else 0)
                   in default_era # map (\<lambda>k. ERA_CATALOG ! ((i + k) mod n)) [1..<n]));
          eras = take 2 (filter (\<lambda>e. e \<noteq> primary) ordered);
          padded = eras @ replicate (2 - length eras) default_era
      in [candidate (padded ! 0) (52 / 100), candidate (padded ! 1) (41 / 100)])"

record era_usage =
  prompt_token_count :: int
  candidates_token_count :: int
  total_token_count :: int
  api_call_count :: int

definition no_usage :: era_usage where
  "no_usage = \<lparr>prompt_token_count = 0, candidates_token_count = 0, total_token_count = 0, api_call_count = 0\<rparr>"

record era_classification =
  ec_era :: string
  ec_confidence :: rat
  ec_forensic_markers :: jdict
  ec_top_candidates :: "jdict list"
  ec_model_version :: string
  ec_prompt_version :: string
  ec_raw_response_gcs_uri :: "string option"
  ec_usage :: era_usage
  ec_provider_error :: "string option"

definition canonicalize_era_label :: "codec \<Rightarrow> json \<Rightarrow> string option" where
  "canonicalize_era_label c label =
     (let normalized = strip (str_or_empty c label) in
      if normalized = [] then None
      else (case dget CANONICAL_ERA_BY_KEY (lower normalized) of
              Some e \<Rightarrow> Some e
            | None \<Rightarrow> dget ERA_ALIASES (lower normalized)))"

definition is_supported_era :: "codec \<Rightarrow> json \<Rightarrow> bool" where
  "is_supported_era c label = (case canonicalize_era_label c label of None \<Rightarrow> False | Some e \<Rightarrow> e \<in> set ERA_CATALOG)"

text \<open>\<open>max(0.0, min(x, 1.0))\<close>: \<open>NaN\<close> is neither smaller nor larger than a number, so it becomes 0.\<close>

fun clamp01 :: "pyfloat \<Rightarrow> rat" where
  "clamp01 (Fin q) = max 0 (min q 1)"
| "clamp01 (Special PlusInfinity) = 1"
| "clamp01 (Special x) = 0"

lemma clamp01_eq: "float_max (Fin 0) (float_min x (Fin 1)) = Fin (clamp01 x)"
  by (cases x rule: clamp01.cases) (simp_all add: float_min_def float_max_def)

lemma clamp01_bounds: "0 \<le> clamp01 x" "clamp01 x \<le> 1"
  by (cases x rule: clamp01.cases; simp)+

fun normalize_candidates ::
  "codec \<Rightarrow> (string \<Rightarrow> rat option) \<Rightarrow> bool \<Rightarrow> string list \<Rightarrow> jdict list \<Rightarrow> (string \<times> rat) list" where
  "normalize_candidates c rd unknown seen [] = []"
| "normalize_candidates c rd unknown seen (item # items) =
     (case canonicalize_era_label c (jget item ''era'') of
        None \<Rightarrow> normalize_candidates c rd unknown seen items
      | Some era \<Rightarrow>
          if era = UNKNOWN_ERA \<and> \<not> unknown then normalize_candidates c rd unknown seen items
          else if era \<in> set seen then normalize_candidates c rd unknown seen items
          else
            (era, clamp01 (case float_value rd (get_default item ''confidence'' (JFloat 0)) of None \<Rightarrow> Fin 0 | Some q \<Rightarrow> q)) #
            normalize_candidates c rd unknown (era # seen) items)"

definition normalize_top_candidates :: "codec \<Rightarrow> (string \<Rightarrow> rat option) \<Rightarrow> jdict list \<Rightarrow> (string \<times> rat) list" where
  "normalize_top_candidates c rd items = normalize_candidates c rd False [] items"

section \<open>The medium of a file\<close>

text \<open>\<open>needle in text\<close>\<close>

fun contains :: "string \<Rightarrow> string \<Rightarrow> bool" where
  "contains needle [] = (needle = [])"
| "contains needle (x # xs) = (starts_with needle (x # xs) \<or> contains needle xs)"

definition infer_capture_medium :: "string \<Rightarrow> string \<Rightarrow> string \<Rightarrow> string" where
  "infer_capture_medium uri filename mime =
     (let hints = lower (uri @ '' '' @ filename @ '' '' @ mime); ext = lower (path_suffix filename) in
      if contains ''daguerreotype'' hints then ''daguerreotype''
      else if contains ''albumen'' hints then ''albumen''
      else if contains ''16mm'' hints then ''16mm''
      else if contains ''super 8'' hints \<or> contains ''super_8'' hints \<or> contains ''8mm'' hints then ''super_8''
      else if contains ''kodachrome'' hints then ''kodachrome''
      else if contains ''vhs'' hints then ''vhs''
      else if starts_with ''image/'' mime \<or> ext \<in> {''.tif'', ''.tiff'', ''.jpg'', ''.jpeg'', ''.png''} then ''albumen''
      else if mime \<in> {''video/x-msvideo'', ''video/avi''} \<or> ext = ''.avi'' then ''vhs''
      else ''super_8'')"

definition default_profile :: "string \<Rightarrow> string \<Rightarrow> string \<Rightarrow> rat \<Rightarrow> bool \<Rightarrow> bool \<Rightarrow> int \<Rightarrow> int \<Rightarrow> jdict" where
  "default_profile medium mode cap limit deinterlace preserve start stop =
     [(''capture_medium'', JStr medium), (''mode'', JStr mode), (''tier'', JStr ''Pro''), (''resolution_cap'', JStr cap),
      (''hallucination_limit'', JFloat limit),
      (''artifact_policy'', JObj [(''deinterlace'', JBool deinterlace), (''grain_intensity'', JStr ''Matched''),
         (''preserve_edge_fog'', JBool preserve), (''preserve_chromatic_aberration'', JBool preserve)]),
      (''era_range'', JObj [(''start_year'', JInt start), (''end_year'', JInt stop)]),
      (''gemini_confidence'', JFloat 1), (''manual_confirmation_required'', JBool False)]"

definition profile_of_medium :: "string \<Rightarrow> jdict" where
  "profile_of_medium medium =
     (if medium = ''daguerreotype'' then default_profile medium ''Conserve'' ''4k'' (5 / 100) False True 1840 1849
      else if medium = ''albumen'' then default_profile medium ''Conserve'' ''4k'' (5 / 100) False True 1860 1869
      else if medium = ''16mm'' then default_profile medium ''Restore'' ''4k'' (15 / 100) False True 1930 1939
      else if medium = ''kodachrome'' then default_profile medium ''Restore'' ''4k'' (15 / 100) False True 1955 1969
      else if medium = ''vhs'' then default_profile medium ''Restore'' ''1080p'' (15 / 100) True False 1980 1999
      else default_profile ''super_8'' ''Restore'' ''4k'' (15 / 100) False True 1970 1979)"

definition build_default_era_profile :: "string \<Rightarrow> string \<Rightarrow> string \<Rightarrow> jdict" where
  "build_default_era_profile uri filename mime = profile_of_medium (infer_capture_medium uri filename mime)"

section \<open>The deterministic fallback\<close>

definition fallback_classify :: "codec \<Rightarrow> string \<Rightarrow> string \<Rightarrow> string \<Rightarrow> jdict \<Rightarrow> era_classification result" where
  "fallback_classify c uri filename mime profile =
     (let resolved = (if profile = [] then build_default_era_profile uri filename mime else profile) in
      case dget resolved ''capture_medium'' of
        None \<Rightarrow> Inl (KeyError ''capture_medium'')
      | Some v \<Rightarrow>
          (let medium = py_str c v;
               (era, confidence0, grain, artifacts) =
                 (case dget MEDIUM_DEFAULTS medium of
                    Some d \<Rightarrow> d
                  | None \<Rightarrow> (UNKNOWN_ERA, 55 / 100, ''unknown grain signature'', [''insufficient_signal'']));
               confidence = (if contains ''mystery'' (lower (uri @ '' '' @ filename)) then min confidence0 (61 / 100) else confidence0)
           in Inr \<lparr>ec_era = era, ec_confidence = py_round 2 confidence,
             ec_forensic_markers = [(''grain_structure'', JStr grain),
               (''color_saturation'', JFloat (if medium = ''kodachrome'' then 82 / 100 else 58 / 100)),
               (''format_artifacts'', JList (map JStr artifacts))],
             ec_top_candidates = candidate era (py_round 2 confidence) # fallback_top_candidates era ''1970s Super 8 Film'',
             ec_model_version = ''deterministic-fallback-v1'', ec_prompt_version = ''phase2-era-detection-fallback-v1'',
             ec_raw_response_gcs_uri = None, ec_usage = no_usage, ec_provider_error = None\<rparr>))"

section \<open>Lemmas\<close>

lemma catalog_distinct: "distinct ERA_CATALOG"
  by code_simp

lemma aliases_in_catalog: "list_all (\<lambda>(k, e). e \<in> set ERA_CATALOG) ERA_ALIASES"
  by code_simp

lemma unknown_not_in_catalog: "UNKNOWN_ERA \<notin> set ERA_CATALOG"
  by code_simp

text \<open>A canonical label is always an era of the catalog.\<close>

lemma canonical_in_catalog: "canonicalize_era_label c v = Some e \<Longrightarrow> e \<in> set ERA_CATALOG"
proof -
  assume "canonicalize_era_label c v = Some e"
  then obtain k where "dget CANONICAL_ERA_BY_KEY k = Some e \<or> dget ERA_ALIASES k = Some e"
    by (auto simp: canonicalize_era_label_def Let_def split: if_splits option.splits)
  then show ?thesis
    using aliases_in_catalog by (auto simp: CANONICAL_ERA_BY_KEY_def list_all_iff dest!: map_of_SomeD)
qed

lemma supported_iff: "is_supported_era c v \<longleftrightarrow> canonicalize_era_label c v \<noteq> None"
  using canonical_in_catalog [of c v] by (auto simp: is_supported_era_def split: option.splits)

lemma normalize_candidates_ok:
  "distinct (map fst (normalize_candidates c rd u seen items)) \<and>
   fst ` set (normalize_candidates c rd u seen items) \<subseteq> set ERA_CATALOG - set seen \<and>
   (\<forall>(e, q) \<in> set (normalize_candidates c rd u seen items). 0 \<le> q \<and> q \<le> 1)"
proof (induction c rd u seen items rule: normalize_candidates.induct)
  case (1 c rd u seen)
  then show ?case by simp
next
  case (2 c rd u seen item items)
  show ?case
  proof (cases "canonicalize_era_label c (jget item ''era'')")
    case None
    with 2(1) show ?thesis by simp
  next
    case (Some era)
    with canonical_in_catalog have "era \<in> set ERA_CATALOG" by blast
    with Some 2(2-4) [OF Some] show ?thesis by (auto simp: clamp01_bounds)
  qed
qed

text \<open>The default profile of every file passes the validation of era profiles.\<close>

lemma default_profile_ok:
  "era_profile_ok c rd (default_profile medium mode cap limit d pres start stop) \<longleftrightarrow>
     medium \<in> set CAPTURE_MEDIA \<and> mode \<in> set MODES \<and> cap \<in> set RESOLUTION_CAPS \<and> start \<le> stop \<and>
     (mode = ''Conserve'' \<longrightarrow> limit \<le> 5 / 100) \<and> (medium = ''vhs'' \<longrightarrow> d) \<and>
     (medium \<in> {''daguerreotype'', ''albumen''} \<longrightarrow> cap \<noteq> ''1080p'')"
proof -
  have "''Pro'' \<in> set TIERS" "''Matched'' \<in> set GRAIN_INTENSITIES" by (simp_all add: era_enums)
  then show ?thesis
    by (simp add: default_profile_def era_profile_ok_def Let_def mapping_of_def one_of_def get_default_def not_less)
qed

lemma default_profile_valid: "is_valid (validate_era_profile c rd (build_default_era_profile uri filename mime))"
proof -
  have "era_profile_ok c rd (profile_of_medium medium)" for medium
    unfolding profile_of_medium_def by (simp add: default_profile_ok era_enums)
  then show ?thesis by (simp add: validate_iff_ok build_default_era_profile_def)
qed

end
