(* ===== verification/Era_Detection.thy ===== *)
theory Era_Detection
  imports Era_Classifier
begin

text \<open>
  \<open>EraDetectionService\<close> of \<open>app/services/era_detection_service.py\<close> and the in-memory repository of era
  detections. The provider behind the primary classifier (\<open>app/services/vertex_gemini.py\<close>) is a field of
  the environment, absent when the deterministic classifier is configured; it answers, or raises
  \<open>ExternalError\<close> for \<open>ClassifierError\<close> and \<open>httpx.HTTPError\<close>. The metrics and the logger are left out.
\<close>

section \<open>Records\<close>

record era_env =
  ee_primary :: "(string \<Rightarrow> string \<Rightarrow> string \<Rightarrow> string \<Rightarrow> jdict \<Rightarrow> nat \<Rightarrow> era_classification result) option"
  ee_codec :: codec
  ee_float_of_str :: "string \<Rightarrow> rat option"
  ee_clock :: "nat \<Rightarrow> time"
  ee_uuid :: "nat \<Rightarrow> string"

record era_job =
  ej_job_id :: string
  ej_owner_user_id :: string
  ej_org_id :: string
  ej_media_uri :: string
  ej_original_filename :: string
  ej_mime_type :: string
  ej_era_profile :: jdict
  ej_created_at :: time

record era_detection =
  ed_id :: string
  ed_created_at :: time
  ed_job_id :: string
  ed_era :: string
  ed_confidence :: rat
  ed_forensic_markers :: jdict
  ed_overridden_by_user :: bool
  ed_override_reason :: "string option"
  ed_model_version :: string
  ed_prompt_version :: string
  ed_source :: string
  ed_raw_response_gcs_uri :: "string option"
  ed_created_by :: "string option"
  ed_manual_confirmation_required :: bool
  ed_top_candidates :: "jdict list"
  ed_usage :: era_usage

record era_store =
  era_jobs :: "(string, era_job) pydict"
  era_detections :: "(string, era_detection list) pydict"
  es_calls :: nat

definition era_call :: "(nat \<Rightarrow> 'a) \<Rightarrow> (era_store, 'a) prog" where
  "era_call f = (\<lambda>s. (Inr (f (es_calls s)), s\<lparr>es_calls := Suc (es_calls s)\<rparr>))"

section \<open>\<open>_MemoryEraDetectionRepository\<close>\<close>

definition save_era_job ::
  "era_env \<Rightarrow> string \<Rightarrow> string \<Rightarrow> string \<Rightarrow> string \<Rightarrow> string \<Rightarrow> string \<Rightarrow> jdict \<Rightarrow> (era_store, unit) prog" where
  "save_era_job env jid owner org uri filename mime profile =
     bindE (era_call (ee_clock env)) (\<lambda>now.
     modifyE (\<lambda>s. s\<lparr>era_jobs := dset jid \<lparr>ej_job_id = jid, ej_owner_user_id = owner, ej_org_id = org, ej_media_uri = uri,
       ej_original_filename = filename, ej_mime_type = mime, ej_era_profile = profile, ej_created_at = now\<rparr> (era_jobs s)\<rparr>))"

definition detections_of :: "string \<Rightarrow> era_store \<Rightarrow> era_detection list" where
  "detections_of jid s = (case dget (era_detections s) jid of None \<Rightarrow> [] | Some ds \<Rightarrow> ds)"

text \<open>The detection comes without its id and creation time, which the repository adds.\<close>

definition save_detection :: "era_env \<Rightarrow> string \<Rightarrow> era_detection \<Rightarrow> (era_store, era_detection) prog" where
  "save_detection env jid d =
     bindE (era_call (ee_uuid env)) (\<lambda>new_id.
     bindE (era_call (ee_clock env)) (\<lambda>now.
     let r = d\<lparr>ed_id := new_id, ed_created_at := now\<rparr> in
     bindE (modifyE (\<lambda>s. s\<lparr>era_detections := dset jid (detections_of jid s @ [r]) (era_detections s)\<rparr>)) (\<lambda>_. ret r)))"

definition latest_detection :: "string \<Rightarrow> (era_store, era_detection option) prog" where
  "latest_detection jid = getsE (\<lambda>s. case rev (detections_of jid s) of [] \<Rightarrow> None | d # _ \<Rightarrow> Some d)"

section \<open>Classification with its fallback\<close>

text \<open>The eras already chosen, then the fallback's until there are three.\<close>

fun fill_candidates :: "(string \<times> rat) list \<Rightarrow> (string \<times> rat) list \<Rightarrow> (string \<times> rat) list" where
  "fill_candidates chosen [] = chosen"
| "fill_candidates chosen (item # items) =
     (let chosen' = (if fst item \<in> fst ` set chosen then chosen else chosen @ [item])
      in if length chosen' = 3 then chosen' else fill_candidates chosen' items)"

definition review_candidates ::
  "codec \<Rightarrow> (string \<Rightarrow> rat option) \<Rightarrow> era_classification \<Rightarrow> jdict list \<Rightarrow> string option \<Rightarrow> (string \<times> rat) list" where
  "review_candidates c rd cls fallback primary =
     (let normalized = normalize_top_candidates c rd (ec_top_candidates cls);
          normalized' = (case primary of
             Some e \<Rightarrow> if e \<in> set ERA_CATALOG \<and> e \<notin> fst ` set normalized
                       then (e, py_round 2 (ec_confidence cls)) # normalized else normalized
           | None \<Rightarrow> normalized)
      in take 3 (fill_candidates normalized' (normalize_top_candidates c rd fallback)))"

definition as_candidates :: "(string \<times> rat) list \<Rightarrow> jdict list" where
  "as_candidates xs = map (\<lambda>(e, q). candidate e q) xs"

definition normalize_classification ::
  "era_env \<Rightarrow> era_classification \<Rightarrow> string \<Rightarrow> string \<Rightarrow> string \<Rightarrow> jdict \<Rightarrow> era_classification result" where
  "normalize_classification env cls uri filename mime profile =
     bind_res (fallback_classify (ee_codec env) uri filename mime profile) (\<lambda>fallback.
     let era = canonicalize_era_label (ee_codec env) (JStr (ec_era cls));
         candidates = as_candidates (review_candidates (ee_codec env) (ee_float_of_str env) cls (ec_top_candidates fallback) era) in
     Inr (case era of
            None \<Rightarrow> cls\<lparr>ec_era := UNKNOWN_ERA, ec_top_candidates := candidates,
              ec_provider_error := (if ec_provider_error cls \<in> {None, Some []}
                then Some ''Primary Gemini classifier returned an unsupported era label. Manual confirmation required.''
                else ec_provider_error cls)\<rparr>
          | Some e \<Rightarrow> cls\<lparr>ec_era := e, ec_top_candidates := candidates\<rparr>))"

definition primary_classify ::
  "era_env \<Rightarrow> string \<Rightarrow> string \<Rightarrow> string \<Rightarrow> string \<Rightarrow> jdict \<Rightarrow> (era_store, era_classification) prog" where
  "primary_classify env jid uri filename mime profile =
     (case ee_primary env of
        None \<Rightarrow> liftR (fallback_classify (ee_codec env) uri filename mime profile)
      | Some f \<Rightarrow> bindE (era_call (f jid uri filename mime profile)) liftR)"

fun is_provider_failure :: "exn \<Rightarrow> bool" where
  "is_provider_failure (ExternalError m) = True"
| "is_provider_failure e = False"

definition classify_era ::
  "era_env \<Rightarrow> string \<Rightarrow> string \<Rightarrow> string \<Rightarrow> string \<Rightarrow> jdict \<Rightarrow> (era_store, era_classification) prog" where
  "classify_era env jid uri filename mime profile =
     catchE
       (bindE (primary_classify env jid uri filename mime profile) (\<lambda>cls.
        liftR (normalize_classification env cls uri filename mime profile)))
       (\<lambda>e. if is_provider_failure e
            then bindE (liftR (fallback_classify (ee_codec env) uri filename mime profile)) (\<lambda>f.
                 ret (f\<lparr>ec_provider_error := Some ''Primary Gemini classifier failed. Manual confirmation required.''\<rparr>))
            else raise e)"

section \<open>Detection\<close>

record detection_view =
  dv_detection_id :: string
  dv_job_id :: string
  dv_era :: string
  dv_confidence :: rat
  dv_manual_confirmation_required :: bool
  dv_top_candidates :: "jdict list"
  dv_forensic_markers :: jdict
  dv_warnings :: "string list"
  dv_processing_timestamp :: time
  dv_source :: string
  dv_model_version :: string
  dv_prompt_version :: string

definition low_confidence :: "era_classification \<Rightarrow> bool" where
  "low_confidence cls = (ec_confidence cls < 70 / 100)"

definition provider_failed :: "era_classification \<Rightarrow> bool" where
  "provider_failed cls = (ec_provider_error cls \<notin> {None, Some []})"

definition detection_warnings :: "era_classification \<Rightarrow> string list" where
  "detection_warnings cls =
     (if provider_failed cls then [the (ec_provider_error cls)]
      else if low_confidence cls then [''Manual confirmation required due to low confidence.''] else [])"

definition override_warning :: string where
  "override_warning = ''Manual override applied to era classification.''"

definition analyze_media ::
  "era_env \<Rightarrow> string \<Rightarrow> string \<Rightarrow> string \<Rightarrow> string \<Rightarrow> string option \<Rightarrow> string option \<Rightarrow> jdict \<Rightarrow>
   (era_store, detection_view) prog" where
  "analyze_media env jid uri filename mime override reason profile =
     (let resolved = (if profile = [] then build_default_era_profile uri filename mime else profile) in
      bindE (classify_era env jid uri filename mime resolved) (\<lambda>cls.
      let flagged = (provider_failed cls \<or> low_confidence cls) in
      if override \<notin> {None, Some []}
      then (case canonicalize_era_label (ee_codec env) (JStr (the override)) of
              None \<Rightarrow> raise (ValueError ''Manual override era must use a supported catalog value.'')
            | Some e \<Rightarrow>
                if reason \<in> {None, Some []}
                then raise (ValueError ''override_reason is required when manual_override_era is set.'')
                else
                  bindE (era_call (ee_uuid env)) (\<lambda>new_id.
                  bindE (era_call (ee_clock env)) (\<lambda>now.
                  ret \<lparr>dv_detection_id = new_id, dv_job_id = jid, dv_era = e, dv_confidence = py_round 2 (ec_confidence cls),
                    dv_manual_confirmation_required = False,
                    dv_top_candidates = (if low_confidence cls then ec_top_candidates cls else []),
                    dv_forensic_markers = ec_forensic_markers cls, dv_warnings = [override_warning],
                    dv_processing_timestamp = now, dv_source = ''user_override'',
                    dv_model_version = ec_model_version cls, dv_prompt_version = ec_prompt_version cls\<rparr>)))
      else
        bindE (era_call (ee_uuid env)) (\<lambda>new_id.
        bindE (era_call (ee_clock env)) (\<lambda>now.
        ret \<lparr>dv_detection_id = new_id, dv_job_id = jid, dv_era = (if flagged then UNKNOWN_ERA else ec_era cls),
          dv_confidence = py_round 2 (ec_confidence cls), dv_manual_confirmation_required = (ec_provider_error cls \<noteq> None \<or> low_confidence cls),
          dv_top_candidates = (if flagged then ec_top_candidates cls else []),
          dv_forensic_markers = ec_forensic_markers cls, dv_warnings = detection_warnings cls,
          dv_processing_timestamp = now, dv_source = ''system'',
          dv_model_version = ec_model_version cls, dv_prompt_version = ec_prompt_version cls\<rparr>))))"

definition system_detection :: "string \<Rightarrow> era_classification \<Rightarrow> era_detection" where
  "system_detection jid cls =
     (let flagged = (provider_failed cls \<or> low_confidence cls) in
      \<lparr>ed_id = [], ed_created_at = 0, ed_job_id = jid, ed_era = (if flagged then UNKNOWN_ERA else ec_era cls),
        ed_confidence = py_round 2 (ec_confidence cls), ed_forensic_markers = ec_forensic_markers cls,
        ed_overridden_by_user = False, ed_override_reason = None, ed_model_version = ec_model_version cls,
        ed_prompt_version = ec_prompt_version cls, ed_source = ''system'',
        ed_raw_response_gcs_uri = ec_raw_response_gcs_uri cls, ed_created_by = None,
        ed_manual_confirmation_required = flagged, ed_top_candidates = (if flagged then ec_top_candidates cls else []),
        ed_usage = ec_usage cls\<rparr>)"

definition override_detection :: "string \<Rightarrow> string \<Rightarrow> string \<Rightarrow> string \<Rightarrow> era_classification \<Rightarrow> era_detection" where
  "override_detection jid user era reason cls =
     \<lparr>ed_id = [], ed_created_at = 0, ed_job_id = jid, ed_era = era, ed_confidence = py_round 2 (ec_confidence cls),
       ed_forensic_markers = ec_forensic_markers cls, ed_overridden_by_user = True, ed_override_reason = Some reason,
       ed_model_version = ec_model_version cls, ed_prompt_version = ec_prompt_version cls, ed_source = ''user_override'',
       ed_raw_response_gcs_uri = ec_raw_response_gcs_uri cls, ed_created_by = Some user,
       ed_manual_confirmation_required = False,
       ed_top_candidates = (if low_confidence cls then ec_top_candidates cls else []), ed_usage = no_usage\<rparr>"

text \<open>The parts of a stored detection the response takes over, with its warnings.\<close>

definition response_of :: "era_detection \<Rightarrow> bool \<Rightarrow> string list \<Rightarrow> time \<Rightarrow> detection_view" where
  "response_of d manual notes now =
     \<lparr>dv_detection_id = ed_id d, dv_job_id = ed_job_id d, dv_era = ed_era d, dv_confidence = py_round 2 (ed_confidence d),
       dv_manual_confirmation_required = manual, dv_top_candidates = ed_top_candidates d,
       dv_forensic_markers = ed_forensic_markers d, dv_warnings = notes, dv_processing_timestamp = now,
       dv_source = ed_source d, dv_model_version = ed_model_version d, dv_prompt_version = ed_prompt_version d\<rparr>"

definition detect ::
  "era_env \<Rightarrow> string \<Rightarrow> string \<Rightarrow> string \<Rightarrow> string \<Rightarrow> string \<Rightarrow> string \<Rightarrow> jdict \<Rightarrow> string option \<Rightarrow> string option \<Rightarrow>
   (era_store, detection_view) prog" where
  "detect env jid user org uri filename mime profile override reason =
     bindE (save_era_job env jid user org uri filename mime profile) (\<lambda>_.
     bindE (classify_era env jid uri filename mime profile) (\<lambda>cls.
     bindE (save_detection env jid (system_detection jid cls)) (\<lambda>sys.
     if override \<in> {None, Some []}
     then bindE (era_call (ee_clock env)) (\<lambda>now.
          ret (response_of sys (ed_manual_confirmation_required sys) (detection_warnings cls) now))
     else
       (case canonicalize_era_label (ee_codec env) (JStr (the override)) of
          None \<Rightarrow> raise (ValueError ''Manual override era must use a supported catalog value.'')
        | Some e \<Rightarrow>
            bindE (save_detection env jid (override_detection jid user e
                (if reason \<in> {None, Some []} then ''Manual era override'' else the reason) cls)) (\<lambda>d.
            bindE (era_call (ee_clock env)) (\<lambda>now. ret (response_of d False [override_warning] now)))))))"

section \<open>A detection is certain or reviewable\<close>

definition reviewable :: "jdict list \<Rightarrow> bool" where
  "reviewable cs \<longleftrightarrow> (\<exists>eras. map (\<lambda>c. jget c ''era'') cs = map JStr eras \<and> length eras = 3 \<and> distinct eras \<and>
     set eras \<subseteq> set ERA_CATALOG)"

lemma length_catalog: "length ERA_CATALOG = 8"
  by (simp add: ERA_CATALOG_def)

lemma catalog_index_nth: "i < 8 \<Longrightarrow> catalog_index (ERA_CATALOG ! i) = i"
proof -
  assume i: "i < 8"
  have "takeWhile (\<lambda>x. x \<noteq> ERA_CATALOG ! i) ERA_CATALOG = take i ERA_CATALOG"
    by (rule takeWhile_eq_take_P_nth)
      (use i catalog_distinct in \<open>auto simp: nth_eq_iff_index_eq length_catalog\<close>)
  with i show ?thesis by (simp add: catalog_index_def length_catalog)
qed

lemma next_eras:
  assumes "i < 8"
  shows "ERA_CATALOG ! (Suc i mod 8) \<noteq> ERA_CATALOG ! i" "ERA_CATALOG ! (Suc (Suc i) mod 8) \<noteq> ERA_CATALOG ! i"
    "ERA_CATALOG ! (Suc i mod 8) \<noteq> ERA_CATALOG ! (Suc (Suc i) mod 8)"
proof -
  have "Suc i mod 8 \<noteq> i" "Suc (Suc i) mod 8 \<noteq> i" "Suc i mod 8 \<noteq> Suc (Suc i) mod 8"
    using assms by (auto simp: mod_Suc)
  with assms show "ERA_CATALOG ! (Suc i mod 8) \<noteq> ERA_CATALOG ! i" "ERA_CATALOG ! (Suc (Suc i) mod 8) \<noteq> ERA_CATALOG ! i"
    "ERA_CATALOG ! (Suc i mod 8) \<noteq> ERA_CATALOG ! (Suc (Suc i) mod 8)"
    by (simp_all add: nth_eq_iff_index_eq [OF catalog_distinct] length_catalog)
qed

text \<open>Beside an era of the catalog the fallback offers the next two.\<close>

lemma fallback_of_catalog:
  assumes "i < 8"
  shows "fallback_top_candidates (ERA_CATALOG ! i) d =
    [candidate (ERA_CATALOG ! (Suc i mod 8)) (52 / 100), candidate (ERA_CATALOG ! (Suc (Suc i) mod 8)) (41 / 100)]"
proof -
  have "[0..<8] = 0 # 1 # [2..<8::nat]" by (simp add: upt_rec)
  then have "map (\<lambda>k. ERA_CATALOG ! ((i + 1 + k) mod 8)) [0..<8] =
      ERA_CATALOG ! (Suc i mod 8) # ERA_CATALOG ! (Suc (Suc i) mod 8) # map (\<lambda>k. ERA_CATALOG ! ((i + 1 + k) mod 8)) [2..<8]"
    by (simp only: list.map) simp
  moreover have "ERA_CATALOG ! i \<in> set ERA_CATALOG" using assms by (simp add: length_catalog)
  ultimately show ?thesis
    unfolding fallback_top_candidates_def length_catalog catalog_index_nth [OF assms] Let_def
    by (simp add: next_eras [OF assms] del: upt_Suc)
qed

lemma catalog_nth: "e \<in> set ERA_CATALOG \<Longrightarrow> \<exists>i < 8. e = ERA_CATALOG ! i"
  by (metis in_set_conv_nth length_catalog)

lemma fallback_distinct:
  assumes "e \<in> set ERA_CATALOG"
  shows "\<exists>x y. fallback_top_candidates e d = [candidate x (52 / 100), candidate y (41 / 100)] \<and> distinct [e, x, y] \<and>
    set [e, x, y] \<subseteq> set ERA_CATALOG"
proof -
  obtain i where i: "i < 8" "e = ERA_CATALOG ! i" using catalog_nth [OF assms] by blast
  have "ERA_CATALOG ! (k mod 8) \<in> set ERA_CATALOG" for k by (rule nth_mem) (simp add: length_catalog)
  moreover have "distinct [ERA_CATALOG ! i, ERA_CATALOG ! (Suc i mod 8), ERA_CATALOG ! (Suc (Suc i) mod 8)]"
    using next_eras [OF i(1)] by auto
  ultimately show ?thesis
    using i fallback_of_catalog [OF i(1), of d] assms
    by (intro exI [of _ "ERA_CATALOG ! (Suc i mod 8)"] exI [of _ "ERA_CATALOG ! (Suc (Suc i) mod 8)"]) simp
qed

lemma medium_eras: "list_all (\<lambda>(m, era, rest). era \<in> set ERA_CATALOG) MEDIUM_DEFAULTS"
  by (simp add: MEDIUM_DEFAULTS_def ERA_CATALOG_def)

lemma media_known: "list_all (\<lambda>m. dget MEDIUM_DEFAULTS m \<noteq> None) CAPTURE_MEDIA"
  by code_simp

lemma lower_catalog:
  "map lower ERA_CATALOG = [''1840s daguerreotype plate'', ''1860s albumen print'', ''1930s 16mm film'', ''1950s kodachrome film'',
     ''1960s kodachrome film'', ''1970s super 8 film'', ''1980s vhs tape'', ''1990s vhs tape'']"
  by code_simp

lemma catalog_trimmed: "list_all (\<lambda>e. e \<noteq> [] \<and> \<not> is_space (hd e) \<and> \<not> is_space (last e)) ERA_CATALOG"
  by code_simp

lemma catalog_canonical:
  assumes "e \<in> set ERA_CATALOG"
  shows "e \<noteq> [] \<and> strip e = e \<and> dget CANONICAL_ERA_BY_KEY (lower e) = Some e"
proof -
  have "distinct (map lower ERA_CATALOG)" unfolding lower_catalog by simp
  then have "dget (map (\<lambda>e. (lower e, e)) ERA_CATALOG) (lower e) = Some e"
    using assms by (intro map_of_is_SomeI) (auto simp: comp_def)
  moreover have "e \<noteq> [] \<and> strip e = e" using catalog_trimmed assms strip_id [of e] by (auto simp: list_all_iff)
  ultimately show ?thesis by (simp add: CANONICAL_ERA_BY_KEY_def)
qed

text \<open>A profile that names one of the capture media, as every validated profile and every default one does.\<close>

definition known_medium :: "jdict \<Rightarrow> bool" where
  "known_medium p \<longleftrightarrow> one_of (jget p ''capture_medium'') CAPTURE_MEDIA"

lemma validated_known_medium: "is_valid (validate_era_profile c rd p) \<Longrightarrow> known_medium p"
  by (simp add: validate_iff_ok era_profile_ok_def known_medium_def Let_def)

lemma default_known_medium: "known_medium (build_default_era_profile uri filename mime)"
  by (rule validated_known_medium [OF default_profile_valid])

lemma fallback_reviewable:
  assumes "known_medium p"
  shows "\<exists>f. fallback_classify c uri filename mime p = Inr f \<and>
     reviewable (ec_top_candidates f) \<and> ec_era f \<in> set ERA_CATALOG \<and> ec_provider_error f = None"
proof -
  obtain m where m: "m \<in> set CAPTURE_MEDIA" "dget p ''capture_medium'' = Some (JStr m)" "p \<noteq> []"
    using assms by (fastforce simp: known_medium_def one_of_iff jget_def split: option.splits)
  obtain era q grain arts where d: "dget MEDIUM_DEFAULTS m = Some (era, q, grain, arts)"
    using media_known m(1) by (fastforce simp: list_all_iff)
  have "era \<in> set ERA_CATALOG" using medium_eras dget_in_set [OF d] by (auto simp: list_all_iff)
  moreover from fallback_distinct [OF this] obtain x y where
    "fallback_top_candidates era ''1970s Super 8 Film'' = [candidate x (52 / 100), candidate y (41 / 100)]"
    "distinct [era, x, y]" "set [era, x, y] \<subseteq> set ERA_CATALOG" by blast
  then have "reviewable (candidate era r # fallback_top_candidates era ''1970s Super 8 Film'')" for r
    by (auto simp: reviewable_def candidate_def intro!: exI [of _ "[era, x, y]"])
  ultimately have "era \<in> set ERA_CATALOG" "reviewable (candidate era r # fallback_top_candidates era ''1970s Super 8 Film'')" for r
    by blast+
  with m d show ?thesis by (simp add: fallback_classify_def Let_def)
qed

lemma reviewable_normalized:
  assumes "reviewable cs"
  shows "length (normalize_top_candidates c rd cs) = 3"
proof -
  from assms obtain eras where eras: "map (\<lambda>c. jget c ''era'') cs = map JStr eras" "length eras = 3" "distinct eras"
    "set eras \<subseteq> set ERA_CATALOG" by (auto simp: reviewable_def)
  have canon: "canonicalize_era_label c (JStr e) = Some e" if "e \<in> set ERA_CATALOG" for e
    using catalog_canonical [OF that] by (simp add: canonicalize_era_label_def)
  have "map fst (normalize_candidates c rd False seen cs) = eras"
    if "map (\<lambda>c. jget c ''era'') cs = map JStr eras" "distinct eras" "set eras \<subseteq> set ERA_CATALOG" "set eras \<inter> set seen = {}" for seen
    using that
  proof (induction cs arbitrary: eras seen)
    case Nil
    then show ?case by simp
  next
    case (Cons x cs)
    then obtain e es where e: "eras = e # es" by (cases eras) auto
    with Cons.prems have "e \<noteq> UNKNOWN_ERA" using unknown_not_in_catalog by auto
    with e Cons.prems Cons.IH [of es "e # seen"] show ?case by (auto simp: canon)
  qed
  from this [of "[]"] eras show ?thesis by (metis length_map inf_bot_right list.set(1) normalize_top_candidates_def)
qed

lemma fill_candidates_distinct: "distinct (map fst chosen) \<Longrightarrow> distinct (map fst (fill_candidates chosen items))"
  by (induction chosen items rule: fill_candidates.induct) (auto simp: Let_def)

lemma add_candidate: "fst ` set (if fst item \<in> fst ` set chosen then chosen else chosen @ [item]) = insert (fst item) (fst ` set chosen)"
  by auto

lemma fill_candidates_range:
  "fst ` set chosen \<subseteq> fst ` set (fill_candidates chosen items) \<and>
   fst ` set (fill_candidates chosen items) \<subseteq> fst ` set chosen \<union> fst ` set items \<and>
   (length (fill_candidates chosen items) = 3 \<or> fst ` set items \<subseteq> fst ` set (fill_candidates chosen items))"
proof (induction chosen items rule: fill_candidates.induct)
  case (1 chosen)
  then show ?case by simp
next
  case (2 chosen item items)
  define chosen' where "chosen' = (if fst item \<in> fst ` set chosen then chosen else chosen @ [item])"
  have more: "fst ` set chosen' = insert (fst item) (fst ` set chosen)" unfolding chosen'_def by (rule add_candidate)
  have step: "fill_candidates chosen (item # items) = (if length chosen' = 3 then chosen' else fill_candidates chosen' items)"
    by (simp add: chosen'_def Let_def)
  show ?case
  proof (cases "length chosen' = 3")
    case True
    with step more show ?thesis by auto
  next
    case False
    with 2 [OF chosen'_def] step more show ?thesis by auto
  qed
qed

lemma fill_candidates_three:
  assumes "distinct (map fst chosen)" "distinct (map fst items)" "length items = 3"
  shows "3 \<le> length (fill_candidates chosen items)"
proof (cases "length (fill_candidates chosen items) = 3")
  case False
  then have "fst ` set items \<subseteq> fst ` set (fill_candidates chosen items)" using fill_candidates_range by blast
  then have "card (fst ` set items) \<le> card (fst ` set (fill_candidates chosen items))" by (simp add: card_mono)
  moreover have "card (fst ` set items) = 3" using assms distinct_card [of "map fst items"] by simp
  moreover have "card (fst ` set (fill_candidates chosen items)) \<le> length (fill_candidates chosen items)"
    by (metis card_length length_map set_map)
  ultimately show ?thesis by simp
qed simp

lemma review_reviewable:
  assumes "reviewable fb" and "\<And>e. primary = Some e \<Longrightarrow> e \<in> set ERA_CATALOG"
  shows "reviewable (as_candidates (review_candidates c rd cls fb primary))"
proof -
  define norm where "norm = normalize_top_candidates c rd (ec_top_candidates cls)"
  define items where "items = normalize_top_candidates c rd fb"
  define chosen where "chosen = (case primary of
     Some e \<Rightarrow> if e \<in> set ERA_CATALOG \<and> e \<notin> fst ` set norm then (e, py_round 2 (ec_confidence cls)) # norm else norm
   | None \<Rightarrow> norm)"
  have n: "distinct (map fst norm)" "fst ` set norm \<subseteq> set ERA_CATALOG" "distinct (map fst items)" "fst ` set items \<subseteq> set ERA_CATALOG"
    using normalize_candidates_ok [of c rd False "[]"] by (auto simp: norm_def items_def normalize_top_candidates_def)
  then have ch: "distinct (map fst chosen)" "fst ` set chosen \<subseteq> set ERA_CATALOG"
    using assms(2) by (auto simp: chosen_def split: option.splits)
  define xs where "xs = take 3 (fill_candidates chosen items)"
  have "length items = 3" unfolding items_def by (rule reviewable_normalized [OF assms(1)])
  then have "length xs = 3" using fill_candidates_three [OF ch(1) n(3)] by (simp add: xs_def)
  moreover have "distinct (map fst xs)"
    using fill_candidates_distinct [OF ch(1), of items] by (simp add: xs_def take_map [symmetric] distinct_take)
  moreover have "fst ` set xs \<subseteq> set ERA_CATALOG"
  proof -
    have "fst ` set xs \<subseteq> fst ` set (fill_candidates chosen items)" unfolding xs_def by (rule image_mono [OF set_take_subset])
    also have "\<dots> \<subseteq> fst ` set chosen \<union> fst ` set items" using fill_candidates_range by blast
    finally show ?thesis using ch(2) n(4) by blast
  qed
  moreover have "map (\<lambda>c. jget c ''era'') (as_candidates xs) = map JStr (map fst xs)"
    by (auto simp: as_candidates_def candidate_def)
  moreover have "review_candidates c rd cls fb primary = xs"
    by (simp add: review_candidates_def Let_def norm_def [symmetric] items_def [symmetric] xs_def chosen_def)
  ultimately show ?thesis unfolding reviewable_def by (intro exI [of _ "map fst xs"]) simp
qed

text \<open>What classification hands back, for a profile with a known medium.\<close>

definition classified_ok :: "era_classification \<Rightarrow> bool" where
  "classified_ok cls \<longleftrightarrow> reviewable (ec_top_candidates cls) \<and> (provider_failed cls \<or> ec_era cls \<in> set ERA_CATALOG)"

lemma normalize_classified:
  "normalize_classification env cls uri filename mime p = Inr cls' \<Longrightarrow> known_medium p \<Longrightarrow> classified_ok cls'"
  using fallback_reviewable [of p "ee_codec env" uri filename mime]
  by (auto simp: normalize_classification_def classified_ok_def provider_failed_def Let_def
      intro!: review_reviewable dest: canonical_in_catalog split: option.splits if_splits)

lemma classify_era_ok:
  assumes run: "classify_era env jid uri filename mime p s = (Inr cls, t)" and medium: "known_medium p"
  shows "classified_ok cls"
proof -
  obtain f where f: "fallback_classify (ee_codec env) uri filename mime p = Inr f" "reviewable (ec_top_candidates f)"
    using fallback_reviewable [OF medium] by blast
  have fallback: "classified_ok (f\<lparr>ec_provider_error := Some m\<rparr>)" if "m \<noteq> []" for m
    using f(2) that by (simp add: classified_ok_def provider_failed_def)
  have "wp (classify_era env jid uri filename mime p) (\<lambda>c _. classified_ok c) (\<lambda>_ _. True) s"
    unfolding classify_era_def wp_catchE wp_bindE
    by (rule wp_mono [OF wp_top])
      (auto simp: wp_simps fallback f(1) split: sum.splits intro: normalize_classified [OF _ medium])
  with run show ?thesis by (simp add: wp_def)
qed

section \<open>Property\<close>

lemma py_round_70: "py_round 2 (70 / 100) = 70 / 100"
  by (rule py_round_exact [of _ _ 70]) simp

text \<open>
  C15: An era is asserted only with confidence or on the user's word, and otherwise put to review. Take
  any analysis that returns, for a file without an era profile or with one that names a known capture
  medium, whatever the provider answered or if it failed. Without a manual override it either names an
  era of the catalog with a confidence of at least 0.70 and without candidates, or says the era is
  unknown, asks for manual confirmation, and offers exactly three different eras of the catalog to choose
  from. With an override, which must come with a reason, it names the era of the catalog that the
  override stands for, marked and warned of as the user's, whatever the confidence; where that is low,
  the three candidates are offered too.
\<close>

theorem analysis_certain_or_reviewable:
  assumes "analyze_media env jid uri filename mime override reason profile s = (Inr v, t)"
    and "profile = [] \<or> one_of (jget profile ''capture_medium'') CAPTURE_MEDIA"
  shows "if override \<in> {None, Some []}
    then dv_source v = ''system'' \<and>
      (dv_manual_confirmation_required v \<and> dv_era v = UNKNOWN_ERA \<and> reviewable (dv_top_candidates v) \<or>
       dv_era v \<in> set ERA_CATALOG \<and> 70 / 100 \<le> dv_confidence v \<and> dv_top_candidates v = [])
    else reason \<notin> {None, Some []} \<and>
      canonicalize_era_label (ee_codec env) (JStr (the override)) = Some (dv_era v) \<and> dv_era v \<in> set ERA_CATALOG \<and>
      dv_source v = ''user_override'' \<and> dv_warnings v = [override_warning] \<and> \<not> dv_manual_confirmation_required v \<and>
      (reviewable (dv_top_candidates v) \<or> 70 / 100 \<le> dv_confidence v \<and> dv_top_candidates v = [])"
proof -
  define p where "p = (if profile = [] then build_default_era_profile uri filename mime else profile)"
  obtain cls u where cls: "classify_era env jid uri filename mime p s = (Inr cls, u)"
    using assms(1) by (auto simp: analyze_media_def bindE_def Let_def p_def [symmetric] split: prod.splits sum.splits)
  have "known_medium p" using assms(2) default_known_medium by (auto simp: p_def known_medium_def)
  then have ok: "classified_ok cls" by (rule classify_era_ok [OF cls])
  have sure: "70 / 100 \<le> py_round 2 (ec_confidence cls)" if "\<not> low_confidence cls"
    using that py_round_mono [of "70 / 100" "ec_confidence cls" 2] unfolding low_confidence_def not_less py_round_70 by blast
  show ?thesis
  proof (cases "override \<in> {None, Some []}")
    case True
    with assms(1) cls ok sure show ?thesis
      by (cases "provider_failed cls \<or> low_confidence cls")
        (auto simp: analyze_media_def bindE_def ret_def era_call_def classified_ok_def provider_failed_def Let_def
          p_def [symmetric])
  next
    case False
    with assms(1) cls ok sure show ?thesis
      by (cases "low_confidence cls")
        (auto simp: analyze_media_def bindE_def ret_def raise_def era_call_def classified_ok_def Let_def p_def [symmetric]
          dest: canonical_in_catalog split: option.splits if_splits)
  qed
qed

definition sample_era_env :: era_env where
  "sample_era_env = \<lparr>ee_primary = None, ee_codec = plain_codec, ee_float_of_str = (\<lambda>_. None), ee_clock = int, ee_uuid = dec\<rparr>"

definition empty_era_store :: era_store where
  "empty_era_store = \<lparr>era_jobs = [], era_detections = [], es_calls = 0\<rparr>"

lemma sample_analysis:
  "case analyze_media sample_era_env ''upload:1'' ''gs://b/a'' ''mystery.mov'' ''video/quicktime'' None None [] empty_era_store of
     (Inr v, t) \<Rightarrow> dv_manual_confirmation_required v | _ \<Rightarrow> False"
  "case analyze_media sample_era_env ''upload:1'' ''gs://b/a'' ''mystery.mov'' ''video/quicktime'' (Some ''1980s VHS Tape'')
     (Some ''label'') [] empty_era_store of (Inr v, t) \<Rightarrow> dv_confidence v = 61 / 100 | _ \<Rightarrow> False"
proof -
  have medium: "infer_capture_medium ''gs://b/a'' ''mystery.mov'' ''video/quicktime'' = ''super_8''"
    and mystery: "contains ''mystery'' (lower (''gs://b/a'' @ '' '' @ ''mystery.mov''))"
    and vhs: "canonicalize_era_label plain_codec (JStr ''1980s VHS Tape'') = Some ''1980s VHS Tape''"
    and defaults: "dget MEDIUM_DEFAULTS ''super_8'' = Some (''1970s Super 8 Film'', 79 / 100, ''consumer film grain'', [''splices'', ''frame_jitter''])"
    by code_simp+
  have profile: "dget (profile_of_medium ''super_8'') ''capture_medium'' = Some (JStr ''super_8'')" "profile_of_medium ''super_8'' \<noteq> []"
    by (simp_all add: profile_of_medium_def default_profile_def)
  have round: "py_round 2 (61 / 100) = 61 / 100" by (rule py_round_exact [of _ _ 61]) simp
  obtain f where f: "fallback_classify plain_codec ''gs://b/a'' ''mystery.mov'' ''video/quicktime'' (profile_of_medium ''super_8'') = Inr f"
    "ec_confidence f = 61 / 100"
    using mystery by (simp add: fallback_classify_def profile defaults Let_def round min_def)
  note run = analyze_media_def classify_era_def primary_classify_def normalize_classification_def sample_era_env_def
    build_default_era_profile_def medium f low_confidence_def prog_defs era_call_def Let_def
  show "case analyze_media sample_era_env ''upload:1'' ''gs://b/a'' ''mystery.mov'' ''video/quicktime'' None None [] empty_era_store of
     (Inr v, t) \<Rightarrow> dv_manual_confirmation_required v | _ \<Rightarrow> False"
    by (simp add: run split: option.split)
  show "case analyze_media sample_era_env ''upload:1'' ''gs://b/a'' ''mystery.mov'' ''video/quicktime'' (Some ''1980s VHS Tape'')
     (Some ''label'') [] empty_era_store of (Inr v, t) \<Rightarrow> dv_confidence v = 61 / 100 | _ \<Rightarrow> False"
    by (simp add: run vhs round split: option.split)
qed

theorem analysis_certain_or_reviewable_witness:
  "(case analyze_media sample_era_env ''upload:1'' ''gs://b/a'' ''mystery.mov'' ''video/quicktime'' None None [] empty_era_store of
     (Inr v, t) \<Rightarrow> dv_era v = UNKNOWN_ERA \<and> reviewable (dv_top_candidates v) \<or> 70 / 100 \<le> dv_confidence v | _ \<Rightarrow> False) \<and>
   (case analyze_media sample_era_env ''upload:1'' ''gs://b/a'' ''mystery.mov'' ''video/quicktime'' (Some ''1980s VHS Tape'')
      (Some ''label'') [] empty_era_store of
     (Inr v, t) \<Rightarrow> dv_era v \<in> set ERA_CATALOG \<and> dv_confidence v = 61 / 100 \<and> reviewable (dv_top_candidates v) | _ \<Rightarrow> False)"
  using sample_analysis
    analysis_certain_or_reviewable [of sample_era_env "''upload:1''" "''gs://b/a''" "''mystery.mov''" "''video/quicktime''" None None "[]" empty_era_store]
    analysis_certain_or_reviewable [of sample_era_env "''upload:1''" "''gs://b/a''" "''mystery.mov''" "''video/quicktime''"
      "Some ''1980s VHS Tape''" "Some ''label''" "[]" empty_era_store]
  by (auto split: prod.splits sum.splits)

end
