(* ===== verification/Configuration.thy ===== *)
theory Configuration
  imports Fingerprint Era_Detection
begin

text \<open>
  \<open>ConfigurationService\<close> of \<open>app/services/configuration_service.py\<close> with the user profiles behind it
  (\<open>_MemoryUserProfileRepository\<close>): detecting the era of an upload, and saving the configuration from which
  previews and jobs are launched. Labels of the catalogs and the logger are left out.
\<close>

section \<open>User profiles\<close>

record user_profile =
  pf_user_id :: string
  pf_email :: string
  pf_role :: string
  pf_plan_tier :: string
  pf_org_id :: string
  pf_display_name :: "string option"
  pf_avatar_url :: "string option"
  pf_preferences :: jdict

type_synonym user_table = "(string, user_profile) pydict"

definition get_or_create_profile ::
  "string \<Rightarrow> string \<Rightarrow> string \<Rightarrow> string \<Rightarrow> string option \<Rightarrow> (user_table, user_profile) prog" where
  "get_or_create_profile user role tier org email = (\<lambda>s.
     (case dget s user of
        Some p \<Rightarrow> (Inr p, s)
      | None \<Rightarrow>
          (let p = \<lparr>pf_user_id = user,
                 pf_email = (case email of Some e \<Rightarrow> if e = [] then user @ ''@example.com'' else e
                             | None \<Rightarrow> user @ ''@example.com''),
                 pf_role = role, pf_plan_tier = tier, pf_org_id = org, pf_display_name = None, pf_avatar_url = None,
                 pf_preferences = []\<rparr>
           in (Inr p, dset user p s))))"

text \<open>The patches of the program: names and avatar where given, and preferences where the patch has them.\<close>

definition update_profile ::
  "string \<Rightarrow> string option \<Rightarrow> string option \<Rightarrow> jdict option \<Rightarrow> (user_table, user_profile) prog" where
  "update_profile user display avatar prefs = (\<lambda>s.
     (case dget s user of
        None \<Rightarrow> (Inl (KeyError user), s)
      | Some p \<Rightarrow>
          (let p' = p\<lparr>pf_display_name := request_patch display (pf_display_name p),
                 pf_avatar_url := request_patch avatar (pf_avatar_url p),
                 pf_preferences := (case prefs of None \<Rightarrow> pf_preferences p | Some d \<Rightarrow> d)\<rparr>
           in (Inr p', dset user p' s))))"

section \<open>The state and the environment\<close>

record config_world =
  cw_uploads :: upload_store
  cw_users :: user_table
  cw_era :: era_store
  cw_billing :: billing_store

record config_env =
  ce_upload :: upload_env
  ce_era :: era_env
  ce_billing :: billing_env

definition on_uploads :: "(upload_store, 'a) prog \<Rightarrow> (config_world, 'a) prog" where
  "on_uploads = zoom cw_uploads (\<lambda>t w. w\<lparr>cw_uploads := t\<rparr>)"

definition on_users :: "(user_table, 'a) prog \<Rightarrow> (config_world, 'a) prog" where
  "on_users = zoom cw_users (\<lambda>t w. w\<lparr>cw_users := t\<rparr>)"

definition on_era :: "(era_store, 'a) prog \<Rightarrow> (config_world, 'a) prog" where
  "on_era = zoom cw_era (\<lambda>t w. w\<lparr>cw_era := t\<rparr>)"

definition on_pricing :: "(billing_store, 'a) prog \<Rightarrow> (config_world, 'a) prog" where
  "on_pricing = zoom cw_billing (\<lambda>t w. w\<lparr>cw_billing := t\<rparr>)"

definition config_codec :: "config_env \<Rightarrow> codec" where
  "config_codec env = ue_codec (ce_upload env)"

section \<open>Preferences\<close>

definition canonical_plan_tier :: "string \<Rightarrow> string" where
  "canonical_plan_tier tier =
     (let t = lower (strip tier) in
      if t = ''hobbyist'' then ''Hobbyist'' else if t = ''pro'' then ''Pro'' else if t = ''museum'' then ''Museum'' else ''Pro'')"

definition persona_of_value :: "string \<Rightarrow> user_persona option" where
  "persona_of_value s =
     (if s = ''archivist'' then Some ARCHIVIST else if s = ''filmmaker'' then Some FILMMAKER
      else if s = ''prosumer'' then Some PROSUMER else None)"

fun persona_value :: "user_persona \<Rightarrow> string" where
  "persona_value ARCHIVIST = ''archivist''"
| "persona_value FILMMAKER = ''filmmaker''"
| "persona_value PROSUMER = ''prosumer''"

definition grain_of_value :: "string \<Rightarrow> grain_preset option" where
  "grain_of_value s =
     (if s = ''Matched'' then Some MATCHED else if s = ''Subtle'' then Some SUBTLE
      else if s = ''Heavy'' then Some HEAVY else None)"

definition tier_option :: "string \<Rightarrow> fidelity_tier option" where
  "tier_option s = (case tier_of_value s of Inr t \<Rightarrow> Some t | Inl _ \<Rightarrow> None)"

text \<open>\<open>_safe_persona\<close>, \<open>_safe_tier\<close>, \<open>_safe_grain\<close>: what cannot be read counts as absent.\<close>

definition safe_value :: "codec \<Rightarrow> (string \<Rightarrow> 'a option) \<Rightarrow> json \<Rightarrow> 'a option" where
  "safe_value c f raw = (if truthy raw then f (py_str c raw) else None)"

definition fidelity_preferences :: "user_profile \<Rightarrow> jdict" where
  "fidelity_preferences p = mapping_of (jget (pf_preferences p) ''fidelity_configuration'')"

definition persona_from_preferences :: "codec \<Rightarrow> user_profile \<Rightarrow> user_persona option" where
  "persona_from_preferences c p = safe_value c persona_of_value (jget (fidelity_preferences p) ''persona'')"

definition preferred_tier_from_preferences :: "codec \<Rightarrow> user_profile \<Rightarrow> fidelity_tier option" where
  "preferred_tier_from_preferences c p = safe_value c tier_option (jget (fidelity_preferences p) ''preferred_fidelity_tier'')"

definition preferred_grain_from_preferences :: "codec \<Rightarrow> user_profile \<Rightarrow> grain_preset option" where
  "preferred_grain_from_preferences c p = safe_value c grain_of_value (jget (fidelity_preferences p) ''preferred_grain_preset'')"

definition merge_fidelity_preferences :: "user_profile \<Rightarrow> user_persona \<Rightarrow> fidelity_tier \<Rightarrow> grain_preset \<Rightarrow> jdict" where
  "merge_fidelity_preferences p persona tier grain =
     dset ''fidelity_configuration''
       (JObj (dset ''preferred_grain_preset'' (JStr (grain_value grain))
          (dset ''preferred_fidelity_tier'' (JStr (tier_value tier))
          (dset ''persona'' (JStr (persona_value persona)) (fidelity_preferences p)))))
       (pf_preferences p)"

section \<open>Plans\<close>

definition allowed_tiers_for_plan :: "config_env \<Rightarrow> string \<Rightarrow> (config_world, fidelity_tier list) prog" where
  "allowed_tiers_for_plan env tier =
     or_pricing_problem (bindE (on_pricing (allowed_fidelity_tiers_for_plan (ce_billing env) tier)) (\<lambda>names.
       liftR (map_res tier_of_value names)))"

definition coerce_tier_for_plan ::
  "config_env \<Rightarrow> fidelity_tier option \<Rightarrow> string \<Rightarrow> (config_world, fidelity_tier option) prog" where
  "coerce_tier_for_plan env tier plan =
     (case tier of
        None \<Rightarrow> ret None
      | Some t \<Rightarrow> bindE (allowed_tiers_for_plan env plan) (\<lambda>ts. ret (Some (if t \<in> set ts then t else ENHANCE))))"

definition plan_resolution_cap :: "config_env \<Rightarrow> string \<Rightarrow> (config_world, string) prog" where
  "plan_resolution_cap env plan = or_pricing_problem (on_pricing (resolution_cap_for_plan (ce_billing env) plan))"

definition catalog_preferred_tier :: "config_env \<Rightarrow> user_profile \<Rightarrow> string \<Rightarrow> (config_world, fidelity_tier option) prog" where
  "catalog_preferred_tier env p plan =
     bindE (coerce_tier_for_plan env (preferred_tier_from_preferences (config_codec env) p) plan) (\<lambda>preferred.
     ret (case preferred of
            Some t \<Rightarrow> Some t
          | None \<Rightarrow> if lower (strip plan) = ''hobbyist'' then Some ENHANCE else None))"

definition catalog_preferred_grain :: "config_env \<Rightarrow> user_profile \<Rightarrow> string \<Rightarrow> (config_world, grain_preset option) prog" where
  "catalog_preferred_grain env p plan =
     bindE (catalog_preferred_tier env p plan) (\<lambda>tier.
     ret (case tier of
            None \<Rightarrow> None
          | Some t \<Rightarrow>
              (case preferred_grain_from_preferences (config_codec env) p of
                 Some g \<Rightarrow> if g \<in> set (allowed_grain_presets_for_tier t) then Some g else Some (default_grain (fidelity_profile_for t))
               | None \<Rightarrow> Some (default_grain (fidelity_profile_for t)))))"

definition resolve_detection_tier_hint :: "config_env \<Rightarrow> user_profile \<Rightarrow> string \<Rightarrow> (config_world, fidelity_tier) prog" where
  "resolve_detection_tier_hint env p plan =
     bindE (coerce_tier_for_plan env (preferred_tier_from_preferences (config_codec env) p) plan) (\<lambda>preferred.
     case preferred of
       Some t \<Rightarrow> ret t
     | None \<Rightarrow>
         bindE (coerce_tier_for_plan env
             (Some (case persona_from_preferences (config_codec env) p of
                      Some persona \<Rightarrow> default_tier_for_persona persona | None \<Rightarrow> RESTORE)) plan) (\<lambda>t.
         ret (case t of Some t' \<Rightarrow> t' | None \<Rightarrow> ENHANCE)))"

definition ensure_plan_supports_fidelity_tier :: "config_env \<Rightarrow> fidelity_tier \<Rightarrow> string \<Rightarrow> (config_world, unit) prog" where
  "ensure_plan_supports_fidelity_tier env tier plan =
     bindE (allowed_tiers_for_plan env plan) (\<lambda>ts.
     if tier \<in> set ts then ret () else raise (ProblemException ''Plan Upgrade Required'' 403))"

definition ensure_plan_supports_capture_medium :: "config_env \<Rightarrow> string \<Rightarrow> string \<Rightarrow> (config_world, unit) prog" where
  "ensure_plan_supports_capture_medium env medium plan =
     bindE (plan_resolution_cap env plan) (\<lambda>cap.
     if cap \<noteq> ''1080p'' then ret ()
     else if medium \<notin> {''daguerreotype'', ''albumen''} then ret ()
     else raise (ProblemException ''Plan Upgrade Required'' 403))"

section \<open>Reading a detection snapshot\<close>

definition require_completed_upload :: "upload_session option \<Rightarrow> (config_world, upload_session) prog" where
  "require_completed_upload found =
     (case found of
        None \<Rightarrow> raise (ProblemException ''Not Found'' 404)
      | Some r \<Rightarrow> if us_status r \<noteq> UploadCompleted then raise (ProblemException ''Upload Not Ready'' 409) else ret r)"

definition json_of_option :: "string option \<Rightarrow> json" where
  "json_of_option v = (case v of None \<Rightarrow> JNull | Some s \<Rightarrow> JStr s)"

text \<open>\<open>UploadConfigurationRequest\<close>, whose first two fields a detection request does not have.\<close>

record detection_request =
  dq_estimated_duration_seconds :: int
  dq_manual_override_era :: "string option"
  dq_override_reason :: "string option"

record configuration_request = detection_request +
  dq_persona :: "user_persona option"
  dq_fidelity_tier :: fidelity_tier
  dq_grain_preset :: grain_preset

definition stored_detection_matches_request :: "jdict \<Rightarrow> 'a detection_request_scheme \<Rightarrow> bool" where
  "stored_detection_matches_request stored q \<longleftrightarrow>
     jget stored ''estimated_duration_seconds'' = JInt (dq_estimated_duration_seconds q) \<and>
     jget stored ''manual_override_era'' = json_of_option (dq_manual_override_era q) \<and>
     jget stored ''override_reason'' = json_of_option (dq_override_reason q)"

definition ERA_CAPTURE_MEDIUM :: "(string, string) pydict" where
  "ERA_CAPTURE_MEDIUM =
     [(''1840s Daguerreotype Plate'', ''daguerreotype''), (''1860s Albumen Print'', ''albumen''), (''1930s 16mm Film'', ''16mm''),
      (''1950s Kodachrome Film'', ''kodachrome''), (''1960s Kodachrome Film'', ''kodachrome''),
      (''1970s Super 8 Film'', ''super_8''), (''1980s VHS Tape'', ''vhs''), (''1990s VHS Tape'', ''vhs'')]"

definition ERA_RANGE :: "(string, int \<times> int) pydict" where
  "ERA_RANGE =
     [(''1840s Daguerreotype Plate'', 1840, 1849), (''1860s Albumen Print'', 1860, 1869), (''1930s 16mm Film'', 1930, 1939),
      (''1950s Kodachrome Film'', 1950, 1959), (''1960s Kodachrome Film'', 1960, 1969),
      (''1970s Super 8 Film'', 1970, 1979), (''1980s VHS Tape'', 1980, 1989), (''1990s VHS Tape'', 1990, 1999)]"

text \<open>\<open>str(top_candidates[0].get("era") or "")\<close> where there are candidates.\<close>

definition first_candidate_era :: "codec \<Rightarrow> json \<Rightarrow> string option result" where
  "first_candidate_era c v =
     (if \<not> truthy v then Inr None
      else (case v of
              JList (JObj d # _) \<Rightarrow> Inr (Some (str_or_empty c (jget d ''era'')))
            | JList _ \<Rightarrow> Inl (AttributeError ''get'')
            | JStr _ \<Rightarrow> Inl (AttributeError ''get'')
            | JObj _ \<Rightarrow> Inl (KeyError ''0'')
            | _ \<Rightarrow> Inl (TypeError ''not subscriptable'')))"

definition capture_medium_for_detection :: "codec \<Rightarrow> upload_session \<Rightarrow> jdict \<Rightarrow> string result" where
  "capture_medium_for_detection c r snap =
     (let era = str_or_empty c (jget snap ''era'') in
      if era \<noteq> [] \<and> era \<noteq> UNKNOWN_ERA \<and> era \<in> fst ` set ERA_CAPTURE_MEDIUM then Inr (the (dget ERA_CAPTURE_MEDIUM era))
      else
        bind_res (first_candidate_era c (jget snap ''top_candidates'')) (\<lambda>candidate_era.
        Inr (case candidate_era of
               Some e \<Rightarrow> (case dget ERA_CAPTURE_MEDIUM e of
                  Some medium \<Rightarrow> medium
                | None \<Rightarrow> infer_capture_medium (us_media_uri r) (us_original_filename r) (us_mime_type r))
             | None \<Rightarrow> infer_capture_medium (us_media_uri r) (us_original_filename r) (us_mime_type r))))"

definition range_of_medium :: "string \<Rightarrow> int \<times> int" where
  "range_of_medium medium =
     (if medium = ''daguerreotype'' then (1840, 1849) else if medium = ''albumen'' then (1860, 1869)
      else if medium = ''16mm'' then (1930, 1939) else if medium = ''kodachrome'' then (1955, 1969)
      else if medium = ''vhs'' then (1980, 1999) else (1970, 1979))"

definition era_range_for_detection :: "codec \<Rightarrow> string \<Rightarrow> jdict \<Rightarrow> (int \<times> int) result" where
  "era_range_for_detection c medium snap =
     (case dget ERA_RANGE (str_or_empty c (jget snap ''era'')) of
        Some years \<Rightarrow> Inr years
      | None \<Rightarrow>
          bind_res (first_candidate_era c (jget snap ''top_candidates'')) (\<lambda>candidate_era.
          Inr (case candidate_era of
                 Some e \<Rightarrow> (case dget ERA_RANGE e of Some years \<Rightarrow> years | None \<Rightarrow> range_of_medium medium)
               | None \<Rightarrow> range_of_medium medium)))"

definition build_detection_snapshot ::
  "string \<Rightarrow> detection_view \<Rightarrow> upload_session \<Rightarrow> int \<Rightarrow> string option \<Rightarrow> string option \<Rightarrow> int \<Rightarrow> string \<Rightarrow> jdict" where
  "build_detection_snapshot uid d r duration override reason usage medium =
     [(''detection_id'', JStr (dv_detection_id d)), (''job_id'', JStr (dv_job_id d)), (''upload_id'', JStr uid),
      (''era'', JStr (dv_era d)), (''confidence'', JFloat (dv_confidence d)),
      (''manual_confirmation_required'', JBool (dv_manual_confirmation_required d)),
      (''top_candidates'', JList (map JObj (dv_top_candidates d))), (''forensic_markers'', JObj (dv_forensic_markers d)),
      (''warnings'', JList (map JStr (dv_warnings d))), (''processing_timestamp'', JStr (isoformat (dv_processing_timestamp d))),
      (''source'', JStr (dv_source d)), (''model_version'', JStr (dv_model_version d)),
      (''prompt_version'', JStr (dv_prompt_version d)), (''estimated_usage_minutes'', JInt usage),
      (''estimated_duration_seconds'', JInt duration), (''manual_override_era'', json_of_option override),
      (''override_reason'', json_of_option reason), (''capture_medium'', JStr medium), (''media_uri'', JStr (us_media_uri r)),
      (''original_filename'', JStr (us_original_filename r)), (''mime_type'', JStr (us_mime_type r))]"

text \<open>\<open>d[k]\<close>\<close>

definition jitems :: "jdict \<Rightarrow> string list \<Rightarrow> jdict result" where
  "jitems d ks = map_res (\<lambda>k. bind_res (jitem d k) (\<lambda>v. Inr (k, v))) ks"

definition public_detection_response :: "jdict \<Rightarrow> jdict result" where
  "public_detection_response snap =
     jitems snap [''upload_id'', ''detection_id'', ''job_id'', ''era'', ''confidence'', ''manual_confirmation_required'',
       ''top_candidates'', ''forensic_markers'', ''warnings'', ''processing_timestamp'', ''source'', ''model_version'',
       ''prompt_version'', ''estimated_usage_minutes'']"

section \<open>The era profile of a configuration\<close>

definition preview_era_profile ::
  "string \<Rightarrow> fidelity_tier \<Rightarrow> grain_preset \<Rightarrow> string \<Rightarrow> string \<Rightarrow> rat \<Rightarrow> int \<times> int \<Rightarrow> rat \<Rightarrow> bool \<Rightarrow> jdict" where
  "preview_era_profile medium tier grain plan cap limit years confidence confirm =
     [(''capture_medium'', JStr medium), (''mode'', JStr (tier_value tier)), (''tier'', JStr (canonical_plan_tier plan)),
      (''resolution_cap'', JStr cap), (''hallucination_limit'', JFloat limit),
      (''artifact_policy'', JObj [(''deinterlace'', JBool (medium = ''vhs'')), (''grain_intensity'', JStr (grain_value grain)),
         (''preserve_edge_fog'', JBool (tier = CONSERVE)), (''preserve_chromatic_aberration'', JBool (tier = CONSERVE))]),
      (''era_range'', JObj [(''start_year'', JInt (fst years)), (''end_year'', JInt (snd years))]),
      (''gemini_confidence'', JFloat confidence), (''manual_confirmation_required'', JBool confirm)]"

definition validation_failed :: exn where
  "validation_failed = ProblemException ''Configuration Validation Failed'' 400"

definition build_preview_era_profile ::
  "config_env \<Rightarrow> upload_session \<Rightarrow> jdict \<Rightarrow> fidelity_tier \<Rightarrow> grain_preset \<Rightarrow> string \<Rightarrow> (config_world, jdict) prog" where
  "build_preview_era_profile env r snap tier grain plan =
     (let c = config_codec env; rd = ee_float_of_str (ce_era env);
          limit = (if lower (strip plan) = ''hobbyist'' \<and> tier = ENHANCE then 25 / 100
                   else hallucination_limit_max (fidelity_profile_for tier)) in
      bindE (liftR (capture_medium_for_detection c r snap)) (\<lambda>medium.
      bindE (plan_resolution_cap env plan) (\<lambda>cap.
      bindE (liftR (era_range_for_detection c medium snap)) (\<lambda>years.
      bindE (liftR (bind_res (jitem snap ''confidence'') (to_float rd))) (\<lambda>confidence.
      bindE (liftR (jitem snap ''manual_confirmation_required'')) (\<lambda>confirm.
      let p = preview_era_profile medium tier grain plan cap limit years confidence (truthy confirm) in
      if is_valid (validate_era_profile c rd p) then ret p else raise validation_failed))))))"


section \<open>Detection\<close>

definition override_detection_view :: "config_env \<Rightarrow> string \<Rightarrow> detection_view \<Rightarrow> (config_world, detection_view) prog" where
  "override_detection_view env era base =
     bindE (on_uploads (call (ue_uuid (ce_upload env)))) (\<lambda>new_id.
     bindE (on_uploads (call (ue_clock (ce_upload env)))) (\<lambda>now.
     ret (base\<lparr>dv_detection_id := new_id,
       dv_era := the (canonicalize_era_label (config_codec env) (JStr era)),
       dv_manual_confirmation_required := False, dv_warnings := [override_warning], dv_source := ''user_override'',
       dv_processing_timestamp := now\<rparr>)))"

text \<open>\<open>str(v) if v else None\<close>\<close>

definition non_empty :: "string option \<Rightarrow> string option" where
  "non_empty v = (if v = Some [] then None else v)"

definition detect_and_persist ::
  "config_env \<Rightarrow> string \<Rightarrow> upload_session \<Rightarrow> user_profile \<Rightarrow> string \<Rightarrow> 'a detection_request_scheme \<Rightarrow> string \<Rightarrow>
   (config_world, jdict) prog" where
  "detect_and_persist env uid r profile plan q owner =
     (let override = non_empty (dq_manual_override_era q); reason = non_empty (dq_override_reason q) in
      if override \<noteq> None \<and> reason = None then raise (ProblemException ''Override Reason Required'' 400)
      else if override \<noteq> None \<and> \<not> is_supported_era (config_codec env) (JStr (the override))
      then raise (ProblemException ''Unsupported Era Override'' 400)
      else
        bindE (on_era (analyze_media (ce_era env) (''upload:'' @ uid) (us_media_uri r) (us_original_filename r)
                 (us_mime_type r) None None [])) (\<lambda>base.
        if override \<noteq> None \<and> 70 / 100 \<le> dv_confidence base
        then raise (ProblemException ''Manual Override Not Allowed'' 400)
        else
          bindE (case override of None \<Rightarrow> ret base | Some e \<Rightarrow> override_detection_view env e base) (\<lambda>d.
          bindE (resolve_detection_tier_hint env profile plan) (\<lambda>hint.
          let usage = billable_minutes_for_duration (dq_estimated_duration_seconds q) (tier_value hint) in
          bindE (liftR (capture_medium_for_detection (config_codec env) r
                   [(''era'', JStr (dv_era d)), (''top_candidates'', JList (map JObj (dv_top_candidates d)))])) (\<lambda>medium.
          let snap = build_detection_snapshot uid d r (dq_estimated_duration_seconds q) override reason usage medium in
          bindE (on_uploads (update_session (ce_upload env) uid owner (\<lambda>x. x\<lparr>detection_snapshot := snap\<rparr>))) (\<lambda>updated.
          if updated = None then raise (ProblemException ''Era Detection Failed'' 500) else ret snap))))))"

definition detect_upload_era ::
  "config_env \<Rightarrow> string \<Rightarrow> string \<Rightarrow> string \<Rightarrow> string \<Rightarrow> string \<Rightarrow> 'a detection_request_scheme \<Rightarrow> (config_world, jdict) prog" where
  "detect_upload_era env uid user role plan org q =
     bindE (on_users (get_or_create_profile user role plan org None)) (\<lambda>profile.
     bindE (on_uploads (get_session uid (Some user))) (\<lambda>found.
     bindE (require_completed_upload found) (\<lambda>r.
     bindE (detect_and_persist env uid r profile plan q user) (\<lambda>snap.
     liftR (public_detection_response snap)))))"

section \<open>The catalog\<close>

record catalog_view =
  cv_personas :: "(user_persona \<times> fidelity_tier) list"
  cv_tiers :: "fidelity_tier list"
  cv_grain_presets :: "grain_preset list"
  cv_current_persona :: "user_persona option"
  cv_preferred_tier :: "fidelity_tier option"
  cv_preferred_grain :: "grain_preset option"

fun mapE :: "('x \<Rightarrow> ('s, 'y) prog) \<Rightarrow> 'x list \<Rightarrow> ('s, 'y list) prog" where
  "mapE f [] = ret []"
| "mapE f (x # xs) = bindE (f x) (\<lambda>y. bindE (mapE f xs) (\<lambda>ys. ret (y # ys)))"

definition list_fidelity_tiers :: "config_env \<Rightarrow> string \<Rightarrow> string \<Rightarrow> string \<Rightarrow> string \<Rightarrow> (config_world, catalog_view) prog" where
  "list_fidelity_tiers env user role plan org =
     bindE (on_users (get_or_create_profile user role plan org None)) (\<lambda>profile.
     bindE (catalog_preferred_tier env profile plan) (\<lambda>tier.
     bindE (catalog_preferred_grain env profile plan) (\<lambda>grain.
     bindE (mapE (\<lambda>persona. bindE (coerce_tier_for_plan env (Some (default_tier_for_persona persona)) plan) (\<lambda>t.
              ret (persona, the t))) [ARCHIVIST, FILMMAKER, PROSUMER]) (\<lambda>personas.
     bindE (mapE (\<lambda>t. bindE (allowed_tiers_for_plan env plan) (\<lambda>ts. ret (t, t \<in> set ts))) [ENHANCE, RESTORE, CONSERVE]) (\<lambda>tiers.
     ret \<lparr>cv_personas = personas, cv_tiers = map fst (filter snd tiers), cv_grain_presets = [MATCHED, SUBTLE, HEAVY],
       cv_current_persona = persona_from_preferences (config_codec env) profile, cv_preferred_tier = tier,
       cv_preferred_grain = grain\<rparr>)))))"

section \<open>Saving a configuration\<close>

fun relative_processing_time_band_for_tier :: "fidelity_tier \<Rightarrow> string" where
  "relative_processing_time_band_for_tier ENHANCE = ''<2 min/min''"
| "relative_processing_time_band_for_tier RESTORE = ''<4 min/min''"
| "relative_processing_time_band_for_tier CONSERVE = ''<8 min/min''"

definition job_config :: "user_persona \<Rightarrow> fidelity_tier \<Rightarrow> grain_preset \<Rightarrow> string \<Rightarrow> jdict \<Rightarrow> jdict" where
  "job_config persona tier grain stamp detection =
     [(''persona'', JStr (persona_value persona)), (''grain_preset'', JStr (grain_value grain)),
      (''relative_cost_multiplier'', JFloat (relative_cost_multiplier_for_tier tier)),
      (''relative_processing_time_band'', JStr (relative_processing_time_band_for_tier tier)),
      (''configured_at'', JStr stamp), (''detection_snapshot'', JObj detection),
      (''fidelity_overrides'', JObj [(''grain_intensity'', JStr (grain_value grain))])]"

definition approved_preview_context :: "string \<Rightarrow> string \<Rightarrow> json" where
  "approved_preview_context uid fp =
     JObj [(''source'', JStr ''approved_preview''), (''upload_id'', JStr uid), (''configuration_fingerprint'', JStr fp)]"

text \<open>\<open>JobCreateRequest.model_validate(...).model_dump()\<close>; pydantic's error is a \<open>ValueError\<close>.\<close>

definition job_create_payload ::
  "upload_session \<Rightarrow> string \<Rightarrow> int \<Rightarrow> fidelity_tier \<Rightarrow> jdict \<Rightarrow> jdict \<Rightarrow> string \<Rightarrow> jdict result" where
  "job_create_payload r uid duration tier era cfg fp =
     (let checksum = (case us_checksum r of Some x \<Rightarrow> if x = [] then filter (\<lambda>ch. ch \<noteq> CHR ''-'') uid else x
                      | None \<Rightarrow> filter (\<lambda>ch. ch \<noteq> CHR ''-'') uid) in
      if duration < 1 \<or> length checksum < 8 \<or> uid = [] \<or> length fp \<noteq> 64 then Inl (ValueError ''JobCreateRequest'')
      else Inr [(''media_uri'', JStr (us_media_uri r)), (''original_filename'', JStr (us_original_filename r)),
             (''mime_type'', JStr (us_mime_type r)), (''estimated_duration_seconds'', JInt duration),
             (''source_asset_checksum'', JStr checksum), (''fidelity_tier'', JStr (tier_value tier)),
             (''reproducibility_mode'', JStr ''perceptual_equivalence''), (''processing_mode'', JStr ''balanced''),
             (''era_profile'', JObj era), (''config'', JObj cfg), (''launch_context'', approved_preview_context uid fp)])"

definition placeholder_fingerprint :: string where
  "placeholder_fingerprint = replicate 64 (CHR ''0'')"

record configuration_view =
  cfv_status :: upload_status
  cfv_persona :: user_persona
  cfv_detection :: jdict
  cfv_resolved :: resolved_fidelity
  cfv_job_payload :: jdict
  cfv_configured_at :: string
  cfv_fingerprint :: string

definition launch_config_of ::
  "string \<Rightarrow> user_persona \<Rightarrow> fidelity_tier \<Rightarrow> grain_preset \<Rightarrow> jdict \<Rightarrow> jdict \<Rightarrow> string \<Rightarrow> jdict" where
  "launch_config_of uid persona tier grain snap job fp =
     [(''upload_id'', JStr uid), (''persona'', JStr (persona_value persona)), (''fidelity_tier'', JStr (tier_value tier)),
      (''grain_preset'', JStr (grain_value grain)),
      (''relative_cost_multiplier'', JFloat (relative_cost_multiplier_for_tier tier)),
      (''relative_processing_time_band'', JStr (relative_processing_time_band_for_tier tier)),
      (''detection_snapshot'', JObj snap), (''job_payload_preview'', JObj job), (''configuration_fingerprint'', JStr fp)]"

text \<open>The detection to configure from: the stored one where it answers the same request, else a new one.\<close>

definition detection_for_configuration ::
  "config_env \<Rightarrow> string \<Rightarrow> upload_session \<Rightarrow> user_profile \<Rightarrow> string \<Rightarrow> 'a detection_request_scheme \<Rightarrow> string \<Rightarrow>
   (config_world, upload_session \<times> jdict) prog" where
  "detection_for_configuration env uid r profile plan q user =
     (if detection_snapshot r \<noteq> [] \<and> stored_detection_matches_request (detection_snapshot r) q
      then ret (r, detection_snapshot r)
      else
        bindE (detect_and_persist env uid r profile plan q user) (\<lambda>snap.
        bindE (on_uploads (get_session uid (Some user))) (\<lambda>found.
        bindE (require_completed_upload found) (\<lambda>r'. ret (r', snap)))))"

text \<open>What is validated and computed before anything is written.\<close>

record prepared_configuration =
  pc_payload :: jdict
  pc_resolved :: resolved_fidelity
  pc_configured_at :: string
  pc_fingerprint :: string

definition prepare_configuration ::
  "config_env \<Rightarrow> string \<Rightarrow> upload_session \<Rightarrow> jdict \<Rightarrow> user_persona \<Rightarrow> configuration_request \<Rightarrow> string \<Rightarrow>
   (config_world, prepared_configuration) prog" where
  "prepare_configuration env uid r snap persona q plan =
     (let c = config_codec env; tier = dq_fidelity_tier q; grain = dq_grain_preset q in
      bindE (liftR (capture_medium_for_detection c r snap)) (\<lambda>medium.
      bindE (ensure_plan_supports_capture_medium env medium plan) (\<lambda>_.
      bindE (build_preview_era_profile env r snap tier grain plan) (\<lambda>era.
      bindE (liftR (resolve_fidelity_profile c (ee_float_of_str (ce_era env)) tier era
               [(''grain_preset'', JStr (grain_value grain)),
                (''fidelity_overrides'', JObj [(''grain_intensity'', JStr (grain_value grain))])])) (\<lambda>resolved.
      bindE (on_uploads (call (ue_clock (ce_upload env)))) (\<lambda>now.
      let stamp = isoformat now in
      bindE (liftR (jitems snap [''detection_id'', ''era'', ''confidence'', ''source''])) (\<lambda>detection.
      bindE (liftR (job_create_payload r uid (dq_estimated_duration_seconds q) tier era
               (job_config persona tier grain stamp detection) placeholder_fingerprint)) (\<lambda>payload0.
      let fp = configuration_fingerprint c stamp payload0 in
      if length fp \<noteq> 64 then raise (ValueError ''JobLaunchContextRequest'')
      else ret \<lparr>pc_payload = dset ''launch_context'' (approved_preview_context uid fp) payload0, pc_resolved = resolved,
             pc_configured_at = stamp, pc_fingerprint = fp\<rparr>))))))))"

definition save_upload_configuration ::
  "config_env \<Rightarrow> string \<Rightarrow> string \<Rightarrow> string \<Rightarrow> string \<Rightarrow> string \<Rightarrow> configuration_request \<Rightarrow>
   (config_world, configuration_view) prog" where
  "save_upload_configuration env uid user role plan org q =
     bindE (on_users (get_or_create_profile user role plan org None)) (\<lambda>profile.
     bindE (on_uploads (get_session uid (Some user))) (\<lambda>found.
     bindE (require_completed_upload found) (\<lambda>r0.
     case (case dq_persona q of Some p \<Rightarrow> Some p | None \<Rightarrow> persona_from_preferences (config_codec env) profile) of
       None \<Rightarrow> raise (ProblemException ''Persona Required'' 400)
     | Some persona \<Rightarrow>
         bindE (ensure_plan_supports_fidelity_tier env (dq_fidelity_tier q) plan) (\<lambda>_.
         if dq_grain_preset q \<notin> set (allowed_grain_presets_for_tier (dq_fidelity_tier q))
         then raise (ProblemException ''Invalid Grain Preset'' 400)
         else
           bindE (detection_for_configuration env uid r0 profile plan q user) (\<lambda>(r, snap).
           bindE (prepare_configuration env uid r snap persona q plan) (\<lambda>pc.
           let cfg = launch_config_of uid persona (dq_fidelity_tier q) (dq_grain_preset q) snap (pc_payload pc) (pc_fingerprint pc) in
           bindE (on_uploads (update_session (ce_upload env) uid user (\<lambda>x.
                    x\<lparr>detection_snapshot := snap, launch_config := cfg, configured_at := Some (pc_configured_at pc)\<rparr>))) (\<lambda>updated.
           case updated of
             None \<Rightarrow> raise (ProblemException ''Configuration Save Failed'' 500)
           | Some u \<Rightarrow>
               bindE (catchE (bindE (on_users (update_profile user None None
                        (Some (merge_fidelity_preferences profile persona (dq_fidelity_tier q) (dq_grain_preset q))))) (\<lambda>_. ret ()))
                        (\<lambda>e. ret ())) (\<lambda>_.
               bindE (liftR (public_detection_response snap)) (\<lambda>detection.
               ret \<lparr>cfv_status = us_status u, cfv_persona = persona, cfv_detection = detection, cfv_resolved = pc_resolved pc,
                 cfv_job_payload = pc_payload pc, cfv_configured_at = pc_configured_at pc,
                 cfv_fingerprint = pc_fingerprint pc\<rparr>)))))))))"

end
