(* ===== verification/Security.thy ===== *)
theory Security
  imports Billing_Store Interfaces
begin

text \<open>
  Log settings and log deletion requests (\<open>app/services/security_service.py\<close>) over their in-memory
  repositories (\<open>_MemoryLogSettingsRepository\<close>, \<open>_MemoryComplianceRepository\<close> of \<open>app/db/phase2_store.py\<close>).
  \<open>uuid4\<close>, the clock and \<open>date.fromisoformat\<close>, which orders dates by their day number, are
  parameters.
\<close>

section \<open>The state and the environment\<close>

record log_setting =
  lg_org_id :: string
  lg_retention_days :: int
  lg_redaction_mode :: string
  lg_categories :: "string list"
  lg_export_targets :: "string list"
  lg_updated_by :: string
  lg_updated_at :: time

record deletion_request =
  dr_id :: string
  dr_proof_id :: string
  dr_user_id :: string
  dr_categories :: "string list"
  dr_entries :: nat
  dr_status :: string
  dr_requested_at :: time

record log_deletion_proof =
  lp_id :: string
  lp_request_id :: string
  lp_user_id :: string
  lp_entries :: nat
  lp_categories :: "string list"
  lp_generated_at :: time

record security_store =
  log_settings :: "(string, log_setting) pydict"
  deletion_requests :: "(string, deletion_request) pydict"
  deletion_proofs :: "(string, log_deletion_proof) pydict"
  sec_calls :: nat

record security_env =
  sec_uuid4 :: "nat \<Rightarrow> string"
  sec_clock :: "nat \<Rightarrow> time"
  date_fromisoformat :: "string \<Rightarrow> int option"

definition sec_call :: "(nat \<Rightarrow> 'a) \<Rightarrow> (security_store, 'a) prog" where
  "sec_call f = (\<lambda>s. (Inr (f (sec_calls s)), s\<lparr>sec_calls := Suc (sec_calls s)\<rparr>))"

section \<open>The repositories\<close>

definition log_settings_upsert ::
  "security_env \<Rightarrow> string \<Rightarrow> int \<Rightarrow> string \<Rightarrow> string list \<Rightarrow> string list \<Rightarrow> string \<Rightarrow> (security_store, log_setting) prog" where
  "log_settings_upsert env org ds mode categories targets by =
     bindE (sec_call (sec_clock env)) (\<lambda>t.
     let r = \<lparr>lg_org_id = org, lg_retention_days = ds, lg_redaction_mode = mode, lg_categories = categories,
           lg_export_targets = targets, lg_updated_by = by, lg_updated_at = t\<rparr>
     in bindE (modifyE (\<lambda>s. s\<lparr>log_settings := dset org r (log_settings s)\<rparr>)) (\<lambda>_. ret r))"

definition log_settings_get :: "string \<Rightarrow> security_store \<Rightarrow> log_setting option" where
  "log_settings_get org s = dget (log_settings s) org"

definition create_deletion_request ::
  "security_env \<Rightarrow> string \<Rightarrow> string list \<Rightarrow> (security_store, deletion_request) prog" where
  "create_deletion_request env user categories =
     bindE (sec_call (sec_uuid4 env)) (\<lambda>rid.
     bindE (sec_call (sec_uuid4 env)) (\<lambda>pid.
     let n = max (length categories) 1 * 12 in
     bindE (sec_call (sec_clock env)) (\<lambda>t1.
     bindE (sec_call (sec_clock env)) (\<lambda>t2.
     let rq = \<lparr>dr_id = rid, dr_proof_id = pid, dr_user_id = user, dr_categories = categories, dr_entries = n,
           dr_status = ''completed'', dr_requested_at = t1\<rparr>;
         pf = \<lparr>lp_id = pid, lp_request_id = rid, lp_user_id = user, lp_entries = n, lp_categories = categories,
           lp_generated_at = t2\<rparr>
     in bindE (modifyE (\<lambda>s. s\<lparr>deletion_requests := dset rid rq (deletion_requests s),
                             deletion_proofs := dset pid pf (deletion_proofs s)\<rparr>)) (\<lambda>_.
     ret rq)))))"

section \<open>The service\<close>

definition LOG_CATEGORIES :: "string list" where
  "LOG_CATEGORIES = [''application_logs'', ''audit_logs'', ''processing_logs'', ''error_traces'', ''billing_logs'']"

definition EXPORT_TARGETS :: "string list" where
  "EXPORT_TARGETS = [''cloud_logging'', ''cloudwatch'', ''splunk'', ''syslog'']"

definition REDACTION_MODES :: "string list" where
  "REDACTION_MODES = [''none'', ''standard'', ''strict'']"

definition supported_export_targets :: "string list" where
  "supported_export_targets = EXPORT_TARGETS"

definition invalid_log_settings :: exn where
  "invalid_log_settings = ProblemException ''Invalid Log Settings'' 400"

definition invalid_log_deletion :: exn where
  "invalid_log_deletion = ProblemException ''Invalid Log Deletion Request'' 400"

definition validate_log_settings :: "string \<Rightarrow> int \<Rightarrow> string \<Rightarrow> string list \<Rightarrow> unit result" where
  "validate_log_settings tier ds mode categories =
     (if mode \<notin> set REDACTION_MODES then Inl invalid_log_settings
      else if filter (\<lambda>c. c \<notin> set LOG_CATEGORIES) categories \<noteq> [] then Inl invalid_log_settings
      else if lower tier = ''hobbyist'' \<and> \<not> (7 \<le> ds \<and> ds \<le> 365) then Inl invalid_log_settings
      else if lower tier = ''pro'' \<and> \<not> (30 \<le> ds \<and> ds \<le> 730) then Inl invalid_log_settings
      else if lower tier = ''museum'' \<and> \<not> (7 \<le> ds \<and> ds \<le> 2555) then Inl invalid_log_settings
      else if lower tier = ''hobbyist'' \<and> mode \<noteq> ''none'' then Inl invalid_log_settings
      else if lower tier = ''pro'' \<and> mode = ''strict'' then Inl invalid_log_settings
      else Inr ())"

definition or_all_categories :: "string list \<Rightarrow> string list" where
  "or_all_categories cs = (if cs = [] then LOG_CATEGORIES else cs)"

record log_settings_request =
  lq_retention_days :: int
  lq_redaction_mode :: string
  lq_categories :: "string list"
  lq_export_targets :: "string list"

definition update_log_settings ::
  "security_env \<Rightarrow> string \<Rightarrow> string \<Rightarrow> string \<Rightarrow> log_settings_request \<Rightarrow> (security_store, log_setting) prog" where
  "update_log_settings env org user tier q =
     (let categories = or_all_categories (lq_categories q) in
      bindE (liftR (validate_log_settings tier (lq_retention_days q) (lq_redaction_mode q) categories)) (\<lambda>_.
      if filter (\<lambda>t. t \<notin> set EXPORT_TARGETS) (lq_export_targets q) \<noteq> [] then raise invalid_log_settings
      else log_settings_upsert env org (lq_retention_days q) (lq_redaction_mode q) categories (lq_export_targets q) user))"

record deletion_query =
  dl_categories :: "string list"
  dl_date_from :: string
  dl_date_to :: string
  dl_reason :: "string option"

definition delete_logs :: "security_env \<Rightarrow> string \<Rightarrow> deletion_query \<Rightarrow> (security_store, deletion_request) prog" where
  "delete_logs env user q =
     (let categories = or_all_categories (dl_categories q) in
      if filter (\<lambda>c. c \<notin> set LOG_CATEGORIES) categories \<noteq> [] then raise invalid_log_deletion
      else
        (case (date_fromisoformat env (dl_date_from q), date_fromisoformat env (dl_date_to q)) of
           (Some start, Some until) \<Rightarrow>
             if start > until then raise invalid_log_deletion
             else create_deletion_request env user categories
         | _ \<Rightarrow> raise invalid_log_deletion))"

section \<open>Properties\<close>

interpretation log_settings_table: keyed_store "\<lambda>s org. dget s org" "\<lambda>org r s. dset org r s"
  by unfold_locales simp

text \<open>The days and the redaction a plan may keep its logs with; other plans have no bounds.\<close>

definition log_policy_ok :: "string \<Rightarrow> log_setting \<Rightarrow> bool" where
  "log_policy_ok tier r \<longleftrightarrow>
     lg_redaction_mode r \<in> set REDACTION_MODES \<and> set (lg_categories r) \<subseteq> set LOG_CATEGORIES \<and> lg_categories r \<noteq> [] \<and>
     set (lg_export_targets r) \<subseteq> set EXPORT_TARGETS \<and>
     (lower tier = ''hobbyist'' \<longrightarrow> 7 \<le> lg_retention_days r \<and> lg_retention_days r \<le> 365 \<and> lg_redaction_mode r = ''none'') \<and>
     (lower tier = ''pro'' \<longrightarrow> 30 \<le> lg_retention_days r \<and> lg_retention_days r \<le> 730 \<and> lg_redaction_mode r \<noteq> ''strict'') \<and>
     (lower tier = ''museum'' \<longrightarrow> 7 \<le> lg_retention_days r \<and> lg_retention_days r \<le> 2555)"

lemma validate_log_settings_ok:
  assumes "validate_log_settings tier ds mode cs = Inr ()" and "cs \<noteq> []" and "set ts \<subseteq> set EXPORT_TARGETS"
  shows "log_policy_ok tier \<lparr>lg_org_id = org, lg_retention_days = ds, lg_redaction_mode = mode, lg_categories = cs,
    lg_export_targets = ts, lg_updated_by = by, lg_updated_at = t\<rparr>"
  using assms by (auto simp: validate_log_settings_def log_policy_ok_def filter_empty_conv split: if_splits)

lemma or_all_categories_not_empty [simp]: "or_all_categories cs \<noteq> []"
  by (simp add: or_all_categories_def LOG_CATEGORIES_def)

lemma log_settings_upsert_run:
  "log_settings_upsert env org ds mode cs ts by s =
     (let r = \<lparr>lg_org_id = org, lg_retention_days = ds, lg_redaction_mode = mode, lg_categories = cs,
        lg_export_targets = ts, lg_updated_by = by, lg_updated_at = sec_clock env (sec_calls s)\<rparr>
      in (Inr r, s\<lparr>sec_calls := Suc (sec_calls s), log_settings := dset org r (log_settings s)\<rparr>))"
  by (simp add: log_settings_upsert_def sec_call_def prog_defs Let_def)

theorem log_settings_within_plan:
  "wp (update_log_settings env org user tier q)
     (\<lambda>r t. log_policy_ok tier r \<and> log_settings_get org t = Some r \<and> lg_updated_by r = user \<and>
        (\<forall>other. other = org \<or> log_settings_get other t = log_settings_get other s) \<and>
        deletion_requests t = deletion_requests s)
     (\<lambda>e t. t = s) s"
proof -
  let ?cs = "or_all_categories (lq_categories q)"
  have stored: "wp (log_settings_upsert env org (lq_retention_days q) (lq_redaction_mode q) ?cs (lq_export_targets q) user)
     (\<lambda>r t. log_policy_ok tier r \<and> log_settings_get org t = Some r \<and> lg_updated_by r = user \<and>
        (\<forall>other. other = org \<or> log_settings_get other t = log_settings_get other s) \<and>
        deletion_requests t = deletion_requests s)
     (\<lambda>e t. t = s) s"
    if "validate_log_settings tier (lq_retention_days q) (lq_redaction_mode q) ?cs = Inr ()"
      "set (lq_export_targets q) \<subseteq> set EXPORT_TARGETS"
    using validate_log_settings_ok [OF that(1) or_all_categories_not_empty that(2)]
    by (simp add: wp_def log_settings_upsert_run Let_def log_settings_get_def)
  show ?thesis
  proof (cases "validate_log_settings tier (lq_retention_days q) (lq_redaction_mode q) ?cs")
    case (Inl e)
    then show ?thesis by (simp add: update_log_settings_def wp_simps)
  next
    case (Inr u)
    then show ?thesis
      using stored by (auto simp: update_log_settings_def wp_simps filter_empty_conv)
  qed
qed

text \<open>
  What a deletion request does to the store: it records a completed request of twelve entries for
  each category and a proof of them, and nothing else. The dates and the reason are not kept.
\<close>

theorem deletion_request_counts_categories:
  "wp (delete_logs env user q)
     (\<lambda>rq t. dr_status rq = ''completed'' \<and> dr_entries rq = 12 * length (or_all_categories (dl_categories q)) \<and>
        dget (deletion_requests t) (dr_id rq) = Some rq \<and>
        map_option lp_entries (dget (deletion_proofs t) (dr_proof_id rq)) = Some (dr_entries rq) \<and>
        log_settings t = log_settings s)
     (\<lambda>e t. t = s) s"
proof -
  have len: "max (length (or_all_categories cs)) (Suc 0) = length (or_all_categories cs)" for cs
    by (cases "or_all_categories cs") (use or_all_categories_not_empty [of cs] in auto)
  show ?thesis
    by (auto simp: delete_logs_def create_deletion_request_def sec_call_def wp_def prog_defs Let_def len
        split: option.splits)
qed

text \<open>Neither the period nor its length matters.\<close>

corollary deletion_request_ignores_period:
  assumes "date_fromisoformat env f1 = Some a1" "date_fromisoformat env t1 = Some b1" "a1 \<le> b1"
    and "date_fromisoformat env f2 = Some a2" "date_fromisoformat env t2 = Some b2" "a2 \<le> b2"
  shows "delete_logs env user \<lparr>dl_categories = cs, dl_date_from = f1, dl_date_to = t1, dl_reason = r1\<rparr> s =
         delete_logs env user \<lparr>dl_categories = cs, dl_date_from = f2, dl_date_to = t2, dl_reason = r2\<rparr> s"
  using assms by (simp add: delete_logs_def Let_def)

lemma log_policy_example:
  "validate_log_settings ''Pro'' 29 ''none'' [] = Inl invalid_log_settings \<and>
   validate_log_settings ''Pro'' 30 ''standard'' [''audit_logs''] = Inr () \<and>
   validate_log_settings ''Hobbyist'' 365 ''strict'' [] = Inl invalid_log_settings"
  by (simp add: validate_log_settings_def REDACTION_MODES_def LOG_CATEGORIES_def string_eval)

end
