(* ===== verification/Pricebook_Service.thy ===== *)
theory Pricebook_Service
  imports Billing
begin

text \<open>
  Pricebook revisions as the billing management API applies them:
  \<open>app/services/commercial_pricebook_service.py\<close> and \<open>BillingManagementService\<close>
  (\<open>app/services/billing_management.py\<close>). \<open>json.loads(json.dumps(p))\<close>, which detaches the payload, is
  the argument \<open>detach\<close>; the ids and the clock are arguments too.
\<close>

definition validated_pricebook_from_payload :: "billing_env \<Rightarrow> (string \<times> json) list \<Rightarrow> pricebook result" where
  "validated_pricebook_from_payload env p =
     validate_commercial_pricebook_configuration (be_codec env) (json_dumps (be_codec env) (JObj p))
       (recurring_price_ids_by_tier env)"

definition active_pricebook :: "billing_env \<Rightarrow> (billing_store, pricebook \<times> string) prog" where
  "active_pricebook env =
     bindE rev_get_active (\<lambda>revision.
     case revision of
       Some r \<Rightarrow> bindE (liftR (validated_pricebook_from_payload env (payload r))) (\<lambda>pb. ret (pb, ''db''))
     | None \<Rightarrow>
         bindE (liftR (validate_commercial_pricebook_configuration (be_codec env)
                  (commercial_pricebook_json env) (recurring_price_ids_by_tier env))) (\<lambda>pb. ret (pb, ''env'')))"

definition activate_pricebook_revision ::
  "billing_env \<Rightarrow> ((string \<times> json) list \<Rightarrow> (string \<times> json) list) \<Rightarrow> string \<Rightarrow> time \<Rightarrow>
   (string \<times> json) list \<Rightarrow> string \<Rightarrow> string \<Rightarrow> string \<Rightarrow> string \<Rightarrow> (billing_store, revision) prog" where
  "activate_pricebook_revision env detach new_id now p user org summary source =
     bindE (liftR (validated_pricebook_from_payload env p)) (\<lambda>pb.
     rev_activate new_id now (pb_version pb) (detach p) user org source summary)"

text \<open>
  The payload of the environment is what \<open>json.loads\<close> reads; a text that is not JSON raises
  \<open>JSONDecodeError\<close>, a \<open>ValueError\<close>. A JSON value that is not an object is rejected by the validation.
\<close>

definition bootstrap_pricebook_revision_from_environment ::
  "billing_env \<Rightarrow> string \<Rightarrow> time \<Rightarrow> string \<Rightarrow> string \<Rightarrow> string \<Rightarrow> (billing_store, revision) prog" where
  "bootstrap_pricebook_revision_from_environment env new_id now user org summary =
     bindE rev_get_active (\<lambda>revision.
     if revision \<noteq> None then raise (ValueError ''A hosted commercial pricebook revision is already active.'')
     else
       (case json_loads (be_codec env) (commercial_pricebook_json env) of
          None \<Rightarrow> raise (ValueError ''JSONDecodeError'')
        | Some v \<Rightarrow>
            bindE (liftR (validate_commercial_pricebook_configuration (be_codec env)
                     (json_dumps (be_codec env) v) (recurring_price_ids_by_tier env))) (\<lambda>pb.
            case v of
              JObj p \<Rightarrow> rev_activate new_id now (pb_version pb) p user org ''environment_bootstrap'' summary
            | _ \<Rightarrow> raise (TypeError ''dict(payload)''))))"

record activation_request =
  ar_payload :: "(string \<times> json) list option"
  ar_bootstrap :: bool
  ar_change_summary :: string
  ar_user_id :: string
  ar_org_id :: string

definition activate_pricebook ::
  "billing_env \<Rightarrow> bool \<Rightarrow> ((string \<times> json) list \<Rightarrow> (string \<times> json) list) \<Rightarrow> string \<Rightarrow> string \<Rightarrow> time \<Rightarrow> time \<Rightarrow>
   activation_request \<Rightarrow> (billing_store, revision) prog" where
  "activate_pricebook env bootstrap_enabled detach new_id audit_id now audit_now rq =
     bindE
       (if ar_bootstrap rq
        then (if \<not> bootstrap_enabled then raise (ValueError ''Hosted environment bootstrap import is not enabled.'')
              else bootstrap_pricebook_revision_from_environment env new_id now (ar_user_id rq) (ar_org_id rq)
                     (ar_change_summary rq))
        else
          (case ar_payload rq of
             None \<Rightarrow> raise (ValueError ''payload is required unless bootstrap_from_environment is true.'')
           | Some p \<Rightarrow> activate_pricebook_revision env detach new_id now p (ar_user_id rq) (ar_org_id rq)
                          (ar_change_summary rq) ''api''))
       (\<lambda>activated.
     bindE (append_event audit_id audit_now (ar_org_id rq) ''billing_pricebook'' ''pricebook_activated''
              (Some (ar_user_id rq)) None []
              [(''active_version'', JStr (rev_version activated)), (''source'', JStr (rev_source activated))]) (\<lambda>_.
     ret activated))"

section \<open>An activated revision prices every plan\<close>

lemma rev_activate_cases:
  obtains "\<exists>m. rev_activate new_id now v p user org src summary s = (Inl (ValueError m), s)"
  | r where "rev_activate new_id now v p user org src summary s =
        (Inr r, s\<lparr>revisions := map (deactivate now) (revisions s) @ [(v, r)]\<rparr>)"
      "payload r = p" "active r" "rev_version r = v"
proof (cases "dget (revisions s) v")
  case None
  from rev_activate_fresh [OF None, of new_id now p user org src summary] that(2) show thesis by blast
next
  case (Some old)
  with that(1) show thesis by (simp add: rev_activate_taken)
qed

lemma activate_revision_effect:
  assumes "activate_pricebook_revision env detach new_id now p user org summary src s = (Inr r, t)"
  shows "\<exists>pb. validated_pricebook_from_payload env p = Inr pb \<and> rev_version r = pb_version pb \<and>
     payload r = detach p \<and> active r \<and>
     t = s\<lparr>revisions := map (deactivate now) (revisions s) @ [(pb_version pb, r)]\<rparr>"
proof (cases "validated_pricebook_from_payload env p")
  case (Inl e)
  with assms show ?thesis by (simp add: activate_pricebook_revision_def bindE_def liftR_def)
next
  case (Inr pb)
  with assms show ?thesis
    by (cases rule: rev_activate_cases [of new_id now "pb_version pb" "detach p" user org src summary s])
      (auto simp: activate_pricebook_revision_def bindE_def liftR_def)
qed

lemma entry_from_active_revision:
  assumes "active_revisions s = [r]" and "validated_pricebook_from_payload env (payload r) = Inr pb"
    and "lower (strip tier) \<in> {''hobbyist'', ''pro'', ''museum''}"
  shows "\<exists>e. commercial_pricebook_entry env tier s = (Inr (pb_version pb, e), s) \<and>
     plan_tier e = lower (strip tier)"
proof -
  note v = assms(2) [unfolded validated_pricebook_from_payload_def]
  from resolve_validated [OF v assms(3)] obtain e where
    "resolve_pricebook_entry pb (recurring_price_ids_by_tier env) tier = Inr e"
    "plan_tier e = lower (strip tier)" by blast
  with v assms(1) show ?thesis
    by (simp add: commercial_pricebook_entry_def bindE_def rev_get_active_def getsE_def liftR_def Let_def)
qed

section \<open>Properties\<close>

text \<open>
  A pricebook revision the API activates is in force at once and prices every plan tier: the
  billing service resolves hobbyist, pro and museum from it, under its version. The hypothesis is
  that the detached payload is the payload, which JSON promises for a payload read from JSON.
\<close>

theorem activated_revision_prices_every_tier:
  assumes "activate_pricebook_revision env detach new_id now p user org summary src s = (Inr r, t)"
    and "detach p = p" and "lower (strip tier) \<in> {''hobbyist'', ''pro'', ''museum''}"
  shows "\<exists>e. commercial_pricebook_entry env tier t = (Inr (rev_version r, e), t) \<and>
     plan_tier e = lower (strip tier)"
proof -
  from activate_revision_effect [OF assms(1)] obtain pb where pb:
    "validated_pricebook_from_payload env p = Inr pb" "rev_version r = pb_version pb" "payload r = p" "active r"
    "t = s\<lparr>revisions := map (deactivate now) (revisions s) @ [(pb_version pb, r)]\<rparr>"
    using assms(2) by auto
  then have "active_revisions t = [r]" by (simp add: active_revisions_after)
  from entry_from_active_revision [OF this _ assms(3), of env pb] pb show ?thesis by simp
qed

lemma sample_ids_of_env: "recurring_price_ids_by_tier sample_env = sample_ids"
  by (simp add: recurring_price_ids_by_tier_def sample_env_def sample_ids_def or_str_def string_eval)

lemma sample_activation:
  "\<exists>r t. activate_pricebook_revision sample_env (\<lambda>p. p) ''id1'' 5 [] ''u1'' ''org1'' ''first'' ''api'' empty_billing_store
     = (Inr r, t)"
proof -
  have d: "json_dumps sample_codec v = ''{}''" for v by (simp add: sample_codec_def)
  from sample_pricebook_valid obtain pb where
    "validate_commercial_pricebook_configuration sample_codec ''{}'' sample_ids = Inr pb" by blast
  then have "validated_pricebook_from_payload sample_env [] = Inr pb"
    by (simp add: validated_pricebook_from_payload_def sample_ids_of_env d)
  then show ?thesis
    by (simp add: activate_pricebook_revision_def bindE_def liftR_def rev_activate_def
        empty_billing_store_def Let_def)
qed

theorem activated_revision_prices_every_tier_witness:
  "\<exists>r t e. activate_pricebook_revision sample_env (\<lambda>p. p) ''id1'' 5 [] ''u1'' ''org1'' ''first'' ''api'' empty_billing_store
     = (Inr r, t) \<and> commercial_pricebook_entry sample_env ''pro'' t = (Inr (rev_version r, e), t)"
proof -
  from sample_activation obtain r t where
    a: "activate_pricebook_revision sample_env (\<lambda>p. p) ''id1'' 5 [] ''u1'' ''org1'' ''first'' ''api'' empty_billing_store
       = (Inr r, t)" by blast
  have "lower (strip ''pro'') \<in> {''hobbyist'', ''pro'', ''museum''}" by (simp add: string_eval)
  from activated_revision_prices_every_tier [OF a refl this] a show ?thesis by blast
qed

end
