(* ===== verification/Billing_Management.thy ===== *)
theory Billing_Management
  imports Pricebook_Service Cost_Estimation
begin

text \<open>
  What an organisation is shown of its billing and how it reaches Stripe's billing portal: the rest of
  \<open>BillingManagementService\<close> (\<open>app/services/billing_management.py\<close>) and \<open>create_billing_portal_session\<close>
  of \<open>app/billing/stripe_client.py\<close>. What Stripe answers to the portal request is a field of the
  environment: the URL of the session, absent where the answer has none, or an error.
\<close>

section \<open>The summary\<close>

record billing_view =
  bv_org_id :: string
  bv_user_id :: string
  bv_plan_tier :: string
  bv_subscription_status :: json
  bv_stripe_customer_id :: json
  bv_portal_available :: bool
  bv_effective_pricing :: effective_pricing
  bv_recent_invoices :: "invoice list"
  bv_museum_quote :: "(string \<times> string) option"

definition account_json :: "(account \<Rightarrow> json) \<Rightarrow> account option \<Rightarrow> json" where
  "account_json f acc = (case acc of None \<Rightarrow> JNull | Some x \<Rightarrow> f x)"

definition museum_quote_of :: "codec \<Rightarrow> account option \<Rightarrow> (string \<times> string) option" where
  "museum_quote_of c acc =
     (case acc of
        None \<Rightarrow> None
      | Some x \<Rightarrow>
          if truthy (museum_quote_id x)
          then Some (py_str c (museum_quote_id x), str_or_empty c (museum_quote_status x)) else None)"

definition billing_summary ::
  "billing_env \<Rightarrow> stripe_env \<Rightarrow> stripe_config \<Rightarrow> string \<Rightarrow> string \<Rightarrow> string \<Rightarrow> (billing_store, billing_view) prog" where
  "billing_summary env senv cfg user org tier =
     bindE (get_by_org org) (\<lambda>acc.
     bindE (liftR (resolve_billing_pricing_metadata senv cfg)) (\<lambda>md.
     bindE (effective_pricing_for_plan env tier (Some org) (Some (subscription_price_usd_for_tier md))) (\<lambda>eff.
     ret \<lparr>bv_org_id = org, bv_user_id = user, bv_plan_tier = tier,
       bv_subscription_status = account_json subscription_status acc,
       bv_stripe_customer_id = account_json stripe_customer_id acc,
       bv_portal_available = truthy (account_json stripe_customer_id acc),
       bv_effective_pricing = eff,
       bv_recent_invoices = (case acc of None \<Rightarrow> [] | Some x \<Rightarrow> recent_invoices x),
       bv_museum_quote = museum_quote_of (be_codec env) acc\<rparr>)))"

section \<open>The portal\<close>

datatype portal_answer = PortalSession "string option" | PortalError

record portal_env =
  stripe_billing_portal_return_url :: string
  portal_session_create :: "string \<Rightarrow> string \<Rightarrow> portal_answer"

text \<open>\<open>return_url or settings.stripe_billing_portal_return_url\<close>\<close>

definition create_billing_portal_session :: "portal_env \<Rightarrow> string \<Rightarrow> string option \<Rightarrow> string option result" where
  "create_billing_portal_session penv customer return_url =
     (let url = strip (or_str (case return_url of None \<Rightarrow> [] | Some u \<Rightarrow> u) (stripe_billing_portal_return_url penv)) in
      if url = [] then Inl (ValueError ''STRIPE_BILLING_PORTAL_RETURN_URL is required for billing portal sessions'')
      else
        (case portal_session_create penv customer url of
           PortalSession u \<Rightarrow> Inr u
         | PortalError \<Rightarrow> Inl (ValueError ''Stripe billing portal session is unavailable.'')))"

fun as_portal_problem :: "exn \<Rightarrow> exn" where
  "as_portal_problem (ValueError m) = BillingPortalUnavailableError m"
| "as_portal_problem e = e"

definition create_portal_session :: "billing_env \<Rightarrow> portal_env \<Rightarrow> string \<Rightarrow> (billing_store, string) prog" where
  "create_portal_session env penv org =
     bindE (get_by_org org) (\<lambda>acc.
     let customer = strip (str_or_empty (be_codec env) (account_json stripe_customer_id acc)) in
     if customer = []
     then raise (BillingPortalUnavailableError
            ''A Stripe customer binding is required before a billing portal session can be created.'')
     else
       bindE (catchE (liftR (create_billing_portal_session penv customer (Some (stripe_billing_portal_return_url penv))))
                (\<lambda>e. raise (as_portal_problem e))) (\<lambda>found.
       let url = strip (case found of None \<Rightarrow> [] | Some u \<Rightarrow> u) in
       if url = [] then raise (BillingPortalUnavailableError ''Stripe billing portal session did not return a URL.'')
       else ret url))"

section \<open>What they promise\<close>

lemma readonly_billing_summary [readonly_intro]: "readonly (billing_summary env senv cfg user org tier)"
  unfolding billing_summary_def get_by_org_def
  by (intro readonly_intro)

lemma readonly_catchE [readonly_intro]: "readonly m \<Longrightarrow> (\<And>e. readonly (h e)) \<Longrightarrow> readonly (catchE m h)"
  by (auto simp: readonly_def catchE_def split: prod.splits sum.splits) (metis snd_conv)+

lemma readonly_create_portal_session [readonly_intro]: "readonly (create_portal_session env penv org)"
  unfolding create_portal_session_def get_by_org_def Let_def
  by (intro readonly_intro)

text \<open>A portal session is opened for the customer bound to the organisation and for nobody else.\<close>

theorem portal_for_bound_customer:
  "wp (create_portal_session env penv org)
     (\<lambda>url t. t = s \<and> url \<noteq> [] \<and>
        (\<exists>a ret_url u. dget (accounts s) org = Some a \<and> truthy (stripe_customer_id a) \<and> ret_url \<noteq> [] \<and>
           portal_session_create penv (strip (py_str (be_codec env) (stripe_customer_id a))) ret_url = PortalSession (Some u) \<and>
           url = strip u))
     (\<lambda>e t. t = s \<and> (\<exists>m. e = BillingPortalUnavailableError m)) s"
proof -
  define penv_url where "penv_url = strip (stripe_billing_portal_return_url penv)"
  show ?thesis
    unfolding create_portal_session_def get_by_org_def create_billing_portal_session_def
    by (auto simp: wp_simps Let_def str_or_empty_def account_json_def or_str_def
        split: option.splits sum.splits portal_answer.splits if_splits)
qed

end
