(* ===== verification/Stripe_Webhooks.thy ===== *)
theory Stripe_Webhooks
  imports Billing
begin

text \<open>
  \<open>app/services/stripe_webhook_service.py\<close>: the handler of Stripe billing events. An event is the
  JSON object Stripe sends; \<open>_field\<close> on a value that is not an object finds nothing. The readings of the
  clock (microseconds since the epoch) and the two ids \<open>uuid4()\<close> would make are the argument \<open>i\<close>.
\<close>

section \<open>Reading the event\<close>

fun field :: "json \<Rightarrow> string \<Rightarrow> json" where
  "field (JObj d) name = jget d name"
| "field _ name = JNull"

definition field_or_obj :: "json \<Rightarrow> string \<Rightarrow> json" where
  "field_or_obj r name = jor (field r name) (JObj [])"

text \<open>\<open>str(_field(r, name) or "").strip()\<close>\<close>

definition str_field :: "codec \<Rightarrow> json \<Rightarrow> string \<Rightarrow> string" where
  "str_field c r name = strip (str_or_empty c (field r name))"

fun metadata :: "json \<Rightarrow> (string \<times> json) list" where
  "metadata r = (case field r ''metadata'' of JObj d \<Rightarrow> d | _ \<Rightarrow> [])"

definition event_timestamp :: "time \<Rightarrow> json \<Rightarrow> time" where
  "event_timestamp now event =
     (case field event ''created'' of
        JInt i \<Rightarrow> i * 1000000
      | JFloat q \<Rightarrow> round_half_even (q * 1000000)
      | JBool b \<Rightarrow> (if b then 1000000 else 0)
      | _ \<Rightarrow> now)"

definition py_float :: "billing_env \<Rightarrow> json \<Rightarrow> rat result" where
  "py_float env = to_float (float_of_str env)"

text \<open>\<open>items[0]\<close> of a truthy value.\<close>

fun first_item :: "json \<Rightarrow> json result" where
  "first_item (JList (x # xs)) = Inr x"
| "first_item (JStr (ch # cs)) = Inr (JStr [ch])"
| "first_item (JObj d) = Inl (KeyError ''0'')"
| "first_item _ = Inl (TypeError ''not subscriptable'')"

definition subscription_price :: "billing_env \<Rightarrow> json \<Rightarrow> (string \<times> rat option) result" where
  "subscription_price env resource =
     (let items = jor (field (field_or_obj resource ''items'') ''data'') (JList []) in
      if \<not> truthy items then Inr ([], None)
      else
        bind_res (first_item items) (\<lambda>item.
        let price = field_or_obj item ''price'';
            price_id = str_field (be_codec env) price ''id'';
            amount0 = field price ''unit_amount_decimal'';
            amount = (if amount0 = JNull then field price ''unit_amount'' else amount0) in
        if amount = JNull \<or> amount = JStr [] then Inr (price_id, None)
        else bind_res (py_float env amount) (\<lambda>q. Inr (price_id, Some (py_round 4 (q / 100))))))"

definition invoice_summary :: "billing_env \<Rightarrow> time \<Rightarrow> json \<Rightarrow> invoice result" where
  "invoice_summary env now invo =
     (let c = be_codec env in
      bind_res (py_float env (jor (field invo ''amount_paid'') (JInt 0))) (\<lambda>paid.
      bind_res (py_float env (jor (field invo ''amount_due'') (JInt 0))) (\<lambda>due.
      Inr \<lparr>invoice_id = str_or_empty c (field invo ''id''), inv_status = str_or_empty c (field invo ''status''),
        hosted_invoice_url = str_or_empty c (field invo ''hosted_invoice_url''),
        amount_paid_usd = py_round 4 (paid / 100), amount_due_usd = py_round 4 (due / 100),
        inv_created_at = now\<rparr>)))"

section \<open>Resolving the organisation and its owner\<close>

definition org_opt :: "string \<Rightarrow> string option" where
  "org_opt s = (if s = [] then None else Some s)"

definition resolve_org_id :: "billing_env \<Rightarrow> json \<Rightarrow> (billing_store, string option) prog" where
  "resolve_org_id env resource =
     (let c = be_codec env;
          metadata_org = strip (str_or_empty c (jget (metadata resource) ''org_id''));
          customer = str_field c resource ''customer'' in
      if customer = [] then ret (org_opt metadata_org)
      else
        bindE (get_by_customer_id c customer) (\<lambda>account.
        let customer_org = (case account of None \<Rightarrow> [] | Some a \<Rightarrow> strip (acc_org_id a)) in
        ret (org_opt (or_str customer_org metadata_org))))"

definition owner_user_id :: "billing_env \<Rightarrow> string \<Rightarrow> json \<Rightarrow> (billing_store, string) prog" where
  "owner_user_id env org resource =
     bindE (get_by_org org) (\<lambda>account.
     let c = be_codec env;
         stored = (case account of None \<Rightarrow> [] | Some a \<Rightarrow> strip (acc_owner_user_id a));
         m = metadata resource;
         named = strip (str_or_empty c (jor (jget m ''owner_user_id'') (jget m ''user_id''))) in
     ret (if org \<noteq> [] \<and> stored \<noteq> [] then stored else if named \<noteq> [] then named else ''system''))"

definition required_org_id :: "billing_env \<Rightarrow> json \<Rightarrow> string option \<Rightarrow> string result" where
  "required_org_id env resource org =
     (let resolved = strip (case org of None \<Rightarrow> [] | Some s \<Rightarrow> s) in
      if resolved \<noteq> [] then Inr resolved
      else if str_field (be_codec env) resource ''customer'' \<noteq> []
      then Inl (BillingWebhookProcessingError
             ''Stripe webhook customer is not bound to an org-scoped billing account.'')
      else Inl (BillingWebhookProcessingError
             ''Stripe webhook metadata must resolve an org_id before billing state can be updated.''))"

section \<open>The three kinds of event\<close>

text \<open>
  What one delivery draws from outside: the two \<open>uuid4()\<close> values it may need and the value of each
  reading of the clock.
\<close>

record ids =
  acc_new :: string
  aud_new :: string
  t_event :: time
  t_claim :: time
  t_invoice :: time
  t_upsert :: time
  t_audit :: time
  t_settle :: time

text \<open>The string \<open>s\<close> when it is not empty, else what the account had: \<open>s or account.get(...)\<close>.\<close>

definition str_or_old :: "string \<Rightarrow> json \<Rightarrow> json" where
  "str_or_old s old = (if s = [] then old else JStr s)"

definition acc_field :: "(account \<Rightarrow> json) \<Rightarrow> account option \<Rightarrow> json" where
  "acc_field f acc = (case acc of None \<Rightarrow> JNull | Some a \<Rightarrow> f a)"

definition process_subscription_event ::
  "billing_env \<Rightarrow> ids \<Rightarrow> string \<Rightarrow> json \<Rightarrow> string option \<Rightarrow> time \<Rightarrow> (billing_store, string) prog" where
  "process_subscription_event env i event_id resource org event_time =
     bindE (liftR (required_org_id env resource org)) (\<lambda>rorg.
     bindE (owner_user_id env rorg resource) (\<lambda>owner.
     bindE (get_by_org rorg) (\<lambda>before.
     bindE (liftR (subscription_price env resource)) (\<lambda>(price_id, price_usd).
     let c = be_codec env; m = metadata resource;
         patch = empty_patch\<lparr>
           p_stripe_customer_id := str_or_old (str_field c resource ''customer'') (acc_field stripe_customer_id before),
           p_stripe_subscription_id := JStr (str_field c resource ''id''),
           p_subscription_status := JStr (str_field c resource ''status''),
           p_subscription_price_id := str_or_old price_id (acc_field acc_subscription_price_id before),
           p_subscription_price_usd := (case price_usd of None \<Rightarrow> acc_field subscription_price_usd before
                                        | Some q \<Rightarrow> JFloat q),
           p_included_minutes_monthly := jor (jget m ''included_minutes_monthly'')
                                           (acc_field acc_included_minutes_monthly before),
           p_overage_price_id := jor (jget m ''overage_price_id'') (acc_field overage_price_id before),
           p_overage_rate_usd_per_minute := jor (jget m ''overage_rate_usd_per_minute'')
                                              (acc_field overage_rate_usd_per_minute before),
           p_last_synced_at := Some (Some event_time)\<rparr> in
     bindE (upsert_by_org (acc_new i) (t_upsert i) rorg owner patch) (\<lambda>after.
     bindE (append_event (aud_new i) (t_audit i) rorg ''stripe_webhook'' ''subscription_updated'' (Some owner)
              (Some event_id)
              [(''subscription_status'', acc_field subscription_status before),
               (''subscription_price_id'', acc_field acc_subscription_price_id before)]
              [(''subscription_status'', subscription_status after),
               (''subscription_price_id'', acc_subscription_price_id after)]) (\<lambda>_.
     ret rorg))))))"

definition process_invoice_event ::
  "billing_env \<Rightarrow> ids \<Rightarrow> string \<Rightarrow> json \<Rightarrow> string option \<Rightarrow> time \<Rightarrow> (billing_store, string) prog" where
  "process_invoice_event env i event_id resource org event_time =
     bindE (liftR (required_org_id env resource org)) (\<lambda>rorg.
     bindE (owner_user_id env rorg resource) (\<lambda>owner.
     bindE (get_by_org rorg) (\<lambda>before.
     let existing = (case before of None \<Rightarrow> [] | Some a \<Rightarrow> recent_invoices a) in
     bindE (liftR (invoice_summary env (t_invoice i) resource)) (\<lambda>invo.
     let deduped = filter (\<lambda>x. invoice_id x \<noteq> invoice_id invo) existing;
         updated = take 10 (invo # deduped) in
     bindE (upsert_by_org (acc_new i) (t_upsert i) rorg owner (empty_patch\<lparr>
              p_stripe_customer_id := str_or_old (str_field (be_codec env) resource ''customer'')
                                        (acc_field stripe_customer_id before),
              p_recent_invoices := Some updated,
              p_last_synced_at := Some (Some event_time)\<rparr>)) (\<lambda>after.
     bindE (append_event (aud_new i) (t_audit i) rorg ''stripe_webhook'' ''invoice_updated'' (Some owner) (Some event_id)
              [(''invoice_count'', JInt (int (length existing)))]
              [(''invoice_count'', JInt (int (length (recent_invoices after))))]) (\<lambda>_.
     ret rorg))))))"

definition process_quote_event ::
  "billing_env \<Rightarrow> ids \<Rightarrow> string \<Rightarrow> json \<Rightarrow> string option \<Rightarrow> time \<Rightarrow> (billing_store, string) prog" where
  "process_quote_event env i event_id resource org event_time =
     bindE (liftR (required_org_id env resource org)) (\<lambda>rorg.
     bindE (owner_user_id env rorg resource) (\<lambda>owner.
     bindE (get_by_org rorg) (\<lambda>before.
     let c = be_codec env; m = metadata resource in
     bindE (upsert_by_org (acc_new i) (t_upsert i) rorg owner (empty_patch\<lparr>
              p_stripe_customer_id := str_or_old (str_field c resource ''customer'') (acc_field stripe_customer_id before),
              p_museum_quote_id := JStr (str_field c resource ''id''),
              p_museum_quote_status := JStr (str_field c resource ''status''),
              p_museum_quote_pricing := Some
                [(''subscription_price_id'', jget m ''subscription_price_id''),
                 (''subscription_price_usd'', jget m ''subscription_price_usd''),
                 (''included_minutes_monthly'', jget m ''included_minutes_monthly''),
                 (''overage_price_id'', jget m ''overage_price_id''),
                 (''overage_rate_usd_per_minute'', jget m ''overage_rate_usd_per_minute'')],
              p_last_synced_at := Some (Some event_time)\<rparr>)) (\<lambda>after.
     bindE (append_event (aud_new i) (t_audit i) rorg ''stripe_webhook'' ''quote_updated'' (Some owner) (Some event_id)
              [(''museum_quote_id'', acc_field museum_quote_id before)]
              [(''museum_quote_id'', museum_quote_id after)]) (\<lambda>_.
     ret rorg)))))"

section \<open>\<open>process_event\<close>\<close>

record webhook_outcome =
  wo_event_id :: string
  wo_event_type :: string
  wo_duplicate :: bool
  wo_org_id :: "string option"

text \<open>
  \<open>str | None\<close> as JSON. A type with none of the three prefixes is claimed and marked processed
  without touching an account.
\<close>

definition json_of_opt :: "string option \<Rightarrow> json" where
  "json_of_opt x = (case x of None \<Rightarrow> JNull | Some s \<Rightarrow> JStr s)"

definition dispatch_event ::
  "billing_env \<Rightarrow> ids \<Rightarrow> string \<Rightarrow> string \<Rightarrow> json \<Rightarrow> string option \<Rightarrow> time \<Rightarrow>
   (billing_store, string option) prog" where
  "dispatch_event env i event_id event_type obj org event_time =
     (if starts_with ''customer.subscription.'' event_type
      then bindE (process_subscription_event env i event_id obj org event_time) (\<lambda>g. ret (Some g))
      else if starts_with ''invoice.'' event_type
      then bindE (process_invoice_event env i event_id obj org event_time) (\<lambda>g. ret (Some g))
      else if starts_with ''quote.'' event_type
      then bindE (process_quote_event env i event_id obj org event_time) (\<lambda>g. ret (Some g))
      else ret org)"

definition process_event ::
  "billing_env \<Rightarrow> ids \<Rightarrow> json \<Rightarrow> (billing_store, webhook_outcome) prog" where
  "process_event env i event =
     (let c = be_codec env;
          event_id = str_field c event ''id'';
          event_type = str_field c event ''type'' in
      if event_id = [] \<or> event_type = []
      then raise (BillingWebhookProcessingError ''Stripe webhook event is missing required identifiers.'')
      else
        (let obj = field_or_obj (field_or_obj event ''data'') ''object'' in
         bindE (resolve_org_id env obj) (\<lambda>org.
         bindE (claim_event (t_claim i) event_id event_type org) (\<lambda>claimed.
         if claimed = None
         then ret \<lparr>wo_event_id = event_id, wo_event_type = event_type, wo_duplicate = True, wo_org_id = org\<rparr>
         else
           tryE (dispatch_event env i event_id event_type obj org (event_timestamp (t_event i) event))
             (\<lambda>e.
               bindE (mark_failed (t_settle i) event_id (Some
                 [(''event_type'', JStr event_type), (''org_id'', json_of_opt org),
                  (''error'', JStr (exn_class e))])) (\<lambda>_.
               raise (BillingWebhookProcessingError
                 (''Stripe webhook processing failed for event '' @ event_id @ ''.''))))
             (\<lambda>org'.
               bindE (mark_processed (t_settle i) event_id (Some
                 [(''event_type'', JStr event_type), (''org_id'', json_of_opt org')])) (\<lambda>_.
               ret \<lparr>wo_event_id = event_id, wo_event_type = event_type, wo_duplicate = False,
                 wo_org_id = org'\<rparr>))))))"

section \<open>What a handler writes\<close>

text \<open>
  Each of the three handlers either raises and leaves the store alone, or writes the account of the
  organisation it returns and appends one audit event for it.
\<close>

definition account_written :: "billing_store \<Rightarrow> string \<Rightarrow> billing_store \<Rightarrow> bool" where
  "account_written s g t \<longleftrightarrow>
     (\<exists>a r. t = s\<lparr>accounts := dset g a (accounts s), audit_events := audit_events s @ [r]\<rparr> \<and>
        au_org_id r = g \<and>
        (case dget (accounts s) g of
           None \<Rightarrow> length (recent_invoices a) \<le> 10 \<and> distinct (map invoice_id (recent_invoices a))
         | Some b \<Rightarrow> recent_invoices a = recent_invoices b \<or>
             (\<exists>x. recent_invoices a = take 10 (x # filter (\<lambda>y. invoice_id y \<noteq> invoice_id x) (recent_invoices b)))))"

lemma wp_get_by_org [wp_simps]: "wp (get_by_org org) Q E s = Q (dget (accounts s) org) s"
  by (simp add: get_by_org_def wp_simps)

lemma wp_owner_user_id:
  "(\<And>owner. Q owner s) \<Longrightarrow> wp (owner_user_id env org r) Q E s"
  by (simp add: owner_user_id_def wp_simps Let_def)

lemma wp_upsert_by_org [wp_simps]:
  "wp (upsert_by_org i now org owner p) Q E s =
     (let a = apply_account_patch p (case dget (accounts s) org of
                None \<Rightarrow> new_account i org owner now
              | Some a \<Rightarrow> a\<lparr>acc_org_id := org, acc_updated_at := now,
                  acc_owner_user_id := (if acc_owner_user_id a = [] then owner else acc_owner_user_id a)\<rparr>)
      in Q a (s\<lparr>accounts := dset org a (accounts s)\<rparr>))"
  by (simp add: wp_def upsert_by_org_def Let_def)

lemma wp_append_event:
  "(\<And>r. au_org_id r = org \<Longrightarrow> Q r (s\<lparr>audit_events := audit_events s @ [r]\<rparr>)) \<Longrightarrow>
   wp (append_event i now org src ty actor sid b a) Q E s"
  by (simp add: wp_def append_event_def Let_def)

lemma wp_case_prod [wp_simps]: "wp (case p of (a, b) \<Rightarrow> f a b) Q E s = (case p of (a, b) \<Rightarrow> wp (f a b) Q E s)"
  by (simp split: prod.splits)

lemma apply_account_patch_invoices [simp]:
  "recent_invoices (apply_account_patch p a) =
     (case p_recent_invoices p of None \<Rightarrow> recent_invoices a | Some xs \<Rightarrow> xs)"
  by (simp add: apply_account_patch_def)


lemma required_org_id_Inr: "required_org_id env r org = Inr g \<Longrightarrow> g \<noteq> [] \<and> (\<exists>x. org = Some x \<and> g = strip x)"
  by (cases org) (auto simp: required_org_id_def Let_def split: if_splits)

lemma wp_required:
  "(\<And>g x. org = Some x \<Longrightarrow> g = strip x \<Longrightarrow> g \<noteq> [] \<Longrightarrow> Q g s) \<Longrightarrow> (\<And>e. E e s) \<Longrightarrow>
   wp (liftR (required_org_id env r org)) Q E s"
  by (auto simp: wp_simps dest: required_org_id_Inr split: sum.splits)

definition handler_post :: "string option \<Rightarrow> billing_store \<Rightarrow> string \<Rightarrow> billing_store \<Rightarrow> bool" where
  "handler_post org s g t \<longleftrightarrow> (\<exists>x. org = Some x \<and> g = strip x) \<and> account_written s g t"

lemma account_written_intro:
  assumes "au_org_id r = g"
    and "case dget (accounts s) g of
           None \<Rightarrow> length (recent_invoices a) \<le> 10 \<and> distinct (map invoice_id (recent_invoices a))
         | Some b \<Rightarrow> recent_invoices a = recent_invoices b \<or>
             (\<exists>x. recent_invoices a = take 10 (x # filter (\<lambda>y. invoice_id y \<noteq> invoice_id x) (recent_invoices b)))"
  shows "account_written s g (s\<lparr>accounts := dset g a (accounts s), audit_events := audit_events s @ [r]\<rparr>)"
  using assms unfolding account_written_def by blast

lemma subscription_effect:
  "wp (process_subscription_event env i eid r org et) (handler_post org s) (\<lambda>e t. t = s) s"
  unfolding process_subscription_event_def wp_bindE
  apply (rule wp_required)
   apply (rule wp_owner_user_id)
   apply (simp only: wp_simps Let_def sum.case)
   apply (split sum.split, intro conjI allI impI, rule refl)
   apply (split prod.split, intro allI impI)
   apply (simp only: wp_simps Let_def)
   apply (rule wp_append_event)
   apply (simp add: wp_simps handler_post_def)
   apply (rule account_written_intro, assumption)
   apply (simp add: empty_patch_def new_account_def split: option.splits)
  apply (rule refl)
  done

lemma invoice_effect:
  "wp (process_invoice_event env i eid r org et) (handler_post org s) (\<lambda>e t. t = s) s"
  unfolding process_invoice_event_def wp_bindE
  apply (rule wp_required)
   apply (rule wp_owner_user_id)
   apply (simp only: wp_simps Let_def sum.case)
   apply (split sum.split, intro conjI allI impI, rule refl)
   apply (rule wp_append_event)
   apply (simp add: wp_simps handler_post_def)
   apply (rule account_written_intro, assumption)
   apply (auto simp: empty_patch_def new_account_def split: option.splits) [1]
  apply (rule refl)
  done

lemma quote_effect:
  "wp (process_quote_event env i eid r org et) (handler_post org s) (\<lambda>e t. t = s) s"
  unfolding process_quote_event_def wp_bindE
  apply (rule wp_required)
   apply (rule wp_owner_user_id)
   apply (simp only: wp_simps Let_def sum.case)
   apply (rule wp_append_event)
   apply (simp add: wp_simps handler_post_def)
   apply (rule account_written_intro, assumption)
   apply (simp add: empty_patch_def new_account_def split: option.splits)
  apply (rule refl)
  done

lemmas handler_effects = subscription_effect invoice_effect quote_effect

definition dispatch_post :: "string option \<Rightarrow> billing_store \<Rightarrow> string option \<Rightarrow> billing_store \<Rightarrow> bool" where
  "dispatch_post org s org' t \<longleftrightarrow>
     (org' = org \<and> t = s) \<or> (\<exists>x. org = Some x \<and> org' = Some (strip x) \<and> account_written s (strip x) t)"

lemma dispatch_post_refl: "dispatch_post org s org s"
  by (simp add: dispatch_post_def)

lemma dispatch_effect:
  "wp (dispatch_event env i eid ety r org et) (dispatch_post org s) (\<lambda>e t. t = s) s"
proof -
  have "wp m (\<lambda>g. dispatch_post org s (Some g)) (\<lambda>e t. t = s) s"
    if "wp m (handler_post org s) (\<lambda>e t. t = s) s" for m
    using that by (rule wp_mono) (auto simp: handler_post_def dispatch_post_def)
  from this [OF subscription_effect] this [OF invoice_effect] this [OF quote_effect]
  show ?thesis
    unfolding dispatch_event_def by (simp add: wp_simps dispatch_post_refl)
qed

section \<open>What \<open>process_event\<close> writes\<close>

text \<open>The organisation an event resolves to, as a function of the store.\<close>

definition org_of :: "billing_env \<Rightarrow> json \<Rightarrow> billing_store \<Rightarrow> string option" where
  "org_of env r s =
     (let c = be_codec env; customer = str_field c r ''customer'';
          meta = strip (str_or_empty c (jget (metadata r) ''org_id'')) in
      if customer = [] then org_opt meta
      else case find_by_customer c (strip customer) (accounts s) of
             None \<Rightarrow> org_opt meta
           | Some a \<Rightarrow> org_opt (or_str (strip (acc_org_id a)) meta))"

lemma resolve_org_id_run: "resolve_org_id env r s = (Inr (org_of env r s), s)"
  by (simp add: resolve_org_id_def org_of_def Let_def get_by_customer_id_def bindE_def getsE_def ret_def
      or_str_def split: option.splits)

definition event_object :: "json \<Rightarrow> json" where
  "event_object ev = field_or_obj (field_or_obj ev ''data'') ''object''"

definition event_id_of :: "billing_env \<Rightarrow> json \<Rightarrow> string" where
  "event_id_of env ev = str_field (be_codec env) ev ''id''"

definition event_type_of :: "billing_env \<Rightarrow> json \<Rightarrow> string" where
  "event_type_of env ev = str_field (be_codec env) ev ''type''"

lemma wp_resolve_org_id [wp_simps]: "wp (resolve_org_id env r) Q E s = Q (org_of env r s) s"
  by (simp add: wp_def resolve_org_id_run)

lemma wp_claim_event:
  "wp (claim_event now eid ety org) Q E s =
     (if claimable s eid
      then \<exists>r. processing_status r = Claimed \<and> claim_event now eid ety org s =
             (Inr (Some r), s\<lparr>stripe_events := dset eid r (stripe_events s)\<rparr>) \<and>
           Q (Some r) (s\<lparr>stripe_events := dset eid r (stripe_events s)\<rparr>)
      else Q None s)"
proof (cases "claimable s eid")
  case True
  from claim_event_granted [OF this, of now ety org] show ?thesis
    by (auto simp: True wp_def)
next
  case False
  then show ?thesis by (simp add: wp_def claim_event_duplicate)
qed

lemma wp_mark_event:
  "dget (stripe_events s) eid = Some old \<Longrightarrow>
   (\<And>r. processing_status r = processing_status (f old) \<Longrightarrow>
        Q r (s\<lparr>stripe_events := dset eid r (stripe_events s)\<rparr>)) \<Longrightarrow>
   wp (mark_event f now eid meta) Q E s"
  by (simp add: wp_def mark_event_def Let_def)

text \<open>
  The outcomes of a delivery: rejected or a duplicate, with the store as it was; processed, with at
  most one account written; failed, with nothing but the event's own record changed.
\<close>

definition only_event_changes :: "event_status \<Rightarrow> string \<Rightarrow> billing_store \<Rightarrow> billing_store \<Rightarrow> bool" where
  "only_event_changes st eid s t \<longleftrightarrow>
     (\<exists>r. processing_status r = st \<and> stripe_events t = dset eid r (stripe_events s)) \<and>
     usage_tab t = usage_tab s \<and> revisions t = revisions s"

definition account_step :: "string option \<Rightarrow> billing_store \<Rightarrow> string option \<Rightarrow> billing_store \<Rightarrow> bool" where
  "account_step org s org' t \<longleftrightarrow>
     org' = org \<and> accounts t = accounts s \<and> audit_events t = audit_events s \<or>
     (\<exists>x a r. org = Some x \<and> org' = Some (strip x) \<and>
        accounts t = dset (strip x) a (accounts s) \<and> audit_events t = audit_events s @ [r] \<and>
        au_org_id r = strip x \<and>
        (case dget (accounts s) (strip x) of
           None \<Rightarrow> length (recent_invoices a) \<le> 10 \<and> distinct (map invoice_id (recent_invoices a))
         | Some b \<Rightarrow> recent_invoices a = recent_invoices b \<or>
             (\<exists>x. recent_invoices a = take 10 (x # filter (\<lambda>y. invoice_id y \<noteq> invoice_id x) (recent_invoices b)))))"

lemma dset_dset [simp]: "dset k w (dset k v d) = dset k w d"
  by (induction d) auto

definition event_post :: "billing_env \<Rightarrow> json \<Rightarrow> billing_store \<Rightarrow> webhook_outcome \<Rightarrow> billing_store \<Rightarrow> bool" where
  "event_post env ev s out t \<longleftrightarrow>
     wo_event_id out = event_id_of env ev \<and> wo_event_type out = event_type_of env ev \<and>
     event_id_of env ev \<noteq> [] \<and> event_type_of env ev \<noteq> [] \<and>
     wo_duplicate out = (\<not> claimable s (event_id_of env ev)) \<and>
     (if wo_duplicate out then t = s \<and> wo_org_id out = org_of env (event_object ev) s
      else only_event_changes Processed (event_id_of env ev) s t \<and>
           account_step (org_of env (event_object ev) s) s (wo_org_id out) t)"

definition event_failure :: "billing_env \<Rightarrow> json \<Rightarrow> billing_store \<Rightarrow> exn \<Rightarrow> billing_store \<Rightarrow> bool" where
  "event_failure env ev s e t \<longleftrightarrow>
     (\<exists>m. e = BillingWebhookProcessingError m) \<and>
     ((event_id_of env ev = [] \<or> event_type_of env ev = []) \<and> t = s \<or>
      event_id_of env ev \<noteq> [] \<and> claimable s (event_id_of env ev) \<and>
      only_event_changes EventFailed (event_id_of env ev) s t \<and>
      accounts t = accounts s \<and> audit_events t = audit_events s)"

lemma dispatch_then_mark:
  assumes "dispatch_post org (s\<lparr>stripe_events := dset eid r (stripe_events s)\<rparr>) org' t"
  shows "stripe_events t = dset eid r (stripe_events s) \<and> usage_tab t = usage_tab s \<and>
    revisions t = revisions s \<and> account_step org s org' t"
  using assms by (auto simp: dispatch_post_def account_step_def account_written_def)

lemma process_event_effect:
  "wp (process_event env i ev) (event_post env ev s) (event_failure env ev s) s"
proof (cases "event_id_of env ev = [] \<or> event_type_of env ev = []")
  case True
  then show ?thesis
    by (simp add: process_event_def event_id_of_def event_type_of_def Let_def wp_simps event_failure_def)
next
  case False
  let ?eid = "event_id_of env ev" and ?org = "org_of env (event_object ev) s"
  note [simp] = event_id_of_def [symmetric] event_type_of_def [symmetric] event_object_def [symmetric]
  from False have ids: "?eid \<noteq> []" "event_type_of env ev \<noteq> []" by simp_all
  show ?thesis
  proof (cases "claimable s ?eid")
    case dup: False
    with ids show ?thesis
      by (simp add: process_event_def Let_def wp_simps wp_claim_event event_post_def)
  next
    case fresh: True
    note d = dispatch_effect [of env i ?eid "event_type_of env ev" "event_object ev" ?org "event_timestamp (t_event i) ev"]
    have proc: "wp (mark_processed (t_settle i) ?eid m) (\<lambda>_. event_post env ev s
          \<lparr>wo_event_id = ?eid, wo_event_type = event_type_of env ev, wo_duplicate = False, wo_org_id = org'\<rparr>)
        (event_failure env ev s) t"
      if "dispatch_post ?org (s\<lparr>stripe_events := dset ?eid r (stripe_events s)\<rparr>) org' t" for m r org' t
    proof -
      note t = dispatch_then_mark [OF that]
      show ?thesis
        unfolding mark_processed_def
        by (rule wp_mark_event [of _ _ r])
          (use t ids fresh in \<open>auto simp: event_post_def only_event_changes_def account_step_def\<close>)
    qed
    have failed: "wp (mark_failed (t_settle i) ?eid m) (\<lambda>_. event_failure env ev s (BillingWebhookProcessingError x))
        (event_failure env ev s) (s\<lparr>stripe_events := dset ?eid r (stripe_events s)\<rparr>)" for m r x
      unfolding mark_failed_def
      by (rule wp_mark_event [of _ _ r])
        (use ids fresh in \<open>auto simp: event_failure_def only_event_changes_def\<close>)
    from claim_event_granted [OF fresh, of "t_claim i" "event_type_of env ev" ?org] obtain r where
      "claim_event (t_claim i) ?eid (event_type_of env ev) ?org s =
        (Inr (Some r), s\<lparr>stripe_events := dset ?eid r (stripe_events s)\<rparr>)" by blast
    then have c: "wp (claim_event (t_claim i) ?eid (event_type_of env ev) ?org) Q E s =
        Q (Some r) (s\<lparr>stripe_events := dset ?eid r (stripe_events s)\<rparr>)" for Q E by (rule wp_Inr)
    show ?thesis
      using ids
      by (simp add: process_event_def Let_def wp_simps c)
        (rule wp_mono [OF d], auto simp: wp_simps intro: proc failed)
  qed
qed

lemma process_event_cases:
  obtains (returned) out t where "process_event env i ev s = (Inr out, t)" "event_post env ev s out t"
  | (raised) e t where "process_event env i ev s = (Inl e, t)" "event_failure env ev s e t"
  using process_event_effect [of env i ev s]
  by (cases "process_event env i ev s"; cases "fst (process_event env i ev s)") (auto simp: wp_def)

lemma claimable_only_event:
  "only_event_changes st eid s t \<Longrightarrow>
   claimable t k = (if k = eid then st = EventFailed else claimable s k)"
  by (auto simp: only_event_changes_def claimable_def)

lemma claimable_shrinks: "claimable (snd (process_event env i ev s)) k \<Longrightarrow> claimable s k"
  by (rule process_event_cases [of env i ev s])
    (auto simp: event_post_def event_failure_def claimable_only_event split: if_splits)

text \<open>A sequence of deliveries, each with the ids it would draw and the time it is handled at.\<close>

fun deliver :: "billing_env \<Rightarrow> (ids \<times> json) list \<Rightarrow> billing_store \<Rightarrow> billing_store" where
  "deliver env [] s = s"
| "deliver env ((i, ev) # xs) s = deliver env xs (snd (process_event env i ev s))"

lemma claimable_deliver: "claimable (deliver env xs s) k \<Longrightarrow> claimable s k"
  by (induction env xs s rule: deliver.induct) (auto dest: claimable_shrinks)

lemma process_event_returned:
  "process_event env i ev s = (Inr out, t) \<Longrightarrow> event_post env ev s out t"
  using process_event_effect [of env i ev s] by (simp add: wp_def)

definition invoices_ok :: "billing_store \<Rightarrow> bool" where
  "invoices_ok s \<longleftrightarrow>
     (\<forall>(k, a) \<in> set (accounts s). length (recent_invoices a) \<le> 10 \<and> distinct (map invoice_id (recent_invoices a)))"

lemma set_dset_subset: "set (dset k v d) \<subseteq> insert (k, v) (set d)"
  by (induction d) auto

lemma account_step_invoices_ok: "account_step org s org' t \<Longrightarrow> invoices_ok s \<Longrightarrow> invoices_ok t"
proof (unfold account_step_def, elim disjE exE conjE)
  assume "accounts t = accounts s" and "invoices_ok s"
  then show "invoices_ok t" by (simp add: invoices_ok_def)
next
  fix x a r
  assume t: "accounts t = dset (strip x) a (accounts s)" and ok: "invoices_ok s"
    and c: "case dget (accounts s) (strip x) of
           None \<Rightarrow> length (recent_invoices a) \<le> 10 \<and> distinct (map invoice_id (recent_invoices a))
         | Some b \<Rightarrow> recent_invoices a = recent_invoices b \<or>
             (\<exists>x. recent_invoices a = take 10 (x # filter (\<lambda>y. invoice_id y \<noteq> invoice_id x) (recent_invoices b)))"
  have "length (recent_invoices a) \<le> 10 \<and> distinct (map invoice_id (recent_invoices a))"
  proof (cases "dget (accounts s) (strip x)")
    case None
    with c show ?thesis by simp
  next
    case (Some b)
    with ok dget_in_set [OF this] have b: "length (recent_invoices b) \<le> 10" "distinct (map invoice_id (recent_invoices b))"
      by (auto simp: invoices_ok_def)
    have "distinct (map invoice_id (take 9 (filter P (recent_invoices b))))" for P
      unfolding take_map [symmetric] by (intro distinct_take distinct_map_filter b)
    moreover have "invoice_id x \<notin> invoice_id ` set (take 9 (filter (\<lambda>y. invoice_id y \<noteq> invoice_id x) (recent_invoices b)))" for x
      using set_take_subset by fastforce
    ultimately show ?thesis
      using c b Some by (auto simp: take_Cons' min_def dest!: in_set_takeD)
  qed
  with ok t set_dset_subset [of "strip x" a "accounts s"] show "invoices_ok t"
    by (auto simp: invoices_ok_def)
qed

section \<open>A delivery to evaluate\<close>

definition sample_account :: account where
  "sample_account = (new_account ''a1'' ''org1'' ''u1'' 0)\<lparr>stripe_customer_id := JStr ''cus''\<rparr>"

definition sample_store :: billing_store where
  "sample_store = empty_billing_store\<lparr>accounts := [(''org1'', sample_account)]\<rparr>"

definition sample_event :: json where
  "sample_event = JObj [(''id'', JStr ''e1''), (''type'', JStr ''invoice.paid''),
     (''data'', JObj [(''object'', JObj [(''id'', JStr ''in1''), (''customer'', JStr ''cus''),
        (''amount_paid'', JInt 1250), (''metadata'', JObj [(''org_id'', JStr ''org2'')])])])]"

definition sample_wh_ids :: ids where
  "sample_wh_ids = \<lparr>acc_new = ''a2'', aud_new = ''au1'', t_event = 1, t_claim = 2, t_invoice = 7, t_upsert = 8,
     t_audit = 9, t_settle = 10\<rparr>"

lemma sample_delivery:
  "\<exists>out t. process_event sample_env sample_wh_ids sample_event sample_store = (Inr out, t) \<and>
     map_option recent_invoices (dget (accounts t) ''org1'') =
       Some [\<lparr>invoice_id = ''in1'', inv_status = [], hosted_invoice_url = [],
               amount_paid_usd = py_round 4 (25 / 2), amount_due_usd = 0, inv_created_at = 7\<rparr>] \<and>
     wo_org_id out = Some ''org1''"
  by (simp add: process_event_def sample_event_def sample_store_def sample_account_def str_field_def
      field_or_obj_def jor_def event_timestamp_def resolve_org_id_run org_of_def org_opt_def or_str_def
      new_account_def empty_billing_store_def bindE_def tryE_def claim_event_def ret_def raise_def
      dispatch_event_def starts_with_def process_invoice_event_def required_org_id_def liftR_def py_float_def
      owner_user_id_def get_by_org_def getsE_def invoice_summary_def upsert_by_org_def
      apply_account_patch_def empty_patch_def append_event_def mark_processed_def mark_event_def
      patched_def sample_wh_ids_def str_or_old_def acc_field_def string_eval)

section \<open>Properties\<close>

text \<open>
  C20: Replay safety. Once a delivery of an event returned, every later delivery with the same event
  id, however many other deliveries came between and whatever they did, is answered as a duplicate
  and changes nothing.
\<close>

theorem replay_is_duplicate:
  assumes "process_event env i ev s = (Inr out, s1)"
    and "event_id_of env ev2 = event_id_of env ev" and "event_type_of env ev2 \<noteq> []"
  shows "\<exists>out2. process_event env i2 ev2 (deliver env xs s1) = (Inr out2, deliver env xs s1) \<and>
    wo_duplicate out2"
proof -
  from process_event_returned [OF assms(1)] have "\<not> claimable s1 (event_id_of env ev)" "event_id_of env ev \<noteq> []"
    by (auto simp: event_post_def claimable_only_event split: if_splits)
  with claimable_deliver [of env xs s1] assms(2,3) show ?thesis
    by (cases rule: process_event_cases [of env i2 ev2 "deliver env xs s1"])
      (auto simp: event_post_def event_failure_def)
qed

theorem replay_is_duplicate_witness:
  "\<exists>out s1 out2. process_event sample_env sample_wh_ids sample_event sample_store = (Inr out, s1) \<and>
     process_event sample_env sample_wh_ids sample_event (deliver sample_env [(sample_wh_ids, JNull)] s1) =
       (Inr out2, deliver sample_env [(sample_wh_ids, JNull)] s1) \<and> wo_duplicate out2"
proof -
  from sample_delivery obtain out s1 where
    r: "process_event sample_env sample_wh_ids sample_event sample_store = (Inr out, s1)" by blast
  have "event_type_of sample_env sample_event \<noteq> []"
    by (simp add: event_type_of_def str_field_def sample_event_def string_eval)
  from replay_is_duplicate [OF r refl this] r show ?thesis by blast
qed

text \<open>
  A delivery that raises, raises \<open>BillingWebhookProcessingError\<close>, has written no account, no audit
  event, no usage and no pricebook revision, and (unless the event had no id or type) leaves the
  event claimable, so Stripe's retry is handled. A delivery that returns leaves it unclaimable.
\<close>

theorem failed_event_can_be_retried:
  "case process_event env i ev s of
     (Inl e, t) \<Rightarrow> (\<exists>m. e = BillingWebhookProcessingError m) \<and> accounts t = accounts s \<and>
        audit_events t = audit_events s \<and> usage_tab t = usage_tab s \<and> revisions t = revisions s \<and>
        (t = s \<or> claimable t (event_id_of env ev))
   | (Inr out, t) \<Rightarrow> \<not> claimable t (event_id_of env ev)"
  by (cases rule: process_event_cases [of env i ev s])
    (auto simp: event_post_def event_failure_def claimable_def only_event_changes_def split: if_splits)

text \<open>
  Whatever event is delivered and however its handling ends, every billing account keeps at most
  ten recent invoices, no two with the same id.
\<close>

theorem recent_invoices_bounded: "preserves invoices_ok (process_event env i ev)"
proof (unfold preserves_def, intro allI impI)
  fix s
  assume ok: "invoices_ok s"
  then show "invoices_ok (snd (process_event env i ev s))"
    by (cases rule: process_event_cases [of env i ev s])
      (auto simp: event_post_def event_failure_def invoices_ok_def [of s] invoices_ok_def
        dest!: account_step_invoices_ok split: if_splits)
qed

text \<open>
  An event whose Stripe customer is bound to an organisation's account acts on that account,
  whatever organisation the event's metadata names: no other organisation's account is touched.
\<close>

theorem bound_customer_decides:
  assumes "process_event env i ev s = (Inr out, t)"
    and "str_field (be_codec env) (event_object ev) ''customer'' \<noteq> []"
    and "find_by_customer (be_codec env) (str_field (be_codec env) (event_object ev) ''customer'') (accounts s) = Some a"
    and "strip (acc_org_id a) = acc_org_id a" and "acc_org_id a \<noteq> []"
  shows "wo_org_id out = Some (acc_org_id a) \<and>
    (accounts t = accounts s \<or> (\<exists>b. accounts t = dset (acc_org_id a) b (accounts s)))"
proof -
  have "strip (str_field c r n) = str_field c r n" for c r n by (simp add: str_field_def)
  with assms have "org_of env (event_object ev) s = Some (acc_org_id a)"
    by (simp add: org_of_def Let_def org_opt_def or_str_def)
  with process_event_returned [OF assms(1)] assms(4) show ?thesis
    by (auto simp: event_post_def account_step_def split: if_splits)
qed

theorem bound_customer_decides_witness:
  "\<exists>out t. process_event sample_env sample_wh_ids sample_event sample_store = (Inr out, t) \<and>
     jget (metadata (event_object sample_event)) ''org_id'' = JStr ''org2'' \<and> wo_org_id out = Some ''org1''"
proof -
  from sample_delivery obtain out t where
    r: "process_event sample_env sample_wh_ids sample_event sample_store = (Inr out, t)" by blast
  have c: "str_field (be_codec sample_env) (event_object sample_event) ''customer'' = ''cus''"
    and m: "jget (metadata (event_object sample_event)) ''org_id'' = JStr ''org2''"
    by (simp_all add: event_object_def field_or_obj_def jor_def str_field_def sample_event_def string_eval)
  have f: "find_by_customer (be_codec sample_env) ''cus'' (accounts sample_store) = Some sample_account"
    by (simp add: sample_store_def sample_account_def new_account_def string_eval)
  have o: "strip (acc_org_id sample_account) = acc_org_id sample_account" "acc_org_id sample_account = ''org1''"
    by (simp_all add: sample_account_def new_account_def string_eval)
  from bound_customer_decides [OF r] c f o r m show ?thesis by simp
qed

end
