(* ===== verification/Access_Control.thy ===== *)
theory Access_Control
  imports Json
begin

text \<open>
  Two gates in front of the routes: the sliding-window rate limiter (\<open>app/services/rate_limits.py\<close>)
  and the role permissions (\<open>app/auth/rbac.py\<close>).
\<close>

section \<open>Rate limits\<close>

text \<open>The state is the dictionary of buckets; \<open>now\<close> is \<open>time.monotonic()\<close>.\<close>

type_synonym buckets = "(string \<times> string, rat list) pydict"

record rate_limit_settings =
  museum_rate_limit_per_minute :: int
  pro_rate_limit_per_minute :: int
  hobbyist_rate_limit_per_minute :: int

definition WINDOW_SECONDS :: rat where
  "WINDOW_SECONDS = 60"

definition reset_rate_limits :: "buckets \<Rightarrow> buckets" where
  "reset_rate_limits b = []"

definition limit_for_tier :: "rate_limit_settings \<Rightarrow> string \<Rightarrow> int" where
  "limit_for_tier st tier =
     (if lower tier = ''museum'' then museum_rate_limit_per_minute st
      else if lower tier = ''pro'' then pro_rate_limit_per_minute st
      else hobbyist_rate_limit_per_minute st)"

text \<open>Reading a missing key of the \<open>defaultdict(list)\<close> stores the empty list under it.\<close>

definition bucket_of :: "string \<times> string \<Rightarrow> buckets \<Rightarrow> rat list" where
  "bucket_of k b = (case dget b k of None \<Rightarrow> [] | Some ts \<Rightarrow> ts)"

definition enforce_rate_limit ::
  "rate_limit_settings \<Rightarrow> rat \<Rightarrow> string \<Rightarrow> string \<Rightarrow> string \<Rightarrow> (buckets, unit) prog" where
  "enforce_rate_limit st now user_id tier route = (\<lambda>b.
     (let key = (user_id, route);
          b' = dsetdefault key [] b;
          timestamps = filter (\<lambda>stamp. now - stamp < WINDOW_SECONDS) (bucket_of key b') in
      if int (length timestamps) \<ge> limit_for_tier st tier
      then (Inl (ProblemException ''Rate Limit Exceeded'' 429), b')
      else (Inr (), dset key (timestamps @ [now]) b')))"

text \<open>The requests of one user on one route, each with its time; the accepted ones.\<close>

fun accepted :: "rate_limit_settings \<Rightarrow> string \<Rightarrow> string \<Rightarrow> string \<Rightarrow> rat list \<Rightarrow> buckets \<Rightarrow> rat list" where
  "accepted st u tier route [] b = []"
| "accepted st u tier route (now # ts) b =
     (case enforce_rate_limit st now u tier route b of
        (Inl e, b') \<Rightarrow> accepted st u tier route ts b'
      | (Inr _, b') \<Rightarrow> now # accepted st u tier route ts b')"

lemma bucket_of_dset [simp]: "bucket_of k (dset k' v b) = (if k = k' then v else bucket_of k b)"
  by (simp add: bucket_of_def)

lemma bucket_of_setdefault [simp]: "bucket_of k (dsetdefault k' [] b) = bucket_of k b"
  by (auto simp: bucket_of_def dsetdefault_def split: option.splits)

definition in_window :: "rat \<Rightarrow> rat list \<Rightarrow> rat list" where
  "in_window t xs = filter (\<lambda>s. t - WINDOW_SECONDS < s \<and> s \<le> t) xs"

lemma in_window_append [simp]: "in_window t (xs @ ys) = in_window t xs @ in_window t ys"
  by (simp add: in_window_def)

lemma length_filter_mono: "(\<And>x. x \<in> set xs \<Longrightarrow> P x \<Longrightarrow> Q x) \<Longrightarrow> length (filter P xs) \<le> length (filter Q xs)"
  by (induction xs) auto

text \<open>
  With \<open>acc\<close> the requests accepted so far, the bucket holds at least those that are still inside the
  window of any request to come.
\<close>

lemma accepted_bounded:
  assumes "sorted (acc @ ts)"
    and "\<And>t. t \<in> set ts \<Longrightarrow>
      filter (\<lambda>s. t - s < WINDOW_SECONDS) (bucket_of (u, route) b) = filter (\<lambda>s. t - s < WINDOW_SECONDS) acc"
    and "\<And>t. int (length (in_window t acc)) \<le> max (limit_for_tier st tier) 0"
  shows "int (length (in_window t (acc @ accepted st u tier route ts b))) \<le> max (limit_for_tier st tier) 0"
  using assms
proof (induction ts arbitrary: acc b t)
  case Nil
  then show ?case by simp
next
  case (Cons now ts)
  let ?b = "dsetdefault (u, route) [] b"
  let ?live = "filter (\<lambda>s. now - s < WINDOW_SECONDS) acc"
  have live: "filter (\<lambda>s. now - s < WINDOW_SECONDS) (bucket_of (u, route) b) = ?live"
    using Cons.prems(2) by simp
  show ?case
  proof (cases "int (length ?live) \<ge> limit_for_tier st tier")
    case True
    then have run: "enforce_rate_limit st now u tier route b = (Inl (ProblemException ''Rate Limit Exceeded'' 429), ?b)"
      by (simp add: enforce_rate_limit_def live)
    have "int (length (in_window t (acc @ accepted st u tier route ts ?b))) \<le> max (limit_for_tier st tier) 0"
      by (rule Cons.IH) (use Cons.prems in \<open>auto simp: sorted_append\<close>)
    then show ?thesis by (simp add: run)
  next
    case False
    let ?b2 = "dset (u, route) (?live @ [now]) ?b" and ?acc = "acc @ [now]"
    have run: "enforce_rate_limit st now u tier route b = (Inr (), ?b2)"
      using False by (simp add: enforce_rate_limit_def live Let_def)
    from Cons.prems(1) have past: "\<And>s. s \<in> set acc \<Longrightarrow> s \<le> now" and future: "\<And>s. s \<in> set ts \<Longrightarrow> now \<le> s"
      by (auto simp: sorted_append)
    have keep: "filter (\<lambda>s. t - s < WINDOW_SECONDS) (?live @ [now]) = filter (\<lambda>s. t - s < WINDOW_SECONDS) ?acc"
      if "t \<in> set ts" for t
      using future [OF that] by (auto intro!: filter_cong)
    have bound: "int (length (in_window t ?acc)) \<le> max (limit_for_tier st tier) 0" for t
    proof (cases "t - WINDOW_SECONDS < now \<and> now \<le> t")
      case True
      then have "length (in_window t acc) \<le> length ?live"
        unfolding in_window_def by (intro length_filter_mono) (auto simp: WINDOW_SECONDS_def)
      with False True show ?thesis by (simp add: in_window_def)
    next
      case out: False
      with Cons.prems(3) [of t] show ?thesis by (auto simp: in_window_def)
    qed
    have "int (length (in_window t (?acc @ accepted st u tier route ts ?b2))) \<le> max (limit_for_tier st tier) 0"
      by (rule Cons.IH) (use Cons.prems keep bound in \<open>auto simp: sorted_append\<close>)
    then show ?thesis by (simp add: run)
  qed
qed

section \<open>Roles\<close>

definition MEMBER_PERMISSIONS :: "string list" where
  "MEMBER_PERMISSIONS = [''jobs:read'', ''jobs:write'', ''billing:read'', ''users:read'']"

definition ANALYST_PERMISSIONS :: "string list" where
  "ANALYST_PERMISSIONS = [''jobs:read'', ''jobs:write'', ''billing:read'', ''users:read'', ''logs:read'']"

definition ADMIN_PERMISSIONS :: "string list" where
  "ADMIN_PERMISSIONS = [''jobs:read'', ''jobs:write'', ''billing:read'', ''billing:write'', ''users:read'',
     ''users:write'', ''logs:read'', ''logs:write'', ''retention:write'', ''compliance:write'', ''ops:read'']"

definition PLATFORM_ADMIN_PERMISSIONS :: "string list" where
  "PLATFORM_ADMIN_PERMISSIONS = [''jobs:read'', ''jobs:write'', ''billing:read'', ''billing:write'', ''users:read'',
     ''users:write'', ''logs:read'', ''logs:write'', ''retention:write'', ''compliance:write'', ''ops:read'', ''ops:write'']"

definition ROLE_PERMISSIONS :: "(string, string list) pydict" where
  "ROLE_PERMISSIONS = [(''platform_admin'', PLATFORM_ADMIN_PERMISSIONS), (''admin'', ADMIN_PERMISSIONS),
     (''analyst'', ANALYST_PERMISSIONS), (''member'', MEMBER_PERMISSIONS)]"

text \<open>A role or permission that is not a string normalises to the empty string.\<close>

fun normalize_role :: "json \<Rightarrow> string" where
  "normalize_role (JStr s) = lower (strip s)"
| "normalize_role _ = []"

fun normalize_permission :: "json \<Rightarrow> string" where
  "normalize_permission (JStr s) = lower (strip s)"
| "normalize_permission _ = []"

definition permissions_for_role :: "json \<Rightarrow> string list" where
  "permissions_for_role role =
     (case dget ROLE_PERMISSIONS (normalize_role role) of None \<Rightarrow> [] | Some ps \<Rightarrow> ps)"

definition has_permission :: "json \<Rightarrow> json \<Rightarrow> bool" where
  "has_permission role permission = (normalize_permission permission \<in> set (permissions_for_role role))"

section \<open>Properties\<close>

text \<open>
  C28: The limiter limits. Of any sequence of requests by one user on one route, at non-decreasing
  times and from an empty bucket, the requests accepted within any 60 seconds are at most the limit
  of the user's tier, wherever those 60 seconds start.
\<close>

theorem rate_limit_sliding_window:
  assumes "sorted ts"
  shows "int (length (filter (\<lambda>s. t - 60 < s \<and> s \<le> t) (accepted st u tier route ts []))) \<le>
    max (limit_for_tier st tier) 0"
  using accepted_bounded [of "[]" ts u route "[]" st tier t] assms
  by (simp add: in_window_def WINDOW_SECONDS_def bucket_of_def)

theorem rate_limit_sliding_window_witness:
  "accepted \<lparr>museum_rate_limit_per_minute = 9, pro_rate_limit_per_minute = 2, hobbyist_rate_limit_per_minute = 1\<rparr>
      ''u'' ''Pro'' ''/jobs'' [0, 10, 20, 61] [] = [0, 10, 61] \<and>
   int (length (filter (\<lambda>s. 61 - 60 < s \<and> s \<le> 61) [0, 10, 61 :: rat])) \<le> 2"
proof -
  let ?st = "\<lparr>museum_rate_limit_per_minute = 9, pro_rate_limit_per_minute = 2, hobbyist_rate_limit_per_minute = 1\<rparr>"
  have l: "limit_for_tier ?st ''Pro'' = 2"
    by (simp add: limit_for_tier_def string_eval)
  have a: "accepted ?st ''u'' ''Pro'' ''/jobs'' [0, 10, 20, 61] [] = [0, 10, 61]"
    by (simp add: enforce_rate_limit_def l Let_def WINDOW_SECONDS_def dsetdefault_def bucket_of_def)
  have "sorted [0, 10, 20, 61 :: rat]" by simp
  from rate_limit_sliding_window [OF this, of 61 ?st "''u''" "''Pro''" "''/jobs''"] a l
  show ?thesis by simp
qed

text \<open>
  Permissions grow along member, analyst, admin, platform admin; only a platform admin may write
  operations; a role that is not one of the four, or not a string, permits nothing.
\<close>

theorem role_hierarchy:
  "set (permissions_for_role (JStr ''member'')) \<subseteq> set (permissions_for_role (JStr ''analyst'')) \<and>
   set (permissions_for_role (JStr ''analyst'')) \<subseteq> set (permissions_for_role (JStr ''admin'')) \<and>
   set (permissions_for_role (JStr ''admin'')) \<subseteq> set (permissions_for_role (JStr ''platform_admin'')) \<and>
   has_permission role (JStr ''ops:write'') = (normalize_role role = ''platform_admin'') \<and>
   (if normalize_role role \<in> {''member'', ''analyst'', ''admin'', ''platform_admin''} then True
    else permissions_for_role role = [])"
proof -
  have n: "normalize_role (JStr ''member'') = ''member''" "normalize_role (JStr ''analyst'') = ''analyst''"
    "normalize_role (JStr ''admin'') = ''admin''" "normalize_role (JStr ''platform_admin'') = ''platform_admin''"
    "normalize_permission (JStr ''ops:write'') = ''ops:write''"
    by (simp_all add: string_eval)
  note perms = permissions_for_role_def ROLE_PERMISSIONS_def MEMBER_PERMISSIONS_def ANALYST_PERMISSIONS_def
    ADMIN_PERMISSIONS_def PLATFORM_ADMIN_PERMISSIONS_def
  show ?thesis
    unfolding has_permission_def n perms
    by (simp add: n split: option.splits)
qed

end
