(* ===== verification/Api_World.thy ===== *)
theory Api_World
  imports Preview_Service Configuration Security Billing_Management Stripe_Webhooks Job_Runtime Access_Control
begin

text \<open>
  The state behind the HTTP routes, put together from the components' own states, and the dependencies of
  \<open>app/api/dependencies.py\<close> every route goes through: who is asking, may they, and how often. What the
  caller sent is the record \<open>headers\<close>; Supabase's answer about a token is a field of the environment
  (\<open>ValueError\<close> where Supabase is not configured, \<open>ExternalError\<close> for \<open>httpx.HTTPError\<close>).
\<close>

section \<open>The state\<close>

record app_world =
  ap_users :: user_table
  ap_buckets :: buckets
  ap_uploads :: upload_store
  ap_era :: era_store
  ap_previews :: preview_store
  ap_health :: "launch_health list"
  ap_security :: security_store
  ap_runtime :: world
  ap_calls :: nat

record supabase_user =
  su_id :: string
  su_email :: "string option"

record app_env =
  test_auth_override :: bool
  ae_environment :: string
  ae_rate_limits :: rate_limit_settings
  ae_monotonic :: "nat \<Rightarrow> rat"
  ae_auth_user :: "string \<Rightarrow> nat \<Rightarrow> supabase_user result"
  ae_preview :: preview_env
  ae_config :: config_env
  ae_security :: security_env
  ae_runtime :: runtime_env
  ae_portal :: portal_env
  ae_webhook_secret :: string
  ae_construct_event :: "string \<Rightarrow> string \<Rightarrow> string \<Rightarrow> json result"
  ae_event_ids :: "nat \<Rightarrow> ids"
  ae_bootstrap_enabled :: bool
  ae_detach :: "jdict \<Rightarrow> jdict"
  ae_uuid :: "nat \<Rightarrow> string"
  ae_clock :: "nat \<Rightarrow> time"
  ae_dump_without_none :: "jdict \<Rightarrow> jdict"
  ae_b64decode :: "string \<Rightarrow> string option"
  ae_database_healthy :: "(nat \<Rightarrow> bool option) option"
  ae_redis_url :: string
  ae_gcs_bucket_name :: string

section \<open>Each service on its part of the state\<close>

text \<open>
  The tables of \<open>_STORE\<close> that several services share are kept once: jobs, billing and artifacts with the
  runtime, the queue with the dispatcher, the upload sessions beside them.
\<close>

definition job_world_of :: "app_world \<Rightarrow> job_world" where
  "job_world_of a = \<lparr>jw_output = output_world_of (ap_runtime a), jw_queue = w_queue (ap_runtime a)\<rparr>"

definition put_job_world :: "job_world \<Rightarrow> app_world \<Rightarrow> app_world" where
  "put_job_world t a = a\<lparr>ap_runtime := (put_output_world (jw_output t) (ap_runtime a))
     \<lparr>w_store := ow_store (jw_output t), w_billing := ow_billing (jw_output t), w_queue := jw_queue t\<rparr>\<rparr>"

definition on_job_service :: "(job_world, 'a) prog \<Rightarrow> (app_world, 'a) prog" where
  "on_job_service = zoom job_world_of put_job_world"

definition preview_world_of :: "app_world \<Rightarrow> preview_world" where
  "preview_world_of a = \<lparr>pw_jobs = job_world_of a, pw_uploads = ap_uploads a, pw_previews = ap_previews a,
     pw_health = ap_health a\<rparr>"

definition put_preview_world :: "preview_world \<Rightarrow> app_world \<Rightarrow> app_world" where
  "put_preview_world t a = (put_job_world (pw_jobs t) a)
     \<lparr>ap_uploads := pw_uploads t, ap_previews := pw_previews t, ap_health := pw_health t\<rparr>"

definition on_preview_service :: "(preview_world, 'a) prog \<Rightarrow> (app_world, 'a) prog" where
  "on_preview_service = zoom preview_world_of put_preview_world"

definition config_world_of :: "app_world \<Rightarrow> config_world" where
  "config_world_of a = \<lparr>cw_uploads = ap_uploads a, cw_users = ap_users a, cw_era = ap_era a,
     cw_billing = w_billing (ap_runtime a)\<rparr>"

definition put_config_world :: "config_world \<Rightarrow> app_world \<Rightarrow> app_world" where
  "put_config_world t a = a\<lparr>ap_uploads := cw_uploads t, ap_users := cw_users t, ap_era := cw_era t,
     ap_runtime := (ap_runtime a)\<lparr>w_billing := cw_billing t\<rparr>\<rparr>"

definition on_config_service :: "(config_world, 'a) prog \<Rightarrow> (app_world, 'a) prog" where
  "on_config_service = zoom config_world_of put_config_world"

definition on_upload_service :: "(upload_store, 'a) prog \<Rightarrow> (app_world, 'a) prog" where
  "on_upload_service = zoom ap_uploads (\<lambda>t a. a\<lparr>ap_uploads := t\<rparr>)"

definition on_era_service :: "(era_store, 'a) prog \<Rightarrow> (app_world, 'a) prog" where
  "on_era_service = zoom ap_era (\<lambda>t a. a\<lparr>ap_era := t\<rparr>)"

definition on_user_table :: "(user_table, 'a) prog \<Rightarrow> (app_world, 'a) prog" where
  "on_user_table = zoom ap_users (\<lambda>t a. a\<lparr>ap_users := t\<rparr>)"

definition on_security :: "(security_store, 'a) prog \<Rightarrow> (app_world, 'a) prog" where
  "on_security = zoom ap_security (\<lambda>t a. a\<lparr>ap_security := t\<rparr>)"

definition on_runtime :: "(world, 'a) prog \<Rightarrow> (app_world, 'a) prog" where
  "on_runtime = zoom ap_runtime (\<lambda>t a. a\<lparr>ap_runtime := t\<rparr>)"

definition on_app_billing :: "(billing_store, 'a) prog \<Rightarrow> (app_world, 'a) prog" where
  "on_app_billing m = on_runtime (on_billing m)"

definition on_retention :: "(retention_settings, 'a) prog \<Rightarrow> (app_world, 'a) prog" where
  "on_retention = zoom (\<lambda>a. ar_settings (w_artifacts (ap_runtime a)))
     (\<lambda>t a. a\<lparr>ap_runtime := (ap_runtime a)\<lparr>w_artifacts := (w_artifacts (ap_runtime a))\<lparr>ar_settings := t\<rparr>\<rparr>\<rparr>)"

definition app_call :: "(nat \<Rightarrow> 'a) \<Rightarrow> (app_world, 'a) prog" where
  "app_call f = (\<lambda>a. (Inr (f (ap_calls a)), a\<lparr>ap_calls := Suc (ap_calls a)\<rparr>))"

text \<open>Settings several services read.\<close>

definition ae_jobs :: "app_env \<Rightarrow> job_env" where
  "ae_jobs env = pe_jobs (ae_preview env)"

definition ae_billing :: "app_env \<Rightarrow> billing_env" where
  "ae_billing env = od_billing (je_output (ae_jobs env))"

definition ae_uploads :: "app_env \<Rightarrow> upload_env" where
  "ae_uploads env = pe_uploads (ae_preview env)"

definition ae_cost_ops :: "app_env \<Rightarrow> cost_ops_env" where
  "ae_cost_ops env = \<lparr>co_ops = re_ops (ae_runtime env), co_billing = ae_billing env,
     co_stripe = je_stripe (ae_jobs env), co_config = je_prices (ae_jobs env)\<rparr>"

section \<open>Who is asking\<close>

record headers =
  hd_authorization :: "string option"
  hd_role :: "string option"
  hd_tier :: "string option"
  hd_org :: "string option"

record caller =
  cl_user_id :: string
  cl_email :: "string option"
  cl_role :: string
  cl_plan_tier :: string
  cl_org_id :: string
  cl_access_token :: string

definition unauthorized :: exn where "unauthorized = ProblemException ''Unauthorized'' 401"
definition forbidden :: exn where "forbidden = ProblemException ''Forbidden'' 403"

definition header_or :: "string option \<Rightarrow> string \<Rightarrow> string" where
  "header_or v d = (case v of None \<Rightarrow> d | Some x \<Rightarrow> x)"

text \<open>\<open>authorization.split(" ", 1)[1].strip()\<close>, or nothing where the header is not a bearer token.\<close>

definition bearer_token :: "string option \<Rightarrow> string option" where
  "bearer_token h =
     (case h of
        None \<Rightarrow> None
      | Some v \<Rightarrow>
          if v \<noteq> [] \<and> starts_with ''bearer '' (lower v)
          then Some (strip (drop 1 (dropWhile (\<lambda>c. c \<noteq> CHR '' '') v))) else None)"

definition TEST_TOKEN_PREFIX :: string where
  "TEST_TOKEN_PREFIX = ''test-token-for-''"

definition is_test_token :: "app_env \<Rightarrow> string \<Rightarrow> bool" where
  "is_test_token env token = (test_auth_override env \<and> starts_with TEST_TOKEN_PREFIX token)"

definition test_caller :: "headers \<Rightarrow> string \<Rightarrow> caller" where
  "test_caller h token =
     (let user = drop (length TEST_TOKEN_PREFIX) token in
      \<lparr>cl_user_id = user, cl_email = Some (user @ ''@example.com''), cl_role = lower (header_or (hd_role h) ''member''),
        cl_plan_tier = lower (header_or (hd_tier h) ''hobbyist''), cl_org_id = header_or (hd_org h) ''org-default'',
        cl_access_token = token\<rparr>)"

definition caller_of_profile :: "user_profile \<Rightarrow> string \<Rightarrow> caller" where
  "caller_of_profile p token = \<lparr>cl_user_id = pf_user_id p, cl_email = Some (pf_email p), cl_role = pf_role p,
     cl_plan_tier = pf_plan_tier p, cl_org_id = pf_org_id p, cl_access_token = token\<rparr>"

fun as_unauthorized :: "exn \<Rightarrow> exn" where
  "as_unauthorized (ValueError m) = unauthorized"
| "as_unauthorized (ExternalError m) = unauthorized"
| "as_unauthorized e = e"

definition auth_user :: "app_env \<Rightarrow> string \<Rightarrow> (app_world, supabase_user) prog" where
  "auth_user env token = bindE (app_call (ae_auth_user env token)) liftR"

definition get_current_user :: "app_env \<Rightarrow> headers \<Rightarrow> (app_world, caller) prog" where
  "get_current_user env h =
     (case bearer_token (hd_authorization h) of
        None \<Rightarrow> raise unauthorized
      | Some token \<Rightarrow>
          if is_test_token env token then ret (test_caller h token)
          else
            bindE (catchE (auth_user env token) (\<lambda>e. raise (as_unauthorized e))) (\<lambda>u.
            bindE (on_user_table (get_or_create_profile (su_id u) ''member'' ''hobbyist'' ''org-default'' (su_email u))) (\<lambda>p.
            ret (caller_of_profile p token))))"

definition require_permission :: "app_env \<Rightarrow> headers \<Rightarrow> string \<Rightarrow> (app_world, caller) prog" where
  "require_permission env h permission =
     bindE (get_current_user env h) (\<lambda>u.
     if \<not> has_permission (JStr (cl_role u)) (JStr permission) then raise forbidden else ret u)"

definition apply_rate_limit :: "app_env \<Rightarrow> caller \<Rightarrow> string \<Rightarrow> (app_world, unit) prog" where
  "apply_rate_limit env u route =
     bindE (app_call (ae_monotonic env)) (\<lambda>now.
     zoom ap_buckets (\<lambda>t a. a\<lparr>ap_buckets := t\<rparr>)
       (enforce_rate_limit (ae_rate_limits env) now (cl_user_id u) (cl_plan_tier u) route))"

text \<open>A route with its permission, or open to every user where there is none.\<close>

definition gated ::
  "app_env \<Rightarrow> headers \<Rightarrow> string option \<Rightarrow> string \<Rightarrow> (caller \<Rightarrow> (app_world, 'a) prog) \<Rightarrow> (app_world, 'a) prog" where
  "gated env h permission route f =
     bindE (case permission of None \<Rightarrow> get_current_user env h | Some p \<Rightarrow> require_permission env h p) (\<lambda>u.
     bindE (apply_rate_limit env u route) (\<lambda>_. f u))"

end
