(* ===== verification/Api_Routes.thy ===== *)
theory Api_Routes
  imports Api_World
begin

text \<open>
  The HTTP routes of \<open>app/api\<close>: what each checks, which service it calls on which part of the state, and
  which exceptions it turns into problems. Requests are what the contracts let through; responses are the
  records the routes hand to their response models. A dictionary dumped without its \<open>None\<close> values is
  pydantic's \<open>model_dump(exclude_none=True)\<close>, a parameter.
\<close>

section \<open>Exceptions as problems\<close>

text \<open>\<open>except ValueError\<close> also catches the configuration error of the pricebook, a subclass.\<close>

fun is_value_error :: "exn \<Rightarrow> bool" where
  "is_value_error (ValueError m) = True"
| "is_value_error (CommercialPricebookConfigurationError m) = True"
| "is_value_error _ = False"

fun is_pricing_error :: "exn \<Rightarrow> bool" where
  "is_pricing_error (CommercialPricingUnavailableError m) = True"
| "is_pricing_error e = is_value_error e"

definition problem_when :: "(exn \<Rightarrow> bool) \<Rightarrow> exn \<Rightarrow> (app_world, 'a) prog \<Rightarrow> (app_world, 'a) prog" where
  "problem_when caught problem m = catchE m (\<lambda>e. raise (if caught e then problem else e))"

text \<open>The handlers of \<open>app/api/problem_details.py\<close>: any other exception is the server's own 500.\<close>

fun http_status :: "exn \<Rightarrow> nat" where
  "http_status (ProblemException title status) = status"
| "http_status _ = 500"

section \<open>Users\<close>

definition profile_of_caller :: "caller \<Rightarrow> (app_world, user_profile) prog" where
  "profile_of_caller u =
     on_user_table (get_or_create_profile (cl_user_id u) (cl_role u) (cl_plan_tier u) (cl_org_id u) None)"

definition get_me :: "app_env \<Rightarrow> headers \<Rightarrow> (app_world, user_profile) prog" where
  "get_me env h = gated env h None ''/v1/users/me'' profile_of_caller"

record profile_patch =
  pp_display_name :: "string option"
  pp_avatar_url :: "string option"
  pp_preferences :: "jdict option"

definition patch_me :: "app_env \<Rightarrow> headers \<Rightarrow> profile_patch \<Rightarrow> (app_world, user_profile) prog" where
  "patch_me env h p = gated env h None ''/v1/users/me'' (\<lambda>u.
     bindE (profile_of_caller u) (\<lambda>_.
     on_user_table (update_profile (cl_user_id u) (pp_display_name p) (pp_avatar_url p) (pp_preferences p))))"

definition app_pricing :: "app_env \<Rightarrow> caller \<Rightarrow> bool \<Rightarrow> (app_world, effective_pricing) prog" where
  "app_pricing env u with_prices =
     bindE (if with_prices
            then bindE (liftR (resolve_billing_pricing_metadata (je_stripe (ae_jobs env)) (je_prices (ae_jobs env))))
                   (\<lambda>md. ret (Some (subscription_price_usd_for_tier md)))
            else ret None) (\<lambda>prices.
     on_app_billing (effective_pricing_for_plan (ae_billing env) (cl_plan_tier u) (Some (cl_org_id u)) prices))"

definition get_usage :: "app_env \<Rightarrow> headers \<Rightarrow> (app_world, billing_snapshot \<times> effective_pricing) prog" where
  "get_usage env h = gated env h None ''/v1/users/me/usage'' (\<lambda>u.
     problem_when is_pricing_error pricing_unavailable_problem
       (bindE (on_app_billing (snapshot (ae_billing env) (cl_user_id u) (cl_plan_tier u) (Some (cl_org_id u)))) (\<lambda>b.
        bindE (app_pricing env u True) (\<lambda>eff. ret (b, eff)))))"

definition invalid_overage_approval :: exn where
  "invalid_overage_approval = ProblemException ''Invalid Overage Approval'' 400"

definition approve_overage_route ::
  "app_env \<Rightarrow> headers \<Rightarrow> string \<Rightarrow> int \<Rightarrow> (app_world, billing_snapshot \<times> effective_pricing) prog" where
  "approve_overage_route env h scope minutes = gated env h None ''/v1/users/me/approve-overage'' (\<lambda>u.
     bindE
       (problem_when is_pricing_error pricing_unavailable_problem
         (problem_when is_value_error invalid_overage_approval
           (on_app_billing (approve_overage (ae_billing env) (cl_user_id u) (cl_plan_tier u) scope minutes (Some (cl_org_id u))))))
       (\<lambda>b.
     bindE (problem_when is_pricing_error pricing_unavailable_problem (app_pricing env u False)) (\<lambda>eff. ret (b, eff))))"

definition get_billing_summary :: "app_env \<Rightarrow> headers \<Rightarrow> (app_world, billing_view) prog" where
  "get_billing_summary env h = gated env h (Some ''billing:read'') ''/v1/users/me/billing'' (\<lambda>u.
     problem_when is_pricing_error pricing_unavailable_problem
       (on_app_billing (billing_summary (ae_billing env) (je_stripe (ae_jobs env)) (je_prices (ae_jobs env))
          (cl_user_id u) (cl_org_id u) (cl_plan_tier u))))"

fun is_portal_error :: "exn \<Rightarrow> bool" where
  "is_portal_error (BillingPortalUnavailableError m) = True"
| "is_portal_error _ = False"

definition create_portal_session_route :: "app_env \<Rightarrow> headers \<Rightarrow> (app_world, string) prog" where
  "create_portal_session_route env h =
     gated env h (Some ''billing:write'') ''/v1/users/me/billing/portal-session'' (\<lambda>u.
     problem_when is_portal_error (ProblemException ''Billing Portal Unavailable'' 503)
       (on_app_billing (create_portal_session (ae_billing env) (ae_portal env) (cl_org_id u))))"

section \<open>Jobs\<close>

definition estimate_job_route :: "app_env \<Rightarrow> headers \<Rightarrow> jdict \<Rightarrow> (app_world, jdict) prog" where
  "estimate_job_route env h body = gated env h (Some ''jobs:write'') ''/v1/jobs/estimate'' (\<lambda>u.
     on_job_service (estimate_job (ae_jobs env) (cl_user_id u) (cl_plan_tier u) (Some (cl_org_id u)) body))"

definition create_job_route :: "app_env \<Rightarrow> headers \<Rightarrow> jdict \<Rightarrow> (app_world, job_view) prog" where
  "create_job_route env h body = gated env h (Some ''jobs:write'') ''/v1/jobs'' (\<lambda>u.
     on_preview_service (launch_job_request (ae_preview env) (cl_user_id u) (cl_org_id u) (cl_plan_tier u)
       (ae_dump_without_none env body)))"

definition get_job_route :: "app_env \<Rightarrow> headers \<Rightarrow> string \<Rightarrow> (app_world, job_view) prog" where
  "get_job_route env h jid = gated env h (Some ''jobs:read'') ''/v1/jobs/{job_id}'' (\<lambda>u.
     on_job_service (service_get_job jid (cl_user_id u)))"

definition get_uncertainty_callouts :: "app_env \<Rightarrow> headers \<Rightarrow> string \<Rightarrow> (app_world, callouts_view) prog" where
  "get_uncertainty_callouts env h jid =
     gated env h (Some ''jobs:read'') ''/v1/jobs/{job_id}/uncertainty-callouts'' (\<lambda>u.
     on_job_service (service_uncertainty_callouts (ae_jobs env) jid (cl_user_id u)))"

definition get_export_route :: "app_env \<Rightarrow> headers \<Rightarrow> string \<Rightarrow> string \<Rightarrow> int \<Rightarrow> (app_world, export_view) prog" where
  "get_export_route env h jid variant retention =
     gated env h (Some ''jobs:read'') ''/v1/jobs/{job_id}/export'' (\<lambda>u.
     on_job_service (service_get_export (ae_jobs env) jid (cl_user_id u) (cl_plan_tier u) variant retention))"

definition list_jobs_route :: "app_env \<Rightarrow> headers \<Rightarrow> (app_world, job_view list) prog" where
  "list_jobs_route env h = gated env h (Some ''jobs:read'') ''/v1/jobs'' (\<lambda>u.
     on_job_service (service_list_jobs (cl_user_id u)))"

definition cancel_job_route :: "app_env \<Rightarrow> headers \<Rightarrow> string \<Rightarrow> (app_world, string \<times> job_status \<times> time option) prog" where
  "cancel_job_route env h jid = gated env h (Some ''jobs:write'') ''/v1/jobs/{job_id}'' (\<lambda>u.
     bindE (on_job_service (service_request_cancellation (ae_jobs env) jid (cl_user_id u))) (\<lambda>j.
     ret (job_id j, job_status j, cancel_requested_at j)))"

definition get_manifest_route :: "app_env \<Rightarrow> headers \<Rightarrow> string \<Rightarrow> (app_world, jdict) prog" where
  "get_manifest_route env h jid = gated env h (Some ''jobs:read'') ''/v1/manifests/{job_id}'' (\<lambda>u.
     on_job_service (service_get_manifest (ae_jobs env) jid (cl_user_id u)))"

definition get_deletion_proof_route :: "app_env \<Rightarrow> headers \<Rightarrow> string \<Rightarrow> (app_world, proof_view) prog" where
  "get_deletion_proof_route env h pid = gated env h (Some ''jobs:read'') ''/v1/deletion-proofs/{proof_id}'' (\<lambda>u.
     on_job_service (service_get_deletion_proof (ae_jobs env) pid (cl_user_id u)))"

section \<open>Previews\<close>

definition create_preview_route :: "app_env \<Rightarrow> headers \<Rightarrow> string \<Rightarrow> (app_world, preview_view) prog" where
  "create_preview_route env h uid = gated env h (Some ''jobs:write'') ''/v1/previews'' (\<lambda>u.
     on_preview_service (create_preview (ae_preview env) uid (cl_user_id u) (cl_org_id u) (cl_plan_tier u)))"

definition get_preview_route :: "app_env \<Rightarrow> headers \<Rightarrow> string \<Rightarrow> (app_world, preview_view) prog" where
  "get_preview_route env h pid = gated env h (Some ''jobs:read'') ''/v1/previews/{preview_id}'' (\<lambda>u.
     on_preview_service (service_get_preview (ae_preview env) pid (cl_user_id u)))"

definition review_preview_route :: "app_env \<Rightarrow> headers \<Rightarrow> string \<Rightarrow> review_status \<Rightarrow> (app_world, preview_view) prog" where
  "review_preview_route env h pid verdict =
     gated env h (Some ''jobs:write'') ''/v1/previews/{preview_id}/review'' (\<lambda>u.
     on_preview_service (review_preview (ae_preview env) pid (cl_user_id u) verdict))"

definition launch_preview_route :: "app_env \<Rightarrow> headers \<Rightarrow> string \<Rightarrow> string \<Rightarrow> (app_world, job_view) prog" where
  "launch_preview_route env h pid fp =
     gated env h (Some ''jobs:write'') ''/v1/previews/{preview_id}/launch'' (\<lambda>u.
     on_preview_service (launch_preview (ae_preview env) pid (cl_user_id u) (cl_org_id u) (cl_plan_tier u) fp))"

section \<open>Uploads and their configuration\<close>

definition create_upload_route :: "app_env \<Rightarrow> headers \<Rightarrow> upload_request \<Rightarrow> (app_world, upload_session) prog" where
  "create_upload_route env h rq = gated env h (Some ''jobs:write'') ''/v1/upload'' (\<lambda>u.
     on_upload_service (create_upload (ae_uploads env) (cl_user_id u) (cl_org_id u) rq))"

definition finalize_upload_route :: "app_env \<Rightarrow> headers \<Rightarrow> string \<Rightarrow> finalize_request \<Rightarrow> (app_world, upload_session) prog" where
  "finalize_upload_route env h uid rq = gated env h (Some ''jobs:write'') ''/v1/upload/{upload_id}'' (\<lambda>u.
     on_upload_service (finalize_upload (ae_uploads env) uid (cl_user_id u) (cl_plan_tier u) rq))"

definition resume_upload_route :: "app_env \<Rightarrow> headers \<Rightarrow> string \<Rightarrow> (app_world, resume_view) prog" where
  "resume_upload_route env h uid = gated env h (Some ''jobs:write'') ''/v1/upload/{upload_id}/resume'' (\<lambda>u.
     on_upload_service (resume_upload (ae_uploads env) uid (cl_user_id u)))"

definition detect_upload_era_route :: "app_env \<Rightarrow> headers \<Rightarrow> string \<Rightarrow> detection_request \<Rightarrow> (app_world, jdict) prog" where
  "detect_upload_era_route env h uid q = gated env h (Some ''jobs:write'') ''/v1/upload/{upload_id}/detect-era'' (\<lambda>u.
     on_config_service (detect_upload_era (ae_config env) uid (cl_user_id u) (cl_role u) (cl_plan_tier u) (cl_org_id u) q))"

definition save_upload_configuration_route ::
  "app_env \<Rightarrow> headers \<Rightarrow> string \<Rightarrow> configuration_request \<Rightarrow> (app_world, configuration_view) prog" where
  "save_upload_configuration_route env h uid q =
     gated env h (Some ''jobs:write'') ''/v1/upload/{upload_id}/configuration'' (\<lambda>u.
     on_config_service (save_upload_configuration (ae_config env) uid (cl_user_id u) (cl_role u) (cl_plan_tier u)
       (cl_org_id u) q))"

definition list_fidelity_tiers_route :: "app_env \<Rightarrow> headers \<Rightarrow> (app_world, catalog_view) prog" where
  "list_fidelity_tiers_route env h = gated env h None ''/v1/fidelity-tiers'' (\<lambda>u.
     on_config_service (list_fidelity_tiers (ae_config env) (cl_user_id u) (cl_role u) (cl_plan_tier u) (cl_org_id u)))"

section \<open>Era detection\<close>

record detect_era_request =
  de_job_id :: string
  de_media_uri :: string
  de_original_filename :: string
  de_mime_type :: string
  de_estimated_duration_seconds :: int
  de_era_profile :: jdict
  de_manual_override_era :: "string option"
  de_override_reason :: "string option"

definition unsupported_override :: exn where
  "unsupported_override = ProblemException ''Unsupported Era Override'' 400"

text \<open>Whether the profile and the override may be sent on; \<open>Inr\<close> gives the warnings of the validation.\<close>

definition check_detection :: "app_env \<Rightarrow> detect_era_request \<Rightarrow> validation_issue list result" where
  "check_detection env q =
     (let c = ee_codec (ce_era (ae_config env));
          v = validate_era_profile c (ee_float_of_str (ce_era (ae_config env))) (de_era_profile q) in
      if \<not> is_valid v then Inl schema_validation_failed
      else
        (case de_manual_override_era q of
           None \<Rightarrow> Inr (vr_warnings v)
         | Some e \<Rightarrow> if e \<noteq> [] \<and> \<not> is_supported_era c (JStr e) then Inl unsupported_override else Inr (vr_warnings v)))"

definition detect_era_route ::
  "app_env \<Rightarrow> headers \<Rightarrow> detect_era_request \<Rightarrow> (app_world, detection_view \<times> int \<times> validation_issue list) prog" where
  "detect_era_route env h q = gated env h None ''/v1/detect-era'' (\<lambda>u.
     bindE (liftR (check_detection env q)) (\<lambda>issues.
     let minutes = billable_minutes_for_duration (de_estimated_duration_seconds q)
           (py_str (ee_codec (ce_era (ae_config env))) (jget (de_era_profile q) ''mode'')) in
     bindE (on_app_billing (record_estimate (ae_billing env) (cl_user_id u) (cl_plan_tier u) minutes (Some (cl_org_id u)))) (\<lambda>b.
     if hard_stop b then raise overage_approval_required
     else
       bindE (on_era_service (detect (ce_era (ae_config env)) (de_job_id q) (cl_user_id u) (cl_org_id u) (de_media_uri q)
                (de_original_filename q) (de_mime_type q) (de_era_profile q) (de_manual_override_era q)
                (de_override_reason q))) (\<lambda>d.
       ret (d, minutes, issues)))))"

section \<open>Logs and retention\<close>

definition patch_log_settings :: "app_env \<Rightarrow> headers \<Rightarrow> string \<Rightarrow> log_settings_request \<Rightarrow> (app_world, log_setting) prog" where
  "patch_log_settings env h org q = gated env h (Some ''logs:write'') ''/v1/orgs/{org_id}/settings/logs'' (\<lambda>u.
     if org \<noteq> cl_org_id u then raise forbidden
     else on_security (update_log_settings (ae_security env) org (cl_user_id u) (cl_plan_tier u) q))"

definition delete_logs_route :: "app_env \<Rightarrow> headers \<Rightarrow> deletion_query \<Rightarrow> (app_world, deletion_request) prog" where
  "delete_logs_route env h q = gated env h None ''/v1/user/delete_logs'' (\<lambda>u.
     on_security (delete_logs (ae_security env) (cl_user_id u) q))"

definition validate_retention_settings_access :: "string \<Rightarrow> caller \<Rightarrow> unit result" where
  "validate_retention_settings_access org u =
     (if cl_access_token u = [] then Inl unauthorized
      else if org \<noteq> cl_org_id u then Inl forbidden
      else if lower (cl_plan_tier u) \<noteq> ''museum'' then Inl forbidden
      else Inr ())"

definition invalid_retention_settings :: exn where
  "invalid_retention_settings = ProblemException ''Invalid Retention Settings'' 400"

definition get_manifest_retention_settings :: "app_env \<Rightarrow> headers \<Rightarrow> string \<Rightarrow> (app_world, retention_settings_view) prog" where
  "get_manifest_retention_settings env h org =
     gated env h (Some ''retention:write'') ''/v1/orgs/{org_id}/settings/retention'' (\<lambda>u.
     bindE (liftR (validate_retention_settings_access org u)) (\<lambda>_.
     problem_when is_value_error invalid_retention_settings
       (bindE (getsE (\<lambda>a. ar_settings (w_artifacts (ap_runtime a)))) (\<lambda>s. liftR (get_settings org (cl_plan_tier u) s)))))"

definition patch_manifest_retention_settings ::
  "app_env \<Rightarrow> headers \<Rightarrow> string \<Rightarrow> int option \<Rightarrow> bool \<Rightarrow> (app_world, retention_settings_view) prog" where
  "patch_manifest_retention_settings env h org ds redaction =
     gated env h (Some ''retention:write'') ''/v1/orgs/{org_id}/settings/retention'' (\<lambda>u.
     bindE (liftR (validate_retention_settings_access org u)) (\<lambda>_.
     bindE (app_call (ae_clock env)) (\<lambda>t1. bindE (app_call (ae_clock env)) (\<lambda>t2.
     problem_when is_value_error invalid_retention_settings
       (on_retention (update_settings t1 t2 org (cl_user_id u) (cl_plan_tier u) ds redaction))))))"

section \<open>Operations\<close>

definition get_runtime_snapshot :: "app_env \<Rightarrow> headers \<Rightarrow> (app_world, pool_snapshot) prog" where
  "get_runtime_snapshot env h = gated env h (Some ''ops:read'') ''/v1/ops/runtime'' (\<lambda>u.
     on_runtime (on_ops (current_runtime_snapshot (re_ops (ae_runtime env)))))"

fun is_billing_unavailable :: "exn \<Rightarrow> bool" where
  "is_billing_unavailable (BillingPricingUnavailableError m) = True"
| "is_billing_unavailable _ = False"

definition get_cost_snapshot :: "app_env \<Rightarrow> headers \<Rightarrow> (app_world, cost_ops_snapshot) prog" where
  "get_cost_snapshot env h = gated env h (Some ''ops:read'') ''/v1/ops/costs'' (\<lambda>u.
     problem_when is_billing_unavailable pricing_unavailable_problem
       (bindE (getsE ap_runtime) (\<lambda>w.
        on_runtime (on_ops (current_cost_ops_snapshot (ae_cost_ops env) (w_billing w) (w_store w))))))"

definition activation_failed :: "exn \<Rightarrow> exn" where
  "activation_failed e =
     ProblemException ''Pricebook Activation Failed'' (if contains ''already'' (lower (exn_str e)) then 409 else 400)"

definition activate_pricebook_route ::
  "app_env \<Rightarrow> headers \<Rightarrow> jdict option \<Rightarrow> bool \<Rightarrow> string \<Rightarrow> (app_world, revision) prog" where
  "activate_pricebook_route env h body bootstrap summary =
     gated env h (Some ''ops:write'') ''/v1/ops/billing/pricebook'' (\<lambda>u.
     bindE (app_call (ae_uuid env)) (\<lambda>new_id. bindE (app_call (ae_uuid env)) (\<lambda>audit_id.
     bindE (app_call (ae_clock env)) (\<lambda>t1. bindE (app_call (ae_clock env)) (\<lambda>t2.
     catchE
       (on_app_billing (activate_pricebook (ae_billing env) (ae_bootstrap_enabled env) (ae_detach env) new_id audit_id t1 t2
          \<lparr>ar_payload = body, ar_bootstrap = bootstrap, ar_change_summary = summary, ar_user_id = cl_user_id u,
            ar_org_id = cl_org_id u\<rparr>))
       (\<lambda>e. raise (if is_value_error e then activation_failed e else e)))))))"

section \<open>Stripe\<close>

definition invalid_stripe_webhook :: exn where
  "invalid_stripe_webhook = ProblemException ''Invalid Stripe Webhook'' 400"

definition stripe_webhook_unavailable :: exn where
  "stripe_webhook_unavailable = ProblemException ''Stripe Webhook Unavailable'' 503"

fun is_webhook_error :: "exn \<Rightarrow> bool" where
  "is_webhook_error (BillingWebhookProcessingError m) = True"
| "is_webhook_error _ = False"

definition receive_stripe_webhook :: "app_env \<Rightarrow> string option \<Rightarrow> string \<Rightarrow> (app_world, webhook_outcome) prog" where
  "receive_stripe_webhook env signature body =
     (if signature \<in> {None, Some []} then raise invalid_stripe_webhook
      else
        (let secret = strip (ae_webhook_secret env) in
         if secret = [] then raise stripe_webhook_unavailable
         else
           bindE (catchE (liftR (ae_construct_event env body (the signature) secret)) (\<lambda>e. raise invalid_stripe_webhook)) (\<lambda>event.
           bindE (app_call (ae_event_ids env)) (\<lambda>i.
           problem_when is_webhook_error stripe_webhook_unavailable
             (on_app_billing (process_event (ae_billing env) i event))))))"

section \<open>The worker's ingress\<close>

definition decode_dispatch_message_data :: "codec \<Rightarrow> string \<Rightarrow> jdict result" where
  "decode_dispatch_message_data c data =
     (case json_loads c data of
        None \<Rightarrow> Inl (ValueError ''Dispatch message payload could not be decoded as JSON.'')
      | Some (JObj d) \<Rightarrow> Inr d
      | Some _ \<Rightarrow> Inl (ValueError ''Dispatch message payload must decode to a JSON object.''))"

definition invalid_worker_payload :: exn where
  "invalid_worker_payload = ProblemException ''Invalid Worker Payload'' 400"

text \<open>\<open>base64.b64decode\<close> with the decoding of its bytes as UTF-8 is a parameter: \<open>None\<close> is a \<open>ValueError\<close> of either.\<close>

definition decode_pubsub_envelope :: "app_env \<Rightarrow> jdict \<Rightarrow> jdict result" where
  "decode_pubsub_envelope env body =
     (case jget body ''message'' of
        JObj message \<Rightarrow>
          (case jget message ''data'' of
             JStr encoded \<Rightarrow>
               if encoded = [] then Inl invalid_worker_payload
               else
                 (case ae_b64decode env encoded of
                    None \<Rightarrow> Inl invalid_worker_payload
                  | Some text \<Rightarrow>
                      (case decode_dispatch_message_data (env_codec (ae_runtime env)) text of
                         Inl e \<Rightarrow> Inl invalid_worker_payload
                       | Inr d \<Rightarrow>
                           Inr (case jget message ''attributes'' of
                                  JObj attrs \<Rightarrow> dsetdefault ''attributes'' (JObj attrs) d
                                | _ \<Rightarrow> d)))
           | _ \<Rightarrow> Inl invalid_worker_payload)
      | _ \<Rightarrow> Inr body)"

definition worker_authorized :: "app_env \<Rightarrow> string option \<Rightarrow> (app_world, string) prog" where
  "worker_authorized env token = liftR (authorize_trusted_worker (re_worker (ae_runtime env)) token)"

text \<open>The status of the job, absent where there is no such job.\<close>

definition run_worker_job :: "app_env \<Rightarrow> jdict \<Rightarrow> string option \<Rightarrow> (app_world, json \<times> job_status option) prog" where
  "run_worker_job env body token =
     bindE (worker_authorized env token) (\<lambda>tok.
     bindE (liftR (decode_pubsub_envelope env body)) (\<lambda>message.
     bindE (worker_authorized env (Some tok)) (\<lambda>_.
     bindE (liftR (jitem message ''job_id'')) (\<lambda>jid.
     bindE (on_runtime (process_job (ae_runtime env) (py_str (env_codec (ae_runtime env)) jid) (Some tok))) (\<lambda>j.
     ret (jget message ''job_id'', map_option job_status j))))))"

text \<open>\<open>int(requested.get(k, 0) or 0)\<close>\<close>

definition requested_int :: "jdict \<Rightarrow> string \<Rightarrow> int result" where
  "requested_int d k =
     (case to_int (jor (jget d k) (JInt 0)) of None \<Rightarrow> Inl (ValueError k) | Some i \<Rightarrow> Inr i)"

definition reconcile_runtime_pool :: "app_env \<Rightarrow> jdict option \<Rightarrow> string option \<Rightarrow> (app_world, pool_snapshot) prog" where
  "reconcile_runtime_pool env body token =
     bindE (worker_authorized env token) (\<lambda>_.
     let requested = (case body of None \<Rightarrow> [] | Some d \<Rightarrow> d) in
     bindE (liftR (requested_int requested ''queue_depth'')) (\<lambda>depth.
     bindE (liftR (to_float (float_of_str (ae_billing env)) (jor (jget requested ''queue_age_seconds'') (JFloat 0)))) (\<lambda>age.
     on_runtime (on_ops (reconcile_gpu_pool (re_ops (ae_runtime env)) depth age)))))"

text \<open>A summary that is not a dictionary fails when it is asked for \<open>degraded\<close>, after the first check.\<close>

definition evaluate_runtime_alerts :: "app_env \<Rightarrow> jdict option \<Rightarrow> string option \<Rightarrow> (app_world, pool_snapshot \<times> nat) prog" where
  "evaluate_runtime_alerts env body token =
     bindE (worker_authorized env token) (\<lambda>_.
     bindE (on_runtime (on_ops (current_runtime_snapshot (re_ops (ae_runtime env))))) (\<lambda>snap.
     let summary = (case body of None \<Rightarrow> JObj [] | Some d \<Rightarrow> (case dget d ''cache_summary'' of None \<Rightarrow> JObj [] | Some v \<Rightarrow> v)) in
     case summary of
       JObj d \<Rightarrow>
         bindE (on_runtime (on_ops (evaluate_runtime_snapshot (re_ops (ae_runtime env)) snap (truthy (jget d ''degraded''))))) (\<lambda>is.
         ret (snap, length is))
     | _ \<Rightarrow>
         bindE (on_runtime (on_ops (evaluate_runtime_snapshot (re_ops (ae_runtime env)) snap False))) (\<lambda>_.
         raise (AttributeError ''get''))))"

section \<open>Test helpers and health\<close>

definition require_testing_mode :: "app_env \<Rightarrow> headers \<Rightarrow> (app_world, caller) prog" where
  "require_testing_mode env h =
     bindE (get_current_user env h) (\<lambda>u.
     if ae_environment env \<noteq> ''test'' then raise (ProblemException ''Not Found'' 404) else ret u)"

definition reset_rate_limit_state :: "app_env \<Rightarrow> headers \<Rightarrow> (app_world, unit) prog" where
  "reset_rate_limit_state env h =
     bindE (require_testing_mode env h) (\<lambda>_. modifyE (\<lambda>a. a\<lparr>ap_buckets := reset_rate_limits (ap_buckets a)\<rparr>))"

text \<open>The queue shrinks with every message, so its length and one more rounds drain it.\<close>

definition run_dispatcher_once :: "app_env \<Rightarrow> headers \<Rightarrow> (app_world, string list option) prog" where
  "run_dispatcher_once env h =
     bindE (require_testing_mode env h) (\<lambda>_.
     bindE (getsE (\<lambda>a. Suc (length (memory_queue (w_queue (ap_runtime a)))))) (\<lambda>fuel.
     on_runtime (drain_job_queue fuel (ae_runtime env) None)))"

definition set_segment_failures :: "app_env \<Rightarrow> headers \<Rightarrow> string \<Rightarrow> int \<Rightarrow> string list \<Rightarrow> (app_world, unit) prog" where
  "set_segment_failures env h jid i failures =
     bindE (require_testing_mode env h) (\<lambda>_. on_runtime (configure_segment_failures jid i failures))"

definition set_reproducibility_failures :: "app_env \<Rightarrow> headers \<Rightarrow> string \<Rightarrow> int \<Rightarrow> int \<Rightarrow> (app_world, unit) prog" where
  "set_reproducibility_failures env h jid i n =
     bindE (require_testing_mode env h) (\<lambda>_. on_runtime (configure_reproducibility_failures jid i n))"

text \<open>
  \<open>GET /v1/health\<close>: the probe of the database is asked where it is configured; where it cannot be reached
  (\<open>Some None\<close>) its \<open>httpx\<close> exception leaves the route.
\<close>

definition health_components :: "app_env \<Rightarrow> nat \<Rightarrow> (string \<times> string) list result" where
  "health_components env n =
     bind_res
       (case ae_database_healthy env of
          None \<Rightarrow> Inr ''not_configured''
        | Some probe \<Rightarrow> (case probe n of None \<Rightarrow> Inl (ExternalError ''HTTPError'')
            | Some ok \<Rightarrow> Inr (if ok then ''healthy'' else ''degraded''))) (\<lambda>database.
     Inr [(''database'', database), (''redis'', if ae_redis_url env \<noteq> [] then ''healthy'' else ''not_configured''),
       (''gcs'', if ae_gcs_bucket_name env \<noteq> [] then ''healthy'' else ''not_configured'')])"

definition health_v1 :: "app_env \<Rightarrow> (app_world, string \<times> (string \<times> string) list) prog" where
  "health_v1 env =
     bindE (app_call (health_components env)) (\<lambda>answer.
     bindE (liftR answer) (\<lambda>cs.
     ret (if list_all (\<lambda>c. snd c \<in> {''healthy'', ''not_configured''}) cs then ''healthy'' else ''degraded'', cs)))"

section \<open>The application\<close>

text \<open>What the routers of \<open>app/main.py\<close> accept, one constructor for a route: first the routes of signed-in users.\<close>

datatype user_request =
    GetMe
  | PatchMe profile_patch
  | GetUsage
  | ApproveOverage string int
  | GetBillingSummary
  | CreatePortalSession
  | EstimateJob jdict
  | CreateJob jdict
  | GetJob string
  | GetCallouts string
  | GetExport string string int
  | ListJobs
  | CancelJob string
  | GetManifest string
  | GetDeletionProof string
  | CreatePreview string
  | GetPreview string
  | ReviewPreview string review_status
  | LaunchPreview string string
  | CreateUpload upload_request
  | FinalizeUpload string finalize_request
  | ResumeUpload string
  | DetectUploadEra string detection_request
  | SaveConfiguration string configuration_request
  | ListFidelityTiers
  | DetectEra detect_era_request
  | PatchLogSettings string log_settings_request
  | DeleteLogs deletion_query
  | GetRetention string
  | PatchRetention string "int option" bool
  | GetRuntimeSnapshot
  | GetCostSnapshot
  | ActivatePricebook "jdict option" bool string

text \<open>Then Stripe's, the worker's, the helpers for tests, which only exist under the override, and the health check.\<close>

datatype request =
    UserRequest user_request
  | StripeWebhook "string option" string
  | RunWorkerJob jdict "string option"
  | ReconcilePool "jdict option" "string option"
  | EvaluateAlerts "jdict option" "string option"
  | ResetRateLimits
  | RunDispatcher
  | SetSegmentFailures string int "string list"
  | SetReproducibilityFailures string int int
  | HealthV1

definition silently :: "(app_world, 'a) prog \<Rightarrow> (app_world, unit) prog" where
  "silently m = bindE m (\<lambda>_. ret ())"

definition testing_only :: "app_env \<Rightarrow> (app_world, unit) prog \<Rightarrow> (app_world, unit) prog" where
  "testing_only env m = (if test_auth_override env then m else raise (ProblemException ''HTTP Error'' 404))"

primrec serve_user :: "app_env \<Rightarrow> headers \<Rightarrow> user_request \<Rightarrow> (app_world, unit) prog" where
  "serve_user env h GetMe = silently (get_me env h)"
| "serve_user env h (PatchMe p) = silently (patch_me env h p)"
| "serve_user env h GetUsage = silently (get_usage env h)"
| "serve_user env h (ApproveOverage scope minutes) = silently (approve_overage_route env h scope minutes)"
| "serve_user env h GetBillingSummary = silently (get_billing_summary env h)"
| "serve_user env h CreatePortalSession = silently (create_portal_session_route env h)"
| "serve_user env h (EstimateJob body) = silently (estimate_job_route env h body)"
| "serve_user env h (CreateJob body) = silently (create_job_route env h body)"
| "serve_user env h (GetJob jid) = silently (get_job_route env h jid)"
| "serve_user env h (GetCallouts jid) = silently (get_uncertainty_callouts env h jid)"
| "serve_user env h (GetExport jid variant retention) = silently (get_export_route env h jid variant retention)"
| "serve_user env h ListJobs = silently (list_jobs_route env h)"
| "serve_user env h (CancelJob jid) = silently (cancel_job_route env h jid)"
| "serve_user env h (GetManifest jid) = silently (get_manifest_route env h jid)"
| "serve_user env h (GetDeletionProof pid) = silently (get_deletion_proof_route env h pid)"
| "serve_user env h (CreatePreview uid) = silently (create_preview_route env h uid)"
| "serve_user env h (GetPreview pid) = silently (get_preview_route env h pid)"
| "serve_user env h (ReviewPreview pid v) = silently (review_preview_route env h pid v)"
| "serve_user env h (LaunchPreview pid fp) = silently (launch_preview_route env h pid fp)"
| "serve_user env h (CreateUpload rq) = silently (create_upload_route env h rq)"
| "serve_user env h (FinalizeUpload uid rq) = silently (finalize_upload_route env h uid rq)"
| "serve_user env h (ResumeUpload uid) = silently (resume_upload_route env h uid)"
| "serve_user env h (DetectUploadEra uid q) = silently (detect_upload_era_route env h uid q)"
| "serve_user env h (SaveConfiguration uid q) = silently (save_upload_configuration_route env h uid q)"
| "serve_user env h ListFidelityTiers = silently (list_fidelity_tiers_route env h)"
| "serve_user env h (DetectEra q) = silently (detect_era_route env h q)"
| "serve_user env h (PatchLogSettings org q) = silently (patch_log_settings env h org q)"
| "serve_user env h (DeleteLogs q) = silently (delete_logs_route env h q)"
| "serve_user env h (GetRetention org) = silently (get_manifest_retention_settings env h org)"
| "serve_user env h (PatchRetention org ds r) = silently (patch_manifest_retention_settings env h org ds r)"
| "serve_user env h GetRuntimeSnapshot = silently (get_runtime_snapshot env h)"
| "serve_user env h GetCostSnapshot = silently (get_cost_snapshot env h)"
| "serve_user env h (ActivatePricebook body b summary) = silently (activate_pricebook_route env h body b summary)"

primrec serve :: "app_env \<Rightarrow> headers \<Rightarrow> request \<Rightarrow> (app_world, unit) prog" where
  "serve env h (UserRequest rq) = serve_user env h rq"
| "serve env h (StripeWebhook sig body) = silently (receive_stripe_webhook env sig body)"
| "serve env h (RunWorkerJob body token) = silently (run_worker_job env body token)"
| "serve env h (ReconcilePool body token) = silently (reconcile_runtime_pool env body token)"
| "serve env h (EvaluateAlerts body token) = silently (evaluate_runtime_alerts env body token)"
| "serve env h ResetRateLimits = testing_only env (reset_rate_limit_state env h)"
| "serve env h RunDispatcher = testing_only env (silently (run_dispatcher_once env h))"
| "serve env h (SetSegmentFailures jid i fs) = testing_only env (set_segment_failures env h jid i fs)"
| "serve env h (SetReproducibilityFailures jid i n) = testing_only env (set_reproducibility_failures env h jid i n)"
| "serve env h HealthV1 = silently (health_v1 env)"

end
