(* ===== verification/Configuration_Properties.thy ===== *)
theory Configuration_Properties
  imports Configuration
begin

text \<open>
  What the configuration service guarantees: a manual override of an era is stored without a
  confirmation and so is never launched from, and a configuration that was saved can be launched.
\<close>

section \<open>Overridden detections\<close>

definition overridden :: "jdict \<Rightarrow> bool" where
  "overridden snap \<longleftrightarrow> (\<exists>e. jget snap ''manual_override_era'' = JStr e \<and> e \<noteq> [])"

definition unconfirmed :: "jdict \<Rightarrow> bool" where
  "unconfirmed snap \<longleftrightarrow>
     (\<exists>q. jget snap ''confidence'' = JFloat q \<and> q < 70 / 100) \<and> jget snap ''manual_confirmation_required'' = JBool False"

text \<open>Every stored detection that carries an override has a low confidence and no confirmation.\<close>

definition overrides_unconfirmed :: "config_world \<Rightarrow> bool" where
  "overrides_unconfirmed w \<longleftrightarrow>
     list_all (\<lambda>(k, r). overridden (detection_snapshot r) \<longrightarrow> unconfirmed (detection_snapshot r)) (upload_sessions (cw_uploads w))"

lemma jget_item: "jget d k \<noteq> JNull \<Longrightarrow> jitem d k = Inr (jget d k)"
  by (auto simp: jget_def jitem_def split: option.splits)

lemma low_confidence_invalid:
  assumes "q < 70 / 100"
  shows "\<not> is_valid (validate_era_profile c rd (preview_era_profile medium tier grain plan cap limit years q False))"
  using assms by (simp add: validate_iff_ok era_profile_ok_def preview_era_profile_def Let_def get_default_def)

lemma build_unconfirmed:
  assumes "unconfirmed snap"
  shows "wp (build_preview_era_profile env r snap tier grain plan) (\<lambda>_ _. False) (\<lambda>_ _. True) w"
proof -
  from assms obtain q where q: "jget snap ''confidence'' = JFloat q" "q < 70 / 100"
    and m: "jget snap ''manual_confirmation_required'' = JBool False" by (auto simp: unconfirmed_def)
  have "jitem snap ''confidence'' = Inr (JFloat q)" "jitem snap ''manual_confirmation_required'' = Inr (JBool False)"
    using q m jget_item by fastforce+
  then show ?thesis
    unfolding build_preview_era_profile_def Let_def wp_simps
    by (auto simp: wp_simps low_confidence_invalid [OF q(2)] intro!: wp_mono [OF wp_top] split: sum.splits)
qed

lemma prepare_unconfirmed:
  assumes "unconfirmed snap"
  shows "wp (prepare_configuration env uid r snap persona q plan) (\<lambda>_ _. False) (\<lambda>_ _. True) w"
  unfolding prepare_configuration_def Let_def wp_simps
  by (auto simp: wp_simps intro!: wp_mono [OF wp_top] wp_mono [OF build_unconfirmed [OF assms]] split: sum.splits)

text \<open>What detection writes: a snapshot in which an override is unconfirmed.\<close>

lemma snapshot_override:
  "overridden (build_detection_snapshot uid d r duration override reason usage medium) \<longleftrightarrow> (\<exists>e. override = Some e \<and> e \<noteq> [])"
  "jget (build_detection_snapshot uid d r duration override reason usage medium) ''confidence'' = JFloat (dv_confidence d)"
  "jget (build_detection_snapshot uid d r duration override reason usage medium) ''manual_confirmation_required'' =
     JBool (dv_manual_confirmation_required d)"
  by (auto simp: build_detection_snapshot_def overridden_def json_of_option_def split: option.splits)

lemma override_view:
  "wp (override_detection_view env e base)
     (\<lambda>d _. dv_confidence d = dv_confidence base \<and> \<not> dv_manual_confirmation_required d) (\<lambda>_ _. True) w"
  unfolding override_detection_view_def on_uploads_def wp_simps by (simp add: call_def wp_def)

definition asked_override :: "'a detection_request_scheme \<Rightarrow> bool" where
  "asked_override q \<longleftrightarrow> non_empty (dq_manual_override_era q) \<noteq> None"

text \<open>The snapshot a request leads to.\<close>

definition answers :: "'a detection_request_scheme \<Rightarrow> jdict \<Rightarrow> bool" where
  "answers q snap \<longleftrightarrow> (overridden snap \<longleftrightarrow> asked_override q) \<and> (overridden snap \<longrightarrow> unconfirmed snap)"

lemma snapshot_answers:
  assumes "asked_override q \<Longrightarrow> dv_confidence d < 70 / 100 \<and> \<not> dv_manual_confirmation_required d"
  shows "answers q (build_detection_snapshot uid d r duration (non_empty (dq_manual_override_era q)) reason usage medium)"
proof -
  have "overridden (build_detection_snapshot uid d r duration (non_empty (dq_manual_override_era q)) reason usage medium) \<longleftrightarrow>
      asked_override q"
    by (auto simp: snapshot_override asked_override_def non_empty_def)
  with assms show ?thesis by (auto simp: answers_def unconfirmed_def snapshot_override)
qed

section \<open>Where an override is stored\<close>

lemma other_parts_keep [pres_intro]:
  "preserves overrides_unconfirmed (on_era m1)" "preserves overrides_unconfirmed (on_users m2)"
  "preserves overrides_unconfirmed (on_pricing m3)" "preserves overrides_unconfirmed (on_uploads (call f))"
  unfolding on_era_def on_users_def on_pricing_def on_uploads_def
  by (auto simp: preserves_def zoom_def call_def overrides_unconfirmed_def split: prod.splits)

lemma get_session_keeps [pres_intro]: "preserves overrides_unconfirmed (on_uploads (get_session uid owner))"
  unfolding on_uploads_def by (auto simp: preserves_def zoom_def get_session_def getsE_def)

lemma update_keeps:
  assumes "\<And>x. overridden (detection_snapshot (f x)) \<Longrightarrow> unconfirmed (detection_snapshot (f x))"
  shows "preserves overrides_unconfirmed (on_uploads (update_session env uid owner f))"
  unfolding on_uploads_def
  using assms
  by (auto simp: preserves_def zoom_def update_session_def prog_defs call_def Let_def overrides_unconfirmed_def list_all_iff
      split: prod.splits option.splits dest!: dset_members)

lemma plan_checks_keep [pres_intro]:
  "preserves overrides_unconfirmed (allowed_tiers_for_plan env plan)"
  "preserves overrides_unconfirmed (plan_resolution_cap env plan)"
  "preserves overrides_unconfirmed (coerce_tier_for_plan env tier plan)"
  "preserves overrides_unconfirmed (resolve_detection_tier_hint env profile plan)"
  "preserves overrides_unconfirmed (ensure_plan_supports_fidelity_tier env t plan)"
  "preserves overrides_unconfirmed (ensure_plan_supports_capture_medium env medium plan)"
  "preserves overrides_unconfirmed (override_detection_view env e base)"
  "preserves overrides_unconfirmed (require_completed_upload found)"
  unfolding allowed_tiers_for_plan_def plan_resolution_cap_def coerce_tier_for_plan_def resolve_detection_tier_hint_def
    ensure_plan_supports_fidelity_tier_def ensure_plan_supports_capture_medium_def override_detection_view_def
    require_completed_upload_def or_pricing_problem_def Let_def
  by (intro pres_intro)+

lemma prepare_keeps [pres_intro]: "preserves overrides_unconfirmed (prepare_configuration env uid r snap persona q plan)"
  unfolding prepare_configuration_def build_preview_era_profile_def Let_def by (intro pres_intro)

lemma wp_keep: "preserves I m \<Longrightarrow> wp m Q E s \<Longrightarrow> I s \<Longrightarrow> wp m (\<lambda>a t. Q a t \<and> I t) (\<lambda>e t. I t) s"
  by (auto intro: wp_mono [OF wp_conj [OF _ wp_preserves]])

lemma detect_and_persist_snapshot:
  assumes "overrides_unconfirmed w"
  shows "wp (detect_and_persist env uid r profile plan q owner)
    (\<lambda>snap t. answers q snap \<and> overrides_unconfirmed t) (\<lambda>_. overrides_unconfirmed) w"
proof -
  have stored: "wp (on_uploads (update_session (ce_upload env) uid owner (\<lambda>x. x\<lparr>detection_snapshot := snap\<rparr>)))
      (\<lambda>_. overrides_unconfirmed) (\<lambda>_. overrides_unconfirmed) t" if "answers q snap" "overrides_unconfirmed t" for snap t
    by (rule wp_preserves [OF update_keeps that(2)]) (use that(1) in \<open>simp add: answers_def\<close>)
  have view: "wp (override_detection_view env e base) (\<lambda>d t. (dv_confidence d = dv_confidence base \<and>
      \<not> dv_manual_confirmation_required d) \<and> overrides_unconfirmed t) (\<lambda>_. overrides_unconfirmed) t"
    if "overrides_unconfirmed t" for e base t
    by (rule wp_keep [OF plan_checks_keep(7) override_view that])
  note parts = wp_mono [OF stored] wp_mono [OF view]
    wp_mono [OF wp_preserves [OF other_parts_keep(1)]] wp_mono [OF wp_preserves [OF plan_checks_keep(4)]]
  show ?thesis
  proof (cases "asked_override q")
    case False
    then have "non_empty (dq_manual_override_era q) = None" by (simp add: asked_override_def)
    with False snapshot_answers [of q] assms show ?thesis
      unfolding detect_and_persist_def Let_def wp_simps
      by (auto simp: wp_simps intro!: parts split: sum.splits)
  next
    case True
    then obtain e where "non_empty (dq_manual_override_era q) = Some e" by (auto simp: asked_override_def)
    with snapshot_answers [of q] assms show ?thesis
      unfolding detect_and_persist_def Let_def wp_simps
      by (auto simp: wp_simps intro!: parts split: sum.splits)
  qed
qed

lemma detect_upload_era_keeps: "preserves overrides_unconfirmed (detect_upload_era env uid user role plan org q)"
  unfolding preserves_wp detect_upload_era_def wp_simps
  by (auto simp: wp_simps intro!: wp_mono [OF wp_preserves [OF other_parts_keep(2)]] wp_mono [OF wp_preserves [OF get_session_keeps]]
      wp_mono [OF wp_preserves [OF plan_checks_keep(8)]] wp_mono [OF detect_and_persist_snapshot] split: sum.splits)

lemma session_snapshot:
  assumes "overrides_unconfirmed w"
  shows "wp (on_uploads (get_session uid owner))
    (\<lambda>found t. t = w \<and> (\<forall>r. found = Some r \<longrightarrow> (overridden (detection_snapshot r) \<longrightarrow> unconfirmed (detection_snapshot r))))
    (\<lambda>_ _. False) w"
  using assms
  by (auto simp: on_uploads_def get_session_def wp_simps overrides_unconfirmed_def list_all_iff dest!: dget_in_set split: option.splits if_splits)

lemma completed_same:
  "wp (require_completed_upload found) (\<lambda>r t. t = w \<and> found = Some r \<and> us_status r = UploadCompleted) (\<lambda>_ t. t = w) w"
  by (simp add: require_completed_upload_def wp_simps split: option.split)

lemma stored_answers:
  assumes "overridden (detection_snapshot r) \<Longrightarrow> unconfirmed (detection_snapshot r)"
    and "stored_detection_matches_request (detection_snapshot r) q"
  shows "answers q (detection_snapshot r)"
  using assms
  by (auto simp: answers_def overridden_def asked_override_def non_empty_def stored_detection_matches_request_def json_of_option_def
      split: option.splits if_splits)

lemma detection_for_configuration_answers:
  assumes "overrides_unconfirmed w" "overridden (detection_snapshot r) \<Longrightarrow> unconfirmed (detection_snapshot r)"
  shows "wp (detection_for_configuration env uid r profile plan q user)
    (\<lambda>x t. answers q (snd x) \<and> overrides_unconfirmed t) (\<lambda>_. overrides_unconfirmed) w"
  unfolding detection_for_configuration_def wp_simps
  using assms stored_answers [of r q]
  by (auto simp: wp_simps intro!: wp_mono [OF detect_and_persist_snapshot] wp_mono [OF session_snapshot] wp_mono [OF completed_same])

text \<open>
  The tail of saving a configuration: nothing is reached with an override, and what is written keeps the
  invariant.
\<close>

lemma save_outcome:
  assumes "overrides_unconfirmed w"
  shows "wp (save_upload_configuration env uid user role plan org q)
    (\<lambda>_ t. \<not> asked_override q \<and> overrides_unconfirmed t) (\<lambda>_. overrides_unconfirmed) w"
proof -
  have prep: "wp (prepare_configuration env uid r snap persona q plan)
      (\<lambda>_ t. \<not> asked_override q \<and> overrides_unconfirmed t) (\<lambda>_. overrides_unconfirmed) t"
    if "answers q snap" "overrides_unconfirmed t" for r snap persona t
  proof (cases "asked_override q")
    case True
    with that(1) have "unconfirmed snap" by (simp add: answers_def)
    from wp_keep [OF prepare_keeps prepare_unconfirmed [OF this] that(2)] show ?thesis by (rule wp_mono) auto
  next
    case False
    from wp_preserves [OF prepare_keeps that(2)] show ?thesis by (rule wp_mono) (auto simp: False)
  qed
  have stored: "wp (on_uploads (update_session (ce_upload env) uid user
        (\<lambda>x. x\<lparr>detection_snapshot := snap, launch_config := cfg, configured_at := stamp\<rparr>)))
      (\<lambda>_. overrides_unconfirmed) (\<lambda>_. overrides_unconfirmed) t" if "answers q snap" "overrides_unconfirmed t" for snap cfg stamp t
    by (rule wp_preserves [OF update_keeps that(2)]) (use that(1) in \<open>simp add: answers_def\<close>)
  note parts = wp_mono [OF wp_preserves [OF other_parts_keep(2)]] wp_mono [OF session_snapshot] wp_mono [OF completed_same]
    wp_mono [OF wp_preserves [OF plan_checks_keep(5)]] wp_mono [OF detection_for_configuration_answers]
    wp_mono [OF prep] wp_mono [OF stored]
  show ?thesis
    unfolding save_upload_configuration_def Let_def wp_simps
    using assms
    by (auto simp: wp_simps case_prod_beta intro!: parts split: sum.splits option.splits)
qed

section \<open>A saved configuration is launch-ready\<close>

text \<open>The configuration stored with the job resolves like the one that was checked.\<close>

lemma resolve_job_config:
  "resolve_fidelity_profile c rd tier era (job_config persona t grain stamp detection) =
   resolve_fidelity_profile c rd tier era [(''grain_preset'', JStr (grain_value grain)),
     (''fidelity_overrides'', JObj [(''grain_intensity'', JStr (grain_value grain))])]"
proof -
  let ?a = "job_config persona t grain stamp detection"
  let ?b = "[(''grain_preset'', JStr (grain_value grain)), (''fidelity_overrides'', JObj [(''grain_intensity'', JStr (grain_value grain))])]"
  have "config_override ?a k = config_override ?b k"
    if "k \<in> {''grain_intensity'', ''hallucination_limit'', ''codeformer_weight'', ''identity_lock''}" for k
    using that by (auto simp: config_override_def job_config_def)
  moreover have "jget ?a ''grain_preset'' = jget ?b ''grain_preset''" by (simp add: job_config_def)
  ultimately show ?thesis unfolding resolve_fidelity_profile_def resolve_grain_preset_def by (simp only: insert_iff simp_thms)
qed

definition launchable :: "config_env \<Rightarrow> string \<Rightarrow> fidelity_tier \<Rightarrow> prepared_configuration \<Rightarrow> bool" where
  "launchable env uid tier pc \<longleftrightarrow>
     (let p = pc_payload pc in
      (\<exists>era cfg. jget p ''era_profile'' = JObj era \<and> jget p ''config'' = JObj cfg \<and>
         is_valid (validate_era_profile (config_codec env) (ee_float_of_str (ce_era env)) era) \<and>
         resolve_fidelity_profile (config_codec env) (ee_float_of_str (ce_era env)) tier era cfg = Inr (pc_resolved pc)) \<and>
      (\<exists>x. jget p ''source_asset_checksum'' = JStr x \<and> 8 \<le> length x) \<and>
      jget p ''fidelity_tier'' = JStr (tier_value tier) \<and>
      jget p ''launch_context'' = approved_preview_context uid (pc_fingerprint pc) \<and> p \<noteq> [] \<and> pc_configured_at pc \<noteq> [] \<and>
      pc_fingerprint pc = configuration_fingerprint (config_codec env) (pc_configured_at pc) p)"

lemma build_valid:
  "wp (build_preview_era_profile env r snap tier grain plan)
     (\<lambda>era _. is_valid (validate_era_profile (config_codec env) (ee_float_of_str (ce_era env)) era)) (\<lambda>_ _. True) w"
  unfolding build_preview_era_profile_def Let_def wp_simps
  by (auto simp: wp_simps intro!: wp_mono [OF wp_top] split: sum.splits)

lemma jget_dset [simp]: "jget (dset k v d) k' = (if k' = k then v else jget d k')"
  by (simp add: jget_def)

lemma payload_fields:
  assumes "job_create_payload r uid duration tier era cfg fp = Inr p"
  shows "jget p ''era_profile'' = JObj era" "jget p ''config'' = JObj cfg" "jget p ''fidelity_tier'' = JStr (tier_value tier)"
    "\<exists>x. jget p ''source_asset_checksum'' = JStr x \<and> 8 \<le> length x"
  using assms by (auto simp: job_create_payload_def Let_def split: if_splits option.splits)

lemma prepared_launchable:
  "wp (prepare_configuration env uid r snap persona q plan)
     (\<lambda>pc _. launchable env uid (dq_fidelity_tier q) pc) (\<lambda>_ _. True) w"
proof -
  have "launchable env uid (dq_fidelity_tier q) \<lparr>pc_payload = dset ''launch_context'' (approved_preview_context uid fp) p,
      pc_resolved = resolved, pc_configured_at = isoformat t, pc_fingerprint = fp\<rparr>"
    if "job_create_payload r uid duration (dq_fidelity_tier q) era cfg fp0 = Inr p" "fp = configuration_fingerprint (config_codec env) (isoformat t) p"
      "is_valid (validate_era_profile (config_codec env) (ee_float_of_str (ce_era env)) era)"
      "resolve_fidelity_profile (config_codec env) (ee_float_of_str (ce_era env)) (dq_fidelity_tier q) era cfg = Inr resolved"
    for p fp resolved t duration era cfg fp0
    using that payload_fields [OF that(1)]
    by (auto simp: launchable_def Let_def fingerprint_ignores_context)
  note ready = this [where cfg = "job_config _ _ _ _ _", unfolded resolve_job_config]
  show ?thesis
    unfolding prepare_configuration_def Let_def wp_simps
    by (auto simp: wp_simps intro!: wp_mono [OF wp_top] wp_mono [OF build_valid] ready split: sum.splits)
qed

text \<open>What a patched session is, once it is written.\<close>

definition session_is :: "string \<Rightarrow> (upload_session \<Rightarrow> bool) \<Rightarrow> config_world \<Rightarrow> bool" where
  "session_is uid P w \<longleftrightarrow> (\<exists>r. dget (upload_sessions (cw_uploads w)) uid = Some r \<and> P r)"

lemma update_session_is:
  assumes "\<And>r now. us_owner_user_id r = user \<Longrightarrow> P ((f r)\<lparr>us_updated_at := now\<rparr>)"
  shows "wp (on_uploads (update_session env uid user f)) (\<lambda>u t. u \<noteq> None \<longrightarrow> session_is uid P t) (\<lambda>_ _. True) w"
  using assms
  by (auto simp: on_uploads_def update_session_def prog_defs call_def wp_def session_is_def Let_def split: option.splits)

lemma users_leave_session: "session_is uid P w \<Longrightarrow> wp (on_users m) (\<lambda>_. session_is uid P) (\<lambda>_. session_is uid P) w"
  by (auto simp: on_users_def wp_simps session_is_def intro!: wp_mono [OF wp_top])

definition holds_launch :: "config_env \<Rightarrow> string \<Rightarrow> prepared_configuration \<Rightarrow> upload_session \<Rightarrow> bool" where
  "holds_launch env user pc r \<longleftrightarrow> us_owner_user_id r = user \<and>
     (\<exists>ls. saved_launch_snapshot (ce_upload env) r = Inr ls \<and> ls_configuration_fingerprint ls = pc_fingerprint pc \<and>
        ls_job_payload_preview ls = pc_payload pc \<and> ls_configured_at ls = pc_configured_at pc)"

lemma launchable_stored:
  assumes "launchable env uid tier pc" "us_owner_user_id r = user"
  shows "holds_launch env user pc (r\<lparr>detection_snapshot := snap, launch_config := launch_config_of uid persona tier grain snap
    (pc_payload pc) (pc_fingerprint pc), configured_at := Some (pc_configured_at pc), us_updated_at := now\<rparr>)" (is "holds_launch _ _ _ ?r")
proof -
  from assms(1) obtain x cfg where x: "jget (pc_payload pc) ''source_asset_checksum'' = JStr x" "8 \<le> length x"
    and cfg: "jget (pc_payload pc) ''config'' = JObj cfg" and p: "pc_payload pc \<noteq> []" "pc_configured_at pc \<noteq> []"
    and fp: "pc_fingerprint pc = configuration_fingerprint (ue_codec (ce_upload env)) (pc_configured_at pc) (pc_payload pc)"
    by (auto simp: launchable_def Let_def config_codec_def)
  from x(2) have "x \<noteq> []" by auto
  then have "\<exists>ls. saved_launch_snapshot (ce_upload env) ?r = Inr ls \<and> ls_job_payload_preview ls = pc_payload pc \<and>
      ls_configured_at ls = pc_configured_at pc \<and> ls_source_asset_checksum ls = x \<and>
      ls_configuration_fingerprint ls = configuration_fingerprint (ue_codec (ce_upload env)) (pc_configured_at pc) (pc_payload pc) \<and>
      ls_preview_id ls = preview_id_for_snapshot (ue_stable_uuid (ce_upload env)) (upload_id ?r) (pc_configured_at pc)"
    using x(1) cfg p by (intro snapshot_of_session [where cfg = cfg]) (simp_all add: launch_config_of_def)
  with assms(2) fp show ?thesis by (auto simp: holds_launch_def)
qed

lemma save_launchable:
  "wp (save_upload_configuration env uid user role plan org q)
     (\<lambda>v t. \<exists>pc. launchable env uid (dq_fidelity_tier q) pc \<and> session_is uid (holds_launch env user pc) t \<and>
        cfv_job_payload v = pc_payload pc \<and> cfv_fingerprint v = pc_fingerprint pc \<and>
        cfv_configured_at v = pc_configured_at pc \<and> cfv_resolved v = pc_resolved pc) (\<lambda>_ _. True) w"
proof -
  have stored: "wp (on_uploads (update_session (ce_upload env) uid user (\<lambda>x. x\<lparr>detection_snapshot := snap,
        launch_config := launch_config_of uid persona (dq_fidelity_tier q) grain snap (pc_payload pc) (pc_fingerprint pc),
        configured_at := Some (pc_configured_at pc)\<rparr>)))
      (\<lambda>u t. u \<noteq> None \<longrightarrow> session_is uid (holds_launch env user pc) t) (\<lambda>_ _. True) t"
    if "launchable env uid (dq_fidelity_tier q) pc" for pc snap persona grain t
    by (rule update_session_is) (use launchable_stored [OF that] in simp)
  note parts = wp_mono [OF wp_top [where m = "on_uploads (get_session uid owner)" for owner]]
    wp_mono [OF wp_top [where m = "require_completed_upload found" for found]]
    wp_mono [OF wp_top [where m = "ensure_plan_supports_fidelity_tier env tier plan" for tier]]
    wp_mono [OF wp_top [where m = "detection_for_configuration env uid r profile plan q user" for r profile]]
    wp_mono [OF prepared_launchable] wp_mono [OF stored] wp_mono [OF users_leave_session]
  show ?thesis
    unfolding save_upload_configuration_def Let_def wp_simps
    by (rule wp_mono [OF wp_top])
      (auto simp: wp_simps case_prod_beta intro!: parts split: sum.splits option.splits, blast+)
qed

section \<open>Properties\<close>

text \<open>
  C14: A manual override of an era can be stored but never configured. Detections keep the invariant that
  an override comes with a confidence below 0.70 and no confirmation; and under it, whoever asks for a
  configuration with an override gets an error, whatever the tier, the plan and the detection.
\<close>

theorem override_never_configured:
  assumes "overrides_unconfirmed w" and "dq_manual_override_era q = Some e" and "e \<noteq> []"
  shows "overrides_unconfirmed (snd (detect_upload_era env uid user role plan org q w)) \<and>
    overrides_unconfirmed (snd (save_upload_configuration env uid user role plan org q w)) \<and>
    (\<exists>err. fst (save_upload_configuration env uid user role plan org q w) = Inl err)"
proof -
  have "asked_override q" using assms(2,3) by (simp add: asked_override_def non_empty_def)
  with wp_run [OF save_outcome [OF assms(1), of env uid user role plan org q]] preservesD [OF detect_upload_era_keeps assms(1)]
  show ?thesis by (auto split: sum.splits)
qed

text \<open>
  C10: What was saved can be launched. After a configuration is saved, the session holds a launch snapshot
  that is read back with the payload, the time and the fingerprint of the response; the era profile in the
  payload passes the validation, and the payload's own configuration resolves, under the chosen tier, to the
  profile of the response.
\<close>

theorem saved_configuration_launchable:
  assumes "save_upload_configuration env uid user role plan org q w = (Inr v, t)"
  shows "\<exists>r ls era cfg. dget (upload_sessions (cw_uploads t)) uid = Some r \<and> us_owner_user_id r = user \<and>
    saved_launch_snapshot (ce_upload env) r = Inr ls \<and> ls_job_payload_preview ls = cfv_job_payload v \<and>
    ls_configured_at ls = cfv_configured_at v \<and> ls_configuration_fingerprint ls = cfv_fingerprint v \<and>
    jget (cfv_job_payload v) ''launch_context'' = approved_preview_context uid (cfv_fingerprint v) \<and>
    jget (cfv_job_payload v) ''era_profile'' = JObj era \<and> jget (cfv_job_payload v) ''config'' = JObj cfg \<and>
    is_valid (validate_era_profile (config_codec env) (ee_float_of_str (ce_era env)) era) \<and>
    resolve_fidelity_profile (config_codec env) (ee_float_of_str (ce_era env)) (dq_fidelity_tier q) era cfg = Inr (cfv_resolved v)"
proof -
  from save_launchable [of env uid user role plan org q w] assms obtain pc where
    "launchable env uid (dq_fidelity_tier q) pc" "session_is uid (holds_launch env user pc) t"
    "cfv_job_payload v = pc_payload pc" "cfv_fingerprint v = pc_fingerprint pc"
    "cfv_configured_at v = pc_configured_at pc" "cfv_resolved v = pc_resolved pc"
    by (auto simp: wp_def)
  then show ?thesis by (auto simp: launchable_def session_is_def holds_launch_def Let_def)
qed

section \<open>Witnesses\<close>

definition sample_config_env :: config_env where
  "sample_config_env = \<lparr>ce_upload = sample_upload_env\<lparr>ue_codec := plain_codec\<lparr>sha256_hex := (\<lambda>_. placeholder_fingerprint)\<rparr>\<rparr>,
     ce_era = sample_era_env, ce_billing = sample_env\<rparr>"

definition sample_detection :: "rat \<Rightarrow> json \<Rightarrow> jdict" where
  "sample_detection q override =
     [(''upload_id'', JStr ''upload-1''), (''detection_id'', JStr ''d1''), (''job_id'', JStr ''upload:upload-1''),
      (''era'', JStr ''1970s Super 8 Film''), (''confidence'', JFloat q), (''manual_confirmation_required'', JBool False),
      (''top_candidates'', JList []), (''forensic_markers'', JObj []), (''warnings'', JList []),
      (''processing_timestamp'', JStr ''t''), (''source'', JStr ''system''), (''model_version'', JStr ''m''),
      (''prompt_version'', JStr ''p''), (''estimated_usage_minutes'', JInt 3), (''estimated_duration_seconds'', JInt 120),
      (''manual_override_era'', override), (''override_reason'', JNull)]"

definition sample_session :: "jdict \<Rightarrow> upload_session" where
  "sample_session snap = \<lparr>upload_id = ''upload-1'', us_owner_user_id = ''u1'', us_org_id = ''o1'', us_original_filename = ''a.mov'',
     us_mime_type = ''video/quicktime'', us_size_bytes = 3, us_checksum = Some ''0123456789'', us_bucket_name = ''media'',
     us_object_path = ''uploads/a.mov'', us_media_uri = ''gs://media/uploads/a.mov'', resumable_session_url = ''https://up'',
     us_status = UploadCompleted, detection_snapshot = snap, launch_config = [], configured_at = None,
     us_created_at = 0, us_updated_at = 0, us_completed_at = Some 0\<rparr>"

definition sample_config_world :: "jdict \<Rightarrow> config_world" where
  "sample_config_world snap = \<lparr>cw_uploads = empty_upload_store\<lparr>upload_sessions := [(''upload-1'', sample_session snap)]\<rparr>,
     cw_users = [], cw_era = empty_era_store, cw_billing = empty_billing_store\<rparr>"

definition sample_configuration :: "string option \<Rightarrow> configuration_request" where
  "sample_configuration override = \<lparr>dq_estimated_duration_seconds = 120, dq_manual_override_era = override,
     dq_override_reason = None, dq_persona = Some FILMMAKER, dq_fidelity_tier = RESTORE, dq_grain_preset = MATCHED\<rparr>"

lemma sample_unconfirmed: "unconfirmed (sample_detection (6 / 10) override)"
  unfolding unconfirmed_def by (intro conjI exI [of _ "6 / 10"]) (simp_all add: sample_detection_def)

theorem override_never_configured_witness:
  "\<exists>err. fst (save_upload_configuration sample_config_env ''upload-1'' ''u1'' ''member'' ''pro'' ''o1''
     (sample_configuration (Some ''vhs'')) (sample_config_world (sample_detection (6 / 10) (JStr ''vhs'')))) = Inl err"
proof -
  have "overrides_unconfirmed (sample_config_world (sample_detection (6 / 10) (JStr ''vhs'')))"
    using sample_unconfirmed by (simp add: overrides_unconfirmed_def sample_config_world_def empty_upload_store_def sample_session_def)
  then show ?thesis
    using override_never_configured [of _ "sample_configuration (Some ''vhs'')" "''vhs''" sample_config_env "''upload-1''" "''u1''" "''member''" "''pro''" "''o1''"]
    by (simp add: sample_configuration_def)
qed

lemma sample_tiers:
  assumes "cw_billing w = empty_billing_store"
  shows "allowed_tiers_for_plan sample_config_env ''pro'' w = (Inr [ENHANCE, RESTORE], w)"
    and "plan_resolution_cap sample_config_env ''pro'' w = (Inr ''4k'', w)"
proof -
  have w: "w\<lparr>cw_billing := empty_billing_store\<rparr> = w" using assms by (cases w) simp
  have "ce_billing sample_config_env = sample_env" by (simp add: sample_config_env_def)
  then show "allowed_tiers_for_plan sample_config_env ''pro'' w = (Inr [ENHANCE, RESTORE], w)"
    "plan_resolution_cap sample_config_env ''pro'' w = (Inr ''4k'', w)"
    using assms w
    by (simp_all add: allowed_tiers_for_plan_def plan_resolution_cap_def or_pricing_problem_def on_pricing_def
        allowed_fidelity_tiers_for_plan_def resolution_cap_for_plan_def prog_defs sample_pricing_entry sample_parsed_def tier_of_value_def)
qed

lemma sample_mediums:
  "capture_medium_for_detection c r (sample_detection q v) = Inr ''super_8''"
  "era_range_for_detection c medium (sample_detection q v) = Inr (1970, 1979)"
  by (simp_all add: capture_medium_for_detection_def era_range_for_detection_def sample_detection_def ERA_CAPTURE_MEDIUM_def
      ERA_RANGE_def UNKNOWN_ERA_def)

lemma sample_profile:
  "is_valid (validate_era_profile c rd (preview_era_profile ''super_8'' RESTORE MATCHED ''pro'' ''4k'' (15 / 100) (1970, 1979) (9 / 10) False))"
proof -
  have "canonical_plan_tier ''pro'' = ''Pro''" by code_simp
  then show ?thesis
    by (simp add: validate_iff_ok era_profile_ok_def preview_era_profile_def Let_def mapping_of_def one_of_def get_default_def era_enums)
qed

lemma sample_resolved:
  "\<exists>r. resolve_fidelity_profile c rd RESTORE
     (preview_era_profile ''super_8'' RESTORE MATCHED ''pro'' ''4k'' (15 / 100) (1970, 1979) (9 / 10) False)
     [(''grain_preset'', JStr ''Matched''), (''fidelity_overrides'', JObj [(''grain_intensity'', JStr ''Matched'')])] = Inr r"
  by (simp add: resolve_fidelity_profile_def resolve_grain_preset_def config_override_def grain_preset_from_def preview_era_profile_def
      allowed_grain_presets_for_tier_def Let_def)

lemma sample_built:
  assumes "cw_billing w = empty_billing_store"
  shows "build_preview_era_profile sample_config_env r (sample_detection (9 / 10) JNull) RESTORE MATCHED ''pro'' w =
    (Inr (preview_era_profile ''super_8'' RESTORE MATCHED ''pro'' ''4k'' (15 / 100) (1970, 1979) (9 / 10) False), w)"
  by (simp add: build_preview_era_profile_def prog_defs sample_mediums sample_tiers [OF assms] Let_def)
    (simp add: sample_detection_def jitem_def sample_profile [simplified] prog_defs)

lemma sample_prepared:
  assumes "cw_billing w = empty_billing_store"
  shows "\<exists>pc w'. prepare_configuration sample_config_env ''upload-1'' (sample_session snap) (sample_detection (9 / 10) JNull) FILMMAKER
    (sample_configuration None) ''pro'' w = (Inr pc, w') \<and> cw_uploads w' = (cw_uploads w)\<lparr>up_calls := Suc (up_calls (cw_uploads w))\<rparr> \<and>
    cw_users w' = cw_users w"
proof -
  have sha: "sha256_hex (config_codec sample_config_env) x = placeholder_fingerprint" "length placeholder_fingerprint = 64" for x
    by (simp_all add: config_codec_def sample_config_env_def placeholder_fingerprint_def)
  have medium: "ensure_plan_supports_capture_medium sample_config_env ''super_8'' ''pro'' w = (Inr (), w)"
    by (simp add: ensure_plan_supports_capture_medium_def bindE_def sample_tiers [OF assms] ret_def)
  have items: "\<exists>d. jitems (sample_detection (9 / 10) JNull) [''detection_id'', ''era'', ''confidence'', ''source''] = Inr d"
    by (simp add: jitems_def jitem_def sample_detection_def)
  have payload: "\<exists>p. job_create_payload (sample_session snap) ''upload-1'' 120 RESTORE era cfg placeholder_fingerprint = Inr p" for era cfg
    by (simp add: job_create_payload_def sample_session_def placeholder_fingerprint_def)
  obtain res where res: "resolve_fidelity_profile (config_codec sample_config_env) (ee_float_of_str (ce_era sample_config_env)) RESTORE
     (preview_era_profile ''super_8'' RESTORE MATCHED ''pro'' ''4k'' (15 / 100) (1970, 1979) (9 / 10) False)
     [(''grain_preset'', JStr ''Matched''), (''fidelity_overrides'', JObj [(''grain_intensity'', JStr ''Matched'')])] = Inr res"
    using sample_resolved by blast
  obtain d where d: "jitems (sample_detection (9 / 10) JNull) [''detection_id'', ''era'', ''confidence'', ''source''] = Inr d"
    using items by blast
  obtain p where p: "job_create_payload (sample_session snap) ''upload-1'' 120 RESTORE
      (preview_era_profile ''super_8'' RESTORE MATCHED ''pro'' ''4k'' (15 / 100) (1970, 1979) (9 / 10) False)
      (job_config FILMMAKER RESTORE MATCHED (isoformat (ue_clock (ce_upload sample_config_env) (up_calls (cw_uploads w)))) d)
      placeholder_fingerprint = Inr p"
    using payload by blast
  show ?thesis
    unfolding prepare_configuration_def Let_def
    by (simp add: sample_configuration_def bindE_def liftR_def ret_def sample_mediums medium sample_built [OF assms, simplified] res [simplified]
        on_uploads_def zoom_def call_def d [simplified] p [simplified] configuration_fingerprint_def sha)
qed

lemma sample_saved:
  "\<exists>v t. save_upload_configuration sample_config_env ''upload-1'' ''u1'' ''member'' ''pro'' ''o1'' (sample_configuration None)
     (sample_config_world (sample_detection (9 / 10) JNull)) = (Inr v, t)"
proof -
  let ?snap = "sample_detection (9 / 10) JNull"
  let ?w = "sample_config_world ?snap"
  obtain profile w1 where w1: "on_users (get_or_create_profile ''u1'' ''member'' ''pro'' ''o1'' None) ?w = (Inr profile, w1)"
      "cw_billing w1 = empty_billing_store" "cw_uploads w1 = cw_uploads ?w"
    by (simp add: on_users_def zoom_def get_or_create_profile_def sample_config_world_def Let_def)
  have get: "on_uploads (get_session ''upload-1'' (Some ''u1'')) w1 = (Inr (Some (sample_session ?snap)), w1)"
    using w1(3) by (cases w1)
      (simp add: on_uploads_def zoom_def get_session_def getsE_def sample_config_world_def sample_session_def)
  have ready: "require_completed_upload (Some (sample_session ?snap)) = ret (sample_session ?snap)"
    by (simp add: require_completed_upload_def sample_session_def)
  have tier: "ensure_plan_supports_fidelity_tier sample_config_env RESTORE ''pro'' w1 = (Inr (), w1)"
    by (simp add: ensure_plan_supports_fidelity_tier_def bindE_def sample_tiers [OF w1(2)] ret_def)
  have found: "detection_for_configuration sample_config_env ''upload-1'' (sample_session ?snap) profile ''pro'' (sample_configuration None) ''u1'' =
      ret (sample_session ?snap, ?snap)"
    by (simp add: detection_for_configuration_def sample_session_def stored_detection_matches_request_def sample_configuration_def
        json_of_option_def) (simp add: sample_detection_def)
  obtain pc w2 where w2: "prepare_configuration sample_config_env ''upload-1'' (sample_session ?snap) ?snap FILMMAKER
      (sample_configuration None) ''pro'' w1 = (Inr pc, w2)"
    "cw_uploads w2 = (cw_uploads w1)\<lparr>up_calls := Suc (up_calls (cw_uploads w1))\<rparr>"
    using sample_prepared [OF w1(2)] by blast
  have update: "\<exists>u w3. on_uploads (update_session env ''upload-1'' ''u1'' f) w2 = (Inr (Some u), w3)" for env f
    using w2(2) w1(3)
    by (simp add: on_uploads_def zoom_def update_session_def prog_defs call_def Let_def sample_config_world_def sample_session_def)
  have users: "\<exists>w4. catchE (bindE (on_users m) (\<lambda>_. ret ())) (\<lambda>e. ret ()) w3 = (Inr (), w4)" for m :: "(user_table, user_profile) prog" and w3
    by (auto simp: prog_defs on_users_def split: prod.splits sum.splits)
  have public: "\<exists>d. public_detection_response ?snap = Inr d"
    by (simp add: public_detection_response_def jitems_def jitem_def sample_detection_def)
  obtain u w3 where w3: "on_uploads (update_session (ce_upload sample_config_env) ''upload-1'' ''u1'' (\<lambda>x. x\<lparr>detection_snapshot := ?snap,
      launch_config := launch_config_of ''upload-1'' FILMMAKER RESTORE MATCHED ?snap (pc_payload pc) (pc_fingerprint pc),
      configured_at := Some (pc_configured_at pc)\<rparr>)) w2 = (Inr (Some u), w3)"
    using update by blast
  obtain w4 where w4: "catchE (bindE (on_users (update_profile ''u1'' None None
      (Some (merge_fidelity_preferences profile FILMMAKER RESTORE MATCHED)))) (\<lambda>_. ret ())) (\<lambda>e. ret ()) w3 = (Inr (), w4)"
    using users by blast
  obtain d where d: "public_detection_response ?snap = Inr d" using public by blast
  have q: "dq_persona (sample_configuration None) = Some FILMMAKER" "dq_fidelity_tier (sample_configuration None) = RESTORE"
    "dq_grain_preset (sample_configuration None) = MATCHED"
    by (simp_all add: sample_configuration_def)
  have grain: "MATCHED \<in> set (allowed_grain_presets_for_tier RESTORE)" by (simp add: allowed_grain_presets_for_tier_def)
  show ?thesis
    unfolding save_upload_configuration_def Let_def
    by (simp only: bindE_def w1(1) get ready ret_def q option.case sum.case prod.case tier grain not_True_eq_False if_False found w2(1) w3
        w4 [unfolded bindE_def ret_def] liftR_def d) simp
qed

theorem saved_configuration_launchable_witness:
  "\<exists>v t r ls. save_upload_configuration sample_config_env ''upload-1'' ''u1'' ''member'' ''pro'' ''o1'' (sample_configuration None)
     (sample_config_world (sample_detection (9 / 10) JNull)) = (Inr v, t) \<and>
   dget (upload_sessions (cw_uploads t)) ''upload-1'' = Some r \<and>
   saved_launch_snapshot (ce_upload sample_config_env) r = Inr ls \<and> ls_configuration_fingerprint ls = cfv_fingerprint v"
  using sample_saved saved_configuration_launchable [of sample_config_env "''upload-1''" "''u1''" "''member''" "''pro''" "''o1''"
      "sample_configuration None" "sample_config_world (sample_detection (9 / 10) JNull)"]
  by metis

end
