(* ===== verification/Job_Service_Properties.thy ===== *)
theory Job_Service_Properties
  imports Job_Service Configuration_Properties
begin

text \<open>
  The properties of \<open>JobService.create_job\<close>, a request that it accepts, and one that it refuses.
\<close>

section \<open>Launches\<close>

text \<open>
  C8: A created job is ready to run. It is stored under the identifier that is returned (the one asked for,
  where there is one), queued, with an era profile that passes validation, a mode the plan allows and a resolved
  fidelity profile; its segments tile the video; every other job is as before; where the request publishes,
  exactly one message for it joins the queue; and a runtime that finds the store as it is then satisfies the
  invariant under which jobs are processed.
\<close>

theorem created_job_ready_to_run:
  assumes "service_create_job env user tier org p ovr publish source w = (Inr v, w')"
  shows "\<exists>lp j. plan_launch env tier p = Inr lp \<and> valid_plan env tier lp \<and>
    dget (jobs (job_table_of w')) (jv_job_id v) = Some j \<and> owner_user_id j = user \<and> job_status j = Queued \<and>
    era_profile j = JObj (lp_era lp) \<and> effective_fidelity_profile j = Some (lp_profile lp) \<and>
    (\<forall>x. ovr = Some x \<and> x \<noteq> [] \<longrightarrow> jv_job_id v = x) \<and>
    fresh_tiles (estimated_duration_seconds j) (segments_of (jv_job_id v) (job_table_of w')) \<and>
    (\<forall>k. k \<noteq> jv_job_id v \<longrightarrow> dget (jobs (job_table_of w')) k = dget (jobs (job_table_of w)) k \<and>
       segments_of k (job_table_of w') = segments_of k (job_table_of w)) \<and>
    queued_for env publish (jv_job_id v) tier source (jw_queue w) (jw_queue w') \<and>
    (\<forall>u. w_store u = job_table_of w' \<and> events_good (w_progress u) \<and> distinct (w_dead u) \<longrightarrow>
       runtime_inv (jv_job_id v) j (\<lambda>_. 0) u)"
proof -
  define G where "G v w' \<longleftrightarrow> (\<exists>lp j e rq. plan_launch env tier p = Inr lp \<and>
      job_request_of env (jv_job_id v) user tier org p lp e = Inr rq \<and> job_stored rq j (job_table_of w) (job_table_of w') \<and>
      (\<forall>x. ovr = Some x \<and> x \<noteq> [] \<longrightarrow> jv_job_id v = x) \<and>
      queued_for env publish (jv_job_id v) tier source (jw_queue w) (jw_queue w'))" for v :: job_view and w'
  have "wp (service_create_job env user tier org p ovr publish source) G (\<lambda>_ _. True) w"
  proof (rule wp_service_create_job)
    fix lp e rq j and w1 :: job_world
    assume a: "plan_launch env tier p = Inr lp" "job_request_of env (rq_job_id rq) user tier org p lp e = Inr rq"
      "\<And>x. ovr = Some x \<Longrightarrow> x \<noteq> [] \<Longrightarrow> rq_job_id rq = x" "job_stored rq j (job_table_of w) (job_table_of w1)"
      "queued_for env publish (rq_job_id rq) tier source (jw_queue w) (jw_queue w1)"
    then have "job_id j = rq_job_id rq" by (simp add: job_stored_def fresh_job_def)
    with a show "G ((job_response_payload j None)\<lparr>jv_queued_at := Some (queued_at j)\<rparr>) w1"
      unfolding G_def by (intro exI [of _ lp] exI [of _ j] exI [of _ e] exI [of _ rq]) (simp add: job_response_payload_def)
  qed simp
  then have "G v w'" by (simp add: wp_def assms)
  then obtain lp j e rq where g: "plan_launch env tier p = Inr lp" "job_request_of env (jv_job_id v) user tier org p lp e = Inr rq"
    "job_stored rq j (job_table_of w) (job_table_of w')" "\<forall>x. ovr = Some x \<and> x \<noteq> [] \<longrightarrow> jv_job_id v = x"
    "queued_for env publish (jv_job_id v) tier source (jw_queue w) (jw_queue w')" by (auto simp: G_def)
  show ?thesis
    using created_job_good [OF g(2,3)] plan_launch_valid [OF g(1)] g
    by (intro exI [of _ lp] exI [of _ j]) (auto simp: runtime_inv_def)
qed

text \<open>What is left of a launch once the request has been priced neither reads nor writes the billing.\<close>

lemma launch_priced_billing:
  "preserves (\<lambda>w. ow_billing (jw_output w) = bl) (launch_priced env user tier org p ovr publish source lp e)"
  unfolding launch_priced_def new_job_id_def store_job_def publish_message_def on_job_store_def on_job_queue_def
    job_now_def on_output_def on_output_store_def
  by (intro pres_intro preserves_zoom_slice [where J = "\<lambda>w. ow_billing w = bl"])
    (auto simp: preserves_def output_call_def zoom_def split: prod.splits)

text \<open>Pricing a request writes at most the user's usage record: the plan, its limit, and the pending estimate.\<close>

definition estimate_noted :: "string \<Rightarrow> string \<Rightarrow> billing_store \<Rightarrow> billing_store \<Rightarrow> bool" where
  "estimate_noted user tier s t \<longleftrightarrow> t = s \<or> (\<exists>n l. t = put_usage user (estimated n (usage_in user tier l s)) s)"

lemma estimate_launch_notes:
  "wp (estimate_launch env senv cfg t0 user tier org d fid) (\<lambda>_. estimate_noted user tier s) (\<lambda>_. estimate_noted user tier s) s"
proof -
  have recorded: "wp (catchE (record_estimate env user tier n org) (\<lambda>e. raise (on_pricing_unavailable e)))
      (\<lambda>_. estimate_noted user tier s) (\<lambda>_. estimate_noted user tier s) s" for n
    by (cases "limit_in env tier org s")
      (auto simp: wp_catchE wp_raise wp_def [where m = "record_estimate _ _ _ _ _"] billing_op_unavailable record_estimate_run
        estimate_noted_def Let_def)
  show ?thesis
    unfolding estimate_launch_def Let_def wp_bindE [where m = "catchE (record_estimate _ _ _ _ _) _"]
    by (rule wp_mono [OF recorded])
      ((rule wp_preserves, intro pres_intro readonly_preserves [OF readonly_effective_pricing], assumption) | assumption)+
qed

lemma wp_on_output:
  "wp (on_output m) Q E w = wp m (\<lambda>a t. Q a (w\<lparr>jw_output := t\<rparr>)) (\<lambda>e t. E e (w\<lparr>jw_output := t\<rparr>)) (jw_output w)"
  by (simp add: on_output_def wp_zoom)

lemma wp_on_job_billing:
  "wp (on_job_billing m) Q E w =
     wp m (\<lambda>a t. Q a (w\<lparr>jw_output := (jw_output w)\<lparr>ow_billing := t\<rparr>\<rparr>)) (\<lambda>e t. E e (w\<lparr>jw_output := (jw_output w)\<lparr>ow_billing := t\<rparr>\<rparr>))
       (ow_billing (jw_output w))"
  by (simp add: on_job_billing_def on_output_def on_output_billing_def wp_zoom)

lemma estimate_payload_notes:
  "wp (estimate_payload env user tier org p)
     (\<lambda>_ w'. estimate_noted user tier (ow_billing (jw_output w)) (ow_billing (jw_output w')))
     (\<lambda>_ w'. estimate_noted user tier (ow_billing (jw_output w)) (ow_billing (jw_output w'))) w"
proof -
  have kept: "estimate_noted user tier s s" for s by (simp add: estimate_noted_def)
  show ?thesis
    unfolding estimate_payload_def wp_catchE wp_bindE wp_liftR job_now_def wp_on_output wp_output_call wp_on_job_billing wp_raise
    by (auto simp: kept split: sum.split intro: wp_mono [OF estimate_launch_notes])
qed

lemma create_job_notes:
  "wp (service_create_job env user tier org p ovr publish source)
     (\<lambda>_ w'. estimate_noted user tier (ow_billing (jw_output w)) (ow_billing (jw_output w')))
     (\<lambda>_ w'. estimate_noted user tier (ow_billing (jw_output w)) (ow_billing (jw_output w'))) w"
proof -
  have kept: "estimate_noted user tier s s" for s by (simp add: estimate_noted_def)
  have priced: "wp (launch_priced env user tier org p ovr publish source lp e)
      (\<lambda>_ w'. estimate_noted user tier bl (ow_billing (jw_output w')))
      (\<lambda>_ w'. estimate_noted user tier bl (ow_billing (jw_output w'))) u"
    if "estimate_noted user tier bl (ow_billing (jw_output u))" for lp e bl u
    by (rule wp_mono [OF wp_preserves [OF launch_priced_billing refl]]) (use that in simp_all)
  show ?thesis
    unfolding service_create_job_def wp_bindE wp_liftR
    by (auto simp: kept split: sum.split intro: wp_mono [OF estimate_payload_notes] priced)
qed

text \<open>Packages, deletion proofs and the audit trail are not part of a launch.\<close>

lemma create_job_delivery:
  "preserves (\<lambda>w. ow_packages (jw_output w) = ps \<and> ow_proofs (jw_output w) = qs \<and> ow_audit (jw_output w) = au)
     (service_create_job env user tier org p ovr publish source)"
  unfolding service_create_job_def estimate_payload_def launch_priced_def new_job_id_def store_job_def publish_message_def
    on_job_store_def on_job_billing_def on_job_queue_def job_now_def on_output_def on_output_store_def on_output_billing_def
  by (intro pres_intro preserves_zoom_slice [where J = "\<lambda>w. ow_packages w = ps \<and> ow_proofs w = qs \<and> ow_audit w = au"])
    (auto simp: preserves_def output_call_def zoom_def split: prod.splits)

text \<open>
  C36: A refused launch launches nothing. Whatever create_job raises, no message is queued; no job or segment
  is stored or changed, unless it is Pub/Sub that refused the message of a job already stored; packages,
  deletion proofs and the audit trail are as before; and of the billing at most the user's own usage record
  is rewritten, with the plan, its limit and the minutes of the estimate, used and approved minutes as before.
\<close>

theorem refused_launch_queues_nothing:
  assumes "service_create_job env user tier org p ovr publish source w = (Inl e, w')"
  shows "jw_queue w' = jw_queue w \<and> (job_table_of w' = job_table_of w \<or> publish \<and> to_pubsub env) \<and>
    ow_packages (jw_output w') = ow_packages (jw_output w) \<and> ow_proofs (jw_output w') = ow_proofs (jw_output w) \<and>
    ow_audit (jw_output w') = ow_audit (jw_output w) \<and>
    (ow_billing (jw_output w') = ow_billing (jw_output w) \<or>
     (\<exists>u. ow_billing (jw_output w') = put_usage user u (ow_billing (jw_output w)) \<and> us_plan_tier u = tier \<and>
        used_minutes u = used_minutes (usage_in user tier (monthly_limit_minutes u) (ow_billing (jw_output w))) \<and>
        approved_for_minutes u = approved_for_minutes (usage_in user tier (monthly_limit_minutes u) (ow_billing (jw_output w)))))"
proof -
  have "wp (service_create_job env user tier org p ovr publish source) (\<lambda>_ _. True)
      (\<lambda>e w'. jw_queue w' = jw_queue w \<and> (job_table_of w' = job_table_of w \<or> publish \<and> to_pubsub env)) w"
    by (rule wp_service_create_job) blast+
  then have tables: "jw_queue w' = jw_queue w \<and> (job_table_of w' = job_table_of w \<or> publish \<and> to_pubsub env)"
    by (simp add: wp_def assms)
  have delivery: "ow_packages (jw_output w') = ow_packages (jw_output w) \<and> ow_proofs (jw_output w') = ow_proofs (jw_output w) \<and>
      ow_audit (jw_output w') = ow_audit (jw_output w)"
    using preservesD [OF create_job_delivery, where s = w] assms by (metis snd_conv)
  have "estimate_noted user tier (ow_billing (jw_output w)) (ow_billing (jw_output w'))"
    using create_job_notes [of env user tier org p ovr publish source w] by (simp add: wp_def assms)
  then have "ow_billing (jw_output w') = ow_billing (jw_output w) \<or>
     (\<exists>u. ow_billing (jw_output w') = put_usage user u (ow_billing (jw_output w)) \<and> us_plan_tier u = tier \<and>
        used_minutes u = used_minutes (usage_in user tier (monthly_limit_minutes u) (ow_billing (jw_output w))) \<and>
        approved_for_minutes u = approved_for_minutes (usage_in user tier (monthly_limit_minutes u) (ow_billing (jw_output w))))"
    unfolding estimate_noted_def by (elim disjE exE; intro disjI1 disjI2 exI conjI) (assumption | simp add: estimated_def)+
  with tables delivery show ?thesis by blast
qed

section \<open>A concrete request\<close>

definition launch_env :: "string \<Rightarrow> job_env" where
  "launch_env mode = \<lparr>je_output = sample_output_env, je_stripe = sample_stripe_env, je_prices = sample_stripe_config,
     je_environment = ''test'', job_dispatch_mode = mode, job_pubsub_topic = ''jobs'', pubsub_publish = (\<lambda>_ _. Inl (ExternalError ''Unavailable''))\<rparr>"

definition launch_world :: job_world where
  "launch_world = \<lparr>jw_output = \<lparr>ow_store = empty_job_store, ow_billing = empty_billing_store, ow_packages = [], ow_proofs = [],
     ow_audit = [], ow_calls = 0\<rparr>, jw_queue = empty_dispatcher\<rparr>"

definition launch_era :: jdict where
  "launch_era = preview_era_profile ''super_8'' CONSERVE MATCHED ''pro'' ''4k'' (3 / 100) (1970, 1979) (9 / 10) False"

definition launch_request :: jdict where
  "launch_request = [(''media_uri'', JStr ''gs://b/v.mov''), (''source_asset_checksum'', JStr ''0123456789''),
     (''fidelity_tier'', JStr ''Conserve''), (''processing_mode'', JStr ''balanced''), (''era_profile'', JObj launch_era),
     (''config'', JObj []), (''estimated_duration_seconds'', JInt 600)]"

lemma launch_era_valid: "is_valid (validate_era_profile c rd launch_era)"
proof -
  have "canonical_plan_tier ''pro'' = ''Pro''" by code_simp
  then show ?thesis
    unfolding launch_era_def
    by (simp add: validate_iff_ok era_profile_ok_def preview_era_profile_def Let_def mapping_of_def one_of_def get_default_def era_enums)
qed

lemma launch_planned: "\<exists>lp. plan_launch (launch_env m) ''pro'' launch_request = Inr lp"
proof -
  have checked: "checked_mode (launch_env m) ''pro'' launch_request = Inr (launch_era, PERCEPTUAL_EQUIVALENCE)"
    by (simp add: checked_mode_def era_of_payload_def jitem_def launch_request_def launch_era_valid mode_of_payload_def jget_def
        jor_def mode_of_value_def string_eval validate_reproducibility_mode_def)
  have "\<exists>r. resolve_fidelity_profile (je_codec (launch_env m)) (je_read (launch_env m)) CONSERVE launch_era [] = Inr r"
    by (simp add: resolve_fidelity_profile_def resolve_grain_preset_def config_override_def grain_preset_from_def launch_era_def
        preview_era_profile_def allowed_grain_presets_for_tier_def Let_def)
  with checked show ?thesis
    by (auto simp: plan_launch_def str_item_def jitem_def launch_request_def tier_of_value_def obj_or_empty.simps jget_def)
qed

text \<open>A world in which the user has used nothing yet, as it is before and after an accepted launch.\<close>

definition unused_world :: "job_world \<Rightarrow> bool" where
  "unused_world w \<longleftrightarrow> unused_billing (ow_billing (jw_output w))"

lemma launch_world_unused [simp]: "unused_world launch_world"
  by (simp add: unused_world_def launch_world_def)

lemma launch_estimated:
  assumes "unused_world w"
  shows "\<exists>e w'. estimate_payload (launch_env m) ''u1'' ''pro'' (Some ''o1'') launch_request w = (Inr e, w') \<and>
     \<not> hard_stop (ce_usage_snapshot e) \<and> unused_world w'"
  using sample_estimate_unused [of "ow_billing (jw_output w)" "Some ''o1''"] assms
  by (auto simp: estimate_payload_def int_item_def str_item_def jitem_def launch_request_def launch_env_def unused_world_def
      prog_defs job_now_def on_output_def zoom_def output_call_def on_job_billing_def on_output_billing_def sample_output_env_def)

lemma priced_launch_accepted:
  assumes "publish \<longrightarrow> \<not> to_pubsub env" "\<not> hard_stop (ce_usage_snapshot e)" "\<And>jid. \<exists>rq. job_request_of env jid user tier org p lp e = Inr rq"
  shows "wp (launch_priced env user tier org p ovr publish source lp e) (\<lambda>_ _. True) (\<lambda>_ _. False) w"
proof -
  have "wp (liftR (job_request_of env jid user tier org p lp e)) Q E w'" if "\<And>rq. Q rq w'" for jid w' E and Q :: "job_request \<Rightarrow> job_world \<Rightarrow> bool"
    using assms(3) [of jid] that by (auto simp: wp_liftR)
  note request = this
  show ?thesis
    unfolding launch_priced_def wp_bindE wp_if wp_ret wp_whenE
    using assms(1,2) by (auto intro!: wp_new_job_id request wp_store_job wp_publish_message)
qed

lemma launch_accepted:
  assumes "unused_world w" and "publish \<longrightarrow> m = ''memory''"
  shows "\<exists>v w'. service_create_job (launch_env m) ''u1'' ''pro'' ''o1'' launch_request ovr publish source w = (Inr v, w') \<and> unused_world w'"
proof -
  let ?env = "launch_env m"
  obtain lp where lp: "plan_launch ?env ''pro'' launch_request = Inr lp" using launch_planned by blast
  obtain e w1 where e: "estimate_payload ?env ''u1'' ''pro'' (Some ''o1'') launch_request w = (Inr e, w1)"
    "\<not> hard_stop (ce_usage_snapshot e)" "unused_world w1" using launch_estimated [OF assms(1)] by blast
  have rq: "\<exists>rq. job_request_of ?env jid ''u1'' ''pro'' ''o1'' launch_request lp e = Inr rq" for jid
    by (simp add: job_request_of_def str_item_def int_item_def jitem_def launch_request_def build_segments_def Let_def)
  let ?m = "launch_priced ?env ''u1'' ''pro'' ''o1'' launch_request ovr publish source lp e"
  have "wp ?m (\<lambda>_ _. True) (\<lambda>_ _. False) w1"
    using assms(2) by (intro priced_launch_accepted e(2) rq) (auto simp: to_pubsub_def launch_env_def string_eval)
  then obtain v w' where r: "?m w1 = (Inr v, w')"
    by (auto simp: wp_def split: sum.splits prod.splits)
  have "unused_world w'"
    using preservesD [OF launch_priced_billing refl, of ?env "''u1''" "''pro''" "''o1''" launch_request ovr publish source lp e w1] r e(3)
    by (simp add: unused_world_def)
  with r show ?thesis by (simp add: service_create_job_def prog_defs lp e(1))
qed

theorem created_job_ready_to_run_witness:
  "\<exists>v w' j. service_create_job (launch_env ''memory'') ''u1'' ''pro'' ''o1'' launch_request None True ''api'' launch_world = (Inr v, w') \<and>
     dget (jobs (job_table_of w')) (jv_job_id v) = Some j \<and> job_status j = Queued \<and>
     fresh_tiles (estimated_duration_seconds j) (segments_of (jv_job_id v) (job_table_of w'))"
proof -
  obtain v w' where run: "service_create_job (launch_env ''memory'') ''u1'' ''pro'' ''o1'' launch_request None True ''api'' launch_world =
    (Inr v, w')" using launch_accepted [OF launch_world_unused] by blast
  from created_job_ready_to_run [OF run] run show ?thesis by blast
qed

theorem refused_launch_queues_nothing_witness:
  "\<exists>e w'. service_create_job (launch_env ''memory'') ''u1'' ''pro'' ''o1'' [] None True ''api'' launch_world = (Inl e, w') \<and>
     jw_queue w' = empty_dispatcher \<and> job_table_of w' = empty_job_store"
proof -
  obtain e w' where run: "service_create_job (launch_env ''memory'') ''u1'' ''pro'' ''o1'' [] None True ''api'' launch_world = (Inl e, w')"
    by (simp add: service_create_job_def plan_launch_def checked_mode_def era_of_payload_def jitem_def prog_defs)
  have "\<not> to_pubsub (launch_env ''memory'')" by (simp add: to_pubsub_def launch_env_def string_eval)
  with refused_launch_queues_nothing [OF run] run show ?thesis by (auto simp: launch_world_def)
qed

end
