(* ===== verification/Preview_Properties.thy ===== *)
theory Preview_Properties
  imports Preview_Service Job_Service_Properties
begin

text \<open>
  The properties of launching a preview: what may be launched, and that a launch whose dispatch failed can be
  completed.
\<close>

section \<open>How the operations act on the state\<close>

abbreviation previews_of :: "preview_world \<Rightarrow> (string, preview) pydict" where
  "previews_of w \<equiv> preview_sessions (pw_previews w)"

text \<open>Nothing but the clock of the previews and the health log has moved.\<close>

definition preview_frame :: "preview_world \<Rightarrow> preview_world \<Rightarrow> bool" where
  "preview_frame w w' \<longleftrightarrow> pw_jobs w' = pw_jobs w \<and> pw_uploads w' = pw_uploads w \<and> previews_of w' = previews_of w"

lemma preview_frame_refl [simp]: "preview_frame w w"
  by (simp add: preview_frame_def)

lemma preview_frame_trans: "preview_frame u v \<Longrightarrow> preview_frame v w \<Longrightarrow> preview_frame u w"
  by (simp add: preview_frame_def)

text \<open>What \<open>_load_mutable_preview\<close> finds when it returns.\<close>

definition loaded ::
  "preview_env \<Rightarrow> string \<Rightarrow> string \<Rightarrow> string option \<Rightarrow> preview_world \<Rightarrow> preview \<Rightarrow> upload_session \<Rightarrow> launch_snapshot \<Rightarrow> bool" where
  "loaded env pid owner rfp w p r ls \<longleftrightarrow> dget (previews_of w) pid = Some p \<and> (owner = [] \<or> prv_owner_user_id p = owner) \<and>
     prv_deleted_at p = None \<and> pe_clock env (ps_calls (pw_previews w)) \<le> prv_expires_at p \<and>
     fst (get_session (prv_upload_id p) (Some owner) (pw_uploads w)) = Inr (Some r) \<and>
     saved_launch_snapshot (pe_uploads env) r = Inr ls \<and> ls_configuration_fingerprint ls = prv_fingerprint p \<and>
     rfp \<in> {None, Some (prv_fingerprint p)}"

lemma wp_bindE_fun: "wp (bindE m f) Q E = wp m (\<lambda>a. wp (f a) Q E) E"
  by (simp add: fun_eq_iff wp_bindE)

lemma wp_preview_now [wp_simps]:
  "wp (preview_now env) Q E w = Q (pe_clock env (ps_calls (pw_previews w)))
     (w\<lparr>pw_previews := (pw_previews w)\<lparr>ps_calls := Suc (ps_calls (pw_previews w))\<rparr>\<rparr>)"
  by (simp add: preview_now_def on_previews_def wp_simps)

lemma preview_world_same [simp]: "w\<lparr>pw_previews := pw_previews w\<rparr> = w" "w\<lparr>pw_uploads := pw_uploads w\<rparr> = w" for w :: preview_world
  by simp_all

lemma wp_find_preview:
  "wp (find_preview pid owner) Q E w =
     (case dget (previews_of w) pid of
        None \<Rightarrow> E preview_not_found w
      | Some p \<Rightarrow> if owner \<noteq> [] \<and> prv_owner_user_id p \<noteq> owner then E preview_not_found w else Q p w)"
  by (auto simp: find_preview_def get_preview_record_def on_previews_def wp_simps split: option.splits)

lemma wp_session_of:
  "wp (session_of uid owner) Q E w = Q (projr (fst (get_session uid (Some owner) (pw_uploads w)))) w"
  by (simp add: session_of_def get_session_def on_preview_uploads_def wp_simps) (simp add: getsE_def)

lemma wp_health:
  "(\<And>w'. preview_frame w w' \<Longrightarrow> Q () w') \<Longrightarrow> wp (record_launch_pending_health env owner p) Q E w"
  by (simp add: record_launch_pending_health_def launch_pending_snapshot_def on_previews_def wp_simps preview_frame_def case_prod_beta)

lemma wp_change_preview:
  "wp (change_preview env pid owner f) Q E w =
     (case owned_preview pid owner (pw_previews w) of
        None \<Rightarrow> Q None w
      | Some p \<Rightarrow>
          (let s = pw_previews w; r = (f p)\<lparr>prv_updated_at := pe_clock env (ps_calls s)\<rparr>
           in Q (Some r) (w\<lparr>pw_previews := put_preview pid r (s\<lparr>ps_calls := Suc (ps_calls s)\<rparr>)\<rparr>)))"
  by (simp add: change_preview_def on_previews_def wp_zoom wp_update_preview Let_def split: option.splits)

lemma wp_check_current:
  assumes "\<And>r ls. session = Some r \<Longrightarrow> saved_launch_snapshot (pe_uploads env) r = Inr ls \<Longrightarrow>
      ls_configuration_fingerprint ls = prv_fingerprint p \<Longrightarrow> rfp \<in> {None, Some (prv_fingerprint p)} \<Longrightarrow> Q (r, ls) w"
    and "\<And>e. E e w"
  shows "wp (check_current env p session rfp) Q E w"
  using assms by (auto simp: check_current_def wp_simps split: option.splits sum.splits)

text \<open>Either the preview is still alive, or what comes back is a tombstone.\<close>

lemma wp_expire_if_needed:
  assumes "\<And>w'. prv_deleted_at p = None \<Longrightarrow> pe_clock env (ps_calls (pw_previews w)) \<le> prv_expires_at p \<Longrightarrow> preview_frame w w' \<Longrightarrow> Q p w'"
    and "\<And>q w'. prv_deleted_at q \<noteq> None \<Longrightarrow> pw_jobs w' = pw_jobs w \<Longrightarrow> Q q w'"
  shows "wp (expire_if_needed env owner p) Q E w"
proof (cases "prv_deleted_at p")
  case None
  then show ?thesis
    unfolding expire_if_needed_def
    by (simp add: wp_simps wp_change_preview Let_def assms preview_frame_def split: option.split)
next
  case (Some t)
  then show ?thesis by (simp add: expire_if_needed_def wp_ret assms)
qed

lemma wp_load_mutable:
  assumes Q: "\<And>p r ls w'. loaded env pid owner rfp w p r ls \<Longrightarrow> preview_frame w w' \<Longrightarrow> Q (p, r, ls) w'"
    and E: "\<And>e w'. pw_jobs w' = pw_jobs w \<Longrightarrow> E e w'"
  shows "wp (load_mutable_preview env pid owner rfp) Q E w"
proof -
  have step: "wp (bindE (session_of (prv_upload_id p) owner) (\<lambda>session.
       bindE (check_current env p session rfp) (\<lambda>current.
       bindE (record_launch_pending_health env owner p) (\<lambda>_. ret (p, current))))) Q E w1"
    if "dget (previews_of w) pid = Some p" "owner = [] \<or> prv_owner_user_id p = owner" "prv_deleted_at p = None"
      "pe_clock env (ps_calls (pw_previews w)) \<le> prv_expires_at p" "preview_frame w w1" for p and w1 :: preview_world
    unfolding wp_bindE wp_session_of
    by (rule wp_check_current, rule wp_health, unfold wp_ret, rule Q)
      (use that in \<open>auto simp: loaded_def preview_frame_def get_session_def getsE_def intro: E split: option.splits\<close>)
  have found: "wp (bindE (expire_if_needed env owner p0) (\<lambda>p.
     if prv_deleted_at p \<noteq> None then raise preview_expired
     else bindE (session_of (prv_upload_id p) owner) (\<lambda>session.
       bindE (check_current env p session rfp) (\<lambda>current.
       bindE (record_launch_pending_health env owner p) (\<lambda>_. ret (p, current)))))) Q E w"
    if "dget (previews_of w) pid = Some p0" "owner = [] \<or> prv_owner_user_id p0 = owner" for p0
    unfolding wp_bindE [of "expire_if_needed env owner p0"]
    by (rule wp_expire_if_needed) (use that in \<open>simp_all add: step wp_raise E\<close>)
  show ?thesis
  proof (cases "dget (previews_of w) pid")
    case (Some p0)
    show ?thesis
      unfolding load_mutable_preview_def wp_bindE [of "find_preview pid owner"] wp_find_preview Some option.case
    proof (rule if_split [THEN iffD2], intro conjI impI)
      show "E preview_not_found w" by (rule E) simp
    qed (rule found, use Some in auto)
  qed (simp add: load_mutable_preview_def wp_bindE [of "find_preview pid owner"] wp_find_preview E)
qed

text \<open>And when it does return.\<close>

lemma load_mutable_succeeds:
  assumes "loaded env pid owner rfp w p r ls" and "\<And>w'. preview_frame w w' \<Longrightarrow> Q (p, r, ls) w'"
  shows "wp (load_mutable_preview env pid owner rfp) Q E w"
proof -
  have s: "projr (fst (get_session (prv_upload_id p) (Some owner) (pw_uploads w))) = Some r" using assms(1) by (simp add: loaded_def)
  show ?thesis
    using assms(1)
    by (auto simp: load_mutable_preview_def wp_bindE wp_find_preview loaded_def expire_if_needed_def wp_preview_now wp_if wp_ret
        wp_session_of check_current_def wp_simps preview_frame_def intro!: wp_health assms(2))
qed

section \<open>Launching\<close>

abbreviation jobs_of :: "preview_world \<Rightarrow> job_store" where
  "jobs_of w \<equiv> job_table_of (pw_jobs w)"

abbreviation queue_of :: "preview_world \<Rightarrow> dispatcher" where
  "queue_of w \<equiv> jw_queue (pw_jobs w)"

lemma wp_on_jobs: "wp (on_jobs m) Q E w = wp m (\<lambda>a t. Q a (w\<lparr>pw_jobs := t\<rparr>)) (\<lambda>e t. E e (w\<lparr>pw_jobs := t\<rparr>)) (pw_jobs w)"
  by (simp add: on_jobs_def wp_zoom)

text \<open>The job \<open>x\<close> has been made of a payload, and no other job has been touched.\<close>

definition job_made :: "job_env \<Rightarrow> string \<Rightarrow> string \<Rightarrow> jdict \<Rightarrow> string \<Rightarrow> job_store \<Rightarrow> job_store \<Rightarrow> bool" where
  "job_made env owner tier p x s s' \<longleftrightarrow> (\<exists>lp j. plan_launch env tier p = Inr lp \<and> dget (jobs s') x = Some j \<and> job_id j = x \<and>
     owner_user_id j = owner \<and> job_status j = Queued \<and> era_profile j = JObj (lp_era lp)) \<and>
     (\<forall>k. k \<noteq> x \<longrightarrow> dget (jobs s') k = dget (jobs s) k \<and> segments_of k s' = segments_of k s)"

text \<open>What launching leaves alone in a preview.\<close>

definition same_preview :: "preview \<Rightarrow> preview \<Rightarrow> bool" where
  "same_preview p q \<longleftrightarrow> prv_upload_id q = prv_upload_id p \<and> prv_owner_user_id q = prv_owner_user_id p \<and>
     prv_fingerprint q = prv_fingerprint p \<and> prv_review q = prv_review p \<and> prv_deleted_at q = prv_deleted_at p \<and>
     prv_expires_at q = prv_expires_at p"

lemma same_preview_refl [simp]: "same_preview p p"
  by (simp add: same_preview_def)

lemma same_preview_trans: "same_preview p q \<Longrightarrow> same_preview q r \<Longrightarrow> same_preview p r"
  by (simp add: same_preview_def)

definition bound_preview :: "string \<Rightarrow> launch_status \<Rightarrow> string \<Rightarrow> preview \<Rightarrow> preview_world \<Rightarrow> bool" where
  "bound_preview pid st x p w \<longleftrightarrow> (\<exists>q. dget (previews_of w) pid = Some q \<and> prv_launch q = st \<and>
     prv_external_job_id q = Some x \<and> same_preview p q)"

definition dispatched :: "preview_env \<Rightarrow> string \<Rightarrow> string \<Rightarrow> dispatcher \<Rightarrow> dispatcher \<Rightarrow> bool" where
  "dispatched env tier x q q' \<longleftrightarrow>
     (if to_pubsub (pe_jobs env)
      then q' = q \<and> (\<exists>t n. pubsub_publish (pe_jobs env) (build_dispatch_message t x tier PREVIEW_LAUNCH_SOURCE) n = Inr ())
      else \<exists>t. q' = enqueue_message (build_dispatch_message t x tier PREVIEW_LAUNCH_SOURCE) q)"

lemma wp_create_bound_job:
  assumes "x \<noteq> []"
    and Q: "\<And>v w'. job_made (pe_jobs env) owner tier (ls_job_payload_preview ls) x (jobs_of w) (jobs_of w') \<Longrightarrow>
      queue_of w' = queue_of w \<Longrightarrow> pw_previews w' = pw_previews w \<Longrightarrow> pw_uploads w' = pw_uploads w \<Longrightarrow> Q v w'"
    and E: "\<And>e w'. jobs_of w' = jobs_of w \<Longrightarrow> queue_of w' = queue_of w \<Longrightarrow> E e w'"
  shows "wp (create_bound_job env pid owner org tier x ls won) Q E w"
  unfolding create_bound_job_def wp_catchE wp_on_jobs
proof (rule wp_service_create_job)
  fix lp e rq j and w1 :: job_world
  assume plan: "plan_launch (pe_jobs env) tier (ls_job_payload_preview ls) = Inr lp"
    and rq: "job_request_of (pe_jobs env) (rq_job_id rq) owner tier org (ls_job_payload_preview ls) lp e = Inr rq"
    and x: "\<And>y. Some x = Some y \<Longrightarrow> y \<noteq> [] \<Longrightarrow> rq_job_id rq = y"
    and st: "job_stored rq j (jobs_of w) (job_table_of w1)"
    and q: "queued_for (pe_jobs env) False (rq_job_id rq) tier PREVIEW_LAUNCH_SOURCE (queue_of w) (jw_queue w1)"
  have rqx: "rq_job_id rq = x" using x [OF refl] assms(1) by simp
  have "job_id j = x" using st rqx by (simp add: job_stored_def fresh_job_def)
  with created_job_good [OF rq st] plan rqx
  have "job_made (pe_jobs env) owner tier (ls_job_payload_preview ls) x (jobs_of w) (job_table_of w1)"
    by (simp add: job_made_def)
  then show "Q ((job_response_payload j None)\<lparr>jv_queued_at := Some (queued_at j)\<rparr>) (w\<lparr>pw_jobs := w1\<rparr>)"
    using q by (intro Q) (simp_all add: queued_for_def)
next
  fix e and w1 :: job_world
  assume "jw_queue w1 = queue_of w" "job_table_of w1 = jobs_of w \<or> False \<and> to_pubsub (pe_jobs env)"
  then show "wp (if is_problem e \<and> won then bindE (change_preview env pid owner released_patch) (\<lambda>_. raise e) else raise e)
      Q E (w\<lparr>pw_jobs := w1\<rparr>)"
    by (auto simp: wp_simps wp_change_preview Let_def E split: option.split)
qed

text \<open>A post-condition may use what was raised.\<close>

lemma wp_raising: "wp m Q (\<lambda>e t. m s = (Inl e, t) \<longrightarrow> E e t) s \<Longrightarrow> wp m Q E s"
  by (auto simp: wp_def split: prod.splits sum.splits)

lemma wp_dispatch_bound_job:
  assumes "\<And>w'. jobs_of w' = jobs_of w \<Longrightarrow> pw_previews w' = pw_previews w \<Longrightarrow> pw_uploads w' = pw_uploads w \<Longrightarrow>
      dispatched env tier x (queue_of w) (queue_of w') \<Longrightarrow> Q () w'"
    and "\<And>e w'. jobs_of w' = jobs_of w \<Longrightarrow> previews_of w' = previews_of w \<Longrightarrow> pw_uploads w' = pw_uploads w \<Longrightarrow>
      queue_of w' = queue_of w \<Longrightarrow> to_pubsub (pe_jobs env) \<Longrightarrow> E e w'"
  shows "wp (dispatch_bound_job env owner tier x pending) Q E w"
  unfolding dispatch_bound_job_def wp_catchE wp_on_jobs wp_bindE wp_raise
  by (rule wp_publish_message, rule assms(1), auto simp: dispatched_def intro!: wp_health assms(2), auto simp: preview_frame_def)

text \<open>The job is read back by its owner.\<close>

lemma wp_create_response:
  assumes "dget (jobs (jobs_of w)) x = Some j" "job_id j = x" "owner_user_id j = owner" "\<And>v. jv_job_id v = x \<Longrightarrow> Q v w"
  shows "wp (on_jobs (get_job_create_response x owner)) Q E w"
  using assms
  by (simp add: wp_on_jobs get_job_create_response_def owned_job_def on_job_store_def on_output_def on_output_store_def
      get_job_def owned_by_def wp_simps job_response_payload_def)

text \<open>
  What finishing a launch comes to: nothing was stored; or the job was, but not dispatched, and the preview stays
  pending and bound to it; or the preview is launched.
\<close>

lemma wp_finish_launch:
  assumes p: "owned_preview pid owner (pw_previews w) = Some p" and x: "x \<noteq> []"
    and refused: "\<And>e w'. create_bound_job env pid owner org tier x ls won w = (Inl e, w') \<Longrightarrow> jobs_of w' = jobs_of w \<Longrightarrow>
      queue_of w' = queue_of w \<Longrightarrow> E e w'"
    and stuck: "\<And>e w'. job_made (pe_jobs env) owner tier (ls_job_payload_preview ls) x (jobs_of w) (jobs_of w') \<Longrightarrow>
      queue_of w' = queue_of w \<Longrightarrow> pw_uploads w' = pw_uploads w \<Longrightarrow> bound_preview pid LaunchPending x p w' \<Longrightarrow>
      to_pubsub (pe_jobs env) \<Longrightarrow> E e w'"
    and completed: "\<And>v w'. job_made (pe_jobs env) owner tier (ls_job_payload_preview ls) x (jobs_of w) (jobs_of w') \<Longrightarrow>
      dispatched env tier x (queue_of w) (queue_of w') \<Longrightarrow> pw_uploads w' = pw_uploads w \<Longrightarrow>
      bound_preview pid Launched x p w' \<Longrightarrow> jv_job_id v = x \<Longrightarrow> Q v w'"
  shows "wp (finish_launch env pid owner org tier x ls won) Q E w"
  unfolding finish_launch_def Let_def wp_bindE
proof (rule wp_raising, rule wp_create_bound_job [OF x])
  fix v :: job_view and w1 :: preview_world
  assume made: "job_made (pe_jobs env) owner tier (ls_job_payload_preview ls) x (jobs_of w) (jobs_of w1)"
    and w1: "queue_of w1 = queue_of w" "pw_previews w1 = pw_previews w" "pw_uploads w1 = pw_uploads w"
  have p1: "owned_preview pid owner (pw_previews w1) = Some p" using p w1(2) by simp
  let ?y = "ue_stable_uuid (pe_uploads env) x"
  let ?s = "pw_previews w1"
  define q where "q = (pending_patch ?y x p)\<lparr>prv_updated_at := pe_clock env (ps_calls ?s)\<rparr>"
  define w2 where "w2 = w1\<lparr>pw_previews := put_preview pid q (?s\<lparr>ps_calls := Suc (ps_calls ?s)\<rparr>)\<rparr>"
  have q: "same_preview p q" "prv_launch q = LaunchPending" "prv_external_job_id q = Some x"
    by (simp_all add: q_def pending_patch_def same_preview_def)
  have w2: "jobs_of w2 = jobs_of w1" "queue_of w2 = queue_of w" "pw_uploads w2 = pw_uploads w" "dget (previews_of w2) pid = Some q"
    by (simp_all add: w2_def w1)
  have "wp (dispatch_bound_job env owner tier x q)
      (\<lambda>_. wp (change_preview env pid owner (launched_patch ?y x (jv_queued_at v)))
         (\<lambda>l. wp (if l = None then raise preview_launch_failed else on_jobs (get_job_create_response x owner)) Q E) E) E w2"
  proof (rule wp_dispatch_bound_job)
    fix w3 :: preview_world
    assume w3: "jobs_of w3 = jobs_of w2" "pw_previews w3 = pw_previews w2" "pw_uploads w3 = pw_uploads w2"
      "dispatched env tier x (queue_of w2) (queue_of w3)"
    have "prv_owner_user_id q = owner" using q(1) p by (simp add: same_preview_def owned_preview_Some)
    then have own: "owned_preview pid owner (pw_previews w3) = Some q" using w2(4) w3(2) by (simp add: owned_preview_Some)
    obtain j where j: "dget (jobs (jobs_of w1)) x = Some j" "job_id j = x" "owner_user_id j = owner"
      using made by (auto simp: job_made_def)
    let ?r = "(launched_patch ?y x (jv_queued_at v) q)\<lparr>prv_updated_at := pe_clock env (ps_calls (pw_previews w3))\<rparr>"
    let ?w4 = "w3\<lparr>pw_previews := put_preview pid ?r ((pw_previews w3)\<lparr>ps_calls := Suc (ps_calls (pw_previews w3))\<rparr>)\<rparr>"
    have "bound_preview pid Launched x p ?w4"
      using q(1) by (simp add: bound_preview_def launched_patch_def same_preview_def)
    then have "wp (on_jobs (get_job_create_response x owner)) Q E ?w4"
      using made w3 w2 j by (intro wp_create_response [of _ _ j] completed) simp_all
    then show "wp (change_preview env pid owner (launched_patch ?y x (jv_queued_at v)))
         (\<lambda>l. wp (if l = None then raise preview_launch_failed else on_jobs (get_job_create_response x owner)) Q E) E w3"
      by (simp add: wp_change_preview own Let_def)
  next
    fix e and w3 :: preview_world
    assume "jobs_of w3 = jobs_of w2" "previews_of w3 = previews_of w2" "pw_uploads w3 = pw_uploads w2"
      "queue_of w3 = queue_of w2" "to_pubsub (pe_jobs env)"
    then show "E e w3" using made w2 q by (intro stuck) (simp_all add: bound_preview_def)
  qed
  then show "wp (change_preview env pid owner (pending_patch ?y x))
      (\<lambda>a. wp (case a of None \<Rightarrow> raise preview_launch_failed
         | Some q \<Rightarrow> bindE (dispatch_bound_job env owner tier x q) (\<lambda>_.
             bindE (change_preview env pid owner (launched_patch ?y x (jv_queued_at v))) (\<lambda>launched.
             if launched = None then raise preview_launch_failed else on_jobs (get_job_create_response x owner)))) Q E) E w1"
    by (simp add: wp_change_preview p1 Let_def wp_bindE_fun q_def w2_def)
qed (simp add: refused)

text \<open>Rivals only move a preview between its launch states.\<close>

lemma rival_same:
  assumes "dget (preview_sessions s) pid = Some p"
  shows "\<exists>q. dget (preview_sessions (rival_step tick v s)) pid = Some q \<and> same_preview p q"
  using assms
  by (cases v) (auto simp: claim_step_run settle_step_def release_step_def update_preview_run owned_preview_Some launched_patch_def
      released_patch_def same_preview_def split: option.split)

lemma rivals_same:
  "dget (preview_sessions s) pid = Some p \<Longrightarrow> \<exists>q. dget (preview_sessions (fold (rival_step tick) vs s)) pid = Some q \<and> same_preview p q"
proof (induction vs arbitrary: s p)
  case (Cons v vs)
  obtain q where "dget (preview_sessions (rival_step tick v s)) pid = Some q" "same_preview p q"
    using rival_same [OF Cons.prems] by blast
  with Cons.IH [of "rival_step tick v s" q] show ?case by (auto intro: same_preview_trans)
qed simp

lemma wp_rivals_act:
  "wp (rivals_act env) Q E w =
     Q () (w\<lparr>pw_previews := fold (rival_step (pe_clock env)) (pe_rivals env (ps_calls (pw_previews w))) (pw_previews w)\<rparr>)"
  by (simp add: rivals_act_def on_previews_def wp_zoom wp_modifyE)

lemma wp_claim_preview:
  assumes l: "loaded env pid owner (Some fp) w0 p r ls" and "preview_frame w0 w" and "owner \<noteq> []"
    and Q: "\<And>q q' won w'. owned_preview pid owner (pw_previews w') = Some q' \<Longrightarrow> same_preview p q' \<Longrightarrow>
      pw_jobs w' = pw_jobs w \<Longrightarrow> pw_uploads w' = pw_uploads w \<Longrightarrow> Q (q, ls, won) w'"
    and E: "\<And>e w'. pw_jobs w' = pw_jobs w \<Longrightarrow> E e w'"
  shows "wp (claim_preview env pid owner fp x p ls) Q E w"
proof -
  have p: "dget (previews_of w) pid = Some p" "prv_owner_user_id p = owner"
    using assms(1-3) by (auto simp: loaded_def preview_frame_def)
  define s where "s = fold (rival_step (pe_clock env)) (pe_rivals env (ps_calls (pw_previews w))) (pw_previews w)"
  obtain q where q: "dget (preview_sessions s) pid = Some q" "same_preview p q" using rivals_same [OF p(1)] by (auto simp: s_def)
  then have own: "owned_preview pid owner s = Some q" using p(2) by (simp add: owned_preview_Some same_preview_def)
  define w1 where "w1 = w\<lparr>pw_previews := s\<rparr>"
  have reload: "wp (load_mutable_preview env pid owner (Some fp)) (\<lambda>(q, _, ls2). Q (q, ls2, False)) E w1"
  proof (rule wp_load_mutable)
    fix p2 r2 ls2 and w2 :: preview_world
    assume l2: "loaded env pid owner (Some fp) w1 p2 r2 ls2" and w2: "preview_frame w1 w2"
    have "p2 = q" using l2 q by (simp add: loaded_def w1_def)
    with l l2 q(2) assms(2) have "ls2 = ls" by (simp add: loaded_def w1_def same_preview_def preview_frame_def)
    moreover have "owned_preview pid owner (pw_previews w2) = Some q"
      using own w2 by (simp add: owned_preview_Some preview_frame_def w1_def)
    ultimately show "(\<lambda>(q, _, ls2). Q (q, ls2, False)) (p2, r2, ls2) w2"
      using q(2) w2 by (simp add: Q preview_frame_def w1_def)
  qed (simp add: E w1_def)
  have lost: "wp (bindE (load_mutable_preview env pid owner (Some fp)) (\<lambda>(q, _, ls2). ret (q, ls2, False))) Q E w1"
    unfolding wp_bindE by (rule wp_mono [OF reload]) (auto simp: wp_ret)
  show ?thesis
  proof (cases "prv_launch p = NotLaunched")
    case False
    then show ?thesis using p by (auto simp: claim_preview_def wp_ret owned_preview_Some intro: Q)
  next
    case True
    have "wp (bindE (on_previews (claim_launch (pe_clock env) pid owner x)) (\<lambda>claimed.
        case claimed of
          Some q \<Rightarrow> ret (q, ls, True)
        | None \<Rightarrow> bindE (load_mutable_preview env pid owner (Some fp)) (\<lambda>(q, _, ls2). ret (q, ls2, False)))) Q E w1"
      using own q p lost
      by (simp add: wp_bindE on_previews_def wp_zoom wp_claim_launch Let_def w1_def)
        (auto simp: wp_ret owned_preview_Some same_preview_def intro!: Q)
    with True show ?thesis
      by (simp add: claim_preview_def wp_bindE [of "rivals_act env"] wp_rivals_act w1_def s_def)
  qed
qed

lemma bound_job_id_nonempty: "(\<And>s. ue_stable_uuid (pe_uploads env) s \<noteq> []) \<Longrightarrow> bound_job_id env pid p ls \<noteq> []"
  by (simp add: bound_job_id_def preview_launch_external_job_id_def split: option.split)

text \<open>What a launch comes to; \<open>p\<close> is the preview as it was loaded.\<close>

definition launch_allowed :: "preview_env \<Rightarrow> string \<Rightarrow> string \<Rightarrow> string \<Rightarrow> preview_world \<Rightarrow> preview \<Rightarrow> launch_snapshot \<Rightarrow> bool" where
  "launch_allowed env pid owner fp w p ls \<longleftrightarrow> (\<exists>r. loaded env pid owner (Some fp) w p r ls) \<and>
     prv_review p = ReviewApproved \<and> prv_launch p \<noteq> Launched"

lemma wp_launch_preview:
  assumes owner: "owner \<noteq> []" and uuid: "\<And>s. ue_stable_uuid (pe_uploads env) s \<noteq> []"
    and kept: "\<And>e w'. jobs_of w' = jobs_of w \<Longrightarrow> queue_of w' = queue_of w \<Longrightarrow> E e w'"
    and read: "\<And>v w'. jobs_of w' = jobs_of w \<Longrightarrow> queue_of w' = queue_of w \<Longrightarrow> Q v w'"
    and stuck: "\<And>e w' p ls x. launch_allowed env pid owner fp w p ls \<Longrightarrow> x = bound_job_id env pid p ls \<Longrightarrow>
      job_made (pe_jobs env) owner tier (ls_job_payload_preview ls) x (jobs_of w) (jobs_of w') \<Longrightarrow>
      queue_of w' = queue_of w \<Longrightarrow> pw_uploads w' = pw_uploads w \<Longrightarrow> bound_preview pid LaunchPending x p w' \<Longrightarrow> E e w'"
    and completed: "\<And>v w' p ls x. launch_allowed env pid owner fp w p ls \<Longrightarrow> x = bound_job_id env pid p ls \<Longrightarrow>
      job_made (pe_jobs env) owner tier (ls_job_payload_preview ls) x (jobs_of w) (jobs_of w') \<Longrightarrow>
      dispatched env tier x (queue_of w) (queue_of w') \<Longrightarrow> bound_preview pid Launched x p w' \<Longrightarrow> jv_job_id v = x \<Longrightarrow> Q v w'"
  shows "wp (launch_preview env pid owner org tier fp) Q E w"
  unfolding launch_preview_def wp_bindE_fun
proof (rule wp_load_mutable, unfold case_prod_conv Let_def)
  fix p r ls and w1 :: preview_world
  assume l: "loaded env pid owner (Some fp) w p r ls" and w1: "preview_frame w w1"
  let ?x = "bound_job_id env pid p ls"
  have same: "jobs_of w1 = jobs_of w" "queue_of w1 = queue_of w" "pw_uploads w1 = pw_uploads w"
    using w1 by (simp_all add: preview_frame_def)
  have respond: "wp (on_jobs (get_job_create_response ?x owner)) Q E w2" if "pw_jobs w2 = pw_jobs w" for w2 :: preview_world
    using that by (auto simp: wp_on_jobs get_job_create_response_def owned_job_def on_job_store_def on_output_def on_output_store_def
        get_job_def wp_simps intro!: kept read split: option.splits)
  have finish: "wp (claim_preview env pid owner fp ?x p ls)
      (\<lambda>(q, ls2, won). wp (if \<not> won \<and> prv_launch q = Launched then on_jobs (get_job_create_response ?x owner)
         else finish_launch env pid owner org tier ?x ls2 won) Q E) E w1"
    if "prv_launch p \<noteq> Launched" "prv_review p = ReviewApproved"
  proof (rule wp_claim_preview [OF l w1 owner], unfold case_prod_conv)
    have allowed: "launch_allowed env pid owner fp w p ls" using l that by (auto simp: launch_allowed_def)
    fix q q' won and w2 :: preview_world
    assume q': "owned_preview pid owner (pw_previews w2) = Some q'" "same_preview p q'"
      and w2: "pw_jobs w2 = pw_jobs w1" "pw_uploads w2 = pw_uploads w1"
    have pr: "bound_preview pid st ?x p w3" if "bound_preview pid st ?x q' w3" for st w3
      using that q'(2) by (auto simp: bound_preview_def intro: same_preview_trans)
    have "wp (finish_launch env pid owner org tier ?x ls won) Q E w2"
      by (rule wp_finish_launch [OF q'(1) bound_job_id_nonempty [OF uuid]])
        (use w2 same pr in \<open>auto intro: kept stuck [OF allowed refl] completed [OF allowed refl]\<close>)
    moreover have "pw_jobs w2 = pw_jobs w" using w1 w2 by (simp add: preview_frame_def)
    ultimately show "wp (if \<not> won \<and> prv_launch q = Launched then on_jobs (get_job_create_response ?x owner)
         else finish_launch env pid owner org tier ?x ls won) Q E w2"
      by (simp add: respond)
  qed (use same w1 in \<open>simp add: kept preview_frame_def\<close>)
  have "pw_jobs w1 = pw_jobs w" using w1 by (simp add: preview_frame_def)
  then show "wp (if prv_launch p = Launched then on_jobs (get_job_create_response ?x owner)
       else if prv_review p \<noteq> ReviewApproved then raise preview_approval_required
       else bindE (claim_preview env pid owner fp ?x p ls) (\<lambda>(q, ls2, won).
         if \<not> won \<and> prv_launch q = Launched then on_jobs (get_job_create_response ?x owner)
         else finish_launch env pid owner org tier ?x ls2 won)) Q E w1"
    using respond [of w1] finish [unfolded case_prod_beta] by (auto simp: wp_raise wp_bindE case_prod_beta same intro: kept)
qed (simp add: kept)

section \<open>Properties\<close>

text \<open>
  C2: Nothing is launched without a current approval. If launching a preview changes the jobs or the queue at
  all, then the preview was there, the owner's, alive and unexpired, of the configuration that its upload has
  now and that the request names, approved and not yet launched; and all that has happened is that the one job
  bound to it was made of that configuration and at most one message for it was queued.
\<close>

theorem launch_needs_current_approval:
  assumes run: "launch_preview env pid owner org tier fp w = (res, w')"
    and changed: "jobs_of w' \<noteq> jobs_of w \<or> queue_of w' \<noteq> queue_of w"
    and owner: "owner \<noteq> []" and uuid: "\<And>s. ue_stable_uuid (pe_uploads env) s \<noteq> []"
  shows "\<exists>p ls. launch_allowed env pid owner fp w p ls \<and>
    job_made (pe_jobs env) owner tier (ls_job_payload_preview ls) (bound_job_id env pid p ls) (jobs_of w) (jobs_of w') \<and>
    (queue_of w' = queue_of w \<or>
     (\<exists>t. queue_of w' = enqueue_message (build_dispatch_message t (bound_job_id env pid p ls) tier PREVIEW_LAUNCH_SOURCE) (queue_of w)))"
proof -
  define G where "G w' \<longleftrightarrow> jobs_of w' = jobs_of w \<and> queue_of w' = queue_of w \<or> (\<exists>p ls. launch_allowed env pid owner fp w p ls \<and>
    job_made (pe_jobs env) owner tier (ls_job_payload_preview ls) (bound_job_id env pid p ls) (jobs_of w) (jobs_of w') \<and>
    (queue_of w' = queue_of w \<or>
     (\<exists>t. queue_of w' = enqueue_message (build_dispatch_message t (bound_job_id env pid p ls) tier PREVIEW_LAUNCH_SOURCE) (queue_of w))))"
    for w' :: preview_world
  have "wp (launch_preview env pid owner org tier fp) (\<lambda>_. G) (\<lambda>_. G) w"
    by (rule wp_launch_preview [OF owner uuid]) (unfold G_def dispatched_def, (metis | blast)+)
  then show ?thesis using changed by (auto simp: wp_def run G_def split: sum.splits)
qed

text \<open>After the job has been priced nothing touches the billing.\<close>

abbreviation billing_of :: "preview_world \<Rightarrow> billing_store" where
  "billing_of w \<equiv> ow_billing (jw_output (pw_jobs w))"

lemma finish_launch_billing:
  assumes "create_bound_job env pid owner org tier x ls won w = (Inr created, w')"
  shows "wp (finish_launch env pid owner org tier x ls won) (\<lambda>_ t. billing_of t = billing_of w') (\<lambda>_ t. billing_of t = billing_of w') w"
proof -
  have jobs: "preserves (\<lambda>w. billing_of w = bl) (on_jobs m)" if "preserves (\<lambda>w. ow_billing (jw_output w) = bl) m" for m :: "(job_world, 'a) prog" and bl
    unfolding on_jobs_def by (rule preserves_zoom_slice [OF that]) simp_all
  have out: "preserves (\<lambda>w. ow_billing (jw_output w) = bl) (on_output m)" if "preserves (\<lambda>w. ow_billing w = bl) m" for m :: "(output_world, 'b) prog" and bl
    unfolding on_output_def by (rule preserves_zoom_slice [OF that]) simp_all
  have pub: "preserves (\<lambda>w. ow_billing (jw_output w) = bl) (publish_message (pe_jobs env) x tier src)" for bl src
    unfolding publish_message_def on_job_queue_def job_now_def
    by (intro pres_intro preserves_zoom out) (auto simp: preserves_def output_call_def)
  have resp: "preserves (\<lambda>w. ow_billing (jw_output w) = bl) (get_job_create_response x owner)" for bl
    unfolding get_job_create_response_def owned_job_def on_job_store_def on_output_store_def
    by (intro pres_intro out preserves_zoom) simp
  have prv: "preserves (\<lambda>w. billing_of w = bl) (on_previews m)" for m :: "(preview_store, 'c) prog" and bl
    unfolding on_previews_def by (rule preserves_zoom) simp
  have health: "preserves (\<lambda>w. billing_of w = bl) (record_launch_pending_health env owner p)" for bl p
    by (auto simp: preserves_wp preview_frame_def intro!: wp_health)
  show ?thesis
    unfolding finish_launch_def wp_bindE [of "create_bound_job env pid owner org tier x ls won"]
      wp_Inr [where m = "create_bound_job env pid owner org tier x ls won" and s = w, OF assms] Let_def dispatch_bound_job_def change_preview_def
    by (rule wp_preserves [where I = "\<lambda>t. billing_of t = billing_of w'"], intro pres_intro jobs pub resp health prv) (rule refl)
qed

text \<open>The launch of a pending preview, in a world where the job service accepts the job.\<close>

lemma pending_launch:
  assumes q: "loaded env pid owner (Some fp) w q r ls" "prv_review q = ReviewApproved" "prv_launch q = LaunchPending"
      "prv_external_job_id q = Some x" "x \<noteq> []" "owner \<noteq> []"
    and accepted: "service_create_job (pe_jobs env) owner tier org (ls_job_payload_preview ls) (Some x) False PREVIEW_LAUNCH_SOURCE
      (pw_jobs w) = (Inr created, jw)"
  shows "wp (launch_preview env pid owner org tier fp)
    (\<lambda>v w'. jv_job_id v = x \<and> bound_preview pid Launched x q w' \<and>
       job_made (pe_jobs env) owner tier (ls_job_payload_preview ls) x (jobs_of w) (jobs_of w') \<and>
       dispatched env tier x (queue_of w) (queue_of w') \<and> billing_of w' = ow_billing (jw_output jw))
    (\<lambda>_ w'. to_pubsub (pe_jobs env) \<and>
       job_made (pe_jobs env) owner tier (ls_job_payload_preview ls) x (jobs_of w) (jobs_of w') \<and>
       billing_of w' = ow_billing (jw_output jw)) w"
    (is "wp _ ?Q ?E w")
  unfolding launch_preview_def wp_bindE
proof (rule load_mutable_succeeds [OF q(1)], unfold case_prod_conv Let_def)
  fix w1 :: preview_world
  assume w1: "preview_frame w w1"
  have x: "bound_job_id env pid q ls = x" using q(4,5) by (simp add: bound_job_id_def)
  have own: "owned_preview pid owner (pw_previews w1) = Some q"
    using q(1,6) w1 by (simp add: loaded_def owned_preview_Some preview_frame_def)
  have jobs: "pw_jobs w1 = pw_jobs w" using w1 by (simp add: preview_frame_def)
  have create: "create_bound_job env pid owner org tier x ls False w1 = (Inr created, w1\<lparr>pw_jobs := jw\<rparr>)"
    using accepted by (simp add: create_bound_job_def catchE_def on_jobs_def zoom_def jobs)
  note billing = finish_launch_billing [OF create]
  have "wp (finish_launch env pid owner org tier x ls False)
    (\<lambda>v w'. jv_job_id v = x \<and> bound_preview pid Launched x q w' \<and>
       job_made (pe_jobs env) owner tier (ls_job_payload_preview ls) x (jobs_of w) (jobs_of w') \<and>
       dispatched env tier x (queue_of w) (queue_of w'))
    (\<lambda>_ w'. to_pubsub (pe_jobs env) \<and>
       job_made (pe_jobs env) owner tier (ls_job_payload_preview ls) x (jobs_of w) (jobs_of w')) w1"
    by (rule wp_finish_launch [OF own q(5)]) (use create jobs in simp_all)
  from wp_conj [OF this billing] have "wp (finish_launch env pid owner org tier x ls False) ?Q ?E w1"
    by (rule wp_mono) simp_all
  then show "wp (if prv_launch q = Launched then on_jobs (get_job_create_response (bound_job_id env pid q ls) owner)
      else if prv_review q \<noteq> ReviewApproved then raise preview_approval_required
      else bindE (claim_preview env pid owner fp (bound_job_id env pid q ls) q ls) (\<lambda>(q', ls2, won).
        if \<not> won \<and> prv_launch q' = Launched then on_jobs (get_job_create_response (bound_job_id env pid q ls) owner)
        else finish_launch env pid owner org tier (bound_job_id env pid q ls) ls2 won)) ?Q ?E w1"
    using q(2,3) by (simp add: x claim_preview_def wp_bindE wp_ret)
qed

text \<open>
  C6: A launch that stored the job but did not come through can always be completed. As long as the preview has not
  expired, any later request of the owner for the same configuration returns the same job, once the job service
  accepts it and messages can be queued again: the preview is then launched, its job is queued, and its message is in the queue.
\<close>

theorem interrupted_launch_completes:
  assumes first: "launch_preview env pid owner org tier fp w = (Inl e, w1)" "jobs_of w1 \<noteq> jobs_of w"
    and owner: "owner \<noteq> []" and uuid: "\<And>s. ue_stable_uuid (pe_uploads env) s \<noteq> []"
    and stored: "dget (previews_of w) pid = Some p" "fst (get_session (prv_upload_id p) (Some owner) (pw_uploads w)) = Inr (Some r)"
      "saved_launch_snapshot (pe_uploads env) r = Inr ls" "x = bound_job_id env pid p ls"
    and later: "pe_uploads env' = pe_uploads env" "pe_clock env' (ps_calls (pw_previews w1)) \<le> prv_expires_at p"
      "\<not> to_pubsub (pe_jobs env')"
    and accepted: "service_create_job (pe_jobs env') owner tier' org' (ls_job_payload_preview ls) (Some x) False PREVIEW_LAUNCH_SOURCE
      (pw_jobs w1) = (Inr created, jw)"
  shows "\<exists>v w2. launch_preview env' pid owner org' tier' fp w1 = (Inr v, w2) \<and> jv_job_id v = x \<and>
    bound_preview pid Launched x p w2 \<and> (\<exists>j. dget (jobs (jobs_of w2)) x = Some j \<and> owner_user_id j = owner \<and> job_status j = Queued) \<and>
    (\<exists>t. queue_of w2 = enqueue_message (build_dispatch_message t x tier' PREVIEW_LAUNCH_SOURCE) (queue_of w1))"
proof -
  define S where "S w1 \<longleftrightarrow> (\<exists>p ls. launch_allowed env pid owner fp w p ls \<and> pw_uploads w1 = pw_uploads w \<and>
    bound_preview pid LaunchPending (bound_job_id env pid p ls) p w1)" for w1 :: preview_world
  have "wp (launch_preview env pid owner org tier fp) (\<lambda>_ _. True) (\<lambda>_ w1. jobs_of w1 = jobs_of w \<or> S w1) w"
    by (rule wp_launch_preview [OF owner uuid]) (auto simp: S_def)
  then have "S w1" using first by (simp add: wp_def)
  then obtain p' ls' where a: "launch_allowed env pid owner fp w p' ls'" and up: "pw_uploads w1 = pw_uploads w"
    and b: "bound_preview pid LaunchPending (bound_job_id env pid p' ls') p' w1" by (auto simp: S_def)
  from a obtain r' where l: "loaded env pid owner (Some fp) w p' r' ls'" by (auto simp: launch_allowed_def)
  have "p' = p" using l stored(1) by (simp add: loaded_def)
  with l stored(2) have "r' = r" by (simp add: loaded_def)
  with l stored(3) have "ls' = ls" by (simp add: loaded_def)
  from b obtain q where q: "dget (previews_of w1) pid = Some q" "prv_launch q = LaunchPending" "prv_external_job_id q = Some x"
    "same_preview p q" by (auto simp: bound_preview_def \<open>p' = p\<close> \<open>ls' = ls\<close> stored(4))
  have x: "x \<noteq> []" unfolding stored(4) by (rule bound_job_id_nonempty [OF uuid])
  have again: "loaded env' pid owner (Some fp) w1 q r ls"
    using l q up later(1,2) stored by (simp add: loaded_def same_preview_def \<open>p' = p\<close>)
  have approved: "prv_review q = ReviewApproved"
    using a q(4) by (simp add: launch_allowed_def same_preview_def \<open>p' = p\<close>)
  note c = pending_launch [OF again approved q(2,3) x owner accepted]
  from c later(3) obtain v w2 where d: "launch_preview env' pid owner org' tier' fp w1 = (Inr v, w2)" "jv_job_id v = x"
    "bound_preview pid Launched x q w2" "job_made (pe_jobs env') owner tier' (ls_job_payload_preview ls) x (jobs_of w1) (jobs_of w2)"
    "dispatched env' tier' x (queue_of w1) (queue_of w2)"
    by (auto simp: wp_def split: prod.splits sum.splits)
  then have "bound_preview pid Launched x p w2" using q(4) by (auto simp: bound_preview_def intro: same_preview_trans)
  with d later(3) show ?thesis by (auto simp: job_made_def dispatched_def)
qed

section \<open>A pending preview\<close>

definition preview_uploads_env :: upload_env where
  "preview_uploads_env = sample_upload_env\<lparr>ue_stable_uuid := (\<lambda>s. ''id-'' @ s)\<rparr>"

definition sample_preview_env :: "string \<Rightarrow> preview_env" where
  "sample_preview_env mode = \<lparr>pe_jobs = launch_env mode, pe_uploads = preview_uploads_env, pe_clock = (\<lambda>_. 0),
     pe_float_fits = (\<lambda>_. True), pe_rivals = (\<lambda>_. [])\<rparr>"

definition launch_session :: upload_session where
  "launch_session = (sample_session [])\<lparr>launch_config := [(''job_payload_preview'', JObj launch_request)], configured_at := Some ''t''\<rparr>"

definition pending_preview :: "string \<Rightarrow> preview" where
  "pending_preview fp = \<lparr>prv_id = ''p1'', prv_upload_id = ''upload-1'', prv_owner_user_id = ''u1'', prv_org_id = ''o1'',
     prv_status = ''ready'', prv_configured_at_snapshot = ''t'', prv_fingerprint = fp, prv_cache_fingerprint = ''c'',
     prv_review = ReviewApproved, prv_reviewed_at = Some 0, prv_launch = LaunchPending, prv_launched_job_id = Some ''y'',
     prv_external_job_id = Some ''x'', prv_launched_at = None, prv_checksum = ''0123456789'', prv_cache_key = ''k'',
     prv_job_payload = launch_request, prv_selection_mode = ''scene_aware'', prv_scene_diversity = 0, prv_keyframe_count = 0,
     prv_cost_summary = [], prv_processing_seconds = 2, prv_keyframes = [], prv_root_uri = ''gs://b/previews/p1/'',
     prv_expires_at = 5, prv_deleted_at = None, prv_created_at = 0, prv_updated_at = 0\<rparr>"

definition pending_world :: "string \<Rightarrow> preview_world" where
  "pending_world fp = \<lparr>pw_jobs = launch_world,
     pw_uploads = empty_upload_store\<lparr>upload_sessions := [(''upload-1'', launch_session)]\<rparr>,
     pw_previews = \<lparr>preview_sessions = [(''p1'', pending_preview fp)], ps_calls = 0\<rparr>, pw_health = []\<rparr>"

lemma launch_session_snapshot:
  "\<exists>ls. saved_launch_snapshot preview_uploads_env launch_session = Inr ls \<and> ls_job_payload_preview ls = launch_request"
proof -
  have "\<exists>ls. saved_launch_snapshot preview_uploads_env launch_session = Inr ls \<and> ls_job_payload_preview ls = launch_request \<and>
      ls_configured_at ls = ''t'' \<and> ls_source_asset_checksum ls = ''0123456789'' \<and>
      ls_configuration_fingerprint ls = configuration_fingerprint (ue_codec preview_uploads_env) ''t'' launch_request \<and>
      ls_preview_id ls = preview_id_for_snapshot (ue_stable_uuid preview_uploads_env) (upload_id launch_session) ''t''"
    by (rule snapshot_of_session) (simp_all add: launch_session_def jget_def launch_request_def)
  then show ?thesis by blast
qed

lemma pending_loaded:
  assumes "saved_launch_snapshot preview_uploads_env launch_session = Inr ls" and "fp = ls_configuration_fingerprint ls"
  shows "loaded (sample_preview_env m) ''p1'' ''u1'' (Some fp) (pending_world fp) (pending_preview fp) launch_session ls"
  using assms
  by (simp add: loaded_def pending_world_def pending_preview_def sample_preview_env_def get_session_def getsE_def launch_session_def
      sample_session_def)

lemma pending_bound: "bound_job_id env pid (pending_preview fp) ls = ''x''"
  by (simp add: bound_job_id_def pending_preview_def)

text \<open>Launched from there, the job is stored; where messages cannot be published, that is where it ends.\<close>

lemma pending_launch_runs:
  assumes "saved_launch_snapshot preview_uploads_env launch_session = Inr ls" "ls_job_payload_preview ls = launch_request"
    and "fp = ls_configuration_fingerprint ls"
  shows "wp (launch_preview (sample_preview_env m) ''p1'' ''u1'' ''o1'' ''pro'' fp)
    (\<lambda>v w'. job_made (launch_env m) ''u1'' ''pro'' launch_request ''x'' empty_job_store (jobs_of w') \<and>
       unused_world (pw_jobs w') \<and> lower m \<noteq> ''pubsub'')
    (\<lambda>_ w'. job_made (launch_env m) ''u1'' ''pro'' launch_request ''x'' empty_job_store (jobs_of w') \<and>
       unused_world (pw_jobs w') \<and> lower m = ''pubsub'') (pending_world fp)"
proof -
  obtain v jw where run: "service_create_job (launch_env m) ''u1'' ''pro'' ''o1'' launch_request (Some ''x'') False PREVIEW_LAUNCH_SOURCE
      launch_world = (Inr v, jw)" "unused_world jw"
    using launch_accepted [OF launch_world_unused, of False m "Some ''x''" PREVIEW_LAUNCH_SOURCE] by blast
  have "service_create_job (pe_jobs (sample_preview_env m)) ''u1'' ''pro'' ''o1'' (ls_job_payload_preview ls) (Some ''x'') False
      PREVIEW_LAUNCH_SOURCE (pw_jobs (pending_world fp)) = (Inr v, jw)"
    using run(1) assms(2) by (simp add: sample_preview_env_def pending_world_def)
  from pending_launch [OF pending_loaded [OF assms(1,3)] _ _ _ _ _ this] show ?thesis
    by (rule wp_mono) (use run(2) in \<open>auto simp: pending_preview_def assms(2) sample_preview_env_def pending_world_def
        launch_world_def dispatched_def to_pubsub_def launch_env_def unused_world_def\<close>)
qed

theorem launch_needs_current_approval_witness:
  "\<exists>fp res w' p ls. launch_preview (sample_preview_env ''memory'') ''p1'' ''u1'' ''o1'' ''pro'' fp (pending_world fp) = (res, w') \<and>
     jobs_of w' \<noteq> jobs_of (pending_world fp) \<and> launch_allowed (sample_preview_env ''memory'') ''p1'' ''u1'' fp (pending_world fp) p ls"
proof -
  obtain ls where ls: "saved_launch_snapshot preview_uploads_env launch_session = Inr ls" "ls_job_payload_preview ls = launch_request"
    using launch_session_snapshot by blast
  let ?fp = "ls_configuration_fingerprint ls"
  obtain res w' where run: "launch_preview (sample_preview_env ''memory'') ''p1'' ''u1'' ''o1'' ''pro'' ?fp (pending_world ?fp) = (res, w')"
    by (cases "launch_preview (sample_preview_env ''memory'') ''p1'' ''u1'' ''o1'' ''pro'' ?fp (pending_world ?fp)")
  have "job_made (launch_env ''memory'') ''u1'' ''pro'' launch_request ''x'' empty_job_store (jobs_of w')"
    using pending_launch_runs [OF ls refl, of "''memory''"] by (auto simp: wp_def run split: sum.splits)
  then have changed: "jobs_of w' \<noteq> jobs_of (pending_world ?fp)"
    by (auto simp: job_made_def pending_world_def launch_world_def empty_job_store_def)
  have "\<And>s. ue_stable_uuid (pe_uploads (sample_preview_env ''memory'')) s \<noteq> []"
    by (simp add: sample_preview_env_def preview_uploads_env_def)
  with launch_needs_current_approval [OF run disjI1 [OF changed]] run changed show ?thesis by blast
qed

theorem interrupted_launch_completes_witness:
  "\<exists>fp e w1 v w2. launch_preview (sample_preview_env ''pubsub'') ''p1'' ''u1'' ''o1'' ''pro'' fp (pending_world fp) = (Inl e, w1) \<and>
     launch_preview (sample_preview_env ''memory'') ''p1'' ''u1'' ''o1'' ''pro'' fp w1 = (Inr v, w2) \<and> jv_job_id v = ''x''"
proof -
  obtain ls where ls: "saved_launch_snapshot preview_uploads_env launch_session = Inr ls" "ls_job_payload_preview ls = launch_request"
    using launch_session_snapshot by blast
  let ?fp = "ls_configuration_fingerprint ls"
  have low: "lower ''pubsub'' = ''pubsub''" "lower ''memory'' = ''memory''" by (simp_all add: string_eval)
  obtain e w1 where run: "launch_preview (sample_preview_env ''pubsub'') ''p1'' ''u1'' ''o1'' ''pro'' ?fp (pending_world ?fp) = (Inl e, w1)"
    and made: "job_made (launch_env ''pubsub'') ''u1'' ''pro'' launch_request ''x'' empty_job_store (jobs_of w1)" "unused_world (pw_jobs w1)"
    using pending_launch_runs [OF ls refl, of "''pubsub''"] low by (auto simp: wp_def split: prod.splits sum.splits)
  have changed: "jobs_of w1 \<noteq> jobs_of (pending_world ?fp)"
    using made by (auto simp: job_made_def pending_world_def launch_world_def empty_job_store_def)
  obtain c jw where acc: "service_create_job (launch_env ''memory'') ''u1'' ''pro'' ''o1'' launch_request (Some ''x'') False
      PREVIEW_LAUNCH_SOURCE (pw_jobs w1) = (Inr c, jw)"
    using launch_accepted [OF made(2), of False "''memory''" "Some ''x''" PREVIEW_LAUNCH_SOURCE] by blast
  have other: "\<not> to_pubsub (pe_jobs (sample_preview_env ''memory''))" "pe_jobs (sample_preview_env ''memory'') = launch_env ''memory''"
    by (simp_all add: to_pubsub_def sample_preview_env_def launch_env_def low)
  have "\<exists>v w2. launch_preview (sample_preview_env ''memory'') ''p1'' ''u1'' ''o1'' ''pro'' ?fp w1 = (Inr v, w2) \<and> jv_job_id v = ''x'' \<and>
    bound_preview ''p1'' Launched ''x'' (pending_preview ?fp) w2 \<and>
    (\<exists>j. dget (jobs (jobs_of w2)) ''x'' = Some j \<and> owner_user_id j = ''u1'' \<and> job_status j = Queued) \<and>
    (\<exists>t. queue_of w2 = enqueue_message (build_dispatch_message t ''x'' ''pro'' PREVIEW_LAUNCH_SOURCE) (queue_of w1))"
    by (rule interrupted_launch_completes [OF run changed, where p = "pending_preview ?fp" and r = launch_session and ls = ls])
      (use ls acc other in \<open>simp_all add: pending_bound, simp_all add: sample_preview_env_def preview_uploads_env_def pending_world_def
         pending_preview_def get_session_def getsE_def launch_session_def sample_session_def\<close>)
  with run show ?thesis by blast
qed

end
