(* ===== verification/Api_Frames.thy ===== *)
theory Api_Frames
  imports Api_Routes Preview_Properties
begin

text \<open>
  What the services leave alone: the upload sessions and the usage records of other users, and the table of
  profiles. Each frame is an invariant of the service's own state; \<open>config_invariant\<close> is the contract under
  which the configuration service keeps one.
\<close>

section \<open>Reading\<close>

lemma preserves_case_prod: "(\<And>a b. preserves I (f a b)) \<Longrightarrow> preserves I (case x of (a, b) \<Rightarrow> f a b)"
  by (simp split: prod.splits)

lemma readonly_zoom: "readonly m \<Longrightarrow> (\<And>s. p (g s) s = s) \<Longrightarrow> readonly (zoom g p m)"
  by (auto simp: readonly_def zoom_def split: prod.splits) (metis snd_conv)

lemma readonly_plan_lookups [readonly_intro]:
  "readonly (allowed_fidelity_tiers_for_plan env t)" "readonly (resolution_cap_for_plan env t)"
  "readonly (max_retention_days_for_plan env t)" "readonly (monthly_limit_for_tier env t)"
  unfolding allowed_fidelity_tiers_for_plan_def resolution_cap_for_plan_def max_retention_days_for_plan_def monthly_limit_for_tier_def
  by (intro readonly_intro)+

lemma readonly_on_pricing: "readonly m \<Longrightarrow> readonly (on_pricing m)"
  unfolding on_pricing_def by (rule readonly_zoom) auto

lemmas preserves_pricing [pres_intro] = readonly_preserves [OF readonly_on_pricing [OF readonly_plan_lookups(1)]]
  readonly_preserves [OF readonly_on_pricing [OF readonly_plan_lookups(2)]]

section \<open>The configuration service under a contract\<close>

locale config_invariant =
  fixes I :: "config_world \<Rightarrow> bool" and user role plan org :: string
  assumes era_free: "I w \<Longrightarrow> I (w\<lparr>cw_era := e\<rparr>)"
    and calls_free: "I w \<Longrightarrow> I (w\<lparr>cw_uploads := (cw_uploads w)\<lparr>up_calls := n\<rparr>\<rparr>)"
    and own_session: "I w \<Longrightarrow> dget (upload_sessions (cw_uploads w)) uid = Some r \<Longrightarrow> us_owner_user_id r = user \<Longrightarrow>
      I (w\<lparr>cw_uploads := (cw_uploads w)\<lparr>upload_sessions := dset uid r' (upload_sessions (cw_uploads w))\<rparr>\<rparr>)"
    and own_profile: "preserves I (on_users (get_or_create_profile user role plan org None))"
    and own_preferences: "preserves I (on_users (update_profile user d a p))"
begin

lemma keeps_era: "preserves I (on_era m)"
  unfolding on_era_def by (rule preserves_zoom) (rule era_free)

lemma keeps_call: "preserves I (on_uploads (call f))"
  unfolding on_uploads_def by (auto simp: preserves_def zoom_def call_def intro: calls_free)

lemma keeps_get_session: "preserves I (on_uploads (get_session uid owner))"
  unfolding on_uploads_def by (auto simp: preserves_def zoom_def get_session_def getsE_def)

lemma keeps_update_session: "preserves I (on_uploads (update_session env uid user f))"
proof -
  have "I (w\<lparr>cw_uploads := (cw_uploads w)\<lparr>up_calls := n, upload_sessions := dset uid r' (upload_sessions (cw_uploads w))\<rparr>\<rparr>)"
    if "I w" "dget (upload_sessions (cw_uploads w)) uid = Some r" "us_owner_user_id r = user" for w r r' n
    using own_session [OF calls_free [OF that(1), of n], of uid r r'] that(2,3) by simp
  then show ?thesis
    unfolding on_uploads_def
    by (auto simp: preserves_def zoom_def update_session_def prog_defs call_def Let_def split: prod.splits option.splits)
qed

lemmas keeps = pres_intro keeps_era keeps_call keeps_get_session keeps_update_session own_profile own_preferences

lemma keeps_plans:
  "preserves I (allowed_tiers_for_plan env t)" "preserves I (plan_resolution_cap env t)"
  "preserves I (coerce_tier_for_plan env tier t)" "preserves I (resolve_detection_tier_hint env profile t)"
  "preserves I (ensure_plan_supports_fidelity_tier env ft t)" "preserves I (ensure_plan_supports_capture_medium env medium t)"
  "preserves I (override_detection_view env e base)" "preserves I (require_completed_upload found)"
  "preserves I (catalog_preferred_tier env profile t)" "preserves I (catalog_preferred_grain env profile t)"
  unfolding allowed_tiers_for_plan_def plan_resolution_cap_def coerce_tier_for_plan_def resolve_detection_tier_hint_def
    ensure_plan_supports_fidelity_tier_def ensure_plan_supports_capture_medium_def override_detection_view_def
    require_completed_upload_def or_pricing_problem_def catalog_preferred_tier_def catalog_preferred_grain_def Let_def
  by (intro keeps)+

lemma keeps_mapE: "(\<And>x. preserves I (f x)) \<Longrightarrow> preserves I (mapE f xs)"
  by (induction xs) (auto intro: pres_intro)

lemma keeps_detection:
  "preserves I (detect_and_persist env uid r profile t q user)"
  "preserves I (detection_for_configuration env uid r profile t q user)"
  unfolding detect_and_persist_def detection_for_configuration_def Let_def
  by (intro keeps keeps_plans)+

lemma keeps_prepare: "preserves I (prepare_configuration env uid r snap persona q t)"
  unfolding prepare_configuration_def build_preview_era_profile_def Let_def
  by (intro keeps keeps_plans)

lemma keeps_detect_upload_era: "preserves I (detect_upload_era env uid user role plan org q)"
  unfolding detect_upload_era_def
  by (intro keeps keeps_plans keeps_detection)

lemma keeps_save: "preserves I (save_upload_configuration env uid user role plan org q)"
  unfolding save_upload_configuration_def Let_def
  by (intro keeps keeps_plans keeps_detection keeps_prepare preserves_case_prod)

lemma keeps_catalog: "preserves I (list_fidelity_tiers env user role plan org)"
  unfolding list_fidelity_tiers_def
  by (intro keeps keeps_plans keeps_mapE)

end

section \<open>Other users' upload sessions\<close>

definition sessions_kept :: "string \<Rightarrow> upload_store \<Rightarrow> upload_store \<Rightarrow> bool" where
  "sessions_kept user s t \<longleftrightarrow> (\<forall>uid r. dget (upload_sessions s) uid = Some r \<and> us_owner_user_id r \<noteq> user \<longrightarrow>
     dget (upload_sessions t) uid = Some r)"

lemma sessions_kept_refl [simp]: "sessions_kept user s s"
  by (simp add: sessions_kept_def)

lemma sessions_kept_calls [simp]: "sessions_kept user s0 (s\<lparr>up_calls := n\<rparr>) = sessions_kept user s0 s"
  by (simp add: sessions_kept_def)

lemma sessions_kept_cong: "upload_sessions t = upload_sessions s \<Longrightarrow> sessions_kept user s0 t = sessions_kept user s0 s"
  by (simp add: sessions_kept_def)

lemma sessions_kept_same: "(\<And>s. preserves (tables_same s) m) \<Longrightarrow> preserves (sessions_kept user s0) m"
  unfolding preserves_def using sessions_kept_cong by (metis tables_same_def)

lemma sessions_kept_leaves [pres_intro]:
  "preserves (sessions_kept user s0) (call f)" "preserves (sessions_kept user s0) (audit_classification env cl event)"
  "preserves (sessions_kept user s0) (probe_resumable_session env url sz)"
  "preserves (sessions_kept user s0) (create_resumable_session env bucket path mime sz)"
  "preserves (sessions_kept user s0) (fetch_object_metadata env bucket path)"
  "preserves (sessions_kept user s0) (resume_target env session probe)"
  "preserves (sessions_kept user s0) (label_object env session cl)"
  by (rule sessions_kept_same, rule pres_intro)+

lemma sessions_kept_own:
  "sessions_kept user s0 s \<Longrightarrow> dget (upload_sessions s) uid = Some r \<Longrightarrow> us_owner_user_id r = user \<Longrightarrow>
   sessions_kept user s0 (s\<lparr>upload_sessions := dset uid r' (upload_sessions s)\<rparr>)"
  by (auto simp: sessions_kept_def)

lemma sessions_kept_get [pres_intro]: "preserves (sessions_kept user s0) (get_session uid who)"
  unfolding get_session_def by (rule pres_intro)

lemma sessions_kept_update [pres_intro]: "preserves (sessions_kept user s0) (update_session env uid user f)"
proof -
  have "sessions_kept user s0 (s\<lparr>up_calls := n, upload_sessions := dset uid r' (upload_sessions s)\<rparr>)"
    if "sessions_kept user s0 s" "dget (upload_sessions s) uid = Some r" "us_owner_user_id r = user" for s r r' n
    using sessions_kept_own [OF that] by (simp add: sessions_kept_def)
  then show ?thesis
    by (auto simp: preserves_def update_session_def prog_defs call_def Let_def split: prod.splits option.splits)
qed

lemma sessions_kept_repository [pres_intro]:
  "preserves (sessions_kept user s0) (require_session uid who)"
  "preserves (sessions_kept user s0) (upsert_pointer env uid r who sz checksum cl)"
  unfolding require_session_def upsert_pointer_def Let_def
  by (intro pres_intro preserves_modifyE; simp add: sessions_kept_def)+

lemma sessions_kept_services:
  "preserves (sessions_kept user s0) (resume_upload env uid user)"
  "preserves (sessions_kept user s0) (finalize_upload env uid user tier rq)"
  unfolding resume_upload_def finalize_upload_def confirm_upload_def complete_upload_def mark_upload_in_progress_def Let_def
  by (intro pres_intro preserves_case_prod)+

text \<open>A new upload is a new session, as long as its id is nobody else's.\<close>

lemma sessions_kept_create:
  assumes "\<And>n uid r. dget (upload_sessions s0) uid = Some r \<Longrightarrow> ue_uuid env n \<noteq> uid"
  shows "preserves (sessions_kept user s0) (create_upload env user org rq)"
proof -
  have store: "preserves (sessions_kept user s0) (create_session env (ue_uuid env n) user org fn mime sz cs bucket path url)" for n fn mime sz cs bucket path url
    unfolding create_session_def Let_def
    by (intro pres_intro preserves_modifyE) (auto simp: sessions_kept_def dest: assms [where n = n])
  have new_id: "wp (call (ue_uuid env)) (\<lambda>uid t. (\<exists>n. uid = ue_uuid env n) \<and> sessions_kept user s0 t) (\<lambda>_. sessions_kept user s0) s"
    if "sessions_kept user s0 s" for s
    using that by (auto simp: wp_def call_def sessions_kept_def)
  note url = wp_preserves [OF sessions_kept_leaves(4)]
  show ?thesis
    unfolding preserves_wp create_upload_def Let_def
    by (auto simp: wp_simps intro!: wp_mono [OF new_id] wp_mono [OF url] wp_preserves [OF store] split: sum.splits)
qed

section \<open>Other users' usage\<close>

definition usage_kept :: "string \<Rightarrow> billing_store \<Rightarrow> billing_store \<Rightarrow> bool" where
  "usage_kept user s t \<longleftrightarrow> (\<forall>v. v \<noteq> user \<longrightarrow> dget (usage_tab t) v = dget (usage_tab s) v)"

lemma usage_kept_refl [simp]: "usage_kept user s s"
  by (simp add: usage_kept_def)

lemma usage_kept_put: "usage_kept user s0 s \<Longrightarrow> usage_kept user s0 (put_usage user u s)"
  by (simp add: usage_kept_def)

lemma usage_kept_operations:
  "preserves (usage_kept user s0) (snapshot env user t org)"
  "preserves (usage_kept user s0) (record_estimate env user t n org)"
  "preserves (usage_kept user s0) (approve_overage env user t scope n org)"
proof -
  have current: "preserves (usage_kept user s0) (current_usage env user t org)"
    unfolding preserves_def
  proof (intro allI impI)
    fix s assume "usage_kept user s0 s"
    then show "usage_kept user s0 (snd (current_usage env user t org s))"
      by (cases "limit_in env t org s")
        (simp_all add: current_usage_ok current_usage_unavailable put_usage_def [symmetric] usage_kept_put)
  qed
  have update: "preserves (usage_kept user s0) (usage_update user f)" for f
    by (auto simp: preserves_def usage_update_def usage_kept_def prog_defs split: option.splits)
  show "preserves (usage_kept user s0) (snapshot env user t org)"
    "preserves (usage_kept user s0) (record_estimate env user t n org)"
    "preserves (usage_kept user s0) (approve_overage env user t scope n org)"
    unfolding snapshot_def record_estimate_def approve_overage_def Let_def
    by (intro pres_intro current update)+
qed

lemma usage_kept_estimate: "preserves (usage_kept user s0) (estimate_launch env senv cfg t0 user t org d f)"
  unfolding estimate_launch_def Let_def
  by (intro pres_intro usage_kept_operations readonly_preserves [OF readonly_effective_pricing])

lemma usage_kept_management:
  "preserves (usage_kept user s0) (activate_pricebook env b detach i j t1 t2 rq)"
  by (auto simp: preserves_def activate_pricebook_def activate_pricebook_revision_def
      bootstrap_pricebook_revision_from_environment_def rev_get_active_def rev_activate_def append_event_def usage_kept_def
      prog_defs Let_def split: prod.splits sum.splits option.splits json.splits if_splits)

text \<open>The same of the job service, of what it is asked and of what it creates.\<close>

definition job_usage_kept :: "string \<Rightarrow> billing_store \<Rightarrow> job_world \<Rightarrow> bool" where
  "job_usage_kept user s0 w = usage_kept user s0 (ow_billing (jw_output w))"

lemma job_usage_store [pres_intro]:
  "preserves (job_usage_kept user s0) (on_job_store m1)" "preserves (job_usage_kept user s0) (on_job_queue m2)"
  "preserves (job_usage_kept user s0) (on_output (output_call f))" "preserves (job_usage_kept user s0) (job_now env)"
  by (auto simp: preserves_def on_job_store_def on_output_store_def on_job_queue_def on_output_def zoom_def output_call_def
      job_now_def job_usage_kept_def split: prod.splits)

lemma job_usage_billing:
  "preserves (usage_kept user s0) m \<Longrightarrow> preserves (job_usage_kept user s0) (on_job_billing m)"
  unfolding on_job_billing_def on_output_def on_output_billing_def job_usage_kept_def
  by (rule preserves_zoom_slice [where J = "\<lambda>w. usage_kept user s0 (ow_billing w)"])
    (auto intro: preserves_zoom_slice)

lemma job_usage_publish [pres_intro]: "preserves (job_usage_kept user s0) (publish_message env jid t source)"
  unfolding publish_message_def by (intro pres_intro)

lemma job_usage_estimates:
  "preserves (job_usage_kept user s0) (estimate_payload env user t org p)"
  "preserves (job_usage_kept user s0) (estimate_job env user t org p)"
  unfolding estimate_payload_def estimate_job_def Let_def
  by (intro pres_intro job_usage_billing usage_kept_estimate | simp add: case_prod_beta)+

lemma job_usage_create:
  "preserves (job_usage_kept user s0) (service_create_job env user t org p ovr publish source)"
proof -
  have "preserves (job_usage_kept user s0) (new_job_id env ovr)"
    unfolding new_job_id_def by (intro pres_intro)
  then show ?thesis
    unfolding service_create_job_def launch_priced_def store_job_def
    by (intro pres_intro job_usage_estimates)
qed


text \<open>Reading jobs and their outputs.\<close>

definition output_usage_kept :: "string \<Rightarrow> billing_store \<Rightarrow> output_world \<Rightarrow> bool" where
  "output_usage_kept user s0 w = usage_kept user s0 (ow_billing w)"

lemma output_usage_leaves [pres_intro]:
  "preserves (output_usage_kept user s0) (on_output_store m)" "preserves (output_usage_kept user s0) (output_call f)"
  "preserves (output_usage_kept user s0) (on_output_billing (max_retention_days_for_plan benv t))"
  "preserves (output_usage_kept user s0) (get_package jid variant who)" "preserves (output_usage_kept user s0) (get_proof pid who)"
  "preserves (output_usage_kept user s0) (get_proof_for_job jid who)"
  by (auto simp: preserves_def on_output_store_def zoom_def output_call_def output_usage_kept_def get_package_def get_proof_def
      get_proof_for_job_def getsE_def run_on_output_billing readonly_max_retention split: prod.splits)

lemma output_usage_update [pres_intro]: "preserves (output_usage_kept user s0) (update_package env jid variant f)"
  unfolding update_package_def Let_def
  by (intro pres_intro preserves_modifyE) (simp add: output_usage_kept_def)

lemma output_usage_services:
  "preserves (output_usage_kept user s0) (get_export env jid who tier variant retention)"
  "preserves (output_usage_kept user s0) (get_deletion_proof env pid who)"
  unfolding get_export_def get_deletion_proof_def validate_retention_days_def or_pricing_problem_def download_link_def
    expire_package_if_needed_def Let_def
  by (intro pres_intro)+

lemma job_usage_output: "preserves (output_usage_kept user s0) m \<Longrightarrow> preserves (job_usage_kept user s0) (on_output m)"
  unfolding on_output_def job_usage_kept_def output_usage_kept_def
  by (rule preserves_zoom_slice [where J = "\<lambda>w. usage_kept user s0 (ow_billing w)"]) auto

lemma job_usage_services:
  "preserves (job_usage_kept user s0) (service_get_job jid who)"
  "preserves (job_usage_kept user s0) (get_job_create_response jid who)"
  "preserves (job_usage_kept user s0) (service_list_jobs who)"
  "preserves (job_usage_kept user s0) (service_get_manifest env jid who)"
  "preserves (job_usage_kept user s0) (service_request_cancellation env jid who)"
  "preserves (job_usage_kept user s0) (service_uncertainty_callouts env jid who)"
  "preserves (job_usage_kept user s0) (service_get_export env jid who tier variant retention)"
  "preserves (job_usage_kept user s0) (service_get_deletion_proof env pid who)"
  unfolding service_get_job_def owned_job_def details_of_def get_job_create_response_def service_list_jobs_def
    service_get_manifest_def service_request_cancellation_def service_uncertainty_callouts_def service_get_export_def
    service_get_deletion_proof_def
  by (intro pres_intro job_usage_output output_usage_services output_usage_leaves)+

section \<open>Previews\<close>

text \<open>Previews only read the upload sessions; usage moves with the jobs they make.\<close>

definition preview_usage_kept :: "string \<Rightarrow> upload_store \<Rightarrow> billing_store \<Rightarrow> preview_world \<Rightarrow> bool" where
  "preview_usage_kept user u0 s0 w \<longleftrightarrow> pw_uploads w = u0 \<and> job_usage_kept user s0 (pw_jobs w)"

lemma preview_usage_parts [pres_intro]:
  "preserves (preview_usage_kept user u0 s0) (on_previews m1)" "preserves (preview_usage_kept user u0 s0) (preview_now env)"
  "preserves (preview_usage_kept user u0 s0) (change_preview env pid who f)" "preserves (preview_usage_kept user u0 s0) (rivals_act env)"
  "preserves (preview_usage_kept user u0 s0) (session_of uid who)"
  by (auto simp: preserves_def on_previews_def preview_now_def change_preview_def rivals_act_def session_of_def
      on_preview_uploads_def zoom_def get_session_def getsE_def preview_usage_kept_def split: prod.splits)

lemma preview_usage_jobs: "preserves (job_usage_kept user s0) m \<Longrightarrow> preserves (preview_usage_kept user u0 s0) (on_jobs m)"
  unfolding on_jobs_def preview_usage_kept_def by (rule preserves_zoom_slice) auto

lemma preview_usage_health [pres_intro]: "preserves (preview_usage_kept user u0 s0) (record_launch_pending_health env who p)"
  unfolding record_launch_pending_health_def
  by (intro pres_intro preserves_case_prod preserves_modifyE) (simp add: preview_usage_kept_def)

lemmas preview_usage_intro = preserves_case_prod preview_usage_jobs job_usage_publish job_usage_estimates
  job_usage_create job_usage_services

lemma preview_usage_load [pres_intro]:
  "preserves (preview_usage_kept user u0 s0) (find_preview pid who)"
  "preserves (preview_usage_kept user u0 s0) (expire_if_needed env who p)"
  "preserves (preview_usage_kept user u0 s0) (is_active_preview env p expected)"
  "preserves (preview_usage_kept user u0 s0) (check_current env p session fp)"
  "preserves (preview_usage_kept user u0 s0) (require_preview_ready_upload found)"
  unfolding find_preview_def expire_if_needed_def is_active_preview_def check_current_def require_preview_ready_upload_def
  by (intro pres_intro preview_usage_intro)+

lemma preview_usage_mutable [pres_intro]: "preserves (preview_usage_kept user u0 s0) (load_mutable_preview env pid who fp)"
  unfolding load_mutable_preview_def by (intro pres_intro preview_usage_intro)

lemma preview_usage_sign [pres_intro]: "preserves (preview_usage_kept user u0 s0) (sign_keyframes env p ks)"
  by (induction ks) (auto simp: sign_keyframe_def intro!: pres_intro)

lemma preview_usage_response [pres_intro]: "preserves (preview_usage_kept user u0 s0) (preview_response env p session)"
  unfolding preview_response_def by (intro pres_intro preview_usage_intro)

lemma preview_usage_fresh [pres_intro]: "preserves (preview_usage_kept user u0 s0) (fresh_preview env session ls user org tier)"
  unfolding fresh_preview_def reusable_preview_def build_preview_record_def Let_def
  by (intro pres_intro preview_usage_intro)

lemma preview_usage_launch: "preserves (preview_usage_kept user u0 s0) (launch_preview env pid user org tier fp)"
  unfolding launch_preview_def claim_preview_def finish_launch_def create_bound_job_def dispatch_bound_job_def Let_def
  by (intro pres_intro preview_usage_intro)

lemma preview_usage_services:
  "preserves (preview_usage_kept user u0 s0) (create_preview env uid user org tier)"
  "preserves (preview_usage_kept user u0 s0) (service_get_preview env pid user)"
  "preserves (preview_usage_kept user u0 s0) (review_preview env pid user verdict)"
  "preserves (preview_usage_kept user u0 s0) (launch_job_request env user org tier body)"
  unfolding create_preview_def exact_preview_def service_get_preview_def review_preview_def launch_job_request_def
  by (intro pres_intro preview_usage_intro preview_usage_launch)+


section \<open>The contract of the configuration service kept\<close>

text \<open>Other users' uploads, while the prices are only read.\<close>

definition config_uploads_kept :: "string \<Rightarrow> upload_store \<Rightarrow> billing_store \<Rightarrow> config_world \<Rightarrow> bool" where
  "config_uploads_kept user s0 b0 w \<longleftrightarrow> sessions_kept user s0 (cw_uploads w) \<and> cw_billing w = b0"

interpretation uploads_kept: config_invariant "config_uploads_kept user s0 b0" user role plan org
  for user role plan org :: string and s0 :: upload_store and b0 :: billing_store
  by unfold_locales
    (auto simp: config_uploads_kept_def on_users_def preserves_def zoom_def sessions_kept_own split: prod.splits)

text \<open>
  Who a profile belongs to, its role, its plan and its organisation stay as they were when it was made;
  without the test override a profile is made with the least of each.
\<close>

definition same_account :: "user_profile \<Rightarrow> user_profile \<Rightarrow> bool" where
  "same_account p q \<longleftrightarrow> pf_user_id q = pf_user_id p \<and> pf_email q = pf_email p \<and> pf_role q = pf_role p \<and>
     pf_plan_tier q = pf_plan_tier p \<and> pf_org_id q = pf_org_id p"

definition plain_member :: "string \<Rightarrow> user_profile \<Rightarrow> bool" where
  "plain_member v p \<longleftrightarrow> pf_user_id p = v \<and> pf_role p = ''member'' \<and> pf_plan_tier p = ''hobbyist'' \<and> pf_org_id p = ''org-default''"

definition enrolled :: "user_table \<Rightarrow> user_table \<Rightarrow> bool" where
  "enrolled u0 u \<longleftrightarrow> (\<forall>v. case dget u v of
     None \<Rightarrow> dget u0 v = None
   | Some q \<Rightarrow> pf_user_id q = v \<and> (case dget u0 v of Some p \<Rightarrow> same_account p q | None \<Rightarrow> plain_member v q))"

lemma enrolled_at:
  "enrolled u0 u \<Longrightarrow> dget u v = Some q \<Longrightarrow>
   pf_user_id q = v \<and> (case dget u0 v of Some p \<Rightarrow> same_account p q | None \<Rightarrow> plain_member v q)"
  by (auto simp: enrolled_def dest!: spec [where x = v])

lemma enrolled_put:
  assumes "enrolled u0 u" and "pf_user_id q = v" and "case dget u0 v of Some p \<Rightarrow> same_account p q | None \<Rightarrow> plain_member v q"
  shows "enrolled u0 (dset v q u)"
  using assms by (simp add: enrolled_def)

lemma enrolled_update: "preserves (enrolled u0) (update_profile user d a p)"
  unfolding preserves_def
proof (intro allI impI)
  fix u assume I: "enrolled u0 u"
  show "enrolled u0 (snd (update_profile user d a p u))"
  proof (cases "dget u user")
    case (Some q)
    from enrolled_at [OF I Some] show ?thesis
      using Some by (auto simp: update_profile_def Let_def same_account_def plain_member_def intro!: enrolled_put [OF I] split: option.splits)
  qed (simp add: update_profile_def I)
qed

lemma enrolled_default: "preserves (enrolled u0) (get_or_create_profile user ''member'' ''hobbyist'' ''org-default'' email)"
  unfolding preserves_def
proof (intro allI impI)
  fix u assume I: "enrolled u0 u"
  show "enrolled u0 (snd (get_or_create_profile user ''member'' ''hobbyist'' ''org-default'' email u))"
  proof (cases "dget u user")
    case None
    then have "dget u0 user = None" using I by (auto simp: enrolled_def dest!: spec [where x = user])
    then show ?thesis
      using None by (auto simp: get_or_create_profile_def Let_def plain_member_def intro!: enrolled_put [OF I])
  qed (simp add: get_or_create_profile_def I)
qed

text \<open>A user whose profile there is already.\<close>

definition config_enrolled :: "user_table \<Rightarrow> string \<Rightarrow> config_world \<Rightarrow> bool" where
  "config_enrolled u0 user w \<longleftrightarrow> enrolled u0 (cw_users w) \<and> dget (cw_users w) user \<noteq> None"

lemma known_update: "preserves (\<lambda>u. dget u user \<noteq> None) (update_profile user d a p)"
  by (auto simp: preserves_def update_profile_def Let_def split: option.splits)

lemma known_profile: "preserves (\<lambda>u. enrolled u0 u \<and> dget u user \<noteq> None) (get_or_create_profile user role plan org email)"
  by (auto simp: preserves_def get_or_create_profile_def)

interpretation profiles_kept: config_invariant "config_enrolled u0 user" user role plan org
  for user role plan org :: string and u0 :: user_table
proof unfold_locales
  show "preserves (config_enrolled u0 user) (on_users (get_or_create_profile user role plan org None))"
    unfolding on_users_def config_enrolled_def by (rule preserves_zoom_slice [OF known_profile]) auto
  show "preserves (config_enrolled u0 user) (on_users (update_profile user d a p))" for d a p
    unfolding on_users_def config_enrolled_def
    by (rule preserves_zoom_slice [OF preserves_conj [OF enrolled_update known_update]]) auto
qed (simp_all add: config_enrolled_def)

end
