(* ===== verification/Runtime_Resources.thy ===== *)
theory Runtime_Resources
  imports Runtime_Invariant
begin

text \<open>
  What a run of the worker does to the resources it shares: the GPU leases, the owner's minutes and the
  dispatch queue. The locales say which slices of the world an observation may depend on; inside, every
  operation that stays off them is shown to keep the observation. They are interpreted on the leases held
  by a job, the state of the worker's lease, the minutes of a user and the queue.
\<close>

section \<open>Operations on the pool that leave the leases alone\<close>

definition leaves_leases :: "(ops_state, 'a) prog \<Rightarrow> bool" where
  "leaves_leases m \<longleftrightarrow> (\<forall>s. gpu_leases (snd (m s)) = gpu_leases s)"

lemma leaves_leases_preserves: "leaves_leases m \<longleftrightarrow> (\<forall>c. preserves (\<lambda>s. gpu_leases s = c) m)"
  by (auto simp: leaves_leases_def preserves_def)

lemma leaves_leasesI: "(\<And>c. preserves (\<lambda>s. gpu_leases s = c) m) \<Longrightarrow> leaves_leases m"
  by (simp add: leaves_leases_preserves)

lemma leases_utc_now [pres_intro]: "preserves (\<lambda>s. gpu_leases s = c) (utc_now env)"
  by (simp add: preserves_def utc_now_def)

lemma leases_draw_uuid [pres_intro]: "preserves (\<lambda>s. gpu_leases s = c) (draw_uuid env)"
  by (simp add: preserves_def draw_uuid_def)

lemma leases_modify [pres_intro]: "(\<And>s. gpu_leases (f s) = gpu_leases s) \<Longrightarrow> preserves (\<lambda>s. gpu_leases s = c) (modifyE f)"
  by (rule preserves_modifyE) simp

lemma leases_cache_backend [pres_intro]: "preserves (\<lambda>s. gpu_leases s = c) (cache_backend env)"
  unfolding cache_backend_def by (cases "redis env") (auto intro: pres_intro)

lemma preserves_redis_reply [pres_intro]:
  "preserves I a \<Longrightarrow> preserves I b \<Longrightarrow> preserves I d \<Longrightarrow>
   preserves I (case r of Usable \<Rightarrow> a | Gone \<Rightarrow> b | Unreachable \<Rightarrow> d)"
  by (cases r) simp_all

lemma leases_lookup [pres_intro]: "preserves (\<lambda>s. gpu_leases s = c) (lookup_segment_cache env r)"
  unfolding lookup_segment_cache_def Let_def by (intro pres_intro)

lemma leases_store_cache [pres_intro]: "preserves (\<lambda>s. gpu_leases s = c) (store_segment_cache env k e)"
  unfolding store_segment_cache_def by (intro pres_intro) simp_all

lemma leases_emit [pres_intro]: "preserves (\<lambda>s. gpu_leases s = c) (emit_incident env sev signal summary)"
  unfolding preserves_wp by (auto intro!: wp_mono [OF emit_incident_wp] simp: quiet_def)

lemma leases_slo [pres_intro]: "preserves (\<lambda>s. gpu_leases s = c) (evaluate_job_slo env q)"
  unfolding evaluate_job_slo_def alert_slo_def by (intro pres_intro) simp_all

lemma leases_snapshot [pres_intro]: "preserves (\<lambda>s. gpu_leases s = c) (evaluate_runtime_snapshot env snap d)"
  unfolding evaluate_runtime_snapshot_def by (intro pres_intro)

lemma leases_anomalies [pres_intro]: "preserves (\<lambda>s. gpu_leases s = c) (emit_anomalies env as keys)"
  by (induction as arbitrary: keys) (auto simp: emit_anomaly_def Let_def intro!: pres_intro)

lemma leases_refresh [pres_intro]: "preserves (\<lambda>s. gpu_leases s = c) (refresh_cost_ops_signals env bs js)"
  unfolding refresh_cost_ops_signals_def build_cost_ops_snapshot_def evaluate_cost_ops_snapshot_def Let_def
    emit_anomaly_incidents_def list_incidents_def current_runtime_snapshot_def list_gpu_leases_def
    autoscaler_idle_scale_down_healthy_def
  by (intro pres_intro)

section \<open>Observations the worker's steps do not disturb\<close>

locale step_frame =
  fixes I :: "world \<Rightarrow> bool"
  assumes store: "I w \<Longrightarrow> I (w\<lparr>w_store := st\<rparr>)"
    and progress: "I w \<Longrightarrow> I (w\<lparr>w_progress := lg\<rparr>)"
    and deliveries: "I w \<Longrightarrow> I (w\<lparr>w_deliveries := ds\<rparr>)"
    and failures: "I w \<Longrightarrow> I (w\<lparr>w_failures := fs\<rparr>)"
    and repro: "I w \<Longrightarrow> I (w\<lparr>w_repro := rs\<rparr>)"
    and dead: "I w \<Longrightarrow> I (w\<lparr>w_dead := dl\<rparr>)"
    and slept: "I w \<Longrightarrow> I (w\<lparr>w_slept := sl\<rparr>)"
    and polls: "I w \<Longrightarrow> I (w\<lparr>w_polls := n\<rparr>)"
    and artifacts: "I w \<Longrightarrow> I (w\<lparr>w_artifacts := ar\<rparr>)"
    and ops: "I w \<Longrightarrow> gpu_leases os = gpu_leases (w_ops w) \<Longrightarrow> I (w\<lparr>w_ops := os\<rparr>)"
begin

lemma step_ops:
  assumes "\<And>c. preserves (\<lambda>s. gpu_leases s = c) m"
  shows "preserves I (on_ops m)"
  unfolding on_ops_def
proof (unfold preserves_def, intro allI impI)
  fix w
  assume "I w"
  moreover from assms have "gpu_leases (snd (m (w_ops w))) = gpu_leases (w_ops w)"
    by (simp add: preserves_def)
  ultimately show "I (snd (zoom w_ops (\<lambda>t w. w\<lparr>w_ops := t\<rparr>) m w))"
    by (auto simp: zoom_def split: prod.splits dest: ops)
qed

lemma step_now [pres_intro]: "preserves I (now env)"
  unfolding now_def by (rule step_ops, intro pres_intro)

lemma step_interfere [pres_intro]: "preserves I (interfere env)"
  unfolding interfere_def
proof (rule preserves_modifyE)
  fix w
  assume "I w"
  then have "I ((w\<lparr>w_store := cancels (interference env (w_polls w)) (w_store w)\<rparr>)\<lparr>w_polls := Suc (w_polls w)\<rparr>)"
    by (intro polls store)
  then show "I (w\<lparr>w_store := cancels (interference env (w_polls w)) (w_store w), w_polls := Suc (w_polls w)\<rparr>)" by simp
qed

lemma step_store_op [pres_intro]: "preserves I (store_op env m)"
  unfolding store_op_def on_store_def by (intro pres_intro preserves_zoom) (rule store)

lemma step_update_job [pres_intro]: "preserves I (update_job env jid f)"
  unfolding update_job_def by (intro pres_intro)

lemma step_update_segment [pres_intro]: "preserves I (update_segment env jid i f)"
  unfolding update_segment_def by (intro pres_intro)

lemma step_poll [pres_intro]: "preserves I (poll_job env jid)"
  unfolding poll_job_def by (intro pres_intro)

lemma step_segments_now [pres_intro]: "preserves I (segments_now env jid)"
  unfolding segments_now_def by (intro pres_intro)

lemma step_sleep [pres_intro]: "preserves I (sleep n)"
  unfolding sleep_def by (rule preserves_modifyE) (rule slept)

lemma step_dead_letter [pres_intro]: "preserves I (dead_letter k)"
  unfolding dead_letter_def by (rule preserves_modifyE) (simp add: dead)

lemma step_add_delivery [pres_intro]: "preserves I (add_delivery d)"
  unfolding add_delivery_def by (rule preserves_modifyE) (rule deliveries)

lemma step_publish [pres_intro]: "preserves I (publish_progress env j i token)"
  unfolding publish_progress_def on_progress_def by (intro pres_intro preserves_zoom) (rule progress)

lemma step_attempts [pres_intro]: "preserves I (deliver_attempts env k event url ns)"
  by (induction ns) (auto simp: Let_def intro!: pres_intro)

lemma step_webhooks [pres_intro]: "preserves I (deliver_webhooks env j event)"
  unfolding deliver_webhooks_def by (intro pres_intro)

lemma step_next_failure [pres_intro]: "preserves I (next_failure k i)"
  by (auto simp: preserves_def next_failure_def failures split: option.split list.split)

lemma step_should_fail [pres_intro]: "preserves I (should_fail_reproducibility k i)"
  by (auto simp: preserves_def should_fail_reproducibility_def Let_def repro split: option.split)

lemma step_progress_of [pres_intro]: "preserves I (progress_of env cx)"
  unfolding progress_of_def update_processing_progress_def poll_existing_def by (intro pres_intro)

lemma step_patch_of [pres_intro]: "preserves I (patch_of env cx f)"
  unfolding patch_of_def by (intro pres_intro)

lemma step_fail_attempt [pres_intro]: "preserves I (fail_attempt env cx a err bs extra)"
  unfolding fail_attempt_def Let_def by (intro pres_intro)

lemma step_store_output [pres_intro]: "preserves I (store_output env cx a bs)"
  unfolding store_output_def Let_def by (intro pres_intro step_ops)

lemma step_run_attempt [pres_intro]: "preserves I (run_attempt env cx a bs)"
  unfolding run_attempt_def Let_def by (intro pres_intro)

lemma step_segment_loop [pres_intro]: "preserves I (segment_loop env cx bs as)"
  by (induction as arbitrary: bs) (auto intro!: pres_intro)

lemma step_process_segment [pres_intro]: "preserves I (process_segment env j x token)"
  unfolding process_segment_def Let_def by (intro pres_intro step_ops)

lemma step_outputs [pres_intro]: "preserves I (on_outputs m)"
  unfolding on_outputs_def put_output_world_def by (rule preserves_zoom) (rule artifacts)

lemma step_manifests [pres_intro]: "preserves I (on_manifests m)"
  unfolding on_manifests_def put_manifest_world_def by (rule preserves_zoom) (rule artifacts)

lemma step_publish_manifest [pres_intro]: "preserves I (publish_manifest env jid fin)"
  unfolding publish_manifest_def delete_retained_objects_def by (intro pres_intro)

lemma step_package_outputs [pres_intro]: "preserves I (package_outputs env jid ff fin)"
  unfolding package_outputs_def by (intro pres_intro)

lemma step_refresh [pres_intro]: "preserves I (refresh_signals env)"
  unfolding refresh_signals_def by (intro pres_intro step_ops)

lemma step_evaluate_snapshot [pres_intro]: "preserves I (on_ops (evaluate_runtime_snapshot env snap d))"
  by (intro step_ops pres_intro)

lemma step_evaluate_slo [pres_intro]: "preserves I (on_ops (evaluate_job_slo env q))"
  by (intro step_ops pres_intro)

end

text \<open>Observations that do not depend on the billing store either.\<close>

locale unbilled_frame = step_frame +
  assumes billing: "I w \<Longrightarrow> I (w\<lparr>w_billing := bl\<rparr>)"
begin

lemma step_billing [pres_intro]: "preserves I (on_billing m)"
  unfolding on_billing_def by (rule preserves_zoom) (rule billing)

lemma step_consume [pres_intro]: "preserves I (consume_usage_and_reconcile env j c n)"
  unfolding consume_usage_and_reconcile_def by (intro pres_intro)

lemma step_cancel_job [pres_intro]: "preserves I (cancel_job env jid i token)"
  unfolding cancel_job_def by (intro pres_intro)

lemma step_cancel_and_notify [pres_intro]: "preserves I (cancel_and_notify env jid i token)"
  unfolding cancel_and_notify_def by (intro pres_intro)

lemma step_commit_final [pres_intro]: "preserves I (commit_final env jid ff pool)"
  unfolding commit_final_def by (intro pres_intro)

lemma step_finalize_failed [pres_intro]: "preserves I (finalize_failed env jid ff e)"
  unfolding finalize_failed_def by (intro pres_intro)

lemma step_segments_loop [pres_intro]: "preserves I (segments_loop env jid token xs)"
  by (induction xs) (auto intro!: pres_intro)

lemma step_process_failed [pres_intro]: "preserves I (process_failed env jid token e)"
  unfolding process_failed_def by (intro pres_intro)

end

text \<open>Observations that depend neither on the pool nor on the worker's locals.\<close>

locale outside_frame = unbilled_frame +
  assumes any_ops: "I w \<Longrightarrow> I (w\<lparr>w_ops := os\<rparr>)"
    and frame: "I w \<Longrightarrow> I (w\<lparr>w_frame := fr\<rparr>)"
begin

lemma step_any_ops [pres_intro]: "preserves I (on_ops m)"
  unfolding on_ops_def by (rule preserves_zoom) (rule any_ops)

lemma step_set_frame [pres_intro]: "preserves I (set_frame f)"
  unfolding set_frame_def by (rule preserves_modifyE) (rule frame)

lemma step_process_job: "preserves I (process_job env jid token)"
  unfolding process_job_def process_body_def start_job_def allocate_for_def finish_job_def finalize_job_def
    gather_final_def release_if_held_def Let_def
  by (intro pres_intro)

end

section \<open>Interpretations\<close>

interpretation held: unbilled_frame "\<lambda>w. held_by K jid (w_ops w)" for K jid
  by unfold_locales (auto simp: held_by_def)

interpretation queue: outside_frame "\<lambda>w. w_queue w = q" for q
  by unfold_locales simp_all

section \<open>The worker's lease\<close>

text \<open>
  \<open>lease_inv\<close>: the job holds at most one lease, and only if the local \<open>gpu_allocated\<close> says so; once
  \<open>gpu_released\<close> is set it holds none.
\<close>

definition lease_inv :: "string \<Rightarrow> world \<Rightarrow> bool" where
  "lease_inv jid w \<longleftrightarrow> (\<exists>k. held_by {k} jid (w_ops w)) \<and>
     ((\<not> gpu_allocated (w_frame w) \<or> gpu_released (w_frame w)) \<longrightarrow> held_by {} jid (w_ops w))"

lemma held_by_same: "gpu_leases s = gpu_leases t \<Longrightarrow> held_by K jid s = held_by K jid t"
  by (simp add: held_by_def)

interpretation lease: unbilled_frame "lease_inv jid" for jid
proof unfold_locales
  fix w :: world and os :: ops_state
  assume "lease_inv jid w" and "gpu_leases os = gpu_leases (w_ops w)"
  then show "lease_inv jid (w\<lparr>w_ops := os\<rparr>)"
    using held_by_same [of os "w_ops w"] by (simp add: lease_inv_def)
qed (simp_all add: lease_inv_def)

lemma lease_inv_free: "held_by {} jid (w_ops w) \<Longrightarrow> lease_inv jid w"
  by (auto simp: lease_inv_def intro: held_by_mono)

lemma wp_on_ops: "wp (on_ops m) Q E w = wp m (\<lambda>a t. Q a (w\<lparr>w_ops := t\<rparr>)) (\<lambda>e t. E e (w\<lparr>w_ops := t\<rparr>)) (w_ops w)"
  by (simp add: on_ops_def wp_zoom)

lemma release_on_ops:
  assumes "held_by {k} jid (w_ops w)"
  shows "wp (on_ops (release_gpu env jid n)) (\<lambda>_ t. held_by {} jid (w_ops t) \<and> w_frame t = w_frame w) (\<lambda>_ _. False) w"
  unfolding wp_on_ops by (rule wp_mono [OF release_gpu_held [OF assms]]) simp_all

interpretation free: unbilled_frame "\<lambda>w. held_by {} jid (w_ops w) \<and> w_frame w = fr" for jid fr
  by unfold_locales (auto simp: held_by_def)

lemma keeps_conj: "keeps I m R \<Longrightarrow> preserves J m \<Longrightarrow> keeps (\<lambda>w. I w \<and> J w) m R"
  by (rule keepsI) (auto dest!: keepsD wp_preserves intro: wp_mono [OF wp_conj])

lemma wp_bind_set_frame:
  "wp (bindE (set_frame f) g) Q E w = wp (g ()) Q E (w\<lparr>w_frame := f (w_frame w)\<rparr>)"
  by (simp add: wp_bindE set_frame_def wp_modifyE)

lemma wp_bind_liftR: "wp (bindE (liftR r) g) Q E w = (case r of Inl e \<Rightarrow> E e w | Inr a \<Rightarrow> wp (g a) Q E w)"
  by (simp add: wp_bindE wp_liftR)

lemma wp_bind_preserves:
  "preserves I m \<Longrightarrow> I w \<Longrightarrow> (\<And>a t. I t \<Longrightarrow> wp (f a) Q (\<lambda>_. I) t) \<Longrightarrow> wp (bindE m f) Q (\<lambda>_. I) w"
  by (subst wp_bindE, rule wp_mono, erule wp_preserves, assumption)

lemma allocate_for_lease:
  assumes "held_by {} jid (w_ops w)" and "w_frame w = fr" and "job_id j = jid"
  shows "wp (allocate_for env j) (\<lambda>_ t. (\<exists>k. held_by {k} jid (w_ops t)) \<and> w_frame t = fr) (\<lambda>_ _. False) w"
proof -
  have "wp (on_ops (allocate_gpu (re_ops env) js \<lparr>gr_job_id = job_id j, gr_plan_tier = tier, gr_queued_at = q\<rparr>))
      (\<lambda>_ t. (\<exists>k. held_by {k} jid (w_ops t)) \<and> w_frame t = fr) (\<lambda>_ _. False) t"
    if "held_by {} jid (w_ops t)" "w_frame t = fr" for t js tier q
    unfolding wp_on_ops
    by (rule wp_mono [OF allocate_gpu_held]) (use that assms(3) in auto)
  with assms(1,2) show ?thesis
    by (simp add: allocate_for_def wp_simps interfere_def)
qed

lemma start_job_lease:
  assumes "held_by {} jid (w_ops w)" and "w_frame w = fr" and "\<not> gpu_released fr" and "\<not> gpu_allocated fr"
    and "runtime_inv jid j0 b w"
  shows "wp (start_job env jid j) (\<lambda>_. lease_inv jid) (\<lambda>_. lease_inv jid) w"
proof -
  let ?F = "\<lambda>w. held_by {} jid (w_ops w) \<and> w_frame w = fr"
  let ?I = "\<lambda>w. runtime_inv jid j0 b w \<and> ?F w"
  have F: "?F t \<Longrightarrow> lease_inv jid t" for t by (simp add: lease_inv_free)
  have first: "keeps ?I (if started_at j = None then bindE (now env) (\<lambda>t. ret (Some t)) else ret (started_at j)) (\<lambda>_. True)"
    by (intro keeps_conj pres_intro) (rule keeps_intro | simp)+
  have mark: "keeps ?I (update_job env jid (processing_patch st)) (good_job jid j0)" for st
    by (intro keeps_conj pres_intro keeps_update_job processing_patch_good)
  have held: "lease_inv jid (t\<lparr>w_frame := (w_frame t)\<lparr>gpu_allocated := True\<rparr>\<rparr>)"
    if "\<exists>k. held_by {k} jid (w_ops t)" "w_frame t = fr" for t
    using that assms(3) by (simp add: lease_inv_def)
  have last: "wp (update_job env jid f) (\<lambda>_. lease_inv jid) (\<lambda>_. lease_inv jid) t" if "lease_inv jid t" for f t
    by (rule wp_preserves [OF lease.step_update_job that])
  have alloc: "wp (bindE (allocate_for env p) (\<lambda>a. bindE (set_frame (\<lambda>f. f\<lparr>gpu_allocated := True\<rparr>)) (\<lambda>_.
      update_job env jid (allocation_patch (stage_timings_of p) a)))) (\<lambda>_. lease_inv jid) (\<lambda>_. lease_inv jid) t"
    if "?F t" "good_job jid j0 p" for p t
  proof -
    have "job_id p = jid" using that(2) by (auto simp: good_job_def job_static_def)
    have flag: "wp (bindE (set_frame (\<lambda>f. f\<lparr>gpu_allocated := True\<rparr>)) (\<lambda>_.
        update_job env jid (allocation_patch (stage_timings_of p) a))) (\<lambda>_. lease_inv jid) (\<lambda>_. lease_inv jid) u"
      if "(\<exists>k. held_by {k} jid (w_ops u)) \<and> w_frame u = fr" for a u
      unfolding wp_bind_set_frame by (rule last, rule held) (use that in simp_all)
    show ?thesis
      by (subst wp_bindE, rule wp_mono [OF allocate_for_lease [OF conjunct1 conjunct2 \<open>job_id p = jid\<close>],
            OF that(1) that(1)]) (erule flag, erule FalseE)
  qed
  have "?I w" using assms by simp
  then show ?thesis
    unfolding start_job_def
    by (subst wp_bindE, rule wp_mono [OF keepsD [OF first]])
      (auto simp: wp_bindE [of "update_job env jid f" for f] F intro!: wp_mono [OF keepsD [OF mark]] alloc)
qed

text \<open>The GPU is released before the rest of \<open>_finalize_job\<close>, which does not touch the pool again.\<close>

definition released_if :: "string \<Rightarrow> bool \<Rightarrow> world \<Rightarrow> bool" where
  "released_if jid r w \<longleftrightarrow> lease_inv jid w \<and> (r \<longrightarrow> held_by {} jid (w_ops w))"

lemma gather_final_lease:
  assumes "lease_inv jid w"
  shows "wp (gather_final env jid j segs) (\<lambda>_. released_if jid True) (\<lambda>_. lease_inv jid) w"
proof -
  have freed: "wp (bindE (on_ops (release_gpu (re_ops env) jid n)) (\<lambda>pool. ret (g pool)))
      (\<lambda>_. released_if jid True) (\<lambda>_. lease_inv jid) t" if t: "lease_inv jid t" for n g t
  proof -
    from t obtain k where "held_by {k} jid (w_ops t)" by (auto simp: lease_inv_def)
    then show ?thesis
      by (subst wp_bindE, intro wp_mono [OF release_on_ops]) (simp_all add: wp_ret released_if_def lease_inv_free)
  qed
  show ?thesis
    unfolding gather_final_def Let_def
    by (rule wp_bind_preserves [where I = "lease_inv jid"], intro pres_intro, rule assms,
        rule wp_bind_preserves [where I = "lease_inv jid"], intro pres_intro, assumption,
        rule wp_bind_preserves [where I = "lease_inv jid"], intro pres_intro, assumption, erule freed)
qed

lemma preserves_released_if:
  assumes "preserves (lease_inv jid) m" and "preserves (\<lambda>w. held_by {} jid (w_ops w)) m"
  shows "preserves (released_if jid r) m"
  using assms by (simp add: preserves_def released_if_def)

lemma finalize_job_lease:
  assumes "lease_inv jid w"
  shows "wp (finalize_job env jid token) (\<lambda>jr. released_if jid (snd jr)) (\<lambda>_. lease_inv jid) w"
proof -
  have commit: "wp (catchE (commit_final env jid ff pool) (finalize_failed env jid ff))
      (\<lambda>_. released_if jid True) (\<lambda>_. lease_inv jid) t" if "released_if jid True t" for ff pool t
  proof -
    have "preserves (released_if jid True) (catchE (commit_final env jid ff pool) (finalize_failed env jid ff))"
      by (intro preserves_released_if pres_intro)
    from wp_preserves [OF this that] show ?thesis by (rule wp_mono) (auto simp: released_if_def)
  qed
  have work: "wp (bindE (gather_final env jid j segs) (\<lambda>fp.
      bindE (catchE (commit_final env jid (fst fp) (snd fp)) (finalize_failed env jid (fst fp))) (\<lambda>j'. ret (j', True))))
      (\<lambda>jr. released_if jid (snd jr)) (\<lambda>_. lease_inv jid) t" if "lease_inv jid t" for j segs t
    by (subst wp_bindE, rule wp_mono [OF gather_final_lease [OF that]], subst wp_bindE,
        erule wp_mono [OF commit]) (simp_all add: wp_ret)
  have cancel: "wp (bindE (cancel_job env jid i token) (\<lambda>c. ret (c, False)))
      (\<lambda>jr. released_if jid (snd jr)) (\<lambda>_. lease_inv jid) t" if "lease_inv jid t" for i t
    by (rule wp_bind_preserves [where I = "lease_inv jid"], intro pres_intro, rule that) (simp add: wp_ret released_if_def)
  have known: "wp (bindE (segments_now env jid) (\<lambda>segs.
         if job_status j = CancelRequested
         then bindE (cancel_job env jid (max (int (length segs) - 1) 0) token) (\<lambda>c. ret (c, False))
         else
           bindE (gather_final env jid j segs) (\<lambda>fp.
           bindE (catchE (commit_final env jid (fst fp) (snd fp)) (finalize_failed env jid (fst fp))) (\<lambda>j'.
           ret (j', True))))) (\<lambda>jr. released_if jid (snd jr)) (\<lambda>_. lease_inv jid) t"
    if "lease_inv jid t" for j t
    by (rule wp_bind_preserves [where I = "lease_inv jid"], intro pres_intro, rule that)
      (simp add: work cancel)
  show ?thesis
    unfolding finalize_job_def
    by (rule wp_bind_preserves [where I = "lease_inv jid"], intro pres_intro, rule assms)
      (simp add: known wp_raise split: option.split)
qed

lemma finish_job_lease:
  assumes "lease_inv jid w"
  shows "wp (finish_job env jid token) (\<lambda>_. lease_inv jid) (\<lambda>_. lease_inv jid) w"
proof -
  have set: "wp (bindE (set_frame (\<lambda>f. f\<lparr>gpu_released := r\<rparr>)) (\<lambda>_. m)) (\<lambda>_. lease_inv jid) (\<lambda>_. lease_inv jid) t"
    if "released_if jid r t" "preserves (lease_inv jid) m" for r m t
    unfolding wp_bind_set_frame
    by (rule wp_preserves [OF that(2)]) (use that(1) in \<open>auto simp: released_if_def lease_inv_def\<close>)
  show ?thesis
    unfolding finish_job_def
    by (subst wp_bindE, rule wp_mono [OF finalize_job_lease [OF assms]], erule set, intro pres_intro)
qed

lemma preserves_validated: "preserves (lease_inv jid) (set_frame (\<lambda>f. f\<lparr>validated_plan_tier := t\<rparr>))"
  unfolding set_frame_def by (rule preserves_modifyE) (simp add: lease_inv_def)

lemma wp_segments_then:
  assumes "lease_inv jid w"
  shows "wp (bindE (publish_progress env p 0 token) (\<lambda>_.
       bindE (deliver_webhooks env p EVENT_STARTED) (\<lambda>_.
       bindE (segments_now env jid) (\<lambda>segs.
       bindE (segments_loop env jid token segs) (\<lambda>early.
       case early of Some r \<Rightarrow> ret r | None \<Rightarrow> finish_job env jid token)))))
    (\<lambda>_. lease_inv jid) (\<lambda>_. lease_inv jid) w"
proof -
  have "preserves (lease_inv jid) (finish_job env jid token)"
    using finish_job_lease by (simp add: preserves_wp)
  then show ?thesis
    by (intro wp_preserves [where I = "lease_inv jid", OF _ assms] pres_intro)
qed

lemma process_body_lease:
  assumes "held_by {} jid (w_ops w)" and "\<not> gpu_released (w_frame w)" and "\<not> gpu_allocated (w_frame w)"
    and "inv3 jid j0 w"
  shows "wp (process_body env jid j token) (\<lambda>_. lease_inv jid) (\<lambda>_. lease_inv jid) w"
proof -
  have started: "wp (bindE (start_job env jid j) (\<lambda>p.
       bindE (publish_progress env p 0 token) (\<lambda>_.
       bindE (deliver_webhooks env p EVENT_STARTED) (\<lambda>_.
       bindE (segments_now env jid) (\<lambda>segs.
       bindE (segments_loop env jid token segs) (\<lambda>early.
       case early of Some r \<Rightarrow> ret r | None \<Rightarrow> finish_job env jid token))))))
     (\<lambda>_. lease_inv jid) (\<lambda>_. lease_inv jid) (w\<lparr>w_frame := (w_frame w)\<lparr>validated_plan_tier := t\<rparr>\<rparr>)" for t
    by (subst wp_bindE, rule wp_mono [OF start_job_lease [OF _ refl]])
      (use assms in \<open>simp_all add: wp_segments_then\<close>)
  have cancelled: "wp (bindE (cancel_and_notify env jid 0 token) (\<lambda>c. ret (Some c)))
     (\<lambda>_. lease_inv jid) (\<lambda>_. lease_inv jid) (w\<lparr>w_frame := (w_frame w)\<lparr>validated_plan_tier := t\<rparr>\<rparr>)" for t
    by (intro wp_preserves pres_intro) (use assms(1) in \<open>simp add: lease_inv_free\<close>)
  show ?thesis
    unfolding process_body_def
    by (simp add: wp_bind_liftR wp_bind_set_frame started cancelled lease_inv_free [OF assms(1)] split: sum.split)
qed

lemma release_if_held_lease:
  assumes "lease_inv jid w"
  shows "wp (release_if_held env jid) (\<lambda>_ t. held_by {} jid (w_ops t)) (\<lambda>_ _. False) w"
proof -
  have rel: "wp (bindE (segments_now env jid) (\<lambda>segs.
       bindE (on_ops (release_gpu (re_ops env) jid (gpu_seconds_of segs))) (\<lambda>_. ret ())))
      (\<lambda>_ t. held_by {} jid (w_ops t)) (\<lambda>_ _. False) w"
  proof -
    from assms obtain k where "held_by {k} jid (w_ops w)" by (auto simp: lease_inv_def)
    then show ?thesis
      by (simp add: wp_bindE segments_now_def store_op_def interfere_def wp_modifyE on_store_def wp_zoom
          wp_list_segments_worker wp_ret wp_on_ops wp_mono [OF release_gpu_held])
  qed
  show ?thesis
    unfolding release_if_held_def wp_bindE [of "getsE f" for f] wp_getsE
    using assms by (auto simp: rel wp_ret lease_inv_def)
qed

lemma process_job_lease:
  assumes "held_by {} jid (w_ops w)" and "inv3 jid j w"
  shows "held_by {} jid (w_ops (snd (process_job env jid token w)))"
proof -
  have run: "wp (finallyE (catchE (process_body env jid j' tok) (process_failed env jid tok)) (release_if_held env jid))
      (\<lambda>_ t. held_by {} jid (w_ops t)) (\<lambda>_ t. held_by {} jid (w_ops t)) t"
    if "held_by {} jid (w_ops t)" "\<not> gpu_released (w_frame t)" "\<not> gpu_allocated (w_frame t)" "inv3 jid j t" for j' tok t
  proof -
    have "wp (catchE (process_body env jid j' tok) (process_failed env jid tok)) (\<lambda>_. lease_inv jid) (\<lambda>_. lease_inv jid) t"
      by (subst wp_catchE, rule wp_mono [OF process_body_lease [OF that]])
        (assumption, erule wp_preserves [rotated], intro pres_intro)
    then show ?thesis
      by (subst wp_finallyE) (erule wp_mono; erule wp_mono [OF release_if_held_lease]; simp)
  qed
  have "wp (process_job env jid token) (\<lambda>_ t. held_by {} jid (w_ops t)) (\<lambda>_ t. held_by {} jid (w_ops t)) w"
    unfolding process_job_def
  proof (subst wp_bindE, subst wp_liftR, cases "authorize_trusted_worker (re_worker env) token")
    case (Inr tok)
    let ?I = "\<lambda>t. inv3 jid j t \<and> held_by {} jid (w_ops t)"
    have poll: "keeps ?I (poll_job env jid) (\<lambda>r. True)"
      by (intro keeps_conj pres_intro) (rule keeps_weaken [OF keeps_poll_job], simp)
    show "case authorize_trusted_worker (re_worker env) token of
        Inl e \<Rightarrow> held_by {} jid (w_ops w)
      | Inr tok \<Rightarrow> wp (bindE (poll_job env jid) (\<lambda>found. case found of None \<Rightarrow> ret None
          | Some j \<Rightarrow> bindE (set_frame (\<lambda>_. fresh_frame)) (\<lambda>_.
              finallyE (catchE (process_body env jid j (Some tok)) (process_failed env jid (Some tok)))
                (release_if_held env jid)))) (\<lambda>_ t. held_by {} jid (w_ops t)) (\<lambda>_ t. held_by {} jid (w_ops t)) w"
      unfolding Inr sum.case
    proof (subst wp_bindE, rule wp_mono [OF keepsD [OF poll]])
      show "?I w" using assms by simp
    next
      fix found t
      assume "?I t \<and> True"
      then show "wp (case found of None \<Rightarrow> ret None
          | Some j \<Rightarrow> bindE (set_frame (\<lambda>_. fresh_frame)) (\<lambda>_.
              finallyE (catchE (process_body env jid j (Some tok)) (process_failed env jid (Some tok)))
                (release_if_held env jid))) (\<lambda>_ t. held_by {} jid (w_ops t)) (\<lambda>_ t. held_by {} jid (w_ops t)) t"
        by (auto simp: wp_ret wp_bind_set_frame fresh_frame_def run split: option.split)
    qed simp
  qed (simp add: assms)
  from wp_run [OF this] show ?thesis by (simp split: sum.splits)
qed

end
