(* ===== verification/Runtime_Properties.thy ===== *)
theory Runtime_Properties
  imports Runtime_Resources
begin

text \<open>
  The properties of the job runtime, over the invariant and the frame lemmas, with a concrete world and
  environment to apply them to.
\<close>

section \<open>A concrete runtime\<close>

definition sample_worker_env :: worker_env where
  "sample_worker_env = \<lparr>job_worker_trusted_token = ''tok'', wk_environment = ''production'', job_progress_mode = ''memory'',
     broadcast_error = (\<lambda>_. None)\<rparr>"

definition sample_url :: parsed_url where
  "sample_url = \<lparr>url_scheme = ''https'', url_hostname = Some ''example.org'', url_username = None, url_password = None,
     url_port = None\<rparr>"

definition public_ip :: ip_flags where
  "public_ip = \<lparr>is_private = False, is_loopback = False, is_link_local = False, is_multicast = False,
     is_reserved = False, is_unspecified = False\<rparr>"

definition sample_runtime :: runtime_env where
  "sample_runtime = \<lparr>re_ops = sample_ops_env, re_worker = sample_worker_env, re_billing = sample_env,
     re_stripe = sample_stripe_env, re_config = sample_stripe_config, re_manifest = sample_manifest_env, re_output = sample_output_env,
     build_sha = ''sha'', interference = (\<lambda>n. if n = 3 then [(7, ''j1'', ''u1'')] else []),
     urlparse = (\<lambda>_. sample_url), getaddrinfo = (\<lambda>_ _. Some [public_ip]), http_post = (\<lambda>_ n. Inr (if n = 0 then 500 else 200))\<rparr>"

definition no_artifacts :: artifacts where
  "no_artifacts = \<lparr>ar_packages = [], ar_proofs = [], ar_audit = [], ar_settings = [], ar_output_calls = 0, ar_manifest_calls = 0\<rparr>"

definition sample_world :: "job_store \<Rightarrow> world" where
  "sample_world js = \<lparr>w_store = js, w_billing = empty_billing_store, w_ops = empty_ops, w_queue = empty_dispatcher,
     w_progress = [], w_deliveries = [], w_failures = [], w_repro = [], w_dead = [], w_slept = [], w_polls = 0,
     w_frame = fresh_frame, w_artifacts = no_artifacts\<rparr>"

definition sample_jobs :: job_store where
  "sample_jobs = snd (create_job 1 2 sample_job_request empty_job_store)"

definition sample_job :: job where
  "sample_job = (case dget (jobs sample_jobs) ''j1'' of Some j \<Rightarrow> j)"

lemma sample_job_stored: "dget (jobs sample_jobs) ''j1'' = Some sample_job"
  by (simp add: sample_job_def) (simp add: sample_jobs_def create_job_def sample_job_request_def empty_job_store_def Let_def)

lemma sample_inv: "inv3 ''j1'' sample_job (sample_world sample_jobs)"
proof -
  have job: "good_job ''j1'' sample_job sample_job"
    by (simp add: good_job_def job_ok_def terminal_def sample_job_def sample_jobs_def create_job_def
        sample_job_request_def empty_job_store_def Let_def)
  have n: "segment_count sample_job = 2"
    by (simp add: sample_job_def sample_jobs_def create_job_def sample_job_request_def empty_job_store_def Let_def)
  have segs: "segments_of ''j1'' sample_jobs = map (new_segment 1) (rq_segments sample_job_request)"
    by (simp add: segments_of_def sample_jobs_def create_job_def sample_job_request_def empty_job_store_def Let_def)
  have "segs_good sample_job (\<lambda>_. 3) (segments_of ''j1'' sample_jobs)"
    unfolding segs by (simp add: segs_good_def n sample_job_request_def new_segment_def seg_ok_def backoffs_ok_def)
  with job sample_job_stored show ?thesis
    by (simp add: runtime_inv_def sample_world_def events_good_def progress_events_for_job_def)
qed

lemma sample_free: "held_by {} ''j1'' (w_ops (sample_world js))"
  by (simp add: held_by_def sample_world_def empty_ops_def)

section \<open>The invariant and the GPU\<close>

text \<open>
  C1: Whatever interferes and whatever fails, running a job keeps the runtime's invariant for it. The job
  keeps its identity (owner, plan, organisation, media, checksum, tier, duration, number of segments);
  its progress stays between 0 and 100 and its estimate of the remaining time is not negative; completed
  and failed segments never exceed the segments there are; a job that ended has its time of completion,
  and a completed or partial one its result. The segments keep their distinct numbers; none is attempted
  more than three times, its backoffs are among the first of 1 and 2 seconds and increase, a completed one
  has an output and a failed one was attempted three times and has its error class. Every progress event
  ever published is in range, the dead-letter queue has no duplicates, and the job that
  \<open>process_job\<close> returns satisfies the same.
\<close>

theorem process_job_keeps_invariant:
  assumes "runtime_inv jid j (\<lambda>_. 3) w"
  shows "case process_job env jid token w of (r, t) \<Rightarrow>
    runtime_inv jid j (\<lambda>_. 3) t \<and>
    (case r of Inr (Some j') \<Rightarrow> job_static j' = job_static j \<and> job_ok j' | _ \<Rightarrow> True)"
  using keepsD [OF keeps_process_job assms, of env token]
  by (auto simp: wp_def good_option_def good_job_def split: prod.splits sum.splits option.splits)

theorem process_job_keeps_invariant_witness:
  "runtime_inv ''j1'' sample_job (\<lambda>_. 3) (snd (process_job sample_runtime ''j1'' (Some ''tok'') (sample_world sample_jobs)))"
  using process_job_keeps_invariant [OF sample_inv, of sample_runtime "Some ''tok''"] by (auto split: prod.splits)

text \<open>
  C16: The worker never leaks a GPU. If the pool's table is well formed and the job holds no lease when
  \<open>process_job\<close> starts, it holds none when \<open>process_job\<close> ends, whatever happens in between: success, failed
  segments, cancellation at any point, a failing store, cache, manifest, webhook or broadcast, and
  whether the call returns or raises.
\<close>

theorem process_job_releases_gpu:
  assumes "held_by {} jid (w_ops w)" and "runtime_inv jid j (\<lambda>_. 3) w"
  shows "held_by {} jid (w_ops (snd (process_job env jid token w)))"
  using assms by (rule process_job_lease)

theorem process_job_releases_gpu_witness:
  "held_by {} ''j1'' (w_ops (snd (process_job sample_runtime ''j1'' (Some ''tok'') (sample_world sample_jobs))))"
  by (rule process_job_releases_gpu [OF sample_free sample_inv])

section \<open>Draining the queue\<close>

lemma run_worker_message_queue:
  "wp (run_worker_message env m token) (\<lambda>_ t. w_queue t = w_queue w) (\<lambda>_ t. w_queue t = w_queue w) w"
proof -
  have "preserves (\<lambda>t. w_queue t = w_queue w) (run_worker_message env m token)"
    unfolding run_worker_message_def by (intro pres_intro queue.step_process_job)
  from wp_preserves [OF this refl] show ?thesis .
qed

definition drain_count :: "nat option \<Rightarrow> nat \<Rightarrow> nat \<Rightarrow> nat" where
  "drain_count mx k n = (case mx of None \<Rightarrow> n | Some m \<Rightarrow> min (m - k) n)"

lemma wp_pop:
  "wp (on_queue pop_next_dispatch_message) Q E w =
     (case memory_queue (w_queue w) of
        [] \<Rightarrow> Q None w
      | e # rest \<Rightarrow> Q (Some (snd e)) (w\<lparr>w_queue := (w_queue w)\<lparr>memory_queue := rest\<rparr>\<rparr>))"
  by (simp add: on_queue_def wp_zoom) (simp add: wp_def pop_next_dispatch_message_def split: list.split)

lemma mset_requeue: "mset (map snd (memory_queue (enqueue_message m d))) = add_mset m (mset (map snd (memory_queue d)))"
  by (rule mset_enqueue)

lemma drain_loop_spec:
  assumes tok: "default_trusted_worker_token (re_worker env) = Inr tok"
  shows "length (memory_queue (w_queue w)) < fuel \<Longrightarrow> q = memory_queue (w_queue w) \<Longrightarrow>
    k = drain_count mx (length ids) (length q) \<Longrightarrow>
    wp (drain_loop fuel env mx ids)
      (\<lambda>r t. r = Some (ids @ map (dm_job_id \<circ> snd) (take k q)) \<and> memory_queue (w_queue t) = drop k q)
      (\<lambda>_ t. \<exists>i < k. mset (map snd (memory_queue (w_queue t))) = mset (map snd (drop i q))) w"
proof (induction fuel arbitrary: w ids q k)
  case 0
  then show ?case by simp
next
  case (Suc fuel)
  show ?case
  proof (cases "case mx of None \<Rightarrow> False | Some n \<Rightarrow> n \<le> length ids")
    case True
    then have "k = 0" using Suc.prems by (auto simp: drain_count_def split: option.splits)
    with True Suc.prems show ?thesis by (simp only: drain_loop.simps if_True wp_ret) simp
  next
    case False
    show ?thesis
    proof (cases q)
      case Nil
      then have "k = 0" using Suc.prems by (simp add: drain_count_def split: option.splits)
      with Nil Suc.prems show ?thesis
        by (simp only: drain_loop.simps False if_False)
          (simp add: wp_bindE wp_pop wp_ret)
    next
      case (Cons e rest)
      obtain r m where e: "e = (r, m)" by (cases e)
      let ?w = "w\<lparr>w_queue := (w_queue w)\<lparr>memory_queue := rest\<rparr>\<rparr>"
      let ?k = "drain_count mx (length (ids @ [dm_job_id m])) (length rest)"
      have k: "k = Suc ?k"
      proof -
        have "length q = Suc (length rest)" by (simp add: Cons)
        with Suc.prems(3) False show ?thesis by (auto simp: drain_count_def split: option.splits)
      qed
      have again: "wp (drain_loop fuel env mx (ids @ [dm_job_id m]))
          (\<lambda>r t. r = Some (ids @ map (dm_job_id \<circ> snd) (take k q)) \<and> memory_queue (w_queue t) = drop k q)
          (\<lambda>_ t. \<exists>i < k. mset (map snd (memory_queue (w_queue t))) = mset (map snd (drop i q))) t"
        if "w_queue t = w_queue ?w" for t
      proof -
        have "length q < Suc fuel" using Suc.prems(1,2) by simp
        then have len: "length (memory_queue (w_queue t)) < fuel" by (simp add: that Cons)
        have same: "take k q = e # take ?k rest" "drop k q = drop ?k rest" by (simp_all add: k Cons)
        have shift: "drop (Suc i) q = drop i rest" for i by (simp add: Cons)
        have "wp (drain_loop fuel env mx (ids @ [dm_job_id m]))
            (\<lambda>r t. r = Some ((ids @ [dm_job_id m]) @ map (dm_job_id \<circ> snd) (take ?k rest)) \<and>
               memory_queue (w_queue t) = drop ?k rest)
            (\<lambda>_ t. \<exists>i < ?k. mset (map snd (memory_queue (w_queue t))) = mset (map snd (drop i rest))) t"
          by (rule Suc.IH [OF len _ refl]) (simp add: that)
        then show ?thesis
        proof (rule wp_mono, goal_cases)
          case (1 a u)
          then show ?case by (simp add: same e)
        next
          case (2 x u)
          then obtain i where "i < ?k" "mset (map snd (memory_queue (w_queue u))) = mset (map snd (drop i rest))" by blast
          then show ?case unfolding k by (intro exI [of _ "Suc i"]) (simp only: shift Suc_less_eq simp_thms)
        qed
      qed
      have failed: "wp (bindE (on_queue (requeue_dispatch_message m)) (\<lambda>_. raise x))
          (\<lambda>_ _. False) (\<lambda>_ t. \<exists>i < k. mset (map snd (memory_queue (w_queue t))) = mset (map snd (drop i q))) t"
        if "w_queue t = w_queue ?w" for x t
        unfolding wp_bindE on_queue_def wp_zoom requeue_dispatch_message_def wp_modifyE wp_raise
        by (rule exI [of _ 0]) (simp add: k that mset_requeue Cons e del: mset_map)
      have body: "wp (catchE (bindE (run_worker_message env m (Some tok)) (\<lambda>_. ret ()))
            (\<lambda>x. bindE (on_queue (requeue_dispatch_message m)) (\<lambda>_. raise x)))
          (\<lambda>_ t. w_queue t = w_queue ?w)
          (\<lambda>_ t. \<exists>i < k. mset (map snd (memory_queue (w_queue t))) = mset (map snd (drop i q))) ?w"
      proof (subst wp_catchE, subst wp_bindE, rule wp_mono [OF run_worker_message_queue], goal_cases)
        case (1 a t)
        then show ?case by (simp only: wp_ret)
      next
        case (2 x t)
        show ?case by (rule wp_mono [OF failed [OF 2]]) (erule FalseE, assumption)
      qed
      have queue_now: "memory_queue (w_queue w) = (r, m) # rest" using Suc.prems(2) Cons e by simp
      have "wp (catchE (bindE (run_worker_message env m (Some tok)) (\<lambda>_. ret ()))
            (\<lambda>x. bindE (on_queue (requeue_dispatch_message m)) (\<lambda>_. raise x)))
          (\<lambda>_. wp (drain_loop fuel env mx (ids @ [dm_job_id m]))
             (\<lambda>r t. r = Some (ids @ map (dm_job_id \<circ> snd) (take k q)) \<and> memory_queue (w_queue t) = drop k q)
             (\<lambda>_ t. \<exists>i < k. mset (map snd (memory_queue (w_queue t))) = mset (map snd (drop i q))))
          (\<lambda>_ t. \<exists>i < k. mset (map snd (memory_queue (w_queue t))) = mset (map snd (drop i q))) ?w"
        by (rule wp_mono [OF body]) (erule again, assumption)
      then show ?thesis
        by (simp only: drain_loop.simps False if_False wp_bindE wp_pop queue_now list.case snd_conv option.case tok
            wp_liftR sum.case)
    qed
  qed
qed

text \<open>
  C24: Draining terminates: as many rounds as there are queued messages, plus one, are enough, and more
  make no difference. When the worker token is configured, a drain that returns has processed the queued
  jobs in queue order, all of them or as many as \<open>max_jobs\<close> allows, and the rest is still queued in
  order. A drain that raises loses nothing: the queue then holds exactly the message that failed and the
  ones behind it.
\<close>

theorem drain_terminates_in_order:
  assumes "default_trusted_worker_token (re_worker env) = Inr tok" and "length (memory_queue (w_queue w)) < fuel"
  shows "let q = memory_queue (w_queue w); k = (case max_jobs of None \<Rightarrow> length q | Some n \<Rightarrow> min n (length q)) in
    case drain_job_queue fuel env max_jobs w of
      (Inr r, t) \<Rightarrow> r = Some (map (dm_job_id \<circ> snd) (take k q)) \<and> memory_queue (w_queue t) = drop k q
    | (Inl _, t) \<Rightarrow> \<exists>i < k. mset (map snd (memory_queue (w_queue t))) = mset (map snd (drop i q))"
  using drain_loop_spec [OF assms refl refl, of max_jobs "[]"]
  unfolding drain_job_queue_def Let_def
  by (auto simp: wp_def drain_count_def split: prod.splits sum.splits option.splits)

definition sample_queue :: dispatcher where
  "sample_queue = fold enqueue_message
     [build_dispatch_message 1 ''j1'' ''pro'' ''api'', build_dispatch_message 2 ''j9'' ''museum'' ''api''] empty_dispatcher"

theorem drain_terminates_in_order_witness:
  "case drain_job_queue 3 sample_runtime (Some 1) (sample_world sample_jobs \<lparr>w_queue := sample_queue\<rparr>) of
     (Inr r, t) \<Rightarrow> r = Some [''j9''] \<and> map (dm_job_id \<circ> snd) (memory_queue (w_queue t)) = [''j1'']
   | (Inl _, t) \<Rightarrow> mset (map snd (memory_queue (w_queue t))) =
       {#build_dispatch_message 2 ''j9'' ''museum'' ''api'', build_dispatch_message 1 ''j1'' ''pro'' ''api''#}"
proof -
  let ?w = "sample_world sample_jobs \<lparr>w_queue := sample_queue\<rparr>"
  have q: "memory_queue (w_queue ?w) =
      [((0, 1), build_dispatch_message 2 ''j9'' ''museum'' ''api''), ((1, 0), build_dispatch_message 1 ''j1'' ''pro'' ''api'')]"
    by (simp add: sample_queue_def enqueue_message_def empty_dispatcher_def build_dispatch_message_def plan_priority_def
        string_eval less_eq_prod_def)
  have tok: "default_trusted_worker_token (re_worker sample_runtime) = Inr ''tok''"
    by (simp add: default_trusted_worker_token_def sample_runtime_def sample_worker_env_def)
  have "length (memory_queue (w_queue ?w)) < 3" unfolding q by simp
  from drain_terminates_in_order [OF tok this, of "Some 1"] show ?thesis
    unfolding Let_def q
    by (auto simp: build_dispatch_message_def split: prod.splits sum.splits)
qed

text \<open>
  C32: Without a configured worker token a drain outside test mode raises and loses a message: the first
  one has been taken off the queue, and only a failing run, not a missing token, puts it back.
\<close>

theorem drain_without_token_loses_message:
  assumes "job_worker_trusted_token (re_worker env) = []" and "wk_environment (re_worker env) \<noteq> ''test''"
    and "memory_queue (w_queue w) = e # rest"
  shows "\<exists>x. drain_job_queue (Suc fuel) env None w = (Inl x, w\<lparr>w_queue := (w_queue w)\<lparr>memory_queue := rest\<rparr>\<rparr>)"
  using assms
  by (cases e) (simp add: drain_job_queue_def default_trusted_worker_token_def on_queue_def bindE_def zoom_def
      pop_next_dispatch_message_def liftR_def)

theorem drain_without_token_loses_message_witness:
  "\<exists>x t. drain_job_queue 3 (sample_runtime\<lparr>re_worker := sample_worker_env\<lparr>job_worker_trusted_token := []\<rparr>\<rparr>) None
       (sample_world sample_jobs \<lparr>w_queue := sample_queue\<rparr>) = (Inl x, t) \<and>
     length (memory_queue (w_queue t)) = 1"
proof -
  let ?env = "sample_runtime\<lparr>re_worker := sample_worker_env\<lparr>job_worker_trusted_token := []\<rparr>\<rparr>"
  let ?w = "sample_world sample_jobs \<lparr>w_queue := sample_queue\<rparr>"
  obtain e rest where q: "memory_queue (w_queue ?w) = e # rest" "length rest = 1"
    by (simp add: sample_queue_def enqueue_message_def empty_dispatcher_def build_dispatch_message_def plan_priority_def
        string_eval less_eq_prod_def)
  have "job_worker_trusted_token (re_worker ?env) = []" "wk_environment (re_worker ?env) \<noteq> ''test''"
    by (simp_all add: sample_worker_env_def)
  from drain_without_token_loses_message [OF this q(1), of 2] q(2) show ?thesis
    by (auto simp: numeral_3_eq_3 numeral_2_eq_2)
qed

end
