(* ===== verification/Api_Properties.thy ===== *)
theory Api_Properties
  imports Api_Frames Runtime_Properties
begin

text \<open>
  What holds of every request, whatever route it takes: the gate in front of the services, the roles a
  user can have, and what a request of one user leaves alone of another's.
\<close>

section \<open>Every user route is a gate and a service\<close>

definition gate :: "app_env \<Rightarrow> headers \<Rightarrow> string option \<Rightarrow> string \<Rightarrow> (app_world, caller) prog" where
  "gate env h permission route =
     bindE (case permission of None \<Rightarrow> get_current_user env h | Some p \<Rightarrow> require_permission env h p) (\<lambda>u.
     bindE (apply_rate_limit env u route) (\<lambda>_. ret u))"

text \<open>The permission and the rate-limit bucket of each route.\<close>

primrec permission_of :: "user_request \<Rightarrow> string option" where
  "permission_of GetMe = None"
| "permission_of (PatchMe p) = None"
| "permission_of GetUsage = None"
| "permission_of (ApproveOverage scope minutes) = None"
| "permission_of GetBillingSummary = Some ''billing:read''"
| "permission_of CreatePortalSession = Some ''billing:write''"
| "permission_of (EstimateJob body) = Some ''jobs:write''"
| "permission_of (CreateJob body) = Some ''jobs:write''"
| "permission_of (GetJob jid) = Some ''jobs:read''"
| "permission_of (GetCallouts jid) = Some ''jobs:read''"
| "permission_of (GetExport jid variant retention) = Some ''jobs:read''"
| "permission_of ListJobs = Some ''jobs:read''"
| "permission_of (CancelJob jid) = Some ''jobs:write''"
| "permission_of (GetManifest jid) = Some ''jobs:read''"
| "permission_of (GetDeletionProof pid) = Some ''jobs:read''"
| "permission_of (CreatePreview uid) = Some ''jobs:write''"
| "permission_of (GetPreview pid) = Some ''jobs:read''"
| "permission_of (ReviewPreview pid v) = Some ''jobs:write''"
| "permission_of (LaunchPreview pid fp) = Some ''jobs:write''"
| "permission_of (CreateUpload rq) = Some ''jobs:write''"
| "permission_of (FinalizeUpload uid rq) = Some ''jobs:write''"
| "permission_of (ResumeUpload uid) = Some ''jobs:write''"
| "permission_of (DetectUploadEra uid q) = Some ''jobs:write''"
| "permission_of (SaveConfiguration uid q) = Some ''jobs:write''"
| "permission_of ListFidelityTiers = None"
| "permission_of (DetectEra q) = None"
| "permission_of (PatchLogSettings org q) = Some ''logs:write''"
| "permission_of (DeleteLogs q) = None"
| "permission_of (GetRetention org) = Some ''retention:write''"
| "permission_of (PatchRetention org ds r) = Some ''retention:write''"
| "permission_of GetRuntimeSnapshot = Some ''ops:read''"
| "permission_of GetCostSnapshot = Some ''ops:read''"
| "permission_of (ActivatePricebook body b summary) = Some ''ops:write''"

primrec route_of :: "user_request \<Rightarrow> string" where
  "route_of GetMe = ''/v1/users/me''"
| "route_of (PatchMe p) = ''/v1/users/me''"
| "route_of GetUsage = ''/v1/users/me/usage''"
| "route_of (ApproveOverage scope minutes) = ''/v1/users/me/approve-overage''"
| "route_of GetBillingSummary = ''/v1/users/me/billing''"
| "route_of CreatePortalSession = ''/v1/users/me/billing/portal-session''"
| "route_of (EstimateJob body) = ''/v1/jobs/estimate''"
| "route_of (CreateJob body) = ''/v1/jobs''"
| "route_of (GetJob jid) = ''/v1/jobs/{job_id}''"
| "route_of (GetCallouts jid) = ''/v1/jobs/{job_id}/uncertainty-callouts''"
| "route_of (GetExport jid variant retention) = ''/v1/jobs/{job_id}/export''"
| "route_of ListJobs = ''/v1/jobs''"
| "route_of (CancelJob jid) = ''/v1/jobs/{job_id}''"
| "route_of (GetManifest jid) = ''/v1/manifests/{job_id}''"
| "route_of (GetDeletionProof pid) = ''/v1/deletion-proofs/{proof_id}''"
| "route_of (CreatePreview uid) = ''/v1/previews''"
| "route_of (GetPreview pid) = ''/v1/previews/{preview_id}''"
| "route_of (ReviewPreview pid v) = ''/v1/previews/{preview_id}/review''"
| "route_of (LaunchPreview pid fp) = ''/v1/previews/{preview_id}/launch''"
| "route_of (CreateUpload rq) = ''/v1/upload''"
| "route_of (FinalizeUpload uid rq) = ''/v1/upload/{upload_id}''"
| "route_of (ResumeUpload uid) = ''/v1/upload/{upload_id}/resume''"
| "route_of (DetectUploadEra uid q) = ''/v1/upload/{upload_id}/detect-era''"
| "route_of (SaveConfiguration uid q) = ''/v1/upload/{upload_id}/configuration''"
| "route_of ListFidelityTiers = ''/v1/fidelity-tiers''"
| "route_of (DetectEra q) = ''/v1/detect-era''"
| "route_of (PatchLogSettings org q) = ''/v1/orgs/{org_id}/settings/logs''"
| "route_of (DeleteLogs q) = ''/v1/user/delete_logs''"
| "route_of (GetRetention org) = ''/v1/orgs/{org_id}/settings/retention''"
| "route_of (PatchRetention org ds r) = ''/v1/orgs/{org_id}/settings/retention''"
| "route_of GetRuntimeSnapshot = ''/v1/ops/runtime''"
| "route_of GetCostSnapshot = ''/v1/ops/costs''"
| "route_of (ActivatePricebook body b summary) = ''/v1/ops/billing/pricebook''"

lemma bindE_assoc: "bindE (bindE m f) g = bindE m (\<lambda>x. bindE (f x) g)"
  by (rule ext) (simp add: bindE_def split: prod.splits sum.splits)

lemma bindE_ret: "bindE (ret a) f = f a"
  by (rule ext) (simp add: bindE_def ret_def)

lemma gated_gate: "gated env h p r f = bindE (gate env h p r) f"
  by (simp add: gated_def gate_def bindE_assoc bindE_ret)

lemma silently_gated: "silently (gated env h p r f) = bindE (gate env h p r) (\<lambda>u. silently (f u))"
  by (simp add: silently_def gated_gate bindE_assoc)

lemmas user_routes = get_me_def patch_me_def get_usage_def approve_overage_route_def get_billing_summary_def
  create_portal_session_route_def estimate_job_route_def create_job_route_def get_job_route_def
  get_uncertainty_callouts_def get_export_route_def list_jobs_route_def cancel_job_route_def get_manifest_route_def
  get_deletion_proof_route_def create_preview_route_def get_preview_route_def review_preview_route_def
  launch_preview_route_def create_upload_route_def finalize_upload_route_def resume_upload_route_def
  detect_upload_era_route_def save_upload_configuration_route_def list_fidelity_tiers_route_def detect_era_route_def
  patch_log_settings_def delete_logs_route_def get_manifest_retention_settings_def
  patch_manifest_retention_settings_def get_runtime_snapshot_def get_cost_snapshot_def activate_pricebook_route_def

text \<open>The service behind a route, as a function of the caller the gate lets through.\<close>

lemma serve_user_gated: "\<exists>f. \<forall>h. serve_user env h rq = bindE (gate env h (permission_of rq) (route_of rq)) f"
  by (cases rq) (simp_all only: serve_user.simps permission_of.simps route_of.simps user_routes silently_gated,
    (rule exI, rule allI, rule refl)+)


definition permitted :: "string option \<Rightarrow> caller \<Rightarrow> bool" where
  "permitted permission u = (case permission of None \<Rightarrow> True | Some p \<Rightarrow> has_permission (JStr (cl_role u)) (JStr p))"

definition only_gate_moved :: "app_world \<Rightarrow> app_world \<Rightarrow> bool" where
  "only_gate_moved s t \<longleftrightarrow> ap_uploads t = ap_uploads s \<and> ap_era t = ap_era s \<and> ap_previews t = ap_previews s \<and>
     ap_health t = ap_health s \<and> ap_security t = ap_security s \<and> ap_runtime t = ap_runtime s"

lemma only_gate_parts [pres_intro]:
  "preserves (only_gate_moved s) (app_call f)" "preserves (only_gate_moved s) (on_user_table m)"
  "preserves (only_gate_moved s) (zoom ap_buckets (\<lambda>t a. a\<lparr>ap_buckets := t\<rparr>) m')"
  by (auto simp: preserves_def app_call_def on_user_table_def zoom_def only_gate_moved_def split: prod.splits)

lemma only_gate_moves: "preserves (only_gate_moved s) (gate env h p r)"
  unfolding gate_def require_permission_def get_current_user_def auth_user_def apply_rate_limit_def
  by (intro pres_intro)

lemma gate_permits: "gate env h p r s = (Inr u, t) \<Longrightarrow> permitted p u"
  by (auto simp: gate_def require_permission_def permitted_def bindE_def ret_def raise_def split: prod.splits sum.splits option.splits if_splits)

text \<open>
  C4: Every route of a signed-in user goes through its gate. A request the gate turns away (with no valid token,
  without the permission of the route, or too soon) is answered with the gate's own problem, and nothing but the
  table of profiles, the rate-limit buckets and the count of calls to the outside has moved. A request it lets
  through comes from a caller who has the permission, and what happens then depends on the caller and the state
  alone and not on the headers.
\<close>

theorem every_route_is_gated:
  "\<exists>f. \<forall>h s. case gate env h (permission_of rq) (route_of rq) s of
     (Inl e, t) \<Rightarrow> only_gate_moved s t \<and> serve env h (UserRequest rq) s = (Inl e, t)
   | (Inr u, t) \<Rightarrow> only_gate_moved s t \<and> permitted (permission_of rq) u \<and> serve env h (UserRequest rq) s = f u t"
proof -
  obtain f where f: "\<And>h. serve_user env h rq = bindE (gate env h (permission_of rq) (route_of rq)) f"
    using serve_user_gated by blast
  have moved: "only_gate_moved s (snd (gate env h (permission_of rq) (route_of rq) s))" for h s
    by (rule preservesD [OF only_gate_moves]) (simp add: only_gate_moved_def)
  show ?thesis
  proof (intro exI [where x = f] allI)
    fix h s
    obtain g t where G: "gate env h (permission_of rq) (route_of rq) s = (g, t)" by fastforce
    show "case gate env h (permission_of rq) (route_of rq) s of
        (Inl e, t) \<Rightarrow> only_gate_moved s t \<and> serve env h (UserRequest rq) s = (Inl e, t)
      | (Inr u, t) \<Rightarrow> only_gate_moved s t \<and> permitted (permission_of rq) u \<and> serve env h (UserRequest rq) s = f u t"
      using moved [of s h] gate_permits [of env h "permission_of rq" "route_of rq" s]
      by (cases g) (simp_all add: G f bindE_def)
  qed
qed

section \<open>Nobody is promoted\<close>

text \<open>Requests one after the other, each with its headers.\<close>

fun serve_all :: "app_env \<Rightarrow> (headers \<times> request) list \<Rightarrow> app_world \<Rightarrow> app_world" where
  "serve_all env [] s = s"
| "serve_all env ((h, rq) # rs) s = serve_all env rs (snd (serve env h rq s))"

definition app_enrolled :: "user_table \<Rightarrow> app_world \<Rightarrow> bool" where
  "app_enrolled u0 a = enrolled u0 (ap_users a)"

text \<open>Without the override a caller is who the profile table says, with the role of their profile at the start.\<close>

definition known_caller :: "user_table \<Rightarrow> caller \<Rightarrow> app_world \<Rightarrow> bool" where
  "known_caller u0 u a \<longleftrightarrow> enrolled u0 (ap_users a) \<and> dget (ap_users a) (cl_user_id u) \<noteq> None"

definition role_at_start :: "user_table \<Rightarrow> string \<Rightarrow> string" where
  "role_at_start u0 v = (case dget u0 v of None \<Rightarrow> ''member'' | Some p \<Rightarrow> pf_role p)"

lemma users_apart:
  "preserves (\<lambda>a. ap_users a = us) (app_call f)"
  "preserves (\<lambda>a. ap_users a = us) (zoom ap_buckets (\<lambda>t a. a\<lparr>ap_buckets := t\<rparr>) m1)"
  "preserves (\<lambda>a. ap_users a = us) (on_job_service m2)" "preserves (\<lambda>a. ap_users a = us) (on_preview_service m3)"
  "preserves (\<lambda>a. ap_users a = us) (on_upload_service m4)" "preserves (\<lambda>a. ap_users a = us) (on_era_service m5)"
  "preserves (\<lambda>a. ap_users a = us) (on_security m6)" "preserves (\<lambda>a. ap_users a = us) (on_runtime m7)"
  "preserves (\<lambda>a. ap_users a = us) (on_app_billing m8)" "preserves (\<lambda>a. ap_users a = us) (on_retention m9)"
  by (auto simp: preserves_def app_call_def on_job_service_def on_preview_service_def on_upload_service_def on_era_service_def
      on_security_def on_runtime_def on_app_billing_def on_retention_def zoom_def put_preview_world_def put_job_world_def
      split: prod.splits)

lemma users_preserved: "(\<And>us. preserves (\<lambda>a. ap_users a = us) m) \<Longrightarrow> preserves (\<lambda>a. P (ap_users a)) m"
  unfolding preserves_def by metis

lemma enrolled_apart: "(\<And>us. preserves (\<lambda>a. ap_users a = us) m) \<Longrightarrow> preserves (app_enrolled u0) m"
  using users_preserved [of m "enrolled u0"] by (simp add: app_enrolled_def [abs_def])

lemma known_apart: "(\<And>us. preserves (\<lambda>a. ap_users a = us) m) \<Longrightarrow> preserves (known_caller u0 u) m"
  using users_preserved [of m "\<lambda>t. enrolled u0 t \<and> dget t (cl_user_id u) \<noteq> None"] by (simp add: known_caller_def [abs_def])

lemmas known_parts [pres_intro] = users_apart [THEN known_apart] users_apart [THEN enrolled_apart]

lemma known_users:
  "preserves (\<lambda>t. enrolled u0 t \<and> dget t (cl_user_id u) \<noteq> None) m \<Longrightarrow> preserves (known_caller u0 u) (on_user_table m)"
  unfolding on_user_table_def known_caller_def by (rule preserves_zoom_slice) auto

lemma known_config:
  "preserves (config_enrolled u0 (cl_user_id u)) m \<Longrightarrow> preserves (known_caller u0 u) (on_config_service m)"
  unfolding on_config_service_def
  by (rule preserves_zoom_slice [where J = "config_enrolled u0 (cl_user_id u)"])
    (simp_all add: known_caller_def config_enrolled_def config_world_of_def put_config_world_def)

lemma wp_app_call [wp_simps]: "wp (app_call f) Q E a = Q (f (ap_calls a)) (a\<lparr>ap_calls := Suc (ap_calls a)\<rparr>)"
  by (simp add: wp_def app_call_def)

lemma wp_current_user:
  assumes "\<not> test_auth_override env" "app_enrolled u0 s"
  shows "wp (get_current_user env h) (\<lambda>u t. known_caller u0 u t \<and> cl_role u = role_at_start u0 (cl_user_id u)) (\<lambda>_. app_enrolled u0) s"
proof -
  have profile: "wp (on_user_table (get_or_create_profile v ''member'' ''hobbyist'' ''org-default'' email))
      (\<lambda>p a. known_caller u0 (caller_of_profile p token) a \<and> pf_role p = role_at_start u0 (pf_user_id p))
      (\<lambda>_. app_enrolled u0) a" if "app_enrolled u0 a" for v email token a
  proof -
    have I: "enrolled u0 (snd (get_or_create_profile v ''member'' ''hobbyist'' ''org-default'' email (ap_users a)))"
      using preservesD [OF enrolled_default] that by (simp add: app_enrolled_def)
    obtain p t where p: "get_or_create_profile v ''member'' ''hobbyist'' ''org-default'' email (ap_users a) = (Inr p, t)" "dget t v = Some p"
      by (cases "dget (ap_users a) v") (simp_all add: get_or_create_profile_def Let_def)
    from I p enrolled_at [of u0 t v p] show ?thesis
      by (auto simp: wp_def on_user_table_def zoom_def known_caller_def role_at_start_def caller_of_profile_def same_account_def
          plain_member_def split: option.splits)
  qed
  then have "wp (on_user_table (get_or_create_profile v ''member'' ''hobbyist'' ''org-default'' email))
      (\<lambda>p. wp (ret (caller_of_profile p token)) (\<lambda>u t. known_caller u0 u t \<and> cl_role u = role_at_start u0 (cl_user_id u)) (\<lambda>_. app_enrolled u0))
      (\<lambda>_. app_enrolled u0) a" if "app_enrolled u0 a" for v email token a
    by (rule wp_mono) (use that in \<open>auto simp: wp_simps caller_of_profile_def\<close>)
  then show ?thesis
    using assms
    by (auto simp: get_current_user_def is_test_token_def auth_user_def wp_simps app_enrolled_def split: option.splits sum.splits)
qed

lemma known_enrolled: "known_caller u0 u t \<Longrightarrow> app_enrolled u0 t"
  by (simp add: known_caller_def app_enrolled_def)

lemma wp_gate_known:
  assumes "\<not> test_auth_override env" "app_enrolled u0 s"
  shows "wp (gate env h p r) (\<lambda>u t. known_caller u0 u t \<and> cl_role u = role_at_start u0 (cl_user_id u)) (\<lambda>_. app_enrolled u0) s"
proof -
  have limited: "wp (bindE (apply_rate_limit env u r) (\<lambda>_. ret u))
      (\<lambda>u t. known_caller u0 u t \<and> cl_role u = role_at_start u0 (cl_user_id u)) (\<lambda>_. app_enrolled u0) t"
    if "known_caller u0 u t" "cl_role u = role_at_start u0 (cl_user_id u)" for u t
  proof -
    have "preserves (known_caller u0 u) (apply_rate_limit env u r)"
      unfolding apply_rate_limit_def by (intro pres_intro)
    from wp_preserves [OF this that(1)] show ?thesis
      unfolding wp_bindE by (rule wp_mono) (use that known_enrolled in \<open>auto simp: wp_simps\<close>)
  qed
  show ?thesis
  proof (cases p)
    case None
    show ?thesis
      unfolding gate_def None option.case wp_bindE [of "get_current_user env h"]
      by (rule wp_mono [OF wp_current_user [OF assms]]) (auto intro: limited)
  next
    case (Some x)
    show ?thesis
      unfolding gate_def Some option.case require_permission_def wp_bindE [of "bindE _ _"] wp_bindE [of "get_current_user env h"]
      by (rule wp_mono [OF wp_current_user [OF assms]]) (auto simp: wp_if wp_ret wp_raise intro: limited known_enrolled)
  qed
qed

lemma enrolled_gated:
  assumes "\<not> test_auth_override env" "\<And>u. preserves (known_caller u0 u) (f u)"
  shows "preserves (app_enrolled u0) (gated env h p r f)"
  unfolding preserves_wp gated_gate wp_bindE
proof (intro allI impI)
  fix s assume "app_enrolled u0 s"
  from wp_gate_known [OF assms(1) this]
  show "wp (gate env h p r) (\<lambda>u. wp (f u) (\<lambda>_. app_enrolled u0) (\<lambda>_. app_enrolled u0)) (\<lambda>_. app_enrolled u0) s"
    by (rule wp_mono) (auto intro: wp_mono [OF wp_preserves [OF assms(2)]] known_enrolled)
qed


text \<open>Every route keeps the accounts.\<close>

lemma known_pricing [pres_intro]: "preserves (known_caller u0 u) (app_pricing env v b)"
  unfolding app_pricing_def by (intro pres_intro)

lemma known_problem [pres_intro]: "preserves I m \<Longrightarrow> preserves I (problem_when c e m)"
  unfolding problem_when_def by (intro pres_intro)

lemma known_own_profile [pres_intro]: "preserves (known_caller u0 u) (profile_of_caller u)"
  unfolding profile_of_caller_def by (rule known_users [OF known_profile])

lemma known_own_update [pres_intro]: "preserves (known_caller u0 u) (on_user_table (update_profile (cl_user_id u) d a p))"
  by (rule known_users [OF preserves_conj [OF enrolled_update known_update]])

lemma silently_preserves [pres_intro]: "preserves I m \<Longrightarrow> preserves I (silently m)"
  unfolding silently_def by (intro pres_intro)

lemma enrolled_user:
  assumes "\<not> test_auth_override env"
  shows "preserves (app_enrolled u0) (serve_user env h rq)"
  by (cases rq; simp only: serve_user.simps user_routes Let_def;
    intro silently_preserves enrolled_gated [OF assms] pres_intro preserves_case_prod known_config
      profiles_kept.keeps_detect_upload_era profiles_kept.keeps_save profiles_kept.keeps_catalog)


lemma preserves_case_object:
  "(\<And>d. preserves I (f d)) \<Longrightarrow> preserves I m \<Longrightarrow> preserves I (case v of JObj d \<Rightarrow> f d | _ \<Rightarrow> m)"
  by (cases v) simp_all

lemma enrolled_ingress:
  "preserves (app_enrolled u0) (receive_stripe_webhook env sig body)" "preserves (app_enrolled u0) (run_worker_job env d token)"
  "preserves (app_enrolled u0) (reconcile_runtime_pool env b token)" "preserves (app_enrolled u0) (evaluate_runtime_alerts env b token)"
  "preserves (app_enrolled u0) (health_v1 env)"
  unfolding receive_stripe_webhook_def run_worker_job_def reconcile_runtime_pool_def evaluate_runtime_alerts_def worker_authorized_def
    health_v1_def Let_def
  by (intro pres_intro preserves_case_object)+

lemma enrolled_serve: "\<not> test_auth_override env \<Longrightarrow> preserves (app_enrolled u0) (serve env h rq)"
  by (cases rq)
    (simp_all add: testing_only_def enrolled_user preserves_raise silently_preserves enrolled_ingress)

lemma enrolled_after: "\<not> test_auth_override env \<Longrightarrow> app_enrolled u0 s \<Longrightarrow> app_enrolled u0 (snd (serve env h rq s))"
  by (rule preservesD [OF enrolled_serve])

lemma enrolled_serve_all: "\<not> test_auth_override env \<Longrightarrow> app_enrolled u0 s \<Longrightarrow> app_enrolled u0 (serve_all env rs s)"
proof (induction rs arbitrary: s)
  case (Cons x rs)
  from Cons.IH [OF Cons.prems(1) enrolled_after [OF Cons.prems]] show ?case
    by (cases x) simp
qed simp

definition own_profiles :: "user_table \<Rightarrow> bool" where
  "own_profiles u = (\<forall>v p. dget u v = Some p \<longrightarrow> pf_user_id p = v)"

text \<open>
  C3: Nobody is promoted. Without the test override, whatever requests are served and whatever their headers say,
  every profile of the start keeps its owner, role, plan and organisation, every other profile is a plain member's;
  and after them a request passes the gate of a permission only if the role its user had at the start, or that of
  a member where there was no profile, has the permission.
\<close>

theorem nobody_is_promoted:
  fixes rs :: "(headers \<times> request) list"
  assumes "\<not> test_auth_override env" and "own_profiles (ap_users s0)"
  defines "s \<equiv> serve_all env rs s0"
  shows "(case dget (ap_users s) v of
       None \<Rightarrow> dget (ap_users s0) v = None
     | Some q \<Rightarrow> (case dget (ap_users s0) v of Some p \<Rightarrow> same_account p q | None \<Rightarrow> plain_member v q)) \<and>
     (case fst (gate env h (Some p) r s) of
       Inl e \<Rightarrow> True
     | Inr u \<Rightarrow> has_permission (JStr (role_at_start (ap_users s0) (cl_user_id u))) (JStr p))"
proof (intro conjI)
  have "app_enrolled (ap_users s0) s0"
    using assms(2) by (auto simp: app_enrolled_def enrolled_def own_profiles_def same_account_def split: option.split)
  then have I: "app_enrolled (ap_users s0) s"
    unfolding s_def by (rule enrolled_serve_all [OF assms(1)])
  then show "case dget (ap_users s) v of
       None \<Rightarrow> dget (ap_users s0) v = None
     | Some q \<Rightarrow> (case dget (ap_users s0) v of Some p \<Rightarrow> same_account p q | None \<Rightarrow> plain_member v q)"
    by (auto simp: app_enrolled_def enrolled_def dest!: spec [where x = v] split: option.splits)
  obtain g t where G: "gate env h (Some p) r s = (g, t)" by fastforce
  show "case fst (gate env h (Some p) r s) of
       Inl e \<Rightarrow> True
     | Inr u \<Rightarrow> has_permission (JStr (role_at_start (ap_users s0) (cl_user_id u))) (JStr p)"
  proof (cases g)
    case (Inr u)
    from wp_gate_known [OF assms(1) I, of h "Some p" r] gate_permits [of env h "Some p" r s u t] show ?thesis
      by (simp add: G Inr wp_def permitted_def)
  qed (simp add: G)
qed

section \<open>What is left alone\<close>

text \<open>The uploads and the usage of everybody but one user.\<close>

definition others_kept :: "string \<Rightarrow> app_world \<Rightarrow> app_world \<Rightarrow> bool" where
  "others_kept user s t \<longleftrightarrow> sessions_kept user (ap_uploads s) (ap_uploads t) \<and>
     usage_kept user (w_billing (ap_runtime s)) (w_billing (ap_runtime t))"

lemma others_kept_parts [pres_intro]:
  "preserves (others_kept user s) (app_call f)" "preserves (others_kept user s) (on_user_table m1)"
  "preserves (others_kept user s) (on_era_service m2)" "preserves (others_kept user s) (on_security m3)"
  "preserves (others_kept user s) (on_retention m4)" "preserves (others_kept user s) (on_runtime (on_ops m5))"
  by (auto simp: preserves_def app_call_def on_user_table_def on_era_service_def on_security_def on_retention_def on_runtime_def
      on_ops_def zoom_def others_kept_def split: prod.splits)

lemma others_kept_jobs:
  "preserves (job_usage_kept user (w_billing (ap_runtime s))) m \<Longrightarrow> preserves (others_kept user s) (on_job_service m)"
  unfolding on_job_service_def
  by (rule preserves_zoom_slice [where J = "job_usage_kept user (w_billing (ap_runtime s))"])
    (auto simp: others_kept_def job_usage_kept_def job_world_of_def put_job_world_def output_world_of_def put_output_world_def)

lemma others_kept_previews:
  assumes "\<And>u0. preserves (preview_usage_kept user u0 (w_billing (ap_runtime s))) m"
  shows "preserves (others_kept user s) (on_preview_service m)"
  unfolding preserves_def
proof (intro allI impI)
  fix a assume a: "others_kept user s a"
  then have "preview_usage_kept user (ap_uploads a) (w_billing (ap_runtime s)) (preview_world_of a)"
    by (simp add: others_kept_def preview_usage_kept_def job_usage_kept_def preview_world_of_def job_world_of_def output_world_of_def)
  from preservesD [OF assms this] a show "others_kept user s (snd (on_preview_service m a))"
    by (simp add: on_preview_service_def zoom_def case_prod_beta others_kept_def preview_usage_kept_def job_usage_kept_def
        put_preview_world_def put_job_world_def put_output_world_def)
qed

lemma others_kept_config:
  assumes "\<And>b0. preserves (config_uploads_kept user (ap_uploads s) b0) m"
  shows "preserves (others_kept user s) (on_config_service m)"
  unfolding preserves_def
proof (intro allI impI)
  fix a assume a: "others_kept user s a"
  then have "config_uploads_kept user (ap_uploads s) (w_billing (ap_runtime a)) (config_world_of a)"
    by (simp add: others_kept_def config_uploads_kept_def config_world_of_def)
  from preservesD [OF assms this] a show "others_kept user s (snd (on_config_service m a))"
    by (simp add: on_config_service_def zoom_def case_prod_beta others_kept_def config_uploads_kept_def put_config_world_def)
qed

lemma others_kept_uploads:
  "preserves (sessions_kept user (ap_uploads s)) m \<Longrightarrow> preserves (others_kept user s) (on_upload_service m)"
  unfolding on_upload_service_def by (rule preserves_zoom_slice) (auto simp: others_kept_def)

lemma others_kept_billing:
  "preserves (usage_kept user (w_billing (ap_runtime s))) m \<Longrightarrow> preserves (others_kept user s) (on_app_billing m)"
  unfolding on_app_billing_def on_runtime_def on_billing_def
  by (rule preserves_zoom_slice [where J = "\<lambda>w. usage_kept user (w_billing (ap_runtime s)) (w_billing w)"])
    (auto intro: preserves_zoom_slice simp: others_kept_def)

lemmas others_kept_intro = preserves_case_prod silently_preserves others_kept_jobs others_kept_previews others_kept_config
  others_kept_uploads others_kept_billing job_usage_estimates job_usage_services preview_usage_services preview_usage_launch
  uploads_kept.keeps_detect_upload_era uploads_kept.keeps_save uploads_kept.keeps_catalog sessions_kept_services
  sessions_kept_create usage_kept_operations usage_kept_management readonly_preserves readonly_effective_pricing
  readonly_billing_summary readonly_create_portal_session

text \<open>A gate in front of a service that leaves the others alone.\<close>

definition leaves_others ::
  "app_env \<Rightarrow> headers \<Rightarrow> string option \<Rightarrow> string \<Rightarrow> app_world \<Rightarrow> (app_world, 'a) prog \<Rightarrow> bool" where
  "leaves_others env h p r s m =
     (case gate env h p r s of
        (Inl e, t) \<Rightarrow> ap_uploads (snd (m s)) = ap_uploads s \<and> ap_runtime (snd (m s)) = ap_runtime s
      | (Inr u, t) \<Rightarrow> others_kept (cl_user_id u) s (snd (m s)))"

lemma leaves_others_gated:
  assumes "\<And>u. preserves (others_kept (cl_user_id u) s) (f u)"
  shows "leaves_others env h p r s (gated env h p r f)"
proof -
  have moved: "only_gate_moved s (snd (gate env h p r s))"
    by (rule preservesD [OF only_gate_moves]) (simp add: only_gate_moved_def)
  obtain g t where G: "gate env h p r s = (g, t)" by fastforce
  show ?thesis
  proof (cases g)
    case (Inl e)
    with G moved show ?thesis by (simp add: leaves_others_def gated_gate bindE_def only_gate_moved_def)
  next
    case (Inr u)
    from moved G have "others_kept (cl_user_id u) s t" by (simp add: others_kept_def only_gate_moved_def)
    from preservesD [OF assms this] G Inr show ?thesis by (simp add: leaves_others_def gated_gate bindE_def)
  qed
qed

lemma snd_silently: "snd (silently m s) = snd (m s)"
  by (simp add: silently_def bindE_def ret_def split: prod.split sum.split)

lemma leaves_others_silently: "leaves_others env h p r s m \<Longrightarrow> leaves_others env h p r s (silently m)"
  unfolding leaves_others_def snd_silently .

text \<open>
  C5: A request of one user leaves the others alone. Whatever user route it takes, answered or refused, the upload
  sessions of other users stay as they are, and so do the minutes and approvals of every other user; a request
  the gate turns away touches neither uploads nor anything the worker and the billing hold. The ids drawn for new
  uploads are taken to be new.
\<close>

theorem requests_leave_others_alone:
  assumes "\<And>n uid r. dget (upload_sessions (ap_uploads s)) uid = Some r \<Longrightarrow> ue_uuid (ae_uploads env) n \<noteq> uid"
  shows "case gate env h (permission_of rq) (route_of rq) s of
      (Inl e, t) \<Rightarrow> ap_uploads (snd (serve env h (UserRequest rq) s)) = ap_uploads s \<and>
        ap_runtime (snd (serve env h (UserRequest rq) s)) = ap_runtime s
    | (Inr u, t) \<Rightarrow> others_kept (cl_user_id u) s (snd (serve env h (UserRequest rq) s))"
proof -
  have "leaves_others env h (permission_of rq) (route_of rq) s (serve_user env h rq)"
    by (cases rq; simp only: serve_user.simps permission_of.simps route_of.simps user_routes Let_def;
      rule leaves_others_silently, rule leaves_others_gated;
      (unfold profile_of_caller_def app_pricing_def problem_when_def)?;
      intro pres_intro others_kept_intro assms)
  then show ?thesis unfolding leaves_others_def serve.simps .
qed

section \<open>A signed-in user among others\<close>

definition sample_app_env :: app_env where
  "sample_app_env = \<lparr>test_auth_override = False, ae_environment = ''production'',
     ae_rate_limits = \<lparr>museum_rate_limit_per_minute = 600, pro_rate_limit_per_minute = 300, hobbyist_rate_limit_per_minute = 60\<rparr>,
     ae_monotonic = (\<lambda>_. 0), ae_auth_user = (\<lambda>token n. Inr \<lparr>su_id = token, su_email = None\<rparr>),
     ae_preview = (sample_preview_env ''memory'')\<lparr>pe_uploads := sample_upload_env\<lparr>ue_uuid := (\<lambda>_. ''upload-2'')\<rparr>\<rparr>,
     ae_config = sample_config_env, ae_security = \<lparr>sec_uuid4 = (\<lambda>_. ''id''), sec_clock = (\<lambda>_. 0), date_fromisoformat = (\<lambda>_. None)\<rparr>,
     ae_runtime = sample_runtime, ae_portal = \<lparr>stripe_billing_portal_return_url = [], portal_session_create = (\<lambda>_ _. PortalError)\<rparr>,
     ae_webhook_secret = [], ae_construct_event = (\<lambda>_ _ _. Inl (ValueError [])), ae_event_ids = (\<lambda>_. sample_wh_ids),
     ae_bootstrap_enabled = False, ae_detach = id, ae_uuid = (\<lambda>_. ''id''), ae_clock = (\<lambda>_. 0), ae_dump_without_none = id,
     ae_b64decode = (\<lambda>_. None), ae_database_healthy = None, ae_redis_url = [], ae_gcs_bucket_name = []\<rparr>"

definition sample_admin :: user_profile where
  "sample_admin = \<lparr>pf_user_id = ''u1'', pf_email = ''u1@example.com'', pf_role = ''platform_admin'', pf_plan_tier = ''museum'',
     pf_org_id = ''o1'', pf_display_name = None, pf_avatar_url = None, pf_preferences = []\<rparr>"

definition sample_app_world :: app_world where
  "sample_app_world = \<lparr>ap_users = [(''u1'', sample_admin)], ap_buckets = [],
     ap_uploads = empty_upload_store\<lparr>upload_sessions := [(''upload-1'', sample_session [])]\<rparr>, ap_era = empty_era_store,
     ap_previews = \<lparr>preview_sessions = [], ps_calls = 0\<rparr>, ap_health = [],
     ap_security = \<lparr>log_settings = [], deletion_requests = [], deletion_proofs = [], sec_calls = 0\<rparr>, ap_runtime = sample_world empty_job_store, ap_calls = 0\<rparr>"

text \<open>Somebody new, who says in the headers to be more than they are.\<close>

definition sample_headers :: headers where
  "sample_headers = \<lparr>hd_authorization = Some ''Bearer u2'', hd_role = Some ''platform_admin'', hd_tier = Some ''museum'', hd_org = Some ''o1''\<rparr>"

definition sample_caller :: caller where
  "sample_caller = \<lparr>cl_user_id = ''u2'', cl_email = Some ''u2@example.com'', cl_role = ''member'', cl_plan_tier = ''hobbyist'',
     cl_org_id = ''org-default'', cl_access_token = ''u2''\<rparr>"

lemma sample_token: "bearer_token (hd_authorization sample_headers) = Some ''u2''"
  by (simp add: bearer_token_def sample_headers_def string_eval starts_with_def)

lemma sample_current:
  "get_current_user sample_app_env sample_headers sample_app_world =
     (Inr sample_caller, sample_app_world\<lparr>ap_users := dset ''u2'' \<lparr>pf_user_id = ''u2'', pf_email = ''u2@example.com'', pf_role = ''member'',
        pf_plan_tier = ''hobbyist'', pf_org_id = ''org-default'', pf_display_name = None, pf_avatar_url = None, pf_preferences = []\<rparr>
        (ap_users sample_app_world), ap_calls := 1\<rparr>)"
  unfolding get_current_user_def sample_token
  by (simp add: is_test_token_def sample_app_env_def sample_app_world_def auth_user_def app_call_def bindE_def catchE_def liftR_def
      on_user_table_def zoom_def get_or_create_profile_def caller_of_profile_def sample_caller_def ret_def Let_def)

lemma sample_permissions:
  "has_permission (JStr ''member'') (JStr ''jobs:write'')" "\<not> has_permission (JStr ''member'') (JStr ''ops:write'')"
  by (simp_all add: has_permission_def permissions_for_role_def ROLE_PERMISSIONS_def MEMBER_PERMISSIONS_def ANALYST_PERMISSIONS_def
      ADMIN_PERMISSIONS_def PLATFORM_ADMIN_PERMISSIONS_def string_eval)

lemma sample_rate:
  "ap_buckets w = [] \<Longrightarrow> \<exists>t. apply_rate_limit sample_app_env sample_caller r w = (Inr (), t) \<and> ap_users t = ap_users w"
  by (simp add: bindE_def apply_rate_limit_def app_call_def zoom_def enforce_rate_limit_def sample_app_env_def limit_for_tier_def
      bucket_of_def dsetdefault_def Let_def string_eval sample_caller_def)

lemma sample_require: "require_permission sample_app_env sample_headers ''jobs:write'' sample_app_world =
    get_current_user sample_app_env sample_headers sample_app_world"
  using sample_permissions(1) by (simp add: require_permission_def bindE_def sample_current sample_caller_def ret_def)

lemma sample_gate:
  assumes "p \<in> {None, Some ''jobs:write''}"
  shows "\<exists>t. gate sample_app_env sample_headers p r sample_app_world = (Inr sample_caller, t) \<and> dget (ap_users t) ''u2'' \<noteq> None"
proof -
  define w where "w = snd (get_current_user sample_app_env sample_headers sample_app_world)"
  have w: "ap_buckets w = []" "dget (ap_users w) ''u2'' \<noteq> None"
    by (simp_all add: w_def sample_current) (simp add: sample_app_world_def)
  have caller: "get_current_user sample_app_env sample_headers sample_app_world = (Inr sample_caller, w)"
    by (simp add: w_def sample_current)
  from sample_rate [OF w(1), of r] obtain t where t: "apply_rate_limit sample_app_env sample_caller r w = (Inr (), t)" "ap_users t = ap_users w"
    by blast
  from assms w t show ?thesis by (auto simp: gate_def bindE_def sample_require caller ret_def)
qed

text \<open>The new user becomes a member and stays out of operations.\<close>

theorem nobody_is_promoted_witness:
  "(\<exists>q. dget (ap_users (serve_all sample_app_env [(sample_headers, UserRequest GetMe)] sample_app_world)) ''u2'' = Some q \<and>
      plain_member ''u2'' q) \<and>
   (case fst (gate sample_app_env sample_headers (Some ''ops:write'') []
       (serve_all sample_app_env [(sample_headers, UserRequest GetMe)] sample_app_world)) of
      Inl e \<Rightarrow> True
    | Inr u \<Rightarrow> cl_user_id u = ''u1'')"
proof -
  let ?s = "serve_all sample_app_env [(sample_headers, UserRequest GetMe)] sample_app_world"
  note promoted = nobody_is_promoted [where env = sample_app_env and ?s0.0 = sample_app_world and
      rs = "[(sample_headers, UserRequest GetMe)]" and v = "''u2''" and h = sample_headers and p = "''ops:write''" and r = "[]"]
  have start: "\<not> test_auth_override sample_app_env" "own_profiles (ap_users sample_app_world)" "dget (ap_users sample_app_world) ''u2'' = None"
    by (simp_all add: sample_app_env_def own_profiles_def sample_app_world_def sample_admin_def)
  obtain t where "gate sample_app_env sample_headers None ''/v1/users/me'' sample_app_world = (Inr sample_caller, t)"
    "dget (ap_users t) ''u2'' \<noteq> None" using sample_gate by blast
  then have made: "dget (ap_users ?s) ''u2'' \<noteq> None"
    by (auto simp: get_me_def gated_gate snd_silently bindE_def profile_of_caller_def on_user_table_def zoom_def
        get_or_create_profile_def sample_caller_def)
  have role: "role_at_start (ap_users sample_app_world) v = (if v = ''u1'' then ''platform_admin'' else ''member'')" for v
    by (simp add: role_at_start_def sample_app_world_def sample_admin_def)
  show ?thesis
    using promoted [OF start(1,2)] made start(3) sample_permissions(2) unfolding role
    by (auto split: sum.splits option.splits if_splits)
qed

text \<open>The upload of somebody else, asked for by the new user.\<close>

theorem requests_leave_others_alone_witness:
  "dget (upload_sessions (ap_uploads (snd (serve sample_app_env sample_headers (UserRequest (ResumeUpload ''upload-1'')) sample_app_world))))
     ''upload-1'' = Some (sample_session [])"
proof -
  obtain t where t: "gate sample_app_env sample_headers (Some ''jobs:write'') ''/v1/upload/{upload_id}/resume'' sample_app_world =
      (Inr sample_caller, t)" using sample_gate [of "Some ''jobs:write''"] by blast
  have fresh: "ue_uuid (ae_uploads sample_app_env) n \<noteq> uid"
    if "dget (upload_sessions (ap_uploads sample_app_world)) uid = Some r" for n uid r
    using that by (auto simp: sample_app_env_def sample_app_world_def ae_uploads_def split: if_splits)
  have stored: "dget (upload_sessions (ap_uploads sample_app_world)) ''upload-1'' = Some (sample_session [])"
    by (simp add: sample_app_world_def)
  have "others_kept ''u2'' sample_app_world
      (snd (serve sample_app_env sample_headers (UserRequest (ResumeUpload ''upload-1'')) sample_app_world))"
    using requests_leave_others_alone [where s = sample_app_world and env = sample_app_env and h = sample_headers and
        rq = "ResumeUpload ''upload-1''", OF fresh]
    unfolding permission_of.simps route_of.simps t by (simp add: sample_caller_def)
  with stored show ?thesis
    by (auto simp: others_kept_def sessions_kept_def) (simp add: sample_session_def)
qed

end
