(* ===== verification/Auth_Policy.thy ===== *)
theory Auth_Policy
  imports Access_Control Billing Fidelity
begin

text \<open>
  The authentication policy of \<open>app/auth/supabase_auth.py\<close>: how the three security settings are read, the
  policies the service states about itself, and when a second factor is required. A settings object is its
  attributes as JSON values. What the Supabase SDK does with a sign-in is a parameter.
\<close>

section \<open>Constants\<close>

definition MUSEUM_MFA_REQUIRED_ROLES :: "string list" where
  "MUSEUM_MFA_REQUIRED_ROLES = [''admin'', ''platform_admin'']"

definition GLOBAL_MFA_REQUIRED_ROLES :: "string list" where
  "GLOBAL_MFA_REQUIRED_ROLES = [''platform_admin'']"

definition MFA_ROLE_ALIASES :: "(string, string) pydict" where
  "MFA_ROLE_ALIASES = [(''museum admin'', ''admin''), (''museum_admin'', ''admin''), (''tenant admin'', ''admin''),
     (''tenant_admin'', ''admin''), (''platform admin'', ''platform_admin''), (''platform-admin'', ''platform_admin'')]"

definition SEC001_ACCESS_TOKEN_TTL_MINUTES :: int where
  "SEC001_ACCESS_TOKEN_TTL_MINUTES = 60"

definition SEC001_MAX_FAILED_ATTEMPTS :: int where
  "SEC001_MAX_FAILED_ATTEMPTS = 5"

definition SEC001_LOCKOUT_MINUTES :: int where
  "SEC001_LOCKOUT_MINUTES = 15"

definition PREFLIGHT_POLICY_METADATA :: "(string, string) pydict" where
  "PREFLIGHT_POLICY_METADATA = [(''policy_stage'', ''local_preflight_metadata''),
     (''runtime_enforcement'', ''deferred_to_hosted_auth_integration'')]"

section \<open>Reading the settings\<close>

fun normalize_plan_tier :: "json \<Rightarrow> string" where
  "normalize_plan_tier (JStr s) = lower (strip s)"
| "normalize_plan_tier _ = []"

definition preflight_policy :: "(string, string) pydict \<Rightarrow> (string, string) pydict" where
  "preflight_policy policy = fold (\<lambda>(k, v) d. dset k v d) PREFLIGHT_POLICY_METADATA policy"

text \<open>\<open>int(value)\<close> after booleans and floats were refused.\<close>

fun setting_int :: "json \<Rightarrow> int option" where
  "setting_int (JInt i) = Some i"
| "setting_int (JStr s) = int_of_str s"
| "setting_int _ = None"

definition validated_security_int :: "jdict \<Rightarrow> string \<Rightarrow> int \<Rightarrow> int option \<Rightarrow> string result" where
  "validated_security_int cfg name lowest highest =
     (case dget cfg name of
        None \<Rightarrow> Inl (ValueError (name @ '' must be configured''))
      | Some v \<Rightarrow>
          (case setting_int v of
             None \<Rightarrow> Inl (ValueError (name @ '' must be an integer''))
           | Some i \<Rightarrow>
               if i < lowest then Inl (ValueError (name @ '' must be at least '' @ dec_int lowest))
               else (case highest of
                       Some m \<Rightarrow> if i > m then Inl (ValueError (name @ '' must be at most '' @ dec_int m)) else Inr (dec_int i)
                     | None \<Rightarrow> Inr (dec_int i))))"

definition normalize_mfa_role :: "json \<Rightarrow> string" where
  "normalize_mfa_role role = (case dget MFA_ROLE_ALIASES (normalize_role role) of None \<Rightarrow> normalize_role role | Some r \<Rightarrow> r)"

section \<open>The policies\<close>

record auth_provider_config =
  email_password_enabled :: bool
  oauth_google_enabled :: bool
  oauth_github_enabled :: bool
  magic_link_enabled :: bool

definition supported_flows :: "auth_provider_config \<Rightarrow> (string, bool) pydict" where
  "supported_flows cfg = [(''email_password'', email_password_enabled cfg), (''oauth_google'', oauth_google_enabled cfg),
     (''oauth_github'', oauth_github_enabled cfg), (''magic_link'', magic_link_enabled cfg)]"

definition policy_checks :: "(string \<times> string \<times> int \<times> int option) list" where
  "policy_checks =
     [(''access_token_ttl_minutes'', ''auth_session_ttl_minutes'', 1, Some SEC001_ACCESS_TOKEN_TTL_MINUTES),
      (''max_failed_attempts'', ''auth_max_failed_attempts'', 1, Some SEC001_MAX_FAILED_ATTEMPTS),
      (''lockout_window_minutes'', ''auth_lockout_minutes'', SEC001_LOCKOUT_MINUTES, None)]"

text \<open>The settings read, and what is wrong with the others.\<close>

fun check_settings :: "jdict \<Rightarrow> (string \<times> string \<times> int \<times> int option) list \<Rightarrow> (string, string) pydict \<times> string list" where
  "check_settings cfg [] = ([], [])"
| "check_settings cfg ((out, name, lowest, highest) # checks) =
     (let (ok, issues) = check_settings cfg checks in
      case validated_security_int cfg name lowest highest of
        Inr v \<Rightarrow> ((out, v) # ok, issues)
      | Inl e \<Rightarrow> ((out, ''invalid'') # ok, exn_str e # issues))"

fun join_with :: "string \<Rightarrow> string list \<Rightarrow> string" where
  "join_with sep [] = []"
| "join_with sep [x] = x"
| "join_with sep (x # xs) = x @ sep @ join_with sep xs"

definition auth_policy_settings_status :: "jdict \<Rightarrow> (string, string) pydict" where
  "auth_policy_settings_status cfg =
     (let (ok, issues) = check_settings cfg policy_checks in
      ok @ [(''runtime_config_status'', if issues \<noteq> [] then ''invalid'' else ''valid''),
        (''runtime_config_issues'', if issues \<noteq> [] then join_with ''; '' issues else ''none'')])"

definition setting_of :: "(string, string) pydict \<Rightarrow> string \<Rightarrow> string \<times> string" where
  "setting_of status k = (k, case dget status k of None \<Rightarrow> [] | Some v \<Rightarrow> v)"

definition validate_auth_policy_settings :: "jdict \<Rightarrow> (string, string) pydict result" where
  "validate_auth_policy_settings cfg =
     (let status = auth_policy_settings_status cfg in
      if dget status ''runtime_config_status'' \<noteq> Some ''valid''
      then Inl (ValueError (snd (setting_of status ''runtime_config_issues'')))
      else Inr (map (setting_of status) [''access_token_ttl_minutes'', ''max_failed_attempts'', ''lockout_window_minutes'']))"

definition session_policy :: "jdict \<Rightarrow> (string, string) pydict" where
  "session_policy cfg =
     (let status = auth_policy_settings_status cfg in
      preflight_policy
        [(''rotation'', ''enabled''), (''short_lived_access_tokens'', ''enabled''), (''refresh_token_required'', ''enabled''),
         setting_of status ''access_token_ttl_minutes'', (''refresh_token_rolling_days'', ''7''),
         setting_of status ''runtime_config_status'', setting_of status ''runtime_config_issues''])"

definition lockout_policy :: "jdict \<Rightarrow> (string, string) pydict" where
  "lockout_policy cfg =
     (let status = auth_policy_settings_status cfg in
      preflight_policy
        [(''failed_attempts_threshold'', ''configurable''), (''lockout_window'', ''configurable''),
         setting_of status ''max_failed_attempts'', setting_of status ''lockout_window_minutes'',
         (''reset_on_success'', ''enabled''), setting_of status ''runtime_config_status'', setting_of status ''runtime_config_issues''])"

definition session_cookie_policy :: "(string, string) pydict" where
  "session_cookie_policy = preflight_policy
     [(''domain'', ''host_only''), (''httponly'', ''required''), (''secure'', ''required''), (''samesite'', ''Strict'')]"

definition password_policy :: "(string, string) pydict" where
  "password_policy = preflight_policy
     [(''minimum_length'', ''12''), (''complexity_rules'', ''required''), (''weak_password_screening'', ''offline_or_k_anonymity'')]"

definition api_key_policy :: "(string, string) pydict" where
  "api_key_policy = preflight_policy
     [(''museum_tier_only'', ''required''), (''revocation'', ''required''), (''expiration'', ''required''), (''rate_limiting'', ''required'')]"

definition api_key_allowed_for_plan :: "json \<Rightarrow> bool" where
  "api_key_allowed_for_plan tier = (normalize_plan_tier tier = ''museum'')"

definition mfa_policy :: "(string, string) pydict" where
  "mfa_policy = preflight_policy
     [(''optional_for_all_tiers'', ''enabled''), (''museum_admin_required'', ''enabled''),
      (''platform_admin_required'', ''enabled''), (''supported_methods'', ''deferred_to_hosted_mfa_integration'')]"

definition is_mfa_required :: "json \<Rightarrow> json \<Rightarrow> bool" where
  "is_mfa_required tier role =
     (let r = normalize_mfa_role role in
      if r \<in> set GLOBAL_MFA_REQUIRED_ROLES then True
      else normalize_plan_tier tier = ''museum'' \<and> r \<in> set MUSEUM_MFA_REQUIRED_ROLES)"

definition token_revocation_policy :: "(string, string) pydict" where
  "token_revocation_policy = preflight_policy
     [(''immediate_logout'', ''required''), (''revoked_token_rejection'', ''required''), (''propagation_p95_seconds'', ''5'')]"

definition auth_audit_events :: "string list" where
  "auth_audit_events = [''login'', ''logout'', ''failed_attempt'', ''mfa_enrollment'', ''password_reset'', ''token_refresh'',
     ''account_lockout'', ''admin_action'']"

definition profile_management_capabilities :: "string list" where
  "profile_management_capabilities =
     [''update_display_name'', ''update_avatar_url'', ''change_password'', ''manage_connected_oauth_providers'']"

section \<open>Signing in\<close>

text \<open>What is handed to the SDK; \<open>sdk\<close> is the client, or the error where Supabase is not configured.\<close>

datatype sdk_call = SignInWithPassword string string | SignInWithOtp string | SignInWithOauth string string

definition sign_in_with_password :: "(sdk_call \<Rightarrow> json) result \<Rightarrow> string \<Rightarrow> string \<Rightarrow> json result" where
  "sign_in_with_password sdk email password = bind_res sdk (\<lambda>f. Inr (f (SignInWithPassword email password)))"

definition send_magic_link :: "(sdk_call \<Rightarrow> json) result \<Rightarrow> string \<Rightarrow> json result" where
  "send_magic_link sdk email = bind_res sdk (\<lambda>f. Inr (f (SignInWithOtp email)))"

definition oauth_authorize_url :: "(sdk_call \<Rightarrow> json) result \<Rightarrow> string \<Rightarrow> string \<Rightarrow> json result" where
  "oauth_authorize_url sdk provider redirect =
     (if provider \<notin> {''google'', ''github''} then Inl (ValueError ''Unsupported provider'')
      else bind_res sdk (\<lambda>f. Inr (f (SignInWithOauth provider redirect))))"

section \<open>Property\<close>

definition security_int :: "jdict \<Rightarrow> string \<Rightarrow> int option" where
  "security_int cfg name = (case dget cfg name of None \<Rightarrow> None | Some v \<Rightarrow> setting_int v)"

lemma validated_security_int_iff:
  "validated_security_int cfg name lowest highest = Inr v \<longleftrightarrow>
     (\<exists>i. security_int cfg name = Some i \<and> lowest \<le> i \<and> (case highest of None \<Rightarrow> True | Some m \<Rightarrow> i \<le> m) \<and> v = dec_int i)"
  by (auto simp: validated_security_int_def security_int_def split: option.splits)

lemma no_issues_iff:
  "snd (check_settings cfg checks) = [] \<longleftrightarrow> (\<forall>(out, name, lowest, highest) \<in> set checks. \<exists>v. validated_security_int cfg name lowest highest = Inr v)"
  by (induction cfg checks rule: check_settings.induct) (auto split: prod.split sum.split)

text \<open>
  The security settings are accepted exactly when they are within the policy: the session lives between one and
  60 minutes, between one and five attempts may fail, and a lockout lasts at least 15 minutes, each an integer or the
  text of one; then they are handed on as printed. Otherwise they are refused, and every policy states them as invalid.
\<close>

theorem security_settings_within_policy:
  "case validate_auth_policy_settings cfg of
     Inr d \<Rightarrow> (\<exists>t f l. security_int cfg ''auth_session_ttl_minutes'' = Some t \<and> security_int cfg ''auth_max_failed_attempts'' = Some f \<and>
       security_int cfg ''auth_lockout_minutes'' = Some l \<and> 1 \<le> t \<and> t \<le> 60 \<and> 1 \<le> f \<and> f \<le> 5 \<and> 15 \<le> l \<and>
       d = [(''access_token_ttl_minutes'', dec_int t), (''max_failed_attempts'', dec_int f), (''lockout_window_minutes'', dec_int l)])
   | Inl e \<Rightarrow> \<not> (\<exists>t f l. security_int cfg ''auth_session_ttl_minutes'' = Some t \<and> security_int cfg ''auth_max_failed_attempts'' = Some f \<and>
       security_int cfg ''auth_lockout_minutes'' = Some l \<and> 1 \<le> t \<and> t \<le> 60 \<and> 1 \<le> f \<and> f \<le> 5 \<and> 15 \<le> l) \<and>
       dget (session_policy cfg) ''runtime_config_status'' = Some ''invalid'' \<and>
       dget (lockout_policy cfg) ''runtime_config_status'' = Some ''invalid''"
proof -
  note sec = SEC001_ACCESS_TOKEN_TTL_MINUTES_def SEC001_MAX_FAILED_ATTEMPTS_def SEC001_LOCKOUT_MINUTES_def
  define A where "A = validated_security_int cfg ''auth_session_ttl_minutes'' 1 (Some 60)"
  define B where "B = validated_security_int cfg ''auth_max_failed_attempts'' 1 (Some 5)"
  define C where "C = validated_security_int cfg ''auth_lockout_minutes'' 15 None"
  note iff = validated_security_int_iff [of cfg]
  have checks: "check_settings cfg policy_checks =
     ([(''access_token_ttl_minutes'', case A of Inl e \<Rightarrow> ''invalid'' | Inr v \<Rightarrow> v),
       (''max_failed_attempts'', case B of Inl e \<Rightarrow> ''invalid'' | Inr v \<Rightarrow> v),
       (''lockout_window_minutes'', case C of Inl e \<Rightarrow> ''invalid'' | Inr v \<Rightarrow> v)],
      (case A of Inl e \<Rightarrow> [exn_str e] | Inr v \<Rightarrow> []) @ (case B of Inl e \<Rightarrow> [exn_str e] | Inr v \<Rightarrow> []) @
      (case C of Inl e \<Rightarrow> [exn_str e] | Inr v \<Rightarrow> []))"
    by (simp add: policy_checks_def sec A_def [symmetric] B_def [symmetric] C_def [symmetric] split: sum.split)
  have bad: ?thesis if "isl A \<or> isl B \<or> isl C"
  proof -
    have issues: "snd (check_settings cfg policy_checks) \<noteq> []"
      using that by (auto simp: checks split: sum.splits)
    have none: "\<not> (\<exists>t f l. security_int cfg ''auth_session_ttl_minutes'' = Some t \<and> security_int cfg ''auth_max_failed_attempts'' = Some f \<and>
       security_int cfg ''auth_lockout_minutes'' = Some l \<and> 1 \<le> t \<and> t \<le> 60 \<and> 1 \<le> f \<and> f \<le> 5 \<and> 15 \<le> l)"
    proof
      assume "\<exists>t f l. security_int cfg ''auth_session_ttl_minutes'' = Some t \<and> security_int cfg ''auth_max_failed_attempts'' = Some f \<and>
         security_int cfg ''auth_lockout_minutes'' = Some l \<and> 1 \<le> t \<and> t \<le> 60 \<and> 1 \<le> f \<and> f \<le> 5 \<and> 15 \<le> l"
      then obtain x y z where "A = Inr x" "B = Inr y" "C = Inr z" unfolding A_def B_def C_def iff by auto
      with that show False by simp
    qed
    show ?thesis
      using issues none
      by (simp add: validate_auth_policy_settings_def session_policy_def lockout_policy_def auth_policy_settings_status_def
          preflight_policy_def PREFLIGHT_POLICY_METADATA_def setting_of_def checks Let_def)
  qed
  have good: ?thesis if vals: "A = Inr x" "B = Inr y" "C = Inr z" for x y z
  proof -
    have "validate_auth_policy_settings cfg =
        Inr [(''access_token_ttl_minutes'', x), (''max_failed_attempts'', y), (''lockout_window_minutes'', z)]"
      by (simp add: validate_auth_policy_settings_def auth_policy_settings_status_def setting_of_def checks vals Let_def)
    moreover obtain t where "security_int cfg ''auth_session_ttl_minutes'' = Some t" "1 \<le> t" "t \<le> 60" "x = dec_int t"
      using vals(1) unfolding A_def iff by auto
    moreover obtain f where "security_int cfg ''auth_max_failed_attempts'' = Some f" "1 \<le> f" "f \<le> 5" "y = dec_int f"
      using vals(2) unfolding B_def iff by auto
    moreover obtain l where "security_int cfg ''auth_lockout_minutes'' = Some l" "15 \<le> l" "z = dec_int l"
      using vals(3) unfolding C_def iff by auto
    ultimately show ?thesis by simp
  qed
  show ?thesis using bad good by (cases A; cases B; cases C) auto
qed

end
