(* ===== verification/Config.thy ===== *)
theory Config
  imports Pricebook
begin

text \<open>
  The check \<open>Settings.__post_init__\<close> makes when the process starts (\<open>app/config.py\<close>), on the settings
  it reads. It returns the output-delivery signing secret the settings end up with, or raises.
\<close>

record settings_in =
  cf_app_env :: string
  cf_environment :: string
  cf_stripe_price_id :: string
  cf_hobbyist_price_id :: string
  cf_pro_price_id :: string
  cf_museum_price_id :: string
  cf_pricebook_json :: string
  cf_signing_secret :: string

definition as_bool :: "string \<Rightarrow> bool" where
  "as_bool v = (lower (strip v) \<in> {''1'', ''true'', ''yes'', ''on''})"

definition env_with_fallback :: "(string \<Rightarrow> string option) \<Rightarrow> string list \<Rightarrow> string \<Rightarrow> string" where
  "env_with_fallback getenv keys dflt =
     (case filter (\<lambda>v. v \<noteq> None \<and> v \<noteq> Some []) (map getenv keys) of
        Some v # _ \<Rightarrow> v | _ \<Rightarrow> dflt)"

definition effective_price_id :: "string \<Rightarrow> string \<Rightarrow> string" where
  "effective_price_id own shared = (if own = [] then shared else own)"

definition LOCAL_ENVIRONMENTS :: "string list" where
  "LOCAL_ENVIRONMENTS = [''test'', ''dev'', ''development'', ''local'']"

definition DEV_SECRET :: string where
  "DEV_SECRET = ''chronos-output-delivery-dev-secret''"

definition TEST_SECRET :: string where
  "TEST_SECRET = ''chronos-output-delivery-test-secret''"

definition post_init :: "codec \<Rightarrow> settings_in \<Rightarrow> string result" where
  "post_init c st =
     (let pro = effective_price_id (cf_pro_price_id st) (cf_stripe_price_id st);
          museum = effective_price_id (cf_museum_price_id st) (cf_stripe_price_id st) in
      if cf_pro_price_id st \<noteq> [] \<and> cf_museum_price_id st \<noteq> [] \<and> cf_pro_price_id st = cf_museum_price_id st
      then Inl (ValueError ''STRIPE_PRO_PRICE_ID and STRIPE_MUSEUM_PRICE_ID must differ for tier-aware pricing.'')
      else if cf_stripe_price_id st \<noteq> [] \<and> (cf_pro_price_id st \<noteq> [] \<or> cf_museum_price_id st \<noteq> [])
              \<and> pro \<noteq> [] \<and> museum \<noteq> [] \<and> pro = museum
      then Inl (ValueError ''Effective STRIPE_PRO_PRICE_ID and STRIPE_MUSEUM_PRICE_ID must differ after shared fallback.'')
      else
        bind_res
          (if strip (cf_pricebook_json st) \<noteq> [] \<or> cf_environment st \<notin> set LOCAL_ENVIRONMENTS
           then bind_res (validate_commercial_pricebook_configuration c (cf_pricebook_json st)
                  [(''hobbyist'', cf_hobbyist_price_id st), (''pro'', pro), (''museum'', museum)]) (\<lambda>_. Inr ())
           else Inr ())
          (\<lambda>_.
             if cf_signing_secret st \<noteq> [] then Inr (cf_signing_secret st)
             else if cf_environment st = ''test'' then Inr TEST_SECRET
             else if cf_environment st \<in> {''dev'', ''development''} \<or> cf_app_env st \<in> {''dev'', ''development''}
             then Inr DEV_SECRET
             else Inl (ValueError ''OUTPUT_DELIVERY_SIGNING_SECRET must be set outside local development and tests.'')))"

lemma post_init_secret:
  "post_init c st = Inr secret \<Longrightarrow>
   secret = cf_signing_secret st \<and> secret \<noteq> [] \<or>
   cf_signing_secret st = [] \<and>
     (cf_environment st = ''test'' \<and> secret = TEST_SECRET \<or>
      (cf_environment st \<in> {''dev'', ''development''} \<or> cf_app_env st \<in> {''dev'', ''development''}) \<and> secret = DEV_SECRET)"
  by (auto simp: post_init_def Let_def bind_res_Inr_iff split: if_splits)

lemma post_init_pricebook:
  assumes "post_init c st = Inr secret" and "cf_environment st \<notin> set LOCAL_ENVIRONMENTS"
  shows "\<exists>pb. validate_commercial_pricebook_configuration c (cf_pricebook_json st)
     [(''hobbyist'', cf_hobbyist_price_id st),
      (''pro'', effective_price_id (cf_pro_price_id st) (cf_stripe_price_id st)),
      (''museum'', effective_price_id (cf_museum_price_id st) (cf_stripe_price_id st))] = Inr pb"
  using assms by (auto simp: post_init_def Let_def bind_res_Inr_iff split: if_splits)

section \<open>Properties\<close>

text \<open>
  A process that starts outside the environments test, dev, development and local has a pricebook
  that prices every plan tier: from then on resolving hobbyist, pro or museum cannot fail. Its
  configured Stripe prices keep pro and museum apart.
\<close>

theorem started_process_can_price:
  assumes "post_init c st = Inr secret" and "cf_environment st \<notin> set LOCAL_ENVIRONMENTS"
    and "lower (strip tier) \<in> {''hobbyist'', ''pro'', ''museum''}"
  shows "\<exists>pb e. validate_commercial_pricebook_configuration c (cf_pricebook_json st)
       [(''hobbyist'', cf_hobbyist_price_id st),
        (''pro'', effective_price_id (cf_pro_price_id st) (cf_stripe_price_id st)),
        (''museum'', effective_price_id (cf_museum_price_id st) (cf_stripe_price_id st))] = Inr pb \<and>
     resolve_pricebook_entry pb
       [(''hobbyist'', cf_hobbyist_price_id st),
        (''pro'', effective_price_id (cf_pro_price_id st) (cf_stripe_price_id st)),
        (''museum'', effective_price_id (cf_museum_price_id st) (cf_stripe_price_id st))] tier = Inr e \<and>
     plan_tier e = lower (strip tier) \<and>
     (cf_pro_price_id st = [] \<or> cf_pro_price_id st \<noteq> cf_museum_price_id st)"
proof -
  let ?ids = "[(''hobbyist'', cf_hobbyist_price_id st),
        (''pro'', effective_price_id (cf_pro_price_id st) (cf_stripe_price_id st)),
        (''museum'', effective_price_id (cf_museum_price_id st) (cf_stripe_price_id st))]"
  from post_init_pricebook [OF assms(1,2)] obtain pb where
    pb: "validate_commercial_pricebook_configuration c (cf_pricebook_json st) ?ids = Inr pb" by blast
  from resolve_validated [OF pb assms(3)] obtain e where
    "resolve_pricebook_entry pb ?ids tier = Inr e" "plan_tier e = lower (strip tier)" by blast
  moreover have "cf_pro_price_id st = [] \<or> cf_pro_price_id st \<noteq> cf_museum_price_id st"
    using assms(1) by (auto simp: post_init_def Let_def split: if_splits)
  ultimately show ?thesis using pb by blast
qed

definition sample_settings :: settings_in where
  "sample_settings = \<lparr>cf_app_env = ''development'', cf_environment = ''production'', cf_stripe_price_id = [],
     cf_hobbyist_price_id = ''price_h'', cf_pro_price_id = ''price_p'', cf_museum_price_id = ''price_m'',
     cf_pricebook_json = ''{}'', cf_signing_secret = []\<rparr>"

lemma sample_post_init: "post_init sample_codec sample_settings = Inr DEV_SECRET"
  using sample_pricebook_valid
  by (simp add: post_init_def sample_settings_def effective_price_id_def sample_ids_def LOCAL_ENVIRONMENTS_def
      Let_def string_eval)

theorem started_process_can_price_witness:
  "\<exists>pb e. validate_commercial_pricebook_configuration sample_codec ''{}'' sample_ids = Inr pb \<and>
     resolve_pricebook_entry pb sample_ids ''Museum'' = Inr e"
proof -
  have n: "cf_environment sample_settings \<notin> set LOCAL_ENVIRONMENTS"
    by (simp add: sample_settings_def LOCAL_ENVIRONMENTS_def)
  have t: "lower (strip ''Museum'') \<in> {''hobbyist'', ''pro'', ''museum''}" by (simp add: string_eval)
  from started_process_can_price [OF sample_post_init n t] show ?thesis
    by (auto simp: sample_settings_def effective_price_id_def sample_ids_def)
qed

text \<open>
  The built-in development signing secret is accepted in production. With \<open>ENVIRONMENT\<close> set to any
  value, no signing secret configured and \<open>APP_ENV\<close> left at its default \<open>development\<close>, a start-up check
  that passes hands out a secret written in the source.
\<close>

theorem default_app_env_defeats_secret_check:
  assumes "post_init c st = Inr secret" and "cf_signing_secret st = []"
    and "cf_app_env st = ''development''"
  shows "secret \<in> {DEV_SECRET, TEST_SECRET}"
  using post_init_secret [OF assms(1)] assms(2) by auto

theorem default_app_env_defeats_secret_check_witness:
  "cf_environment sample_settings = ''production'' \<and>
   (\<exists>secret. post_init sample_codec sample_settings = Inr secret \<and> secret \<in> {DEV_SECRET, TEST_SECRET})"
  using default_app_env_defeats_secret_check [OF sample_post_init] sample_post_init
  by (simp add: sample_settings_def)

end
