(* ===== verification/Monitoring.thy ===== *)
theory Monitoring
  imports Json "HOL-Library.List_Lexorder" "HOL-Library.Char_ord"
begin

text \<open>
  The counters of \<open>app/observability/monitoring.py\<close> and the text \<open>/v1/metrics\<close> makes of them. A counter is a
  \<open>defaultdict\<close>; floats are rationals, and how a number prints (\<open>{x:.2f}\<close>, \<open>{x:.4f}\<close>, \<open>{x}\<close>) is a parameter.
  Counters are updated by the services; here they stand on their own.
\<close>

section \<open>The counters\<close>

type_synonym counter = "(string, int) pydict"
type_synonym gauge = "(string, rat) pydict"

record monitor =
  http_request_counts :: counter
  era_requests :: int
  era_manual_overrides :: int
  era_confidence_sum :: rat
  era_latency_sum_ms :: rat
  gemini_api_calls :: int
  gemini_total_tokens :: int
  gemini_provider_fallbacks :: int
  job_runtime_counts :: counter
  segment_retry_counts :: counter
  segment_failure_counts :: counter
  webhook_attempt_counts :: counter
  billing_event_counts :: counter
  job_stage_timing_sums_ms :: counter
  job_stage_timing_counts :: counter
  cache_event_counts :: counter
  cache_latency_sums_ms :: counter
  gpu_event_counts :: counter
  gpu_allocation_latency_sums_ms :: counter
  cost_reconciliation_counts :: counter
  cost_reconciliation_outlier_counts :: counter
  cost_actual_total_sums_usd :: gauge
  cost_actual_charge_sums_usd :: gauge
  cost_margin_breach_counts :: counter
  cost_anomaly_counts :: counter
  preview_generation_counts :: counter
  preview_selection_mode_counts :: counter
  alert_delivery_counts :: counter
  incident_counts :: counter
  runtime_gauges :: gauge

definition reset_monitoring_state :: "monitor \<Rightarrow> monitor" where
  "reset_monitoring_state m = \<lparr>http_request_counts = [], era_requests = 0, era_manual_overrides = 0, era_confidence_sum = 0,
     era_latency_sum_ms = 0, gemini_api_calls = 0, gemini_total_tokens = 0, gemini_provider_fallbacks = 0, job_runtime_counts = [],
     segment_retry_counts = [], segment_failure_counts = [], webhook_attempt_counts = [], billing_event_counts = [],
     job_stage_timing_sums_ms = [], job_stage_timing_counts = [], cache_event_counts = [], cache_latency_sums_ms = [],
     gpu_event_counts = [], gpu_allocation_latency_sums_ms = [], cost_reconciliation_counts = [],
     cost_reconciliation_outlier_counts = [], cost_actual_total_sums_usd = [], cost_actual_charge_sums_usd = [],
     cost_margin_breach_counts = [], cost_anomaly_counts = [], preview_generation_counts = [], preview_selection_mode_counts = [],
     alert_delivery_counts = [], incident_counts = [], runtime_gauges = []\<rparr>"

text \<open>\<open>d[k] += x\<close> of a \<open>defaultdict\<close>\<close>

definition bump :: "string \<Rightarrow> 'a::comm_monoid_add \<Rightarrow> (string, 'a) pydict \<Rightarrow> (string, 'a) pydict" where
  "bump k x d = dset k ((case dget d k of None \<Rightarrow> 0 | Some y \<Rightarrow> y) + x) d"

section \<open>Recording\<close>

definition record_http_request :: "string \<Rightarrow> monitor \<Rightarrow> monitor" where
  "record_http_request route m = m\<lparr>http_request_counts := bump route 1 (http_request_counts m)\<rparr>"

definition record_era_detection :: "rat \<Rightarrow> rat \<Rightarrow> bool \<Rightarrow> int \<Rightarrow> int \<Rightarrow> bool \<Rightarrow> monitor \<Rightarrow> monitor" where
  "record_era_detection latency confidence overridden calls tokens fallback m =
     m\<lparr>era_requests := era_requests m + 1, era_manual_overrides := era_manual_overrides m + (if overridden then 1 else 0),
       era_confidence_sum := era_confidence_sum m + confidence, era_latency_sum_ms := era_latency_sum_ms m + latency,
       gemini_api_calls := gemini_api_calls m + calls, gemini_total_tokens := gemini_total_tokens m + tokens,
       gemini_provider_fallbacks := gemini_provider_fallbacks m + (if fallback then 1 else 0)\<rparr>"

definition record_job_runtime_event :: "string \<Rightarrow> monitor \<Rightarrow> monitor" where
  "record_job_runtime_event e m = m\<lparr>job_runtime_counts := bump e 1 (job_runtime_counts m)\<rparr>"

definition record_segment_retry :: "string \<Rightarrow> monitor \<Rightarrow> monitor" where
  "record_segment_retry e m = m\<lparr>segment_retry_counts := bump e 1 (segment_retry_counts m)\<rparr>"

definition record_segment_failure :: "string \<Rightarrow> monitor \<Rightarrow> monitor" where
  "record_segment_failure e m = m\<lparr>segment_failure_counts := bump e 1 (segment_failure_counts m)\<rparr>"

definition record_webhook_attempt :: "string \<Rightarrow> monitor \<Rightarrow> monitor" where
  "record_webhook_attempt e m = m\<lparr>webhook_attempt_counts := bump e 1 (webhook_attempt_counts m)\<rparr>"

definition record_billing_event :: "string \<Rightarrow> string \<Rightarrow> monitor \<Rightarrow> monitor" where
  "record_billing_event e outcome m = m\<lparr>billing_event_counts := bump (e @ '':'' @ outcome) 1 (billing_event_counts m)\<rparr>"

fun record_job_stage_timings :: "(string \<times> int option) list \<Rightarrow> monitor \<Rightarrow> monitor" where
  "record_job_stage_timings [] m = m"
| "record_job_stage_timings ((stage, None) # ts) m = record_job_stage_timings ts m"
| "record_job_stage_timings ((stage, Some ms) # ts) m = record_job_stage_timings ts
     (m\<lparr>job_stage_timing_sums_ms := bump stage ms (job_stage_timing_sums_ms m),
        job_stage_timing_counts := bump stage 1 (job_stage_timing_counts m)\<rparr>)"

definition record_cache_event :: "string \<Rightarrow> int option \<Rightarrow> monitor \<Rightarrow> monitor" where
  "record_cache_event status ms m =
     m\<lparr>cache_event_counts := bump status 1 (cache_event_counts m),
       cache_latency_sums_ms := (case ms of None \<Rightarrow> cache_latency_sums_ms m | Some x \<Rightarrow> bump status x (cache_latency_sums_ms m))\<rparr>"

definition record_gpu_allocation :: "string \<Rightarrow> bool \<Rightarrow> int \<Rightarrow> monitor \<Rightarrow> monitor" where
  "record_gpu_allocation gpu warm ms m =
     (let mode = (if warm then ''warm'' else ''cold'') in
      m\<lparr>gpu_event_counts := bump (''allocation:'' @ gpu @ '':'' @ mode) 1 (gpu_event_counts m),
        gpu_allocation_latency_sums_ms := bump (gpu @ '':'' @ mode) ms (gpu_allocation_latency_sums_ms m)\<rparr>)"

definition record_cost_reconciliation ::
  "string \<Rightarrow> rat \<Rightarrow> bool \<Rightarrow> rat option \<Rightarrow> rat option \<Rightarrow> monitor \<Rightarrow> monitor" where
  "record_cost_reconciliation version delta outlier total_cost charge m =
     (let m1 = m\<lparr>cost_reconciliation_counts := bump version 1 (cost_reconciliation_counts m),
            cost_reconciliation_outlier_counts := (if outlier then bump version 1 (cost_reconciliation_outlier_counts m)
              else cost_reconciliation_outlier_counts m),
            runtime_gauges := dset (''cost_reconciliation_delta_percent:'' @ version) delta (runtime_gauges m)\<rparr>;
          m2 = (case total_cost of
             None \<Rightarrow> m1
           | Some x \<Rightarrow> m1\<lparr>cost_actual_total_sums_usd := bump version (max x 0) (cost_actual_total_sums_usd m1),
               runtime_gauges := dset (''cost_actual_total_usd_latest:'' @ version) (max x 0) (runtime_gauges m1)\<rparr>)
      in case charge of
           None \<Rightarrow> m2
         | Some x \<Rightarrow> m2\<lparr>cost_actual_charge_sums_usd := bump version (max x 0) (cost_actual_charge_sums_usd m2),
             runtime_gauges := dset (''cost_actual_charge_total_usd_latest:'' @ version) (max x 0) (runtime_gauges m2)\<rparr>)"

definition record_cost_margin_breach :: "string \<Rightarrow> monitor \<Rightarrow> monitor" where
  "record_cost_margin_breach v m = m\<lparr>cost_margin_breach_counts := bump v 1 (cost_margin_breach_counts m)\<rparr>"

definition record_cost_anomaly :: "string \<Rightarrow> monitor \<Rightarrow> monitor" where
  "record_cost_anomaly c m = m\<lparr>cost_anomaly_counts := bump c 1 (cost_anomaly_counts m)\<rparr>"

definition set_gauges :: "(string \<times> rat) list \<Rightarrow> monitor \<Rightarrow> monitor" where
  "set_gauges kvs m = m\<lparr>runtime_gauges := fold (\<lambda>(k, v) d. dset k v d) kvs (runtime_gauges m)\<rparr>"

definition record_cost_ops_snapshot :: "rat \<Rightarrow> rat \<Rightarrow> rat \<Rightarrow> int \<Rightarrow> monitor \<Rightarrow> monitor" where
  "record_cost_ops_snapshot gpu hits margin n =
     set_gauges [(''cost_ops_gpu_utilization_percent'', gpu), (''cost_ops_cache_hit_rate_percent'', hits),
       (''cost_ops_gross_margin_percent'', margin), (''cost_ops_recent_anomaly_count'', of_int n)]"

definition record_preview_generation :: "string \<Rightarrow> rat \<Rightarrow> string \<Rightarrow> bool \<Rightarrow> monitor \<Rightarrow> monitor" where
  "record_preview_generation outcome latency mode fallback m =
     set_gauges [(''preview_generation_latency_ms'', latency), (''preview_generation_fallback_used'', if fallback then 1 else 0)]
       (m\<lparr>preview_generation_counts := bump outcome 1 (preview_generation_counts m),
          preview_selection_mode_counts := bump mode 1 (preview_selection_mode_counts m)\<rparr>)"

definition record_runtime_snapshot :: "(string \<times> rat) list \<Rightarrow> monitor \<Rightarrow> monitor" where
  "record_runtime_snapshot snap = set_gauges snap"

definition record_alert_delivery :: "string \<Rightarrow> string \<Rightarrow> string \<Rightarrow> monitor \<Rightarrow> monitor" where
  "record_alert_delivery route severity outcome m =
     m\<lparr>alert_delivery_counts := bump (route @ '':'' @ severity @ '':'' @ outcome) 1 (alert_delivery_counts m)\<rparr>"

definition record_incident :: "string \<Rightarrow> string \<Rightarrow> monitor \<Rightarrow> monitor" where
  "record_incident severity state m = m\<lparr>incident_counts := bump (severity @ '':'' @ state) 1 (incident_counts m)\<rparr>"

definition record_slo_evaluation :: "bool \<Rightarrow> rat \<Rightarrow> bool \<Rightarrow> rat \<Rightarrow> monitor \<Rightarrow> monitor" where
  "record_slo_evaluation compliant ratio degraded burn =
     set_gauges [(''slo_p95_ratio'', ratio), (''slo_compliant'', if compliant then 1 else 0),
       (''slo_degraded'', if degraded then 1 else 0), (''error_budget_burn_percent'', burn)]"

section \<open>The text\<close>

record printer =
  fmt2 :: "rat \<Rightarrow> string"
  fmt4 :: "rat \<Rightarrow> string"
  fmt_gauge :: "rat \<Rightarrow> string"

definition metric_head :: "string \<Rightarrow> string \<Rightarrow> string \<Rightarrow> string \<Rightarrow> string list" where
  "metric_head ns metric help kind =
     [''# HELP '' @ ns @ ''_'' @ metric @ '' '' @ help, ''# TYPE '' @ ns @ ''_'' @ metric @ '' '' @ kind]"

definition quoted_label :: "string \<times> string \<Rightarrow> string" where
  "quoted_label kv = fst kv @ [CHR ''='', CHR 0x22] @ snd kv @ [CHR 0x22]"

fun joined_labels :: "(string \<times> string) list \<Rightarrow> string" where
  "joined_labels [] = []"
| "joined_labels [kv] = quoted_label kv"
| "joined_labels (kv # kvs) = quoted_label kv @ '','' @ joined_labels kvs"

definition sample_line :: "string \<Rightarrow> string \<Rightarrow> (string \<times> string) list \<Rightarrow> string \<Rightarrow> string" where
  "sample_line ns metric labels v = ns @ ''_'' @ metric @ ''{'' @ joined_labels labels @ ''} '' @ v"

definition plain_metric :: "string \<Rightarrow> string \<Rightarrow> string \<Rightarrow> string \<Rightarrow> string \<Rightarrow> string list" where
  "plain_metric ns metric help kind v = metric_head ns metric help kind @ [ns @ ''_'' @ metric @ '' '' @ v]"

text \<open>\<open>for k, v in sorted(d.items())\<close>, one label from the key\<close>

definition sorted_items :: "(string, 'a) pydict \<Rightarrow> (string \<times> 'a) list" where
  "sorted_items d = sort_key fst d"

definition labelled_metric ::
  "string \<Rightarrow> string \<Rightarrow> string \<Rightarrow> string \<Rightarrow> string \<Rightarrow> ('a \<Rightarrow> string) \<Rightarrow> (string, 'a) pydict \<Rightarrow> string list" where
  "labelled_metric ns metric help kind label show_it d =
     metric_head ns metric help kind @ map (\<lambda>(k, v). sample_line ns metric [(label, k)] (show_it v)) (sorted_items d)"

text \<open>\<open>k.split(":", n)\<close>\<close>

fun split_colon :: "nat \<Rightarrow> string \<Rightarrow> string list" where
  "split_colon 0 s = [s]"
| "split_colon (Suc n) s =
     (if CHR '':'' \<in> set s
      then takeWhile (\<lambda>ch. ch \<noteq> CHR '':'') s # split_colon n (drop 1 (dropWhile (\<lambda>ch. ch \<noteq> CHR '':'') s)) else [s])"

text \<open>Keys of several parts: unpacking fails where there are not as many parts as labels.\<close>

definition split_metric ::
  "string \<Rightarrow> string \<Rightarrow> string \<Rightarrow> string list \<Rightarrow> counter \<Rightarrow> string list result" where
  "split_metric ns metric help labels d =
     bind_res
       (map_res (\<lambda>(k, v). let parts = split_colon (length labels - 1) k in
          if length parts \<noteq> length labels then Inl (ValueError ''not enough values to unpack'')
          else Inr (sample_line ns metric (zip labels parts) (dec_int v))) (sorted_items d))
       (\<lambda>ls. Inr (metric_head ns metric help ''counter'' @ ls))"

definition service_lines :: "string \<Rightarrow> printer \<Rightarrow> monitor \<Rightarrow> string list" where
  "service_lines ns pr m =
     plain_metric ns ''service_up'' ''Service health status.'' ''gauge'' ''1'' @
     labelled_metric ns ''http_requests_total'' ''Total HTTP requests.'' ''counter'' ''route'' dec_int
       (if http_request_counts m = [] then [(''/health'', 1)] else http_request_counts m) @
     plain_metric ns ''era_detection_requests_total'' ''Total era-detection requests.'' ''counter'' (dec_int (era_requests m)) @
     plain_metric ns ''era_detection_manual_overrides_total'' ''Total manual era overrides.'' ''counter'' (dec_int (era_manual_overrides m)) @
     plain_metric ns ''era_detection_confidence_sum'' ''Sum of era-detection confidences.'' ''gauge'' (fmt2 pr (era_confidence_sum m)) @
     plain_metric ns ''era_detection_latency_ms_sum'' ''Sum of era-detection latencies in milliseconds.'' ''gauge''
       (fmt2 pr (era_latency_sum_ms m)) @
     plain_metric ns ''gemini_api_calls_total'' ''Total Gemini API calls tracked for era detection.'' ''counter'' (dec_int (gemini_api_calls m)) @
     plain_metric ns ''gemini_tokens_total'' ''Total Gemini tokens tracked for era detection.'' ''counter'' (dec_int (gemini_total_tokens m)) @
     plain_metric ns ''gemini_provider_fallbacks_total'' ''Total era-detection provider fallbacks.'' ''counter''
       (dec_int (gemini_provider_fallbacks m))"

definition job_lines :: "string \<Rightarrow> monitor \<Rightarrow> string list result" where
  "job_lines ns m =
     bind_res (split_metric ns ''billing_events_total'' ''Total billing control-plane events by type and outcome.''
         [''event_name'', ''outcome''] (billing_event_counts m)) (\<lambda>billing.
     Inr (labelled_metric ns ''job_runtime_events_total'' ''Total async job runtime events.'' ''counter'' ''event_type'' dec_int (job_runtime_counts m) @
       labelled_metric ns ''job_segment_retries_total'' ''Total segment retries by error class.'' ''counter'' ''error_classification'' dec_int
         (segment_retry_counts m) @
       labelled_metric ns ''job_segment_failures_total'' ''Total terminal segment failures by error class.'' ''counter''
         ''error_classification'' dec_int (segment_failure_counts m) @
       labelled_metric ns ''job_webhook_attempts_total'' ''Total webhook delivery attempts by status.'' ''counter'' ''status'' dec_int
         (webhook_attempt_counts m) @
       billing @
       labelled_metric ns ''job_stage_duration_ms_sum'' ''Sum of job stage durations in milliseconds.'' ''counter'' ''stage'' dec_int
         (job_stage_timing_sums_ms m) @
       labelled_metric ns ''job_stage_duration_count'' ''Total completed timing observations by stage.'' ''counter'' ''stage'' dec_int
         (job_stage_timing_counts m)))"

definition resource_lines :: "string \<Rightarrow> printer \<Rightarrow> monitor \<Rightarrow> string list" where
  "resource_lines ns pr m =
     labelled_metric ns ''segment_cache_events_total'' ''Total segment cache events by status.'' ''counter'' ''status'' dec_int (cache_event_counts m) @
     labelled_metric ns ''segment_cache_latency_ms_sum'' ''Sum of segment cache latencies in milliseconds.'' ''counter'' ''status'' dec_int
       (cache_latency_sums_ms m) @
     labelled_metric ns ''gpu_events_total'' ''Total GPU pool events.'' ''counter'' ''event'' dec_int (gpu_event_counts m) @
     labelled_metric ns ''gpu_allocation_latency_ms_sum'' ''Sum of GPU allocation latencies.'' ''counter'' ''mode'' dec_int
       (gpu_allocation_latency_sums_ms m) @
     labelled_metric ns ''cost_reconciliations_total'' ''Total cost reconciliations by estimator version.'' ''counter'' ''estimator_version'' dec_int
       (cost_reconciliation_counts m) @
     labelled_metric ns ''cost_reconciliation_outliers_total'' ''Total cost reconciliation outliers by estimator version.'' ''counter''
       ''estimator_version'' dec_int (cost_reconciliation_outlier_counts m) @
     labelled_metric ns ''cost_actual_total_usd_sum'' ''Total reconciled operational cost in USD by estimator version.'' ''counter''
       ''estimator_version'' (fmt4 pr) (cost_actual_total_sums_usd m) @
     labelled_metric ns ''cost_actual_charge_total_usd_sum'' ''Total reconciled billed revenue in USD by estimator version.'' ''counter''
       ''estimator_version'' (fmt4 pr) (cost_actual_charge_sums_usd m) @
     labelled_metric ns ''cost_margin_breaches_total'' ''Total completed jobs whose gross margin fell below target.'' ''counter''
       ''estimator_version'' dec_int (cost_margin_breach_counts m) @
     labelled_metric ns ''cost_anomalies_total'' ''Total cost anomalies by category.'' ''counter'' ''category'' dec_int (cost_anomaly_counts m) @
     labelled_metric ns ''preview_generation_total'' ''Total preview generation events by outcome.'' ''counter'' ''outcome'' dec_int
       (preview_generation_counts m) @
     labelled_metric ns ''preview_selection_mode_total'' ''Total preview selection outcomes by mode.'' ''counter'' ''selection_mode'' dec_int
       (preview_selection_mode_counts m)"

definition alert_lines :: "string \<Rightarrow> printer \<Rightarrow> monitor \<Rightarrow> string list result" where
  "alert_lines ns pr m =
     bind_res (split_metric ns ''alert_delivery_total'' ''Total alert deliveries by route, severity, and outcome.''
         [''route'', ''severity'', ''outcome''] (alert_delivery_counts m)) (\<lambda>alerts.
     bind_res (split_metric ns ''incident_total'' ''Total incidents by severity and state.'' [''severity'', ''state''] (incident_counts m)) (\<lambda>incidents.
     Inr (alerts @ incidents @
       labelled_metric ns ''runtime_gauge'' ''Runtime gauges for Packet 3C control plane.'' ''gauge'' ''name'' (fmt_gauge pr) (runtime_gauges m))))"

definition metrics_payload :: "string \<Rightarrow> printer \<Rightarrow> monitor \<Rightarrow> string result" where
  "metrics_payload ns pr m =
     bind_res (job_lines ns m) (\<lambda>jobs.
     bind_res (alert_lines ns pr m) (\<lambda>alerts.
     Inr (concat (map (\<lambda>l. l @ [CHR 0x0A]) (service_lines ns pr m @ jobs @ resource_lines ns pr m @ alerts)))))"

definition alert_routes :: "string \<Rightarrow> string \<Rightarrow> (string, string) pydict" where
  "alert_routes pagerduty_key slack_url =
     [(''pagerduty'', if pagerduty_key \<noteq> [] then ''configured'' else ''memory''),
      (''slack'', if slack_url \<noteq> [] then ''configured'' else ''memory'')]"

section \<open>The metrics can always be shown\<close>

datatype monitor_event =
    HttpRequest string
  | EraDetected rat rat bool int int bool
  | JobRuntimeEvent string
  | SegmentRetry string
  | SegmentFailure string
  | WebhookAttempt string
  | BillingEvent string string
  | StageTimings "(string \<times> int option) list"
  | CacheEvent string "int option"
  | GpuAllocation string bool int
  | CostReconciliation string rat bool "rat option" "rat option"
  | CostMarginBreach string
  | CostAnomaly string
  | CostOpsSnapshot rat rat rat int
  | PreviewGeneration string rat string bool
  | RuntimeSnapshot "(string \<times> rat) list"
  | AlertDelivery string string string
  | IncidentRecorded string string
  | SloEvaluation bool rat bool rat
  | MonitoringReset

fun record_monitor_event :: "monitor_event \<Rightarrow> monitor \<Rightarrow> monitor" where
  "record_monitor_event (HttpRequest r) m = record_http_request r m"
| "record_monitor_event (EraDetected l c ov calls tokens fb) m = record_era_detection l c ov calls tokens fb m"
| "record_monitor_event (JobRuntimeEvent e) m = record_job_runtime_event e m"
| "record_monitor_event (SegmentRetry e) m = record_segment_retry e m"
| "record_monitor_event (SegmentFailure e) m = record_segment_failure e m"
| "record_monitor_event (WebhookAttempt e) m = record_webhook_attempt e m"
| "record_monitor_event (BillingEvent e outcome) m = record_billing_event e outcome m"
| "record_monitor_event (StageTimings ts) m = record_job_stage_timings ts m"
| "record_monitor_event (CacheEvent status ms) m = record_cache_event status ms m"
| "record_monitor_event (GpuAllocation gpu warm ms) m = record_gpu_allocation gpu warm ms m"
| "record_monitor_event (CostReconciliation v delta outlier t c) m = record_cost_reconciliation v delta outlier t c m"
| "record_monitor_event (CostMarginBreach v) m = record_cost_margin_breach v m"
| "record_monitor_event (CostAnomaly c) m = record_cost_anomaly c m"
| "record_monitor_event (CostOpsSnapshot gpu hit_rate margin n) m = record_cost_ops_snapshot gpu hit_rate margin n m"
| "record_monitor_event (PreviewGeneration outcome l mode fb) m = record_preview_generation outcome l mode fb m"
| "record_monitor_event (RuntimeSnapshot snap) m = record_runtime_snapshot snap m"
| "record_monitor_event (AlertDelivery r s outcome) m = record_alert_delivery r s outcome m"
| "record_monitor_event (IncidentRecorded s st) m = record_incident s st m"
| "record_monitor_event (SloEvaluation c r d b) m = record_slo_evaluation c r d b m"
| "record_monitor_event MonitoringReset m = reset_monitoring_state m"

text \<open>Every key of a counter has at least so many colons.\<close>

definition colons :: "nat \<Rightarrow> (string, 'a) pydict \<Rightarrow> bool" where
  "colons n d \<longleftrightarrow> (\<forall>k \<in> fst ` set d. n \<le> count_list k CHR '':'')"

definition keys_split :: "monitor \<Rightarrow> bool" where
  "keys_split m \<longleftrightarrow> colons 1 (billing_event_counts m) \<and> colons 2 (alert_delivery_counts m) \<and> colons 1 (incident_counts m)"

lemma keys_of_dset: "fst ` set (dset k v d) = insert k (fst ` set d)"
  by (induction d) auto

lemma colons_bump: "colons n (bump k x d) \<longleftrightarrow> colons n d \<and> n \<le> count_list k CHR '':''"
  by (auto simp: colons_def bump_def keys_of_dset)

lemma length_split_colon: "n \<le> count_list s CHR '':'' \<Longrightarrow> length (split_colon n s) = Suc n"
proof (induction n arbitrary: s)
  case (Suc n)
  let ?rest = "dropWhile (\<lambda>ch. ch \<noteq> CHR '':'') s"
  have colon: "CHR '':'' \<in> set s"
    using Suc.prems by (cases "CHR '':'' \<in> set s") (simp_all add: count_notin)
  have "count_list s CHR '':'' = count_list (takeWhile (\<lambda>ch. ch \<noteq> CHR '':'') s) CHR '':'' + count_list ?rest CHR '':''"
    using count_list_append [of "takeWhile (\<lambda>ch. ch \<noteq> CHR '':'') s" ?rest "CHR '':''"] by simp
  moreover have "count_list (takeWhile (\<lambda>ch. ch \<noteq> CHR '':'') s) CHR '':'' = 0"
    by (rule count_notin) (auto dest: set_takeWhileD)
  moreover obtain r where "?rest = CHR '':'' # r"
    using colon by (cases ?rest) (auto simp: dropWhile_eq_Nil_conv dropWhile_eq_Cons_conv)
  ultimately have "n \<le> count_list (drop 1 ?rest) CHR '':''" using Suc.prems by simp
  from Suc.IH [OF this] colon show ?case by simp
qed simp

lemma split_metric_total: "colons (length labels - 1) d \<Longrightarrow> labels \<noteq> [] \<Longrightarrow> \<exists>ls. split_metric ns metric help labels d = Inr ls"
proof -
  assume a: "colons (length labels - 1) d" "labels \<noteq> []"
  have "\<exists>ys. map_res (\<lambda>(k, v). let parts = split_colon (length labels - 1) k in
          if length parts \<noteq> length labels then Inl (ValueError ''not enough values to unpack'')
          else Inr (sample_line ns metric (zip labels parts) (dec_int v))) xs = Inr ys"
    if "\<forall>k \<in> fst ` set xs. length labels - 1 \<le> count_list k CHR '':''" for xs
    using that a(2) by (induction xs) (auto simp: length_split_colon Let_def)
  from this [of "sorted_items d"] a(1) show ?thesis by (auto simp: split_metric_def colons_def sorted_items_def)
qed

lemma reset_splits: "keys_split (reset_monitoring_state m)"
  by (simp add: keys_split_def colons_def reset_monitoring_state_def)

lemma stage_timings_split: "keys_split m \<Longrightarrow> keys_split (record_job_stage_timings ts m)"
  by (induction ts m rule: record_job_stage_timings.induct) (auto simp: keys_split_def)

lemma record_splits: "keys_split m \<Longrightarrow> keys_split (record_monitor_event e m)"
proof (cases e)
  case (StageTimings ts)
  assume "keys_split m"
  with StageTimings show ?thesis by (simp add: stage_timings_split)
next
  case MonitoringReset
  then show ?thesis by (simp add: reset_splits)
qed (simp_all add: keys_split_def colons_bump record_http_request_def record_era_detection_def
      record_job_runtime_event_def record_segment_retry_def record_segment_failure_def record_webhook_attempt_def
      record_billing_event_def record_cache_event_def record_gpu_allocation_def record_cost_reconciliation_def
      record_cost_margin_breach_def record_cost_anomaly_def set_gauges_def record_cost_ops_snapshot_def
      record_preview_generation_def record_runtime_snapshot_def record_alert_delivery_def record_incident_def
      record_slo_evaluation_def Let_def split: option.split)

lemma records_split: "keys_split m \<Longrightarrow> keys_split (fold record_monitor_event es m)"
  by (induction es arbitrary: m) (auto intro: record_splits)

text \<open>
  The keys of three counters are split at their colons again when the metrics are shown. Whatever was recorded since
  the last reset, and whatever its parts are, the metrics come out.
\<close>

theorem metrics_always_shown:
  "\<exists>text. metrics_payload ns pr (fold record_monitor_event es (reset_monitoring_state m)) = Inr text"
proof -
  define m' where "m' = fold record_monitor_event es (reset_monitoring_state m)"
  have k: "keys_split m'" unfolding m'_def by (rule records_split [OF reset_splits])
  obtain a b c where "split_metric ns ''billing_events_total'' ''Total billing control-plane events by type and outcome.''
      [''event_name'', ''outcome''] (billing_event_counts m') = Inr a"
    "split_metric ns ''alert_delivery_total'' ''Total alert deliveries by route, severity, and outcome.''
      [''route'', ''severity'', ''outcome''] (alert_delivery_counts m') = Inr b"
    "split_metric ns ''incident_total'' ''Total incidents by severity and state.'' [''severity'', ''state''] (incident_counts m') = Inr c"
    using k split_metric_total by (fastforce simp: keys_split_def numeral_2_eq_2)
  then show ?thesis
    by (simp add: metrics_payload_def job_lines_def alert_lines_def m'_def [symmetric])
qed

end
