(* ===== verification/Runtime_Billing.thy ===== *)
theory Runtime_Billing
  imports Runtime_Properties
begin

text \<open>
  What running a job does to the billing store: a ledger of the owner's used minutes is threaded
  through \<open>process_job\<close>. Every step but one leaves it alone or bills zero minutes; the one step is in
  \<open>_finalize_job\<close>, after the final status is known.
\<close>

section \<open>Pre- and postconditions\<close>

text \<open>\<open>triple P m Q E\<close>: from \<open>P\<close>, a return leaves \<open>Q\<close> of the result, and a raise leaves \<open>E\<close>.\<close>

definition triple :: "('s \<Rightarrow> bool) \<Rightarrow> ('s, 'a) prog \<Rightarrow> ('a \<Rightarrow> 's \<Rightarrow> bool) \<Rightarrow> ('s \<Rightarrow> bool) \<Rightarrow> bool" where
  "triple P m Q E \<longleftrightarrow> (\<forall>s. P s \<longrightarrow> wp m Q (\<lambda>_. E) s)"

lemma triple_bind: "triple P m R E \<Longrightarrow> (\<And>a. triple (R a) (f a) Q E) \<Longrightarrow> triple P (bindE m f) Q E"
  unfolding triple_def wp_bindE by (blast intro: wp_mono)

lemma triple_catch: "triple P m Q F \<Longrightarrow> (\<And>e. triple F (h e) Q E) \<Longrightarrow> triple P (catchE m h) Q E"
  unfolding triple_def wp_catchE by (blast intro: wp_mono)

lemma triple_try:
  "triple P m R F \<Longrightarrow> (\<And>a. triple (R a) (f a) Q E) \<Longrightarrow> (\<And>e. triple F (h e) Q E) \<Longrightarrow> triple P (tryE m h f) Q E"
  unfolding triple_def wp_tryE by (blast intro: wp_mono)

lemma triple_finally:
  "triple P m Q F \<Longrightarrow> (\<And>a. triple (Q a) f (\<lambda>_. Q a) E) \<Longrightarrow> triple F f (\<lambda>_. E) E \<Longrightarrow> triple P (finallyE m f) Q E"
  unfolding triple_def wp_finallyE by (blast intro: wp_mono)

lemma triple_ret: "(\<And>w. P w \<Longrightarrow> Q a w) \<Longrightarrow> triple P (ret a) Q E"
  by (simp add: triple_def wp_ret)

lemma triple_raise: "(\<And>w. P w \<Longrightarrow> E w) \<Longrightarrow> triple P (raise e) Q E"
  by (simp add: triple_def wp_raise)

lemma triple_liftR:
  "(\<And>w. P w \<Longrightarrow> E w) \<Longrightarrow> triple P (liftR r) (\<lambda>a w. P w \<and> r = Inr a) E"
  by (auto simp: triple_def wp_liftR split: sum.split)

lemma triple_getsE: "triple P (getsE f) (\<lambda>a w. P w \<and> a = f w) E"
  by (simp add: triple_def wp_getsE)

lemma triple_if: "(b \<Longrightarrow> triple P m Q E) \<Longrightarrow> (\<not> b \<Longrightarrow> triple P n Q E) \<Longrightarrow> triple P (if b then m else n) Q E"
  by simp

lemma triple_option:
  "(x = None \<Longrightarrow> triple P m Q E) \<Longrightarrow> (\<And>y. x = Some y \<Longrightarrow> triple P (f y) Q E) \<Longrightarrow>
   triple P (case x of None \<Rightarrow> m | Some y \<Rightarrow> f y) Q E"
  by (cases x) simp_all

lemma triple_weaken:
  assumes "triple P m Q E" and "\<And>w. P' w \<Longrightarrow> P w" and "\<And>a w. Q a w \<Longrightarrow> Q' a w" and "\<And>w. E w \<Longrightarrow> E' w"
  shows "triple P' m Q' E'"
  unfolding triple_def
proof (intro allI impI)
  fix w
  assume "P' w"
  with assms(1,2) have "wp m Q (\<lambda>_. E) w" by (simp add: triple_def)
  then show "wp m Q' (\<lambda>_. E') w" by (rule wp_mono) (use assms(3,4) in auto)
qed

lemma triple_conj: "triple P m Q E \<Longrightarrow> triple P' m Q' E' \<Longrightarrow>
    triple (\<lambda>w. P w \<and> P' w) m (\<lambda>a w. Q a w \<and> Q' a w) (\<lambda>w. E w \<and> E' w)"
  unfolding triple_def by (intro allI impI, elim conjE, rule wp_conj) blast+

text \<open>What is known of the values at hand may be assumed.\<close>

lemma triple_assume: "(c \<Longrightarrow> triple P m Q E) \<Longrightarrow> triple (\<lambda>w. P w \<and> c) m Q E"
  unfolding triple_def by blast

lemma keeps_triple: "keeps I m R \<Longrightarrow> triple I m (\<lambda>a w. I w \<and> R a) I"
  by (simp add: keeps_def triple_def)

lemma preserves_triple: "preserves I m \<Longrightarrow> triple I m (\<lambda>_. I) I"
  by (simp add: preserves_wp triple_def)

section \<open>The ledger\<close>

definition used_of :: "string \<Rightarrow> billing_store \<Rightarrow> int" where
  "used_of u bl = (case dget (usage_tab bl) u of None \<Rightarrow> 0 | Some x \<Rightarrow> used_minutes x)"

text \<open>The owner has used \<open>n\<close> minutes, and everything else is as in \<open>bl0\<close>.\<close>

definition ledger :: "string \<Rightarrow> billing_store \<Rightarrow> int \<Rightarrow> billing_store \<Rightarrow> bool" where
  "ledger u bl0 n bl \<longleftrightarrow> used_of u bl = n \<and> accounts bl = accounts bl0 \<and> audit_events bl = audit_events bl0 \<and>
     revisions bl = revisions bl0 \<and> stripe_events bl = stripe_events bl0 \<and>
     (\<forall>v. v \<noteq> u \<longrightarrow> dget (usage_tab bl) v = dget (usage_tab bl0) v)"

lemma ledger_self: "ledger u bl (used_of u bl) bl"
  by (simp add: ledger_def)

lemma ledger_put: "ledger u bl0 n bl \<Longrightarrow> used_minutes x = n' \<Longrightarrow> ledger u bl0 n' (put_usage u x bl)"
  by (simp add: ledger_def used_of_def)

lemma used_minutes_in: "used_minutes (usage_in u t l bl) = used_of u bl"
  by (simp add: usage_in_def used_of_def split: option.split)

lemma snapshot_ledger: "preserves (ledger u bl0 n) (snapshot env u tier org)"
  unfolding preserves_def
proof (intro allI impI)
  fix bl
  assume bl: "ledger u bl0 n bl"
  then have "used_of u bl = n" by (simp add: ledger_def)
  with bl show "ledger u bl0 n (snd (snapshot env u tier org bl))"
    by (cases "limit_in env tier org bl")
      (simp_all add: billing_op_unavailable snapshot_run used_minutes_in ledger_put)
qed

lemma consume_ledger:
  "triple (ledger u bl0 n) (consume_minutes env u tier k org) (\<lambda>_. ledger u bl0 (n + max k 0)) (ledger u bl0 n)"
  unfolding triple_def
proof (intro allI impI)
  fix bl
  assume bl: "ledger u bl0 n bl"
  then have "used_of u bl = n" by (simp add: ledger_def)
  with bl show "wp (consume_minutes env u tier k org) (\<lambda>_. ledger u bl0 (n + max k 0)) (\<lambda>_. ledger u bl0 n) bl"
    by (cases "limit_in env tier org bl")
      (auto simp: wp_def billing_op_unavailable consume_minutes_run consumed_def used_minutes_in Let_def intro!: ledger_put)
qed

section \<open>Steps that do not bill\<close>

interpretation bill: step_frame "\<lambda>w. w_billing w = bl" for bl
  by unfold_locales simp_all

text \<open>The runtime invariant, and the owner's minutes are among \<open>N\<close>.\<close>

definition acctb :: "string \<Rightarrow> job \<Rightarrow> (int \<Rightarrow> int) \<Rightarrow> billing_store \<Rightarrow> int set \<Rightarrow> world \<Rightarrow> bool" where
  "acctb jid j0 b bl0 N w \<longleftrightarrow> runtime_inv jid j0 b w \<and> (\<exists>n \<in> N. ledger (owner_user_id j0) bl0 n (w_billing w))"

lemma acct_mono: "acctb jid j0 b bl0 N w \<Longrightarrow> N \<subseteq> M \<Longrightarrow> acctb jid j0 b bl0 M w"
  by (auto simp: acctb_def)

abbreviation acct :: "string \<Rightarrow> job \<Rightarrow> billing_store \<Rightarrow> int set \<Rightarrow> world \<Rightarrow> bool" where
  "acct jid j0 \<equiv> acctb jid j0 (\<lambda>_. 3)"

lemma acct_of: "acctb jid j0 b bl0 N w \<Longrightarrow> acct jid j0 bl0 N w"
  by (auto simp: acctb_def intro: inv3_of)

definition unbilled :: "(world, 'a) prog \<Rightarrow> bool" where
  "unbilled m \<longleftrightarrow> (\<forall>bl. preserves (\<lambda>w. w_billing w = bl) m)"

lemma unbilledI: "(\<And>bl. preserves (\<lambda>w. w_billing w = bl) m) \<Longrightarrow> unbilled m"
  by (simp add: unbilled_def)

lemma unbilled_triple: "unbilled m \<Longrightarrow> triple (\<lambda>w. P (w_billing w)) m (\<lambda>_ w. P (w_billing w)) (\<lambda>w. P (w_billing w))"
  unfolding triple_def
proof (intro allI impI)
  fix w :: world
  assume "unbilled m" and P: "P (w_billing w)"
  then have "w_billing (snd (m w)) = w_billing w" by (simp add: unbilled_def preserves_def)
  with P show "wp m (\<lambda>_ w. P (w_billing w)) (\<lambda>_ w. P (w_billing w)) w"
    by (cases "m w") (simp add: wp_def split: sum.split)
qed

lemma acct_step:
  assumes "keeps (runtime_inv jid j0 b) m R" and "unbilled m"
  shows "triple (acctb jid j0 b bl0 N) m (\<lambda>a w. acctb jid j0 b bl0 N w \<and> R a) (acctb jid j0 b bl0 N)"
  unfolding acctb_def
  by (rule triple_weaken [OF triple_conj [OF keeps_triple [OF assms(1)]
        unbilled_triple [OF assms(2), of "\<lambda>bl. \<exists>n \<in> N. ledger (owner_user_id j0) bl0 n bl"]]]) auto

lemma unbilled_on_ops: "unbilled (on_ops m)"
  unfolding on_ops_def by (rule unbilledI, rule preserves_zoom) simp

lemma unbilled_set_frame: "unbilled (set_frame f)"
  unfolding set_frame_def by (rule unbilledI, rule preserves_modifyE) simp

lemma acct_consume:
  "triple (acctb jid j0 b bl0 N) (on_billing (consume_minutes env (owner_user_id j0) tier k org))
     (\<lambda>_. acctb jid j0 b bl0 ((\<lambda>n. n + max k 0) ` N)) (acctb jid j0 b bl0 N)"
  unfolding triple_def
proof (intro allI impI)
  fix w
  assume "acctb jid j0 b bl0 N w"
  then obtain n where "n \<in> N" "runtime_inv jid j0 b w" "ledger (owner_user_id j0) bl0 n (w_billing w)" by (auto simp: acctb_def)
  with consume_ledger [of "owner_user_id j0" bl0 n env tier k org]
  show "wp (on_billing (consume_minutes env (owner_user_id j0) tier k org))
      (\<lambda>_. acctb jid j0 b bl0 ((\<lambda>n. n + max k 0) ` N)) (\<lambda>_. acctb jid j0 b bl0 N) w"
    unfolding triple_def on_billing_def wp_zoom
    by (auto simp: acctb_def elim!: allE [of _ "w_billing w"] intro: wp_mono)
qed

lemma acct_zero:
  "triple (acctb jid j0 b bl0 N) (on_billing (consume_minutes env (owner_user_id j0) tier 0 org))
     (\<lambda>_. acctb jid j0 b bl0 N) (acctb jid j0 b bl0 N)"
  using acct_consume [where k = 0] by simp

lemma acct_snapshot:
  "triple (acctb jid j0 b bl0 N) (on_billing (snapshot env (owner_user_id j0) tier org))
     (\<lambda>_. acctb jid j0 b bl0 N) (acctb jid j0 b bl0 N)"
proof (rule preserves_triple, unfold on_billing_def preserves_def zoom_def, intro allI impI)
  fix w
  assume "acctb jid j0 b bl0 N w"
  then obtain n where n: "n \<in> N" "runtime_inv jid j0 b w" "ledger (owner_user_id j0) bl0 n (w_billing w)" by (auto simp: acctb_def)
  have "ledger (owner_user_id j0) bl0 n (snd (snapshot env (owner_user_id j0) tier org (w_billing w)))"
    using preservesD [OF snapshot_ledger n(3)] .
  with n show "acctb jid j0 b bl0 N (snd (case snapshot env (owner_user_id j0) tier org (w_billing w) of
      (r, t) \<Rightarrow> (r, w\<lparr>w_billing := t\<rparr>)))"
    by (auto simp: acctb_def split: prod.split)
qed

section \<open>Cancelling and failing bill nothing\<close>

lemma owner_of: "good_job jid j0 j \<Longrightarrow> owner_user_id j = owner_user_id j0"
  by (simp add: good_job_def job_static_def)

lemma unbilled_update: "unbilled (update_job env jid f)"
  by (rule unbilledI) (intro pres_intro)

text \<open>An update of the job whose new status is known.\<close>

lemma acct_update:
  assumes "\<And>j. good_job jid j0 j \<Longrightarrow> good_job jid j0 (f j) \<and> job_status (f j) = st"
  shows "triple (acctb jid j0 b bl0 N) (update_job env jid f)
    (\<lambda>j w. acctb jid j0 b bl0 N w \<and> good_job jid j0 j \<and> job_status j = st) (acctb jid j0 b bl0 N)"
  by (rule acct_step [OF keeps_update_job_with unbilled_update]) (use assms in auto)

lemma acct_plain: "keeps (runtime_inv jid j0 b) m (\<lambda>_. True) \<Longrightarrow> (\<And>bl. preserves (\<lambda>w. w_billing w = bl) m) \<Longrightarrow>
    triple (acctb jid j0 b bl0 N) m (\<lambda>_. acctb jid j0 b bl0 N) (acctb jid j0 b bl0 N)"
  using acct_step [of jid j0 b m "\<lambda>_. True"] by (simp add: unbilled_def)

lemma acct_now: "triple (acctb jid j0 b bl0 N) (now env) (\<lambda>_. acctb jid j0 b bl0 N) (acctb jid j0 b bl0 N)"
  by (rule acct_plain [OF keeps_now]) (intro pres_intro)

lemma acct_publish:
  "good_job jid j0 j \<Longrightarrow>
   triple (acctb jid j0 b bl0 N) (publish_progress env j i token) (\<lambda>_. acctb jid j0 b bl0 N) (acctb jid j0 b bl0 N)"
  by (rule acct_plain [OF keeps_publish_progress]) (assumption, intro pres_intro)

lemma acct_webhooks: "triple (acctb jid j0 b bl0 N) (deliver_webhooks env j ev) (\<lambda>_. acctb jid j0 b bl0 N) (acctb jid j0 b bl0 N)"
  by (rule acct_plain [OF keeps_deliver_webhooks]) (intro pres_intro)

lemma cancel_job_acct:
  "triple (acctb jid j0 b bl0 N) (cancel_job env jid i token)
     (\<lambda>j w. acctb jid j0 b bl0 N w \<and> good_job jid j0 j \<and> job_status j = Cancelled) (acctb jid j0 b bl0 N)"
  unfolding cancel_job_def
proof (rule triple_bind [OF acct_now], rule triple_bind [OF acct_update])
  fix j :: job and t
  assume "good_job jid j0 j"
  then show "good_job jid j0 (cancelled_patch t j) \<and> job_status (cancelled_patch t j) = Cancelled"
    by (simp add: cancelled_patch_good) (simp add: cancelled_patch_def)
next
  fix j :: job
  let ?Q = "\<lambda>j w. acctb jid j0 b bl0 N w \<and> good_job jid j0 j \<and> job_status j = Cancelled"
  show "triple (?Q j)
     (bindE (on_billing (consume_minutes (re_billing env) (owner_user_id j) (job_plan_tier j) 0 None)) (\<lambda>_.
      bindE (publish_progress env j i token) (\<lambda>_. ret j))) ?Q (acctb jid j0 b bl0 N)"
  proof (rule triple_assume)
    assume j: "good_job jid j0 j \<and> job_status j = Cancelled"
    then show "triple (acctb jid j0 b bl0 N)
       (bindE (on_billing (consume_minutes (re_billing env) (owner_user_id j) (job_plan_tier j) 0 None)) (\<lambda>_.
        bindE (publish_progress env j i token) (\<lambda>_. ret j))) ?Q (acctb jid j0 b bl0 N)"
      unfolding owner_of [OF conjunct1 [OF j]]
      by (intro triple_bind [OF acct_zero] triple_bind [OF acct_publish] triple_ret) auto
  qed
qed

text \<open>The minutes are charged at most once; a failure after that keeps them.\<close>

lemma consume_usage_acct:
  assumes j: "good_job jid j0 j"
  shows "triple (acct jid j0 bl0 N) (consume_usage_and_reconcile env j c k)
    (\<lambda>_. acct jid j0 bl0 ((\<lambda>n. n + max k 0) ` N)) (acct jid j0 bl0 (N \<union> (\<lambda>n. n + max k 0) ` N))"
proof -
  let ?M = "(\<lambda>n. n + max k 0) ` N"
  have jid: "job_id j = jid" using j by (auto simp: good_job_def job_static_def)
  have reconcile: "triple (acct jid j0 bl0 ?M)
      (bindE (now env) (\<lambda>t.
       bindE (liftR (reconcile_estimate (re_billing env) (cost_estimate_summary j) (Some c) k t u v)) (\<lambda>r.
       case r of
         None \<Rightarrow> ret None
       | Some rec \<Rightarrow>
           tryE (update_job env jid (\<lambda>x. x\<lparr>cost_reconciliation_summary := Some rec\<rparr>)) (\<lambda>e. ret (Some rec))
             (\<lambda>_. tryE (refresh_signals env) (\<lambda>e. ret (Some rec)) (\<lambda>_. ret (Some rec))))))
      (\<lambda>_. acct jid j0 bl0 ?M) (acct jid j0 bl0 ?M)" for u v
  proof (rule acct_plain)
    show "keeps (inv3 jid j0)
      (bindE (now env) (\<lambda>t.
       bindE (liftR (reconcile_estimate (re_billing env) (cost_estimate_summary j) (Some c) k t u v)) (\<lambda>r.
       case r of
         None \<Rightarrow> ret None
       | Some rec \<Rightarrow>
           tryE (update_job env jid (\<lambda>x. x\<lparr>cost_reconciliation_summary := Some rec\<rparr>)) (\<lambda>e. ret (Some rec))
             (\<lambda>_. tryE (refresh_signals env) (\<lambda>e. ret (Some rec)) (\<lambda>_. ret (Some rec)))))) (\<lambda>_. True)"
      by (rule keeps_bindE [OF keeps_now] keeps_bindE [OF keeps_liftR_True] keeps_case_option
          keeps_tryE [OF keeps_update_job] keeps_tryE [OF keeps_refresh_signals] keeps_ret reconciliation_good | simp)+
  qed (intro pres_intro)
  show ?thesis
    unfolding consume_usage_and_reconcile_def jid owner_of [OF j]
    by (rule triple_bind, rule triple_weaken [OF acct_snapshot, where E' = "acct jid j0 bl0 (N \<union> ?M)"],
        assumption, assumption, erule acct_mono, simp,
        rule triple_bind, rule triple_weaken [OF acct_consume, where E' = "acct jid j0 bl0 (N \<union> ?M)"],
        assumption, assumption, erule acct_mono, simp,
        rule triple_weaken [OF reconcile], assumption, assumption, erule acct_mono, simp)
qed

lemma consume_zero_acct:
  "good_job jid j0 j \<Longrightarrow>
   triple (acct jid j0 bl0 N) (consume_usage_and_reconcile env j c 0) (\<lambda>_. acct jid j0 bl0 N) (acct jid j0 bl0 N)"
  using consume_usage_acct [where k = 0] by simp

lemma finalize_failed_acct:
  "triple (acct jid j0 bl0 N) (finalize_failed env jid ff e)
     (\<lambda>j w. acct jid j0 bl0 N w \<and> good_job jid j0 j \<and> job_status j = Failed) (acct jid j0 bl0 N)"
  unfolding finalize_failed_def
proof (rule triple_bind [OF acct_now], rule triple_bind [OF acct_update])
  fix j :: job and t
  assume "good_job jid j0 j"
  then show "good_job jid j0 (finalize_failed_patch ff e t j) \<and> job_status (finalize_failed_patch ff e t j) = Failed"
    by (simp add: finalize_failed_patch_good) (simp add: finalize_failed_patch_def)
next
  fix j :: job
  let ?Q = "\<lambda>j w. acct jid j0 bl0 N w \<and> good_job jid j0 j \<and> job_status j = Failed"
  show "triple (?Q j) (bindE (consume_usage_and_reconcile env j (ff_cost ff) 0) (\<lambda>r. ret (with_reconciliation r j)))
      ?Q (acct jid j0 bl0 N)"
    by (rule triple_assume, rule triple_bind [OF consume_zero_acct], erule conjunct1, rule triple_ret)
      (auto simp: with_reconciliation_good, simp add: with_reconciliation_def split: option.split)
qed

lemma process_failed_acct:
  "triple (acct jid j0 bl0 N) (process_failed env jid token e)
     (\<lambda>r w. acct jid j0 bl0 N w \<and> (\<exists>j. r = Some j \<and> job_status j = Failed)) (acct jid j0 bl0 N)"
  unfolding process_failed_def
proof (rule triple_bind [OF acct_now], rule triple_bind [OF acct_update])
  fix j :: job and t
  assume "good_job jid j0 j"
  then show "good_job jid j0 (failed_patch e t j) \<and> job_status (failed_patch e t j) = Failed"
    by (simp add: failed_patch_good) (simp add: failed_patch_def)
next
  fix j :: job
  let ?Q = "\<lambda>r w. acct jid j0 bl0 N w \<and> (\<exists>j. r = Some j \<and> job_status j = Failed)"
  let ?bill = "\<lambda>tier. case tier of None \<Rightarrow> ret ()
      | Some pt \<Rightarrow> bindE (on_billing (consume_minutes (re_billing env) (owner_user_id j) pt 0
          (some_or_none (job_org_id j)))) (\<lambda>_. ret ())"
  have dead: "triple (acct jid j0 bl0 N) (dead_letter jid) (\<lambda>_. acct jid j0 bl0 N) (acct jid j0 bl0 N)"
    by (rule acct_plain [OF keeps_dead_letter]) (intro pres_intro)
  show "triple (\<lambda>w. acct jid j0 bl0 N w \<and> good_job jid j0 j \<and> job_status j = Failed)
     (bindE (dead_letter jid) (\<lambda>_.
      bindE (getsE (\<lambda>w. validated_plan_tier (w_frame w))) (\<lambda>tier.
      bindE (?bill tier) (\<lambda>_.
      bindE (publish_progress env j 0 token) (\<lambda>_.
      bindE (deliver_webhooks env j ''failed'') (\<lambda>_. ret (Some j))))))) ?Q (acct jid j0 bl0 N)"
  proof (rule triple_assume)
    assume j: "good_job jid j0 j \<and> job_status j = Failed"
    have bill: "triple (acct jid j0 bl0 N) (?bill tier) (\<lambda>_. acct jid j0 bl0 N) (acct jid j0 bl0 N)" for tier
      unfolding owner_of [OF conjunct1 [OF j]]
      by (rule triple_option triple_ret triple_bind [OF acct_zero] | assumption)+
    have read: "triple (acct jid j0 bl0 N) (getsE f) (\<lambda>_. acct jid j0 bl0 N) (acct jid j0 bl0 N)" for f :: "world \<Rightarrow> 'a"
      by (rule preserves_triple) (intro pres_intro)
    show "triple (acct jid j0 bl0 N)
       (bindE (dead_letter jid) (\<lambda>_.
        bindE (getsE (\<lambda>w. validated_plan_tier (w_frame w))) (\<lambda>tier.
        bindE (?bill tier) (\<lambda>_.
        bindE (publish_progress env j 0 token) (\<lambda>_.
        bindE (deliver_webhooks env j ''failed'') (\<lambda>_. ret (Some j))))))) ?Q (acct jid j0 bl0 N)"
      by (rule triple_bind [OF dead], rule triple_bind [OF read], rule triple_bind [OF bill],
          rule triple_bind [OF acct_publish [OF conjunct1 [OF j]]], rule triple_bind [OF acct_webhooks], rule triple_ret)
        (simp add: j)
  qed
qed

section \<open>What a stored job is known to be\<close>

text \<open>\<open>Q\<close> holds of the stored job; requests to cancel keep it.\<close>

definition stored :: "(job \<Rightarrow> bool) \<Rightarrow> string \<Rightarrow> world \<Rightarrow> bool" where
  "stored Q jid w \<longleftrightarrow> (\<forall>j. dget (jobs (w_store w)) jid = Some j \<longrightarrow> Q j)"

definition not_cancelled :: "job \<Rightarrow> bool" where
  "not_cancelled j \<longleftrightarrow> job_status j \<noteq> Cancelled"

lemma not_cancelled_simps [simp]:
  "not_cancelled (j\<lparr>updated_at := t\<rparr>) = not_cancelled j" "not_cancelled (cancel_mark t j)"
  by (simp_all add: not_cancelled_def cancel_mark_def)

lemma stored_cancels:
  assumes "stored Q jid w" and "\<And>j t. Q j \<Longrightarrow> Q (cancel_mark t j)"
  shows "stored Q jid (w\<lparr>w_store := cancels reqs (w_store w), w_polls := n\<rparr>)"
  using assms cancels_job [of "w_store w" jid _ reqs] cancels_frame [of reqs "w_store w" jid]
  by (cases "dget (jobs (w_store w)) jid") (auto simp: stored_def)

lemma stored_interfere:
  "(\<And>j t. Q j \<Longrightarrow> Q (cancel_mark t j)) \<Longrightarrow> preserves (stored Q jid) (interfere env)"
  unfolding interfere_def by (rule preserves_modifyE) (rule stored_cancels)

lemma stored_store_op:
  assumes "\<And>s. jobs (snd (m s)) = jobs s" and "\<And>j t. Q j \<Longrightarrow> Q (cancel_mark t j)"
  shows "preserves (stored Q jid) (store_op env m)"
proof -
  have "preserves (stored Q jid) (on_store m)"
    unfolding preserves_def on_store_def
  proof (intro allI impI)
    fix w
    assume "stored Q jid w"
    with assms(1) [of "w_store w"] show "stored Q jid (snd (zoom w_store (\<lambda>t w. w\<lparr>w_store := t\<rparr>) m w))"
      by (cases "m (w_store w)") (simp add: zoom_def stored_def)
  qed
  then show ?thesis unfolding store_op_def by (intro preserves_bindE stored_interfere) (erule assms(2), assumption)
qed

lemma stored_now: "preserves (stored Q jid) (now env)"
  unfolding now_def on_ops_def by (rule preserves_zoom) (simp add: stored_def)

lemma stored_artifacts:
  "preserves (stored Q jid) (on_manifests m)" "preserves (stored Q jid) (on_outputs n)"
  unfolding on_manifests_def on_outputs_def
  by (rule preserves_zoom, simp add: stored_def put_manifest_world_def put_output_world_def)+

lemma stored_update:
  assumes Q: "\<And>j t. Q j \<Longrightarrow> Q (cancel_mark t j)" and R: "\<And>j t. Q j \<Longrightarrow> R ((f j)\<lparr>updated_at := t\<rparr>)"
  shows "triple (stored Q jid) (update_job env jid f) (\<lambda>j w. stored R jid w \<and> R j) (stored Q jid)"
  unfolding update_job_def store_op_def
proof (rule triple_bind [OF preserves_triple [OF stored_now]], rule triple_bind, rule preserves_triple,
    rule stored_interfere)
  fix now
  show "triple (stored Q jid) (on_store (update_job_for_worker now jid f)) (\<lambda>j w. stored R jid w \<and> R j) (stored Q jid)"
    by (auto simp: triple_def on_store_def wp_zoom wp_update_job stored_def put_job_def R split: option.splits)
qed (rule Q)

lemma delete_retained_stored:
  "(\<And>j t. Q j \<Longrightarrow> Q (cancel_mark t j)) \<Longrightarrow> preserves (stored Q jid) (delete_retained_objects env k uris)"
  unfolding delete_retained_objects_def
  by (intro pres_intro stored_now stored_artifacts stored_store_op)
    (auto simp: mark_retention_delete_failed_def mark_retention_delete_deleted_def split: option.splits)

lemma publish_manifest_stored:
  "triple (stored not_cancelled jid) (publish_manifest env jid fin)
     (\<lambda>jm w. stored not_cancelled jid w \<and> not_cancelled (fst jm)) (stored not_cancelled jid)"
proof -
  let ?S = "stored not_cancelled jid"
  have read: "preserves ?S (segments_now env jid)"
    unfolding segments_now_def by (rule stored_store_op) (auto simp: list_segments_def getsE_def split: option.split)
  have put: "preserves ?S (store_op env (upsert_manifest_for_worker jid r))" for r
    by (rule stored_store_op) (auto simp: upsert_manifest_for_worker_def)
  have del: "preserves ?S (delete_retained_objects env jid uris)" for uris
    by (rule delete_retained_stored) simp
  have patch: "triple ?S (update_job env jid (manifest_patch m)) (\<lambda>j w. ?S w \<and> not_cancelled j) ?S" for m
    by (rule stored_update) (simp_all add: manifest_patch_def not_cancelled_def)
  show ?thesis
    unfolding publish_manifest_def
    by (rule triple_bind [OF preserves_triple [OF read]], rule triple_bind [OF preserves_triple [OF stored_artifacts(1)]],
        rule triple_bind [OF preserves_triple [OF put]], rule triple_bind [OF preserves_triple [OF del]],
        rule triple_bind [OF patch], rule triple_ret) simp
qed

text \<open>Manifest and packaging leave a job that is charged only if it still counts as delivered.\<close>

definition charged_right :: "job \<times> job_status \<Rightarrow> bool" where
  "charged_right js \<longleftrightarrow> not_cancelled (fst js) \<and>
     (job_status (fst js) \<in> {Completed, Partial} \<longrightarrow> snd js \<in> {Completed, Partial})"

lemma package_outputs_stored:
  assumes "not_cancelled fin" and "job_status fin = ff_status ff"
  shows "triple (stored not_cancelled jid) (package_outputs env jid ff fin) (\<lambda>js _. charged_right js) (\<lambda>_. True)"
proof -
  let ?S = "stored not_cancelled jid"
  have late: "triple ?S (bindE (update_job env jid (late_failure_patch what ws e)) (\<lambda>j. ret (j, Failed)))
      (\<lambda>js _. charged_right js) (\<lambda>_. True)" for what ws e
  proof (rule triple_bind)
    show "triple ?S (update_job env jid (late_failure_patch what ws e))
        (\<lambda>j w. stored (\<lambda>j. job_status j = Failed) jid w \<and> job_status j = Failed) (\<lambda>_. True)"
      by (rule triple_weaken [OF stored_update [where Q = not_cancelled]])
        (auto simp: late_failure_patch_def not_cancelled_def)
  qed (rule triple_ret, simp add: charged_right_def not_cancelled_def)
  have deliver: "triple ?S (bindE (segments_now env jid) (\<lambda>segs. on_outputs (materialize_delivery (re_output env) j segs p)))
      (\<lambda>_. ?S) ?S" for j p
    unfolding segments_now_def
    by (intro preserves_triple pres_intro stored_artifacts stored_store_op)
      (auto simp: list_segments_def getsE_def not_cancelled_def split: option.split)
  show ?thesis
    unfolding package_outputs_def
  proof (rule triple_if)
    assume "ff_status ff \<notin> {Completed, Partial}"
    then show "triple ?S (ret (fin, ff_status ff)) (\<lambda>js _. charged_right js) (\<lambda>_. True)"
      using assms by (intro triple_ret) (simp add: charged_right_def)
  next
    assume st: "\<not> ff_status ff \<notin> {Completed, Partial}"
    show "triple ?S
        (tryE (publish_manifest env jid fin)
          (\<lambda>e. bindE (update_job env jid (late_failure_patch ''Manifest generation'' (ff_warnings ff) e)) (\<lambda>j. ret (j, Failed)))
          (\<lambda>jm.
             tryE (bindE (segments_now env jid) (\<lambda>segs. on_outputs (materialize_delivery (re_output env) (fst jm) segs (snd jm))))
               (\<lambda>e. bindE (update_job env jid (late_failure_patch ''Output delivery packaging'' (warnings (fst jm)) e))
                       (\<lambda>j. ret (j, Failed)))
               (\<lambda>_. ret (fst jm, ff_status ff))))
        (\<lambda>js _. charged_right js) (\<lambda>_. True)"
      by (rule triple_try [OF publish_manifest_stored], rule triple_assume, rule triple_try [OF deliver],
          rule triple_ret, use st in \<open>simp add: charged_right_def\<close>, rule late, rule late)
  qed
qed

section \<open>The one charge\<close>

definition minutes_due :: "job \<Rightarrow> int" where
  "minutes_due j = billable_minutes_for_duration (estimated_duration_seconds j) (job_fidelity_tier j)"

lemma minutes_due_nonneg: "0 \<le> minutes_due j"
  by (auto simp: minutes_due_def billable_minutes_for_duration_def ceil_div_def Let_def)

text \<open>\<open>settled n j\<close>: what a returned job says about the owner's minutes, which were \<open>n\<close>.\<close>

definition settled :: "string \<Rightarrow> job \<Rightarrow> billing_store \<Rightarrow> int \<Rightarrow> job \<Rightarrow> world \<Rightarrow> bool" where
  "settled jid j0 bl0 n j w \<longleftrightarrow> acct jid j0 bl0 {n, n + minutes_due j0} w \<and>
     (job_status j \<in> {Completed, Partial} \<longrightarrow> acct jid j0 bl0 {n + minutes_due j0} w) \<and>
     (job_status j = Cancelled \<longrightarrow> acct jid j0 bl0 {n} w)"

lemma settled_failed: "acct jid j0 bl0 {n, n + minutes_due j0} w \<Longrightarrow> job_status j = Failed \<Longrightarrow> settled jid j0 bl0 n j w"
  by (simp add: settled_def)

lemma settled_cancelled: "acct jid j0 bl0 {n} w \<Longrightarrow> job_status j = Cancelled \<Longrightarrow> settled jid j0 bl0 n j w"
  by (auto simp: settled_def intro: acct_mono)

lemma acct_ended: "ended jid j0 fin \<Longrightarrow> acct jid fin bl0 N w \<Longrightarrow> acct jid j0 bl0 N w"
  by (auto simp: acctb_def ended_def owner_of intro: runtime_inv_back)

lemma minutes_due_of: "good_job jid j0 j \<Longrightarrow> minutes_due j = minutes_due j0"
  by (simp add: minutes_due_def good_job_def job_static_def)

lemma final_update_acct:
  assumes "facts_ok ff"
  shows "triple (acct jid j0 bl0 N) (update_job env jid (final_patch ff t))
    (\<lambda>fin w. (acct jid fin bl0 N w \<and> stored not_cancelled jid w) \<and> (ended jid j0 fin \<and> job_status fin = ff_status ff))
    (acct jid j0 bl0 N)"
proof -
  have not: "not_cancelled (final_patch ff t j)" "job_status (final_patch ff t j) = ff_status ff" for j
    using assms by (auto simp: final_patch_def not_cancelled_def facts_ok_def)
  have ends: "triple (inv3 jid j0) (update_job env jid (final_patch ff t)) (\<lambda>j w. ended jid j0 j \<and> inv3 jid j w) (inv3 jid j0)"
    unfolding triple_def
    by (intro allI impI, erule update_job_ends)
      (use final_patch_good [OF assms] in \<open>simp add: final_patch_def summaries_patch_def\<close>)
  have now: "triple (stored (\<lambda>_. True) jid) (update_job env jid (final_patch ff t))
      (\<lambda>j w. stored (\<lambda>j. not_cancelled j \<and> job_status j = ff_status ff) jid w \<and> not_cancelled j \<and> job_status j = ff_status ff)
      (stored (\<lambda>_. True) jid)"
    by (rule stored_update) (simp_all add: not)
  have all: "stored (\<lambda>_. True) jid w" for w by (simp add: stored_def)
  show ?thesis
    by (rule triple_weaken [OF triple_conj [OF triple_conj [OF ends now]
          unbilled_triple [OF unbilled_update, of "\<lambda>bl. \<exists>n \<in> N. ledger (owner_user_id j0) bl0 n bl"]]])
      (auto simp: acctb_def ended_def owner_of all stored_def)
qed

lemma commit_final_acct:
  assumes ff: "facts_ok ff"
  shows "triple (acct jid j0 bl0 {n}) (commit_final env jid ff pool)
    (settled jid j0 bl0 n) (acct jid j0 bl0 {n, n + minutes_due j0})"
proof -
  let ?m = "minutes_due j0" and ?E = "acct jid j0 bl0 {n, n + minutes_due j0}"
  have m: "?m = max ?m 0" using minutes_due_nonneg [of j0] by simp
  have charge: "triple (acct jid fin bl0 {n})
      (bindE (consume_usage_and_reconcile env (fst js) (ff_cost ff) (actual_minutes (snd js) (fst js))) (\<lambda>r.
       ret (with_reconciliation r (fst js)))) (settled jid j0 bl0 n) ?E"
    if fin: "ended jid j0 fin" and j: "good_job jid fin (fst js)" "charged_right js" for fin js
  proof -
    let ?k = "actual_minutes (snd js) (fst js)"
    from fin have "good_job jid j0 fin" by (simp add: ended_def)
    with j(1) have "minutes_due (fst js) = ?m" using minutes_due_of by metis
    then have k: "max ?k 0 = (if snd js \<in> {Completed, Partial} then ?m else 0)"
      using minutes_due_nonneg [of j0] by (simp add: actual_minutes_def minutes_due_def)
    have status: "job_status (with_reconciliation r (fst js)) = job_status (fst js)" for r
      by (simp add: with_reconciliation_def split: option.split)
    show ?thesis
    proof (rule triple_bind)
      show "triple (acct jid fin bl0 {n}) (consume_usage_and_reconcile env (fst js) (ff_cost ff) ?k)
          (\<lambda>_. acct jid j0 bl0 {n + max ?k 0}) ?E"
        by (rule triple_weaken [OF consume_usage_acct [OF j(1)]], assumption)
          (auto simp: k intro!: acct_ended [OF fin] elim!: acct_mono split: if_splits)
      show "triple (acct jid j0 bl0 {n + max ?k 0}) (ret (with_reconciliation r (fst js))) (settled jid j0 bl0 n) ?E" for r
        using j(2) unfolding k
        by (intro triple_ret) (auto simp: settled_def status charged_right_def not_cancelled_def intro: acct_mono split: if_splits)
    qed
  qed
  have rest: "triple (\<lambda>w. acct jid fin bl0 {n} w \<and> stored not_cancelled jid w)
      (bindE (on_ops (evaluate_runtime_snapshot (re_ops env) pool (cache_degraded (ff_cache ff)))) (\<lambda>_.
       bindE (package_outputs env jid ff fin) (\<lambda>js.
       bindE (consume_usage_and_reconcile env (fst js) (ff_cost ff) (actual_minutes (snd js) (fst js))) (\<lambda>r.
       ret (with_reconciliation r (fst js)))))) (settled jid j0 bl0 n) ?E"
    if fin: "ended jid j0 fin \<and> job_status fin = ff_status ff" for fin
  proof -
    from fin have self: "good_job jid fin fin" "completed_at fin \<noteq> None" by (auto simp: ended_def intro: good_job_self)
    have nc: "not_cancelled fin" using fin ff by (auto simp: not_cancelled_def facts_ok_def)
    have up: "acct jid fin bl0 {n} w \<Longrightarrow> ?E w" for w
      using acct_ended [OF conjunct1 [OF fin], of bl0 "{n}" w] by (rule acct_mono) auto
    have ops: "triple (\<lambda>w. acct jid fin bl0 {n} w \<and> stored not_cancelled jid w) (on_ops m)
        (\<lambda>_ w. acct jid fin bl0 {n} w \<and> stored not_cancelled jid w) ?E" for m :: "(ops_state, 'b) prog"
    proof -
      have "preserves (\<lambda>w. acct jid fin bl0 {n} w \<and> stored not_cancelled jid w) (on_ops m)"
        unfolding on_ops_def by (rule preserves_zoom) (simp add: acctb_def stored_def)
      from preserves_triple [OF this] show ?thesis by (rule triple_weaken) (auto intro: up)
    qed
    have pack: "triple (\<lambda>w. acct jid fin bl0 {n} w \<and> stored not_cancelled jid w) (package_outputs env jid ff fin)
        (\<lambda>js w. acct jid fin bl0 {n} w \<and> (good_job jid fin (fst js) \<and> charged_right js)) ?E"
      by (rule triple_weaken [OF triple_conj [OF acct_step [OF keeps_package_outputs [OF self]]
            package_outputs_stored [OF nc conjunct2 [OF fin]]]])
        (auto intro!: unbilledI pres_intro intro: up)
    show ?thesis
      by (rule triple_bind [OF ops], rule triple_bind [OF pack], rule triple_assume, rule charge) (use fin in auto)
  qed
  have patched: "triple (acct jid j0 bl0 {n}) (bindE (update_job env jid (final_patch ff t)) (\<lambda>fin.
       bindE (on_ops (evaluate_runtime_snapshot (re_ops env) pool (cache_degraded (ff_cache ff)))) (\<lambda>_.
       bindE (package_outputs env jid ff fin) (\<lambda>js.
       bindE (consume_usage_and_reconcile env (fst js) (ff_cost ff) (actual_minutes (snd js) (fst js))) (\<lambda>r.
       ret (with_reconciliation r (fst js))))))) (settled jid j0 bl0 n) ?E" for t
    by (rule triple_bind, rule triple_weaken [OF final_update_acct [OF ff]], assumption, assumption,
        erule acct_mono, simp, rule triple_assume, rule rest)
  have now: "triple (acct jid j0 bl0 {n}) (now env) (\<lambda>_. acct jid j0 bl0 {n}) ?E"
    by (rule triple_weaken [OF acct_now [where N = "{n}"]]) (auto intro: acct_mono)
  show ?thesis unfolding commit_final_def by (rule triple_bind [OF now patched])
qed

section \<open>The whole job\<close>

lemma gather_final_acct:
  "triple (acct jid j0 bl0 N) (gather_final env jid j segs) (\<lambda>fp w. acct jid j0 bl0 N w \<and> facts_ok (fst fp)) (acct jid j0 bl0 N)"
proof (rule acct_step [OF keeps_gather_final], rule unbilledI)
  fix bl
  show "preserves (\<lambda>w. w_billing w = bl) (gather_final env jid j segs)"
    unfolding gather_final_def Let_def
    by (intro pres_intro unbilled_on_ops [unfolded unbilled_def, THEN spec])
qed

lemma acct_poll:
  "triple (acct jid j0 bl0 N) (poll_job env jid)
     (\<lambda>r w. acct jid j0 bl0 N w \<and> (\<exists>j. r = Some j \<and> good_job jid j0 j)) (acct jid j0 bl0 N)"
  by (rule acct_step [OF keeps_poll_job unbilledI]) (intro pres_intro)

lemma finalize_job_acct:
  "triple (acct jid j0 bl0 {n}) (finalize_job env jid token)
     (\<lambda>jr. settled jid j0 bl0 n (fst jr)) (acct jid j0 bl0 {n, n + minutes_due j0})"
proof -
  let ?A = "acct jid j0 bl0 {n}" and ?E = "acct jid j0 bl0 {n, n + minutes_due j0}"
  have up: "?A w \<Longrightarrow> ?E w" for w by (erule acct_mono) simp
  have "triple ?A (segments_now env jid) (\<lambda>_. ?A) ?A"
    by (rule acct_plain [OF keeps_weaken [OF keeps_segments_now]]) (simp, intro pres_intro)
  then have read: "triple ?A (segments_now env jid) (\<lambda>_. ?A) ?E" by (rule triple_weaken) (auto intro: up)
  have cancel: "triple ?A (bindE (cancel_job env jid i token) (\<lambda>c. ret (c, False)))
      (\<lambda>jr. settled jid j0 bl0 n (fst jr)) ?E" for i
    by (rule triple_bind, rule triple_weaken [OF cancel_job_acct], assumption, assumption, erule up,
        rule triple_ret) (simp add: settled_cancelled)
  have commit: "triple ?A (catchE (commit_final env jid (fst fp) (snd fp)) (finalize_failed env jid (fst fp)))
      (settled jid j0 bl0 n) ?E" if "facts_ok (fst fp)" for fp
    by (rule triple_catch [OF commit_final_acct [OF that]], rule triple_weaken [OF finalize_failed_acct])
      (auto intro: settled_failed)
  have work: "triple ?A (bindE (gather_final env jid j segs) (\<lambda>fp.
      bindE (catchE (commit_final env jid (fst fp) (snd fp)) (finalize_failed env jid (fst fp))) (\<lambda>j'. ret (j', True))))
      (\<lambda>jr. settled jid j0 bl0 n (fst jr)) ?E" for j segs
    by (rule triple_bind, rule triple_weaken [OF gather_final_acct], assumption, assumption, erule up,
        rule triple_assume, rule triple_bind, erule commit, rule triple_ret) simp
  show ?thesis
    unfolding finalize_job_def
    by (rule triple_bind, rule triple_weaken [OF acct_poll], assumption, assumption, erule up, rule triple_assume,
        rule triple_option, rule triple_raise, erule up,
        rule triple_bind [OF read], rule triple_if, rule cancel, rule work)
qed

text \<open>After the verdict nothing is billed but zero minutes.\<close>

lemma settled_step:
  assumes "keeps (inv3 jid j0) m (\<lambda>_. True)" and "unbilled m"
  shows "triple (settled jid j0 bl0 n j) m (\<lambda>_. settled jid j0 bl0 n j) (acct jid j0 bl0 {n, n + minutes_due j0})"
proof -
  have acct: "triple (acct jid j0 bl0 N) m (\<lambda>_. acct jid j0 bl0 N) (acct jid j0 bl0 N)" for N
    using acct_step [OF assms] by simp
  have keep: "triple (\<lambda>w. c \<longrightarrow> acct jid j0 bl0 N w) m (\<lambda>_ w. c \<longrightarrow> acct jid j0 bl0 N w) (\<lambda>_. True)" for c N
  proof (cases c)
    case True
    with triple_weaken [OF acct [of N]] show ?thesis by simp
  qed (simp add: triple_def wp_top)
  show ?thesis
    unfolding settled_def
    by (rule triple_weaken [OF triple_conj [OF acct [of "{n, n + minutes_due j0}"]
          triple_conj [OF keep [of "job_status j \<in> {Completed, Partial}" "{n + minutes_due j0}"]
            keep [of "job_status j = Cancelled" "{n}"]]]]) auto
qed

definition settled_option :: "string \<Rightarrow> job \<Rightarrow> billing_store \<Rightarrow> int \<Rightarrow> job option \<Rightarrow> world \<Rightarrow> bool" where
  "settled_option jid j0 bl0 n r w \<longleftrightarrow> acct jid j0 bl0 {n, n + minutes_due j0} w \<and>
     (\<forall>j. r = Some j \<longrightarrow> settled jid j0 bl0 n j w)"

lemma settled_some: "settled jid j0 bl0 n j w \<Longrightarrow> settled_option jid j0 bl0 n (Some j) w"
  by (simp add: settled_option_def) (simp add: settled_def)

lemma finish_job_acct:
  "triple (acct jid j0 bl0 {n}) (finish_job env jid token) (settled_option jid j0 bl0 n)
     (acct jid j0 bl0 {n, n + minutes_due j0})"
proof -
  have publish: "triple (\<lambda>w. settled jid j0 bl0 n j w \<and> good_job jid j0 j) (publish_progress env j i token)
      (\<lambda>_. settled jid j0 bl0 n j) (acct jid j0 bl0 {n, n + minutes_due j0})" for j i
    by (rule triple_assume, rule settled_step [OF keeps_publish_progress unbilledI], assumption, intro pres_intro)
  have deliver: "triple (settled jid j0 bl0 n j) (deliver_webhooks env j ev)
      (\<lambda>_. settled jid j0 bl0 n j) (acct jid j0 bl0 {n, n + minutes_due j0})" for j ev
    by (rule settled_step [OF keeps_deliver_webhooks unbilledI], intro pres_intro)
  have frame: "triple (settled jid j0 bl0 n j) (set_frame f) (\<lambda>_. settled jid j0 bl0 n j)
      (acct jid j0 bl0 {n, n + minutes_due j0})" for j f
    by (rule settled_step [OF keeps_set_frame unbilled_set_frame])
  have lift: "triple (settled jid j0 bl0 n j) (liftR r) (\<lambda>_. settled jid j0 bl0 n j)
      (acct jid j0 bl0 {n, n + minutes_due j0})" for j and r :: "string result"
    by (rule settled_step [OF keeps_liftR_True unbilledI], intro pres_intro)
  have final: "triple (acct jid j0 bl0 {n}) (finalize_job env jid token)
      (\<lambda>jr w. settled jid j0 bl0 n (fst jr) w \<and> good_job jid j0 (fst jr)) (acct jid j0 bl0 {n, n + minutes_due j0})"
    by (rule triple_weaken [OF triple_conj [OF finalize_job_acct keeps_triple [OF keeps_finalize_job]]])
      (auto simp: acctb_def)
  have rest: "triple (settled jid j0 bl0 n (fst jr))
      (bindE (set_frame (\<lambda>f. f\<lparr>gpu_released := snd jr\<rparr>)) (\<lambda>_.
       bindE (liftR (event_of_status (job_status (fst jr)))) (\<lambda>event.
       bindE (publish_progress env (fst jr) (max (segment_count (fst jr) - 1) 0) token) (\<lambda>_.
       bindE (deliver_webhooks env (fst jr) event) (\<lambda>_. ret (Some (fst jr)))))))
      (settled_option jid j0 bl0 n) (acct jid j0 bl0 {n, n + minutes_due j0})" if "good_job jid j0 (fst jr)" for jr
    by (rule triple_bind [OF frame], rule triple_bind [OF lift], rule triple_bind,
        rule triple_weaken [OF publish], use that in simp, assumption, assumption,
        rule triple_bind [OF deliver], rule triple_ret, erule settled_some)
  show ?thesis
    unfolding finish_job_def by (rule triple_bind [OF final], rule triple_assume, erule rest)
qed

lemma acct_keep:
  "keeps (inv3 jid j0) m R \<Longrightarrow> (\<And>bl. preserves (\<lambda>w. w_billing w = bl) m) \<Longrightarrow>
   triple (acct jid j0 bl0 {n}) m (\<lambda>a w. acct jid j0 bl0 {n} w \<and> R a) (acct jid j0 bl0 {n, n + minutes_due j0})"
  by (rule triple_weaken [OF acct_step [where N = "{n}", OF _ unbilledI]]) (auto intro: acct_mono)

lemma cancel_and_notify_acct:
  "triple (acctb jid j0 b bl0 {n}) (cancel_and_notify env jid i token)
     (settled jid j0 bl0 n) (acct jid j0 bl0 {n, n + minutes_due j0})"
proof -
  have up: "acctb jid j0 b bl0 {n} w \<Longrightarrow> acct jid j0 bl0 {n, n + minutes_due j0} w" for w
    by (drule acct_of, erule acct_mono) simp
  have deliver: "triple (\<lambda>w. acctb jid j0 b bl0 {n} w \<and> good_job jid j0 j \<and> job_status j = Cancelled) (deliver_webhooks env j ev)
      (\<lambda>_. settled jid j0 bl0 n j) (acct jid j0 bl0 {n, n + minutes_due j0})" for j ev
    by (rule triple_assume, rule triple_weaken [OF acct_webhooks [where N = "{n}"]])
      (auto intro: settled_cancelled acct_of up)
  show ?thesis
    unfolding cancel_and_notify_def
    by (rule triple_bind, rule triple_weaken [OF cancel_job_acct], assumption, assumption, erule up,
        rule triple_bind [OF deliver], rule triple_ret)
qed

definition early_settled :: "string \<Rightarrow> job \<Rightarrow> billing_store \<Rightarrow> int \<Rightarrow> job option option \<Rightarrow> world \<Rightarrow> bool" where
  "early_settled jid j0 bl0 n r w \<longleftrightarrow>
     (case r of None \<Rightarrow> acct jid j0 bl0 {n} w | Some early \<Rightarrow> settled_option jid j0 bl0 n early w)"

lemma segments_loop_acct:
  "distinct (map sg_index xs) \<Longrightarrow> \<forall>x \<in> set xs. seg_ok x \<and> b (sg_index x) \<le> attempt_count x \<Longrightarrow>
   triple (acctb jid j0 b bl0 {n}) (segments_loop env jid token xs)
     (early_settled jid j0 bl0 n) (acct jid j0 bl0 {n, n + minutes_due j0})"
proof (induction xs arbitrary: b)
  case Nil
  show ?case by (simp only: segments_loop.simps, rule triple_ret) (simp add: early_settled_def acct_of)
next
  case (Cons x xs)
  let ?i = "sg_index x" and ?E = "acct jid j0 bl0 {n, n + minutes_due j0}"
  have up: "acctb jid j0 c bl0 {n} w \<Longrightarrow> ?E w" for c w by (drule acct_of, erule acct_mono) simp
  have rest: "triple (acctb jid j0 (b(?i := 3)) bl0 {n}) (segments_loop env jid token xs) (early_settled jid j0 bl0 n) ?E"
    by (rule Cons.IH) (use Cons.prems in \<open>auto simp: image_iff\<close>)
  have segment: "triple (acctb jid j0 b bl0 {n}) (process_segment env cur x token)
      (\<lambda>_. acctb jid j0 (b(?i := 3)) bl0 {n}) ?E" if "good_job jid j0 cur" for cur
  proof -
    have "triple (runtime_inv jid j0 b) (process_segment env cur x token)
        (\<lambda>_. runtime_inv jid j0 (b(?i := 3))) (runtime_inv jid j0 (b(?i := 3)))"
      unfolding triple_def
      by (intro allI impI, rule process_segment_inv [OF _ that refl]) (use Cons.prems(2) in simp_all)
    moreover have "unbilled (process_segment env cur x token)" by (rule unbilledI) (intro pres_intro)
    ultimately have "triple (acctb jid j0 b bl0 {n}) (process_segment env cur x token)
        (\<lambda>_. acctb jid j0 (b(?i := 3)) bl0 {n}) (acctb jid j0 (b(?i := 3)) bl0 {n})"
      unfolding acctb_def by (intro triple_conj unbilled_triple)
    then show ?thesis by (rule triple_weaken) (assumption | erule up)+
  qed
  have cancel: "triple (acctb jid j0 b bl0 {n}) (bindE (cancel_and_notify env jid ?i token) (\<lambda>c. ret (Some (Some c))))
      (early_settled jid j0 bl0 n) ?E"
    by (rule triple_bind [OF cancel_and_notify_acct], rule triple_ret) (simp add: early_settled_def settled_some)
  have "triple (acctb jid j0 b bl0 {n}) (poll_job env jid)
      (\<lambda>found w. acctb jid j0 b bl0 {n} w \<and> (\<exists>j. found = Some j \<and> good_job jid j0 j)) (acctb jid j0 b bl0 {n})"
    by (rule acct_step [OF keeps_poll_job unbilledI]) (intro pres_intro)
  then have poll: "triple (acctb jid j0 b bl0 {n}) (poll_job env jid)
      (\<lambda>found w. acctb jid j0 b bl0 {n} w \<and> (\<exists>j. found = Some j \<and> good_job jid j0 j)) ?E"
    by (rule triple_weaken) (assumption | erule up)+
  show ?case
    unfolding segments_loop.simps
    by (rule triple_bind [OF poll], rule triple_assume) (auto intro: cancel triple_bind [OF segment rest])
qed

lemma run_segments_acct:
  "triple (acct jid j0 bl0 {n}) (run_segments env jid token)
     (early_settled jid j0 bl0 n) (acct jid j0 bl0 {n, n + minutes_due j0})"
proof -
  let ?E = "acct jid j0 bl0 {n, n + minutes_due j0}"
  let ?L = "\<lambda>bl. \<exists>k \<in> {n}. ledger (owner_user_id j0) bl0 k bl"
  have "unbilled (segments_now env jid)" by (rule unbilledI) (intro pres_intro)
  note same = unbilled_triple [OF this, of ?L, unfolded triple_def, rule_format]
  have read: "triple (acct jid j0 bl0 {n}) (segments_now env jid)
      (\<lambda>segs w. acct jid j0 bl0 {n} w \<and> segs = segments_of jid (w_store w)) ?E"
    unfolding triple_def
  proof (intro allI impI)
    fix w
    assume "acct jid j0 bl0 {n} w"
    then have inv: "inv3 jid j0 w" and L: "?L (w_billing w)" by (simp_all add: acctb_def)
    show "wp (segments_now env jid) (\<lambda>segs w. acct jid j0 bl0 {n} w \<and> segs = segments_of jid (w_store w)) (\<lambda>_. ?E) w"
      by (rule wp_mono [OF wp_conj [OF segments_now_read [OF inv] same [OF L]]]) (simp_all add: acctb_def)
  qed
  have loop: "triple (\<lambda>w. acct jid j0 bl0 {n} w \<and> segs = segments_of jid (w_store w)) (segments_loop env jid token segs)
      (early_settled jid j0 bl0 n) ?E" for segs
    unfolding triple_def
  proof (intro allI impI, elim conjE)
    fix w
    assume w: "acct jid j0 bl0 {n} w" and segs: "segs = segments_of jid (w_store w)"
    then have inv: "inv3 jid j0 w" by (simp add: acctb_def)
    have "triple (acctb jid j0 (bound_of segs) bl0 {n}) (segments_loop env jid token segs) (early_settled jid j0 bl0 n) ?E"
      unfolding segs by (rule segments_loop_acct [OF segments_read_bounded [OF inv]])
    moreover from w segs inv have "acctb jid j0 (bound_of segs) bl0 {n} w"
      using runtime_inv_bound_of by (auto simp: acctb_def)
    ultimately show "wp (segments_loop env jid token segs) (early_settled jid j0 bl0 n) (\<lambda>_. ?E) w"
      by (simp add: triple_def)
  qed
  show ?thesis unfolding run_segments_def by (rule triple_bind [OF read loop])
qed

lemma start_job_acct:
  "triple (acct jid j0 bl0 {n}) (start_job env jid j) (\<lambda>p w. acct jid j0 bl0 {n} w \<and> good_job jid j0 p)
     (acct jid j0 bl0 {n, n + minutes_due j0})"
proof (rule acct_keep [OF keeps_start_job])
  fix bl
  show "preserves (\<lambda>w. w_billing w = bl) (start_job env jid j)"
    unfolding start_job_def allocate_for_def
    by (intro pres_intro unbilled_on_ops [unfolded unbilled_def, THEN spec] unbilled_set_frame [unfolded unbilled_def, THEN spec])
qed

lemma process_body_acct:
  "triple (acct jid j0 bl0 {n}) (process_body env jid j token)
     (settled_option jid j0 bl0 n) (acct jid j0 bl0 {n, n + minutes_due j0})"
proof -
  let ?A = "acct jid j0 bl0 {n}" and ?E = "acct jid j0 bl0 {n, n + minutes_due j0}"
  have up: "?A w \<Longrightarrow> ?E w" for w by (erule acct_mono) simp
  have lift: "triple ?A (liftR r) (\<lambda>_. ?A) ?E" for r :: "string result"
    by (rule triple_weaken [OF triple_liftR [where P = ?A and E = ?A]]) (auto intro: up)
  have "triple ?A (set_frame f) (\<lambda>_. ?A) ?A" for f
    using acct_step [OF keeps_set_frame unbilled_set_frame] by simp
  then have frame: "triple ?A (set_frame f) (\<lambda>_. ?A) ?E" for f by (rule triple_weaken) (assumption | erule up)+
  have cancel: "triple ?A (bindE (cancel_and_notify env jid 0 token) (\<lambda>c. ret (Some c))) (settled_option jid j0 bl0 n) ?E"
    by (rule triple_bind [OF cancel_and_notify_acct], rule triple_ret, erule settled_some)
  have publish: "triple (\<lambda>w. ?A w \<and> good_job jid j0 p) (publish_progress env p 0 token) (\<lambda>_. ?A) ?E" for p
    by (rule triple_assume, rule triple_weaken [OF acct_publish]) (assumption | erule up)+
  have deliver: "triple ?A (deliver_webhooks env p EVENT_STARTED) (\<lambda>_. ?A) ?E" for p
    by (rule triple_weaken [OF acct_webhooks]) (assumption | erule up)+
  have rest: "triple (early_settled jid j0 bl0 n early)
      (case early of Some r \<Rightarrow> ret r | None \<Rightarrow> finish_job env jid token) (settled_option jid j0 bl0 n) ?E" for early
    by (cases early) (auto simp: early_settled_def [abs_def] finish_job_acct intro: triple_ret)
  show ?thesis
    unfolding process_body_segments
    by (rule triple_bind [OF lift], rule triple_bind [OF frame], rule triple_if, rule cancel,
        rule triple_bind [OF start_job_acct], rule triple_bind [OF publish], rule triple_bind [OF deliver],
        rule triple_bind [OF run_segments_acct rest])
qed

text \<open>What \<open>process_job\<close> leaves of an owner who had used \<open>n\<close> minutes.\<close>

lemma process_job_acct:
  "triple (acct jid j0 bl0 {n}) (process_job env jid token)
     (settled_option jid j0 bl0 n) (acct jid j0 bl0 {n, n + minutes_due j0})"
proof -
  let ?A = "acct jid j0 bl0 {n}" and ?E = "acct jid j0 bl0 {n, n + minutes_due j0}"
  have up: "?A w \<Longrightarrow> ?E w" for w by (erule acct_mono) simp
  have lift: "triple ?A (liftR r) (\<lambda>_. ?A) ?E" for r :: "string result"
    by (rule triple_weaken [OF triple_liftR [where P = ?A and E = ?A]]) (auto intro: up)
  have "triple ?A (set_frame f) (\<lambda>_. ?A) ?A" for f
    using acct_step [OF keeps_set_frame unbilled_set_frame] by simp
  then have frame: "triple ?A (set_frame f) (\<lambda>_. ?A) ?E" for f by (rule triple_weaken) (assumption | erule up)+
  have poll: "triple ?A (poll_job env jid) (\<lambda>_. ?A) ?E"
    by (rule triple_weaken [OF acct_poll [where N = "{n}"]]) (auto intro: up)
  have failed: "triple ?E (process_failed env jid tok e) (settled_option jid j0 bl0 n) ?E" for tok e
    by (rule triple_weaken [OF process_failed_acct]) (auto simp: settled_option_def intro: settled_failed)
  have rel: "unbilled (release_if_held env jid)"
    unfolding release_if_held_def
    by (rule unbilledI) (intro pres_intro unbilled_on_ops [unfolded unbilled_def, THEN spec])
  have release: "triple ?E (release_if_held env jid) (\<lambda>_. ?E) ?E"
    using acct_step [OF keeps_release_if_held rel] by simp
  have release_settled: "triple (settled_option jid j0 bl0 n r) (release_if_held env jid) (\<lambda>_. settled_option jid j0 bl0 n r) ?E" for r
  proof (cases r)
    case None
    then show ?thesis using release by (simp add: settled_option_def [abs_def])
  next
    case (Some j)
    have "settled_option jid j0 bl0 n (Some j) = settled jid j0 bl0 n j"
      by (auto simp: settled_option_def settled_def)
    with settled_step [OF keeps_release_if_held rel] Some show ?thesis by simp
  qed
  show ?thesis
    unfolding process_job_def
    by (rule triple_bind [OF lift], rule triple_bind [OF poll], rule triple_option, rule triple_ret,
        simp add: settled_option_def up, rule triple_bind [OF frame],
        rule triple_finally [OF triple_catch [OF process_body_acct failed] release_settled release])
qed

section \<open>The property\<close>

text \<open>
  C9: A run of a job is billed at most once, and for what it should be. Take a world that satisfies the
  invariant of the job, with no segment past three attempts. However \<open>process_job\<close> ends, the
  owner's used minutes have grown by nothing or by exactly the billable minutes of the job's duration and
  fidelity tier, and no other user's record and no other table of the billing store has changed. If it
  returns a completed or partial job, the minutes were charged; if it returns a cancelled one, they were
  not.
\<close>

theorem process_job_bills_once:
  assumes "runtime_inv jid j (\<lambda>_. 3) w"
  defines "used \<equiv> used_of (owner_user_id j)"
    and "due \<equiv> billable_minutes_for_duration (estimated_duration_seconds j) (job_fidelity_tier j)"
  shows "case process_job env jid token w of (r, t) \<Rightarrow>
    used (w_billing t) \<in> {used (w_billing w), used (w_billing w) + due} \<and>
    (\<forall>v. v \<noteq> owner_user_id j \<longrightarrow> dget (usage_tab (w_billing t)) v = dget (usage_tab (w_billing w)) v) \<and>
    accounts (w_billing t) = accounts (w_billing w) \<and> revisions (w_billing t) = revisions (w_billing w) \<and>
    stripe_events (w_billing t) = stripe_events (w_billing w) \<and> audit_events (w_billing t) = audit_events (w_billing w) \<and>
    (case r of
       Inr (Some j') \<Rightarrow>
         (job_status j' \<in> {Completed, Partial} \<longrightarrow> used (w_billing t) = used (w_billing w) + due) \<and>
         (job_status j' = Cancelled \<longrightarrow> used (w_billing t) = used (w_billing w))
     | _ \<Rightarrow> True)"
proof -
  have "acct jid j (w_billing w) {used (w_billing w)} w"
    using assms(1) by (simp add: acctb_def ledger_self used_def)
  with process_job_acct have "wp (process_job env jid token) (settled_option jid j (w_billing w) (used (w_billing w)))
      (\<lambda>_. acct jid j (w_billing w) {used (w_billing w), used (w_billing w) + minutes_due j}) w"
    by (simp add: triple_def)
  then show ?thesis
    unfolding due_def used_def
    by (auto simp: wp_def settled_option_def settled_def acctb_def ledger_def minutes_due_def
        split: prod.splits sum.splits option.splits)
qed

lemma process_job_bills_once_witness:
  "used_of ''u1'' (w_billing (snd (process_job sample_runtime ''j1'' (Some ''tok'') (sample_world sample_jobs))))
     \<in> {0, billable_minutes_for_duration 25 ''Restore''}"
proof -
  have "owner_user_id sample_job = ''u1''" "estimated_duration_seconds sample_job = 25" "job_fidelity_tier sample_job = ''Restore''"
    by (simp_all add: sample_job_def sample_jobs_def create_job_def sample_job_request_def empty_job_store_def Let_def)
  moreover have "used_of ''u1'' (w_billing (sample_world sample_jobs)) = 0"
    by (simp add: used_of_def sample_world_def empty_billing_store_def)
  ultimately show ?thesis
    using process_job_bills_once [OF sample_inv, of sample_runtime "Some ''tok''"]
    by (simp split: prod.splits)
qed

end
