(* ===== verification/Http_Json.thy ===== *)
theory Http_Json
  imports Era_Validation Upload_Store
begin

text \<open>
  What the clients of other services do with an answer: \<open>raise_for_status()\<close> and \<open>json()\<close>, and the Python
  operations on a value of any kind: \<open>v.get(k)\<close>, \<open>v[k]\<close>, \<open>v[0]\<close>, \<open>for x in v\<close>, \<open>int(v)\<close>. An answer is \<open>None\<close>
  where the client raises \<open>httpx.HTTPError\<close>, and has its body as JSON where it can be read as JSON.
\<close>

section \<open>Answers\<close>

definition http_error :: exn where
  "http_error = ExternalError ''HTTPError''"

definition raise_for_status :: "http_response option \<Rightarrow> http_response result" where
  "raise_for_status r =
     (case r of None \<Rightarrow> Inl http_error | Some p \<Rightarrow> if is_success p then Inr p else Inl http_error)"

text \<open>A body that is not JSON is a \<open>JSONDecodeError\<close>, a \<open>ValueError\<close>.\<close>

definition json_response :: "http_response option \<Rightarrow> json result" where
  "json_response r =
     bind_res (raise_for_status r) (\<lambda>p.
     case hr_json p of None \<Rightarrow> Inl (ValueError ''Expecting value'') | Some v \<Rightarrow> Inr v)"

section \<open>Values of any kind\<close>

fun get_of :: "json \<Rightarrow> string \<Rightarrow> json result" where
  "get_of (JObj d) k = Inr (jget d k)"
| "get_of v k = Inl (AttributeError ''get'')"

fun item_of :: "json \<Rightarrow> string \<Rightarrow> json result" where
  "item_of (JObj d) k = jitem d k"
| "item_of (JList xs) k = Inl (TypeError ''list indices must be integers or slices'')"
| "item_of (JStr s) k = Inl (TypeError ''string indices must be integers'')"
| "item_of v k = Inl (TypeError ''not subscriptable'')"

fun first_of :: "json \<Rightarrow> json result" where
  "first_of (JList (x # xs)) = Inr x"
| "first_of (JList []) = Inl (IndexError ''list index out of range'')"
| "first_of (JStr (ch # s)) = Inr (JStr [ch])"
| "first_of (JStr []) = Inl (IndexError ''string index out of range'')"
| "first_of (JObj d) = Inl (KeyError ''0'')"
| "first_of v = Inl (TypeError ''not subscriptable'')"

fun items_of :: "json \<Rightarrow> json list result" where
  "items_of (JList xs) = Inr xs"
| "items_of (JObj d) = Inr (map (\<lambda>x. JStr (fst x)) d)"
| "items_of (JStr s) = Inr (map (\<lambda>ch. JStr [ch]) s)"
| "items_of v = Inl (TypeError ''not iterable'')"

text \<open>\<open>v.get(k, d)\<close>, \<open>v.get(k) or d\<close>, and \<open>a or b\<close> where \<open>b\<close> is only computed when it is needed\<close>

definition get_with :: "json \<Rightarrow> string \<Rightarrow> json \<Rightarrow> json result" where
  "get_with v k d = (case v of JObj m \<Rightarrow> Inr (get_default m k d) | _ \<Rightarrow> Inl (AttributeError ''get''))"

definition get_or :: "json \<Rightarrow> string \<Rightarrow> json \<Rightarrow> json result" where
  "get_or v k d = bind_res (get_of v k) (\<lambda>x. Inr (jor x d))"

definition or_else :: "json result \<Rightarrow> json result \<Rightarrow> json result" where
  "or_else a b = bind_res a (\<lambda>x. if truthy x then Inr x else b)"

text \<open>\<open>int(v)\<close>\<close>

definition int_of_value :: "json \<Rightarrow> json result" where
  "int_of_value v =
     (case to_int v of
        Some i \<Rightarrow> Inr (JInt i)
      | None \<Rightarrow> Inl (case v of JStr s \<Rightarrow> ValueError s | _ \<Rightarrow> TypeError ''int() argument''))"

text \<open>A dictionary display: its values are computed in the order they are written.\<close>

definition display :: "(string \<times> json result) list \<Rightarrow> jdict result" where
  "display kvs = map_res (\<lambda>(k, r). bind_res r (\<lambda>v. Inr (k, v))) kvs"

lemma display_simps [simp]:
  "display [] = Inr []"
  "display ((k, Inr v) # fs) = bind_res (display fs) (\<lambda>d. Inr ((k, v) # d))"
  "display ((k, Inl e) # fs) = Inl e"
  by (simp_all add: display_def)

lemma display_keys: "display kvs = Inr d \<Longrightarrow> map fst d = map fst kvs"
  by (induction kvs arbitrary: d) (auto simp: display_def bind_res_Inr_iff split: prod.splits)

lemma display_value: "display kvs = Inr d \<Longrightarrow> dget kvs k = Some r \<Longrightarrow> \<exists>v. r = Inr v \<and> dget d k = Some v"
  by (induction kvs arbitrary: d) (auto simp: display_def bind_res_Inr_iff split: prod.splits if_splits)

end
