(* ===== verification/Supabase_Rest.thy ===== *)
theory Supabase_Rest
  imports Http_Json Signing
begin

text \<open>
  The client of the database's REST interface, \<open>app/db/client.py\<close>. The database is outside the program: a request
  is answered by a field of the environment, from the database it finds and with the database it leaves. The state
  has the database, the number of clock readings and ids so far, and the requests in the order they were sent.
\<close>

section \<open>Settings and requests\<close>

record supabase_settings =
  supabase_url :: string
  supabase_anon_key :: string
  supabase_service_role_key :: string
  supabase_db_url :: string
  supabase_db_host :: string
  supabase_db_port :: int
  supabase_db_name :: string
  supabase_db_user :: string
  supabase_db_password :: string

datatype http_method = GET | POST | PATCH | DELETE

record rest_request =
  rq_method :: http_method
  rq_url :: string
  rq_headers :: "(string, string) pydict"
  rq_params :: "(string, string) pydict"
  rq_json :: "jdict option"

record 'db rest_env =
  re_settings :: supabase_settings
  re_request :: "rest_request \<Rightarrow> 'db \<Rightarrow> http_response option \<times> 'db"
  re_clock :: "nat \<Rightarrow> time"
  re_uuid :: "nat \<Rightarrow> string"
  re_stable_uuid :: "string \<Rightarrow> string"
  re_billing_month :: "nat \<Rightarrow> string"
  re_codec :: codec
  re_float_of_str :: "string \<Rightarrow> rat option"
  re_fromisoformat :: "string \<Rightarrow> time option"

record 'db rest_world =
  rw_db :: 'db
  rw_calls :: nat
  rw_sent :: "rest_request list"

section \<open>\<open>SupabaseClient\<close>\<close>

definition rstrip_slash :: "string \<Rightarrow> string" where
  "rstrip_slash s = rev (dropWhile (\<lambda>c. c = CHR ''/'') (rev s))"

definition client_base_url :: "supabase_settings \<Rightarrow> string" where
  "client_base_url st = rstrip_slash (supabase_url st)"

definition is_configured :: "supabase_settings \<Rightarrow> bool" where
  "is_configured st = (client_base_url st \<noteq> [] \<and> supabase_anon_key st \<noteq> [])"

definition rest_headers :: "string \<Rightarrow> string \<Rightarrow> (string, string) pydict" where
  "rest_headers key token =
     [(''apikey'', key), (''Authorization'', ''Bearer '' @ token), (''Content-Type'', ''application/json''),
      (''Prefer'', ''return=representation'')]"

definition user_scoped_headers :: "supabase_settings \<Rightarrow> string \<Rightarrow> (string, string) pydict result" where
  "user_scoped_headers st token =
     (if \<not> is_configured st then Inl (ValueError ''Supabase configuration is required'')
      else Inr (rest_headers (supabase_anon_key st) token))"

definition service_role_headers :: "supabase_settings \<Rightarrow> (string, string) pydict result" where
  "service_role_headers st =
     (if client_base_url st = [] \<or> supabase_service_role_key st = []
      then Inl (ValueError ''Supabase service role configuration is required'')
      else Inr (rest_headers (supabase_service_role_key st) (supabase_service_role_key st)))"

text \<open>\<open>urllib.parse.quote_plus\<close>: as \<open>quote\<close>, with a plus sign for a space\<close>

definition quote_plus :: "string \<Rightarrow> string" where
  "quote_plus s = map (\<lambda>c. if c = CHR '' '' then CHR ''+'' else c) (quote '' '' s)"

definition direct_db_dsn :: "supabase_settings \<Rightarrow> string result" where
  "direct_db_dsn st =
     (if supabase_db_url st \<noteq> [] then Inr (supabase_db_url st)
      else if supabase_db_host st = [] \<or> supabase_db_port st = 0 \<or> supabase_db_name st = [] \<or> supabase_db_user st = [] \<or>
        supabase_db_password st = []
      then Inl (ValueError ''Supabase direct database configuration is required'')
      else Inr (''postgresql://'' @ supabase_db_user st @ '':'' @ quote_plus (supabase_db_password st) @ ''@'' @
        supabase_db_host st @ '':'' @ dec_int (supabase_db_port st) @ ''/'' @ supabase_db_name st @ ''?sslmode=require''))"

definition rest_url :: "supabase_settings \<Rightarrow> string \<Rightarrow> string result" where
  "rest_url st table_name =
     (if client_base_url st = [] then Inl (ValueError ''Supabase configuration is required'')
      else Inr (client_base_url st @ ''/rest/v1/'' @ table_name))"

definition require_rest_headers :: "(string, string) pydict option \<Rightarrow> (string, string) pydict result" where
  "require_rest_headers h =
     (case h of None \<Rightarrow> Inl (ValueError ''Explicit REST headers are required.'') | Some hs \<Rightarrow> Inr hs)"

text \<open>One reading of the clock or one new id; one request to the database.\<close>

definition tick :: "(nat \<Rightarrow> 'a) \<Rightarrow> ('db rest_world, 'a) prog" where
  "tick f = (\<lambda>s. (Inr (f (rw_calls s)), s\<lparr>rw_calls := Suc (rw_calls s)\<rparr>))"

definition send :: "'db rest_env \<Rightarrow> rest_request \<Rightarrow> ('db rest_world, http_response option) prog" where
  "send env rq = (\<lambda>s. case re_request env rq (rw_db s) of
     (r, db) \<Rightarrow> (Inr r, s\<lparr>rw_db := db, rw_sent := rw_sent s @ [rq]\<rparr>))"

definition send_json :: "'db rest_env \<Rightarrow> rest_request \<Rightarrow> ('db rest_world, json) prog" where
  "send_json env rq = bindE (send env rq) (\<lambda>r. liftR (json_response r))"

definition rest_select ::
  "'db rest_env \<Rightarrow> string \<Rightarrow> (string, string) pydict \<Rightarrow> (string, string) pydict option \<Rightarrow> ('db rest_world, json) prog" where
  "rest_select env table_name params headers =
     bindE (liftR (require_rest_headers headers)) (\<lambda>hs.
     bindE (liftR (rest_url (re_settings env) table_name)) (\<lambda>url.
     send_json env \<lparr>rq_method = GET, rq_url = url, rq_headers = hs, rq_params = params, rq_json = None\<rparr>))"

definition rest_insert ::
  "'db rest_env \<Rightarrow> string \<Rightarrow> jdict \<Rightarrow> (string, string) pydict option \<Rightarrow> ('db rest_world, json) prog" where
  "rest_insert env table_name body headers =
     bindE (liftR (require_rest_headers headers)) (\<lambda>hs.
     bindE (liftR (rest_url (re_settings env) table_name)) (\<lambda>url.
     send_json env \<lparr>rq_method = POST, rq_url = url, rq_headers = hs, rq_params = [], rq_json = Some body\<rparr>))"

definition rest_upsert ::
  "'db rest_env \<Rightarrow> string \<Rightarrow> jdict \<Rightarrow> string \<Rightarrow> (string, string) pydict option \<Rightarrow> ('db rest_world, json) prog" where
  "rest_upsert env table_name body on_conflict headers =
     bindE (liftR (require_rest_headers headers)) (\<lambda>hs.
     bindE (liftR (rest_url (re_settings env) table_name)) (\<lambda>url.
     send_json env \<lparr>rq_method = POST, rq_url = url,
       rq_headers = dset ''Prefer'' ''resolution=merge-duplicates,return=representation'' hs,
       rq_params = [(''on_conflict'', on_conflict)], rq_json = Some body\<rparr>))"

definition rest_update ::
  "'db rest_env \<Rightarrow> string \<Rightarrow> jdict \<Rightarrow> (string, string) pydict \<Rightarrow> (string, string) pydict option \<Rightarrow>
   ('db rest_world, json) prog" where
  "rest_update env table_name body params headers =
     bindE (liftR (require_rest_headers headers)) (\<lambda>hs.
     bindE (liftR (rest_url (re_settings env) table_name)) (\<lambda>url.
     send_json env \<lparr>rq_method = PATCH, rq_url = url, rq_headers = hs, rq_params = params, rq_json = Some body\<rparr>))"

definition rest_delete ::
  "'db rest_env \<Rightarrow> string \<Rightarrow> (string, string) pydict \<Rightarrow> (string, string) pydict option \<Rightarrow> ('db rest_world, unit) prog" where
  "rest_delete env table_name params headers =
     bindE (liftR (require_rest_headers headers)) (\<lambda>hs.
     bindE (liftR (rest_url (re_settings env) table_name)) (\<lambda>url.
     bindE (send env \<lparr>rq_method = DELETE, rq_url = url, rq_headers = dset ''Prefer'' ''return=minimal'' hs,
       rq_params = params, rq_json = None\<rparr>) (\<lambda>r.
     bindE (liftR (raise_for_status r)) (\<lambda>_. ret ()))))"

text \<open>The same with the service role's key.\<close>

definition with_service_role ::
  "'db rest_env \<Rightarrow> ((string, string) pydict option \<Rightarrow> ('db rest_world, 'a) prog) \<Rightarrow> ('db rest_world, 'a) prog" where
  "with_service_role env m = bindE (liftR (service_role_headers (re_settings env))) (\<lambda>hs. m (Some hs))"

definition rest_select_service_role ::
  "'db rest_env \<Rightarrow> string \<Rightarrow> (string, string) pydict \<Rightarrow> ('db rest_world, json) prog" where
  "rest_select_service_role env table_name params = with_service_role env (rest_select env table_name params)"

definition rest_insert_service_role :: "'db rest_env \<Rightarrow> string \<Rightarrow> jdict \<Rightarrow> ('db rest_world, json) prog" where
  "rest_insert_service_role env table_name body = with_service_role env (rest_insert env table_name body)"

definition rest_upsert_service_role :: "'db rest_env \<Rightarrow> string \<Rightarrow> jdict \<Rightarrow> string \<Rightarrow> ('db rest_world, json) prog" where
  "rest_upsert_service_role env table_name body on_conflict =
     with_service_role env (rest_upsert env table_name body on_conflict)"

definition rest_update_service_role ::
  "'db rest_env \<Rightarrow> string \<Rightarrow> jdict \<Rightarrow> (string, string) pydict \<Rightarrow> ('db rest_world, json) prog" where
  "rest_update_service_role env table_name body params = with_service_role env (rest_update env table_name body params)"

definition rest_delete_service_role ::
  "'db rest_env \<Rightarrow> string \<Rightarrow> (string, string) pydict \<Rightarrow> ('db rest_world, unit) prog" where
  "rest_delete_service_role env table_name params = with_service_role env (rest_delete env table_name params)"

definition sb_auth_user :: "'db rest_env \<Rightarrow> string \<Rightarrow> ('db rest_world, json) prog" where
  "sb_auth_user env token =
     bindE (liftR (user_scoped_headers (re_settings env) token)) (\<lambda>hs.
     send_json env \<lparr>rq_method = GET, rq_url = client_base_url (re_settings env) @ ''/auth/v1/user'', rq_headers = hs,
       rq_params = [], rq_json = None\<rparr>)"

definition healthcheck :: "'db rest_env \<Rightarrow> ('db rest_world, bool \<times> string) prog" where
  "healthcheck env =
     (if \<not> is_configured (re_settings env) then ret (False, ''supabase not configured'')
      else
        bindE (send env \<lparr>rq_method = GET, rq_url = client_base_url (re_settings env) @ ''/rest/v1/'',
          rq_headers = [(''apikey'', supabase_anon_key (re_settings env))], rq_params = [], rq_json = None\<rparr>) (\<lambda>r.
        case r of
          None \<Rightarrow> raise http_error
        | Some p \<Rightarrow> ret (hr_status p < 500, ''status='' @ dec_int (hr_status p))))"

definition pooling_profile :: "(string, string) pydict" where
  "pooling_profile = [(''pooler'', ''supabase-supavisor''), (''mode'', ''transaction''), (''tls_required'', ''true'')]"

definition backup_restore_profile :: "(string, string) pydict" where
  "backup_restore_profile = [(''backups'', ''managed-daily-snapshots''), (''restore'', ''point-in-time-recovery-supported'')]"

section \<open>Which repositories the program uses\<close>

text \<open>\<open>phase2_backend_name\<close>, given \<open>settings.environment\<close> and whether \<open>CHRONOS_RUN_SUPABASE_INTEGRATION\<close> is \<open>1\<close>\<close>

definition has_direct_db :: "supabase_settings \<Rightarrow> bool" where
  "has_direct_db st \<longleftrightarrow> supabase_db_url st \<noteq> [] \<or>
     supabase_db_host st \<noteq> [] \<and> supabase_db_port st \<noteq> 0 \<and> supabase_db_name st \<noteq> [] \<and> supabase_db_user st \<noteq> [] \<and>
     supabase_db_password st \<noteq> []"

definition phase2_backend_name :: "supabase_settings \<Rightarrow> string \<Rightarrow> bool \<Rightarrow> string result" where
  "phase2_backend_name st environment integration_enabled =
     (if environment = ''production'' \<and> \<not> has_direct_db st
      then Inl (RuntimeError ''Production environment requires direct Supabase database configuration.'')
      else if has_direct_db st \<and> (environment \<noteq> ''test'' \<or> integration_enabled) then Inr ''supabase''
      else Inr ''memory'')"

text \<open>Where the database is chosen, there is a connection string; production never runs on the memory.\<close>

lemma backend_has_connection:
  "phase2_backend_name st environment b = Inr ''supabase'' \<Longrightarrow> \<exists>dsn. direct_db_dsn st = Inr dsn"
  by (auto simp: phase2_backend_name_def has_direct_db_def direct_db_dsn_def split: if_splits)

lemma production_backend: "phase2_backend_name st ''production'' b \<noteq> Inr ''memory''"
  by (simp add: phase2_backend_name_def)

section \<open>What the repositories share\<close>

text \<open>\<open>_parse_job_timestamp\<close>: how \<open>datetime.fromisoformat\<close> reads a text, in UTC, is a field of the environment.\<close>

definition parse_job_timestamp :: "'db rest_env \<Rightarrow> string \<Rightarrow> time option result" where
  "parse_job_timestamp env s =
     (if s = [] then Inr None
      else (case re_fromisoformat env (concat (map (\<lambda>c. if c = CHR ''Z'' then ''+00:00'' else [c]) s)) of
              None \<Rightarrow> Inl (ValueError ''Invalid isoformat string'')
            | Some t \<Rightarrow> Inr (Some t)))"

text \<open>\<open>float(v)\<close>, \<open>_stable_uuid(v)\<close> and \<open>bool(v)\<close>\<close>

definition float_of_value :: "'db rest_env \<Rightarrow> json \<Rightarrow> json result" where
  "float_of_value env v = bind_res (to_float (re_float_of_str env) v) (\<lambda>q. Inr (JFloat q))"

definition stable_uuid :: "'db rest_env \<Rightarrow> json \<Rightarrow> json result" where
  "stable_uuid env v =
     (case v of JStr s \<Rightarrow> Inr (JStr (re_stable_uuid env s)) | _ \<Rightarrow> Inl (TypeError ''encoding without a string argument''))"

definition bool_of_value :: "json \<Rightarrow> json result" where
  "bool_of_value v = Inr (JBool (truthy v))"

definition rest_now :: "'db rest_env \<Rightarrow> ('db rest_world, json) prog" where
  "rest_now env = bindE (tick (re_clock env)) (\<lambda>t. ret (JStr (isoformat t)))"

definition eq_filter :: "string \<Rightarrow> string" where
  "eq_filter v = ''eq.'' @ v"

text \<open>\<open>if not rows: return None\<close>, then \<open>f(rows[0])\<close>; and \<open>f(rows[0])\<close> where there must be a row.\<close>

definition first_row :: "json \<Rightarrow> (json \<Rightarrow> 'a result) \<Rightarrow> ('s, 'a option) prog" where
  "first_row rows f =
     (if \<not> truthy rows then ret None
      else liftR (bind_res (first_of rows) (\<lambda>row. bind_res (f row) (\<lambda>d. Inr (Some d)))))"

definition the_row :: "json \<Rightarrow> (json \<Rightarrow> 'a result) \<Rightarrow> ('s, 'a) prog" where
  "the_row rows f = liftR (bind_res (first_of rows) f)"

text \<open>\<open>_request_patch\<close> on a dictionary: a key whose value is \<open>None\<close> is left out unless it may be null.\<close>

definition request_patch_dict :: "string list \<Rightarrow> jdict \<Rightarrow> jdict" where
  "request_patch_dict nullable d = filter (\<lambda>(k, v). v \<noteq> JNull \<or> k \<in> set nullable) d"

end
