(* ===== verification/Supabase_Repositories.thy ===== *)
theory Supabase_Repositories
  imports Fingerprint Supabase_Rest
begin

text \<open>
  The repositories of accounts, uploads and previews over REST: the branches of \<open>_SupabaseUserProfileRepository\<close>,
  \<open>_SupabaseUsageRepository\<close>, \<open>_SupabaseBillingAccountRepository\<close>, \<open>_SupabaseUploadRepository\<close> and
  \<open>_SupabasePreviewSessionRepository\<close> of \<open>app/db/phase2_store.py\<close> that send the caller's access token. A row is
  whatever JSON the database answers; a payload is the dictionary that is sent.
\<close>

abbreviation "text_or_null x \<equiv> opt_json JStr x"
abbreviation "int_or_null x \<equiv> opt_json JInt x"

text \<open>\<open>x or d\<close>\<close>

definition or_default :: "string option \<Rightarrow> string \<Rightarrow> string" where
  "or_default x d = (case x of Some (c # cs) \<Rightarrow> c # cs | _ \<Rightarrow> d)"

section \<open>User profiles\<close>

definition row_to_profile :: "json \<Rightarrow> jdict result" where
  "row_to_profile row = display
     [(''user_id'', item_of row ''external_user_id''), (''email'', item_of row ''email''), (''role'', item_of row ''role''),
      (''plan_tier'', get_with row ''plan_tier'' (JStr ''hobbyist'')), (''org_id'', get_with row ''org_id'' (JStr ''org-default'')),
      (''display_name'', get_of row ''display_name''), (''avatar_url'', get_of row ''avatar_url''),
      (''preferences'', get_or row ''preferences'' (JObj []))]"

definition sb_profile_get_or_create ::
  "'db rest_env \<Rightarrow> string \<Rightarrow> string \<Rightarrow> string \<Rightarrow> string \<Rightarrow> string \<Rightarrow> string option \<Rightarrow> ('db rest_world, jdict) prog" where
  "sb_profile_get_or_create env token user role plan org email =
     bindE (liftR (user_scoped_headers (re_settings env) token)) (\<lambda>hs.
     bindE (rest_select env ''user_profiles''
       [(''select'', ''*''), (''external_user_id'', eq_filter user), (''limit'', ''1'')] (Some hs)) (\<lambda>existing.
     if truthy existing then the_row existing row_to_profile
     else
       bindE (rest_now env) (\<lambda>now.
       bindE (rest_insert env ''user_profiles''
         [(''id'', JStr user), (''external_user_id'', JStr user),
          (''email'', JStr (or_default email (user @ ''@example.com''))), (''role'', JStr role),
          (''plan_tier'', JStr plan), (''org_id'', JStr org), (''display_name'', JNull), (''avatar_url'', JNull),
          (''preferences'', JObj []), (''updated_at'', now)] (Some hs)) (\<lambda>rows.
       the_row rows row_to_profile))))"

definition sb_profile_update :: "'db rest_env \<Rightarrow> string \<Rightarrow> string \<Rightarrow> jdict \<Rightarrow> ('db rest_world, jdict) prog" where
  "sb_profile_update env token user patch =
     bindE (liftR (user_scoped_headers (re_settings env) token)) (\<lambda>hs.
     bindE (rest_now env) (\<lambda>now.
     let body = request_patch_dict []
       [(''display_name'', jget patch ''display_name''), (''avatar_url'', jget patch ''avatar_url''),
        (''preferences'', jget patch ''preferences''), (''updated_at'', now)] in
     bindE (rest_update env ''user_profiles'' body [(''id'', eq_filter user), (''select'', ''*'')] (Some hs)) (\<lambda>rows.
     the_row rows row_to_profile)))"

section \<open>Monthly usage\<close>

definition row_to_usage :: "json \<Rightarrow> jdict result" where
  "row_to_usage row = display
     [(''user_id'', item_of row ''external_user_id''), (''plan_tier'', item_of row ''plan_tier''),
      (''used_minutes'', item_of row ''used_minutes''), (''monthly_limit_minutes'', item_of row ''monthly_limit_minutes''),
      (''estimated_next_job_minutes'', get_with row ''estimated_next_job_minutes'' (JInt 0)),
      (''threshold_alerts'', get_or row ''threshold_alerts'' (JList [])),
      (''overage_approval_scope'', get_of row ''approval_scope''),
      (''approved_for_minutes'', get_with row ''approved_overage_minutes'' (JInt 0))]"

text \<open>\<open>row.get("plan_tier") != plan_tier or int(row.get("monthly_limit_minutes", 0) or 0) != limit\<close>\<close>

definition usage_differs :: "json \<Rightarrow> string \<Rightarrow> int \<Rightarrow> bool result" where
  "usage_differs row plan limit =
     bind_res (get_of row ''plan_tier'') (\<lambda>p.
     if p \<noteq> JStr plan then Inr True
     else bind_res (get_with row ''monthly_limit_minutes'' (JInt 0)) (\<lambda>m.
       bind_res (int_of_value (jor m (JInt 0))) (\<lambda>i. Inr (i \<noteq> JInt limit))))"

definition sb_usage_get_or_create ::
  "'db rest_env \<Rightarrow> string \<Rightarrow> string \<Rightarrow> string \<Rightarrow> int \<Rightarrow> ('db rest_world, jdict) prog" where
  "sb_usage_get_or_create env token user plan limit =
     bindE (tick (re_billing_month env)) (\<lambda>month.
     bindE (liftR (user_scoped_headers (re_settings env) token)) (\<lambda>hs.
     bindE (rest_select env ''user_usage_monthly''
       [(''select'', ''*''), (''external_user_id'', eq_filter user), (''billing_month'', eq_filter month), (''limit'', ''1'')]
       (Some hs)) (\<lambda>rows.
     if truthy rows then
       bindE (liftR (first_of rows)) (\<lambda>row.
       bindE (liftR (usage_differs row plan limit)) (\<lambda>differs.
       if differs then
         bindE (rest_now env) (\<lambda>now.
         bindE (rest_update env ''user_usage_monthly''
           [(''plan_tier'', JStr plan), (''monthly_limit_minutes'', JInt limit), (''updated_at'', now)]
           [(''external_user_id'', eq_filter user), (''billing_month'', eq_filter month), (''select'', ''*'')] (Some hs)) (\<lambda>updated.
         the_row updated row_to_usage))
       else liftR (row_to_usage row)))
     else
       bindE (tick (re_uuid env)) (\<lambda>new_id.
       bindE (rest_now env) (\<lambda>now.
       bindE (rest_insert env ''user_usage_monthly''
         [(''id'', JStr new_id), (''owner_user_id'', JStr user), (''external_user_id'', JStr user),
          (''billing_month'', JStr month), (''plan_tier'', JStr plan), (''used_minutes'', JInt 0),
          (''monthly_limit_minutes'', JInt limit), (''estimated_next_job_minutes'', JInt 0),
          (''approved_overage_minutes'', JInt 0), (''approval_scope'', JNull), (''threshold_alerts'', JList []),
          (''updated_at'', now)] (Some hs)) (\<lambda>inserted.
       the_row inserted row_to_usage))))))"

text \<open>The columns a patch of the usage names, each taken over only when the patch has it.\<close>

definition taken_over :: "jdict \<Rightarrow> string \<Rightarrow> string \<Rightarrow> jdict" where
  "taken_over patch k column = (case dget patch k of None \<Rightarrow> [] | Some v \<Rightarrow> [(column, v)])"

definition usage_patch :: "jdict \<Rightarrow> jdict" where
  "usage_patch patch =
     taken_over patch ''used_minutes'' ''used_minutes'' @
     taken_over patch ''estimated_next_job_minutes'' ''estimated_next_job_minutes'' @
     taken_over patch ''approved_for_minutes'' ''approved_overage_minutes'' @
     taken_over patch ''overage_approval_scope'' ''approval_scope'' @
     taken_over patch ''threshold_alerts'' ''threshold_alerts''"

definition sb_usage_update :: "'db rest_env \<Rightarrow> string \<Rightarrow> string \<Rightarrow> jdict \<Rightarrow> ('db rest_world, jdict) prog" where
  "sb_usage_update env token user patch =
     bindE (tick (re_billing_month env)) (\<lambda>month.
     bindE (liftR (user_scoped_headers (re_settings env) token)) (\<lambda>hs.
     bindE (rest_now env) (\<lambda>now.
     bindE (rest_update env ''user_usage_monthly'' ((''updated_at'', now) # usage_patch patch)
       [(''external_user_id'', eq_filter user), (''billing_month'', eq_filter month), (''select'', ''*'')] (Some hs)) (\<lambda>rows.
     the_row rows row_to_usage))))"

section \<open>Billing accounts\<close>

definition billing_account_from_row :: "json \<Rightarrow> jdict result" where
  "billing_account_from_row row = display
     [(''id'', item_of row ''id''),
      (''owner_user_id'', or_else (get_of row ''external_owner_user_id'') (get_of row ''owner_user_id'')),
      (''org_id'', get_with row ''org_id'' (JStr ''org-default'')), (''stripe_customer_id'', get_of row ''stripe_customer_id''),
      (''stripe_subscription_id'', get_of row ''stripe_subscription_id''),
      (''subscription_status'', get_of row ''subscription_status''),
      (''subscription_price_id'', get_of row ''subscription_price_id''),
      (''subscription_price_usd'', get_of row ''subscription_price_usd''),
      (''included_minutes_monthly'', get_of row ''included_minutes_monthly''),
      (''overage_price_id'', get_of row ''overage_price_id''),
      (''overage_rate_usd_per_minute'', get_of row ''overage_rate_usd_per_minute''),
      (''museum_quote_id'', get_of row ''museum_quote_id''), (''museum_quote_status'', get_of row ''museum_quote_status''),
      (''museum_quote_pricing'', get_or row ''museum_quote_pricing'' (JObj [])),
      (''recent_invoices'', get_or row ''recent_invoices'' (JList [])), (''last_synced_at'', get_of row ''last_synced_at''),
      (''created_at'', item_of row ''created_at''),
      (''updated_at'', or_else (get_of row ''updated_at'') (item_of row ''created_at''))]"

definition sb_billing_get_by_org :: "'db rest_env \<Rightarrow> string \<Rightarrow> string \<Rightarrow> ('db rest_world, jdict option) prog" where
  "sb_billing_get_by_org env token org =
     bindE (liftR (user_scoped_headers (re_settings env) token)) (\<lambda>hs.
     bindE (rest_select env ''billing_accounts'' [(''select'', ''*''), (''org_id'', eq_filter org), (''limit'', ''1'')] (Some hs)) (\<lambda>rows.
     first_row rows billing_account_from_row))"

section \<open>Upload sessions\<close>

definition upload_access_token :: "string option \<Rightarrow> string result" where
  "upload_access_token token =
     (case token of Some (c # cs) \<Rightarrow> Inr (c # cs)
      | _ \<Rightarrow> Inl (ValueError ''Upload routes require an end-user access token.''))"

text \<open>The headers of a request that needs the caller's token.\<close>

definition token_headers ::
  "'db rest_env \<Rightarrow> string result \<Rightarrow> ('db rest_world, (string, string) pydict) prog" where
  "token_headers env token = liftR (bind_res token (user_scoped_headers (re_settings env)))"

definition session_from_row :: "json \<Rightarrow> jdict result" where
  "session_from_row row = display
     [(''upload_id'', item_of row ''external_upload_id''), (''owner_user_id'', item_of row ''external_user_id''),
      (''org_id'', item_of row ''org_id''), (''original_filename'', item_of row ''original_filename''),
      (''mime_type'', item_of row ''mime_type''), (''size_bytes'', item_of row ''size_bytes''),
      (''checksum_sha256'', get_of row ''checksum_sha256''), (''bucket_name'', item_of row ''bucket_name''),
      (''object_path'', item_of row ''object_path''), (''media_uri'', item_of row ''media_uri''),
      (''resumable_session_url'', item_of row ''resumable_session_url''), (''status'', item_of row ''status''),
      (''detection_snapshot'', get_or row ''detection_snapshot'' (JObj [])),
      (''launch_config'', get_or row ''launch_config'' (JObj [])), (''configured_at'', get_of row ''configured_at''),
      (''created_at'', item_of row ''created_at''), (''updated_at'', item_of row ''updated_at''),
      (''completed_at'', get_of row ''completed_at'')]"

definition sb_create_session ::
  "'db rest_env \<Rightarrow> string option \<Rightarrow> string \<Rightarrow> string \<Rightarrow> string \<Rightarrow> string \<Rightarrow> string \<Rightarrow> int \<Rightarrow> string option \<Rightarrow> string \<Rightarrow>
   string \<Rightarrow> string \<Rightarrow> ('db rest_world, jdict) prog" where
  "sb_create_session env token uid user org filename mime sz checksum bucket path url =
     bindE (token_headers env (upload_access_token token)) (\<lambda>hs.
     bindE (rest_now env) (\<lambda>now.
     bindE (rest_upsert env ''upload_sessions''
       [(''id'', JStr (re_stable_uuid env uid)), (''owner_user_id'', JStr user), (''external_user_id'', JStr user),
        (''external_upload_id'', JStr uid), (''org_id'', JStr org), (''original_filename'', JStr filename),
        (''mime_type'', JStr mime), (''size_bytes'', JInt sz), (''checksum_sha256'', text_or_null checksum),
        (''bucket_name'', JStr bucket), (''object_path'', JStr path),
        (''media_uri'', JStr (''gs://'' @ bucket @ ''/'' @ path)), (''resumable_session_url'', JStr url),
        (''status'', JStr ''pending''), (''detection_snapshot'', JObj []), (''launch_config'', JObj []),
        (''configured_at'', JNull), (''updated_at'', now)] ''external_upload_id'' (Some hs)) (\<lambda>rows.
     the_row rows session_from_row)))"

text \<open>The filter on the owner, where one is asked for.\<close>

definition owner_filter :: "string option \<Rightarrow> (string, string) pydict" where
  "owner_filter user = (case user of Some (c # cs) \<Rightarrow> [(''external_user_id'', eq_filter (c # cs))] | _ \<Rightarrow> [])"

definition sb_get_session ::
  "'db rest_env \<Rightarrow> string option \<Rightarrow> string \<Rightarrow> string option \<Rightarrow> ('db rest_world, jdict option) prog" where
  "sb_get_session env token uid user =
     bindE (token_headers env (upload_access_token token)) (\<lambda>hs.
     bindE (rest_select env ''upload_sessions''
       ([(''select'', ''*''), (''external_upload_id'', eq_filter uid), (''limit'', ''1'')] @ owner_filter user) (Some hs)) (\<lambda>rows.
     first_row rows session_from_row))"

definition session_patch :: "jdict \<Rightarrow> json \<Rightarrow> jdict" where
  "session_patch patch now = request_patch_dict [''completed_at'']
     [(''status'', jget patch ''status''), (''checksum_sha256'', jget patch ''checksum_sha256''),
      (''size_bytes'', jget patch ''size_bytes''), (''completed_at'', jget patch ''completed_at''),
      (''resumable_session_url'', jget patch ''resumable_session_url''),
      (''detection_snapshot'', jget patch ''detection_snapshot''), (''launch_config'', jget patch ''launch_config''),
      (''configured_at'', jget patch ''configured_at''), (''updated_at'', now)]"

definition sb_update_session ::
  "'db rest_env \<Rightarrow> string option \<Rightarrow> string \<Rightarrow> string \<Rightarrow> jdict \<Rightarrow> ('db rest_world, jdict option) prog" where
  "sb_update_session env token uid user patch =
     bindE (rest_now env) (\<lambda>now.
     bindE (token_headers env (upload_access_token token)) (\<lambda>hs.
     bindE (rest_update env ''upload_sessions'' (session_patch patch now)
       [(''external_upload_id'', eq_filter uid), (''external_user_id'', eq_filter user), (''select'', ''*'')] (Some hs)) (\<lambda>rows.
     first_row rows session_from_row)))"

definition pointer_from_row :: "json \<Rightarrow> jdict result" where
  "pointer_from_row row = display
     [(''id'', item_of row ''id''), (''upload_id'', item_of row ''external_upload_id''),
      (''owner_user_id'', item_of row ''external_user_id''), (''org_id'', item_of row ''org_id''),
      (''bucket_name'', item_of row ''bucket_name''), (''object_path'', item_of row ''object_path''),
      (''original_filename'', get_with row ''original_filename'' (JStr [])), (''mime_type'', get_with row ''mime_type'' (JStr [])),
      (''size_bytes'', get_with row ''size_bytes'' (JInt 0)), (''checksum_sha256'', get_of row ''checksum_sha256''),
      (''classification_label'', get_with row ''classification_label'' (JStr ''Confidential'')),
      (''retention_days'', get_of row ''retention_days''), (''retention_expires_at'', get_of row ''retention_expires_at''),
      (''classification_policy_version'', get_with row ''classification_policy_version'' (JStr ''v0-backfill'')),
      (''created_at'', item_of row ''created_at'')]"

definition sb_upsert_pointer ::
  "'db rest_env \<Rightarrow> string option \<Rightarrow> string \<Rightarrow> string \<Rightarrow> string \<Rightarrow> string \<Rightarrow> string \<Rightarrow> string \<Rightarrow> string \<Rightarrow> int \<Rightarrow>
   string option \<Rightarrow> string option \<Rightarrow> int option \<Rightarrow> string option \<Rightarrow> string option \<Rightarrow> ('db rest_world, jdict) prog" where
  "sb_upsert_pointer env token uid user org bucket path filename mime sz checksum label keep_days expires version =
     bindE (token_headers env (upload_access_token token)) (\<lambda>hs.
     bindE (rest_upsert env ''gcs_object_pointers''
       [(''id'', JStr (re_stable_uuid env (''pointer:'' @ uid))), (''owner_user_id'', JStr user),
        (''external_user_id'', JStr user), (''external_upload_id'', JStr uid), (''org_id'', JStr org),
        (''bucket_name'', JStr bucket), (''object_path'', JStr path), (''original_filename'', JStr filename),
        (''mime_type'', JStr mime), (''size_bytes'', JInt sz), (''checksum_sha256'', text_or_null checksum),
        (''classification_label'', JStr (or_default label ''Confidential'')), (''retention_days'', int_or_null keep_days),
        (''retention_expires_at'', text_or_null expires),
        (''classification_policy_version'', JStr (or_default version ''v0-backfill''))] ''external_upload_id'' (Some hs)) (\<lambda>rows.
     the_row rows pointer_from_row))"

section \<open>Preview sessions\<close>

definition preview_access_token :: "string option \<Rightarrow> string result" where
  "preview_access_token token =
     (case token of Some (c # cs) \<Rightarrow> Inr (c # cs)
      | _ \<Rightarrow> Inl (ValueError ''Preview routes require an end-user access token.''))"

definition cache_fingerprint_of :: "'db rest_env \<Rightarrow> json \<Rightarrow> json result" where
  "cache_fingerprint_of env v =
     (case v of
        JObj d \<Rightarrow> bind_res (preview_configuration_cache_fingerprint (re_codec env) d) (\<lambda>f. Inr (text_or_null f))
      | _ \<Rightarrow> Inr JNull)"

definition preview_from_row :: "'db rest_env \<Rightarrow> json \<Rightarrow> jdict result" where
  "preview_from_row env row =
     bind_res (get_or row ''job_payload_preview'' (JObj [])) (\<lambda>job_payload. display
     [(''preview_id'', item_of row ''external_preview_id''), (''upload_id'', item_of row ''external_upload_id''),
      (''owner_user_id'', item_of row ''external_user_id''), (''org_id'', item_of row ''org_id''), (''status'', item_of row ''status''),
      (''configured_at_snapshot'', get_of row ''configured_at_snapshot''),
      (''configuration_fingerprint'', item_of row ''configuration_fingerprint''),
      (''configuration_cache_fingerprint'',
        or_else (get_of row ''configuration_cache_fingerprint'') (cache_fingerprint_of env job_payload)),
      (''review_status'', get_with row ''review_status'' (JStr ''pending'')), (''reviewed_at'', get_of row ''reviewed_at''),
      (''launch_status'', get_with row ''launch_status'' (JStr ''not_launched'')),
      (''launched_job_id'', bind_res (get_of row ''launched_job_id'') (\<lambda>v.
        if truthy v then bind_res (item_of row ''launched_job_id'') (\<lambda>w. Inr (JStr (py_str (re_codec env) w))) else Inr JNull)),
      (''launched_external_job_id'', get_of row ''launched_external_job_id''), (''launched_at'', get_of row ''launched_at''),
      (''source_asset_checksum'', item_of row ''source_asset_checksum''), (''cache_key'', item_of row ''cache_key''),
      (''job_payload_preview'', Inr job_payload), (''selection_mode'', item_of row ''selection_mode''),
      (''scene_diversity'', bind_res (get_with row ''scene_diversity'' (JFloat 0)) (\<lambda>v. float_of_value env (jor v (JFloat 0)))),
      (''keyframe_count'', bind_res (get_with row ''keyframe_count'' (JInt 0)) (\<lambda>v. int_of_value (jor v (JInt 0)))),
      (''estimated_cost_summary'', get_or row ''estimated_cost_summary'' (JObj [])),
      (''estimated_processing_time_seconds'',
        bind_res (get_with row ''estimated_processing_time_seconds'' (JInt 0)) (\<lambda>v. int_of_value (jor v (JInt 0)))),
      (''keyframes'', get_or row ''keyframes'' (JList [])), (''preview_root_uri'', item_of row ''preview_root_uri''),
      (''expires_at'', item_of row ''expires_at''), (''deleted_at'', get_of row ''deleted_at''),
      (''created_at'', item_of row ''created_at''),
      (''updated_at'', or_else (get_of row ''updated_at'') (item_of row ''created_at''))])"

definition preview_row_of :: "'db rest_env \<Rightarrow> jdict \<Rightarrow> jdict result" where
  "preview_row_of env p = display
     [(''id'', bind_res (jitem p ''preview_id'') (stable_uuid env)), (''owner_user_id'', jitem p ''owner_user_id''),
      (''external_user_id'', jitem p ''owner_user_id''),
      (''upload_session_id'', bind_res (jitem p ''upload_id'') (stable_uuid env)),
      (''external_upload_id'', jitem p ''upload_id''), (''external_preview_id'', jitem p ''preview_id''),
      (''org_id'', jitem p ''org_id''), (''status'', jitem p ''status''),
      (''configured_at_snapshot'', Inr (jget p ''configured_at_snapshot'')),
      (''configuration_fingerprint'', jitem p ''configuration_fingerprint''),
      (''configuration_cache_fingerprint'', Inr (jget p ''configuration_cache_fingerprint'')),
      (''review_status'', Inr (get_default p ''review_status'' (JStr ''pending''))),
      (''reviewed_at'', Inr (jget p ''reviewed_at'')),
      (''launch_status'', Inr (get_default p ''launch_status'' (JStr ''not_launched''))),
      (''launched_job_id'', Inr (jget p ''launched_job_id'')),
      (''launched_external_job_id'', Inr (jget p ''launched_external_job_id'')),
      (''launched_at'', Inr (jget p ''launched_at'')), (''source_asset_checksum'', jitem p ''source_asset_checksum''),
      (''cache_key'', jitem p ''cache_key''), (''job_payload_preview'', Inr (jor (jget p ''job_payload_preview'') (JObj []))),
      (''selection_mode'', jitem p ''selection_mode''), (''scene_diversity'', jitem p ''scene_diversity''),
      (''keyframe_count'', jitem p ''keyframe_count''),
      (''estimated_cost_summary'', Inr (jor (jget p ''estimated_cost_summary'') (JObj []))),
      (''estimated_processing_time_seconds'', jitem p ''estimated_processing_time_seconds''),
      (''keyframes'', Inr (jor (jget p ''keyframes'') (JList []))), (''preview_root_uri'', jitem p ''preview_root_uri''),
      (''expires_at'', jitem p ''expires_at''), (''deleted_at'', Inr (jget p ''deleted_at''))]"

definition sb_create_preview :: "'db rest_env \<Rightarrow> string option \<Rightarrow> jdict \<Rightarrow> ('db rest_world, jdict) prog" where
  "sb_create_preview env token p =
     bindE (token_headers env (preview_access_token token)) (\<lambda>hs.
     bindE (liftR (preview_row_of env p)) (\<lambda>body.
     bindE (rest_now env) (\<lambda>now.
     bindE (rest_upsert env ''preview_sessions'' (body @ [(''updated_at'', now)]) ''external_preview_id'' (Some hs)) (\<lambda>rows.
     the_row rows (preview_from_row env)))))"

definition sb_get_preview ::
  "'db rest_env \<Rightarrow> string option \<Rightarrow> string \<Rightarrow> string option \<Rightarrow> ('db rest_world, jdict option) prog" where
  "sb_get_preview env token pid user =
     bindE (token_headers env (preview_access_token token)) (\<lambda>hs.
     bindE (rest_select env ''preview_sessions''
       ([(''select'', ''*''), (''external_preview_id'', eq_filter pid), (''limit'', ''1'')] @ owner_filter user) (Some hs)) (\<lambda>rows.
     first_row rows (preview_from_row env)))"

fun first_cached :: "'db rest_env \<Rightarrow> string \<Rightarrow> json list \<Rightarrow> jdict option result" where
  "first_cached env fp [] = Inr None"
| "first_cached env fp (row # rows) =
     bind_res (preview_from_row env row) (\<lambda>p.
     if jget p ''configuration_cache_fingerprint'' = JStr fp then Inr (Some p) else first_cached env fp rows)"

definition sb_get_reusable_preview ::
  "'db rest_env \<Rightarrow> string option \<Rightarrow> string \<Rightarrow> string \<Rightarrow> string \<Rightarrow> ('db rest_world, jdict option) prog" where
  "sb_get_reusable_preview env token checksum fp user =
     bindE (token_headers env (preview_access_token token)) (\<lambda>hs.
     bindE (rest_select env ''preview_sessions''
       [(''select'', ''*''), (''external_user_id'', eq_filter user), (''source_asset_checksum'', eq_filter checksum),
        (''status'', ''eq.ready''), (''deleted_at'', ''is.null''), (''order'', ''created_at.desc'')] (Some hs)) (\<lambda>rows.
     if \<not> truthy rows then ret None
     else liftR (bind_res (items_of rows) (first_cached env fp))))"

definition NULLABLE_PREVIEW_KEYS :: "string list" where
  "NULLABLE_PREVIEW_KEYS = [''deleted_at'', ''reviewed_at'', ''launched_job_id'', ''launched_external_job_id'', ''launched_at'']"

definition preview_columns :: "jdict \<Rightarrow> json \<Rightarrow> jdict" where
  "preview_columns patch now =
     [(''status'', jget patch ''status''), (''expires_at'', jget patch ''expires_at''),
      (''review_status'', jget patch ''review_status''), (''reviewed_at'', jget patch ''reviewed_at''),
      (''launch_status'', jget patch ''launch_status''), (''launched_job_id'', jget patch ''launched_job_id''),
      (''launched_external_job_id'', jget patch ''launched_external_job_id''), (''launched_at'', jget patch ''launched_at''),
      (''deleted_at'', jget patch ''deleted_at''), (''updated_at'', now)]"

definition preview_patch :: "jdict \<Rightarrow> json \<Rightarrow> jdict" where
  "preview_patch patch now = request_patch_dict NULLABLE_PREVIEW_KEYS (preview_columns patch now)"

definition sb_update_preview ::
  "'db rest_env \<Rightarrow> string option \<Rightarrow> string \<Rightarrow> string \<Rightarrow> jdict \<Rightarrow> ('db rest_world, jdict option) prog" where
  "sb_update_preview env token pid user patch =
     bindE (rest_now env) (\<lambda>now.
     bindE (token_headers env (preview_access_token token)) (\<lambda>hs.
     bindE (rest_update env ''preview_sessions'' (preview_patch patch now)
       [(''external_preview_id'', eq_filter pid), (''external_user_id'', eq_filter user), (''select'', ''*'')] (Some hs)) (\<lambda>rows.
     first_row rows (preview_from_row env))))"

definition sb_claim_launch ::
  "'db rest_env \<Rightarrow> string option \<Rightarrow> string \<Rightarrow> string \<Rightarrow> string \<Rightarrow> ('db rest_world, jdict option) prog" where
  "sb_claim_launch env token pid user external =
     bindE (rest_now env) (\<lambda>now.
     bindE (token_headers env (preview_access_token token)) (\<lambda>hs.
     bindE (rest_update env ''preview_sessions''
       [(''launch_status'', JStr ''launch_pending''), (''launched_external_job_id'', JStr external), (''updated_at'', now)]
       [(''external_preview_id'', eq_filter pid), (''external_user_id'', eq_filter user),
        (''launch_status'', ''eq.not_launched''), (''select'', ''*'')] (Some hs)) (\<lambda>rows.
     first_row rows (preview_from_row env))))"

text \<open>How many launches are pending, and for how many microseconds the oldest has been.\<close>

definition pending_row :: "json \<Rightarrow> bool result" where
  "pending_row row = bind_res (get_of row ''launch_status'') (\<lambda>v. Inr (v = JStr ''launch_pending''))"

fun filter_res :: "('a \<Rightarrow> bool result) \<Rightarrow> 'a list \<Rightarrow> 'a list result" where
  "filter_res f [] = Inr []"
| "filter_res f (x # xs) = bind_res (f x) (\<lambda>b. bind_res (filter_res f xs) (\<lambda>ys. Inr (if b then x # ys else ys)))"

fun oldest_age :: "'db rest_env \<Rightarrow> time \<Rightarrow> time \<Rightarrow> json list \<Rightarrow> time result" where
  "oldest_age env now oldest [] = Inr oldest"
| "oldest_age env now oldest (row # rows) =
     bind_res (get_of row ''updated_at'') (\<lambda>v.
     bind_res (parse_job_timestamp env (str_or_empty (re_codec env) v)) (\<lambda>t.
     oldest_age env now (case t of None \<Rightarrow> oldest | Some u \<Rightarrow> max oldest (max (now - u) 0)) rows))"

definition sb_launch_pending_metrics :: "'db rest_env \<Rightarrow> json \<Rightarrow> ('db rest_world, nat \<times> time) prog" where
  "sb_launch_pending_metrics env rows =
     bindE (liftR (bind_res (items_of rows) (filter_res pending_row))) (\<lambda>pending.
     bindE (tick (re_clock env)) (\<lambda>now.
     liftR (bind_res (oldest_age env now 0 pending) (\<lambda>oldest. Inr (length pending, oldest)))))"

definition sb_launch_pending_snapshot ::
  "'db rest_env \<Rightarrow> string option \<Rightarrow> string option \<Rightarrow> ('db rest_world, nat \<times> time) prog" where
  "sb_launch_pending_snapshot env token user =
     bindE (token_headers env (preview_access_token token)) (\<lambda>hs.
     bindE (rest_select env ''preview_sessions'' ((''select'', ''launch_status,updated_at'') # owner_filter user) (Some hs)) (\<lambda>rows.
     sb_launch_pending_metrics env rows))"

end
