(* ===== verification/Supabase_Jobs.thy ===== *)
theory Supabase_Jobs
  imports Supabase_Repositories
begin

text \<open>
  The repositories of detections, settings, deletion requests, jobs and what a job leaves over REST: the branches of
  \<open>_SupabaseEraDetectionRepository\<close>, \<open>_SupabaseLogSettingsRepository\<close>, \<open>_SupabaseManifestRetentionSettingsRepository\<close>,
  \<open>_SupabaseComplianceRepository\<close>, \<open>_SupabaseJobRepository\<close>, \<open>_SupabaseManifestRepository\<close>,
  \<open>_SupabaseJobExportPackageRepository\<close> and \<open>_SupabaseJobDeletionProofRepository\<close> of \<open>app/db/phase2_store.py\<close> that
  send the caller's access token.
\<close>

abbreviation "user_headers env token \<equiv> liftR (user_scoped_headers (re_settings env) token)"

text \<open>\<open>float(row.get(k, d) or d)\<close> and \<open>int(row.get(k, d) or d)\<close>\<close>

definition float_column :: "'db rest_env \<Rightarrow> json \<Rightarrow> string \<Rightarrow> json result" where
  "float_column env row k = bind_res (get_with row k (JFloat 0)) (\<lambda>v. float_of_value env (jor v (JFloat 0)))"

definition int_column :: "json \<Rightarrow> string \<Rightarrow> int \<Rightarrow> json result" where
  "int_column row k d = bind_res (get_with row k (JInt d)) (\<lambda>v. int_of_value (jor v (JInt d)))"

section \<open>Detections\<close>

definition era_job_from_row :: "json \<Rightarrow> jdict result" where
  "era_job_from_row row = display
     [(''job_id'', item_of row ''external_job_id''), (''owner_user_id'', item_of row ''external_user_id''),
      (''org_id'', item_of row ''org_id''), (''media_uri'', item_of row ''media_uri''),
      (''original_filename'', item_of row ''original_filename''), (''mime_type'', item_of row ''mime_type''),
      (''era_profile'', item_of row ''era_profile''), (''created_at'', item_of row ''created_at'')]"

definition sb_save_job ::
  "'db rest_env \<Rightarrow> string \<Rightarrow> string \<Rightarrow> string \<Rightarrow> string \<Rightarrow> string \<Rightarrow> string \<Rightarrow> string \<Rightarrow> json \<Rightarrow> ('db rest_world, jdict) prog" where
  "sb_save_job env token jid user org uri filename mime profile =
     bindE (user_headers env token) (\<lambda>hs.
     bindE (rest_upsert env ''media_jobs''
       [(''id'', JStr (re_stable_uuid env jid)), (''external_job_id'', JStr jid), (''owner_user_id'', JStr user),
        (''external_user_id'', JStr user), (''org_id'', JStr org), (''media_uri'', JStr uri),
        (''original_filename'', JStr filename), (''mime_type'', JStr mime), (''status'', JStr ''queued''),
        (''era_profile'', profile)] ''external_job_id'' (Some hs)) (\<lambda>rows.
     the_row rows era_job_from_row))"

definition detection_row_of :: "'db rest_env \<Rightarrow> string \<Rightarrow> string \<Rightarrow> jdict \<Rightarrow> jdict result" where
  "detection_row_of env new_id jid d = display
     [(''id'', Inr (JStr new_id)), (''job_id'', Inr (JStr (re_stable_uuid env jid))), (''external_job_id'', Inr (JStr jid)),
      (''era_label'', jitem d ''era''), (''confidence'', jitem d ''confidence''),
      (''forensic_markers'', jitem d ''forensic_markers''), (''top_candidates'', Inr (get_default d ''top_candidates'' (JList []))),
      (''manual_confirmation_required'', Inr (get_default d ''manual_confirmation_required'' (JBool False))),
      (''overridden_by_user'', Inr (get_default d ''overridden_by_user'' (JBool False))),
      (''override_reason'', Inr (jget d ''override_reason'')), (''source'', jitem d ''source''),
      (''model_version'', jitem d ''model_version''), (''prompt_version'', jitem d ''prompt_version''),
      (''raw_response_gcs_uri'', Inr (jget d ''raw_response_gcs_uri'')),
      (''prompt_token_count'', Inr (get_default d ''prompt_token_count'' (JInt 0))),
      (''candidates_token_count'', Inr (get_default d ''candidates_token_count'' (JInt 0))),
      (''total_token_count'', Inr (get_default d ''total_token_count'' (JInt 0))),
      (''api_call_count'', Inr (get_default d ''api_call_count'' (JInt 0))), (''created_by'', jitem d ''created_by''),
      (''external_created_by'', Inr (jget d ''created_by''))]"

definition saved_detection_from_row :: "'db rest_env \<Rightarrow> json \<Rightarrow> jdict result" where
  "saved_detection_from_row env row = display
     [(''id'', item_of row ''id''), (''job_id'', item_of row ''external_job_id''), (''era'', item_of row ''era_label''),
      (''confidence'', bind_res (item_of row ''confidence'') (float_of_value env)),
      (''forensic_markers'', item_of row ''forensic_markers''), (''top_candidates'', get_or row ''top_candidates'' (JList [])),
      (''manual_confirmation_required'', get_with row ''manual_confirmation_required'' (JBool False)),
      (''overridden_by_user'', item_of row ''overridden_by_user''), (''override_reason'', get_of row ''override_reason''),
      (''model_version'', item_of row ''model_version''), (''prompt_version'', item_of row ''prompt_version''),
      (''source'', item_of row ''source''), (''raw_response_gcs_uri'', get_of row ''raw_response_gcs_uri''),
      (''prompt_token_count'', get_with row ''prompt_token_count'' (JInt 0)),
      (''candidates_token_count'', get_with row ''candidates_token_count'' (JInt 0)),
      (''total_token_count'', get_with row ''total_token_count'' (JInt 0)),
      (''api_call_count'', get_with row ''api_call_count'' (JInt 0)),
      (''created_by'', get_of row ''external_created_by''), (''created_at'', item_of row ''created_at'')]"

definition sb_save_detection :: "'db rest_env \<Rightarrow> string \<Rightarrow> string \<Rightarrow> jdict \<Rightarrow> ('db rest_world, jdict) prog" where
  "sb_save_detection env token jid d =
     bindE (user_headers env token) (\<lambda>hs.
     bindE (tick (re_uuid env)) (\<lambda>new_id.
     bindE (liftR (detection_row_of env new_id jid d)) (\<lambda>body.
     bindE (rest_insert env ''era_detections'' body (Some hs)) (\<lambda>rows.
     the_row rows (saved_detection_from_row env)))))"

definition detection_from_row :: "'db rest_env \<Rightarrow> json \<Rightarrow> jdict result" where
  "detection_from_row env row = display
     [(''era'', item_of row ''era_label''), (''confidence'', bind_res (item_of row ''confidence'') (float_of_value env)),
      (''forensic_markers'', item_of row ''forensic_markers''), (''top_candidates'', get_or row ''top_candidates'' (JList [])),
      (''overridden_by_user'', item_of row ''overridden_by_user''), (''override_reason'', get_of row ''override_reason''),
      (''model_version'', item_of row ''model_version''), (''prompt_version'', item_of row ''prompt_version''),
      (''source'', item_of row ''source''), (''raw_response_gcs_uri'', get_of row ''raw_response_gcs_uri''),
      (''prompt_token_count'', get_with row ''prompt_token_count'' (JInt 0)),
      (''candidates_token_count'', get_with row ''candidates_token_count'' (JInt 0)),
      (''total_token_count'', get_with row ''total_token_count'' (JInt 0)),
      (''api_call_count'', get_with row ''api_call_count'' (JInt 0)), (''created_by'', get_of row ''external_created_by''),
      (''manual_confirmation_required'', get_with row ''manual_confirmation_required'' (JBool False))]"

text \<open>\<open>{"id": ..., "job_id": ..., **detection, "created_at": ...}\<close>\<close>

definition latest_from_row :: "'db rest_env \<Rightarrow> json \<Rightarrow> jdict result" where
  "latest_from_row env row =
     bind_res (detection_from_row env row) (\<lambda>detection.
     bind_res (display [(''id'', item_of row ''id''), (''job_id'', item_of row ''external_job_id'')]) (\<lambda>front.
     bind_res (display [(''created_at'', item_of row ''created_at'')]) (\<lambda>back. Inr (front @ detection @ back))))"

definition sb_latest_detection :: "'db rest_env \<Rightarrow> string \<Rightarrow> string \<Rightarrow> ('db rest_world, jdict option) prog" where
  "sb_latest_detection env token jid =
     bindE (user_headers env token) (\<lambda>hs.
     bindE (rest_select env ''era_detections''
       [(''select'', ''*''), (''external_job_id'', eq_filter jid), (''order'', ''created_at.desc''), (''limit'', ''1'')]
       (Some hs)) (\<lambda>rows.
     first_row rows (latest_from_row env)))"

section \<open>Settings of an organisation\<close>

definition settings_access_token :: "string \<Rightarrow> string option \<Rightarrow> string result" where
  "settings_access_token what token =
     (case token of Some (c # cs) \<Rightarrow> Inr (c # cs)
      | _ \<Rightarrow> Inl (ValueError (''User-scoped access token is required for '' @ what)))"

definition log_settings_from_row :: "json result \<Rightarrow> json \<Rightarrow> jdict result" where
  "log_settings_from_row updated_by row = display
     [(''org_id'', item_of row ''org_id''), (''retention_days'', item_of row ''retention_days''),
      (''redaction_mode'', item_of row ''redaction_mode''), (''categories'', get_or row ''categories'' (JList [])),
      (''export_targets'', get_or row ''export_targets'' (JList [])), (''updated_by'', updated_by),
      (''updated_at'', item_of row ''updated_at'')]"

definition sb_log_settings_upsert ::
  "'db rest_env \<Rightarrow> string option \<Rightarrow> string \<Rightarrow> jdict \<Rightarrow> string \<Rightarrow> ('db rest_world, jdict) prog" where
  "sb_log_settings_upsert env token org d updated_by =
     bindE (token_headers env (settings_access_token ''org log settings writes.'' token)) (\<lambda>hs.
     bindE (liftR (display
       [(''org_id'', Inr (JStr org)), (''retention_days'', jitem d ''retention_days''),
        (''redaction_mode'', jitem d ''redaction_mode''), (''categories'', jitem d ''categories''),
        (''export_targets'', jitem d ''export_targets''), (''updated_by'', Inr (JStr (re_stable_uuid env updated_by))),
        (''external_updated_by'', Inr (JStr updated_by))])) (\<lambda>body.
     bindE (rest_now env) (\<lambda>now.
     bindE (rest_upsert env ''org_log_settings'' (body @ [(''updated_at'', now)]) ''org_id'' (Some hs)) (\<lambda>rows.
     the_row rows (\<lambda>row. log_settings_from_row (get_with row ''external_updated_by'' (JStr updated_by)) row)))))"

definition sb_log_settings_get :: "'db rest_env \<Rightarrow> string option \<Rightarrow> string \<Rightarrow> ('db rest_world, jdict option) prog" where
  "sb_log_settings_get env token org =
     bindE (token_headers env (settings_access_token ''org log settings reads.'' token)) (\<lambda>hs.
     bindE (rest_select env ''org_log_settings'' [(''select'', ''*''), (''org_id'', eq_filter org), (''limit'', ''1'')] (Some hs)) (\<lambda>rows.
     first_row rows (\<lambda>row. log_settings_from_row (get_of row ''external_updated_by'') row)))"

definition sb_retention_upsert ::
  "'db rest_env \<Rightarrow> string option \<Rightarrow> string \<Rightarrow> string \<Rightarrow> int option \<Rightarrow> bool \<Rightarrow> string option \<Rightarrow> ('db rest_world, jdict) prog" where
  "sb_retention_upsert env token org plan keep_days redact updated_by =
     (if lower plan \<noteq> ''museum'' then raise (ValueError ''SEC-005 manifest retention settings are Museum-tier only.'')
      else
        bindE (token_headers env (settings_access_token ''retention settings writes.'' token)) (\<lambda>hs.
        bindE (rest_now env) (\<lambda>now.
        bindE (rest_upsert env ''org_data_retention_settings''
          [(''org_id'', JStr org), (''plan_tier'', JStr ''museum''), (''manifest_retention_days'', int_or_null keep_days),
           (''manifest_redaction_enabled'', JBool redact), (''updated_by'', text_or_null updated_by), (''updated_at'', now)]
          ''org_id'' (Some hs)) (\<lambda>rows.
        the_row rows (\<lambda>row. display
          [(''org_id'', item_of row ''org_id''), (''plan_tier'', item_of row ''plan_tier''),
           (''manifest_retention_days'', get_of row ''manifest_retention_days''),
           (''manifest_redaction_enabled'', bind_res (item_of row ''manifest_redaction_enabled'') bool_of_value),
           (''updated_by'', get_with row ''updated_by'' (text_or_null updated_by)), (''created_at'', get_of row ''created_at''),
           (''updated_at'', item_of row ''updated_at'')])))))"

text \<open>
  \<open>dict(row)\<close>. A row of the database is an object; a sequence of pairs, which \<open>dict\<close> would take too, counts as
  any other sequence here.
\<close>

fun dict_of :: "json \<Rightarrow> jdict result" where
  "dict_of (JObj d) = Inr d"
| "dict_of (JList []) = Inr []"
| "dict_of (JStr []) = Inr []"
| "dict_of (JList xs) = Inl (TypeError ''cannot convert dictionary update sequence'')"
| "dict_of (JStr s) = Inl (ValueError ''dictionary update sequence element #0 has length 1; 2 is required'')"
| "dict_of v = Inl (TypeError ''object is not iterable'')"

definition sb_retention_get :: "'db rest_env \<Rightarrow> string \<Rightarrow> string option \<Rightarrow> ('db rest_world, jdict option) prog" where
  "sb_retention_get env token org =
     (case org of
        Some (c # cs) \<Rightarrow>
          bindE (user_headers env token) (\<lambda>hs.
          bindE (rest_select env ''org_data_retention_settings''
            [(''select'', ''org_id,plan_tier,manifest_retention_days,manifest_redaction_enabled,updated_by,created_at,updated_at''),
             (''org_id'', eq_filter (c # cs)), (''plan_tier'', ''eq.museum''), (''limit'', ''1'')] (Some hs)) (\<lambda>rows.
          first_row rows dict_of))
      | _ \<Rightarrow> ret None)"

section \<open>Deletion requests\<close>

text \<open>
  A proof that cannot be stored takes its request back. Taking it back may fail too: then that exception is the one
  the caller sees.
\<close>

definition len_of :: "json \<Rightarrow> int result" where
  "len_of v = (case v of JList xs \<Rightarrow> Inr (int (length xs)) | JStr s \<Rightarrow> Inr (int (length s)) | JObj d \<Rightarrow> Inr (int (length d))
     | _ \<Rightarrow> Inl (TypeError ''object has no len()''))"

definition deletion_rows ::
  "string \<Rightarrow> string \<Rightarrow> string \<Rightarrow> jdict \<Rightarrow> (jdict \<times> jdict \<times> json \<times> int) result" where
  "deletion_rows req_id proof_id user d =
     bind_res (jitem d ''categories'') (\<lambda>categories.
     bind_res (len_of categories) (\<lambda>n.
     bind_res (jitem d ''date_from'') (\<lambda>date_from.
     bind_res (jitem d ''date_to'') (\<lambda>date_to.
     let deleted_entries = max n 1 * 12 in
     Inr ([(''id'', JStr req_id), (''owner_user_id'', JStr user), (''external_user_id'', JStr user), (''categories'', categories),
           (''date_from'', date_from), (''date_to'', date_to), (''reason'', jget d ''reason''), (''status'', JStr ''completed''),
           (''deletion_proof_id'', JStr proof_id)],
          [(''id'', JStr proof_id), (''deletion_request_id'', JStr req_id), (''owner_user_id'', JStr user),
           (''external_user_id'', JStr user), (''deleted_entries'', JInt deleted_entries), (''deleted_categories'', categories)],
          categories, deleted_entries)))))"

definition sb_create_deletion_request :: "'db rest_env \<Rightarrow> string \<Rightarrow> string \<Rightarrow> jdict \<Rightarrow> ('db rest_world, jdict) prog" where
  "sb_create_deletion_request env token user d =
     bindE (user_headers env token) (\<lambda>hs.
     bindE (tick (re_uuid env)) (\<lambda>req_id.
     bindE (tick (re_uuid env)) (\<lambda>proof_id.
     bindE (liftR (deletion_rows req_id proof_id user d)) (\<lambda>(request_row, proof_row, categories, deleted_entries).
     bindE (rest_insert env ''log_deletion_requests'' request_row (Some hs)) (\<lambda>_.
     bindE (catchE (rest_insert env ''log_deletion_proofs'' proof_row (Some hs)) (\<lambda>e.
       bindE (rest_delete env ''log_deletion_requests'' [(''id'', eq_filter req_id)] (Some hs)) (\<lambda>_. raise e))) (\<lambda>_.
     bindE (rest_now env) (\<lambda>now.
     ret [(''deletion_request_id'', JStr req_id), (''deletion_proof_id'', JStr proof_id), (''user_id'', JStr user),
       (''deleted_categories'', categories), (''deleted_entries'', JInt deleted_entries), (''status'', JStr ''completed''),
       (''requested_at'', now)])))))))"

section \<open>Jobs\<close>

definition EMPTY_QUALITY :: jdict where
  "EMPTY_QUALITY = [(''e_hf'', JFloat 0), (''s_ls_db'', JFloat 0), (''t_tc'', JFloat 0), (''thresholds_met'', JBool False)]"

definition EMPTY_TIMINGS :: jdict where
  "EMPTY_TIMINGS = map (\<lambda>k. (k, JNull))
     [''upload_ms'', ''era_detection_ms'', ''queue_wait_ms'', ''allocation_ms'', ''processing_ms'', ''encoding_ms'',
      ''download_ms'', ''total_ms'']"

definition EMPTY_CACHE :: jdict where
  "EMPTY_CACHE = [(''hits'', JInt 0), (''misses'', JInt 0), (''bypassed'', JInt 0), (''degraded'', JBool False),
     (''hit_rate'', JFloat 0), (''saved_gpu_seconds'', JInt 0)]"

definition EMPTY_GPU :: jdict where
  "EMPTY_GPU = [(''gpu_type'', JNull), (''warm_start'', JNull), (''allocation_latency_ms'', JNull),
     (''gpu_runtime_seconds'', JInt 0), (''desired_warm_instances'', JInt 0), (''active_warm_instances'', JInt 0),
     (''busy_instances'', JInt 0), (''utilization_percent'', JFloat 0)]"

definition EMPTY_COST :: jdict where
  "EMPTY_COST = [(''gpu_seconds'', JInt 0), (''storage_operations'', JInt 0), (''api_calls'', JInt 0), (''total_cost_usd'', JFloat 0)]"

definition fresh_slo :: "int \<Rightarrow> bool \<Rightarrow> jdict" where
  "fresh_slo seconds museum = [(''target_total_ms'', JInt (seconds * 2000)), (''actual_total_ms'', JNull), (''p95_ratio'', JNull),
     (''compliant'', JNull), (''degraded'', JBool False), (''error_budget_burn_percent'', JFloat 0),
     (''museum_sla_applies'', JBool museum)]"

definition slo_of_row :: "json \<Rightarrow> json result" where
  "slo_of_row row =
     bind_res (int_column row ''estimated_duration_seconds'' 60) (\<lambda>v.
     bind_res (get_with row ''plan_tier'' (JStr ''hobbyist'')) (\<lambda>plan.
     Inr (JObj (fresh_slo (case v of JInt i \<Rightarrow> i | _ \<Rightarrow> 0) (plan = JStr ''museum'')))))"

definition job_from_row :: "'db rest_env \<Rightarrow> json \<Rightarrow> jdict result" where
  "job_from_row env row = display
     [(''job_id'', item_of row ''external_job_id''), (''owner_user_id'', item_of row ''external_user_id''),
      (''plan_tier'', get_with row ''plan_tier'' (JStr ''hobbyist'')), (''org_id'', item_of row ''org_id''),
      (''media_uri'', item_of row ''media_uri''), (''original_filename'', item_of row ''original_filename''),
      (''mime_type'', item_of row ''mime_type''), (''source_asset_checksum'', get_with row ''source_asset_checksum'' (JStr [])),
      (''fidelity_tier'', get_with row ''fidelity_tier'' (JStr ''Restore'')),
      (''effective_fidelity_tier'',
        bind_res (get_with row ''fidelity_tier'' (JStr ''Restore'')) (\<lambda>v. get_with row ''effective_fidelity_tier'' v)),
      (''effective_fidelity_profile'', get_or row ''effective_fidelity_profile'' (JObj [])),
      (''reproducibility_mode'', get_with row ''reproducibility_mode'' (JStr ''perceptual_equivalence'')),
      (''processing_mode'', get_with row ''processing_mode'' (JStr ''balanced'')),
      (''era_profile'', get_or row ''era_profile'' (JObj [])), (''config'', get_or row ''config'' (JObj [])),
      (''estimated_duration_seconds'', get_with row ''estimated_duration_seconds'' (JInt 60)),
      (''segment_duration_seconds'', get_with row ''segment_duration_seconds'' (JInt 10)),
      (''segment_count'', get_with row ''segment_count'' (JInt 0)),
      (''completed_segment_count'', get_with row ''completed_segment_count'' (JInt 0)),
      (''failed_segment_count'', get_with row ''failed_segment_count'' (JInt 0)),
      (''progress_percent'', float_column env row ''progress_percent''), (''eta_seconds'', int_column row ''eta_seconds'' 0),
      (''status'', item_of row ''status''), (''current_operation'', get_or row ''current_operation'' (JStr [])),
      (''progress_topic'', or_else (get_of row ''progress_topic'')
        (bind_res (item_of row ''external_job_id'') (\<lambda>v. Inr (JStr (''job_progress:'' @ py_str (re_codec env) v))))),
      (''result_uri'', get_of row ''result_uri''),
      (''manifest_available'', bind_res (get_with row ''manifest_available'' (JBool False)) bool_of_value),
      (''manifest_uri'', get_of row ''manifest_uri''), (''manifest_sha256'', get_of row ''manifest_sha256''),
      (''manifest_generated_at'', get_of row ''manifest_generated_at''),
      (''manifest_size_bytes'', get_with row ''manifest_size_bytes'' (JInt 0)),
      (''quality_summary'', get_or row ''quality_summary'' (JObj EMPTY_QUALITY)),
      (''reproducibility_summary'', get_of row ''reproducibility_summary''),
      (''stage_timings'', get_or row ''stage_timings'' (JObj EMPTY_TIMINGS)),
      (''cache_summary'', get_or row ''cache_summary'' (JObj EMPTY_CACHE)),
      (''gpu_summary'', get_or row ''gpu_summary'' (JObj EMPTY_GPU)),
      (''cost_summary'', get_or row ''cost_summary'' (JObj EMPTY_COST)),
      (''cost_estimate_summary'', get_of row ''cost_estimate_summary''),
      (''billing_pricing_snapshot'', get_or row ''billing_pricing_snapshot'' (JObj [])),
      (''cost_reconciliation_summary'', get_of row ''cost_reconciliation_summary''),
      (''slo_summary'', or_else (get_of row ''slo_summary'') (slo_of_row row)),
      (''failed_segments'', get_or row ''failed_segments'' (JList [])), (''warnings'', get_or row ''warnings'' (JList [])),
      (''last_error'', get_of row ''last_error''),
      (''queued_at'', or_else (get_of row ''queued_at'') (item_of row ''created_at'')),
      (''created_at'', item_of row ''created_at''), (''started_at'', get_of row ''started_at''),
      (''completed_at'', get_of row ''completed_at''), (''cancel_requested_at'', get_of row ''cancel_requested_at''),
      (''updated_at'', or_else (get_of row ''updated_at'') (item_of row ''created_at''))]"

definition segment_from_row :: "json \<Rightarrow> jdict result" where
  "segment_from_row row = display
     [(''job_id'', item_of row ''external_job_id''), (''segment_index'', item_of row ''segment_index''),
      (''segment_start_seconds'', item_of row ''segment_start_seconds''),
      (''segment_end_seconds'', item_of row ''segment_end_seconds''),
      (''segment_duration_seconds'', item_of row ''segment_duration_seconds''), (''status'', item_of row ''status''),
      (''attempt_count'', get_with row ''attempt_count'' (JInt 0)), (''idempotency_key'', item_of row ''idempotency_key''),
      (''last_error_classification'', get_of row ''last_error_classification''),
      (''retry_backoffs_seconds'', get_or row ''retry_backoffs_seconds'' (JList [])), (''output_uri'', get_of row ''output_uri''),
      (''cache_status'', get_with row ''cache_status'' (JStr ''miss'')),
      (''cache_hit_latency_ms'', get_of row ''cache_hit_latency_ms''), (''cache_namespace'', get_of row ''cache_namespace''),
      (''cached_output_uri'', get_of row ''cached_output_uri''), (''gpu_type'', get_of row ''gpu_type''),
      (''allocation_latency_ms'', get_of row ''allocation_latency_ms''), (''quality_metrics'', get_of row ''quality_metrics''),
      (''reproducibility_proof'', get_of row ''reproducibility_proof''),
      (''uncertainty_callouts'', get_or row ''uncertainty_callouts'' (JList [])),
      (''updated_at'', or_else (get_of row ''updated_at'') (item_of row ''created_at''))]"

text \<open>The keyword arguments of \<open>create_job\<close>.\<close>

record rest_job =
  rj_job_id :: string
  rj_owner_user_id :: string
  rj_plan_tier :: string
  rj_org_id :: string
  rj_media_uri :: string
  rj_original_filename :: string
  rj_mime_type :: string
  rj_source_asset_checksum :: string
  rj_fidelity_tier :: string
  rj_processing_mode :: string
  rj_era_profile :: json
  rj_config :: json
  rj_estimated_duration_seconds :: int
  rj_segments :: "jdict list"
  rj_cost_estimate_summary :: json
  rj_billing_pricing_snapshot :: json
  rj_effective_fidelity_tier :: "string option"
  rj_effective_fidelity_profile :: json
  rj_reproducibility_mode :: string

text \<open>
  The row of the job; \<open>existing\<close> is the row found before, or an empty dictionary. The clock is read for \<open>queued_at\<close>
  only when the job was not queued before, and then for \<open>updated_at\<close>.
\<close>

definition job_row_front :: "'db rest_env \<Rightarrow> rest_job \<Rightarrow> json \<Rightarrow> jdict result" where
  "job_row_front env j existing = display
     [(''id'', Inr (JStr (re_stable_uuid env (rj_job_id j)))), (''owner_user_id'', Inr (JStr (rj_owner_user_id j))),
      (''external_user_id'', Inr (JStr (rj_owner_user_id j))), (''external_job_id'', Inr (JStr (rj_job_id j))),
      (''org_id'', Inr (JStr (rj_org_id j))), (''plan_tier'', Inr (JStr (rj_plan_tier j))),
      (''media_uri'', Inr (JStr (rj_media_uri j))), (''original_filename'', Inr (JStr (rj_original_filename j))),
      (''mime_type'', Inr (JStr (rj_mime_type j))), (''status'', Inr (JStr ''queued'')),
      (''source_asset_checksum'', Inr (JStr (rj_source_asset_checksum j))), (''fidelity_tier'', Inr (JStr (rj_fidelity_tier j))),
      (''effective_fidelity_tier'', Inr (JStr (or_default (rj_effective_fidelity_tier j) (rj_fidelity_tier j)))),
      (''effective_fidelity_profile'', Inr (jor (rj_effective_fidelity_profile j) (JObj []))),
      (''reproducibility_mode'', Inr (JStr (rj_reproducibility_mode j))), (''processing_mode'', Inr (JStr (rj_processing_mode j))),
      (''era_profile'', Inr (rj_era_profile j)), (''config'', Inr (rj_config j)),
      (''estimated_duration_seconds'', Inr (JInt (rj_estimated_duration_seconds j))),
      (''segment_duration_seconds'', Inr (JInt 10)), (''segment_count'', Inr (JInt (int (length (rj_segments j))))),
      (''completed_segment_count'', Inr (JInt 0)), (''failed_segment_count'', Inr (JInt 0)),
      (''progress_percent'', Inr (JFloat 0)), (''eta_seconds'', Inr (JInt (rj_estimated_duration_seconds j))),
      (''current_operation'', Inr (JStr ''Queued for processing'')),
      (''progress_topic'', Inr (JStr (''job_progress:'' @ rj_job_id j))), (''failed_segments'', Inr (JList [])),
      (''warnings'', Inr (JList [])), (''manifest_available'', Inr (JBool False)),
      (''quality_summary'', Inr (JObj EMPTY_QUALITY)), (''stage_timings'', Inr (JObj EMPTY_TIMINGS)),
      (''cache_summary'', Inr (JObj EMPTY_CACHE)), (''gpu_summary'', Inr (JObj EMPTY_GPU)), (''cost_summary'', Inr (JObj EMPTY_COST)),
      (''cost_estimate_summary'',
        or_else (get_of existing ''cost_estimate_summary'') (Inr (jor (rj_cost_estimate_summary j) (JObj [])))),
      (''billing_pricing_snapshot'',
        or_else (get_of existing ''billing_pricing_snapshot'') (Inr (jor (rj_billing_pricing_snapshot j) (JObj [])))),
      (''cost_reconciliation_summary'', Inr JNull),
      (''slo_summary'', Inr (JObj (fresh_slo (rj_estimated_duration_seconds j) (lower (rj_plan_tier j) = ''museum''))))]"

definition segment_row_of :: "'db rest_env \<Rightarrow> rest_job \<Rightarrow> string \<Rightarrow> jdict \<Rightarrow> jdict result" where
  "segment_row_of env j new_id g = display
     [(''id'', Inr (JStr new_id)), (''job_id'', Inr (JStr (re_stable_uuid env (rj_job_id j)))),
      (''external_job_id'', Inr (JStr (rj_job_id j))), (''owner_user_id'', Inr (JStr (rj_owner_user_id j))),
      (''external_user_id'', Inr (JStr (rj_owner_user_id j))), (''segment_index'', jitem g ''segment_index''),
      (''segment_start_seconds'', jitem g ''segment_start_seconds''), (''segment_end_seconds'', jitem g ''segment_end_seconds''),
      (''segment_duration_seconds'', jitem g ''segment_duration_seconds''), (''status'', Inr (JStr ''queued'')),
      (''attempt_count'', Inr (JInt 0)), (''idempotency_key'', jitem g ''idempotency_key''),
      (''retry_backoffs_seconds'', Inr (JList [])), (''cache_status'', Inr (JStr ''miss'')),
      (''uncertainty_callouts'', Inr (JList []))]"

definition store_segment ::
  "'db rest_env \<Rightarrow> (string, string) pydict \<Rightarrow> rest_job \<Rightarrow> jdict \<Rightarrow> ('db rest_world, unit) prog" where
  "store_segment env hs j g =
     bindE (tick (re_uuid env)) (\<lambda>new_id.
     bindE (liftR (segment_row_of env j new_id g)) (\<lambda>body.
     bindE (rest_upsert env ''job_segments'' body ''job_id,segment_index'' (Some hs)) (\<lambda>_. ret ())))"

definition sb_create_job :: "'db rest_env \<Rightarrow> string \<Rightarrow> rest_job \<Rightarrow> ('db rest_world, jdict) prog" where
  "sb_create_job env token j =
     bindE (user_headers env token) (\<lambda>hs.
     bindE (rest_select env ''media_jobs''
       [(''select'', ''id,queued_at,billing_pricing_snapshot,cost_estimate_summary''),
        (''external_job_id'', eq_filter (rj_job_id j)), (''limit'', ''1'')] (Some hs)) (\<lambda>existing_rows.
     bindE (liftR (if truthy existing_rows then first_of existing_rows else Inr (JObj []))) (\<lambda>existing.
     bindE (liftR (job_row_front env j existing)) (\<lambda>front.
     bindE (liftR (get_of existing ''queued_at'')) (\<lambda>queued.
     bindE (if truthy queued then ret queued else rest_now env) (\<lambda>queued_at.
     bindE (rest_now env) (\<lambda>updated_at.
     bindE (rest_upsert env ''media_jobs'' (front @ [(''queued_at'', queued_at), (''updated_at'', updated_at)])
       ''external_job_id'' (Some hs)) (\<lambda>rows.
     bindE (liftR (first_of rows)) (\<lambda>row.
     bindE (catchE (forE (rj_segments j) (store_segment env hs j)) (\<lambda>e.
       bindE (if \<not> truthy existing_rows
              then rest_delete env ''media_jobs'' [(''external_job_id'', eq_filter (rj_job_id j))] (Some hs)
              else ret ()) (\<lambda>_. raise e))) (\<lambda>_.
     liftR (job_from_row env row)))))))))))"

definition sb_get_job :: "'db rest_env \<Rightarrow> string \<Rightarrow> string \<Rightarrow> ('db rest_world, jdict option) prog" where
  "sb_get_job env token jid =
     bindE (user_headers env token) (\<lambda>hs.
     bindE (rest_select env ''media_jobs'' [(''select'', ''*''), (''external_job_id'', eq_filter jid), (''limit'', ''1'')] (Some hs)) (\<lambda>rows.
     first_row rows (job_from_row env)))"

definition sb_list_jobs :: "'db rest_env \<Rightarrow> string \<Rightarrow> ('db rest_world, jdict list) prog" where
  "sb_list_jobs env token =
     bindE (user_headers env token) (\<lambda>hs.
     bindE (rest_select env ''media_jobs'' [(''select'', ''*''), (''order'', ''created_at.desc'')] (Some hs)) (\<lambda>rows.
     liftR (bind_res (items_of rows) (map_res (job_from_row env)))))"

definition sb_list_segments :: "'db rest_env \<Rightarrow> string \<Rightarrow> string \<Rightarrow> ('db rest_world, jdict list) prog" where
  "sb_list_segments env token jid =
     bindE (user_headers env token) (\<lambda>hs.
     bindE (rest_select env ''job_segments''
       [(''select'', ''*''), (''external_job_id'', eq_filter jid), (''order'', ''segment_index.asc'')] (Some hs)) (\<lambda>rows.
     liftR (bind_res (items_of rows) (map_res segment_from_row))))"

definition TERMINAL_STATUS_NAMES :: "string list" where
  "TERMINAL_STATUS_NAMES = [''completed'', ''failed'', ''partial'', ''cancelled'']"

text \<open>\<open>v in {...}\<close>: a list or a dictionary cannot be hashed.\<close>

definition status_in :: "json \<Rightarrow> string list \<Rightarrow> bool result" where
  "status_in v names =
     (case v of JStr s \<Rightarrow> Inr (s \<in> set names) | JList _ \<Rightarrow> Inl (TypeError ''unhashable type'')
      | JObj _ \<Rightarrow> Inl (TypeError ''unhashable type'') | _ \<Rightarrow> Inr False)"

definition sb_request_cancellation :: "'db rest_env \<Rightarrow> string \<Rightarrow> string \<Rightarrow> ('db rest_world, jdict option) prog" where
  "sb_request_cancellation env token jid =
     bindE (user_headers env token) (\<lambda>hs.
     bindE (rest_select env ''media_jobs'' [(''select'', ''*''), (''external_job_id'', eq_filter jid), (''limit'', ''1'')] (Some hs)) (\<lambda>found.
     if \<not> truthy found then ret None
     else
       bindE (liftR (first_of found)) (\<lambda>current.
       bindE (liftR (bind_res (item_of current ''status'') (\<lambda>v. status_in v TERMINAL_STATUS_NAMES))) (\<lambda>ended.
       if ended then liftR (bind_res (job_from_row env current) (\<lambda>d. Inr (Some d)))
       else
         bindE (rest_now env) (\<lambda>requested_at.
         bindE (rest_now env) (\<lambda>updated_at.
         bindE (rest_update env ''media_jobs''
           [(''status'', JStr ''cancel_requested''), (''cancel_requested_at'', requested_at), (''updated_at'', updated_at)]
           [(''external_job_id'', eq_filter jid), (''select'', ''*'')] (Some hs)) (\<lambda>rows.
         first_row rows (job_from_row env))))))))"

section \<open>What a job leaves\<close>

definition sb_get_manifest :: "'db rest_env \<Rightarrow> string \<Rightarrow> string \<Rightarrow> ('db rest_world, json) prog" where
  "sb_get_manifest env token jid =
     bindE (user_headers env token) (\<lambda>hs.
     bindE (tick (re_clock env)) (\<lambda>now.
     bindE (rest_select env ''job_manifests''
       [(''select'', ''payload''), (''external_job_id'', eq_filter jid), (''retention_deleted_at'', ''is.null''),
        (''retention_delete_status'', ''is.null''),
        (''or'', ''(retention_expires_at.is.null,retention_expires_at.gt.'' @ isoformat now @ '')''), (''limit'', ''1'')] (Some hs)) (\<lambda>rows.
     if truthy rows then liftR (bind_res (first_of rows) (\<lambda>row. item_of row ''payload'')) else ret JNull)))"

definition package_from_row :: "json \<Rightarrow> jdict result" where
  "package_from_row row = display
     [(''job_id'', item_of row ''external_job_id''), (''owner_user_id'', item_of row ''external_user_id''),
      (''variant'', item_of row ''variant''), (''package_uri'', item_of row ''package_uri''),
      (''file_name'', item_of row ''file_name''), (''size_bytes'', item_of row ''size_bytes''), (''sha256'', item_of row ''sha256''),
      (''package_contents'', get_or row ''package_contents'' (JList [])),
      (''artifact_metadata'', get_or row ''artifact_metadata'' (JObj [])),
      (''encoding_metadata'', get_or row ''encoding_metadata'' (JObj [])),
      (''deletion_proof_id'', item_of row ''external_deletion_proof_id''), (''available_until'', item_of row ''available_until''),
      (''generated_at'', item_of row ''generated_at''), (''deleted_at'', get_of row ''deleted_at''),
      (''created_at'', item_of row ''created_at''),
      (''updated_at'', or_else (get_of row ''updated_at'') (item_of row ''created_at''))]"

definition sb_get_package :: "'db rest_env \<Rightarrow> string \<Rightarrow> string \<Rightarrow> string \<Rightarrow> ('db rest_world, jdict option) prog" where
  "sb_get_package env token jid variant =
     bindE (user_headers env token) (\<lambda>hs.
     bindE (rest_select env ''job_export_packages''
       [(''select'', ''*''), (''external_job_id'', eq_filter jid), (''variant'', eq_filter variant), (''limit'', ''1'')] (Some hs)) (\<lambda>rows.
     first_row rows package_from_row))"

definition deletion_proof_from_row :: "json \<Rightarrow> jdict result" where
  "deletion_proof_from_row row = display
     [(''deletion_proof_id'', item_of row ''external_deletion_proof_id''), (''job_id'', item_of row ''external_job_id''),
      (''owner_user_id'', item_of row ''external_user_id''), (''generated_at'', item_of row ''generated_at''),
      (''signature_algorithm'', item_of row ''signature_algorithm''), (''signature'', item_of row ''signature''),
      (''proof_sha256'', item_of row ''proof_sha256''), (''pdf_uri'', item_of row ''pdf_uri''),
      (''verification_summary'', get_or row ''verification_summary'' (JObj [])),
      (''proof_payload'', get_or row ''proof_payload'' (JObj [])),
      (''classification_label'', get_with row ''classification_label'' (JStr ''Compliance'')),
      (''retention_days'', get_of row ''retention_days''), (''retention_expires_at'', get_of row ''retention_expires_at''),
      (''classification_policy_version'', get_with row ''classification_policy_version'' (JStr ''v0-backfill'')),
      (''created_at'', item_of row ''created_at''),
      (''updated_at'', or_else (get_of row ''updated_at'') (item_of row ''created_at''))]"

definition sb_get_proof :: "'db rest_env \<Rightarrow> string \<Rightarrow> string \<Rightarrow> ('db rest_world, jdict option) prog" where
  "sb_get_proof env token proof_id =
     bindE (user_headers env token) (\<lambda>hs.
     bindE (rest_select env ''job_deletion_proofs''
       [(''select'', ''*''), (''external_deletion_proof_id'', eq_filter proof_id), (''limit'', ''1'')] (Some hs)) (\<lambda>rows.
     first_row rows deletion_proof_from_row))"

definition sb_get_proof_for_job :: "'db rest_env \<Rightarrow> string \<Rightarrow> string \<Rightarrow> ('db rest_world, jdict option) prog" where
  "sb_get_proof_for_job env token jid =
     bindE (user_headers env token) (\<lambda>hs.
     bindE (rest_select env ''job_deletion_proofs''
       [(''select'', ''*''), (''external_job_id'', eq_filter jid), (''limit'', ''1'')] (Some hs)) (\<lambda>rows.
     first_row rows deletion_proof_from_row))"

section \<open>Updates by the worker\<close>

text \<open>The columns a worker may write, and those stored as JSON.\<close>

definition SUPABASE_JOB_JSON_FIELDS :: "string list" where
  "SUPABASE_JOB_JSON_FIELDS =
    [''billing_pricing_snapshot'', ''failed_segments'', ''warnings'', ''config'', ''era_profile'',
     ''effective_fidelity_profile'', ''quality_summary'', ''reproducibility_summary'', ''stage_timings'', ''cache_summary'',
     ''gpu_summary'', ''cost_summary'', ''cost_estimate_summary'', ''cost_reconciliation_summary'', ''slo_summary'']"

definition SUPABASE_JOB_UPDATE_FIELDS :: "string list" where
  "SUPABASE_JOB_UPDATE_FIELDS =
    [''cache_summary'', ''cancel_requested_at'', ''completed_at'', ''completed_segment_count'', ''cost_summary'',
     ''cost_reconciliation_summary'', ''current_operation'', ''effective_fidelity_profile'', ''era_profile'', ''eta_seconds'',
     ''failed_segment_count'', ''failed_segments'', ''gpu_summary'', ''last_error'', ''manifest_available'',
     ''manifest_generated_at'', ''manifest_sha256'', ''manifest_size_bytes'', ''manifest_uri'', ''progress_percent'',
     ''quality_summary'', ''reproducibility_summary'', ''result_uri'', ''slo_summary'', ''stage_timings'', ''started_at'',
     ''status'', ''warnings'']"

definition SUPABASE_SEGMENT_JSON_FIELDS :: "string list" where
  "SUPABASE_SEGMENT_JSON_FIELDS =
    [''retry_backoffs_seconds'', ''quality_metrics'', ''reproducibility_proof'', ''uncertainty_callouts'']"

definition SUPABASE_SEGMENT_UPDATE_FIELDS :: "string list" where
  "SUPABASE_SEGMENT_UPDATE_FIELDS =
    [''allocation_latency_ms'', ''attempt_count'', ''cache_hit_latency_ms'', ''cache_namespace'', ''cache_status'',
     ''cached_output_uri'', ''gpu_type'', ''last_error_classification'', ''output_uri'', ''quality_metrics'',
     ''reproducibility_proof'', ''retry_backoffs_seconds'', ''status'', ''uncertainty_callouts'']"

definition SUPABASE_EXPORT_PACKAGE_JSON_FIELDS :: "string list" where
  "SUPABASE_EXPORT_PACKAGE_JSON_FIELDS =
    [''package_contents'', ''artifact_metadata'', ''encoding_metadata'']"

definition SUPABASE_EXPORT_PACKAGE_UPDATE_FIELDS :: "string list" where
  "SUPABASE_EXPORT_PACKAGE_UPDATE_FIELDS =
    [''deleted_at'']"

definition SUPABASE_JOB_DELETION_PROOF_JSON_FIELDS :: "string list" where
  "SUPABASE_JOB_DELETION_PROOF_JSON_FIELDS =
    [''proof_payload'', ''verification_summary'']"

datatype sql_value = SqlPlain json | SqlJsonb json

definition sql_value_of :: "string list \<Rightarrow> string \<Rightarrow> json \<Rightarrow> sql_value" where
  "sql_value_of json_fields k v = (if k \<in> set json_fields then SqlJsonb v else SqlPlain v)"

fun validated_update_assignments ::
  "string list \<Rightarrow> string list \<Rightarrow> jdict \<Rightarrow> (string list \<times> sql_value list) result" where
  "validated_update_assignments allowed json_fields [] = Inr ([], [])"
| "validated_update_assignments allowed json_fields ((k, v) # patch) =
     (if k \<notin> set allowed then Inl (ValueError ''Unsupported worker patch field'')
      else bind_res (validated_update_assignments allowed json_fields patch) (\<lambda>(assignments, vs).
        Inr ((k @ '' = %s'') # assignments, sql_value_of json_fields k v # vs)))"

lemma validated_update_only_allowed:
  "validated_update_assignments allowed json_fields patch = Inr (assignments, vs) \<Longrightarrow>
   list_all (\<lambda>kv. fst kv \<in> set allowed) patch \<and> assignments = map (\<lambda>kv. fst kv @ '' = %s'') patch \<and>
   vs = map (\<lambda>kv. sql_value_of json_fields (fst kv) (snd kv)) patch"
  by (induction patch arbitrary: assignments vs) (auto simp: bind_res_Inr_iff split: if_splits)

text \<open>A worker cannot hand a job to another user or organisation.\<close>

lemma worker_patch_keeps_owner:
  "validated_update_assignments SUPABASE_JOB_UPDATE_FIELDS SUPABASE_JOB_JSON_FIELDS patch = Inr r \<Longrightarrow>
   list_all (\<lambda>kv. fst kv \<notin> {''external_user_id'', ''owner_user_id'', ''org_id'', ''external_job_id'', ''id''}) patch"
proof -
  have "list_all (\<lambda>k. k \<notin> {''external_user_id'', ''owner_user_id'', ''org_id'', ''external_job_id'', ''id''}) SUPABASE_JOB_UPDATE_FIELDS"
    by (simp add: SUPABASE_JOB_UPDATE_FIELDS_def)
  moreover assume "validated_update_assignments SUPABASE_JOB_UPDATE_FIELDS SUPABASE_JOB_JSON_FIELDS patch = Inr r"
  then have "list_all (\<lambda>kv. fst kv \<in> set SUPABASE_JOB_UPDATE_FIELDS) patch"
    using validated_update_only_allowed [where assignments = "fst r" and vs = "snd r"] by fastforce
  ultimately show ?thesis
    unfolding list_all_iff by blast
qed

end
