(* ===== verification/Supabase_Properties.thy ===== *)
theory Supabase_Properties
  imports Supabase_Jobs
begin

text \<open>
  What the REST repositories send and what follows for the tables. First the requests of an operation: each carries
  the caller's token, those on uploads, usage and previews name the caller, and the only rows a creation deletes are
  its own. Then their effect, under a law about the database (\<open>patch_law\<close>): a \<open>PATCH\<close> merges its body into the rows
  its filters select and answers with them.
\<close>

section \<open>Requests that carry the caller's token\<close>

definition sent_all :: "(rest_request \<Rightarrow> bool) \<Rightarrow> 'db rest_world \<Rightarrow> bool" where
  "sent_all P s = list_all P (rw_sent s)"

definition carries_token :: "supabase_settings \<Rightarrow> string \<Rightarrow> rest_request \<Rightarrow> bool" where
  "carries_token st token rq \<longleftrightarrow>
     dget (rq_headers rq) ''Authorization'' = Some (''Bearer '' @ token) \<and>
     dget (rq_headers rq) ''apikey'' = Some (supabase_anon_key st)"

text \<open>The request is about rows of the user: its filter or its body says so.\<close>

definition names_owner :: "string \<Rightarrow> rest_request \<Rightarrow> bool" where
  "names_owner user rq \<longleftrightarrow>
     dget (rq_params rq) ''external_user_id'' = Some (eq_filter user) \<or>
     (case rq_json rq of None \<Rightarrow> False | Some body \<Rightarrow> dget body ''external_user_id'' = Some (JStr user))"

definition caller_headers :: "supabase_settings \<Rightarrow> string \<Rightarrow> (string, string) pydict \<Rightarrow> bool" where
  "caller_headers st token hs \<longleftrightarrow> hs = rest_headers (supabase_anon_key st) token"

lemma caller_headers_token: "caller_headers st token hs \<Longrightarrow> carries_token st token rq" if "rq_headers rq = hs \<or> (\<exists>p. rq_headers rq = dset ''Prefer'' p hs)"
  using that by (auto simp: caller_headers_def carries_token_def rest_headers_def)

lemma user_scoped_caller: "user_scoped_headers st token = Inr hs \<Longrightarrow> caller_headers st token hs"
  by (simp add: user_scoped_headers_def caller_headers_def split: if_splits)

subsection \<open>How the operations are taken apart\<close>

text \<open>A value that is bound satisfies what every run of its operation returns.\<close>

lemma preserves_bind_liftR:
  "(\<And>a. r = Inr a \<Longrightarrow> preserves I (f a)) \<Longrightarrow> preserves I (bindE (liftR r) f)"
  by (cases r) (auto simp: preserves_def bindE_def liftR_def)

lemma preserves_tick [pres_intro]: "preserves (sent_all P) (tick f)"
  by (simp add: preserves_def tick_def sent_all_def)

lemma preserves_rest_now [pres_intro]: "preserves (sent_all P) (rest_now env)"
  by (auto simp: rest_now_def intro!: pres_intro)

lemma preserves_first_row [pres_intro]: "preserves I (first_row rows f)"
  by (auto simp: first_row_def intro!: pres_intro)

lemma preserves_the_row [pres_intro]: "preserves I (the_row rows f)"
  by (auto simp: the_row_def intro!: pres_intro)

lemma preserves_send: "P rq \<Longrightarrow> preserves (sent_all P) (send env rq)"
  by (auto simp: preserves_def send_def sent_all_def split: prod.splits)

lemma preserves_send_json: "P rq \<Longrightarrow> preserves (sent_all P) (send_json env rq)"
  by (auto simp: send_json_def intro!: pres_intro preserves_send)

lemma preserves_rest_select:
  "(\<And>rq. rq_method rq = GET \<Longrightarrow> rq_headers rq = hs \<Longrightarrow> rq_params rq = params \<Longrightarrow> P rq) \<Longrightarrow>
   preserves (sent_all P) (rest_select env table_name params (Some hs))"
  by (auto simp: rest_select_def require_rest_headers_def intro!: pres_intro preserves_bind_liftR preserves_send_json)

lemma preserves_rest_insert:
  "(\<And>rq. rq_method rq = POST \<Longrightarrow> rq_headers rq = hs \<Longrightarrow> rq_json rq = Some body \<Longrightarrow> P rq) \<Longrightarrow>
   preserves (sent_all P) (rest_insert env table_name body (Some hs))"
  by (auto simp: rest_insert_def require_rest_headers_def intro!: pres_intro preserves_bind_liftR preserves_send_json)

lemma preserves_rest_upsert:
  "(\<And>rq p. rq_method rq = POST \<Longrightarrow> rq_headers rq = dset ''Prefer'' p hs \<Longrightarrow> rq_json rq = Some body \<Longrightarrow> P rq) \<Longrightarrow>
   preserves (sent_all P) (rest_upsert env table_name body on_conflict (Some hs))"
  by (auto simp: rest_upsert_def require_rest_headers_def intro!: pres_intro preserves_bind_liftR preserves_send_json)

lemma preserves_rest_update:
  "(\<And>rq. rq_method rq = PATCH \<Longrightarrow> rq_headers rq = hs \<Longrightarrow> rq_params rq = params \<Longrightarrow> rq_json rq = Some body \<Longrightarrow> P rq) \<Longrightarrow>
   preserves (sent_all P) (rest_update env table_name body params (Some hs))"
  by (auto simp: rest_update_def require_rest_headers_def intro!: pres_intro preserves_bind_liftR preserves_send_json)

lemma preserves_rest_delete:
  "(\<And>rq p. rq_method rq = DELETE \<Longrightarrow> rq_headers rq = dset ''Prefer'' p hs \<Longrightarrow> rq_params rq = params \<Longrightarrow> P rq) \<Longrightarrow>
   preserves (sent_all P) (rest_delete env table_name params (Some hs))"
  by (auto simp: rest_delete_def require_rest_headers_def intro!: pres_intro preserves_bind_liftR preserves_send)

lemmas rest_intro = preserves_rest_select preserves_rest_insert preserves_rest_upsert preserves_rest_update preserves_rest_delete

lemma preserves_user_headers:
  "(\<And>hs. caller_headers (re_settings env) token hs \<Longrightarrow> preserves I (f hs)) \<Longrightarrow>
   preserves I (bindE (liftR (user_scoped_headers (re_settings env) token)) f)"
  by (auto intro!: preserves_bind_liftR dest: user_scoped_caller)

lemma preserves_upload_headers:
  "(\<And>hs. caller_headers (re_settings env) token hs \<Longrightarrow> preserves I (f hs)) \<Longrightarrow>
   preserves I (bindE (token_headers env (upload_access_token (Some token))) f)"
  by (cases token) (auto simp: token_headers_def upload_access_token_def intro!: preserves_bind_liftR dest: user_scoped_caller)

lemma preserves_preview_headers:
  "(\<And>hs. caller_headers (re_settings env) token hs \<Longrightarrow> preserves I (f hs)) \<Longrightarrow>
   preserves I (bindE (token_headers env (preview_access_token (Some token))) f)"
  by (cases token) (auto simp: token_headers_def preview_access_token_def intro!: preserves_bind_liftR dest: user_scoped_caller)

lemma preserves_settings_headers:
  "(\<And>hs. caller_headers (re_settings env) token hs \<Longrightarrow> preserves I (f hs)) \<Longrightarrow>
   preserves I (bindE (token_headers env (settings_access_token what (Some token))) f)"
  by (cases token) (auto simp: token_headers_def settings_access_token_def intro!: preserves_bind_liftR dest: user_scoped_caller)

lemmas headers_intro = preserves_user_headers preserves_upload_headers preserves_preview_headers preserves_settings_headers

text \<open>A request of the caller about the caller's rows.\<close>

definition own_request :: "supabase_settings \<Rightarrow> string \<Rightarrow> string \<Rightarrow> rest_request \<Rightarrow> bool" where
  "own_request st token user rq \<longleftrightarrow> carries_token st token rq \<and> names_owner user rq"

lemma own_requestI:
  "caller_headers st token hs \<Longrightarrow> rq_headers rq = hs \<or> (\<exists>p. rq_headers rq = dset ''Prefer'' p hs) \<Longrightarrow> names_owner user rq \<Longrightarrow>
   own_request st token user rq"
  by (simp add: own_request_def caller_headers_token)

section \<open>Uploads, usage and previews belong to their owner\<close>

lemma names_owner_param: "dget (rq_params rq) ''external_user_id'' = Some (eq_filter user) \<Longrightarrow> names_owner user rq"
  by (simp add: names_owner_def)

lemma names_owner_body: "rq_json rq = Some body \<Longrightarrow> dget body ''external_user_id'' = Some (JStr user) \<Longrightarrow> names_owner user rq"
  by (simp add: names_owner_def)

text \<open>The body of a new preview names the owner of its payload.\<close>

lemma preview_row_owner:
  assumes "preview_row_of env p = Inr body" and "dget p ''owner_user_id'' = Some (JStr user)"
  shows "dget (body @ [(''updated_at'', now)]) ''external_user_id'' = Some (JStr user)"
proof -
  from display_value [OF assms(1) [unfolded preview_row_of_def], of "''external_user_id''" "jitem p ''owner_user_id''"]
  obtain v where "jitem p ''owner_user_id'' = Inr v" "dget body ''external_user_id'' = Some v"
    by auto
  with assms(2) show ?thesis
    by (simp add: jitem_def map_add_def map_of_append)
qed

lemmas own_intro = headers_intro rest_intro preserves_if preserves_case_option preserves_bindE preserves_ret preserves_raise
  preserves_liftR preserves_tick preserves_rest_now preserves_first_row preserves_the_row

lemma own_create_session:
  "preserves (sent_all (own_request (re_settings env) token user))
     (sb_create_session env (Some token) uid user org filename mime sz checksum bucket path url)"
  unfolding sb_create_session_def
  by (intro own_intro) (auto elim!: own_requestI intro: names_owner_body)

lemma own_get_session:
  "preserves (sent_all (own_request (re_settings env) token (c # user))) (sb_get_session env (Some token) uid (Some (c # user)))"
  unfolding sb_get_session_def
  by (intro own_intro) (auto elim!: own_requestI intro!: names_owner_param simp: owner_filter_def)

lemma own_update_session:
  "preserves (sent_all (own_request (re_settings env) token user)) (sb_update_session env (Some token) uid user patch)"
  unfolding sb_update_session_def
  by (intro own_intro) (auto elim!: own_requestI intro!: names_owner_param)

lemma own_upsert_pointer:
  "preserves (sent_all (own_request (re_settings env) token user))
     (sb_upsert_pointer env (Some token) uid user org bucket path filename mime sz checksum label keep_days expires version)"
  unfolding sb_upsert_pointer_def
  by (intro own_intro) (auto elim!: own_requestI intro: names_owner_body)

lemma own_usage_get_or_create:
  "preserves (sent_all (own_request (re_settings env) token user)) (sb_usage_get_or_create env token user plan limit)"
  unfolding sb_usage_get_or_create_def
  by (intro own_intro) (auto elim!: own_requestI intro: names_owner_body names_owner_param)

lemma own_usage_update:
  "preserves (sent_all (own_request (re_settings env) token user)) (sb_usage_update env token user patch)"
  unfolding sb_usage_update_def
  by (intro own_intro) (auto elim!: own_requestI intro!: names_owner_param)

lemma own_create_preview:
  "preserves (sent_all (own_request (re_settings env) token user))
     (sb_create_preview env (Some token) (dset ''owner_user_id'' (JStr user) p))"
  unfolding sb_create_preview_def
  by (intro headers_intro preserves_bind_liftR preserves_bindE preserves_rest_now preserves_rest_upsert preserves_the_row)
    (auto elim!: own_requestI intro!: names_owner_body preview_row_owner)

lemma own_get_preview:
  "preserves (sent_all (own_request (re_settings env) token (c # user))) (sb_get_preview env (Some token) pid (Some (c # user)))"
  unfolding sb_get_preview_def
  by (intro own_intro) (auto elim!: own_requestI intro!: names_owner_param simp: owner_filter_def)

lemma own_get_reusable_preview:
  "preserves (sent_all (own_request (re_settings env) token user)) (sb_get_reusable_preview env (Some token) checksum fp user)"
  unfolding sb_get_reusable_preview_def
  by (intro own_intro) (auto elim!: own_requestI intro!: names_owner_param)

lemma own_update_preview:
  "preserves (sent_all (own_request (re_settings env) token user)) (sb_update_preview env (Some token) pid user patch)"
  unfolding sb_update_preview_def
  by (intro own_intro) (auto elim!: own_requestI intro!: names_owner_param)

lemma own_claim_launch:
  "preserves (sent_all (own_request (re_settings env) token user)) (sb_claim_launch env (Some token) pid user external)"
  unfolding sb_claim_launch_def
  by (intro own_intro) (auto elim!: own_requestI intro!: names_owner_param)

lemma own_launch_pending_snapshot:
  "preserves (sent_all (own_request (re_settings env) token (c # user)))
     (sb_launch_pending_snapshot env (Some token) (Some (c # user)))"
  unfolding sb_launch_pending_snapshot_def sb_launch_pending_metrics_def
  by (intro own_intro) (auto elim!: own_requestI intro!: names_owner_param simp: owner_filter_def)

definition only_own :: "'db rest_env \<Rightarrow> string \<Rightarrow> string \<Rightarrow> ('db rest_world, 'a) prog \<Rightarrow> bool" where
  "only_own env token user m \<longleftrightarrow> preserves (sent_all (own_request (re_settings env) token user)) m"

text \<open>
  C7: Every request that the REST repositories of uploads, usage and previews send for a user carries the token of
  the user's session and names the user as the owner of the rows it reads or writes, whatever the database answers.
\<close>

theorem requests_name_their_owner:
  "only_own env token (c # cs) (sb_create_session env (Some token) uid (c # cs) org filename mime sz checksum bucket path url) \<and>
   only_own env token (c # cs) (sb_get_session env (Some token) uid (Some (c # cs))) \<and>
   only_own env token (c # cs) (sb_update_session env (Some token) uid (c # cs) patch) \<and>
   only_own env token (c # cs) (sb_upsert_pointer env (Some token) uid (c # cs) org bucket path filename mime sz checksum label
     keep_days expires version) \<and>
   only_own env token (c # cs) (sb_usage_get_or_create env token (c # cs) plan limit) \<and>
   only_own env token (c # cs) (sb_usage_update env token (c # cs) patch) \<and>
   only_own env token (c # cs) (sb_create_preview env (Some token) (dset ''owner_user_id'' (JStr (c # cs)) p)) \<and>
   only_own env token (c # cs) (sb_get_preview env (Some token) pid (Some (c # cs))) \<and>
   only_own env token (c # cs) (sb_get_reusable_preview env (Some token) hash fp (c # cs)) \<and>
   only_own env token (c # cs) (sb_update_preview env (Some token) pid (c # cs) patch) \<and>
   only_own env token (c # cs) (sb_claim_launch env (Some token) pid (c # cs) external) \<and>
   only_own env token (c # cs) (sb_launch_pending_snapshot env (Some token) (Some (c # cs)))"
  unfolding only_own_def
  by (intro conjI own_create_session own_get_session own_update_session own_upsert_pointer own_usage_get_or_create own_usage_update
      own_create_preview own_get_preview own_get_reusable_preview own_update_preview own_claim_launch own_launch_pending_snapshot)

section \<open>Job operations\<close>

text \<open>The rows of jobs have no owner filter; their requests carry the token, by which the database selects.\<close>

lemma carries_tokenI:
  "caller_headers st token hs \<Longrightarrow> rq_headers rq = hs \<or> (\<exists>p. rq_headers rq = dset ''Prefer'' p hs) \<Longrightarrow> carries_token st token rq"
  by (simp add: caller_headers_token)

lemma token_create_job: "preserves (sent_all (carries_token (re_settings env) token)) (sb_create_job env token j)"
  unfolding sb_create_job_def store_segment_def
  by (intro own_intro preserves_catchE preserves_forE) (auto elim!: carries_tokenI)

lemma token_request_cancellation:
  "preserves (sent_all (carries_token (re_settings env) token)) (sb_request_cancellation env token jid)"
  unfolding sb_request_cancellation_def
  by (intro own_intro) (auto elim!: carries_tokenI)

lemma token_create_deletion_request:
  "preserves (sent_all (carries_token (re_settings env) token)) (sb_create_deletion_request env token user d)"
  unfolding sb_create_deletion_request_def
  by (intro own_intro preserves_catchE) (auto elim!: carries_tokenI intro!: own_intro preserves_catchE split: prod.splits)

section \<open>A job whose segments are not all stored\<close>

text \<open>One request of each kind, and the world after it.\<close>

abbreviation "table_url st table_name \<equiv> client_base_url st @ ''/rest/v1/'' @ table_name"

definition after :: "'db rest_env \<Rightarrow> rest_request \<Rightarrow> 'db rest_world \<Rightarrow> 'db rest_world" where
  "after env rq s = s\<lparr>rw_db := snd (re_request env rq (rw_db s)), rw_sent := rw_sent s @ [rq]\<rparr>"

lemma after_simps [simp]:
  "rw_sent (after env rq s) = rw_sent s @ [rq]"
  "rw_db (after env rq s) = snd (re_request env rq (rw_db s))"
  "rw_calls (after env rq s) = rw_calls s"
  by (simp_all add: after_def)

lemma wp_tick [wp_simps]: "wp (tick f) Q E s = Q (f (rw_calls s)) (s\<lparr>rw_calls := Suc (rw_calls s)\<rparr>)"
  by (simp add: wp_def tick_def)

lemma wp_rest_now [wp_simps]:
  "wp (rest_now env) Q E s = Q (JStr (isoformat (re_clock env (rw_calls s)))) (s\<lparr>rw_calls := Suc (rw_calls s)\<rparr>)"
  by (simp add: rest_now_def wp_simps)

lemma wp_send: "wp (send env rq) Q E s = Q (fst (re_request env rq (rw_db s))) (after env rq s)"
  by (simp add: wp_def send_def after_def split: prod.splits)

lemma wp_send_json:
  "wp (send_json env rq) Q E s =
     (case json_response (fst (re_request env rq (rw_db s))) of Inl e \<Rightarrow> E e (after env rq s) | Inr v \<Rightarrow> Q v (after env rq s))"
  by (simp add: send_json_def wp_simps wp_send)

abbreviation "get_request url hs params \<equiv> \<lparr>rq_method = GET, rq_url = url, rq_headers = hs, rq_params = params, rq_json = None\<rparr>"

abbreviation "upsert_request url hs body on_conflict \<equiv>
  \<lparr>rq_method = POST, rq_url = url, rq_headers = dset ''Prefer'' ''resolution=merge-duplicates,return=representation'' hs,
    rq_params = [(''on_conflict'', on_conflict)], rq_json = Some body\<rparr>"

abbreviation "patch_request url hs body params \<equiv>
  \<lparr>rq_method = PATCH, rq_url = url, rq_headers = hs, rq_params = params, rq_json = Some body\<rparr>"

abbreviation "delete_request url hs params \<equiv>
  \<lparr>rq_method = DELETE, rq_url = url, rq_headers = dset ''Prefer'' ''return=minimal'' hs, rq_params = params, rq_json = None\<rparr>"

lemma wp_rest_select:
  "rest_url (re_settings env) table_name = Inr url \<Longrightarrow>
   wp (rest_select env table_name params (Some hs)) Q E s =
     (case json_response (fst (re_request env (get_request url hs params) (rw_db s))) of
        Inl e \<Rightarrow> E e (after env (get_request url hs params) s) | Inr v \<Rightarrow> Q v (after env (get_request url hs params) s))"
  by (simp add: rest_select_def require_rest_headers_def wp_simps wp_send_json)

lemma wp_rest_upsert:
  "rest_url (re_settings env) table_name = Inr url \<Longrightarrow>
   wp (rest_upsert env table_name body on_conflict (Some hs)) Q E s =
     (case json_response (fst (re_request env (upsert_request url hs body on_conflict) (rw_db s))) of
        Inl e \<Rightarrow> E e (after env (upsert_request url hs body on_conflict) s)
      | Inr v \<Rightarrow> Q v (after env (upsert_request url hs body on_conflict) s))"
  by (simp add: rest_upsert_def require_rest_headers_def wp_simps wp_send_json)

lemma wp_rest_update:
  "rest_url (re_settings env) table_name = Inr url \<Longrightarrow>
   wp (rest_update env table_name body params (Some hs)) Q E s =
     (case json_response (fst (re_request env (patch_request url hs body params) (rw_db s))) of
        Inl e \<Rightarrow> E e (after env (patch_request url hs body params) s)
      | Inr v \<Rightarrow> Q v (after env (patch_request url hs body params) s))"
  by (simp add: rest_update_def require_rest_headers_def wp_simps wp_send_json)

lemma wp_rest_delete:
  "rest_url (re_settings env) table_name = Inr url \<Longrightarrow>
   wp (rest_delete env table_name params (Some hs)) Q E s =
     (case raise_for_status (fst (re_request env (delete_request url hs params) (rw_db s))) of
        Inl e \<Rightarrow> E e (after env (delete_request url hs params) s) | Inr v \<Rightarrow> Q () (after env (delete_request url hs params) s))"
  by (simp add: rest_delete_def require_rest_headers_def wp_simps wp_send split: sum.split)

definition withdraw_request :: "supabase_settings \<Rightarrow> (string, string) pydict \<Rightarrow> string \<Rightarrow> rest_request" where
  "withdraw_request st hs jid = delete_request (table_url st ''media_jobs'') hs [(''external_job_id'', eq_filter jid)]"

definition job_lookup :: "supabase_settings \<Rightarrow> (string, string) pydict \<Rightarrow> string \<Rightarrow> rest_request" where
  "job_lookup st hs jid = get_request (table_url st ''media_jobs'') hs
     [(''select'', ''id,queued_at,billing_pricing_snapshot,cost_estimate_summary''), (''external_job_id'', eq_filter jid),
      (''limit'', ''1'')]"

definition is_segment_request :: "supabase_settings \<Rightarrow> rest_request \<Rightarrow> bool" where
  "is_segment_request st rq \<longleftrightarrow> rq_url rq = table_url st ''job_segments''"

text \<open>
  What the database answers to an upsert into the table of jobs, which asks for the whole row back, can be read as a
  job. (The lookup before it selects four columns only; its answer need not be readable.)
\<close>

definition answers_readable_jobs :: "'db rest_env \<Rightarrow> bool" where
  "answers_readable_jobs env \<longleftrightarrow>
     (\<forall>hs body db v row.
        json_response (fst (re_request env
          (upsert_request (table_url (re_settings env) ''media_jobs'') hs body ''external_job_id'') db)) = Inr v \<longrightarrow>
        first_of v = Inr row \<longrightarrow> (\<exists>d. job_from_row env row = Inr d))"

lemma readable_job:
  assumes "answers_readable_jobs env"
    and "json_response (fst (re_request env
      (upsert_request (table_url (re_settings env) ''media_jobs'') hs body ''external_job_id'') db)) = Inr v"
    and "first_of v = Inr row"
  obtains d where "job_from_row env row = Inr d"
  using assms unfolding answers_readable_jobs_def by blast

lemma configured_url: "user_scoped_headers st token = Inr hs \<Longrightarrow> rest_url st table_name = Inr (table_url st table_name)"
  by (auto simp: user_scoped_headers_def is_configured_def rest_url_def split: if_splits)

lemma wp_liftR_cases:
  "(\<And>e. r = Inl e \<Longrightarrow> E e s) \<Longrightarrow> (\<And>a. r = Inr a \<Longrightarrow> wp (f a) Q E s) \<Longrightarrow> wp (bindE (liftR r) f) Q E s"
  by (cases r) (simp_all add: wp_simps)

lemma wp_bind_rest_now:
  "wp (bindE (rest_now env) f) Q E s =
     wp (f (JStr (isoformat (re_clock env (rw_calls s))))) Q E (s\<lparr>rw_calls := Suc (rw_calls s)\<rparr>)"
  by (simp only: wp_bindE wp_rest_now)

lemma wp_bind_ret: "wp (bindE (ret a) f) Q E s = wp (f a) Q E s"
  by (simp only: wp_bindE wp_ret)

lemma no_rows: "truthy (JList []) = False"
  by simp

lemma bindE_liftR_Inr: "bindE (liftR (Inr a)) f = f a"
  by (simp add: bindE_def liftR_def)

text \<open>A creation that fails after a request for a segment has taken the job back.\<close>

lemma wp_create_new_job:
  fixes env :: "'db rest_env"
  assumes hs: "user_scoped_headers (re_settings env) token = Inr hs"
    and fresh: "json_response (fst (re_request env (job_lookup (re_settings env) hs (rj_job_id j)) (rw_db s))) = Inr (JList [])"
    and readable: "answers_readable_jobs env"
  shows "wp (sb_create_job env token j) (\<lambda>_ _. True)
    (\<lambda>e t. (\<exists>new. rw_sent t = rw_sent s @ new \<and> \<not> list_ex (is_segment_request (re_settings env)) new) \<or>
      last (rw_sent t) = withdraw_request (re_settings env) hs (rj_job_id j)) s"
    (is "wp _ ?Q ?E s")
proof -
  note url = configured_url [OF hs]
  let ?look = "job_lookup (re_settings env) hs (rj_job_id j)"
  let ?s1 = "after env ?look s"
  have early: "?E e t" if "rw_sent t = rw_sent s @ [?look] \<or> (\<exists>rq. rw_sent t = rw_sent s @ [?look, rq] \<and> \<not> is_segment_request (re_settings env) rq)" for e t
    using that by (auto simp: is_segment_request_def job_lookup_def)
  have handler: "wp (bindE (rest_delete env ''media_jobs'' [(''external_job_id'', eq_filter (rj_job_id j))] (Some hs)) (\<lambda>_. raise e :: ('db rest_world, unit) prog))
      (\<lambda>_ _. True) ?E t" for e t
    by (simp add: wp_bindE wp_rest_delete [OF url] wp_simps withdraw_request_def split: sum.split)
  have segs: "wp (bindE (catchE (forE (rj_segments j) (store_segment env hs j)) (\<lambda>e.
         bindE (rest_delete env ''media_jobs'' [(''external_job_id'', eq_filter (rj_job_id j))] (Some hs)) (\<lambda>_. raise e)))
       (\<lambda>_. liftR (job_from_row env row))) ?Q ?E t" if "job_from_row env row = Inr d" for row d t
    unfolding wp_bindE [where f = "\<lambda>_. liftR _"] wp_catchE wp_liftR that sum.case by (rule wp_any) (rule TrueI, rule handler)
  have store: "wp (bindE (rest_upsert env ''media_jobs'' body ''external_job_id'' (Some hs)) (\<lambda>rows.
         bindE (liftR (first_of rows)) (\<lambda>row.
         bindE (catchE (forE (rj_segments j) (store_segment env hs j)) (\<lambda>e.
           bindE (rest_delete env ''media_jobs'' [(''external_job_id'', eq_filter (rj_job_id j))] (Some hs)) (\<lambda>_. raise e)))
         (\<lambda>_. liftR (job_from_row env row))))) ?Q ?E t" if t: "rw_sent t = rw_sent s @ [?look]" for body t
  proof -
    let ?up = "upsert_request (table_url (re_settings env) ''media_jobs'') hs body ''external_job_id''"
    have sent: "rw_sent (after env ?up t) = rw_sent s @ [?look, ?up] \<and> \<not> is_segment_request (re_settings env) ?up"
      using t by (simp add: is_segment_request_def)
    note run = wp_rest_upsert [OF url]
    have failed: "?E e (after env ?up t)" for e
      by (rule early) (use sent in blast)
    show ?thesis
    proof (cases "json_response (fst (re_request env ?up (rw_db t)))")
      case (Inl e)
      then show ?thesis
        using failed by (simp only: wp_bindE [of "rest_upsert _ _ _ _ _"] run Inl sum.case)
    next
      case (Inr v)
      have "wp (bindE (liftR (first_of v)) (\<lambda>row.
         bindE (catchE (forE (rj_segments j) (store_segment env hs j)) (\<lambda>e.
           bindE (rest_delete env ''media_jobs'' [(''external_job_id'', eq_filter (rj_job_id j))] (Some hs)) (\<lambda>_. raise e)))
         (\<lambda>_. liftR (job_from_row env row)))) ?Q ?E (after env ?up t)"
      proof (rule wp_liftR_cases)
        show "?E e (after env ?up t)" for e
          by (rule failed)
      next
        fix row
        assume "first_of v = Inr row"
        then obtain d where "job_from_row env row = Inr d"
          by (rule readable_job [OF readable Inr])
        then show "wp (bindE (catchE (forE (rj_segments j) (store_segment env hs j)) (\<lambda>e.
           bindE (rest_delete env ''media_jobs'' [(''external_job_id'', eq_filter (rj_job_id j))] (Some hs)) (\<lambda>_. raise e)))
         (\<lambda>_. liftR (job_from_row env row))) ?Q ?E (after env ?up t)"
          by (rule segs)
      qed
      then show ?thesis
        by (simp only: wp_bindE [of "rest_upsert _ _ _ _ _"] run Inr sum.case)
    qed
  qed
  have look: "wp (rest_select env ''media_jobs''
       [(''select'', ''id,queued_at,billing_pricing_snapshot,cost_estimate_summary''),
        (''external_job_id'', eq_filter (rj_job_id j)), (''limit'', ''1'')] (Some hs)) Q E s = Q (JList []) ?s1" for Q E
    using fresh unfolding job_lookup_def by (simp only: wp_rest_select [OF url] rest_request.simps sum.case)
  show ?thesis
    unfolding sb_create_job_def hs wp_bindE [of "rest_select _ _ _ _"] bindE_liftR_Inr look
      no_rows if_False if_True bindE_liftR_Inr not_False_eq_True
  proof (intro wp_liftR_cases)
    show "?E e ?s1" for e
      by (rule early) simp
  next
    show "?E e ?s1" for e
      by (rule early) simp
  next
    fix front queued
    note steps = wp_bind_rest_now wp_bind_ret if_True if_False
    show "wp (bindE (if truthy queued then ret queued else rest_now env) (\<lambda>queued_at.
       bindE (rest_now env) (\<lambda>updated_at.
       bindE (rest_upsert env ''media_jobs'' (front @ [(''queued_at'', queued_at), (''updated_at'', updated_at)])
         ''external_job_id'' (Some hs)) (\<lambda>rows.
       bindE (liftR (first_of rows)) (\<lambda>row.
       bindE (catchE (forE (rj_segments j) (store_segment env hs j)) (\<lambda>e.
         bindE (rest_delete env ''media_jobs'' [(''external_job_id'', eq_filter (rj_job_id j))] (Some hs)) (\<lambda>_. raise e))) (\<lambda>_.
       liftR (job_from_row env row))))))) ?Q ?E ?s1"
      by (cases "truthy queued") (simp_all only: steps, (rule store, simp)+)
  qed
qed

text \<open>
  C11: When a job is new, its segments cannot all be stored and \<open>create_job\<close> raises, the last request sent is the one
  that deletes the job's row: no job stays behind without its segments. The row that the
  database returns for the upsert of a job is assumed to be readable as a job.
\<close>

theorem unfinished_job_is_withdrawn:
  assumes "user_scoped_headers (re_settings env) token = Inr hs"
    and "json_response (fst (re_request env (job_lookup (re_settings env) hs (rj_job_id j)) (rw_db s))) = Inr (JList [])"
    and "answers_readable_jobs env"
    and run: "sb_create_job env token j s = (Inl e, t)"
    and segment: "list_ex (is_segment_request (re_settings env)) (drop (length (rw_sent s)) (rw_sent t))"
  shows "last (rw_sent t) = withdraw_request (re_settings env) hs (rj_job_id j)"
  using wp_create_new_job [where j = j, OF assms(1-3)] segment by (auto simp: wp_def run)

definition sample_supabase_settings :: supabase_settings where
  "sample_supabase_settings = \<lparr>supabase_url = ''https://db/'', supabase_anon_key = ''anon'', supabase_service_role_key = [],
     supabase_db_url = [], supabase_db_host = [], supabase_db_port = 5432, supabase_db_name = ''postgres'',
     supabase_db_user = ''postgres'', supabase_db_password = []\<rparr>"

definition sample_job_row :: jdict where
  "sample_job_row = map (\<lambda>k. (k, JStr ''x''))
     [''external_job_id'', ''external_user_id'', ''org_id'', ''media_uri'', ''original_filename'', ''mime_type'', ''status'',
      ''created_at'']"

definition answer :: "json \<Rightarrow> http_response option" where
  "answer v = Some \<lparr>hr_status = 200, hr_location = None, hr_range = None, hr_json = Some v\<rparr>"

text \<open>
  A database that takes jobs and refuses segments. It has every job but \<open>j1\<close>; a lookup returns the four columns it
  selects.
\<close>

definition sample_lookup_row :: jdict where
  "sample_lookup_row = [(''id'', JStr ''0''), (''queued_at'', JStr ''2026-01-01T00:00:00+00:00''),
     (''billing_pricing_snapshot'', JNull), (''cost_estimate_summary'', JNull)]"

definition refuses_segments :: "rest_request \<Rightarrow> unit \<Rightarrow> http_response option \<times> unit" where
  "refuses_segments rq db =
     (if rq_url rq = ''https://db/rest/v1/job_segments'' then None
      else if rq_method rq = POST then answer (JList [JObj sample_job_row])
      else if rq_method rq = GET \<and> dget (rq_params rq) ''external_job_id'' \<noteq> Some (eq_filter ''j1'')
      then answer (JList [JObj sample_lookup_row]) else answer (JList []), db)"

definition sample_rest_env :: "(rest_request \<Rightarrow> 'db \<Rightarrow> http_response option \<times> 'db) \<Rightarrow> 'db rest_env" where
  "sample_rest_env f = \<lparr>re_settings = sample_supabase_settings, re_request = f, re_clock = (\<lambda>_. 0), re_uuid = (\<lambda>_. ''id''),
     re_stable_uuid = (\<lambda>s. s), re_billing_month = (\<lambda>_. ''2026-01-01''), re_codec = plain_codec,
     re_float_of_str = (\<lambda>_. None), re_fromisoformat = (\<lambda>_. None)\<rparr>"

definition sample_rest_job :: rest_job where
  "sample_rest_job = \<lparr>rj_job_id = ''j1'', rj_owner_user_id = ''u1'', rj_plan_tier = ''pro'', rj_org_id = ''o1'',
     rj_media_uri = ''gs://b/a.mov'', rj_original_filename = ''a.mov'', rj_mime_type = ''video/quicktime'',
     rj_source_asset_checksum = ''c'', rj_fidelity_tier = ''Restore'', rj_processing_mode = ''balanced'',
     rj_era_profile = JObj [], rj_config = JObj [], rj_estimated_duration_seconds = 10,
     rj_segments = [[(''segment_index'', JInt 0), (''segment_start_seconds'', JInt 0), (''segment_end_seconds'', JInt 10),
       (''segment_duration_seconds'', JInt 10), (''idempotency_key'', JStr ''k'')]],
     rj_cost_estimate_summary = JNull, rj_billing_pricing_snapshot = JNull, rj_effective_fidelity_tier = None,
     rj_effective_fidelity_profile = JNull, rj_reproducibility_mode = ''perceptual_equivalence''\<rparr>"

definition sample_rest_world :: "'db \<Rightarrow> 'db rest_world" where
  "sample_rest_world db = \<lparr>rw_db = db, rw_calls = 0, rw_sent = []\<rparr>"

lemma sample_row_readable: "\<exists>d. job_from_row (sample_rest_env f) (JObj sample_job_row) = Inr d"
  by (simp add: job_from_row_def sample_job_row_def jitem_def get_with_def get_default_def get_or_def or_else_def jget_def jor_def
      float_column_def int_column_def float_of_value_def int_of_value_def bool_of_value_def slo_of_row_def)

lemma sample_readable: "answers_readable_jobs (sample_rest_env refuses_segments)"
  unfolding answers_readable_jobs_def
  using sample_row_readable
  by (auto simp: sample_rest_env_def sample_supabase_settings_def client_base_url_def rstrip_slash_def refuses_segments_def answer_def
      json_response_def raise_for_status_def is_success_def split: if_splits)

lemma sample_rest_url: "rest_url sample_supabase_settings table_name = Inr (''https://db/rest/v1/'' @ table_name)"
  "client_base_url sample_supabase_settings = ''https://db''"
  "user_scoped_headers sample_supabase_settings token = Inr (rest_headers ''anon'' token)"
  by (simp_all add: rest_url_def sample_supabase_settings_def client_base_url_def rstrip_slash_def user_scoped_headers_def is_configured_def)

lemma sample_front: "\<exists>front. job_row_front (sample_rest_env f) sample_rest_job (JObj []) = Inr front"
  by (simp add: job_row_front_def or_else_def)

lemma sample_segment: "\<exists>body. segment_row_of (sample_rest_env f) sample_rest_job new_id (hd (rj_segments sample_rest_job)) = Inr body"
  by (simp add: segment_row_of_def sample_rest_job_def jitem_def)

lemma sample_run:
  "wp (sb_create_job (sample_rest_env refuses_segments) ''tok'' sample_rest_job) (\<lambda>_ _. False)
     (\<lambda>e t. list_ex (is_segment_request sample_supabase_settings) (rw_sent t)) (sample_rest_world ())"
proof -
  obtain front where front: "job_row_front (sample_rest_env refuses_segments) sample_rest_job (JObj []) = Inr front"
    using sample_front by blast
  obtain body where body: "segment_row_of (sample_rest_env refuses_segments) sample_rest_job ''id'' (hd (rj_segments sample_rest_job)) = Inr body"
    using sample_segment by blast
  have segments: "rj_segments sample_rest_job = [hd (rj_segments sample_rest_job)]"
    by (simp add: sample_rest_job_def)
  have env: "re_settings (sample_rest_env f) = sample_supabase_settings" "re_request (sample_rest_env f) = f" "re_uuid (sample_rest_env f) = (\<lambda>_. ''id'')" for f
    by (simp_all add: sample_rest_env_def)
  have jid: "rj_job_id sample_rest_job = ''j1''"
    by (simp add: sample_rest_job_def)
  show ?thesis
    unfolding sb_create_job_def
    by (subst segments) (simp add: wp_simps env jid front store_segment_def body sample_rest_url
        wp_rest_select wp_rest_upsert wp_rest_delete refuses_segments_def answer_def json_response_def raise_for_status_def is_success_def
        is_segment_request_def after_def sample_rest_world_def)
qed

theorem unfinished_job_is_withdrawn_witness:
  "last (rw_sent (snd (sb_create_job (sample_rest_env refuses_segments) ''tok'' sample_rest_job (sample_rest_world ())))) =
     withdraw_request sample_supabase_settings (rest_headers ''anon'' ''tok'') ''j1''"
proof -
  let ?env = "sample_rest_env refuses_segments"
  obtain r t where run: "sb_create_job ?env ''tok'' sample_rest_job (sample_rest_world ()) = (r, t)"
    by fastforce
  with sample_run obtain e where e: "r = Inl e" and segment: "list_ex (is_segment_request sample_supabase_settings) (rw_sent t)"
    by (cases r) (simp_all add: wp_def)
  have env: "re_settings ?env = sample_supabase_settings" "re_request ?env = refuses_segments" "rj_job_id sample_rest_job = ''j1''"
    by (simp_all add: sample_rest_env_def sample_rest_job_def)
  have "last (rw_sent t) = withdraw_request (re_settings ?env) (rest_headers ''anon'' ''tok'') (rj_job_id sample_rest_job)"
    by (rule unfinished_job_is_withdrawn [OF _ _ sample_readable run [unfolded e]])
      (use segment in \<open>simp_all add: env sample_rest_url job_lookup_def refuses_segments_def answer_def json_response_def
        raise_for_status_def is_success_def sample_rest_world_def\<close>)
  with run show ?thesis
    by (simp add: env)
qed

section \<open>What a patch does to the rows\<close>

text \<open>
  The law of \<open>PATCH\<close>: the rows of the table that the caller may see and the filters select take the columns of the
  body, the others stay, and a successful answer lists the rows that changed. A request that fails has changed all of
  them or none. \<open>rows db url\<close> are the rows of a table and \<open>visible hs row\<close> is the row policy of the database.
\<close>

definition row_selected :: "(string, string) pydict \<Rightarrow> jdict \<Rightarrow> bool" where
  "row_selected params row =
     list_all (\<lambda>(k, v). k = ''select'' \<or> (case jget row k of JStr w \<Rightarrow> v = eq_filter w | _ \<Rightarrow> False)) params"

definition merged :: "jdict \<Rightarrow> jdict \<Rightarrow> jdict" where
  "merged body row = fold (\<lambda>(k, v) d. dset k v d) body row"

definition patched_rows :: "(jdict \<Rightarrow> bool) \<Rightarrow> jdict \<Rightarrow> jdict list \<Rightarrow> jdict list" where
  "patched_rows sel body rs = map (\<lambda>row. if sel row then merged body row else row) rs"

definition patch_law ::
  "'db rest_env \<Rightarrow> ('db \<Rightarrow> string \<Rightarrow> jdict list) \<Rightarrow> ((string, string) pydict \<Rightarrow> jdict \<Rightarrow> bool) \<Rightarrow> bool" where
  "patch_law env rows visible \<longleftrightarrow>
     (\<forall>url hs body params db. let sel = (\<lambda>row. visible hs row \<and> row_selected params row);
          (r, db') = re_request env (patch_request url hs body params) db in
        (case raise_for_status r of
           Inl e \<Rightarrow> rows db' url = rows db url \<or> rows db' url = patched_rows sel body (rows db url)
         | Inr p \<Rightarrow> rows db' url = patched_rows sel body (rows db url) \<and>
             hr_json p = Some (JList (map (\<lambda>row. JObj (merged body row)) (filter sel (rows db url))))))"

lemma patch_lawD:
  assumes "patch_law env rows visible" and "json_response (fst (re_request env (patch_request url hs body params) db)) = Inr v"
  shows "v = JList (map (\<lambda>row. JObj (merged body row)) (filter (\<lambda>row. visible hs row \<and> row_selected params row) (rows db url)))"
    and "rows (snd (re_request env (patch_request url hs body params) db)) url =
      patched_rows (\<lambda>row. visible hs row \<and> row_selected params row) body (rows db url)"
proof -
  from assms(2) obtain p where p: "raise_for_status (fst (re_request env (patch_request url hs body params) db)) = Inr p" "hr_json p = Some v"
    by (auto simp: json_response_def bind_res_Inr_iff split: option.splits)
  have "let sel = (\<lambda>row. visible hs row \<and> row_selected params row);
          (r, db') = re_request env (patch_request url hs body params) db in
        (case raise_for_status r of
           Inl e \<Rightarrow> rows db' url = rows db url \<or> rows db' url = patched_rows sel body (rows db url)
         | Inr p \<Rightarrow> rows db' url = patched_rows sel body (rows db url) \<and>
             hr_json p = Some (JList (map (\<lambda>row. JObj (merged body row)) (filter sel (rows db url)))))"
    using assms(1) unfolding patch_law_def by blast
  with p show "v = JList (map (\<lambda>row. JObj (merged body row)) (filter (\<lambda>row. visible hs row \<and> row_selected params row) (rows db url)))"
    and "rows (snd (re_request env (patch_request url hs body params) db)) url =
      patched_rows (\<lambda>row. visible hs row \<and> row_selected params row) body (rows db url)"
    by (simp_all add: Let_def split: prod.splits)
qed

lemma dget_merged:
  "distinct (map fst body) \<Longrightarrow> dget (merged body row) k = (case dget body k of None \<Rightarrow> dget row k | Some v \<Rightarrow> Some v)"
proof (induction body arbitrary: row)
  case Nil
  then show ?case
    by (simp add: merged_def)
next
  case (Cons b body)
  obtain k0 v0 where b: "b = (k0, v0)"
    by (cases b)
  with Cons.prems have "dget body k0 = None"
    by (simp add: map_of_eq_None_iff)
  with Cons.IH [of "dset k0 v0 row"] Cons.prems show ?case
    by (auto simp: b merged_def split: option.splits)
qed

lemma jget_merged: "distinct (map fst body) \<Longrightarrow> jget (merged body row) k = (case dget body k of None \<Rightarrow> jget row k | Some v \<Rightarrow> v)"
  by (simp add: jget_def dget_merged split: option.splits)

subsection \<open>A launch is claimed once\<close>

abbreviation "previews_url env \<equiv> table_url (re_settings env) ''preview_sessions''"

definition claim_filter :: "string \<Rightarrow> string \<Rightarrow> (string, string) pydict" where
  "claim_filter pid user =
     [(''external_preview_id'', eq_filter pid), (''external_user_id'', eq_filter user), (''launch_status'', ''eq.not_launched''),
      (''select'', ''*'')]"

definition claim_body :: "string \<Rightarrow> json \<Rightarrow> jdict" where
  "claim_body external now =
     [(''launch_status'', JStr ''launch_pending''), (''launched_external_job_id'', JStr external), (''updated_at'', now)]"

text \<open>A row that was claimed is not selected by another claim.\<close>

lemma claimed_row: "\<not> row_selected (claim_filter pid user) (merged (claim_body external now) row)"
  by (simp add: row_selected_def claim_filter_def claim_body_def jget_merged eq_filter_def)

lemma claimed_rows:
  "filter (\<lambda>row. visible hs row \<and> row_selected (claim_filter pid user) row)
     (patched_rows (\<lambda>row. visible hs row \<and> row_selected (claim_filter pid user) row) (claim_body external now) rs) = []"
  by (auto simp: patched_rows_def filter_empty_conv claimed_row)

text \<open>What a patch of a preview did when it returned.\<close>

definition patch_outcome ::
  "'db rest_env \<Rightarrow> string \<Rightarrow> (json \<Rightarrow> jdict) \<Rightarrow> (string, string) pydict \<Rightarrow> 'db rest_world \<Rightarrow> jdict option \<Rightarrow> 'db rest_world \<Rightarrow> bool" where
  "patch_outcome env token body params s r t \<longleftrightarrow>
     (\<exists>hs v. let rq = patch_request (previews_url env) hs (body (JStr (isoformat (re_clock env (rw_calls s))))) params in
        user_scoped_headers (re_settings env) token = Inr hs \<and> json_response (fst (re_request env rq (rw_db s))) = Inr v \<and>
        rw_db t = snd (re_request env rq (rw_db s)) \<and>
        (case r of None \<Rightarrow> \<not> truthy v | Some d \<Rightarrow> \<exists>row. first_of v = Inr row \<and> preview_from_row env row = Inr d))"

lemma patch_outcome_Some:
  assumes "wp m (patch_outcome env token body params s) E s" and "m s = (Inr (Some d), t)"
  obtains hs v row where "user_scoped_headers (re_settings env) token = Inr hs"
    "json_response (fst (re_request env (patch_request (previews_url env) hs (body (JStr (isoformat (re_clock env (rw_calls s))))) params)
       (rw_db s))) = Inr v"
    "rw_db t = snd (re_request env (patch_request (previews_url env) hs (body (JStr (isoformat (re_clock env (rw_calls s))))) params) (rw_db s))"
    "first_of v = Inr row" "preview_from_row env row = Inr d"
  using assms(1) unfolding wp_Inr [of m, OF assms(2)] patch_outcome_def Let_def option.case by blast

lemma wp_first_row:
  "(\<And>r. (case r of None \<Rightarrow> \<not> truthy v | Some d \<Rightarrow> \<exists>row. first_of v = Inr row \<and> f row = Inr d) \<Longrightarrow> Q r s) \<Longrightarrow>
   (\<And>e. E e s) \<Longrightarrow> wp (first_row v f) Q E s"
  by (auto simp: first_row_def wp_simps bind_res_Inr_iff split: sum.split)

lemma wp_patch_preview:
  "wp (bindE (rest_now env) (\<lambda>now. bindE (token_headers env (preview_access_token (Some token))) (\<lambda>hs.
       bindE (rest_update env ''preview_sessions'' (body now) params (Some hs)) (\<lambda>rows. first_row rows (preview_from_row env)))))
     (patch_outcome env token body params s) (\<lambda>_ _. True) s"
proof -
  let ?now = "JStr (isoformat (re_clock env (rw_calls s)))"
  let ?s1 = "s\<lparr>rw_calls := Suc (rw_calls s)\<rparr>"
  have "wp (bindE (rest_update env ''preview_sessions'' (body ?now) params (Some hs)) (\<lambda>rows. first_row rows (preview_from_row env)))
      (patch_outcome env token body params s) (\<lambda>_ _. True) ?s1" if hs: "user_scoped_headers (re_settings env) token = Inr hs" for hs
  proof -
    let ?rq = "patch_request (previews_url env) hs (body ?now) params"
    have "wp (first_row v (preview_from_row env)) (patch_outcome env token body params s) (\<lambda>_ _. True) (after env ?rq ?s1)"
      if v: "json_response (fst (re_request env ?rq (rw_db s))) = Inr v" for v
    proof -
      have Q: "patch_outcome env token body params s r (after env ?rq ?s1)"
        if "case r of None \<Rightarrow> \<not> truthy v | Some d \<Rightarrow> \<exists>row. first_of v = Inr row \<and> preview_from_row env row = Inr d" for r
        unfolding patch_outcome_def Let_def by (rule exI [of _ hs], rule exI [of _ v]) (use hs v that in simp)
      show ?thesis
        by (rule wp_first_row) (erule Q, rule TrueI)
    qed
    moreover have "rw_db ?s1 = rw_db s"
      by simp
    ultimately show ?thesis
      by (cases "json_response (fst (re_request env ?rq (rw_db s)))")
        (simp_all only: wp_bindE wp_rest_update [OF configured_url [OF hs]] sum.case)
  qed
  then show ?thesis
    by (cases token) (auto simp: wp_bind_rest_now token_headers_def preview_access_token_def intro!: wp_liftR_cases)
qed

lemma claim_outcome: "wp (sb_claim_launch env (Some token) pid user external)
    (patch_outcome env token (claim_body external) (claim_filter pid user) s) (\<lambda>_ _. True) s"
  unfolding sb_claim_launch_def claim_body_def [symmetric] claim_filter_def [symmetric] by (rule wp_patch_preview)

text \<open>
  C12: Over REST too a launch is claimed once: when a claim has returned the preview, no later claim of the same preview
  by its owner returns it, as long as nobody else has changed the table between the two. That the database applies a
  \<open>PATCH\<close> to the rows its filters select is assumed (\<open>patch_law\<close>).
\<close>

theorem rest_claim_granted_once:
  assumes law: "patch_law env rows visible"
    and first: "sb_claim_launch env (Some token) pid user external s = (Inr (Some d), t)"
    and quiet: "rows (rw_db t') (previews_url env) = rows (rw_db t) (previews_url env)"
  shows "fst (sb_claim_launch env (Some token) pid user external' t') \<noteq> Inr (Some d')"
proof
  assume "fst (sb_claim_launch env (Some token) pid user external' t') = Inr (Some d')"
  then obtain u where second: "sb_claim_launch env (Some token) pid user external' t' = (Inr (Some d'), u)"
    by (cases "sb_claim_launch env (Some token) pid user external' t'") simp
  let ?now = "\<lambda>s. JStr (isoformat (re_clock env (rw_calls s)))"
  let ?rq = "\<lambda>hs external s. patch_request (previews_url env) hs (claim_body external (?now s)) (claim_filter pid user)"
  obtain hs v where hs: "user_scoped_headers (re_settings env) token = Inr hs"
    and v: "json_response (fst (re_request env (?rq hs external s) (rw_db s))) = Inr v"
    and t: "rw_db t = snd (re_request env (?rq hs external s) (rw_db s))"
    by (rule patch_outcome_Some [OF claim_outcome first])
  obtain hs' v' row where hs': "user_scoped_headers (re_settings env) token = Inr hs'"
    and v': "json_response (fst (re_request env (?rq hs' external' t') (rw_db t'))) = Inr v'" and row: "first_of v' = Inr row"
    by (rule patch_outcome_Some [OF claim_outcome second])
  from hs hs' have same: "hs' = hs"
    by simp
  have "v' = JList []"
    unfolding patch_lawD(1) [OF law v'] same quiet t patch_lawD(2) [OF law v] claimed_rows by simp
  with row show False
    by simp
qed

subsection \<open>A patch erases the times it does not mention\<close>

definition preview_filter :: "string \<Rightarrow> string \<Rightarrow> (string, string) pydict" where
  "preview_filter pid user =
     [(''external_preview_id'', eq_filter pid), (''external_user_id'', eq_filter user), (''select'', ''*'')]"

lemma update_outcome: "wp (sb_update_preview env (Some token) pid user patch)
    (patch_outcome env token (preview_patch patch) (preview_filter pid user) s) (\<lambda>_ _. True) s"
  unfolding sb_update_preview_def preview_filter_def [symmetric] by (rule wp_patch_preview)

lemma preview_patch_distinct: "distinct (map fst (preview_patch patch now))"
  unfolding preview_patch_def request_patch_dict_def by (rule distinct_map_filter) (simp add: preview_columns_def)

lemma nullable_cases:
  assumes "k \<in> set NULLABLE_PREVIEW_KEYS"
  obtains "k = ''deleted_at''" | "k = ''reviewed_at''" | "k = ''launched_job_id''" | "k = ''launched_external_job_id''" | "k = ''launched_at''"
  using assms unfolding NULLABLE_PREVIEW_KEYS_def list.set insert_iff empty_iff by (elim disjE) (erule FalseE | rule that, assumption)+

lemma unmentioned_is_null:
  assumes k: "k \<in> set NULLABLE_PREVIEW_KEYS" and "dget patch k = None"
  shows "dget (preview_patch patch now) k = Some JNull"
proof (rule map_of_is_SomeI [OF preview_patch_distinct])
  have "jget patch k = JNull"
    using assms(2) by (simp add: jget_def)
  moreover from k have "(k, jget patch k) \<in> set (preview_columns patch now)"
    by (cases rule: nullable_cases) (simp_all add: preview_columns_def)
  ultimately show "(k, JNull) \<in> set (preview_patch patch now)"
    using k by (simp add: preview_patch_def request_patch_dict_def)
qed

lemma preview_from_row_display:
  assumes "preview_from_row env row = Inr d"
  obtains kvs where "display kvs = Inr d" "dget kvs ''deleted_at'' = Some (get_of row ''deleted_at'')"
    "dget kvs ''reviewed_at'' = Some (get_of row ''reviewed_at'')"
    "dget kvs ''launched_job_id'' = Some (bind_res (get_of row ''launched_job_id'') (\<lambda>v. if truthy v
       then bind_res (item_of row ''launched_job_id'') (\<lambda>w. Inr (JStr (py_str (re_codec env) w))) else Inr JNull))"
    "dget kvs ''launched_external_job_id'' = Some (get_of row ''launched_external_job_id'')"
    "dget kvs ''launched_at'' = Some (get_of row ''launched_at'')"
proof -
  show thesis
    using assms unfolding preview_from_row_def bind_res_Inr_iff
    by (elim exE conjE) (rule that, assumption, simp_all)
qed

lemma null_column_read:
  assumes row: "preview_from_row env (JObj m) = Inr d" and null: "jget m k = JNull" and k: "k \<in> set NULLABLE_PREVIEW_KEYS"
  shows "jget d k = JNull"
proof -
  obtain kvs where kvs: "display kvs = Inr d" and read: "dget kvs ''deleted_at'' = Some (get_of (JObj m) ''deleted_at'')"
    "dget kvs ''reviewed_at'' = Some (get_of (JObj m) ''reviewed_at'')"
    "dget kvs ''launched_job_id'' = Some (bind_res (get_of (JObj m) ''launched_job_id'') (\<lambda>v. if truthy v
       then bind_res (item_of (JObj m) ''launched_job_id'') (\<lambda>w. Inr (JStr (py_str (re_codec env) w))) else Inr JNull))"
    "dget kvs ''launched_external_job_id'' = Some (get_of (JObj m) ''launched_external_job_id'')"
    "dget kvs ''launched_at'' = Some (get_of (JObj m) ''launched_at'')"
    by (rule preview_from_row_display [OF row])
  from k null have "dget kvs k = Some (Inr JNull)"
    by (cases rule: nullable_cases) (simp_all add: read)
  from display_value [OF kvs this] show ?thesis
    by (auto simp: jget_def)
qed

text \<open>
  C40: An update of a preview over REST erases the times and ids it does not mention: the stored row and the preview that
  is returned have them null afterwards, whatever they were before. A launch, which does not mention \<open>reviewed_at\<close>,
  erases when the preview was reviewed; the in-memory repository keeps it.
\<close>

theorem rest_update_erases_unmentioned:
  assumes law: "patch_law env rows visible"
    and run: "sb_update_preview env (Some token) pid user patch s = (Inr (Some d), t)"
    and k: "k \<in> set NULLABLE_PREVIEW_KEYS" and silent: "dget patch k = None"
  shows "jget d k = JNull \<and>
    (\<exists>row\<in>set (rows (rw_db t) (previews_url env)). preview_from_row env (JObj row) = Inr d \<and> jget row k = JNull)"
proof -
  let ?body = "preview_patch patch (JStr (isoformat (re_clock env (rw_calls s))))"
  obtain hs v row where v: "json_response (fst (re_request env (patch_request (previews_url env) hs ?body (preview_filter pid user)) (rw_db s))) = Inr v"
    and t: "rw_db t = snd (re_request env (patch_request (previews_url env) hs ?body (preview_filter pid user)) (rw_db s))"
    and row: "first_of v = Inr row" "preview_from_row env row = Inr d"
    by (rule patch_outcome_Some [OF update_outcome run])
  let ?sel = "\<lambda>row. visible hs row \<and> row_selected (preview_filter pid user) row"
  let ?rows = "rows (rw_db s) (previews_url env)"
  from row(1) patch_lawD(1) [OF law v] obtain r0 rs where hit: "filter ?sel ?rows = r0 # rs" and r0: "row = JObj (merged ?body r0)"
    by (cases "filter ?sel ?rows") auto
  have "r0 \<in> set (filter ?sel ?rows)"
    unfolding hit by (rule list.set_intros(1))
  then have "r0 \<in> set ?rows" "?sel r0"
    by (simp_all only: set_filter mem_Collect_eq)
  then have stored: "merged ?body r0 \<in> set (rows (rw_db t) (previews_url env))"
    unfolding t patch_lawD(2) [OF law v] patched_rows_def by force
  have null: "jget (merged ?body r0) k = JNull"
    by (simp add: jget_merged preview_patch_distinct unmentioned_is_null [OF k silent])
  show ?thesis
    by (intro conjI bexI [OF _ stored] null_column_read [OF row(2) [unfolded r0] null k] row(2) [unfolded r0] null)
qed

subsection \<open>A table that follows the law\<close>

definition patch_table :: "rest_request \<Rightarrow> jdict list \<Rightarrow> http_response option \<times> jdict list" where
  "patch_table rq db =
     (case rq_json rq of
        None \<Rightarrow> (answer (JList []), db)
      | Some body \<Rightarrow> (answer (JList (map (\<lambda>row. JObj (merged body row)) (filter (row_selected (rq_params rq)) db))),
          patched_rows (row_selected (rq_params rq)) body db))"

definition sample_preview_row :: jdict where
  "sample_preview_row = [(''external_preview_id'', JStr ''p1''), (''external_user_id'', JStr ''u1''), (''external_upload_id'', JStr ''f1''),
     (''org_id'', JStr ''o1''), (''status'', JStr ''ready''), (''configuration_fingerprint'', JStr ''f''),
     (''launch_status'', JStr ''not_launched''), (''reviewed_at'', JStr ''2026-01-01''), (''source_asset_checksum'', JStr ''c''),
     (''cache_key'', JStr ''k''), (''selection_mode'', JStr ''auto''), (''preview_root_uri'', JStr ''gs://b/p''),
     (''expires_at'', JStr ''2026-01-02''), (''created_at'', JStr ''2026-01-01'')]"

lemma table_follows_law: "patch_law (sample_rest_env patch_table) (\<lambda>db _. db) (\<lambda>_ _. True)"
  by (simp add: patch_law_def sample_rest_env_def patch_table_def answer_def raise_for_status_def is_success_def)

lemmas row_reading = preview_from_row_def jitem_def get_with_def get_default_def get_or_def or_else_def jget_def jor_def
  float_of_value_def int_of_value_def cache_fingerprint_of_def preview_configuration_cache_fingerprint_def opt_json_def

lemma sample_claim_readable: "\<exists>d. preview_from_row env (JObj (merged (claim_body x now) sample_preview_row)) = Inr d"
  by (simp add: claim_body_def merged_def sample_preview_row_def row_reading)

lemma sample_launch_patch:
  "preview_patch [(''launch_status'', JStr ''launched'')] (JStr now) =
     [(''reviewed_at'', JNull), (''launch_status'', JStr ''launched''), (''launched_job_id'', JNull), (''launched_external_job_id'', JNull),
      (''launched_at'', JNull), (''deleted_at'', JNull), (''updated_at'', JStr now)]"
  by (simp add: preview_patch_def preview_columns_def request_patch_dict_def NULLABLE_PREVIEW_KEYS_def)

lemma sample_update_readable:
  "\<exists>d. preview_from_row env (JObj (merged (preview_patch [(''launch_status'', JStr ''launched'')] (JStr now)) sample_preview_row)) = Inr d"
  unfolding sample_launch_patch by (simp add: merged_def sample_preview_row_def row_reading)

lemma sample_selected: "row_selected (claim_filter ''p1'' ''u1'') sample_preview_row" "row_selected (preview_filter ''p1'' ''u1'') sample_preview_row"
  by (simp_all add: row_selected_def claim_filter_def preview_filter_def sample_preview_row_def eq_filter_def)

lemma sample_patch:
  assumes "row_selected params sample_preview_row" and "\<And>now. \<exists>d. preview_from_row (sample_rest_env patch_table) (JObj (merged (body (JStr now)) sample_preview_row)) = Inr d"
    and m: "m = bindE (rest_now (sample_rest_env patch_table)) (\<lambda>now.
      bindE (token_headers (sample_rest_env patch_table) (preview_access_token (Some ''tok''))) (\<lambda>hs.
      bindE (rest_update (sample_rest_env patch_table) ''preview_sessions'' (body now) params (Some hs)) (\<lambda>rows.
      first_row rows (preview_from_row (sample_rest_env patch_table)))))"
  obtains d t where "m (sample_rest_world [sample_preview_row]) = (Inr (Some d), t)"
proof -
  have env: "re_settings (sample_rest_env f) = sample_supabase_settings" "re_request (sample_rest_env f) = f" for f
    by (simp_all add: sample_rest_env_def)
  have "wp m (\<lambda>r _. r \<noteq> None) (\<lambda>_ _. False) (sample_rest_world [sample_preview_row])"
    unfolding m wp_bind_rest_now
    using assms(2) [of "isoformat (re_clock (sample_rest_env patch_table) (rw_calls (sample_rest_world [sample_preview_row])))"]
    by (auto simp: wp_simps token_headers_def preview_access_token_def env sample_rest_url wp_rest_update patch_table_def assms(1)
        answer_def json_response_def raise_for_status_def is_success_def sample_rest_world_def first_row_def)
  then show thesis
    by (auto simp: wp_def split: prod.splits sum.splits intro: that)
qed

theorem rest_claim_granted_once_witness:
  "\<exists>d t. sb_claim_launch (sample_rest_env patch_table) (Some ''tok'') ''p1'' ''u1'' ''j1'' (sample_rest_world [sample_preview_row]) = (Inr (Some d), t) \<and>
     fst (sb_claim_launch (sample_rest_env patch_table) (Some ''tok'') ''p1'' ''u1'' ''j2'' t) \<noteq> Inr (Some d)"
proof -
  obtain d t where first: "sb_claim_launch (sample_rest_env patch_table) (Some ''tok'') ''p1'' ''u1'' ''j1'' (sample_rest_world [sample_preview_row]) = (Inr (Some d), t)"
    by (rule sample_patch [OF sample_selected(1), where body = "claim_body ''j1''" and
          m = "sb_claim_launch (sample_rest_env patch_table) (Some ''tok'') ''p1'' ''u1'' ''j1''"])
      (rule sample_claim_readable, simp only: sb_claim_launch_def claim_body_def claim_filter_def)
  show ?thesis
    by (intro exI conjI, rule first) (rule rest_claim_granted_once [OF table_follows_law first refl])
qed

theorem rest_update_erases_unmentioned_witness:
  "\<exists>d t. sb_update_preview (sample_rest_env patch_table) (Some ''tok'') ''p1'' ''u1'' [(''launch_status'', JStr ''launched'')]
       (sample_rest_world [sample_preview_row]) = (Inr (Some d), t) \<and>
     jget sample_preview_row ''reviewed_at'' = JStr ''2026-01-01'' \<and> jget d ''reviewed_at'' = JNull"
proof -
  obtain d t where run: "sb_update_preview (sample_rest_env patch_table) (Some ''tok'') ''p1'' ''u1'' [(''launch_status'', JStr ''launched'')]
      (sample_rest_world [sample_preview_row]) = (Inr (Some d), t)"
    by (rule sample_patch [OF sample_selected(2), where body = "preview_patch [(''launch_status'', JStr ''launched'')]" and
          m = "sb_update_preview (sample_rest_env patch_table) (Some ''tok'') ''p1'' ''u1'' [(''launch_status'', JStr ''launched'')]"])
      (rule sample_update_readable, simp only: sb_update_preview_def preview_filter_def)
  have "jget d ''reviewed_at'' = JNull"
    by (rule rest_update_erases_unmentioned [OF table_follows_law run, THEN conjunct1]) (simp_all add: NULLABLE_PREVIEW_KEYS_def)
  moreover have "jget sample_preview_row ''reviewed_at'' = JStr ''2026-01-01''"
    by (simp add: sample_preview_row_def)
  ultimately show ?thesis
    using run by blast
qed

section \<open>The connection string and the probe\<close>

text \<open>A password cannot end the user part of the connection string or the host that follows it.\<close>

lemma quote_safe: "x \<in> set (quote safe s) \<Longrightarrow> unreserved x \<or> x \<in> set safe \<or> x = CHR ''%''"
proof (induction s)
  case Nil
  then show ?case
    by simp
next
  case (Cons c s)
  have digit: "unreserved (percent_digit d)" if "d < 16" for d
    using that by (auto simp: unreserved_def percent_digit_def Let_def of_char_of)
  have "(of_char c :: nat) div 16 < 16"
    using nat_of_char_less_256 [of c] by linarith
  with Cons digit [of "(of_char c :: nat) div 16"] digit [of "(of_char c :: nat) mod 16"] show ?case
    by (auto simp: Let_def split: if_splits)
qed

lemma quoted_password_has_no_delimiter: "set (quote_plus s) \<inter> set ''@:/?#'' = {}"
  by (auto simp: quote_plus_def unreserved_def Let_def dest!: quote_safe split: if_splits)

text \<open>The probe of the health route answers for every status, but a database that cannot be reached raises.\<close>

lemma unreachable_database_fails_probe:
  assumes "is_configured (re_settings env)" and "\<And>rq db. fst (re_request env rq db) = None"
  shows "fst (healthcheck env s) = Inl http_error"
proof -
  have "wp (healthcheck env) (\<lambda>_ _. False) (\<lambda>e _. e = http_error) s"
    using assms by (simp add: healthcheck_def wp_simps wp_send)
  then show ?thesis
    by (auto simp: wp_def split: prod.splits sum.splits)
qed

end
