(* ===== verification/Vertex_Gemini.thy ===== *)
theory Vertex_Gemini
  imports Era_Detection Http_Json
begin

text \<open>
  The hosted classifier of \<open>app/services/vertex_gemini.py\<close>: its access token, the request to the model, the
  reading of the answer and the storing of the raw response. What the network answers is a field of the
  environment: \<open>None\<close> is an \<open>httpx.HTTPError\<close>, and a response has its status and its body as JSON where it
  can be read as JSON. \<open>ClassifierError\<close> and \<open>httpx.HTTPError\<close> are \<open>ExternalError\<close>, as the detection
  service has them. All readings of one classification share the number of calls made before it.
\<close>

section \<open>The environment\<close>

record gemini_env =
  gm_access_token :: string
  gm_metadata :: "nat \<Rightarrow> http_response option"
  gm_gcloud :: "nat \<Rightarrow> string option"
  gm_region :: string
  gm_project_id :: string
  gm_model :: string
  gm_prompt_version :: string
  gm_bucket_name :: string
  gm_raw_prefix :: string
  gm_post :: "string \<Rightarrow> string \<Rightarrow> json \<Rightarrow> nat \<Rightarrow> http_response option"
  gm_upload :: "string \<Rightarrow> string \<Rightarrow> string \<Rightarrow> nat \<Rightarrow> http_response option"
  gm_uuid_hex :: "nat \<Rightarrow> string"
  gm_b64_valid :: "string \<Rightarrow> bool"
  gm_codec :: codec
  gm_float_of_str :: "string \<Rightarrow> rat option"

definition classifier_error :: "string \<Rightarrow> exn" where
  "classifier_error m = ExternalError m"

section \<open>\<open>GoogleAccessTokenProvider\<close>\<close>

text \<open>Only \<open>httpx.HTTPError\<close> is caught.\<close>

definition metadata_token :: "gemini_env \<Rightarrow> nat \<Rightarrow> json result" where
  "metadata_token env n =
     (case json_response (gm_metadata env n) of
        Inr v \<Rightarrow> get_of v ''access_token''
      | Inl e \<Rightarrow> if e = http_error then Inr JNull else Inl e)"

definition gcloud_token :: "gemini_env \<Rightarrow> nat \<Rightarrow> json" where
  "gcloud_token env n =
     (case gm_gcloud env n of
        None \<Rightarrow> JNull
      | Some out \<Rightarrow> if strip out = [] then JNull else JStr (strip out))"

definition google_access_token :: "gemini_env \<Rightarrow> nat \<Rightarrow> json result" where
  "google_access_token env n =
     (if gm_access_token env \<noteq> [] then Inr (JStr (gm_access_token env))
      else bind_res (metadata_token env n) (\<lambda>t. Inr (if truthy t then t else gcloud_token env n)))"

section \<open>The request\<close>

text \<open>\<open>s.split(c, 1)\<close>, where the separator is there.\<close>

definition split_once :: "char \<Rightarrow> string \<Rightarrow> (string \<times> string) option" where
  "split_once c s = (if c \<in> set s then Some (takeWhile (\<lambda>x. x \<noteq> c) s, drop 1 (dropWhile (\<lambda>x. x \<noteq> c) s)) else None)"

definition OCTET_STREAM :: string where
  "OCTET_STREAM = ''application/octet-stream''"

definition media_part :: "gemini_env \<Rightarrow> string \<Rightarrow> string \<Rightarrow> json result" where
  "media_part env uri mime =
     (if starts_with ''data:'' uri
      then
        (case split_once CHR '','' uri of
           None \<Rightarrow> Inl (ValueError ''not enough values to unpack'')
         | Some (header, encoded) \<Rightarrow>
             (let stated = takeWhile (\<lambda>x. x \<noteq> CHR '';'') (drop 5 header);
                  inferred = or_str stated (or_str mime OCTET_STREAM)
              in if \<not> gm_b64_valid env encoded then Inl (ValueError ''binascii.Error'')
                 else Inr (JObj [(''inlineData'', JObj [(''mimeType'', JStr inferred), (''data'', JStr encoded)])])))
      else Inr (JObj [(''fileData'', JObj [(''mimeType'', JStr (or_str mime OCTET_STREAM)), (''fileUri'', JStr uri)])]))"

definition model_endpoint :: "gemini_env \<Rightarrow> string" where
  "model_endpoint env = ''https://'' @ gm_region env @ ''-aiplatform.googleapis.com/v1/projects/'' @ gm_project_id env @
     ''/locations/'' @ gm_region env @ ''/publishers/google/models/'' @ gm_model env @ '':generateContent''"

definition PROMPT_TEMPLATE :: string where
  "PROMPT_TEMPLATE = concat (map (\<lambda>l. l @ [CHR 0x0A])
     [''Classify the historical era of this media.'', [], ''Return strict JSON with this shape:'', ''{'',
      ''  \"era\": \"string\",'', ''  \"confidence\": 0.0,'',
      ''  \"top_candidates\": [{\"era\": \"string\", \"confidence\": 0.0}],'', ''  \"forensic_markers\": {'',
      ''    \"grain_structure\": \"string\",'', ''    \"color_saturation\": 0.0,'', ''    \"format_artifacts\": [\"string\"]'',
      ''  }'', ''}'', [], ''Rules:'', ''- Confidence must be between 0.0 and 1.0.'',
      ''- top_candidates must contain exactly 3 unique eras sorted by confidence descending.'',
      ''- forensic_markers must reflect the visible media evidence.'']) @
     ''- Use the era profile as a prior, but prefer visible evidence from the media.''"

definition request_json :: "gemini_env \<Rightarrow> string \<Rightarrow> string \<Rightarrow> jdict \<Rightarrow> json \<Rightarrow> json" where
  "request_json env filename mime profile part =
     JObj [(''systemInstruction'', JObj [(''parts'', JList [JObj [(''text'', JStr PROMPT_TEMPLATE)]])]),
       (''contents'', JList [JObj [(''role'', JStr ''user''),
          (''parts'', JList [JObj [(''text'', JStr (json_dumps (gm_codec env)
             (JObj [(''original_filename'', JStr filename), (''mime_type'', JStr (or_str mime OCTET_STREAM)),
                (''era_profile'', JObj profile)])))], part])]]),
       (''generationConfig'', JObj [(''temperature'', JFloat (2 / 10)), (''topP'', JFloat (8 / 10)), (''candidateCount'', JInt 1),
          (''responseMimeType'', JStr ''application/json'')])]"

definition generate_content ::
  "gemini_env \<Rightarrow> json \<Rightarrow> string \<Rightarrow> string \<Rightarrow> string \<Rightarrow> jdict \<Rightarrow> nat \<Rightarrow> json result" where
  "generate_content env token uri filename mime profile n =
     bind_res (media_part env uri mime) (\<lambda>part.
     json_response (gm_post env (model_endpoint env) (''Bearer '' @ py_str (gm_codec env) token)
       (request_json env filename mime profile part) n))"

section \<open>The answer\<close>

text \<open>\<open>next((p.get("text") for p in parts if p.get("text")), "")\<close>\<close>

fun first_text :: "json list \<Rightarrow> json result" where
  "first_text [] = Inr (JStr [])"
| "first_text (p # ps) = bind_res (get_of p ''text'') (\<lambda>t. if truthy t then Inr t else first_text ps)"

fun decode_text :: "codec \<Rightarrow> json \<Rightarrow> jdict result" where
  "decode_text c (JStr s) =
     (case json_loads c s of
        None \<Rightarrow> Inl (classifier_error ''Vertex Gemini response did not contain valid JSON output.'')
      | Some (JObj d) \<Rightarrow> Inr d
      | Some v \<Rightarrow> Inl (classifier_error ''Vertex Gemini JSON output must be an object.''))"
| "decode_text c v = Inl (TypeError ''the JSON object must be str'')"

definition parse_candidate_payload :: "codec \<Rightarrow> json \<Rightarrow> jdict result" where
  "parse_candidate_payload c response =
     bind_res (get_of response ''candidates'') (\<lambda>candidates.
     if \<not> truthy candidates then Inl (classifier_error ''Vertex Gemini response did not contain candidates.'')
     else
       bind_res (first_of candidates) (\<lambda>first.
       bind_res (get_of first ''content'') (\<lambda>content.
       bind_res (get_of (jor content (JObj [])) ''parts'') (\<lambda>parts.
       bind_res (items_of (jor parts (JList []))) (\<lambda>ps.
       bind_res (first_text ps) (\<lambda>text_part.
       if \<not> truthy text_part then Inl (classifier_error ''Vertex Gemini response did not contain JSON text output.'')
       else decode_text c text_part))))))"

definition clamp_confidence :: "(string \<Rightarrow> rat option) \<Rightarrow> json \<Rightarrow> rat result" where
  "clamp_confidence rd v =
     (case float_value rd v of
        None \<Rightarrow> Inl (classifier_error ''Vertex Gemini response omitted a valid confidence value.'')
      | Some q \<Rightarrow> Inr (clamp01 q))"

definition normalize_forensic_markers :: "codec \<Rightarrow> (string \<Rightarrow> rat option) \<Rightarrow> json \<Rightarrow> jdict result" where
  "normalize_forensic_markers c rd marks =
     bind_res (get_of marks ''grain_structure'') (\<lambda>grain.
     bind_res (get_of marks ''color_saturation'') (\<lambda>saturation.
     bind_res (to_pyfloat rd (jor saturation (JFloat 0))) (\<lambda>q.
     bind_res (get_of marks ''format_artifacts'') (\<lambda>artifacts.
     bind_res (items_of (jor artifacts (JList []))) (\<lambda>xs.
     Inr [(''grain_structure'', JStr (py_str c (jor grain (JStr ''unknown grain signature'')))),
       (''color_saturation'', json_of_float q), (''format_artifacts'', JList (map (\<lambda>x. JStr (py_str c x)) xs))])))))"

fun as_dict :: "json \<Rightarrow> jdict result" where
  "as_dict (JObj d) = Inr d"
| "as_dict v = Inl (AttributeError ''get'')"

text \<open>The items of a list of candidates, each of which is asked for its keys.\<close>

definition candidate_items :: "json \<Rightarrow> jdict list result" where
  "candidate_items v = bind_res (items_of v) (map_res as_dict)"

text \<open>\<open>int(d.get(k, default) or 0)\<close>\<close>

definition token_count :: "jdict \<Rightarrow> string \<Rightarrow> json \<Rightarrow> int result" where
  "token_count d k absent =
     (let v = jor (get_default d k absent) (JInt 0) in
      case to_int v of
        Some i \<Rightarrow> Inr i
      | None \<Rightarrow> Inl (case v of JStr s \<Rightarrow> ValueError s | _ \<Rightarrow> TypeError ''int() argument''))"

definition usage_of :: "json \<Rightarrow> era_usage result" where
  "usage_of usage =
     bind_res (as_dict (jor usage (JObj []))) (\<lambda>d.
     bind_res (token_count d ''promptTokenCount'' (JInt 0)) (\<lambda>prompt.
     bind_res (token_count d ''candidatesTokenCount'' (get_default d ''candidateTokenCount'' (JInt 0))) (\<lambda>candidates.
     bind_res (token_count d ''totalTokenCount'' (JInt 0)) (\<lambda>total_tokens.
     Inr \<lparr>prompt_token_count = prompt, candidates_token_count = candidates, total_token_count = total_tokens, api_call_count = 1\<rparr>))))"

section \<open>\<open>GcsRawResponseStore\<close>\<close>

definition raw_object_name :: "gemini_env \<Rightarrow> string \<Rightarrow> json \<Rightarrow> nat \<Rightarrow> string" where
  "raw_object_name env jid response_id n =
     strip_chars {CHR ''/''} (gm_raw_prefix env) @ ''/'' @ jid @ ''/'' @
     (if truthy response_id then py_str (gm_codec env) response_id else gm_uuid_hex env n) @ ''.json''"

definition store_raw_response :: "gemini_env \<Rightarrow> string \<Rightarrow> json \<Rightarrow> json \<Rightarrow> json \<Rightarrow> nat \<Rightarrow> string option result" where
  "store_raw_response env jid response_id response token n =
     (if gm_bucket_name env = [] then Inr None
      else
        (let name = raw_object_name env jid response_id n in
         case gm_upload env name (''Bearer '' @ py_str (gm_codec env) token) (json_dumps (gm_codec env) response) n of
           None \<Rightarrow> Inl http_error
         | Some r \<Rightarrow>
             if is_success r then Inr (Some (''gs://'' @ gm_bucket_name env @ ''/'' @ name)) else Inl http_error))"

section \<open>The classifier\<close>

definition unsupported_label :: string where
  "unsupported_label = ''Primary Gemini classifier returned an unsupported era label. Manual confirmation required.''"

text \<open>
  \<open>EraClassification(...)\<close> of an answer, its arguments in the order of the code. A model version that is not a
  string would be kept as it is by the code; here it is printed.
\<close>

definition read_classification :: "gemini_env \<Rightarrow> json \<Rightarrow> jdict \<Rightarrow> string option \<Rightarrow> era_classification result" where
  "read_classification env response parsed uri =
     bind_res (get_of response ''usageMetadata'') (\<lambda>usage.
     bind_res (jitem parsed ''era'') (\<lambda>label.
     let era = canonicalize_era_label (gm_codec env) label in
     bind_res (jitem parsed ''confidence'') (\<lambda>raw.
     bind_res (clamp_confidence (gm_float_of_str env) raw) (\<lambda>confidence.
     bind_res (normalize_forensic_markers (gm_codec env) (gm_float_of_str env) (jor (jget parsed ''forensic_markers'') (JObj []))) (\<lambda>markers.
     bind_res (candidate_items (jor (jget parsed ''top_candidates'') (JList []))) (\<lambda>items.
     bind_res (get_of response ''modelVersion'') (\<lambda>version.
     bind_res (usage_of usage) (\<lambda>tokens.
     Inr \<lparr>ec_era = (case era of None \<Rightarrow> UNKNOWN_ERA | Some e \<Rightarrow> e), ec_confidence = confidence, ec_forensic_markers = markers,
       ec_top_candidates = as_candidates (normalize_top_candidates (gm_codec env) (gm_float_of_str env) items),
       ec_model_version = py_str (gm_codec env) (jor version (JStr (gm_model env))), ec_prompt_version = gm_prompt_version env,
       ec_raw_response_gcs_uri = uri, ec_usage = tokens,
       ec_provider_error = (if era = None then Some unsupported_label else None)\<rparr>))))))))"

definition gemini_classify ::
  "gemini_env \<Rightarrow> string \<Rightarrow> string \<Rightarrow> string \<Rightarrow> string \<Rightarrow> jdict option \<Rightarrow> nat \<Rightarrow> era_classification result" where
  "gemini_classify env jid uri filename mime profile n =
     bind_res (google_access_token env n) (\<lambda>token.
     if \<not> truthy token then Inl (classifier_error ''Google access token is not available for Vertex Gemini requests.'')
     else
       (let resolved = (case profile of Some p \<Rightarrow> p | None \<Rightarrow> build_default_era_profile uri filename mime) in
        bind_res (generate_content env token uri filename mime resolved n) (\<lambda>response.
        bind_res (parse_candidate_payload (gm_codec env) response) (\<lambda>parsed.
        bind_res (get_of response ''responseId'') (\<lambda>response_id.
        bind_res (case store_raw_response env jid response_id response token n of
                    Inr u \<Rightarrow> Inr u | Inl e \<Rightarrow> if e = http_error then Inr None else Inl e) (\<lambda>stored_uri.
        read_classification env response parsed stored_uri))))))"

text \<open>The detection service with this classifier, \<open>_primary_classifier()\<close>.\<close>

definition with_gemini :: "gemini_env \<Rightarrow> era_env \<Rightarrow> era_env" where
  "with_gemini genv env =
     env\<lparr>ee_primary := Some (\<lambda>jid uri filename mime profile n. gemini_classify genv jid uri filename mime (Some profile) n)\<rparr>"

section \<open>What an answer becomes\<close>

definition gemini_ok :: "era_classification \<Rightarrow> bool" where
  "gemini_ok cls \<longleftrightarrow> 0 \<le> ec_confidence cls \<and> ec_confidence cls \<le> 1 \<and>
     (if ec_provider_error cls = None then ec_era cls \<in> set ERA_CATALOG
      else ec_era cls = UNKNOWN_ERA \<and> ec_provider_error cls = Some unsupported_label) \<and>
     (\<exists>xs. ec_top_candidates cls = as_candidates xs \<and> distinct (map fst xs) \<and> fst ` set xs \<subseteq> set ERA_CATALOG \<and>
        (\<forall>(e, q) \<in> set xs. 0 \<le> q \<and> q \<le> 1))"


lemma clamp_confidence_bounds: "clamp_confidence rd v = Inr q \<Longrightarrow> 0 \<le> q \<and> q \<le> 1"
  by (auto simp: clamp_confidence_def clamp01_bounds split: option.splits)

lemma read_classification_ok:
  assumes "read_classification env response parsed uri = Inr cls"
  shows "gemini_ok cls"
proof -
  obtain label raw q items where parts: "clamp_confidence (gm_float_of_str env) raw = Inr q" "ec_confidence cls = q"
    "ec_era cls = (case canonicalize_era_label (gm_codec env) label of None \<Rightarrow> UNKNOWN_ERA | Some e \<Rightarrow> e)"
    "ec_provider_error cls = (if canonicalize_era_label (gm_codec env) label = None then Some unsupported_label else None)"
    "ec_top_candidates cls = as_candidates (normalize_top_candidates (gm_codec env) (gm_float_of_str env) items)"
    using assms by (auto simp: read_classification_def bind_res_Inr_iff Let_def)
  have "canonicalize_era_label (gm_codec env) label = Some e \<Longrightarrow> e \<in> set ERA_CATALOG" for e
    by (rule canonical_in_catalog)
  moreover have "fst ` set (normalize_top_candidates (gm_codec env) (gm_float_of_str env) items) \<subseteq> set ERA_CATALOG"
    "distinct (map fst (normalize_top_candidates (gm_codec env) (gm_float_of_str env) items))"
    "\<forall>(e, q) \<in> set (normalize_top_candidates (gm_codec env) (gm_float_of_str env) items). 0 \<le> q \<and> q \<le> 1"
    using normalize_candidates_ok [of "gm_codec env" "gm_float_of_str env" False "[]" items]
    by (auto simp: normalize_top_candidates_def)
  ultimately show ?thesis
    unfolding gemini_ok_def parts(2-5) using clamp_confidence_bounds [OF parts(1)] by (auto split: option.split)
qed

text \<open>The steps of a classification, from the answer on.\<close>

lemma stored_or_not:
  "\<exists>u. (case store_raw_response env jid rid response token n of
     Inr u \<Rightarrow> Inr u | Inl e \<Rightarrow> if e = http_error then Inr None else Inl e) = Inr u"
  by (auto simp: store_raw_response_def Let_def split: option.split)

lemma parsed_is_object: "parse_candidate_payload c response = Inr parsed \<Longrightarrow> \<exists>d. response = JObj d"
  by (cases response) (simp_all add: parse_candidate_payload_def)

lemma gemini_classify_answer:
  assumes "google_access_token env n = Inr token" "truthy token"
    and "generate_content env token uri filename mime p n = Inr response"
    and "parse_candidate_payload (gm_codec env) response = Inr parsed"
  shows "\<exists>u. gemini_classify env jid uri filename mime (Some p) n = read_classification env response parsed u"
proof -
  obtain d where d: "response = JObj d" using parsed_is_object [OF assms(4)] by blast
  obtain u where "(case store_raw_response env jid (jget d ''responseId'') (JObj d) token n of
      Inr u \<Rightarrow> Inr u | Inl e \<Rightarrow> if e = http_error then Inr None else Inl e) = Inr u"
    using stored_or_not by blast
  with assms d show ?thesis by (auto simp: gemini_classify_def)
qed

lemma gemini_classify_ok: "gemini_classify env jid uri filename mime profile n = Inr cls \<Longrightarrow> gemini_ok cls"
  by (auto simp: gemini_classify_def bind_res_Inr_iff Let_def split: if_splits intro: read_classification_ok)

text \<open>
  C38: An answer of the model is never taken at its word. Whatever the model, the token service and the storage
  answer, a classification that comes back names an era of the catalog and no error, or the unknown era and the
  error that asks for a confirmation; its confidence is between 0 and 1, and its candidates are different eras of
  the catalog with confidences between 0 and 1.
\<close>

theorem gemini_answer_checked:
  "case gemini_classify env jid uri filename mime profile n of Inl e \<Rightarrow> True | Inr cls \<Rightarrow> gemini_ok cls"
  by (auto split: sum.split intro: gemini_classify_ok)

text \<open>
  C39: A model that cannot be reached is replaced, an answer that leaves out its era or confidence is not. With a
  token at hand, if the request of the model fails, the detection service returns the deterministic classification
  marked for confirmation; if the model answers an object without an era or without a confidence, the exception
  \<open>KeyError\<close> leaves the detection service, although an invalid confidence counts as a failure of the provider.
\<close>

theorem incomplete_answer_escapes:
  assumes "google_access_token genv (es_calls s) = Inr token" and "truthy token"
    and "dget profile ''capture_medium'' = Some medium"
  shows "(generate_content genv token uri filename mime profile (es_calls s) = Inl http_error \<longrightarrow>
      (case fst (classify_era (with_gemini genv env) jid uri filename mime profile s) of
         Inr cls \<Rightarrow> provider_failed cls \<and> ec_model_version cls = ''deterministic-fallback-v1'' | Inl e \<Rightarrow> False)) \<and>
    (\<forall>response parsed key. generate_content genv token uri filename mime profile (es_calls s) = Inr response \<and>
      parse_candidate_payload (gm_codec genv) response = Inr parsed \<and> dget parsed key = None \<and>
      (key = ''era'' \<or> key = ''confidence'' \<and> dget parsed ''era'' \<noteq> None) \<longrightarrow>
      fst (classify_era (with_gemini genv env) jid uri filename mime profile s) = Inl (KeyError key))"
proof (intro conjI impI allI)
  have nonempty: "profile \<noteq> []" using assms(3) by auto
  have run: "fst (classify_era (with_gemini genv env) jid uri filename mime profile s) =
      (case gemini_classify genv jid uri filename mime (Some profile) (es_calls s) of
         Inr cls \<Rightarrow> (case normalize_classification (with_gemini genv env) cls uri filename mime profile of
            Inr a \<Rightarrow> Inr a
          | Inl e \<Rightarrow> if is_provider_failure e then bind_res (fallback_classify (ee_codec env) uri filename mime profile)
              (\<lambda>f. Inr (f\<lparr>ec_provider_error := Some ''Primary Gemini classifier failed. Manual confirmation required.''\<rparr>)) else Inl e)
       | Inl e \<Rightarrow> if is_provider_failure e then bind_res (fallback_classify (ee_codec env) uri filename mime profile)
              (\<lambda>f. Inr (f\<lparr>ec_provider_error := Some ''Primary Gemini classifier failed. Manual confirmation required.''\<rparr>)) else Inl e)"
    by (simp add: classify_era_def primary_classify_def with_gemini_def prog_defs era_call_def split: sum.split)
  {
    assume "generate_content genv token uri filename mime profile (es_calls s) = Inl http_error"
    with assms(1,2) have "gemini_classify genv jid uri filename mime (Some profile) (es_calls s) = Inl http_error"
      by (simp add: gemini_classify_def)
    then show "case fst (classify_era (with_gemini genv env) jid uri filename mime profile s) of
         Inr cls \<Rightarrow> provider_failed cls \<and> ec_model_version cls = ''deterministic-fallback-v1'' | Inl e \<Rightarrow> False"
      unfolding run using assms(3) nonempty
      by (simp add: http_error_def fallback_classify_def provider_failed_def Let_def split: prod.split)
  next
    fix response parsed key
    assume a: "generate_content genv token uri filename mime profile (es_calls s) = Inr response \<and>
      parse_candidate_payload (gm_codec genv) response = Inr parsed \<and> dget parsed key = None \<and>
      (key = ''era'' \<or> key = ''confidence'' \<and> dget parsed ''era'' \<noteq> None)"
    then obtain d where d: "response = JObj d" using parsed_is_object by blast
    from a gemini_classify_answer [OF assms(1,2), of uri filename mime profile response parsed jid]
    obtain u where "gemini_classify genv jid uri filename mime (Some profile) (es_calls s) = read_classification genv response parsed u"
      by blast
    moreover have "read_classification genv response parsed u = Inl (KeyError key)"
      using a by (auto simp: read_classification_def d jitem_def Let_def)
    ultimately show "fst (classify_era (with_gemini genv env) jid uri filename mime profile s) = Inl (KeyError key)"
      unfolding run by simp
  }
qed

section \<open>An answer without a confidence\<close>

definition sample_gemini_env :: gemini_env where
  "sample_gemini_env = \<lparr>gm_access_token = ''tok'', gm_metadata = (\<lambda>_. None), gm_gcloud = (\<lambda>_. None), gm_region = ''r'',
     gm_project_id = ''p'', gm_model = ''m'', gm_prompt_version = ''v1'', gm_bucket_name = ''raw'', gm_raw_prefix = ''gemini/'',
     gm_post = (\<lambda>_ _ _ _. Some \<lparr>hr_status = 200, hr_location = None, hr_range = None,
       hr_json = Some (JObj [(''candidates'', JList [JObj [(''content'', JObj [(''parts'', JList [JObj [(''text'', JStr ''text'')]])])]])])\<rparr>),
     gm_upload = (\<lambda>_ _ _ _. None), gm_uuid_hex = (\<lambda>_. ''id''), gm_b64_valid = (\<lambda>_. True),
     gm_codec = plain_codec\<lparr>json_loads := (\<lambda>_. Some (JObj [(''era'', JStr ''vhs'')]))\<rparr>, gm_float_of_str = (\<lambda>_. None)\<rparr>"

theorem incomplete_answer_escapes_witness:
  "fst (classify_era (with_gemini sample_gemini_env sample_era_env) ''j1'' ''gs://b/a.mov'' ''a.mov'' ''video/quicktime''
     [(''capture_medium'', JStr ''vhs'')] empty_era_store) = Inl (KeyError ''confidence'')"
proof -
  let ?profile = "[(''capture_medium'', JStr ''vhs'')]"
  have token: "google_access_token sample_gemini_env (es_calls empty_era_store) = Inr (JStr ''tok'')"
    by (simp add: google_access_token_def sample_gemini_env_def)
  obtain response where response: "generate_content sample_gemini_env (JStr ''tok'') ''gs://b/a.mov'' ''a.mov'' ''video/quicktime'' ?profile
      (es_calls empty_era_store) = Inr response"
    "parse_candidate_payload (gm_codec sample_gemini_env) response = Inr [(''era'', JStr ''vhs'')]"
    by (simp add: generate_content_def media_part_def starts_with_def sample_gemini_env_def json_response_def raise_for_status_def is_success_def
        parse_candidate_payload_def jor_def)
  from incomplete_answer_escapes [OF token, where profile = ?profile and medium = "JStr ''vhs''" and uri = "''gs://b/a.mov''" and
      filename = "''a.mov''" and mime = "''video/quicktime''" and env = sample_era_env and jid = "''j1''"] response
  show ?thesis by auto
qed

end
