(* ===== verification/Webhook_Delivery.thy ===== *)
theory Webhook_Delivery
  imports Runtime_Properties
begin

text \<open>
  What \<open>_deliver_webhooks\<close> does, against a reference written as a pure function of the answers: which
  attempts are made, what is recorded of them and how long the worker sleeps between them.
\<close>

section \<open>The reference\<close>

definition answered :: "runtime_env \<Rightarrow> string \<Rightarrow> nat \<Rightarrow> bool" where
  "answered env url n = (send_webhook_request env url n = Inr ())"

text \<open>The attempts one subscription takes when the log has \<open>n\<close> entries: up to the first answer, at most three.\<close>

definition attempts_needed :: "runtime_env \<Rightarrow> string \<Rightarrow> nat \<Rightarrow> nat" where
  "attempts_needed env url n = (if answered env url n then 1 else if answered env url (n + 1) then 2 else 3)"

definition attempt_entry :: "runtime_env \<Rightarrow> string \<Rightarrow> string \<Rightarrow> string \<Rightarrow> nat \<Rightarrow> nat \<Rightarrow> delivery" where
  "attempt_entry env jid event url n k =
     \<lparr>dl_job_id = jid, dl_event_type = event, dl_webhook_url = url, dl_attempt = k,
       dl_status = (if answered env url (n + k - 1) then Delivered else if k = 3 then DeliveryFailed else Retrying),
       dl_backoff_seconds = (if answered env url (n + k - 1) then None else Some (2 ^ (k - 1)))\<rparr>"

definition attempts_log :: "runtime_env \<Rightarrow> string \<Rightarrow> string \<Rightarrow> string \<Rightarrow> nat \<Rightarrow> delivery list" where
  "attempts_log env jid event url n = map (attempt_entry env jid event url n) [1..<Suc (attempts_needed env url n)]"

fun delivery_log :: "runtime_env \<Rightarrow> string \<Rightarrow> string \<Rightarrow> string list \<Rightarrow> nat \<Rightarrow> delivery list" where
  "delivery_log env jid event [] n = []"
| "delivery_log env jid event (url # urls) n =
     attempts_log env jid event url n @ delivery_log env jid event urls (n + attempts_needed env url n)"

fun delivery_sleeps :: "runtime_env \<Rightarrow> string list \<Rightarrow> nat \<Rightarrow> int list" where
  "delivery_sleeps env [] n = []"
| "delivery_sleeps env (url # urls) n =
     take (attempts_needed env url n - 1) [1, 2] @ delivery_sleeps env urls (n + attempts_needed env url n)"

text \<open>The URLs an event of this owner goes to.\<close>

definition subscribed_urls :: "string \<Rightarrow> string \<Rightarrow> job_store \<Rightarrow> string list" where
  "subscribed_urls owner event s =
     map webhook_url (filter (\<lambda>x. enabled x \<and> event \<in> set (event_types x)) (subscriptions_of owner s))"

section \<open>The code follows it\<close>

lemma length_attempts_log: "length (attempts_log env jid event url n) = attempts_needed env url n"
  by (simp add: attempts_log_def)

lemma deliver_attempts_run:
  "deliver_attempts env jid event url [1, 2, 3] w = (Inr (), w\<lparr>
     w_deliveries := w_deliveries w @ attempts_log env jid event url (length (w_deliveries w)),
     w_slept := w_slept w @ take (attempts_needed env url (length (w_deliveries w)) - 1) [1, 2]\<rparr>)"
proof -
  let ?n = "length (w_deliveries w)"
  have up: "[1..<Suc (Suc 0)] = [1]" "[1..<Suc (Suc (Suc 0))] = [1, 2]" "[Suc 0..<4] = [1, 2, 3]" "[Suc 0..<3] = [1, 2]" "[Suc 0..<2] = [1]"
    by (simp_all add: upt_rec numeral_eq_Suc)
  consider "answered env url ?n" | "\<not> answered env url ?n" "answered env url (Suc ?n)"
    | "\<not> answered env url ?n" "\<not> answered env url (Suc ?n)" by blast
  then show ?thesis
    by cases
      (auto simp: deliver_attempts.simps attempts_log_def attempts_needed_def attempt_entry_def answered_def up
        add_delivery_def sleep_def RETRY_BACKOFF_SECONDS_def tryE_def prog_defs intro!: world.equality split: sum.splits)
qed

lemma forE_fold: "(\<And>x w. f x w = (Inr (), g x w)) \<Longrightarrow> forE xs f w = (Inr (), fold g xs w)"
  by (induction xs arbitrary: w) (simp_all add: ret_def thenE_def bindE_def)

lemma deliver_all_run:
  "forE subs (\<lambda>sub. deliver_attempts env jid event (webhook_url sub) [1, 2, 3]) w = (Inr (), w\<lparr>
     w_deliveries := w_deliveries w @ delivery_log env jid event (map webhook_url subs) (length (w_deliveries w)),
     w_slept := w_slept w @ delivery_sleeps env (map webhook_url subs) (length (w_deliveries w))\<rparr>)"
proof (subst forE_fold, rule deliver_attempts_run, rule arg_cong [where f = "Pair (Inr ())"], induction subs arbitrary: w)
  case Nil
  then show ?case by simp
next
  case (Cons sub subs)
  show ?case by (simp add: Cons.IH length_attempts_log del: One_nat_def)
qed

lemma deliver_webhooks_run:
  "deliver_webhooks env j event w =
     (let urls = subscribed_urls (owner_user_id j) event (w_store w); n = length (w_deliveries w) in
      (Inr (), w\<lparr>w_store := cancels (interference env (w_polls w)) (w_store w), w_polls := Suc (w_polls w),
         w_deliveries := w_deliveries w @ delivery_log env (job_id j) event urls n,
         w_slept := w_slept w @ delivery_sleeps env urls n\<rparr>))"
proof -
  let ?js = "cancels (interference env (w_polls w)) (w_store w)"
  let ?w = "w\<lparr>w_store := ?js, w_polls := Suc (w_polls w)\<rparr>"
  let ?subs = "filter (\<lambda>x. enabled x \<and> event \<in> set (event_types x)) (subscriptions_of (owner_user_id j) (w_store w))"
  have "subscriptions_of owner ?js = subscriptions_of owner (w_store w)" for owner
    using cancels_frame [of "interference env (w_polls w)" "w_store w"] by (simp add: subscriptions_of_def)
  then have read: "store_op env (list_enabled (owner_user_id j) event) w = (Inr ?subs, ?w)"
    by (simp add: store_op_def interfere_def on_store_def list_enabled_def prog_defs)
  have "deliver_webhooks env j event w =
      forE ?subs (\<lambda>sub. deliver_attempts env (job_id j) event (webhook_url sub) [1, 2, 3]) ?w"
    unfolding deliver_webhooks_def by (simp only: bindE_def read prod.case sum.case)
  then show ?thesis by (simp only: deliver_all_run subscribed_urls_def Let_def) simp
qed

section \<open>Properties\<close>

text \<open>
  C22: Webhook delivery is its reference. Delivering an event of a job never raises. Every enabled
  subscription of the owner to that event is tried in order, at most three times, until the first answer;
  each attempt is recorded as delivered, retrying (with its back-off of 1 or 2 seconds) or, the third one,
  failed; the worker sleeps exactly those back-offs, and nothing else of the runtime changes but what other
  users' cancellation requests do before the subscriptions are read.
\<close>

theorem webhook_delivery_reference:
  "deliver_webhooks env j event w =
     (let urls = subscribed_urls (owner_user_id j) event (w_store w); n = length (w_deliveries w) in
      (Inr (), w\<lparr>w_store := cancels (interference env (w_polls w)) (w_store w), w_polls := Suc (w_polls w),
         w_deliveries := w_deliveries w @ delivery_log env (job_id j) event urls n,
         w_slept := w_slept w @ delivery_sleeps env urls n\<rparr>))"
  by (rule deliver_webhooks_run)

text \<open>
  C23: Outside the test environment a webhook is delivered to public targets only. Of every delivery
  recorded as successful, the URL had the scheme http or https and its host resolved, and to public
  addresses only: none private, loopback, link-local, multicast, reserved or unspecified.
\<close>

theorem delivered_webhooks_were_public:
  assumes "wk_environment (re_worker env) \<noteq> ''test''"
    and "deliver_webhooks env j event w = (r, t)"
    and "d \<in> set (drop (length (w_deliveries w)) (w_deliveries t))" and "dl_status d = Delivered"
  shows "url_scheme (urlparse env (dl_webhook_url d)) \<in> {''http'', ''https''} \<and>
    (\<exists>host port addresses. url_hostname (urlparse env (dl_webhook_url d)) = Some host \<and>
       getaddrinfo env host port = Some addresses \<and> addresses \<noteq> [] \<and> list_all (\<lambda>a. \<not> non_public a) addresses)"
proof -
  have answered: "\<exists>k. answered env (dl_webhook_url d) k" if "d \<in> set (delivery_log env jid event urls n)" for jid urls n
    using that assms(4)
    by (induction urls arbitrary: n) (auto simp: attempts_log_def attempt_entry_def split: if_splits)
  have "d \<in> set (delivery_log env (job_id j) event (subscribed_urls (owner_user_id j) event (w_store w)) (length (w_deliveries w)))"
    using assms(2,3) deliver_webhooks_run [of env j event w] by (auto simp: Let_def)
  from answered [OF this] obtain k where "send_webhook_request env (dl_webhook_url d) k = Inr ()"
    by (auto simp: answered_def)
  from send_webhook_safe [OF this assms(1)] show ?thesis by (simp only: list_all_iff)
qed

definition webhook_world :: world where
  "webhook_world = sample_world (sample_jobs\<lparr>webhook_subscriptions := [(''u1'', [\<lparr>sub_id = ''s1'', sub_owner_user_id = ''u1'',
     webhook_url = ''https://example.org/hook'', event_types = [''started''], enabled = True, sub_created_at = 0,
     sub_updated_at = 0\<rparr>])]\<rparr>)"

definition sample_attempt :: delivery where
  "sample_attempt = \<lparr>dl_job_id = ''j1'', dl_event_type = ''started'', dl_webhook_url = ''https://example.org/hook'',
     dl_attempt = 2, dl_status = Delivered, dl_backoff_seconds = None\<rparr>"

lemma sample_delivery_made:
  "\<exists>t. deliver_webhooks sample_runtime sample_job ''started'' webhook_world = (Inr (), t) \<and>
     sample_attempt \<in> set (drop 0 (w_deliveries t))"
proof -
  have owner: "owner_user_id sample_job = ''u1''" "job_id sample_job = ''j1''"
    by (simp_all add: sample_job_def sample_jobs_def create_job_def sample_job_request_def empty_job_store_def Let_def)
  have urls: "subscribed_urls ''u1'' ''started'' (w_store webhook_world) = [''https://example.org/hook'']"
    by (simp add: subscribed_urls_def webhook_world_def sample_world_def subscriptions_of_def)
  have empty: "w_deliveries webhook_world = []" by (simp add: webhook_world_def sample_world_def)
  have "answered sample_runtime ''https://example.org/hook'' n = (n \<noteq> 0)" for n
    by (simp add: answered_def send_webhook_request_def sample_runtime_def sample_worker_env_def
        assert_safe_webhook_target_def sample_url_def non_public_def public_ip_def)
  then show ?thesis
    by (simp add: deliver_webhooks_run owner urls empty attempts_log_def attempts_needed_def attempt_entry_def
        sample_attempt_def Let_def upt_rec)
qed

theorem delivered_webhooks_were_public_witness:
  "url_scheme (urlparse sample_runtime ''https://example.org/hook'') \<in> {''http'', ''https''} \<and>
   (\<exists>t. deliver_webhooks sample_runtime sample_job ''started'' webhook_world = (Inr (), t) \<and>
     sample_attempt \<in> set (w_deliveries t))"
proof -
  obtain t where t: "deliver_webhooks sample_runtime sample_job ''started'' webhook_world = (Inr (), t)"
    "sample_attempt \<in> set (drop 0 (w_deliveries t))" using sample_delivery_made by blast
  have "wk_environment (re_worker sample_runtime) \<noteq> ''test''"
    by (simp add: sample_runtime_def sample_worker_env_def)
  moreover have "sample_attempt \<in> set (drop (length (w_deliveries webhook_world)) (w_deliveries t))"
    using t(2) by (simp add: webhook_world_def sample_world_def)
  ultimately show ?thesis
    using delivered_webhooks_were_public [OF _ t(1), of sample_attempt] t by (simp add: sample_attempt_def)
qed

end
