(* ===== verification/Spec2Isabelle.thy ===== *)
theory Spec2Isabelle
  imports Api_Properties Auth_Policy Config Monitoring Runtime_Billing Supabase_Properties Vertex_Gemini Webhook_Delivery
begin

text \<open>
  This library models ChronosRefine, a service that restores historical video: clients upload a film, have its
  era detected, save a configuration, look at a preview, approve and launch it, and a worker cuts the film
  into segments, processes them, bills the run, packages the result and keeps it for as long as the plan says.
  The model is of the Python code under \<open>src/app\<close>, with its in-memory repositories
  (\<open>app/db/phase2_store.py\<close>) as the state of the services; their twins over REST are modelled on their own.

  \<^bold>\<open>How the code is written down.\<close>
  An operation is a value of the monad \<open>prog\<close> of \<open>Prelude\<close>: a function of the state that returns a result or an
  exception and the state it leaves, so that an exception keeps the writes made before it, as in Python.
  \<open>bindE\<close>, \<open>tryE\<close>, \<open>catchE\<close> and \<open>finallyE\<close> are sequencing, \<open>try/except\<close> and \<open>finally\<close>. The exceptions of
  the program are the datatype \<open>exn\<close>. A component's operations act on its own state record, and \<open>zoom\<close> runs
  them on a part of a larger one. Python dictionaries are association lists in insertion order, JSON documents
  are the datatype \<open>json\<close>, Python integers are \<open>int\<close>, finite floats are exact rationals, times are microseconds since
  1970-01-01 in UTC. A clock, a random id, a network answer and a hash are functions of the environment: the
  clock and the ids of the number of calls made so far, so that two readings may differ. \<open>NaN\<close> and the
  infinities are values of \<open>json\<close> and \<open>pyfloat\<close> where the program checks numbers from outside (prices of
  the price list and of an estimate, era profiles, overrides, confidences), with Python's comparisons; where it
  computes with other amounts the model stops at them (\<open>to_float\<close>). \<open>wp\<close> gives the weakest
  precondition of an operation; \<open>preserves\<close> and \<open>readonly\<close> are its invariants, with the rules in
  \<open>pres_intro\<close> and \<open>readonly_intro\<close>.

  \<^bold>\<open>Contracts\<close> (\<open>Interfaces\<close>). \<open>event_ledger\<close>: a key is granted to one holder unless a failure gives it back;
  provided by the Stripe events of \<open>Billing_Store\<close> and the launch claims of \<open>Preview_Store\<close>. \<open>keyed_store\<close>:
  what a table answers after an insert; provided by the tables of usage, jobs, segments, uploads, retention
  and log settings and previews. \<open>ranked_queue\<close>: messages leave by rank and in order within a rank; provided by
  \<open>Dispatch\<close>. The locales of \<open>Runtime_Resources\<close> say which slices of the worker's world an observation may
  depend on, and are interpreted on leases, queue and billing.

  \<^bold>\<open>Accounts and billing.\<close>
  \<open>Pricebook\<close> (\<open>billing/pricebook.py\<close>) parses and validates the price list; \<open>Config\<close> is the start-up check of
  \<open>config.py\<close>. \<open>Billing_Store\<close> holds usage, accounts, audit events, pricebook revisions and processed Stripe
  events. \<open>Billing\<close> (\<open>billing_service.py\<close>) computes the effective prices, the snapshot of a user's usage, the
  hard stop, and records estimates, consumption and approvals. \<open>Pricebook_Service\<close> and
  \<open>Billing_Management\<close> (\<open>commercial_pricebook_service.py\<close>, \<open>billing_management.py\<close>) activate price lists, show
  an organisation its billing and open Stripe's portal; \<open>Cost_Estimation\<close> (\<open>cost_estimation.py\<close>,
  \<open>billing/stripe_client.py\<close>) estimates a launch and reconciles it with the run; \<open>Stripe_Webhooks\<close>
  (\<open>stripe_webhook_service.py\<close>) applies Stripe's events once each. Shown: a parsed price list is well-formed,
  but for a rate of \<open>NaN\<close>, and an activated one prices every tier; minutes are consumed exactly; a launch that is not stopped stays
  within its allowance; replayed events change nothing.

  \<^bold>\<open>From upload to configuration.\<close>
  \<open>Upload_Store\<close> and \<open>Upload_Service\<close> (\<open>upload_service.py\<close>): resumable uploads and the storage client, shown to
  refine an abstract machine of open and completed uploads (\<open>upload_spec\<close>), if new identifiers are unused. \<open>Classification\<close>
  (\<open>data_classification.py\<close>, \<open>manifest_retention.py\<close>): labels and retention policies. \<open>Era_Validation\<close>,
  \<open>Era_Classifier\<close>, \<open>Era_Detection\<close> (\<open>schema_validation.py\<close>, \<open>era_classifier.py\<close>,
  \<open>era_detection_service.py\<close>): an analysis is certain, asks for a review among three candidates, or repeats the user's override.
  \<open>Vertex_Gemini\<close> (\<open>vertex_gemini.py\<close>) asks the hosted model, whose answers are a parameter: what it
  accepts has a listed era and a confidence in the unit interval.
  \<open>Fidelity\<close> (\<open>fidelity_profiles.py\<close>): resolved settings stay within their tier, but for a limit of \<open>NaN\<close>. \<open>Fingerprint\<close>,
  \<open>Configuration\<close> and \<open>Configuration_Properties\<close> (\<open>configuration_fingerprint.py\<close>,
  \<open>configuration_service.py\<close>): a saved configuration can be launched, and an unconfirmed override never is.

  \<^bold>\<open>Jobs and previews.\<close>
  \<open>Job_Pipeline\<close> (\<open>job_pipeline.py\<close>) cuts a video into segments that tile it. \<open>Job_Store\<close> holds jobs, segments,
  subscriptions and manifests. \<open>Dispatch\<close> (\<open>job_dispatcher.py\<close>, the worker boundary of \<open>job_worker.py\<close>) is the
  queue. \<open>Job_Service\<close> with \<open>Job_Service_Properties\<close> (\<open>job_service.py\<close>) estimates, creates, reads and cancels
  jobs; a created job satisfies the invariant the worker starts from. \<open>Signing\<close>, \<open>Preview_Selection\<close>,
  \<open>Preview_Store\<close>, \<open>Preview_Service\<close> and \<open>Preview_Properties\<close> (\<open>preview_generation.py\<close>) make, review and launch
  previews; other requests may claim, launch or release the preview just before a claim (\<open>rival_step\<close>). Shown:
  what a launch needs, that a claim is granted once, and that an interrupted launch can be completed.

  \<^bold>\<open>The worker.\<close>
  \<open>Quality\<close> (\<open>quality_metrics.py\<close>, \<open>reproducibility.py\<close>) and \<open>Callouts\<close> (\<open>uncertainty_callouts.py\<close>) judge
  the output; \<open>Runtime_Ops\<close> and \<open>Slo_Incidents\<close> (\<open>runtime_ops.py\<close>) keep the GPU pool, the segment cache, the
  service level and the incidents; \<open>Cost_Ops\<close> (\<open>cost_ops.py\<close>) watches margins. \<open>Runtime_World\<close>,
  \<open>Segment_Processing\<close> and \<open>Job_Runtime\<close> (\<open>job_runtime.py\<close>) process a job: \<open>process_job\<close> with its attempts and
  back-off, cancellation between any two operations of the worker (\<open>interfere\<close>), webhooks, billing and the queue
  loop. \<open>Output_Delivery\<close> and \<open>Manifest\<close> (\<open>output_delivery.py\<close>, \<open>transformation_manifest.py\<close>) package,
  prove, sign, expire, redact and delete what a run leaves, and are the ones the worker runs. \<open>Runtime_Invariant\<close>,
  \<open>Runtime_Resources\<close>, \<open>Runtime_Billing\<close>, \<open>Runtime_Properties\<close> and \<open>Webhook_Delivery\<close> show that every step
  keeps the invariant of the job (\<open>runtime_inv\<close>), that its GPU is released, that it is billed once or not at
  all, that the loop over the queue ends, and that deliveries follow a pure reference.

  \<^bold>\<open>The HTTP routes.\<close>
  \<open>Access_Control\<close> (\<open>auth/rbac.py\<close>, \<open>rate_limits.py\<close>) holds the role matrix and the sliding window; \<open>Security\<close>
  (\<open>security_service.py\<close>) the log settings. \<open>Auth_Policy\<close>
  (\<open>auth/supabase_auth.py\<close>) says when a second factor is required, \<open>Monitoring\<close> models the counters
  of \<open>observability/monitoring.py\<close> and the text they are shown in. \<open>Api_World\<close> puts the states together and models
  \<open>api/dependencies.py\<close>; \<open>Api_Routes\<close> models the handlers of \<open>app/api\<close> and the application that dispatches
  to them (\<open>serve\<close>). \<open>Api_Frames\<close> and \<open>Api_Properties\<close> show what holds of every
  request: it passes its gate or changes nothing of the services, nobody is promoted, and a user leaves the uploads
  and the usage of the others alone. For that the configuration service is taken under the contract
  \<open>config_invariant\<close>, interpreted on the uploads and on the profiles.

  \<^bold>\<open>The database behind REST.\<close>
  \<open>Http_Json\<close> has what the clients of other services do with an answer. \<open>Supabase_Rest\<close> (\<open>db/client.py\<close>) models the
  requests, \<open>Supabase_Repositories\<close> and \<open>Supabase_Jobs\<close> the repositories of \<open>phase2_store.py\<close> where they send
  the caller's token: the requests, the reading of rows and the compensation of failures. The database is a
  parameter, and the requests sent are kept in order. \<open>Supabase_Properties\<close> shows that requests carry the caller's
  token and, on uploads, usage and previews, name the caller; that a job whose segments cannot be stored is withdrawn;
  and, under a law of what a \<open>PATCH\<close> does to the rows it selects (\<open>patch_law\<close>, followed by a concrete table), that
  a launch is claimed once and which columns an update erases.

  \<^bold>\<open>Fuel and bounds.\<close>
  Only the loop over the job queue has fuel: \<open>drain_job_queue\<close> handles as many messages as there are,
  and one unit more than the number of queued messages is shown to be enough. Every other recursion is over a
  list or a number that decreases. Concrete examples beside the properties show their hypotheses can hold.

  \<^bold>\<open>Not modelled.\<close>
  The branches of the repositories of \<open>phase2_store.py\<close> that run SQL: their statements run in a database
  whose tables, policies and transactions are not part of this code, and the calls of \<open>db/client.py\<close> that hand over
  to the SDK or to psycopg. The log formatting. The
  validation of requests and responses against the pydantic models of \<open>api/contracts.py\<close>: the routes take
  requests that passed it. Routes that return constants (eras, version, the plain health check), the route of the metrics (its text
  is in \<open>Monitoring\<close>) and the helpers for tests. The catalogue listings of
  \<open>fidelity_profiles.py\<close>. The scripts under \<open>scripts\<close> and \<open>.agents\<close>, which run
  git, the GitHub client and HTTP requests around the repository. The texts of messages are kept only where
  the code tests or stores them.
\<close>

end
